(* ===== verification/Prelude.thy ===== *)
theory Prelude
  imports Main "HOL-Library.Monad_Syntax" "HOL-Library.List_Lexorder" "HOL-Library.Multiset"
begin

text \<open>
  Shared ground of the development: the result type of the code's boundaries, the option
  monad that stands for code with a single kind of exception, and the generic facts on
  lists and options that the component theories use.

  Two conventions hold everywhere. A TypeScript function that can throw only one kind of
  error is a function into \<open>option\<close>, with \<open>None\<close> for the throw; a function whose callers
  tell errors apart is a function into a sum, with \<open>Inl\<close> of an error datatype.
\<close>

named_theorems accept_simps \<open>when a validator accepts, and what it returns\<close>
named_theorems embed_simps \<open>how a parsed value looks as a JavaScript value\<close>
named_theorems table_simps \<open>evaluation of the string tables of enumerations\<close>

section \<open>Results\<close>

definition ok_or :: "'e \<Rightarrow> 'a option \<Rightarrow> 'e + 'a" where
  "ok_or e r = (case r of None \<Rightarrow> Inl e | Some x \<Rightarrow> Inr x)"

definition res_bind :: "'e + 'a \<Rightarrow> ('a \<Rightarrow> 'e + 'b) \<Rightarrow> 'e + 'b" where
  "res_bind r f = (case r of Inl e \<Rightarrow> Inl e | Inr x \<Rightarrow> f x)"

definition require :: "bool \<Rightarrow> unit option" where
  "require b = (if b then Some () else None)"

lemma ok_or_Inr_iff [simp]: "ok_or e r = Inr x \<longleftrightarrow> r = Some x"
  by (simp add: ok_or_def split: option.splits)

lemma ok_or_Inl_iff [simp]: "ok_or e r = Inl d \<longleftrightarrow> r = None \<and> d = e"
  by (auto simp: ok_or_def split: option.splits)

lemma ok_or_simps [simp]: "ok_or e (Some x) = Inr x" "ok_or e None = Inl e"
  by (simp_all add: ok_or_def)

lemma res_bind_simps [simp]: "res_bind (Inl e) f = Inl e" "res_bind (Inr x) f = f x"
  by (simp_all add: res_bind_def)

lemma res_bind_Inr_iff: "res_bind r f = Inr y \<longleftrightarrow> (\<exists>x. r = Inr x \<and> f x = Inr y)"
  by (cases r) simp_all

lemma require_Some_iff [simp]: "require b = Some u \<longleftrightarrow> b"
  by (simp add: require_def)

lemma require_simps [simp]: "require True = Some ()" "require False = None"
  by (simp_all add: require_def)

lemma require_None_iff [simp]: "require b = None \<longleftrightarrow> \<not> b"
  by (simp add: require_def)

section \<open>Options and lists of options\<close>

lemmas bind_Some_iff = Option.bind_eq_Some_conv

lemma bind_require_Some_iff [simp]: "Option.bind (require b) f = Some x \<longleftrightarrow> b \<and> f () = Some x"
  by (simp add: require_def)

lemma those_Some_iff:
  "those (map f xs) = Some ys \<longleftrightarrow> list_all2 (\<lambda>x y. f x = Some y) xs ys"
proof (induction xs arbitrary: ys)
  case Nil
  then show ?case by auto
next
  case (Cons x xs)
  then show ?case
    by (cases ys) (auto simp: split: option.splits)
qed

lemma those_map_Some [simp]: "(\<And>x. x \<in> set xs \<Longrightarrow> f x = Some (g x)) \<Longrightarrow> those (map f xs) = Some (map g xs)"
  by (induction xs) auto

lemma those_length: "those (map f xs) = Some ys \<Longrightarrow> length ys = length xs"
  by (auto simp: those_Some_iff dest: list_all2_lengthD)

lemma those_set: "those (map f xs) = Some ys \<Longrightarrow> y \<in> set ys \<Longrightarrow> \<exists>x\<in>set xs. f x = Some y"
proof (induction xs arbitrary: ys)
  case (Cons x xs)
  then show ?case by (auto split: option.splits)
qed simp

section \<open>Sorting by a key\<close>

lemma singleton_list: "set zs = {a} \<Longrightarrow> distinct zs \<Longrightarrow> zs = [a]"
  by (cases zs) (auto simp: insert_eq_iff subset_singleton_iff)

lemma sort_key_perm_unique:
  fixes k :: "'a \<Rightarrow> 'b::linorder"
  assumes "mset xs = mset ys" and "distinct (map k xs)"
  shows "sort_key k xs = sort_key k ys"
proof (rule properties_for_sort_key)
  show "mset (sort_key k ys) = mset xs" using assms(1) by simp
next
  fix a assume "a \<in> set (sort_key k ys)"
  have inj: "inj_on k (set xs)" using assms(2) by (simp add: distinct_map)
  have dist: "distinct xs" "distinct ys"
    using assms by (auto simp: distinct_map dest: mset_eq_imp_distinct_iff)
  have sets: "set ys = set xs" using assms(1) by (metis set_mset_mset)
  then have "a \<in> set xs" using \<open>a \<in> set (sort_key k ys)\<close> by simp
  have filt: "filter (\<lambda>b. k a = k b) zs = [a]" if "distinct zs" "set zs = set xs" for zs
  proof -
    have "set (filter (\<lambda>b. k a = k b) zs) = {a}"
      using \<open>a \<in> set xs\<close> that(2) inj by (auto simp: inj_on_def)
    moreover have "distinct (filter (\<lambda>b. k a = k b) zs)" using that(1) by simp
    ultimately show ?thesis by (rule singleton_list)
  qed
  show "filter (\<lambda>b. k a = k b) (sort_key k ys) = filter (\<lambda>b. k a = k b) xs"
    using filt dist sets by (simp add: filter_sort)
next
  show "sorted (map k (sort_key k ys))" by simp
qed

lemma sorted_distinct_strict:
  fixes xs :: "'a::linorder list"
  shows "sorted_wrt (<) xs \<longleftrightarrow> sorted xs \<and> distinct xs"
  by (rule strict_sorted_iff)

end
