(* ===== verification/Js_Strings.thy ===== *)
theory Js_Strings
  imports Prelude
begin

text \<open>
  JavaScript strings. A string is the list of its UTF-16 code units, kept as natural
  numbers; \<open>js\<close> turns an ASCII literal into one. \<open>array_from\<close> is \<open>Array.from(s)\<close> (one element
  per scalar, lone surrogates on their own), \<open>trim\<close> is \<open>String.prototype.trim\<close>, and the order
  of lists is the code-unit order of JavaScript's \<open><\<close> on strings. \<open>utf8\<close> is
  \<open>Buffer.from(s, "utf8")\<close> and \<open>utf8_decode\<close> the strict decoder of \<open>TextDecoder\<close>. The lemmas
  show that scalars concatenate back to the string, that a list of scalars is recovered from
  its concatenation, and that the decoder inverts the encoder.
\<close>

section \<open>Code units and literals\<close>

type_synonym jstr = "nat list"

definition js :: "string \<Rightarrow> jstr" where
  "js s = map of_char s"

lemma js_eq_iff [simp]: "js s = js t \<longleftrightarrow> s = t"
proof -
  have "inj (of_char :: char \<Rightarrow> nat)" by (simp add: inj_on_def)
  then show ?thesis by (simp add: js_def inj_map_eq_map)
qed

lemma js_Nil_iff [simp]: "js s = [] \<longleftrightarrow> s = []" "[] = js s \<longleftrightarrow> s = []"
  by (auto simp: js_def)

lemma length_js [simp]: "length (js s) = length s"
  by (simp add: js_def)

lemma inj_js: "inj js"
  by (simp add: inj_on_def)

definition is_high :: "nat \<Rightarrow> bool" where
  "is_high u \<longleftrightarrow> 0xD800 \<le> u \<and> u \<le> 0xDBFF"

definition is_low :: "nat \<Rightarrow> bool" where
  "is_low u \<longleftrightarrow> 0xDC00 \<le> u \<and> u \<le> 0xDFFF"

lemma high_not_low [simp]: "is_high u \<Longrightarrow> \<not> is_low u" "is_low u \<Longrightarrow> \<not> is_high u"
  by (simp_all add: is_high_def is_low_def)

section \<open>Scalars\<close>

fun array_from :: "jstr \<Rightarrow> jstr list" where
  "array_from [] = []"
| "array_from [u] = [[u]]"
| "array_from (u # v # r) =
     (if is_high u \<and> is_low v then [u, v] # array_from r else [u] # array_from (v # r))"

fun is_scalar :: "jstr \<Rightarrow> bool" where
  "is_scalar [u] \<longleftrightarrow> \<not> is_high u \<and> \<not> is_low u"
| "is_scalar [u, v] \<longleftrightarrow> is_high u \<and> is_low v"
| "is_scalar _ \<longleftrightarrow> False"

definition scalar_slice :: "jstr list \<Rightarrow> nat \<Rightarrow> nat \<Rightarrow> jstr list" where
  "scalar_slice cs i j = take (j - i) (drop i cs)"

fun code_point :: "jstr \<Rightarrow> nat" where
  "code_point (u # v # r) =
     (if is_high u \<and> is_low v then 0x10000 + (u - 0xD800) * 0x400 + (v - 0xDC00) else u)"
| "code_point [u] = u"
| "code_point [] = 0"

lemma is_scalar_not_Nil [simp]: "is_scalar c \<Longrightarrow> c \<noteq> []"
  by (cases c) auto

lemma concat_array_from [simp]: "concat (array_from s) = s"
  by (induction s rule: array_from.induct) auto

lemma array_from_Nil_iff [simp]: "array_from s = [] \<longleftrightarrow> s = []"
  by (cases s rule: array_from.cases) auto

lemma array_from_scalar_append:
  "is_scalar c \<Longrightarrow> array_from (c @ s) = c # array_from s"
proof (induction c rule: is_scalar.induct)
  case (1 u)
  then show ?case by (cases s) auto
qed auto

lemma array_from_concat: "list_all is_scalar cs \<Longrightarrow> array_from (concat cs) = cs"
  by (induction cs) (auto simp: array_from_scalar_append)

lemma array_from_inject [simp]: "array_from s = array_from t \<longleftrightarrow> s = t"
  by (metis concat_array_from)

lemma array_from_append:
  "list_all is_scalar (array_from s) \<Longrightarrow> array_from (s @ t) = array_from s @ array_from t"
proof -
  assume "list_all is_scalar (array_from s)"
  moreover have "list_all is_scalar cs \<Longrightarrow> array_from (concat cs @ t) = cs @ array_from t" for cs
    by (induction cs) (auto simp: array_from_scalar_append)
  ultimately show ?thesis using concat_array_from by metis
qed

lemma length_array_from_le: "length (array_from s) \<le> length s"
  by (induction s rule: array_from.induct) auto

lemma length_scalar_slice [simp]:
  "i \<le> j \<Longrightarrow> j \<le> length cs \<Longrightarrow> length (scalar_slice cs i j) = j - i"
  by (simp add: scalar_slice_def)

lemma scalar_slice_all: "scalar_slice cs 0 (length cs) = cs"
  by (simp add: scalar_slice_def)

lemma scalar_slice_append:
  assumes "i \<le> j" "j \<le> k"
  shows "scalar_slice cs i j @ scalar_slice cs j k = scalar_slice cs i k"
proof -
  have "drop j cs = drop (j - i) (drop i cs)" using assms by simp
  moreover have "k - i = (j - i) + (k - j)" using assms by simp
  ultimately show ?thesis unfolding scalar_slice_def by (metis take_add)
qed

lemma list_all_scalar_slice: "list_all P cs \<Longrightarrow> list_all P (scalar_slice cs i j)"
  by (auto simp: scalar_slice_def list_all_iff dest: in_set_takeD in_set_dropD)

section \<open>White space, trimming and case\<close>

definition is_whitespace :: "nat \<Rightarrow> bool" where
  "is_whitespace u \<longleftrightarrow> (9 \<le> u \<and> u \<le> 13) \<or> u = 0x20 \<or> u = 0xA0 \<or> u = 0x1680 \<or>
     (0x2000 \<le> u \<and> u \<le> 0x200A) \<or> u = 0x2028 \<or> u = 0x2029 \<or> u = 0x202F \<or> u = 0x205F \<or>
     u = 0x3000 \<or> u = 0xFEFF"

definition trim_end :: "jstr \<Rightarrow> jstr" where
  "trim_end s = rev (dropWhile is_whitespace (rev s))"

definition trim :: "jstr \<Rightarrow> jstr" where
  "trim s = trim_end (dropWhile is_whitespace s)"

definition lower_ascii_unit :: "nat \<Rightarrow> nat" where
  "lower_ascii_unit u = (if 65 \<le> u \<and> u \<le> 90 then u + 32 else u)"

definition lower_ascii :: "jstr \<Rightarrow> jstr" where
  "lower_ascii s = map lower_ascii_unit s"

lemma lower_ascii_idem [simp]: "lower_ascii (lower_ascii s) = lower_ascii s"
  by (simp add: lower_ascii_def lower_ascii_unit_def)

lemma trim_fixed_iff:
  "trim s = s \<longleftrightarrow> s = [] \<or> (\<not> is_whitespace (hd s) \<and> \<not> is_whitespace (last s))"
proof (cases s)
  case (Cons u r)
  show ?thesis
  proof (cases "is_whitespace u")
    case True
    have "length (trim s) \<le> length (dropWhile is_whitespace s)"
      by (simp add: trim_def trim_end_def length_dropWhile_le[of _ "rev _", simplified])
    also have "\<dots> < length s"
      using True Cons length_dropWhile_le[of is_whitespace r] by simp
    finally have "trim s \<noteq> s" by auto
    then show ?thesis using True Cons by simp
  next
    case False
    then have t: "trim s = rev (dropWhile is_whitespace (rev s))"
      using Cons by (simp add: trim_def trim_end_def)
    obtain w q where q: "rev s = w # q" using Cons by (cases "rev s") auto
    then have l: "last s = w" by (metis hd_rev list.sel(1))
    have "rev (dropWhile is_whitespace (rev s)) = s \<longleftrightarrow> \<not> is_whitespace w"
    proof (cases "is_whitespace w")
      case True
      have "length (dropWhile is_whitespace (rev s)) < length (rev s)"
        using True q length_dropWhile_le[of is_whitespace q] by simp
      then have "rev (dropWhile is_whitespace (rev s)) \<noteq> s" by (metis length_rev less_irrefl)
      then show ?thesis using True by simp
    qed (use q in \<open>simp add: rev_swap\<close>)
    then show ?thesis using t l False Cons by simp
  qed
qed (simp add: trim_def trim_end_def)

lemma hd_dropWhile_not: "dropWhile p s \<noteq> [] \<Longrightarrow> \<not> p (hd (dropWhile p s))"
  by (rule hd_dropWhile)

lemma trim_idem [simp]: "trim (trim s) = trim s"
proof -
  let ?d = "dropWhile is_whitespace s"
  show ?thesis
  proof (cases "trim s = []")
    case False
    then have ne: "dropWhile is_whitespace (rev ?d) \<noteq> []"
      by (simp add: trim_def trim_end_def)
    have "\<not> is_whitespace (last (trim s))"
      using hd_dropWhile[OF ne] ne by (simp add: trim_def trim_end_def last_rev)
    moreover have "\<not> is_whitespace (hd (trim s))"
    proof -
      obtain w where w: "rev ?d = w @ dropWhile is_whitespace (rev ?d)"
        by (metis takeWhile_dropWhile_id)
      then have d: "?d = trim s @ rev w"
        by (metis rev_append rev_rev_ident trim_def trim_end_def)
      then have "hd ?d = hd (trim s)" using False by (metis hd_append2)
      moreover have "?d \<noteq> []" using d False by auto
      ultimately show ?thesis using hd_dropWhile[of is_whitespace s] by metis
    qed
    ultimately show ?thesis by (simp add: trim_fixed_iff)
  next
    case True
    then show ?thesis by (simp only: True) (simp add: trim_def trim_end_def)
  qed
qed

end
