(* ===== verification/Js_Values.thy ===== *)
theory Js_Values
  imports Js_Strings
begin

text \<open>
  JavaScript values as the validators meet them. Numbers keep the cases that the checks can
  tell apart: integers, the negative zero, finite fractions, the infinities and NaN. A plain
  object is the list of its own enumerable data properties, whose keys are strings or
  symbols; \<open>JOther\<close> stands for functions, dates, instances of classes and every other object
  whose prototype is neither \<open>Object.prototype\<close> nor null. Reading a missing property gives
  \<open>JUndef\<close>. Getters and proxies are not modelled.
\<close>

datatype jsnum = IntNum int | NegZero | Frac jstr | PosInf | NegInf | NaN

datatype jkey = KStr jstr | KSym nat

datatype jsval =
    JUndef
  | JNull
  | JBool bool
  | JNum jsnum
  | JStr jstr
  | JArr "jsval list"
  | JObj "(jkey \<times> jsval) list"
  | JOther nat

type_synonym jsfields = "(jkey \<times> jsval) list"

section \<open>Numbers\<close>

definition max_safe_integer :: int where
  "max_safe_integer = 9007199254740991"

fun safe_int :: "jsnum \<Rightarrow> int option" where
  "safe_int (IntNum i) = (if - max_safe_integer \<le> i \<and> i \<le> max_safe_integer then Some i else None)"
| "safe_int NegZero = Some 0"
| "safe_int _ = None"

fun safe_integer :: "jsval \<Rightarrow> int option" where
  "safe_integer (JNum n) = safe_int n"
| "safe_integer _ = None"

lemma safe_int_IntNum [simp]:
  "safe_int (IntNum (int n)) = (if int n \<le> max_safe_integer then Some (int n) else None)"
  by (simp add: max_safe_integer_def)

lemma safe_int_Some_cases:
  assumes "safe_int n = Some i"
  shows "n = IntNum i \<and> \<bar>i\<bar> \<le> max_safe_integer \<or> n = NegZero \<and> i = 0"
  using assms by (cases n) (auto split: if_splits)

lemma safe_int_pos: "safe_int n = Some i \<Longrightarrow> 0 < i \<Longrightarrow> n = IntNum i"
  by (drule safe_int_Some_cases) auto

lemma safe_integer_Some_iff [accept_simps]:
  "safe_integer v = Some i \<longleftrightarrow> (\<exists>n. v = JNum n \<and> safe_int n = Some i)"
  by (cases v) auto

section \<open>Objects\<close>

definition get_prop :: "jsfields \<Rightarrow> jstr \<Rightarrow> jsval" where
  "get_prop fs k = (case map_of fs (KStr k) of None \<Rightarrow> JUndef | Some v \<Rightarrow> v)"

definition has_own :: "jsfields \<Rightarrow> jstr \<Rightarrow> bool" where
  "has_own fs k \<longleftrightarrow> KStr k \<in> fst ` set fs"

fun is_string_key :: "jkey \<Rightarrow> bool" where
  "is_string_key (KStr _) \<longleftrightarrow> True"
| "is_string_key (KSym _) \<longleftrightarrow> False"

fun key_string :: "jkey \<Rightarrow> jstr" where
  "key_string (KStr s) = s"
| "key_string (KSym _) = []"

definition string_keys :: "jsfields \<Rightarrow> jstr list" where
  "string_keys fs = map key_string (filter is_string_key (map fst fs))"

definition obj :: "(string \<times> jsval) list \<Rightarrow> jsval" where
  "obj kvs = JObj (map (\<lambda>(k, v). (KStr (js k), v)) kvs)"

lemma map_of_embed:
  "map_of (map (\<lambda>(k, v). (KStr (js k), v)) kvs) (KStr (js k)) = map_of kvs k"
  by (induction kvs) auto

lemma get_prop_Nil [simp]: "get_prop [] k = JUndef"
  by (simp add: get_prop_def)

lemma get_prop_Cons [simp]: "get_prop ((KStr k', v) # fs) k = (if k = k' then v else get_prop fs k)"
  by (simp add: get_prop_def)

lemma get_prop_Cons_sym [simp]: "get_prop ((KSym n, v) # fs) k = get_prop fs k"
  by (simp add: get_prop_def)

lemma has_own_Nil [simp]: "\<not> has_own [] k"
  by (simp add: has_own_def)

lemma has_own_Cons [simp]: "has_own ((KStr k', v) # fs) k \<longleftrightarrow> k = k' \<or> has_own fs k"
  by (auto simp: has_own_def)

lemma has_own_Cons_sym [simp]: "has_own ((KSym n, v) # fs) k \<longleftrightarrow> has_own fs k"
  by (auto simp: has_own_def)

lemma has_own_get_prop: "\<not> has_own fs k \<Longrightarrow> get_prop fs k = JUndef"
  by (auto simp: has_own_def get_prop_def map_of_eq_None_iff[symmetric] split: option.splits)

lemma set_string_keys: "set (string_keys fs) = {k. KStr k \<in> fst ` set fs}"
proof -
  have "k \<in> set (string_keys fs) \<longleftrightarrow> KStr k \<in> fst ` set fs" for k
    by (induction fs rule: list.induct)
       (auto simp: string_keys_def elim: is_string_key.elims split: prod.splits)
  then show ?thesis by auto
qed

lemma mem_string_keys: "k \<in> set (string_keys fs) \<longleftrightarrow> has_own fs k"
  by (simp add: set_string_keys has_own_def)

end
