(* ===== verification/Trust_Primitives.thy ===== *)
theory Trust_Primitives
  imports Js_Values
begin

text \<open>
  \<open>packages/core-types/src/trust-primitives.ts\<close>: access classes and their order, Unicode
  scalar strings, the stored normal form of a source text and slices of a text by scalar
  offsets. \<open>nfc\<close> is \<open>String.prototype.normalize("NFC")\<close>, a parameter wherever it is used.
\<close>

section \<open>Access classes\<close>

datatype access_class = Public | Workspace | Restricted | Confidential

fun access_rank :: "access_class \<Rightarrow> nat" where
  "access_rank Public = 0"
| "access_rank Workspace = 1"
| "access_rank Restricted = 2"
| "access_rank Confidential = 3"

definition access_classes :: "access_class list" where
  "access_classes = [Public, Workspace, Restricted, Confidential]"

fun access_string :: "access_class \<Rightarrow> jstr" where
  "access_string Public = js ''public''"
| "access_string Workspace = js ''workspace''"
| "access_string Restricted = js ''restricted''"
| "access_string Confidential = js ''confidential''"

definition assertAccessClass :: "jstr \<Rightarrow> access_class option" where
  "assertAccessClass v = List.find (\<lambda>c. access_string c = v) access_classes"

definition maxAccessClass :: "jstr list \<Rightarrow> access_class option" where
  "maxAccessClass vs = do {
     require (vs \<noteq> []);
     cs \<leftarrow> those (map assertAccessClass vs);
     Some (foldl (\<lambda>m c. if access_rank c > access_rank m then c else m) (hd cs) (tl cs)) }"

definition canReadAccessClass :: "jstr \<Rightarrow> jstr \<Rightarrow> bool option" where
  "canReadAccessClass ceiling resource = do {
     c \<leftarrow> assertAccessClass ceiling;
     r \<leftarrow> assertAccessClass resource;
     Some (access_rank r \<le> access_rank c) }"

instantiation access_class :: linorder
begin

definition less_eq_access_class :: "access_class \<Rightarrow> access_class \<Rightarrow> bool" where
  "less_eq_access_class a b \<longleftrightarrow> access_rank a \<le> access_rank b"

definition less_access_class :: "access_class \<Rightarrow> access_class \<Rightarrow> bool" where
  "less_access_class a b \<longleftrightarrow> access_rank a < access_rank b"

instance
proof
  fix a b :: access_class
  show "a \<le> b \<Longrightarrow> b \<le> a \<Longrightarrow> a = b"
    by (cases a; cases b) (simp_all add: less_eq_access_class_def)
qed (auto simp: less_eq_access_class_def less_access_class_def)

end

lemma access_string_inj [simp]: "access_string a = access_string b \<longleftrightarrow> a = b"
  by (cases a; cases b) simp_all

lemma assertAccessClass_string [simp]: "assertAccessClass (access_string c) = Some c"
  by (cases c) (simp_all add: assertAccessClass_def access_classes_def)

lemma assertAccessClass_Some_iff [accept_simps]:
  "assertAccessClass v = Some c \<longleftrightarrow> v = access_string c"
proof
  assume "assertAccessClass v = Some c"
  then show "v = access_string c"
    by (auto simp: assertAccessClass_def find_Some_iff)
qed simp

lemma access_rank_inj [simp]: "access_rank a = access_rank b \<longleftrightarrow> a = b"
  by (cases a; cases b) simp_all

lemma foldl_max_access:
  "foldl (\<lambda>m c. if access_rank c > access_rank m then c else m) a cs = foldl max a cs"
proof -
  have "(\<lambda>m c. if access_rank c > access_rank m then c else m) = (max :: access_class \<Rightarrow> _)"
    by (intro ext) (auto simp: max_def less_eq_access_class_def)
  then show ?thesis by simp
qed

lemma foldl_max_Max:
  fixes a :: "'a::linorder"
  shows "foldl max a cs = Max (set (a # cs))"
proof (induction cs arbitrary: a)
  case (Cons c cs)
  have "foldl max a (c # cs) = Max (set (max a c # cs))" using Cons[of "max a c"] by simp
  also have "\<dots> = Max (set (a # c # cs))"
    by (cases "cs = []") (simp_all add: max.assoc)
  finally show ?case .
qed simp

lemma maxAccessClass_Max:
  "cs \<noteq> [] \<Longrightarrow> maxAccessClass (map access_string cs) = Some (Max (set cs))"
  by (cases cs) (simp_all add: maxAccessClass_def foldl_max_access foldl_max_Max o_def)

lemma maxAccessClass_Some_iff:
  "maxAccessClass vs = Some m \<longleftrightarrow>
     (\<exists>cs. cs \<noteq> [] \<and> vs = map access_string cs \<and> m = Max (set cs))"
proof
  assume *: "maxAccessClass vs = Some m"
  then obtain cs where cs: "those (map assertAccessClass vs) = Some cs" and "vs \<noteq> []"
    by (auto simp: maxAccessClass_def bind_Some_iff)
  then have "vs = map access_string cs" and "cs \<noteq> []"
    by (auto simp: those_Some_iff list_all2_conv_all_nth assertAccessClass_Some_iff
        intro!: nth_equalityI)
  then show "\<exists>cs. cs \<noteq> [] \<and> vs = map access_string cs \<and> m = Max (set cs)"
    using * maxAccessClass_Max by auto
qed (auto simp: maxAccessClass_Max)

section \<open>Unicode scalar strings\<close>

fun isUnicodeScalarString :: "jstr \<Rightarrow> bool" where
  "isUnicodeScalarString [] \<longleftrightarrow> True"
| "isUnicodeScalarString [u] \<longleftrightarrow> \<not> is_high u \<and> \<not> is_low u"
| "isUnicodeScalarString (u # v # r) \<longleftrightarrow>
     (if is_high u then is_low v \<and> isUnicodeScalarString r
      else \<not> is_low u \<and> isUnicodeScalarString (v # r))"

definition unicodeScalarLength :: "jstr \<Rightarrow> nat option" where
  "unicodeScalarLength s =
     (if isUnicodeScalarString s then Some (length (array_from s)) else None)"

fun replace_newlines :: "jstr \<Rightarrow> jstr" where
  "replace_newlines [] = []"
| "replace_newlines [u] = (if u = 13 then [10] else [u])"
| "replace_newlines (u # v # r) =
     (if u = 13 then (if v = 10 then 10 # replace_newlines r else 10 # replace_newlines (v # r))
      else u # replace_newlines (v # r))"

definition strip_bom :: "jstr \<Rightarrow> jstr" where
  "strip_bom s = (case s of u # r \<Rightarrow> (if u = 0xFEFF then r else s) | [] \<Rightarrow> [])"

definition normalizeStoredSourceText :: "(jstr \<Rightarrow> jstr) \<Rightarrow> jstr \<Rightarrow> jstr option" where
  "normalizeStoredSourceText nfc input = do {
     require (isUnicodeScalarString input \<and> 0 \<notin> set input);
     let normalized = nfc (replace_newlines (strip_bom input));
     require (trim normalized \<noteq> []);
     Some normalized }"

definition sliceUnicodeScalarSpan :: "jstr \<Rightarrow> jsnum \<Rightarrow> jsnum \<Rightarrow> jstr option" where
  "sliceUnicodeScalarSpan text startOffset endOffset = do {
     require (isUnicodeScalarString text);
     let scalars = array_from text;
     i \<leftarrow> safe_int startOffset;
     j \<leftarrow> safe_int endOffset;
     require (\<not> (i < 0 \<or> j \<le> i \<or> j > int (length scalars)));
     Some (concat (scalar_slice scalars (nat i) (nat j))) }"

lemma isUnicodeScalarString_iff:
  "isUnicodeScalarString s \<longleftrightarrow> list_all is_scalar (array_from s)"
proof (induction s rule: isUnicodeScalarString.induct)
  case (3 u v r)
  then show ?case by (cases "is_high u"; cases "is_low v") auto
qed auto

lemma isUnicodeScalarString_concat:
  "list_all is_scalar cs \<Longrightarrow> isUnicodeScalarString (concat cs)"
  by (simp add: isUnicodeScalarString_iff array_from_concat)

lemma sliceUnicodeScalarSpan_nat:
  assumes "isUnicodeScalarString t" "i < j" "j \<le> length (array_from t)"
    and "int j \<le> max_safe_integer"
  shows "sliceUnicodeScalarSpan t (IntNum (int i)) (IntNum (int j)) =
         Some (concat (scalar_slice (array_from t) i j))"
  using assms by (simp add: sliceUnicodeScalarSpan_def)

lemma array_from_slice:
  assumes "isUnicodeScalarString t"
  shows "array_from (concat (scalar_slice (array_from t) i j)) = scalar_slice (array_from t) i j"
  using assms by (simp add: isUnicodeScalarString_iff array_from_concat list_all_scalar_slice)

lemma replace_newlines_no_cr: "13 \<notin> set (replace_newlines s)"
  by (induction s rule: replace_newlines.induct) auto

lemma replace_newlines_idem [simp]: "replace_newlines (replace_newlines s) = replace_newlines s"
proof -
  have "13 \<notin> set t \<Longrightarrow> replace_newlines t = t" for t
    by (induction t rule: replace_newlines.induct) auto
  then show ?thesis using replace_newlines_no_cr by blast
qed

section \<open>What the primitives promise\<close>

text \<open>The maximum access class of a non-empty list of valid classes is their least upper
  bound in the order of the ranks, and it is one of them; any other input is rejected.\<close>
theorem maxAccessClass_least_upper_bound:
  "maxAccessClass vs = Some m \<longleftrightarrow>
     access_string m \<in> set vs \<and>
     list_all (\<lambda>v. \<exists>c. assertAccessClass v = Some c \<and> access_rank c \<le> access_rank m) vs"
proof
  assume "maxAccessClass vs = Some m"
  then obtain cs where cs: "cs \<noteq> []" "vs = map access_string cs" "m = Max (set cs)"
    by (auto simp: maxAccessClass_Some_iff)
  have "m \<in> set cs" using cs Max_in[of "set cs"] by simp
  moreover have "c \<in> set cs \<Longrightarrow> access_rank c \<le> access_rank m" for c
    using cs(3) Max_ge[of "set cs" c] by (simp add: less_eq_access_class_def)
  ultimately show "access_string m \<in> set vs \<and>
     list_all (\<lambda>v. \<exists>c. assertAccessClass v = Some c \<and> access_rank c \<le> access_rank m) vs"
    using cs(2) by (auto simp: list_all_iff)
next
  assume *: "access_string m \<in> set vs \<and>
     list_all (\<lambda>v. \<exists>c. assertAccessClass v = Some c \<and> access_rank c \<le> access_rank m) vs"
  define cs where "cs = map (\<lambda>v. the (assertAccessClass v)) vs"
  have vs: "vs = map access_string cs"
    unfolding cs_def map_map o_def
    by (rule map_idI[symmetric]) (use * in \<open>auto simp: list_all_iff assertAccessClass_Some_iff\<close>)
  have "m \<in> set cs" using * vs by auto
  moreover have "Max (set cs) = m"
    by (rule Max_eqI)
       (use * vs \<open>m \<in> set cs\<close> in \<open>auto simp: list_all_iff less_eq_access_class_def\<close>)
  ultimately show "maxAccessClass vs = Some m"
    using vs by (auto simp: maxAccessClass_Some_iff intro!: exI[of _ cs])
qed

end
