(* ===== verification/Patterns.thy ===== *)
theory Patterns
  imports Trust_Primitives
begin

text \<open>
  The regular expressions of the validators, as lists of character sets for the fixed-length
  ones, and the timestamps of \<open>packages/core-types/src/domain-notification.ts\<close>:
  \<open>isDomainNotificationTimestamp\<close>, its calendar, and \<open>Date.parse\<close> on the strings it admits
  (milliseconds since 1970, further digits of the fraction dropped).
\<close>

section \<open>Character sets and fixed-length patterns\<close>

definition is_digit :: "nat \<Rightarrow> bool" where
  "is_digit u \<longleftrightarrow> 48 \<le> u \<and> u \<le> 57"

definition is_lower_hex :: "nat \<Rightarrow> bool" where
  "is_lower_hex u \<longleftrightarrow> is_digit u \<or> (97 \<le> u \<and> u \<le> 102)"

definition is_hex :: "nat \<Rightarrow> bool" where
  "is_hex u \<longleftrightarrow> is_lower_hex (lower_ascii_unit u)"

definition is_alnum :: "nat \<Rightarrow> bool" where
  "is_alnum u \<longleftrightarrow> is_digit u \<or> (65 \<le> u \<and> u \<le> 90) \<or> (97 \<le> u \<and> u \<le> 122)"

definition is_reference_unit :: "nat \<Rightarrow> bool" where
  "is_reference_unit u \<longleftrightarrow> is_alnum u \<or> u \<in> {46, 95, 58, 47, 45}"

definition is_variant :: "nat \<Rightarrow> bool" where
  "is_variant u \<longleftrightarrow> u \<in> {56, 57, 97, 98}"

definition is_control :: "nat \<Rightarrow> bool" where
  "is_control u \<longleftrightarrow> u < 32 \<or> u = 127"

fun fixed_match :: "(nat \<Rightarrow> bool) list \<Rightarrow> jstr \<Rightarrow> bool" where
  "fixed_match [] [] \<longleftrightarrow> True"
| "fixed_match (p # ps) (u # us) \<longleftrightarrow> p u \<and> fixed_match ps us"
| "fixed_match _ _ \<longleftrightarrow> False"

definition uuid_with :: "(nat \<Rightarrow> bool) \<Rightarrow> (nat \<Rightarrow> bool) \<Rightarrow> (nat \<Rightarrow> bool) \<Rightarrow> (nat \<Rightarrow> bool) list" where
  "uuid_with hex version variant =
     replicate 8 hex @ [\<lambda>u. u = 45] @ replicate 4 hex @ [\<lambda>u. u = 45, version] @
     replicate 3 hex @ [\<lambda>u. u = 45, variant] @ replicate 3 hex @ [\<lambda>u. u = 45] @ replicate 12 hex"

definition uuid_v7 :: "jstr \<Rightarrow> bool" where
  "uuid_v7 s \<longleftrightarrow> fixed_match (uuid_with is_lower_hex (\<lambda>u. u = 55) is_variant) s"

definition uuid_v7_any_case :: "jstr \<Rightarrow> bool" where
  "uuid_v7_any_case s \<longleftrightarrow>
     fixed_match (uuid_with is_hex (\<lambda>u. u = 55) (\<lambda>u. is_variant (lower_ascii_unit u))) s"

definition uuid_any_case :: "jstr \<Rightarrow> bool" where
  "uuid_any_case s \<longleftrightarrow>
     fixed_match (uuid_with is_hex (\<lambda>u. 49 \<le> u \<and> u \<le> 56) (\<lambda>u. is_variant (lower_ascii_unit u))) s"

definition sha256_hex :: "jstr \<Rightarrow> bool" where
  "sha256_hex s \<longleftrightarrow> fixed_match (replicate 64 is_lower_hex) s"

definition safe_reference :: "jstr \<Rightarrow> bool" where
  "safe_reference s \<longleftrightarrow>
     (case s of [] \<Rightarrow> False | u # r \<Rightarrow> is_alnum u \<and> length r \<le> 199 \<and> list_all is_reference_unit r)"

definition traceparent_pattern :: "jstr \<Rightarrow> bool" where
  "traceparent_pattern s \<longleftrightarrow>
     fixed_match ([\<lambda>u. u = 48, \<lambda>u. u = 48, \<lambda>u. u = 45] @ replicate 32 is_lower_hex @ [\<lambda>u. u = 45] @
       replicate 16 is_lower_hex @ [\<lambda>u. u = 45, is_lower_hex, is_lower_hex]) s"

lemma fixed_match_length: "fixed_match ps s \<Longrightarrow> length s = length ps"
  by (induction ps s rule: fixed_match.induct) auto

lemma fixed_match_iff: "fixed_match ps s \<longleftrightarrow> list_all2 (\<lambda>p u. p u) ps s"
  by (induction ps s rule: fixed_match.induct) auto

lemma fixed_match_replicate: "fixed_match (replicate n p) s \<longleftrightarrow> length s = n \<and> list_all p s"
  by (auto simp: fixed_match_iff list_all2_conv_all_nth list_all_length)

lemma fixed_match_map:
  "fixed_match ps s \<Longrightarrow> list_all2 (\<lambda>p q. \<forall>u. p u \<longrightarrow> q (f u)) ps qs \<Longrightarrow> fixed_match qs (map f s)"
  unfolding fixed_match_iff by (fastforce simp: list_all2_conv_all_nth)

lemma fixed_match_mono:
  "fixed_match ps s \<Longrightarrow> list_all2 (\<lambda>p q. \<forall>u. p u \<longrightarrow> q u) ps qs \<Longrightarrow> fixed_match qs s"
  using fixed_match_map[of ps s "\<lambda>u. u" qs] by simp

lemma list_all2_uuid_with:
  assumes "\<And>u. h u \<Longrightarrow> h' (f u)" "\<And>u. v u \<Longrightarrow> v' (f u)" "\<And>u. w u \<Longrightarrow> w' (f u)" "f 45 = 45"
  shows "list_all2 (\<lambda>p q. \<forall>u. p u \<longrightarrow> q (f u)) (uuid_with h v w) (uuid_with h' v' w')"
  using assms by (simp add: uuid_with_def eval_nat_numeral)

lemma lower_unit_digitish: "u < 65 \<Longrightarrow> lower_ascii_unit u = u"
  by (simp add: lower_ascii_unit_def)

lemma lower_unit_idem [simp]: "lower_ascii_unit (lower_ascii_unit u) = lower_ascii_unit u"
  by (simp add: lower_ascii_unit_def)

lemma uuid_v7_lower: "uuid_v7_any_case s \<Longrightarrow> uuid_v7 (lower_ascii s)"
  unfolding uuid_v7_any_case_def uuid_v7_def lower_ascii_def
  by (erule fixed_match_map) (rule list_all2_uuid_with, auto simp: is_hex_def lower_unit_digitish)

lemma lower_hex_fixed: "is_lower_hex u \<Longrightarrow> lower_ascii_unit u = u"
  by (auto simp: is_lower_hex_def is_digit_def lower_ascii_unit_def)

lemma variant_fixed: "is_variant u \<Longrightarrow> lower_ascii_unit u = u"
  by (auto simp: is_variant_def lower_ascii_unit_def)

lemma uuid_v7_any_case_of: "uuid_v7 s \<Longrightarrow> uuid_v7_any_case s"
  unfolding uuid_v7_any_case_def uuid_v7_def
  by (erule fixed_match_mono)
     (rule list_all2_uuid_with[of _ _ "\<lambda>u. u"], auto simp: is_hex_def lower_hex_fixed variant_fixed)

lemma uuid_v7_units:
  assumes "uuid_v7 s" "u \<in> set s"
  shows "is_lower_hex u \<or> u = 45"
proof -
  have "list_all2 (\<lambda>p q. \<forall>u. p u \<longrightarrow> q u) (uuid_with is_lower_hex (\<lambda>u. u = 55) is_variant)
     (replicate 36 (\<lambda>u. is_lower_hex u \<or> u = 45))"
    by (simp add: uuid_with_def eval_nat_numeral is_lower_hex_def is_variant_def is_digit_def)
  then have "fixed_match (replicate 36 (\<lambda>u. is_lower_hex u \<or> u = 45)) s"
    using assms(1) fixed_match_mono by (auto simp: uuid_v7_def)
  then show ?thesis using assms(2) by (auto simp: fixed_match_replicate list_all_iff)
qed

lemma uuid_v7_lower_fixed [simp]: "uuid_v7 s \<Longrightarrow> lower_ascii s = s"
  unfolding lower_ascii_def
  by (rule map_idI) (auto dest: uuid_v7_units simp: lower_hex_fixed lower_unit_digitish)

lemma uuid_any_case_lower: "uuid_any_case s \<Longrightarrow> uuid_any_case (lower_ascii s)"
  unfolding uuid_any_case_def lower_ascii_def
  by (erule fixed_match_map)
     (rule list_all2_uuid_with, auto simp: is_hex_def lower_unit_digitish)

lemma uuid_v7_any: "uuid_v7 s \<Longrightarrow> uuid_any_case s"
  unfolding uuid_any_case_def uuid_v7_def
  by (erule fixed_match_mono)
     (rule list_all2_uuid_with[of _ _ "\<lambda>u. u"], auto simp: is_hex_def lower_hex_fixed variant_fixed)

section \<open>Timestamps\<close>

fun digits_value :: "jstr \<Rightarrow> nat" where
  "digits_value ds = foldl (\<lambda>n d. 10 * n + (d - 48)) 0 ds"

definition units :: "jstr \<Rightarrow> nat \<Rightarrow> nat \<Rightarrow> jstr" where
  "units s i j = take (j - i) (drop i s)"

definition units_end :: "jstr \<Rightarrow> nat \<Rightarrow> nat \<Rightarrow> jstr" where
  "units_end s i j = take (i - j) (drop (length s - i) s)"

definition iso_zone :: "jstr \<Rightarrow> bool" where
  "iso_zone r \<longleftrightarrow> r = [90] \<or>
     fixed_match [\<lambda>u. u = 43 \<or> u = 45, is_digit, is_digit, \<lambda>u. u = 58, is_digit, is_digit] r"

definition iso_fraction_zone :: "jstr \<Rightarrow> bool" where
  "iso_fraction_zone r \<longleftrightarrow>
     (case r of
        u # r' \<Rightarrow>
          (if u = 46 then
             1 \<le> length (takeWhile is_digit r') \<and> length (takeWhile is_digit r') \<le> 9 \<and>
             iso_zone (dropWhile is_digit r')
           else iso_zone r)
      | [] \<Rightarrow> False)"

definition iso_timestamp_pattern :: "jstr \<Rightarrow> bool" where
  "iso_timestamp_pattern s \<longleftrightarrow>
     fixed_match (replicate 4 is_digit @ [\<lambda>u. u = 45] @ replicate 2 is_digit @ [\<lambda>u. u = 45] @
       replicate 2 is_digit @ [\<lambda>u. u = 84] @ replicate 2 is_digit @ [\<lambda>u. u = 58] @
       replicate 2 is_digit @ [\<lambda>u. u = 58] @ replicate 2 is_digit) (take 19 s) \<and>
     iso_fraction_zone (drop 19 s)"

definition leap_year :: "nat \<Rightarrow> bool" where
  "leap_year year \<longleftrightarrow> year mod 4 = 0 \<and> (year mod 100 \<noteq> 0 \<or> year mod 400 = 0)"

definition daysInMonth :: "nat \<Rightarrow> nat \<Rightarrow> nat" where
  "daysInMonth year month =
     (if month = 2 then (if leap_year year then 29 else 28)
      else if month \<in> set [4, 6, 9, 11] then 30 else 31)"

record timestamp_fields =
  ts_year :: nat
  ts_month :: nat
  ts_day :: nat
  ts_hour :: nat
  ts_minute :: nat
  ts_second :: nat
  ts_offset_hour :: nat
  ts_offset_minute :: nat

definition ends_with_Z :: "jstr \<Rightarrow> bool" where
  "ends_with_Z s \<longleftrightarrow> s \<noteq> [] \<and> last s = 90"

definition timestamp_fields_of :: "jstr \<Rightarrow> timestamp_fields" where
  "timestamp_fields_of s = \<lparr>
     ts_year = digits_value (units s 0 4), ts_month = digits_value (units s 5 7),
     ts_day = digits_value (units s 8 10), ts_hour = digits_value (units s 11 13),
     ts_minute = digits_value (units s 14 16), ts_second = digits_value (units s 17 19),
     ts_offset_hour = (if ends_with_Z s then 0 else digits_value (units_end s 5 3)),
     ts_offset_minute = (if ends_with_Z s then 0 else digits_value (units_end s 2 0))\<rparr>"

definition valid_timestamp_fields :: "timestamp_fields \<Rightarrow> bool" where
  "valid_timestamp_fields t \<longleftrightarrow>
     ts_year t \<ge> 1 \<and> ts_month t \<ge> 1 \<and> ts_month t \<le> 12 \<and> ts_day t \<ge> 1 \<and>
     ts_day t \<le> daysInMonth (ts_year t) (ts_month t) \<and> ts_hour t \<le> 23 \<and> ts_minute t \<le> 59 \<and>
     ts_second t \<le> 59 \<and> ts_offset_hour t \<le> 15 \<and> ts_offset_minute t \<le> 59"

text \<open>\<open>Date.parse\<close> on an ISO string with an explicit zone; it is never NaN there once the fields
  are in range, so the last conjunct of the code adds nothing to the ones before it.\<close>

definition day_from_year :: "int \<Rightarrow> int" where
  "day_from_year y = 365 * (y - 1970) + (y - 1969) div 4 - (y - 1901) div 100 + (y - 1601) div 400"

definition month_days :: "nat \<Rightarrow> nat \<Rightarrow> nat" where
  "month_days year month = sum_list (map (daysInMonth year) [1..<month])"

definition fraction_ms :: "jstr \<Rightarrow> nat" where
  "fraction_ms s =
     (case drop 19 s of u # r \<Rightarrow>
        (if u = 46 then digits_value (take 3 (takeWhile is_digit r @ [48, 48, 48])) else 0)
      | [] \<Rightarrow> 0)"

definition offset_sign :: "jstr \<Rightarrow> int" where
  "offset_sign s = (if \<not> ends_with_Z s \<and> s ! (length s - 6) = 45 then -1 else 1)"

definition date_parse :: "jstr \<Rightarrow> int option" where
  "date_parse s =
     (let t = timestamp_fields_of s in
      if iso_timestamp_pattern s \<and> valid_timestamp_fields t then
        Some ((((day_from_year (int (ts_year t)) + int (month_days (ts_year t) (ts_month t)) +
                 int (ts_day t) - 1) * 24 + int (ts_hour t)) * 60 + int (ts_minute t)
               - offset_sign s * (int (ts_offset_hour t) * 60 + int (ts_offset_minute t))) * 60000
              + int (ts_second t) * 1000 + int (fraction_ms s))
      else None)"

fun isDomainNotificationTimestamp :: "jsval \<Rightarrow> bool" where
  "isDomainNotificationTimestamp (JStr s) \<longleftrightarrow>
     iso_timestamp_pattern s \<and> valid_timestamp_fields (timestamp_fields_of s) \<and> date_parse s \<noteq> None"
| "isDomainNotificationTimestamp _ \<longleftrightarrow> False"

definition timestamp :: "jstr \<Rightarrow> bool" where
  "timestamp s \<longleftrightarrow> isDomainNotificationTimestamp (JStr s)"

lemma isDomainNotificationTimestamp_iff [accept_simps]:
  "isDomainNotificationTimestamp v \<longleftrightarrow> (\<exists>s. v = JStr s \<and> timestamp s)"
  by (cases v) (simp_all add: timestamp_def)

lemma timestamp_date_parse: "timestamp s \<Longrightarrow> \<exists>ms. date_parse s = Some ms"
  by (auto simp: timestamp_def)

section \<open>Instances used by the examples\<close>

definition example_id :: "nat \<Rightarrow> jstr" where
  "example_id n = js ''0190a0b0-0000-7000-8000-00000000000'' @ [48 + n]"

lemma uuid_v7_example [simp]: "n < 10 \<Longrightarrow> uuid_v7 (example_id n)"
  by (simp add: uuid_v7_def example_id_def uuid_with_def js_def eval_nat_numeral
      is_lower_hex_def is_digit_def is_variant_def)

lemma example_id_inject [simp]: "example_id m = example_id n \<longleftrightarrow> m = n"
  by (simp add: example_id_def)

lemma example_id_less [simp]: "example_id m < example_id n \<longleftrightarrow> m < n"
  by (simp add: example_id_def js_def)

end
