(* ===== verification/Validation.thy ===== *)
theory Validation
  imports Patterns
begin

text \<open>
  \<open>packages/truth-ledger/src/validation.ts\<close>: the checks every contract of the truth ledger is
  built from. Each is a function into \<open>option\<close>, \<open>None\<close> standing for the exception. The locale
  \<open>canonical_form\<close> is the contract of a parser: what it returns, written back as a JavaScript
  value, is accepted again with the same result. Every parser of the development interprets it.
\<close>

section \<open>Objects with an exact set of keys\<close>

definition exactObject :: "jsval \<Rightarrow> string list \<Rightarrow> string list \<Rightarrow> jsfields option" where
  "exactObject input requiredKeys optionalKeys =
     (case input of
        JObj fs \<Rightarrow> do {
          require (list_all is_string_key (map fst fs));
          require (list_all (\<lambda>k. has_own fs (js k)) requiredKeys);
          require (list_all (\<lambda>k. k \<in> set (map js requiredKeys) \<or> k \<in> set (map js optionalKeys))
                     (string_keys fs));
          Some fs }
      | _ \<Rightarrow> None)"

definition fld :: "jsfields \<Rightarrow> string \<Rightarrow> jsval" where
  "fld fs k = get_prop fs (js k)"

definition object_of :: "(string \<times> jsval) list \<Rightarrow> jsfields" where
  "object_of kvs = map (\<lambda>(k, v). (KStr (js k), v)) kvs"

definition opt_entry :: "string \<Rightarrow> ('a \<Rightarrow> jsval) \<Rightarrow> 'a option \<Rightarrow> (string \<times> jsval) list" where
  "opt_entry k f x = (case x of None \<Rightarrow> [] | Some v \<Rightarrow> [(k, f v)])"

section \<open>Scalars\<close>

fun requireString :: "jsval \<Rightarrow> jstr option" where
  "requireString (JStr s) = Some s"
| "requireString _ = None"

definition require_string_with :: "(jstr \<Rightarrow> bool) \<Rightarrow> jsval \<Rightarrow> jstr option" where
  "require_string_with P v = do { s \<leftarrow> requireString v; require (P s); Some s }"

definition requireUuidV7 :: "jsval \<Rightarrow> jstr option" where
  "requireUuidV7 input = require_string_with uuid_v7 input"

definition requireSha256 :: "jsval \<Rightarrow> jstr option" where
  "requireSha256 input = require_string_with sha256_hex input"

definition requirePositiveInteger :: "jsval \<Rightarrow> int option" where
  "requirePositiveInteger input = do { i \<leftarrow> safe_integer input; require (\<not> i < 1); Some i }"

text \<open>A negative zero passes \<open>Number.isSafeInteger\<close> and is not below zero, so the number itself is
  returned, not its integer.\<close>

fun requireNonNegativeInteger :: "jsval \<Rightarrow> jsnum option" where
  "requireNonNegativeInteger (JNum n) = do { i \<leftarrow> safe_int n; require (\<not> i < 0); Some n }"
| "requireNonNegativeInteger _ = None"

definition requireLiteral :: "jsval \<Rightarrow> jsval \<Rightarrow> unit option" where
  "requireLiteral input literal = require (input = literal)"

definition requireEnum :: "('a \<Rightarrow> jstr) \<Rightarrow> 'a list \<Rightarrow> jsval \<Rightarrow> 'a option" where
  "requireEnum name members input = do { s \<leftarrow> requireString input; List.find (\<lambda>x. name x = s) members }"

definition requireTimestamp :: "jsval \<Rightarrow> jstr option" where
  "requireTimestamp input = do { require (isDomainNotificationTimestamp input); requireString input }"

definition requireSafeReference :: "jsval \<Rightarrow> jstr option" where
  "requireSafeReference input = require_string_with safe_reference input"

definition canonical_rationale :: "(jstr \<Rightarrow> jstr) \<Rightarrow> jstr \<Rightarrow> bool" where
  "canonical_rationale nfc s \<longleftrightarrow>
     s = nfc s \<and> trim s = s \<and>
     (case unicodeScalarLength s of None \<Rightarrow> False | Some n \<Rightarrow> \<not> n < 1 \<and> \<not> n > 2000) \<and>
     \<not> list_ex (\<lambda>c. (code_point c < 32 \<and> code_point c \<noteq> 9 \<and> code_point c \<noteq> 10) \<or> code_point c = 127)
         (array_from s)"

definition requireCanonicalRationale :: "(jstr \<Rightarrow> jstr) \<Rightarrow> jsval \<Rightarrow> jstr option" where
  "requireCanonicalRationale nfc input = require_string_with (canonical_rationale nfc) input"

definition idempotency_key :: "jstr \<Rightarrow> bool" where
  "idempotency_key s \<longleftrightarrow>
     (case unicodeScalarLength s of None \<Rightarrow> False | Some n \<Rightarrow> \<not> n < 1 \<and> \<not> n > 200) \<and>
     \<not> list_ex (\<lambda>c. code_point c < 32 \<or> code_point c = 127) (array_from s)"

definition requireIdempotencyKey :: "jsval \<Rightarrow> jstr option" where
  "requireIdempotencyKey input = require_string_with idempotency_key input"

text \<open>Optional members: absent and \<open>undefined\<close> are the same to the code.\<close>

definition optional :: "(jsval \<Rightarrow> 'a option) \<Rightarrow> jsval \<Rightarrow> 'a option option" where
  "optional p v = (if v = JUndef then Some None else map_option Some (p v))"

definition parse_array :: "nat \<Rightarrow> nat \<Rightarrow> (jsval \<Rightarrow> 'a option) \<Rightarrow> jsval \<Rightarrow> 'a list option" where
  "parse_array lo hi p input =
     (case input of
        JArr vs \<Rightarrow> do { require (\<not> (length vs < lo \<or> length vs > hi)); those (map p vs) }
      | _ \<Rightarrow> None)"

definition parse_sorted_array :: "(jsval \<Rightarrow> 'a option) \<Rightarrow> ('a \<Rightarrow> jstr) \<Rightarrow> jsval \<Rightarrow> 'a list option" where
  "parse_sorted_array p key input = do {
     xs \<leftarrow> parse_array 1 100 p input;
     require (\<not> list_ex (\<lambda>i. key (xs ! (i - 1)) \<ge> key (xs ! i)) [1..<length xs]);
     Some xs }"

section \<open>When the checks accept\<close>

lemma exactObject_Some_iff:
  "exactObject v req opt = Some fs \<longleftrightarrow>
     v = JObj fs \<and> list_all is_string_key (map fst fs) \<and> list_all (\<lambda>k. has_own fs (js k)) req \<and>
     list_all (\<lambda>k. k \<in> set (map js req) \<or> k \<in> set (map js opt)) (string_keys fs)"
  by (auto simp: exactObject_def split: jsval.splits)

lemma exactObject_object_of [simp]:
  "exactObject (JObj (object_of kvs)) req opt = Some fs \<longleftrightarrow>
     fs = object_of kvs \<and> set req \<subseteq> set (map fst kvs) \<and> set (map fst kvs) \<subseteq> set req \<union> set opt"
proof -
  have k: "list_all is_string_key (map fst (object_of kvs))"
    by (auto simp: object_of_def list_all_iff)
  have h: "has_own (object_of kvs) (js k) \<longleftrightarrow> k \<in> fst ` set kvs" for k
    by (force simp: has_own_def object_of_def image_iff)
  have "string_keys (object_of kvs) = map (js \<circ> fst) kvs"
    by (induction kvs) (auto simp: string_keys_def object_of_def)
  moreover have "js k \<in> set (map js xs) \<longleftrightarrow> k \<in> set xs" for k xs
    by (simp add: inj_image_mem_iff[OF inj_js])
  ultimately have s: "list_all (\<lambda>k. k \<in> set (map js req) \<or> k \<in> set (map js opt))
      (string_keys (object_of kvs)) \<longleftrightarrow> fst ` set kvs \<subseteq> set req \<union> set opt"
    by (simp add: list_all_iff image_subset_iff)
  have r: "list_all (\<lambda>k. has_own (object_of kvs) (js k)) req \<longleftrightarrow> set req \<subseteq> fst ` set kvs"
    by (auto simp: h list_all_iff)
  show ?thesis
  proof (cases "fs = object_of kvs")
    case True
    show ?thesis unfolding exactObject_Some_iff True s r using k by simp
  qed (auto simp: exactObject_Some_iff)
qed

lemma fld_object_of [simp]:
  "fld (object_of []) k = JUndef"
  "fld (object_of ((k', v) # kvs)) k = (if k = k' then v else fld (object_of kvs) k)"
  by (simp_all add: fld_def object_of_def)

lemma fld_object_of_append [simp]:
  "fld (object_of (opt_entry k' f x @ kvs)) k =
     (if k = k' \<and> x \<noteq> None then f (the x) else fld (object_of kvs) k)"
  by (auto simp: opt_entry_def split: option.splits)

lemma fld_object_of_last [simp]:
  "fld (object_of (opt_entry k' f x)) k = (if k = k' \<and> x \<noteq> None then f (the x) else JUndef)"
  by (auto simp: opt_entry_def split: option.splits)

lemma opt_entry_keys [simp]: "fst ` set (opt_entry k f x) = (if x = None then {} else {k})"
  by (auto simp: opt_entry_def split: option.splits)

lemma requireString_Some_iff [simp]: "requireString v = Some s \<longleftrightarrow> v = JStr s"
  by (cases v) auto

lemma require_string_with_Some_iff:
  "require_string_with P v = Some s \<longleftrightarrow> v = JStr s \<and> P s"
  by (auto simp: require_string_with_def bind_Some_iff)

lemmas require_string_simps [accept_simps] =
  require_string_with_Some_iff[of uuid_v7, folded requireUuidV7_def]
  require_string_with_Some_iff[of sha256_hex, folded requireSha256_def]
  require_string_with_Some_iff[of safe_reference, folded requireSafeReference_def]
  require_string_with_Some_iff[of "canonical_rationale nfc", folded requireCanonicalRationale_def] for nfc

lemma requireIdempotencyKey_Some_iff [accept_simps]:
  "requireIdempotencyKey v = Some s \<longleftrightarrow> v = JStr s \<and> idempotency_key s"
  by (simp add: requireIdempotencyKey_def require_string_with_Some_iff)

lemma requirePositiveInteger_Some_iff [accept_simps]:
  "requirePositiveInteger v = Some i \<longleftrightarrow> v = JNum (IntNum i) \<and> 1 \<le> i \<and> i \<le> max_safe_integer"
  by (auto simp: requirePositiveInteger_def bind_Some_iff accept_simps max_safe_integer_def
      dest: safe_int_Some_cases)

lemma requireNonNegativeInteger_Some_iff [accept_simps]:
  "requireNonNegativeInteger v = Some n \<longleftrightarrow> v = JNum n \<and> (\<exists>i\<ge>0. safe_int n = Some i)"
  by (cases v) (auto simp: bind_Some_iff)

lemma requireLiteral_Some_iff [accept_simps]: "requireLiteral v w = Some u \<longleftrightarrow> v = w"
  by (simp add: requireLiteral_def)

lemma requireEnum_Some_iff [accept_simps]:
  assumes "inj name"
  shows "requireEnum name xs v = Some x \<longleftrightarrow> v = JStr (name x) \<and> x \<in> set xs"
proof -
  have "List.find (\<lambda>y. name y = s) xs = Some x \<longleftrightarrow> s = name x \<and> x \<in> set xs" for s
    using assms by (induction xs) (auto simp: inj_eq)
  then show ?thesis by (auto simp: requireEnum_def bind_Some_iff)
qed

lemma requireEnum_id_Some_iff [accept_simps]:
  "requireEnum (\<lambda>s. s) xs v = Some x \<longleftrightarrow> v = JStr x \<and> x \<in> set xs"
  by (rule requireEnum_Some_iff) (simp add: inj_on_def)

lemma requireTimestamp_Some_iff [accept_simps]:
  "requireTimestamp v = Some s \<longleftrightarrow> v = JStr s \<and> timestamp s"
  by (auto simp: requireTimestamp_def bind_Some_iff accept_simps)

lemma optional_Some_iff [accept_simps]:
  "optional p v = Some x \<longleftrightarrow> (v = JUndef \<and> x = None) \<or> (v \<noteq> JUndef \<and> (\<exists>y. x = Some y \<and> p v = Some y))"
  by (auto simp: optional_def)

lemma optional_undefined [simp]: "optional p JUndef = Some None"
  by (simp add: optional_def)

lemma parse_array_Some_iff [accept_simps]:
  "parse_array lo hi p v = Some xs \<longleftrightarrow>
     (\<exists>vs. v = JArr vs \<and> lo \<le> length vs \<and> length vs \<le> hi \<and> those (map p vs) = Some xs)"
  by (cases v) (auto simp: parse_array_def bind_Some_iff not_less)

lemma sorted_wrt_adjacent:
  fixes key :: "'a \<Rightarrow> jstr"
  shows "(\<forall>i\<in>{1..<length xs}. key (xs ! (i - 1)) < key (xs ! i)) \<longleftrightarrow> sorted_wrt (<) (map key xs)"
proof -
  have "(\<forall>i\<in>{1..<length xs}. key (xs ! (i - 1)) < key (xs ! i)) \<longleftrightarrow>
      (\<forall>i. Suc i < length (map key xs) \<longrightarrow> map key xs ! i < map key xs ! Suc i)"
  proof safe
    fix i assume *: "\<forall>i\<in>{1..<length xs}. key (xs ! (i - 1)) < key (xs ! i)" "Suc i < length (map key xs)"
    then have "Suc i \<in> {1..<length xs}" by simp
    then show "map key xs ! i < map key xs ! Suc i" using * by fastforce
  next
    fix i assume *: "\<forall>i. Suc i < length (map key xs) \<longrightarrow> map key xs ! i < map key xs ! Suc i"
      "i \<in> {1..<length xs}"
    then obtain j where "i = Suc j" by (cases i) auto
    then show "key (xs ! (i - 1)) < key (xs ! i)" using * by auto
  qed
  also have "\<dots> \<longleftrightarrow> sorted_wrt (<) (map key xs)"
    by (rule sorted_wrt_iff_nth_Suc_transp[symmetric]) (auto simp: transp_def)
  finally show ?thesis .
qed

lemma parse_sorted_array_Some_iff [accept_simps]:
  "parse_sorted_array p key v = Some xs \<longleftrightarrow>
     parse_array 1 100 p v = Some xs \<and> sorted_wrt (<) (map key xs)"
  unfolding sorted_wrt_adjacent[symmetric]
  by (auto simp: parse_sorted_array_def bind_Some_iff list_ex_iff not_le)

section \<open>The contract of a parser\<close>

locale canonical_form =
  fixes parse :: "jsval \<Rightarrow> 'a option" and embed :: "'a \<Rightarrow> jsval"
  assumes parse_embed: "parse v = Some x \<Longrightarrow> parse (embed x) = Some x"
    and embed_defined: "embed x \<noteq> JUndef"
begin

lemma range_iff: "(\<exists>v. parse v = Some x) \<longleftrightarrow> parse (embed x) = Some x"
  using parse_embed by blast

lemma embed_inject:
  "parse v = Some x \<Longrightarrow> parse w = Some y \<Longrightarrow> embed x = embed y \<longleftrightarrow> x = y"
  using parse_embed by (metis option.inject)

lemma optional_embed:
  "optional parse v = Some x \<Longrightarrow> optional parse (case x of None \<Rightarrow> JUndef | Some y \<Rightarrow> embed y) = Some x"
  using embed_defined by (auto simp: optional_def parse_embed split: if_splits)

lemma optional_some_embed:
  "optional parse v = Some (Some x) \<Longrightarrow> optional parse (embed x) = Some (Some x)"
  using embed_defined by (auto simp: optional_def parse_embed split: if_splits)

lemma array_embed:
  assumes "parse_array lo hi parse v = Some xs"
  shows "parse_array lo hi parse (JArr (map embed xs)) = Some xs"
proof -
  obtain vs where vs: "lo \<le> length vs" "length vs \<le> hi" "those (map parse vs) = Some xs"
    using assms by (auto simp: parse_array_Some_iff)
  have "those (map parse (map embed xs)) = Some xs"
    using vs(3) by (auto simp: those_Some_iff list_all2_conv_all_nth parse_embed)
  then show ?thesis using vs those_length[OF vs(3)] by (simp add: parse_array_Some_iff)
qed

lemma sorted_array_embed:
  "parse_sorted_array parse key v = Some xs \<Longrightarrow>
     parse_sorted_array parse key (JArr (map embed xs)) = Some xs"
  unfolding parse_sorted_array_Some_iff using array_embed by blast

end

interpretation uuid: canonical_form requireUuidV7 JStr
  by unfold_locales (auto simp: accept_simps)

interpretation timestamps: canonical_form requireTimestamp JStr
  by unfold_locales (auto simp: accept_simps)

end
