(* ===== verification/Reasons.thy ===== *)
theory Reasons
  imports Validation
begin

text \<open>
  \<open>packages/truth-ledger/src/reasons.ts\<close>: the reasons of the lifecycle commands of a fact. The
  reason codes are the lists of \<open>packages/core-types/src/b2.ts\<close>.
\<close>

section \<open>Codes and kinds\<close>

definition CONTEST_REASON_CODES :: "jstr list" where
  "CONTEST_REASON_CODES = map js [''conflicting_evidence'', ''material_disagreement'']"

definition UPHOLD_REASON_CODES :: "jstr list" where
  "UPHOLD_REASON_CODES =
     map js [''challenger_not_supported'', ''challenger_outdated'', ''current_fact_confirmed'']"

definition SUPERSEDE_REASON_CODES :: "jstr list" where
  "SUPERSEDE_REASON_CODES =
     map js [''newer_evidence'', ''accepted_value_changed'', ''corrected_source_revalidated'']"

definition REVOKE_REASON_CODES :: "jstr list" where
  "REVOKE_REASON_CODES = map js [''no_longer_true'', ''support_invalidated'', ''entered_in_error'']"

definition EMERGENCY_REASON_CODES :: "jstr list" where
  "EMERGENCY_REASON_CODES =
     map js [''legal_or_compliance_risk'', ''safety_risk'', ''security_incident'', ''material_truth_risk'']"

definition CONFIDENCE_LOWERING_REASON_CODES :: "jstr list" where
  "CONFIDENCE_LOWERING_REASON_CODES =
     map js [''conservative_human_judgment'', ''evidence_quality'', ''residual_uncertainty'']"

definition PRIMARY_OBJECTIVE_WITHDRAW_REASON_CODES :: "jstr list" where
  "PRIMARY_OBJECTIVE_WITHDRAW_REASON_CODES =
     map js [''needs_rework'', ''unsupported'', ''incorrect'', ''duplicate'', ''not_useful'',
             ''sensitive'', ''other'']"

definition hash_dispositions :: "jstr list" where
  "hash_dispositions = map js [''retained'', ''erased'']"

datatype reason_kind =
    ContestKind | UpholdKind | SupersedeKind | RevokeKind | EmergencyKind | ConfidenceLoweringKind
  | SourceCorrectionKind | SourceRevalidationKind | SourceTombstoneKind | LawfulErasureKind

datatype truth_reason =
    HumanReason jstr jstr
  | SourceCorrected jstr jstr
  | SourceRevalidated jstr jstr jstr
  | SourceTombstoned jstr jstr jstr
  | LawfulErasure jstr jstr

fun human_codes :: "reason_kind \<Rightarrow> jstr list option" where
  "human_codes ContestKind = Some CONTEST_REASON_CODES"
| "human_codes UpholdKind = Some UPHOLD_REASON_CODES"
| "human_codes SupersedeKind = Some SUPERSEDE_REASON_CODES"
| "human_codes RevokeKind = Some REVOKE_REASON_CODES"
| "human_codes EmergencyKind = Some EMERGENCY_REASON_CODES"
| "human_codes ConfidenceLoweringKind = Some CONFIDENCE_LOWERING_REASON_CODES"
| "human_codes _ = None"

section \<open>The parser\<close>

definition parseHumanReason :: "(jstr \<Rightarrow> jstr) \<Rightarrow> jsval \<Rightarrow> jstr list \<Rightarrow> truth_reason option" where
  "parseHumanReason nfc input codes = do {
     fs \<leftarrow> exactObject input [''code'', ''rationale''] [];
     code \<leftarrow> requireEnum (\<lambda>s. s) codes (fld fs ''code'');
     rationale \<leftarrow> requireCanonicalRationale nfc (fld fs ''rationale'');
     Some (HumanReason code rationale) }"

definition parseSourceCorrection :: "jsval \<Rightarrow> truth_reason option" where
  "parseSourceCorrection input = do {
     fs \<leftarrow> exactObject input
       [''code'', ''predecessorSourceArtifactId'', ''successorSourceArtifactId''] [];
     predecessor \<leftarrow> requireUuidV7 (fld fs ''predecessorSourceArtifactId'');
     successor \<leftarrow> requireUuidV7 (fld fs ''successorSourceArtifactId'');
     require (predecessor \<noteq> successor);
     requireLiteral (fld fs ''code'') (JStr (js ''source_corrected''));
     Some (SourceCorrected predecessor successor) }"

definition parseSourceRevalidation :: "(jstr \<Rightarrow> jstr) \<Rightarrow> jsval \<Rightarrow> truth_reason option" where
  "parseSourceRevalidation nfc input = do {
     fs \<leftarrow> exactObject input [''code'', ''predecessorClaimId'', ''successorClaimId'', ''rationale''] [];
     predecessor \<leftarrow> requireUuidV7 (fld fs ''predecessorClaimId'');
     successor \<leftarrow> requireUuidV7 (fld fs ''successorClaimId'');
     require (predecessor \<noteq> successor);
     requireLiteral (fld fs ''code'') (JStr (js ''source_revalidated''));
     rationale \<leftarrow> requireCanonicalRationale nfc (fld fs ''rationale'');
     Some (SourceRevalidated predecessor successor rationale) }"

definition parseSourceTombstone :: "jsval \<Rightarrow> truth_reason option" where
  "parseSourceTombstone input = do {
     fs \<leftarrow> exactObject input
       [''code'', ''deletionReasonCategory'', ''deletionPolicyRef'', ''hashDisposition''] [];
     requireLiteral (fld fs ''code'') (JStr (js ''source_tombstoned''));
     category \<leftarrow> requireSafeReference (fld fs ''deletionReasonCategory'');
     policy \<leftarrow> requireSafeReference (fld fs ''deletionPolicyRef'');
     disposition \<leftarrow> requireEnum (\<lambda>s. s) hash_dispositions (fld fs ''hashDisposition'');
     Some (SourceTombstoned category policy disposition) }"

definition parseLawfulErasure :: "jsval \<Rightarrow> truth_reason option" where
  "parseLawfulErasure input = do {
     fs \<leftarrow> exactObject input
       [''code'', ''deletionReasonCategory'', ''deletionPolicyRef'', ''hashDisposition''] [];
     requireLiteral (fld fs ''code'') (JStr (js ''lawful_erasure''));
     category \<leftarrow> requireSafeReference (fld fs ''deletionReasonCategory'');
     policy \<leftarrow> requireSafeReference (fld fs ''deletionPolicyRef'');
     requireLiteral (fld fs ''hashDisposition'') (JStr (js ''erased''));
     Some (LawfulErasure category policy) }"

fun parseTruthLifecycleReason ::
  "(jstr \<Rightarrow> jstr) \<Rightarrow> reason_kind \<Rightarrow> jsval \<Rightarrow> truth_reason option" where
  "parseTruthLifecycleReason nfc SourceCorrectionKind input = parseSourceCorrection input"
| "parseTruthLifecycleReason nfc SourceRevalidationKind input = parseSourceRevalidation nfc input"
| "parseTruthLifecycleReason nfc SourceTombstoneKind input = parseSourceTombstone input"
| "parseTruthLifecycleReason nfc LawfulErasureKind input = parseLawfulErasure input"
| "parseTruthLifecycleReason nfc kind input =
     do { codes \<leftarrow> human_codes kind; parseHumanReason nfc input codes }"

fun reason_value :: "truth_reason \<Rightarrow> jsval" where
  "reason_value (HumanReason code rationale) =
     JObj (object_of [(''code'', JStr code), (''rationale'', JStr rationale)])"
| "reason_value (SourceCorrected p s) =
     JObj (object_of [(''code'', JStr (js ''source_corrected'')),
       (''predecessorSourceArtifactId'', JStr p), (''successorSourceArtifactId'', JStr s)])"
| "reason_value (SourceRevalidated p s r) =
     JObj (object_of [(''code'', JStr (js ''source_revalidated'')),
       (''predecessorClaimId'', JStr p), (''successorClaimId'', JStr s), (''rationale'', JStr r)])"
| "reason_value (SourceTombstoned c p d) =
     JObj (object_of [(''code'', JStr (js ''source_tombstoned'')), (''deletionReasonCategory'', JStr c),
       (''deletionPolicyRef'', JStr p), (''hashDisposition'', JStr d)])"
| "reason_value (LawfulErasure c p) =
     JObj (object_of [(''code'', JStr (js ''lawful_erasure'')), (''deletionReasonCategory'', JStr c),
       (''deletionPolicyRef'', JStr p), (''hashDisposition'', JStr (js ''erased''))])"

lemma parseHumanReason_embed:
  "parseHumanReason nfc v codes = Some r \<Longrightarrow> parseHumanReason nfc (reason_value r) codes = Some r"
  by (auto simp: parseHumanReason_def bind_Some_iff accept_simps)

lemma reason_value_JObj: "\<exists>fs. reason_value r = JObj fs"
  by (cases r) auto

lemma parseTruthLifecycleReason_embed:
  assumes "parseTruthLifecycleReason nfc k v = Some r"
  shows "parseTruthLifecycleReason nfc k (reason_value r) = Some r"
proof (cases k)
  case SourceCorrectionKind
  then show ?thesis using assms
    by (auto simp: parseSourceCorrection_def bind_Some_iff accept_simps)
next
  case SourceRevalidationKind
  then show ?thesis using assms
    by (auto simp: parseSourceRevalidation_def bind_Some_iff accept_simps)
next
  case SourceTombstoneKind
  then show ?thesis using assms
    by (auto simp: parseSourceTombstone_def bind_Some_iff accept_simps)
next
  case LawfulErasureKind
  then show ?thesis using assms
    by (auto simp: parseLawfulErasure_def bind_Some_iff accept_simps)
qed (use assms parseHumanReason_embed in \<open>auto simp: bind_Some_iff\<close>)

interpretation reason: canonical_form "parseTruthLifecycleReason nfc k" reason_value for nfc k
proof
  show "parseTruthLifecycleReason nfc k v = Some r \<Longrightarrow>
      parseTruthLifecycleReason nfc k (reason_value r) = Some r" for v r
    by (rule parseTruthLifecycleReason_embed)
  show "reason_value r \<noteq> JUndef" for r by (cases r) auto
qed

end
