(* ===== verification/Confidence.thy ===== *)
theory Confidence
  imports Reasons
begin

text \<open>
  \<open>packages/truth-ledger/src/confidence.ts\<close>: the confidence of an accepted fact is that of its
  strongest valid claim, or a strictly lower one that a human asks for with a reason; and the
  assessment whether a recorded confidence is still supported. Claims come in the static type
  of the code: strings for the id and the confidence, a boolean for the validity.
\<close>

section \<open>The scale\<close>

datatype confidence = Unknown | Weak | Strong | Confirmed

fun confidence_string :: "confidence \<Rightarrow> jstr" where
  "confidence_string Unknown = js ''unknown''"
| "confidence_string Weak = js ''weak''"
| "confidence_string Strong = js ''strong''"
| "confidence_string Confirmed = js ''confirmed''"

fun confidence_rank :: "confidence \<Rightarrow> nat" where
  "confidence_rank Unknown = 0"
| "confidence_rank Weak = 1"
| "confidence_rank Strong = 2"
| "confidence_rank Confirmed = 3"

fun confidenceAtRank :: "nat \<Rightarrow> confidence option" where
  "confidenceAtRank rank =
     (if rank = 0 then Some Unknown else if rank = 1 then Some Weak
      else if rank = 2 then Some Strong else if rank = 3 then Some Confirmed else None)"

definition CONFIDENCES :: "confidence list" where
  "CONFIDENCES = [Confirmed, Strong, Weak, Unknown]"

definition confidence_of :: "jstr \<Rightarrow> confidence option" where
  "confidence_of s = List.find (\<lambda>c. confidence_string c = s) CONFIDENCES"

instantiation confidence :: linorder
begin

definition less_eq_confidence :: "confidence \<Rightarrow> confidence \<Rightarrow> bool" where
  "less_eq_confidence a b \<longleftrightarrow> confidence_rank a \<le> confidence_rank b"

definition less_confidence :: "confidence \<Rightarrow> confidence \<Rightarrow> bool" where
  "less_confidence a b \<longleftrightarrow> confidence_rank a < confidence_rank b"

instance
proof
  fix a b :: confidence
  show "a \<le> b \<Longrightarrow> b \<le> a \<Longrightarrow> a = b"
    by (cases a; cases b) (simp_all add: less_eq_confidence_def)
qed (auto simp: less_eq_confidence_def less_confidence_def)

end

lemma confidence_string_inj [simp]: "inj confidence_string"
  by (rule injI) (rename_tac a b, case_tac a; case_tac b; simp)

lemma confidence_of_string [simp]: "confidence_of (confidence_string c) = Some c"
  by (cases c) (simp_all add: confidence_of_def CONFIDENCES_def)

lemma confidence_of_Some_iff [accept_simps]: "confidence_of s = Some c \<longleftrightarrow> s = confidence_string c"
proof
  assume "confidence_of s = Some c"
  then show "s = confidence_string c" by (auto simp: confidence_of_def find_Some_iff)
qed simp

lemma confidenceAtRank_rank [simp]: "confidenceAtRank (confidence_rank c) = Some c"
  by (cases c) simp_all

section \<open>Selected claims\<close>

record selected_claim =
  sc_claimId :: jstr
  sc_confidence :: jstr
  sc_valid :: bool

record validated_claim =
  vc_claimId :: jstr
  vc_confidence :: confidence
  vc_valid :: bool

fun validate_each :: "jstr list \<Rightarrow> selected_claim list \<Rightarrow> validated_claim list option" where
  "validate_each seen [] = Some []"
| "validate_each seen (c # cs) = do {
     claimId \<leftarrow> requireUuidV7 (JStr (sc_claimId c));
     require (claimId \<notin> set seen);
     confidence \<leftarrow> confidence_of (sc_confidence c);
     rest \<leftarrow> validate_each (claimId # seen) cs;
     Some (\<lparr>vc_claimId = claimId, vc_confidence = confidence, vc_valid = sc_valid c\<rparr> # rest) }"

definition validateClaims :: "selected_claim list \<Rightarrow> bool \<Rightarrow> validated_claim list option" where
  "validateClaims claims allowEmpty = do {
     require (\<not> ((\<not> allowEmpty \<and> length claims = 0) \<or> length claims > 100));
     validate_each [] claims }"

section \<open>The calculation\<close>

record confidence_lowering =
  lw_from :: confidence
  lw_to :: confidence
  lw_reason :: truth_reason

record confidence_result =
  cr_rule :: jstr
  cr_confidence :: confidence
  cr_strongestSupportingConfidence :: confidence
  cr_strongestSupportingClaimIds :: "jstr list"
  cr_selectedValidClaimIds :: "jstr list"
  cr_excludedInvalidClaimIds :: "jstr list"
  cr_validSupportCount :: nat
  cr_countBoostApplied :: bool
  cr_humanLowered :: bool
  cr_lowering :: "confidence_lowering option"

record lowering_request =
  lr_confidence :: jstr
  lr_reason :: jsval

definition ACCEPTED_FACT_CONFIDENCE_RULE :: jstr where
  "ACCEPTED_FACT_CONFIDENCE_RULE = js ''strongest-selected-valid-claim.v1''"

definition strongest_rank :: "validated_claim list \<Rightarrow> nat" where
  "strongest_rank claims = foldl max 0 (map (\<lambda>c. confidence_rank (vc_confidence c)) claims)"

definition unlowered_result :: "validated_claim list \<Rightarrow> confidence \<Rightarrow> confidence_result" where
  "unlowered_result claims strongest =
     (let validClaims = filter vc_valid claims in
      \<lparr>cr_rule = ACCEPTED_FACT_CONFIDENCE_RULE, cr_confidence = strongest,
       cr_strongestSupportingConfidence = strongest,
       cr_strongestSupportingClaimIds =
         sort (map vc_claimId (filter (\<lambda>c. vc_confidence c = strongest) validClaims)),
       cr_selectedValidClaimIds = sort (map vc_claimId validClaims),
       cr_excludedInvalidClaimIds = sort (map vc_claimId (filter (\<lambda>c. \<not> vc_valid c) claims)),
       cr_validSupportCount = length validClaims, cr_countBoostApplied = False,
       cr_humanLowered = False, cr_lowering = None\<rparr>)"

definition lowered_result ::
  "confidence_result \<Rightarrow> confidence \<Rightarrow> truth_reason \<Rightarrow> confidence_result" where
  "lowered_result r to reason =
     r\<lparr>cr_confidence := to, cr_humanLowered := True,
       cr_lowering := Some \<lparr>lw_from = cr_strongestSupportingConfidence r, lw_to = to,
         lw_reason = reason\<rparr>\<rparr>"

definition calculateAcceptedFactConfidence ::
  "(jstr \<Rightarrow> jstr) \<Rightarrow> selected_claim list \<Rightarrow> lowering_request option \<Rightarrow> confidence_result option" where
  "calculateAcceptedFactConfidence nfc selectedClaims requestedLowering = do {
     claims \<leftarrow> validateClaims selectedClaims False;
     let validClaims = filter vc_valid claims;
     require (length validClaims \<noteq> 0);
     let strongestRank = strongest_rank validClaims;
     strongest \<leftarrow> confidenceAtRank strongestRank;
     let result = unlowered_result claims strongest;
     (case requestedLowering of
        None \<Rightarrow> Some result
      | Some requested \<Rightarrow> do {
          to \<leftarrow> confidence_of (lr_confidence requested);
          require (\<not> confidence_rank to \<ge> strongestRank);
          reason \<leftarrow> parseTruthLifecycleReason nfc ConfidenceLoweringKind (lr_reason requested);
          Some (lowered_result result to reason) }) }"

record support_assessment =
  sa_recordedConfidence :: confidence
  sa_strongestActiveSupport :: "confidence option"
  sa_sustained :: bool
  sa_recomputedStoredConfidence :: bool
  sa_activeValidClaimIds :: "jstr list"

definition assessRecordedConfidenceSupport ::
  "jstr \<Rightarrow> selected_claim list \<Rightarrow> support_assessment option" where
  "assessRecordedConfidenceSupport recordedConfidence activeClaims = do {
     recorded \<leftarrow> confidence_of recordedConfidence;
     claims \<leftarrow> validateClaims activeClaims True;
     let active = filter vc_valid claims;
     strongest \<leftarrow> (if length active = 0 then Some None
                  else map_option Some (confidenceAtRank (strongest_rank active)));
     Some \<lparr>sa_recordedConfidence = recorded, sa_strongestActiveSupport = strongest,
       sa_sustained = (case strongest of None \<Rightarrow> False
                       | Some c \<Rightarrow> confidence_rank c \<ge> confidence_rank recorded),
       sa_recomputedStoredConfidence = False,
       sa_activeValidClaimIds = sort (map vc_claimId active)\<rparr> }"

section \<open>Lemmas\<close>

lemma validate_each_spec:
  "validate_each seen cs = Some vs \<Longrightarrow>
     map vc_claimId vs = map sc_claimId cs \<and> map vc_valid vs = map sc_valid cs \<and>
     map (\<lambda>v. confidence_string (vc_confidence v)) vs = map sc_confidence cs \<and>
     distinct (map sc_claimId cs) \<and> set (map sc_claimId cs) \<inter> set seen = {} \<and>
     list_all uuid_v7 (map sc_claimId cs)"
proof (induction seen cs arbitrary: vs rule: validate_each.induct)
  case (2 seen c cs)
  obtain rest conf where r: "validate_each (sc_claimId c # seen) cs = Some rest"
    and a: "uuid_v7 (sc_claimId c)" "sc_claimId c \<notin> set seen" "sc_confidence c = confidence_string conf"
    and vs: "vs = \<lparr>vc_claimId = sc_claimId c, vc_confidence = conf, vc_valid = sc_valid c\<rparr> # rest"
    using "2.prems" by (auto simp: bind_Some_iff accept_simps)
  have "requireUuidV7 (JStr (sc_claimId c)) = Some (sc_claimId c)" using a by (simp add: accept_simps)
  from "2.IH"[OF this _ _ r, of "()"] a show ?case
    by (simp add: vs confidence_of_Some_iff)
qed simp

lemma validate_each_complete:
  "distinct (map sc_claimId cs) \<Longrightarrow> set (map sc_claimId cs) \<inter> set seen = {} \<Longrightarrow>
   list_all (\<lambda>c. uuid_v7 (sc_claimId c) \<and> confidence_of (sc_confidence c) \<noteq> None) cs \<Longrightarrow>
   \<exists>vs. validate_each seen cs = Some vs"
proof (induction cs arbitrary: seen)
  case (Cons c cs)
  then obtain vs where "validate_each (sc_claimId c # seen) cs = Some vs" by fastforce
  moreover have "requireUuidV7 (JStr (sc_claimId c)) = Some (sc_claimId c)"
    using Cons.prems by (simp add: accept_simps)
  ultimately show ?case using Cons.prems by auto
qed simp

lemma strongest_rank_Max:
  assumes "cs \<noteq> []"
  shows "strongest_rank cs = confidence_rank (Max (vc_confidence ` set cs))"
proof -
  have m: "mono confidence_rank" by (simp add: mono_def less_eq_confidence_def)
  have "strongest_rank cs = Max (insert 0 (confidence_rank ` vc_confidence ` set cs))"
    by (simp add: strongest_rank_def foldl_max_Max image_image)
  also have "\<dots> = Max (confidence_rank ` vc_confidence ` set cs)"
    using assms by (simp add: max_def)
  also have "\<dots> = confidence_rank (Max (vc_confidence ` set cs))"
    using mono_Max_commute[OF m, of "vc_confidence ` set cs"] assms by simp
  finally show ?thesis .
qed

lemma sorted_distinct_ids:
  "distinct (map vc_claimId vs) \<Longrightarrow> sorted_wrt (<) (sort (map vc_claimId (filter P vs)))"
  by (simp add: sorted_distinct_strict distinct_map_filter)

definition strongest_of :: "validated_claim list \<Rightarrow> confidence" where
  "strongest_of vs = Max (vc_confidence ` set (filter vc_valid vs))"

lemma calculate_None_iff:
  "calculateAcceptedFactConfidence nfc cs None = Some r \<longleftrightarrow>
     (\<exists>vs. validateClaims cs False = Some vs \<and> filter vc_valid vs \<noteq> [] \<and>
        r = unlowered_result vs (strongest_of vs))"
  by (auto simp: calculateAcceptedFactConfidence_def Let_def bind_Some_iff strongest_of_def
      strongest_rank_Max simp del: confidenceAtRank.simps set_filter)

lemma calculate_Some_iff:
  "calculateAcceptedFactConfidence nfc cs (Some l) = Some r \<longleftrightarrow>
     (\<exists>r0 to reason. calculateAcceptedFactConfidence nfc cs None = Some r0 \<and>
        lr_confidence l = confidence_string to \<and> to < cr_confidence r0 \<and>
        parseTruthLifecycleReason nfc ConfidenceLoweringKind (lr_reason l) = Some reason \<and>
        r = lowered_result r0 to reason)"
proof -
  have u: "cr_confidence (unlowered_result vs c) = c" for vs c
    by (simp add: unlowered_result_def Let_def)
  show ?thesis
    by (auto simp: calculateAcceptedFactConfidence_def Let_def bind_Some_iff u
        strongest_rank_Max confidence_of_Some_iff less_confidence_def not_le
        simp del: confidenceAtRank.simps set_filter)
qed

lemma validateClaims_spec:
  assumes "validateClaims cs e = Some vs"
  shows "map vc_claimId vs = map sc_claimId cs" "map vc_valid vs = map sc_valid cs"
    "map (\<lambda>v. confidence_string (vc_confidence v)) vs = map sc_confidence cs"
    "distinct (map sc_claimId cs)" "list_all uuid_v7 (map sc_claimId cs)" "length cs \<le> 100"
  using assms validate_each_spec[of "[]" cs vs] by (auto simp: validateClaims_def)

lemma map_triple: "map (\<lambda>x. (f x, g x, h x)) xs = zip (map f xs) (zip (map g xs) (map h xs))"
  by (induction xs) auto

lemma some_valid:
  fixes vs :: "validated_claim list" and cs :: "selected_claim list"
  assumes "map vc_valid vs = map sc_valid cs"
  shows "filter vc_valid vs \<noteq> [] \<longleftrightarrow> list_ex sc_valid cs"
proof -
  have "filter P xs \<noteq> [] \<longleftrightarrow> list_ex (\<lambda>b. b) (map P xs)" for P and xs :: "validated_claim list"
    by (induction xs) auto
  moreover have "list_ex P xs \<longleftrightarrow> list_ex (\<lambda>b. b) (map P xs)" for P and xs :: "selected_claim list"
    by (induction xs) auto
  ultimately show ?thesis using assms by metis
qed

lemma validateClaims_zip:
  assumes "validateClaims cs e = Some vs"
  shows "(\<lambda>v. (vc_claimId v, confidence_string (vc_confidence v), vc_valid v)) ` set vs =
    (\<lambda>c. (sc_claimId c, sc_confidence c, sc_valid c)) ` set cs"
proof -
  note s = validateClaims_spec[OF assms]
  have "map (\<lambda>v. (vc_claimId v, confidence_string (vc_confidence v), vc_valid v)) vs =
    map (\<lambda>c. (sc_claimId c, sc_confidence c, sc_valid c)) cs"
    using s(1-3) by (simp only: map_triple)
  from arg_cong[OF this, of set] show ?thesis by (simp only: set_map)
qed

lemma valid_confidences:
  assumes "validateClaims cs e = Some vs"
  shows "vc_confidence ` set (filter vc_valid vs) =
    {k. \<exists>c\<in>set cs. sc_valid c \<and> sc_confidence c = confidence_string k}"
proof -
  note z = validateClaims_zip[OF assms]
  show ?thesis
  proof (intro set_eqI iffI)
    fix k assume "k \<in> vc_confidence ` set (filter vc_valid vs)"
    then obtain v where "v \<in> set vs" "vc_valid v" "k = vc_confidence v" by auto
    then have "(vc_claimId v, confidence_string k, True) \<in>
      (\<lambda>c. (sc_claimId c, sc_confidence c, sc_valid c)) ` set cs"
      by (subst z[symmetric]) (auto intro!: image_eqI[of _ _ v])
    then show "k \<in> {k. \<exists>c\<in>set cs. sc_valid c \<and> sc_confidence c = confidence_string k}" by force
  next
    fix k assume "k \<in> {k. \<exists>c\<in>set cs. sc_valid c \<and> sc_confidence c = confidence_string k}"
    then obtain c where c: "c \<in> set cs" "sc_valid c" "sc_confidence c = confidence_string k" by auto
    then have "(sc_claimId c, confidence_string k, True) \<in>
      (\<lambda>v. (vc_claimId v, confidence_string (vc_confidence v), vc_valid v)) ` set vs"
      by (subst z) (auto intro!: image_eqI[of _ _ c])
    then show "k \<in> vc_confidence ` set (filter vc_valid vs)"
      using confidence_string_inj by (auto simp: inj_eq)
  qed
qed

definition example_claims :: "selected_claim list" where
  "example_claims =
     [\<lparr>sc_claimId = example_id 1, sc_confidence = js ''weak'', sc_valid = True\<rparr>,
      \<lparr>sc_claimId = example_id 2, sc_confidence = js ''strong'', sc_valid = True\<rparr>,
      \<lparr>sc_claimId = example_id 3, sc_confidence = js ''confirmed'', sc_valid = False\<rparr>]"

lemma requireUuidV7_example [simp]: "n < 10 \<Longrightarrow> requireUuidV7 (JStr (example_id n)) = Some (example_id n)"
  by (simp add: accept_simps)

lemma confidence_of_literals [simp]:
  "confidence_of (js ''weak'') = Some Weak" "confidence_of (js ''strong'') = Some Strong"
  "confidence_of (js ''confirmed'') = Some Confirmed" "confidence_of (js ''unknown'') = Some Unknown"
  by (simp_all add: confidence_of_Some_iff)

lemma validate_example:
  "validateClaims example_claims e = Some
     [\<lparr>vc_claimId = example_id 1, vc_confidence = Weak, vc_valid = True\<rparr>,
      \<lparr>vc_claimId = example_id 2, vc_confidence = Strong, vc_valid = True\<rparr>,
      \<lparr>vc_claimId = example_id 3, vc_confidence = Confirmed, vc_valid = False\<rparr>]"
  by (simp add: validateClaims_def example_claims_def)

lemma calculate_example:
  "\<exists>r. calculateAcceptedFactConfidence nfc example_claims None = Some r \<and> cr_confidence r = Strong"
  by (simp add: calculateAcceptedFactConfidence_def Let_def validate_example strongest_rank_def
      unlowered_result_def)

section \<open>The promises\<close>

text \<open>The confidence of an accepted fact without lowering is exactly the greatest confidence
  among its valid claims; invalid claims and the number of claims never raise it.\<close>
theorem accepted_confidence_is_strongest:
  assumes "calculateAcceptedFactConfidence nfc cs None = Some r"
  shows "(\<exists>c\<in>set cs. sc_valid c \<and> sc_confidence c = confidence_string (cr_confidence r)) \<and>
    (\<forall>c\<in>set cs. sc_valid c \<longrightarrow>
       (\<exists>k. sc_confidence c = confidence_string k \<and> k \<le> cr_confidence r))"
proof -
  obtain vs where v: "validateClaims cs False = Some vs" "filter vc_valid vs \<noteq> []"
    "cr_confidence r = strongest_of vs"
    using assms by (auto simp: calculate_None_iff unlowered_result_def Let_def)
  let ?K = "{k. \<exists>c\<in>set cs. sc_valid c \<and> sc_confidence c = confidence_string k}"
  have K: "vc_confidence ` set (filter vc_valid vs) = ?K" by (rule valid_confidences[OF v(1)])
  have fin: "finite ?K" "?K \<noteq> {}" unfolding K[symmetric] using v(2) by (auto simp: filter_empty_conv)
  have m: "cr_confidence r = Max ?K" using v(3) K unfolding strongest_of_def by metis
  have "cr_confidence r \<in> ?K" unfolding m using Max_in fin by blast
  moreover have "k \<in> ?K \<Longrightarrow> k \<le> cr_confidence r" for k unfolding m using fin by simp
  moreover have "\<exists>k. sc_confidence c = confidence_string k" if "c \<in> set cs" for c
  proof -
    have "(sc_claimId c, sc_confidence c, sc_valid c) \<in>
      (\<lambda>v. (vc_claimId v, confidence_string (vc_confidence v), vc_valid v)) ` set vs"
      unfolding validateClaims_zip[OF v(1)] using that by blast
    then show ?thesis by auto
  qed
  ultimately show ?thesis by blast
qed

lemma accepted_confidence_is_strongest_witness:
  "\<exists>r. calculateAcceptedFactConfidence (\<lambda>s. s) example_claims None = Some r \<and>
     cr_confidence r = Strong \<and>
     (\<exists>c\<in>set example_claims. sc_valid c \<and> sc_confidence c = confidence_string Strong)"
proof -
  obtain r where r: "calculateAcceptedFactConfidence (\<lambda>s. s) example_claims None = Some r"
    "cr_confidence r = Strong"
    using calculate_example by blast
  show ?thesis using accepted_confidence_is_strongest[OF r(1)] r by auto
qed

text \<open>A human lowering is accepted only if it is strictly below the strongest valid claim and
  carries a valid reason; it changes the confidence and records both ends, and nothing else.\<close>
theorem confidence_lowering_strict:
  assumes "calculateAcceptedFactConfidence nfc cs (Some l) = Some r"
  shows "\<exists>r0 reason. calculateAcceptedFactConfidence nfc cs None = Some r0 \<and>
    cr_confidence r < cr_confidence r0 \<and> cr_humanLowered r \<and>
    cr_lowering r = Some \<lparr>lw_from = cr_confidence r0, lw_to = cr_confidence r, lw_reason = reason\<rparr> \<and>
    parseTruthLifecycleReason nfc ConfidenceLoweringKind (lr_reason l) = Some reason \<and>
    cr_selectedValidClaimIds r = cr_selectedValidClaimIds r0 \<and>
    cr_strongestSupportingClaimIds r = cr_strongestSupportingClaimIds r0"
proof -
  obtain r0 to reason where *: "calculateAcceptedFactConfidence nfc cs None = Some r0"
    "to < cr_confidence r0" "r = lowered_result r0 to reason"
    "parseTruthLifecycleReason nfc ConfidenceLoweringKind (lr_reason l) = Some reason"
    using assms unfolding calculate_Some_iff by blast
  have "cr_strongestSupportingConfidence r0 = cr_confidence r0"
    using *(1) by (auto simp: calculate_None_iff unlowered_result_def Let_def)
  then show ?thesis using * by (intro exI[of _ r0] exI[of _ reason]) (simp add: lowered_result_def)
qed

lemma confidence_lowering_strict_witness:
  "\<exists>r r0. calculateAcceptedFactConfidence (\<lambda>s. s) example_claims (Some \<lparr>lr_confidence = js ''weak'',
       lr_reason = reason_value (HumanReason (js ''evidence_quality'') (js ''ab''))\<rparr>) = Some r \<and>
     calculateAcceptedFactConfidence (\<lambda>s. s) example_claims None = Some r0 \<and>
     cr_confidence r < cr_confidence r0"
proof -
  let ?l = "\<lparr>lr_confidence = js ''weak'',
       lr_reason = reason_value (HumanReason (js ''evidence_quality'') (js ''ab''))\<rparr>"
  obtain r0 where r0: "calculateAcceptedFactConfidence (\<lambda>s. s) example_claims None = Some r0"
    "cr_confidence r0 = Strong"
    using calculate_example by blast
  have "canonical_rationale (\<lambda>s. s) (js ''ab'')"
    by (simp add: canonical_rationale_def js_def trim_def trim_end_def is_whitespace_def
        unicodeScalarLength_def is_high_def is_low_def)
  then have "parseTruthLifecycleReason (\<lambda>s. s) ConfidenceLoweringKind (lr_reason ?l) =
      Some (HumanReason (js ''evidence_quality'') (js ''ab''))"
    by (simp add: parseHumanReason_def accept_simps bind_Some_iff CONFIDENCE_LOWERING_REASON_CODES_def)
  then obtain r where "calculateAcceptedFactConfidence (\<lambda>s. s) example_claims (Some ?l) = Some r"
    using r0 by (auto simp: calculate_Some_iff less_confidence_def)
       (metis confidence_string.simps(2) confidence_rank.simps(2,3) one_less_numeral_iff semiring_norm(76))
  then show ?thesis using confidence_lowering_strict[of "\<lambda>s. s" example_claims ?l r] by blast
qed

text \<open>The calculation succeeds exactly on 1 to 100 claims with distinct UUIDv7 ids and known
  confidences of which one is valid, and then lists the valid ids once each, in order.\<close>
theorem accepted_confidence_total:
  "(\<exists>r. calculateAcceptedFactConfidence nfc cs None = Some r) \<longleftrightarrow>
     length cs \<le> 100 \<and> distinct (map sc_claimId cs) \<and>
     list_all (\<lambda>c. uuid_v7 (sc_claimId c) \<and> confidence_of (sc_confidence c) \<noteq> None) cs \<and>
     list_ex sc_valid cs"
proof
  assume "\<exists>r. calculateAcceptedFactConfidence nfc cs None = Some r"
  then obtain vs where v: "validateClaims cs False = Some vs" "filter vc_valid vs \<noteq> []"
    by (auto simp: calculate_None_iff)
  note s = validateClaims_spec[OF v(1)]
  have "list_ex sc_valid cs"
    using v(2) some_valid[OF s(2)] by blast
  moreover have "confidence_of (sc_confidence c) \<noteq> None" if "c \<in> set cs" for c
  proof -
    have "sc_confidence c \<in> set (map (\<lambda>v. confidence_string (vc_confidence v)) vs)"
      unfolding s(3) using that by simp
    then show ?thesis by auto
  qed
  ultimately show "length cs \<le> 100 \<and> distinct (map sc_claimId cs) \<and>
     list_all (\<lambda>c. uuid_v7 (sc_claimId c) \<and> confidence_of (sc_confidence c) \<noteq> None) cs \<and>
     list_ex sc_valid cs"
    using s(4-6) by (auto simp: list_all_iff simp del: not_None_eq)
next
  assume *: "length cs \<le> 100 \<and> distinct (map sc_claimId cs) \<and>
     list_all (\<lambda>c. uuid_v7 (sc_claimId c) \<and> confidence_of (sc_confidence c) \<noteq> None) cs \<and>
     list_ex sc_valid cs"
  then obtain vs where "validate_each [] cs = Some vs" using validate_each_complete[of cs "[]"] by auto
  then have v: "validateClaims cs False = Some vs" using * by (auto simp: validateClaims_def)
  have "filter vc_valid vs \<noteq> []"
    using * some_valid[OF validateClaims_spec(2)[OF v]] by blast
  then show "\<exists>r. calculateAcceptedFactConfidence nfc cs None = Some r"
    using v by (auto simp: calculate_None_iff)
qed

text \<open>A recorded confidence is sustained exactly when some active valid claim is at least as
  strong, and the assessment never changes the recorded confidence.\<close>
theorem support_sustained_iff:
  assumes "assessRecordedConfidenceSupport recorded cs = Some a"
  shows "recorded = confidence_string (sa_recordedConfidence a) \<and>
    (sa_sustained a \<longleftrightarrow> (\<exists>c\<in>set cs. sc_valid c \<and>
       (\<exists>k. sc_confidence c = confidence_string k \<and> sa_recordedConfidence a \<le> k)))"
proof -
  obtain vs rc where v: "validateClaims cs True = Some vs" "recorded = confidence_string rc"
    and a: "sa_recordedConfidence a = rc"
    "sa_sustained a = (filter vc_valid vs \<noteq> [] \<and> rc \<le> strongest_of vs)"
    using assms
    by (auto simp: assessRecordedConfidenceSupport_def Let_def bind_Some_iff confidence_of_Some_iff
        strongest_rank_Max strongest_of_def less_eq_confidence_def
        simp del: confidenceAtRank.simps set_filter split: if_splits)
  let ?K = "{k. \<exists>c\<in>set cs. sc_valid c \<and> sc_confidence c = confidence_string k}"
  have K: "vc_confidence ` set (filter vc_valid vs) = ?K" by (rule valid_confidences[OF v(1)])
  have e: "filter vc_valid vs = [] \<longleftrightarrow> ?K = {}"
    unfolding K[symmetric] by (auto simp: filter_empty_conv)
  have fin: "finite ?K" unfolding K[symmetric] by simp
  have st: "strongest_of vs = Max ?K" unfolding strongest_of_def K ..
  have "sa_sustained a \<longleftrightarrow> (\<exists>k\<in>?K. rc \<le> k)"
  proof (cases "?K = {}")
    case False
    then show ?thesis unfolding a(2) e st using Max_ge_iff[OF fin False] by simp
  next
    case True
    then show ?thesis unfolding a(2) e by simp
  qed
  then show ?thesis using v(2) a(1) by auto
qed

lemma support_sustained_iff_witness:
  "\<exists>a. assessRecordedConfidenceSupport (js ''weak'') example_claims = Some a \<and>
     (sa_sustained a \<longleftrightarrow> (\<exists>c\<in>set example_claims. sc_valid c \<and>
       (\<exists>k. sc_confidence c = confidence_string k \<and> sa_recordedConfidence a \<le> k)))"
proof -
  obtain a where a: "assessRecordedConfidenceSupport (js ''weak'') example_claims = Some a"
    by (simp add: assessRecordedConfidenceSupport_def Let_def validate_example strongest_rank_def)
  show ?thesis using support_sustained_iff[OF a] a by blast
qed

end
