(* ===== verification/Predicate_Registry.thy ===== *)
theory Predicate_Registry
  imports Validation
begin

text \<open>
  \<open>packages/truth-ledger/src/predicate-registry.ts\<close>: the two truth predicates, their canonical
  text values and the rules attached to each predicate.
\<close>

section \<open>Canonical text\<close>

definition CANONICAL_PREDICATE_TEXT_MAX_SCALARS :: nat where
  "CANONICAL_PREDICATE_TEXT_MAX_SCALARS = 2000"

definition forbidden_scalar :: "jstr \<Rightarrow> bool" where
  "forbidden_scalar c \<longleftrightarrow>
     (code_point c < 32 \<and> code_point c \<noteq> 9 \<and> code_point c \<noteq> 10) \<or> code_point c = 127"

definition canonicalizePredicateText :: "(jstr \<Rightarrow> jstr) \<Rightarrow> jstr \<Rightarrow> jstr option" where
  "canonicalizePredicateText nfc input = do {
     require (isUnicodeScalarString input);
     let canonical = trim (nfc (replace_newlines input));
     n \<leftarrow> unicodeScalarLength canonical;
     require (\<not> (n < 1 \<or> n > CANONICAL_PREDICATE_TEXT_MAX_SCALARS \<or>
                list_ex forbidden_scalar (array_from canonical)));
     Some canonical }"

definition parseCanonicalPredicateText :: "(jstr \<Rightarrow> jstr) \<Rightarrow> jsval \<Rightarrow> jstr option" where
  "parseCanonicalPredicateText nfc input = do {
     s \<leftarrow> requireString input;
     canonical \<leftarrow> canonicalizePredicateText nfc s;
     require (canonical = s);
     Some canonical }"

definition textEquals :: "(jstr \<Rightarrow> jstr) \<Rightarrow> jstr \<Rightarrow> jstr \<Rightarrow> bool option" where
  "textEquals nfc left right = do {
     l \<leftarrow> parseCanonicalPredicateText nfc (JStr left);
     r \<leftarrow> parseCanonicalPredicateText nfc (JStr right);
     Some (l = r) }"

definition textConflicts :: "(jstr \<Rightarrow> jstr) \<Rightarrow> jstr \<Rightarrow> jstr \<Rightarrow> bool option" where
  "textConflicts nfc left right = map_option Not (textEquals nfc left right)"

section \<open>The registry\<close>

datatype truth_predicate = ActivityOutcome | PrimaryObjective

fun predicate_string :: "truth_predicate \<Rightarrow> jstr" where
  "predicate_string ActivityOutcome = js ''activity.outcome''"
| "predicate_string PrimaryObjective = js ''initiative.primary_objective''"

definition B2_TRUTH_PREDICATES :: "truth_predicate list" where
  "B2_TRUTH_PREDICATES = [ActivityOutcome, PrimaryObjective]"

datatype subject_kind = ActivitySubject | InitiativeSubject

fun subject_string :: "subject_kind \<Rightarrow> jstr" where
  "subject_string ActivitySubject = js ''activity''"
| "subject_string InitiativeSubject = js ''initiative''"

datatype slot_policy = MultipleOpen | SingleOpen
datatype authority_scope = ActivityOwner | InitiativeOwner
datatype view_section = ActivityOutcomesSection | PrimaryObjectiveSection

record review_visibility =
  claimConflict_visibleWhen :: jstr
  claimConflict_challengerRequired :: bool
  sourceCorrection_visibleWhen :: jstr
  sourceCorrection_challengerRequired :: bool
  supportInvalidation_visibleWhen :: jstr
  supportInvalidation_challengerRequired :: bool

record view_treatment =
  viewType :: jstr
  includeStatuses :: "jstr list"
  reviewVisibilityByBasis :: review_visibility
  excludeStatuses :: "jstr list"
  viewSection :: view_section

record predicate_definition =
  pd_predicate :: truth_predicate
  pd_allowedSubjectKind :: subject_kind
  pd_parse :: "jsval \<Rightarrow> jstr option"
  pd_canonicalize :: "jstr \<Rightarrow> jstr option"
  pd_equals :: "jstr \<Rightarrow> jstr \<Rightarrow> bool option"
  pd_conflicts :: "jstr \<Rightarrow> jstr \<Rightarrow> bool option"
  pd_proposalSlotPolicy :: slot_policy
  pd_authorityScope :: authority_scope
  pd_deterministicViewTreatment :: view_treatment

definition review_visibility_by_basis :: review_visibility where
  "review_visibility_by_basis = \<lparr>
     claimConflict_visibleWhen = js ''challenger_and_conflict_are_authorized_for_audience'',
     claimConflict_challengerRequired = True,
     sourceCorrection_visibleWhen = js ''review_basis_is_authorized_for_audience'',
     sourceCorrection_challengerRequired = False,
     supportInvalidation_visibleWhen = js ''review_basis_is_authorized_for_audience'',
     supportInvalidation_challengerRequired = False\<rparr>"

definition shared_view_treatment :: "view_section \<Rightarrow> view_treatment" where
  "shared_view_treatment s = \<lparr>viewType = js ''initiative_summary'',
     includeStatuses = [js ''current'', js ''contested''],
     reviewVisibilityByBasis = review_visibility_by_basis,
     excludeStatuses = [js ''superseded'', js ''revoked''], viewSection = s\<rparr>"

fun registry :: "(jstr \<Rightarrow> jstr) \<Rightarrow> truth_predicate \<Rightarrow> predicate_definition" where
  "registry nfc ActivityOutcome = \<lparr>pd_predicate = ActivityOutcome,
     pd_allowedSubjectKind = ActivitySubject, pd_parse = parseCanonicalPredicateText nfc,
     pd_canonicalize = canonicalizePredicateText nfc, pd_equals = textEquals nfc,
     pd_conflicts = textConflicts nfc, pd_proposalSlotPolicy = MultipleOpen,
     pd_authorityScope = ActivityOwner,
     pd_deterministicViewTreatment = shared_view_treatment ActivityOutcomesSection\<rparr>"
| "registry nfc PrimaryObjective = \<lparr>pd_predicate = PrimaryObjective,
     pd_allowedSubjectKind = InitiativeSubject, pd_parse = parseCanonicalPredicateText nfc,
     pd_canonicalize = canonicalizePredicateText nfc, pd_equals = textEquals nfc,
     pd_conflicts = textConflicts nfc, pd_proposalSlotPolicy = SingleOpen,
     pd_authorityScope = InitiativeOwner,
     pd_deterministicViewTreatment = shared_view_treatment PrimaryObjectiveSection\<rparr>"

definition resolvePredicateDefinition ::
  "(jstr \<Rightarrow> jstr) \<Rightarrow> jsval \<Rightarrow> jsval \<Rightarrow> predicate_definition option" where
  "resolvePredicateDefinition nfc predicate subjectKind = do {
     p \<leftarrow> requireEnum predicate_string B2_TRUTH_PREDICATES predicate;
     let d = registry nfc p;
     require (\<not> (subjectKind \<noteq> JUndef \<and> JStr (subject_string (pd_allowedSubjectKind d)) \<noteq> subjectKind));
     Some d }"

record assertion =
  as_predicate :: truth_predicate
  as_canonicalValue :: jstr
  as_normalizedText :: jstr

definition parsePredicateAssertion ::
  "(jstr \<Rightarrow> jstr) \<Rightarrow> jsval \<Rightarrow> jsval \<Rightarrow> jsval \<Rightarrow> jsval \<Rightarrow> assertion option" where
  "parsePredicateAssertion nfc predicate subjectKind canonicalValue normalizedText = do {
     d \<leftarrow> resolvePredicateDefinition nfc predicate subjectKind;
     v \<leftarrow> pd_parse d canonicalValue;
     t \<leftarrow> pd_parse d normalizedText;
     same \<leftarrow> pd_equals d v t;
     require same;
     Some \<lparr>as_predicate = pd_predicate d, as_canonicalValue = v, as_normalizedText = t\<rparr> }"

section \<open>Lemmas\<close>

lemma predicate_string_inj [simp]: "inj predicate_string"
  by (rule injI) (rename_tac a b, case_tac a; case_tac b; simp)

lemma subject_string_inj [simp]: "inj subject_string"
  by (rule injI) (rename_tac a b, case_tac a; case_tac b; simp)

lemma mem_predicates [simp]: "p \<in> set B2_TRUTH_PREDICATES"
  by (cases p) (simp_all add: B2_TRUTH_PREDICATES_def)

fun allowed_subject :: "truth_predicate \<Rightarrow> subject_kind" where
  "allowed_subject ActivityOutcome = ActivitySubject"
| "allowed_subject PrimaryObjective = InitiativeSubject"

lemma registry_fields [simp]:
  "pd_predicate (registry nfc p) = p" "pd_parse (registry nfc p) = parseCanonicalPredicateText nfc"
  "pd_equals (registry nfc p) = textEquals nfc" "pd_conflicts (registry nfc p) = textConflicts nfc"
  "pd_allowedSubjectKind (registry nfc p) = allowed_subject p"
  by (cases p; simp)+

definition canonical_text :: "(jstr \<Rightarrow> jstr) \<Rightarrow> jstr \<Rightarrow> bool" where
  "canonical_text nfc s \<longleftrightarrow> parseCanonicalPredicateText nfc (JStr s) = Some s"

lemma parseCanonicalPredicateText_Some_iff [accept_simps]:
  "parseCanonicalPredicateText nfc v = Some s \<longleftrightarrow> v = JStr s \<and> canonical_text nfc s"
  by (auto simp: canonical_text_def parseCanonicalPredicateText_def bind_Some_iff)

lemma textEquals_Some_iff [accept_simps]:
  "textEquals nfc l r = Some b \<longleftrightarrow> canonical_text nfc l \<and> canonical_text nfc r \<and> b = (l = r)"
  by (auto simp: textEquals_def bind_Some_iff accept_simps)

lemma resolvePredicateDefinition_Some_iff [accept_simps]:
  "resolvePredicateDefinition nfc v k = Some d \<longleftrightarrow>
     (\<exists>p. v = JStr (predicate_string p) \<and> d = registry nfc p \<and>
        (k = JUndef \<or> k = JStr (subject_string (allowed_subject p))))"
  by (auto simp: resolvePredicateDefinition_def Let_def bind_Some_iff requireEnum_Some_iff)

lemma parsePredicateAssertion_Some_iff [accept_simps]:
  "parsePredicateAssertion nfc p k v t = Some a \<longleftrightarrow>
     p = JStr (predicate_string (as_predicate a)) \<and>
     (k = JUndef \<or> k = JStr (subject_string (allowed_subject (as_predicate a)))) \<and>
     v = JStr (as_canonicalValue a) \<and> t = JStr (as_normalizedText a) \<and>
     canonical_text nfc (as_canonicalValue a) \<and> as_canonicalValue a = as_normalizedText a"
  by (cases a) (auto simp: parsePredicateAssertion_def bind_Some_iff accept_simps)

lemma code_point_small_mem:
  "u \<in> set s \<Longrightarrow> u < 0xD800 \<Longrightarrow> \<exists>c\<in>set (array_from s). code_point c = u"
proof (induction s rule: array_from.induct)
  case (3 a b r)
  then show ?case by (auto simp: is_high_def is_low_def)
qed auto

lemma canonical_no_cr:
  "\<not> list_ex forbidden_scalar (array_from s) \<Longrightarrow> 13 \<notin> set s"
  using code_point_small_mem[of 13 s] by (fastforce simp: list_ex_iff forbidden_scalar_def)

lemma no_cr_replace_newlines: "13 \<notin> set s \<Longrightarrow> replace_newlines s = s"
  by (induction s rule: replace_newlines.induct) auto

lemma canonicalizePredicateText_canonical:
  assumes nfc: "\<And>t. nfc (trim (nfc t)) = trim (nfc t)"
    and c: "canonicalizePredicateText nfc s = Some c"
  shows "canonical_text nfc c"
proof -
  have a: "c = trim (nfc (replace_newlines s))" "\<not> list_ex forbidden_scalar (array_from c)"
    "isUnicodeScalarString c"
    using c by (auto simp: canonicalizePredicateText_def Let_def bind_Some_iff unicodeScalarLength_def
        split: if_splits)
  have "trim (nfc (replace_newlines c)) = c"
    using a(1) nfc no_cr_replace_newlines[OF canonical_no_cr[OF a(2)]] by simp
  then show ?thesis using a c
    by (auto simp: canonical_text_def parseCanonicalPredicateText_def canonicalizePredicateText_def
        Let_def bind_Some_iff)
qed

lemma canonical_text_iff:
  assumes nfc: "\<And>t. nfc (trim (nfc t)) = trim (nfc t)"
  shows "canonical_text nfc s \<longleftrightarrow> canonical_rationale nfc s"
proof -
  have "canonical_text nfc s \<longleftrightarrow> isUnicodeScalarString s \<and> trim (nfc (replace_newlines s)) = s \<and>
      \<not> (length (array_from s) < 1 \<or> length (array_from s) > 2000) \<and>
      \<not> list_ex forbidden_scalar (array_from s)"
    by (auto simp: canonical_text_def parseCanonicalPredicateText_def canonicalizePredicateText_def
        Let_def bind_Some_iff unicodeScalarLength_def CANONICAL_PREDICATE_TEXT_MAX_SCALARS_def)
  moreover have "canonical_rationale nfc s \<longleftrightarrow> isUnicodeScalarString s \<and> s = nfc s \<and> trim s = s \<and>
      \<not> (length (array_from s) < 1 \<or> length (array_from s) > 2000) \<and>
      \<not> list_ex forbidden_scalar (array_from s)"
    unfolding canonical_rationale_def forbidden_scalar_def unicodeScalarLength_def by auto
  moreover have "trim (nfc (replace_newlines s)) = s \<longleftrightarrow> s = nfc s \<and> trim s = s"
    if "\<not> list_ex forbidden_scalar (array_from s)"
  proof
    have n: "replace_newlines s = s" using no_cr_replace_newlines canonical_no_cr that by blast
    show "trim (nfc (replace_newlines s)) = s \<Longrightarrow> s = nfc s \<and> trim s = s"
      using nfc[of s] trim_idem[of "nfc s"] unfolding n by metis
    show "s = nfc s \<and> trim s = s \<Longrightarrow> trim (nfc (replace_newlines s)) = s" unfolding n by metis
  qed
  ultimately show ?thesis by blast
qed

section \<open>The promises\<close>

text \<open>Canonical predicate text is a fixed point: when the Unicode normal form of a text stays
  normal under trimming, whatever the canonicaliser returns is accepted unchanged by the
  strict parser, and canonicalising it again returns it.\<close>
theorem canonicalizePredicateText_fixed_point:
  assumes "\<And>t. nfc (trim (nfc t)) = trim (nfc t)"
    and "canonicalizePredicateText nfc s = Some c"
  shows "parseCanonicalPredicateText nfc (JStr c) = Some c \<and> canonicalizePredicateText nfc c = Some c"
  using canonicalizePredicateText_canonical[OF assms]
  by (auto simp: canonical_text_def parseCanonicalPredicateText_def bind_Some_iff)

lemma canonicalizePredicateText_fixed_point_witness:
  "parseCanonicalPredicateText (\<lambda>t. t) (JStr (js ''a'')) = Some (js ''a'') \<and>
     canonicalizePredicateText (\<lambda>t. t) (js ''a'') = Some (js ''a'')"
proof -
  have "canonicalizePredicateText (\<lambda>t. t) (js '' a'' @ [13, 10]) = Some (js ''a'')"
    by (simp add: canonicalizePredicateText_def js_def trim_def trim_end_def is_whitespace_def
        is_high_def is_low_def unicodeScalarLength_def forbidden_scalar_def
        CANONICAL_PREDICATE_TEXT_MAX_SCALARS_def)
  then show ?thesis using canonicalizePredicateText_fixed_point[of "\<lambda>t. t"] by auto
qed

text \<open>C40: A predicate assertion is accepted exactly when its predicate is registered, its subject
  kind is the one the registry allows, and value and text are the same canonical text; the
  texts admitted are those the reasons admit as a rationale.\<close>
theorem parsePredicateAssertion_accepts_iff:
  assumes "\<And>t. nfc (trim (nfc t)) = trim (nfc t)"
  shows "(\<exists>a. parsePredicateAssertion nfc p (JStr k) v t = Some a) \<longleftrightarrow>
    (\<exists>q s. p = JStr (predicate_string q) \<and> k = subject_string (pd_allowedSubjectKind (registry nfc q)) \<and>
       v = JStr s \<and> t = JStr s \<and> canonical_rationale nfc s)"
proof
  assume "\<exists>a. parsePredicateAssertion nfc p (JStr k) v t = Some a"
  then show "\<exists>q s. p = JStr (predicate_string q) \<and>
      k = subject_string (pd_allowedSubjectKind (registry nfc q)) \<and>
      v = JStr s \<and> t = JStr s \<and> canonical_rationale nfc s"
    using canonical_text_iff[of nfc] assms by (auto simp: parsePredicateAssertion_Some_iff)
next
  assume "\<exists>q s. p = JStr (predicate_string q) \<and>
      k = subject_string (pd_allowedSubjectKind (registry nfc q)) \<and>
      v = JStr s \<and> t = JStr s \<and> canonical_rationale nfc s"
  then obtain q s where "p = JStr (predicate_string q)" "k = subject_string (allowed_subject q)"
    "v = JStr s" "t = JStr s" "canonical_text nfc s"
    using canonical_text_iff[of nfc] assms by auto
  then show "\<exists>a. parsePredicateAssertion nfc p (JStr k) v t = Some a"
    by (intro exI[of _ "\<lparr>as_predicate = q, as_canonicalValue = s, as_normalizedText = s\<rparr>"])
       (simp add: parsePredicateAssertion_Some_iff)
qed

lemma parsePredicateAssertion_accepts_iff_witness:
  "\<exists>a. parsePredicateAssertion (\<lambda>t. t) (JStr (js ''activity.outcome'')) (JStr (js ''activity''))
     (JStr (js ''ab'')) (JStr (js ''ab'')) = Some a"
proof -
  have "canonical_rationale (\<lambda>s. s) (js ''ab'')"
    by (simp add: canonical_rationale_def js_def trim_def trim_end_def is_whitespace_def
        unicodeScalarLength_def is_high_def is_low_def)
  then show ?thesis
    by (subst parsePredicateAssertion_accepts_iff)
       (auto intro!: exI[of _ ActivityOutcome] exI[of _ "js ''ab''"])
qed

end
