(* ===== verification/Utf8.thy ===== *)
theory Utf8
  imports Trust_Primitives
begin

text \<open>
  UTF-8, the encoding behind every hash of a text. \<open>utf8\<close> is \<open>Buffer.from(s, "utf8")\<close>: a lone
  surrogate becomes U+FFFD. \<open>utf8_decode\<close> is the strict decoder, \<open>text_decoder\<close> the
  \<open>TextDecoder("utf-8", { fatal: true })\<close> of the code, which also drops one byte order mark.
\<close>

definition utf8_point :: "nat \<Rightarrow> nat list" where
  "utf8_point p =
     (if p < 0x80 then [p]
      else if p < 0x800 then [0xC0 + p div 0x40, 0x80 + p mod 0x40]
      else if p < 0x10000 then [0xE0 + p div 0x1000, 0x80 + p div 0x40 mod 0x40, 0x80 + p mod 0x40]
      else [0xF0 + p div 0x40000, 0x80 + p div 0x1000 mod 0x40,
            0x80 + p div 0x40 mod 0x40, 0x80 + p mod 0x40])"

definition utf8 :: "jstr \<Rightarrow> nat list" where
  "utf8 s = concat (map (\<lambda>c. utf8_point (if is_scalar c then code_point c else 0xFFFD)) (array_from s))"

definition utf16_point :: "nat \<Rightarrow> jstr" where
  "utf16_point p =
     (if p < 0x10000 then [p]
      else [0xD800 + (p - 0x10000) div 0x400, 0xDC00 + (p - 0x10000) mod 0x400])"

definition cont :: "nat \<Rightarrow> bool" where
  "cont b \<longleftrightarrow> 0x80 \<le> b \<and> b \<le> 0xBF"

definition second3 :: "nat \<Rightarrow> nat \<Rightarrow> bool" where
  "second3 a b \<longleftrightarrow> (if a = 0xE0 then 0xA0 else 0x80) \<le> b \<and> b \<le> (if a = 0xED then 0x9F else 0xBF)"

definition second4 :: "nat \<Rightarrow> nat \<Rightarrow> bool" where
  "second4 a b \<longleftrightarrow> (if a = 0xF0 then 0x90 else 0x80) \<le> b \<and> b \<le> (if a = 0xF4 then 0x8F else 0xBF)"

fun utf8_step :: "nat list \<Rightarrow> (nat \<times> nat list) option" where
  "utf8_step (a # bs) =
     (if a < 0x80 then Some (a, bs)
      else if 0xC2 \<le> a \<and> a \<le> 0xDF then
        (case bs of b # r \<Rightarrow>
           (if cont b then Some ((a - 0xC0) * 0x40 + (b - 0x80), r) else None)
         | _ \<Rightarrow> None)
      else if 0xE0 \<le> a \<and> a \<le> 0xEF then
        (case bs of b # c # r \<Rightarrow>
           (if second3 a b \<and> cont c
            then Some ((a - 0xE0) * 0x1000 + (b - 0x80) * 0x40 + (c - 0x80), r) else None)
         | _ \<Rightarrow> None)
      else if 0xF0 \<le> a \<and> a \<le> 0xF4 then
        (case bs of b # c # d # r \<Rightarrow>
           (if second4 a b \<and> cont c \<and> cont d
            then Some ((a - 0xF0) * 0x40000 + (b - 0x80) * 0x1000 + (c - 0x80) * 0x40 + (d - 0x80), r)
            else None)
         | _ \<Rightarrow> None)
      else None)"
| "utf8_step [] = None"

lemma utf8_step_shorter: "utf8_step bs = Some (p, r) \<Longrightarrow> length r < length bs"
  by (cases bs) (auto split: if_splits list.splits)

function utf8_decode :: "nat list \<Rightarrow> jstr option" where
  "utf8_decode bs =
     (if bs = [] then Some []
      else case utf8_step bs of
             None \<Rightarrow> None
           | Some (p, r) \<Rightarrow> map_option (\<lambda>s. utf16_point p @ s) (utf8_decode r))"
  by pat_completeness auto
termination
  by (relation "measure length") (auto dest: utf8_step_shorter)

declare utf8_decode.simps [simp del]

definition text_decoder :: "nat list \<Rightarrow> jstr option" where
  "text_decoder bs = map_option strip_bom (utf8_decode bs)"

lemma utf8_decode_Nil [simp]: "utf8_decode [] = Some []"
  by (subst utf8_decode.simps) simp

lemma div_digits:
  "(p::nat) div 0x1000 = p div 0x40 div 0x40" "p div 0x40000 = p div 0x40 div 0x40 div 0x40"
  by (simp_all add: div_mult2_eq[symmetric])

lemma digit: "(p::nat) = 0x40 * (p div 0x40) + p mod 0x40" "p mod 0x40 < 0x40"
  by simp_all

lemma cont_mod [simp]: "cont (0x80 + p mod 0x40)"
  using mod_less_divisor[of "0x40" p] unfolding cont_def by linarith

lemma utf8_step_point2:
  assumes "0x80 \<le> p" "p < 0x800"
  shows "utf8_step (utf8_point p @ r) = Some (p, r)"
proof -
  define q c where "q = p div 0x40" and "c = p mod 0x40"
  have p: "p = 0x40 * q + c" "c < 0x40" unfolding q_def c_def by simp_all
  then have "2 \<le> q" "q < 0x20" using assms by linarith+
  moreover have "utf8_point p = [0xC0 + q, 0x80 + c]"
    using assms unfolding q_def c_def by (simp add: utf8_point_def)
  moreover have "cont (0x80 + c)" using p unfolding cont_def by linarith
  ultimately show ?thesis using p(1) by simp
qed

lemma utf8_step_point3:
  assumes "0x800 \<le> p" "p < 0x10000" "\<not> (0xD800 \<le> p \<and> p \<le> 0xDFFF)"
  shows "utf8_step (utf8_point p @ r) = Some (p, r)"
proof -
  define q c where "q = p div 0x40" and "c = p mod 0x40"
  define a b where "a = q div 0x40" and "b = q mod 0x40"
  have p: "p = 0x40 * q + c" "c < 0x40" "q = 0x40 * a + b" "b < 0x40"
    unfolding q_def c_def a_def b_def by simp_all
  have "a < 16" using p assms by linarith
  moreover have "second3 (0xE0 + a) (0x80 + b)"
  proof -
    have "a = 0 \<Longrightarrow> 0x20 \<le> b" using p assms(1) by linarith
    moreover have "a = 13 \<Longrightarrow> b < 0x20" using p assms(3) by linarith
    ultimately show ?thesis using p(4) unfolding second3_def by auto
  qed
  moreover have "utf8_point p = [0xE0 + a, 0x80 + b, 0x80 + c]"
    using assms unfolding q_def c_def a_def b_def by (simp add: utf8_point_def div_digits)
  moreover have "cont (0x80 + c)" using p unfolding cont_def by linarith
  ultimately show ?thesis using p(1,3) by simp
qed

lemma utf8_step_point4:
  assumes "0x10000 \<le> p" "p < 0x110000"
  shows "utf8_step (utf8_point p @ r) = Some (p, r)"
proof -
  define q c where "q = p div 0x40" and "c = p mod 0x40"
  define n b where "n = q div 0x40" and "b = q mod 0x40"
  define a d where "a = n div 0x40" and "d = n mod 0x40"
  have p: "p = 0x40 * q + c" "c < 0x40" "q = 0x40 * n + b" "b < 0x40" "n = 0x40 * a + d" "d < 0x40"
    unfolding q_def c_def a_def b_def n_def d_def by simp_all
  have "a < 5" using p assms by linarith
  moreover have "second4 (0xF0 + a) (0x80 + d)"
  proof -
    have "a = 0 \<Longrightarrow> 0x10 \<le> d" using p assms(1) by linarith
    moreover have "a = 4 \<Longrightarrow> d < 0x10" using p assms(2) by linarith
    ultimately show ?thesis using p(6) unfolding second4_def by auto
  qed
  moreover have "utf8_point p = [0xF0 + a, 0x80 + d, 0x80 + b, 0x80 + c]"
    using assms unfolding q_def c_def a_def b_def n_def d_def by (simp add: utf8_point_def div_digits)
  moreover have "cont (0x80 + c)" "cont (0x80 + b)" using p unfolding cont_def by linarith+
  ultimately show ?thesis using p(1,3,5) by simp
qed

lemma utf8_step_point:
  assumes "p < 0x110000" "\<not> (0xD800 \<le> p \<and> p \<le> 0xDFFF)"
  shows "utf8_step (utf8_point p @ r) = Some (p, r)"
proof (cases "p < 0x80")
  case True
  then show ?thesis by (simp add: utf8_point_def)
next
  case False
  then show ?thesis using assms utf8_step_point2 utf8_step_point3 utf8_step_point4
    by (meson not_less)
qed

lemma utf8_point_not_Nil [simp]: "utf8_point p \<noteq> []"
  by (simp add: utf8_point_def)

lemma utf16_code_point:
  assumes "is_scalar c" "\<forall>u\<in>set c. u < 0x10000"
  shows "utf16_point (code_point c) = c" "code_point c < 0x110000"
    "\<not> (0xD800 \<le> code_point c \<and> code_point c \<le> 0xDFFF)"
proof -
  consider u where "c = [u]" "\<not> is_high u" "\<not> is_low u" "u < 0x10000"
    | u v where "c = [u, v]" "is_high u" "is_low v"
    using assms by (cases c rule: is_scalar.cases) auto
  then have "utf16_point (code_point c) = c \<and> code_point c < 0x110000 \<and>
    \<not> (0xD800 \<le> code_point c \<and> code_point c \<le> 0xDFFF)"
  proof cases
    case 1
    then show ?thesis by (auto simp: utf16_point_def is_high_def is_low_def)
  next
    case 2
    have h: "0xD800 \<le> u" "u - 0xD800 < 0x400" "0xDC00 \<le> v" "v - 0xDC00 < 0x400"
      using 2 by (auto simp: is_high_def is_low_def)
    define x y where "x = u - 0xD800" and "y = v - 0xDC00"
    then have u: "u = 0xD800 + x" "v = 0xDC00 + y" "x < 0x400" "y < 0x400" using h by auto
    have p: "code_point c = 0x10000 + (x * 0x400 + y)" using 2 by (simp add: x_def y_def)
    have "(x * 0x400 + y) div 0x400 = x" "(x * 0x400 + y) mod 0x400 = y" using u by simp_all
    then have "utf16_point (code_point c) = c" using 2 u unfolding p utf16_point_def by simp
    moreover have "code_point c < 0x110000" "0x10000 \<le> code_point c" unfolding p using u by linarith+
    ultimately show ?thesis by simp
  qed
  then show "utf16_point (code_point c) = c" "code_point c < 0x110000"
    "\<not> (0xD800 \<le> code_point c \<and> code_point c \<le> 0xDFFF)" by auto
qed

lemma utf8_decode_scalar:
  assumes "is_scalar c" "\<forall>u\<in>set c. u < 0x10000"
  shows "utf8_decode (utf8_point (code_point c) @ r) = map_option (\<lambda>s. c @ s) (utf8_decode r)"
  by (subst utf8_decode.simps) (simp add: utf8_step_point utf16_code_point[OF assms])

definition code_units :: "jstr \<Rightarrow> bool" where
  "code_units s \<longleftrightarrow> list_all (\<lambda>u. u < 0x10000) s"

lemma utf8_decode_concat:
  assumes "list_all is_scalar cs" "\<forall>c\<in>set cs. \<forall>u\<in>set c. u < 0x10000"
  shows "utf8_decode (concat (map (\<lambda>c. utf8_point (if is_scalar c then code_point c else 0xFFFD)) cs))
    = Some (concat cs)"
  using assms by (induction cs) (auto simp: utf8_decode_scalar)

lemma set_array_from: "c \<in> set (array_from s) \<Longrightarrow> set c \<subseteq> set s"
  using concat_array_from[of s] by (metis Sup_upper UN_I UnionI in_set_conv_decomp set_concat
      subsetI imageI)

lemma utf8_decode_utf8:
  assumes "isUnicodeScalarString s" "code_units s"
  shows "utf8_decode (utf8 s) = Some s"
proof -
  have "\<forall>c\<in>set (array_from s). \<forall>u\<in>set c. u < 0x10000"
    using assms(2) set_array_from by (fastforce simp: code_units_def list_all_iff)
  then show ?thesis
    using assms(1) utf8_decode_concat[of "array_from s"]
    by (simp add: utf8_def isUnicodeScalarString_iff)
qed

lemma utf8_step_range:
  assumes "utf8_step bs = Some (p, r)"
  shows "p < 0x110000 \<and> \<not> (0xD800 \<le> p \<and> p \<le> 0xDFFF)"
proof -
  obtain a t where bs: "bs = a # t" using assms by (cases bs) auto
  consider "p = a" "a < 0x80"
    | b where "p = (a - 0xC0) * 0x40 + (b - 0x80)" "0xC2 \<le> a" "a \<le> 0xDF" "cont b"
    | b c where "p = (a - 0xE0) * 0x1000 + (b - 0x80) * 0x40 + (c - 0x80)" "0xE0 \<le> a" "a \<le> 0xEF"
        "second3 a b" "cont c"
    | b c d where "p = (a - 0xF0) * 0x40000 + (b - 0x80) * 0x1000 + (c - 0x80) * 0x40 + (d - 0x80)"
        "0xF0 \<le> a" "a \<le> 0xF4" "second4 a b" "cont c" "cont d"
    using assms unfolding bs by (auto split: if_splits list.splits)
  then show ?thesis
  proof cases
    case (2 b)
    define x y where "x = a - 0xC0" and "y = b - 0x80"
    then have "x < 0x20" "y < 0x40" "p = x * 0x40 + y" using 2 by (auto simp: cont_def)
    then show ?thesis by linarith
  next
    case (3 b c)
    define x y z where "x = a - 0xE0" and "y = b - 0x80" and "z = c - 0x80"
    then have "x < 0x10" "y < 0x40" "z < 0x40" "p = x * 0x1000 + y * 0x40 + z"
      "x = 0xD \<Longrightarrow> y < 0x20"
      using 3 by (auto simp: cont_def second3_def split: if_splits)
    then show ?thesis
      by (cases "x \<le> 12"; cases "x = 13") linarith+
  next
    case (4 b c d)
    define x y z w where "x = a - 0xF0" and "y = b - 0x80" and "z = c - 0x80" and "w = d - 0x80"
    then have "x < 5" "y < 0x40" "z < 0x40" "w < 0x40"
      "p = x * 0x40000 + y * 0x1000 + z * 0x40 + w" "x = 4 \<Longrightarrow> y < 0x10" "x = 0 \<Longrightarrow> 0x10 \<le> y"
      using 4 by (auto simp: cont_def second4_def split: if_splits)
    then show ?thesis by linarith
  qed auto
qed

lemma is_scalar_utf16_point:
  assumes "p < 0x110000" "\<not> (0xD800 \<le> p \<and> p \<le> 0xDFFF)"
  shows "is_scalar (utf16_point p)"
proof (cases "p < 0x10000")
  case False
  define q where "q = p - 0x10000"
  have "q div 0x400 < 0x400" using assms(1) unfolding q_def by (intro less_mult_imp_div_less) simp
  moreover have "q mod 0x400 < 0x400" by simp
  ultimately show ?thesis using False
    by (simp add: utf16_point_def is_high_def is_low_def flip: q_def)
qed (use assms in \<open>auto simp: utf16_point_def is_high_def is_low_def\<close>)

lemma utf8_decode_scalar_string: "utf8_decode bs = Some s \<Longrightarrow> isUnicodeScalarString s"
proof (induction bs arbitrary: s rule: utf8_decode.induct)
  case (1 bs)
  show ?case
  proof (cases "bs = []")
    case False
    then obtain p r u where step: "utf8_step bs = Some (p, r)" and u: "utf8_decode r = Some u"
      and s: "s = utf16_point p @ u"
      using "1.prems" by (auto simp: utf8_decode.simps[of bs] split: option.splits)
    have "is_scalar (utf16_point p)" using utf8_step_range[OF step] is_scalar_utf16_point by blast
    moreover have "isUnicodeScalarString u" using "1.IH"[OF False step refl u] .
    ultimately show ?thesis
      using array_from_scalar_append by (simp add: s isUnicodeScalarString_iff)
  qed (use "1.prems" in simp)
qed

lemma survives_iff:
  "code_units s \<Longrightarrow> utf8_decode (utf8 s) = Some s \<longleftrightarrow> isUnicodeScalarString s"
  using utf8_decode_utf8 utf8_decode_scalar_string by blast

end
