(* ===== verification/Source_Text.thy ===== *)
theory Source_Text
  imports Utf8
begin

text \<open>
  \<open>packages/content/src/source-text.ts\<close>: capture and normal form of a source text, and its cut
  into chunks of at most 2000 Unicode scalars. \<open>sha256\<close> (over bytes) and \<open>nfc\<close> are parameters.
  The lemmas show that every loop of the chunker makes progress, that the chunks tile the text
  and that the reconstruction check at its end cannot fail on a text the normal form admits.
\<close>

definition SOURCE_CHUNK_MAX_SCALARS :: nat where
  "SOURCE_CHUNK_MAX_SCALARS = 2000"

definition SOURCE_NORMALIZATION_VERSION :: jstr where
  "SOURCE_NORMALIZATION_VERSION = js ''source-normalization.v1''"

definition SOURCE_CHUNKING_VERSION :: jstr where
  "SOURCE_CHUNKING_VERSION = js ''source-chunking.v1''"

datatype source_input = TextInput jstr | ByteInput "nat list"

record normalized_source =
  capturedText :: jstr
  normalizedText :: jstr
  contentHash :: jstr
  normalizedContentHash :: jstr
  normalizationVersion :: jstr

record source_chunk =
  chunkIndex :: nat
  startOffset :: nat
  endOffset :: nat
  chunkText :: jstr
  chunkHash :: jstr
  chunkNormalizationVersion :: jstr
  chunkingVersion :: jstr

fun input_bytes :: "source_input \<Rightarrow> nat list" where
  "input_bytes (TextInput s) = utf8 s"
| "input_bytes (ByteInput bs) = bs"

fun survives_utf8 :: "source_input \<Rightarrow> bool" where
  "survives_utf8 (TextInput s) \<longleftrightarrow> utf8_decode (utf8 s) = Some s"
| "survives_utf8 (ByteInput bs) \<longleftrightarrow> True"

definition normalizeSourceText ::
  "(jstr \<Rightarrow> jstr) \<Rightarrow> (nat list \<Rightarrow> jstr) \<Rightarrow> source_input \<Rightarrow> normalized_source option" where
  "normalizeSourceText nfc sha256 input = do {
     require (survives_utf8 input);
     let bytes = input_bytes input;
     captured \<leftarrow> text_decoder bytes;
     normalized \<leftarrow> normalizeStoredSourceText nfc captured;
     Some \<lparr>capturedText = captured, normalizedText = normalized, contentHash = sha256 bytes,
           normalizedContentHash = sha256 (utf8 normalized),
           normalizationVersion = SOURCE_NORMALIZATION_VERSION\<rparr> }"

section \<open>The chunker\<close>

definition last_index :: "(nat \<Rightarrow> bool) \<Rightarrow> nat \<Rightarrow> nat \<Rightarrow> nat option" where
  "last_index P lo hi = List.find P (rev [lo..<hi])"

definition is_newline :: "jstr \<Rightarrow> bool" where
  "is_newline c \<longleftrightarrow> c = [10]"

definition is_space_scalar :: "jstr \<Rightarrow> bool" where
  "is_space_scalar c \<longleftrightarrow> length c = 1 \<and> is_whitespace (hd c)"

definition chooseBoundary :: "jstr list \<Rightarrow> nat \<Rightarrow> nat \<Rightarrow> nat" where
  "chooseBoundary scalars start maximumEnd =
     (case last_index (\<lambda>i. is_newline (scalars ! (i - 1)) \<and> is_newline (scalars ! i))
             (Suc start) maximumEnd of
        Some i \<Rightarrow> i + 1
      | None \<Rightarrow>
        (case last_index (\<lambda>i. is_newline (scalars ! i)) start maximumEnd of
           Some i \<Rightarrow> i + 1
         | None \<Rightarrow>
           (case last_index (\<lambda>i. is_space_scalar (scalars ! i)) start maximumEnd of
              Some i \<Rightarrow> i + 1
            | None \<Rightarrow> maximumEnd)))"

definition chunk_end :: "jstr list \<Rightarrow> nat \<Rightarrow> nat" where
  "chunk_end scalars start =
     (let maximumEnd = min (start + SOURCE_CHUNK_MAX_SCALARS) (length scalars)
      in if maximumEnd = length scalars then maximumEnd
         else chooseBoundary scalars start maximumEnd)"

definition make_chunk :: "(nat list \<Rightarrow> jstr) \<Rightarrow> jstr list \<Rightarrow> nat \<Rightarrow> nat \<Rightarrow> nat \<Rightarrow> source_chunk" where
  "make_chunk sha256 scalars index i j =
     (let t = concat (scalar_slice scalars i j)
      in \<lparr>chunkIndex = index, startOffset = i, endOffset = j, chunkText = t,
          chunkHash = sha256 (utf8 t), chunkNormalizationVersion = SOURCE_NORMALIZATION_VERSION,
          chunkingVersion = SOURCE_CHUNKING_VERSION\<rparr>)"

function chunk_loop ::
  "(nat list \<Rightarrow> jstr) \<Rightarrow> jstr list \<Rightarrow> nat \<Rightarrow> nat \<Rightarrow> source_chunk list option" where
  "chunk_loop sha256 scalars index start =
     (if start < length scalars then
        (let j = chunk_end scalars start
         in if j \<le> start then None
            else map_option (\<lambda>rest. make_chunk sha256 scalars index start j # rest)
                   (chunk_loop sha256 scalars (Suc index) j))
      else Some [])"
  by pat_completeness auto
termination
  by (relation "measure (\<lambda>(_, scalars, _, start). length scalars - start)") auto

declare chunk_loop.simps [simp del]

fun check_chunks ::
  "(nat list \<Rightarrow> jstr) \<Rightarrow> jstr \<Rightarrow> nat \<Rightarrow> nat \<Rightarrow> source_chunk list \<Rightarrow> nat option" where
  "check_chunks sha256 t index expectedStart [] = Some expectedStart"
| "check_chunks sha256 t index expectedStart (c # cs) = do {
     require (chunkIndex c = index);
     require (startOffset c = expectedStart);
     require (\<not> endOffset c \<le> startOffset c);
     slice \<leftarrow> sliceUnicodeScalarSpan t (IntNum (int (startOffset c))) (IntNum (int (endOffset c)));
     require (slice = chunkText c);
     require (sha256 (utf8 (chunkText c)) = chunkHash c);
     check_chunks sha256 t (Suc index) (endOffset c) cs }"

definition assertChunkReconstruction ::
  "(nat list \<Rightarrow> jstr) \<Rightarrow> jstr \<Rightarrow> source_chunk list \<Rightarrow> unit option" where
  "assertChunkReconstruction sha256 t chunks = do {
     expectedStart \<leftarrow> check_chunks sha256 t 0 0 chunks;
     require (expectedStart = length (array_from t));
     let reconstructed = concat (map chunkText chunks);
     require (reconstructed = t \<and> sha256 (utf8 reconstructed) = sha256 (utf8 t)) }"

definition chunkNormalizedSource ::
  "(nat list \<Rightarrow> jstr) \<Rightarrow> jstr \<Rightarrow> source_chunk list option" where
  "chunkNormalizedSource sha256 t = do {
     require (length t \<noteq> 0 \<and> 0 \<notin> set t);
     chunks \<leftarrow> chunk_loop sha256 (array_from t) 0 0;
     assertChunkReconstruction sha256 t chunks;
     Some chunks }"

definition normalizeAndChunkSource ::
  "(jstr \<Rightarrow> jstr) \<Rightarrow> (nat list \<Rightarrow> jstr) \<Rightarrow> source_input \<Rightarrow>
     (normalized_source \<times> source_chunk list) option" where
  "normalizeAndChunkSource nfc sha256 input = do {
     source \<leftarrow> normalizeSourceText nfc sha256 input;
     chunks \<leftarrow> chunkNormalizedSource sha256 (normalizedText source);
     Some (source, chunks) }"

section \<open>Progress and tiling\<close>

lemma last_index_bounds: "last_index P lo hi = Some i \<Longrightarrow> lo \<le> i \<and> i < hi \<and> P i"
  by (fastforce simp: last_index_def find_Some_iff rev_nth)

lemma chooseBoundary_bounds:
  "start < maximumEnd \<Longrightarrow>
     start < chooseBoundary cs start maximumEnd \<and> chooseBoundary cs start maximumEnd \<le> maximumEnd"
  by (auto simp: chooseBoundary_def dest: last_index_bounds split: option.splits)

lemma chunk_end_bounds:
  assumes "start < length cs"
  shows "start < chunk_end cs start" "chunk_end cs start \<le> length cs"
    "chunk_end cs start \<le> start + SOURCE_CHUNK_MAX_SCALARS"
  using assms chooseBoundary_bounds[of start "start + SOURCE_CHUNK_MAX_SCALARS" cs]
  by (auto simp: chunk_end_def Let_def min_def SOURCE_CHUNK_MAX_SCALARS_def split: if_splits)

fun tiles :: "nat \<Rightarrow> nat \<Rightarrow> source_chunk list \<Rightarrow> nat \<Rightarrow> bool" where
  "tiles index start [] stop \<longleftrightarrow> start = stop"
| "tiles index start (c # cs) stop \<longleftrightarrow>
     chunkIndex c = index \<and> startOffset c = start \<and> start < endOffset c \<and>
     endOffset c \<le> start + SOURCE_CHUNK_MAX_SCALARS \<and> tiles (Suc index) (endOffset c) cs stop"

lemma tiles_le: "tiles k i cs n \<Longrightarrow> i \<le> n"
  by (induction cs arbitrary: k i) fastforce+

definition chunk_of :: "(nat list \<Rightarrow> jstr) \<Rightarrow> jstr list \<Rightarrow> source_chunk \<Rightarrow> bool" where
  "chunk_of sha256 scalars c \<longleftrightarrow>
     c = make_chunk sha256 scalars (chunkIndex c) (startOffset c) (endOffset c)"

lemma make_chunk_fields [simp]:
  "chunkIndex (make_chunk sha scs k i j) = k" "startOffset (make_chunk sha scs k i j) = i"
  "endOffset (make_chunk sha scs k i j) = j"
  "chunkText (make_chunk sha scs k i j) = concat (scalar_slice scs i j)"
  "chunkHash (make_chunk sha scs k i j) = sha (utf8 (concat (scalar_slice scs i j)))"
  by (simp_all add: make_chunk_def Let_def)

lemma chunk_of_make [simp]: "chunk_of sha scs (make_chunk sha scs k i j)"
  by (simp add: chunk_of_def)

lemma chunk_loop_tiles:
  "start \<le> length scs \<Longrightarrow> \<exists>cs. chunk_loop sha scs k start = Some cs \<and>
     tiles k start cs (length scs) \<and> list_all (chunk_of sha scs) cs"
proof (induction sha scs k start rule: chunk_loop.induct)
  case (1 sha scs k start)
  show ?case
  proof (cases "start < length scs")
    case True
    let ?j = "chunk_end scs start"
    note b = chunk_end_bounds[OF True]
    then obtain cs where "chunk_loop sha scs (Suc k) ?j = Some cs" "tiles (Suc k) ?j cs (length scs)"
      "list_all (chunk_of sha scs) cs"
      using 1 True by force
    then show ?thesis using b True
      by (intro exI[of _ "make_chunk sha scs k start ?j # cs"])
         (simp add: chunk_loop.simps[of sha scs k start])
  next
    case False
    then have "start = length scs" using 1 by simp
    then show ?thesis by (intro exI[of _ "[]"]) (simp add: chunk_loop.simps[of sha scs k "length scs"])
  qed
qed

lemma tiles_text:
  "tiles k i cs n \<Longrightarrow> n \<le> length scs \<Longrightarrow> list_all (chunk_of sha scs) cs \<Longrightarrow>
     concat (map chunkText cs) = concat (scalar_slice scs i n)"
proof (induction cs arbitrary: k i)
  case (Cons c cs)
  have le: "i \<le> endOffset c" "endOffset c \<le> n"
    using Cons.prems tiles_le by auto
  have "chunkText c = concat (scalar_slice scs i (endOffset c))"
    using Cons.prems by (auto simp: chunk_of_def) (metis make_chunk_fields(4))
  moreover have "concat (map chunkText cs) = concat (scalar_slice scs (endOffset c) n)"
    using Cons by auto
  ultimately show ?case
    using scalar_slice_append[OF le, of scs] by (simp flip: concat_append)
qed (simp add: scalar_slice_def)

lemma check_chunks_tiles:
  assumes "isUnicodeScalarString t" "int (length (array_from t)) \<le> max_safe_integer"
  shows "tiles k i cs n \<Longrightarrow> n \<le> length (array_from t) \<Longrightarrow>
     list_all (chunk_of sha (array_from t)) cs \<Longrightarrow> check_chunks sha t k i cs = Some n"
proof (induction cs arbitrary: k i)
  case (Cons c cs)
  have le: "endOffset c \<le> length (array_from t)" using Cons.prems tiles_le[of "Suc k" "endOffset c" cs n] by auto
  have c: "chunkText c = concat (scalar_slice (array_from t) i (endOffset c))"
    "chunkHash c = sha (utf8 (chunkText c))"
    using Cons.prems by (auto simp: chunk_of_def) (metis make_chunk_fields(4,5))+
  have "sliceUnicodeScalarSpan t (IntNum (int i)) (IntNum (int (endOffset c))) = Some (chunkText c)"
    using sliceUnicodeScalarSpan_nat[OF assms(1) _ le, of i] Cons.prems le assms(2) c by simp
  then show ?case using Cons c by simp
qed simp

text \<open>What the chunker returns: chunks that are slices of the text and tile it.\<close>

definition lossless_chunks :: "(nat list \<Rightarrow> jstr) \<Rightarrow> jstr \<Rightarrow> source_chunk list \<Rightarrow> bool" where
  "lossless_chunks sha256 t cs \<longleftrightarrow>
     tiles 0 0 cs (length (array_from t)) \<and> list_all (chunk_of sha256 (array_from t)) cs \<and>
     concat (map chunkText cs) = t"

lemma chunkNormalizedSource_total:
  assumes "isUnicodeScalarString t" "t \<noteq> []" "0 \<notin> set t" "int (length t) \<le> max_safe_integer"
  shows "\<exists>cs. chunkNormalizedSource sha t = Some cs \<and> lossless_chunks sha t cs"
proof -
  let ?scs = "array_from t"
  obtain cs where cs: "chunk_loop sha ?scs 0 0 = Some cs" "tiles 0 0 cs (length ?scs)"
    "list_all (chunk_of sha ?scs) cs" using chunk_loop_tiles[of 0 ?scs sha 0] by auto
  have joined: "concat (map chunkText cs) = t"
    using tiles_text[OF cs(2) _ cs(3)] scalar_slice_all[of ?scs] by simp
  have "int (length ?scs) \<le> max_safe_integer"
    using assms(4) length_array_from_le[of t] by linarith
  then have "assertChunkReconstruction sha t cs = Some ()"
    using check_chunks_tiles[OF assms(1) _ cs(2) _ cs(3)] joined
    by (simp add: assertChunkReconstruction_def)
  then show ?thesis
    using cs joined assms by (auto simp: chunkNormalizedSource_def lossless_chunks_def)
qed

lemma chunkNormalizedSource_scalar:
  assumes "chunkNormalizedSource sha t = Some cs"
  shows "isUnicodeScalarString t" "t \<noteq> []" "0 \<notin> set t"
proof -
  have a: "chunk_loop sha (array_from t) 0 0 = Some cs" "assertChunkReconstruction sha t cs = Some ()"
    and *: "t \<noteq> []" "0 \<notin> set t"
    using assms by (auto simp: chunkNormalizedSource_def bind_Some_iff)
  have "cs \<noteq> []"
    using a(2) *(1) by (auto simp: assertChunkReconstruction_def)
  then obtain c r where c: "cs = c # r" by (cases cs) auto
  show "isUnicodeScalarString t"
    using a(2) by (auto simp: c assertChunkReconstruction_def bind_Some_iff sliceUnicodeScalarSpan_def)
  show "t \<noteq> []" "0 \<notin> set t" using * by auto
qed

section \<open>The promises\<close>

lemma tiles_bounds:
  "tiles k i cs n \<Longrightarrow> c \<in> set cs \<Longrightarrow>
     startOffset c < endOffset c \<and> endOffset c \<le> n \<and>
     endOffset c - startOffset c \<le> SOURCE_CHUNK_MAX_SCALARS"
  by (induction cs arbitrary: k i) (auto dest: tiles_le)

lemma tiles_contiguous:
  "tiles k i cs n \<Longrightarrow> cs = xs @ c # d # ys \<Longrightarrow> endOffset c = startOffset d"
  by (induction cs arbitrary: k i xs) (auto simp: Cons_eq_append_conv)

lemma tiles_index: "tiles k i cs n \<Longrightarrow> map chunkIndex cs = [k..<k + length cs]"
proof (induction cs arbitrary: k i)
  case (Cons c cs)
  then have "tiles (Suc k) (endOffset c) cs n" by simp
  then have "map chunkIndex cs = [Suc k..<Suc k + length cs]" by (rule Cons.IH)
  moreover have "[k..<k + length (c # cs)] = k # [Suc k..<Suc k + length cs]"
    by (simp add: upt_conv_Cons del: upt_Suc)
  ultimately show ?case using Cons.prems by (simp del: upt_Suc)
qed simp

lemma chunk_of_length:
  assumes "isUnicodeScalarString t" "chunk_of sha (array_from t) c"
    "startOffset c < endOffset c" "endOffset c \<le> length (array_from t)"
  shows "length (array_from (chunkText c)) = endOffset c - startOffset c"
proof -
  have "chunkText c = concat (scalar_slice (array_from t) (startOffset c) (endOffset c))"
    using assms(2) unfolding chunk_of_def by (metis make_chunk_fields(4))
  then show ?thesis using assms by (simp add: array_from_slice)
qed

lemma text_decoder_utf8:
  "isUnicodeScalarString s \<Longrightarrow> code_units s \<Longrightarrow> text_decoder (utf8 s) = Some (strip_bom s)"
  by (simp add: text_decoder_def utf8_decode_utf8)

lemma normalizeStoredSourceText_Some:
  assumes "normalizeStoredSourceText nfc s = Some t"
  shows "isUnicodeScalarString s" "0 \<notin> set s" "t = nfc (replace_newlines (strip_bom s))" "trim t \<noteq> []"
  using assms by (auto simp: normalizeStoredSourceText_def Let_def bind_Some_iff)

lemma scalar_tl: "isUnicodeScalarString (u # r) \<Longrightarrow> \<not> is_high u \<Longrightarrow> isUnicodeScalarString r"
  by (cases r) auto

lemma scalar_strip_bom: "isUnicodeScalarString s \<Longrightarrow> isUnicodeScalarString (strip_bom s)"
  by (cases s) (auto simp: strip_bom_def is_high_def dest: scalar_tl)

lemma scalar_Cons: "\<not> is_high u \<Longrightarrow> isUnicodeScalarString (u # r) \<longleftrightarrow> \<not> is_low u \<and> isUnicodeScalarString r"
  by (cases r) auto

lemma replace_newlines_Cons: "u \<noteq> 13 \<Longrightarrow> replace_newlines (u # r) = u # replace_newlines r"
  by (cases r) auto

lemma scalar_replace_newlines:
  "isUnicodeScalarString s \<Longrightarrow> isUnicodeScalarString (replace_newlines s)"
proof (induction s rule: isUnicodeScalarString.induct)
  case (3 u v r)
  show ?case
  proof (cases "is_high u")
    case True
    then have "u \<noteq> 13" "v \<noteq> 13" "is_low v" using 3 by (auto simp: is_high_def is_low_def)
    then show ?thesis using 3 True by (simp add: replace_newlines_Cons del: replace_newlines.simps)
  next
    case False
    then have v: "isUnicodeScalarString (replace_newlines (v # r))" and u: "\<not> is_low u"
      using 3 by auto
    have ten: "\<not> is_high 10" "\<not> is_low 10" by (simp_all add: is_high_def is_low_def)
    show ?thesis
    proof (cases "u = 13")
      case True
      moreover have "v = 10 \<Longrightarrow> isUnicodeScalarString (10 # replace_newlines r)"
        using v by (simp add: replace_newlines_Cons)
      ultimately show ?thesis using v ten by (auto simp: scalar_Cons)
    qed (use False u v in \<open>simp add: replace_newlines_Cons scalar_Cons\<close>)
  qed
qed (auto simp: is_high_def is_low_def)

lemma replace_newlines_set: "set (replace_newlines s) \<subseteq> set s \<union> {10}"
  by (induction s rule: replace_newlines.induct) auto

text \<open>C37: The chunker accepts exactly the non-empty scalar texts without NUL: on those none of
  its checks fires and its loops end, on every other text it throws.\<close>
theorem chunkNormalizedSource_accepts_iff:
  assumes "int (length t) \<le> max_safe_integer"
  shows "(\<exists>cs. chunkNormalizedSource sha256 t = Some cs) \<longleftrightarrow>
    isUnicodeScalarString t \<and> t \<noteq> [] \<and> 0 \<notin> set t"
  using chunkNormalizedSource_total[OF _ _ _ assms] chunkNormalizedSource_scalar by metis

lemma chunkNormalizedSource_accepts_iff_witness:
  "(\<exists>cs. chunkNormalizedSource (\<lambda>b. b) (js ''ab'') = Some cs) \<longleftrightarrow>
    isUnicodeScalarString (js ''ab'') \<and> js ''ab'' \<noteq> [] \<and> 0 \<notin> set (js ''ab'')"
  by (rule chunkNormalizedSource_accepts_iff) (simp add: max_safe_integer_def)

text \<open>C36: The chunks of a text are lossless and deterministic slices: they are numbered from 0,
  follow each other without gap or overlap, hold between 1 and 2000 scalars each, carry the
  hash of their text, and concatenate to the text.\<close>
theorem chunkNormalizedSource_lossless:
  assumes "chunkNormalizedSource sha256 t = Some cs" and "int (length t) \<le> max_safe_integer"
  shows "concat (map chunkText cs) = t \<and>
    map chunkIndex cs = [0..<length cs] \<and>
    (\<forall>xs c d ys. cs = xs @ c # d # ys \<longrightarrow> endOffset c = startOffset d) \<and>
    (\<forall>c\<in>set cs. 1 \<le> length (array_from (chunkText c)) \<and>
       length (array_from (chunkText c)) \<le> 2000 \<and> chunkHash c = sha256 (utf8 (chunkText c)))"
proof -
  note t = chunkNormalizedSource_scalar[OF assms(1)]
  then have l: "lossless_chunks sha256 t cs"
    using chunkNormalizedSource_total[OF t assms(2), of sha256] assms(1) by simp
  then have tl: "tiles 0 0 cs (length (array_from t))" and
    co: "\<And>c. c \<in> set cs \<Longrightarrow> chunk_of sha256 (array_from t) c"
    by (auto simp: lossless_chunks_def list_all_iff)
  have "1 \<le> length (array_from (chunkText c)) \<and> length (array_from (chunkText c)) \<le> 2000 \<and>
     chunkHash c = sha256 (utf8 (chunkText c))" if "c \<in> set cs" for c
  proof -
    note b = tiles_bounds[OF tl that]
    have "chunkHash c = sha256 (utf8 (chunkText c))"
      using co[OF that] unfolding chunk_of_def by (metis make_chunk_fields(4,5))
    then show ?thesis
      using b chunk_of_length[OF t(1) co[OF that]] by (auto simp: SOURCE_CHUNK_MAX_SCALARS_def)
  qed
  then show ?thesis
    using l tiles_index[OF tl] tiles_contiguous[OF tl] by (auto simp: lossless_chunks_def)
qed

lemma chunkNormalizedSource_lossless_witness:
  "\<exists>cs. chunkNormalizedSource (\<lambda>b. b) (js ''ab'') = Some cs \<and> concat (map chunkText cs) = js ''ab'' \<and>
     map chunkIndex cs = [0..<length cs]"
proof -
  have "int (length (js ''ab'')) \<le> max_safe_integer" by (simp add: max_safe_integer_def)
  moreover have "isUnicodeScalarString (js ''ab'')" "0 \<notin> set (js ''ab'')"
    by (simp_all add: js_def is_high_def is_low_def)
  ultimately obtain cs where "chunkNormalizedSource (\<lambda>b. b) (js ''ab'') = Some cs"
    using chunkNormalizedSource_total[of "js ''ab''" "\<lambda>b. b"] by auto
  then show ?thesis
    using chunkNormalizedSource_lossless[of "\<lambda>b. b" "js ''ab''" cs] by (simp add: max_safe_integer_def)
qed

text \<open>Capturing a string agrees with capturing its UTF-8 bytes: a string whose code units
  form scalars gives the same captured text, normal form and hashes as its encoding, and a
  string with a lone surrogate is rejected.\<close>
theorem normalizeSourceText_string_bytes:
  assumes "code_units s"
  shows "normalizeSourceText nfc sha256 (TextInput s) =
     (if isUnicodeScalarString s then normalizeSourceText nfc sha256 (ByteInput (utf8 s)) else None)"
  using survives_iff[OF assms] by (auto simp: normalizeSourceText_def)

lemma normalizeSourceText_string_bytes_witness:
  "normalizeSourceText (\<lambda>t. t) (\<lambda>b. b) (TextInput [65, 0xD800]) = None"
  using normalizeSourceText_string_bytes[of "[65, 0xD800]" "\<lambda>t. t" "\<lambda>b. b"]
  by (simp add: code_units_def is_high_def is_low_def)

text \<open>A source the normaliser accepts can always be chunked: when Unicode normalisation
  keeps scalar strings scalar and adds no NUL, normalising and chunking an accepted source
  returns the source with chunks that concatenate to its normal form.\<close>
theorem normalizeAndChunkSource_total:
  assumes nfc: "\<And>t. isUnicodeScalarString t \<Longrightarrow> isUnicodeScalarString (nfc t)"
      "\<And>t. 0 \<notin> set t \<Longrightarrow> 0 \<notin> set (nfc t)"
    and src: "normalizeSourceText nfc sha256 input = Some src"
    and bound: "int (length (normalizedText src)) \<le> max_safe_integer"
  shows "\<exists>cs. normalizeAndChunkSource nfc sha256 input = Some (src, cs) \<and>
     concat (map chunkText cs) = normalizedText src"
proof -
  obtain c where n: "normalizeStoredSourceText nfc c = Some (normalizedText src)"
    using src by (auto simp: normalizeSourceText_def Let_def bind_Some_iff)
  note s = normalizeStoredSourceText_Some[OF n]
  let ?t = "replace_newlines (strip_bom c)"
  have "set (strip_bom c) \<subseteq> set c" by (cases c) (auto simp: strip_bom_def)
  then have "0 \<notin> set ?t" using s(2) replace_newlines_set[of "strip_bom c"] by auto
  then have "0 \<notin> set (normalizedText src)" using nfc(2) s(3) by simp
  moreover have "isUnicodeScalarString (normalizedText src)"
    using nfc(1) s(1,3) scalar_strip_bom scalar_replace_newlines by simp
  moreover have "normalizedText src \<noteq> []" using s(4) by (auto simp: trim_def trim_end_def)
  ultimately obtain cs where "chunkNormalizedSource sha256 (normalizedText src) = Some cs"
      "lossless_chunks sha256 (normalizedText src) cs"
    using chunkNormalizedSource_total bound by blast
  then show ?thesis using src by (auto simp: normalizeAndChunkSource_def lossless_chunks_def)
qed

lemma normalizeAndChunkSource_total_witness:
  "\<exists>src cs. normalizeAndChunkSource (\<lambda>t. t) (\<lambda>b. b) (ByteInput [13, 10, 97]) = Some (src, cs) \<and>
     concat (map chunkText cs) = [10, 97]"
proof -
  have "utf8_decode [13, 10, 97] = Some [13, 10, 97]"
    by (simp add: utf8_decode.simps utf16_point_def)
  then obtain src where src: "normalizeSourceText (\<lambda>t. t) (\<lambda>b. b) (ByteInput [13, 10, 97]) = Some src"
      "normalizedText src = [10, 97]"
    by (simp add: normalizeSourceText_def Let_def text_decoder_def strip_bom_def normalizeStoredSourceText_def
        is_high_def is_low_def trim_def trim_end_def is_whitespace_def)
  then show ?thesis
    using normalizeAndChunkSource_total[of "\<lambda>t. t" "\<lambda>b. b" "ByteInput [13, 10, 97]" src]
    by (auto simp: max_safe_integer_def)
qed

text \<open>A leading byte order mark is dropped from the captured text but counted in the content hash, so
  the hash is not that of the stored text; the admission of evidence requires that it is.\<close>
theorem byte_order_mark_hash:
  assumes "code_units s" and "normalizeSourceText nfc sha256 (TextInput (0xFEFF # s)) = Some src"
  shows "capturedText src = s \<and> contentHash src = sha256 ([0xEF, 0xBB, 0xBF] @ utf8 s)"
proof -
  have units: "code_units (0xFEFF # s)" using assms(1) by (simp add: code_units_def)
  then have "isUnicodeScalarString (0xFEFF # s)"
    using assms(2) normalizeSourceText_string_bytes[OF units] by (simp split: if_splits)
  then have "text_decoder (utf8 (0xFEFF # s)) = Some s"
    using text_decoder_utf8 units by (simp add: strip_bom_def)
  moreover have "utf8 (0xFEFF # s) = [0xEF, 0xBB, 0xBF] @ utf8 s"
    by (cases s) (simp_all add: utf8_def utf8_point_def is_high_def is_low_def)
  ultimately show ?thesis using assms(2) by (auto simp: normalizeSourceText_def Let_def bind_Some_iff)
qed

end
