(* ===== verification/Command_Payloads.thy ===== *)
theory Command_Payloads
  imports Confidence Predicate_Registry Source_Text
begin

text \<open>
  The payloads of the truth-ledger commands (\<open>packages/truth-ledger/src/command-schemas.ts\<close>,
  types in \<open>packages/core-types/src/b2.ts\<close>): a record per payload, its parser, and the object the
  parser returns (\<open>..._value\<close>). Every parser is a \<open>canonical_form\<close>.
\<close>

section \<open>References\<close>

record subject_ref =
  sr_type :: subject_kind
  sr_id :: jstr
  sr_expectedVersion :: int

record claim_ref =
  cl_claimId :: jstr
  cl_expectedVersion :: int

record conflict_ref =
  cf_conflictId :: jstr
  cf_expectedVersion :: int

definition num_value :: "int \<Rightarrow> jsval" where
  "num_value i = JNum (IntNum i)"

lemma num_value_eq [simp]: "num_value i = JNum (IntNum i)"
  by (simp add: num_value_def)

definition subject_kinds :: "subject_kind list" where
  "subject_kinds = [ActivitySubject, InitiativeSubject]"

lemma mem_subject_kinds [simp]: "k \<in> set subject_kinds"
  by (cases k) (simp_all add: subject_kinds_def)

definition parseSubject :: "jsval \<Rightarrow> subject_ref option" where
  "parseSubject input = do {
     fs \<leftarrow> exactObject input [''type'', ''id'', ''expectedVersion''] [];
     t \<leftarrow> requireEnum subject_string subject_kinds (fld fs ''type'');
     i \<leftarrow> requireUuidV7 (fld fs ''id'');
     v \<leftarrow> requirePositiveInteger (fld fs ''expectedVersion'');
     Some \<lparr>sr_type = t, sr_id = i, sr_expectedVersion = v\<rparr> }"

definition subject_value :: "subject_ref \<Rightarrow> jsval" where
  "subject_value s = JObj (object_of [(''type'', JStr (subject_string (sr_type s))),
     (''id'', JStr (sr_id s)), (''expectedVersion'', num_value (sr_expectedVersion s))])"

definition parseClaimRef :: "jsval \<Rightarrow> claim_ref option" where
  "parseClaimRef input = do {
     fs \<leftarrow> exactObject input [''claimId'', ''expectedVersion''] [];
     i \<leftarrow> requireUuidV7 (fld fs ''claimId'');
     v \<leftarrow> requirePositiveInteger (fld fs ''expectedVersion'');
     Some \<lparr>cl_claimId = i, cl_expectedVersion = v\<rparr> }"

definition claim_ref_value :: "claim_ref \<Rightarrow> jsval" where
  "claim_ref_value c = JObj (object_of [(''claimId'', JStr (cl_claimId c)),
     (''expectedVersion'', num_value (cl_expectedVersion c))])"

definition parseConflictRef :: "jsval \<Rightarrow> conflict_ref option" where
  "parseConflictRef input = do {
     fs \<leftarrow> exactObject input [''conflictId'', ''expectedVersion''] [];
     i \<leftarrow> requireUuidV7 (fld fs ''conflictId'');
     v \<leftarrow> requirePositiveInteger (fld fs ''expectedVersion'');
     Some \<lparr>cf_conflictId = i, cf_expectedVersion = v\<rparr> }"

definition conflict_ref_value :: "conflict_ref \<Rightarrow> jsval" where
  "conflict_ref_value c = JObj (object_of [(''conflictId'', JStr (cf_conflictId c)),
     (''expectedVersion'', num_value (cf_expectedVersion c))])"

definition parseSortedClaimRefs :: "jsval \<Rightarrow> claim_ref list option" where
  "parseSortedClaimRefs input = parse_sorted_array parseClaimRef cl_claimId input"

definition claim_refs_value :: "claim_ref list \<Rightarrow> jsval" where
  "claim_refs_value cs = JArr (map claim_ref_value cs)"

interpretation subject: canonical_form parseSubject subject_value
  by unfold_locales
     (auto simp: parseSubject_def subject_value_def bind_Some_iff accept_simps requireEnum_Some_iff)

interpretation claim_ref: canonical_form parseClaimRef claim_ref_value
  by unfold_locales (auto simp: parseClaimRef_def claim_ref_value_def bind_Some_iff accept_simps)

interpretation conflict_ref: canonical_form parseConflictRef conflict_ref_value
  by unfold_locales (auto simp: parseConflictRef_def conflict_ref_value_def bind_Some_iff accept_simps)

interpretation claim_refs: canonical_form parseSortedClaimRefs claim_refs_value
  by unfold_locales
     (simp_all add: parseSortedClaimRefs_def claim_refs_value_def claim_ref.sorted_array_embed)

section \<open>Confidence and evidence\<close>

definition parseConfidence :: "jsval \<Rightarrow> confidence option" where
  "parseConfidence input = requireEnum confidence_string CONFIDENCES input"

record lowering =
  cw_confidence :: confidence
  cw_reason :: truth_reason

definition parseConfidenceLowering :: "(jstr \<Rightarrow> jstr) \<Rightarrow> jsval \<Rightarrow> lowering option" where
  "parseConfidenceLowering nfc input = do {
     fs \<leftarrow> exactObject input [''confidence'', ''reason''] [];
     c \<leftarrow> parseConfidence (fld fs ''confidence'');
     r \<leftarrow> parseTruthLifecycleReason nfc ConfidenceLoweringKind (fld fs ''reason'');
     Some \<lparr>cw_confidence = c, cw_reason = r\<rparr> }"

definition lowering_value :: "lowering \<Rightarrow> jsval" where
  "lowering_value l = JObj (object_of [(''confidence'', JStr (confidence_string (cw_confidence l))),
     (''reason'', reason_value (cw_reason l))])"

lemma mem_CONFIDENCES [simp]: "c \<in> set CONFIDENCES"
  by (cases c) (simp_all add: CONFIDENCES_def)

lemma parseConfidence_Some_iff [accept_simps]:
  "parseConfidence v = Some c \<longleftrightarrow> v = JStr (confidence_string c)"
  by (simp add: parseConfidence_def requireEnum_Some_iff)

interpretation lowering: canonical_form "parseConfidenceLowering nfc" lowering_value for nfc
proof
  show "parseConfidenceLowering nfc v = Some l \<Longrightarrow>
      parseConfidenceLowering nfc (lowering_value l) = Some l" for v l
    using reason.parse_embed
    by (auto simp: parseConfidenceLowering_def lowering_value_def bind_Some_iff parseConfidence_Some_iff
        simp del: parseTruthLifecycleReason.simps reason_value.simps)
qed (simp add: lowering_value_def)

record evidence =
  ev_sourceArtifactId :: jstr
  ev_sourceChunkId :: jstr
  ev_expectedSourceVersion :: int
  ev_startOffset :: jsnum
  ev_endOffset :: int
  ev_excerpt :: jstr
  ev_sourceContentHash :: jstr
  ev_sourceNormalizedContentHash :: jstr
  ev_chunkContentHash :: jstr
  ev_excerptHash :: jstr

definition evidence_keys :: "string list" where
  "evidence_keys = [''sourceArtifactId'', ''sourceChunkId'', ''expectedSourceVersion'',
     ''expectedChunkVersion'', ''normalizationVersion'', ''chunkingVersion'', ''startOffset'',
     ''endOffset'', ''excerpt'', ''sourceContentHash'', ''sourceNormalizedContentHash'',
     ''chunkContentHash'', ''excerptHash'']"

definition span_lengths_ok :: "jsnum \<Rightarrow> int \<Rightarrow> jstr \<Rightarrow> bool" where
  "span_lengths_ok start e excerpt \<longleftrightarrow>
     (case (safe_int start, unicodeScalarLength excerpt) of
        (Some s, Some n) \<Rightarrow>
          \<not> (e \<le> s \<or> e - s > int SOURCE_CHUNK_MAX_SCALARS \<or> n < 1 \<or> n > SOURCE_CHUNK_MAX_SCALARS)
      | _ \<Rightarrow> False)"

definition parseEvidence :: "jsval \<Rightarrow> evidence option" where
  "parseEvidence input = do {
     fs \<leftarrow> exactObject input evidence_keys [];
     s \<leftarrow> requireNonNegativeInteger (fld fs ''startOffset'');
     e \<leftarrow> requirePositiveInteger (fld fs ''endOffset'');
     excerpt \<leftarrow> requireString (fld fs ''excerpt'');
     require (span_lengths_ok s e excerpt);
     artifact \<leftarrow> requireUuidV7 (fld fs ''sourceArtifactId'');
     chunk \<leftarrow> requireUuidV7 (fld fs ''sourceChunkId'');
     version \<leftarrow> requirePositiveInteger (fld fs ''expectedSourceVersion'');
     requireLiteral (fld fs ''expectedChunkVersion'') (num_value 1);
     requireLiteral (fld fs ''normalizationVersion'') (JStr SOURCE_NORMALIZATION_VERSION);
     requireLiteral (fld fs ''chunkingVersion'') (JStr SOURCE_CHUNKING_VERSION);
     h1 \<leftarrow> requireSha256 (fld fs ''sourceContentHash'');
     h2 \<leftarrow> requireSha256 (fld fs ''sourceNormalizedContentHash'');
     h3 \<leftarrow> requireSha256 (fld fs ''chunkContentHash'');
     h4 \<leftarrow> requireSha256 (fld fs ''excerptHash'');
     Some \<lparr>ev_sourceArtifactId = artifact, ev_sourceChunkId = chunk,
       ev_expectedSourceVersion = version, ev_startOffset = s, ev_endOffset = e, ev_excerpt = excerpt,
       ev_sourceContentHash = h1, ev_sourceNormalizedContentHash = h2, ev_chunkContentHash = h3,
       ev_excerptHash = h4\<rparr> }"

definition evidence_value :: "evidence \<Rightarrow> jsval" where
  "evidence_value e = JObj (object_of [
     (''sourceArtifactId'', JStr (ev_sourceArtifactId e)),
     (''sourceChunkId'', JStr (ev_sourceChunkId e)),
     (''expectedSourceVersion'', num_value (ev_expectedSourceVersion e)),
     (''expectedChunkVersion'', num_value 1),
     (''normalizationVersion'', JStr SOURCE_NORMALIZATION_VERSION),
     (''chunkingVersion'', JStr SOURCE_CHUNKING_VERSION),
     (''startOffset'', JNum (ev_startOffset e)), (''endOffset'', num_value (ev_endOffset e)),
     (''excerpt'', JStr (ev_excerpt e)), (''sourceContentHash'', JStr (ev_sourceContentHash e)),
     (''sourceNormalizedContentHash'', JStr (ev_sourceNormalizedContentHash e)),
     (''chunkContentHash'', JStr (ev_chunkContentHash e)),
     (''excerptHash'', JStr (ev_excerptHash e))])"

interpretation evidence: canonical_form parseEvidence evidence_value
  by unfold_locales
     (auto simp: parseEvidence_def evidence_value_def bind_Some_iff accept_simps evidence_keys_def)

end
