(* ===== verification/Canonical_Json.thy ===== *)
theory Canonical_Json
  imports Js_Values Validation
begin

text \<open>
  \<open>canonicalJsonStringify\<close> of \<open>packages/core-types/src/domain-notification.ts\<close>: JSON with sorted
  keys, the text that is hashed and stored. \<open>json_quote\<close> and \<open>int_text\<close> are \<open>JSON.stringify\<close> on
  strings and safe integers; a finite fraction carries its own text. The function fails on
  \<open>undefined\<close>, on a negative zero, on a number that is not finite or not exact, and on objects
  that are not plain. The main lemma is that the order of the members does not matter.
\<close>

section \<open>Strings and numbers\<close>

definition hex_digit :: "nat \<Rightarrow> nat" where
  "hex_digit n = (if n < 10 then 48 + n else 87 + n)"

definition hex4 :: "nat \<Rightarrow> jstr" where
  "hex4 u = [hex_digit (u div 4096 mod 16), hex_digit (u div 256 mod 16),
             hex_digit (u div 16 mod 16), hex_digit (u mod 16)]"

definition json_escape :: "jstr \<Rightarrow> jstr" where
  "json_escape c =
     (case c of
        [u] \<Rightarrow>
          (if u = 8 then [92, 98] else if u = 9 then [92, 116] else if u = 10 then [92, 110]
           else if u = 12 then [92, 102] else if u = 13 then [92, 114]
           else if u = 34 then [92, 34] else if u = 92 then [92, 92]
           else if u < 32 \<or> is_high u \<or> is_low u then [92, 117] @ hex4 u
           else [u])
      | _ \<Rightarrow> c)"

definition json_quote :: "jstr \<Rightarrow> jstr" where
  "json_quote s = [34] @ concat (map json_escape (array_from s)) @ [34]"

fun nat_text :: "nat \<Rightarrow> jstr" where
  "nat_text n = (if n < 10 then [48 + n] else nat_text (n div 10) @ [48 + n mod 10])"

declare nat_text.simps [simp del]

definition int_text :: "int \<Rightarrow> jstr" where
  "int_text i = (if i < 0 then 45 # nat_text (nat (- i)) else nat_text (nat i))"

fun join_comma :: "jstr list \<Rightarrow> jstr" where
  "join_comma [] = []"
| "join_comma [t] = t"
| "join_comma (t # ts) = t @ [44] @ join_comma ts"

fun number_text :: "jsnum \<Rightarrow> jstr option" where
  "number_text (IntNum i) =
     (if - max_safe_integer \<le> i \<and> i \<le> max_safe_integer then Some (int_text i) else None)"
| "number_text (Frac t) = Some t"
| "number_text _ = None"

section \<open>Values\<close>

definition member_text :: "jstr \<times> jstr \<Rightarrow> jstr" where
  "member_text kt = json_quote (fst kt) @ [58] @ snd kt"

definition object_text :: "(jstr \<times> jstr) list \<Rightarrow> jstr" where
  "object_text es = [123] @ join_comma (map member_text (sort_key fst es)) @ [125]"

function canonicalJsonStringify :: "jsval \<Rightarrow> jstr option" where
  "canonicalJsonStringify JNull = Some (js ''null'')"
| "canonicalJsonStringify (JBool b) = Some (if b then js ''true'' else js ''false'')"
| "canonicalJsonStringify (JStr s) = Some (json_quote s)"
| "canonicalJsonStringify (JNum n) = number_text n"
| "canonicalJsonStringify (JArr vs) =
     map_option (\<lambda>ts. [91] @ join_comma ts @ [93]) (those (map canonicalJsonStringify vs))"
| "canonicalJsonStringify (JObj fs) =
     map_option object_text
       (those (map (\<lambda>kv. map_option (Pair (key_string (fst kv))) (canonicalJsonStringify (snd kv)))
         (filter (\<lambda>kv. is_string_key (fst kv)) fs)))"
| "canonicalJsonStringify JUndef = None"
| "canonicalJsonStringify (JOther n) = None"
  by pat_completeness auto

lemma size_member: "kv \<in> set fs \<Longrightarrow> size (snd kv) < Suc (size_list (size_prod (\<lambda>_. 0) size) fs)"
  by (induction fs) auto

termination canonicalJsonStringify
  by (relation "measure size") (auto simp: size_member less_Suc_eq_le size_list_estimation' dest: size_member)

section \<open>The order of the members\<close>

lemma those_mset:
  assumes "mset xs = mset ys"
  shows "(those (map f xs) = None \<longleftrightarrow> those (map f ys) = None) \<and>
    (\<forall>us vs. those (map f xs) = Some us \<longrightarrow> those (map f ys) = Some vs \<longrightarrow> mset us = mset vs)"
proof -
  have none: "those (map f zs) = None \<longleftrightarrow> None \<in> f ` set zs" for zs
    by (induction zs) (auto split: option.splits)
  have some: "those (map f zs) = Some us \<Longrightarrow> us = map (\<lambda>x. the (f x)) zs" for zs us
    by (induction zs arbitrary: us) (auto split: option.splits)
  have "set xs = set ys" using assms by (metis set_mset_mset)
  then show ?thesis using assms by (auto simp: none dest!: some)
qed

lemma string_key_eq: "is_string_key k \<Longrightarrow> is_string_key l \<Longrightarrow> key_string k = key_string l \<Longrightarrow> k = l"
  by (cases k; cases l) auto

lemma canonical_object_perm:
  assumes "mset fs = mset gs" "distinct (map fst fs)"
  shows "canonicalJsonStringify (JObj fs) = canonicalJsonStringify (JObj gs)"
proof -
  let ?P = "\<lambda>kv::jkey \<times> jsval. is_string_key (fst kv)"
  let ?f = "\<lambda>kv. map_option (Pair (key_string (fst kv))) (canonicalJsonStringify (snd kv))"
  have m: "mset (filter ?P fs) = mset (filter ?P gs)" using assms(1) by (simp add: mset_filter)
  have d: "distinct (map (\<lambda>kv. key_string (fst kv)) (filter ?P fs))"
    using assms(2) by (induction fs) (auto dest: string_key_eq)
  have k: "those (map ?f zs) = Some us \<Longrightarrow> map fst us = map (\<lambda>kv. key_string (fst kv)) zs" for zs us
    by (induction zs arbitrary: us) (auto split: option.splits)
  show ?thesis
  proof (cases "those (map ?f (filter ?P fs))")
    case None
    then show ?thesis using those_mset[OF m, of ?f] by simp
  next
    case (Some us)
    then obtain vs where vs: "those (map ?f (filter ?P gs)) = Some vs" "mset us = mset vs"
      using those_mset[OF m, of ?f] by (cases "those (map ?f (filter ?P gs))") auto
    have "distinct (map fst us)" using k[OF Some] d by simp
    then have "sort_key fst us = sort_key fst vs" using sort_key_perm_unique[OF vs(2)] by blast
    then show ?thesis using Some vs by (simp add: object_text_def)
  qed
qed

text \<open>Canonical JSON does not depend on the order in which the members of an object were
  written: two objects with the same members, each name once, have the same text, or both fail.\<close>
theorem canonicalJsonStringify_member_order:
  assumes "mset fs = mset gs" and "distinct (map fst fs)"
  shows "canonicalJsonStringify (JObj fs) = canonicalJsonStringify (JObj gs)"
  using canonical_object_perm[OF assms] .

lemma canonicalJsonStringify_member_order_witness:
  "canonicalJsonStringify (JObj [(KStr (js ''b''), JNull), (KStr (js ''a''), JBool True)]) =
   canonicalJsonStringify (JObj [(KStr (js ''a''), JBool True), (KStr (js ''b''), JNull)])"
  by (rule canonicalJsonStringify_member_order) simp_all

section \<open>Values that have a canonical text\<close>

text \<open>
  The values that have a canonical JSON text, decided member by member. The boundaries use it to
  show that what a parser returns can be serialised.
\<close>

section \<open>Values that have a canonical text\<close>

definition jsonable :: "jsval \<Rightarrow> bool" where
  "jsonable v \<longleftrightarrow> \<not> canonicalJsonStringify v = None"

lemma those_map_None: "those (map f xs) = None \<longleftrightarrow> (\<exists>x\<in>set xs. f x = None)"
  by (induction xs) (auto split: option.splits)

lemma jsonable_object [simp]:
  "jsonable (JObj (object_of kvs)) \<longleftrightarrow> (\<forall>v\<in>snd ` set kvs. jsonable v)"
proof -
  have "filter (\<lambda>kv. is_string_key (fst kv)) (object_of kvs) = object_of kvs"
    by (auto simp: object_of_def filter_id_conv)
  then show ?thesis
    by (auto simp: jsonable_def those_map_None simp del: not_None_eq) (force simp: object_of_def)+
qed

lemma jsonable_simps [simp]:
  "jsonable JNull" "jsonable (JBool b)" "jsonable (JStr s)" "\<not> jsonable JUndef"
  "jsonable (JNum (IntNum i)) \<longleftrightarrow> - max_safe_integer \<le> i \<and> i \<le> max_safe_integer"
  "\<not> jsonable (JNum NegZero)"
  "jsonable (JArr vs) \<longleftrightarrow> (\<forall>v\<in>set vs. jsonable v)"
  by (auto simp: jsonable_def those_map_None simp del: not_None_eq)

lemma snd_opt_entry [simp]: "snd ` set (opt_entry k f x) = (if x = None then {} else {f (the x)})"
  by (auto simp: opt_entry_def split: option.splits)

lemma max_safe_pos [simp]: "1 \<le> i \<Longrightarrow> - max_safe_integer \<le> i" "- 1 \<le> max_safe_integer" "1 \<le> max_safe_integer"
  by (simp_all add: max_safe_integer_def)

end
