(* ===== verification/Command_Schemas.thy ===== *)
theory Command_Schemas
  imports  Command_Payloads Canonical_Json
begin

text \<open>
  \<open>packages/truth-ledger/src/command-schemas.ts\<close>: the eleven truth-ledger commands, their parser
  \<open>parseB2Command\<close>, and the canonical identity whose hash makes a command idempotent.
  \<open>nfc\<close> and \<open>sha256\<close> are parameters.
\<close>

section \<open>Payloads\<close>

datatype generation = EmptyGeneration | ClaimGeneration jstr int jstr

record create_claim =
  cc_subject :: subject_ref
  cc_assertion :: assertion
  cc_confidence :: confidence
  cc_validFrom :: "jstr option"
  cc_validTo :: "jstr option"
  cc_observedAt :: "jstr option"
  cc_evidence :: evidence
  cc_supportConfirmation :: "unit option"
  cc_generation :: "generation option"

record withdraw_objective =
  wo_subject :: subject_ref
  wo_proposal :: claim_ref
  wo_disposition :: jstr
  wo_reasonCode :: jstr

record rework_objective =
  ro_subject :: subject_ref
  ro_predecessor :: claim_ref
  ro_assertion :: assertion
  ro_confidence :: confidence
  ro_evidence :: evidence

record accept_fact =
  af_subject :: subject_ref
  af_claims :: "claim_ref list"
  af_acceptanceScope :: jstr
  af_lowering :: "lowering option"

record contest_fact =
  cn_factId :: jstr
  cn_expectedFactVersion :: int
  cn_competingClaim :: claim_ref
  cn_reason :: truth_reason

record uphold_fact =
  uf_factId :: jstr
  uf_expectedFactVersion :: int
  uf_conflict :: conflict_ref
  uf_challengerClaim :: claim_ref
  uf_reason :: truth_reason

record supersede_fact =
  sf_factId :: jstr
  sf_expectedFactVersion :: int
  sf_subject :: subject_ref
  sf_replacementClaims :: "claim_ref list"
  sf_conflict :: "conflict_ref option"
  sf_reason :: truth_reason
  sf_lowering :: "lowering option"

record revoke_fact =
  rf_factId :: jstr
  rf_expectedFactVersion :: int
  rf_reason :: truth_reason

record regenerate_view =
  rv_targetId :: jstr
  rv_expectedVersion :: int
  rv_expectedAudienceFingerprint :: jstr
  rv_expectedInputRevisionHash :: jstr

section \<open>Parsers of the claim commands\<close>

definition generation_statuses :: "jstr list" where
  "generation_statuses = map js [''proposed'', ''accepted'', ''rejected'', ''superseded'']"

definition parsePrimaryObjectiveGeneration :: "jsval \<Rightarrow> generation option" where
  "parsePrimaryObjectiveGeneration input = do {
     candidate \<leftarrow> exactObject input [''kind''] [''claimId'', ''expectedVersion'', ''expectedStatus''];
     (if fld candidate ''kind'' = JStr (js ''empty'') then do {
        exactObject input [''kind''] [];
        Some EmptyGeneration }
      else do {
        fs \<leftarrow> exactObject input [''kind'', ''claimId'', ''expectedVersion'', ''expectedStatus''] [];
        requireLiteral (fld fs ''kind'') (JStr (js ''claim''));
        i \<leftarrow> requireUuidV7 (fld fs ''claimId'');
        v \<leftarrow> requirePositiveInteger (fld fs ''expectedVersion'');
        s \<leftarrow> requireEnum (\<lambda>s. s) generation_statuses (fld fs ''expectedStatus'');
        Some (ClaimGeneration i v s) }) }"

fun generation_value :: "generation \<Rightarrow> jsval" where
  "generation_value EmptyGeneration = JObj (object_of [(''kind'', JStr (js ''empty''))])"
| "generation_value (ClaimGeneration i v s) =
     JObj (object_of [(''kind'', JStr (js ''claim'')), (''claimId'', JStr i),
       (''expectedVersion'', num_value v), (''expectedStatus'', JStr s)])"

definition parseSupportConfirmation :: "jsval \<Rightarrow> unit option" where
  "parseSupportConfirmation input = do {
     fs \<leftarrow> exactObject input [''confirmed''] [];
     requireLiteral (fld fs ''confirmed'') (JBool True) }"

definition confirmation_value :: "unit \<Rightarrow> jsval" where
  "confirmation_value u = JObj (object_of [(''confirmed'', JBool True)])"

definition valid_to_before_from :: "jstr option \<Rightarrow> jstr option \<Rightarrow> bool" where
  "valid_to_before_from validFrom validTo =
     (case (validFrom, validTo) of
        (Some a, Some b) \<Rightarrow>
          (case (date_parse b, date_parse a) of (Some x, Some y) \<Rightarrow> x < y | _ \<Rightarrow> False)
      | _ \<Rightarrow> False)"

definition objective_coherent :: "assertion \<Rightarrow> unit option \<Rightarrow> generation option \<Rightarrow> bool" where
  "objective_coherent a confirmation gen \<longleftrightarrow>
     \<not> ((as_predicate a = PrimaryObjective) \<noteq> (confirmation \<noteq> None) \<or>
        (as_predicate a = PrimaryObjective) \<noteq> (gen \<noteq> None))"

definition parseCreateClaim :: "(jstr \<Rightarrow> jstr) \<Rightarrow> jsval \<Rightarrow> create_claim option" where
  "parseCreateClaim nfc input = do {
     fs \<leftarrow> exactObject input
       [''subject'', ''predicate'', ''valueJson'', ''normalizedText'', ''confidence'', ''evidence'']
       [''validFrom'', ''validTo'', ''observedAt'', ''supportConfirmation'',
        ''expectedPrimaryObjectiveGeneration''];
     subject \<leftarrow> parseSubject (fld fs ''subject'');
     a \<leftarrow> parsePredicateAssertion nfc (fld fs ''predicate'')
       (JStr (subject_string (sr_type subject))) (fld fs ''valueJson'') (fld fs ''normalizedText'');
     validFrom \<leftarrow> optional requireTimestamp (fld fs ''validFrom'');
     validTo \<leftarrow> optional requireTimestamp (fld fs ''validTo'');
     require (\<not> valid_to_before_from validFrom validTo);
     confirmation \<leftarrow> optional parseSupportConfirmation (fld fs ''supportConfirmation'');
     generation \<leftarrow> optional parsePrimaryObjectiveGeneration
       (fld fs ''expectedPrimaryObjectiveGeneration'');
     require (objective_coherent a confirmation generation);
     confidence \<leftarrow> parseConfidence (fld fs ''confidence'');
     observedAt \<leftarrow> optional requireTimestamp (fld fs ''observedAt'');
     e \<leftarrow> parseEvidence (fld fs ''evidence'');
     Some \<lparr>cc_subject = subject, cc_assertion = a, cc_confidence = confidence,
       cc_validFrom = validFrom, cc_validTo = validTo, cc_observedAt = observedAt, cc_evidence = e,
       cc_supportConfirmation = confirmation, cc_generation = generation\<rparr> }"

definition create_claim_value :: "create_claim \<Rightarrow> jsval" where
  "create_claim_value c = JObj (object_of (
     (''subject'', subject_value (cc_subject c)) #
     (''predicate'', JStr (predicate_string (as_predicate (cc_assertion c)))) #
     (''valueJson'', JStr (as_canonicalValue (cc_assertion c))) #
     (''normalizedText'', JStr (as_normalizedText (cc_assertion c))) #
     (''confidence'', JStr (confidence_string (cc_confidence c))) #
     (''evidence'', evidence_value (cc_evidence c)) #
     opt_entry ''validFrom'' JStr (cc_validFrom c) @ opt_entry ''validTo'' JStr (cc_validTo c) @
     opt_entry ''observedAt'' JStr (cc_observedAt c) @
     opt_entry ''supportConfirmation'' confirmation_value (cc_supportConfirmation c) @
     opt_entry ''expectedPrimaryObjectiveGeneration'' generation_value (cc_generation c) @ []))"

definition dispositions :: "jstr list" where
  "dispositions = map js [''withdrawn'', ''rejected'']"

definition parseWithdrawPrimaryObjective :: "jsval \<Rightarrow> withdraw_objective option" where
  "parseWithdrawPrimaryObjective input = do {
     fs \<leftarrow> exactObject input [''subject'', ''proposal'', ''disposition'', ''reasonCode''] [];
     subject \<leftarrow> parseSubject (fld fs ''subject'');
     require (sr_type subject = InitiativeSubject);
     proposal \<leftarrow> parseClaimRef (fld fs ''proposal'');
     disposition \<leftarrow> requireEnum (\<lambda>s. s) dispositions (fld fs ''disposition'');
     code \<leftarrow> requireEnum (\<lambda>s. s) PRIMARY_OBJECTIVE_WITHDRAW_REASON_CODES (fld fs ''reasonCode'');
     Some \<lparr>wo_subject = subject, wo_proposal = proposal, wo_disposition = disposition,
       wo_reasonCode = code\<rparr> }"

definition withdraw_value :: "withdraw_objective \<Rightarrow> jsval" where
  "withdraw_value w = JObj (object_of [(''subject'', subject_value (wo_subject w)),
     (''proposal'', claim_ref_value (wo_proposal w)), (''disposition'', JStr (wo_disposition w)),
     (''reasonCode'', JStr (wo_reasonCode w))])"

definition parseReworkPrimaryObjective :: "(jstr \<Rightarrow> jstr) \<Rightarrow> jsval \<Rightarrow> rework_objective option" where
  "parseReworkPrimaryObjective nfc input = do {
     fs \<leftarrow> exactObject input [''subject'', ''predecessor'', ''valueJson'', ''normalizedText'',
       ''confidence'', ''evidence'', ''supportConfirmation''] [];
     subject \<leftarrow> parseSubject (fld fs ''subject'');
     require (sr_type subject = InitiativeSubject);
     a \<leftarrow> parsePredicateAssertion nfc (JStr (js ''initiative.primary_objective''))
       (JStr (subject_string (sr_type subject))) (fld fs ''valueJson'') (fld fs ''normalizedText'');
     predecessor \<leftarrow> parseClaimRef (fld fs ''predecessor'');
     confidence \<leftarrow> parseConfidence (fld fs ''confidence'');
     e \<leftarrow> parseEvidence (fld fs ''evidence'');
     parseSupportConfirmation (fld fs ''supportConfirmation'');
     Some \<lparr>ro_subject = subject, ro_predecessor = predecessor, ro_assertion = a,
       ro_confidence = confidence, ro_evidence = e\<rparr> }"

definition rework_value :: "rework_objective \<Rightarrow> jsval" where
  "rework_value r = JObj (object_of [(''subject'', subject_value (ro_subject r)),
     (''predecessor'', claim_ref_value (ro_predecessor r)),
     (''valueJson'', JStr (as_canonicalValue (ro_assertion r))),
     (''normalizedText'', JStr (as_normalizedText (ro_assertion r))),
     (''confidence'', JStr (confidence_string (ro_confidence r))),
     (''evidence'', evidence_value (ro_evidence r)),
     (''supportConfirmation'', confirmation_value ())])"

section \<open>Round trips of the claim commands\<close>

lemma optional_entry:
  assumes "optional p v = Some x" and "\<And>v y. p v = Some y \<Longrightarrow> p (f y) = Some y \<and> f y \<noteq> JUndef"
  shows "optional p (if x \<noteq> None then f (the x) else JUndef) = Some x"
  using assms by (auto simp: optional_def split: if_splits)

interpretation generation: canonical_form parsePrimaryObjectiveGeneration generation_value
proof
  show "parsePrimaryObjectiveGeneration v = Some g \<Longrightarrow>
      parsePrimaryObjectiveGeneration (generation_value g) = Some g" for v g
    by (auto simp: parsePrimaryObjectiveGeneration_def bind_Some_iff accept_simps split: if_splits)
  show "generation_value g \<noteq> JUndef" for g by (cases g) auto
qed

interpretation confirmation: canonical_form parseSupportConfirmation confirmation_value
  by unfold_locales (auto simp: parseSupportConfirmation_def confirmation_value_def bind_Some_iff accept_simps)

lemma parseCreateClaim_Some_iff:
  "parseCreateClaim nfc v = Some c \<longleftrightarrow>
     (\<exists>fs. exactObject v
        [''subject'', ''predicate'', ''valueJson'', ''normalizedText'', ''confidence'', ''evidence'']
        [''validFrom'', ''validTo'', ''observedAt'', ''supportConfirmation'',
         ''expectedPrimaryObjectiveGeneration''] = Some fs \<and>
      parseSubject (fld fs ''subject'') = Some (cc_subject c) \<and>
      parsePredicateAssertion nfc (fld fs ''predicate'')
        (JStr (subject_string (sr_type (cc_subject c)))) (fld fs ''valueJson'')
        (fld fs ''normalizedText'') = Some (cc_assertion c) \<and>
      optional requireTimestamp (fld fs ''validFrom'') = Some (cc_validFrom c) \<and>
      optional requireTimestamp (fld fs ''validTo'') = Some (cc_validTo c) \<and>
      \<not> valid_to_before_from (cc_validFrom c) (cc_validTo c) \<and>
      optional parseSupportConfirmation (fld fs ''supportConfirmation'') =
        Some (cc_supportConfirmation c) \<and>
      optional parsePrimaryObjectiveGeneration (fld fs ''expectedPrimaryObjectiveGeneration'') =
        Some (cc_generation c) \<and>
      objective_coherent (cc_assertion c) (cc_supportConfirmation c) (cc_generation c) \<and>
      parseConfidence (fld fs ''confidence'') = Some (cc_confidence c) \<and>
      optional requireTimestamp (fld fs ''observedAt'') = Some (cc_observedAt c) \<and>
      parseEvidence (fld fs ''evidence'') = Some (cc_evidence c))"
  by (cases c) (auto simp: parseCreateClaim_def bind_Some_iff)

lemma assertion_embed:
  "parsePredicateAssertion nfc p k v t = Some a \<Longrightarrow>
     parsePredicateAssertion nfc (JStr (predicate_string (as_predicate a))) k
       (JStr (as_canonicalValue a)) (JStr (as_normalizedText a)) = Some a"
  by (auto simp: parsePredicateAssertion_Some_iff)

lemma parseCreateClaim_embed:
  assumes "parseCreateClaim nfc v = Some c"
  shows "parseCreateClaim nfc (create_claim_value c) = Some c"
proof -
  define kvs where "kvs = (''subject'', subject_value (cc_subject c)) #
     (''predicate'', JStr (predicate_string (as_predicate (cc_assertion c)))) #
     (''valueJson'', JStr (as_canonicalValue (cc_assertion c))) #
     (''normalizedText'', JStr (as_normalizedText (cc_assertion c))) #
     (''confidence'', JStr (confidence_string (cc_confidence c))) #
     (''evidence'', evidence_value (cc_evidence c)) #
     opt_entry ''validFrom'' JStr (cc_validFrom c) @ opt_entry ''validTo'' JStr (cc_validTo c) @
     opt_entry ''observedAt'' JStr (cc_observedAt c) @
     opt_entry ''supportConfirmation'' confirmation_value (cc_supportConfirmation c) @
     opt_entry ''expectedPrimaryObjectiveGeneration'' generation_value (cc_generation c) @ []"
  let ?o = "object_of kvs"
  have v: "create_claim_value c = JObj ?o" by (simp only: create_claim_value_def kvs_def)
  have e: "exactObject (JObj ?o)
        [''subject'', ''predicate'', ''valueJson'', ''normalizedText'', ''confidence'', ''evidence'']
        [''validFrom'', ''validTo'', ''observedAt'', ''supportConfirmation'',
         ''expectedPrimaryObjectiveGeneration''] = Some ?o"
    by (simp add: kvs_def image_Un)
  have f: "fld ?o ''subject'' = subject_value (cc_subject c)"
    "fld ?o ''predicate'' = JStr (predicate_string (as_predicate (cc_assertion c)))"
    "fld ?o ''valueJson'' = JStr (as_canonicalValue (cc_assertion c))"
    "fld ?o ''normalizedText'' = JStr (as_normalizedText (cc_assertion c))"
    "fld ?o ''confidence'' = JStr (confidence_string (cc_confidence c))"
    "fld ?o ''evidence'' = evidence_value (cc_evidence c)"
    by (simp_all add: kvs_def)
  have g: "fld ?o ''validFrom'' = (if cc_validFrom c \<noteq> None then JStr (the (cc_validFrom c)) else JUndef)"
    "fld ?o ''validTo'' = (if cc_validTo c \<noteq> None then JStr (the (cc_validTo c)) else JUndef)"
    "fld ?o ''observedAt'' = (if cc_observedAt c \<noteq> None then JStr (the (cc_observedAt c)) else JUndef)"
    "fld ?o ''supportConfirmation'' = (if cc_supportConfirmation c \<noteq> None
        then confirmation_value (the (cc_supportConfirmation c)) else JUndef)"
    "fld ?o ''expectedPrimaryObjectiveGeneration'' = (if cc_generation c \<noteq> None
        then generation_value (the (cc_generation c)) else JUndef)"
    by (simp_all add: kvs_def)
  obtain fs where p: "parseSubject (fld fs ''subject'') = Some (cc_subject c)"
      "parsePredicateAssertion nfc (fld fs ''predicate'')
        (JStr (subject_string (sr_type (cc_subject c)))) (fld fs ''valueJson'')
        (fld fs ''normalizedText'') = Some (cc_assertion c)"
      "optional requireTimestamp (fld fs ''validFrom'') = Some (cc_validFrom c)"
      "optional requireTimestamp (fld fs ''validTo'') = Some (cc_validTo c)"
      "optional requireTimestamp (fld fs ''observedAt'') = Some (cc_observedAt c)"
      "optional parseSupportConfirmation (fld fs ''supportConfirmation'') =
        Some (cc_supportConfirmation c)"
      "optional parsePrimaryObjectiveGeneration (fld fs ''expectedPrimaryObjectiveGeneration'') =
        Some (cc_generation c)"
      "parseEvidence (fld fs ''evidence'') = Some (cc_evidence c)"
    and q: "\<not> valid_to_before_from (cc_validFrom c) (cc_validTo c)"
      "objective_coherent (cc_assertion c) (cc_supportConfirmation c) (cc_generation c)"
    using assms unfolding parseCreateClaim_Some_iff by blast
  have ts: "optional requireTimestamp w = Some x \<Longrightarrow>
      optional requireTimestamp (if x \<noteq> None then JStr (the x) else JUndef) = Some x" for w x
    by (rule optional_entry, assumption) (simp add: timestamps.parse_embed)
  have "optional parseSupportConfirmation (fld ?o ''supportConfirmation'') = Some (cc_supportConfirmation c)"
    unfolding g by (rule optional_entry[OF p(6)]) (simp add: confirmation.parse_embed confirmation.embed_defined)
  moreover have "optional parsePrimaryObjectiveGeneration (fld ?o ''expectedPrimaryObjectiveGeneration'') =
      Some (cc_generation c)"
    unfolding g by (rule optional_entry[OF p(7)]) (simp add: generation.parse_embed generation.embed_defined)
  moreover have "optional requireTimestamp (fld ?o ''validFrom'') = Some (cc_validFrom c)"
    "optional requireTimestamp (fld ?o ''validTo'') = Some (cc_validTo c)"
    "optional requireTimestamp (fld ?o ''observedAt'') = Some (cc_observedAt c)"
    unfolding g by (rule ts[OF p(3)] ts[OF p(4)] ts[OF p(5)])+
  moreover have "parseSubject (fld ?o ''subject'') = Some (cc_subject c)"
    "parseEvidence (fld ?o ''evidence'') = Some (cc_evidence c)"
    "parseConfidence (fld ?o ''confidence'') = Some (cc_confidence c)"
    unfolding f by (rule subject.parse_embed[OF p(1)] evidence.parse_embed[OF p(8)]
        parseConfidence_Some_iff[THEN iffD2, OF refl])+
  moreover have "parsePredicateAssertion nfc (fld ?o ''predicate'')
        (JStr (subject_string (sr_type (cc_subject c)))) (fld ?o ''valueJson'')
        (fld ?o ''normalizedText'') = Some (cc_assertion c)"
    unfolding f by (rule assertion_embed[OF p(2)])
  ultimately show ?thesis unfolding v parseCreateClaim_Some_iff using e q by blast
qed

interpretation create_claim: canonical_form "parseCreateClaim nfc" create_claim_value for nfc
proof
  show "parseCreateClaim nfc v = Some c \<Longrightarrow> parseCreateClaim nfc (create_claim_value c) = Some c" for v c
    by (rule parseCreateClaim_embed)
qed (simp add: create_claim_value_def)

interpretation withdraw: canonical_form parseWithdrawPrimaryObjective withdraw_value
  using subject.parse_embed claim_ref.parse_embed
  by unfold_locales
     (auto simp: parseWithdrawPrimaryObjective_def withdraw_value_def bind_Some_iff accept_simps)

interpretation rework: canonical_form "parseReworkPrimaryObjective nfc" rework_value for nfc
  using subject.parse_embed claim_ref.parse_embed evidence.parse_embed confirmation.parse_embed
  by unfold_locales
     (auto simp: parseReworkPrimaryObjective_def rework_value_def bind_Some_iff accept_simps)

end
