(* ===== verification/B2_Commands.thy ===== *)
theory B2_Commands
  imports Command_Schemas
begin

text \<open>
  The parsers of the fact lifecycle commands and of the derived view, from
  \<open>packages/truth-ledger/src/command-schemas.ts\<close>.
\<close>

section \<open>Acceptance\<close>

definition acceptance_scopes :: "jstr list" where
  "acceptance_scopes = map js [''engagement'', ''initiative'']"

definition parseAcceptFact :: "(jstr \<Rightarrow> jstr) \<Rightarrow> jsval \<Rightarrow> accept_fact option" where
  "parseAcceptFact nfc input = do {
     fs \<leftarrow> exactObject input
       [''subject'', ''claims'', ''expectedCurrentFactId'', ''acceptanceScope''] [''confidenceLowering''];
     subject \<leftarrow> parseSubject (fld fs ''subject'');
     scope \<leftarrow> requireEnum (\<lambda>s. s) acceptance_scopes (fld fs ''acceptanceScope'');
     require (\<not> ((sr_type subject = ActivitySubject \<and> scope \<noteq> js ''engagement'') \<or>
                (sr_type subject = InitiativeSubject \<and> scope \<noteq> js ''initiative'')));
     claims \<leftarrow> parseSortedClaimRefs (fld fs ''claims'');
     requireLiteral (fld fs ''expectedCurrentFactId'') JNull;
     l \<leftarrow> optional (parseConfidenceLowering nfc) (fld fs ''confidenceLowering'');
     Some \<lparr>af_subject = subject, af_claims = claims, af_acceptanceScope = scope, af_lowering = l\<rparr> }"

definition accept_value :: "accept_fact \<Rightarrow> jsval" where
  "accept_value a = JObj (object_of (
     (''subject'', subject_value (af_subject a)) # (''claims'', claim_refs_value (af_claims a)) #
     (''expectedCurrentFactId'', JNull) # (''acceptanceScope'', JStr (af_acceptanceScope a)) #
     opt_entry ''confidenceLowering'' lowering_value (af_lowering a)))"

section \<open>Lifecycle of an accepted fact\<close>

definition parseContest :: "(jstr \<Rightarrow> jstr) \<Rightarrow> reason_kind \<Rightarrow> jsval \<Rightarrow> contest_fact option" where
  "parseContest nfc kind input = do {
     fs \<leftarrow> exactObject input [''factId'', ''expectedFactVersion'', ''competingClaim'', ''reason''] [];
     i \<leftarrow> requireUuidV7 (fld fs ''factId'');
     v \<leftarrow> requirePositiveInteger (fld fs ''expectedFactVersion'');
     c \<leftarrow> parseClaimRef (fld fs ''competingClaim'');
     r \<leftarrow> parseTruthLifecycleReason nfc kind (fld fs ''reason'');
     Some \<lparr>cn_factId = i, cn_expectedFactVersion = v, cn_competingClaim = c, cn_reason = r\<rparr> }"

definition parseContestFact :: "(jstr \<Rightarrow> jstr) \<Rightarrow> jsval \<Rightarrow> contest_fact option" where
  "parseContestFact nfc input = parseContest nfc ContestKind input"

definition parseEmergencyContest :: "(jstr \<Rightarrow> jstr) \<Rightarrow> jsval \<Rightarrow> contest_fact option" where
  "parseEmergencyContest nfc input = parseContest nfc EmergencyKind input"

definition contest_value :: "contest_fact \<Rightarrow> jsval" where
  "contest_value c = JObj (object_of [(''factId'', JStr (cn_factId c)),
     (''expectedFactVersion'', num_value (cn_expectedFactVersion c)),
     (''competingClaim'', claim_ref_value (cn_competingClaim c)),
     (''reason'', reason_value (cn_reason c))])"

definition parseUpholdFact :: "(jstr \<Rightarrow> jstr) \<Rightarrow> jsval \<Rightarrow> uphold_fact option" where
  "parseUpholdFact nfc input = do {
     fs \<leftarrow> exactObject input
       [''factId'', ''expectedFactVersion'', ''conflict'', ''challengerClaim'', ''reason''] [];
     i \<leftarrow> requireUuidV7 (fld fs ''factId'');
     v \<leftarrow> requirePositiveInteger (fld fs ''expectedFactVersion'');
     k \<leftarrow> parseConflictRef (fld fs ''conflict'');
     c \<leftarrow> parseClaimRef (fld fs ''challengerClaim'');
     r \<leftarrow> parseTruthLifecycleReason nfc UpholdKind (fld fs ''reason'');
     Some \<lparr>uf_factId = i, uf_expectedFactVersion = v, uf_conflict = k, uf_challengerClaim = c,
       uf_reason = r\<rparr> }"

definition uphold_value :: "uphold_fact \<Rightarrow> jsval" where
  "uphold_value u = JObj (object_of [(''factId'', JStr (uf_factId u)),
     (''expectedFactVersion'', num_value (uf_expectedFactVersion u)),
     (''conflict'', conflict_ref_value (uf_conflict u)),
     (''challengerClaim'', claim_ref_value (uf_challengerClaim u)),
     (''reason'', reason_value (uf_reason u))])"

definition parseSupersedeFact :: "(jstr \<Rightarrow> jstr) \<Rightarrow> jsval \<Rightarrow> supersede_fact option" where
  "parseSupersedeFact nfc input = do {
     fs \<leftarrow> exactObject input
       [''factId'', ''expectedFactVersion'', ''subject'', ''replacementClaims'', ''reason'']
       [''conflict'', ''confidenceLowering''];
     i \<leftarrow> requireUuidV7 (fld fs ''factId'');
     v \<leftarrow> requirePositiveInteger (fld fs ''expectedFactVersion'');
     s \<leftarrow> parseSubject (fld fs ''subject'');
     cs \<leftarrow> parseSortedClaimRefs (fld fs ''replacementClaims'');
     k \<leftarrow> optional parseConflictRef (fld fs ''conflict'');
     r \<leftarrow> parseTruthLifecycleReason nfc SupersedeKind (fld fs ''reason'');
     l \<leftarrow> optional (parseConfidenceLowering nfc) (fld fs ''confidenceLowering'');
     Some \<lparr>sf_factId = i, sf_expectedFactVersion = v, sf_subject = s, sf_replacementClaims = cs,
       sf_conflict = k, sf_reason = r, sf_lowering = l\<rparr> }"

definition supersede_value :: "supersede_fact \<Rightarrow> jsval" where
  "supersede_value s = JObj (object_of (
     (''factId'', JStr (sf_factId s)) # (''expectedFactVersion'', num_value (sf_expectedFactVersion s)) #
     (''subject'', subject_value (sf_subject s)) #
     (''replacementClaims'', claim_refs_value (sf_replacementClaims s)) #
     (''reason'', reason_value (sf_reason s)) #
     opt_entry ''conflict'' conflict_ref_value (sf_conflict s) @
     opt_entry ''confidenceLowering'' lowering_value (sf_lowering s)))"

definition parseRevoke :: "(jstr \<Rightarrow> jstr) \<Rightarrow> reason_kind \<Rightarrow> jsval \<Rightarrow> revoke_fact option" where
  "parseRevoke nfc kind input = do {
     fs \<leftarrow> exactObject input [''factId'', ''expectedFactVersion'', ''reason''] [];
     i \<leftarrow> requireUuidV7 (fld fs ''factId'');
     v \<leftarrow> requirePositiveInteger (fld fs ''expectedFactVersion'');
     r \<leftarrow> parseTruthLifecycleReason nfc kind (fld fs ''reason'');
     Some \<lparr>rf_factId = i, rf_expectedFactVersion = v, rf_reason = r\<rparr> }"

definition parseRevokeFact :: "(jstr \<Rightarrow> jstr) \<Rightarrow> jsval \<Rightarrow> revoke_fact option" where
  "parseRevokeFact nfc input = parseRevoke nfc RevokeKind input"

definition parseEmergencyRevoke :: "(jstr \<Rightarrow> jstr) \<Rightarrow> jsval \<Rightarrow> revoke_fact option" where
  "parseEmergencyRevoke nfc input = parseRevoke nfc EmergencyKind input"

definition revoke_value :: "revoke_fact \<Rightarrow> jsval" where
  "revoke_value r = JObj (object_of [(''factId'', JStr (rf_factId r)),
     (''expectedFactVersion'', num_value (rf_expectedFactVersion r)),
     (''reason'', reason_value (rf_reason r))])"

section \<open>Derived views\<close>

definition parseRegenerateDerivedView :: "jsval \<Rightarrow> regenerate_view option" where
  "parseRegenerateDerivedView input = do {
     fs \<leftarrow> exactObject input [''target'', ''viewType'', ''renderer'', ''expectedAudienceFingerprint'',
       ''expectedInputRevisionHash''] [];
     target \<leftarrow> exactObject (fld fs ''target'') [''type'', ''id'', ''expectedVersion''] [];
     renderer \<leftarrow> exactObject (fld fs ''renderer'') [''id'', ''version''] [];
     requireLiteral (fld target ''type'') (JStr (js ''initiative''));
     i \<leftarrow> requireUuidV7 (fld target ''id'');
     v \<leftarrow> requirePositiveInteger (fld target ''expectedVersion'');
     requireLiteral (fld fs ''viewType'') (JStr (js ''initiative_summary''));
     requireLiteral (fld renderer ''id'') (JStr (js ''truth-ledger.cited-current-truth''));
     requireLiteral (fld renderer ''version'') (JStr (js ''v1''));
     a \<leftarrow> requireSha256 (fld fs ''expectedAudienceFingerprint'');
     h \<leftarrow> requireSha256 (fld fs ''expectedInputRevisionHash'');
     Some \<lparr>rv_targetId = i, rv_expectedVersion = v, rv_expectedAudienceFingerprint = a,
       rv_expectedInputRevisionHash = h\<rparr> }"

definition regenerate_value :: "regenerate_view \<Rightarrow> jsval" where
  "regenerate_value r = JObj (object_of [
     (''target'', JObj (object_of [(''type'', JStr (js ''initiative'')), (''id'', JStr (rv_targetId r)),
        (''expectedVersion'', num_value (rv_expectedVersion r))])),
     (''viewType'', JStr (js ''initiative_summary'')),
     (''renderer'', JObj (object_of [(''id'', JStr (js ''truth-ledger.cited-current-truth'')),
        (''version'', JStr (js ''v1''))])),
     (''expectedAudienceFingerprint'', JStr (rv_expectedAudienceFingerprint r)),
     (''expectedInputRevisionHash'', JStr (rv_expectedInputRevisionHash r))])"

section \<open>Round trips\<close>

interpretation accept: canonical_form "parseAcceptFact nfc" accept_value for nfc
proof
  fix v a assume "parseAcceptFact nfc v = Some a"
  then show "parseAcceptFact nfc (accept_value a) = Some a"
    using subject.parse_embed claim_refs.parse_embed lowering.optional_some_embed
    by (auto simp: parseAcceptFact_def accept_value_def bind_Some_iff 
        requireEnum_id_Some_iff requireLiteral_Some_iff simp del:)
qed (simp add: accept_value_def)

interpretation contest: canonical_form "parseContest nfc kind" contest_value for nfc kind
proof
  fix v a assume "parseContest nfc kind v = Some a"
  then show "parseContest nfc kind (contest_value a) = Some a"
    using claim_ref.parse_embed reason.parse_embed
    by (auto simp: parseContest_def contest_value_def bind_Some_iff require_string_simps
        requirePositiveInteger_Some_iff simp del: parseTruthLifecycleReason.simps)
qed (simp add: contest_value_def)

interpretation uphold: canonical_form "parseUpholdFact nfc" uphold_value for nfc
proof
  fix v a assume "parseUpholdFact nfc v = Some a"
  then show "parseUpholdFact nfc (uphold_value a) = Some a"
    using claim_ref.parse_embed conflict_ref.parse_embed reason.parse_embed
    by (auto simp: parseUpholdFact_def uphold_value_def bind_Some_iff require_string_simps
        requirePositiveInteger_Some_iff simp del: parseTruthLifecycleReason.simps)
qed (simp add: uphold_value_def)

interpretation supersede: canonical_form "parseSupersedeFact nfc" supersede_value for nfc
proof
  fix v a assume "parseSupersedeFact nfc v = Some a"
  then show "parseSupersedeFact nfc (supersede_value a) = Some a"
    using subject.parse_embed claim_refs.parse_embed lowering.optional_some_embed conflict_ref.optional_some_embed
      reason.parse_embed
    by (auto simp: parseSupersedeFact_def supersede_value_def bind_Some_iff require_string_simps
        requirePositiveInteger_Some_iff simp del: parseTruthLifecycleReason.simps)
qed (simp add: supersede_value_def)

interpretation revoke: canonical_form "parseRevoke nfc kind" revoke_value for nfc kind
proof
  fix v a assume "parseRevoke nfc kind v = Some a"
  then show "parseRevoke nfc kind (revoke_value a) = Some a"
    using reason.parse_embed
    by (auto simp: parseRevoke_def revoke_value_def bind_Some_iff require_string_simps
        requirePositiveInteger_Some_iff simp del: parseTruthLifecycleReason.simps)
qed (simp add: revoke_value_def)

interpretation regenerate: canonical_form parseRegenerateDerivedView regenerate_value
  by unfold_locales
     (auto simp: parseRegenerateDerivedView_def regenerate_value_def bind_Some_iff accept_simps)

section \<open>The whole parser\<close>

text \<open>
  \<open>parseB2Command\<close>, the canonical identity of a command and its hash
  (\<open>packages/truth-ledger/src/command-schemas.ts\<close>). The errors are the three classes that the
  callers can tell apart.
\<close>

section \<open>Commands\<close>

datatype b2_error = B2CommandValidationError | B2CommandInvariantError | DomainNotificationValidationError

datatype command_kind =
    CreateClaimKind | WithdrawKind | ReworkKind | AcceptKind | ContestFactKind | UpholdFactKind
  | SupersedeFactKind | RevokeFactKind | EmergencyContestKind | EmergencyRevokeKind | RegenerateKind

fun kind_string :: "command_kind \<Rightarrow> jstr" where
  "kind_string CreateClaimKind = js ''claim.create''"
| "kind_string WithdrawKind = js ''initiative.primary_objective.withdraw''"
| "kind_string ReworkKind = js ''initiative.primary_objective.rework''"
| "kind_string AcceptKind = js ''fact.accept''"
| "kind_string ContestFactKind = js ''fact.contest''"
| "kind_string UpholdFactKind = js ''fact.uphold''"
| "kind_string SupersedeFactKind = js ''fact.supersede''"
| "kind_string RevokeFactKind = js ''fact.revoke''"
| "kind_string EmergencyContestKind = js ''fact.emergency_contest''"
| "kind_string EmergencyRevokeKind = js ''fact.emergency_revoke''"
| "kind_string RegenerateKind = js ''derived_view.regenerate''"

definition B2_COMMAND_KINDS :: "command_kind list" where
  "B2_COMMAND_KINDS = [CreateClaimKind, WithdrawKind, ReworkKind, AcceptKind, ContestFactKind,
     UpholdFactKind, SupersedeFactKind, RevokeFactKind, EmergencyContestKind, EmergencyRevokeKind,
     RegenerateKind]"

definition B2_COMMAND_SCHEMA_VERSION :: int where
  "B2_COMMAND_SCHEMA_VERSION = 1"

definition B2_TRUTH_PREDICATE_CATALOG_VERSION :: jstr where
  "B2_TRUTH_PREDICATE_CATALOG_VERSION = js ''truth-predicate-catalog.v1''"

datatype b2_payload =
    CreateClaim create_claim
  | WithdrawObjective withdraw_objective
  | ReworkObjective rework_objective
  | AcceptFact accept_fact
  | ContestFact contest_fact
  | UpholdFact uphold_fact
  | SupersedeFact supersede_fact
  | RevokeFact revoke_fact
  | EmergencyContest contest_fact
  | EmergencyRevoke revoke_fact
  | RegenerateView regenerate_view

fun payload_kind :: "b2_payload \<Rightarrow> command_kind" where
  "payload_kind (CreateClaim _) = CreateClaimKind"
| "payload_kind (WithdrawObjective _) = WithdrawKind"
| "payload_kind (ReworkObjective _) = ReworkKind"
| "payload_kind (AcceptFact _) = AcceptKind"
| "payload_kind (ContestFact _) = ContestFactKind"
| "payload_kind (UpholdFact _) = UpholdFactKind"
| "payload_kind (SupersedeFact _) = SupersedeFactKind"
| "payload_kind (RevokeFact _) = RevokeFactKind"
| "payload_kind (EmergencyContest _) = EmergencyContestKind"
| "payload_kind (EmergencyRevoke _) = EmergencyRevokeKind"
| "payload_kind (RegenerateView _) = RegenerateKind"

fun parsePayload :: "(jstr \<Rightarrow> jstr) \<Rightarrow> command_kind \<Rightarrow> jsval \<Rightarrow> b2_payload option" where
  "parsePayload nfc CreateClaimKind v = map_option CreateClaim (parseCreateClaim nfc v)"
| "parsePayload nfc WithdrawKind v = map_option WithdrawObjective (parseWithdrawPrimaryObjective v)"
| "parsePayload nfc ReworkKind v = map_option ReworkObjective (parseReworkPrimaryObjective nfc v)"
| "parsePayload nfc AcceptKind v = map_option AcceptFact (parseAcceptFact nfc v)"
| "parsePayload nfc ContestFactKind v = map_option ContestFact (parseContestFact nfc v)"
| "parsePayload nfc UpholdFactKind v = map_option UpholdFact (parseUpholdFact nfc v)"
| "parsePayload nfc SupersedeFactKind v = map_option SupersedeFact (parseSupersedeFact nfc v)"
| "parsePayload nfc RevokeFactKind v = map_option RevokeFact (parseRevokeFact nfc v)"
| "parsePayload nfc EmergencyContestKind v = map_option EmergencyContest (parseEmergencyContest nfc v)"
| "parsePayload nfc EmergencyRevokeKind v = map_option EmergencyRevoke (parseEmergencyRevoke nfc v)"
| "parsePayload nfc RegenerateKind v = map_option RegenerateView (parseRegenerateDerivedView v)"

fun payload_value :: "b2_payload \<Rightarrow> jsval" where
  "payload_value (CreateClaim p) = create_claim_value p"
| "payload_value (WithdrawObjective p) = withdraw_value p"
| "payload_value (ReworkObjective p) = rework_value p"
| "payload_value (AcceptFact p) = accept_value p"
| "payload_value (ContestFact p) = contest_value p"
| "payload_value (UpholdFact p) = uphold_value p"
| "payload_value (SupersedeFact p) = supersede_value p"
| "payload_value (RevokeFact p) = revoke_value p"
| "payload_value (EmergencyContest p) = contest_value p"
| "payload_value (EmergencyRevoke p) = revoke_value p"
| "payload_value (RegenerateView p) = regenerate_value p"

record b2_command =
  bc_idempotencyKey :: jstr
  bc_payload :: b2_payload

definition parse_command :: "(jstr \<Rightarrow> jstr) \<Rightarrow> jsval \<Rightarrow> b2_command option" where
  "parse_command nfc input = do {
     fs \<leftarrow> exactObject input [''kind'', ''idempotencyKey'', ''predicateCatalogVersion'', ''payload''] [];
     kind \<leftarrow> requireEnum kind_string B2_COMMAND_KINDS (fld fs ''kind'');
     key \<leftarrow> requireIdempotencyKey (fld fs ''idempotencyKey'');
     requireLiteral (fld fs ''predicateCatalogVersion'') (JStr B2_TRUTH_PREDICATE_CATALOG_VERSION);
     payload \<leftarrow> parsePayload nfc kind (fld fs ''payload'');
     Some \<lparr>bc_idempotencyKey = key, bc_payload = payload\<rparr> }"

definition parseB2Command :: "(jstr \<Rightarrow> jstr) \<Rightarrow> jsval \<Rightarrow> b2_error + b2_command" where
  "parseB2Command nfc input = ok_or B2CommandValidationError (parse_command nfc input)"

definition command_value :: "b2_command \<Rightarrow> jsval" where
  "command_value c = JObj (object_of [
     (''kind'', JStr (kind_string (payload_kind (bc_payload c)))),
     (''idempotencyKey'', JStr (bc_idempotencyKey c)),
     (''predicateCatalogVersion'', JStr B2_TRUTH_PREDICATE_CATALOG_VERSION),
     (''payload'', payload_value (bc_payload c))])"

section \<open>Identity\<close>

definition identity_value :: "b2_command \<Rightarrow> jsval" where
  "identity_value c = JObj (object_of [
     (''recipe'', JStr (js ''truth-ledger-command-identity.v1'')),
     (''commandSchemaVersion'', num_value B2_COMMAND_SCHEMA_VERSION),
     (''predicateCatalogVersion'', JStr B2_TRUTH_PREDICATE_CATALOG_VERSION),
     (''kind'', JStr (kind_string (payload_kind (bc_payload c)))),
     (''payload'', payload_value (bc_payload c))])"

definition canonicalB2CommandIdentity :: "(jstr \<Rightarrow> jstr) \<Rightarrow> jsval \<Rightarrow> b2_error + jsval" where
  "canonicalB2CommandIdentity nfc input =
     res_bind (parseB2Command nfc input) (\<lambda>c. Inr (identity_value c))"

definition stringify :: "jsval \<Rightarrow> b2_error + jstr" where
  "stringify v = ok_or DomainNotificationValidationError (canonicalJsonStringify v)"

definition serializeB2Command :: "(jstr \<Rightarrow> jstr) \<Rightarrow> jsval \<Rightarrow> b2_error + jstr" where
  "serializeB2Command nfc input = res_bind (parseB2Command nfc input) (\<lambda>c. stringify (command_value c))"

definition serializeB2CommandIdentity :: "(jstr \<Rightarrow> jstr) \<Rightarrow> jsval \<Rightarrow> b2_error + jstr" where
  "serializeB2CommandIdentity nfc input = res_bind (canonicalB2CommandIdentity nfc input) stringify"

definition hashB2CommandIdentity ::
  "(jstr \<Rightarrow> jstr) \<Rightarrow> (nat list \<Rightarrow> jstr) \<Rightarrow> jsval \<Rightarrow> b2_error + jstr" where
  "hashB2CommandIdentity nfc sha256 input =
     res_bind (serializeB2CommandIdentity nfc input) (\<lambda>t. Inr (sha256 (utf8 t)))"

section \<open>Lemmas\<close>

lemma kind_string_inj [simp]: "inj kind_string"
  by (rule injI) (rename_tac a b, case_tac a; case_tac b; simp)

lemma mem_kinds [simp]: "k \<in> set B2_COMMAND_KINDS"
  by (cases k) (simp_all add: B2_COMMAND_KINDS_def)

lemma parsePayload_kind: "parsePayload nfc k v = Some p \<Longrightarrow> payload_kind p = k"
  by (cases k) auto

lemma parsePayload_embed:
  assumes "parsePayload nfc k v = Some p"
  shows "parsePayload nfc k (payload_value p) = Some p"
  using assms
  by (cases k)
     (auto simp: parseContestFact_def parseEmergencyContest_def parseRevokeFact_def
        parseEmergencyRevoke_def
      dest: create_claim.parse_embed withdraw.parse_embed rework.parse_embed accept.parse_embed
        contest.parse_embed uphold.parse_embed supersede.parse_embed revoke.parse_embed
        regenerate.parse_embed)

lemma parse_command_Some_iff:
  "parse_command nfc v = Some c \<longleftrightarrow>
     (\<exists>fs. exactObject v [''kind'', ''idempotencyKey'', ''predicateCatalogVersion'', ''payload''] [] = Some fs \<and>
        fld fs ''kind'' = JStr (kind_string (payload_kind (bc_payload c))) \<and>
        fld fs ''idempotencyKey'' = JStr (bc_idempotencyKey c) \<and> idempotency_key (bc_idempotencyKey c) \<and>
        fld fs ''predicateCatalogVersion'' = JStr B2_TRUTH_PREDICATE_CATALOG_VERSION \<and>
        parsePayload nfc (payload_kind (bc_payload c)) (fld fs ''payload'') = Some (bc_payload c))"
  by (cases c) (auto simp: parse_command_def bind_Some_iff requireEnum_Some_iff
      requireIdempotencyKey_Some_iff requireLiteral_Some_iff dest: parsePayload_kind)

interpretation command: canonical_form "parse_command nfc" command_value for nfc
proof
  fix v c assume "parse_command nfc v = Some c"
  then show "parse_command nfc (command_value c) = Some c"
    unfolding parse_command_Some_iff command_value_def by (auto intro: parsePayload_embed)
qed (simp add: command_value_def)

end
