(* ===== verification/B2_Identity.thy ===== *)
theory B2_Identity
  imports  B2_Commands Canonical_Json
begin

text \<open>
  When the canonical identity of a parsed command exists. Everything the parsers return can be
  written as canonical JSON, with one exception: a start offset of negative zero, which
  \<open>requireNonNegativeInteger\<close> lets through and \<open>canonicalJsonStringify\<close> refuses.
\<close>

section \<open>What the parsers return\<close>

lemma jsonable_reason [simp]: "jsonable (reason_value r)"
  by (cases r) simp_all

lemma jsonable_refs:
  "parseSubject v = Some s \<Longrightarrow> jsonable (subject_value s)"
  "parseClaimRef v = Some c \<Longrightarrow> jsonable (claim_ref_value c)"
  "parseConflictRef v = Some k \<Longrightarrow> jsonable (conflict_ref_value k)"
  "jsonable (lowering_value l)" "jsonable (confirmation_value u)"
  "parsePrimaryObjectiveGeneration v = Some g \<Longrightarrow> jsonable (generation_value g)"
  by (auto simp: parseSubject_def subject_value_def parseClaimRef_def claim_ref_value_def
      parseConflictRef_def conflict_ref_value_def lowering_value_def confirmation_value_def
      parsePrimaryObjectiveGeneration_def bind_Some_iff requirePositiveInteger_Some_iff
      simp del: reason_value.simps split: if_splits)

lemma jsonable_claim_refs: "parseSortedClaimRefs v = Some cs \<Longrightarrow> jsonable (claim_refs_value cs)"
  by (auto simp: parseSortedClaimRefs_def claim_refs_value_def parse_sorted_array_Some_iff
      parse_array_Some_iff intro: jsonable_refs dest: those_set)

lemma jsonable_evidence:
  assumes "parseEvidence v = Some e"
  shows "jsonable (evidence_value e) \<longleftrightarrow> ev_startOffset e \<noteq> NegZero"
proof -
  obtain i where "safe_int (ev_startOffset e) = Some i" "1 \<le> ev_endOffset e"
    "ev_endOffset e \<le> max_safe_integer" "1 \<le> ev_expectedSourceVersion e"
    "ev_expectedSourceVersion e \<le> max_safe_integer"
    using assms by (auto simp: parseEvidence_def bind_Some_iff requirePositiveInteger_Some_iff
        requireNonNegativeInteger_Some_iff)
  then show ?thesis
    by (auto simp: evidence_value_def dest!: safe_int_Some_cases)
qed

fun negative_zero_offset :: "b2_payload \<Rightarrow> bool" where
  "negative_zero_offset (CreateClaim p) \<longleftrightarrow> ev_startOffset (cc_evidence p) = NegZero"
| "negative_zero_offset (ReworkObjective p) \<longleftrightarrow> ev_startOffset (ro_evidence p) = NegZero"
| "negative_zero_offset _ \<longleftrightarrow> False"

lemma jsonable_create:
  assumes "parseCreateClaim nfc v = Some c"
  shows "jsonable (create_claim_value c) \<longleftrightarrow> ev_startOffset (cc_evidence c) \<noteq> NegZero"
proof -
  obtain fs where p: "parseSubject (fld fs ''subject'') = Some (cc_subject c)"
      "optional parsePrimaryObjectiveGeneration (fld fs ''expectedPrimaryObjectiveGeneration'') =
        Some (cc_generation c)"
      "parseEvidence (fld fs ''evidence'') = Some (cc_evidence c)"
    using assms unfolding parseCreateClaim_Some_iff by blast
  have "cc_generation c \<noteq> None \<Longrightarrow> jsonable (generation_value (the (cc_generation c)))"
    using p(2) jsonable_refs(6) by (auto simp: optional_Some_iff)
  then show ?thesis
    using jsonable_refs(1)[OF p(1)] jsonable_evidence[OF p(3)] jsonable_refs(5)
    by (auto simp: create_claim_value_def image_Un)
qed

lemma jsonable_payload:
  assumes "parsePayload nfc k v = Some p"
  shows "jsonable (payload_value p) \<longleftrightarrow> \<not> negative_zero_offset p"
proof (cases k)
  case CreateClaimKind
  then show ?thesis using assms jsonable_create by auto
next
  case ReworkKind
  then show ?thesis using assms jsonable_evidence
    by (auto simp: parseReworkPrimaryObjective_def rework_value_def bind_Some_iff jsonable_refs)
next
  case AcceptKind
  then show ?thesis using assms
    by (auto simp: parseAcceptFact_def accept_value_def bind_Some_iff jsonable_refs
        jsonable_claim_refs)
next
  case SupersedeFactKind
  then show ?thesis using assms jsonable_refs(3)
    by (auto simp: parseSupersedeFact_def supersede_value_def bind_Some_iff jsonable_refs
        jsonable_claim_refs requirePositiveInteger_Some_iff optional_Some_iff image_Un
        simp del: reason_value.simps)
qed (use assms in \<open>auto simp: parseWithdrawPrimaryObjective_def withdraw_value_def parseContestFact_def
      parseEmergencyContest_def parseContest_def contest_value_def parseUpholdFact_def uphold_value_def
      parseRevokeFact_def parseEmergencyRevoke_def parseRevoke_def revoke_value_def
      parseRegenerateDerivedView_def regenerate_value_def bind_Some_iff jsonable_refs
      requirePositiveInteger_Some_iff simp del: reason_value.simps parseTruthLifecycleReason.simps\<close>)

text \<open>The hash of a parsed command, as far as it exists.\<close>

lemma parsed_identity_hash:
  assumes "parseB2Command nfc v = Inr c"
  shows "hashB2CommandIdentity nfc sha256 v =
    (if negative_zero_offset (bc_payload c) then Inl DomainNotificationValidationError
     else Inr (sha256 (utf8 (the (canonicalJsonStringify (identity_value c))))))"
proof -
  have "\<exists>w. parsePayload nfc (payload_kind (bc_payload c)) w = Some (bc_payload c)"
    using assms unfolding parseB2Command_def ok_or_Inr_iff parse_command_Some_iff by blast
  then have "jsonable (identity_value c) \<longleftrightarrow> \<not> negative_zero_offset (bc_payload c)"
    using jsonable_payload by (auto simp: identity_value_def B2_COMMAND_SCHEMA_VERSION_def)
  then show ?thesis
    using assms by (auto simp: hashB2CommandIdentity_def serializeB2CommandIdentity_def
        canonicalB2CommandIdentity_def stringify_def jsonable_def)
qed

section \<open>A concrete command\<close>

definition example_evidence :: "jsnum \<Rightarrow> evidence" where
  "example_evidence start = \<lparr>ev_sourceArtifactId = example_id 2, ev_sourceChunkId = example_id 3,
     ev_expectedSourceVersion = 1, ev_startOffset = start, ev_endOffset = 2, ev_excerpt = js ''ab'',
     ev_sourceContentHash = replicate 64 97, ev_sourceNormalizedContentHash = replicate 64 97,
     ev_chunkContentHash = replicate 64 97, ev_excerptHash = replicate 64 97\<rparr>"

definition example_claim :: "jsnum \<Rightarrow> create_claim" where
  "example_claim start = \<lparr>
     cc_subject = \<lparr>sr_type = ActivitySubject, sr_id = example_id 1, sr_expectedVersion = 1\<rparr>,
     cc_assertion = \<lparr>as_predicate = ActivityOutcome, as_canonicalValue = js ''ab'',
       as_normalizedText = js ''ab''\<rparr>,
     cc_confidence = Weak, cc_validFrom = None, cc_validTo = None, cc_observedAt = None,
     cc_evidence = example_evidence start, cc_supportConfirmation = None, cc_generation = None\<rparr>"

definition example_command :: "jstr \<Rightarrow> jsnum \<Rightarrow> b2_command" where
  "example_command key start =
     \<lparr>bc_idempotencyKey = key, bc_payload = CreateClaim (example_claim start)\<rparr>"

lemma scalar_ab [simp]:
  "isUnicodeScalarString (js ''ab'')" "array_from (js ''ab'') = [[97], [98]]"
  by (simp_all add: js_def is_high_def is_low_def)

lemma canonical_text_ab: "canonical_text (\<lambda>s. s) (js ''ab'')"
  by (simp add: canonical_text_iff canonical_rationale_def trim_fixed_iff unicodeScalarLength_def)
     (simp add: js_def is_whitespace_def)

lemma sha256_hex_example: "sha256_hex (replicate 64 97)"
  by (simp add: sha256_hex_def fixed_match_replicate is_lower_hex_def list_all_length)

lemma parse_example_evidence:
  assumes "safe_int start = Some 0"
  shows "parseEvidence (evidence_value (example_evidence start)) = Some (example_evidence start)"
  using assms
  by (simp add: parseEvidence_def evidence_value_def example_evidence_def evidence_keys_def
      bind_Some_iff requireNonNegativeInteger_Some_iff requirePositiveInteger_Some_iff
      require_string_simps requireLiteral_Some_iff sha256_hex_example span_lengths_ok_def
      unicodeScalarLength_def SOURCE_CHUNK_MAX_SCALARS_def max_safe_integer_def)

lemma parse_example_claim:
  assumes "safe_int start = Some 0"
  shows "parseCreateClaim (\<lambda>s. s) (create_claim_value (example_claim start)) = Some (example_claim start)"
proof -
  have s: "parseSubject (subject_value (cc_subject (example_claim start))) = Some (cc_subject (example_claim start))"
    by (simp add: example_claim_def parseSubject_def subject_value_def bind_Some_iff
        requireEnum_Some_iff require_string_simps requirePositiveInteger_Some_iff)
  show ?thesis
    using s parse_example_evidence[OF assms] canonical_text_ab
    by (simp add: example_claim_def parseCreateClaim_Some_iff create_claim_value_def opt_entry_def
        parsePredicateAssertion_Some_iff valid_to_before_from_def objective_coherent_def
        parseConfidence_Some_iff)
qed

lemma parse_example_command:
  assumes "safe_int start = Some 0" "idempotency_key key"
  shows "parseB2Command (\<lambda>s. s) (command_value (example_command key start)) =
    Inr (example_command key start)"
  using parse_example_claim[OF assms(1)] assms(2)
  by (simp add: parseB2Command_def parse_command_Some_iff command_value_def example_command_def)

lemma idempotency_key_ab [simp]: "idempotency_key (js ''ab'')"
  by (simp add: idempotency_key_def unicodeScalarLength_def)

section \<open>The promises\<close>

text \<open>C38: Parsing a command is a round trip: the command object the parser returns is accepted
  again, with the same result, so that storing or forwarding it never changes its meaning.\<close>
theorem parseB2Command_roundtrip:
  assumes "parseB2Command nfc v = Inr c"
  shows "parseB2Command nfc (command_value c) = Inr c"
  using command.parse_embed assms by (simp add: parseB2Command_def)

lemma parseB2Command_roundtrip_witness:
  "parseB2Command (\<lambda>s. s) (command_value (example_command (js ''ab'') NegZero)) =
     Inr (example_command (js ''ab'') NegZero)"
  by (rule parseB2Command_roundtrip[OF parse_example_command]) simp_all

text \<open>Every command the parser accepts has an identity hash, unless its evidence starts at
  the offset negative zero; then hashing throws the validation error of another module.\<close>
theorem hashB2CommandIdentity_total:
  assumes "parseB2Command nfc v = Inr c"
  shows "hashB2CommandIdentity nfc sha256 v =
    (if negative_zero_offset (bc_payload c) then Inl DomainNotificationValidationError
     else Inr (sha256 (utf8 (the (canonicalJsonStringify (identity_value c))))))"
  by (rule parsed_identity_hash[OF assms])

lemma hashB2CommandIdentity_total_witness:
  "(\<exists>h. hashB2CommandIdentity (\<lambda>s. s) (\<lambda>b. b) (command_value (example_command (js ''ab'') (IntNum 0))) = Inr h) \<and>
   hashB2CommandIdentity (\<lambda>s. s) (\<lambda>b. b) (command_value (example_command (js ''ab'') NegZero)) =
     Inl DomainNotificationValidationError"
proof -
  have "safe_int (IntNum 0) = Some 0" "safe_int NegZero = Some 0" by (simp_all add: max_safe_integer_def)
  note this[THEN parse_example_command[OF _ idempotency_key_ab]]
  from this[THEN hashB2CommandIdentity_total, of "\<lambda>b. b"]
  show ?thesis by (simp add: example_command_def example_claim_def example_evidence_def)
qed

text \<open>The gap is real: there is an input that the command parser accepts and whose identity cannot
  be hashed, because -0 passes the check of the start offset and not the one of the JSON text.\<close>
theorem negative_zero_accepted_not_hashed:
  "\<exists>v c. parseB2Command (\<lambda>s. s) v = Inr c \<and>
     (\<forall>sha256. hashB2CommandIdentity (\<lambda>s. s) sha256 v = Inl DomainNotificationValidationError)"
proof -
  have p: "parseB2Command (\<lambda>s. s) (command_value (example_command (js ''ab'') NegZero)) =
      Inr (example_command (js ''ab'') NegZero)"
    by (rule parse_example_command) simp_all
  have "\<not> jsonable (identity_value (example_command (js ''ab'') NegZero))"
    using jsonable_create[OF parse_example_claim, of NegZero]
    by (simp add: identity_value_def example_command_def example_claim_def example_evidence_def
        del: jsonable_simps(5))
  then have "hashB2CommandIdentity (\<lambda>s. s) sha256 (command_value (example_command (js ''ab'') NegZero)) =
      Inl DomainNotificationValidationError" for sha256
    by (simp add: hashB2CommandIdentity_def serializeB2CommandIdentity_def p
        canonicalB2CommandIdentity_def stringify_def jsonable_def)
  then show ?thesis using p by blast
qed

end
