(* ===== verification/B2_Results.thy ===== *)
theory B2_Results
  imports  B2_Commands
begin

text \<open>
  \<open>parseB2CommandResult\<close> of \<open>packages/truth-ledger/src/command-schemas.ts\<close>: the result of each
  command, checked when it is stored and when it is replayed.
\<close>

datatype b2_result =
    ClaimCreated jstr "jstr option" "jstr option"
  | ObjectiveWithdrawn jstr jstr jstr jstr
  | ObjectiveReworked jstr jstr jstr jstr jstr
  | FactAccepted jstr "jstr list"
  | FactContested jstr int jstr jstr int
  | FactUpheld jstr int jstr int jstr int
  | FactSuperseded jstr int jstr
  | FactRevoked jstr int
  | FactEmergencyContested jstr int jstr jstr int
  | FactEmergencyRevoked jstr int
  | ViewRegenerated jstr jstr jstr jstr

definition str :: "string \<Rightarrow> jsval" where
  "str s = JStr (js s)"

lemma str_simps [simp]: "str s = JStr t \<longleftrightarrow> js s = t" "JStr t = str s \<longleftrightarrow> t = js s" "str s \<noteq> JUndef"
  by (auto simp: str_def)

definition parseSortedUuidArray :: "jsval \<Rightarrow> jstr list option" where
  "parseSortedUuidArray input = parse_sorted_array requireUuidV7 (\<lambda>s. s) input"

definition parseClaimCreated :: "jsval \<Rightarrow> b2_result option" where
  "parseClaimCreated input = do {
     fs \<leftarrow> exactObject input [''claimId'', ''version'', ''status''] [''evidenceSpanId'', ''supportAttestationId''];
     i \<leftarrow> requireUuidV7 (fld fs ''claimId'');
     requireLiteral (fld fs ''version'') (num_value 1);
     requireLiteral (fld fs ''status'') (str ''proposed'');
     e \<leftarrow> optional requireUuidV7 (fld fs ''evidenceSpanId'');
     a \<leftarrow> optional requireUuidV7 (fld fs ''supportAttestationId'');
     Some (ClaimCreated i e a) }"

definition parseObjectiveWithdrawn :: "jsval \<Rightarrow> b2_result option" where
  "parseObjectiveWithdrawn input = do {
     fs \<leftarrow> exactObject input [''claimId'', ''version'', ''status'', ''recoveryId'', ''disposition'', ''reasonCode''] [];
     i \<leftarrow> requireUuidV7 (fld fs ''claimId'');
     requireLiteral (fld fs ''version'') (num_value 2);
     requireLiteral (fld fs ''status'') (str ''rejected'');
     r \<leftarrow> requireUuidV7 (fld fs ''recoveryId'');
     d \<leftarrow> requireEnum (\<lambda>s. s) dispositions (fld fs ''disposition'');
     c \<leftarrow> requireEnum (\<lambda>s. s) PRIMARY_OBJECTIVE_WITHDRAW_REASON_CODES (fld fs ''reasonCode'');
     Some (ObjectiveWithdrawn i r d c) }"

definition parseObjectiveReworked :: "jsval \<Rightarrow> b2_result option" where
  "parseObjectiveReworked input = do {
     fs \<leftarrow> exactObject input [''predecessorClaimId'', ''predecessorVersion'', ''predecessorStatus'',
       ''successorClaimId'', ''successorVersion'', ''successorStatus'', ''evidenceSpanId'',
       ''supportAttestationId'', ''recoveryId'', ''disposition'', ''reasonCode''] [];
     p \<leftarrow> requireUuidV7 (fld fs ''predecessorClaimId'');
     requireLiteral (fld fs ''predecessorVersion'') (num_value 2);
     requireLiteral (fld fs ''predecessorStatus'') (str ''superseded'');
     s \<leftarrow> requireUuidV7 (fld fs ''successorClaimId'');
     requireLiteral (fld fs ''successorVersion'') (num_value 1);
     requireLiteral (fld fs ''successorStatus'') (str ''proposed'');
     e \<leftarrow> requireUuidV7 (fld fs ''evidenceSpanId'');
     a \<leftarrow> requireUuidV7 (fld fs ''supportAttestationId'');
     r \<leftarrow> requireUuidV7 (fld fs ''recoveryId'');
     requireLiteral (fld fs ''disposition'') (str ''reworked'');
     requireLiteral (fld fs ''reasonCode'') (str ''reworked'');
     Some (ObjectiveReworked p s e a r) }"

definition parseFactAccepted :: "jsval \<Rightarrow> b2_result option" where
  "parseFactAccepted input = do {
     fs \<leftarrow> exactObject input [''factId'', ''version'', ''status'', ''acceptedClaimIds''] [];
     i \<leftarrow> requireUuidV7 (fld fs ''factId'');
     requireLiteral (fld fs ''version'') (num_value 1);
     requireLiteral (fld fs ''status'') (str ''current'');
     cs \<leftarrow> parseSortedUuidArray (fld fs ''acceptedClaimIds'');
     Some (FactAccepted i cs) }"

definition contested_keys :: "string list" where
  "contested_keys = [''factId'', ''version'', ''status'', ''conflictId'', ''conflictVersion'',
     ''competingClaimId'', ''competingClaimVersion'', ''competingClaimStatus'']"

definition parse_contested :: "jsfields \<Rightarrow> (jstr \<times> int \<times> jstr \<times> jstr \<times> int) option" where
  "parse_contested fs = do {
     i \<leftarrow> requireUuidV7 (fld fs ''factId'');
     v \<leftarrow> requirePositiveInteger (fld fs ''version'');
     requireLiteral (fld fs ''status'') (str ''contested'');
     k \<leftarrow> requireUuidV7 (fld fs ''conflictId'');
     requireLiteral (fld fs ''conflictVersion'') (num_value 1);
     c \<leftarrow> requireUuidV7 (fld fs ''competingClaimId'');
     w \<leftarrow> requirePositiveInteger (fld fs ''competingClaimVersion'');
     requireLiteral (fld fs ''competingClaimStatus'') (str ''conflicted'');
     Some (i, v, k, c, w) }"

definition parseFactContested :: "jsval \<Rightarrow> b2_result option" where
  "parseFactContested input = do {
     fs \<leftarrow> exactObject input contested_keys [];
     (i, v, k, c, w) \<leftarrow> parse_contested fs;
     Some (FactContested i v k c w) }"

definition parseFactUpheld :: "jsval \<Rightarrow> b2_result option" where
  "parseFactUpheld input = do {
     fs \<leftarrow> exactObject input [''factId'', ''version'', ''status'', ''conflictId'', ''conflictVersion'',
       ''conflictStatus'', ''challengerClaimId'', ''challengerClaimVersion'', ''challengerClaimStatus''] [];
     i \<leftarrow> requireUuidV7 (fld fs ''factId'');
     v \<leftarrow> requirePositiveInteger (fld fs ''version'');
     requireLiteral (fld fs ''status'') (str ''current'');
     k \<leftarrow> requireUuidV7 (fld fs ''conflictId'');
     u \<leftarrow> requirePositiveInteger (fld fs ''conflictVersion'');
     requireLiteral (fld fs ''conflictStatus'') (str ''upheld'');
     c \<leftarrow> requireUuidV7 (fld fs ''challengerClaimId'');
     w \<leftarrow> requirePositiveInteger (fld fs ''challengerClaimVersion'');
     requireLiteral (fld fs ''challengerClaimStatus'') (str ''rejected'');
     Some (FactUpheld i v k u c w) }"

definition parseFactSuperseded :: "jsval \<Rightarrow> b2_result option" where
  "parseFactSuperseded input = do {
     fs \<leftarrow> exactObject input [''factId'', ''version'', ''status'', ''replacementFactId'',
       ''replacementFactVersion'', ''replacementFactStatus''] [];
     i \<leftarrow> requireUuidV7 (fld fs ''factId'');
     v \<leftarrow> requirePositiveInteger (fld fs ''version'');
     requireLiteral (fld fs ''status'') (str ''superseded'');
     r \<leftarrow> requireUuidV7 (fld fs ''replacementFactId'');
     requireLiteral (fld fs ''replacementFactVersion'') (num_value 1);
     requireLiteral (fld fs ''replacementFactStatus'') (str ''current'');
     Some (FactSuperseded i v r) }"

definition parseFactRevoked :: "jsval \<Rightarrow> b2_result option" where
  "parseFactRevoked input = do {
     fs \<leftarrow> exactObject input [''factId'', ''version'', ''status''] [];
     i \<leftarrow> requireUuidV7 (fld fs ''factId'');
     v \<leftarrow> requirePositiveInteger (fld fs ''version'');
     requireLiteral (fld fs ''status'') (str ''revoked'');
     Some (FactRevoked i v) }"

definition parseFactEmergencyContested :: "jsval \<Rightarrow> b2_result option" where
  "parseFactEmergencyContested input = do {
     fs \<leftarrow> exactObject input (contested_keys @ [''emergency'']) [];
     (i, v, k, c, w) \<leftarrow> parse_contested fs;
     requireLiteral (fld fs ''emergency'') (JBool True);
     Some (FactEmergencyContested i v k c w) }"

definition parseFactEmergencyRevoked :: "jsval \<Rightarrow> b2_result option" where
  "parseFactEmergencyRevoked input = do {
     fs \<leftarrow> exactObject input [''factId'', ''version'', ''status'', ''emergency''] [];
     i \<leftarrow> requireUuidV7 (fld fs ''factId'');
     v \<leftarrow> requirePositiveInteger (fld fs ''version'');
     requireLiteral (fld fs ''status'') (str ''revoked'');
     requireLiteral (fld fs ''emergency'') (JBool True);
     Some (FactEmergencyRevoked i v) }"

definition parseViewRegenerated :: "jsval \<Rightarrow> b2_result option" where
  "parseViewRegenerated input = do {
     fs \<leftarrow> exactObject input [''derivedViewSnapshotId'', ''viewType'', ''audienceFingerprint'',
       ''inputRevisionHash'', ''generatedAt''] [];
     i \<leftarrow> requireUuidV7 (fld fs ''derivedViewSnapshotId'');
     requireLiteral (fld fs ''viewType'') (str ''initiative_summary'');
     a \<leftarrow> requireSha256 (fld fs ''audienceFingerprint'');
     h \<leftarrow> requireSha256 (fld fs ''inputRevisionHash'');
     t \<leftarrow> requireTimestamp (fld fs ''generatedAt'');
     Some (ViewRegenerated i a h t) }"

fun parseResult :: "command_kind \<Rightarrow> jsval \<Rightarrow> b2_result option" where
  "parseResult CreateClaimKind v = parseClaimCreated v"
| "parseResult WithdrawKind v = parseObjectiveWithdrawn v"
| "parseResult ReworkKind v = parseObjectiveReworked v"
| "parseResult AcceptKind v = parseFactAccepted v"
| "parseResult ContestFactKind v = parseFactContested v"
| "parseResult UpholdFactKind v = parseFactUpheld v"
| "parseResult SupersedeFactKind v = parseFactSuperseded v"
| "parseResult RevokeFactKind v = parseFactRevoked v"
| "parseResult EmergencyContestKind v = parseFactEmergencyContested v"
| "parseResult EmergencyRevokeKind v = parseFactEmergencyRevoked v"
| "parseResult RegenerateKind v = parseViewRegenerated v"

definition parseB2CommandResult :: "command_kind \<Rightarrow> jsval \<Rightarrow> b2_error + b2_result" where
  "parseB2CommandResult kind input = ok_or B2CommandInvariantError (parseResult kind input)"

section \<open>The objects returned\<close>

definition contested_entries :: "jstr \<Rightarrow> int \<Rightarrow> jstr \<Rightarrow> jstr \<Rightarrow> int \<Rightarrow> (string \<times> jsval) list" where
  "contested_entries i v k c w = [(''factId'', JStr i), (''version'', num_value v),
     (''status'', str ''contested''), (''conflictId'', JStr k), (''conflictVersion'', num_value 1),
     (''competingClaimId'', JStr c), (''competingClaimVersion'', num_value w),
     (''competingClaimStatus'', str ''conflicted'')]"

fun result_value :: "b2_result \<Rightarrow> jsval" where
  "result_value (ClaimCreated i e a) = JObj (object_of ((''claimId'', JStr i) #
     (''version'', num_value 1) # (''status'', str ''proposed'') #
     opt_entry ''evidenceSpanId'' JStr e @ opt_entry ''supportAttestationId'' JStr a))"
| "result_value (ObjectiveWithdrawn i r d c) = JObj (object_of [(''claimId'', JStr i),
     (''version'', num_value 2), (''status'', str ''rejected''), (''recoveryId'', JStr r),
     (''disposition'', JStr d), (''reasonCode'', JStr c)])"
| "result_value (ObjectiveReworked p s e a r) = JObj (object_of [(''predecessorClaimId'', JStr p),
     (''predecessorVersion'', num_value 2), (''predecessorStatus'', str ''superseded''),
     (''successorClaimId'', JStr s), (''successorVersion'', num_value 1),
     (''successorStatus'', str ''proposed''), (''evidenceSpanId'', JStr e),
     (''supportAttestationId'', JStr a), (''recoveryId'', JStr r),
     (''disposition'', str ''reworked''), (''reasonCode'', str ''reworked'')])"
| "result_value (FactAccepted i cs) = JObj (object_of [(''factId'', JStr i),
     (''version'', num_value 1), (''status'', str ''current''), (''acceptedClaimIds'', JArr (map JStr cs))])"
| "result_value (FactContested i v k c w) = JObj (object_of (contested_entries i v k c w))"
| "result_value (FactUpheld i v k u c w) = JObj (object_of [(''factId'', JStr i),
     (''version'', num_value v), (''status'', str ''current''), (''conflictId'', JStr k),
     (''conflictVersion'', num_value u), (''conflictStatus'', str ''upheld''),
     (''challengerClaimId'', JStr c), (''challengerClaimVersion'', num_value w),
     (''challengerClaimStatus'', str ''rejected'')])"
| "result_value (FactSuperseded i v r) = JObj (object_of [(''factId'', JStr i),
     (''version'', num_value v), (''status'', str ''superseded''), (''replacementFactId'', JStr r),
     (''replacementFactVersion'', num_value 1), (''replacementFactStatus'', str ''current'')])"
| "result_value (FactRevoked i v) = JObj (object_of [(''factId'', JStr i), (''version'', num_value v),
     (''status'', str ''revoked'')])"
| "result_value (FactEmergencyContested i v k c w) =
     JObj (object_of (contested_entries i v k c w @ [(''emergency'', JBool True)]))"
| "result_value (FactEmergencyRevoked i v) = JObj (object_of [(''factId'', JStr i),
     (''version'', num_value v), (''status'', str ''revoked''), (''emergency'', JBool True)])"
| "result_value (ViewRegenerated i a h t) = JObj (object_of [(''derivedViewSnapshotId'', JStr i),
     (''viewType'', str ''initiative_summary''), (''audienceFingerprint'', JStr a),
     (''inputRevisionHash'', JStr h), (''generatedAt'', JStr t)])"

definition serializeB2CommandResult :: "command_kind \<Rightarrow> jsval \<Rightarrow> b2_error + jstr" where
  "serializeB2CommandResult kind input =
     res_bind (parseB2CommandResult kind input) (\<lambda>r. stringify (result_value r))"

section \<open>The round trip\<close>

lemmas field_checks =
  require_string_simps requirePositiveInteger_Some_iff requireLiteral_Some_iff
  requireEnum_id_Some_iff requireTimestamp_Some_iff

lemma parse_contested_entries [simp]:
  "parse_contested (object_of (contested_entries i v k c w)) = Some r \<longleftrightarrow>
     r = (i, v, k, c, w) \<and> uuid_v7 i \<and> 1 \<le> v \<and> v \<le> max_safe_integer \<and> uuid_v7 k \<and> uuid_v7 c \<and>
     1 \<le> w \<and> w \<le> max_safe_integer"
  "parse_contested (object_of (contested_entries i v k c w @ [x])) = Some r \<longleftrightarrow>
     r = (i, v, k, c, w) \<and> uuid_v7 i \<and> 1 \<le> v \<and> v \<le> max_safe_integer \<and> uuid_v7 k \<and> uuid_v7 c \<and>
     1 \<le> w \<and> w \<le> max_safe_integer"
  by (cases x; auto simp: parse_contested_def contested_entries_def bind_Some_iff field_checks str_def)+

lemma parse_contested_Some:
  "parse_contested fs = Some (i, v, k, c, w) \<Longrightarrow>
     uuid_v7 i \<and> 1 \<le> v \<and> v \<le> max_safe_integer \<and> uuid_v7 k \<and> uuid_v7 c \<and> 1 \<le> w \<and> w \<le> max_safe_integer"
  by (auto simp: parse_contested_def bind_Some_iff field_checks)

lemma fld_emergency: "fld (object_of (contested_entries i v k c w @ [(''emergency'', x)])) ''emergency'' = x"
  by (simp add: contested_entries_def)

lemma keys_contested: "fst ` set (contested_entries i v k c w) = set contested_keys"
  by (auto simp: contested_entries_def contested_keys_def)

lemma parseSortedUuidArray_embed:
  "parseSortedUuidArray v = Some cs \<Longrightarrow> parseSortedUuidArray (JArr (map JStr cs)) = Some cs"
  unfolding parseSortedUuidArray_def by (rule uuid.sorted_array_embed)

lemma parseResult_embed:
  assumes "parseResult k v = Some r"
  shows "parseResult k (result_value r) = Some r"
proof (cases k)
  case CreateClaimKind
  then show ?thesis using assms
    by (auto simp: parseClaimCreated_def bind_Some_iff field_checks str_def image_Un
        optional_Some_iff)
next
  case AcceptKind
  then show ?thesis using assms parseSortedUuidArray_embed
    by (auto simp: parseFactAccepted_def bind_Some_iff field_checks str_def)
next
  case ContestFactKind
  then show ?thesis using assms
    by (auto simp: parseFactContested_def bind_Some_iff keys_contested dest: parse_contested_Some)
next
  case EmergencyContestKind
  then show ?thesis using assms
    by (auto simp: parseFactEmergencyContested_def bind_Some_iff keys_contested fld_emergency
        requireLiteral_Some_iff dest: parse_contested_Some)
qed (use assms in \<open>auto simp: parseObjectiveWithdrawn_def parseObjectiveReworked_def parseFactUpheld_def
      parseFactSuperseded_def parseFactRevoked_def parseFactEmergencyRevoked_def
      parseViewRegenerated_def bind_Some_iff field_checks str_def\<close>)

interpretation result: canonical_form "parseResult k" result_value for k
proof
  show "parseResult k v = Some r \<Longrightarrow> parseResult k (result_value r) = Some r" for v r
    by (rule parseResult_embed)
  show "result_value r \<noteq> JUndef" for r by (cases r) auto
qed

text \<open>A stored command result replays to itself: whatever the result parser accepted for a kind
  of command, the object it returned is accepted again for that kind, with the same result.\<close>
theorem parseB2CommandResult_roundtrip:
  assumes "parseB2CommandResult kind v = Inr r"
  shows "parseB2CommandResult kind (result_value r) = Inr r"
  using result.parse_embed assms by (simp add: parseB2CommandResult_def)

lemma parseB2CommandResult_roundtrip_witness:
  "parseB2CommandResult RevokeFactKind (result_value (FactRevoked (example_id 1) 2)) =
     Inr (FactRevoked (example_id 1) 2)"
  by (rule parseB2CommandResult_roundtrip[of _ "result_value (FactRevoked (example_id 1) 2)"])
     (simp add: parseB2CommandResult_def parseFactRevoked_def bind_Some_iff field_checks str_def
       max_safe_integer_def)

end
