(* ===== verification/Domain_Notification.thy ===== *)
theory Domain_Notification
  imports  Canonical_Json Reasons
begin

text \<open>
  \<open>packages/core-types/src/domain-notification.ts\<close>: the envelope of every domain event that goes
  through the outbox, its parser and its canonical text. Every failure is the one
  \<open>DomainNotificationValidationError\<close>, so the parser is a function into \<open>option\<close>. UUIDs are accepted
  in either case and returned in lower case.
\<close>

section \<open>Checks\<close>

definition requireExactObject :: "jsval \<Rightarrow> string list \<Rightarrow> string list \<Rightarrow> jsfields option" where
  "requireExactObject input requiredKeys optionalKeys =
     (case input of
        JObj fs \<Rightarrow> do {
          require (list_all (\<lambda>k. has_own fs (js k)) requiredKeys);
          require (list_all (\<lambda>k. k \<in> set (map js requiredKeys) \<or> k \<in> set (map js optionalKeys))
                     (string_keys fs));
          Some fs }
      | _ \<Rightarrow> None)"

definition dn_requireUuid :: "jsval \<Rightarrow> jstr option" where
  "dn_requireUuid v = map_option lower_ascii (require_string_with uuid_any_case v)"

definition dn_requireUuidV7 :: "jsval \<Rightarrow> jstr option" where
  "dn_requireUuidV7 v = map_option lower_ascii (require_string_with uuid_v7_any_case v)"

definition hasControlCharacters :: "jstr \<Rightarrow> bool" where
  "hasControlCharacters s \<longleftrightarrow> list_ex (\<lambda>c. code_point c \<le> 31 \<or> code_point c = 127) (array_from s)"

definition requireBoundedString :: "nat \<Rightarrow> jsval \<Rightarrow> jstr option" where
  "requireBoundedString maximumLength v = require_string_with
     (\<lambda>s. \<not> (length s < 1 \<or> length s > maximumLength \<or> hasControlCharacters s)) v"

definition dn_requireSafeReference :: "jsval \<Rightarrow> jstr option" where
  "dn_requireSafeReference v = do {
     s \<leftarrow> requireBoundedString 200 v;
     require (safe_reference s);
     Some s }"

definition requireTraceparent :: "jsval \<Rightarrow> jstr option" where
  "requireTraceparent v = require_string_with
     (\<lambda>s. traceparent_pattern s \<and>
        \<not> (units s 3 35 = replicate 32 48 \<or> units s 36 52 = replicate 16 48)) v"

section \<open>Events and aggregates\<close>

datatype event_type =
    OrganizationCreated | InitiativeCreated | ActivityCreated | ActivityCaptureAdded
  | RelationshipCreated | RelationshipEnded | ContentCreated | ContentRevised
  | SourceCaptured | SourceCorrectedEvent | SourceTombstonedEvent | ClaimProposed
  | ProposalWithdrawn | ProposalRejected | ProposalReworked
  | FactAcceptedEvent | FactSupersededEvent | FactRevokedEvent

definition DOMAIN_NOTIFICATION_EVENT_TYPES :: "event_type list" where
  "DOMAIN_NOTIFICATION_EVENT_TYPES =
     [OrganizationCreated, InitiativeCreated, ActivityCreated, ActivityCaptureAdded,
      RelationshipCreated, RelationshipEnded, ContentCreated, ContentRevised, SourceCaptured,
      SourceCorrectedEvent, SourceTombstonedEvent, ClaimProposed, ProposalWithdrawn,
      ProposalRejected, ProposalReworked, FactAcceptedEvent, FactSupersededEvent, FactRevokedEvent]"

fun event_string :: "event_type \<Rightarrow> jstr" where
  "event_string OrganizationCreated = js ''organization.created''"
| "event_string InitiativeCreated = js ''initiative.created''"
| "event_string ActivityCreated = js ''activity.created''"
| "event_string ActivityCaptureAdded = js ''activity.capture_added''"
| "event_string RelationshipCreated = js ''relationship.created''"
| "event_string RelationshipEnded = js ''relationship.ended''"
| "event_string ContentCreated = js ''content.created''"
| "event_string ContentRevised = js ''content.revised''"
| "event_string SourceCaptured = js ''source_artifact.captured''"
| "event_string SourceCorrectedEvent = js ''source_artifact.corrected''"
| "event_string SourceTombstonedEvent = js ''source_artifact.tombstoned''"
| "event_string ClaimProposed = js ''claim.proposed''"
| "event_string ProposalWithdrawn = js ''initiative.primary_objective.proposal_withdrawn''"
| "event_string ProposalRejected = js ''initiative.primary_objective.proposal_rejected''"
| "event_string ProposalReworked = js ''initiative.primary_objective.proposal_reworked''"
| "event_string FactAcceptedEvent = js ''fact.accepted''"
| "event_string FactSupersededEvent = js ''fact.superseded''"
| "event_string FactRevokedEvent = js ''fact.revoked''"

datatype aggregate_type =
    OrganizationAggregate | InitiativeAggregate | ActivityAggregate | RelationshipAggregate
  | ContentItemAggregate | SourceArtifactAggregate | ClaimAggregate | AcceptedFactAggregate

definition DOMAIN_NOTIFICATION_AGGREGATE_TYPES :: "aggregate_type list" where
  "DOMAIN_NOTIFICATION_AGGREGATE_TYPES =
     [OrganizationAggregate, InitiativeAggregate, ActivityAggregate, RelationshipAggregate,
      ContentItemAggregate, SourceArtifactAggregate, ClaimAggregate, AcceptedFactAggregate]"

fun aggregate_string :: "aggregate_type \<Rightarrow> jstr" where
  "aggregate_string OrganizationAggregate = js ''organization''"
| "aggregate_string InitiativeAggregate = js ''initiative''"
| "aggregate_string ActivityAggregate = js ''activity''"
| "aggregate_string RelationshipAggregate = js ''relationship''"
| "aggregate_string ContentItemAggregate = js ''content_item''"
| "aggregate_string SourceArtifactAggregate = js ''source_artifact''"
| "aggregate_string ClaimAggregate = js ''claim''"
| "aggregate_string AcceptedFactAggregate = js ''accepted_fact''"

fun event_aggregate :: "event_type \<Rightarrow> aggregate_type" where
  "event_aggregate OrganizationCreated = OrganizationAggregate"
| "event_aggregate InitiativeCreated = InitiativeAggregate"
| "event_aggregate ActivityCreated = ActivityAggregate"
| "event_aggregate ActivityCaptureAdded = ActivityAggregate"
| "event_aggregate RelationshipCreated = RelationshipAggregate"
| "event_aggregate RelationshipEnded = RelationshipAggregate"
| "event_aggregate ContentCreated = ContentItemAggregate"
| "event_aggregate ContentRevised = ContentItemAggregate"
| "event_aggregate SourceCaptured = SourceArtifactAggregate"
| "event_aggregate SourceCorrectedEvent = SourceArtifactAggregate"
| "event_aggregate SourceTombstonedEvent = SourceArtifactAggregate"
| "event_aggregate ClaimProposed = ClaimAggregate"
| "event_aggregate ProposalWithdrawn = ClaimAggregate"
| "event_aggregate ProposalRejected = ClaimAggregate"
| "event_aggregate ProposalReworked = ClaimAggregate"
| "event_aggregate FactAcceptedEvent = AcceptedFactAggregate"
| "event_aggregate FactSupersededEvent = AcceptedFactAggregate"
| "event_aggregate FactRevokedEvent = AcceptedFactAggregate"

section \<open>Payloads\<close>

datatype event_payload =
    SingleId jstr
  | CapturePayload jstr jstr
  | RelationshipEndPayload jstr jstr
  | RevisionPayload jstr int
  | CorrectionPayload jstr jstr
  | TombstonePayload jstr jstr jstr jstr
  | ClaimPayload jstr jstr "jstr option"
  | TerminalProposalPayload jstr jstr jstr
  | ReworkPayload jstr jstr jstr jstr jstr
  | FactSupersedePayload jstr jstr jstr
  | FactRevokePayload jstr jstr

definition singleIdPayload :: "string \<Rightarrow> jstr \<Rightarrow> jsval \<Rightarrow> event_payload option" where
  "singleIdPayload key aggregateId input = do {
     fs \<leftarrow> requireExactObject input [key] [];
     i \<leftarrow> dn_requireUuidV7 (fld fs key);
     require (i = aggregateId);
     Some (SingleId i) }"

definition parseCapturePayload :: "jstr \<Rightarrow> jsval \<Rightarrow> event_payload option" where
  "parseCapturePayload aggregateId input = do {
     fs \<leftarrow> requireExactObject input [''activityId'', ''sourceArtifactId''] [];
     i \<leftarrow> dn_requireUuidV7 (fld fs ''activityId'');
     require (i = aggregateId);
     a \<leftarrow> dn_requireUuidV7 (fld fs ''sourceArtifactId'');
     Some (CapturePayload i a) }"

definition parseRelationshipEndPayload :: "jstr \<Rightarrow> jsval \<Rightarrow> event_payload option" where
  "parseRelationshipEndPayload aggregateId input = do {
     fs \<leftarrow> requireExactObject input [''relationshipId'', ''validTo''] [];
     i \<leftarrow> dn_requireUuidV7 (fld fs ''relationshipId'');
     require (i = aggregateId);
     t \<leftarrow> requireTimestamp (fld fs ''validTo'');
     Some (RelationshipEndPayload i t) }"

definition parseRevisionPayload :: "jstr \<Rightarrow> jsval \<Rightarrow> event_payload option" where
  "parseRevisionPayload aggregateId input = do {
     fs \<leftarrow> requireExactObject input [''contentItemId'', ''revisionNumber''] [];
     i \<leftarrow> dn_requireUuidV7 (fld fs ''contentItemId'');
     require (i = aggregateId);
     n \<leftarrow> requirePositiveInteger (fld fs ''revisionNumber'');
     Some (RevisionPayload i n) }"

definition parseCorrectionPayload :: "jstr \<Rightarrow> jsval \<Rightarrow> event_payload option" where
  "parseCorrectionPayload aggregateId input = do {
     fs \<leftarrow> requireExactObject input [''sourceArtifactId'', ''previousSourceArtifactId''] [];
     i \<leftarrow> dn_requireUuidV7 (fld fs ''sourceArtifactId'');
     p \<leftarrow> dn_requireUuidV7 (fld fs ''previousSourceArtifactId'');
     require (\<not> (i \<noteq> aggregateId \<or> i = p));
     Some (CorrectionPayload i p) }"

definition parseTombstonePayload :: "jstr \<Rightarrow> jsval \<Rightarrow> event_payload option" where
  "parseTombstonePayload aggregateId input = do {
     fs \<leftarrow> requireExactObject input
       [''sourceArtifactId'', ''deletionReasonCategory'', ''deletionPolicyRef'', ''hashDisposition''] [];
     i \<leftarrow> dn_requireUuidV7 (fld fs ''sourceArtifactId'');
     require (i = aggregateId);
     c \<leftarrow> dn_requireSafeReference (fld fs ''deletionReasonCategory'');
     p \<leftarrow> dn_requireSafeReference (fld fs ''deletionPolicyRef'');
     h \<leftarrow> requireEnum (\<lambda>s. s) hash_dispositions (fld fs ''hashDisposition'');
     Some (TombstonePayload i c p h) }"

definition parseClaimPayload :: "jstr \<Rightarrow> jsval \<Rightarrow> event_payload option" where
  "parseClaimPayload aggregateId input = do {
     fs \<leftarrow> requireExactObject input [''claimId'', ''evidenceSpanId''] [''supportAttestationId''];
     i \<leftarrow> dn_requireUuidV7 (fld fs ''claimId'');
     require (i = aggregateId);
     e \<leftarrow> dn_requireUuidV7 (fld fs ''evidenceSpanId'');
     a \<leftarrow> (if has_own fs (js ''supportAttestationId'')
           then map_option Some (dn_requireUuidV7 (fld fs ''supportAttestationId'')) else Some None);
     Some (ClaimPayload i e a) }"

definition parseTerminalProposalPayload :: "string \<Rightarrow> jstr \<Rightarrow> jsval \<Rightarrow> event_payload option" where
  "parseTerminalProposalPayload disposition aggregateId input = do {
     fs \<leftarrow> requireExactObject input
       [''claimId'', ''claimVersion'', ''disposition'', ''reasonCode'', ''recoveryId''] [];
     i \<leftarrow> dn_requireUuidV7 (fld fs ''claimId'');
     require (\<not> (i \<noteq> aggregateId \<or> fld fs ''claimVersion'' \<noteq> JNum (IntNum 2)));
     c \<leftarrow> requireEnum (\<lambda>s. s) PRIMARY_OBJECTIVE_WITHDRAW_REASON_CODES (fld fs ''reasonCode'');
     r \<leftarrow> dn_requireUuidV7 (fld fs ''recoveryId'');
     requireEnum (\<lambda>s. s) [js disposition] (fld fs ''disposition'');
     Some (TerminalProposalPayload i c r) }"

definition parseReworkPayload :: "jstr \<Rightarrow> jsval \<Rightarrow> event_payload option" where
  "parseReworkPayload aggregateId input = do {
     fs \<leftarrow> requireExactObject input [''predecessorClaimId'', ''predecessorVersion'',
       ''successorClaimId'', ''successorVersion'', ''evidenceSpanId'', ''supportAttestationId'',
       ''recoveryId'', ''disposition'', ''reasonCode''] [];
     s \<leftarrow> dn_requireUuidV7 (fld fs ''successorClaimId'');
     require (\<not> (s \<noteq> aggregateId \<or> fld fs ''predecessorVersion'' \<noteq> JNum (IntNum 2) \<or>
       fld fs ''successorVersion'' \<noteq> JNum (IntNum 1) \<or> fld fs ''disposition'' \<noteq> JStr (js ''reworked'') \<or>
       fld fs ''reasonCode'' \<noteq> JStr (js ''reworked'')));
     p \<leftarrow> dn_requireUuidV7 (fld fs ''predecessorClaimId'');
     e \<leftarrow> dn_requireUuidV7 (fld fs ''evidenceSpanId'');
     a \<leftarrow> dn_requireUuidV7 (fld fs ''supportAttestationId'');
     r \<leftarrow> dn_requireUuidV7 (fld fs ''recoveryId'');
     Some (ReworkPayload p s e a r) }"

definition parseFactSupersedePayload :: "jstr \<Rightarrow> jsval \<Rightarrow> event_payload option" where
  "parseFactSupersedePayload aggregateId input = do {
     fs \<leftarrow> requireExactObject input [''factId'', ''factVersion'', ''reasonCode'', ''replacementFactId'',
       ''replacementFactVersion'', ''status''] [];
     i \<leftarrow> dn_requireUuidV7 (fld fs ''factId'');
     require (\<not> (i \<noteq> aggregateId \<or> fld fs ''factVersion'' \<noteq> JNum (IntNum 2) \<or>
       fld fs ''replacementFactVersion'' \<noteq> JNum (IntNum 1) \<or>
       fld fs ''status'' \<noteq> JStr (js ''superseded'')));
     c \<leftarrow> requireEnum (\<lambda>s. s) SUPERSEDE_REASON_CODES (fld fs ''reasonCode'');
     r \<leftarrow> dn_requireUuidV7 (fld fs ''replacementFactId'');
     Some (FactSupersedePayload i c r) }"

definition parseFactRevokePayload :: "jstr \<Rightarrow> jsval \<Rightarrow> event_payload option" where
  "parseFactRevokePayload aggregateId input = do {
     fs \<leftarrow> requireExactObject input [''factId'', ''factVersion'', ''reasonCode'', ''status''] [];
     i \<leftarrow> dn_requireUuidV7 (fld fs ''factId'');
     require (\<not> (i \<noteq> aggregateId \<or> fld fs ''factVersion'' \<noteq> JNum (IntNum 2) \<or>
       fld fs ''status'' \<noteq> JStr (js ''revoked'')));
     c \<leftarrow> requireEnum (\<lambda>s. s) REVOKE_REASON_CODES (fld fs ''reasonCode'');
     Some (FactRevokePayload i c) }"

fun parse_event_payload :: "event_type \<Rightarrow> jstr \<Rightarrow> jsval \<Rightarrow> event_payload option" where
  "parse_event_payload OrganizationCreated i v = singleIdPayload ''organizationId'' i v"
| "parse_event_payload InitiativeCreated i v = singleIdPayload ''initiativeId'' i v"
| "parse_event_payload ActivityCreated i v = singleIdPayload ''activityId'' i v"
| "parse_event_payload ActivityCaptureAdded i v = parseCapturePayload i v"
| "parse_event_payload RelationshipCreated i v = singleIdPayload ''relationshipId'' i v"
| "parse_event_payload RelationshipEnded i v = parseRelationshipEndPayload i v"
| "parse_event_payload ContentCreated i v = singleIdPayload ''contentItemId'' i v"
| "parse_event_payload ContentRevised i v = parseRevisionPayload i v"
| "parse_event_payload SourceCaptured i v = singleIdPayload ''sourceArtifactId'' i v"
| "parse_event_payload SourceCorrectedEvent i v = parseCorrectionPayload i v"
| "parse_event_payload SourceTombstonedEvent i v = parseTombstonePayload i v"
| "parse_event_payload ClaimProposed i v = parseClaimPayload i v"
| "parse_event_payload ProposalWithdrawn i v = parseTerminalProposalPayload ''withdrawn'' i v"
| "parse_event_payload ProposalRejected i v = parseTerminalProposalPayload ''rejected'' i v"
| "parse_event_payload ProposalReworked i v = parseReworkPayload i v"
| "parse_event_payload FactAcceptedEvent i v = singleIdPayload ''factId'' i v"
| "parse_event_payload FactSupersededEvent i v = parseFactSupersedePayload i v"
| "parse_event_payload FactRevokedEvent i v = parseFactRevokePayload i v"

end
