(* ===== verification/Event_Envelope.thy ===== *)
theory Event_Envelope
  imports Domain_Notification
begin

text \<open>
  The envelope around an event payload: \<open>parseDomainNotificationEnvelope\<close> and
  \<open>serializeDomainNotificationEnvelope\<close> of \<open>packages/core-types/src/domain-notification.ts\<close>, with
  the objects they return and the promises that the outbox relies on.
\<close>

record envelope =
  en_eventId :: jstr
  en_eventType :: event_type
  en_tenantId :: jstr
  en_workspaceId :: jstr
  en_spaceId :: jstr
  en_aggregateId :: jstr
  en_aggregateVersion :: int
  en_causationCommandId :: jstr
  en_payload :: event_payload
  en_requestId :: jstr
  en_traceparent :: jstr
  en_tracestate :: "jstr option"

definition ENVELOPE_KEYS :: "string list" where
  "ENVELOPE_KEYS = [''eventId'', ''eventType'', ''eventSchemaVersion'', ''payloadSchemaVersion'',
     ''tenantId'', ''workspaceId'', ''spaceId'', ''aggregateType'', ''aggregateId'',
     ''aggregateVersion'', ''causationCommandId'', ''payload'', ''requestId'', ''traceparent'']"

definition parseDomainNotificationEnvelope :: "jsval \<Rightarrow> envelope option" where
  "parseDomainNotificationEnvelope input = do {
     fs \<leftarrow> requireExactObject input ENVELOPE_KEYS [''tracestate''];
     eventType \<leftarrow> requireEnum event_string DOMAIN_NOTIFICATION_EVENT_TYPES (fld fs ''eventType'');
     aggregateType \<leftarrow> requireEnum aggregate_string DOMAIN_NOTIFICATION_AGGREGATE_TYPES
       (fld fs ''aggregateType'');
     eventId \<leftarrow> dn_requireUuidV7 (fld fs ''eventId'');
     aggregateId \<leftarrow> dn_requireUuidV7 (fld fs ''aggregateId'');
     require (\<not> (fld fs ''eventSchemaVersion'' \<noteq> JNum (IntNum 1) \<or>
       fld fs ''payloadSchemaVersion'' \<noteq> JNum (IntNum 1) \<or>
       aggregateType \<noteq> event_aggregate eventType));
     tenantId \<leftarrow> dn_requireUuid (fld fs ''tenantId'');
     workspaceId \<leftarrow> dn_requireUuid (fld fs ''workspaceId'');
     spaceId \<leftarrow> dn_requireUuid (fld fs ''spaceId'');
     version \<leftarrow> requirePositiveInteger (fld fs ''aggregateVersion'');
     causation \<leftarrow> dn_requireUuidV7 (fld fs ''causationCommandId'');
     requestId \<leftarrow> requireBoundedString 200 (fld fs ''requestId'');
     traceparent \<leftarrow> requireTraceparent (fld fs ''traceparent'');
     tracestate \<leftarrow> optional (requireBoundedString 512) (fld fs ''tracestate'');
     payload \<leftarrow> parse_event_payload eventType aggregateId (fld fs ''payload'');
     Some \<lparr>en_eventId = eventId, en_eventType = eventType, en_tenantId = tenantId,
       en_workspaceId = workspaceId, en_spaceId = spaceId, en_aggregateId = aggregateId,
       en_aggregateVersion = version, en_causationCommandId = causation, en_payload = payload,
       en_requestId = requestId, en_traceparent = traceparent, en_tracestate = tracestate\<rparr> }"

section \<open>The objects returned\<close>

fun single_id_key :: "event_type \<Rightarrow> string" where
  "single_id_key OrganizationCreated = ''organizationId''"
| "single_id_key InitiativeCreated = ''initiativeId''"
| "single_id_key ActivityCreated = ''activityId''"
| "single_id_key RelationshipCreated = ''relationshipId''"
| "single_id_key ContentCreated = ''contentItemId''"
| "single_id_key SourceCaptured = ''sourceArtifactId''"
| "single_id_key _ = ''factId''"

definition proposal_disposition :: "event_type \<Rightarrow> string" where
  "proposal_disposition t = (if t = ProposalRejected then ''rejected'' else ''withdrawn'')"

fun event_payload_value :: "event_type \<Rightarrow> event_payload \<Rightarrow> jsval" where
  "event_payload_value t (SingleId i) = JObj (object_of [(single_id_key t, JStr i)])"
| "event_payload_value t (CapturePayload i a) =
     JObj (object_of [(''activityId'', JStr i), (''sourceArtifactId'', JStr a)])"
| "event_payload_value t (RelationshipEndPayload i d) =
     JObj (object_of [(''relationshipId'', JStr i), (''validTo'', JStr d)])"
| "event_payload_value t (RevisionPayload i n) =
     JObj (object_of [(''contentItemId'', JStr i), (''revisionNumber'', JNum (IntNum n))])"
| "event_payload_value t (CorrectionPayload i p) =
     JObj (object_of [(''sourceArtifactId'', JStr i), (''previousSourceArtifactId'', JStr p)])"
| "event_payload_value t (TombstonePayload i c p h) =
     JObj (object_of [(''sourceArtifactId'', JStr i), (''deletionReasonCategory'', JStr c),
       (''deletionPolicyRef'', JStr p), (''hashDisposition'', JStr h)])"
| "event_payload_value t (ClaimPayload i e a) =
     JObj (object_of ((''claimId'', JStr i) # (''evidenceSpanId'', JStr e) #
       opt_entry ''supportAttestationId'' JStr a))"
| "event_payload_value t (TerminalProposalPayload i c r) =
     JObj (object_of [(''claimId'', JStr i), (''claimVersion'', JNum (IntNum 2)),
       (''reasonCode'', JStr c), (''recoveryId'', JStr r),
       (''disposition'', JStr (js (proposal_disposition t)))])"
| "event_payload_value t (ReworkPayload p s e a r) =
     JObj (object_of [(''predecessorClaimId'', JStr p), (''predecessorVersion'', JNum (IntNum 2)),
       (''successorClaimId'', JStr s), (''successorVersion'', JNum (IntNum 1)),
       (''evidenceSpanId'', JStr e), (''supportAttestationId'', JStr a), (''recoveryId'', JStr r),
       (''disposition'', JStr (js ''reworked'')), (''reasonCode'', JStr (js ''reworked''))])"
| "event_payload_value t (FactSupersedePayload i c r) =
     JObj (object_of [(''factId'', JStr i), (''factVersion'', JNum (IntNum 2)),
       (''reasonCode'', JStr c), (''replacementFactId'', JStr r),
       (''replacementFactVersion'', JNum (IntNum 1)), (''status'', JStr (js ''superseded''))])"
| "event_payload_value t (FactRevokePayload i c) =
     JObj (object_of [(''factId'', JStr i), (''factVersion'', JNum (IntNum 2)),
       (''reasonCode'', JStr c), (''status'', JStr (js ''revoked''))])"

definition envelope_value :: "envelope \<Rightarrow> jsval" where
  "envelope_value e = JObj (object_of (
     (''eventId'', JStr (en_eventId e)) # (''eventType'', JStr (event_string (en_eventType e))) #
     (''eventSchemaVersion'', JNum (IntNum 1)) # (''payloadSchemaVersion'', JNum (IntNum 1)) #
     (''tenantId'', JStr (en_tenantId e)) # (''workspaceId'', JStr (en_workspaceId e)) #
     (''spaceId'', JStr (en_spaceId e)) #
     (''aggregateType'', JStr (aggregate_string (event_aggregate (en_eventType e)))) #
     (''aggregateId'', JStr (en_aggregateId e)) #
     (''aggregateVersion'', JNum (IntNum (en_aggregateVersion e))) #
     (''causationCommandId'', JStr (en_causationCommandId e)) #
     (''payload'', event_payload_value (en_eventType e) (en_payload e)) #
     (''requestId'', JStr (en_requestId e)) # (''traceparent'', JStr (en_traceparent e)) #
     opt_entry ''tracestate'' JStr (en_tracestate e)))"

definition serializeDomainNotificationEnvelope :: "jsval \<Rightarrow> jstr option" where
  "serializeDomainNotificationEnvelope input = do {
     e \<leftarrow> parseDomainNotificationEnvelope input;
     canonicalJsonStringify (envelope_value e) }"

section \<open>What the checks return\<close>

definition uuid_lower :: "jstr \<Rightarrow> bool" where
  "uuid_lower s \<longleftrightarrow> uuid_any_case s \<and> lower_ascii s = s"

definition bounded_string :: "nat \<Rightarrow> jstr \<Rightarrow> bool" where
  "bounded_string n s \<longleftrightarrow> \<not> (length s < 1 \<or> length s > n \<or> hasControlCharacters s)"

definition traceparent_ok :: "jstr \<Rightarrow> bool" where
  "traceparent_ok s \<longleftrightarrow> traceparent_pattern s \<and>
     \<not> (units s 3 35 = replicate 32 48 \<or> units s 36 52 = replicate 16 48)"

lemma requireExactObject_object_of [simp]:
  "requireExactObject (JObj (object_of kvs)) req opt = Some fs \<longleftrightarrow>
     fs = object_of kvs \<and> set req \<subseteq> set (map fst kvs) \<and> set (map fst kvs) \<subseteq> set req \<union> set opt"
proof -
  have "list_all is_string_key (map fst (object_of kvs))"
    by (auto simp: object_of_def list_all_iff)
  then have "requireExactObject (JObj (object_of kvs)) req opt = exactObject (JObj (object_of kvs)) req opt"
    by (simp add: requireExactObject_def exactObject_def)
  then show ?thesis by simp
qed

lemma has_own_object_of [simp]: "has_own (object_of kvs) (js k) \<longleftrightarrow> k \<in> fst ` set kvs"
  by (force simp: has_own_def object_of_def image_iff)

lemma dn_uuid7_D: "dn_requireUuidV7 v = Some s \<Longrightarrow> uuid_v7 s"
  by (auto simp: dn_requireUuidV7_def require_string_with_Some_iff uuid_v7_lower)

lemma dn_uuid7_ok [simp]: "uuid_v7 s \<Longrightarrow> dn_requireUuidV7 (JStr s) = Some s"
  by (auto simp: dn_requireUuidV7_def require_string_with_Some_iff uuid_v7_any_case_of)

lemma dn_uuid_D: "dn_requireUuid v = Some s \<Longrightarrow> uuid_lower s"
  by (auto simp: dn_requireUuid_def require_string_with_Some_iff uuid_lower_def uuid_any_case_lower)

lemma dn_uuid_ok [simp]: "uuid_lower s \<Longrightarrow> dn_requireUuid (JStr s) = Some s"
  by (auto simp: dn_requireUuid_def require_string_with_Some_iff uuid_lower_def)

lemma bounded_Some_iff [simp]: "requireBoundedString n v = Some s \<longleftrightarrow> v = JStr s \<and> bounded_string n s"
  by (auto simp: requireBoundedString_def require_string_with_Some_iff bounded_string_def)

lemma dn_reference_Some_iff [simp]:
  "dn_requireSafeReference v = Some s \<longleftrightarrow> v = JStr s \<and> bounded_string 200 s \<and> safe_reference s"
  by (auto simp: dn_requireSafeReference_def bind_Some_iff)

lemma traceparent_Some_iff [simp]: "requireTraceparent v = Some s \<longleftrightarrow> v = JStr s \<and> traceparent_ok s"
  by (auto simp: requireTraceparent_def require_string_with_Some_iff traceparent_ok_def)

lemma event_string_inj [simp]: "inj event_string"
  by (rule injI) (rename_tac a b, case_tac a; case_tac b; simp)

lemma aggregate_string_inj [simp]: "inj aggregate_string"
  by (rule injI) (rename_tac a b, case_tac a; case_tac b; simp)

lemma mem_event_types [simp]: "t \<in> set DOMAIN_NOTIFICATION_EVENT_TYPES"
  by (cases t) (simp_all add: DOMAIN_NOTIFICATION_EVENT_TYPES_def)

lemma mem_aggregate_types [simp]: "t \<in> set DOMAIN_NOTIFICATION_AGGREGATE_TYPES"
  by (cases t) (simp_all add: DOMAIN_NOTIFICATION_AGGREGATE_TYPES_def)

lemmas payload_parsers =
  singleIdPayload_def parseCapturePayload_def parseRelationshipEndPayload_def
  parseRevisionPayload_def parseCorrectionPayload_def parseTombstonePayload_def
  parseClaimPayload_def parseTerminalProposalPayload_def parseReworkPayload_def
  parseFactSupersedePayload_def parseFactRevokePayload_def

fun payload_subject :: "event_payload \<Rightarrow> jstr" where
  "payload_subject (SingleId i) = i"
| "payload_subject (CapturePayload i _) = i"
| "payload_subject (RelationshipEndPayload i _) = i"
| "payload_subject (RevisionPayload i _) = i"
| "payload_subject (CorrectionPayload i _) = i"
| "payload_subject (TombstonePayload i _ _ _) = i"
| "payload_subject (ClaimPayload i _ _) = i"
| "payload_subject (TerminalProposalPayload i _ _) = i"
| "payload_subject (ReworkPayload _ s _ _ _) = s"
| "payload_subject (FactSupersedePayload i _ _) = i"
| "payload_subject (FactRevokePayload i _) = i"

lemma parse_event_payload_subject:
  "parse_event_payload t i v = Some p \<Longrightarrow> payload_subject p = i"
  by (cases t) (auto simp: payload_parsers bind_Some_iff split: if_splits)

lemma parse_event_payload_embed:
  assumes "parse_event_payload t i v = Some p"
  shows "parse_event_payload t i (event_payload_value t p) = Some p"
  using assms
  by (cases t)
     (auto simp: payload_parsers bind_Some_iff requireTimestamp_Some_iff proposal_disposition_def
        requireEnum_id_Some_iff requirePositiveInteger_Some_iff dest!: dn_uuid7_D split: if_splits)

lemma jsonable_event_payload:
  "parse_event_payload t i v = Some p \<Longrightarrow> jsonable (event_payload_value t p)"
  by (cases t)
     (auto simp: payload_parsers bind_Some_iff requirePositiveInteger_Some_iff max_safe_integer_def
        split: if_splits)

section \<open>The envelope\<close>

definition wf_envelope :: "envelope \<Rightarrow> bool" where
  "wf_envelope e \<longleftrightarrow>
     uuid_v7 (en_eventId e) \<and> uuid_v7 (en_aggregateId e) \<and> uuid_v7 (en_causationCommandId e) \<and>
     uuid_lower (en_tenantId e) \<and> uuid_lower (en_workspaceId e) \<and> uuid_lower (en_spaceId e) \<and>
     1 \<le> en_aggregateVersion e \<and> en_aggregateVersion e \<le> max_safe_integer \<and>
     bounded_string 200 (en_requestId e) \<and> traceparent_ok (en_traceparent e) \<and>
     (case en_tracestate e of None \<Rightarrow> True | Some s \<Rightarrow> bounded_string 512 s) \<and>
     parse_event_payload (en_eventType e) (en_aggregateId e)
       (event_payload_value (en_eventType e) (en_payload e)) = Some (en_payload e)"

lemma parse_envelope_wf:
  "parseDomainNotificationEnvelope v = Some e \<Longrightarrow> wf_envelope e"
  by (auto simp: parseDomainNotificationEnvelope_def wf_envelope_def bind_Some_iff
      requirePositiveInteger_Some_iff optional_Some_iff
      dest!: dn_uuid7_D dn_uuid_D intro: parse_event_payload_embed)

lemma event_payload_value_defined [simp]: "event_payload_value t p \<noteq> JUndef"
  by (cases p) simp_all

lemma parse_envelope_of_wf:
  assumes "wf_envelope e"
  shows "parseDomainNotificationEnvelope (envelope_value e) = Some e"
proof -
  define kvs where "kvs =
     (''eventId'', JStr (en_eventId e)) # (''eventType'', JStr (event_string (en_eventType e))) #
     (''eventSchemaVersion'', JNum (IntNum 1)) # (''payloadSchemaVersion'', JNum (IntNum 1)) #
     (''tenantId'', JStr (en_tenantId e)) # (''workspaceId'', JStr (en_workspaceId e)) #
     (''spaceId'', JStr (en_spaceId e)) #
     (''aggregateType'', JStr (aggregate_string (event_aggregate (en_eventType e)))) #
     (''aggregateId'', JStr (en_aggregateId e)) #
     (''aggregateVersion'', JNum (IntNum (en_aggregateVersion e))) #
     (''causationCommandId'', JStr (en_causationCommandId e)) #
     (''payload'', event_payload_value (en_eventType e) (en_payload e)) #
     (''requestId'', JStr (en_requestId e)) # (''traceparent'', JStr (en_traceparent e)) #
     opt_entry ''tracestate'' JStr (en_tracestate e)"
  let ?o = "object_of kvs"
  have x: "requireExactObject (JObj ?o) ENVELOPE_KEYS [''tracestate''] = Some ?o"
    by (simp add: kvs_def ENVELOPE_KEYS_def)
  have f: "fld ?o ''eventId'' = JStr (en_eventId e)"
    "fld ?o ''eventType'' = JStr (event_string (en_eventType e))"
    "fld ?o ''eventSchemaVersion'' = JNum (IntNum 1)" "fld ?o ''payloadSchemaVersion'' = JNum (IntNum 1)"
    "fld ?o ''tenantId'' = JStr (en_tenantId e)" "fld ?o ''workspaceId'' = JStr (en_workspaceId e)"
    "fld ?o ''spaceId'' = JStr (en_spaceId e)"
    "fld ?o ''aggregateType'' = JStr (aggregate_string (event_aggregate (en_eventType e)))"
    "fld ?o ''aggregateId'' = JStr (en_aggregateId e)"
    "fld ?o ''aggregateVersion'' = JNum (IntNum (en_aggregateVersion e))"
    "fld ?o ''causationCommandId'' = JStr (en_causationCommandId e)"
    "fld ?o ''payload'' = event_payload_value (en_eventType e) (en_payload e)"
    "fld ?o ''requestId'' = JStr (en_requestId e)" "fld ?o ''traceparent'' = JStr (en_traceparent e)"
    by (simp_all add: kvs_def)
  have t: "optional (requireBoundedString 512) (fld ?o ''tracestate'') = Some (en_tracestate e)"
    using assms by (cases "en_tracestate e") (auto simp: kvs_def opt_entry_def optional_Some_iff wf_envelope_def)
  have "envelope_value e = JObj ?o" by (simp only: envelope_value_def kvs_def)
  then show ?thesis
    using assms unfolding parseDomainNotificationEnvelope_def
    by (cases e) (simp add: x f t wf_envelope_def requireEnum_Some_iff requirePositiveInteger_Some_iff
        bind_Some_iff)
qed

interpretation envelope: canonical_form parseDomainNotificationEnvelope envelope_value
proof
  show "parseDomainNotificationEnvelope v = Some e \<Longrightarrow>
      parseDomainNotificationEnvelope (envelope_value e) = Some e" for v e
    by (rule parse_envelope_of_wf[OF parse_envelope_wf])
qed (simp add: envelope_value_def)

section \<open>The promises\<close>

text \<open>C39: An envelope survives the outbox: the envelope the parser returns, stored as a row or sent
  as a message and parsed again, is the same envelope, whatever the case of the ids was.\<close>
theorem parseDomainNotificationEnvelope_roundtrip:
  assumes "parseDomainNotificationEnvelope v = Some e"
  shows "parseDomainNotificationEnvelope (envelope_value e) = Some e"
  by (rule envelope.parse_embed[OF assms])

text \<open>An accepted envelope names its aggregate consistently: the entity the payload is about is
  the aggregate of the envelope, the aggregate type is the one of the event, every id is a
  lower-case UUID, and the version is positive.\<close>
theorem envelope_agrees_with_payload:
  assumes "parseDomainNotificationEnvelope v = Some e"
  shows "payload_subject (en_payload e) = en_aggregateId e \<and>
    uuid_v7 (en_aggregateId e) \<and> uuid_v7 (en_eventId e) \<and> uuid_v7 (en_causationCommandId e) \<and>
    uuid_lower (en_tenantId e) \<and> uuid_lower (en_workspaceId e) \<and> uuid_lower (en_spaceId e) \<and>
    1 \<le> en_aggregateVersion e \<and>
    (\<exists>fs. v = JObj fs \<and>
       fld fs ''aggregateType'' = JStr (aggregate_string (event_aggregate (en_eventType e))))"
proof -
  have "\<exists>fs. requireExactObject v ENVELOPE_KEYS [''tracestate''] = Some fs \<and>
      fld fs ''aggregateType'' = JStr (aggregate_string (event_aggregate (en_eventType e)))"
    using assms by (auto simp: parseDomainNotificationEnvelope_def bind_Some_iff requireEnum_Some_iff)
  then have "\<exists>fs. v = JObj fs \<and>
      fld fs ''aggregateType'' = JStr (aggregate_string (event_aggregate (en_eventType e)))"
    by (auto simp: requireExactObject_def split: jsval.splits)
  then show ?thesis
    using parse_envelope_wf[OF assms] parse_event_payload_subject by (auto simp: wf_envelope_def)
qed

lemma serialize_parsed:
  assumes "parseDomainNotificationEnvelope v = Some e"
  shows "\<exists>t. serializeDomainNotificationEnvelope v = Some t \<and>
    serializeDomainNotificationEnvelope (envelope_value e) = Some t"
proof -
  note w = parse_envelope_wf[OF assms]
  then have "jsonable (event_payload_value (en_eventType e) (en_payload e))"
    using jsonable_event_payload by (auto simp: wf_envelope_def)
  then have "jsonable (envelope_value e)"
    using w by (auto simp: envelope_value_def wf_envelope_def)
  then show ?thesis
    using assms parse_envelope_of_wf[OF w]
    by (auto simp: serializeDomainNotificationEnvelope_def jsonable_def)
qed

text \<open>Every envelope that parses can be serialised: the canonical text exists, and it is the
  same for the envelope as received and as parsed.\<close>
theorem serializeDomainNotificationEnvelope_total:
  assumes "parseDomainNotificationEnvelope v = Some e"
  shows "\<exists>t. serializeDomainNotificationEnvelope v = Some t \<and>
    serializeDomainNotificationEnvelope (envelope_value e) = Some t"
  by (rule serialize_parsed[OF assms])

definition example_envelope :: envelope where
  "example_envelope = \<lparr>en_eventId = example_id 1, en_eventType = FactAcceptedEvent,
     en_tenantId = example_id 2, en_workspaceId = example_id 3, en_spaceId = example_id 4,
     en_aggregateId = example_id 5, en_aggregateVersion = 1, en_causationCommandId = example_id 6,
     en_payload = SingleId (example_id 5), en_requestId = [97],
     en_traceparent = [48, 48, 45] @ replicate 32 97 @ [45] @ replicate 16 97 @ [45, 48, 49],
     en_tracestate = None\<rparr>"

lemma uuid_lower_v7 [simp]: "uuid_v7 s \<Longrightarrow> uuid_lower s"
  by (simp add: uuid_lower_def uuid_v7_any)

lemma wf_example_envelope: "wf_envelope example_envelope"
  by (simp add: wf_envelope_def example_envelope_def bounded_string_def hasControlCharacters_def
      traceparent_ok_def traceparent_pattern_def units_def eval_nat_numeral is_lower_hex_def
      is_digit_def max_safe_integer_def singleIdPayload_def bind_Some_iff)

lemma parseDomainNotificationEnvelope_roundtrip_witness:
  "parseDomainNotificationEnvelope (envelope_value example_envelope) = Some example_envelope"
  by (rule parseDomainNotificationEnvelope_roundtrip[OF parse_envelope_of_wf[OF wf_example_envelope]])

lemma envelope_agrees_with_payload_witness:
  "payload_subject (en_payload example_envelope) = en_aggregateId example_envelope"
  using envelope_agrees_with_payload[OF parse_envelope_of_wf[OF wf_example_envelope]] by simp

lemma serializeDomainNotificationEnvelope_total_witness:
  "\<exists>t. serializeDomainNotificationEnvelope (envelope_value example_envelope) = Some t"
  using serializeDomainNotificationEnvelope_total[OF parse_envelope_of_wf[OF wf_example_envelope]] by blast

end
