(* ===== verification/Source_Span.thy ===== *)
theory Source_Span
  imports Command_Payloads
begin

text \<open>
  \<open>packages/truth-ledger/src/source-span.ts\<close>: the admission of a quotation as evidence. A client
  proposes a span of a stored source; the admission compares it with the authoritative snapshot
  of the source, its chunks, its link to an activity and the subject, recomputing every hash
  and the excerpt itself. The snapshot is what a lookup inside the transaction returned, a
  parameter; \<open>nfc\<close> and \<open>sha256\<close> are parameters too. Object identity (the brands and the weak
  set of admitted spans) is modelled by the flag that a span came from \<open>admit\<close>.
\<close>

section \<open>Snapshots\<close>

record chunk_snapshot =
  ck_id :: jstr
  ck_tenantId :: jstr
  ck_workspaceId :: jstr
  ck_spaceId :: jstr
  ck_sourceArtifactId :: jstr
  ck_version :: int
  ck_normalizationVersion :: jstr
  ck_chunkingVersion :: jstr
  ck_chunkIndex :: int
  ck_startOffset :: int
  ck_endOffset :: int
  ck_normalizedText :: jstr
  ck_contentHash :: jstr
  ck_accessClass :: jstr

record subject_snapshot =
  sj_type :: subject_kind
  sj_id :: jstr
  sj_tenantId :: jstr
  sj_workspaceId :: jstr
  sj_spaceId :: jstr
  sj_version :: int
  sj_accessClass :: jstr

record link_snapshot =
  lk_tenantId :: jstr
  lk_workspaceId :: jstr
  lk_spaceId :: jstr
  lk_sourceArtifactId :: jstr
  lk_activityId :: jstr
  lk_governingInitiativeId :: "jstr option"

record source_snapshot =
  so_id :: jstr
  so_tenantId :: jstr
  so_workspaceId :: jstr
  so_spaceId :: jstr
  so_version :: int
  so_immutableText :: "jstr option"
  so_contentHash :: "jstr option"
  so_normalizedContentHash :: "jstr option"
  so_normalizationVersion :: jstr
  so_chunkingVersion :: jstr
  so_accessClass :: jstr
  so_deletedAt :: "jstr option"
  so_successorSourceArtifactId :: "jstr option"

record evidence_snapshot =
  sn_tenantId :: jstr
  sn_workspaceId :: jstr
  sn_spaceId :: jstr
  sn_subject :: subject_snapshot
  sn_link :: link_snapshot
  sn_source :: source_snapshot
  sn_chunks :: "chunk_snapshot list"
  sn_explicitPolicyAccessClass :: jstr

record verified_span =
  vs_subjectType :: subject_kind
  vs_subjectId :: jstr
  vs_subjectVersion :: int
  vs_tenantId :: jstr
  vs_workspaceId :: jstr
  vs_spaceId :: jstr
  vs_sourceArtifactId :: jstr
  vs_sourceChunkId :: jstr
  vs_sourceVersion :: int
  vs_chunkVersion :: int
  vs_startOffset :: jsnum
  vs_endOffset :: int
  vs_excerpt :: jstr
  vs_sourceContentHash :: jstr
  vs_sourceNormalizedContentHash :: jstr
  vs_chunkContentHash :: jstr
  vs_excerptHash :: jstr
  vs_effectiveAccessClass :: access_class

datatype span_error = VerifiedClaimSourceSpanError | VerifiedClaimSourceSpanOperationalError

section \<open>The candidate\<close>

definition canonical_uuid :: "jstr \<Rightarrow> bool" where
  "canonical_uuid s \<longleftrightarrow>
     fixed_match (uuid_with is_lower_hex (\<lambda>u. 49 \<le> u \<and> u \<le> 56) is_variant) s"

definition requireCanonicalUuidReference :: "jsval \<Rightarrow> jstr option" where
  "requireCanonicalUuidReference input = require_string_with canonical_uuid input"

definition requireAccessClass :: "jsval \<Rightarrow> access_class option" where
  "requireAccessClass input = requireEnum access_string access_classes input"

definition parseAdmissionEvidence :: "jsval \<Rightarrow> evidence option" where
  "parseAdmissionEvidence input = do {
     fs \<leftarrow> exactObject input evidence_keys [];
     artifact \<leftarrow> requireUuidV7 (fld fs ''sourceArtifactId'');
     chunk \<leftarrow> requireUuidV7 (fld fs ''sourceChunkId'');
     version \<leftarrow> requirePositiveInteger (fld fs ''expectedSourceVersion'');
     requireLiteral (fld fs ''expectedChunkVersion'') (num_value 1);
     requireLiteral (fld fs ''normalizationVersion'') (JStr SOURCE_NORMALIZATION_VERSION);
     requireLiteral (fld fs ''chunkingVersion'') (JStr SOURCE_CHUNKING_VERSION);
     s \<leftarrow> requireNonNegativeInteger (fld fs ''startOffset'');
     e \<leftarrow> requirePositiveInteger (fld fs ''endOffset'');
     excerpt \<leftarrow> requireString (fld fs ''excerpt'');
     h1 \<leftarrow> requireSha256 (fld fs ''sourceContentHash'');
     h2 \<leftarrow> requireSha256 (fld fs ''sourceNormalizedContentHash'');
     h3 \<leftarrow> requireSha256 (fld fs ''chunkContentHash'');
     h4 \<leftarrow> requireSha256 (fld fs ''excerptHash'');
     Some \<lparr>ev_sourceArtifactId = artifact, ev_sourceChunkId = chunk,
       ev_expectedSourceVersion = version, ev_startOffset = s, ev_endOffset = e, ev_excerpt = excerpt,
       ev_sourceContentHash = h1, ev_sourceNormalizedContentHash = h2, ev_chunkContentHash = h3,
       ev_excerptHash = h4\<rparr> }"

definition parseAdmissionCandidate :: "jsval \<Rightarrow> (subject_ref \<times> evidence) option" where
  "parseAdmissionCandidate input = do {
     fs \<leftarrow> exactObject input [''subject'', ''evidence''] [];
     subject \<leftarrow> parseSubject (fld fs ''subject'');
     e \<leftarrow> parseAdmissionEvidence (fld fs ''evidence'');
     Some (subject, e) }"

section \<open>Verification\<close>

definition requireUuids :: "jstr list \<Rightarrow> unit option" where
  "requireUuids ss = do { those (map (\<lambda>s. requireUuidV7 (JStr s)) ss); Some () }"

definition requireReferences :: "jstr list \<Rightarrow> unit option" where
  "requireReferences ss = do { those (map (\<lambda>s. requireCanonicalUuidReference (JStr s)) ss); Some () }"

definition scope_mismatch ::
  "evidence_snapshot \<Rightarrow> jstr \<Rightarrow> jstr \<Rightarrow> subject_ref \<Rightarrow> evidence \<Rightarrow> bool" where
  "scope_mismatch sn tenant workspace subject c \<longleftrightarrow>
     (let source = sn_source sn; link = sn_link sn; projected = sn_subject sn in
      sn_tenantId sn \<noteq> tenant \<or> sn_workspaceId sn \<noteq> workspace \<or>
      sj_type projected \<noteq> sr_type subject \<or> sj_id projected \<noteq> sr_id subject \<or>
      sj_version projected \<noteq> sr_expectedVersion subject \<or>
      sj_tenantId projected \<noteq> sn_tenantId sn \<or> sj_workspaceId projected \<noteq> sn_workspaceId sn \<or>
      sj_spaceId projected \<noteq> sn_spaceId sn \<or>
      lk_tenantId link \<noteq> sn_tenantId sn \<or> lk_workspaceId link \<noteq> sn_workspaceId sn \<or>
      lk_spaceId link \<noteq> sn_spaceId sn \<or> lk_sourceArtifactId link \<noteq> ev_sourceArtifactId c \<or>
      so_id source \<noteq> ev_sourceArtifactId c \<or> so_tenantId source \<noteq> sn_tenantId sn \<or>
      so_workspaceId source \<noteq> sn_workspaceId sn \<or> so_spaceId source \<noteq> sn_spaceId sn \<or>
      so_version source \<noteq> ev_expectedSourceVersion c \<or>
      so_deletedAt source \<noteq> None \<or> so_successorSourceArtifactId source \<noteq> None \<or>
      so_immutableText source = None \<or> so_contentHash source = None \<or>
      so_normalizedContentHash source = None \<or>
      so_normalizationVersion source \<noteq> SOURCE_NORMALIZATION_VERSION \<or>
      so_chunkingVersion source \<noteq> SOURCE_CHUNKING_VERSION \<or>
      (sr_type subject = ActivitySubject \<and> lk_activityId link \<noteq> sr_id subject) \<or>
      (sr_type subject = InitiativeSubject \<and> lk_governingInitiativeId link \<noteq> Some (sr_id subject)))"

definition chunk_mismatch ::
  "(nat list \<Rightarrow> jstr) \<Rightarrow> evidence_snapshot \<Rightarrow> jstr list \<Rightarrow> int \<Rightarrow> int \<Rightarrow> nat \<Rightarrow> chunk_snapshot \<Rightarrow> bool" where
  "chunk_mismatch sha256 sn seen index expectedStart scalars ck \<longleftrightarrow>
     ck_id ck \<in> set seen \<or> ck_tenantId ck \<noteq> sn_tenantId sn \<or>
     ck_workspaceId ck \<noteq> sn_workspaceId sn \<or> ck_spaceId ck \<noteq> sn_spaceId sn \<or>
     ck_sourceArtifactId ck \<noteq> so_id (sn_source sn) \<or> ck_version ck \<noteq> 1 \<or>
     ck_normalizationVersion ck \<noteq> SOURCE_NORMALIZATION_VERSION \<or>
     ck_chunkingVersion ck \<noteq> SOURCE_CHUNKING_VERSION \<or> ck_chunkIndex ck \<noteq> index \<or>
     ck_startOffset ck \<noteq> expectedStart \<or> ck_endOffset ck \<noteq> ck_startOffset ck + int scalars \<or>
     scalars < 1 \<or> scalars > SOURCE_CHUNK_MAX_SCALARS \<or>
     sha256 (utf8 (ck_normalizedText ck)) \<noteq> ck_contentHash ck"

fun verify_chunks ::
  "(nat list \<Rightarrow> jstr) \<Rightarrow> evidence_snapshot \<Rightarrow> jstr \<Rightarrow> jstr list \<Rightarrow> int \<Rightarrow> int \<Rightarrow>
     chunk_snapshot option \<Rightarrow> chunk_snapshot list \<Rightarrow> chunk_snapshot option option" where
  "verify_chunks sha256 sn wanted seen index expectedStart selected [] = Some selected"
| "verify_chunks sha256 sn wanted seen index expectedStart selected (ck # cks) = do {
     scalars \<leftarrow> unicodeScalarLength (ck_normalizedText ck);
     requireUuids [ck_id ck];
     requireReferences [ck_tenantId ck, ck_workspaceId ck, ck_spaceId ck];
     requireUuids [ck_sourceArtifactId ck];
     require (\<not> chunk_mismatch sha256 sn seen index expectedStart scalars ck);
     requireAccessClass (JStr (ck_accessClass ck));
     verify_chunks sha256 sn wanted (ck_id ck # seen) (index + 1) (ck_endOffset ck)
       (if ck_id ck = wanted then Some ck else selected) cks }"

definition verify_hashes ::
  "(nat list \<Rightarrow> jstr) \<Rightarrow> source_snapshot \<Rightarrow> chunk_snapshot \<Rightarrow> evidence \<Rightarrow> jstr \<Rightarrow> jstr \<Rightarrow> jstr \<Rightarrow> bool" where
  "verify_hashes sha256 source selected c rawHash normalizedHash excerpt \<longleftrightarrow>
     ck_version selected = 1 \<and>
     Some (ev_sourceContentHash c) = so_contentHash source \<and> ev_sourceContentHash c = rawHash \<and>
     Some (ev_sourceNormalizedContentHash c) = so_normalizedContentHash source \<and>
     ev_sourceNormalizedContentHash c = normalizedHash \<and>
     ev_chunkContentHash c = ck_contentHash selected \<and>
     ev_chunkContentHash c = sha256 (utf8 (ck_normalizedText selected)) \<and>
     ev_excerpt c = excerpt \<and> ev_excerptHash c = sha256 (utf8 excerpt)"

definition verifySnapshot ::
  "(jstr \<Rightarrow> jstr) \<Rightarrow> (nat list \<Rightarrow> jstr) \<Rightarrow> evidence_snapshot \<Rightarrow> jstr \<Rightarrow> jstr \<Rightarrow> subject_ref \<Rightarrow>
     evidence \<Rightarrow> verified_span option" where
  "verifySnapshot nfc sha256 sn tenant workspace subject c = do {
     let source = sn_source sn;
     let link = sn_link sn;
     let projected = sn_subject sn;
     requireReferences [sn_tenantId sn, sn_workspaceId sn, sn_spaceId sn];
     requireUuids [sj_id projected];
     requireReferences [sj_tenantId projected, sj_workspaceId projected, sj_spaceId projected,
       lk_tenantId link, lk_workspaceId link, lk_spaceId link];
     requireUuids ([lk_sourceArtifactId link, lk_activityId link] @
       (case lk_governingInitiativeId link of None \<Rightarrow> [] | Some i \<Rightarrow> [i]) @ [so_id source]);
     requireReferences [so_tenantId source, so_workspaceId source, so_spaceId source];
     require (\<not> scope_mismatch sn tenant workspace subject c);
     let chunks = sort_key ck_chunkIndex (sn_chunks sn);
     require (length chunks \<noteq> 0);
     found \<leftarrow> verify_chunks sha256 sn (ev_sourceChunkId c) [] 0 0 None chunks;
     selected \<leftarrow> found;
     immutable \<leftarrow> so_immutableText source;
     let joined = concat (map ck_normalizedText chunks);
     stored \<leftarrow> normalizeStoredSourceText nfc immutable;
     require (stored = joined);
     let rawHash = sha256 (utf8 immutable);
     require (so_contentHash source = Some rawHash);
     let normalizedHash = sha256 (utf8 joined);
     excerpt \<leftarrow> sliceUnicodeScalarSpan (ck_normalizedText selected) (ev_startOffset c)
       (IntNum (ev_endOffset c));
     require (verify_hashes sha256 source selected c rawHash normalizedHash excerpt);
     n \<leftarrow> unicodeScalarLength excerpt;
     require (\<not> n > SOURCE_CHUNK_MAX_SCALARS);
     a1 \<leftarrow> requireAccessClass (JStr (so_accessClass source));
     a2 \<leftarrow> requireAccessClass (JStr (ck_accessClass selected));
     a3 \<leftarrow> requireAccessClass (JStr (sj_accessClass projected));
     a4 \<leftarrow> requireAccessClass (JStr (sn_explicitPolicyAccessClass sn));
     effective \<leftarrow> maxAccessClass (map access_string [a1, a2, a3, a4]);
     Some \<lparr>vs_subjectType = sr_type subject, vs_subjectId = sr_id subject,
       vs_subjectVersion = sr_expectedVersion subject, vs_tenantId = sn_tenantId sn,
       vs_workspaceId = sn_workspaceId sn, vs_spaceId = sn_spaceId sn,
       vs_sourceArtifactId = so_id source, vs_sourceChunkId = ck_id selected,
       vs_sourceVersion = so_version source, vs_chunkVersion = ck_version selected,
       vs_startOffset = ev_startOffset c, vs_endOffset = ev_endOffset c, vs_excerpt = excerpt,
       vs_sourceContentHash = rawHash, vs_sourceNormalizedContentHash = normalizedHash,
       vs_chunkContentHash = ck_contentHash selected, vs_excerptHash = sha256 (utf8 excerpt),
       vs_effectiveAccessClass = effective\<rparr> }"

section \<open>Admission\<close>

text \<open>A lookup either fails (\<open>Inl\<close>), or answers with a snapshot or null.\<close>

record lookup_key =
  lq_tenantId :: jstr
  lq_workspaceId :: jstr
  lq_subjectType :: subject_kind
  lq_subjectId :: jstr
  lq_sourceArtifactId :: jstr
  lq_sourceChunkId :: jstr

type_synonym snapshot_lookup = "lookup_key \<Rightarrow> unit + evidence_snapshot option"

record admission =
  ad_lookup :: snapshot_lookup
  ad_tenantId :: jstr
  ad_workspaceId :: jstr

definition new_admission ::
  "nat \<Rightarrow> nat \<Rightarrow> snapshot_lookup \<Rightarrow> jstr \<Rightarrow> jstr \<Rightarrow> span_error + admission" where
  "new_admission transaction lookupTransaction lookup tenant workspace =
     (if lookupTransaction \<noteq> transaction then Inl VerifiedClaimSourceSpanOperationalError
      else Inr \<lparr>ad_lookup = lookup, ad_tenantId = tenant, ad_workspaceId = workspace\<rparr>)"

definition admit ::
  "(jstr \<Rightarrow> jstr) \<Rightarrow> (nat list \<Rightarrow> jstr) \<Rightarrow> admission \<Rightarrow> jsval \<Rightarrow> span_error + verified_span" where
  "admit nfc sha256 ad input =
     (case parseAdmissionCandidate input of
        None \<Rightarrow> Inl VerifiedClaimSourceSpanError
      | Some (subject, c) \<Rightarrow>
          (if \<not> (canonical_uuid (ad_tenantId ad) \<and> canonical_uuid (ad_workspaceId ad))
           then Inl VerifiedClaimSourceSpanOperationalError
           else
             (case ad_lookup ad \<lparr>lq_tenantId = ad_tenantId ad, lq_workspaceId = ad_workspaceId ad,
                 lq_subjectType = sr_type subject, lq_subjectId = sr_id subject,
                 lq_sourceArtifactId = ev_sourceArtifactId c,
                 lq_sourceChunkId = ev_sourceChunkId c\<rparr> of
                Inl _ \<Rightarrow> Inl VerifiedClaimSourceSpanOperationalError
              | Inr None \<Rightarrow> Inl VerifiedClaimSourceSpanError
              | Inr (Some sn) \<Rightarrow>
                  ok_or VerifiedClaimSourceSpanError
                    (verifySnapshot nfc sha256 sn (ad_tenantId ad) (ad_workspaceId ad) subject c))))"

end
