(* ===== verification/Span_Promises.thy ===== *)
theory Span_Promises
  imports Source_Span
begin

text \<open>
  What the admission of evidence guarantees: the excerpt is the quoted slice of the selected chunk
  and of the whole normalised source, the hashes were recomputed, and the access class bounds
  that of everything the span was drawn from.
\<close>

section \<open>The chunk loop\<close>

definition scalars_of :: "chunk_snapshot list \<Rightarrow> jstr list" where
  "scalars_of cks = concat (map (\<lambda>ck. array_from (ck_normalizedText ck)) cks)"

lemma scalars_of_simps [simp]:
  "scalars_of [] = []" "scalars_of (ck # cks) = array_from (ck_normalizedText ck) @ scalars_of cks"
  "scalars_of (xs @ ys) = scalars_of xs @ scalars_of ys"
  by (simp_all add: scalars_of_def)

lemma unicodeScalarLength_Some_iff [simp]:
  "unicodeScalarLength s = Some n \<longleftrightarrow> isUnicodeScalarString s \<and> n = length (array_from s)"
  by (auto simp: unicodeScalarLength_def)

lemma requireAccessClass_Some_iff [simp]:
  "requireAccessClass v = Some c \<longleftrightarrow> v = JStr (access_string c)"
proof -
  have "inj access_string" by (simp add: inj_on_def)
  moreover have "c \<in> set access_classes" by (cases c) (simp_all add: access_classes_def)
  ultimately show ?thesis by (simp add: requireAccessClass_def requireEnum_Some_iff)
qed

lemma verify_chunks_Cons:
  "verify_chunks sha sn w seen k st sel (ck # cks) = Some r \<longleftrightarrow>
     isUnicodeScalarString (ck_normalizedText ck) \<and> requireUuids [ck_id ck] \<noteq> None \<and>
     requireReferences [ck_tenantId ck, ck_workspaceId ck, ck_spaceId ck] \<noteq> None \<and>
     requireUuids [ck_sourceArtifactId ck] \<noteq> None \<and>
     \<not> chunk_mismatch sha sn seen k st (length (array_from (ck_normalizedText ck))) ck \<and>
     (\<exists>c. ck_accessClass ck = access_string c) \<and>
     verify_chunks sha sn w (ck_id ck # seen) (k + 1) (ck_endOffset ck)
       (if ck_id ck = w then Some ck else sel) cks = Some r"
  by (auto simp: bind_Some_iff)

declare verify_chunks.simps(2) [simp del]

lemma verify_chunks_sound:
  assumes "verify_chunks sha sn w seen k st sel cks = Some (Some s)"
  shows "(\<forall>ck\<in>set cks. isUnicodeScalarString (ck_normalizedText ck) \<and>
      ck_contentHash ck = sha (utf8 (ck_normalizedText ck)) \<and> ck_sourceArtifactId ck = so_id (sn_source sn)) \<and>
    (sel = Some s \<or> (\<exists>pre post. cks = pre @ s # post \<and> ck_id s = w \<and>
       ck_startOffset s = st + int (length (scalars_of pre))))"
  using assms
proof (induction cks arbitrary: seen k st sel)
  case (Cons ck cks)
  let ?sel = "if ck_id ck = w then Some ck else sel"
  have v: "verify_chunks sha sn w (ck_id ck # seen) (k + 1) (ck_endOffset ck) ?sel cks = Some (Some s)"
    and u: "isUnicodeScalarString (ck_normalizedText ck)"
    and m: "\<not> chunk_mismatch sha sn seen k st (length (array_from (ck_normalizedText ck))) ck"
    using Cons.prems by (auto simp: verify_chunks_Cons)
  have e: "ck_startOffset ck = st" "ck_contentHash ck = sha (utf8 (ck_normalizedText ck))"
    "ck_endOffset ck = st + int (length (array_from (ck_normalizedText ck)))"
    "ck_sourceArtifactId ck = so_id (sn_source sn)"
    using m by (auto simp: chunk_mismatch_def)
  note IH = Cons.IH[OF v]
  have "sel = Some s \<or> (\<exists>pre post. ck # cks = pre @ s # post \<and> ck_id s = w \<and>
       ck_startOffset s = st + int (length (scalars_of pre)))"
    using IH
  proof (elim conjE disjE exE)
    assume "?sel = Some s"
    then have "sel = Some s \<or> (ck = s \<and> ck_id s = w)" by (auto split: if_splits)
    then show ?thesis
    proof
      assume "ck = s \<and> ck_id s = w"
      then show ?thesis using e(1) by (intro disjI2 exI[of _ "[]"] exI[of _ cks]) auto
    qed simp
  next
    fix pre post
    assume "cks = pre @ s # post" "ck_id s = w"
      "ck_startOffset s = ck_endOffset ck + int (length (scalars_of pre))"
    then show ?thesis using e(3) by (intro disjI2 exI[of _ "ck # pre"] exI[of _ post]) simp
  qed
  then show ?case using IH u e by auto
qed simp

lemma array_from_chunks:
  "\<forall>ck\<in>set cks. isUnicodeScalarString (ck_normalizedText ck) \<Longrightarrow>
     array_from (concat (map ck_normalizedText cks)) = scalars_of cks"
  by (induction cks) (auto simp: array_from_append isUnicodeScalarString_iff)

lemma scalar_slice_inside:
  assumes "i \<le> j" "j \<le> length ys"
  shows "scalar_slice (xs @ ys @ zs) (length xs + i) (length xs + j) = scalar_slice ys i j"
  using assms by (simp add: scalar_slice_def)

section \<open>What a verified span is\<close>

definition quoted_from ::
  "(nat list \<Rightarrow> jstr) \<Rightarrow> evidence_snapshot \<Rightarrow> jstr \<Rightarrow> verified_span \<Rightarrow> bool" where
  "quoted_from sha256 sn normal vs \<longleftrightarrow>
     (\<exists>ck i j. ck \<in> set (sn_chunks sn) \<and> ck_id ck = vs_sourceChunkId vs \<and>
        safe_int (vs_startOffset vs) = Some (int i) \<and> vs_endOffset vs = int j \<and> i < j \<and>
        j \<le> length (array_from (ck_normalizedText ck)) \<and>
        vs_excerpt vs = concat (scalar_slice (array_from (ck_normalizedText ck)) i j) \<and>
        vs_excerpt vs = concat (scalar_slice (array_from normal)
          (nat (ck_startOffset ck) + i) (nat (ck_startOffset ck) + j)) \<and>
        vs_chunkContentHash vs = sha256 (utf8 (ck_normalizedText ck)) \<and>
        vs_excerptHash vs = sha256 (utf8 (vs_excerpt vs)))"

lemma sliceUnicodeScalarSpan_Some:
  assumes "sliceUnicodeScalarSpan t a (IntNum e) = Some x"
  obtains i j where "isUnicodeScalarString t" "safe_int a = Some (int i)" "e = int j" "i < j"
    "j \<le> length (array_from t)" "x = concat (scalar_slice (array_from t) i j)"
proof -
  obtain i' where i': "isUnicodeScalarString t" "safe_int a = Some i'" "0 \<le> i'" "i' < e"
    "e \<le> int (length (array_from t))" "x = concat (scalar_slice (array_from t) (nat i') (nat e))"
    using assms by (auto simp: sliceUnicodeScalarSpan_def bind_Some_iff Let_def split: if_splits)
  then show ?thesis by (intro that[of "nat i'" "nat e"]) auto
qed

lemma verifySnapshot_parts:
  assumes "verifySnapshot nfc sha sn tenant workspace subject c = Some vs"
  obtains selected immutable normal where
    "\<not> scope_mismatch sn tenant workspace subject c"
    "verify_chunks sha sn (ev_sourceChunkId c) [] 0 0 None (sort_key ck_chunkIndex (sn_chunks sn)) =
       Some (Some selected)"
    "so_immutableText (sn_source sn) = Some immutable"
    "normalizeStoredSourceText nfc immutable = Some normal"
    "normal = concat (map ck_normalizedText (sort_key ck_chunkIndex (sn_chunks sn)))"
    "so_contentHash (sn_source sn) = Some (sha (utf8 immutable))"
    "sliceUnicodeScalarSpan (ck_normalizedText selected) (ev_startOffset c) (IntNum (ev_endOffset c)) =
       Some (vs_excerpt vs)"
    "verify_hashes sha (sn_source sn) selected c (sha (utf8 immutable)) (sha (utf8 normal)) (vs_excerpt vs)"
    "maxAccessClass [so_accessClass (sn_source sn), ck_accessClass selected,
       sj_accessClass (sn_subject sn), sn_explicitPolicyAccessClass sn] = Some (vs_effectiveAccessClass vs)"
    "vs_startOffset vs = ev_startOffset c" "vs_endOffset vs = ev_endOffset c"
    "vs_sourceChunkId vs = ck_id selected" "vs_chunkContentHash vs = ck_contentHash selected"
    "vs_excerptHash vs = sha (utf8 (vs_excerpt vs))" "vs_sourceContentHash vs = sha (utf8 immutable)"
    "vs_sourceNormalizedContentHash vs = sha (utf8 normal)"
    "vs_tenantId vs = sn_tenantId sn" "vs_workspaceId vs = sn_workspaceId sn"
    "vs_spaceId vs = sn_spaceId sn" "vs_subjectType vs = sr_type subject" "vs_subjectId vs = sr_id subject"
    "vs_sourceArtifactId vs = so_id (sn_source sn)"
  using assms unfolding verifySnapshot_def Let_def
  by (simp only: bind_Some_iff bind_require_Some_iff requireAccessClass_Some_iff)
     (elim exE conjE, auto)

lemma verifySnapshot_quoted:
  assumes "verifySnapshot nfc sha sn tenant workspace subject c = Some vs"
  shows "\<exists>immutable normal. so_immutableText (sn_source sn) = Some immutable \<and>
    normalizeStoredSourceText nfc immutable = Some normal \<and> quoted_from sha sn normal vs"
proof -
  obtain selected immutable normal where p:
    "verify_chunks sha sn (ev_sourceChunkId c) [] 0 0 None (sort_key ck_chunkIndex (sn_chunks sn)) =
       Some (Some selected)"
    "so_immutableText (sn_source sn) = Some immutable"
    "normalizeStoredSourceText nfc immutable = Some normal"
    "normal = concat (map ck_normalizedText (sort_key ck_chunkIndex (sn_chunks sn)))"
    "sliceUnicodeScalarSpan (ck_normalizedText selected) (ev_startOffset c) (IntNum (ev_endOffset c)) =
       Some (vs_excerpt vs)"
    and f: "vs_startOffset vs = ev_startOffset c" "vs_endOffset vs = ev_endOffset c"
    "vs_sourceChunkId vs = ck_id selected" "vs_chunkContentHash vs = ck_contentHash selected"
    "vs_excerptHash vs = sha (utf8 (vs_excerpt vs))"
    using verifySnapshot_parts[OF assms] by metis
  let ?cks = "sort_key ck_chunkIndex (sn_chunks sn)"
  obtain pre post where cks: "?cks = pre @ selected # post"
    and st: "ck_startOffset selected = int (length (scalars_of pre))"
    and all: "\<forall>ck\<in>set ?cks. isUnicodeScalarString (ck_normalizedText ck) \<and>
      ck_contentHash ck = sha (utf8 (ck_normalizedText ck))"
    using verify_chunks_sound[OF p(1)] by auto
  obtain i j where s: "safe_int (ev_startOffset c) = Some (int i)" "ev_endOffset c = int j" "i < j"
    "j \<le> length (array_from (ck_normalizedText selected))"
    "vs_excerpt vs = concat (scalar_slice (array_from (ck_normalizedText selected)) i j)"
    using sliceUnicodeScalarSpan_Some[OF p(5)] by metis
  have "array_from normal = scalars_of pre @ array_from (ck_normalizedText selected) @ scalars_of post"
    using array_from_chunks[of ?cks] all unfolding p(4) cks by simp
  then have "scalar_slice (array_from normal) (nat (ck_startOffset selected) + i)
      (nat (ck_startOffset selected) + j) = scalar_slice (array_from (ck_normalizedText selected)) i j"
    using scalar_slice_inside[of i j "array_from (ck_normalizedText selected)"] s st by simp
  moreover have mem: "selected \<in> set ?cks" unfolding cks by simp
  moreover have "ck_contentHash selected = sha (utf8 (ck_normalizedText selected))"
    using all mem by blast
  ultimately have "quoted_from sha sn normal vs"
    unfolding quoted_from_def f using s by (intro exI[of _ selected] exI[of _ i] exI[of _ j]) simp
  then show ?thesis using p by blast
qed

text \<open>The scope of a span.\<close>

definition in_span_scope :: "verified_span \<Rightarrow> jstr \<Rightarrow> jstr \<Rightarrow> jstr \<Rightarrow> bool" where
  "in_span_scope vs tenant workspace space \<longleftrightarrow>
     tenant = vs_tenantId vs \<and> workspace = vs_workspaceId vs \<and> space = vs_spaceId vs"

lemma verify_chunks_distinct:
  assumes "verify_chunks sha sn w seen k st sel cks = Some r"
  shows "distinct (map ck_id cks) \<and> set (map ck_id cks) \<inter> set seen = {} \<and>
    (\<forall>ck\<in>set cks. ck_tenantId ck = sn_tenantId sn \<and> ck_workspaceId ck = sn_workspaceId sn \<and>
       ck_spaceId ck = sn_spaceId sn)"
  using assms
proof (induction cks arbitrary: seen k st sel)
  case (Cons ck cks)
  have v: "verify_chunks sha sn w (ck_id ck # seen) (k + 1) (ck_endOffset ck)
      (if ck_id ck = w then Some ck else sel) cks = Some r"
    and m: "\<not> chunk_mismatch sha sn seen k st (length (array_from (ck_normalizedText ck))) ck"
    using Cons.prems by (auto simp: verify_chunks_Cons)
  show ?case using Cons.IH[OF v] m by (auto simp: chunk_mismatch_def)
qed simp

lemma admit_verified:
  assumes "admit nfc sha ad input = Inr vs"
  obtains subject c sn where "parseAdmissionCandidate input = Some (subject, c)"
    "ad_lookup ad \<lparr>lq_tenantId = ad_tenantId ad, lq_workspaceId = ad_workspaceId ad,
       lq_subjectType = sr_type subject, lq_subjectId = sr_id subject,
       lq_sourceArtifactId = ev_sourceArtifactId c, lq_sourceChunkId = ev_sourceChunkId c\<rparr> = Inr (Some sn)"
    "verifySnapshot nfc sha sn (ad_tenantId ad) (ad_workspaceId ad) subject c = Some vs"
  using assms by (auto simp: admit_def split: option.splits prod.splits if_splits sum.splits)

section \<open>A concrete admission\<close>

definition example_hash :: jstr where
  "example_hash = replicate 64 97"

definition example_snapshot :: evidence_snapshot where
  "example_snapshot = \<lparr>sn_tenantId = example_id 7, sn_workspaceId = example_id 8, sn_spaceId = example_id 9,
     sn_subject = \<lparr>sj_type = ActivitySubject, sj_id = example_id 1, sj_tenantId = example_id 7,
       sj_workspaceId = example_id 8, sj_spaceId = example_id 9, sj_version = 1,
       sj_accessClass = js ''workspace''\<rparr>,
     sn_link = \<lparr>lk_tenantId = example_id 7, lk_workspaceId = example_id 8, lk_spaceId = example_id 9,
       lk_sourceArtifactId = example_id 2, lk_activityId = example_id 1, lk_governingInitiativeId = None\<rparr>,
     sn_source = \<lparr>so_id = example_id 2, so_tenantId = example_id 7, so_workspaceId = example_id 8,
       so_spaceId = example_id 9, so_version = 1, so_immutableText = Some (js ''ab''),
       so_contentHash = Some example_hash, so_normalizedContentHash = Some example_hash,
       so_normalizationVersion = SOURCE_NORMALIZATION_VERSION, so_chunkingVersion = SOURCE_CHUNKING_VERSION,
       so_accessClass = js ''restricted'', so_deletedAt = None, so_successorSourceArtifactId = None\<rparr>,
     sn_chunks = [\<lparr>ck_id = example_id 3, ck_tenantId = example_id 7, ck_workspaceId = example_id 8,
       ck_spaceId = example_id 9, ck_sourceArtifactId = example_id 2, ck_version = 1,
       ck_normalizationVersion = SOURCE_NORMALIZATION_VERSION, ck_chunkingVersion = SOURCE_CHUNKING_VERSION,
       ck_chunkIndex = 0, ck_startOffset = 0, ck_endOffset = 2, ck_normalizedText = js ''ab'',
       ck_contentHash = example_hash, ck_accessClass = js ''public''\<rparr>],
     sn_explicitPolicyAccessClass = js ''workspace''\<rparr>"

definition example_candidate :: jsval where
  "example_candidate = JObj (object_of [
     (''subject'', subject_value \<lparr>sr_type = ActivitySubject, sr_id = example_id 1, sr_expectedVersion = 1\<rparr>),
     (''evidence'', evidence_value \<lparr>ev_sourceArtifactId = example_id 2, ev_sourceChunkId = example_id 3,
        ev_expectedSourceVersion = 1, ev_startOffset = IntNum 0, ev_endOffset = 2, ev_excerpt = js ''ab'',
        ev_sourceContentHash = example_hash, ev_sourceNormalizedContentHash = example_hash,
        ev_chunkContentHash = example_hash, ev_excerptHash = example_hash\<rparr>)])"

definition example_admission :: admission where
  "example_admission = \<lparr>ad_lookup = (\<lambda>k. Inr (Some example_snapshot)), ad_tenantId = example_id 7,
     ad_workspaceId = example_id 8\<rparr>"

lemma canonical_uuid_v7: "uuid_v7 s \<Longrightarrow> canonical_uuid s"
  unfolding canonical_uuid_def uuid_v7_def
  by (erule fixed_match_mono) (rule list_all2_uuid_with[of _ _ "\<lambda>u. u"], auto)

lemma requireUuids_ok: "list_all uuid_v7 ss \<Longrightarrow> requireUuids ss = Some ()"
  by (induction ss) (auto simp: requireUuids_def require_string_simps bind_Some_iff split: option.splits)

lemma example_hash_hex: "sha256_hex example_hash"
  by (simp add: example_hash_def sha256_hex_def fixed_match_replicate is_lower_hex_def list_all_length)

lemma requireReferences_ok: "list_all uuid_v7 ss \<Longrightarrow> requireReferences ss = Some ()"
  by (induction ss)
     (auto simp: requireReferences_def requireCanonicalUuidReference_def require_string_with_Some_iff
        canonical_uuid_v7 bind_Some_iff split: option.splits)

lemma example_scalars [simp]:
  "isUnicodeScalarString (js ''ab'')" "array_from (js ''ab'') = [[97], [98]]" "js ''ab'' = [97, 98]"
  by (simp_all add: js_def is_high_def is_low_def)

lemma parse_example_candidate:
  "parseAdmissionCandidate example_candidate = Some
     (\<lparr>sr_type = ActivitySubject, sr_id = example_id 1, sr_expectedVersion = 1\<rparr>,
      \<lparr>ev_sourceArtifactId = example_id 2, ev_sourceChunkId = example_id 3,
        ev_expectedSourceVersion = 1, ev_startOffset = IntNum 0, ev_endOffset = 2, ev_excerpt = js ''ab'',
        ev_sourceContentHash = example_hash, ev_sourceNormalizedContentHash = example_hash,
        ev_chunkContentHash = example_hash, ev_excerptHash = example_hash\<rparr>)"
  by (simp add: parseAdmissionCandidate_def example_candidate_def parseSubject_def subject_value_def
      parseAdmissionEvidence_def evidence_value_def evidence_keys_def bind_Some_iff requireEnum_Some_iff
      require_string_simps requirePositiveInteger_Some_iff requireNonNegativeInteger_Some_iff
      requireLiteral_Some_iff example_hash_hex max_safe_integer_def)

lemma verify_example:
  "\<exists>vs. verifySnapshot (\<lambda>s. s) (\<lambda>b. example_hash) example_snapshot (example_id 7) (example_id 8)
      \<lparr>sr_type = ActivitySubject, sr_id = example_id 1, sr_expectedVersion = 1\<rparr>
      \<lparr>ev_sourceArtifactId = example_id 2, ev_sourceChunkId = example_id 3,
        ev_expectedSourceVersion = 1, ev_startOffset = IntNum 0, ev_endOffset = 2, ev_excerpt = js ''ab'',
        ev_sourceContentHash = example_hash, ev_sourceNormalizedContentHash = example_hash,
        ev_chunkContentHash = example_hash, ev_excerptHash = example_hash\<rparr> = Some vs"
proof -
  have n: "normalizeStoredSourceText (\<lambda>s. s) [97, 98] = Some [97, 98]"
    by (simp add: normalizeStoredSourceText_def strip_bom_def is_high_def is_low_def trim_def
        trim_end_def is_whitespace_def)
  have sl: "sliceUnicodeScalarSpan [97, 98] (IntNum 0) (IntNum 2) = Some [97, 98]"
    by (simp add: sliceUnicodeScalarSpan_def is_high_def is_low_def max_safe_integer_def scalar_slice_def)
  have m: "maxAccessClass (map access_string [Restricted, Public, Workspace, Workspace]) = Some Restricted"
    by (subst maxAccessClass_Max) (simp_all add: max_def less_eq_access_class_def)
  have ac: "requireAccessClass (JStr (js ''restricted'')) = Some Restricted"
    "requireAccessClass (JStr (js ''public'')) = Some Public"
    "requireAccessClass (JStr (js ''workspace'')) = Some Workspace" by simp_all
  have len: "unicodeScalarLength [97, 98] = Some 2"
    by (simp add: is_high_def is_low_def)
  have vc: "verify_chunks (\<lambda>b. example_hash) example_snapshot (example_id 3) [] 0 0 None
      (sort_key ck_chunkIndex (sn_chunks example_snapshot)) = Some (Some (hd (sn_chunks example_snapshot)))"
    by (simp add: example_snapshot_def verify_chunks.simps(2) requireUuids_ok requireReferences_ok
        chunk_mismatch_def SOURCE_CHUNK_MAX_SCALARS_def ac len)
  have sc: "\<not> scope_mismatch example_snapshot (example_id 7) (example_id 8)
      \<lparr>sr_type = ActivitySubject, sr_id = example_id 1, sr_expectedVersion = 1\<rparr>
      \<lparr>ev_sourceArtifactId = example_id 2, ev_sourceChunkId = example_id 3,
        ev_expectedSourceVersion = 1, ev_startOffset = IntNum 0, ev_endOffset = 2, ev_excerpt = js ''ab'',
        ev_sourceContentHash = example_hash, ev_sourceNormalizedContentHash = example_hash,
        ev_chunkContentHash = example_hash, ev_excerptHash = example_hash\<rparr>"
    by (simp add: scope_mismatch_def example_snapshot_def)
  show ?thesis
    unfolding verifySnapshot_def Let_def using vc sc
    by (simp add: example_snapshot_def requireUuids_ok requireReferences_ok n sl verify_hashes_def
        len SOURCE_CHUNK_MAX_SCALARS_def ac m[simplified])
qed

lemma admit_example:
  "\<exists>vs. admit (\<lambda>s. s) (\<lambda>b. example_hash) example_admission example_candidate = Inr vs"
  using verify_example
  by (simp add: admit_def parse_example_candidate example_admission_def canonical_uuid_v7)

section \<open>The promises\<close>

text \<open>C33: An admitted span is a quotation: its excerpt is exactly the slice, by Unicode scalars, of
  the selected chunk and of the whole normal form of the source that the snapshot holds, at the
  offsets of the span, and every hash it carries was recomputed from those texts.\<close>
theorem admitted_span_is_quotation:
  assumes "admit nfc sha256 ad input = Inr vs"
  shows "\<exists>k sn immutable normal. ad_lookup ad k = Inr (Some sn) \<and>
    so_immutableText (sn_source sn) = Some immutable \<and>
    normalizeStoredSourceText nfc immutable = Some normal \<and>
    quoted_from sha256 sn normal vs \<and>
    vs_sourceContentHash vs = sha256 (utf8 immutable) \<and>
    vs_sourceNormalizedContentHash vs = sha256 (utf8 normal)"
proof -
  obtain subject c sn k where k: "ad_lookup ad k = Inr (Some sn)"
    and v: "verifySnapshot nfc sha256 sn (ad_tenantId ad) (ad_workspaceId ad) subject c = Some vs"
    using admit_verified[OF assms] by metis
  obtain immutable normal where "so_immutableText (sn_source sn) = Some immutable"
    "normalizeStoredSourceText nfc immutable = Some normal"
    "vs_sourceContentHash vs = sha256 (utf8 immutable)"
    "vs_sourceNormalizedContentHash vs = sha256 (utf8 normal)"
    using verifySnapshot_parts[OF v] by metis
  then show ?thesis using k verifySnapshot_quoted[OF v] by force
qed

lemma admitted_span_is_quotation_witness:
  "\<exists>vs immutable. admit (\<lambda>s. s) (\<lambda>b. example_hash) example_admission example_candidate = Inr vs \<and>
     vs_sourceContentHash vs = example_hash"
proof -
  obtain vs where v: "admit (\<lambda>s. s) (\<lambda>b. example_hash) example_admission example_candidate = Inr vs"
    using admit_example by blast
  have "vs_sourceContentHash vs = example_hash"
    using admitted_span_is_quotation[OF v] by blast
  then show ?thesis using v by simp
qed

text \<open>C34: An admitted span never lowers the protection of its inputs and never crosses a scope. It
  comes from the snapshot looked up for its own tenant, workspace, subject, source and chunk; the
  chunk it quotes is the only one of that snapshot with its id; its access class is the greatest of
  the classes of the source, of that chunk, of the subject and of the explicit policy. Subject,
  link, source and chunk lie in the one tenant, workspace and space of the span, the tenant and
  workspace are the authorised ones, the source is linked to the subject, and it was neither deleted
  nor superseded.\<close>
theorem admitted_span_access_and_scope:
  assumes "admit nfc sha256 ad input = Inr vs"
  shows "\<exists>sn ck cs cc cj cp.
    ad_lookup ad \<lparr>lq_tenantId = ad_tenantId ad, lq_workspaceId = ad_workspaceId ad,
       lq_subjectType = vs_subjectType vs, lq_subjectId = vs_subjectId vs,
       lq_sourceArtifactId = vs_sourceArtifactId vs, lq_sourceChunkId = vs_sourceChunkId vs\<rparr> = Inr (Some sn) \<and>
    vs_tenantId vs = ad_tenantId ad \<and> vs_workspaceId vs = ad_workspaceId ad \<and>
    in_span_scope vs (sj_tenantId (sn_subject sn)) (sj_workspaceId (sn_subject sn)) (sj_spaceId (sn_subject sn)) \<and>
    in_span_scope vs (lk_tenantId (sn_link sn)) (lk_workspaceId (sn_link sn)) (lk_spaceId (sn_link sn)) \<and>
    in_span_scope vs (so_tenantId (sn_source sn)) (so_workspaceId (sn_source sn)) (so_spaceId (sn_source sn)) \<and>
    in_span_scope vs (ck_tenantId ck) (ck_workspaceId ck) (ck_spaceId ck) \<and>
    sj_type (sn_subject sn) = vs_subjectType vs \<and> sj_id (sn_subject sn) = vs_subjectId vs \<and>
    so_id (sn_source sn) = vs_sourceArtifactId vs \<and> lk_sourceArtifactId (sn_link sn) = vs_sourceArtifactId vs \<and>
    (case vs_subjectType vs of
       ActivitySubject \<Rightarrow> lk_activityId (sn_link sn) = vs_subjectId vs
     | InitiativeSubject \<Rightarrow> lk_governingInitiativeId (sn_link sn) = Some (vs_subjectId vs)) \<and>
    so_deletedAt (sn_source sn) = None \<and> so_successorSourceArtifactId (sn_source sn) = None \<and>
    {c \<in> set (sn_chunks sn). ck_id c = vs_sourceChunkId vs} = {ck} \<and>
    so_accessClass (sn_source sn) = access_string cs \<and> ck_accessClass ck = access_string cc \<and>
    sj_accessClass (sn_subject sn) = access_string cj \<and>
    sn_explicitPolicyAccessClass sn = access_string cp \<and>
    vs_effectiveAccessClass vs = Max {cs, cc, cj, cp}"
proof -
  obtain subject c sn where
    k: "ad_lookup ad \<lparr>lq_tenantId = ad_tenantId ad, lq_workspaceId = ad_workspaceId ad,
       lq_subjectType = sr_type subject, lq_subjectId = sr_id subject,
       lq_sourceArtifactId = ev_sourceArtifactId c, lq_sourceChunkId = ev_sourceChunkId c\<rparr> = Inr (Some sn)"
    and v: "verifySnapshot nfc sha256 sn (ad_tenantId ad) (ad_workspaceId ad) subject c = Some vs"
    using admit_verified[OF assms] by metis
  show ?thesis
  proof (rule verifySnapshot_parts[OF v], goal_cases)
    case (1 selected immutable normal)
    let ?cks = "sort_key ck_chunkIndex (sn_chunks sn)"
    note m = 1(1)[unfolded scope_mismatch_def Let_def de_Morgan_disj not_not de_Morgan_conj]
    obtain pre post where "?cks = pre @ selected # post" "ck_id selected = ev_sourceChunkId c"
      using verify_chunks_sound[OF 1(2)] by auto
    then have sel: "selected \<in> set (sn_chunks sn)" "ck_id selected = ev_sourceChunkId c"
      by (metis in_set_conv_decomp set_sort)+
    have one: "{k \<in> set (sn_chunks sn). ck_id k = ev_sourceChunkId c} = {selected}"
      using verify_chunks_distinct[OF 1(2)] sel unfolding distinct_map inj_on_def set_sort by auto
    have scope: "in_span_scope vs (ck_tenantId selected) (ck_workspaceId selected) (ck_spaceId selected)"
      using verify_chunks_distinct[OF 1(2)] sel(1) 1(17-19) by (auto simp: in_span_scope_def)
    obtain cs cc cj cp where c: "so_accessClass (sn_source sn) = access_string cs"
      "ck_accessClass selected = access_string cc" "sj_accessClass (sn_subject sn) = access_string cj"
      "sn_explicitPolicyAccessClass sn = access_string cp" "vs_effectiveAccessClass vs = Max {cs, cc, cj, cp}"
      using 1(9) by (auto simp: maxAccessClass_Some_iff Cons_eq_map_conv)
    have ids: "vs_sourceChunkId vs = ev_sourceChunkId c" "vs_sourceArtifactId vs = ev_sourceArtifactId c"
      "vs_subjectType vs = sr_type subject" "vs_subjectId vs = sr_id subject"
      using 1 sel(2) m by simp_all
    have k': "ad_lookup ad \<lparr>lq_tenantId = ad_tenantId ad, lq_workspaceId = ad_workspaceId ad,
       lq_subjectType = vs_subjectType vs, lq_subjectId = vs_subjectId vs,
       lq_sourceArtifactId = vs_sourceArtifactId vs, lq_sourceChunkId = vs_sourceChunkId vs\<rparr> = Inr (Some sn)"
      using k by (simp add: ids)
    have scopes: "in_span_scope vs (sj_tenantId (sn_subject sn)) (sj_workspaceId (sn_subject sn)) (sj_spaceId (sn_subject sn))"
      "in_span_scope vs (lk_tenantId (sn_link sn)) (lk_workspaceId (sn_link sn)) (lk_spaceId (sn_link sn))"
      "in_span_scope vs (so_tenantId (sn_source sn)) (so_workspaceId (sn_source sn)) (so_spaceId (sn_source sn))"
      using m 1(17-19) by (simp_all add: in_span_scope_def)
    have link: "case vs_subjectType vs of
        ActivitySubject \<Rightarrow> lk_activityId (sn_link sn) = vs_subjectId vs
      | InitiativeSubject \<Rightarrow> lk_governingInitiativeId (sn_link sn) = Some (vs_subjectId vs)"
      using m by (simp add: ids split: subject_kind.split)
    have same: "vs_tenantId vs = ad_tenantId ad" "vs_workspaceId vs = ad_workspaceId ad"
      "sj_type (sn_subject sn) = vs_subjectType vs" "sj_id (sn_subject sn) = vs_subjectId vs"
      "so_id (sn_source sn) = vs_sourceArtifactId vs" "lk_sourceArtifactId (sn_link sn) = vs_sourceArtifactId vs"
      "so_deletedAt (sn_source sn) = None" "so_successorSourceArtifactId (sn_source sn) = None"
      using m 1(17,18) by (simp_all add: ids)
    show ?case
      by (intro exI conjI) (rule k' same scopes scope link one[folded ids(1)] c)+
  qed
qed

lemma admitted_span_access_and_scope_witness:
  "\<exists>vs. admit (\<lambda>s. s) (\<lambda>b. example_hash) example_admission example_candidate = Inr vs \<and>
     vs_tenantId vs = example_id 7"
proof -
  obtain vs where v: "admit (\<lambda>s. s) (\<lambda>b. example_hash) example_admission example_candidate = Inr vs"
    using admit_example by blast
  have "vs_tenantId vs = ad_tenantId example_admission"
    using admitted_span_access_and_scope[OF v] by (elim exE conjE)
  then show ?thesis using v by (simp add: example_admission_def)
qed

end
