(* ===== verification/Accepted_Fact.thy ===== *)
theory Accepted_Fact
  imports Source_Span
begin

text \<open>
  \<open>constructAcceptedFactAtTrustedBoundary\<close> of \<open>packages/truth-ledger/src/types.ts\<close>: the one place
  where claims become an accepted fact. Claims come in the static type of the code; whether a
  source span is one that the admission produced (a weak set in the code) is the field
  \<open>cm_spanAdmitted\<close>. Every exception is \<open>None\<close>.
\<close>

section \<open>Claims and facts\<close>

definition CLAIM_STATUSES :: "jstr list" where
  "CLAIM_STATUSES = map js [''proposed'', ''accepted'', ''rejected'', ''conflicted'', ''superseded'']"

definition ACCEPTED_FACT_STATUSES :: "jstr list" where
  "ACCEPTED_FACT_STATUSES = map js [''current'', ''contested'', ''superseded'', ''revoked'']"

record claim =
  cm_id :: jstr
  cm_version :: int
  cm_tenantId :: jstr
  cm_workspaceId :: jstr
  cm_spaceId :: jstr
  cm_subjectType :: jstr
  cm_subjectId :: jstr
  cm_predicate :: jstr
  cm_canonicalValue :: jstr
  cm_normalizedText :: jstr
  cm_sourceSpan :: verified_span
  cm_spanAdmitted :: bool
  cm_assertedByType :: jstr
  cm_assertedById :: jstr
  cm_confidence :: jstr
  cm_validFrom :: "jstr option"
  cm_validTo :: "jstr option"
  cm_observedAt :: "jstr option"
  cm_status :: jstr
  cm_conflictGroupId :: "jstr option"
  cm_accessClass :: jstr
  cm_createdAt :: jstr

record fact_input =
  fi_id :: jstr
  fi_claims :: "claim list"
  fi_subjectAccessClass :: jstr
  fi_explicitPolicyAccessClass :: jstr
  fi_acceptedByUserId :: jstr
  fi_acceptedByMembershipId :: jstr
  fi_acceptanceScope :: jstr
  fi_authorityBasis :: jstr
  fi_policyVersion :: jstr
  fi_recordedAt :: jstr
  fi_createdAt :: jstr
  fi_supersedesFactId :: "jstr option"
  fi_confidenceLowering :: "lowering_request option"

record accepted_fact =
  fa_id :: jstr
  fa_version :: int
  fa_tenantId :: jstr
  fa_workspaceId :: jstr
  fa_spaceId :: jstr
  fa_subjectType :: jstr
  fa_subjectId :: jstr
  fa_predicate :: jstr
  fa_canonicalValue :: jstr
  fa_normalizedText :: jstr
  fa_supportingClaimIds :: "jstr list"
  fa_confidence :: confidence
  fa_confidenceDecision :: confidence_result
  fa_validFrom :: "jstr option"
  fa_validTo :: "jstr option"
  fa_recordedAt :: jstr
  fa_status :: jstr
  fa_supersedesFactId :: "jstr option"
  fa_accessClass :: access_class
  fa_acceptedByUserId :: jstr
  fa_acceptedByMembershipId :: jstr
  fa_acceptanceScope :: jstr
  fa_authorityBasis :: jstr
  fa_policyVersion :: jstr
  fa_createdAt :: jstr

section \<open>Checks of one claim\<close>

definition check_optional :: "(jsval \<Rightarrow> 'a option) \<Rightarrow> jstr option \<Rightarrow> unit option" where
  "check_optional p v = (case v of None \<Rightarrow> Some () | Some s \<Rightarrow> map_option (\<lambda>_. ()) (p (JStr s)))"

definition claim_fields_ok :: "claim \<Rightarrow> unit option" where
  "claim_fields_ok c = do {
     requireUuidV7 (JStr (cm_id c));
     requirePositiveInteger (num_value (cm_version c));
     requireCanonicalUuidReference (JStr (cm_tenantId c));
     requireCanonicalUuidReference (JStr (cm_workspaceId c));
     requireCanonicalUuidReference (JStr (cm_spaceId c));
     requireUuidV7 (JStr (cm_subjectId c));
     requireCanonicalUuidReference (JStr (cm_assertedById c));
     requireTimestamp (JStr (cm_createdAt c));
     requireAccessClass (JStr (cm_accessClass c));
     requireEnum (\<lambda>s. s) CLAIM_STATUSES (JStr (cm_status c));
     Some () }"

definition claim_disagrees :: "claim \<Rightarrow> claim \<Rightarrow> bool" where
  "claim_disagrees first c \<longleftrightarrow>
     cm_tenantId c \<noteq> cm_tenantId first \<or> cm_workspaceId c \<noteq> cm_workspaceId first \<or>
     cm_spaceId c \<noteq> cm_spaceId first \<or> cm_subjectType c \<noteq> cm_subjectType first \<or>
     cm_subjectId c \<noteq> cm_subjectId first \<or> cm_predicate c \<noteq> cm_predicate first \<or>
     cm_validFrom c \<noteq> cm_validFrom first \<or> cm_validTo c \<noteq> cm_validTo first"

definition span_disagrees :: "claim \<Rightarrow> bool" where
  "span_disagrees c \<longleftrightarrow>
     (let s = cm_sourceSpan c in
      subject_string (vs_subjectType s) \<noteq> cm_subjectType c \<or> vs_subjectId s \<noteq> cm_subjectId c \<or>
      vs_tenantId s \<noteq> cm_tenantId c \<or> vs_workspaceId s \<noteq> cm_workspaceId c \<or>
      vs_spaceId s \<noteq> cm_spaceId c)"

definition check_claim ::
  "predicate_definition \<Rightarrow> claim \<Rightarrow> jstr list \<Rightarrow> claim \<Rightarrow> unit option" where
  "check_claim d first seen c = do {
     claim_fields_ok c;
     require (\<not> (cm_id c \<in> set seen \<or> \<not> cm_spanAdmitted c \<or>
       cm_status c \<notin> set [js ''proposed'', js ''conflicted''] \<or> cm_assertedByType c \<noteq> js ''person'' \<or>
       claim_disagrees first c));
     same_value \<leftarrow> pd_equals d (cm_canonicalValue c) (cm_canonicalValue first);
     require same_value;
     same_text \<leftarrow> pd_equals d (cm_normalizedText c) (cm_normalizedText first);
     require same_text;
     require (\<not> span_disagrees c);
     check_optional requireTimestamp (cm_validFrom c);
     check_optional requireTimestamp (cm_validTo c);
     check_optional requireTimestamp (cm_observedAt c);
     check_optional requireUuidV7 (cm_conflictGroupId c) }"

fun check_claims :: "predicate_definition \<Rightarrow> claim \<Rightarrow> jstr list \<Rightarrow> claim list \<Rightarrow> unit option" where
  "check_claims d first seen [] = Some ()"
| "check_claims d first seen (c # cs) = do {
     check_claim d first seen c;
     check_claims d first (cm_id c # seen) cs }"

definition period_reversed :: "jstr option \<Rightarrow> jstr option \<Rightarrow> bool" where
  "period_reversed validFrom validTo =
     (case (validFrom, validTo) of
        (Some a, Some b) \<Rightarrow>
          (case (date_parse b, date_parse a) of (Some x, Some y) \<Rightarrow> x < y | _ \<Rightarrow> False)
      | _ \<Rightarrow> False)"

definition authority_mismatch :: "jstr \<Rightarrow> jstr \<Rightarrow> jstr \<Rightarrow> bool" where
  "authority_mismatch subjectType scope basis \<longleftrightarrow>
     (subjectType = js ''activity'' \<and> (scope \<noteq> js ''engagement'' \<or> basis \<noteq> js ''activity_owner'')) \<or>
     (subjectType = js ''initiative'' \<and> (scope \<noteq> js ''initiative'' \<or> basis \<noteq> js ''initiative_owner''))"

section \<open>Construction\<close>

definition constructAcceptedFact ::
  "(jstr \<Rightarrow> jstr) \<Rightarrow> fact_input \<Rightarrow> accepted_fact option" where
  "constructAcceptedFact nfc input = do {
     let claims = fi_claims input;
     require (\<not> (length claims = 0 \<or> length claims > 100));
     factId \<leftarrow> requireUuidV7 (JStr (fi_id input));
     check_optional requireUuidV7 (fi_supersedesFactId input);
     require (fi_supersedesFactId input \<noteq> Some factId);
     let first = hd claims;
     d \<leftarrow> resolvePredicateDefinition nfc (JStr (cm_predicate first)) (JStr (cm_subjectType first));
     pd_parse d (JStr (cm_canonicalValue first));
     pd_parse d (JStr (cm_normalizedText first));
     same \<leftarrow> pd_equals d (cm_canonicalValue first) (cm_normalizedText first);
     require same;
     check_claims d first [] claims;
     require (\<not> period_reversed (cm_validFrom first) (cm_validTo first));
     scope \<leftarrow> requireEnum (\<lambda>s. s) (map js [''engagement'', ''initiative'']) (JStr (fi_acceptanceScope input));
     basis \<leftarrow> requireEnum (\<lambda>s. s) (map js [''activity_owner'', ''initiative_owner''])
       (JStr (fi_authorityBasis input));
     require (\<not> authority_mismatch (cm_subjectType first) scope basis);
     decision \<leftarrow> calculateAcceptedFactConfidence nfc
       (map (\<lambda>c. \<lparr>sc_claimId = cm_id c, sc_confidence = cm_confidence c, sc_valid = True\<rparr>) claims)
       (fi_confidenceLowering input);
     s \<leftarrow> requireAccessClass (JStr (fi_subjectAccessClass input));
     p \<leftarrow> requireAccessClass (JStr (fi_explicitPolicyAccessClass input));
     access \<leftarrow> maxAccessClass ([access_string s, access_string p] @
       concat (map (\<lambda>c. [cm_accessClass c, access_string (vs_effectiveAccessClass (cm_sourceSpan c))]) claims));
     requireTimestamp (JStr (fi_recordedAt input));
     requireCanonicalUuidReference (JStr (fi_acceptedByUserId input));
     requireCanonicalUuidReference (JStr (fi_acceptedByMembershipId input));
     requireSafeReference (JStr (fi_policyVersion input));
     requireTimestamp (JStr (fi_createdAt input));
     Some \<lparr>fa_id = factId, fa_version = 1, fa_tenantId = cm_tenantId first,
       fa_workspaceId = cm_workspaceId first, fa_spaceId = cm_spaceId first,
       fa_subjectType = cm_subjectType first, fa_subjectId = cm_subjectId first,
       fa_predicate = cm_predicate first, fa_canonicalValue = cm_canonicalValue first,
       fa_normalizedText = cm_normalizedText first, fa_supportingClaimIds = sort (map cm_id claims),
       fa_confidence = cr_confidence decision, fa_confidenceDecision = decision,
       fa_validFrom = cm_validFrom first, fa_validTo = cm_validTo first,
       fa_recordedAt = fi_recordedAt input, fa_status = js ''current'',
       fa_supersedesFactId = fi_supersedesFactId input, fa_accessClass = access,
       fa_acceptedByUserId = fi_acceptedByUserId input,
       fa_acceptedByMembershipId = fi_acceptedByMembershipId input, fa_acceptanceScope = scope,
       fa_authorityBasis = basis, fa_policyVersion = fi_policyVersion input,
       fa_createdAt = fi_createdAt input\<rparr> }"

section \<open>Lemmas\<close>

lemma check_claims_all:
  assumes "check_claims d first seen cs = Some u"
  shows "distinct (map cm_id cs) \<and> set (map cm_id cs) \<inter> set seen = {} \<and>
    (\<forall>c\<in>set cs. \<exists>seen'. check_claim d first seen' c = Some ())"
  using assms
proof (induction cs arbitrary: seen)
  case (Cons c cs)
  then have c: "check_claim d first seen c = Some ()"
    and r: "check_claims d first (cm_id c # seen) cs = Some u" by (auto simp: bind_Some_iff)
  have "cm_id c \<notin> set seen" using c by (auto simp: check_claim_def bind_Some_iff)
  then show ?case using Cons.IH[OF r] c by auto
qed simp

definition admissible_claim :: "claim \<Rightarrow> claim \<Rightarrow> bool" where
  "admissible_claim first c \<longleftrightarrow>
     cm_spanAdmitted c \<and> cm_status c \<in> {js ''proposed'', js ''conflicted''} \<and>
     cm_assertedByType c = js ''person'' \<and> \<not> claim_disagrees first c \<and> \<not> span_disagrees c \<and>
     cm_canonicalValue c = cm_canonicalValue first \<and> cm_normalizedText c = cm_normalizedText first"

lemma check_claim_admissible:
  "check_claim (registry nfc p) first seen c = Some u \<Longrightarrow> admissible_claim first c"
  by (auto simp: check_claim_def bind_Some_iff admissible_claim_def textEquals_Some_iff)

lemma construct_parts:
  assumes "constructAcceptedFact nfc input = Some f"
  obtains first p d where
    "fi_claims input \<noteq> []" "length (fi_claims input) \<le> 100" "first = hd (fi_claims input)"
    "cm_predicate first = predicate_string p" "cm_subjectType first = subject_string (allowed_subject p)"
    "cm_canonicalValue first = cm_normalizedText first"
    "check_claims (registry nfc p) first [] (fi_claims input) = Some ()"
    "\<not> authority_mismatch (cm_subjectType first) (fa_acceptanceScope f) (fa_authorityBasis f)"
    "calculateAcceptedFactConfidence nfc
       (map (\<lambda>c. \<lparr>sc_claimId = cm_id c, sc_confidence = cm_confidence c, sc_valid = True\<rparr>) (fi_claims input))
       (fi_confidenceLowering input) = Some d"
    "maxAccessClass ([fi_subjectAccessClass input, fi_explicitPolicyAccessClass input] @
       concat (map (\<lambda>c. [cm_accessClass c, access_string (vs_effectiveAccessClass (cm_sourceSpan c))])
         (fi_claims input))) = Some (fa_accessClass f)"
    "fa_supportingClaimIds f = sort (map cm_id (fi_claims input))" "fa_confidenceDecision f = d"
    "fa_confidence f = cr_confidence d" "fa_status f = js ''current''" "fa_version f = 1"
    "fa_supersedesFactId f \<noteq> Some (fa_id f)" "fa_tenantId f = cm_tenantId first"
    "fa_subjectId f = cm_subjectId first" "fa_subjectType f = cm_subjectType first"
    "fa_canonicalValue f = cm_canonicalValue first"
    "fa_acceptanceScope f \<in> {js ''engagement'', js ''initiative''}"
    "fa_predicate f = cm_predicate first" "fa_workspaceId f = cm_workspaceId first"
    "fa_spaceId f = cm_spaceId first" "fa_normalizedText f = cm_normalizedText first"
    "fa_validFrom f = cm_validFrom first" "fa_validTo f = cm_validTo first"
    "\<not> period_reversed (cm_validFrom first) (cm_validTo first)"
proof -
  have sa: "requireAccessClass v = Some c \<longleftrightarrow> v = JStr (access_string c)" for v c
  proof -
    have "inj access_string" by (simp add: inj_on_def)
    moreover have "c \<in> set access_classes" by (cases c) (simp_all add: access_classes_def)
    ultimately show ?thesis by (simp add: requireAccessClass_def requireEnum_Some_iff)
  qed
  show ?thesis
    using assms that unfolding constructAcceptedFact_def Let_def
    by (simp only: bind_Some_iff bind_require_Some_iff sa resolvePredicateDefinition_Some_iff
        requireEnum_id_Some_iff require_string_simps)
       (elim exE conjE, auto simp: textEquals_Some_iff)
qed

section \<open>A concrete fact\<close>

definition example_fact_claim :: claim where
  "example_fact_claim = \<lparr>cm_id = example_id 1, cm_version = 1, cm_tenantId = example_id 7,
     cm_workspaceId = example_id 8, cm_spaceId = example_id 9, cm_subjectType = js ''activity'',
     cm_subjectId = example_id 2, cm_predicate = js ''activity.outcome'',
     cm_canonicalValue = js ''ab'', cm_normalizedText = js ''ab'',
     cm_sourceSpan = \<lparr>vs_subjectType = ActivitySubject, vs_subjectId = example_id 2,
       vs_subjectVersion = 1, vs_tenantId = example_id 7, vs_workspaceId = example_id 8,
       vs_spaceId = example_id 9, vs_sourceArtifactId = example_id 3, vs_sourceChunkId = example_id 4,
       vs_sourceVersion = 1, vs_chunkVersion = 1, vs_startOffset = IntNum 0, vs_endOffset = 2,
       vs_excerpt = js ''ab'', vs_sourceContentHash = [], vs_sourceNormalizedContentHash = [],
       vs_chunkContentHash = [], vs_excerptHash = [], vs_effectiveAccessClass = Restricted\<rparr>,
     cm_spanAdmitted = True, cm_assertedByType = js ''person'', cm_assertedById = example_id 5,
     cm_confidence = js ''strong'', cm_validFrom = None, cm_validTo = None, cm_observedAt = None,
     cm_status = js ''proposed'', cm_conflictGroupId = None, cm_accessClass = js ''workspace'',
     cm_createdAt = js ''2026-01-02T03:04:05Z''\<rparr>"

definition example_fact_input :: fact_input where
  "example_fact_input = \<lparr>fi_id = example_id 6, fi_claims = [example_fact_claim],
     fi_subjectAccessClass = js ''public'', fi_explicitPolicyAccessClass = js ''workspace'',
     fi_acceptedByUserId = example_id 5, fi_acceptedByMembershipId = example_id 6,
     fi_acceptanceScope = js ''engagement'', fi_authorityBasis = js ''activity_owner'',
     fi_policyVersion = js ''v1'', fi_recordedAt = js ''2026-01-02T03:04:05Z'',
     fi_createdAt = js ''2026-01-02T03:04:05Z'', fi_supersedesFactId = None,
     fi_confidenceLowering = None\<rparr>"

lemma timestamp_example: "timestamp (js ''2026-01-02T03:04:05Z'')"
proof -
  have f: "timestamp_fields_of (js ''2026-01-02T03:04:05Z'') = \<lparr>ts_year = 2026, ts_month = 1, ts_day = 2,
     ts_hour = 3, ts_minute = 4, ts_second = 5, ts_offset_hour = 0, ts_offset_minute = 0\<rparr>"
    by (simp add: timestamp_fields_of_def ends_with_Z_def js_def units_def)
  have "iso_timestamp_pattern (js ''2026-01-02T03:04:05Z'')"
    by (simp add: iso_timestamp_pattern_def js_def eval_nat_numeral is_digit_def iso_fraction_zone_def
        iso_zone_def)
  moreover have "valid_timestamp_fields \<lparr>ts_year = 2026, ts_month = 1, ts_day = 2,
     ts_hour = 3, ts_minute = 4, ts_second = 5, ts_offset_hour = 0, ts_offset_minute = 0\<rparr>"
    by (simp add: valid_timestamp_fields_def daysInMonth_def)
  ultimately show ?thesis by (simp add: timestamp_def date_parse_def Let_def f)
qed

lemma canonical_reference_v7: "uuid_v7 s \<Longrightarrow> requireCanonicalUuidReference (JStr s) = Some s"
  unfolding requireCanonicalUuidReference_def require_string_with_Some_iff canonical_uuid_def uuid_v7_def
  by (rule conjI, simp, erule fixed_match_mono) (rule list_all2_uuid_with[of _ _ "\<lambda>u. u"], auto)

lemma canonical_text_example: "canonical_text (\<lambda>s. s) (js ''ab'')"
  by (simp add: canonical_text_iff canonical_rationale_def trim_fixed_iff unicodeScalarLength_def)
     (simp add: js_def is_whitespace_def is_high_def is_low_def)

lemma requireAccessClass_string [simp]: "requireAccessClass (JStr (access_string c)) = Some c"
  by (cases c) (simp_all add: requireAccessClass_def requireEnum_def access_classes_def)

lemma construct_example: "\<exists>f. constructAcceptedFact (\<lambda>s. s) example_fact_input = Some f"
proof -
  let ?c = example_fact_claim and ?d = "registry (\<lambda>s. s) ActivityOutcome"
  have ac: "requireAccessClass (JStr (js ''workspace'')) = Some Workspace"
    "requireAccessClass (JStr (js ''public'')) = Some Public"
    using requireAccessClass_string[of Workspace] requireAccessClass_string[of Public] by simp_all
  have cl: "check_claims ?d ?c [] [?c] = Some ()"
    by (simp add: check_claim_def claim_fields_ok_def example_fact_claim_def canonical_reference_v7 ac
        requireTimestamp_Some_iff timestamp_example requireEnum_id_Some_iff CLAIM_STATUSES_def
        claim_disagrees_def span_disagrees_def textEquals_Some_iff canonical_text_example
        check_optional_def bind_Some_iff require_string_simps requirePositiveInteger_Some_iff
        max_safe_integer_def) blast
  have m: "maxAccessClass (map access_string [Public, Workspace, Workspace, Restricted]) = Some Restricted"
    by (subst maxAccessClass_Max) (simp_all add: max_def less_eq_access_class_def)
  have cf: "\<exists>d. calculateAcceptedFactConfidence (\<lambda>s. s)
      [\<lparr>sc_claimId = example_id 1, sc_confidence = js ''strong'', sc_valid = True\<rparr>] None = Some d"
    by (simp add: calculateAcceptedFactConfidence_def Let_def validateClaims_def strongest_rank_def)
  have sr: "requireSafeReference (JStr (js ''v1'')) = Some (js ''v1'')"
    by (simp add: require_string_simps safe_reference_def js_def is_alnum_def is_reference_unit_def is_digit_def)
  obtain d where d: "calculateAcceptedFactConfidence (\<lambda>s. s)
      [\<lparr>sc_claimId = example_id 1, sc_confidence = js ''strong'', sc_valid = True\<rparr>] None = Some d"
    using cf by blast
  have fields: "fi_claims example_fact_input = [?c]" "cm_predicate ?c = predicate_string ActivityOutcome"
    "cm_subjectType ?c = subject_string ActivitySubject" "cm_canonicalValue ?c = js ''ab''"
    "cm_normalizedText ?c = js ''ab''" "cm_id ?c = example_id 1" "cm_confidence ?c = js ''strong''"
    "cm_accessClass ?c = js ''workspace''" "vs_effectiveAccessClass (cm_sourceSpan ?c) = Restricted"
    "cm_validFrom ?c = None" "cm_validTo ?c = None"
    by (simp_all add: example_fact_input_def example_fact_claim_def)
  have res: "resolvePredicateDefinition (\<lambda>s. s) (JStr (js ''activity.outcome'')) (JStr (js ''activity'')) = Some ?d"
    using resolvePredicateDefinition_Some_iff[of "\<lambda>s. s" "JStr (js ''activity.outcome'')" "JStr (js ''activity'')" ?d]
    by (auto intro!: exI[of _ ActivityOutcome])
  have eq: "textEquals (\<lambda>s. s) (js ''ab'') (js ''ab'') = Some True"
    by (simp add: textEquals_Some_iff canonical_text_example)
  have ps: "parseCanonicalPredicateText (\<lambda>s. s) (JStr (js ''ab'')) = Some (js ''ab'')"
    by (simp add: parseCanonicalPredicateText_Some_iff canonical_text_example)
  have ts: "requireTimestamp (JStr (js ''2026-01-02T03:04:05Z'')) = Some (js ''2026-01-02T03:04:05Z'')"
    by (simp add: requireTimestamp_Some_iff timestamp_example)
  show ?thesis
    unfolding constructAcceptedFact_def Let_def fields(1)
    by (simp add: fields res eq ps cl d[unfolded One_nat_def] m[simplified] ac sr ts canonical_reference_v7 period_reversed_def
        authority_mismatch_def requireEnum_def example_fact_input_def check_optional_def
        del: registry.simps check_claims.simps)
qed

section \<open>The promises\<close>

text \<open>C35: An accepted fact stands only on claims that agree. Its supporting ids are the ids of the
  claims (one to a hundred), sorted and each once; every claim is an open claim of a person with an
  admitted span, and claim, span and fact agree: in the scope (tenant, workspace, space) and the
  subject all three, and claim and fact also in the predicate, the value, the text and the period.
  The value is its own normal text, the period is not reversed, and the authority that accepted is
  the one that owns facts about that kind of subject.\<close>
theorem accepted_fact_support:
  assumes "constructAcceptedFact nfc input = Some f"
  shows "sorted_wrt (<) (fa_supportingClaimIds f) \<and>
    set (fa_supportingClaimIds f) = cm_id ` set (fi_claims input) \<and>
    fi_claims input \<noteq> [] \<and> length (fi_claims input) \<le> 100 \<and>
    (\<forall>c\<in>set (fi_claims input).
       cm_spanAdmitted c \<and> cm_status c \<in> {js ''proposed'', js ''conflicted''} \<and>
       cm_assertedByType c = js ''person'' \<and> cm_tenantId c = fa_tenantId f \<and>
       cm_workspaceId c = fa_workspaceId f \<and> cm_spaceId c = fa_spaceId f \<and>
       cm_subjectId c = fa_subjectId f \<and> cm_subjectType c = fa_subjectType f \<and>
       cm_predicate c = fa_predicate f \<and> cm_canonicalValue c = fa_canonicalValue f \<and>
       cm_normalizedText c = fa_normalizedText f \<and>
       cm_validFrom c = fa_validFrom f \<and> cm_validTo c = fa_validTo f \<and>
       vs_tenantId (cm_sourceSpan c) = fa_tenantId f \<and> vs_workspaceId (cm_sourceSpan c) = fa_workspaceId f \<and>
       vs_spaceId (cm_sourceSpan c) = fa_spaceId f \<and>
       subject_string (vs_subjectType (cm_sourceSpan c)) = fa_subjectType f \<and>
       vs_subjectId (cm_sourceSpan c) = fa_subjectId f) \<and>
    fa_canonicalValue f = fa_normalizedText f \<and>
    \<not> period_reversed (fa_validFrom f) (fa_validTo f) \<and>
    \<not> authority_mismatch (fa_subjectType f) (fa_acceptanceScope f) (fa_authorityBasis f)"
proof (rule construct_parts[OF assms], goal_cases)
  case (1 first p d)
  note a = check_claims_all[OF 1(7)]
  have adm: "\<forall>c\<in>set (fi_claims input). admissible_claim first c"
    using a check_claim_admissible by blast
  have "sorted_wrt (<) (fa_supportingClaimIds f)" using a 1(11) by (simp add: sorted_distinct_strict)
  moreover have "set (fa_supportingClaimIds f) = cm_id ` set (fi_claims input)" using 1(11) by simp
  moreover have "\<not> authority_mismatch (fa_subjectType f) (fa_acceptanceScope f) (fa_authorityBasis f)"
    using 1 by simp
  ultimately show ?case
    using adm 1(1,2,6,17-20,22-28)
    by (auto simp: admissible_claim_def claim_disagrees_def span_disagrees_def Let_def)
qed

lemma accepted_fact_support_witness:
  "\<exists>f. constructAcceptedFact (\<lambda>s. s) example_fact_input = Some f \<and> sorted_wrt (<) (fa_supportingClaimIds f)"
  using construct_example accepted_fact_support by blast

text \<open>The access class of an accepted fact is an upper bound of the access classes of every claim
  it stands on, of the source spans behind them, of the subject and of the explicit policy.\<close>
theorem accepted_fact_access_bound:
  assumes "constructAcceptedFact nfc input = Some f"
  shows "(\<forall>c\<in>set (fi_claims input).
      vs_effectiveAccessClass (cm_sourceSpan c) \<le> fa_accessClass f \<and>
      (\<exists>k. cm_accessClass c = access_string k \<and> k \<le> fa_accessClass f)) \<and>
    (\<exists>s p. fi_subjectAccessClass input = access_string s \<and> s \<le> fa_accessClass f \<and>
       fi_explicitPolicyAccessClass input = access_string p \<and> p \<le> fa_accessClass f)"
proof -
  let ?vs = "[fi_subjectAccessClass input, fi_explicitPolicyAccessClass input] @
       concat (map (\<lambda>c. [cm_accessClass c, access_string (vs_effectiveAccessClass (cm_sourceSpan c))])
         (fi_claims input))"
  have "maxAccessClass ?vs = Some (fa_accessClass f)" by (rule construct_parts[OF assms])
  then obtain cs where vs: "?vs = map access_string cs" and m: "fa_accessClass f = Max (set cs)"
    unfolding maxAccessClass_Some_iff by blast
  have le: "\<exists>k. v = access_string k \<and> k \<le> fa_accessClass f" if "v \<in> set ?vs" for v
    using that unfolding vs m by auto
  have "vs_effectiveAccessClass (cm_sourceSpan c) \<le> fa_accessClass f \<and>
      (\<exists>k. cm_accessClass c = access_string k \<and> k \<le> fa_accessClass f)" if "c \<in> set (fi_claims input)" for c
  proof -
    have "access_string (vs_effectiveAccessClass (cm_sourceSpan c)) \<in> set ?vs" "cm_accessClass c \<in> set ?vs"
      using that by auto
    from this[THEN le] show ?thesis by auto
  qed
  moreover have "fi_subjectAccessClass input \<in> set ?vs" "fi_explicitPolicyAccessClass input \<in> set ?vs"
    by simp_all
  ultimately show ?thesis using le by blast
qed

lemma accepted_fact_access_bound_witness:
  "\<exists>f. constructAcceptedFact (\<lambda>s. s) example_fact_input = Some f \<and> Restricted \<le> fa_accessClass f"
proof -
  obtain f where f: "constructAcceptedFact (\<lambda>s. s) example_fact_input = Some f"
    using construct_example by blast
  then show ?thesis using accepted_fact_access_bound[OF f]
    by (simp add: example_fact_input_def example_fact_claim_def)
qed

text \<open>Acceptance authority matches the subject: an accepted fact is new (version 1, current, not
  superseding itself), an activity fact has engagement scope on the authority of the activity
  owner, an initiative fact initiative scope on that of the initiative owner.\<close>
theorem accepted_fact_authority:
  assumes "constructAcceptedFact nfc input = Some f"
  shows "fa_version f = 1 \<and> fa_status f = js ''current'' \<and> fa_supersedesFactId f \<noteq> Some (fa_id f) \<and>
    (fa_subjectType f = js ''activity'' \<and> fa_predicate f = js ''activity.outcome'' \<and>
       fa_acceptanceScope f = js ''engagement'' \<and> fa_authorityBasis f = js ''activity_owner'' \<or>
     fa_subjectType f = js ''initiative'' \<and> fa_predicate f = js ''initiative.primary_objective'' \<and>
       fa_acceptanceScope f = js ''initiative'' \<and> fa_authorityBasis f = js ''initiative_owner'')"
proof (rule construct_parts[OF assms])
  fix first p
  assume p: "cm_predicate first = predicate_string p"
    "cm_subjectType first = subject_string (allowed_subject p)"
    "\<not> authority_mismatch (cm_subjectType first) (fa_acceptanceScope f) (fa_authorityBasis f)"
    "fa_status f = js ''current''" "fa_version f = 1" "fa_supersedesFactId f \<noteq> Some (fa_id f)"
    "fa_subjectType f = cm_subjectType first" "fa_predicate f = cm_predicate first"
  show ?thesis
  proof (cases p)
    case ActivityOutcome
    then show ?thesis using p by (simp add: authority_mismatch_def)
  next
    case PrimaryObjective
    then show ?thesis using p by (simp add: authority_mismatch_def)
  qed
qed

lemma accepted_fact_authority_witness:
  "\<exists>f. constructAcceptedFact (\<lambda>s. s) example_fact_input = Some f \<and> fa_status f = js ''current''"
  using construct_example accepted_fact_authority by blast

end
