(* ===== verification/Transactions.thy ===== *)
theory Transactions
  imports Trust_Primitives
begin

text \<open>
  Security contexts and the database transactions opened under them
  (\<open>packages/tenancy/src/security-context.ts\<close>, \<open>packages/db/src/transaction.ts\<close>).

  The content of the database is the state \<open>'s\<close>; the callback of a transaction is a function that
  returns the changed state and a result, where \<open>Inl\<close> is a thrown error. What the database server
  and the network do is the environment of the call: whether connecting works, how \<open>COMMIT\<close> and
  \<open>ROLLBACK\<close> end, and whether the settings of the session are cleared afterwards. Instants are
  numbers of milliseconds, which is what the code compares after \<open>Date.parse\<close>; the format of UUIDs
  is the one of the schema library, a parameter.

  The last section holds the interface of every state machine of the development: a step relation
  with an invariant, and with a preorder along which the states evolve.
\<close>

section \<open>Security contexts\<close>

record security_context =
  sx_requestId :: jstr
  sx_traceId :: jstr
  sx_tenantId :: jstr
  sx_workspaceId :: jstr
  sx_actorUserId :: "jstr option"
  sx_actorMembershipId :: "jstr option"
  sx_actorDisplayPersonId :: "jstr option"
  sx_servicePrincipalId :: "jstr option"
  sx_agentPrincipalId :: "jstr option"
  sx_delegatedByUserId :: "jstr option"
  sx_delegatedByMembershipId :: "jstr option"
  sx_requestedSpaceIds :: "jstr list"
  sx_membershipIds :: "jstr list"
  sx_roleHints :: "jstr list"
  sx_dataClassCeiling :: access_class
  sx_policyVersion :: jstr
  sx_issuedAt :: int
  sx_expiresAt :: int

definition optional_uuid :: "(jstr \<Rightarrow> bool) \<Rightarrow> jstr option \<Rightarrow> bool" where
  "optional_uuid uuid v = (case v of None \<Rightarrow> True | Some s \<Rightarrow> uuid s)"

definition context_fields_ok :: "(jstr \<Rightarrow> bool) \<Rightarrow> security_context \<Rightarrow> bool" where
  "context_fields_ok uuid c \<longleftrightarrow>
     sx_requestId c \<noteq> [] \<and> sx_traceId c \<noteq> [] \<and> uuid (sx_tenantId c) \<and> uuid (sx_workspaceId c) \<and>
     list_all (optional_uuid uuid) [sx_actorUserId c, sx_actorMembershipId c,
       sx_actorDisplayPersonId c, sx_servicePrincipalId c, sx_agentPrincipalId c,
       sx_delegatedByUserId c, sx_delegatedByMembershipId c] \<and>
     list_all uuid (sx_requestedSpaceIds c) \<and> list_all uuid (sx_membershipIds c) \<and>
     list_all (\<lambda>s. s \<noteq> []) (sx_roleHints c) \<and> sx_policyVersion c \<noteq> []"

definition principal_count :: "security_context \<Rightarrow> nat" where
  "principal_count c = length (filter (\<lambda>b. b)
     [sx_actorUserId c \<noteq> None \<or> sx_actorMembershipId c \<noteq> None,
      sx_servicePrincipalId c \<noteq> None, sx_agentPrincipalId c \<noteq> None])"

definition parseSecurityContext :: "(jstr \<Rightarrow> bool) \<Rightarrow> security_context \<Rightarrow> security_context option" where
  "parseSecurityContext uuid c =
     (let anyUser = sx_actorUserId c \<noteq> None \<or> sx_actorMembershipId c \<noteq> None;
          completeUser = sx_actorUserId c \<noteq> None \<and> sx_actorMembershipId c \<noteq> None
      in if \<not> context_fields_ok uuid c \<or> (anyUser \<and> \<not> completeUser) \<or> principal_count c \<noteq> 1 \<or>
            sx_expiresAt c \<le> sx_issuedAt c
         then None else Some c)"

definition isSecurityContextExpired :: "security_context \<Rightarrow> int \<Rightarrow> bool" where
  "isSecurityContextExpired c now \<longleftrightarrow> sx_expiresAt c \<le> now"

section \<open>Transactions\<close>

datatype commit_outcome =
    CommitDone
  | CommitRejected jsval
  | CommitUnacknowledged jsval

record tx_env =
  te_now :: int
  te_connect :: "jsval option"
  te_begin :: "jsval option"
  te_commit :: commit_outcome
  te_rollback :: "jsval option"
  te_settings_cleared :: bool

definition error_object :: "string \<Rightarrow> jsval" where
  "error_object name = obj [(''name'', JStr (js name))]"

definition rolled_back :: "(jsval \<Rightarrow> 'e) \<Rightarrow> tx_env \<Rightarrow> 'e \<Rightarrow> 'e" where
  "rolled_back thrown env e = (case te_rollback env of None \<Rightarrow> e | Some e' \<Rightarrow> thrown e')"

definition withTenantTransaction ::
  "(jstr \<Rightarrow> bool) \<Rightarrow> (jsval \<Rightarrow> 'e) \<Rightarrow> tx_env \<Rightarrow> security_context \<Rightarrow> ('s \<Rightarrow> 's \<times> ('e + 'a)) \<Rightarrow>
     's \<Rightarrow> 's \<times> ('e + 'a)" where
  "withTenantTransaction uuid thrown env context body s =
     (case parseSecurityContext uuid context of
        None \<Rightarrow> (s, Inl (thrown (error_object ''ZodError'')))
      | Some c \<Rightarrow>
          if isSecurityContextExpired c (te_now env) then (s, Inl (thrown (error_object ''Error'')))
          else (case te_connect env of
            Some e \<Rightarrow> (s, Inl (thrown e))
          | None \<Rightarrow> (case te_begin env of
              Some e \<Rightarrow> (s, Inl (rolled_back thrown env (thrown e)))
            | None \<Rightarrow> (case body s of
                (s', Inl e) \<Rightarrow> (s, Inl (rolled_back thrown env e))
              | (s', Inr a) \<Rightarrow> (case te_commit env of
                  CommitDone \<Rightarrow> (s', if te_settings_cleared env then Inr a
                                  else Inl (thrown (error_object ''Error'')))
                | CommitRejected e \<Rightarrow> (s, Inl (rolled_back thrown env (thrown e)))
                | CommitUnacknowledged e \<Rightarrow> (s', Inl (rolled_back thrown env (thrown e))))))))"

lemma withTenantTransaction_failed:
  assumes "withTenantTransaction uuid thrown env c body s = (t, Inl e)"
  shows "t = s \<or> (\<exists>e'. te_commit env = CommitUnacknowledged e') \<or>
    (te_commit env = CommitDone \<and> \<not> te_settings_cleared env)"
  using assms by (auto simp: withTenantTransaction_def split: option.splits prod.splits sum.splits if_splits commit_outcome.splits)

definition transaction_entered :: "(jstr \<Rightarrow> bool) \<Rightarrow> tx_env \<Rightarrow> security_context \<Rightarrow> bool" where
  "transaction_entered uuid env context \<longleftrightarrow>
     (case parseSecurityContext uuid context of
        None \<Rightarrow> False
      | Some c \<Rightarrow> \<not> isSecurityContextExpired c (te_now env)) \<and> te_connect env = None \<and> te_begin env = None"

lemma withTenantTransaction_atomic:
  assumes "withTenantTransaction uuid thrown env c body s = (s', r)"
  shows "s' = s \<or> (transaction_entered uuid env c \<and> (\<exists>a. body s = (s', Inr a)))"
  using assms
  by (auto simp: withTenantTransaction_def transaction_entered_def
      split: option.splits if_splits prod.splits sum.splits commit_outcome.splits)

lemma withTenantTransaction_Inr:
  assumes "withTenantTransaction uuid thrown env c body s = (s', Inr a)"
  shows "transaction_entered uuid env c \<and> body s = (s', Inr a)"
  using assms
  by (auto simp: withTenantTransaction_def transaction_entered_def
      split: option.splits if_splits prod.splits sum.splits commit_outcome.splits)

lemma withTenantTransaction_cleared:
  assumes "transaction_entered uuid env c" "te_commit env = CommitDone" "te_settings_cleared env"
    and "body s = (s', Inr a)"
  shows "withTenantTransaction uuid thrown env c body s = (s', Inr a)"
  using assms
  by (auto simp: withTenantTransaction_def transaction_entered_def split: option.splits)

lemma withTenantTransaction_not_entered:
  assumes "\<not> transaction_entered uuid env c"
  shows "\<exists>e. withTenantTransaction uuid thrown env c body s = (s, Inl e)"
  using assms
  by (auto simp: withTenantTransaction_def transaction_entered_def split: option.splits)

lemma withTenantTransaction_fails:
  assumes "body s = (t, Inl e)" "te_rollback env = None" "transaction_entered uuid env c"
  shows "withTenantTransaction uuid thrown env c body s = (s, Inl e)"
  using assms
  by (auto simp: withTenantTransaction_def transaction_entered_def rolled_back_def split: option.splits)

definition quiet :: "int \<Rightarrow> tx_env" where
  "quiet now = \<lparr>te_now = now, te_connect = None, te_begin = None, te_commit = CommitDone,
     te_rollback = None, te_settings_cleared = True\<rparr>"

lemma quiet_simps [simp]:
  "te_now (quiet n) = n" "te_connect (quiet n) = None" "te_begin (quiet n) = None"
  "te_commit (quiet n) = CommitDone" "te_rollback (quiet n) = None" "te_settings_cleared (quiet n)"
  by (simp_all add: quiet_def)

section \<open>State machines\<close>

text \<open>Whoever runs a state machine promises that its steps keep the invariant, and from that its
  client knows the invariant of every state that can be reached.\<close>

locale transition_system =
  fixes step :: "'s \<Rightarrow> 's \<Rightarrow> bool" and ok :: "'s \<Rightarrow> bool"
  assumes step_ok: "ok s \<Longrightarrow> step s t \<Longrightarrow> ok t"
begin

lemma reachable_ok: "step\<^sup>*\<^sup>* s t \<Longrightarrow> ok s \<Longrightarrow> ok t"
  by (induction rule: rtranclp_induct) (auto intro: step_ok)

end

text \<open>An evolving system also promises a preorder that every step from a good state respects.\<close>

locale evolving_system = transition_system +
  fixes below :: "'a \<Rightarrow> 'a \<Rightarrow> bool"
  assumes below_refl: "below s s"
    and below_trans: "below s t \<Longrightarrow> below t u \<Longrightarrow> below s u"
    and step_below: "ok s \<Longrightarrow> step s t \<Longrightarrow> below s t"
begin

lemma reachable_below: "step\<^sup>*\<^sup>* s t \<Longrightarrow> ok s \<Longrightarrow> below s t"
proof (induction rule: rtranclp_induct)
  case base
  show ?case by (rule below_refl)
next
  case (step t u)
  then have "ok t" using reachable_ok by blast
  then show ?case using step below_trans step_below by blast
qed

end

text \<open>A program that runs such a system: each of its runs leaves the state alone or takes one of the
  steps, and keeps an invariant of its own that implies the invariant of the system.\<close>

locale running_system = evolving_system +
  fixes runs :: "'a \<Rightarrow> 'a \<Rightarrow> bool" and run_ok :: "'a \<Rightarrow> bool"
  assumes run_ok_ok: "run_ok s \<Longrightarrow> ok s"
    and run_keeps: "run_ok s \<Longrightarrow> runs s t \<Longrightarrow> run_ok t"
    and run_steps: "run_ok s \<Longrightarrow> runs s t \<Longrightarrow> t = s \<or> step s t"
begin

lemma run_below: "run_ok s \<Longrightarrow> runs s t \<Longrightarrow> below s t"
  using run_steps step_below run_ok_ok below_refl by metis

lemma runs_ok: "runs\<^sup>*\<^sup>* s t \<Longrightarrow> run_ok s \<Longrightarrow> run_ok t"
  by (induction rule: rtranclp_induct) (auto intro: run_keeps)

lemma runs_simulated: "runs\<^sup>*\<^sup>* s t \<Longrightarrow> run_ok s \<Longrightarrow> step\<^sup>*\<^sup>* s t"
proof (induction rule: rtranclp_induct)
  case (step t u)
  then have "t = u \<or> step t u" using runs_ok run_steps by blast
  then show ?case using step by (metis rtranclp.rtrancl_into_rtrancl)
qed simp

lemma runs_below: "runs\<^sup>*\<^sup>* s t \<Longrightarrow> run_ok s \<Longrightarrow> below s t"
  using runs_simulated reachable_below run_ok_ok by blast

end

end
