(* ===== verification/Outbox_Rows.thy ===== *)
theory Outbox_Rows
  imports Event_Envelope Transactions "HOL-Library.Product_Lexorder"
begin

text \<open>
  The table of the product outbox and the rules the database enforces on it: the columns that
  \<open>packages/db/src/product-outbox-repository.ts\<close> reads and writes, the \<open>CHECK\<close> constraints and the
  transition trigger of \<open>migrations/0003_b1_0_canonical_product_outbox.sql\<close>. The rules are the
  abstract specification that the updates of the repository are shown to refine.

  Instants of the database are numbers of microseconds. A column that may be \<open>NULL\<close> is an option.
  The columns that no update may change are a record of their own, as in the trigger.
\<close>

section \<open>Rows\<close>

datatype publication_state = Pending | Claimed | RetryWait | Published | TerminalFailed | TerminalUnconfirmed

record event_identity =
  ei_id :: jstr
  ei_tenant_id :: jstr
  ei_workspace_id :: jstr
  ei_space_id :: jstr
  ei_relay_service_principal_id :: jstr
  ei_policy_version_id :: jstr
  ei_event_type :: jstr
  ei_event_schema_version :: int
  ei_payload_schema_version :: int
  ei_aggregate_type :: jstr
  ei_aggregate_id :: jstr
  ei_aggregate_version :: int
  ei_causation_command_id :: jstr
  ei_payload :: jsval
  ei_request_id :: jstr
  ei_traceparent :: jstr
  ei_tracestate :: "jstr option"
  ei_created_at :: int

record outbox_row =
  ob_event :: event_identity
  ob_state :: publication_state
  ob_attempt :: int
  ob_next_attempt_at :: int
  ob_claimed_at :: "int option"
  ob_claimed_by :: "jstr option"
  ob_claim_token :: "jstr option"
  ob_claim_expires_at :: "int option"
  ob_last_outcome_code :: "jstr option"
  ob_published_at :: "int option"
  ob_published_message_id :: "jstr option"
  ob_terminal_at :: "int option"

abbreviation row_id :: "outbox_row \<Rightarrow> jstr" where
  "row_id r \<equiv> ei_id (ob_event r)"

section \<open>Patterns of the columns\<close>

definition safe_owner :: "jstr \<Rightarrow> bool" where
  "safe_owner s \<longleftrightarrow> (case s of [] \<Rightarrow> False
     | u # r \<Rightarrow> is_alnum u \<and> length r \<le> 127 \<and> list_all (\<lambda>v. is_alnum v \<or> v \<in> {46, 95, 58, 45}) r)"

definition is_code_unit :: "nat \<Rightarrow> bool" where
  "is_code_unit u \<longleftrightarrow> is_digit u \<or> (97 \<le> u \<and> u \<le> 122)"

definition safe_code :: "jstr \<Rightarrow> bool" where
  "safe_code s \<longleftrightarrow> (case s of [] \<Rightarrow> False
     | u # r \<Rightarrow> is_code_unit u \<and> length r \<le> 99 \<and> list_all (\<lambda>v. is_code_unit v \<or> v = 95) r)"

definition is_token_unit :: "nat \<Rightarrow> bool" where
  "is_token_unit u \<longleftrightarrow> is_alnum u \<or> u \<in> {95, 45}"

definition claim_token_pattern :: "jstr \<Rightarrow> bool" where
  "claim_token_pattern s \<longleftrightarrow> length s = 43 \<and> list_all is_token_unit s"

section \<open>The constraints of the table\<close>

definition attempt_check :: "outbox_row \<Rightarrow> bool" where
  "attempt_check r \<longleftrightarrow> 0 \<le> ob_attempt r \<and> ob_attempt r \<le> 6"

definition unclaimed :: "outbox_row \<Rightarrow> bool" where
  "unclaimed r \<longleftrightarrow> ob_claimed_at r = None \<and> ob_claimed_by r = None \<and> ob_claim_token r = None \<and>
     ob_claim_expires_at r = None"

definition claim_check :: "outbox_row \<Rightarrow> bool" where
  "claim_check r \<longleftrightarrow>
     (if ob_state r = Claimed then
        1 \<le> ob_attempt r \<and> ob_attempt r \<le> 6 \<and>
        (case (ob_claimed_at r, ob_claimed_by r, ob_claim_token r, ob_claim_expires_at r) of
           (Some a, Some b, Some t, Some x) \<Rightarrow>
             1 \<le> length b \<and> length b \<le> 128 \<and> \<not> list_ex is_control b \<and> claim_token_pattern t \<and> a < x
         | _ \<Rightarrow> False)
      else unclaimed r)"

definition publication_check :: "outbox_row \<Rightarrow> bool" where
  "publication_check r \<longleftrightarrow>
     (if ob_state r = Published then
        ob_published_at r \<noteq> None \<and>
        (case ob_published_message_id r of None \<Rightarrow> False
         | Some m \<Rightarrow> 1 \<le> length m \<and> length m \<le> 200 \<and> \<not> list_ex is_control m)
      else ob_published_at r = None \<and> ob_published_message_id r = None)"

definition is_terminal :: "publication_state \<Rightarrow> bool" where
  "is_terminal s \<longleftrightarrow> s = TerminalFailed \<or> s = TerminalUnconfirmed"

definition terminal_check :: "outbox_row \<Rightarrow> bool" where
  "terminal_check r \<longleftrightarrow>
     (if is_terminal (ob_state r) then ob_terminal_at r \<noteq> None \<and> ob_last_outcome_code r \<noteq> None
      else ob_terminal_at r = None)"

definition pending_retry_check :: "outbox_row \<Rightarrow> bool" where
  "pending_retry_check r \<longleftrightarrow>
     (ob_state r = Pending \<longrightarrow> ob_attempt r = 0 \<and> ob_last_outcome_code r = None) \<and>
     (ob_state r = RetryWait \<longrightarrow> 1 \<le> ob_attempt r \<and> ob_attempt r \<le> 5 \<and> ob_last_outcome_code r \<noteq> None)"

definition outcome_code_check :: "outbox_row \<Rightarrow> bool" where
  "outcome_code_check r \<longleftrightarrow> (case ob_last_outcome_code r of None \<Rightarrow> True | Some c \<Rightarrow> safe_code c)"

definition row_ok :: "outbox_row \<Rightarrow> bool" where
  "row_ok r \<longleftrightarrow> attempt_check r \<and> claim_check r \<and> publication_check r \<and> terminal_check r \<and>
     pending_retry_check r \<and> outcome_code_check r"

lemmas row_checks = row_ok_def attempt_check_def claim_check_def unclaimed_def publication_check_def
  terminal_check_def is_terminal_def pending_retry_check_def outcome_code_check_def

text \<open>The checks on the columns that no update changes, with the range of the column type \<open>integer\<close>
  and the pairs of an event and its aggregate that the migrations allow by now.\<close>

definition text_check :: "nat \<Rightarrow> jstr \<Rightarrow> bool" where
  "text_check n s \<longleftrightarrow> 1 \<le> length (array_from s) \<and> length (array_from s) \<le> n \<and> \<not> list_ex is_control s"

definition MAX_INTEGER :: int where
  "MAX_INTEGER = 2147483647"

definition event_pair_check :: "event_identity \<Rightarrow> bool" where
  "event_pair_check e \<longleftrightarrow> list_ex (\<lambda>t. ei_event_type e = event_string t \<and>
     ei_aggregate_type e = aggregate_string (event_aggregate t)) DOMAIN_NOTIFICATION_EVENT_TYPES"

definition identity_check :: "event_identity \<Rightarrow> bool" where
  "identity_check e \<longleftrightarrow> uuid_v7 (ei_id e) \<and> uuid_v7 (ei_aggregate_id e) \<and> event_pair_check e \<and>
     ei_event_schema_version e = 1 \<and> ei_payload_schema_version e = 1 \<and>
     0 < ei_aggregate_version e \<and> ei_aggregate_version e \<le> MAX_INTEGER \<and>
     text_check 200 (ei_request_id e) \<and> traceparent_ok (ei_traceparent e) \<and>
     (case ei_tracestate e of None \<Rightarrow> True | Some s \<Rightarrow> text_check 512 s)"

text \<open>The columns of the unique constraint that recognises a repeated event.\<close>

definition semantic_key :: "event_identity \<Rightarrow> jstr list \<times> int" where
  "semantic_key e = ([ei_tenant_id e, ei_workspace_id e, ei_space_id e, ei_causation_command_id e,
     ei_event_type e, ei_aggregate_type e, ei_aggregate_id e], ei_aggregate_version e)"

definition rows_ok :: "outbox_row list \<Rightarrow> bool" where
  "rows_ok rows \<longleftrightarrow>
     (let es = map ob_event rows
      in distinct (map ei_id es) \<and> distinct (map semantic_key es) \<and> list_all identity_check es \<and>
         list_all row_ok rows)"

section \<open>The transition trigger\<close>

definition inserted_ok :: "outbox_row \<Rightarrow> bool" where
  "inserted_ok new \<longleftrightarrow> ob_state new = Pending \<and> ob_attempt new = 0 \<and> unclaimed new \<and>
     ob_last_outcome_code new = None \<and> ob_published_at new = None \<and>
     ob_published_message_id new = None \<and> ob_terminal_at new = None \<and>
     ob_next_attempt_at new = ei_created_at (ob_event new)"

definition claim_transition :: "int \<Rightarrow> outbox_row \<Rightarrow> outbox_row \<Rightarrow> bool" where
  "claim_transition now old new \<longleftrightarrow>
     ob_state old \<in> {Pending, RetryWait, Claimed} \<and> ob_attempt new = ob_attempt old + 1 \<and>
     \<not> (ob_state old = Claimed \<and> (case ob_claim_expires_at old of Some x \<Rightarrow> now < x | None \<Rightarrow> False)) \<and>
     (case (ob_claimed_at new, ob_claim_expires_at new) of (Some a, Some x) \<Rightarrow> a < x | _ \<Rightarrow> False) \<and>
     ob_claimed_by new \<noteq> None \<and> ob_claim_token new \<noteq> None \<and> ob_last_outcome_code new = None \<and>
     ob_published_at new = None \<and> ob_published_message_id new = None \<and> ob_terminal_at new = None"

definition retry_transition :: "int \<Rightarrow> outbox_row \<Rightarrow> outbox_row \<Rightarrow> bool" where
  "retry_transition now old new \<longleftrightarrow> ob_state old = Claimed \<and> ob_attempt new = ob_attempt old \<and>
     now < ob_next_attempt_at new \<and> ob_last_outcome_code new \<noteq> None"

definition publish_transition :: "int \<Rightarrow> outbox_row \<Rightarrow> outbox_row \<Rightarrow> bool" where
  "publish_transition now old new \<longleftrightarrow> ob_state old = Claimed \<and> ob_attempt new = ob_attempt old \<and>
     (case ob_claim_expires_at old of Some x \<Rightarrow> now < x | None \<Rightarrow> True) \<and>
     ob_published_at new \<noteq> None \<and> ob_published_message_id new \<noteq> None \<and> ob_terminal_at new = None"

definition terminal_transition :: "outbox_row \<Rightarrow> outbox_row \<Rightarrow> bool" where
  "terminal_transition old new \<longleftrightarrow> ob_state old = Claimed \<and> ob_attempt new = ob_attempt old \<and>
     ob_attempt new = 6 \<and> ob_terminal_at new \<noteq> None \<and> ob_last_outcome_code new \<noteq> None \<and>
     ob_published_at new = None \<and> ob_published_message_id new = None"

definition transition_ok :: "int \<Rightarrow> outbox_row \<Rightarrow> outbox_row \<Rightarrow> bool" where
  "transition_ok now old new \<longleftrightarrow> ob_event new = ob_event old \<and>
     (case ob_state new of
        Claimed \<Rightarrow> claim_transition now old new
      | RetryWait \<Rightarrow> retry_transition now old new
      | Published \<Rightarrow> publish_transition now old new
      | TerminalFailed \<Rightarrow> terminal_transition old new
      | TerminalUnconfirmed \<Rightarrow> terminal_transition old new
      | Pending \<Rightarrow> False)"

lemmas transition_rules = transition_ok_def claim_transition_def retry_transition_def
  publish_transition_def terminal_transition_def

text \<open>An update of the table passes the trigger when every row it changes does.\<close>

definition updates_ok :: "int \<Rightarrow> outbox_row list \<Rightarrow> outbox_row list \<Rightarrow> bool" where
  "updates_ok now olds news \<longleftrightarrow> list_all2 (\<lambda>o' n. n = o' \<or> (transition_ok now o' n \<and> row_ok n)) olds news"

definition update_where :: "('r \<Rightarrow> bool) \<Rightarrow> ('r \<Rightarrow> 'r) \<Rightarrow> 'r list \<Rightarrow> 'r list" where
  "update_where P f rows = map (\<lambda>r. if P r then f r else r) rows"

lemma updates_ok_refl [simp]: "updates_ok now rows rows"
  by (simp add: updates_ok_def list.rel_refl)

lemma updates_ok_where:
  assumes "\<And>r. r \<in> set rows \<Longrightarrow> P r \<Longrightarrow> transition_ok now r (f r) \<and> row_ok (f r)"
  shows "updates_ok now rows (update_where P f rows)"
  using assms by (auto simp: updates_ok_def update_where_def list_all2_conv_all_nth)

lemma updates_ok_events: "updates_ok now olds news \<Longrightarrow> map ob_event news = map ob_event olds"
  unfolding updates_ok_def
  by (induction rule: list_all2_induct) (auto simp: transition_ok_def)

lemma updates_ok_row_ok: "updates_ok now olds news \<Longrightarrow> list_all row_ok olds \<Longrightarrow> list_all row_ok news"
  unfolding updates_ok_def
  by (induction rule: list_all2_induct) auto

lemma updates_ok_rows_ok: "updates_ok now olds news \<Longrightarrow> rows_ok olds \<Longrightarrow> rows_ok news"
  using updates_ok_events[of now olds news] updates_ok_row_ok[of now olds news]
  unfolding rows_ok_def Let_def by presburger

section \<open>How a row evolves\<close>

text \<open>What any sequence of permitted transitions leaves true of a row.\<close>

definition settled :: "outbox_row \<Rightarrow> bool" where
  "settled r \<longleftrightarrow> ob_state r = Published \<or> is_terminal (ob_state r)"

definition row_evolves :: "outbox_row \<Rightarrow> outbox_row \<Rightarrow> bool" where
  "row_evolves r s \<longleftrightarrow> ob_event s = ob_event r \<and> ob_attempt r \<le> ob_attempt s \<and> (settled r \<longrightarrow> s = r)"

definition rows_evolve :: "outbox_row list \<Rightarrow> outbox_row list \<Rightarrow> bool" where
  "rows_evolve olds news \<longleftrightarrow> (\<forall>r\<in>set olds. \<exists>s\<in>set news. row_evolves r s)"

lemma row_evolves_refl [simp]: "row_evolves r r"
  by (simp add: row_evolves_def)

lemma row_evolves_trans: "row_evolves r s \<Longrightarrow> row_evolves s t \<Longrightarrow> row_evolves r t"
  by (auto simp: row_evolves_def)

lemma transition_evolves: "transition_ok now r s \<Longrightarrow> row_evolves r s"
  by (auto simp: transition_rules row_evolves_def settled_def is_terminal_def
      split: publication_state.splits)

lemma rows_evolve_refl [simp]: "rows_evolve rows rows"
  unfolding rows_evolve_def using row_evolves_refl by blast

lemma rows_evolve_trans: "rows_evolve a b \<Longrightarrow> rows_evolve b c \<Longrightarrow> rows_evolve a c"
  unfolding rows_evolve_def using row_evolves_trans by meson

lemma updates_evolve: "updates_ok now olds news \<Longrightarrow> rows_evolve olds news"
  unfolding updates_ok_def
  by (induction rule: list_all2_induct)
     (auto simp: rows_evolve_def intro: transition_evolves row_evolves_refl)

end
