(* ===== verification/Product_Outbox.thy ===== *)
theory Product_Outbox
  imports Outbox_Rows
begin

text \<open>
  The product outbox repository (\<open>packages/db/src/product-outbox-repository.ts\<close>): claiming the next
  due event under a lease, publishing a claimed event, and recording a failure.

  The table is a list of rows. A claim handle is a frozen object that only this module creates and
  remembers in a \<open>WeakSet\<close>; the repository keeps the list of the handles it issued, and a caller
  presents either a reference to one of them or a foreign object. Instants in handles are
  milliseconds (the code stores ISO strings of \<open>Date\<close> values), those of rows microseconds. What the
  clocks, the network, the authorization service and the publisher do is the environment of a call.
  A uuid compared by the database is compared without regard to case.
\<close>

section \<open>Errors, scopes and handles\<close>

datatype relay_error =
    ClaimRejected
  | NotAuthorized
  | EnvelopeInvalid
  | MissingMessageId
  | Thrown jsval

record claim_scope =
  cs_tenantId :: jstr
  cs_workspaceId :: jstr
  cs_spaceId :: jstr
  cs_relayServicePrincipalId :: jstr
  cs_policyVersionId :: jstr

record claim_options =
  co_claimedBy :: jstr
  co_leaseSeconds :: jsnum

record claim_handle =
  ch_eventId :: jstr
  ch_tenantId :: jstr
  ch_workspaceId :: jstr
  ch_spaceId :: jstr
  ch_relayServicePrincipalId :: jstr
  ch_policyVersionId :: jstr
  ch_eventType :: event_type
  ch_aggregateType :: aggregate_type
  ch_aggregateId :: jstr
  ch_aggregateVersion :: int
  ch_causationCommandId :: jstr
  ch_envelope :: envelope
  ch_canonicalEnvelope :: jstr
  ch_publicationAttempt :: int
  ch_claimedBy :: jstr
  ch_claimToken :: jstr
  ch_claimedAt :: int
  ch_claimExpiresAt :: int

datatype handle_ref = Issued nat | Foreign

definition validateScope :: "claim_scope \<Rightarrow> relay_error + claim_scope" where
  "validateScope scope =
     (if \<not> list_all uuid_any_case [cs_tenantId scope, cs_workspaceId scope, cs_spaceId scope,
           cs_relayServicePrincipalId scope]
      then Inl ClaimRejected
      else if cs_policyVersionId scope = [] \<or> length (cs_policyVersionId scope) > 200
      then Inl ClaimRejected
      else Inr scope)"

fun lease_seconds :: "jsnum \<Rightarrow> int option" where
  "lease_seconds (IntNum n) = (if n < 5 \<or> n > 300 then None else Some n)"
| "lease_seconds _ = None"

definition validateClaimOptions :: "claim_options \<Rightarrow> relay_error + int" where
  "validateClaimOptions options =
     (if \<not> safe_owner (co_claimedBy options) then Inl ClaimRejected
      else ok_or ClaimRejected (lease_seconds (co_leaseSeconds options)))"

definition RETRY_DELAYS_SECONDS :: "int list" where
  "RETRY_DELAYS_SECONDS = [1, 5, 30, 120, 600]"

definition retryDelaySeconds :: "int \<Rightarrow> relay_error + int" where
  "retryDelaySeconds publicationAttempt =
     (if 1 \<le> publicationAttempt \<and> nat (publicationAttempt - 1) < length RETRY_DELAYS_SECONDS
      then Inr (RETRY_DELAYS_SECONDS ! nat (publicationAttempt - 1)) else Inl ClaimRejected)"

definition validateMessageId :: "jsval \<Rightarrow> jstr option" where
  "validateMessageId v =
     require_string_with (\<lambda>s. \<not> (length s < 1 \<or> length s > 200 \<or> hasControlCharacters s)) v"

text \<open>The claim token: 32 random bytes in the URL alphabet of base 64, without padding.\<close>

definition base64url_unit :: "nat \<Rightarrow> nat" where
  "base64url_unit n = (if n < 26 then 65 + n else if n < 52 then 97 + (n - 26)
     else if n < 62 then 48 + (n - 52) else if n = 62 then 45 else 95)"

fun base64url :: "nat list \<Rightarrow> jstr" where
  "base64url (a # b # c # r) =
     [base64url_unit (a div 4), base64url_unit (a mod 4 * 16 + b div 16),
      base64url_unit (b mod 16 * 4 + c div 64), base64url_unit (c mod 64)] @ base64url r"
| "base64url [a, b] =
     [base64url_unit (a div 4), base64url_unit (a mod 4 * 16 + b div 16),
      base64url_unit (b mod 16 * 4)]"
| "base64url [a] = [base64url_unit (a div 4), base64url_unit (a mod 4 * 16)]"
| "base64url [] = []"

section \<open>Envelopes of rows\<close>

definition envelope_object :: "event_identity \<Rightarrow> jsval" where
  "envelope_object e = JObj (object_of (
     [(''eventId'', JStr (ei_id e)), (''eventType'', JStr (ei_event_type e)),
      (''eventSchemaVersion'', JNum (IntNum (ei_event_schema_version e))),
      (''payloadSchemaVersion'', JNum (IntNum (ei_payload_schema_version e))),
      (''tenantId'', JStr (ei_tenant_id e)), (''workspaceId'', JStr (ei_workspace_id e)),
      (''spaceId'', JStr (ei_space_id e)), (''aggregateType'', JStr (ei_aggregate_type e)),
      (''aggregateId'', JStr (ei_aggregate_id e)),
      (''aggregateVersion'', JNum (IntNum (ei_aggregate_version e))),
      (''causationCommandId'', JStr (ei_causation_command_id e)), (''payload'', ei_payload e),
      (''requestId'', JStr (ei_request_id e)), (''traceparent'', JStr (ei_traceparent e))] @
     opt_entry ''tracestate'' JStr (ei_tracestate e)))"

definition envelopeFromRow :: "outbox_row \<Rightarrow> envelope option" where
  "envelopeFromRow r = parseDomainNotificationEnvelope (envelope_object (ob_event r))"

definition createClaimHandle :: "outbox_row \<Rightarrow> relay_error + claim_handle" where
  "createClaimHandle r =
     (case (envelopeFromRow r, ob_claimed_by r, ob_claim_token r, ob_claimed_at r, ob_claim_expires_at r) of
        (Some envelope, Some b, Some t, Some a, Some x) \<Rightarrow>
          (case serializeDomainNotificationEnvelope (envelope_value envelope) of
             None \<Rightarrow> Inl EnvelopeInvalid
           | Some canonical \<Rightarrow> Inr
               \<lparr>ch_eventId = row_id r, ch_tenantId = ei_tenant_id (ob_event r),
                ch_workspaceId = ei_workspace_id (ob_event r), ch_spaceId = ei_space_id (ob_event r),
                ch_relayServicePrincipalId = ei_relay_service_principal_id (ob_event r),
                ch_policyVersionId = ei_policy_version_id (ob_event r),
                ch_eventType = en_eventType envelope,
                ch_aggregateType = event_aggregate (en_eventType envelope),
                ch_aggregateId = en_aggregateId envelope,
                ch_aggregateVersion = en_aggregateVersion envelope,
                ch_causationCommandId = en_causationCommandId envelope,
                ch_envelope = envelope, ch_canonicalEnvelope = canonical,
                ch_publicationAttempt = ob_attempt r, ch_claimedBy = b, ch_claimToken = t,
                ch_claimedAt = a div 1000, ch_claimExpiresAt = x div 1000\<rparr>)
      | _ \<Rightarrow> Inl EnvelopeInvalid)"

section \<open>Claiming\<close>

definition scope_matches :: "claim_scope \<Rightarrow> outbox_row \<Rightarrow> bool" where
  "scope_matches scope r \<longleftrightarrow>
     ei_tenant_id (ob_event r) = lower_ascii (cs_tenantId scope) \<and>
     ei_workspace_id (ob_event r) = lower_ascii (cs_workspaceId scope) \<and>
     ei_space_id (ob_event r) = lower_ascii (cs_spaceId scope) \<and>
     ei_relay_service_principal_id (ob_event r) = lower_ascii (cs_relayServicePrincipalId scope) \<and>
     ei_policy_version_id (ob_event r) = cs_policyVersionId scope"

definition release_claim :: "outbox_row \<Rightarrow> outbox_row" where
  "release_claim r = r\<lparr>ob_claimed_at := None, ob_claimed_by := None, ob_claim_token := None,
     ob_claim_expires_at := None\<rparr>"

definition expired :: "int \<Rightarrow> outbox_row \<Rightarrow> bool" where
  "expired clock r \<longleftrightarrow> (case ob_claim_expires_at r of Some x \<Rightarrow> x \<le> clock | None \<Rightarrow> False)"

definition interrupted :: "claim_scope \<Rightarrow> int \<Rightarrow> outbox_row \<Rightarrow> bool" where
  "interrupted scope clock r \<longleftrightarrow> scope_matches scope r \<and> ob_state r = Claimed \<and> ob_attempt r = 6 \<and>
     expired clock r"

definition settle_interrupted :: "int \<Rightarrow> outbox_row \<Rightarrow> outbox_row" where
  "settle_interrupted clock r = (release_claim r)\<lparr>ob_state := TerminalUnconfirmed,
     ob_last_outcome_code := Some (js ''relay_interrupted''), ob_terminal_at := Some clock\<rparr>"

definition truncate_ms :: "int \<Rightarrow> int" where
  "truncate_ms t = t div 1000 * 1000"

definition eligible :: "claim_scope \<Rightarrow> (jstr \<Rightarrow> bool) \<Rightarrow> int \<Rightarrow> outbox_row \<Rightarrow> bool" where
  "eligible scope locked claimedAt r \<longleftrightarrow> scope_matches scope r \<and> ob_attempt r < 6 \<and>
     (ob_state r \<in> {Pending, RetryWait} \<and> ob_next_attempt_at r \<le> claimedAt \<or>
      ob_state r = Claimed \<and> expired claimedAt r) \<and> \<not> locked (row_id r)"

definition claim_order :: "outbox_row \<Rightarrow> int \<times> int \<times> jstr" where
  "claim_order r = (ob_next_attempt_at r, ei_created_at (ob_event r), row_id r)"

definition next_eligible ::
  "claim_scope \<Rightarrow> (jstr \<Rightarrow> bool) \<Rightarrow> int \<Rightarrow> outbox_row list \<Rightarrow> outbox_row option" where
  "next_eligible scope locked claimedAt rows =
     (case sort_key claim_order (filter (eligible scope locked claimedAt) rows) of
        [] \<Rightarrow> None | r # _ \<Rightarrow> Some r)"

definition claim_row :: "jstr \<Rightarrow> jstr \<Rightarrow> int \<Rightarrow> int \<Rightarrow> outbox_row \<Rightarrow> outbox_row" where
  "claim_row claimedBy token lease claimedAt r = r\<lparr>ob_state := Claimed, ob_attempt := ob_attempt r + 1,
     ob_claimed_at := Some claimedAt, ob_claimed_by := Some claimedBy, ob_claim_token := Some token,
     ob_claim_expires_at := Some (claimedAt + lease * 1000000), ob_last_outcome_code := None\<rparr>"

text \<open>The environment of one call of \<open>claimNext\<close>. \<open>ce_fault\<close> is an error that one of the queries of the
  transaction raises.\<close>

record claim_env =
  ce_random :: "nat list"
  ce_now :: int
  ce_tx :: tx_env
  ce_role :: jstr
  ce_fault :: "jsval option"
  ce_settle_clock :: int
  ce_claim_clock :: int
  ce_locked :: "jstr \<Rightarrow> bool"

definition PRODUCT_RELAY_ROLE :: jstr where
  "PRODUCT_RELAY_ROLE = js ''throughline_product_relay''"

definition assertProductRelayRole :: "jstr \<Rightarrow> relay_error + unit" where
  "assertProductRelayRole role =
     (if role \<noteq> PRODUCT_RELAY_ROLE then Inl (Thrown (error_object ''Error'')) else Inr ())"

definition contextForScope :: "claim_scope \<Rightarrow> int \<Rightarrow> int \<Rightarrow> security_context" where
  "contextForScope scope now lifetimeSeconds =
     \<lparr>sx_requestId = js ''product-relay-claim'', sx_traceId = js ''product-relay-claim'',
      sx_tenantId = cs_tenantId scope, sx_workspaceId = cs_workspaceId scope,
      sx_actorUserId = None, sx_actorMembershipId = None, sx_actorDisplayPersonId = None,
      sx_servicePrincipalId = Some (cs_relayServicePrincipalId scope), sx_agentPrincipalId = None,
      sx_delegatedByUserId = None, sx_delegatedByMembershipId = None,
      sx_requestedSpaceIds = [cs_spaceId scope], sx_membershipIds = [], sx_roleHints = [],
      sx_dataClassCeiling = Confidential, sx_policyVersion = cs_policyVersionId scope,
      sx_issuedAt = now, sx_expiresAt = now + lifetimeSeconds * 1000\<rparr>"

definition claim_body ::
  "claim_env \<Rightarrow> claim_scope \<Rightarrow> jstr \<Rightarrow> int \<Rightarrow> outbox_row list \<Rightarrow>
     outbox_row list \<times> (relay_error + claim_handle option)" where
  "claim_body env scope claimedBy lease rows =
     (case assertProductRelayRole (ce_role env) of
        Inl e \<Rightarrow> (rows, Inl e)
      | Inr _ \<Rightarrow>
          (case ce_fault env of
             Some e \<Rightarrow> (rows, Inl (Thrown e))
           | None \<Rightarrow>
               (let settled = update_where (interrupted scope (ce_settle_clock env))
                      (settle_interrupted (ce_settle_clock env)) rows;
                    claimedAt = truncate_ms (ce_claim_clock env)
                in case next_eligible scope (ce_locked env) claimedAt settled of
                     None \<Rightarrow> (settled, Inr None)
                   | Some r \<Rightarrow>
                       (let token = base64url (ce_random env);
                            claim = claim_row claimedBy token lease claimedAt
                        in (update_where (\<lambda>q. row_id q = row_id r \<and> scope_matches scope q) claim settled,
                            case createClaimHandle (claim r) of
                              Inl e \<Rightarrow> Inl e | Inr h \<Rightarrow> Inr (Some h))))))"

definition claimNext ::
  "(jstr \<Rightarrow> bool) \<Rightarrow> claim_env \<Rightarrow> claim_scope \<Rightarrow> claim_options \<Rightarrow> outbox_row list \<times> claim_handle list \<Rightarrow>
     (outbox_row list \<times> claim_handle list) \<times> (relay_error + handle_ref option)" where
  "claimNext uuid env inputScope options s =
     (case validateScope inputScope of
        Inl e \<Rightarrow> (s, Inl e)
      | Inr scope \<Rightarrow>
          (case validateClaimOptions options of
             Inl e \<Rightarrow> (s, Inl e)
           | Inr lease \<Rightarrow>
               (case withTenantTransaction uuid Thrown (ce_tx env)
                       (contextForScope scope (ce_now env) (lease + 30))
                       (claim_body env scope (co_claimedBy options) lease) (fst s) of
                  (rows, Inl e) \<Rightarrow> ((rows, snd s), Inl e)
                | (rows, Inr None) \<Rightarrow> ((rows, snd s), Inr None)
                | (rows, Inr (Some h)) \<Rightarrow> ((rows, snd s @ [h]), Inr (Some (Issued (length (snd s))))))))"

section \<open>Handles presented by callers\<close>

definition handle_malformed :: "claim_handle \<Rightarrow> bool" where
  "handle_malformed h \<longleftrightarrow>
     \<not> claim_token_pattern (ch_claimToken h) \<or> \<not> safe_owner (ch_claimedBy h) \<or>
     ch_publicationAttempt h < 1 \<or> ch_publicationAttempt h > 6"

definition handle_disagrees :: "claim_handle \<Rightarrow> bool" where
  "handle_disagrees h \<longleftrightarrow>
     ch_eventId h \<noteq> en_eventId (ch_envelope h) \<or> ch_tenantId h \<noteq> en_tenantId (ch_envelope h) \<or>
     ch_workspaceId h \<noteq> en_workspaceId (ch_envelope h) \<or> ch_spaceId h \<noteq> en_spaceId (ch_envelope h) \<or>
     ch_eventType h \<noteq> en_eventType (ch_envelope h) \<or>
     ch_aggregateType h \<noteq> event_aggregate (en_eventType (ch_envelope h)) \<or>
     ch_aggregateId h \<noteq> en_aggregateId (ch_envelope h) \<or>
     ch_aggregateVersion h \<noteq> en_aggregateVersion (ch_envelope h) \<or>
     ch_causationCommandId h \<noteq> en_causationCommandId (ch_envelope h) \<or>
     ch_claimExpiresAt h \<le> ch_claimedAt h"

definition validateHandle ::
  "int \<Rightarrow> bool \<Rightarrow> claim_handle list \<Rightarrow> handle_ref \<Rightarrow> relay_error + claim_handle" where
  "validateHandle now requireLiveLease issued input =
     (case input of
        Foreign \<Rightarrow> Inl ClaimRejected
      | Issued i \<Rightarrow>
          if length issued \<le> i then Inl ClaimRejected
          else let h = issued ! i in
            if handle_malformed h then Inl ClaimRejected
            else (case serializeDomainNotificationEnvelope (envelope_value (ch_envelope h)) of
                    None \<Rightarrow> Inl EnvelopeInvalid
                  | Some canonical \<Rightarrow>
                      if canonical \<noteq> ch_canonicalEnvelope h \<or> handle_disagrees h \<or>
                        (requireLiveLease \<and> ch_claimExpiresAt h \<le> now)
                      then Inl ClaimRejected else Inr h))"

definition contextForHandle :: "claim_handle \<Rightarrow> bool \<Rightarrow> int \<Rightarrow> int \<Rightarrow> relay_error + security_context" where
  "contextForHandle h requireLiveLease checkedAt now =
     (if requireLiveLease \<and> ch_claimExpiresAt h \<le> checkedAt then Inl ClaimRejected
      else Inr
       \<lparr>sx_requestId = en_requestId (ch_envelope h), sx_traceId = en_traceparent (ch_envelope h),
        sx_tenantId = ch_tenantId h, sx_workspaceId = ch_workspaceId h,
        sx_actorUserId = None, sx_actorMembershipId = None, sx_actorDisplayPersonId = None,
        sx_servicePrincipalId = Some (ch_relayServicePrincipalId h), sx_agentPrincipalId = None,
        sx_delegatedByUserId = None, sx_delegatedByMembershipId = None,
        sx_requestedSpaceIds = [ch_spaceId h], sx_membershipIds = [], sx_roleHints = [],
        sx_dataClassCeiling = Confidential, sx_policyVersion = ch_policyVersionId h,
        sx_issuedAt = now,
        sx_expiresAt = (if requireLiveLease then ch_claimExpiresAt h else now + 30000)\<rparr>)"

definition handle_scope :: "claim_handle \<Rightarrow> outbox_row \<Rightarrow> bool" where
  "handle_scope h r \<longleftrightarrow> row_id r = ch_eventId h \<and> ei_tenant_id (ob_event r) = ch_tenantId h \<and>
     ei_workspace_id (ob_event r) = ch_workspaceId h \<and> ei_space_id (ob_event r) = ch_spaceId h \<and>
     ei_relay_service_principal_id (ob_event r) = ch_relayServicePrincipalId h \<and>
     ei_policy_version_id (ob_event r) = ch_policyVersionId h"

definition holds_claim :: "claim_handle \<Rightarrow> outbox_row \<Rightarrow> bool" where
  "holds_claim h r \<longleftrightarrow> handle_scope h r \<and> ob_state r = Claimed \<and>
     ob_attempt r = ch_publicationAttempt h \<and> ob_claimed_by r = Some (ch_claimedBy h) \<and>
     ob_claim_token r = Some (ch_claimToken h) \<and> ob_claim_expires_at r = Some (ch_claimExpiresAt h * 1000)"

definition holds_live_claim :: "int \<Rightarrow> claim_handle \<Rightarrow> outbox_row \<Rightarrow> bool" where
  "holds_live_claim clock h r \<longleftrightarrow> holds_claim h r \<and> \<not> expired clock r"

definition rowMatchesHandle :: "outbox_row \<Rightarrow> claim_handle \<Rightarrow> bool option" where
  "rowMatchesHandle r h =
     (if \<not> (handle_scope h r \<and> ob_attempt r = ch_publicationAttempt h \<and>
            ob_claimed_by r = Some (ch_claimedBy h) \<and> ob_claim_token r = Some (ch_claimToken h) \<and>
            map_option (\<lambda>t. t div 1000) (ob_claimed_at r) = Some (ch_claimedAt h) \<and>
            map_option (\<lambda>t. t div 1000) (ob_claim_expires_at r) = Some (ch_claimExpiresAt h))
      then Some False
      else map_option (\<lambda>canonical. canonical = ch_canonicalEnvelope h)
        (Option.bind (envelopeFromRow r) (\<lambda>e. serializeDomainNotificationEnvelope (envelope_value e))))"

section \<open>Publishing\<close>

datatype publish_result = PublishedResult jstr jstr | UnresolvedResult jstr jstr

record publish_env =
  pe_validated_at :: int
  pe_checked_at :: int
  pe_issued_at :: int
  pe_tx :: tx_env
  pe_role :: jstr
  pe_lock_fault :: "jsval option"
  pe_lock_clock :: int
  pe_authorize :: "security_context \<Rightarrow> jstr \<Rightarrow> jsval + bool"
  pe_publish :: "envelope \<Rightarrow> jsval + jsval"
  pe_mark_fault :: "jsval option"
  pe_mark_clock :: int
  pe_readback_at :: int
  pe_readback_tx :: tx_env
  pe_readback_role :: jstr
  pe_readback_fault :: "jsval option"
  pe_readback_rows :: "outbox_row list"

definition lock_claim :: "publish_env \<Rightarrow> claim_handle \<Rightarrow> outbox_row list \<Rightarrow> relay_error + unit" where
  "lock_claim env h rows =
     res_bind (assertProductRelayRole (pe_role env)) (\<lambda>_.
       case pe_lock_fault env of
         Some e \<Rightarrow> Inl (Thrown e)
       | None \<Rightarrow>
           (case filter (holds_live_claim (pe_lock_clock env) h) rows of
              [] \<Rightarrow> Inl ClaimRejected
            | r # _ \<Rightarrow> (case rowMatchesHandle r h of
                None \<Rightarrow> Inl EnvelopeInvalid
              | Some matches \<Rightarrow> if matches then Inr () else Inl ClaimRejected)))"

definition authorize_publication ::
  "publish_env \<Rightarrow> security_context \<Rightarrow> claim_handle \<Rightarrow> relay_error + unit" where
  "authorize_publication env context h =
     (case pe_authorize env context (ch_spaceId h) of
        Inl e \<Rightarrow> Inl (Thrown e)
      | Inr allowed \<Rightarrow> if allowed then Inr () else Inl NotAuthorized)"

definition mark_row :: "int \<Rightarrow> jstr \<Rightarrow> outbox_row \<Rightarrow> outbox_row" where
  "mark_row clock messageId r = (release_claim r)\<lparr>ob_state := Published, ob_last_outcome_code := None,
     ob_published_at := Some clock, ob_published_message_id := Some messageId\<rparr>"

definition mark_published ::
  "publish_env \<Rightarrow> claim_handle \<Rightarrow> jstr \<Rightarrow> outbox_row list \<Rightarrow>
     outbox_row list \<times> (relay_error + publish_result)" where
  "mark_published env h messageId rows =
     (case pe_mark_fault env of
        Some e \<Rightarrow> (rows, Inl (Thrown e))
      | None \<Rightarrow>
          (update_where (holds_live_claim (pe_mark_clock env) h) (mark_row (pe_mark_clock env) messageId) rows,
           if length (filter (holds_live_claim (pe_mark_clock env) h) rows) \<noteq> 1 then Inl ClaimRejected
           else Inr (PublishedResult (ch_eventId h) messageId)))"

text \<open>One run of the transaction's callback: the envelope handed to the publisher, the message id it
  acknowledged, and the outcome.\<close>

record publication =
  pb_sent :: "envelope option"
  pb_acknowledged :: "jstr option"
  pb_outcome :: "outbox_row list \<times> (relay_error + publish_result)"

definition publish_body ::
  "publish_env \<Rightarrow> security_context \<Rightarrow> claim_handle \<Rightarrow> outbox_row list \<Rightarrow> publication" where
  "publish_body env context h rows =
     (case res_bind (lock_claim env h rows) (\<lambda>_. authorize_publication env context h) of
        Inl e \<Rightarrow> \<lparr>pb_sent = None, pb_acknowledged = None, pb_outcome = (rows, Inl e)\<rparr>
      | Inr _ \<Rightarrow>
          (case pe_publish env (ch_envelope h) of
             Inl e \<Rightarrow> \<lparr>pb_sent = Some (ch_envelope h), pb_acknowledged = None,
                       pb_outcome = (rows, Inl (Thrown e))\<rparr>
           | Inr acknowledgment \<Rightarrow>
               (case validateMessageId acknowledgment of
                  None \<Rightarrow> \<lparr>pb_sent = Some (ch_envelope h), pb_acknowledged = None,
                           pb_outcome = (rows, Inl MissingMessageId)\<rparr>
                | Some m \<Rightarrow> \<lparr>pb_sent = Some (ch_envelope h), pb_acknowledged = Some m,
                             pb_outcome = mark_published env h m rows\<rparr>)))"

definition published_as :: "claim_handle \<Rightarrow> jstr \<Rightarrow> outbox_row \<Rightarrow> bool" where
  "published_as h messageId r \<longleftrightarrow> handle_scope h r \<and> ob_attempt r = ch_publicationAttempt h \<and>
     ob_state r = Published \<and> ob_published_message_id r = Some messageId"

definition isPublished :: "(jstr \<Rightarrow> bool) \<Rightarrow> publish_env \<Rightarrow> claim_handle \<Rightarrow> jstr \<Rightarrow> bool" where
  "isPublished uuid env h messageId =
     (case contextForHandle h False (pe_readback_at env) (pe_readback_at env) of
        Inl e \<Rightarrow> False
      | Inr context \<Rightarrow>
          (case snd (withTenantTransaction uuid Thrown (pe_readback_tx env) context
                  (\<lambda>rows. (rows, res_bind (assertProductRelayRole (pe_readback_role env)) (\<lambda>_.
                     case pe_readback_fault env of
                       Some e \<Rightarrow> Inl (Thrown e)
                     | None \<Rightarrow> Inr (list_ex (published_as h messageId) rows)))) (pe_readback_rows env)) of
             Inl e \<Rightarrow> False
           | Inr found \<Rightarrow> found))"

definition publishClaimed ::
  "(jstr \<Rightarrow> bool) \<Rightarrow> publish_env \<Rightarrow> handle_ref \<Rightarrow> outbox_row list \<times> claim_handle list \<Rightarrow>
     (outbox_row list \<times> claim_handle list) \<times> (relay_error + publish_result) \<times> envelope option" where
  "publishClaimed uuid env input s =
     (case validateHandle (pe_validated_at env) True (snd s) input of
        Inl e \<Rightarrow> (s, Inl e, None)
      | Inr h \<Rightarrow>
          (case contextForHandle h True (pe_checked_at env) (pe_issued_at env) of
             Inl e \<Rightarrow> (s, Inl e, None)
           | Inr context \<Rightarrow>
               (let attempt = publish_body env context h (fst s);
                    entered = transaction_entered uuid (pe_tx env) context
                in case withTenantTransaction uuid Thrown (pe_tx env) context
                          (\<lambda>rows. pb_outcome (publish_body env context h rows)) (fst s) of
                     (rows, Inr result) \<Rightarrow> ((rows, snd s), Inr result, pb_sent attempt)
                   | (rows, Inl e) \<Rightarrow>
                       ((rows, snd s),
                        (case (if entered then pb_acknowledged attempt else None) of
                           None \<Rightarrow> Inl e
                         | Some m \<Rightarrow> Inr (if isPublished uuid env h m then PublishedResult (ch_eventId h) m
                                        else UnresolvedResult (ch_eventId h) m)),
                        if entered then pb_sent attempt else None))))"

section \<open>Recording a failure\<close>

datatype failure_kind = Deterministic | Ambiguous

datatype failure_outcome = Settled publication_state | AlreadySettled

record failure_env =
  fe_validated_at :: int
  fe_issued_at :: int
  fe_tx :: tx_env
  fe_role :: jstr
  fe_fault :: "jsval option"
  fe_clock :: int

definition retry_row :: "int \<Rightarrow> jstr \<Rightarrow> int \<Rightarrow> outbox_row \<Rightarrow> outbox_row" where
  "retry_row clock code delay r = (release_claim r)\<lparr>ob_state := RetryWait,
     ob_last_outcome_code := Some code, ob_next_attempt_at := clock + delay * 1000000\<rparr>"

definition terminal_row :: "int \<Rightarrow> jstr \<Rightarrow> publication_state \<Rightarrow> outbox_row \<Rightarrow> outbox_row" where
  "terminal_row clock code state r = (release_claim r)\<lparr>ob_state := state,
     ob_last_outcome_code := Some code, ob_terminal_at := Some clock\<rparr>"

definition terminal_state :: "failure_kind \<Rightarrow> publication_state" where
  "terminal_state kind = (case kind of Deterministic \<Rightarrow> TerminalFailed | Ambiguous \<Rightarrow> TerminalUnconfirmed)"

definition failure_body ::
  "failure_env \<Rightarrow> claim_handle \<Rightarrow> failure_kind \<Rightarrow> jstr \<Rightarrow> outbox_row list \<Rightarrow>
     outbox_row list \<times> (relay_error + failure_outcome)" where
  "failure_body env h kind code rows =
     (case assertProductRelayRole (fe_role env) of
        Inl e \<Rightarrow> (rows, Inl e)
      | Inr _ \<Rightarrow>
          (let settle = (\<lambda>f state. case fe_fault env of
                 Some e \<Rightarrow> (rows, Inl (Thrown e))
               | None \<Rightarrow> (update_where (holds_claim h) f rows,
                          Inr (if list_ex (holds_claim h) rows then Settled state else AlreadySettled)))
           in if ch_publicationAttempt h < 6
              then (case retryDelaySeconds (ch_publicationAttempt h) of
                      Inl e \<Rightarrow> (rows, Inl e)
                    | Inr delay \<Rightarrow> settle (retry_row (fe_clock env) code delay) RetryWait)
              else settle (terminal_row (fe_clock env) code (terminal_state kind)) (terminal_state kind)))"

definition recordFailure ::
  "(jstr \<Rightarrow> bool) \<Rightarrow> failure_env \<Rightarrow> handle_ref \<Rightarrow> failure_kind \<Rightarrow> jstr \<Rightarrow>
     outbox_row list \<times> claim_handle list \<Rightarrow>
     (outbox_row list \<times> claim_handle list) \<times> (relay_error + failure_outcome)" where
  "recordFailure uuid env input kind code s =
     (case validateHandle (fe_validated_at env) False (snd s) input of
        Inl e \<Rightarrow> (s, Inl e)
      | Inr h \<Rightarrow>
          if \<not> safe_code code then (s, Inl ClaimRejected)
          else (case contextForHandle h False (fe_issued_at env) (fe_issued_at env) of
                  Inl e \<Rightarrow> (s, Inl e)
                | Inr context \<Rightarrow>
                    (case withTenantTransaction uuid Thrown (fe_tx env) context
                            (failure_body env h kind code) (fst s) of
                       (rows, r) \<Rightarrow> ((rows, snd s), r))))"

section \<open>Writing events\<close>

text \<open>\<open>ProductDomainOutboxWriter\<close> of \<open>packages/db/src/product-domain-repositories.ts\<close>. The column
  \<open>payload\<close> is the parsed JSON of the canonical text, which is the payload's value again.\<close>

record outbox_insert =
  oi_envelope :: jsval
  oi_relayServicePrincipalId :: jstr
  oi_policyVersionId :: jstr

definition identity_of :: "envelope \<Rightarrow> jstr \<Rightarrow> jstr \<Rightarrow> int \<Rightarrow> event_identity" where
  "identity_of e relay policy createdAt =
     \<lparr>ei_id = en_eventId e, ei_tenant_id = en_tenantId e, ei_workspace_id = en_workspaceId e,
      ei_space_id = en_spaceId e, ei_relay_service_principal_id = lower_ascii relay, ei_policy_version_id = policy,
      ei_event_type = event_string (en_eventType e), ei_event_schema_version = 1,
      ei_payload_schema_version = 1,
      ei_aggregate_type = aggregate_string (event_aggregate (en_eventType e)),
      ei_aggregate_id = en_aggregateId e, ei_aggregate_version = en_aggregateVersion e,
      ei_causation_command_id = en_causationCommandId e,
      ei_payload = event_payload_value (en_eventType e) (en_payload e),
      ei_request_id = en_requestId e, ei_traceparent = en_traceparent e,
      ei_tracestate = en_tracestate e, ei_created_at = createdAt\<rparr>"

definition pending_row :: "event_identity \<Rightarrow> outbox_row" where
  "pending_row e = \<lparr>ob_event = e, ob_state = Pending, ob_attempt = 0,
     ob_next_attempt_at = ei_created_at e, ob_claimed_at = None, ob_claimed_by = None,
     ob_claim_token = None, ob_claim_expires_at = None, ob_last_outcome_code = None,
     ob_published_at = None, ob_published_message_id = None, ob_terminal_at = None\<rparr>"

text \<open>The server refuses a version that the column type \<open>integer\<close> does not hold before it looks at
  any constraint; its error is rethrown.\<close>

datatype insert_error = InvariantMismatch | InsertEnvelopeInvalid | InsertOutOfRange

definition insertOrReplay ::
  "int \<Rightarrow> outbox_insert \<Rightarrow> outbox_row list \<Rightarrow> outbox_row list \<times> (insert_error + jstr \<times> bool)" where
  "insertOrReplay createdAt input rows =
     (case parseDomainNotificationEnvelope (oi_envelope input) of
        None \<Rightarrow> (rows, Inl InsertEnvelopeInvalid)
      | Some envelope \<Rightarrow>
          (case serializeDomainNotificationEnvelope (envelope_value envelope) of
             None \<Rightarrow> (rows, Inl InsertEnvelopeInvalid)
           | Some canonical \<Rightarrow>
               if en_aggregateVersion envelope > MAX_INTEGER then (rows, Inl InsertOutOfRange)
               else
               (let e = identity_of envelope (oi_relayServicePrincipalId input)
                      (oi_policyVersionId input) createdAt
                in case filter (\<lambda>r. semantic_key (ob_event r) = semantic_key e) rows of
                     [] \<Rightarrow> if list_ex (\<lambda>r. row_id r = ei_id e) rows then (rows, Inl InvariantMismatch)
                           else (rows @ [pending_row e], Inr (ei_id e, False))
                   | r # _ \<Rightarrow>
                       if ei_relay_service_principal_id (ob_event r) \<noteq> oi_relayServicePrincipalId input \<or>
                          ei_policy_version_id (ob_event r) \<noteq> oi_policyVersionId input
                       then (rows, Inl InvariantMismatch)
                       else (case serializeDomainNotificationEnvelope (envelope_object (ob_event r)) of
                               None \<Rightarrow> (rows, Inl InsertEnvelopeInvalid)
                             | Some stored \<Rightarrow>
                                 if canonical \<noteq> stored then (rows, Inl InvariantMismatch)
                                 else (rows, Inr (row_id r, True))))))"

end
