(* ===== verification/Outbox_System.thy ===== *)
theory Outbox_System
  imports Product_Outbox
begin

text \<open>
  What the outbox repository guarantees: its updates refine the constraints and the transition
  trigger of the table, a published or failed event never changes again, every claim of an event is
  numbered, and only the holder of the live claim can publish.
\<close>

section \<open>Single updates\<close>

lemma is_token_base64url_unit: "n < 64 \<Longrightarrow> is_token_unit (base64url_unit n)"
  by (auto simp: is_token_unit_def base64url_unit_def is_alnum_def is_digit_def)

lemma base64url_units: "list_all (\<lambda>b. b < 256) bs \<Longrightarrow> list_all is_token_unit (base64url bs)"
  by (induction bs rule: base64url.induct) (auto intro!: is_token_base64url_unit)

lemma length_base64url: "length (base64url bs) = (length bs * 4 + 2) div 3"
  by (induction bs rule: base64url.induct) auto

lemma claim_token_base64url:
  "length bs = 32 \<Longrightarrow> list_all (\<lambda>b. b < 256) bs \<Longrightarrow> claim_token_pattern (base64url bs)"
  by (simp add: claim_token_pattern_def length_base64url base64url_units)

lemma safe_owner_bounds:
  "safe_owner s \<Longrightarrow> 1 \<le> length s \<and> length s \<le> 128 \<and> \<not> list_ex is_control s"
  by (cases s) (auto simp: safe_owner_def list_ex_iff list_all_iff is_control_def is_alnum_def is_digit_def)

lemma code_point_control: "c \<in> set (array_from s) \<Longrightarrow> u \<in> set c \<Longrightarrow> is_control u \<Longrightarrow> code_point c = u"
proof (induction s rule: array_from.induct)
  case (3 u' v r)
  then show ?case
    by (auto simp: is_control_def is_high_def is_low_def split: if_splits)
qed auto

lemma no_control_units: "\<not> hasControlCharacters s \<Longrightarrow> \<not> list_ex is_control s"
proof
  assume h: "\<not> hasControlCharacters s" and "list_ex is_control s"
  then obtain u where u: "u \<in> set s" "is_control u" by (auto simp: list_ex_iff)
  have "set s = \<Union> (set ` set (array_from s))" using concat_array_from[of s] by (metis set_concat)
  then obtain c where "c \<in> set (array_from s)" "u \<in> set c" using u by auto
  moreover from this have "code_point c = u" using code_point_control u by blast
  ultimately show False using h u
    by (auto simp: hasControlCharacters_def list_ex_iff is_control_def)
qed

lemma validateMessageId_Some:
  "validateMessageId v = Some m \<Longrightarrow> 1 \<le> length m \<and> length m \<le> 200 \<and> \<not> list_ex is_control m"
  by (auto simp: validateMessageId_def require_string_with_Some_iff Suc_le_eq dest: no_control_units)

lemma settle_interrupted_ok:
  assumes "row_ok r" "interrupted scope clock r"
  shows "transition_ok clock r (settle_interrupted clock r) \<and> row_ok (settle_interrupted clock r)"
proof -
  have "safe_code (js ''relay_interrupted'')"
    by (simp add: safe_code_def js_def is_code_unit_def is_digit_def)
  then show ?thesis
    using assms by (simp add: interrupted_def settle_interrupted_def release_claim_def transition_rules
        row_checks split: option.splits)
qed

lemma claim_row_ok:
  assumes "row_ok r" "eligible scope locked (truncate_ms clock) r" "safe_owner b" "claim_token_pattern t"
    and "5 \<le> lease"
  shows "transition_ok clock r (claim_row b t lease (truncate_ms clock) r) \<and>
    row_ok (claim_row b t lease (truncate_ms clock) r)"
proof -
  have "truncate_ms clock \<le> clock" by (simp add: truncate_ms_def)
  then show ?thesis
    using assms safe_owner_bounds[OF assms(3)]
    by (auto simp: eligible_def claim_row_def transition_rules row_checks expired_def
        split: option.splits if_splits)
qed

lemma mark_row_ok:
  assumes "row_ok r" "holds_live_claim clock h r" "1 \<le> length m" "length m \<le> 200" "\<not> list_ex is_control m"
  shows "transition_ok clock r (mark_row clock m r) \<and> row_ok (mark_row clock m r)"
  using assms by (auto simp: holds_live_claim_def holds_claim_def mark_row_def release_claim_def
      transition_rules row_checks expired_def)

lemma retry_row_ok:
  assumes "row_ok r" "holds_claim h r" "ch_publicationAttempt h < 6" "0 < delay" "safe_code code"
  shows "transition_ok clock r (retry_row clock code delay r) \<and> row_ok (retry_row clock code delay r)"
  using assms by (auto simp: holds_claim_def retry_row_def release_claim_def transition_rules row_checks)

lemma terminal_row_ok:
  assumes "row_ok r" "holds_claim h r" "\<not> ch_publicationAttempt h < 6" "safe_code code"
  shows "transition_ok clock r (terminal_row clock code (terminal_state kind) r) \<and>
    row_ok (terminal_row clock code (terminal_state kind) r)"
  using assms by (auto simp: holds_claim_def terminal_row_def release_claim_def transition_rules
      row_checks terminal_state_def split: failure_kind.splits)

lemma retryDelay_pos: "retryDelaySeconds n = Inr d \<Longrightarrow> 1 \<le> d \<and> d \<le> 600"
proof -
  assume a: "retryDelaySeconds n = Inr d"
  then have "d \<in> set RETRY_DELAYS_SECONDS"
    by (auto simp: retryDelaySeconds_def split: if_splits intro: nth_mem)
  then show ?thesis by (auto simp: RETRY_DELAYS_SECONDS_def)
qed

section \<open>Operations\<close>

lemma rows_ok_D: "rows_ok rows \<Longrightarrow> r \<in> set rows \<Longrightarrow> row_ok r"
  by (simp add: rows_ok_def Let_def list_all_iff)

lemma rows_ok_same_id: "rows_ok rows \<Longrightarrow> r \<in> set rows \<Longrightarrow> q \<in> set rows \<Longrightarrow> row_id q = row_id r \<Longrightarrow> q = r"
  by (auto simp: rows_ok_def distinct_map inj_on_def comp_def)

lemma next_eligible_Some:
  "next_eligible scope locked clock rows = Some r \<Longrightarrow>
     r \<in> set rows \<and> eligible scope locked clock r \<and>
     (\<forall>q\<in>set rows. eligible scope locked clock q \<longrightarrow> claim_order r \<le> claim_order q)"
proof -
  assume a: "next_eligible scope locked clock rows = Some r"
  let ?s = "sort_key claim_order (filter (eligible scope locked clock) rows)"
  obtain qs where s: "?s = r # qs" using a by (auto simp: next_eligible_def split: list.splits)
  have sorted: "sorted (map claim_order ?s)" by simp
  have "set ?s = {q \<in> set rows. eligible scope locked clock q}" by simp
  then show ?thesis using sorted unfolding s by auto
qed

lemma sort_key_Nil_iff [simp]: "sort_key f xs = [] \<longleftrightarrow> xs = []"
  by (metis set_empty set_sort)

lemma next_eligible_None:
  "next_eligible scope locked clock rows = None \<longleftrightarrow> (\<forall>q\<in>set rows. \<not> eligible scope locked clock q)"
proof -
  have "next_eligible scope locked clock rows = None \<longleftrightarrow>
      sort_key claim_order (filter (eligible scope locked clock) rows) = []"
    by (simp only: next_eligible_def split: list.split) simp
  then show ?thesis by (simp add: filter_empty_conv)
qed

lemma update_claimed_only:
  "rows_ok rows \<Longrightarrow> r \<in> set rows \<Longrightarrow> scope_matches scope r \<Longrightarrow>
     update_where (\<lambda>q. row_id q = row_id r \<and> scope_matches scope q) f rows = update_where (\<lambda>q. q = r) f rows"
  unfolding update_where_def by (rule map_cong) (auto dest: rows_ok_same_id)

definition random_ok :: "claim_env \<Rightarrow> bool" where
  "random_ok env \<longleftrightarrow> length (ce_random env) = 32 \<and> list_all (\<lambda>b. b < 256) (ce_random env)"

lemma claim_body_effect:
  assumes "claim_body env scope b lease rows = (rows', Inr a)"
    and "rows_ok rows" "safe_owner b" "5 \<le> lease" "random_ok env"
  obtains mid where "updates_ok (ce_settle_clock env) rows mid"
    and "updates_ok (ce_claim_clock env) mid rows'"
    and "case a of
        None \<Rightarrow> rows' = mid \<and> next_eligible scope (ce_locked env) (truncate_ms (ce_claim_clock env)) mid = None
      | Some h \<Rightarrow> \<exists>r. next_eligible scope (ce_locked env) (truncate_ms (ce_claim_clock env)) mid = Some r \<and>
          createClaimHandle (claim_row b (base64url (ce_random env)) lease
            (truncate_ms (ce_claim_clock env)) r) = Inr h \<and>
          rows' = update_where (\<lambda>q. q = r) (claim_row b (base64url (ce_random env)) lease
            (truncate_ms (ce_claim_clock env))) mid"
proof -
  let ?mid = "update_where (interrupted scope (ce_settle_clock env))
    (settle_interrupted (ce_settle_clock env)) rows"
  let ?t = "truncate_ms (ce_claim_clock env)"
  let ?f = "claim_row b (base64url (ce_random env)) lease ?t"
  have mid: "updates_ok (ce_settle_clock env) rows ?mid"
    using assms(2) by (intro updates_ok_where settle_interrupted_ok) (auto dest: rows_ok_D)
  have ok: "rows_ok ?mid" using updates_ok_rows_ok[OF mid assms(2)] .
  show ?thesis
  proof (cases a)
    case None
    then show ?thesis
      using assms(1) that[OF mid] by (auto simp: claim_body_def Let_def split: sum.splits option.splits)
  next
    case (Some h)
    then obtain r where r: "next_eligible scope (ce_locked env) ?t ?mid = Some r"
      "createClaimHandle (?f r) = Inr h"
      "rows' = update_where (\<lambda>q. row_id q = row_id r \<and> scope_matches scope q) ?f ?mid"
      using assms(1) by (auto simp: claim_body_def Let_def split: sum.splits option.splits)
    note e = next_eligible_Some[OF r(1)]
    have "update_where (\<lambda>q. row_id q = row_id r \<and> scope_matches scope q) ?f ?mid =
        update_where (\<lambda>q. q = r) ?f ?mid"
      using e ok by (intro update_claimed_only) (simp_all add: eligible_def)
    moreover have "updates_ok (ce_claim_clock env) ?mid (update_where (\<lambda>q. q = r) ?f ?mid)"
    proof (rule updates_ok_where)
      fix q assume "q \<in> set ?mid" "q = r"
      then show "transition_ok (ce_claim_clock env) q (?f q) \<and> row_ok (?f q)"
        using e rows_ok_D[OF ok] assms(3,4) assms(5)[unfolded random_ok_def]
        by (intro claim_row_ok claim_token_base64url) blast+
    qed
    ultimately show ?thesis using that[OF mid] r Some by auto
  qed
qed

lemma publish_body_effect:
  assumes "pb_outcome (publish_body env c h rows) = (rows', Inr a)" and "rows_ok rows"
  shows "updates_ok (pe_mark_clock env) rows rows' \<and>
    (\<exists>m. pb_acknowledged (publish_body env c h rows) = Some m \<and> a = PublishedResult (ch_eventId h) m \<and>
      (\<exists>r\<in>set rows'. published_as h m r))"
proof -
  obtain m where m: "pb_acknowledged (publish_body env c h rows) = Some m"
      "mark_published env h m rows = (rows', Inr a)" and len: "1 \<le> length m" "length m \<le> 200" "\<not> list_ex is_control m"
    using assms(1) validateMessageId_Some
    by (fastforce simp: publish_body_def split: sum.splits option.splits)
  let ?P = "holds_live_claim (pe_mark_clock env) h"
  have r: "rows' = update_where ?P (mark_row (pe_mark_clock env) m) rows"
      "length (filter ?P rows) = 1" "a = PublishedResult (ch_eventId h) m"
    using m(2) by (auto simp: mark_published_def split: option.splits if_splits)
  obtain q where q: "q \<in> set rows" "?P q"
    using r(2) by (metis One_nat_def filter_empty_conv length_0_conv zero_neq_one)
  have "published_as h m (mark_row (pe_mark_clock env) m q)"
    using q(2) by (auto simp: published_as_def mark_row_def release_claim_def holds_live_claim_def
        holds_claim_def handle_scope_def)
  then have "\<exists>r\<in>set rows'. published_as h m r"
    using q by (auto simp: r(1) update_where_def)
  moreover have "updates_ok (pe_mark_clock env) rows rows'"
    unfolding r(1) using len assms(2) by (intro updates_ok_where mark_row_ok) (auto dest: rows_ok_D)
  ultimately show ?thesis using m(1) r(3) by blast
qed

lemma failure_body_effect:
  assumes "failure_body env h kind code rows = (rows', Inr a)" "rows_ok rows" "safe_code code"
  shows "updates_ok (fe_clock env) rows rows'"
proof (cases "ch_publicationAttempt h < 6")
  case True
  then obtain d where d: "retryDelaySeconds (ch_publicationAttempt h) = Inr d"
      "rows' = update_where (holds_claim h) (retry_row (fe_clock env) code d) rows"
    using assms(1) by (auto simp: failure_body_def Let_def split: sum.splits option.splits)
  then show ?thesis
    using True assms(2,3) retryDelay_pos[OF d(1)] rows_ok_D[OF assms(2)]
    by (simp only: d(2)) (intro updates_ok_where retry_row_ok, auto)
next
  case False
  then have "rows' = update_where (holds_claim h)
      (terminal_row (fe_clock env) code (terminal_state kind)) rows"
    using assms(1) by (auto simp: failure_body_def Let_def split: sum.splits option.splits)
  then show ?thesis
    using False assms(2,3) rows_ok_D[OF assms(2)]
    by (simp only:) (intro updates_ok_where terminal_row_ok, auto)
qed

section \<open>The system\<close>

text \<open>
  The outbox as a system: any number of relay processes, each with the handles its own repository
  issued, and the domain transactions that write events, all working on one table in any order. Each
  transaction is one step, since it holds the lock of the row it changes until it commits.
\<close>

section \<open>The step relation\<close>

record outbox_system =
  os_rows :: "outbox_row list"
  os_issued :: "nat \<Rightarrow> claim_handle list"

definition empty_outbox :: outbox_system where
  "empty_outbox = \<lparr>os_rows = [], os_issued = (\<lambda>p. [])\<rparr>"

inductive outbox_step :: "(jstr \<Rightarrow> bool) \<Rightarrow> outbox_system \<Rightarrow> outbox_system \<Rightarrow> bool" for uuid where
  insert_step: "insertOrReplay createdAt input (os_rows s) = (rows, r) \<Longrightarrow>
    outbox_step uuid s (s\<lparr>os_rows := rows\<rparr>)"
| claim_step: "claimNext uuid env scope options (os_rows s, os_issued s p) = ((rows, issued), r) \<Longrightarrow>
    random_ok env \<Longrightarrow>
    outbox_step uuid s \<lparr>os_rows = rows, os_issued = (os_issued s)(p := issued)\<rparr>"
| publish_step: "publishClaimed uuid penv input (os_rows s, os_issued s p) = ((rows, issued), outcome) \<Longrightarrow>
    outbox_step uuid s \<lparr>os_rows = rows, os_issued = (os_issued s)(p := issued)\<rparr>"
| failure_step: "recordFailure uuid fenv input kind code (os_rows s, os_issued s p) = ((rows, issued), result) \<Longrightarrow>
    outbox_step uuid s \<lparr>os_rows = rows, os_issued = (os_issued s)(p := issued)\<rparr>"

inductive_cases outbox_step_cases: "outbox_step uuid s t"

section \<open>What one operation does to the table\<close>

text \<open>At most two updates, the first at the clock \<open>t\<close> of the server and the second at \<open>u\<close>.\<close>

definition two_updates_at :: "int \<Rightarrow> int \<Rightarrow> outbox_row list \<Rightarrow> outbox_row list \<Rightarrow> bool" where
  "two_updates_at t u rows rows' \<longleftrightarrow> (\<exists>mid. updates_ok t rows mid \<and> updates_ok u mid rows')"

lemma two_updates_at_refl [simp]: "two_updates_at t u rows rows"
  unfolding two_updates_at_def using updates_ok_refl by blast

definition two_updates :: "outbox_row list \<Rightarrow> outbox_row list \<Rightarrow> bool" where
  "two_updates rows rows' \<longleftrightarrow> (\<exists>mid t u. updates_ok t rows mid \<and> updates_ok u mid rows')"

lemma two_updates_refl [simp]: "two_updates rows rows"
  unfolding two_updates_def using updates_ok_refl by blast

lemma two_updates_atD: "two_updates_at t u rows rows' \<Longrightarrow> two_updates rows rows'"
  unfolding two_updates_at_def two_updates_def by blast

lemma two_updatesI: "updates_ok t rows rows' \<Longrightarrow> two_updates rows rows'"
  unfolding two_updates_def using updates_ok_refl by blast

lemma two_updates_rows_ok: "two_updates rows rows' \<Longrightarrow> rows_ok rows \<Longrightarrow> rows_ok rows'"
  unfolding two_updates_def using updates_ok_rows_ok by blast

lemma two_updates_evolve: "two_updates rows rows' \<Longrightarrow> rows_evolve rows rows'"
  unfolding two_updates_def using updates_evolve rows_evolve_trans by blast

lemma validateClaimOptions_Inr:
  "validateClaimOptions options = Inr lease \<Longrightarrow> safe_owner (co_claimedBy options) \<and> 5 \<le> lease \<and> lease \<le> 300"
  by (cases "co_leaseSeconds options") (auto simp: validateClaimOptions_def split: if_splits)

text \<open>A new handle belongs to a row of the table and carries the number of its new attempt.\<close>

definition fresh_handle :: "outbox_row list \<Rightarrow> outbox_row list \<Rightarrow> claim_handle \<Rightarrow> bool" where
  "fresh_handle rows rows' h \<longleftrightarrow>
     (\<exists>q\<in>set rows. row_id q = ch_eventId h \<and> ob_attempt q < ch_publicationAttempt h) \<and>
     (\<exists>r\<in>set rows'. holds_claim h r \<and> ch_publicationAttempt h = ob_attempt r \<and>
        rowMatchesHandle r h = Some True)"

lemma createClaimHandle_Inr:
  assumes "createClaimHandle r = Inr h"
  obtains e canonical b t a x where "envelopeFromRow r = Some e"
    "serializeDomainNotificationEnvelope (envelope_value e) = Some canonical"
    "ob_claimed_by r = Some b" "ob_claim_token r = Some t" "ob_claimed_at r = Some a"
    "ob_claim_expires_at r = Some x"
    "handle_scope h r" "ch_publicationAttempt h = ob_attempt r" "ch_claimedBy h = b" "ch_claimToken h = t"
    "ch_claimedAt h = a div 1000" "ch_claimExpiresAt h = x div 1000" "ch_envelope h = e"
    "ch_canonicalEnvelope h = canonical" "ch_eventType h = en_eventType e"
    "ch_aggregateType h = event_aggregate (en_eventType e)" "ch_aggregateId h = en_aggregateId e"
    "ch_aggregateVersion h = en_aggregateVersion e" "ch_causationCommandId h = en_causationCommandId e"
  using assms
  by (auto simp: createClaimHandle_def handle_scope_def split: option.splits prod.splits)

lemma claim_row_fields [simp]:
  "ob_event (claim_row b t lease a r) = ob_event r" "ob_state (claim_row b t lease a r) = Claimed"
  "ob_attempt (claim_row b t lease a r) = ob_attempt r + 1"
  "ob_claimed_by (claim_row b t lease a r) = Some b" "ob_claim_token (claim_row b t lease a r) = Some t"
  "ob_claimed_at (claim_row b t lease a r) = Some a"
  "ob_claim_expires_at (claim_row b t lease a r) = Some (a + lease * 1000000)"
  "envelopeFromRow (claim_row b t lease a r) = envelopeFromRow r"
  "handle_scope h (claim_row b t lease a r) = handle_scope h r"
  by (simp_all add: claim_row_def envelopeFromRow_def handle_scope_def)

lemma truncate_lease: "(truncate_ms clock + lease * 1000000) div 1000 * 1000 = truncate_ms clock + lease * 1000000"
proof -
  have "truncate_ms clock + lease * 1000000 = (clock div 1000 + lease * 1000) * 1000"
    by (simp add: truncate_ms_def)
  then show ?thesis by simp
qed

lemma claimed_handle_holds:
  assumes "createClaimHandle (claim_row b t lease (truncate_ms clock) r) = Inr h"
  shows "holds_claim h (claim_row b t lease (truncate_ms clock) r) \<and>
    rowMatchesHandle (claim_row b t lease (truncate_ms clock) r) h = Some True \<and>
    ch_publicationAttempt h = ob_attempt r + 1 \<and> ch_eventId h = row_id r"
proof (rule createClaimHandle_Inr[OF assms], goal_cases)
  case (1 e canonical b' t' a x)
  then have "handle_scope h r" by simp
  then have "ch_eventId h = row_id r" by (simp add: handle_scope_def)
  moreover have "holds_claim h (claim_row b t lease (truncate_ms clock) r)"
    using 1 truncate_lease[of clock lease] by (simp add: holds_claim_def)
  moreover have "rowMatchesHandle (claim_row b t lease (truncate_ms clock) r) h = Some True"
    using 1 by (simp add: rowMatchesHandle_def)
  ultimately show ?case using 1 by simp
qed

lemma updates_ok_origin:
  "updates_ok t rows mid \<Longrightarrow> q \<in> set mid \<Longrightarrow> \<exists>r\<in>set rows. row_evolves r q"
  unfolding updates_ok_def
  by (induction rule: list_all2_induct) (auto intro: transition_evolves row_evolves_refl)

lemma claim_body_fresh:
  assumes "claim_body env scope b lease rows = (rows', Inr a)"
    and "rows_ok rows" "safe_owner b" "5 \<le> lease" "random_ok env"
  shows "two_updates_at (ce_settle_clock env) (ce_claim_clock env) rows rows' \<and>
    (\<forall>h. a = Some h \<longrightarrow> fresh_handle rows rows' h)"
proof (rule claim_body_effect[OF assms], goal_cases)
  case (1 mid)
  let ?f = "claim_row b (base64url (ce_random env)) lease (truncate_ms (ce_claim_clock env))"
  have "fresh_handle rows rows' h" if ah: "a = Some h" for h
  proof -
    obtain q where q: "next_eligible scope (ce_locked env) (truncate_ms (ce_claim_clock env)) mid = Some q"
        "createClaimHandle (?f q) = Inr h" "rows' = update_where (\<lambda>p. p = q) ?f mid"
      using 1(3) ah by auto
    have mem: "q \<in> set mid" using next_eligible_Some[OF q(1)] by blast
    obtain r0 where r0: "r0 \<in> set rows" "row_evolves r0 q" using updates_ok_origin[OF 1(1) mem] by blast
    have "?f q \<in> set rows'" using mem q(3) by (auto simp: update_where_def)
    then show ?thesis
      using claimed_handle_holds[OF q(2)] r0 unfolding fresh_handle_def row_evolves_def
      by (metis claim_row_fields(3) order_le_less_trans zless_add1_eq)
  qed
  then show ?case using 1(1,2) unfolding two_updates_at_def by blast
qed

lemma claimNext_clocked:
  assumes "claimNext uuid env scope options (rows, issued) = ((rows', issued'), r)"
    and "rows_ok rows" "random_ok env"
  shows "two_updates_at (ce_settle_clock env) (ce_claim_clock env) rows rows' \<and>
    (issued' = issued \<or> (\<exists>h. issued' = issued @ [h] \<and> r = Inr (Some (Issued (length issued))) \<and>
       fresh_handle rows rows' h))"
proof (cases "validateScope scope")
  case (Inr sc)
  show ?thesis
  proof (cases "validateClaimOptions options")
    case opts: (Inr lease)
    let ?body = "claim_body env sc (co_claimedBy options) lease"
    obtain x y where tx: "withTenantTransaction uuid Thrown (ce_tx env)
        (contextForScope sc (ce_now env) (lease + 30)) ?body rows = (x, y)" by fastforce
    let ?upd = "two_updates_at (ce_settle_clock env) (ce_claim_clock env)"
    have body: "?upd rows z \<and> (\<forall>h. a = Some h \<longrightarrow> fresh_handle rows z h)"
      if "?body rows = (z, Inr a)" for z a
      using claim_body_fresh[OF that assms(2)] validateClaimOptions_Inr[OF opts] assms(3) by blast
    have "?upd rows x"
      using withTenantTransaction_atomic[OF tx] body two_updates_at_refl by blast
    moreover have "fresh_handle rows x h" if "y = Inr (Some h)" for h
      using withTenantTransaction_Inr[OF tx[unfolded that]] body by blast
    ultimately show ?thesis
      using assms(1) tx opts Inr by (auto simp: claimNext_def split: sum.splits option.splits)
  qed (use assms(1) Inr in \<open>simp add: claimNext_def\<close>)
qed (use assms(1) in \<open>simp add: claimNext_def\<close>)

lemma claimNext_effect:
  assumes "claimNext uuid env scope options (rows, issued) = ((rows', issued'), r)"
    and "rows_ok rows" "random_ok env"
  shows "two_updates rows rows' \<and>
    (issued' = issued \<or> (\<exists>h. issued' = issued @ [h] \<and> r = Inr (Some (Issued (length issued))) \<and>
       fresh_handle rows rows' h))"
  using claimNext_clocked[OF assms] two_updates_atD by blast

lemma publishClaimed_clocked:
  assumes "publishClaimed uuid env input (rows, issued) = ((rows', issued'), outcome)" and "rows_ok rows"
  shows "updates_ok (pe_mark_clock env) rows rows' \<and> issued' = issued"
proof (cases "validateHandle (pe_validated_at env) True issued input")
  case (Inr h)
  show ?thesis
  proof (cases "contextForHandle h True (pe_checked_at env) (pe_issued_at env)")
    case (Inr c)
    let ?body = "\<lambda>rows. pb_outcome (publish_body env c h rows)"
    obtain x y where tx: "withTenantTransaction uuid Thrown (pe_tx env) c ?body rows = (x, y)" by fastforce
    have "updates_ok (pe_mark_clock env) rows x"
      using withTenantTransaction_atomic[OF tx] publish_body_effect[OF _ assms(2)] updates_ok_refl by fastforce
    then show ?thesis
      using assms(1) \<open>validateHandle _ _ _ _ = _\<close> Inr tx
      by (auto simp: publishClaimed_def Let_def split: sum.splits)
  qed (use assms(1) Inr in \<open>auto simp: publishClaimed_def\<close>)
qed (use assms(1) in \<open>auto simp: publishClaimed_def\<close>)

lemma publishClaimed_effect:
  assumes "publishClaimed uuid env input (rows, issued) = ((rows', issued'), outcome)" and "rows_ok rows"
  shows "two_updates rows rows' \<and> issued' = issued"
  using publishClaimed_clocked[OF assms] two_updatesI by blast

lemma recordFailure_clocked:
  assumes "recordFailure uuid env input kind code (rows, issued) = ((rows', issued'), r)" and "rows_ok rows"
  shows "updates_ok (fe_clock env) rows rows' \<and> issued' = issued"
proof (cases "validateHandle (fe_validated_at env) False issued input")
  case (Inr h)
  show ?thesis
  proof (cases "safe_code code \<and> (\<exists>c. contextForHandle h False (fe_issued_at env) (fe_issued_at env) = Inr c)")
    case True
    then obtain c where c: "contextForHandle h False (fe_issued_at env) (fe_issued_at env) = Inr c" by blast
    obtain x y where tx: "withTenantTransaction uuid Thrown (fe_tx env) c (failure_body env h kind code) rows = (x, y)"
      by fastforce
    have "updates_ok (fe_clock env) rows x"
      using withTenantTransaction_atomic[OF tx] failure_body_effect[OF _ assms(2)] updates_ok_refl True
      by fastforce
    then show ?thesis
      using assms(1) Inr c True tx by (auto simp: recordFailure_def)
  qed (use assms(1) Inr in \<open>auto simp: recordFailure_def split: sum.splits if_splits\<close>)
qed (use assms(1) in \<open>auto simp: recordFailure_def\<close>)

lemma recordFailure_effect:
  assumes "recordFailure uuid env input kind code (rows, issued) = ((rows', issued'), r)" and "rows_ok rows"
  shows "two_updates rows rows' \<and> issued' = issued"
  using recordFailure_clocked[OF assms] two_updatesI by blast

section \<open>Rows and handles that belong together\<close>

text \<open>A row the writer inserted carries an envelope that parses to itself.\<close>

definition row_carries :: "envelope \<Rightarrow> outbox_row \<Rightarrow> bool" where
  "row_carries e r \<longleftrightarrow> parseDomainNotificationEnvelope (envelope_value e) = Some e \<and>
     (\<exists>relay policy createdAt. ob_event r = identity_of e relay policy createdAt)"

definition row_canonical :: "outbox_row \<Rightarrow> bool" where
  "row_canonical r \<longleftrightarrow> (\<exists>e. row_carries e r)"

definition handle_wf :: "claim_handle \<Rightarrow> bool" where
  "handle_wf h \<longleftrightarrow> \<not> handle_malformed h \<and> \<not> handle_disagrees h \<and>
     serializeDomainNotificationEnvelope (envelope_value (ch_envelope h)) = Some (ch_canonicalEnvelope h)"

lemma envelope_object_identity [simp]:
  "envelope_object (identity_of e relay policy t) = envelope_value e"
  by (simp add: envelope_object_def identity_of_def envelope_value_def)

lemma row_carries_envelope: "row_carries e r \<Longrightarrow> envelopeFromRow r = Some e"
  by (auto simp: row_carries_def envelopeFromRow_def)

lemma row_carries_evolves: "row_evolves r s \<Longrightarrow> row_carries e r \<Longrightarrow> row_carries e s"
  by (simp add: row_carries_def row_evolves_def)

lemma claim_always_gives_handle:
  assumes "row_carries e r"
  shows "\<exists>h. createClaimHandle (claim_row b t lease a r) = Inr h \<and> ch_envelope h = e"
proof -
  obtain c where "serializeDomainNotificationEnvelope (envelope_value e) = Some c"
    using serialize_parsed assms by (auto simp: row_carries_def)
  then show ?thesis using row_carries_envelope[OF assms] by (simp add: createClaimHandle_def)
qed

lemma claimed_handle_wf:
  assumes "createClaimHandle (claim_row b t lease (truncate_ms clock) r) = Inr h" "row_carries e r"
    and "safe_owner b" "claim_token_pattern t" "5 \<le> lease" "0 \<le> ob_attempt r" "ob_attempt r < 6"
  shows "handle_wf h \<and> ch_envelope h = e"
proof (rule createClaimHandle_Inr[OF assms(1)], goal_cases)
  case (1 e' canonical b' t' a x)
  then have e: "e' = e" using row_carries_envelope[OF assms(2)] by simp
  obtain relay policy createdAt where i: "ob_event r = identity_of e relay policy createdAt"
    using assms(2) by (auto simp: row_carries_def)
  have s: "handle_scope h r" using 1(7) by simp
  have "a div 1000 < x div 1000"
    using 1(5,6) assms(5) by (auto simp: truncate_ms_def)
  then show ?case
    using 1(2-5,8-) assms(3,4,6,7) s i e
    by (simp add: handle_wf_def handle_malformed_def handle_disagrees_def handle_scope_def identity_of_def)
qed

end
