(* ===== verification/Outbox_Safety.thy ===== *)
theory Outbox_Safety
  imports  Outbox_System
begin

text \<open>
  Safety of the outbox system: the invariant of its reachable states, how the rows evolve, how
  often an event can be claimed, and what a publication implies.
\<close>

section \<open>The invariant\<close>

definition handle_known :: "outbox_row list \<Rightarrow> claim_handle \<Rightarrow> bool" where
  "handle_known rows h \<longleftrightarrow> handle_wf h \<and>
     (\<exists>r\<in>set rows. row_id r = ch_eventId h \<and> ch_publicationAttempt h \<le> ob_attempt r \<and>
        row_carries (ch_envelope h) r)"

definition issued_at :: "(nat \<Rightarrow> claim_handle list) \<Rightarrow> (nat \<times> nat) set" where
  "issued_at I = {(p, i). i < length (I p)}"

definition claim_key :: "(nat \<Rightarrow> claim_handle list) \<Rightarrow> nat \<times> nat \<Rightarrow> jstr \<times> int" where
  "claim_key I = (\<lambda>(p, i). (ch_eventId (I p ! i), ch_publicationAttempt (I p ! i)))"

definition outbox_ok :: "outbox_system \<Rightarrow> bool" where
  "outbox_ok s \<longleftrightarrow> rows_ok (os_rows s) \<and> (\<forall>r\<in>set (os_rows s). row_canonical r) \<and>
     (\<forall>p. \<forall>h\<in>set (os_issued s p). handle_known (os_rows s) h) \<and>
     inj_on (claim_key (os_issued s)) (issued_at (os_issued s))"

definition outbox_evolves :: "outbox_system \<Rightarrow> outbox_system \<Rightarrow> bool" where
  "outbox_evolves s t \<longleftrightarrow> rows_evolve (os_rows s) (os_rows t)"

lemma outbox_ok_empty: "outbox_ok empty_outbox"
  by (simp add: outbox_ok_def empty_outbox_def rows_ok_def issued_at_def)

lemma handle_known_evolve: "rows_evolve rows rows' \<Longrightarrow> handle_known rows h \<Longrightarrow> handle_known rows' h"
  unfolding handle_known_def rows_evolve_def
  by (metis order_trans row_carries_evolves row_evolves_def)

lemma two_updates_canonical:
  assumes "two_updates rows rows'" "\<forall>r\<in>set rows. row_canonical r"
  shows "\<forall>r\<in>set rows'. row_canonical r"
proof -
  obtain mid t u where "updates_ok t rows mid" "updates_ok u mid rows'"
    using assms(1) by (auto simp: two_updates_def)
  then show ?thesis
    using assms(2) updates_ok_origin unfolding row_canonical_def by (metis row_carries_evolves)
qed

lemma outbox_ok_rows:
  assumes "outbox_ok s" "two_updates (os_rows s) rows"
  shows "outbox_ok \<lparr>os_rows = rows, os_issued = os_issued s\<rparr>"
proof -
  have "rows_ok rows" "\<forall>r\<in>set rows. row_canonical r"
    using assms two_updates_rows_ok two_updates_canonical by (auto simp: outbox_ok_def)
  moreover have "\<forall>p. \<forall>h\<in>set (os_issued s p). handle_known rows h"
    using assms handle_known_evolve[OF two_updates_evolve] unfolding outbox_ok_def by blast
  ultimately show ?thesis using assms(1) by (simp add: outbox_ok_def)
qed

lemma claim_key_new:
  assumes "inj_on (claim_key I) (issued_at I)"
    and "\<And>q j. j < length (I q) \<Longrightarrow> claim_key I (q, j) \<noteq> (ch_eventId h, ch_publicationAttempt h)"
  shows "inj_on (claim_key (I(p := I p @ [h]))) (issued_at (I(p := I p @ [h])))"
proof -
  let ?J = "I(p := I p @ [h])"
  have at: "issued_at ?J = insert (p, length (I p)) (issued_at I)"
    by (auto simp: issued_at_def less_Suc_eq split: if_splits)
  have old: "claim_key ?J x = claim_key I x" if "x \<in> issued_at I" for x
    using that by (auto simp: claim_key_def issued_at_def nth_append)
  have new: "claim_key ?J (p, length (I p)) = (ch_eventId h, ch_publicationAttempt h)"
    by (simp add: claim_key_def)
  have "inj_on (claim_key ?J) (issued_at I)" using assms(1) old by (simp add: inj_on_def)
  moreover have "claim_key ?J (p, length (I p)) \<notin> claim_key ?J ` (issued_at I - {(p, length (I p))})"
  proof
    assume "claim_key ?J (p, length (I p)) \<in> claim_key ?J ` (issued_at I - {(p, length (I p))})"
    then obtain x where x: "x \<in> issued_at I" "claim_key ?J x = claim_key ?J (p, length (I p))"
      by (metis DiffD1 imageE)
    then have "claim_key I x = (ch_eventId h, ch_publicationAttempt h)" using new old by simp
    then show False using assms(2)[of "snd x" "fst x"] x(1) by (auto simp: issued_at_def)
  qed
  ultimately show ?thesis unfolding at by (simp add: inj_on_insert)
qed

lemma claimNext_handle_wf:
  assumes "claimNext uuid env scope options (rows, issued) = ((rows', issued @ [h]), r)"
    and "rows_ok rows" "random_ok env" "\<forall>r\<in>set rows. row_canonical r"
  shows "handle_known rows' h"
proof -
  obtain lease where l: "validateClaimOptions options = Inr lease" "validateScope scope = Inr scope"
      "snd (withTenantTransaction uuid Thrown (ce_tx env) (contextForScope scope (ce_now env) (lease + 30))
         (claim_body env scope (co_claimedBy options) lease) rows) = Inr (Some h)"
      "fst (withTenantTransaction uuid Thrown (ce_tx env) (contextForScope scope (ce_now env) (lease + 30))
         (claim_body env scope (co_claimedBy options) lease) rows) = rows'"
    using assms(1) by (auto simp: claimNext_def validateScope_def split: sum.splits option.splits prod.splits if_splits)
  note o = validateClaimOptions_Inr[OF l(1)]
  have body: "claim_body env scope (co_claimedBy options) lease rows = (rows', Inr (Some h))"
    using withTenantTransaction_Inr l(3,4) by (metis prod.collapse)
  obtain mid q where m: "updates_ok (ce_settle_clock env) rows mid" and
      q: "next_eligible scope (ce_locked env) (truncate_ms (ce_claim_clock env)) mid = Some q"
      "createClaimHandle (claim_row (co_claimedBy options) (base64url (ce_random env)) lease
            (truncate_ms (ce_claim_clock env)) q) = Inr h"
      "rows' = update_where (\<lambda>p. p = q) (claim_row (co_claimedBy options) (base64url (ce_random env)) lease
            (truncate_ms (ce_claim_clock env))) mid"
    by (rule claim_body_effect[OF body assms(2) _ _ assms(3)]) (use o in auto)
  have mem: "q \<in> set mid" "ob_attempt q < 6" using next_eligible_Some[OF q(1)] by (auto simp: eligible_def)
  then obtain e where e: "row_carries e q"
    using updates_ok_origin[OF m] assms(4) unfolding row_canonical_def by (metis row_carries_evolves)
  have "row_ok q" using updates_ok_rows_ok[OF m assms(2)] mem rows_ok_D by blast
  then have "0 \<le> ob_attempt q" by (simp add: row_ok_def attempt_check_def)
  then have wf: "handle_wf h \<and> ch_envelope h = e"
    using claimed_handle_wf[OF q(2) e] claim_token_base64url assms(3) o mem(2) by (simp add: random_ok_def)
  let ?r = "claim_row (co_claimedBy options) (base64url (ce_random env)) lease (truncate_ms (ce_claim_clock env)) q"
  have "?r \<in> set rows'" using mem(1) q(3) by (auto simp: update_where_def)
  moreover have "row_carries e ?r" using e by (simp add: row_carries_def)
  ultimately show ?thesis
    using wf claimed_handle_holds[OF q(2)] unfolding handle_known_def
    by (intro conjI bexI[of _ ?r]) simp_all
qed

lemma pending_row_ok [simp]: "row_ok (pending_row e)" "inserted_ok (pending_row e)"
  by (simp_all add: inserted_ok_def pending_row_def row_checks)

lemma insertOrReplay_effect:
  assumes "insertOrReplay createdAt input rows = (rows', r)"
  obtains "rows' = rows"
    | e where "parseDomainNotificationEnvelope (oi_envelope input) = Some e"
      "rows' = rows @ [pending_row (identity_of e (oi_relayServicePrincipalId input)
          (oi_policyVersionId input) createdAt)]"
      "\<not> list_ex (\<lambda>q. row_id q = en_eventId e) rows" "en_aggregateVersion e \<le> MAX_INTEGER"
      "\<forall>q\<in>set rows. semantic_key (ob_event q) \<noteq> semantic_key (identity_of e
          (oi_relayServicePrincipalId input) (oi_policyVersionId input) createdAt)"
  using assms
  by (auto simp: insertOrReplay_def Let_def identity_of_def filter_empty_conv not_less
      split: option.splits list.splits if_splits)

lemma bounded_text_check: "bounded_string n s \<Longrightarrow> text_check n s"
proof -
  assume b: "bounded_string n s"
  have "array_from s \<noteq> []" using b concat_array_from[of s] by (force simp: bounded_string_def)
  then show ?thesis
    using b length_array_from_le[of s] no_control_units
    by (cases "array_from s") (auto simp: bounded_string_def text_check_def)
qed

lemma identity_of_check:
  assumes "parseDomainNotificationEnvelope v = Some e" "en_aggregateVersion e \<le> MAX_INTEGER"
  shows "identity_check (identity_of e relay policy createdAt)"
proof -
  have "event_pair_check (identity_of e relay policy createdAt)"
    unfolding event_pair_check_def list_ex_iff
    by (intro bexI[of _ "en_eventType e"]) (simp_all add: identity_of_def)
  then show ?thesis
    using parse_envelope_wf[OF assms(1)] assms(2) bounded_text_check
    by (auto simp: identity_check_def wf_envelope_def identity_of_def split: option.splits)
qed

lemma insertOrReplay_permitted:
  assumes "insertOrReplay createdAt input rows = (rows', r)" "rows_ok rows"
  shows "rows_ok rows' \<and> (rows' = rows \<or>
    (\<exists>n. rows' = rows @ [n] \<and> inserted_ok n \<and> row_ok n \<and> ei_created_at (ob_event n) = createdAt))"
proof (rule insertOrReplay_effect[OF assms(1)], goal_cases)
  case (2 e)
  let ?i = "identity_of e (oi_relayServicePrincipalId input) (oi_policyVersionId input) createdAt"
  have f: "ob_event (pending_row ?i) = ?i" "ei_id ?i = en_eventId e" "ei_created_at ?i = createdAt"
    by (simp_all add: pending_row_def identity_of_def)
  have "en_eventId e \<notin> ei_id ` ob_event ` set rows" "semantic_key ?i \<notin> semantic_key ` ob_event ` set rows"
    using 2(3,5) by (force simp: list_ex_iff)+
  then have "rows_ok rows'"
    using assms(2) identity_of_check[OF 2(1,4)] unfolding rows_ok_def Let_def 2(2) by (simp add: f image_image)
  then show ?case using 2(2) f by auto
qed (use assms(2) in simp)

lemma outbox_step_ok:
  assumes "outbox_ok s" "outbox_step uuid s t"
  shows "outbox_ok t \<and> outbox_evolves s t"
  using assms(2)
proof (cases rule: outbox_step.cases)
  case (insert_step createdAt input rows r)
  then show ?thesis
  proof (cases rule: insertOrReplay_effect[OF insert_step(2)])
    case 1
    then show ?thesis using insert_step(1) assms(1) by (simp add: outbox_evolves_def)
  next
    case (2 e)
    let ?n = "pending_row (identity_of e (oi_relayServicePrincipalId input) (oi_policyVersionId input) createdAt)"
    have "rows_ok rows"
      using assms(1) insertOrReplay_permitted[OF insert_step(2)] by (simp add: outbox_ok_def)
    moreover have "row_canonical ?n"
      using envelope.parse_embed[OF 2(1)] unfolding row_canonical_def row_carries_def pending_row_def by fastforce
    moreover have ev: "rows_evolve (os_rows s) rows" using 2(2) by (auto simp: rows_evolve_def intro: row_evolves_refl)
    ultimately show ?thesis
      using assms(1) 2(2) insert_step(1) handle_known_evolve[OF ev] by (auto simp: outbox_ok_def outbox_evolves_def)
  qed
next
  case (claim_step env scope options p rows issued r)
  have ok: "rows_ok (os_rows s)" "\<forall>r\<in>set (os_rows s). row_canonical r"
    using assms(1) by (simp_all add: outbox_ok_def)
  note e = claimNext_effect[OF claim_step(2) ok(1) claim_step(3)]
  have base: "outbox_ok \<lparr>os_rows = rows, os_issued = os_issued s\<rparr>" using outbox_ok_rows assms(1) e by blast
  have evo: "outbox_evolves s t" using e two_updates_evolve claim_step(1) by (simp add: outbox_evolves_def)
  consider "issued = os_issued s p" | h where "issued = os_issued s p @ [h]" "fresh_handle (os_rows s) rows h"
    using e by blast
  then show ?thesis
  proof cases
    case 1
    then show ?thesis using base evo claim_step(1) by simp
  next
    case 2
    have known: "handle_known rows h"
      using claimNext_handle_wf[OF claim_step(2)[unfolded 2(1)] ok(1) claim_step(3) ok(2)] .
    have "claim_key (os_issued s) (q, j) \<noteq> (ch_eventId h, ch_publicationAttempt h)"
      if "j < length (os_issued s q)" for q j
    proof
      assume k: "claim_key (os_issued s) (q, j) = (ch_eventId h, ch_publicationAttempt h)"
      have "handle_known (os_rows s) (os_issued s q ! j)"
        using assms(1) nth_mem[OF that] unfolding outbox_ok_def by blast
      then obtain r' where r': "r' \<in> set (os_rows s)" "row_id r' = ch_eventId h"
          "ch_publicationAttempt h \<le> ob_attempt r'"
        using k by (auto simp: handle_known_def claim_key_def)
      obtain q' where "q' \<in> set (os_rows s)" "row_id q' = ch_eventId h" "ob_attempt q' < ch_publicationAttempt h"
        using 2(2) by (auto simp: fresh_handle_def)
      then show False using r' rows_ok_same_id[OF ok(1)] by fastforce
    qed
    then have "inj_on (claim_key ((os_issued s)(p := issued))) (issued_at ((os_issued s)(p := issued)))"
      unfolding 2(1) using assms(1) by (intro claim_key_new) (auto simp: outbox_ok_def)
    then have "outbox_ok t" using base known claim_step(1) 2(1) by (auto simp: outbox_ok_def)
    then show ?thesis using evo by blast
  qed
next
  case (publish_step penv input p rows issued outcome)
  have "two_updates (os_rows s) rows \<and> issued = os_issued s p"
    using publishClaimed_effect[OF publish_step(2)] assms(1) by (simp add: outbox_ok_def)
  then show ?thesis
    using outbox_ok_rows[OF assms(1)] two_updates_evolve publish_step(1) by (simp add: outbox_evolves_def)
next
  case (failure_step fenv input kind code p rows issued result)
  have "two_updates (os_rows s) rows \<and> issued = os_issued s p"
    using recordFailure_effect[OF failure_step(2)] assms(1) by (simp add: outbox_ok_def)
  then show ?thesis
    using outbox_ok_rows[OF assms(1)] two_updates_evolve failure_step(1) by (simp add: outbox_evolves_def)
qed

interpretation outbox: evolving_system "outbox_step uuid" outbox_ok outbox_evolves for uuid
proof unfold_locales
  show "outbox_ok t" "outbox_evolves s t" if "outbox_ok s" "outbox_step uuid s t" for s t
    using outbox_step_ok[OF that] by simp_all
  show "outbox_evolves s s" for s by (simp add: outbox_evolves_def)
  show "outbox_evolves s u" if "outbox_evolves s t" "outbox_evolves t u" for s t u
    using that rows_evolve_trans unfolding outbox_evolves_def by blast
qed

lemma reachable_outbox_ok: "(outbox_step uuid)\<^sup>*\<^sup>* empty_outbox s \<Longrightarrow> outbox_ok s"
  using outbox.reachable_ok outbox_ok_empty by blast

section \<open>An example outbox\<close>

definition example_insert :: outbox_insert where
  "example_insert = \<lparr>oi_envelope = envelope_value example_envelope,
     oi_relayServicePrincipalId = example_id 8, oi_policyVersionId = js ''v1''\<rparr>"

definition example_row :: outbox_row where
  "example_row = pending_row (identity_of example_envelope (example_id 8) (js ''v1'') 7000)"

definition example_outbox :: outbox_system where
  "example_outbox = \<lparr>os_rows = [example_row], os_issued = (\<lambda>p. [])\<rparr>"

lemma parse_example_envelope:
  "parseDomainNotificationEnvelope (envelope_value example_envelope) = Some example_envelope"
  by (rule parse_envelope_of_wf[OF wf_example_envelope])

lemma example_outbox_reachable: "(outbox_step uuid)\<^sup>*\<^sup>* empty_outbox example_outbox"
proof -
  obtain t where t: "serializeDomainNotificationEnvelope (envelope_value example_envelope) = Some t"
    using serialize_parsed[OF parse_example_envelope] by blast
  have "\<not> MAX_INTEGER < en_aggregateVersion example_envelope"
    by (simp add: MAX_INTEGER_def example_envelope_def)
  then have "insertOrReplay 7000 example_insert (os_rows empty_outbox) =
      ([example_row], Inr (ei_id (ob_event example_row), False))"
    by (simp add: insertOrReplay_def example_insert_def parse_example_envelope t empty_outbox_def
        example_row_def pending_row_def Let_def)
  from outbox_step.insert_step[OF this, of uuid] show ?thesis
    by (simp add: empty_outbox_def example_outbox_def)
qed

section \<open>Properties of every run\<close>

text \<open>C23: Whatever the relays and writers do, in any order and with any failures, the rows of the
  outbox keep its unique keys (the id, and the semantic key of scope, causing command, event type and
  aggregate version, so that no event is written twice), the checks on the columns that identify an
  event, and the checks on the columns of its publication, and they carry envelopes that parse to
  themselves. Foreign keys and the check on the payload are left to the database.\<close>
theorem outbox_invariant:
  assumes "(outbox_step uuid)\<^sup>*\<^sup>* empty_outbox s"
  shows "distinct (map row_id (os_rows s)) \<and>
    distinct (map (\<lambda>r. semantic_key (ob_event r)) (os_rows s)) \<and>
    (\<forall>r\<in>set (os_rows s). identity_check (ob_event r) \<and> row_ok r \<and>
       (\<exists>e. row_carries e r \<and> envelopeFromRow r = Some e))"
  using reachable_outbox_ok[OF assms] row_carries_envelope
  unfolding outbox_ok_def row_canonical_def rows_ok_def Let_def list_all_iff map_map comp_def set_map
  by blast

lemma outbox_invariant_witness:
  "identity_check (ob_event example_row) \<and> row_ok example_row \<and> (\<exists>e. envelopeFromRow example_row = Some e)"
  using outbox_invariant[OF example_outbox_reachable] by (auto simp: example_outbox_def)


text \<open>C28: An event is never lost or rewritten: a row stays in the table with the same envelope, its
  attempts never decrease, and once it is published or terminally failed it never changes again.\<close>
theorem outbox_settled_forever:
  assumes "(outbox_step uuid)\<^sup>*\<^sup>* empty_outbox s" and "(outbox_step uuid)\<^sup>*\<^sup>* s t" and "r \<in> set (os_rows s)"
  shows "\<exists>q\<in>set (os_rows t). ob_event q = ob_event r \<and> ob_attempt r \<le> ob_attempt q \<and>
    (ob_state r \<in> {Published, TerminalFailed, TerminalUnconfirmed} \<longrightarrow> q = r)"
  using outbox.reachable_below[OF assms(2) reachable_outbox_ok[OF assms(1)]] assms(3)
  by (fastforce simp: outbox_evolves_def rows_evolve_def row_evolves_def settled_def is_terminal_def)

text \<open>C27: An event is claimed at most six times over all relay processes together, and no attempt of
  an event is ever given to two claims.\<close>
theorem outbox_claims_bounded:
  assumes "(outbox_step uuid)\<^sup>*\<^sup>* empty_outbox s"
  shows "card {(p, i). i < length (os_issued s p) \<and> ch_eventId (os_issued s p ! i) = event} \<le> 6 \<and>
    (\<forall>p q i j. i < length (os_issued s p) \<longrightarrow> j < length (os_issued s q) \<longrightarrow>
       ch_eventId (os_issued s p ! i) = ch_eventId (os_issued s q ! j) \<longrightarrow>
       ch_publicationAttempt (os_issued s p ! i) = ch_publicationAttempt (os_issued s q ! j) \<longrightarrow>
       p = q \<and> i = j)"
proof -
  let ?I = "os_issued s"
  let ?A = "{(p, i). i < length (?I p) \<and> ch_eventId (?I p ! i) = event}"
  have inj: "inj_on (claim_key ?I) (issued_at ?I)"
    using reachable_outbox_ok[OF assms] by (simp add: outbox_ok_def)
  have known: "handle_wf (?I p ! i)" if "i < length (?I p)" for p i
    using reachable_outbox_ok[OF assms] nth_mem[OF that] unfolding outbox_ok_def handle_known_def by blast
  have "?A \<subseteq> issued_at ?I" by (auto simp: issued_at_def)
  then have "inj_on (claim_key ?I) ?A" using inj inj_on_subset by blast
  moreover have "claim_key ?I ` ?A \<subseteq> {event} \<times> {1..6}"
  proof
    fix k assume "k \<in> claim_key ?I ` ?A"
    then obtain p i where "i < length (?I p)" "ch_eventId (?I p ! i) = event" "k = claim_key ?I (p, i)" by auto
    then show "k \<in> {event} \<times> {1..6}"
      using known[of i p] by (simp add: claim_key_def handle_wf_def handle_malformed_def)
  qed
  ultimately have "card ?A \<le> card ({event} \<times> {1..6::int})"
    by (intro card_inj_on_le) auto
  moreover have "card ({event} \<times> {1..6::int}) = 6" by (simp add: card_cartesian_product)
  moreover have "p = q \<and> i = j"
    if "i < length (?I p)" "j < length (?I q)" "ch_eventId (?I p ! i) = ch_eventId (?I q ! j)"
      "ch_publicationAttempt (?I p ! i) = ch_publicationAttempt (?I q ! j)" for p q i j
    using inj_onD[OF inj, of "(p, i)" "(q, j)"] that by (simp add: claim_key_def issued_at_def)
  ultimately show ?thesis by (metis (no_types, lifting))
qed

end
