(* ===== verification/Outbox_Publication.thy ===== *)
theory Outbox_Publication
  imports Outbox_Safety
begin

text \<open>
  What the single operations of the outbox promise in a reachable state: who can publish, what a
  reported publication means, which event a claim picks, and where a failure leaves the event.
\<close>

section \<open>Publication\<close>

lemma withTenantTransaction_snd:
  assumes "snd (withTenantTransaction uuid thrown env c body s) = Inr a"
  shows "\<exists>s'. body s = (s', Inr a)"
  using assms by (metis prod.collapse withTenantTransaction_Inr)

lemma publish_body_sent:
  assumes "pb_sent (publish_body env c h rows) = Some e"
  shows "e = ch_envelope h \<and> pe_authorize env c (ch_spaceId h) = Inr True \<and> pe_role env = PRODUCT_RELAY_ROLE \<and>
    (\<exists>r\<in>set rows. holds_live_claim (pe_lock_clock env) h r \<and> rowMatchesHandle r h = Some True)"
proof -
  have l: "res_bind (lock_claim env h rows) (\<lambda>_. authorize_publication env c h) = Inr ()" "e = ch_envelope h"
    using assms by (auto simp: publish_body_def split: sum.splits option.splits)
  then have lock: "lock_claim env h rows = Inr ()" and auth: "authorize_publication env c h = Inr ()"
    by (auto simp: res_bind_Inr_iff)
  obtain r rs where r: "filter (holds_live_claim (pe_lock_clock env) h) rows = r # rs"
      "rowMatchesHandle r h = Some True" and role: "pe_role env = PRODUCT_RELAY_ROLE"
    using lock by (auto simp: lock_claim_def res_bind_Inr_iff assertProductRelayRole_def
        split: option.splits list.splits if_splits)
  have "r \<in> set (filter (holds_live_claim (pe_lock_clock env) h) rows)" using r(1) by simp
  then have "\<exists>r\<in>set rows. holds_live_claim (pe_lock_clock env) h r \<and> rowMatchesHandle r h = Some True"
    using r(2) by auto
  moreover have "pe_authorize env c (ch_spaceId h) = Inr True"
    using auth by (auto simp: authorize_publication_def split: sum.splits if_splits)
  ultimately show ?thesis using l(2) role by blast
qed

lemma validateHandle_Inr:
  "validateHandle now live issued input = Inr h \<Longrightarrow>
     \<exists>i<length issued. input = Issued i \<and> h = issued ! i"
  by (auto simp: validateHandle_def Let_def split: handle_ref.splits if_splits option.splits)

lemma publishClaimed_parts:
  assumes "publishClaimed uuid env input (rows, issued) = (s', r, sent)"
  obtains e where "r = Inl e" "sent = None" "s' = (rows, issued)"
  | i h c where "i < length issued" "input = Issued i" "h = issued ! i"
      "contextForHandle h True (pe_checked_at env) (pe_issued_at env) = Inr c"
      "withTenantTransaction uuid Thrown (pe_tx env) c (\<lambda>rows. pb_outcome (publish_body env c h rows)) rows =
         (fst s', Inr (case r of Inr a \<Rightarrow> a))" "\<exists>a. r = Inr a" "sent = pb_sent (publish_body env c h rows)"
  | i h c e where "i < length issued" "input = Issued i" "h = issued ! i"
      "contextForHandle h True (pe_checked_at env) (pe_issued_at env) = Inr c"
      "withTenantTransaction uuid Thrown (pe_tx env) c (\<lambda>rows. pb_outcome (publish_body env c h rows)) rows =
         (fst s', Inl e)"
      "r = (case (if transaction_entered uuid (pe_tx env) c then pb_acknowledged (publish_body env c h rows)
                  else None) of None \<Rightarrow> Inl e
            | Some m \<Rightarrow> Inr (if isPublished uuid env h m then PublishedResult (ch_eventId h) m
                           else UnresolvedResult (ch_eventId h) m))"
      "sent = (if transaction_entered uuid (pe_tx env) c then pb_sent (publish_body env c h rows) else None)"
proof (cases "validateHandle (pe_validated_at env) True issued input")
  case (Inl e)
  then show ?thesis using assms that(1) by (auto simp: publishClaimed_def)
next
  case (Inr h)
  then obtain i where i: "i < length issued" "input = Issued i" "h = issued ! i"
    using validateHandle_Inr by blast
  show ?thesis
  proof (cases "contextForHandle h True (pe_checked_at env) (pe_issued_at env)")
    case (Inl e)
    then show ?thesis using assms Inr that(1) by (auto simp: publishClaimed_def)
  next
    case c: (Inr c)
    obtain x y where tx: "withTenantTransaction uuid Thrown (pe_tx env) c
        (\<lambda>rows. pb_outcome (publish_body env c h rows)) rows = (x, y)" by fastforce
    show ?thesis
    proof (cases y)
      case (Inl e)
      then show ?thesis
        using assms Inr c tx by (intro that(3)[OF i c]) (auto simp: publishClaimed_def Let_def)
    next
      case y: (Inr a)
      then show ?thesis
        using assms Inr c tx by (intro that(2)[OF i c]) (auto simp: publishClaimed_def Let_def)
    qed
  qed
qed

text \<open>C25: A message leaves the relay only for an event whose live claim the caller holds, after the
  authorization service allowed it in the same transaction for the space of the event, and what is
  sent is the envelope that was written for that event.\<close>
theorem publication_needs_live_claim:
  assumes "(outbox_step uuid)\<^sup>*\<^sup>* empty_outbox s"
    and "publishClaimed uuid env input (os_rows s, os_issued s p) = (s', result, Some e)"
  shows "\<exists>i r c. input = Issued i \<and> i < length (os_issued s p) \<and> r \<in> set (os_rows s) \<and>
    holds_live_claim (pe_lock_clock env) (os_issued s p ! i) r \<and> row_carries e r \<and>
    sx_tenantId c = ei_tenant_id (ob_event r) \<and> sx_workspaceId c = ei_workspace_id (ob_event r) \<and>
    pe_authorize env c (ei_space_id (ob_event r)) = Inr True"
proof -
  obtain i h c where i: "i < length (os_issued s p)" "input = Issued i" "h = os_issued s p ! i"
    and c: "contextForHandle h True (pe_checked_at env) (pe_issued_at env) = Inr c"
    and sent: "pb_sent (publish_body env c h (os_rows s)) = Some e"
    by (rule publishClaimed_parts[OF assms(2)]) (auto split: if_splits)
  note b = publish_body_sent[OF sent]
  then obtain r where r: "r \<in> set (os_rows s)" "holds_live_claim (pe_lock_clock env) h r" by blast
  have ok: "outbox_ok s" using reachable_outbox_ok[OF assms(1)] .
  have "handle_known (os_rows s) h"
    using ok i nth_mem[OF i(1)] unfolding outbox_ok_def by blast
  then obtain q where q: "q \<in> set (os_rows s)" "row_id q = ch_eventId h" "row_carries (ch_envelope h) q"
    by (auto simp: handle_known_def)
  have sc: "handle_scope h r" using r(2) by (simp add: holds_live_claim_def holds_claim_def)
  then have "q = r" using q r(1) ok rows_ok_same_id by (metis handle_scope_def outbox_ok_def)
  moreover have "sx_tenantId c = ch_tenantId h" "sx_workspaceId c = ch_workspaceId h"
    using c by (auto simp: contextForHandle_def split: if_splits)
  moreover have "e = ch_envelope h" "pe_authorize env c (ch_spaceId h) = Inr True" using b by simp_all
  ultimately show ?thesis
    using i r q(3) sc by (intro exI[of _ i] exI[of _ r] exI[of _ c]) (simp add: handle_scope_def)
qed

text \<open>C29: A publication is reported only when it is recorded: the row of the event is marked
  published by this very attempt with this very message id, in the table the call leaves or in the
  one that the final read found.\<close>
theorem reported_publication_is_recorded:
  assumes "(outbox_step uuid)\<^sup>*\<^sup>* empty_outbox s"
    and "publishClaimed uuid env input (os_rows s, os_issued s p) = (s', Inr (PublishedResult event m), sent)"
  shows "\<exists>i. input = Issued i \<and> i < length (os_issued s p) \<and> event = ch_eventId (os_issued s p ! i) \<and>
    (\<exists>r\<in>set (fst s') \<union> set (pe_readback_rows env). published_as (os_issued s p ! i) m r)"
proof (rule publishClaimed_parts[OF assms(2)], goal_cases)
  case (2 i h c)
  have "pb_outcome (publish_body env c h (os_rows s)) = (fst s', Inr (PublishedResult event m))"
    using withTenantTransaction_Inr[OF 2(5)] by simp
  then show ?case
    using publish_body_effect reachable_outbox_ok[OF assms(1)] 2(1-3) by (fastforce simp: outbox_ok_def)
next
  case (3 i h c e)
  then have h: "event = ch_eventId h" "isPublished uuid env h m"
    by (auto split: option.splits if_splits)
  have "\<exists>r\<in>set (pe_readback_rows env). published_as h m r"
  proof -
    obtain c' where "snd (withTenantTransaction uuid Thrown (pe_readback_tx env) c'
        (\<lambda>rows. (rows, res_bind (assertProductRelayRole (pe_readback_role env)) (\<lambda>_.
           case pe_readback_fault env of Some e \<Rightarrow> Inl (Thrown e)
           | None \<Rightarrow> Inr (list_ex (published_as h m) rows)))) (pe_readback_rows env)) = Inr True"
      using h(2) by (auto simp: isPublished_def split: sum.splits)
    from withTenantTransaction_snd[OF this]
    show ?thesis by (auto simp: res_bind_Inr_iff list_ex_iff split: option.splits)
  qed
  then show ?case using 3(1-3) h(1) by blast
qed simp

section \<open>Claims\<close>

definition settled_rows :: "claim_env \<Rightarrow> claim_scope \<Rightarrow> outbox_row list \<Rightarrow> outbox_row list" where
  "settled_rows env scope rows = update_where (interrupted scope (ce_settle_clock env))
     (settle_interrupted (ce_settle_clock env)) rows"

text \<open>C30: A claim takes the event that is due first, ordered by the time of the next attempt, the time
  of creation and the id, after abandoned sixth attempts were settled. When the database works it
  never fails: the claim gives a handle for exactly that row, under the next attempt number, and
  leaves every other row alone; it gives none only when nothing is due.\<close>
theorem claimNext_takes_first_due:
  assumes "(outbox_step uuid)\<^sup>*\<^sup>* empty_outbox s"
    and "validateScope scope = Inr scope" "validateClaimOptions options = Inr lease"
    and "random_ok env" "ce_role env = PRODUCT_RELAY_ROLE" "ce_fault env = None"
    and "transaction_entered uuid (ce_tx env) (contextForScope scope (ce_now env) (lease + 30))"
    and "te_commit (ce_tx env) = CommitDone" "te_settings_cleared (ce_tx env)"
  shows "(\<exists>r h. r \<in> set (settled_rows env scope (os_rows s)) \<and>
      eligible scope (ce_locked env) (truncate_ms (ce_claim_clock env)) r \<and>
      (\<forall>q\<in>set (settled_rows env scope (os_rows s)).
         eligible scope (ce_locked env) (truncate_ms (ce_claim_clock env)) q \<longrightarrow> claim_order r \<le> claim_order q) \<and>
      claimNext uuid env scope options (os_rows s, os_issued s p) =
        ((update_where (\<lambda>q. q = r) (claim_row (co_claimedBy options) (base64url (ce_random env)) lease
            (truncate_ms (ce_claim_clock env))) (settled_rows env scope (os_rows s)),
          os_issued s p @ [h]), Inr (Some (Issued (length (os_issued s p))))) \<and>
      ch_eventId h = row_id r \<and> ch_publicationAttempt h = ob_attempt r + 1 \<and> row_carries (ch_envelope h) r) \<or>
    ((\<forall>q\<in>set (settled_rows env scope (os_rows s)).
        \<not> eligible scope (ce_locked env) (truncate_ms (ce_claim_clock env)) q) \<and>
     claimNext uuid env scope options (os_rows s, os_issued s p) =
       ((settled_rows env scope (os_rows s), os_issued s p), Inr None))"
proof -
  let ?rows = "settled_rows env scope (os_rows s)" and ?at = "truncate_ms (ce_claim_clock env)"
  let ?f = "claim_row (co_claimedBy options) (base64url (ce_random env)) lease ?at"
  let ?body = "claim_body env scope (co_claimedBy options) lease"
  have ok: "rows_ok (os_rows s)" "\<forall>r\<in>set (os_rows s). row_canonical r"
    using reachable_outbox_ok[OF assms(1)] by (simp_all add: outbox_ok_def)
  have upd: "updates_ok (ce_settle_clock env) (os_rows s) ?rows"
    unfolding settled_rows_def
    using ok(1) by (intro updates_ok_where settle_interrupted_ok) (auto dest: rows_ok_D)
  note run = withTenantTransaction_cleared[OF assms(7-9), of ?body]
  show ?thesis
  proof (cases "next_eligible scope (ce_locked env) ?at ?rows")
    case None
    then have "?body (os_rows s) = (?rows, Inr None)"
      using assms(5,6) by (simp add: claim_body_def assertProductRelayRole_def settled_rows_def Let_def)
    then show ?thesis
      using run assms(2,3) None by (simp add: claimNext_def next_eligible_None)
  next
    case (Some r)
    note e = next_eligible_Some[OF Some]
    obtain env' where carries: "row_carries env' r"
      using updates_ok_origin[OF upd] e ok(2) unfolding row_canonical_def by (metis row_carries_evolves)
    then obtain h where h: "createClaimHandle (?f r) = Inr h" "ch_envelope h = env'"
      using claim_always_gives_handle by blast
    have "update_where (\<lambda>q. row_id q = row_id r \<and> scope_matches scope q) ?f ?rows = update_where (\<lambda>q. q = r) ?f ?rows"
      using e updates_ok_rows_ok[OF upd ok(1)] by (intro update_claimed_only) (simp_all add: eligible_def)
    then have "?body (os_rows s) = (update_where (\<lambda>q. q = r) ?f ?rows, Inr (Some h))"
      using assms(5,6) Some h(1)
      by (simp add: claim_body_def assertProductRelayRole_def settled_rows_def Let_def)
    then have "claimNext uuid env scope options (os_rows s, os_issued s p) =
        ((update_where (\<lambda>q. q = r) ?f ?rows, os_issued s p @ [h]), Inr (Some (Issued (length (os_issued s p)))))"
      using run assms(2,3) by (simp add: claimNext_def)
    then show ?thesis using e claimed_handle_holds[OF h(1)] carries h(2) by blast
  qed
qed

section \<open>Failures\<close>

lemma validateHandle_wf:
  "i < length issued \<Longrightarrow> handle_wf (issued ! i) \<Longrightarrow> validateHandle now False issued (Issued i) = Inr (issued ! i)"
  by (simp add: validateHandle_def handle_wf_def Let_def)

lemma recordFailure_result:
  assumes "outbox_ok s"
    and "i < length (os_issued s p)" "h = os_issued s p ! i"
    and "r \<in> set (os_rows s)" "holds_claim h r" "safe_code code"
    and "contextForHandle h False (fe_issued_at env) (fe_issued_at env) = Inr c"
    and "transaction_entered uuid (fe_tx env) c" "te_commit (fe_tx env) = CommitDone" "te_settings_cleared (fe_tx env)"
    and "fe_role env = PRODUCT_RELAY_ROLE" "fe_fault env = None"
  shows "recordFailure uuid env (Issued i) kind code (os_rows s, os_issued s p) =
    (if ob_attempt r < 6
     then ((update_where (\<lambda>q. q = r) (retry_row (fe_clock env) code
              ([1, 5, 30, 120, 600] ! nat (ob_attempt r - 1))) (os_rows s), os_issued s p), Inr (Settled RetryWait))
     else ((update_where (\<lambda>q. q = r) (terminal_row (fe_clock env) code (terminal_state kind)) (os_rows s),
            os_issued s p), Inr (Settled (terminal_state kind))))"
proof -
  have ok: "rows_ok (os_rows s)" "handle_wf h"
    using assms(1) assms(3) nth_mem[OF assms(2)]
    unfolding outbox_ok_def handle_known_def by blast+
  have a: "ch_publicationAttempt h = ob_attempt r" "1 \<le> ob_attempt r"
    using assms(5) ok(2) by (simp_all add: holds_claim_def handle_wf_def handle_malformed_def)
  have only: "update_where (holds_claim h) f (os_rows s) = update_where (\<lambda>q. q = r) f (os_rows s)" for f
    unfolding update_where_def
    using assms(4,5) rows_ok_same_id[OF ok(1)]
    by (intro map_cong) (auto simp: holds_claim_def handle_scope_def)
  have ex: "list_ex (holds_claim h) (os_rows s)" using assms(4,5) by (auto simp: list_ex_iff)
  have delay: "retryDelaySeconds (ob_attempt r) = Inr ([1, 5, 30, 120, 600] ! nat (ob_attempt r - 1))"
    if "ob_attempt r < 6"
    using that a(2) by (auto simp: retryDelaySeconds_def RETRY_DELAYS_SECONDS_def)
  have body: "failure_body env h kind code (os_rows s) =
    (if ob_attempt r < 6
     then (update_where (\<lambda>q. q = r) (retry_row (fe_clock env) code
              ([1, 5, 30, 120, 600] ! nat (ob_attempt r - 1))) (os_rows s), Inr (Settled RetryWait))
     else (update_where (\<lambda>q. q = r) (terminal_row (fe_clock env) code (terminal_state kind)) (os_rows s),
            Inr (Settled (terminal_state kind))))"
    using assms(11,12) a delay ex
    by (simp add: failure_body_def assertProductRelayRole_def Let_def only)
  note v = validateHandle_wf[OF assms(2), of "fe_validated_at env", folded assms(3), OF ok(2)]
  show ?thesis
    using assms(6,7) v body withTenantTransaction_cleared[OF assms(8-10), of "failure_body env h kind code" "os_rows s" _ _ Thrown]
    by (auto simp: recordFailure_def)
qed

text \<open>C31: Recording the failure of a claimed event always settles the claim when the database works:
  before the sixth attempt the event waits for its next attempt, 1, 5, 30, 120 or 600 seconds away;
  after the sixth it is terminally failed, or unconfirmed when the failure was ambiguous. No other
  row changes.\<close>
theorem recordFailure_settles:
  assumes "(outbox_step uuid)\<^sup>*\<^sup>* empty_outbox s"
    and "i < length (os_issued s p)" "h = os_issued s p ! i"
    and "r \<in> set (os_rows s)" "holds_claim h r" "safe_code code"
    and "contextForHandle h False (fe_issued_at env) (fe_issued_at env) = Inr c"
    and "transaction_entered uuid (fe_tx env) c" "te_commit (fe_tx env) = CommitDone" "te_settings_cleared (fe_tx env)"
    and "fe_role env = PRODUCT_RELAY_ROLE" "fe_fault env = None"
  shows "recordFailure uuid env (Issued i) kind code (os_rows s, os_issued s p) =
    (if ob_attempt r < 6
     then ((update_where (\<lambda>q. q = r) (retry_row (fe_clock env) code
              ([1, 5, 30, 120, 600] ! nat (ob_attempt r - 1))) (os_rows s), os_issued s p), Inr (Settled RetryWait))
     else ((update_where (\<lambda>q. q = r) (terminal_row (fe_clock env) code (terminal_state kind)) (os_rows s),
            os_issued s p), Inr (Settled (terminal_state kind))))"
  by (rule recordFailure_result[OF reachable_outbox_ok[OF assms(1)] assms(2-)])

end
