(* ===== verification/Outbox_Examples.thy ===== *)
theory Outbox_Examples
  imports Outbox_Publication
begin

text \<open>A small run of the outbox, for the witnesses of its properties: an event is written, claimed,
  and then published or failed.\<close>

definition example_scope :: claim_scope where
  "example_scope = \<lparr>cs_tenantId = example_id 2, cs_workspaceId = example_id 3, cs_spaceId = example_id 4,
     cs_relayServicePrincipalId = example_id 8, cs_policyVersionId = js ''v1''\<rparr>"

definition example_options :: claim_options where
  "example_options = \<lparr>co_claimedBy = js ''relay'', co_leaseSeconds = IntNum 30\<rparr>"

definition example_claim_env :: claim_env where
  "example_claim_env = \<lparr>ce_random = replicate 32 0, ce_now = 8000, ce_tx = quiet 8000,
     ce_role = PRODUCT_RELAY_ROLE, ce_fault = None, ce_settle_clock = 8000000, ce_claim_clock = 8000000,
     ce_locked = (\<lambda>_. False)\<rparr>"

definition example_claimed_row :: outbox_row where
  "example_claimed_row = claim_row (js ''relay'') (base64url (replicate 32 0)) 30 (truncate_ms 8000000) example_row"

definition example_handle :: claim_handle where
  "example_handle = (case createClaimHandle example_claimed_row of Inr h \<Rightarrow> h | Inl _ \<Rightarrow> undefined)"

definition example_claimed :: outbox_system where
  "example_claimed = \<lparr>os_rows = [example_claimed_row], os_issued = (\<lambda>p. [])(0 := [example_handle])\<rparr>"

lemma example_row_carries: "row_carries example_envelope example_row"
  using parse_example_envelope by (auto simp: row_carries_def example_row_def pending_row_def)

lemma example_handle_created: "createClaimHandle example_claimed_row = Inr example_handle"
  using claim_always_gives_handle[OF example_row_carries]
  unfolding example_handle_def example_claimed_row_def by (metis sum.simps(6))

lemma example_scope_ok [simp]: "validateScope example_scope = Inr example_scope"
  using uuid_v7_example by (simp add: validateScope_def example_scope_def uuid_v7_any js_def)

lemma example_options_ok [simp]: "validateClaimOptions example_options = Inr 30"
  by (simp add: validateClaimOptions_def example_options_def safe_owner_def js_def is_alnum_def is_digit_def)

lemma lower_example_id [simp]: "n < 10 \<Longrightarrow> lower_ascii (example_id n) = example_id n"
  by simp

lemma random_ok_example [simp]: "random_ok example_claim_env"
  by (simp add: random_ok_def example_claim_env_def list_all_iff)

lemma entered_example_scope [simp]:
  "transaction_entered (\<lambda>_. True) (quiet 8000) (contextForScope example_scope 8000 60)"
  by (simp add: transaction_entered_def parseSecurityContext_def contextForScope_def context_fields_ok_def
      optional_uuid_def principal_count_def isSecurityContextExpired_def Let_def example_scope_def js_def)

lemma example_row_fields [simp]:
  "ob_state example_row = Pending" "ob_attempt example_row = 0" "ob_next_attempt_at example_row = 7000"
  by (simp_all add: example_row_def pending_row_def identity_of_def)

lemma example_row_scope [simp]: "scope_matches example_scope example_row"
  by (simp add: scope_matches_def example_scope_def example_row_def pending_row_def identity_of_def
      example_envelope_def)

lemma example_claim_body:
  "claim_body example_claim_env example_scope (js ''relay'') 30 [example_row] =
     ([example_claimed_row], Inr (Some example_handle))"
proof -
  have "interrupted example_scope 8000000 example_row = False" by (simp add: interrupted_def)
  moreover have "eligible example_scope (\<lambda>_. False) (truncate_ms 8000000) example_row"
    by (simp add: eligible_def truncate_ms_def)
  ultimately show ?thesis
    using example_handle_created
    by (simp add: claim_body_def assertProductRelayRole_def example_claim_env_def update_where_def
        next_eligible_def example_claimed_row_def Let_def)
qed

lemma example_claim_runs:
  "claimNext (\<lambda>_. True) example_claim_env example_scope example_options ([example_row], []) =
     (([example_claimed_row], [example_handle]), Inr (Some (Issued 0)))"
proof -
  have "withTenantTransaction (\<lambda>_. True) Thrown (ce_tx example_claim_env)
      (contextForScope example_scope (ce_now example_claim_env) 60)
      (claim_body example_claim_env example_scope (js ''relay'') 30) [example_row] =
      ([example_claimed_row], Inr (Some example_handle))"
    by (rule withTenantTransaction_cleared)
       (simp_all add: example_claim_body, simp_all add: example_claim_env_def)
  then show ?thesis by (simp add: claimNext_def, simp add: example_options_def)
qed

lemma example_claimed_reachable: "(outbox_step (\<lambda>_. True))\<^sup>*\<^sup>* empty_outbox example_claimed"
proof -
  have "outbox_step (\<lambda>_. True) example_outbox example_claimed"
    using outbox_step.claim_step[of "\<lambda>_. True" example_claim_env example_scope example_options example_outbox 0]
      example_claim_runs by (simp add: example_outbox_def example_claimed_def)
  then show ?thesis using example_outbox_reachable by (rule rtranclp.rtrancl_into_rtrancl[rotated])
qed

lemma example_handle_fields [simp]:
  "ch_claimExpiresAt example_handle = 38000" "ch_eventId example_handle = row_id example_row"
  "ch_publicationAttempt example_handle = 1" "ch_envelope example_handle = example_envelope"
  "ch_spaceId example_handle = example_id 4" "ch_tenantId example_handle = example_id 2"
  "ch_workspaceId example_handle = example_id 3" "ch_relayServicePrincipalId example_handle = example_id 8"
  "ch_policyVersionId example_handle = js ''v1''"
proof -
  note h = example_handle_created[unfolded example_claimed_row_def]
  show "ch_claimExpiresAt example_handle = 38000"
    by (rule createClaimHandle_Inr[OF h]) (auto simp: truncate_ms_def)
  show "ch_eventId example_handle = row_id example_row" "ch_publicationAttempt example_handle = 1"
    using claimed_handle_holds[OF h] by simp_all
  show "ch_envelope example_handle = example_envelope"
    by (rule createClaimHandle_Inr[OF h]) (use row_carries_envelope[OF example_row_carries] in auto)
  have "handle_scope example_handle example_row" by (rule createClaimHandle_Inr[OF h]) simp
  then show "ch_spaceId example_handle = example_id 4" "ch_tenantId example_handle = example_id 2"
    "ch_workspaceId example_handle = example_id 3" "ch_relayServicePrincipalId example_handle = example_id 8"
    "ch_policyVersionId example_handle = js ''v1''"
    by (simp_all add: handle_scope_def example_row_def pending_row_def identity_of_def example_envelope_def)
qed

lemma example_handle_holds: "holds_claim example_handle example_claimed_row"
  and example_handle_matches: "rowMatchesHandle example_claimed_row example_handle = Some True"
  using claimed_handle_holds[OF example_handle_created[unfolded example_claimed_row_def]]
  by (simp_all add: example_claimed_row_def)

lemma example_handle_wf: "handle_wf example_handle"
proof -
  have "claim_token_pattern (base64url (replicate 32 0))"
    by (rule claim_token_base64url) (simp_all add: list_all_iff)
  moreover have "safe_owner (js ''relay'')"
    by (simp add: safe_owner_def js_def is_alnum_def is_digit_def)
  ultimately show ?thesis
    using claimed_handle_wf[OF example_handle_created[unfolded example_claimed_row_def] example_row_carries] by simp
qed

section \<open>Publishing it\<close>

definition example_publish_env :: publish_env where
  "example_publish_env = \<lparr>pe_validated_at = 9000, pe_checked_at = 9000, pe_issued_at = 9000,
     pe_tx = quiet 9000, pe_role = PRODUCT_RELAY_ROLE, pe_lock_fault = None, pe_lock_clock = 9000000,
     pe_authorize = (\<lambda>c space. Inr True), pe_publish = (\<lambda>e. Inr (JStr (js ''m1''))), pe_mark_fault = None,
     pe_mark_clock = 9000000, pe_readback_at = 9000, pe_readback_tx = quiet 9000,
     pe_readback_role = PRODUCT_RELAY_ROLE, pe_readback_fault = None, pe_readback_rows = []\<rparr>"

definition example_context :: security_context where
  "example_context = (case contextForHandle example_handle True 9000 9000 of Inr c \<Rightarrow> c)"

lemma example_context_handle:
  "contextForHandle example_handle True 9000 9000 = Inr example_context"
  by (simp add: example_context_def contextForHandle_def)

lemma example_context_entered: "transaction_entered (\<lambda>_. True) (quiet 9000) example_context"
  by (simp add: example_context_def contextForHandle_def transaction_entered_def parseSecurityContext_def
      context_fields_ok_def optional_uuid_def principal_count_def isSecurityContextExpired_def Let_def
      example_envelope_def js_def)

lemma example_row_live: "holds_live_claim 9000000 example_handle example_claimed_row"
  using example_handle_holds
  by (simp add: holds_live_claim_def expired_def example_claimed_row_def truncate_ms_def)

lemma example_publish_body:
  "publish_body example_publish_env example_context example_handle [example_claimed_row] =
     \<lparr>pb_sent = Some example_envelope, pb_acknowledged = Some (js ''m1''),
      pb_outcome = ([mark_row 9000000 (js ''m1'') example_claimed_row],
        Inr (PublishedResult (row_id example_row) (js ''m1'')))\<rparr>"
proof -
  have "validateMessageId (JStr (js ''m1'')) = Some (js ''m1'')"
    by (simp add: validateMessageId_def require_string_with_def js_def hasControlCharacters_def is_high_def)
  then show ?thesis
    using example_row_live example_handle_matches
    by (simp add: publish_body_def lock_claim_def authorize_publication_def mark_published_def
        assertProductRelayRole_def example_publish_env_def update_where_def)
qed

lemma example_publishes:
  "publishClaimed (\<lambda>_. True) example_publish_env (Issued 0) ([example_claimed_row], [example_handle]) =
     (([mark_row 9000000 (js ''m1'') example_claimed_row], [example_handle]),
      Inr (PublishedResult (row_id example_row) (js ''m1'')), Some example_envelope)"
proof -
  have v: "validateHandle 9000 True [example_handle] (Issued 0) = Inr example_handle"
    using example_handle_wf by (simp add: validateHandle_def handle_wf_def)
  have "withTenantTransaction (\<lambda>_. True) Thrown (quiet 9000) example_context
      (\<lambda>rows. pb_outcome (publish_body example_publish_env example_context example_handle rows)) [example_claimed_row] =
      ([mark_row 9000000 (js ''m1'') example_claimed_row], Inr (PublishedResult (row_id example_row) (js ''m1'')))"
    by (rule withTenantTransaction_cleared) (simp_all add: example_context_entered example_publish_body)
  moreover have "pe_validated_at example_publish_env = 9000" "pe_checked_at example_publish_env = 9000"
    "pe_issued_at example_publish_env = 9000" "pe_tx example_publish_env = quiet 9000"
    by (simp_all add: example_publish_env_def)
  ultimately show ?thesis
    using v example_context_handle by (simp add: publishClaimed_def Let_def example_publish_body)
qed

lemma publication_needs_live_claim_witness:
  "\<exists>r. holds_live_claim 9000000 example_handle r \<and> row_carries example_envelope r"
  using publication_needs_live_claim[OF example_claimed_reachable, of example_publish_env "Issued 0" 0]
    example_publishes by (fastforce simp: example_claimed_def example_publish_env_def)

lemma reported_publication_is_recorded_witness:
  "published_as example_handle (js ''m1'') (mark_row 9000000 (js ''m1'') example_claimed_row)"
  using reported_publication_is_recorded[OF example_claimed_reachable, of example_publish_env "Issued 0" 0]
    example_publishes by (fastforce simp: example_claimed_def example_publish_env_def)

section \<open>Failing it\<close>

definition example_failure_env :: failure_env where
  "example_failure_env = \<lparr>fe_validated_at = 9000, fe_issued_at = 9000, fe_tx = quiet 9000,
     fe_role = PRODUCT_RELAY_ROLE, fe_fault = None, fe_clock = 9000000\<rparr>"

lemma example_failure_context:
  obtains c where "contextForHandle example_handle False 9000 9000 = Inr c"
    and "transaction_entered (\<lambda>_. True) (quiet 9000) c"
  by (simp add: contextForHandle_def transaction_entered_def parseSecurityContext_def
      context_fields_ok_def optional_uuid_def principal_count_def isSecurityContextExpired_def Let_def
      example_envelope_def js_def)

lemma example_recordFailure:
  assumes "safe_code code"
  shows "recordFailure (\<lambda>_. True) example_failure_env (Issued 0) kind code ([example_claimed_row], [example_handle]) =
    (([retry_row 9000000 code 1 example_claimed_row], [example_handle]), Inr (Settled RetryWait))"
proof (rule example_failure_context)
  fix c assume "contextForHandle example_handle False 9000 9000 = Inr c"
    "transaction_entered (\<lambda>_. True) (quiet 9000) c"
  moreover have "ob_attempt example_claimed_row = 1" by (simp add: example_claimed_row_def)
  ultimately show ?thesis
    using recordFailure_result[OF reachable_outbox_ok[OF example_claimed_reachable], of 0 0 example_handle
        example_claimed_row code example_failure_env c "\<lambda>_. True" kind] assms example_handle_holds
    by (simp add: example_claimed_def example_failure_env_def update_where_def)
qed

lemma recordFailure_settles_witness:
  "recordFailure (\<lambda>_. True) example_failure_env (Issued 0) Ambiguous (js ''timeout_error'')
     ([example_claimed_row], [example_handle]) =
   (([retry_row 9000000 (js ''timeout_error'') 1 example_claimed_row], [example_handle]), Inr (Settled RetryWait))"
proof -
  obtain c where c: "contextForHandle example_handle False 9000 9000 = Inr c"
      and e: "transaction_entered (\<lambda>_. True) (quiet 9000) c"
    by (rule example_failure_context)
  have "safe_code (js ''timeout_error'')"
    by (simp add: safe_code_def js_def is_code_unit_def is_digit_def)
  moreover have "ob_attempt example_claimed_row = 1" by (simp add: example_claimed_row_def)
  ultimately show ?thesis
    using recordFailure_settles[OF example_claimed_reachable, of 0 0 example_handle example_claimed_row
        "js ''timeout_error''" example_failure_env c Ambiguous] c e example_handle_holds
    by (simp add: example_claimed_def example_failure_env_def update_where_def)
qed

lemma example_claim_fields:
  "ce_role example_claim_env = PRODUCT_RELAY_ROLE" "ce_fault example_claim_env = None"
  "ce_tx example_claim_env = quiet 8000" "ce_now example_claim_env = 8000"
  by (simp_all add: example_claim_env_def)

lemma claimNext_takes_first_due_witness:
  "\<exists>s h. claimNext (\<lambda>_. True) example_claim_env example_scope example_options ([example_row], []) =
     (s, Inr (Some h))"
proof -
  have "interrupted example_scope 8000000 example_row = False" by (simp add: interrupted_def)
  then have rows: "settled_rows example_claim_env example_scope [example_row] = [example_row]"
    by (simp add: settled_rows_def update_where_def example_claim_env_def)
  have "eligible example_scope (ce_locked example_claim_env) (truncate_ms (ce_claim_clock example_claim_env)) example_row"
    by (simp add: eligible_def truncate_ms_def example_claim_env_def)
  then show ?thesis
    using claimNext_takes_first_due[OF example_outbox_reachable, of example_scope example_options 30
        example_claim_env "\<lambda>_. True" 0]
    by (auto simp: example_outbox_def rows example_claim_fields)
qed


lemma outbox_settled_forever_witness:
  "\<exists>q\<in>set [example_row]. ob_event q = ob_event example_row \<and> ob_attempt example_row \<le> ob_attempt q"
  using outbox_settled_forever[OF example_outbox_reachable[of "\<lambda>_. True"] rtranclp.rtrancl_refl, of example_row]
  by (simp add: example_outbox_def)

lemma outbox_claims_bounded_witness:
  "card {(p, i). i < length (os_issued example_claimed p) \<and>
     ch_eventId (os_issued example_claimed p ! i) = row_id example_row} \<le> 6"
  using outbox_claims_bounded[OF example_claimed_reachable] by blast

end
