(* ===== verification/Product_Relay.thy ===== *)
theory Product_Relay
  imports Outbox_Examples
begin

text \<open>
  The relay process (\<open>apps/outbox-relay/src/product-relay.ts\<close>): it publishes the next due event with
  the SQS publisher, classifies failures, and records them with the repository.
\<close>

section \<open>Classifying errors\<close>

definition is_lower_or_digit :: "nat \<Rightarrow> bool" where
  "is_lower_or_digit u \<longleftrightarrow> (97 \<le> u \<and> u \<le> 122) \<or> is_digit u"

definition is_upper :: "nat \<Rightarrow> bool" where
  "is_upper u \<longleftrightarrow> 65 \<le> u \<and> u \<le> 90"

fun split_words :: "jstr \<Rightarrow> jstr" where
  "split_words (u # v # r) =
     (if is_lower_or_digit u \<and> is_upper v then u # 95 # v # split_words r else u # split_words (v # r))"
| "split_words r = r"

function join_runs :: "jstr \<Rightarrow> jstr" where
  "join_runs [] = []"
| "join_runs (u # r) =
     (if is_alnum u then u # join_runs r else 95 # join_runs (dropWhile (\<lambda>v. \<not> is_alnum v) r))"
  by pat_completeness auto
termination join_runs
  by (relation "measure length") (auto simp: le_imp_less_Suc length_dropWhile_le)

definition strip_underscores :: "jstr \<Rightarrow> jstr" where
  "strip_underscores s = rev (dropWhile (\<lambda>u. u = 95) (rev (dropWhile (\<lambda>u. u = 95) s)))"

definition normalizeErrorCode :: "jstr \<Rightarrow> jstr" where
  "normalizeErrorCode name =
     (let code = take 100 (lower_ascii (strip_underscores (join_runs (split_words name))))
      in if code = [] then js ''sqs_ambiguous_failure'' else code)"

definition readErrorName :: "jsval \<Rightarrow> jstr" where
  "readErrorName e =
     (case e of
        JObj fs \<Rightarrow> (case get_prop fs (js ''name'') of
            JStr name \<Rightarrow> if length name > 0 then name else js ''sqs_ambiguous_failure''
          | _ \<Rightarrow> js ''sqs_ambiguous_failure'')
      | _ \<Rightarrow> js ''sqs_ambiguous_failure'')"

definition DETERMINISTIC_SQS_REJECTIONS :: "jstr list" where
  "DETERMINISTIC_SQS_REJECTIONS = map js [''AccessDenied'', ''AccessDeniedException'',
     ''AWS.SimpleQueueService.NonExistentQueue'', ''InvalidAddress'', ''InvalidMessageContents'',
     ''QueueDoesNotExist'']"

definition classifyProductSqsError :: "jsval \<Rightarrow> failure_kind \<times> jstr" where
  "classifyProductSqsError e =
     (let name = readErrorName e
      in (if name \<in> set DETERMINISTIC_SQS_REJECTIONS then Deterministic else Ambiguous,
          normalizeErrorCode name))"

section \<open>The SQS publisher\<close>

text \<open>What the transport does with a request before the deadline.\<close>

datatype transport = Responded jsval | TransportFailed jsval | DeadlineExceeded

fun sendWithDeadline :: "transport \<Rightarrow> jsval + jsval" where
  "sendWithDeadline (Responded v) = Inr v"
| "sendWithDeadline (TransportFailed e) = Inl e"
| "sendWithDeadline DeadlineExceeded = Inl (error_object ''TimeoutError'')"

record send_message_input =
  sm_QueueUrl :: jstr
  sm_MessageBody :: jstr
  sm_event_id :: jstr

definition createProductSendMessageInput :: "jstr \<Rightarrow> envelope \<Rightarrow> send_message_input option" where
  "createProductSendMessageInput queueUrl e =
     map_option (\<lambda>canonical. \<lparr>sm_QueueUrl = queueUrl, sm_MessageBody = canonical,
       sm_event_id = en_eventId e\<rparr>) (serializeDomainNotificationEnvelope (envelope_value e))"

fun member_of :: "jsval \<Rightarrow> string \<Rightarrow> jsval" where
  "member_of (JObj fs) k = get_prop fs (js k)"
| "member_of _ k = JUndef"

definition sendAndSettle :: "jstr \<Rightarrow> (send_message_input \<Rightarrow> transport) \<Rightarrow> envelope \<Rightarrow> jsval + jsval" where
  "sendAndSettle queueUrl sqs e =
     (case createProductSendMessageInput queueUrl e of
        None \<Rightarrow> Inl (error_object ''DomainNotificationValidationError'')
      | Some input \<Rightarrow>
          res_bind (sendWithDeadline (sqs input)) (\<lambda>acknowledgment.
            case validateMessageId (member_of acknowledgment ''MessageId'') of
              None \<Rightarrow> Inl (error_object ''MissingMessageId'')
            | Some m \<Rightarrow> Inr (JStr m)))"

definition PRODUCT_NOTIFICATION_RETENTION_SECONDS :: nat where
  "PRODUCT_NOTIFICATION_RETENTION_SECONDS = 86400"

definition queue_contract_ok :: "jsval \<Rightarrow> bool" where
  "queue_contract_ok attributes =
     (case attributes of
        JObj fs \<Rightarrow>
          get_prop fs (js ''MessageRetentionPeriod'') =
            JStr (nat_text PRODUCT_NOTIFICATION_RETENTION_SECONDS) \<and>
          \<not> has_own fs (js ''RedrivePolicy'') \<and>
          \<not> (get_prop fs (js ''FifoQueue'') \<noteq> JUndef \<and> get_prop fs (js ''FifoQueue'') \<noteq> JStr (js ''false'')) \<and>
          list_all (\<lambda>k. k \<in> set (map js [''MessageRetentionPeriod'', ''RedrivePolicy'', ''FifoQueue'']))
            (string_keys fs)
      | _ \<Rightarrow> False)"

definition verifyQueueContract :: "transport \<Rightarrow> jsval + unit" where
  "verifyQueueContract response =
     res_bind (sendWithDeadline response) (\<lambda>r.
       if queue_contract_ok (member_of r ''Attributes'') then Inr ()
       else Inl (error_object ''ProductQueueContractError''))"

record sqs_publisher =
  qp_queueUrl :: jstr
  qp_verified :: bool

definition deadline_ok :: "jsnum \<Rightarrow> bool" where
  "deadline_ok n = (case n of IntNum i \<Rightarrow> \<not> (i < 1 \<or> i > 60000) | _ \<Rightarrow> False)"

definition createVerified :: "jstr \<Rightarrow> jsnum \<Rightarrow> jsnum \<Rightarrow> transport \<Rightarrow> jsval + sqs_publisher" where
  "createVerified queueUrl sendTimeoutMs verificationTimeoutMs response =
     (if queueUrl = [] \<or> \<not> deadline_ok sendTimeoutMs \<or> \<not> deadline_ok verificationTimeoutMs
      then Inl (error_object ''Error'')
      else (case verifyQueueContract response of
              Inl e \<Rightarrow> Inl (error_object ''ProductQueueContractError'')
            | Inr _ \<Rightarrow> Inr \<lparr>qp_queueUrl = queueUrl, qp_verified = True\<rparr>))"

definition sqs_publish :: "sqs_publisher \<Rightarrow> (send_message_input \<Rightarrow> transport) \<Rightarrow> envelope \<Rightarrow> jsval + jsval" where
  "sqs_publish publisher sqs e =
     (if \<not> qp_verified publisher then Inl (error_object ''ProductQueueContractError'')
      else sendAndSettle (qp_queueUrl publisher) sqs e)"

section \<open>The relay\<close>

datatype relay_outcome =
    Idle
  | RelayPublished jstr jstr
  | PublicationUnresolved
  | PublicationFailed failure_kind jstr
  | Rethrown relay_error

record relay_env =
  ry_publish :: publish_env
  ry_unresolved :: failure_env
  ry_failure :: failure_env

fun error_value :: "relay_error \<Rightarrow> jsval" where
  "error_value ClaimRejected = error_object ''ProductRelayClaimRejectedError''"
| "error_value NotAuthorized = error_object ''ProductRelayAuthorizationError''"
| "error_value EnvelopeInvalid = error_object ''DomainNotificationValidationError''"
| "error_value MissingMessageId = error_object ''MissingMessageId''"
| "error_value (Thrown e) = e"

definition settle_failure ::
  "(jstr \<Rightarrow> bool) \<Rightarrow> failure_env \<Rightarrow> handle_ref \<Rightarrow> relay_error \<Rightarrow> outbox_row list \<times> claim_handle list \<Rightarrow>
     (outbox_row list \<times> claim_handle list) \<times> relay_outcome" where
  "settle_failure uuid env input e s =
     (if e = ClaimRejected \<or> e = NotAuthorized then (s, Rethrown e)
      else let (kind, code) = classifyProductSqsError (error_value e)
           in case recordFailure uuid env input kind code s of
                (s', Inl e') \<Rightarrow> (s', Rethrown e')
              | (s', Inr _) \<Rightarrow> (s', PublicationFailed kind code))"

definition relay_publishClaimed ::
  "(jstr \<Rightarrow> bool) \<Rightarrow> relay_env \<Rightarrow> handle_ref \<Rightarrow> outbox_row list \<times> claim_handle list \<Rightarrow>
     (outbox_row list \<times> claim_handle list) \<times> relay_outcome" where
  "relay_publishClaimed uuid env input s =
     (case publishClaimed uuid (ry_publish env) input s of
        (s1, Inr (PublishedResult event m), _) \<Rightarrow> (s1, RelayPublished event m)
      | (s1, Inr (UnresolvedResult event m), _) \<Rightarrow>
          (case recordFailure uuid (ry_unresolved env) input Ambiguous (js ''accepted_marker_unresolved'') s1 of
             (s2, Inr _) \<Rightarrow> (s2, PublicationUnresolved)
           | (s2, Inl e) \<Rightarrow> settle_failure uuid (ry_failure env) input e s2)
      | (s1, Inl e, _) \<Rightarrow> settle_failure uuid (ry_failure env) input e s1)"

definition publishNext ::
  "(jstr \<Rightarrow> bool) \<Rightarrow> claim_env \<Rightarrow> relay_env \<Rightarrow> claim_scope \<Rightarrow> claim_options \<Rightarrow>
     outbox_row list \<times> claim_handle list \<Rightarrow> (outbox_row list \<times> claim_handle list) \<times> relay_outcome" where
  "publishNext uuid cenv env scope options s =
     (case claimNext uuid cenv scope options s of
        (s1, Inl e) \<Rightarrow> (s1, Rethrown e)
      | (s1, Inr None) \<Rightarrow> (s1, Idle)
      | (s1, Inr (Some h)) \<Rightarrow> relay_publishClaimed uuid env h s1)"

section \<open>Codes\<close>

lemma join_runs_units: "u \<in> set (join_runs s) \<Longrightarrow> is_alnum u \<or> u = 95"
  by (induction s rule: join_runs.induct) (auto split: if_splits)

lemma set_dropWhile: "u \<in> set (dropWhile P s) \<Longrightarrow> u \<in> set s"
  by (metis dropWhile_append3 in_set_conv_decomp set_dropWhileD)

lemma strip_units: "u \<in> set (strip_underscores s) \<Longrightarrow> u \<in> set s"
  unfolding strip_underscores_def by (metis set_dropWhile set_rev)

lemma strip_hd: "strip_underscores s \<noteq> [] \<Longrightarrow> hd (strip_underscores s) \<noteq> 95"
proof -
  let ?t = "dropWhile (\<lambda>u. u = 95) s"
  assume ne: "strip_underscores s \<noteq> []"
  then have t: "?t \<noteq> []" unfolding strip_underscores_def by (metis dropWhile.simps(1) rev.simps(1))
  have h: "hd ?t \<noteq> 95" using hd_dropWhile[OF t] by simp
  have "rev (dropWhile (\<lambda>u. u = 95) (rev ?t)) @ rev (takeWhile (\<lambda>u. u = 95) (rev ?t)) = ?t"
    by (metis rev_append rev_rev_ident takeWhile_dropWhile_id)
  then have "hd (strip_underscores s) = hd ?t"
    using ne unfolding strip_underscores_def by (metis hd_append2)
  then show ?thesis using h by simp
qed

lemma lower_alnum: "is_alnum u \<Longrightarrow> is_code_unit (lower_ascii_unit u)"
  by (auto simp: is_alnum_def is_code_unit_def lower_ascii_unit_def is_digit_def)

text \<open>Every error name, whatever a library put into it, is turned into an outcome code the table
  accepts: 1 to 100 lower-case letters, digits and underscores, starting with a letter or digit. So
  the relay can always record the failure it classified.\<close>
theorem classified_code_is_safe: "safe_code (snd (classifyProductSqsError e))"
proof -
  have "safe_code (normalizeErrorCode name)" for name
  proof (cases "strip_underscores (join_runs (split_words name))")
    case Nil
    then show ?thesis
      by (simp add: normalizeErrorCode_def lower_ascii_def safe_code_def js_def is_code_unit_def is_digit_def)
  next
    case (Cons u r)
    then have units: "\<forall>v\<in>set (u # r). is_alnum v \<or> v = 95"
      using strip_units join_runs_units by metis
    moreover have "u \<noteq> 95" using strip_hd Cons by (metis list.distinct(1) list.sel(1))
    moreover have "lower_ascii_unit 95 = 95" by (simp add: lower_ascii_unit_def)
    ultimately have "is_code_unit (lower_ascii_unit u)"
      "\<forall>v\<in>set (take 99 r). is_code_unit (lower_ascii_unit v) \<or> lower_ascii_unit v = 95"
      using lower_alnum by (auto dest!: in_set_takeD) 
    then show ?thesis
      using Cons by (simp add: normalizeErrorCode_def lower_ascii_def safe_code_def list_all_iff take_map
          numeral_eq_Suc)
  qed
  then show ?thesis by (simp add: classifyProductSqsError_def Let_def)
qed

section \<open>What a relay leaves behind\<close>

lemma recordFailure_releases:
  assumes "recordFailure uuid env input kind code (rows, issued) = (s', Inr a)"
  shows "\<exists>i<length issued. input = Issued i \<and> snd s' = issued \<and> (\<forall>q\<in>set (fst s'). \<not> holds_claim (issued ! i) q)"
proof -
  obtain h where h: "validateHandle (fe_validated_at env) False issued input = Inr h"
    using assms by (auto simp: recordFailure_def split: sum.splits)
  obtain c where tx: "withTenantTransaction uuid Thrown (fe_tx env) c (failure_body env h kind code) rows = (fst s', Inr a)"
      and s': "snd s' = issued"
    using assms h by (auto simp: recordFailure_def split: sum.splits if_splits prod.splits)
  have "fst s' = update_where (holds_claim h) (terminal_row (fe_clock env) code (terminal_state kind)) rows \<or>
      (\<exists>d. fst s' = update_where (holds_claim h) (retry_row (fe_clock env) code d) rows)"
    using withTenantTransaction_Inr[OF tx]
    by (auto simp: failure_body_def Let_def split: sum.splits option.splits if_splits) metis+
  moreover have "\<not> holds_claim h (terminal_row k m (terminal_state kind) r)" "\<not> holds_claim h (retry_row k m d r)" for k m d r
    by (simp_all add: holds_claim_def retry_row_def terminal_row_def terminal_state_def split: failure_kind.split)
  ultimately have "\<forall>q\<in>set (fst s'). \<not> holds_claim h q" by (auto simp: update_where_def)
  then show ?thesis using validateHandle_Inr[OF h] s' by blast
qed

lemma settle_failure_releases:
  assumes "settle_failure uuid env input e (rows, issued) = (s', outcome)"
    and "outcome = PublicationUnresolved \<or> (\<exists>kind code. outcome = PublicationFailed kind code)"
  shows "\<exists>i<length issued. input = Issued i \<and> (\<forall>q\<in>set (fst s'). \<not> holds_claim (issued ! i) q)"
proof -
  obtain kind code where k: "classifyProductSqsError (error_value e) = (kind, code)" by fastforce
  obtain t q where t: "recordFailure uuid env input kind code (rows, issued) = (t, q)" by fastforce
  have "\<exists>a. q = Inr a" "s' = t"
    using assms k t by (auto simp: settle_failure_def split: if_splits sum.splits)
  then show ?thesis using recordFailure_releases t by blast
qed

lemma publishClaimed_issued:
  "publishClaimed uuid env input (rows, issued) = (s', r) \<Longrightarrow> snd s' = issued"
  by (auto simp: publishClaimed_def Let_def split: sum.splits prod.splits option.splits)

text \<open>C32: When the relay reports that a publication failed or is unresolved, the claim it worked under
  is over: no row of the table is claimed under its handle any more, so the handle can never
  publish again and the event is free for its next attempt or terminally settled.\<close>
theorem relay_failure_releases_claim:
  assumes "relay_publishClaimed uuid env input (rows, issued) = (s', outcome)"
    and "outcome = PublicationUnresolved \<or> (\<exists>kind code. outcome = PublicationFailed kind code)"
  shows "\<exists>i<length issued. input = Issued i \<and> (\<forall>q\<in>set (fst s'). \<not> holds_claim (issued ! i) q)"
proof -
  obtain rows1 issued1 r sent where p: "publishClaimed uuid (ry_publish env) input (rows, issued) = ((rows1, issued1), r, sent)"
    by (metis prod.exhaust)
  have [simp]: "issued1 = issued" using publishClaimed_issued[OF p] by simp
  show ?thesis
  proof (cases r)
    case (Inl e)
    then have "settle_failure uuid (ry_failure env) input e (rows1, issued) = (s', outcome)"
      using assms(1) p by (simp add: relay_publishClaimed_def)
    then show ?thesis using settle_failure_releases assms(2) by blast
  next
    case (Inr a)
    show ?thesis
    proof (cases a)
      case (PublishedResult event m)
      then show ?thesis using assms p Inr by (auto simp: relay_publishClaimed_def)
    next
      case (UnresolvedResult event m)
      obtain rows2 issued2 q where f: "recordFailure uuid (ry_unresolved env) input Ambiguous
          (js ''accepted_marker_unresolved'') (rows1, issued) = ((rows2, issued2), q)"
        by (metis prod.exhaust)
      have [simp]: "issued2 = issued"
        using f by (auto simp: recordFailure_def split: sum.splits if_splits prod.splits)
      show ?thesis
      proof (cases q)
        case (Inl e)
        then have "settle_failure uuid (ry_failure env) input e (rows2, issued) = (s', outcome)"
          using assms(1) p f \<open>r = Inr a\<close> UnresolvedResult by (simp add: relay_publishClaimed_def)
        then show ?thesis using settle_failure_releases assms(2) by blast
      next
        case q: (Inr b)
        then have "s' = (rows2, issued)"
          using assms(1) p f Inr UnresolvedResult by (simp add: relay_publishClaimed_def)
        then show ?thesis using recordFailure_releases f q by fastforce
      qed
    qed
  qed
qed

definition example_relay_env :: relay_env where
  "example_relay_env = \<lparr>ry_publish = example_publish_env\<lparr>pe_publish := (\<lambda>e. Inl (error_object ''TimeoutError''))\<rparr>,
     ry_unresolved = example_failure_env, ry_failure = example_failure_env\<rparr>"

lemma example_relay_publish_fails:
  "publishClaimed (\<lambda>_. True) (ry_publish example_relay_env) (Issued 0) ([example_claimed_row], [example_handle]) =
     (([example_claimed_row], [example_handle]), Inl (Thrown (error_object ''TimeoutError'')), Some example_envelope)"
proof -
  let ?env = "ry_publish example_relay_env"
  have v: "validateHandle 9000 True [example_handle] (Issued 0) = Inr example_handle"
    using example_handle_wf by (simp add: validateHandle_def handle_wf_def)
  have body: "publish_body ?env example_context example_handle [example_claimed_row] =
      \<lparr>pb_sent = Some example_envelope, pb_acknowledged = None,
       pb_outcome = ([example_claimed_row], Inl (Thrown (error_object ''TimeoutError'')))\<rparr>"
    using example_row_live example_handle_matches
    by (simp add: publish_body_def lock_claim_def authorize_publication_def assertProductRelayRole_def
        example_relay_env_def example_publish_env_def)
  have "withTenantTransaction (\<lambda>_. True) Thrown (quiet 9000) example_context
      (\<lambda>rows. pb_outcome (publish_body ?env example_context example_handle rows)) [example_claimed_row] =
      ([example_claimed_row], Inl (Thrown (error_object ''TimeoutError'')))"
    by (rule withTenantTransaction_fails) (simp_all add: example_context_entered body)
  moreover have "pe_validated_at ?env = 9000" "pe_checked_at ?env = 9000" "pe_issued_at ?env = 9000"
    "pe_tx ?env = quiet 9000"
    by (simp_all add: example_publish_env_def example_relay_env_def)
  ultimately show ?thesis
    using v example_context_handle example_context_entered by (simp add: publishClaimed_def Let_def body)
qed

lemma timeout_code: "classifyProductSqsError (error_object ''TimeoutError'') = (Ambiguous, js ''timeout_error'')"
  by (simp add: classifyProductSqsError_def readErrorName_def error_object_def obj_def get_prop_def
      DETERMINISTIC_SQS_REJECTIONS_def normalizeErrorCode_def js_def is_lower_or_digit_def is_upper_def
      is_digit_def is_alnum_def strip_underscores_def lower_ascii_def lower_ascii_unit_def Let_def)

lemma relay_failure_releases_claim_witness:
  "\<exists>rows. relay_publishClaimed (\<lambda>_. True) example_relay_env (Issued 0) ([example_claimed_row], [example_handle]) =
     ((rows, [example_handle]), PublicationFailed Ambiguous (js ''timeout_error'')) \<and>
     (\<forall>q\<in>set rows. \<not> holds_claim example_handle q)"
proof -
  have r: "relay_publishClaimed (\<lambda>_. True) example_relay_env (Issued 0) ([example_claimed_row], [example_handle]) =
      (([retry_row 9000000 (js ''timeout_error'') 1 example_claimed_row], [example_handle]),
       PublicationFailed Ambiguous (js ''timeout_error''))"
    using example_relay_publish_fails example_recordFailure[of "js ''timeout_error''" Ambiguous]
    by (simp add: relay_publishClaimed_def settle_failure_def timeout_code)
       (simp add: example_relay_env_def safe_code_def js_def is_code_unit_def is_digit_def)
  show ?thesis using relay_failure_releases_claim[OF r] r by auto
qed

end
