(* ===== verification/Database_Ops.thy ===== *)
theory Database_Ops
  imports Transactions Canonical_Json Patterns
begin

text \<open>
  What the repositories of the database packages share. An operation reads the content of the
  database and either throws, which the surrounding transaction turns into a roll-back, or returns a
  result with the changed content; \<open>run\<close> makes an operation the body of a transaction.

  A uuid column holds the identifier in lower case, and a comparison inside a query does not depend
  on the case of its argument; a comparison in the code does. What is written to a JSON column is
  read back with its members in another order, here sorted; nothing reads it in a way that depends
  on the order.
\<close>

section \<open>Operations\<close>

type_synonym ('s, 'e, 'a) op = "'s \<Rightarrow> 'e + 'a \<times> 's"

definition op_return :: "'a \<Rightarrow> ('s, 'e, 'a) op" where
  "op_return a s = Inr (a, s)"

definition op_bind :: "('s, 'e, 'a) op \<Rightarrow> ('a \<Rightarrow> ('s, 'e, 'b) op) \<Rightarrow> ('s, 'e, 'b) op" where
  "op_bind m f s = (case m s of Inl e \<Rightarrow> Inl e | Inr (a, t) \<Rightarrow> f a t)"

definition op_fail :: "'e \<Rightarrow> ('s, 'e, 'a) op" where
  "op_fail e s = Inl e"

definition op_require :: "'e \<Rightarrow> bool \<Rightarrow> ('s, 'e, unit) op" where
  "op_require e b s = (if b then Inr ((), s) else Inl e)"

definition op_lift :: "'e + 'a \<Rightarrow> ('s, 'e, 'a) op" where
  "op_lift r s = (case r of Inl e \<Rightarrow> Inl e | Inr a \<Rightarrow> Inr (a, s))"

definition op_read :: "('s \<Rightarrow> 'a) \<Rightarrow> ('s, 'e, 'a) op" where
  "op_read f s = Inr (f s, s)"

definition op_modify :: "('s \<Rightarrow> 's) \<Rightarrow> ('s, 'e, unit) op" where
  "op_modify f s = Inr ((), f s)"

definition op_on :: "('s \<Rightarrow> 't) \<Rightarrow> ('t \<Rightarrow> 's \<Rightarrow> 's) \<Rightarrow> ('e \<Rightarrow> 'f) \<Rightarrow> ('t, 'e, 'a) op \<Rightarrow> ('s, 'f, 'a) op" where
  "op_on part put err m s = (case m (part s) of Inl e \<Rightarrow> Inl (err e) | Inr (a, t) \<Rightarrow> Inr (a, put t s))"

definition op_catch :: "('e \<Rightarrow> 'f) \<Rightarrow> ('s, 'e, 'a) op \<Rightarrow> ('s, 'f, 'a) op" where
  "op_catch err m s = (case m s of Inl e \<Rightarrow> Inl (err e) | Inr r \<Rightarrow> Inr r)"

fun op_each :: "('x \<Rightarrow> ('s, 'e, 'a) op) \<Rightarrow> 'x list \<Rightarrow> ('s, 'e, 'a list) op" where
  "op_each f [] = op_return []"
| "op_each f (x # xs) = op_bind (f x) (\<lambda>a. op_bind (op_each f xs) (\<lambda>as. op_return (a # as)))"

definition run :: "('s, 'e, 'a) op \<Rightarrow> 's \<Rightarrow> 's \<times> ('e + 'a)" where
  "run m s = (case m s of Inl e \<Rightarrow> (s, Inl e) | Inr (a, t) \<Rightarrow> (t, Inr a))"

named_theorems op_simps \<open>when an operation succeeds\<close>

lemma op_bind_Inr [op_simps]:
  "op_bind m f s = Inr (b, u) \<longleftrightarrow> (\<exists>a t. m s = Inr (a, t) \<and> f a t = Inr (b, u))"
  by (auto simp: op_bind_def split: sum.splits prod.splits)

lemma op_return_Inr [op_simps]: "op_return a s = Inr (b, u) \<longleftrightarrow> b = a \<and> u = s"
  by (auto simp: op_return_def)

lemma op_fail_Inr [op_simps]: "op_fail e s = Inr (b, u) \<longleftrightarrow> False"
  by (simp add: op_fail_def)

lemma op_require_Inr [op_simps]: "op_require e P s = Inr (b, u) \<longleftrightarrow> P \<and> u = s"
  by (auto simp: op_require_def)

lemma op_lift_Inr [op_simps]: "op_lift r s = Inr (b, u) \<longleftrightarrow> r = Inr b \<and> u = s"
  by (auto simp: op_lift_def split: sum.splits)

lemma op_read_Inr [op_simps]: "op_read f s = Inr (b, u) \<longleftrightarrow> b = f s \<and> u = s"
  by (auto simp: op_read_def)

lemma op_modify_Inr [op_simps]: "op_modify f s = Inr (b, u) \<longleftrightarrow> u = f s"
  by (auto simp: op_modify_def)

lemma op_catch_Inr [op_simps]: "op_catch err m s = Inr (b, u) \<longleftrightarrow> m s = Inr (b, u)"
  by (auto simp: op_catch_def split: sum.splits)

lemma op_on_Inr [op_simps]:
  "op_on part put err m s = Inr (b, u) \<longleftrightarrow> (\<exists>t. m (part s) = Inr (b, t) \<and> u = put t s)"
  by (auto simp: op_on_def split: sum.splits)

lemma run_Inr_iff: "run m s = (t, Inr a) \<longleftrightarrow> m s = Inr (a, t)"
  by (auto simp: run_def split: sum.splits)

lemma run_Inl_iff: "run m s = (t, Inl e) \<longleftrightarrow> m s = Inl e \<and> t = s"
  by (auto simp: run_def split: sum.splits)

text \<open>A loop over operations that leave the content alone leaves it alone.\<close>

lemma op_each_reads:
  assumes "\<And>x a t. x \<in> set xs \<Longrightarrow> f x s = Inr (a, t) \<Longrightarrow> t = s" and "op_each f xs s = Inr (as, t)"
  shows "t = s \<and> list_all2 (\<lambda>x a. f x s = Inr (a, s)) xs as"
  using assms
proof (induction xs arbitrary: as)
  case (Cons x xs)
  obtain a u bs where a: "f x s = Inr (a, u)" "op_each f xs u = Inr (bs, t)" "as = a # bs"
    using Cons.prems(2) by (auto simp: op_simps)
  then have "u = s" using Cons.prems(1)[of x a u] by simp
  then show ?case using a Cons by auto
qed (simp add: op_simps)

section \<open>Columns\<close>

definition uuid_column :: "jstr \<Rightarrow> jstr" where
  "uuid_column s = lower_ascii s"

lemma uuid_column_v7 [simp]: "uuid_v7 s \<Longrightarrow> uuid_column s = s"
  by (simp add: uuid_column_def uuid_v7_lower_fixed)

fun json_clone :: "jsval \<Rightarrow> jsval" where
  "json_clone (JArr vs) = JArr (map json_clone vs)"
| "json_clone (JObj fs) = JObj (sort_key (\<lambda>kv. key_string (fst kv))
     (map (map_prod id json_clone) (filter (\<lambda>kv. is_string_key (fst kv)) fs)))"
| "json_clone v = v"

definition json_column :: "jsval \<Rightarrow> jsval option" where
  "json_column v = (if canonicalJsonStringify v = None then None else Some (json_clone v))"

section \<open>The text of an instant\<close>

text \<open>
  \<open>Date.prototype.toISOString\<close>: the text of an instant, in milliseconds since 1970, in the
  proleptic Gregorian calendar. The days of four centuries are 146097; a year is counted from
  March, so that the leap day is its last.
\<close>

definition civil_from_days :: "int \<Rightarrow> int \<times> int \<times> int" where
  "civil_from_days days =
     (let z = days + 719468;
          era = z div 146097;
          doe = z mod 146097;
          yoe = (doe - doe div 1460 + doe div 36524 - doe div 146096) div 365;
          doy = doe - (365 * yoe + yoe div 4 - yoe div 100);
          mp = (5 * doy + 2) div 153;
          month = (if mp < 10 then mp + 3 else mp - 9)
      in (yoe + era * 400 + (if month \<le> 2 then 1 else 0), month, doy - (153 * mp + 2) div 5 + 1))"

definition padded :: "nat \<Rightarrow> int \<Rightarrow> jstr" where
  "padded width n = (let t = nat_text (nat n) in replicate (width - length t) 48 @ t)"

definition year_text :: "int \<Rightarrow> jstr" where
  "year_text y = (if 0 \<le> y \<and> y \<le> 9999 then padded 4 y
     else if 0 \<le> y then 43 # padded 6 y else 45 # padded 6 (- y))"

definition toISOString :: "int \<Rightarrow> jstr" where
  "toISOString ms =
     (let (year, month, day) = civil_from_days (ms div 86400000);
          t = ms mod 86400000
      in year_text year @ [45] @ padded 2 month @ [45] @ padded 2 day @ [84] @
         padded 2 (t div 3600000) @ [58] @ padded 2 (t div 60000 mod 60) @ [58] @
         padded 2 (t div 1000 mod 60) @ [46] @ padded 3 (t mod 1000) @ [90])"

lemma toISOString_epoch: "toISOString 0 = js ''1970-01-01T00:00:00.000Z''"
  by code_simp

lemma toISOString_leap_day: "toISOString 951782400123 = js ''2000-02-29T00:00:00.123Z''"
  by code_simp

end
