(* ===== verification/Command_Records.thy ===== *)
theory Command_Records
  imports  Database_Ops Utf8
begin

text \<open>
  The idempotency records of commands: \<open>DomainCommandRepository\<close> of
  \<open>packages/db/src/product-domain-repositories.ts\<close> over the table \<open>ops.domain_command_records\<close>. A
  command is reserved under its idempotency key before it does its work, and completed with its
  response in the same transaction; whoever repeats it is answered from the record. The constraints
  and the transition trigger of \<open>migrations/0003_b1_0_canonical_product_outbox.sql\<close> are the abstract
  specification. Instants of the database are microseconds.
\<close>

section \<open>Records\<close>

datatype domain_error = ProductDomainInvariantError | CanonicalJsonError | UniqueViolation

record command_identity =
  ci_id :: jstr
  ci_tenant_id :: jstr
  ci_workspace_id :: jstr
  ci_reservation_space_id :: jstr
  ci_command_kind :: jstr
  ci_command_schema_version :: int
  ci_idempotency_key :: jstr
  ci_canonical_request_hash :: jstr
  ci_safe_request :: "jsval option"
  ci_actor_user_id :: jstr
  ci_actor_membership_id :: jstr
  ci_delegating_user_id :: "jstr option"
  ci_delegating_membership_id :: "jstr option"
  ci_agent_principal_id :: "jstr option"
  ci_policy_version_id :: jstr
  ci_request_id :: jstr
  ci_traceparent :: jstr
  ci_tracestate :: "jstr option"
  ci_created_at :: int

datatype command_state = ReservedCommand | CompletedCommand

record command_row =
  cr_identity :: command_identity
  cr_state :: command_state
  cr_result_resource_type :: "jstr option"
  cr_result_resource_id :: "jstr option"
  cr_safe_response :: "jsval option"
  cr_completed_at :: "int option"

record completed_command =
  cc_id :: jstr
  cc_resultResourceType :: "jstr option"
  cc_resultResourceId :: "jstr option"
  cc_safeResponse :: "jsval option"
  cc_completedAt :: int

datatype reservation = Reserved jstr | Replay completed_command

record reservation_input =
  ri_id :: jstr
  ri_tenantId :: jstr
  ri_workspaceId :: jstr
  ri_reservationSpaceId :: jstr
  ri_commandKind :: jstr
  ri_commandSchemaVersion :: int
  ri_idempotencyKey :: jstr
  ri_canonicalRequestHash :: jstr
  ri_safeRequest :: "jsval option"
  ri_actorUserId :: jstr
  ri_actorMembershipId :: jstr
  ri_delegatingUserId :: "jstr option"
  ri_delegatingMembershipId :: "jstr option"
  ri_agentPrincipalId :: "jstr option"
  ri_policyVersionId :: jstr
  ri_requestId :: jstr
  ri_traceparent :: jstr
  ri_tracestate :: "jstr option"

record completion_input =
  ki_commandId :: jstr
  ki_tenantId :: jstr
  ki_workspaceId :: jstr
  ki_reservationSpaceId :: jstr
  ki_commandKind :: jstr
  ki_idempotencyKey :: jstr
  ki_canonicalRequestHash :: jstr
  ki_resultResourceType :: "jstr option"
  ki_resultResourceId :: "jstr option"
  ki_safeResponse :: "jsval option"

section \<open>Reserving\<close>

text \<open>The text whose hash is the advisory lock of a reservation.\<close>

definition lockReservationIdentity :: "jstr \<Rightarrow> jstr \<Rightarrow> jstr \<Rightarrow> jstr \<Rightarrow> jstr \<Rightarrow> jstr" where
  "lockReservationIdentity tenantId workspaceId reservationSpaceId commandKind idempotencyKey =
     [91] @ join_comma (map json_quote [js ''throughline:domain-command-identity:v1'', tenantId, workspaceId,
       reservationSpaceId, commandKind, idempotencyKey]) @ [93]"

definition validateReservationInput :: "reservation_input \<Rightarrow> bool" where
  "validateReservationInput input \<longleftrightarrow> sha256_hex (ri_canonicalRequestHash input) \<and>
     ((ri_delegatingUserId input = None) = (ri_delegatingMembershipId input = None))"

definition hashCanonicalCommandRequest :: "(nat list \<Rightarrow> jstr) \<Rightarrow> jsval \<Rightarrow> jstr option" where
  "hashCanonicalCommandRequest sha256 trustedRequest =
     map_option (\<lambda>t. sha256 (utf8 t)) (canonicalJsonStringify trustedRequest)"

definition same_reservation :: "reservation_input \<Rightarrow> command_row \<Rightarrow> bool" where
  "same_reservation input row \<longleftrightarrow>
     ci_tenant_id (cr_identity row) = uuid_column (ri_tenantId input) \<and>
     ci_workspace_id (cr_identity row) = uuid_column (ri_workspaceId input) \<and>
     ci_reservation_space_id (cr_identity row) = uuid_column (ri_reservationSpaceId input) \<and>
     ci_command_kind (cr_identity row) = ri_commandKind input \<and>
     ci_idempotency_key (cr_identity row) = ri_idempotencyKey input"

definition commandIdentityMatches :: "command_row \<Rightarrow> reservation_input \<Rightarrow> bool" where
  "commandIdentityMatches row input \<longleftrightarrow>
     ci_command_schema_version (cr_identity row) = ri_commandSchemaVersion input \<and>
     ci_canonical_request_hash (cr_identity row) = ri_canonicalRequestHash input \<and>
     ci_actor_user_id (cr_identity row) = ri_actorUserId input \<and>
     ci_actor_membership_id (cr_identity row) = ri_actorMembershipId input \<and>
     ci_delegating_user_id (cr_identity row) = ri_delegatingUserId input \<and>
     ci_delegating_membership_id (cr_identity row) = ri_delegatingMembershipId input \<and>
     ci_agent_principal_id (cr_identity row) = ri_agentPrincipalId input \<and>
     ci_policy_version_id (cr_identity row) = ri_policyVersionId input"

definition reserved_row :: "int \<Rightarrow> jsval option \<Rightarrow> reservation_input \<Rightarrow> command_row" where
  "reserved_row createdAt safeRequest input =
     \<lparr>cr_identity =
        \<lparr>ci_id = uuid_column (ri_id input), ci_tenant_id = uuid_column (ri_tenantId input),
         ci_workspace_id = uuid_column (ri_workspaceId input),
         ci_reservation_space_id = uuid_column (ri_reservationSpaceId input),
         ci_command_kind = ri_commandKind input,
         ci_command_schema_version = ri_commandSchemaVersion input,
         ci_idempotency_key = ri_idempotencyKey input,
         ci_canonical_request_hash = ri_canonicalRequestHash input, ci_safe_request = safeRequest,
         ci_actor_user_id = uuid_column (ri_actorUserId input),
         ci_actor_membership_id = uuid_column (ri_actorMembershipId input),
         ci_delegating_user_id = map_option uuid_column (ri_delegatingUserId input),
         ci_delegating_membership_id = map_option uuid_column (ri_delegatingMembershipId input),
         ci_agent_principal_id = map_option uuid_column (ri_agentPrincipalId input),
         ci_policy_version_id = ri_policyVersionId input, ci_request_id = ri_requestId input,
         ci_traceparent = ri_traceparent input, ci_tracestate = ri_tracestate input,
         ci_created_at = createdAt\<rparr>,
      cr_state = ReservedCommand, cr_result_resource_type = None, cr_result_resource_id = None,
      cr_safe_response = None, cr_completed_at = None\<rparr>"

definition completed_of :: "command_row \<Rightarrow> int \<Rightarrow> completed_command" where
  "completed_of row completedAt = \<lparr>cc_id = ci_id (cr_identity row),
     cc_resultResourceType = cr_result_resource_type row, cc_resultResourceId = cr_result_resource_id row,
     cc_safeResponse = cr_safe_response row, cc_completedAt = completedAt\<rparr>"

definition replay_of :: "command_row \<Rightarrow> (command_row list, domain_error, reservation) op" where
  "replay_of row =
     (case cr_state row of
        ReservedCommand \<Rightarrow> op_return (Reserved (ci_id (cr_identity row)))
      | CompletedCommand \<Rightarrow>
          (case cr_completed_at row of
             None \<Rightarrow> op_fail ProductDomainInvariantError
           | Some t \<Rightarrow> op_return (Replay (completed_of row t))))"

definition reserve :: "int \<Rightarrow> reservation_input \<Rightarrow> (command_row list, domain_error, reservation) op" where
  "reserve createdAt input =
     op_bind (op_require ProductDomainInvariantError (validateReservationInput input)) (\<lambda>_.
     op_bind (case ri_safeRequest input of
         None \<Rightarrow> op_return None
       | Some v \<Rightarrow> op_lift (ok_or CanonicalJsonError (map_option Some (json_column v)))) (\<lambda>safeRequest rows.
     (case filter (same_reservation input) rows of
        [] \<Rightarrow>
          if list_ex (\<lambda>r. ci_id (cr_identity r) = uuid_column (ri_id input)) rows then Inl UniqueViolation
          else Inr (Reserved (uuid_column (ri_id input)), rows @ [reserved_row createdAt safeRequest input])
      | row # _ \<Rightarrow>
          if \<not> commandIdentityMatches row input then Inl ProductDomainInvariantError
          else replay_of row rows)))"

section \<open>Completing\<close>

definition completes :: "completion_input \<Rightarrow> command_row \<Rightarrow> bool" where
  "completes input row \<longleftrightarrow>
     ci_id (cr_identity row) = uuid_column (ki_commandId input) \<and>
     ci_tenant_id (cr_identity row) = uuid_column (ki_tenantId input) \<and>
     ci_workspace_id (cr_identity row) = uuid_column (ki_workspaceId input) \<and>
     ci_reservation_space_id (cr_identity row) = uuid_column (ki_reservationSpaceId input) \<and>
     ci_command_kind (cr_identity row) = ki_commandKind input \<and>
     ci_idempotency_key (cr_identity row) = ki_idempotencyKey input \<and>
     ci_canonical_request_hash (cr_identity row) = ki_canonicalRequestHash input \<and>
     cr_state row = ReservedCommand"

definition completed_row ::
  "int \<Rightarrow> jsval option \<Rightarrow> completion_input \<Rightarrow> command_row \<Rightarrow> command_row" where
  "completed_row completedAt safeResponse input row = row
     \<lparr>cr_state := CompletedCommand, cr_result_resource_type := ki_resultResourceType input,
      cr_result_resource_id := map_option uuid_column (ki_resultResourceId input),
      cr_safe_response := safeResponse, cr_completed_at := Some completedAt\<rparr>"

definition response_column :: "jsval option \<Rightarrow> jsval option option" where
  "response_column v = (case v of
     None \<Rightarrow> Some None
   | Some v \<Rightarrow> map_option (\<lambda>w. if w = JNull then None else Some w) (json_column v))"

definition complete :: "int \<Rightarrow> completion_input \<Rightarrow> (command_row list, domain_error, completed_command) op" where
  "complete completedAt input =
     op_bind (op_require ProductDomainInvariantError
       (\<not> (ki_resultResourceType input = None) \<noteq> (ki_resultResourceId input = None))) (\<lambda>_.
     op_bind (op_lift (ok_or CanonicalJsonError (response_column (ki_safeResponse input)))) (\<lambda>safeResponse rows.
     (case filter (completes input) rows of
        [row] \<Rightarrow>
          Inr (completed_of (completed_row completedAt safeResponse input row) completedAt,
            map (\<lambda>r. if completes input r then completed_row completedAt safeResponse input r else r) rows)
      | _ \<Rightarrow> Inl ProductDomainInvariantError)))"

section \<open>The rules of the table\<close>

definition command_key :: "command_row \<Rightarrow> jstr list" where
  "command_key row = (let i = cr_identity row in
     [ci_tenant_id i, ci_workspace_id i, ci_reservation_space_id i, ci_command_kind i, ci_idempotency_key i])"

definition lifecycle_check :: "command_row \<Rightarrow> bool" where
  "lifecycle_check r \<longleftrightarrow>
     (cr_state r = ReservedCommand \<and> cr_result_resource_type r = None \<and> cr_result_resource_id r = None \<and>
        cr_safe_response r = None \<and> cr_completed_at r = None) \<or>
     (cr_state r = CompletedCommand \<and> cr_completed_at r \<noteq> None)"

definition result_check :: "command_row \<Rightarrow> bool" where
  "result_check r \<longleftrightarrow> (cr_result_resource_type r = None) = (cr_result_resource_id r = None)"

definition delegation_check :: "command_row \<Rightarrow> bool" where
  "delegation_check r \<longleftrightarrow> (ci_delegating_user_id (cr_identity r) = None) =
     (ci_delegating_membership_id (cr_identity r) = None)"

definition request_hash_check :: "command_row \<Rightarrow> bool" where
  "request_hash_check r \<longleftrightarrow> sha256_hex (ci_canonical_request_hash (cr_identity r))"

definition commands_ok :: "command_row list \<Rightarrow> bool" where
  "commands_ok rows \<longleftrightarrow> distinct (map (\<lambda>r. ci_id (cr_identity r)) rows) \<and> distinct (map command_key rows) \<and>
     list_all (\<lambda>r. lifecycle_check r \<and> result_check r \<and> delegation_check r \<and> request_hash_check r) rows"

definition command_inserted_ok :: "command_row \<Rightarrow> bool" where
  "command_inserted_ok new \<longleftrightarrow> \<not> (cr_state new \<noteq> ReservedCommand \<or> cr_result_resource_type new \<noteq> None \<or>
     cr_result_resource_id new \<noteq> None \<or> cr_safe_response new \<noteq> None \<or> cr_completed_at new \<noteq> None)"

definition command_transition_ok :: "command_row \<Rightarrow> command_row \<Rightarrow> bool" where
  "command_transition_ok old new \<longleftrightarrow> \<not> (cr_state old \<noteq> ReservedCommand \<or> cr_state new \<noteq> CompletedCommand \<or>
     cr_identity new \<noteq> cr_identity old \<or> cr_result_resource_type old \<noteq> None \<or>
     cr_result_resource_id old \<noteq> None \<or> cr_safe_response old \<noteq> None \<or> cr_completed_at old \<noteq> None \<or>
     cr_completed_at new = None)"

text \<open>What the trigger lets one statement do: rows change by a permitted transition, and permitted rows
  are appended.\<close>

definition commands_change_ok :: "command_row list \<Rightarrow> command_row list \<Rightarrow> bool" where
  "commands_change_ok olds news \<longleftrightarrow>
     (\<exists>kept new. news = kept @ new \<and> list_all2 (\<lambda>o' n. n = o' \<or> command_transition_ok o' n) olds kept \<and>
        list_all command_inserted_ok new)"

lemma commands_change_refl [simp]: "commands_change_ok rows rows"
  unfolding commands_change_ok_def by (intro exI[of _ rows] exI[of _ "[]"]) (simp add: list.rel_refl)

section \<open>What the operations do\<close>

lemma replay_of_reads: "replay_of row rows = Inr (r, rows') \<Longrightarrow> rows' = rows"
  by (auto simp: replay_of_def op_simps split: command_state.splits option.splits)

lemma command_key_reserved:
  "command_key (reserved_row t sr input) = command_key row \<longleftrightarrow> same_reservation input row"
  by (auto simp: command_key_def reserved_row_def same_reservation_def Let_def)

lemma reserved_row_simps [simp]:
  "cr_state (reserved_row t sr input) = ReservedCommand"
  "cr_result_resource_type (reserved_row t sr input) = None"
  "cr_result_resource_id (reserved_row t sr input) = None"
  "cr_safe_response (reserved_row t sr input) = None" "cr_completed_at (reserved_row t sr input) = None"
  "ci_id (cr_identity (reserved_row t sr input)) = uuid_column (ri_id input)"
  by (simp_all add: reserved_row_def)

lemma reserve_effect:
  assumes "reserve t input rows = Inr (r, rows')"
  obtains
    (inserted) sr where "rows' = rows @ [reserved_row t sr input]" "r = Reserved (uuid_column (ri_id input))"
      "validateReservationInput input" "filter (same_reservation input) rows = []"
      "\<forall>row\<in>set rows. ci_id (cr_identity row) \<noteq> uuid_column (ri_id input)"
  | (existing) row where "rows' = rows" "row \<in> set rows" "same_reservation input row"
      "commandIdentityMatches row input" "replay_of row rows = Inr (r, rows)"
proof -
  obtain sr where v: "validateReservationInput input" and
    body: "(case filter (same_reservation input) rows of
        [] \<Rightarrow>
          if list_ex (\<lambda>r. ci_id (cr_identity r) = uuid_column (ri_id input)) rows then Inl UniqueViolation
          else Inr (Reserved (uuid_column (ri_id input)), rows @ [reserved_row t sr input])
      | row # _ \<Rightarrow>
          if \<not> commandIdentityMatches row input then Inl ProductDomainInvariantError
          else replay_of row rows) = Inr (r, rows')"
    using assms unfolding reserve_def by (auto simp: op_simps split: option.splits)
  show thesis
  proof (cases "filter (same_reservation input) rows")
    case Nil
    then show ?thesis using body v by (intro inserted[of sr]) (auto simp: list_ex_iff split: if_splits)
  next
    case (Cons row rest)
    then have "row \<in> set (filter (same_reservation input) rows)" by simp
    then have "row \<in> set rows" "same_reservation input row" by simp_all
    then show ?thesis using body Cons replay_of_reads[of row rows r rows']
      by (intro existing[of row]) (auto split: if_splits)
  qed
qed

lemma completed_row_simps [simp]:
  "cr_identity (completed_row t v input row) = cr_identity row"
  "cr_state (completed_row t v input row) = CompletedCommand"
  "cr_completed_at (completed_row t v input row) = Some t"
  "cr_safe_response (completed_row t v input row) = v"
  "cr_result_resource_type (completed_row t v input row) = ki_resultResourceType input"
  "cr_result_resource_id (completed_row t v input row) = map_option uuid_column (ki_resultResourceId input)"
  by (simp_all add: completed_row_def)

lemma complete_effect:
  assumes "complete t input rows = Inr (c, rows')"
  obtains v row where "response_column (ki_safeResponse input) = Some v" "filter (completes input) rows = [row]"
    "c = completed_of (completed_row t v input row) t"
    "rows' = map (\<lambda>r. if completes input r then completed_row t v input r else r) rows"
    "(ki_resultResourceType input = None) = (ki_resultResourceId input = None)"
proof -
  obtain v where v: "response_column (ki_safeResponse input) = Some v"
      "(ki_resultResourceType input = None) = (ki_resultResourceId input = None)" and
    body: "(case filter (completes input) rows of
        [row] \<Rightarrow>
          Inr (completed_of (completed_row t v input row) t,
            map (\<lambda>r. if completes input r then completed_row t v input r else r) rows)
      | _ \<Rightarrow> Inl ProductDomainInvariantError) = Inr (c, rows')"
    using assms unfolding complete_def by (auto simp: op_simps simp del: map_eq_conv)
  obtain row where "filter (completes input) rows = [row]"
    using body by (auto split: list.splits)
  then show thesis using that[OF v(1)] v(2) body by simp
qed

end
