(* ===== verification/Command_Idempotency.thy ===== *)
theory Command_Idempotency
  imports Command_Records
begin

text \<open>
  The idempotency records as a state machine: whatever sequence of reservations and completions is
  run, in any transactions and by any commands, the table keeps its constraints, every change is one
  the transition trigger permits, and a completed command answers every repetition from its record.
\<close>

inductive command_step :: "command_row list \<Rightarrow> command_row list \<Rightarrow> bool" where
  reserve_command: "reserve t input rows = Inr (r, rows') \<Longrightarrow> command_step rows rows'"
| complete_command: "complete t k rows = Inr (c, rows') \<Longrightarrow> command_step rows rows'"

inductive_cases command_stepE: "command_step rows rows'"

definition command_kept :: "command_row \<Rightarrow> command_row \<Rightarrow> bool" where
  "command_kept r s \<longleftrightarrow> cr_identity s = cr_identity r \<and> (cr_state r = CompletedCommand \<longrightarrow> s = r)"

definition commands_evolve :: "command_row list \<Rightarrow> command_row list \<Rightarrow> bool" where
  "commands_evolve olds news \<longleftrightarrow> (\<forall>r\<in>set olds. \<exists>s\<in>set news. command_kept r s)"

section \<open>One step\<close>

lemma replay_of_cases:
  assumes "replay_of row rows = Inr (r, rows')"
  shows "r = Reserved (ci_id (cr_identity row)) \<and> cr_state row = ReservedCommand \<or>
    (\<exists>t. cr_completed_at row = Some t \<and> r = Replay (completed_of row t) \<and> cr_state row = CompletedCommand)"
  using assms by (auto simp: replay_of_def op_simps split: command_state.splits option.splits)

lemma reserved_row_ok:
  assumes "validateReservationInput input"
  shows "lifecycle_check (reserved_row t sr input) \<and> result_check (reserved_row t sr input) \<and>
    delegation_check (reserved_row t sr input) \<and> request_hash_check (reserved_row t sr input)"
  using assms
  by (auto simp: lifecycle_check_def result_check_def delegation_check_def request_hash_check_def
      reserved_row_def validateReservationInput_def)

lemma reserve_keeps:
  assumes "reserve t input rows = Inr (r, rows')" and "commands_ok rows"
  shows "commands_ok rows' \<and> commands_change_ok rows rows' \<and> commands_evolve rows rows'"
  using assms(1)
proof (cases rule: reserve_effect)
  case (inserted sr)
  let ?new = "reserved_row t sr input"
  have "command_key ?new \<notin> set (map command_key rows)"
    using inserted(4) command_key_reserved[of t sr input]
    by (auto simp: filter_empty_conv simp del: command_key_reserved)
  moreover have "ci_id (cr_identity ?new) \<notin> set (map (\<lambda>r. ci_id (cr_identity r)) rows)"
    using inserted(5) by auto
  ultimately have "commands_ok rows'"
    using assms(2) reserved_row_ok[OF inserted(3), of t sr] inserted(1) by (simp add: commands_ok_def)
  moreover have "commands_change_ok rows rows'"
    unfolding commands_change_ok_def using inserted(1)
    by (intro exI[of _ rows] exI[of _ "[?new]"]) (simp add: list.rel_refl command_inserted_ok_def)
  moreover have "commands_evolve rows rows'"
    using inserted(1) by (auto simp: commands_evolve_def command_kept_def)
  ultimately show ?thesis by simp
next
  case (existing row)
  then show ?thesis using assms(2) by (auto simp: commands_evolve_def command_kept_def)
qed

lemma complete_keeps:
  assumes "complete t k rows = Inr (c, rows')" and "commands_ok rows"
  shows "commands_ok rows' \<and> commands_change_ok rows rows' \<and> commands_evolve rows rows'"
  using assms(1)
proof (cases rule: complete_effect)
  case (1 v row)
  let ?f = "\<lambda>r. if completes k r then completed_row t v k r else r"
  have ids: "map (\<lambda>r. ci_id (cr_identity r)) rows' = map (\<lambda>r. ci_id (cr_identity r)) rows"
    "map command_key rows' = map command_key rows"
    by (auto simp: 1(4) command_key_def)
  have checks: "lifecycle_check (?f r) \<and> result_check (?f r) \<and> delegation_check (?f r) \<and> request_hash_check (?f r)"
    if "r \<in> set rows" for r
    using that assms(2) 1(5)
    by (auto simp: commands_ok_def list_all_iff lifecycle_check_def result_check_def delegation_check_def
        request_hash_check_def)
  have trans: "?f r = r \<or> command_transition_ok r (?f r)" if "r \<in> set rows" for r
    using that assms(2)
    by (auto simp: command_transition_ok_def completes_def commands_ok_def list_all_iff lifecycle_check_def)
  have "list_all (\<lambda>r. lifecycle_check r \<and> result_check r \<and> delegation_check r \<and> request_hash_check r) rows'"
    unfolding 1(4) list_all_iff set_map using checks by blast
  then have "commands_ok rows'" using assms(2) unfolding commands_ok_def ids by simp
  moreover have "list_all2 (\<lambda>o' n. n = o' \<or> command_transition_ok o' n) rows rows'"
    unfolding 1(4) using trans by (simp add: list_all2_conv_all_nth)
  then have "commands_change_ok rows rows'"
    unfolding commands_change_ok_def by (intro exI[of _ rows'] exI[of _ "[]"]) simp
  moreover have "command_kept r (?f r)" for r
    by (auto simp: command_kept_def completes_def)
  then have "commands_evolve rows rows'"
    unfolding commands_evolve_def 1(4) set_map by blast
  ultimately show ?thesis by simp
qed

lemma command_step_keeps:
  assumes "command_step rows rows'" and "commands_ok rows"
  shows "commands_ok rows' \<and> commands_change_ok rows rows' \<and> commands_evolve rows rows'"
  using assms reserve_keeps complete_keeps by (blast elim: command_stepE)

interpretation commands: evolving_system command_step commands_ok commands_evolve
proof
  show "commands_evolve rows rows" for rows by (auto simp: commands_evolve_def command_kept_def)
  show "commands_evolve a b \<Longrightarrow> commands_evolve b c \<Longrightarrow> commands_evolve a c" for a b c
    unfolding commands_evolve_def command_kept_def by metis
qed (use command_step_keeps in blast)+

section \<open>Idempotency\<close>

text \<open>The same command again: the key and the identity that is compared are the same; the identifier
  proposed for it, the request and its trace may differ.\<close>

definition repeats :: "reservation_input \<Rightarrow> reservation_input \<Rightarrow> bool" where
  "repeats input input' \<longleftrightarrow>
     input' \<lparr>ri_id := ri_id input, ri_requestId := ri_requestId input, ri_traceparent := ri_traceparent input,
       ri_tracestate := ri_tracestate input\<rparr> = input"

text \<open>The columns of the actors hold identifiers in lower case, and the code compares them with the
  input as it is.\<close>

definition canonical_actors :: "reservation_input \<Rightarrow> bool" where
  "canonical_actors input \<longleftrightarrow>
     uuid_column (ri_actorUserId input) = ri_actorUserId input \<and>
     uuid_column (ri_actorMembershipId input) = ri_actorMembershipId input \<and>
     map_option uuid_column (ri_delegatingUserId input) = ri_delegatingUserId input \<and>
     map_option uuid_column (ri_delegatingMembershipId input) = ri_delegatingMembershipId input \<and>
     map_option uuid_column (ri_agentPrincipalId input) = ri_agentPrincipalId input"

lemma repeats_same:
  assumes "repeats input input'"
  shows "same_reservation input' = same_reservation input"
    "commandIdentityMatches row input' = commandIdentityMatches row input"
    "validateReservationInput input' = validateReservationInput input"
    "ri_safeRequest input' = ri_safeRequest input"
  using assms unfolding repeats_def
  by (cases input; cases input'; auto simp: same_reservation_def commandIdentityMatches_def
      validateReservationInput_def fun_eq_iff)+

lemma reserved_row_matches:
  assumes "canonical_actors input"
  shows "same_reservation input (reserved_row t sr input)" "commandIdentityMatches (reserved_row t sr input) input"
  using assms by (simp_all add: same_reservation_def commandIdentityMatches_def reserved_row_def canonical_actors_def)

lemma identity_matches:
  assumes "cr_identity s = cr_identity r"
  shows "same_reservation input s = same_reservation input r"
    "commandIdentityMatches s input = commandIdentityMatches r input"
  using assms by (simp_all add: same_reservation_def commandIdentityMatches_def)

lemma reserved_exists:
  assumes "reserve t input rows = Inr (Reserved i, rows')" "canonical_actors input"
  shows "\<exists>row\<in>set rows'. same_reservation input row \<and> commandIdentityMatches row input \<and>
    ci_id (cr_identity row) = i \<and> validateReservationInput input \<and>
    (case ri_safeRequest input of None \<Rightarrow> True | Some v \<Rightarrow> json_column v \<noteq> None)"
proof -
  have v: "validateReservationInput input \<and> (case ri_safeRequest input of None \<Rightarrow> True | Some v \<Rightarrow> json_column v \<noteq> None)"
    using assms(1) unfolding reserve_def by (auto simp: op_simps split: option.splits)
  from assms(1) show ?thesis
  proof (cases rule: reserve_effect)
    case (inserted sr)
    then show ?thesis using v reserved_row_matches[OF assms(2), of t sr] by auto
  next
    case (existing row)
    then show ?thesis using v replay_of_cases[OF existing(5)] by auto
  qed
qed

lemma same_key_unique:
  assumes "commands_ok rows" "r \<in> set rows" "same_reservation input r"
  shows "filter (same_reservation input) rows = [r]"
proof -
  have inj: "inj_on command_key (set rows)" "distinct rows"
    using assms(1) by (auto simp: commands_ok_def distinct_map)
  have key: "same_reservation input s \<longleftrightarrow> command_key s = command_key r" for s
    using command_key_reserved[of 0 None input s] command_key_reserved[of 0 None input r] assms(3) by metis
  have "set (filter (same_reservation input) rows) = {r}"
    using assms(2,3) inj(1) by (auto simp: key inj_on_def)
  then show ?thesis using singleton_list inj(2) by (metis distinct_filter)
qed

lemma reserve_replays:
  assumes "commands_ok rows" "row \<in> set rows" "same_reservation input row" "commandIdentityMatches row input"
    and "validateReservationInput input"
    and "case ri_safeRequest input of None \<Rightarrow> True | Some v \<Rightarrow> json_column v \<noteq> None"
  shows "reserve t input rows = replay_of row rows"
  using assms(4-) same_key_unique[OF assms(1-3)]
  by (auto simp: reserve_def op_bind_def op_require_def op_lift_def op_return_def split: option.splits)

lemma completed_answers:
  assumes "complete t k rows = Inr (c, rows')" "commands_ok rows"
    and "row \<in> set rows" "ci_id (cr_identity row) = cc_id c"
  shows "\<exists>row'\<in>set rows'. cr_identity row' = cr_identity row \<and> cr_state row' = CompletedCommand \<and>
    cr_completed_at row' = Some (cc_completedAt c) \<and> completed_of row' (cc_completedAt c) = c"
  using assms(1)
proof (cases rule: complete_effect)
  case (1 v done_row)
  have mem: "done_row \<in> set rows" "completes k done_row" using 1(2) by (auto simp: filter_eq_Cons_iff)
  have "inj_on (\<lambda>r. ci_id (cr_identity r)) (set rows)"
    using assms(2) by (simp add: commands_ok_def distinct_map)
  then have "row = done_row"
    using assms(3,4) mem(1) 1(3) by (auto simp: inj_on_def completed_of_def)
  then show ?thesis using 1(3,4) mem by (auto simp: completed_of_def intro!: bexI[of _ "completed_row t v k row"])
qed

text \<open>C26: The idempotency records only ever change as the database rules of their table permit: whatever
  reservations and completions ran before, every statement appends records in the reserved state or
  takes a reserved record into the completed state with its identity intact; no identifier and no
  idempotency key is ever recorded twice.\<close>
theorem commands_refine_trigger:
  assumes "command_step\<^sup>*\<^sup>* [] rows" and "command_step rows rows'"
  shows "commands_change_ok rows rows' \<and> commands_ok rows'"
proof -
  have "commands_ok []" by (simp add: commands_ok_def)
  then have "commands_ok rows" using commands.reachable_ok[OF assms(1)] by blast
  then show ?thesis using command_step_keeps[OF assms(2)] by blast
qed

lemma repeated_command_answers:
  assumes ok: "commands_ok rows" and first: "reserve t input rows = Inr (Reserved i, rows1)"
    and "canonical_actors input" and "command_step\<^sup>*\<^sup>* rows1 rows2"
    and second: "complete t' k rows2 = Inr (c, rows3)" "cc_id c = i"
    and "command_step\<^sup>*\<^sup>* rows3 rows4" and "repeats input input'"
  shows "reserve t'' input' rows4 = Inr (Replay c, rows4)"
proof -
  have ok1: "commands_ok rows1" using reserve_keeps[OF first ok] by blast
  have ok2: "commands_ok rows2" using commands.reachable_ok assms(4) ok1 by blast
  have ok3: "commands_ok rows3" using complete_keeps[OF second(1) ok2] by blast
  have ok4: "commands_ok rows4" using commands.reachable_ok assms(7) ok3 by blast
  obtain r1 where r1: "r1 \<in> set rows1" "same_reservation input r1" "commandIdentityMatches r1 input"
      "ci_id (cr_identity r1) = i" and v: "validateReservationInput input"
      "case ri_safeRequest input of None \<Rightarrow> True | Some v \<Rightarrow> json_column v \<noteq> None"
    using reserved_exists[OF first assms(3)] by blast
  obtain r2 where r2: "r2 \<in> set rows2" "command_kept r1 r2"
    using commands.reachable_below[OF assms(4) ok1] r1(1) unfolding commands_evolve_def by blast
  have "ci_id (cr_identity r2) = cc_id c" using r2(2) r1(4) second(2) by (simp add: command_kept_def)
  then obtain r3 where r3: "r3 \<in> set rows3" "cr_identity r3 = cr_identity r2" "cr_state r3 = CompletedCommand"
      "cr_completed_at r3 = Some (cc_completedAt c)" "completed_of r3 (cc_completedAt c) = c"
    using completed_answers[OF second(1) ok2 r2(1)] by blast
  obtain r4 where r4: "r4 \<in> set rows4" "command_kept r3 r4"
    using commands.reachable_below[OF assms(7) ok3] r3(1) unfolding commands_evolve_def by blast
  then have "r4 = r3" using r3(3) by (simp add: command_kept_def)
  then have "cr_identity r4 = cr_identity r1" using r2(2) r3(2) by (simp add: command_kept_def)
  note same = identity_matches[OF this] repeats_same[OF assms(8)]
  have "reserve t'' input' rows4 = replay_of r4 rows4"
    using r1 v by (intro reserve_replays[OF ok4 r4(1)]) (simp_all add: same)
  then show ?thesis using r3 \<open>r4 = r3\<close> by (simp add: replay_of_def op_return_def)
qed

text \<open>Commands are idempotent. Once a command that was reserved under an idempotency key has been
  completed, every repetition of it, at any later time and after any other commands, is answered
  with the response recorded at its completion and changes nothing; this holds for commands whose
  actors are named by identifiers in lower case, as the table stores them.\<close>
theorem completed_command_replays:
  assumes "command_step\<^sup>*\<^sup>* [] rows" and "reserve t input rows = Inr (Reserved i, rows1)"
    and "canonical_actors input" and "command_step\<^sup>*\<^sup>* rows1 rows2"
    and "complete t' k rows2 = Inr (c, rows3)" and "cc_id c = i"
    and "command_step\<^sup>*\<^sup>* rows3 rows4" and "repeats input input'"
  shows "reserve t'' input' rows4 = Inr (Replay c, rows4)"
proof (rule repeated_command_answers[OF _ assms(2-)])
  have "commands_ok []" by (simp add: commands_ok_def)
  then show "commands_ok rows" using commands.reachable_ok[OF assms(1)] by blast
qed

section \<open>A concrete command\<close>

definition example_hash :: jstr where
  "example_hash = replicate 64 97"

definition example_reservation :: reservation_input where
  "example_reservation = \<lparr>ri_id = example_id 1, ri_tenantId = example_id 7, ri_workspaceId = example_id 8,
     ri_reservationSpaceId = example_id 9, ri_commandKind = js ''fact.accept.v1'', ri_commandSchemaVersion = 1,
     ri_idempotencyKey = js ''k'', ri_canonicalRequestHash = example_hash, ri_safeRequest = None,
     ri_actorUserId = example_id 2, ri_actorMembershipId = example_id 3, ri_delegatingUserId = None,
     ri_delegatingMembershipId = None, ri_agentPrincipalId = None, ri_policyVersionId = js ''v1'',
     ri_requestId = js ''r1'', ri_traceparent = js ''t'', ri_tracestate = None\<rparr>"

definition example_completion :: completion_input where
  "example_completion = \<lparr>ki_commandId = example_id 1, ki_tenantId = example_id 7,
     ki_workspaceId = example_id 8, ki_reservationSpaceId = example_id 9,
     ki_commandKind = js ''fact.accept.v1'', ki_idempotencyKey = js ''k'',
     ki_canonicalRequestHash = example_hash, ki_resultResourceType = Some (js ''accepted_fact''),
     ki_resultResourceId = Some (example_id 4), ki_safeResponse = Some (obj [(''version'', JNum (IntNum 1))])\<rparr>"

definition example_completed :: completed_command where
  "example_completed = \<lparr>cc_id = example_id 1, cc_resultResourceType = Some (js ''accepted_fact''),
     cc_resultResourceId = Some (example_id 4), cc_safeResponse = Some (obj [(''version'', JNum (IntNum 1))]),
     cc_completedAt = 6\<rparr>"

lemma example_hash_ok [simp]: "sha256_hex example_hash"
  by (simp add: sha256_hex_def example_hash_def fixed_match_replicate is_lower_hex_def list_all_iff)

lemma example_reserve:
  "reserve 5 example_reservation [] = Inr (Reserved (example_id 1), [reserved_row 5 None example_reservation])"
  by (simp add: reserve_def op_bind_def op_require_def op_return_def validateReservationInput_def
      example_reservation_def)

lemma example_complete:
  "complete 6 example_completion [reserved_row 5 None example_reservation] =
     Inr (example_completed, [completed_row 6 (Some (obj [(''version'', JNum (IntNum 1))])) example_completion
       (reserved_row 5 None example_reservation)])"
proof -
  let ?v = "obj [(''version'', JNum (IntNum 1))]"
  have "response_column (Some ?v) = Some (Some ?v)"
    by (simp add: response_column_def json_column_def obj_def max_safe_integer_def)
  moreover have "completes example_completion (reserved_row 5 None example_reservation)"
    by (simp add: completes_def example_completion_def example_reservation_def reserved_row_def)
  ultimately show ?thesis
    by (simp add: complete_def op_bind_def op_require_def op_lift_def completed_of_def example_completed_def
        example_completion_def completed_row_def)
       (simp add: reserved_row_def example_reservation_def)
qed

lemma commands_refine_trigger_witness:
  "commands_change_ok [] [reserved_row 5 None example_reservation] \<and>
   commands_ok [reserved_row 5 None example_reservation]"
  by (rule commands_refine_trigger[OF rtranclp.rtrancl_refl reserve_command[OF example_reserve]])

lemma completed_command_replays_witness:
  "\<exists>rows. reserve 9 (example_reservation \<lparr>ri_id := example_id 5, ri_requestId := js ''r2''\<rparr>) rows =
     Inr (Replay example_completed, rows)"
proof -
  have c: "canonical_actors example_reservation"
    by (simp add: canonical_actors_def example_reservation_def)
  have r: "repeats example_reservation (example_reservation \<lparr>ri_id := example_id 5, ri_requestId := js ''r2''\<rparr>)"
    by (simp add: repeats_def example_reservation_def)
  have "cc_id example_completed = example_id 1" by (simp add: example_completed_def)
  then show ?thesis
    using completed_command_replays[OF rtranclp.rtrancl_refl example_reserve c rtranclp.rtrancl_refl
      example_complete _ rtranclp.rtrancl_refl r] by blast
qed

end
