(* ===== verification/Uuid_V7.thy ===== *)
theory Uuid_V7
  imports  Canonical_Json "HOL-Library.Word"
begin

text \<open>
  \<open>generateUuidV7\<close> of \<open>packages/truth-ledger/src/uuid.ts\<close>, which other packages repeat: 48 bits of
  time and 74 random bits under the version and variant marks. The clock and the random bytes are
  parameters; a byte is an 8-bit word, as in the buffer. \<open>timestamp & 0xff\<close> is the low byte of the
  number, whatever the conversion to 32 bits drops above it.
\<close>

unbundle bit_operations_syntax

fun write_timestamp :: "nat \<Rightarrow> nat \<Rightarrow> 8 word list \<Rightarrow> 8 word list" where
  "write_timestamp 0 now bytes = bytes"
| "write_timestamp (Suc index) now bytes =
     write_timestamp index (now div 256) (bytes[index := word_of_nat now])"

definition byte_hex :: "8 word \<Rightarrow> jstr" where
  "byte_hex b = [hex_digit (unat (drop_bit 4 b)), hex_digit (unat (b AND 15))]"

definition hex_string :: "8 word list \<Rightarrow> jstr" where
  "hex_string bytes = concat (map byte_hex bytes)"

definition generateUuidV7 :: "nat \<Rightarrow> 8 word list \<Rightarrow> jstr" where
  "generateUuidV7 now random =
     (let bytes = write_timestamp 6 now random;
          bytes = bytes[6 := 0x70 OR (bytes ! 6 AND 0x0f)];
          bytes = bytes[8 := 0x80 OR (bytes ! 8 AND 0x3f)];
          hex = hex_string bytes
      in units hex 0 8 @ [45] @ units hex 8 12 @ [45] @ units hex 12 16 @ [45] @ units hex 16 20 @
         [45] @ drop 20 hex)"

section \<open>The identifiers are version 7\<close>

lemma hex_digit_lower: "n < 16 \<Longrightarrow> is_lower_hex (hex_digit n)"
  by (auto simp: hex_digit_def is_lower_hex_def is_digit_def)

lemma nibbles: "unat (drop_bit 4 (b :: 8 word)) < 16" "unat (b AND 15) < 16"
proof -
  have "unat b < 256" using unsigned_less[of b, where ?'a = nat] by simp
  then show "unat (drop_bit 4 b) < 16" by (simp add: drop_bit_eq_div unat_div)
  have "b AND 15 \<le> 15" by (rule word_and_le1)
  then show "unat (b AND 15) < 16" by (simp add: word_le_nat_alt)
qed

lemma byte_hex_lower: "list_all is_lower_hex (byte_hex b)" "length (byte_hex b) = 2"
  by (simp_all add: byte_hex_def hex_digit_lower nibbles)

lemma version_byte: "hex_digit (unat (drop_bit 4 (0x70 OR (b AND 0x0f) :: 8 word))) = 55"
proof -
  have "drop_bit 4 (0x70 OR (b AND 0x0f) :: 8 word) = 7"
    by (rule bit_word_eqI) (auto simp: bit_simps numeral_eq_Suc less_Suc_eq)
  then show ?thesis by (simp add: hex_digit_def)
qed

lemma variant_byte: "is_variant (hex_digit (unat (drop_bit 4 (0x80 OR (b AND 0x3f) :: 8 word))))"
proof -
  have "drop_bit 4 (0x80 OR (b AND 0x3f) :: 8 word) = 8 OR (drop_bit 4 b AND 3)"
    by (rule bit_word_eqI) (auto simp: bit_simps numeral_eq_Suc less_Suc_eq)
  moreover have "(drop_bit 4 b AND 3) \<le> 3" by (rule word_and_le1)
  then have "drop_bit 4 b AND 3 \<in> {0, 1, 2, 3}"
    by (simp add: word_le_nat_alt word_unat_eq_iff) linarith
  ultimately show ?thesis by (auto simp: hex_digit_def is_variant_def)
qed

lemma length_write_timestamp [simp]: "length (write_timestamp n t bs) = length bs"
  by (induction n t bs rule: write_timestamp.induct) simp_all

lemma sixteen:
  assumes "length xs = 16"
  obtains a b c d e f g h i j k l m n p q where "xs = [a, b, c, d, e, f, g, h, i, j, k, l, m, n, p, q]"
  using assms by (auto simp: length_Suc_conv numeral_eq_Suc)

lemma hex_string_Cons: "hex_string (b # bs) = hex_digit (unat (drop_bit 4 b)) # hex_digit (unat (b AND 15)) # hex_string bs"
  by (simp add: hex_string_def byte_hex_def)

lemma hex_string_lower: "list_all is_lower_hex (hex_string bs)" "length (hex_string bs) = 2 * length bs"
  by (induction bs) (simp_all add: hex_string_def byte_hex_lower)

lemma hex_layout:
  assumes "xs = [a, b, c, d, e, f, g, h, i, j, k, l, m, n, p, q]"
  shows "(let hex = hex_string xs in
      units hex 0 8 @ [45] @ units hex 8 12 @ [45] @ units hex 12 16 @ [45] @ units hex 16 20 @
      [45] @ drop 20 hex) =
    hex_string [a, b, c, d] @ [45] @ hex_string [e, f] @ [45] @
    [hex_digit (unat (drop_bit 4 g))] @ (hex_digit (unat (g AND 15)) # byte_hex h) @ [45] @
    [hex_digit (unat (drop_bit 4 i))] @ (hex_digit (unat (i AND 15)) # byte_hex j) @ [45] @
    hex_string [k, l, m, n, p, q]"
  unfolding assms Let_def hex_string_Cons byte_hex_def
  by (simp add: units_def hex_string_def)

lemma fixed_match_append:
  "length ps = length a \<Longrightarrow> fixed_match (ps @ qs) (a @ b) \<longleftrightarrow> fixed_match ps a \<and> fixed_match qs b"
  by (simp add: fixed_match_iff list_all2_append)

lemma uuid_v7_parts:
  assumes "list_all is_lower_hex a" "length a = 8" "list_all is_lower_hex b" "length b = 4"
    "list_all is_lower_hex c" "length c = 3" "is_variant v" "list_all is_lower_hex d" "length d = 3"
    "list_all is_lower_hex e" "length e = 12"
  shows "uuid_v7 (a @ [45] @ b @ [45] @ [55] @ c @ [45] @ [v] @ d @ [45] @ e)"
  using assms unfolding uuid_v7_def uuid_with_def
  by (simp add: fixed_match_append fixed_match_replicate)

lemma generated_uuid_v7:
  assumes "length random = 16"
  shows "uuid_v7 (generateUuidV7 now random)"
proof -
  obtain a b c d e f g h i j k l m n p q where w:
    "write_timestamp 6 now random = [a, b, c, d, e, f, g, h, i, j, k, l, m, n, p, q]"
    by (rule sixteen[of "write_timestamp 6 now random"]) (simp add: assms)
  let ?g = "0x70 OR (g AND 0x0f)" and ?i = "0x80 OR (i AND 0x3f)"
  have "(write_timestamp 6 now random)[6 := ?g, 8 := ?i] = [a, b, c, d, e, f, ?g, h, ?i, j, k, l, m, n, p, q]"
    unfolding w by (simp add: eval_nat_numeral)
  from hex_layout[OF this] have "generateUuidV7 now random =
      hex_string [a, b, c, d] @ [45] @ hex_string [e, f] @ [45] @
      [hex_digit (unat (drop_bit 4 ?g))] @ (hex_digit (unat (?g AND 15)) # byte_hex h) @ [45] @
      [hex_digit (unat (drop_bit 4 ?i))] @ (hex_digit (unat (?i AND 15)) # byte_hex j) @ [45] @
      hex_string [k, l, m, n, p, q]"
    unfolding generateUuidV7_def Let_def by (simp only: w nth_Cons_numeral nth_list_update)
       (simp add: eval_nat_numeral)
  then show ?thesis
    unfolding version_byte
    by (simp only:) (rule uuid_v7_parts,
      simp_all add: hex_string_lower byte_hex_lower hex_digit_lower nibbles variant_byte variant_byte[simplified])
qed

section \<open>Later identifiers sort later\<close>

lemma byte_less:
  assumes "(a :: 8 word) < b"
  shows "hex_string (a # as) @ x < hex_string (b # bs) @ y"
proof -
  let ?h = "\<lambda>w :: 8 word. unat w div 16" and ?l = "\<lambda>w :: 8 word. unat w mod 16"
  have digits: "unat (drop_bit 4 w) = ?h w" "unat (w AND 15) = ?l w" for w :: "8 word"
  proof -
    show "unat (drop_bit 4 w) = ?h w" by (simp add: drop_bit_eq_div unat_div)
    have "w AND 15 = take_bit 4 w" by (simp add: take_bit_eq_mask mask_eq_exp_minus_1)
    then show "unat (w AND 15) = ?l w" by (simp add: take_bit_eq_mod unat_mod)
  qed
  have mono: "hex_digit m < hex_digit n" if "m < n" "n < 16" for m n
    using that by (auto simp: hex_digit_def)
  have bound: "?h w < 16" "?l w < 16" for w :: "8 word"
    using nibbles[of w] digits by simp_all
  have "unat a < unat b" using assms by (simp add: word_less_nat_alt)
  then have "?h a < ?h b \<or> ?h a = ?h b \<and> ?l a < ?l b"
    using div_le_mono[of "unat a" "unat b" 16] mult_div_mod_eq[of 16 "unat a"] mult_div_mod_eq[of 16 "unat b"]
    by linarith
  then have "hex_digit (?h a) < hex_digit (?h b) \<or>
      hex_digit (?h a) = hex_digit (?h b) \<and> hex_digit (?l a) < hex_digit (?l b)"
    using mono bound by metis
  then show ?thesis by (auto simp: hex_string_Cons digits)
qed

lemma byte_less_iff:
  "hex_string (a # as) @ x < hex_string (b # bs) @ y \<longleftrightarrow>
     a < b \<or> a = b \<and> hex_string as @ x < hex_string bs @ y"
proof (cases a b rule: linorder_cases)
  case less
  then show ?thesis by (simp add: byte_less)
next
  case equal
  then show ?thesis by (auto simp: hex_string_Cons)
next
  case greater
  then have "hex_string (b # bs) @ y < hex_string (a # as) @ x" by (rule byte_less)
  then show ?thesis using greater by (auto dest: order_less_asym)
qed

lemma low_byte: "unat (word_of_nat x :: 8 word) = x mod 256"
  by (simp add: unsigned_of_nat take_bit_eq_mod)

lemma next_byte:
  assumes "x < y"
  shows "x div 256 < y div 256 \<or> x div 256 = y div 256 \<and> (word_of_nat x :: 8 word) < word_of_nat y"
proof -
  have "x div 256 < y div 256 \<or> x div 256 = y div 256 \<and> x mod 256 < y mod 256"
    using assms div_le_mono[of x y 256] mult_div_mod_eq[of 256 x] mult_div_mod_eq[of 256 y] by linarith
  then show ?thesis by (simp only: word_less_nat_alt low_byte)
qed

definition time_byte :: "nat \<Rightarrow> nat \<Rightarrow> 8 word" where
  "time_byte now i = word_of_nat (now div 256 ^ i)"

lemma write_timestamp_bytes:
  "write_timestamp 6 now [a, b, c, d, e, f, g, h, i, j, k, l, m, n, p, q] =
     [time_byte now 5, time_byte now 4, time_byte now 3, time_byte now 2, time_byte now 1, time_byte now 0,
      g, h, i, j, k, l, m, n, p, q]"
proof -
  have six: "6 = Suc (Suc (Suc (Suc (Suc (Suc 0)))))" by simp
  show ?thesis
    unfolding six write_timestamp.simps time_byte_def
    by (simp add: div_mult2_eq[symmetric])
qed

lemma generated_text:
  assumes "length random = 16"
  shows "\<exists>rest. generateUuidV7 now random = hex_string [time_byte now 5, time_byte now 4, time_byte now 3,
    time_byte now 2] @ 45 # hex_string [time_byte now 1, time_byte now 0] @ rest"
proof -
  obtain a b c d e f g h i j k l m n p q where r: "random = [a, b, c, d, e, f, g, h, i, j, k, l, m, n, p, q]"
    by (rule sixteen[OF assms])
  let ?w = "write_timestamp 6 now random"
  have w: "?w[6 := x, 8 := y] = [time_byte now 5, time_byte now 4, time_byte now 3,
      time_byte now 2, time_byte now 1, time_byte now 0, x, h, y, j, k, l, m, n, p, q]" for x y
    unfolding r write_timestamp_bytes by (simp add: numeral_eq_Suc)
  show ?thesis
    unfolding generateUuidV7_def Let_def[of ?w] Let_def[of "?w[6 := _]"] Let_def[of "_[8 := _]"]
    unfolding w hex_layout[OF refl] by (simp only: append_assoc append_Cons append_Nil) blast
qed

lemma time_bytes_less:
  assumes "now < now'" "now' < 2 ^ 48"
  defines "w \<equiv> time_byte now" and "w' \<equiv> time_byte now'"
  shows "w 5 < w' 5 \<or> w 5 = w' 5 \<and> (w 4 < w' 4 \<or> w 4 = w' 4 \<and> (w 3 < w' 3 \<or> w 3 = w' 3 \<and>
    (w 2 < w' 2 \<or> w 2 = w' 2 \<and> (w 1 < w' 1 \<or> w 1 = w' 1 \<and> w 0 < w' 0))))"
proof -
  define q where "q x i = x div 256 ^ i" for x i :: nat
  have quot: "q x (Suc i) = q x i div 256" for x i
    by (simp add: q_def div_mult2_eq[symmetric] mult.commute)
  have step: "q now (Suc i) < q now' (Suc i) \<or> q now (Suc i) = q now' (Suc i) \<and> w i < w' i"
    if "q now i < q now' i" for i
    unfolding quot w_def w'_def time_byte_def q_def[symmetric] by (rule next_byte[OF that])
  have last: "\<not> q now 6 < q now' 6" using assms(1,2) by (simp add: q_def)
  have "q now 0 < q now' 0" using assms(1) by (simp add: q_def)
  note s0 = step[OF this]
  have same: "w i = w' i \<and> q now (Suc i) = q now' (Suc i)" if "q now i = q now' i" for i
    using that unfolding quot w_def w'_def time_byte_def q_def[symmetric] by simp
  show ?thesis
    using s0 step[of 1] step[of 2] step[of 3] step[of 4] step[of 5] last
      same[of 1] same[of 2] same[of 3] same[of 4] same[of 5]
    by (simp add: numeral_eq_Suc) blast
qed

text \<open>A generated identifier is a version 7 UUID in lower case, and identifiers generated in
  later milliseconds sort after earlier ones whatever their random bytes, until the 48 bits of the
  clock run out in the year 10889.\<close>
theorem generateUuidV7_sound:
  assumes "length r = 16" and "length r' = 16" and "now < now'" and "now' < 2 ^ 48"
  shows "uuid_v7 (generateUuidV7 now r) \<and> generateUuidV7 now r < generateUuidV7 now' r'"
proof
  show "uuid_v7 (generateUuidV7 now r)" by (rule generated_uuid_v7) (rule assms)
  show "generateUuidV7 now r < generateUuidV7 now' r'"
    using generated_text[OF assms(1), of now] generated_text[OF assms(2), of now']
      time_bytes_less[OF assms(3,4)] by (auto simp: byte_less_iff hex_string_def[of "[]"])
qed

lemma generateUuidV7_sound_witness:
  "uuid_v7 (generateUuidV7 1 (replicate 16 255)) \<and>
   generateUuidV7 1 (replicate 16 255) < generateUuidV7 1767225600000 (replicate 16 0)"
  by (rule generateUuidV7_sound) simp_all

end
