(* ===== verification/Audit_Detail.thy ===== *)
theory Audit_Detail
  imports Event_Envelope Canonical_Json Command_Records
begin

text \<open>
  \<open>packages/db/src/audit-safe-detail.ts\<close>: the details an audit event may carry. Each action has one
  resource type and one exact shape of detail, whose first identifier is the audited resource; free
  text never passes. The module repeats the checks of the notification payloads, and its shapes
  are those of the events that accompany the actions: both readings accept the same objects and
  give them the same canonical text.
\<close>

section \<open>Actions\<close>

datatype audit_action =
    AuditOrganizationCreate | AuditInitiativeCreate | AuditActivityCreate | AuditCaptureAdd
  | AuditRelationshipCreate | AuditRelationshipEnd | AuditContentCreate | AuditContentRevise
  | AuditSourceCapture | AuditSourceCorrect | AuditSourceTombstone | AuditClaimCreate
  | AuditObjectiveWithdraw | AuditObjectiveReject | AuditObjectiveRework
  | AuditFactAccept | AuditFactSupersede | AuditFactRevoke

fun action_string :: "audit_action \<Rightarrow> jstr" where
  "action_string AuditOrganizationCreate = js ''organization.create''"
| "action_string AuditInitiativeCreate = js ''initiative.create''"
| "action_string AuditActivityCreate = js ''activity.create''"
| "action_string AuditCaptureAdd = js ''activity.capture_add''"
| "action_string AuditRelationshipCreate = js ''relationship.create''"
| "action_string AuditRelationshipEnd = js ''relationship.end''"
| "action_string AuditContentCreate = js ''content.create''"
| "action_string AuditContentRevise = js ''content.revise''"
| "action_string AuditSourceCapture = js ''source_artifact.capture''"
| "action_string AuditSourceCorrect = js ''source_artifact.correct''"
| "action_string AuditSourceTombstone = js ''source_artifact.tombstone''"
| "action_string AuditClaimCreate = js ''claim.create''"
| "action_string AuditObjectiveWithdraw = js ''initiative.primary_objective.withdraw''"
| "action_string AuditObjectiveReject = js ''initiative.primary_objective.reject''"
| "action_string AuditObjectiveRework = js ''initiative.primary_objective.rework''"
| "action_string AuditFactAccept = js ''fact.accept''"
| "action_string AuditFactSupersede = js ''fact.supersede''"
| "action_string AuditFactRevoke = js ''fact.revoke''"

section \<open>Checks\<close>

definition PRODUCT_AUDIT_SCHEMA_VERSION :: int where
  "PRODUCT_AUDIT_SCHEMA_VERSION = 1"

definition audit_requireExactObject :: "jsval \<Rightarrow> string list \<Rightarrow> string list \<Rightarrow> jsfields option" where
  "audit_requireExactObject input requiredKeys optionalKeys =
     (case input of
        JObj fs \<Rightarrow>
          if list_ex (\<lambda>k. \<not> has_own fs (js k)) requiredKeys \<or>
             list_ex (\<lambda>k. k \<notin> set (map js requiredKeys) \<and> k \<notin> set (map js optionalKeys)) (string_keys fs)
          then None else Some fs
      | _ \<Rightarrow> None)"

definition audit_requireUuidV7 :: "jsval \<Rightarrow> jstr option" where
  "audit_requireUuidV7 v = map_option lower_ascii (require_string_with uuid_v7_any_case v)"

definition requireResourceType :: "jstr \<Rightarrow> aggregate_type \<Rightarrow> unit option" where
  "requireResourceType actual expected = require (\<not> actual \<noteq> aggregate_string expected)"

definition singleResourceIdDetail :: "jsval \<Rightarrow> string \<Rightarrow> jstr \<Rightarrow> jsval option" where
  "singleResourceIdDetail input key resourceId = do {
     fs \<leftarrow> audit_requireExactObject input [key] [];
     i \<leftarrow> audit_requireUuidV7 (fld fs key);
     require (\<not> i \<noteq> resourceId);
     Some (JObj (object_of [(key, JStr i)])) }"

section \<open>Details\<close>

definition captureAddDetail :: "jstr \<Rightarrow> jsval \<Rightarrow> jsval option" where
  "captureAddDetail resourceId d = do {
     fs \<leftarrow> audit_requireExactObject d [''activityId'', ''sourceArtifactId''] [];
     i \<leftarrow> audit_requireUuidV7 (fld fs ''activityId'');
     require (\<not> i \<noteq> resourceId);
     a \<leftarrow> audit_requireUuidV7 (fld fs ''sourceArtifactId'');
     Some (JObj (object_of [(''activityId'', JStr i), (''sourceArtifactId'', JStr a)])) }"

definition relationshipEndDetail :: "jstr \<Rightarrow> jsval \<Rightarrow> jsval option" where
  "relationshipEndDetail resourceId d = do {
     fs \<leftarrow> audit_requireExactObject d [''relationshipId'', ''validTo''] [];
     i \<leftarrow> audit_requireUuidV7 (fld fs ''relationshipId'');
     require (\<not> (i \<noteq> resourceId \<or> \<not> isDomainNotificationTimestamp (fld fs ''validTo'')));
     Some (JObj (object_of [(''relationshipId'', JStr i), (''validTo'', fld fs ''validTo'')])) }"

definition contentReviseDetail :: "jstr \<Rightarrow> jsval \<Rightarrow> jsval option" where
  "contentReviseDetail resourceId d = do {
     fs \<leftarrow> audit_requireExactObject d [''contentItemId'', ''revisionNumber''] [];
     i \<leftarrow> audit_requireUuidV7 (fld fs ''contentItemId'');
     require (\<not> i \<noteq> resourceId);
     n \<leftarrow> safe_integer (fld fs ''revisionNumber'');
     require (\<not> n < 1);
     Some (JObj (object_of [(''contentItemId'', JStr i), (''revisionNumber'', fld fs ''revisionNumber'')])) }"

definition sourceCorrectDetail :: "jstr \<Rightarrow> jsval \<Rightarrow> jsval option" where
  "sourceCorrectDetail resourceId d = do {
     fs \<leftarrow> audit_requireExactObject d [''sourceArtifactId'', ''previousSourceArtifactId''] [];
     i \<leftarrow> audit_requireUuidV7 (fld fs ''sourceArtifactId'');
     p \<leftarrow> audit_requireUuidV7 (fld fs ''previousSourceArtifactId'');
     require (\<not> (i \<noteq> resourceId \<or> p = i));
     Some (JObj (object_of [(''sourceArtifactId'', JStr i), (''previousSourceArtifactId'', JStr p)])) }"

definition sourceTombstoneDetail :: "jstr \<Rightarrow> jsval \<Rightarrow> jsval option" where
  "sourceTombstoneDetail resourceId d = do {
     fs \<leftarrow> audit_requireExactObject d
       [''sourceArtifactId'', ''deletionPolicyRef'', ''deletionReasonCategory'', ''hashDisposition''] [];
     i \<leftarrow> audit_requireUuidV7 (fld fs ''sourceArtifactId'');
     require (\<not> i \<noteq> resourceId);
     h \<leftarrow> requireEnum (\<lambda>s. s) hash_dispositions (fld fs ''hashDisposition'');
     p \<leftarrow> requireSafeReference (fld fs ''deletionPolicyRef'');
     c \<leftarrow> requireSafeReference (fld fs ''deletionReasonCategory'');
     Some (JObj (object_of [(''sourceArtifactId'', JStr i), (''deletionPolicyRef'', JStr p),
       (''deletionReasonCategory'', JStr c), (''hashDisposition'', JStr h)])) }"

definition claimCreateDetail :: "jstr \<Rightarrow> jsval \<Rightarrow> jsval option" where
  "claimCreateDetail resourceId d = do {
     fs \<leftarrow> audit_requireExactObject d [''claimId'', ''evidenceSpanId''] [''supportAttestationId''];
     i \<leftarrow> audit_requireUuidV7 (fld fs ''claimId'');
     require (\<not> i \<noteq> resourceId);
     e \<leftarrow> audit_requireUuidV7 (fld fs ''evidenceSpanId'');
     a \<leftarrow> (if has_own fs (js ''supportAttestationId'')
           then map_option Some (audit_requireUuidV7 (fld fs ''supportAttestationId'')) else Some None);
     Some (JObj (object_of ([(''claimId'', JStr i), (''evidenceSpanId'', JStr e)] @
       opt_entry ''supportAttestationId'' JStr a))) }"

definition terminalProposalDetail :: "string \<Rightarrow> jstr \<Rightarrow> jsval \<Rightarrow> jsval option" where
  "terminalProposalDetail expected resourceId d = do {
     fs \<leftarrow> audit_requireExactObject d
       [''claimId'', ''claimVersion'', ''disposition'', ''reasonCode'', ''recoveryId''] [];
     i \<leftarrow> audit_requireUuidV7 (fld fs ''claimId'');
     require (\<not> (i \<noteq> resourceId \<or> fld fs ''claimVersion'' \<noteq> JNum (IntNum 2)));
     disposition \<leftarrow> requireEnum (\<lambda>s. s) [js expected] (fld fs ''disposition'');
     r \<leftarrow> audit_requireUuidV7 (fld fs ''recoveryId'');
     c \<leftarrow> requireEnum (\<lambda>s. s) PRIMARY_OBJECTIVE_WITHDRAW_REASON_CODES (fld fs ''reasonCode'');
     Some (JObj (object_of [(''claimId'', JStr i), (''claimVersion'', JNum (IntNum 2)),
       (''recoveryId'', JStr r), (''disposition'', JStr disposition), (''reasonCode'', JStr c)])) }"

definition reworkDetail :: "jstr \<Rightarrow> jsval \<Rightarrow> jsval option" where
  "reworkDetail resourceId d = do {
     fs \<leftarrow> audit_requireExactObject d [''predecessorClaimId'', ''predecessorVersion'',
       ''successorClaimId'', ''successorVersion'', ''evidenceSpanId'', ''supportAttestationId'',
       ''recoveryId'', ''disposition'', ''reasonCode''] [];
     s \<leftarrow> audit_requireUuidV7 (fld fs ''successorClaimId'');
     require (\<not> (s \<noteq> resourceId \<or> fld fs ''predecessorVersion'' \<noteq> JNum (IntNum 2) \<or>
       fld fs ''successorVersion'' \<noteq> JNum (IntNum 1) \<or> fld fs ''disposition'' \<noteq> JStr (js ''reworked'') \<or>
       fld fs ''reasonCode'' \<noteq> JStr (js ''reworked'')));
     p \<leftarrow> audit_requireUuidV7 (fld fs ''predecessorClaimId'');
     e \<leftarrow> audit_requireUuidV7 (fld fs ''evidenceSpanId'');
     a \<leftarrow> audit_requireUuidV7 (fld fs ''supportAttestationId'');
     r \<leftarrow> audit_requireUuidV7 (fld fs ''recoveryId'');
     Some (JObj (object_of [(''predecessorClaimId'', JStr p), (''predecessorVersion'', JNum (IntNum 2)),
       (''successorClaimId'', JStr s), (''successorVersion'', JNum (IntNum 1)),
       (''evidenceSpanId'', JStr e), (''supportAttestationId'', JStr a), (''recoveryId'', JStr r),
       (''disposition'', JStr (js ''reworked'')), (''reasonCode'', JStr (js ''reworked''))])) }"

definition factSupersedeDetail :: "jstr \<Rightarrow> jsval \<Rightarrow> jsval option" where
  "factSupersedeDetail resourceId d = do {
     fs \<leftarrow> audit_requireExactObject d [''factId'', ''factVersion'', ''reasonCode'', ''replacementFactId'',
       ''replacementFactVersion'', ''status''] [];
     i \<leftarrow> audit_requireUuidV7 (fld fs ''factId'');
     require (\<not> (i \<noteq> resourceId \<or> fld fs ''factVersion'' \<noteq> JNum (IntNum 2) \<or>
       fld fs ''replacementFactVersion'' \<noteq> JNum (IntNum 1) \<or>
       fld fs ''status'' \<noteq> JStr (js ''superseded'')));
     c \<leftarrow> requireEnum (\<lambda>s. s) SUPERSEDE_REASON_CODES (fld fs ''reasonCode'');
     r \<leftarrow> audit_requireUuidV7 (fld fs ''replacementFactId'');
     Some (JObj (object_of [(''factId'', JStr i), (''factVersion'', JNum (IntNum 2)),
       (''reasonCode'', JStr c), (''replacementFactId'', JStr r),
       (''replacementFactVersion'', JNum (IntNum 1)), (''status'', JStr (js ''superseded''))])) }"

definition factRevokeDetail :: "jstr \<Rightarrow> jsval \<Rightarrow> jsval option" where
  "factRevokeDetail resourceId d = do {
     fs \<leftarrow> audit_requireExactObject d [''factId'', ''factVersion'', ''reasonCode'', ''status''] [];
     i \<leftarrow> audit_requireUuidV7 (fld fs ''factId'');
     require (\<not> (i \<noteq> resourceId \<or> fld fs ''factVersion'' \<noteq> JNum (IntNum 2) \<or>
       fld fs ''status'' \<noteq> JStr (js ''revoked'')));
     c \<leftarrow> requireEnum (\<lambda>s. s) REVOKE_REASON_CODES (fld fs ''reasonCode'');
     Some (JObj (object_of [(''factId'', JStr i), (''factVersion'', JNum (IntNum 2)),
       (''reasonCode'', JStr c), (''status'', JStr (js ''revoked''))])) }"

fun audit_resource :: "audit_action \<Rightarrow> aggregate_type" where
  "audit_resource AuditOrganizationCreate = OrganizationAggregate"
| "audit_resource AuditInitiativeCreate = InitiativeAggregate"
| "audit_resource AuditActivityCreate = ActivityAggregate"
| "audit_resource AuditCaptureAdd = ActivityAggregate"
| "audit_resource AuditRelationshipCreate = RelationshipAggregate"
| "audit_resource AuditRelationshipEnd = RelationshipAggregate"
| "audit_resource AuditContentCreate = ContentItemAggregate"
| "audit_resource AuditContentRevise = ContentItemAggregate"
| "audit_resource AuditSourceCapture = SourceArtifactAggregate"
| "audit_resource AuditSourceCorrect = SourceArtifactAggregate"
| "audit_resource AuditSourceTombstone = SourceArtifactAggregate"
| "audit_resource AuditClaimCreate = ClaimAggregate"
| "audit_resource AuditObjectiveWithdraw = ClaimAggregate"
| "audit_resource AuditObjectiveReject = ClaimAggregate"
| "audit_resource AuditObjectiveRework = ClaimAggregate"
| "audit_resource AuditFactAccept = AcceptedFactAggregate"
| "audit_resource AuditFactSupersede = AcceptedFactAggregate"
| "audit_resource AuditFactRevoke = AcceptedFactAggregate"

fun audit_detail :: "audit_action \<Rightarrow> jstr \<Rightarrow> jsval \<Rightarrow> jsval option" where
  "audit_detail AuditOrganizationCreate i d = singleResourceIdDetail d ''organizationId'' i"
| "audit_detail AuditInitiativeCreate i d = singleResourceIdDetail d ''initiativeId'' i"
| "audit_detail AuditActivityCreate i d = singleResourceIdDetail d ''activityId'' i"
| "audit_detail AuditCaptureAdd i d = captureAddDetail i d"
| "audit_detail AuditRelationshipCreate i d = singleResourceIdDetail d ''relationshipId'' i"
| "audit_detail AuditRelationshipEnd i d = relationshipEndDetail i d"
| "audit_detail AuditContentCreate i d = singleResourceIdDetail d ''contentItemId'' i"
| "audit_detail AuditContentRevise i d = contentReviseDetail i d"
| "audit_detail AuditSourceCapture i d = singleResourceIdDetail d ''sourceArtifactId'' i"
| "audit_detail AuditSourceCorrect i d = sourceCorrectDetail i d"
| "audit_detail AuditSourceTombstone i d = sourceTombstoneDetail i d"
| "audit_detail AuditClaimCreate i d = claimCreateDetail i d"
| "audit_detail AuditObjectiveWithdraw i d = terminalProposalDetail ''withdrawn'' i d"
| "audit_detail AuditObjectiveReject i d = terminalProposalDetail ''rejected'' i d"
| "audit_detail AuditObjectiveRework i d = reworkDetail i d"
| "audit_detail AuditFactAccept i d = singleResourceIdDetail d ''factId'' i"
| "audit_detail AuditFactSupersede i d = factSupersedeDetail i d"
| "audit_detail AuditFactRevoke i d = factRevokeDetail i d"

definition parseProductAuditSafeDetail ::
  "audit_action \<Rightarrow> jstr \<Rightarrow> jstr \<Rightarrow> int \<Rightarrow> jsval \<Rightarrow> jsval option" where
  "parseProductAuditSafeDetail action resourceType resourceIdInput auditSchemaVersion safeDetail = do {
     require (\<not> auditSchemaVersion \<noteq> PRODUCT_AUDIT_SCHEMA_VERSION);
     resourceId \<leftarrow> audit_requireUuidV7 (JStr resourceIdInput);
     requireResourceType resourceType (audit_resource action);
     audit_detail action resourceId safeDetail }"

section \<open>The event that accompanies an action\<close>

fun accompanying_event :: "audit_action \<Rightarrow> event_type" where
  "accompanying_event AuditOrganizationCreate = OrganizationCreated"
| "accompanying_event AuditInitiativeCreate = InitiativeCreated"
| "accompanying_event AuditActivityCreate = ActivityCreated"
| "accompanying_event AuditCaptureAdd = ActivityCaptureAdded"
| "accompanying_event AuditRelationshipCreate = RelationshipCreated"
| "accompanying_event AuditRelationshipEnd = RelationshipEnded"
| "accompanying_event AuditContentCreate = ContentCreated"
| "accompanying_event AuditContentRevise = ContentRevised"
| "accompanying_event AuditSourceCapture = SourceCaptured"
| "accompanying_event AuditSourceCorrect = SourceCorrectedEvent"
| "accompanying_event AuditSourceTombstone = SourceTombstonedEvent"
| "accompanying_event AuditClaimCreate = ClaimProposed"
| "accompanying_event AuditObjectiveWithdraw = ProposalWithdrawn"
| "accompanying_event AuditObjectiveReject = ProposalRejected"
| "accompanying_event AuditObjectiveRework = ProposalReworked"
| "accompanying_event AuditFactAccept = FactAcceptedEvent"
| "accompanying_event AuditFactSupersede = FactSupersededEvent"
| "accompanying_event AuditFactRevoke = FactRevokedEvent"

lemma option_eqI: "(\<And>v. x = Some v \<longleftrightarrow> y = Some v) \<Longrightarrow> x = y"
  by (cases x; cases y) auto

lemma same_checks [simp]:
  "audit_requireExactObject = requireExactObject" "audit_requireUuidV7 = dn_requireUuidV7"
  by (intro ext)
     (auto simp: audit_requireExactObject_def requireExactObject_def list_ex_iff list_all_iff require_def
       audit_requireUuidV7_def dn_requireUuidV7_def split: jsval.splits)

lemma same_resource [simp]: "event_aggregate (accompanying_event a) = audit_resource a"
  by (cases a) simp_all

lemma single_detail:
  assumes "single_id_key t = k"
  shows "singleResourceIdDetail d k i = map_option (event_payload_value t) (singleIdPayload k i d)"
  by (rule option_eqI) (auto simp: singleResourceIdDetail_def singleIdPayload_def bind_Some_iff assms)

lemma safe_reference_bounded: "safe_reference s \<Longrightarrow> bounded_string 200 s"
proof -
  assume s: "safe_reference s"
  then have units: "\<forall>u\<in>set s. 31 < u \<and> u < 127" and len: "1 \<le> length s" "length s \<le> 200"
    by (auto simp: safe_reference_def is_reference_unit_def is_alnum_def is_digit_def list_all_iff
        split: list.splits)
  have "array_from s = map (\<lambda>u. [u]) s" using units
    by (induction s rule: array_from.induct) (auto simp: is_high_def)
  then show ?thesis using units len
    by (auto simp: bounded_string_def hasControlCharacters_def list_ex_iff)
qed

lemma same_reference_check [simp]: "requireSafeReference = dn_requireSafeReference"
  by (intro ext option_eqI) (auto simp: accept_simps safe_reference_bounded)

lemma safe_integer_pos: "safe_integer v = Some n \<Longrightarrow> 1 \<le> n \<Longrightarrow> v = JNum (IntNum n)"
  by (cases v) (auto dest: safe_int_pos)

lemma shared_details:
  "captureAddDetail i d = map_option (event_payload_value ActivityCaptureAdded) (parseCapturePayload i d)"
  "relationshipEndDetail i d = map_option (event_payload_value RelationshipEnded) (parseRelationshipEndPayload i d)"
  "contentReviseDetail i d = map_option (event_payload_value ContentRevised) (parseRevisionPayload i d)"
  "sourceCorrectDetail i d = map_option (event_payload_value SourceCorrectedEvent) (parseCorrectionPayload i d)"
  "claimCreateDetail i d = map_option (event_payload_value ClaimProposed) (parseClaimPayload i d)"
  "reworkDetail i d = map_option (event_payload_value ProposalReworked) (parseReworkPayload i d)"
  "factSupersedeDetail i d = map_option (event_payload_value FactSupersededEvent) (parseFactSupersedePayload i d)"
  "factRevokeDetail i d = map_option (event_payload_value FactRevokedEvent) (parseFactRevokePayload i d)"
  subgoal by (rule option_eqI) (auto simp: captureAddDetail_def parseCapturePayload_def bind_Some_iff)
  subgoal by (rule option_eqI)
    (auto simp: relationshipEndDetail_def parseRelationshipEndPayload_def bind_Some_iff accept_simps
      simp del: isDomainNotificationTimestamp.simps)
  subgoal by (rule option_eqI, auto simp: contentReviseDetail_def parseRevisionPayload_def bind_Some_iff
    requirePositiveInteger_def not_less) (drule (1) safe_integer_pos, simp)+
  subgoal by (rule option_eqI) (auto simp: sourceCorrectDetail_def parseCorrectionPayload_def bind_Some_iff)
  subgoal by (auto simp: claimCreateDetail_def parseClaimPayload_def Option.bind_map_option comp_def
    split: Option.bind_splits option.splits)
  subgoal by (rule option_eqI) (auto simp: reworkDetail_def parseReworkPayload_def bind_Some_iff)
  subgoal by (rule option_eqI)
    (auto simp: factSupersedeDetail_def parseFactSupersedePayload_def bind_Some_iff)
  subgoal by (rule option_eqI) (auto simp: factRevokeDetail_def parseFactRevokePayload_def bind_Some_iff)
  done

lemma terminal_detail:
  assumes "d = proposal_disposition t"
  shows "map_option canonicalJsonStringify (terminalProposalDetail d i v) =
    map_option (\<lambda>p. canonicalJsonStringify (event_payload_value t p)) (parseTerminalProposalPayload d i v)"
proof -
  have "canonicalJsonStringify (JObj (object_of [(''claimId'', JStr i), (''claimVersion'', JNum (IntNum 2)),
      (''recoveryId'', JStr r), (''disposition'', JStr (js d)), (''reasonCode'', JStr c)])) =
    canonicalJsonStringify (event_payload_value t (TerminalProposalPayload i c r))" for i r c
    unfolding event_payload_value.simps assms
    by (rule canonical_object_perm) (simp_all add: object_of_def)
  then show ?thesis
    by (intro option_eqI)
      (auto simp: terminalProposalDetail_def parseTerminalProposalPayload_def bind_Some_iff accept_simps
        simp del: canonicalJsonStringify.simps)
qed

lemma exact_object_key_set:
  assumes "set req = set req'"
  shows "requireExactObject v req opt = requireExactObject v req' opt"
  using assms by (simp add: requireExactObject_def list_all_iff cong: jsval.case_cong)

lemma tombstone_detail:
  "map_option canonicalJsonStringify (sourceTombstoneDetail i v) =
    map_option (\<lambda>p. canonicalJsonStringify (event_payload_value t p)) (parseTombstonePayload i v)"
proof -
  have "canonicalJsonStringify (JObj (object_of [(''sourceArtifactId'', JStr i), (''deletionPolicyRef'', JStr p),
       (''deletionReasonCategory'', JStr c), (''hashDisposition'', JStr h)])) =
    canonicalJsonStringify (event_payload_value t (TombstonePayload i c p h))" for i p c h
    unfolding event_payload_value.simps
    by (rule canonical_object_perm) (simp_all add: object_of_def)
  moreover have "requireExactObject v [''sourceArtifactId'', ''deletionPolicyRef'', ''deletionReasonCategory'',
      ''hashDisposition''] [] = requireExactObject v [''sourceArtifactId'', ''deletionReasonCategory'',
      ''deletionPolicyRef'', ''hashDisposition''] []"
    by (rule exact_object_key_set) auto
  ultimately show ?thesis
    by (intro option_eqI)
      (auto simp: sourceTombstoneDetail_def parseTombstonePayload_def bind_Some_iff accept_simps
        simp del: canonicalJsonStringify.simps)
qed

lemmas single_details =
  single_detail[of OrganizationCreated, OF single_id_key.simps(1)]
  single_detail[of InitiativeCreated, OF single_id_key.simps(2)]
  single_detail[of ActivityCreated, OF single_id_key.simps(3)]
  single_detail[of RelationshipCreated, OF single_id_key.simps(4)]
  single_detail[of ContentCreated, OF single_id_key.simps(5)]
  single_detail[of SourceCaptured, OF single_id_key.simps(6)]
  single_detail[of FactAcceptedEvent "''factId''", simplified]

lemma audit_detail_event:
  "map_option canonicalJsonStringify (audit_detail a i d) =
   map_option (\<lambda>p. canonicalJsonStringify (event_payload_value (accompanying_event a) p))
     (parse_event_payload (accompanying_event a) i d)"
  by (cases a)
     (simp_all add: shared_details single_details terminal_detail tombstone_detail proposal_disposition_def
       option.map_comp comp_def del: canonicalJsonStringify.simps event_payload_value.simps same_checks)

text \<open>A detail is accepted for the audit event of an action exactly when it is accepted as the
  payload of the notification that accompanies the action, and both get the same canonical text:
  the audit trail and the outbox never disagree about what happened.\<close>
theorem audit_detail_agrees_with_event:
  assumes "audit_requireUuidV7 (JStr resourceId) = Some i"
  shows "map_option canonicalJsonStringify (parseProductAuditSafeDetail action
      (aggregate_string (event_aggregate (accompanying_event action))) resourceId 1 detail) =
    map_option (\<lambda>p. canonicalJsonStringify (event_payload_value (accompanying_event action) p))
      (parse_event_payload (accompanying_event action) i detail)"
  using assms audit_detail_event
  by (simp add: parseProductAuditSafeDetail_def PRODUCT_AUDIT_SCHEMA_VERSION_def requireResourceType_def
      del: canonicalJsonStringify.simps event_payload_value.simps)

lemma audit_detail_agrees_with_event_witness:
  "map_option canonicalJsonStringify (parseProductAuditSafeDetail AuditFactAccept
      (aggregate_string (event_aggregate (accompanying_event AuditFactAccept))) (example_id 1) 1
      (obj [(''factId'', JStr (example_id 1))])) =
    map_option (\<lambda>p. canonicalJsonStringify (event_payload_value (accompanying_event AuditFactAccept) p))
      (parse_event_payload (accompanying_event AuditFactAccept) (example_id 1)
        (obj [(''factId'', JStr (example_id 1))]))"
  by (rule audit_detail_agrees_with_event) simp

section \<open>The table of audit events\<close>

text \<open>
  \<open>AuditEventRepository\<close> of \<open>packages/db/src/product-domain-repositories.ts\<close>: the append-only table of
  audit events. The detail of an event is checked and stored as canonical JSON text.
\<close>

record audit_insert =
  ai_id :: jstr
  ai_tenantId :: jstr
  ai_workspaceId :: jstr
  ai_spaceId :: jstr
  ai_causationCommandId :: jstr
  ai_actorUserId :: jstr
  ai_actorMembershipId :: jstr
  ai_delegatingUserId :: "jstr option"
  ai_delegatingMembershipId :: "jstr option"
  ai_agentPrincipalId :: "jstr option"
  ai_policyVersionId :: jstr
  ai_requestId :: jstr
  ai_traceparent :: jstr
  ai_tracestate :: "jstr option"
  ai_action :: audit_action
  ai_resourceType :: jstr
  ai_resourceId :: jstr
  ai_auditSchemaVersion :: int
  ai_safeDetail :: jsval

record audit_row =
  au_id :: jstr
  au_tenant_id :: jstr
  au_workspace_id :: jstr
  au_space_id :: jstr
  au_causation_command_id :: jstr
  au_action :: jstr
  au_resource_type :: jstr
  au_resource_id :: jstr
  au_actor_user_id :: jstr
  au_actor_membership_id :: jstr
  au_delegating_user_id :: "jstr option"
  au_delegating_membership_id :: "jstr option"
  au_agent_principal_id :: "jstr option"
  au_policy_version_id :: jstr
  au_request_id :: jstr
  au_traceparent :: jstr
  au_tracestate :: "jstr option"
  au_audit_schema_version :: int
  au_safe_detail :: jstr

datatype audit_error = ProductAuditDetailValidationError | AuditUniqueViolation | AuditCanonicalJsonError

definition audit_row_of :: "audit_insert \<Rightarrow> jstr \<Rightarrow> audit_row" where
  "audit_row_of input safeDetail =
     \<lparr>au_id = uuid_column (ai_id input), au_tenant_id = uuid_column (ai_tenantId input),
      au_workspace_id = uuid_column (ai_workspaceId input), au_space_id = uuid_column (ai_spaceId input),
      au_causation_command_id = uuid_column (ai_causationCommandId input),
      au_action = action_string (ai_action input), au_resource_type = ai_resourceType input,
      au_resource_id = uuid_column (ai_resourceId input), au_actor_user_id = uuid_column (ai_actorUserId input),
      au_actor_membership_id = uuid_column (ai_actorMembershipId input),
      au_delegating_user_id = map_option uuid_column (ai_delegatingUserId input),
      au_delegating_membership_id = map_option uuid_column (ai_delegatingMembershipId input),
      au_agent_principal_id = map_option uuid_column (ai_agentPrincipalId input),
      au_policy_version_id = ai_policyVersionId input, au_request_id = ai_requestId input,
      au_traceparent = ai_traceparent input, au_tracestate = ai_tracestate input,
      au_audit_schema_version = ai_auditSchemaVersion input, au_safe_detail = safeDetail\<rparr>"

definition audit_insert_event :: "audit_insert \<Rightarrow> (audit_row list, audit_error, unit) op" where
  "audit_insert_event input =
     op_bind (op_lift (ok_or ProductAuditDetailValidationError (parseProductAuditSafeDetail (ai_action input)
       (ai_resourceType input) (ai_resourceId input) (ai_auditSchemaVersion input) (ai_safeDetail input)))) (\<lambda>detail.
     op_bind (op_lift (ok_or AuditCanonicalJsonError (canonicalJsonStringify detail))) (\<lambda>safeDetail rows.
     if list_ex (\<lambda>r. au_id r = uuid_column (ai_id input)) rows then Inl AuditUniqueViolation
     else Inr ((), rows @ [audit_row_of input safeDetail])))"

lemma audit_insert_effect:
  assumes "audit_insert_event input rows = Inr (u, rows')"
  obtains detail_text where "rows' = rows @ [audit_row_of input detail_text]"
    "\<forall>r\<in>set rows. au_id r \<noteq> uuid_column (ai_id input)"
  using assms that unfolding audit_insert_event_def by (auto simp: op_simps list_ex_iff split: if_splits)

end
