(* ===== verification/Ledger_Rows.thy ===== *)
theory Ledger_Rows
  imports  Accepted_Fact Audit_Detail Product_Outbox B2_Results Database_Ops
begin

text \<open>
  The tables of the truth ledger (\<open>truth.*\<close>, with the command records, audit events and outbox of
  \<open>ops.*\<close>), the tables it only reads (\<open>work\<close>, \<open>access\<close>, \<open>content\<close>, \<open>identity\<close>), and the errors of the
  ledger. Columns with a fixed set of values are datatypes; instants are microseconds; a nullable
  column is an option. \<open>packages/truth-ledger/src/repository.ts\<close> names the columns in its queries,
  the migrations \<open>0007\<close>, \<open>0011\<close> and \<open>0012\<close> declare them. Columns whose constraint leaves one value only
  (the catalog, normalization and chunking versions, the version of a chunk, the kind of the
  asserting party) are left out.
\<close>

section \<open>Tables of the ledger\<close>

datatype claim_status = Proposed | AcceptedClaim | RejectedClaim | SupersededClaim
datatype fact_status = CurrentFact | ContestedFact | SupersededFact | RevokedFact
datatype disposition = Withdrawn | Rejected | Reworked

fun claim_status_string :: "claim_status \<Rightarrow> jstr" where
  "claim_status_string Proposed = js ''proposed''"
| "claim_status_string AcceptedClaim = js ''accepted''"
| "claim_status_string RejectedClaim = js ''rejected''"
| "claim_status_string SupersededClaim = js ''superseded''"

fun disposition_string :: "disposition \<Rightarrow> jstr" where
  "disposition_string Withdrawn = js ''withdrawn''"
| "disposition_string Rejected = js ''rejected''"
| "disposition_string Reworked = js ''reworked''"

record span_row =
  sp_id :: jstr
  sp_tenant_id :: jstr
  sp_workspace_id :: jstr
  sp_space_id :: jstr
  sp_source_artifact_id :: jstr
  sp_source_chunk_id :: jstr
  sp_source_version :: int
  sp_start_offset :: int
  sp_end_offset :: int
  sp_excerpt :: jstr
  sp_source_content_hash :: jstr
  sp_source_normalized_content_hash :: jstr
  sp_chunk_content_hash :: jstr
  sp_excerpt_hash :: jstr
  sp_access_class :: access_class
  sp_created_by_user_id :: jstr
  sp_created_by_membership_id :: jstr
  sp_causation_command_id :: jstr

record truth_claim_row =
  tc_id :: jstr
  tc_tenant_id :: jstr
  tc_workspace_id :: jstr
  tc_space_id :: jstr
  tc_subject_type :: subject_kind
  tc_subject_id :: jstr
  tc_predicate :: truth_predicate
  tc_canonical_value_text :: jstr
  tc_value_hash :: jstr
  tc_normalized_text :: jstr
  tc_evidence_span_id :: jstr
  tc_asserted_by_id :: jstr
  tc_confidence :: confidence
  tc_valid_from :: "int option"
  tc_valid_to :: "int option"
  tc_observed_at :: "int option"
  tc_status :: claim_status
  tc_access_class :: access_class
  tc_created_by_user_id :: jstr
  tc_created_by_membership_id :: jstr
  tc_causation_command_id :: jstr
  tc_created_at :: int
  tc_updated_at :: int
  tc_version :: int

record attestation_row =
  at_id :: jstr
  at_tenant_id :: jstr
  at_workspace_id :: jstr
  at_space_id :: jstr
  at_initiative_id :: jstr
  at_claim_id :: jstr
  at_evidence_span_id :: jstr
  at_objective_value_hash :: jstr
  at_excerpt_hash :: jstr
  at_confirmed_by_user_id :: jstr
  at_confirmed_by_membership_id :: jstr
  at_causation_command_id :: jstr

record recovery_row =
  rc_id :: jstr
  rc_tenant_id :: jstr
  rc_workspace_id :: jstr
  rc_space_id :: jstr
  rc_initiative_id :: jstr
  rc_predecessor_claim_id :: jstr
  rc_successor_claim_id :: "jstr option"
  rc_disposition :: disposition
  rc_reason_code :: jstr
  rc_acted_by_user_id :: jstr
  rc_acted_by_membership_id :: jstr
  rc_causation_command_id :: jstr
  rc_created_at :: int

record fact_row =
  tf_id :: jstr
  tf_tenant_id :: jstr
  tf_workspace_id :: jstr
  tf_space_id :: jstr
  tf_subject_type :: subject_kind
  tf_subject_id :: jstr
  tf_predicate :: truth_predicate
  tf_canonical_value_text :: jstr
  tf_value_hash :: jstr
  tf_normalized_text :: jstr
  tf_confidence :: confidence
  tf_confidence_rule :: jstr
  tf_strongest_supporting_confidence :: confidence
  tf_human_lowered :: bool
  tf_lowering_reason :: "(jstr \<times> jstr) option"
  tf_valid_from :: "int option"
  tf_valid_to :: "int option"
  tf_recorded_at :: int
  tf_status :: fact_status
  tf_access_class :: access_class
  tf_accepted_by_user_id :: jstr
  tf_accepted_by_membership_id :: jstr
  tf_acceptance_scope :: jstr
  tf_authority_basis :: jstr
  tf_acceptance_policy_version :: jstr
  tf_last_causation_command_id :: jstr
  tf_created_at :: int
  tf_updated_at :: int
  tf_version :: int

record fact_claim_row =
  fc_tenant_id :: jstr
  fc_workspace_id :: jstr
  fc_space_id :: jstr
  fc_fact_id :: jstr
  fc_claim_id :: jstr

record lifecycle_event_row =
  le_id :: jstr
  le_tenant_id :: jstr
  le_workspace_id :: jstr
  le_space_id :: jstr
  le_predecessor_fact_id :: jstr
  le_successor_fact_id :: "jstr option"
  le_to_status :: fact_status
  le_reason_code :: jstr
  le_reason_rationale :: jstr
  le_authority_basis :: jstr
  le_policy_version :: jstr
  le_acted_by_user_id :: jstr
  le_acted_by_membership_id :: jstr
  le_causation_command_id :: jstr

record ledger =
  lg_commands :: "command_row list"
  lg_audit :: "audit_row list"
  lg_outbox :: "outbox_row list"
  lg_spans :: "span_row list"
  lg_claims :: "truth_claim_row list"
  lg_attestations :: "attestation_row list"
  lg_recoveries :: "recovery_row list"
  lg_facts :: "fact_row list"
  lg_fact_claims :: "fact_claim_row list"
  lg_events :: "lifecycle_event_row list"

section \<open>Tables that are only read\<close>

record subject_row =
  wk_type :: subject_kind
  wk_id :: jstr
  wk_tenant_id :: jstr
  wk_workspace_id :: jstr
  wk_space_id :: jstr
  wk_version :: int
  wk_governing_initiative_id :: "jstr option"

record space_row =
  ws_id :: jstr
  ws_tenant_id :: jstr
  ws_workspace_id :: jstr
  ws_access_class :: access_class
  ws_archived :: bool

record source_row =
  sa_id :: jstr
  sa_tenant_id :: jstr
  sa_workspace_id :: jstr
  sa_space_id :: jstr
  sa_access_class :: access_class
  sa_version :: int
  sa_deleted_at :: "int option"
  sa_immutable_text :: "jstr option"
  sa_content_hash :: "jstr option"
  sa_normalized_content_hash :: "jstr option"
  sa_normalization_version :: jstr
  sa_chunking_version :: jstr
  sa_supersedes_source_id :: "jstr option"

record activity_source_row =
  ax_tenant_id :: jstr
  ax_workspace_id :: jstr
  ax_space_id :: jstr
  ax_source_artifact_id :: jstr
  ax_activity_id :: jstr

record chunk_row =
  wc_id :: jstr
  wc_tenant_id :: jstr
  wc_workspace_id :: jstr
  wc_source_artifact_id :: jstr
  wc_space_id :: jstr
  wc_normalization_version :: jstr
  wc_chunking_version :: jstr
  wc_chunk_index :: int
  wc_start_offset :: int
  wc_end_offset :: int
  wc_normalized_text :: jstr
  wc_content_hash :: jstr
  wc_access_class :: access_class

record principal_row =
  pr_id :: jstr
  pr_tenant_id :: jstr
  pr_workspace_id :: jstr
  pr_purpose :: jstr
  pr_status :: jstr

record grant_row =
  gr_tenant_id :: jstr
  gr_workspace_id :: jstr
  gr_subject_type :: jstr
  gr_subject_id :: jstr
  gr_relation :: jstr
  gr_resource_type :: jstr
  gr_resource_id :: jstr

record world =
  wd_subjects :: "subject_row list"
  wd_spaces :: "space_row list"
  wd_sources :: "source_row list"
  wd_activity_sources :: "activity_source_row list"
  wd_chunks :: "chunk_row list"
  wd_principals :: "principal_row list"
  wd_grants :: "grant_row list"
  wd_current_user :: jstr

section \<open>Errors\<close>

text \<open>\<open>DatabaseError\<close> is an error of the driver with its code, \<open>ThrownError\<close> anything else that is
  thrown by what the model takes as given.\<close>

datatype truth_error =
    AuthorizationError
  | IdempotencyConflictError
  | CommandError b2_error
  | LedgerConflictError
  | LedgerInvariantError
  | LedgerUnavailableError
  | ContractError
  | SpanError span_error
  | DomainError domain_error
  | AuditError audit_error
  | OutboxError insert_error
  | DatabaseError jstr
  | ThrownError jsval

type_synonym 'a ledger_op = "(ledger, truth_error, 'a) op"

definition unique_violation :: truth_error where
  "unique_violation = DatabaseError (js ''23505'')"

section \<open>Reading and inserting\<close>

definition the_first :: "truth_error \<Rightarrow> 'r list \<Rightarrow> 'r ledger_op" where
  "the_first e rows = (case rows of [] \<Rightarrow> op_fail e | r # _ \<Rightarrow> op_return r)"

lemma the_first_Inr [op_simps]: "the_first e rows s = Inr (r, t) \<longleftrightarrow> t = s \<and> (\<exists>rest. rows = r # rest)"
  by (cases rows) (auto simp: the_first_def op_simps)

definition insert_unique :: "(ledger \<Rightarrow> 'r list) \<Rightarrow> (('r list \<Rightarrow> 'r list) \<Rightarrow> ledger \<Rightarrow> ledger) \<Rightarrow>
    ('r \<Rightarrow> 'k) \<Rightarrow> 'r \<Rightarrow> unit ledger_op" where
  "insert_unique table update key r s =
     (if list_ex (\<lambda>r'. key r' = key r) (table s) then Inl unique_violation
      else Inr ((), update (\<lambda>rows. rows @ [r]) s))"

lemma insert_unique_Inr [op_simps]:
  "insert_unique table update key r s = Inr (u, t) \<longleftrightarrow>
     (\<forall>r'\<in>set (table s). key r' \<noteq> key r) \<and> t = update (\<lambda>rows. rows @ [r]) s"
  by (auto simp: insert_unique_def list_ex_iff)

end
