(* ===== verification/Truth_Claims.thy ===== *)
theory Truth_Claims
  imports Ledger_Rows
begin

text \<open>
  \<open>TruthLedgerRepository\<close> of \<open>packages/truth-ledger/src/repository.ts\<close>: the queries and statements of the
  truth ledger, one operation each. The tables that are only read are the argument \<open>wd\<close>; the clock
  of the database, how it reads a timestamp (\<open>instant\<close>), NFC and SHA-256 are arguments too. Locks
  have no effect of their own here: operations of one transaction are not interleaved with others.

  A target of a lifecycle command is an object that the repository remembers in a weak map together
  with a mutable state; the state is the record \<open>prelock_state\<close>, which the operations pass on.
\<close>

section \<open>Checks\<close>

definition sha256CanonicalText :: "(nat list \<Rightarrow> jstr) \<Rightarrow> jstr \<Rightarrow> jstr" where
  "sha256CanonicalText sha256 v = sha256 (utf8 v)"

definition isCanonicalTruthCoordinate :: "subject_kind \<Rightarrow> truth_predicate \<Rightarrow> bool" where
  "isCanonicalTruthCoordinate subjectType predicate \<longleftrightarrow>
     (subjectType = ActivitySubject \<and> predicate = ActivityOutcome) \<or>
     (subjectType = InitiativeSubject \<and> predicate = PrimaryObjective)"

definition lifecycleAuthorityMatchesCoordinate :: "fact_row \<Rightarrow> bool" where
  "lifecycleAuthorityMatchesCoordinate row \<longleftrightarrow>
     (tf_subject_type row = ActivitySubject \<and> tf_predicate row = ActivityOutcome \<and>
      tf_acceptance_scope row = js ''engagement'' \<and> tf_authority_basis row = js ''activity_owner'') \<or>
     (tf_subject_type row = InitiativeSubject \<and> tf_predicate row = PrimaryObjective \<and>
      tf_acceptance_scope row = js ''initiative'' \<and> tf_authority_basis row = js ''initiative_owner'')"

definition sameSortedIds :: "jstr list \<Rightarrow> jstr list \<Rightarrow> bool" where
  "sameSortedIds left right \<longleftrightarrow> length left = length right \<and> list_all (\<lambda>(a, b). a = b) (zip left right)"

definition parseLifecycleReason :: "(jstr \<Rightarrow> jstr) \<Rightarrow> reason_kind \<Rightarrow> truth_reason \<Rightarrow> truth_error + truth_reason" where
  "parseLifecycleReason nfc kind input =
     ok_or LedgerConflictError (parseTruthLifecycleReason nfc kind (reason_value input))"

text \<open>Inside a guarded operation an error raised by a trigger (\<open>P0001\<close>) is a conflict and any other
  error of the database breaks an invariant; the errors of the ledger pass.\<close>

fun lifecycle_error :: "truth_error \<Rightarrow> truth_error" where
  "lifecycle_error LedgerConflictError = LedgerConflictError"
| "lifecycle_error LedgerInvariantError = LedgerInvariantError"
| "lifecycle_error LedgerUnavailableError = LedgerUnavailableError"
| "lifecycle_error (DatabaseError code) =
     (if code = js ''P0001'' then LedgerConflictError else LedgerInvariantError)"
| "lifecycle_error _ = LedgerInvariantError"

definition guardLifecycleDatabaseOperation :: "'a ledger_op \<Rightarrow> 'a ledger_op" where
  "guardLifecycleDatabaseOperation operation = op_catch lifecycle_error operation"

lemma guard_Inr [op_simps]: "guardLifecycleDatabaseOperation m s = Inr r \<longleftrightarrow> m s = Inr r"
  by (cases r) (simp add: guardLifecycleDatabaseOperation_def op_simps)

section \<open>Subjects and evidence\<close>

definition transactionTimestamp :: "int \<Rightarrow> jstr" where
  "transactionTimestamp clock = toISOString (clock div 1000)"

record subject_scope =
  ss_subjectType :: subject_kind
  ss_subjectId :: jstr
  ss_spaceId :: jstr
  ss_accessClass :: access_class
  ss_version :: int

definition subject_named :: "jstr \<Rightarrow> jstr \<Rightarrow> subject_kind \<Rightarrow> jstr \<Rightarrow> subject_row \<Rightarrow> bool" where
  "subject_named tenantId workspaceId subjectType subjectId w \<longleftrightarrow> wk_type w = subjectType \<and>
     wk_tenant_id w = uuid_column tenantId \<and> wk_workspace_id w = uuid_column workspaceId \<and>
     wk_id w = uuid_column subjectId"

definition space_of :: "subject_row \<Rightarrow> space_row \<Rightarrow> bool" where
  "space_of w sp \<longleftrightarrow> ws_tenant_id sp = wk_tenant_id w \<and> ws_workspace_id sp = wk_workspace_id w \<and>
     ws_id sp = wk_space_id w"

definition getSubjectScope ::
  "world \<Rightarrow> jstr \<Rightarrow> jstr \<Rightarrow> subject_kind \<Rightarrow> jstr \<Rightarrow> truth_error + subject_scope" where
  "getSubjectScope wd tenantId workspaceId subjectType subjectId =
     (case [(w, sp). w \<leftarrow> wd_subjects wd, subject_named tenantId workspaceId subjectType subjectId w,
                     sp \<leftarrow> wd_spaces wd, space_of w sp \<and> \<not> ws_archived sp] of
        [] \<Rightarrow> Inl LedgerInvariantError
      | (w, sp) # _ \<Rightarrow> Inr \<lparr>ss_subjectType = subjectType, ss_subjectId = subjectId,
          ss_spaceId = wk_space_id w, ss_accessClass = ws_access_class sp, ss_version = wk_version w\<rparr>)"

definition scoped_source :: "lookup_key \<Rightarrow> source_row \<Rightarrow> bool" where
  "scoped_source q so \<longleftrightarrow> sa_tenant_id so = uuid_column (lq_tenantId q) \<and>
     sa_workspace_id so = uuid_column (lq_workspaceId q) \<and> sa_id so = uuid_column (lq_sourceArtifactId q)"

definition linked_activity :: "source_row \<Rightarrow> activity_source_row \<Rightarrow> subject_row \<Rightarrow> bool" where
  "linked_activity so ax w \<longleftrightarrow>
     ax_tenant_id ax = sa_tenant_id so \<and> ax_workspace_id ax = sa_workspace_id so \<and>
     ax_space_id ax = sa_space_id so \<and> ax_source_artifact_id ax = sa_id so \<and>
     wk_type w = ActivitySubject \<and> wk_tenant_id w = ax_tenant_id ax \<and>
     wk_workspace_id w = ax_workspace_id ax \<and> wk_space_id w = ax_space_id ax \<and> wk_id w = ax_activity_id ax"

definition space_of_source :: "source_row \<Rightarrow> space_row \<Rightarrow> bool" where
  "space_of_source so sp \<longleftrightarrow> ws_tenant_id sp = sa_tenant_id so \<and>
     ws_workspace_id sp = sa_workspace_id so \<and> ws_id sp = sa_space_id so \<and> \<not> ws_archived sp"

definition source_lookup :: "world \<Rightarrow> lookup_key \<Rightarrow> (source_row \<times> subject_row \<times> space_row) list" where
  "source_lookup wd q = [(so, w, sp). so \<leftarrow> wd_sources wd, scoped_source q so,
     ax \<leftarrow> wd_activity_sources wd, w \<leftarrow> wd_subjects wd, linked_activity so ax w,
     sp \<leftarrow> wd_spaces wd, space_of_source so sp]"

definition successor_sources :: "world \<Rightarrow> lookup_key \<Rightarrow> source_row list" where
  "successor_sources wd q = filter (\<lambda>so. sa_tenant_id so = uuid_column (lq_tenantId q) \<and>
     sa_workspace_id so = uuid_column (lq_workspaceId q) \<and>
     sa_supersedes_source_id so = Some (uuid_column (lq_sourceArtifactId q))) (wd_sources wd)"

definition source_chunks :: "world \<Rightarrow> lookup_key \<Rightarrow> chunk_row list" where
  "source_chunks wd q = sort_key wc_chunk_index (filter (\<lambda>c. wc_tenant_id c = uuid_column (lq_tenantId q) \<and>
     wc_workspace_id c = uuid_column (lq_workspaceId q) \<and>
     wc_source_artifact_id c = uuid_column (lq_sourceArtifactId q)) (wd_chunks wd))"

definition chunk_snapshot_of :: "lookup_key \<Rightarrow> chunk_row \<Rightarrow> chunk_snapshot" where
  "chunk_snapshot_of q c = \<lparr>ck_id = wc_id c, ck_tenantId = lq_tenantId q, ck_workspaceId = lq_workspaceId q,
     ck_spaceId = wc_space_id c, ck_sourceArtifactId = wc_source_artifact_id c, ck_version = 1,
     ck_normalizationVersion = wc_normalization_version c, ck_chunkingVersion = wc_chunking_version c,
     ck_chunkIndex = wc_chunk_index c, ck_startOffset = wc_start_offset c, ck_endOffset = wc_end_offset c,
     ck_normalizedText = wc_normalized_text c, ck_contentHash = wc_content_hash c,
     ck_accessClass = access_string (wc_access_class c)\<rparr>"

definition source_snapshot_of :: "world \<Rightarrow> lookup_key \<Rightarrow> source_row \<Rightarrow> source_snapshot" where
  "source_snapshot_of wd q so = \<lparr>so_id = sa_id so, so_tenantId = lq_tenantId q, so_workspaceId = lq_workspaceId q,
     so_spaceId = sa_space_id so, so_version = sa_version so, so_immutableText = sa_immutable_text so,
     so_contentHash = sa_content_hash so, so_normalizedContentHash = sa_normalized_content_hash so,
     so_normalizationVersion = sa_normalization_version so, so_chunkingVersion = sa_chunking_version so,
     so_accessClass = access_string (sa_access_class so),
     so_deletedAt = map_option (\<lambda>t. toISOString (t div 1000)) (sa_deleted_at so),
     so_successorSourceArtifactId =
       (case successor_sources wd q of [] \<Rightarrow> None | s # _ \<Rightarrow> Some (sa_id s))\<rparr>"

definition evidence_snapshot_of ::
  "world \<Rightarrow> lookup_key \<Rightarrow> subject_scope \<Rightarrow> source_row \<times> subject_row \<times> space_row \<Rightarrow> evidence_snapshot" where
  "evidence_snapshot_of wd q subject found = (case found of (so, w, sp) \<Rightarrow>
     \<lparr>sn_tenantId = lq_tenantId q, sn_workspaceId = lq_workspaceId q, sn_spaceId = sa_space_id so,
      sn_subject = \<lparr>sj_type = lq_subjectType q, sj_id = lq_subjectId q, sj_tenantId = lq_tenantId q,
        sj_workspaceId = lq_workspaceId q, sj_spaceId = ss_spaceId subject, sj_version = ss_version subject,
        sj_accessClass = access_string (ss_accessClass subject)\<rparr>,
      sn_link = \<lparr>lk_tenantId = lq_tenantId q, lk_workspaceId = lq_workspaceId q, lk_spaceId = sa_space_id so,
        lk_sourceArtifactId = sa_id so, lk_activityId = wk_id w,
        lk_governingInitiativeId = wk_governing_initiative_id w\<rparr>,
      sn_source = source_snapshot_of wd q so,
      sn_chunks = map (chunk_snapshot_of q) (source_chunks wd q),
      sn_explicitPolicyAccessClass = access_string (ws_access_class sp)\<rparr>)"

definition getAuthorizedClaimEvidenceSnapshot :: "world \<Rightarrow> lookup_key \<Rightarrow> truth_error + evidence_snapshot option" where
  "getAuthorizedClaimEvidenceSnapshot wd q =
     res_bind (getSubjectScope wd (lq_tenantId q) (lq_workspaceId q) (lq_subjectType q) (lq_subjectId q))
       (\<lambda>subject. case source_lookup wd q of
          [] \<Rightarrow> Inr None
        | found # _ \<Rightarrow>
            if ss_spaceId subject \<noteq> sa_space_id (fst found) then Inr None
            else if \<not> list_ex (\<lambda>c. wc_id c = lq_sourceChunkId q) (source_chunks wd q) then Inr None
            else Inr (Some (evidence_snapshot_of wd q subject found)))"

section \<open>Claims\<close>

text \<open>
  \<open>TruthLedgerRepository\<close>, continued: claims with their evidence, the single open proposal of an
  initiative's primary objective, and the claims read for acceptance.
\<close>

section \<open>Proposing a claim\<close>

record claim_insert =
  in_tenantId :: jstr
  in_workspaceId :: jstr
  in_claimId :: jstr
  in_evidenceSpanId :: jstr
  in_supportAttestationId :: "jstr option"
  in_commandId :: jstr
  in_actorUserId :: jstr
  in_actorMembershipId :: jstr
  in_assertedById :: jstr
  in_predicate :: truth_predicate
  in_canonicalValue :: jstr
  in_normalizedText :: jstr
  in_confidence :: confidence
  in_validFrom :: "jstr option"
  in_validTo :: "jstr option"
  in_observedAt :: "jstr option"
  in_evidence :: verified_span

definition start_column :: "jsnum \<Rightarrow> int" where
  "start_column n = (case safe_int n of Some i \<Rightarrow> i | None \<Rightarrow> 0)"

definition span_row_of :: "claim_insert \<Rightarrow> span_row" where
  "span_row_of input = (let evidence = in_evidence input in
     \<lparr>sp_id = uuid_column (in_evidenceSpanId input), sp_tenant_id = uuid_column (in_tenantId input),
      sp_workspace_id = uuid_column (in_workspaceId input), sp_space_id = uuid_column (vs_spaceId evidence),
      sp_source_artifact_id = uuid_column (vs_sourceArtifactId evidence),
      sp_source_chunk_id = uuid_column (vs_sourceChunkId evidence),
      sp_source_version = vs_sourceVersion evidence, sp_start_offset = start_column (vs_startOffset evidence),
      sp_end_offset = vs_endOffset evidence, sp_excerpt = vs_excerpt evidence,
      sp_source_content_hash = vs_sourceContentHash evidence,
      sp_source_normalized_content_hash = vs_sourceNormalizedContentHash evidence,
      sp_chunk_content_hash = vs_chunkContentHash evidence, sp_excerpt_hash = vs_excerptHash evidence,
      sp_access_class = vs_effectiveAccessClass evidence,
      sp_created_by_user_id = uuid_column (in_actorUserId input),
      sp_created_by_membership_id = uuid_column (in_actorMembershipId input),
      sp_causation_command_id = uuid_column (in_commandId input)\<rparr>)"

definition claim_row_of ::
  "(nat list \<Rightarrow> jstr) \<Rightarrow> (jstr \<Rightarrow> int) \<Rightarrow> int \<Rightarrow> claim_insert \<Rightarrow> truth_claim_row" where
  "claim_row_of sha256 instant clock input = (let evidence = in_evidence input in
     \<lparr>tc_id = uuid_column (in_claimId input), tc_tenant_id = uuid_column (in_tenantId input),
      tc_workspace_id = uuid_column (in_workspaceId input), tc_space_id = uuid_column (vs_spaceId evidence),
      tc_subject_type = vs_subjectType evidence, tc_subject_id = uuid_column (vs_subjectId evidence),
      tc_predicate = in_predicate input, tc_canonical_value_text = in_canonicalValue input,
      tc_value_hash = sha256CanonicalText sha256 (in_canonicalValue input),
      tc_normalized_text = in_normalizedText input,
      tc_evidence_span_id = uuid_column (in_evidenceSpanId input),
      tc_asserted_by_id = uuid_column (in_assertedById input), tc_confidence = in_confidence input,
      tc_valid_from = map_option instant (in_validFrom input),
      tc_valid_to = map_option instant (in_validTo input),
      tc_observed_at = map_option instant (in_observedAt input), tc_status = Proposed,
      tc_access_class = vs_effectiveAccessClass evidence,
      tc_created_by_user_id = uuid_column (in_actorUserId input),
      tc_created_by_membership_id = uuid_column (in_actorMembershipId input),
      tc_causation_command_id = uuid_column (in_commandId input), tc_created_at = clock,
      tc_updated_at = clock, tc_version = 1\<rparr>)"

definition attestation_row_of :: "(nat list \<Rightarrow> jstr) \<Rightarrow> claim_insert \<Rightarrow> jstr \<Rightarrow> attestation_row" where
  "attestation_row_of sha256 input attestationId = (let evidence = in_evidence input in
     \<lparr>at_id = uuid_column attestationId, at_tenant_id = uuid_column (in_tenantId input),
      at_workspace_id = uuid_column (in_workspaceId input), at_space_id = uuid_column (vs_spaceId evidence),
      at_initiative_id = uuid_column (vs_subjectId evidence), at_claim_id = uuid_column (in_claimId input),
      at_evidence_span_id = uuid_column (in_evidenceSpanId input),
      at_objective_value_hash = sha256CanonicalText sha256 (in_canonicalValue input),
      at_excerpt_hash = vs_excerptHash evidence,
      at_confirmed_by_user_id = uuid_column (in_actorUserId input),
      at_confirmed_by_membership_id = uuid_column (in_actorMembershipId input),
      at_causation_command_id = uuid_column (in_commandId input)\<rparr>)"

definition insertEvidenceAndClaim ::
  "(nat list \<Rightarrow> jstr) \<Rightarrow> (jstr \<Rightarrow> int) \<Rightarrow> int \<Rightarrow> claim_insert \<Rightarrow> unit ledger_op" where
  "insertEvidenceAndClaim sha256 instant clock input =
     op_bind (insert_unique lg_spans lg_spans_update sp_id (span_row_of input)) (\<lambda>_.
     op_bind (insert_unique lg_claims lg_claims_update tc_id (claim_row_of sha256 instant clock input)) (\<lambda>_.
     if in_predicate input = PrimaryObjective then
       (case in_supportAttestationId input of
          None \<Rightarrow> op_fail LedgerInvariantError
        | Some i \<Rightarrow> insert_unique lg_attestations lg_attestations_update at_id
            (attestation_row_of sha256 input i))
     else op_require LedgerInvariantError (in_supportAttestationId input = None)))"

section \<open>The open proposal of a primary objective\<close>

definition objective_claim :: "jstr \<Rightarrow> jstr \<Rightarrow> jstr \<Rightarrow> jstr \<Rightarrow> truth_claim_row \<Rightarrow> bool" where
  "objective_claim tenantId workspaceId spaceId initiativeId c \<longleftrightarrow>
     tc_tenant_id c = uuid_column tenantId \<and> tc_workspace_id c = uuid_column workspaceId \<and>
     tc_space_id c = uuid_column spaceId \<and> tc_subject_type c = InitiativeSubject \<and>
     tc_subject_id c = uuid_column initiativeId \<and> tc_predicate c = PrimaryObjective"

definition lockPrimaryObjectiveProposal ::
  "jstr \<Rightarrow> jstr \<Rightarrow> jstr \<Rightarrow> jstr \<Rightarrow> jstr \<Rightarrow> int \<Rightarrow> (jstr \<times> jstr \<times> jstr) ledger_op" where
  "lockPrimaryObjectiveProposal tenantId workspaceId spaceId initiativeId claimId expectedVersion =
     op_bind (op_read (\<lambda>s. filter (\<lambda>c. objective_claim tenantId workspaceId spaceId initiativeId c \<and>
         tc_id c = uuid_column claimId \<and> tc_status c = Proposed \<and> tc_version c = expectedVersion)
       (lg_claims s))) (\<lambda>rows.
     op_bind (the_first LedgerConflictError rows) (\<lambda>row.
     op_return (tc_id row, tc_created_by_user_id row, tc_created_by_membership_id row)))"

record proposal_end =
  pt_tenantId :: jstr
  pt_workspaceId :: jstr
  pt_spaceId :: jstr
  pt_initiativeId :: jstr
  pt_predecessorClaimId :: jstr
  pt_successorClaimId :: "jstr option"
  pt_recoveryId :: jstr
  pt_disposition :: disposition
  pt_reasonCode :: jstr
  pt_actorUserId :: jstr
  pt_actorMembershipId :: jstr
  pt_commandId :: jstr
  pt_timestamp :: jstr

definition ended_status :: "disposition \<Rightarrow> claim_status" where
  "ended_status d = (if d = Reworked then SupersededClaim else RejectedClaim)"

definition ends_proposal :: "proposal_end \<Rightarrow> truth_claim_row \<Rightarrow> bool" where
  "ends_proposal input c \<longleftrightarrow>
     objective_claim (pt_tenantId input) (pt_workspaceId input) (pt_spaceId input) (pt_initiativeId input) c \<and>
     tc_id c = uuid_column (pt_predecessorClaimId input) \<and> tc_status c = Proposed \<and> tc_version c = 1"

definition recovery_row_of :: "(jstr \<Rightarrow> int) \<Rightarrow> proposal_end \<Rightarrow> recovery_row" where
  "recovery_row_of instant input =
     \<lparr>rc_id = uuid_column (pt_recoveryId input), rc_tenant_id = uuid_column (pt_tenantId input),
      rc_workspace_id = uuid_column (pt_workspaceId input), rc_space_id = uuid_column (pt_spaceId input),
      rc_initiative_id = uuid_column (pt_initiativeId input),
      rc_predecessor_claim_id = uuid_column (pt_predecessorClaimId input),
      rc_successor_claim_id = map_option uuid_column (pt_successorClaimId input),
      rc_disposition = pt_disposition input, rc_reason_code = pt_reasonCode input,
      rc_acted_by_user_id = uuid_column (pt_actorUserId input),
      rc_acted_by_membership_id = uuid_column (pt_actorMembershipId input),
      rc_causation_command_id = uuid_column (pt_commandId input), rc_created_at = instant (pt_timestamp input)\<rparr>"

definition terminalizePrimaryObjectiveProposal :: "(jstr \<Rightarrow> int) \<Rightarrow> proposal_end \<Rightarrow> unit ledger_op" where
  "terminalizePrimaryObjectiveProposal instant input =
     op_bind (op_read (\<lambda>s. filter (ends_proposal input) (lg_claims s))) (\<lambda>changed.
     op_bind (op_modify (lg_claims_update (update_where (ends_proposal input) (\<lambda>c. c
       \<lparr>tc_status := ended_status (pt_disposition input), tc_version := 2,
        tc_updated_at := instant (pt_timestamp input)\<rparr>)))) (\<lambda>_.
     op_bind (op_require LedgerConflictError (length changed = 1)) (\<lambda>_.
     insert_unique lg_recoveries lg_recoveries_update rc_id (recovery_row_of instant input))))"

definition attests :: "truth_claim_row \<Rightarrow> attestation_row \<Rightarrow> bool" where
  "attests c a \<longleftrightarrow> at_tenant_id a = tc_tenant_id c \<and> at_workspace_id a = tc_workspace_id c \<and>
     at_space_id a = tc_space_id c \<and> at_claim_id a = tc_id c \<and> at_initiative_id a = tc_subject_id c \<and>
     at_evidence_span_id a = tc_evidence_span_id c \<and> at_objective_value_hash a = tc_value_hash c \<and>
     at_confirmed_by_user_id a = tc_created_by_user_id c \<and>
     at_confirmed_by_membership_id a = tc_created_by_membership_id c \<and>
     at_causation_command_id a = tc_causation_command_id c"

definition attested_span :: "attestation_row \<Rightarrow> span_row \<Rightarrow> bool" where
  "attested_span a sp \<longleftrightarrow> sp_tenant_id sp = at_tenant_id a \<and> sp_workspace_id sp = at_workspace_id a \<and>
     sp_space_id sp = at_space_id a \<and> sp_id sp = at_evidence_span_id a \<and> sp_excerpt_hash sp = at_excerpt_hash a"

definition named_claim :: "jstr \<Rightarrow> jstr \<Rightarrow> jstr list \<Rightarrow> truth_claim_row \<Rightarrow> bool" where
  "named_claim tenantId workspaceId claimIds c \<longleftrightarrow> tc_tenant_id c = uuid_column tenantId \<and>
     tc_workspace_id c = uuid_column workspaceId \<and> tc_id c \<in> set (map uuid_column claimIds)"

definition requirePrimaryObjectiveSupportConfirmations :: "jstr \<Rightarrow> jstr \<Rightarrow> jstr list \<Rightarrow> unit ledger_op" where
  "requirePrimaryObjectiveSupportConfirmations tenantId workspaceId claimIds =
     op_bind (op_read (\<lambda>s. [tc_id c. c \<leftarrow> lg_claims s,
         named_claim tenantId workspaceId claimIds c \<and> tc_subject_type c = InitiativeSubject \<and>
           tc_predicate c = PrimaryObjective,
         a \<leftarrow> lg_attestations s, attests c a, sp \<leftarrow> lg_spans s, attested_span a sp])) (\<lambda>rows.
     op_require LedgerConflictError (length rows = length claimIds))"

record support_header =
  sh_claimId :: jstr
  sh_evidenceSpanId :: jstr
  sh_sourceArtifactId :: jstr
  sh_spaceId :: jstr
  sh_subjectType :: subject_kind
  sh_subjectId :: jstr
  sh_predicate :: truth_predicate

definition evidence_of_claim :: "truth_claim_row \<Rightarrow> span_row \<Rightarrow> bool" where
  "evidence_of_claim c sp \<longleftrightarrow> sp_tenant_id sp = tc_tenant_id c \<and> sp_workspace_id sp = tc_workspace_id c \<and>
     sp_space_id sp = tc_space_id c \<and> sp_id sp = tc_evidence_span_id c"

definition header_of :: "truth_claim_row \<Rightarrow> span_row \<Rightarrow> support_header" where
  "header_of c sp = \<lparr>sh_claimId = tc_id c, sh_evidenceSpanId = sp_id sp,
     sh_sourceArtifactId = sp_source_artifact_id sp, sh_spaceId = tc_space_id c,
     sh_subjectType = tc_subject_type c, sh_subjectId = tc_subject_id c, sh_predicate = tc_predicate c\<rparr>"

definition readClaimSupportHeaders :: "jstr \<Rightarrow> jstr \<Rightarrow> jstr list \<Rightarrow> support_header list ledger_op" where
  "readClaimSupportHeaders tenantId workspaceId claimIds =
     op_bind (op_read (\<lambda>s. sort_key sh_claimId [header_of c sp. c \<leftarrow> lg_claims s,
         named_claim tenantId workspaceId claimIds c, sp \<leftarrow> lg_spans s, evidence_of_claim c sp])) (\<lambda>rows.
     op_bind (op_require LedgerInvariantError (length rows = length claimIds)) (\<lambda>_.
     op_return rows))"

section \<open>Claims for acceptance\<close>

text \<open>A persisted claim is the row with the row of its evidence, read under the tenant and the
  workspace of the caller.\<close>

record persisted_claim =
  pc_tenantId :: jstr
  pc_workspaceId :: jstr
  pc_claim :: truth_claim_row
  pc_span :: span_row

definition available_source :: "world \<Rightarrow> span_row \<Rightarrow> source_row \<Rightarrow> bool" where
  "available_source wd sp so \<longleftrightarrow> sa_tenant_id so = sp_tenant_id sp \<and> sa_workspace_id so = sp_workspace_id sp \<and>
     sa_space_id so = sp_space_id sp \<and> sa_id so = sp_source_artifact_id sp \<and> sa_deleted_at so = None \<and>
     \<not> list_ex (\<lambda>successor. sa_tenant_id successor = sa_tenant_id so \<and>
         sa_workspace_id successor = sa_workspace_id so \<and>
         sa_supersedes_source_id successor = Some (sa_id so)) (wd_sources wd)"

definition chunk_of_span :: "span_row \<Rightarrow> chunk_row \<Rightarrow> bool" where
  "chunk_of_span sp c \<longleftrightarrow> wc_tenant_id c = sp_tenant_id sp \<and> wc_workspace_id c = sp_workspace_id sp \<and>
     wc_space_id c = sp_space_id sp \<and> wc_source_artifact_id c = sp_source_artifact_id sp \<and>
     wc_id c = sp_source_chunk_id sp"

definition supports_active_fact :: "ledger \<Rightarrow> truth_claim_row \<Rightarrow> bool" where
  "supports_active_fact s c \<longleftrightarrow> list_ex (\<lambda>fc. fc_tenant_id fc = tc_tenant_id c \<and>
     fc_workspace_id fc = tc_workspace_id c \<and> fc_space_id fc = tc_space_id c \<and> fc_claim_id fc = tc_id c \<and>
     list_ex (\<lambda>f. tf_tenant_id f = fc_tenant_id fc \<and> tf_workspace_id f = fc_workspace_id fc \<and>
       tf_space_id f = fc_space_id fc \<and> tf_id f = fc_fact_id fc \<and> tf_status f = CurrentFact) (lg_facts s))
     (lg_fact_claims s)"

definition acceptance_rows :: "world \<Rightarrow> jstr \<Rightarrow> jstr \<Rightarrow> jstr list \<Rightarrow> bool \<Rightarrow> ledger \<Rightarrow> persisted_claim list" where
  "acceptance_rows wd tenantId workspaceId claimIds exclude s =
     sort_key (\<lambda>p. tc_id (pc_claim p))
       [\<lparr>pc_tenantId = tenantId, pc_workspaceId = workspaceId, pc_claim = c, pc_span = sp\<rparr>.
          c \<leftarrow> lg_claims s, named_claim tenantId workspaceId claimIds c \<and>
            \<not> (exclude \<and> supports_active_fact s c),
          sp \<leftarrow> lg_spans s, evidence_of_claim c sp,
          so \<leftarrow> wd_sources wd, available_source wd sp so,
          ch \<leftarrow> wd_chunks wd, chunk_of_span sp ch]"

definition loadClaimsForAcceptance ::
  "world \<Rightarrow> jstr \<Rightarrow> jstr \<Rightarrow> jstr list \<Rightarrow> bool \<Rightarrow> bool \<Rightarrow> persisted_claim list ledger_op" where
  "loadClaimsForAcceptance wd tenantId workspaceId claimIds excludeClaimsSupportingActiveFact allowIncompleteResult =
     op_bind (op_read (acceptance_rows wd tenantId workspaceId claimIds excludeClaimsSupportingActiveFact)) (\<lambda>rows.
     op_bind (op_require LedgerConflictError (\<not> (\<not> allowIncompleteResult \<and> length rows \<noteq> length claimIds))) (\<lambda>_.
     op_return rows))"

definition instant_text :: "int \<Rightarrow> jstr" where
  "instant_text t = toISOString (t div 1000)"

definition persisted_evidence :: "persisted_claim \<Rightarrow> evidence" where
  "persisted_evidence p = (let sp = pc_span p in
     \<lparr>ev_sourceArtifactId = sp_source_artifact_id sp, ev_sourceChunkId = sp_source_chunk_id sp,
      ev_expectedSourceVersion = sp_source_version sp, ev_startOffset = IntNum (sp_start_offset sp),
      ev_endOffset = sp_end_offset sp, ev_excerpt = sp_excerpt sp,
      ev_sourceContentHash = sp_source_content_hash sp,
      ev_sourceNormalizedContentHash = sp_source_normalized_content_hash sp,
      ev_chunkContentHash = sp_chunk_content_hash sp, ev_excerptHash = sp_excerpt_hash sp\<rparr>)"

definition admitted_claim :: "persisted_claim \<Rightarrow> verified_span \<Rightarrow> claim" where
  "admitted_claim p sourceSpan = (let c = pc_claim p in
     \<lparr>cm_id = tc_id c, cm_version = tc_version c, cm_tenantId = pc_tenantId p,
      cm_workspaceId = pc_workspaceId p, cm_spaceId = tc_space_id c,
      cm_subjectType = subject_string (tc_subject_type c), cm_subjectId = tc_subject_id c,
      cm_predicate = predicate_string (tc_predicate c), cm_canonicalValue = tc_canonical_value_text c,
      cm_normalizedText = tc_normalized_text c, cm_sourceSpan = sourceSpan, cm_spanAdmitted = True,
      cm_assertedByType = js ''person'', cm_assertedById = tc_asserted_by_id c,
      cm_confidence = confidence_string (tc_confidence c),
      cm_validFrom = map_option instant_text (tc_valid_from c),
      cm_validTo = map_option instant_text (tc_valid_to c),
      cm_observedAt = map_option instant_text (tc_observed_at c),
      cm_status = claim_status_string (tc_status c), cm_conflictGroupId = None,
      cm_accessClass = access_string (tc_access_class c), cm_createdAt = instant_text (tc_created_at c)\<rparr>)"

section \<open>Slots\<close>

definition at_coordinate ::
  "jstr \<Rightarrow> jstr \<Rightarrow> jstr \<Rightarrow> subject_kind \<Rightarrow> jstr \<Rightarrow> truth_predicate \<Rightarrow> fact_row \<Rightarrow> bool" where
  "at_coordinate tenantId workspaceId spaceId subjectType subjectId predicate f \<longleftrightarrow>
     tf_tenant_id f = uuid_column tenantId \<and> tf_workspace_id f = uuid_column workspaceId \<and>
     tf_space_id f = uuid_column spaceId \<and> tf_subject_type f = subjectType \<and>
     tf_subject_id f = uuid_column subjectId \<and> tf_predicate f = predicate"

definition lockFirstAcceptanceSlot ::
  "jstr \<Rightarrow> jstr \<Rightarrow> jstr \<Rightarrow> subject_kind \<Rightarrow> jstr \<Rightarrow> truth_predicate \<Rightarrow> unit ledger_op" where
  "lockFirstAcceptanceSlot tenantId workspaceId spaceId subjectType subjectId predicate =
     op_bind (op_read (\<lambda>s. filter (\<lambda>f. at_coordinate tenantId workspaceId spaceId subjectType subjectId predicate f \<and>
         tf_status f \<in> {CurrentFact, ContestedFact}) (lg_facts s))) (\<lambda>prior.
     op_require LedgerConflictError (\<not> length prior \<noteq> 0))"

definition generation_matches :: "generation \<Rightarrow> truth_claim_row option \<Rightarrow> bool" where
  "generation_matches expected latest \<longleftrightarrow>
     (case expected of
        EmptyGeneration \<Rightarrow> latest = None
      | ClaimGeneration claimId expectedVersion expectedStatus \<Rightarrow>
          (case latest of None \<Rightarrow> False
           | Some c \<Rightarrow> tc_id c = claimId \<and> tc_version c = expectedVersion \<and>
               claim_status_string (tc_status c) = expectedStatus))"

definition latest_claim :: "truth_claim_row list \<Rightarrow> truth_claim_row option" where
  "latest_claim rows = (case rev (sort_key (\<lambda>c. (tc_created_at c, tc_id c)) rows) of [] \<Rightarrow> None | c # _ \<Rightarrow> Some c)"

definition lockPrimaryObjectiveProposalSlot ::
  "jstr \<Rightarrow> jstr \<Rightarrow> jstr \<Rightarrow> jstr \<Rightarrow> generation \<Rightarrow> unit ledger_op" where
  "lockPrimaryObjectiveProposalSlot tenantId workspaceId spaceId subjectId expectedLatestClaim =
     op_bind (op_read (\<lambda>s. filter (objective_claim tenantId workspaceId spaceId subjectId) (lg_claims s))) (\<lambda>rows.
     op_bind (op_require LedgerConflictError (generation_matches expectedLatestClaim (latest_claim rows))) (\<lambda>_.
     op_require LedgerConflictError (\<not> list_ex (\<lambda>c. tc_status c = Proposed) rows)))"

end
