(* ===== verification/Truth_Facts.thy ===== *)
theory Truth_Facts
  imports Truth_Claims
begin

text \<open>
  \<open>TruthLedgerRepository\<close>, continued: accepted facts. A current fact is locked before the caller is
  authorised and read again afterwards; only such a target can be superseded or revoked. The
  repository hands out its targets as objects and remembers them in two weak maps; here a target is
  the number of its entry in \<open>targets\<close>, which is \<open>None\<close> after the entry was deleted. The settings of the
  transaction come from the security context it was opened with. A value of type \<open>accepted_fact\<close>
  stands for an object that the constructor of accepted facts has marked.
\<close>

section \<open>Locked facts\<close>

record fact_target =
  ft_tenantId :: jstr
  ft_workspaceId :: jstr
  ft_spaceId :: jstr
  ft_factId :: jstr
  ft_version :: int
  ft_status :: fact_status
  ft_subjectType :: subject_kind
  ft_subjectId :: jstr
  ft_predicate :: truth_predicate
  ft_subjectVersion :: int
  ft_factAccessClass :: access_class
  ft_subjectAccessClass :: access_class
  ft_acceptanceScope :: jstr
  ft_authorityBasis :: jstr

record prelocked =
  pk_target :: fact_target
  pk_actorUserId :: jstr
  pk_actorMembershipId :: jstr
  pk_policyVersion :: jstr
  pk_postAuthorizationTarget :: "fact_target option"
  pk_replacementClaimIds :: "jstr list option"

type_synonym targets = "prelocked option list"

definition current_user_id :: "security_context \<Rightarrow> jstr option" where
  "current_user_id context = map_option uuid_column (sx_actorUserId context)"

definition current_membership_id :: "security_context \<Rightarrow> jstr option" where
  "current_membership_id context = map_option uuid_column (sx_actorMembershipId context)"

definition null_or :: "(jstr \<Rightarrow> bool) \<Rightarrow> jstr option \<Rightarrow> bool" where
  "null_or p v = (case v of None \<Rightarrow> False | Some s \<Rightarrow> p s)"

definition fact_named :: "jstr \<Rightarrow> jstr \<Rightarrow> jstr \<Rightarrow> fact_row \<Rightarrow> bool" where
  "fact_named tenantId workspaceId factId f \<longleftrightarrow> tf_tenant_id f = uuid_column tenantId \<and>
     tf_workspace_id f = uuid_column workspaceId \<and> tf_id f = uuid_column factId"

definition lifecycle_input_ok :: "jstr \<Rightarrow> jstr \<Rightarrow> jstr \<Rightarrow> int \<Rightarrow> bool" where
  "lifecycle_input_ok tenantId workspaceId factId expectedVersion \<longleftrightarrow>
     \<not> (expectedVersion \<noteq> 1 \<or> \<not> canonical_uuid tenantId \<or> \<not> canonical_uuid workspaceId \<or> \<not> uuid_v7 factId)"

definition readFactLifecycleReservation :: "jstr \<Rightarrow> jstr \<Rightarrow> jstr \<Rightarrow> int \<Rightarrow> jstr ledger_op" where
  "readFactLifecycleReservation tenantId workspaceId factId expectedVersion =
     op_bind (op_require LedgerConflictError (lifecycle_input_ok tenantId workspaceId factId expectedVersion)) (\<lambda>_.
     op_bind (guardLifecycleDatabaseOperation
       (op_read (\<lambda>s. filter (fact_named tenantId workspaceId factId) (lg_facts s)))) (\<lambda>rows.
     op_bind (the_first LedgerUnavailableError rows) (\<lambda>row.
     op_bind (op_require LedgerUnavailableError (tf_id row = factId)) (\<lambda>_.
     op_return (tf_space_id row)))))"

definition same_coordinate :: "fact_row \<Rightarrow> fact_row \<Rightarrow> bool" where
  "same_coordinate f g \<longleftrightarrow> tf_tenant_id f = tf_tenant_id g \<and> tf_workspace_id f = tf_workspace_id g \<and>
     tf_space_id f = tf_space_id g \<and> tf_subject_type f = tf_subject_type g \<and>
     tf_subject_id f = tf_subject_id g \<and> tf_predicate f = tf_predicate g"

definition space_of_fact :: "fact_row \<Rightarrow> space_row \<Rightarrow> bool" where
  "space_of_fact f sp \<longleftrightarrow> ws_tenant_id sp = tf_tenant_id f \<and> ws_workspace_id sp = tf_workspace_id f \<and>
     ws_id sp = tf_space_id f"

definition subject_of_fact :: "fact_row \<Rightarrow> subject_row \<Rightarrow> bool" where
  "subject_of_fact f w \<longleftrightarrow> wk_type w = tf_subject_type f \<and> wk_tenant_id w = tf_tenant_id f \<and>
     wk_workspace_id w = tf_workspace_id f \<and> wk_space_id w = tf_space_id f \<and> wk_id w = tf_subject_id f"

definition joined_facts ::
  "world \<Rightarrow> (fact_row \<Rightarrow> bool) \<Rightarrow> (space_row \<Rightarrow> bool) \<Rightarrow> ledger \<Rightarrow> (fact_row \<times> space_row \<times> subject_row) list" where
  "joined_facts wd fact_ok space_ok s =
     [(f, sp, w). f \<leftarrow> lg_facts s, fact_ok f, sp \<leftarrow> wd_spaces wd, space_of_fact f sp \<and> space_ok sp,
                  w \<leftarrow> wd_subjects wd, subject_of_fact f w]"

definition target_of :: "fact_row \<times> space_row \<times> subject_row \<Rightarrow> fact_target" where
  "target_of found = (case found of (row, sp, w) \<Rightarrow>
     \<lparr>ft_tenantId = tf_tenant_id row, ft_workspaceId = tf_workspace_id row, ft_spaceId = tf_space_id row,
      ft_factId = tf_id row, ft_version = tf_version row, ft_status = tf_status row,
      ft_subjectType = tf_subject_type row, ft_subjectId = tf_subject_id row, ft_predicate = tf_predicate row,
      ft_subjectVersion = wk_version w, ft_factAccessClass = tf_access_class row,
      ft_subjectAccessClass = ws_access_class sp, ft_acceptanceScope = tf_acceptance_scope row,
      ft_authorityBasis = tf_authority_basis row\<rparr>)"

definition prelock_ok ::
  "security_context \<Rightarrow> fact_row \<Rightarrow> int \<Rightarrow> fact_row \<times> space_row \<times> subject_row \<Rightarrow> bool" where
  "prelock_ok context header expectedVersion found = (case found of (row, sp, w) \<Rightarrow>
     \<not> (tf_id row \<noteq> tf_id header \<or> \<not> same_coordinate row header \<or> tf_version row \<noteq> expectedVersion \<or>
        tf_status row \<noteq> CurrentFact \<or> \<not> \<bar>wk_version w\<bar> \<le> 9007199254740991 \<or> wk_version w < 1 \<or>
        \<not> null_or canonical_uuid (current_user_id context) \<or>
        \<not> null_or canonical_uuid (current_membership_id context) \<or>
        \<not> safe_reference (sx_policyVersion context) \<or> \<not> lifecycleAuthorityMatchesCoordinate row))"

definition prelockCurrentFact ::
  "world \<Rightarrow> security_context \<Rightarrow> jstr \<Rightarrow> jstr \<Rightarrow> jstr \<Rightarrow> int \<Rightarrow> targets \<Rightarrow> (nat \<times> targets) ledger_op" where
  "prelockCurrentFact wd context tenantId workspaceId factId expectedVersion mem =
     op_bind (op_require LedgerConflictError (lifecycle_input_ok tenantId workspaceId factId expectedVersion)) (\<lambda>_.
     op_bind (guardLifecycleDatabaseOperation
       (op_read (\<lambda>s. filter (fact_named tenantId workspaceId factId) (lg_facts s)))) (\<lambda>headers.
     op_bind (the_first LedgerConflictError headers) (\<lambda>header.
     op_bind (op_require LedgerConflictError
       (\<not> (tf_id header \<noteq> factId \<or> tf_tenant_id header \<noteq> tenantId \<or> tf_workspace_id header \<noteq> workspaceId \<or>
          \<not> isCanonicalTruthCoordinate (tf_subject_type header) (tf_predicate header)))) (\<lambda>_.
     op_bind (guardLifecycleDatabaseOperation (op_read (joined_facts wd
       (\<lambda>f. fact_named tenantId workspaceId factId f \<and> same_coordinate f header \<and>
          tf_version f = expectedVersion \<and> tf_status f = CurrentFact) (\<lambda>sp. \<not> ws_archived sp)))) (\<lambda>rows.
     op_bind (the_first LedgerConflictError rows) (\<lambda>row.
     op_bind (op_require LedgerConflictError (prelock_ok context header expectedVersion row)) (\<lambda>_.
     op_return (length mem, mem @ [Some
       \<lparr>pk_target = target_of row, pk_actorUserId = the (current_user_id context),
        pk_actorMembershipId = the (current_membership_id context), pk_policyVersion = sx_policyVersion context,
        pk_postAuthorizationTarget = None, pk_replacementClaimIds = None\<rparr>]))))))))"

definition requirePrelockedCurrentFact :: "targets \<Rightarrow> nat \<Rightarrow> truth_error + prelocked" where
  "requirePrelockedCurrentFact mem i =
     (if length mem \<le> i then Inl LedgerConflictError
      else (case mem ! i of None \<Rightarrow> Inl LedgerConflictError | Some state \<Rightarrow> Inr state))"

definition requirePostAuthorizationCurrentFact :: "targets \<Rightarrow> nat \<Rightarrow> truth_error + (fact_target \<times> prelocked)" where
  "requirePostAuthorizationCurrentFact mem i =
     res_bind (requirePrelockedCurrentFact mem i) (\<lambda>state.
     case pk_postAuthorizationTarget state of None \<Rightarrow> Inl LedgerConflictError | Some t \<Rightarrow> Inr (t, state))"

definition fact_of_target :: "fact_target \<Rightarrow> fact_row \<Rightarrow> bool" where
  "fact_of_target t f \<longleftrightarrow> tf_tenant_id f = ft_tenantId t \<and> tf_workspace_id f = ft_workspaceId t \<and>
     tf_id f = ft_factId t \<and> tf_space_id f = ft_spaceId t \<and> tf_subject_type f = ft_subjectType t \<and>
     tf_subject_id f = ft_subjectId t \<and> tf_predicate f = ft_predicate t"

definition refresh_ok ::
  "security_context \<Rightarrow> prelocked \<Rightarrow> fact_row \<times> space_row \<times> subject_row \<Rightarrow> bool" where
  "refresh_ok context state found = (case found of (row, sp, w) \<Rightarrow> let t = pk_target state in
     \<not> (\<not> fact_of_target t row \<or> tf_version row \<noteq> ft_version t \<or> tf_status row \<noteq> ft_status t \<or>
        tf_access_class row \<noteq> ft_factAccessClass t \<or> wk_version w \<noteq> ft_subjectVersion t \<or>
        tf_acceptance_scope row \<noteq> ft_acceptanceScope t \<or> tf_authority_basis row \<noteq> ft_authorityBasis t \<or>
        ws_archived sp \<or> current_user_id context \<noteq> Some (pk_actorUserId state) \<or>
        current_membership_id context \<noteq> Some (pk_actorMembershipId state) \<or>
        sx_policyVersion context \<noteq> pk_policyVersion state \<or> \<not> lifecycleAuthorityMatchesCoordinate row))"

definition refreshCurrentFactAfterAuthorization ::
  "world \<Rightarrow> security_context \<Rightarrow> targets \<Rightarrow> nat \<Rightarrow> (fact_target \<times> targets) ledger_op" where
  "refreshCurrentFactAfterAuthorization wd context mem i =
     op_bind (op_lift (requirePrelockedCurrentFact mem i)) (\<lambda>state.
     op_bind (op_require LedgerConflictError (\<not> pk_postAuthorizationTarget state \<noteq> None)) (\<lambda>_.
     op_bind (guardLifecycleDatabaseOperation (op_read (joined_facts wd
       (\<lambda>f. fact_of_target (pk_target state) f \<and> tf_version f = 1 \<and> tf_status f = CurrentFact) (\<lambda>_. True)))) (\<lambda>rows.
     op_bind (the_first LedgerConflictError rows) (\<lambda>row.
     op_bind (op_require LedgerConflictError (refresh_ok context state row)) (\<lambda>_.
     op_return (target_of row,
       mem[i := Some (state\<lparr>pk_postAuthorizationTarget := Some (target_of row)\<rparr>)]))))))"

section \<open>Replacement claims\<close>

definition replacement_claims_ok :: "claim_ref list \<Rightarrow> bool" where
  "replacement_claims_ok refs \<longleftrightarrow> \<not> (length refs = 0 \<or> length refs > 100) \<and>
     list_all (\<lambda>r. uuid_v7 (cl_claimId r) \<and> cl_expectedVersion r = 1) refs \<and> distinct (map cl_claimId refs)"

definition replaces :: "fact_target \<Rightarrow> (jstr \<times> int) list \<Rightarrow> persisted_claim \<Rightarrow> bool" where
  "replaces t expectedVersions p \<longleftrightarrow> (let c = pc_claim p in
     \<not> (tc_status c \<noteq> Proposed \<or> map_of expectedVersions (tc_id c) \<noteq> Some (tc_version c) \<or>
        pc_tenantId p \<noteq> ft_tenantId t \<or> pc_workspaceId p \<noteq> ft_workspaceId t \<or>
        tc_space_id c \<noteq> ft_spaceId t \<or> tc_subject_type c \<noteq> ft_subjectType t \<or>
        tc_subject_id c \<noteq> ft_subjectId t \<or> tc_predicate c \<noteq> ft_predicate t))"

definition objective_target :: "fact_target \<Rightarrow> bool" where
  "objective_target t \<longleftrightarrow> ft_subjectType t = InitiativeSubject \<and> ft_predicate t = PrimaryObjective"

definition lockReplacementClaimsForSupersession ::
  "world \<Rightarrow> targets \<Rightarrow> nat \<Rightarrow> claim_ref list \<Rightarrow> (persisted_claim list \<times> targets) ledger_op" where
  "lockReplacementClaimsForSupersession wd mem i refs =
     op_bind (op_lift (requirePostAuthorizationCurrentFact mem i)) (\<lambda>(t, state).
     op_bind (op_require LedgerConflictError
       (replacement_claims_ok refs \<and> \<not> pk_replacementClaimIds state \<noteq> None)) (\<lambda>_.
     let claimIds = sort (map cl_claimId refs) in
     op_bind (guardLifecycleDatabaseOperation
       (loadClaimsForAcceptance wd (ft_tenantId t) (ft_workspaceId t) claimIds True True)) (\<lambda>persisted.
     op_bind (op_require LedgerUnavailableError (\<not> length persisted \<noteq> length claimIds)) (\<lambda>_.
     op_bind (op_require LedgerConflictError
       (list_all (replaces t (map (\<lambda>r. (cl_claimId r, cl_expectedVersion r)) refs)) persisted)) (\<lambda>_.
     op_bind (if objective_target t
       then guardLifecycleDatabaseOperation
         (requirePrimaryObjectiveSupportConfirmations (ft_tenantId t) (ft_workspaceId t) claimIds)
       else op_return ()) (\<lambda>_.
     op_return (persisted, mem[i := Some (state\<lparr>pk_replacementClaimIds := Some claimIds\<rparr>)])))))))"

section \<open>Writing accepted facts\<close>

text \<open>
  \<open>TruthLedgerRepository\<close>, concluded: the statements that write accepted facts and their lifecycle
  events. The instant of the transaction is \<open>now\<close>. A text column with a fixed set of values takes
  only those; a row with another value is refused with the code of a violated check.
\<close>

section \<open>Inserting a fact\<close>

definition check_violation :: truth_error where
  "check_violation = DatabaseError (js ''23514'')"

definition not_null_violation :: truth_error where
  "not_null_violation = DatabaseError (js ''23502'')"

definition column_value :: "('v \<Rightarrow> jstr) \<Rightarrow> 'v list \<Rightarrow> jstr \<Rightarrow> truth_error + 'v" where
  "column_value to_string values s = ok_or check_violation (find (\<lambda>v. to_string v = s) values)"

definition reason_columns :: "truth_reason \<Rightarrow> truth_error + (jstr \<times> jstr)" where
  "reason_columns r = (case r of HumanReason code rationale \<Rightarrow> Inr (code, rationale) | _ \<Rightarrow> Inl not_null_violation)"

definition lowering_columns :: "confidence_result \<Rightarrow> truth_error + (jstr \<times> jstr) option" where
  "lowering_columns decision = (case cr_lowering decision of None \<Rightarrow> Inr None
     | Some l \<Rightarrow> res_bind (reason_columns (lw_reason l)) (\<lambda>c. Inr (Some c)))"

definition fact_row_of ::
  "(nat list \<Rightarrow> jstr) \<Rightarrow> (jstr \<Rightarrow> int) \<Rightarrow> int \<Rightarrow> accepted_fact \<Rightarrow> jstr \<Rightarrow> confidence_result \<Rightarrow> bool \<Rightarrow>
     truth_error + fact_row" where
  "fact_row_of sha256 instant now newFact commandId confidenceDecision useTransactionTimestamp =
     res_bind (column_value subject_string [ActivitySubject, InitiativeSubject] (fa_subjectType newFact)) (\<lambda>subjectType.
     res_bind (column_value predicate_string [ActivityOutcome, PrimaryObjective] (fa_predicate newFact)) (\<lambda>predicate.
     res_bind (lowering_columns confidenceDecision) (\<lambda>lowering.
     Inr \<lparr>tf_id = uuid_column (fa_id newFact), tf_tenant_id = uuid_column (fa_tenantId newFact),
      tf_workspace_id = uuid_column (fa_workspaceId newFact), tf_space_id = uuid_column (fa_spaceId newFact),
      tf_subject_type = subjectType, tf_subject_id = uuid_column (fa_subjectId newFact), tf_predicate = predicate,
      tf_canonical_value_text = fa_canonicalValue newFact,
      tf_value_hash = sha256CanonicalText sha256 (fa_canonicalValue newFact),
      tf_normalized_text = fa_normalizedText newFact, tf_confidence = fa_confidence newFact,
      tf_confidence_rule = cr_rule confidenceDecision,
      tf_strongest_supporting_confidence = cr_strongestSupportingConfidence confidenceDecision,
      tf_human_lowered = cr_humanLowered confidenceDecision, tf_lowering_reason = lowering,
      tf_valid_from = map_option instant (fa_validFrom newFact), tf_valid_to = map_option instant (fa_validTo newFact),
      tf_recorded_at = (if useTransactionTimestamp then now else instant (fa_recordedAt newFact)),
      tf_status = CurrentFact, tf_access_class = fa_accessClass newFact,
      tf_accepted_by_user_id = uuid_column (fa_acceptedByUserId newFact),
      tf_accepted_by_membership_id = uuid_column (fa_acceptedByMembershipId newFact),
      tf_acceptance_scope = fa_acceptanceScope newFact, tf_authority_basis = fa_authorityBasis newFact,
      tf_acceptance_policy_version = fa_policyVersion newFact,
      tf_last_causation_command_id = uuid_column commandId,
      tf_created_at = (if useTransactionTimestamp then now else instant (fa_createdAt newFact)),
      tf_updated_at = (if useTransactionTimestamp then now else instant (fa_createdAt newFact)), tf_version = 1\<rparr>)))"

definition fact_claim_row_of :: "accepted_fact \<Rightarrow> jstr \<Rightarrow> fact_claim_row" where
  "fact_claim_row_of newFact claimId = \<lparr>fc_tenant_id = uuid_column (fa_tenantId newFact),
     fc_workspace_id = uuid_column (fa_workspaceId newFact), fc_space_id = uuid_column (fa_spaceId newFact),
     fc_fact_id = uuid_column (fa_id newFact), fc_claim_id = uuid_column claimId\<rparr>"

definition fact_claim_key :: "fact_claim_row \<Rightarrow> jstr list" where
  "fact_claim_key r = [fc_tenant_id r, fc_workspace_id r, fc_fact_id r, fc_claim_id r]"

definition accepts_claim :: "accepted_fact \<Rightarrow> truth_claim_row \<Rightarrow> bool" where
  "accepts_claim newFact c \<longleftrightarrow> named_claim (fa_tenantId newFact) (fa_workspaceId newFact) (fa_supportingClaimIds newFact) c \<and>
     tc_status c = Proposed"

definition accept_claim :: "int \<Rightarrow> truth_claim_row \<Rightarrow> truth_claim_row" where
  "accept_claim t c = c\<lparr>tc_status := AcceptedClaim, tc_version := tc_version c + 1, tc_updated_at := t\<rparr>"

definition insertAcceptedFact ::
  "(nat list \<Rightarrow> jstr) \<Rightarrow> (jstr \<Rightarrow> int) \<Rightarrow> int \<Rightarrow> accepted_fact \<Rightarrow> jstr \<Rightarrow> confidence_result \<Rightarrow> bool \<Rightarrow> unit ledger_op" where
  "insertAcceptedFact sha256 instant now newFact commandId confidenceDecision useTransactionTimestamp =
     op_bind (op_lift (fact_row_of sha256 instant now newFact commandId confidenceDecision useTransactionTimestamp)) (\<lambda>row.
     op_bind (insert_unique lg_facts lg_facts_update tf_id row) (\<lambda>_.
     op_bind (op_each (\<lambda>claimId. insert_unique lg_fact_claims lg_fact_claims_update fact_claim_key
         (fact_claim_row_of newFact claimId)) (fa_supportingClaimIds newFact)) (\<lambda>_.
     op_bind (op_read (\<lambda>s. filter (accepts_claim newFact) (lg_claims s))) (\<lambda>changed.
     op_bind (op_modify (lg_claims_update (update_where (accepts_claim newFact)
       (accept_claim (if useTransactionTimestamp then now else instant (fa_createdAt newFact)))))) (\<lambda>_.
     op_require LedgerConflictError (\<not> length changed \<noteq> length (fa_supportingClaimIds newFact)))))))"

section \<open>Ending a fact\<close>

definition ends_fact :: "fact_target \<Rightarrow> fact_row \<Rightarrow> bool" where
  "ends_fact t f \<longleftrightarrow> fact_of_target t f \<and> tf_version f = ft_version t \<and> tf_status f = CurrentFact"

definition end_fact :: "int \<Rightarrow> fact_status \<Rightarrow> jstr \<Rightarrow> fact_row \<Rightarrow> fact_row" where
  "end_fact now status commandId f = f\<lparr>tf_status := status, tf_version := tf_version f + 1,
     tf_last_causation_command_id := uuid_column commandId, tf_updated_at := now\<rparr>"

definition terminalizePrelockedFact :: "int \<Rightarrow> fact_target \<Rightarrow> fact_status \<Rightarrow> jstr \<Rightarrow> unit ledger_op" where
  "terminalizePrelockedFact now t status commandId =
     op_bind (op_read (\<lambda>s. filter (ends_fact t) (lg_facts s))) (\<lambda>changed.
     op_bind (guardLifecycleDatabaseOperation
       (op_modify (lg_facts_update (update_where (ends_fact t) (end_fact now status commandId))))) (\<lambda>_.
     op_require LedgerConflictError (\<not> (length changed \<noteq> 1 \<or> map tf_id changed \<noteq> [ft_factId t]))))"

record lifecycle_change =
  lc_lifecycleEventId :: jstr
  lc_commandId :: jstr
  lc_reason :: truth_reason
  lc_actorUserId :: jstr
  lc_actorMembershipId :: jstr
  lc_policyVersion :: jstr

definition lifecycle_event_row_of ::
  "fact_target \<Rightarrow> lifecycle_change \<Rightarrow> jstr option \<Rightarrow> fact_status \<Rightarrow> jstr \<times> jstr \<Rightarrow> lifecycle_event_row" where
  "lifecycle_event_row_of t input successorFactId toStatus reason =
     \<lparr>le_id = uuid_column (lc_lifecycleEventId input), le_tenant_id = ft_tenantId t,
      le_workspace_id = ft_workspaceId t, le_space_id = ft_spaceId t, le_predecessor_fact_id = ft_factId t,
      le_successor_fact_id = map_option uuid_column successorFactId, le_to_status = toStatus,
      le_reason_code = fst reason, le_reason_rationale = snd reason, le_authority_basis = ft_authorityBasis t,
      le_policy_version = lc_policyVersion input, le_acted_by_user_id = uuid_column (lc_actorUserId input),
      le_acted_by_membership_id = uuid_column (lc_actorMembershipId input),
      le_causation_command_id = uuid_column (lc_commandId input)\<rparr>"

definition insertFactLifecycleEvent ::
  "fact_target \<Rightarrow> lifecycle_change \<Rightarrow> jstr option \<Rightarrow> fact_status \<Rightarrow> truth_reason \<Rightarrow> unit ledger_op" where
  "insertFactLifecycleEvent t input successorFactId toStatus reason =
     guardLifecycleDatabaseOperation (op_bind (op_lift (reason_columns reason)) (\<lambda>columns.
     insert_unique lg_events lg_events_update le_id
       (lifecycle_event_row_of t input successorFactId toStatus columns)))"

definition change_of_actor :: "prelocked \<Rightarrow> lifecycle_change \<Rightarrow> bool" where
  "change_of_actor state input \<longleftrightarrow>
     \<not> (lc_actorUserId input \<noteq> pk_actorUserId state \<or> lc_actorMembershipId input \<noteq> pk_actorMembershipId state \<or>
        lc_policyVersion input \<noteq> pk_policyVersion state \<or> \<not> uuid_v7 (lc_lifecycleEventId input) \<or>
        \<not> uuid_v7 (lc_commandId input))"

definition access_covers :: "access_class \<Rightarrow> access_class \<Rightarrow> access_class \<Rightarrow> bool" where
  "access_covers a b c \<longleftrightarrow>
     (case maxAccessClass [access_string b, access_string c] of None \<Rightarrow> False
      | Some m \<Rightarrow> maxAccessClass [access_string a, access_string m] = Some a)"

definition succeeds_target :: "fact_target \<Rightarrow> lifecycle_change \<Rightarrow> accepted_fact \<Rightarrow> bool" where
  "succeeds_target t input newFact \<longleftrightarrow>
     \<not> (fa_id newFact = ft_factId t \<or> fa_supersedesFactId newFact \<noteq> Some (ft_factId t) \<or>
        fa_tenantId newFact \<noteq> ft_tenantId t \<or> fa_workspaceId newFact \<noteq> ft_workspaceId t \<or>
        fa_spaceId newFact \<noteq> ft_spaceId t \<or> fa_subjectType newFact \<noteq> subject_string (ft_subjectType t) \<or>
        fa_subjectId newFact \<noteq> ft_subjectId t \<or> fa_predicate newFact \<noteq> predicate_string (ft_predicate t) \<or>
        fa_acceptanceScope newFact \<noteq> ft_acceptanceScope t \<or> fa_authorityBasis newFact \<noteq> ft_authorityBasis t \<or>
        fa_acceptedByUserId newFact \<noteq> lc_actorUserId input \<or>
        fa_acceptedByMembershipId newFact \<noteq> lc_actorMembershipId input \<or>
        fa_policyVersion newFact \<noteq> lc_policyVersion input)"

definition supersession_ok :: "fact_target \<Rightarrow> prelocked \<Rightarrow> lifecycle_change \<Rightarrow> accepted_fact \<Rightarrow> bool" where
  "supersession_ok t state input newFact \<longleftrightarrow> succeeds_target t input newFact \<and> change_of_actor state input \<and>
     access_covers (fa_accessClass newFact) (ft_subjectAccessClass t) (ft_factAccessClass t) \<and>
     (case pk_replacementClaimIds state of None \<Rightarrow> False
      | Some claimIds \<Rightarrow> sameSortedIds (fa_supportingClaimIds newFact) claimIds)"

definition supersedePrelockedFact ::
  "(jstr \<Rightarrow> jstr) \<Rightarrow> (nat list \<Rightarrow> jstr) \<Rightarrow> (jstr \<Rightarrow> int) \<Rightarrow> int \<Rightarrow> targets \<Rightarrow> nat \<Rightarrow> lifecycle_change \<Rightarrow>
     accepted_fact \<Rightarrow> ((jstr \<times> jstr) \<times> targets) ledger_op" where
  "supersedePrelockedFact nfc sha256 instant now mem i input newFact =
     op_bind (op_lift (requirePostAuthorizationCurrentFact mem i)) (\<lambda>(t, state).
     op_bind (op_lift (parseLifecycleReason nfc SupersedeKind (lc_reason input))) (\<lambda>reason.
     op_bind (op_require LedgerConflictError (supersession_ok t state input newFact)) (\<lambda>_.
     op_bind (terminalizePrelockedFact now t SupersededFact (lc_commandId input)) (\<lambda>_.
     op_bind (guardLifecycleDatabaseOperation
       (insertAcceptedFact sha256 instant now newFact (lc_commandId input) (fa_confidenceDecision newFact) True)) (\<lambda>_.
     op_bind (insertFactLifecycleEvent t input (Some (fa_id newFact)) SupersededFact reason) (\<lambda>_.
     op_return ((ft_factId t, fa_id newFact), mem[i := None])))))))"

definition open_proposal_of :: "fact_target \<Rightarrow> truth_claim_row \<Rightarrow> bool" where
  "open_proposal_of t c \<longleftrightarrow> tc_tenant_id c = ft_tenantId t \<and> tc_workspace_id c = ft_workspaceId t \<and>
     tc_space_id c = ft_spaceId t \<and> tc_subject_type c = InitiativeSubject \<and> tc_subject_id c = ft_subjectId t \<and>
     tc_predicate c = PrimaryObjective \<and> tc_status c = Proposed"

definition revokePrelockedFact ::
  "(jstr \<Rightarrow> jstr) \<Rightarrow> int \<Rightarrow> targets \<Rightarrow> nat \<Rightarrow> lifecycle_change \<Rightarrow> (jstr \<times> targets) ledger_op" where
  "revokePrelockedFact nfc now mem i input =
     op_bind (op_lift (requirePostAuthorizationCurrentFact mem i)) (\<lambda>(t, state).
     op_bind (op_lift (parseLifecycleReason nfc RevokeKind (lc_reason input))) (\<lambda>reason.
     op_bind (op_require LedgerConflictError (change_of_actor state input)) (\<lambda>_.
     op_bind (if objective_target t
       then op_bind (guardLifecycleDatabaseOperation
           (op_read (\<lambda>s. filter (open_proposal_of t) (lg_claims s)))) (\<lambda>openProposal.
         op_require LedgerConflictError (\<not> length openProposal \<noteq> 0))
       else op_return ()) (\<lambda>_.
     op_bind (terminalizePrelockedFact now t RevokedFact (lc_commandId input)) (\<lambda>_.
     op_bind (insertFactLifecycleEvent t input None RevokedFact reason) (\<lambda>_.
     op_return (ft_factId t, mem[i := None])))))))"

section \<open>The relay of a space\<close>

definition relays_space :: "jstr \<Rightarrow> jstr \<Rightarrow> jstr \<Rightarrow> principal_row \<Rightarrow> grant_row \<Rightarrow> bool" where
  "relays_space tenantId workspaceId spaceId p g \<longleftrightarrow>
     gr_tenant_id g = pr_tenant_id p \<and> gr_workspace_id g = pr_workspace_id p \<and>
     gr_subject_type g = js ''service_principal'' \<and> gr_subject_id g = pr_id p \<and>
     gr_relation g = js ''manager'' \<and> gr_resource_type g = js ''space'' \<and>
     gr_resource_id g = uuid_column spaceId \<and> pr_tenant_id p = uuid_column tenantId \<and>
     pr_workspace_id p = uuid_column workspaceId \<and> pr_purpose p = js ''product_notification_relay'' \<and>
     pr_status p = js ''active''"

definition relayPrincipalForSpace :: "world \<Rightarrow> jstr \<Rightarrow> jstr \<Rightarrow> jstr \<Rightarrow> truth_error + jstr" where
  "relayPrincipalForSpace wd tenantId workspaceId spaceId =
     (case take 2 [pr_id p. p \<leftarrow> wd_principals wd, g \<leftarrow> wd_grants wd, relays_space tenantId workspaceId spaceId p g] of
        [found] \<Rightarrow> Inr found
      | _ \<Rightarrow> Inl LedgerInvariantError)"

end
