(* ===== verification/Ledger_Spec.thy ===== *)
theory Ledger_Spec
  imports  Truth_Facts
begin

text \<open>
  The abstract specification of the truth ledger: what a command may do to the tables of claims and
  facts, whatever it reads, checks and records on the way. A step proposes a claim, ends or reworks
  the open proposal of an objective, accepts claims as a fact, or supersedes or revokes a current
  fact; commands, audit events and notifications are books that any step may write.

  \<open>ledger_ok\<close> is what the specification promises of every ledger that grew from an empty one: one
  current fact and at most one open objective proposal at each coordinate, facts supported by
  accepted claims they agree with and whose access class they bound, and exactly one lifecycle event
  for each fact that ended.
\<close>

section \<open>Coordinates and books\<close>

type_synonym coordinate = "jstr \<times> jstr \<times> jstr \<times> subject_kind \<times> jstr \<times> truth_predicate"

definition claim_coordinate :: "truth_claim_row \<Rightarrow> coordinate" where
  "claim_coordinate c = (tc_tenant_id c, tc_workspace_id c, tc_space_id c, tc_subject_type c, tc_subject_id c,
     tc_predicate c)"

definition fact_coordinate :: "fact_row \<Rightarrow> coordinate" where
  "fact_coordinate f = (tf_tenant_id f, tf_workspace_id f, tf_space_id f, tf_subject_type f, tf_subject_id f,
     tf_predicate f)"

definition lower :: "jstr \<Rightarrow> bool" where
  "lower s \<longleftrightarrow> uuid_column s = s"

definition canonical_claim :: "truth_claim_row \<Rightarrow> bool" where
  "canonical_claim c \<longleftrightarrow> lower (tc_id c) \<and> lower (tc_tenant_id c) \<and> lower (tc_workspace_id c) \<and>
     lower (tc_space_id c) \<and> lower (tc_subject_id c)"

definition canonical_fact :: "fact_row \<Rightarrow> bool" where
  "canonical_fact f \<longleftrightarrow> lower (tf_id f) \<and> lower (tf_tenant_id f) \<and> lower (tf_workspace_id f) \<and>
     lower (tf_space_id f) \<and> lower (tf_subject_id f)"

definition books_only :: "ledger \<Rightarrow> ledger \<Rightarrow> bool" where
  "books_only s t \<longleftrightarrow>
     t = s\<lparr>lg_commands := lg_commands t, lg_audit := lg_audit t, lg_outbox := lg_outbox t\<rparr>"

section \<open>What a step does\<close>

definition add_claim ::
  "span_row \<Rightarrow> truth_claim_row \<Rightarrow> attestation_row list \<Rightarrow> ledger \<Rightarrow> ledger" where
  "add_claim sp c as s = s\<lparr>lg_spans := lg_spans s @ [sp], lg_claims := lg_claims s @ [c],
     lg_attestations := lg_attestations s @ as\<rparr>"

definition end_claim :: "claim_status \<Rightarrow> int \<Rightarrow> truth_claim_row \<Rightarrow> truth_claim_row" where
  "end_claim status now c = c\<lparr>tc_status := status, tc_version := 2, tc_updated_at := now\<rparr>"

definition end_proposal :: "int \<Rightarrow> recovery_row \<Rightarrow> ledger \<Rightarrow> ledger" where
  "end_proposal now r s = s\<lparr>lg_claims := update_where (\<lambda>c. tc_id c = rc_predecessor_claim_id r)
       (end_claim (ended_status (rc_disposition r)) now) (lg_claims s),
     lg_recoveries := lg_recoveries s @ [r]\<rparr>"

definition support_row :: "fact_row \<Rightarrow> jstr \<Rightarrow> fact_claim_row" where
  "support_row f i = \<lparr>fc_tenant_id = tf_tenant_id f, fc_workspace_id = tf_workspace_id f,
     fc_space_id = tf_space_id f, fc_fact_id = tf_id f, fc_claim_id = i\<rparr>"

definition add_fact :: "int \<Rightarrow> fact_row \<Rightarrow> jstr list \<Rightarrow> ledger \<Rightarrow> ledger" where
  "add_fact now f ids s = s\<lparr>lg_facts := lg_facts s @ [f], lg_fact_claims := lg_fact_claims s @ map (support_row f) ids,
     lg_claims := update_where (\<lambda>c. tc_id c \<in> set ids) (accept_claim now) (lg_claims s)\<rparr>"

definition end_current :: "int \<Rightarrow> lifecycle_event_row \<Rightarrow> ledger \<Rightarrow> ledger" where
  "end_current now e s = s\<lparr>lg_facts := update_where (\<lambda>f. tf_id f = le_predecessor_fact_id e)
     (end_fact now (le_to_status e) (le_causation_command_id e)) (lg_facts s)\<rparr>"

definition add_event :: "lifecycle_event_row \<Rightarrow> ledger \<Rightarrow> ledger" where
  "add_event e s = s\<lparr>lg_events := lg_events s @ [e]\<rparr>"

section \<open>When a step may happen\<close>

definition open_objective :: "truth_claim_row \<Rightarrow> bool" where
  "open_objective c \<longleftrightarrow> tc_predicate c = PrimaryObjective \<and> tc_status c = Proposed"

definition proposable :: "span_row \<Rightarrow> truth_claim_row \<Rightarrow> attestation_row list \<Rightarrow> ledger \<Rightarrow> bool" where
  "proposable sp c as s \<longleftrightarrow> tc_id c \<notin> tc_id ` set (lg_claims s) \<and> tc_status c = Proposed \<and> tc_version c = 1 \<and>
     canonical_claim c \<and> evidence_of_claim c sp \<and> sp_access_class sp = tc_access_class c \<and>
     (tc_predicate c = PrimaryObjective \<longrightarrow> tc_subject_type c = InitiativeSubject \<and>
        (\<exists>a. as = [a] \<and> attests c a \<and> attested_span a sp) \<and>
        (\<forall>c'\<in>set (lg_claims s). open_objective c' \<longrightarrow> claim_coordinate c' \<noteq> claim_coordinate c)) \<and>
     (tc_predicate c \<noteq> PrimaryObjective \<longrightarrow> as = [])"

definition endable :: "recovery_row \<Rightarrow> truth_claim_row \<Rightarrow> ledger \<Rightarrow> bool" where
  "endable r p s \<longleftrightarrow> p \<in> set (lg_claims s) \<and> tc_id p = rc_predecessor_claim_id r \<and> open_objective p"

definition agrees :: "fact_row \<Rightarrow> truth_claim_row \<Rightarrow> bool" where
  "agrees f c \<longleftrightarrow> claim_coordinate c = fact_coordinate f \<and>
     tc_canonical_value_text c = tf_canonical_value_text f \<and> tc_access_class c \<le> tf_access_class f"

definition acceptable :: "fact_row \<Rightarrow> jstr list \<Rightarrow> ledger \<Rightarrow> bool" where
  "acceptable f ids s \<longleftrightarrow> tf_id f \<notin> tf_id ` set (lg_facts s) \<and> tf_status f = CurrentFact \<and> tf_version f = 1 \<and>
     canonical_fact f \<and> ids \<noteq> [] \<and> distinct ids \<and>
     (\<forall>i\<in>set ids. \<exists>c\<in>set (lg_claims s). tc_id c = i \<and> tc_status c = Proposed \<and> agrees f c) \<and>
     (\<forall>g\<in>set (lg_facts s). tf_status g = CurrentFact \<longrightarrow> fact_coordinate g \<noteq> fact_coordinate f)"

definition ends :: "lifecycle_event_row \<Rightarrow> fact_status \<Rightarrow> fact_row \<Rightarrow> ledger \<Rightarrow> bool" where
  "ends e status f s \<longleftrightarrow> f \<in> set (lg_facts s) \<and> tf_status f = CurrentFact \<and>
     le_predecessor_fact_id e = tf_id f \<and> le_to_status e = status \<and>
     uuid_column (le_causation_command_id e) \<noteq> tf_last_causation_command_id f"

inductive truth_step :: "ledger \<Rightarrow> ledger \<Rightarrow> bool" where
  propose: "proposable sp c as s \<Longrightarrow> books_only (add_claim sp c as s) t \<Longrightarrow> truth_step s t"
| withdraw: "endable r p s \<Longrightarrow> rc_successor_claim_id r = None \<Longrightarrow> rc_disposition r \<noteq> Reworked \<Longrightarrow>
    books_only (end_proposal now r s) t \<Longrightarrow> truth_step s t"
| rework: "endable r p s \<Longrightarrow> rc_successor_claim_id r = Some (tc_id c) \<Longrightarrow> rc_disposition r = Reworked \<Longrightarrow>
    proposable sp c as (end_proposal now r s) \<Longrightarrow> claim_coordinate c = claim_coordinate p \<Longrightarrow>
    books_only (add_claim sp c as (end_proposal now r s)) t \<Longrightarrow> truth_step s t"
| accept: "acceptable f ids s \<Longrightarrow> books_only (add_fact now f ids s) t \<Longrightarrow> truth_step s t"
| supersede: "ends e SupersededFact g s \<Longrightarrow> le_successor_fact_id e = Some (tf_id f) \<Longrightarrow>
    fact_coordinate f = fact_coordinate g \<Longrightarrow> tf_access_class g \<le> tf_access_class f \<Longrightarrow>
    acceptable f ids (end_current now e s) \<Longrightarrow>
    books_only (add_event e (add_fact now f ids (end_current now e s))) t \<Longrightarrow> truth_step s t"
| revoke: "ends e RevokedFact g s \<Longrightarrow> le_successor_fact_id e = None \<Longrightarrow>
    (tf_predicate g = PrimaryObjective \<Longrightarrow>
       \<forall>c\<in>set (lg_claims s). open_objective c \<longrightarrow> claim_coordinate c \<noteq> fact_coordinate g) \<Longrightarrow>
    books_only (add_event e (end_current now e s)) t \<Longrightarrow> truth_step s t"

inductive_cases truth_stepE: "truth_step s t"

section \<open>How rows may change\<close>

text \<open>The transitions that the triggers \<open>truth.enforce_claim_transition\<close> (\<open>migrations/0011\<close>) and
  \<open>truth.enforce_fact_lifecycle_transition\<close> (\<open>0012\<close>) permit, apart from the order of the instants and
  from the command that they look up.\<close>

definition claim_transition_ok :: "truth_claim_row \<Rightarrow> truth_claim_row \<Rightarrow> bool" where
  "claim_transition_ok old new \<longleftrightarrow> \<not> (tc_status old \<noteq> Proposed \<or> tc_version old \<noteq> 1 \<or> tc_version new \<noteq> 2 \<or>
     tc_status new \<notin> {AcceptedClaim, RejectedClaim, SupersededClaim} \<or>
     (tc_status new \<in> {RejectedClaim, SupersededClaim} \<and>
        (tc_subject_type new \<noteq> InitiativeSubject \<or> tc_predicate new \<noteq> PrimaryObjective)) \<or>
     new\<lparr>tc_status := tc_status old, tc_version := tc_version old, tc_updated_at := tc_updated_at old\<rparr> \<noteq> old)"

definition fact_transition_ok :: "fact_row \<Rightarrow> fact_row \<Rightarrow> bool" where
  "fact_transition_ok old new \<longleftrightarrow> \<not> (tf_status old \<noteq> CurrentFact \<or> tf_version old \<noteq> 1 \<or>
     tf_status new \<notin> {SupersededFact, RevokedFact} \<or> tf_version new \<noteq> 2 \<or>
     tf_last_causation_command_id new = tf_last_causation_command_id old \<or>
     new\<lparr>tf_status := tf_status old, tf_version := tf_version old, tf_updated_at := tf_updated_at old,
       tf_last_causation_command_id := tf_last_causation_command_id old\<rparr> \<noteq> old)"

definition extends :: "('r \<Rightarrow> 'r \<Rightarrow> bool) \<Rightarrow> 'r list \<Rightarrow> 'r list \<Rightarrow> bool" where
  "extends change olds news \<longleftrightarrow>
     (\<exists>kept added. news = kept @ added \<and> list_all2 (\<lambda>o' n. n = o' \<or> change o' n) olds kept)"

definition ledger_grows :: "ledger \<Rightarrow> ledger \<Rightarrow> bool" where
  "ledger_grows s t \<longleftrightarrow> extends claim_transition_ok (lg_claims s) (lg_claims t) \<and>
     extends fact_transition_ok (lg_facts s) (lg_facts t) \<and>
     extends (\<lambda>_ _. False) (lg_spans s) (lg_spans t) \<and>
     extends (\<lambda>_ _. False) (lg_attestations s) (lg_attestations t) \<and>
     extends (\<lambda>_ _. False) (lg_recoveries s) (lg_recoveries t) \<and>
     extends (\<lambda>_ _. False) (lg_fact_claims s) (lg_fact_claims t) \<and>
     extends (\<lambda>_ _. False) (lg_events s) (lg_events t)"

section \<open>What holds of every ledger\<close>

definition claim_ok :: "truth_claim_row \<Rightarrow> bool" where
  "claim_ok c \<longleftrightarrow> canonical_claim c \<and> tc_version c = (if tc_status c = Proposed then 1 else 2) \<and>
     (tc_predicate c = PrimaryObjective \<longrightarrow> tc_subject_type c = InitiativeSubject)"

definition claims_ok :: "ledger \<Rightarrow> bool" where
  "claims_ok s \<longleftrightarrow> distinct (map tc_id (lg_claims s)) \<and> (\<forall>c\<in>set (lg_claims s). claim_ok c) \<and>
     (\<forall>c\<in>set (lg_claims s). \<forall>d\<in>set (lg_claims s). open_objective c \<longrightarrow> open_objective d \<longrightarrow>
        claim_coordinate c = claim_coordinate d \<longrightarrow> c = d)"

definition fact_ok :: "fact_row \<Rightarrow> bool" where
  "fact_ok f \<longleftrightarrow> canonical_fact f \<and> tf_status f \<noteq> ContestedFact \<and>
     tf_version f = (if tf_status f = CurrentFact then 1 else 2)"

definition facts_ok :: "ledger \<Rightarrow> bool" where
  "facts_ok s \<longleftrightarrow> distinct (map tf_id (lg_facts s)) \<and> (\<forall>f\<in>set (lg_facts s). fact_ok f) \<and>
     (\<forall>f\<in>set (lg_facts s). \<forall>g\<in>set (lg_facts s). tf_status f = CurrentFact \<longrightarrow> tf_status g = CurrentFact \<longrightarrow>
        fact_coordinate f = fact_coordinate g \<longrightarrow> f = g)"

definition evidence_ok :: "ledger \<Rightarrow> bool" where
  "evidence_ok s \<longleftrightarrow> (\<forall>c\<in>set (lg_claims s).
     (\<exists>sp\<in>set (lg_spans s). evidence_of_claim c sp \<and> sp_access_class sp = tc_access_class c) \<and>
     (tc_predicate c = PrimaryObjective \<longrightarrow> (\<exists>a\<in>set (lg_attestations s). attests c a)))"

definition support_ok :: "ledger \<Rightarrow> bool" where
  "support_ok s \<longleftrightarrow>
     (\<forall>fc\<in>set (lg_fact_claims s). \<exists>f\<in>set (lg_facts s). \<exists>c\<in>set (lg_claims s).
        fc = support_row f (tc_id c) \<and> tc_status c = AcceptedClaim \<and> agrees f c) \<and>
     (\<forall>f\<in>set (lg_facts s). tf_id f \<in> fc_fact_id ` set (lg_fact_claims s)) \<and>
     (\<forall>c\<in>set (lg_claims s). tc_status c = AcceptedClaim \<longrightarrow> tc_id c \<in> fc_claim_id ` set (lg_fact_claims s)) \<and>
     distinct (map fc_claim_id (lg_fact_claims s))"

definition event_ok :: "fact_row set \<Rightarrow> lifecycle_event_row \<Rightarrow> bool" where
  "event_ok F e \<longleftrightarrow> (\<exists>g\<in>F. tf_id g = le_predecessor_fact_id e \<and> tf_status g = le_to_status e \<and>
     (le_to_status e = RevokedFact \<and> le_successor_fact_id e = None \<or>
      le_to_status e = SupersededFact \<and> (\<exists>f\<in>F. le_successor_fact_id e = Some (tf_id f) \<and> tf_id f \<noteq> tf_id g \<and>
        fact_coordinate f = fact_coordinate g \<and> tf_access_class g \<le> tf_access_class f)))"

definition lineage_ok :: "ledger \<Rightarrow> bool" where
  "lineage_ok s \<longleftrightarrow> distinct (map le_predecessor_fact_id (lg_events s)) \<and>
     (\<forall>f\<in>set (lg_facts s). tf_status f \<noteq> CurrentFact \<longrightarrow> tf_id f \<in> le_predecessor_fact_id ` set (lg_events s)) \<and>
     (\<forall>e\<in>set (lg_events s). event_ok (set (lg_facts s)) e)"

definition recovery_ok :: "truth_claim_row set \<Rightarrow> recovery_row \<Rightarrow> bool" where
  "recovery_ok C r \<longleftrightarrow> (\<exists>c\<in>C. tc_id c = rc_predecessor_claim_id r \<and> tc_predicate c = PrimaryObjective \<and>
     tc_status c = ended_status (rc_disposition r) \<and>
     (rc_disposition r = Reworked \<longrightarrow> (\<exists>d\<in>C. rc_successor_claim_id r = Some (tc_id d) \<and>
        tc_id d \<noteq> tc_id c \<and> claim_coordinate d = claim_coordinate c)))"

definition recoveries_ok :: "ledger \<Rightarrow> bool" where
  "recoveries_ok s \<longleftrightarrow> distinct (map rc_predecessor_claim_id (lg_recoveries s)) \<and>
     (\<forall>c\<in>set (lg_claims s). tc_status c \<in> {RejectedClaim, SupersededClaim} \<longrightarrow>
        tc_id c \<in> rc_predecessor_claim_id ` set (lg_recoveries s)) \<and>
     (\<forall>r\<in>set (lg_recoveries s). recovery_ok (set (lg_claims s)) r)"

definition ledger_ok :: "ledger \<Rightarrow> bool" where
  "ledger_ok s \<longleftrightarrow> claims_ok s \<and> facts_ok s \<and> evidence_ok s \<and> support_ok s \<and> lineage_ok s \<and> recoveries_ok s"

end
