(* ===== verification/Ledger_Invariant.thy ===== *)
theory Ledger_Invariant
  imports Ledger_Spec
begin

text \<open>
  The steps of the specification keep its invariant. Each part of the invariant is kept by each of
  the elementary changes; the last section puts them together as an instance of the interface of
  evolving systems, with the order in which claims and facts may change.
\<close>

section \<open>Updates\<close>

named_theorems ledger_simps \<open>what an elementary change does to each table\<close>

lemma set_update_where: "set (update_where P f xs) = (\<lambda>x. if P x then f x else x) ` set xs"
  by (simp add: update_where_def)

lemma ball_update_where:
  "(\<forall>x\<in>set (update_where P f xs). Q x) \<longleftrightarrow> (\<forall>x\<in>set xs. if P x then Q (f x) else Q x)"
  by (auto simp: update_where_def)

lemma bex_update_where:
  "(\<exists>x\<in>set (update_where P f xs). Q x) \<longleftrightarrow> (\<exists>x\<in>set xs. if P x then Q (f x) else Q x)"
  by (auto simp: update_where_def)

lemma update_where_same:
  assumes "\<And>x. Q (f x) = Q x"
  shows "(\<forall>x\<in>set (update_where P f xs). Q x) \<longleftrightarrow> (\<forall>x\<in>set xs. Q x)"
    "(\<exists>x\<in>set (update_where P f xs). Q x) \<longleftrightarrow> (\<exists>x\<in>set xs. Q x)"
  by (auto simp: ball_update_where bex_update_where assms)

lemma map_update_where: "(\<And>x. P x \<Longrightarrow> k (f x) = k x) \<Longrightarrow> map k (update_where P f xs) = map k xs"
  by (simp add: update_where_def)

lemma end_claim_simps [ledger_simps]:
  "tc_id (end_claim st now c) = tc_id c" "tc_status (end_claim st now c) = st"
  "tc_version (end_claim st now c) = 2" "claim_coordinate (end_claim st now c) = claim_coordinate c"
  "tc_predicate (end_claim st now c) = tc_predicate c" "tc_access_class (end_claim st now c) = tc_access_class c"
  "agrees f (end_claim st now c) = agrees f c" "evidence_of_claim (end_claim st now c) = evidence_of_claim c"
  "attests (end_claim st now c) = attests c" "canonical_claim (end_claim st now c) = canonical_claim c"
  "tc_subject_type (end_claim st now c) = tc_subject_type c"
  by (auto simp: end_claim_def claim_coordinate_def agrees_def evidence_of_claim_def attests_def
      canonical_claim_def fun_eq_iff)

lemma accept_claim_simps [ledger_simps]:
  "tc_id (accept_claim now c) = tc_id c" "tc_status (accept_claim now c) = AcceptedClaim"
  "tc_version (accept_claim now c) = tc_version c + 1"
  "claim_coordinate (accept_claim now c) = claim_coordinate c"
  "tc_predicate (accept_claim now c) = tc_predicate c" "tc_access_class (accept_claim now c) = tc_access_class c"
  "agrees f (accept_claim now c) = agrees f c" "evidence_of_claim (accept_claim now c) = evidence_of_claim c"
  "attests (accept_claim now c) = attests c" "canonical_claim (accept_claim now c) = canonical_claim c"
  "tc_subject_type (accept_claim now c) = tc_subject_type c"
  by (auto simp: accept_claim_def claim_coordinate_def agrees_def evidence_of_claim_def attests_def
      canonical_claim_def fun_eq_iff)

lemma end_fact_simps [ledger_simps]:
  "tf_id (end_fact now st i f) = tf_id f" "tf_status (end_fact now st i f) = st"
  "tf_version (end_fact now st i f) = tf_version f + 1" "fact_coordinate (end_fact now st i f) = fact_coordinate f"
  "tf_access_class (end_fact now st i f) = tf_access_class f" "canonical_fact (end_fact now st i f) = canonical_fact f"
  "agrees (end_fact now st i f) = agrees f" "support_row (end_fact now st i f) = support_row f"
  by (auto simp: end_fact_def fact_coordinate_def canonical_fact_def agrees_def support_row_def fun_eq_iff)

lemma support_row_simps [ledger_simps]:
  "fc_fact_id (support_row f i) = tf_id f" "fc_claim_id (support_row f i) = i"
  by (simp_all add: support_row_def)

lemma changed_tables [ledger_simps]:
  "lg_claims (add_claim sp c as s) = lg_claims s @ [c]" "lg_spans (add_claim sp c as s) = lg_spans s @ [sp]"
  "lg_attestations (add_claim sp c as s) = lg_attestations s @ as" "lg_facts (add_claim sp c as s) = lg_facts s"
  "lg_fact_claims (add_claim sp c as s) = lg_fact_claims s" "lg_events (add_claim sp c as s) = lg_events s"
  "lg_recoveries (add_claim sp c as s) = lg_recoveries s"
  "lg_claims (end_proposal now r s) = update_where (\<lambda>c. tc_id c = rc_predecessor_claim_id r)
       (end_claim (ended_status (rc_disposition r)) now) (lg_claims s)"
  "lg_recoveries (end_proposal now r s) = lg_recoveries s @ [r]" "lg_facts (end_proposal now r s) = lg_facts s"
  "lg_spans (end_proposal now r s) = lg_spans s" "lg_attestations (end_proposal now r s) = lg_attestations s"
  "lg_fact_claims (end_proposal now r s) = lg_fact_claims s" "lg_events (end_proposal now r s) = lg_events s"
  "lg_facts (add_fact now f ids s) = lg_facts s @ [f]"
  "lg_fact_claims (add_fact now f ids s) = lg_fact_claims s @ map (support_row f) ids"
  "lg_claims (add_fact now f ids s) = update_where (\<lambda>c. tc_id c \<in> set ids) (accept_claim now) (lg_claims s)"
  "lg_spans (add_fact now f ids s) = lg_spans s" "lg_attestations (add_fact now f ids s) = lg_attestations s"
  "lg_events (add_fact now f ids s) = lg_events s" "lg_recoveries (add_fact now f ids s) = lg_recoveries s"
  "lg_facts (end_current now e s) = update_where (\<lambda>f. tf_id f = le_predecessor_fact_id e)
     (end_fact now (le_to_status e) (le_causation_command_id e)) (lg_facts s)"
  "lg_claims (end_current now e s) = lg_claims s" "lg_spans (end_current now e s) = lg_spans s"
  "lg_attestations (end_current now e s) = lg_attestations s"
  "lg_fact_claims (end_current now e s) = lg_fact_claims s" "lg_events (end_current now e s) = lg_events s"
  "lg_recoveries (end_current now e s) = lg_recoveries s"
  "lg_events (add_event e s) = lg_events s @ [e]" "lg_facts (add_event e s) = lg_facts s"
  "lg_claims (add_event e s) = lg_claims s" "lg_spans (add_event e s) = lg_spans s"
  "lg_attestations (add_event e s) = lg_attestations s" "lg_fact_claims (add_event e s) = lg_fact_claims s"
  "lg_recoveries (add_event e s) = lg_recoveries s"
  by (simp_all add: add_claim_def end_proposal_def add_fact_def end_current_def add_event_def)

lemma books_tables:
  assumes "books_only s t"
  shows "lg_claims t = lg_claims s" "lg_spans t = lg_spans s" "lg_attestations t = lg_attestations s"
    "lg_facts t = lg_facts s" "lg_fact_claims t = lg_fact_claims s" "lg_events t = lg_events s"
    "lg_recoveries t = lg_recoveries s"
proof -
  have t: "t = s\<lparr>lg_commands := lg_commands t, lg_audit := lg_audit t, lg_outbox := lg_outbox t\<rparr>"
    using assms by (simp add: books_only_def)
  show "lg_claims t = lg_claims s" "lg_spans t = lg_spans s" "lg_attestations t = lg_attestations s"
    "lg_facts t = lg_facts s" "lg_fact_claims t = lg_fact_claims s" "lg_events t = lg_events s"
    "lg_recoveries t = lg_recoveries s"
    by (subst t, simp)+
qed

lemma books_keep:
  assumes "books_only s t"
  shows "claims_ok t \<longleftrightarrow> claims_ok s" "facts_ok t \<longleftrightarrow> facts_ok s" "evidence_ok t \<longleftrightarrow> evidence_ok s"
    "support_ok t \<longleftrightarrow> support_ok s" "lineage_ok t \<longleftrightarrow> lineage_ok s" "recoveries_ok t \<longleftrightarrow> recoveries_ok s"
  by (simp_all add: claims_ok_def facts_ok_def evidence_ok_def support_ok_def lineage_ok_def recoveries_ok_def
      books_tables[OF assms])

lemma books_ledger_ok: "books_only s t \<Longrightarrow> ledger_ok t \<longleftrightarrow> ledger_ok s"
  by (simp add: ledger_ok_def books_keep)

text \<open>Rows are identified by their ids.\<close>

lemma same_id: "distinct (map k xs) \<Longrightarrow> x \<in> set xs \<Longrightarrow> y \<in> set xs \<Longrightarrow> k x = k y \<Longrightarrow> x = y"
  by (meson distinct_map inj_onD)

lemma claim_by_id: "claims_ok s \<Longrightarrow> c \<in> set (lg_claims s) \<Longrightarrow> d \<in> set (lg_claims s) \<Longrightarrow> tc_id c = tc_id d \<Longrightarrow> c = d"
  using same_id[of tc_id] by (auto simp: claims_ok_def)

lemma fact_by_id: "facts_ok s \<Longrightarrow> f \<in> set (lg_facts s) \<Longrightarrow> g \<in> set (lg_facts s) \<Longrightarrow> tf_id f = tf_id g \<Longrightarrow> f = g"
  using same_id[of tf_id] by (auto simp: facts_ok_def)

section \<open>Claims\<close>

lemma claims_ok_add_claim:
  assumes "claims_ok s" "proposable sp c as s"
  shows "claims_ok (add_claim sp c as s)"
  using assms by (auto simp: claims_ok_def proposable_def claim_ok_def open_objective_def ledger_simps)

lemma claims_ok_end_proposal:
  assumes "claims_ok s"
  shows "claims_ok (end_proposal now r s)"
proof -
  have [simp]: "ended_status d \<noteq> Proposed" for d by (simp add: ended_status_def)
  show ?thesis using assms
    by (auto simp: claims_ok_def claim_ok_def open_objective_def ledger_simps set_update_where map_update_where)
qed

lemma claims_ok_add_fact:
  assumes ok: "claims_ok s" and acc: "acceptable f ids s"
  shows "claims_ok (add_fact now f ids s)"
proof -
  have p: "tc_status c = Proposed" if "c \<in> set (lg_claims s)" "tc_id c \<in> set ids" for c
    using that acc claim_by_id[OF ok] unfolding acceptable_def by metis
  have "claim_ok (accept_claim now c)" if "c \<in> set (lg_claims s)" "tc_id c \<in> set ids" for c
    using that ok p[of c] by (auto simp: claims_ok_def claim_ok_def ledger_simps)
  then show ?thesis using ok
    by (auto simp: claims_ok_def open_objective_def ledger_simps set_update_where map_update_where)
qed

lemma claims_ok_facts [ledger_simps]:
  "claims_ok (end_current now e s) = claims_ok s" "claims_ok (add_event e s) = claims_ok s"
  by (simp_all add: claims_ok_def ledger_simps)

section \<open>Facts\<close>

lemma facts_ok_claims [ledger_simps]:
  "facts_ok (add_claim sp c as s) = facts_ok s" "facts_ok (end_proposal now r s) = facts_ok s"
  "facts_ok (add_event e s) = facts_ok s"
  by (simp_all add: facts_ok_def ledger_simps)

lemma facts_ok_add_fact:
  assumes "facts_ok s" "acceptable f ids s"
  shows "facts_ok (add_fact now f ids s)"
  using assms by (auto simp: facts_ok_def acceptable_def fact_ok_def ledger_simps)

lemma facts_ok_end_current:
  assumes ok: "facts_ok s" and e: "ends e st f s" "st \<in> {SupersededFact, RevokedFact}"
  shows "facts_ok (end_current now e s)"
proof -
  have f: "g = f" if "g \<in> set (lg_facts s)" "tf_id g = le_predecessor_fact_id e" for g
    using that e fact_by_id[OF ok] by (auto simp: ends_def)
  have "fact_ok (end_fact now (le_to_status e) (le_causation_command_id e) g)"
    if g: "g \<in> set (lg_facts s)" "tf_id g = le_predecessor_fact_id e" for g
  proof -
    have "g = f" using f g by blast
    then show ?thesis using ok e g by (auto simp: facts_ok_def fact_ok_def ends_def ledger_simps)
  qed
  moreover have "le_to_status e \<noteq> CurrentFact" using e by (auto simp: ends_def)
  ultimately show ?thesis using ok
    by (auto simp: facts_ok_def ledger_simps set_update_where map_update_where)
qed

section \<open>Evidence\<close>

lemma evidence_ok_changes [ledger_simps]:
  "evidence_ok (end_proposal now r s) = evidence_ok s" "evidence_ok (add_fact now f ids s) = evidence_ok s"
  "evidence_ok (end_current now e s) = evidence_ok s" "evidence_ok (add_event e s) = evidence_ok s"
  by (simp_all add: evidence_ok_def ledger_simps update_where_same)

lemma evidence_ok_add_claim:
  assumes "evidence_ok s" "proposable sp c as s"
  shows "evidence_ok (add_claim sp c as s)"
  using assms by (auto simp: evidence_ok_def proposable_def ledger_simps)

section \<open>Support\<close>

lemma support_ok_add_claim:
  assumes "support_ok s" "tc_status c = Proposed"
  shows "support_ok (add_claim sp c as s)"
  using assms by (fastforce simp: support_ok_def ledger_simps)

lemma support_ok_end_proposal:
  assumes ok: "claims_ok s" "support_ok s" and r: "endable r p s"
  shows "support_ok (end_proposal now r s)"
proof -
  have n: "tc_status c \<noteq> AcceptedClaim" if "c \<in> set (lg_claims s)" "tc_id c = rc_predecessor_claim_id r" for c
    using that r claim_by_id[OF ok(1), of c p] by (auto simp: endable_def open_objective_def)
  have [simp]: "ended_status d \<noteq> AcceptedClaim" for d by (simp add: ended_status_def)
  have "\<exists>f\<in>set (lg_facts s). \<exists>c\<in>set (lg_claims (end_proposal now r s)).
      fc = support_row f (tc_id c) \<and> tc_status c = AcceptedClaim \<and> agrees f c"
    if fc: "fc \<in> set (lg_fact_claims s)" for fc
  proof -
    obtain f c where "f \<in> set (lg_facts s)" "c \<in> set (lg_claims s)" "fc = support_row f (tc_id c)"
        "tc_status c = AcceptedClaim" "agrees f c"
      using ok(2) fc unfolding support_ok_def by blast
    moreover from this have "tc_id c \<noteq> rc_predecessor_claim_id r" using n by blast
    ultimately show ?thesis by (intro bexI[of _ f]) (auto simp: ledger_simps bex_update_where)
  qed
  then show ?thesis using ok(2)
    unfolding support_ok_def by (simp add: ledger_simps ball_update_where)
qed

lemma support_ok_end_current [ledger_simps]: "support_ok (end_current now e s) = support_ok s"
  by (simp add: support_ok_def ledger_simps update_where_same)

lemma support_ok_add_event [ledger_simps]: "support_ok (add_event e s) = support_ok s"
  by (simp add: support_ok_def ledger_simps)

lemma support_ok_add_fact:
  assumes ok: "claims_ok s" "support_ok s" and acc: "acceptable f ids s"
  shows "support_ok (add_fact now f ids s)"
proof -
  have p: "tc_status c = Proposed" if "c \<in> set (lg_claims s)" "tc_id c \<in> set ids" for c
    using that acc claim_by_id[OF ok(1)] unfolding acceptable_def by metis
  have old: "\<exists>f\<in>set (lg_facts s). \<exists>c\<in>set (lg_claims s). tc_id c \<notin> set ids \<and>
      fc = support_row f (tc_id c) \<and> tc_status c = AcceptedClaim \<and> agrees f c"
    if fc: "fc \<in> set (lg_fact_claims s)" for fc
  proof -
    obtain f c where "f \<in> set (lg_facts s)" "c \<in> set (lg_claims s)" "fc = support_row f (tc_id c)"
        "tc_status c = AcceptedClaim" "agrees f c"
      using ok(2) fc unfolding support_ok_def by blast
    then show ?thesis using p[of c] by fastforce
  qed
  have new: "\<exists>c\<in>set (lg_claims s). tc_id c = i \<and> agrees f c" if "i \<in> set ids" for i
    using that acc unfolding acceptable_def by blast
  have free: "i \<notin> fc_claim_id ` set (lg_fact_claims s)" if "i \<in> set ids" for i
    using old that by (fastforce simp: support_row_simps)
  have d: "distinct (map fc_claim_id (lg_fact_claims s) @ ids)"
    using ok(2) acc free by (auto simp: support_ok_def acceptable_def)
  have "ids \<noteq> []" using acc by (simp add: acceptable_def)
  show ?thesis unfolding support_ok_def
  proof (intro conjI)
    show "\<forall>fc\<in>set (lg_fact_claims (add_fact now f ids s)). \<exists>g\<in>set (lg_facts (add_fact now f ids s)).
        \<exists>c\<in>set (lg_claims (add_fact now f ids s)). fc = support_row g (tc_id c) \<and>
          tc_status c = AcceptedClaim \<and> agrees g c"
    proof
      fix fc assume "fc \<in> set (lg_fact_claims (add_fact now f ids s))"
      then consider "fc \<in> set (lg_fact_claims s)" | i where "i \<in> set ids" "fc = support_row f i"
        by (auto simp: ledger_simps)
      then show "\<exists>g\<in>set (lg_facts (add_fact now f ids s)). \<exists>c\<in>set (lg_claims (add_fact now f ids s)).
          fc = support_row g (tc_id c) \<and> tc_status c = AcceptedClaim \<and> agrees g c"
      proof cases
        case 1
        then obtain g c where "g \<in> set (lg_facts s)" "c \<in> set (lg_claims s)" "tc_id c \<notin> set ids"
            "fc = support_row g (tc_id c)" "tc_status c = AcceptedClaim" "agrees g c"
          using old by blast
        then show ?thesis by (intro bexI[of _ g]) (auto simp: ledger_simps bex_update_where)
      next
        case 2
        then obtain c where "c \<in> set (lg_claims s)" "tc_id c = i" "agrees f c" using new by blast
        then show ?thesis using 2 by (intro bexI[of _ f]) (auto simp: ledger_simps bex_update_where)
      qed
    qed
    show "\<forall>g\<in>set (lg_facts (add_fact now f ids s)). tf_id g \<in> fc_fact_id ` set (lg_fact_claims (add_fact now f ids s))"
      using ok(2) \<open>ids \<noteq> []\<close> by (cases ids) (auto simp: support_ok_def ledger_simps)
    show "\<forall>c\<in>set (lg_claims (add_fact now f ids s)). tc_status c = AcceptedClaim \<longrightarrow>
        tc_id c \<in> fc_claim_id ` set (lg_fact_claims (add_fact now f ids s))"
      using ok(2) by (auto simp: support_ok_def ledger_simps ball_update_where image_Un image_image)
    show "distinct (map fc_claim_id (lg_fact_claims (add_fact now f ids s)))"
      using d by (simp add: ledger_simps comp_def)
  qed
qed

section \<open>Lineage\<close>

lemma event_ok_mono:
  assumes "event_ok F e"
    and "\<And>g. g \<in> F \<Longrightarrow> \<exists>h\<in>G. tf_id h = tf_id g \<and> fact_coordinate h = fact_coordinate g \<and>
      tf_access_class h = tf_access_class g \<and> (tf_status g \<noteq> CurrentFact \<longrightarrow> tf_status h = tf_status g)"
  shows "event_ok G e"
proof -
  obtain g where g: "g \<in> F" "tf_id g = le_predecessor_fact_id e" "tf_status g = le_to_status e"
    and st: "le_to_status e = RevokedFact \<and> le_successor_fact_id e = None \<or>
      le_to_status e = SupersededFact \<and> (\<exists>f\<in>F. le_successor_fact_id e = Some (tf_id f) \<and> tf_id f \<noteq> tf_id g \<and>
        fact_coordinate f = fact_coordinate g \<and> tf_access_class g \<le> tf_access_class f)"
    using assms(1) unfolding event_ok_def by blast
  obtain h where h: "h \<in> G" "tf_id h = tf_id g" "fact_coordinate h = fact_coordinate g"
      "tf_access_class h = tf_access_class g" "tf_status h = tf_status g"
    using assms(2)[OF g(1)] g(3) st by auto
  show ?thesis
  proof (cases "le_to_status e = RevokedFact")
    case True
    then show ?thesis using g h st unfolding event_ok_def by (intro bexI[of _ h]) auto
  next
    case False
    then obtain f where f: "f \<in> F" "le_successor_fact_id e = Some (tf_id f)" "tf_id f \<noteq> tf_id g"
        "fact_coordinate f = fact_coordinate g" "tf_access_class g \<le> tf_access_class f"
      using st by blast
    obtain k where "k \<in> G" "tf_id k = tf_id f" "fact_coordinate k = fact_coordinate f"
        "tf_access_class k = tf_access_class f"
      using assms(2)[OF f(1)] by blast
    then have "\<exists>k\<in>G. le_successor_fact_id e = Some (tf_id k) \<and> tf_id k \<noteq> tf_id h \<and>
        fact_coordinate k = fact_coordinate h \<and> tf_access_class h \<le> tf_access_class k"
      using f h by (intro bexI[of _ k]) auto
    then show ?thesis using g h st False unfolding event_ok_def by (intro bexI[of _ h]) auto
  qed
qed

lemma lineage_ok_claims [ledger_simps]:
  "lineage_ok (add_claim sp c as s) = lineage_ok s" "lineage_ok (end_proposal now r s) = lineage_ok s"
  by (simp_all add: lineage_ok_def ledger_simps)

lemma lineage_ok_add_fact:
  assumes "lineage_ok s" "acceptable f ids s"
  shows "lineage_ok (add_fact now f ids s)"
  using assms event_ok_mono[of "set (lg_facts s)" _ "insert f (set (lg_facts s))"]
  by (auto simp: lineage_ok_def acceptable_def ledger_simps)

lemma ended_fact_in: "g \<in> set (lg_facts s) \<Longrightarrow> \<exists>h\<in>set (lg_facts (end_current now e s)). tf_id h = tf_id g \<and>
    fact_coordinate h = fact_coordinate g \<and> tf_access_class h = tf_access_class g \<and>
    tf_status h = (if tf_id g = le_predecessor_fact_id e then le_to_status e else tf_status g)"
  by (auto simp: ledger_simps bex_update_where)

lemma lineage_ok_end:
  assumes ok: "facts_ok s" "lineage_ok s" and e: "ends e st g s"
    and later: "set (lg_facts t) = set (lg_facts (end_current now e s)) \<union> F" "lg_events t = lg_events s @ [e]"
      "\<forall>f\<in>F. tf_status f = CurrentFact"
    and new: "event_ok (set (lg_facts t)) e"
  shows "lineage_ok t"
proof -
  have old: "tf_id g \<notin> le_predecessor_fact_id ` set (lg_events s)"
  proof
    assume "tf_id g \<in> le_predecessor_fact_id ` set (lg_events s)"
    then obtain e' where "e' \<in> set (lg_events s)" "le_predecessor_fact_id e' = tf_id g" by auto
    then obtain h where "h \<in> set (lg_facts s)" "tf_id h = tf_id g" "tf_status h \<noteq> CurrentFact"
      using ok(2) unfolding lineage_ok_def event_ok_def by (metis fact_status.distinct(3) fact_status.distinct(5))
    moreover have "h = g" using calculation fact_by_id[OF ok(1), of h g] e by (auto simp: ends_def)
    ultimately show False using e by (simp add: ends_def)
  qed
  have "event_ok (set (lg_facts t)) e'" if "e' \<in> set (lg_events s)" for e'
  proof (rule event_ok_mono[of "set (lg_facts s)"])
    show "event_ok (set (lg_facts s)) e'" using that ok(2) by (simp add: lineage_ok_def)
    fix h assume h: "h \<in> set (lg_facts s)"
    have "tf_status h \<noteq> CurrentFact \<Longrightarrow> tf_id h \<noteq> le_predecessor_fact_id e"
      using e h fact_by_id[OF ok(1), of h g] by (auto simp: ends_def)
    then show "\<exists>k\<in>set (lg_facts t). tf_id k = tf_id h \<and> fact_coordinate k = fact_coordinate h \<and>
        tf_access_class k = tf_access_class h \<and> (tf_status h \<noteq> CurrentFact \<longrightarrow> tf_status k = tf_status h)"
      using ended_fact_in[OF h, of now e] later(1) by fastforce
  qed
  moreover have "tf_id h \<in> le_predecessor_fact_id ` set (lg_events t)"
    if h: "h \<in> set (lg_facts t)" "tf_status h \<noteq> CurrentFact" for h
    using h ok(2) later by (auto simp: lineage_ok_def ledger_simps set_update_where split: if_splits)
  ultimately show ?thesis using ok(2) old later(2) new e by (auto simp: lineage_ok_def ends_def)
qed

section \<open>Recoveries\<close>

lemma recovery_ok_mono:
  assumes "recovery_ok C r"
    and "\<And>c. c \<in> C \<Longrightarrow> \<exists>d\<in>D. tc_id d = tc_id c \<and> claim_coordinate d = claim_coordinate c \<and>
      tc_predicate d = tc_predicate c \<and> (tc_status c \<in> {RejectedClaim, SupersededClaim} \<longrightarrow> tc_status d = tc_status c)"
  shows "recovery_ok D r"
proof -
  obtain c where c: "c \<in> C" "tc_id c = rc_predecessor_claim_id r" "tc_predicate c = PrimaryObjective"
      "tc_status c = ended_status (rc_disposition r)"
    and succ: "rc_disposition r = Reworked \<longrightarrow> (\<exists>d\<in>C. rc_successor_claim_id r = Some (tc_id d) \<and>
        tc_id d \<noteq> tc_id c \<and> claim_coordinate d = claim_coordinate c)"
    using assms(1) unfolding recovery_ok_def by blast
  have "tc_status c \<in> {RejectedClaim, SupersededClaim}" using c(4) by (auto simp: ended_status_def)
  then obtain d where d: "d \<in> D" "tc_id d = tc_id c" "claim_coordinate d = claim_coordinate c"
      "tc_predicate d = tc_predicate c" "tc_status d = tc_status c"
    using assms(2)[OF c(1)] by blast
  have "\<exists>k\<in>D. rc_successor_claim_id r = Some (tc_id k) \<and> tc_id k \<noteq> tc_id d \<and>
      claim_coordinate k = claim_coordinate d" if "rc_disposition r = Reworked"
    using succ[rule_format, OF that] assms(2) d by (metis (no_types, lifting))
  then show ?thesis using c d unfolding recovery_ok_def by (intro bexI[of _ d]) auto
qed

lemma recoveries_ok_facts [ledger_simps]:
  "recoveries_ok (end_current now e s) = recoveries_ok s" "recoveries_ok (add_event e s) = recoveries_ok s"
  by (simp_all add: recoveries_ok_def ledger_simps)

lemma recoveries_ok_add_claim:
  assumes "recoveries_ok s" "tc_status c = Proposed"
  shows "recoveries_ok (add_claim sp c as s)"
  using assms recovery_ok_mono[of "set (lg_claims s)" _ "insert c (set (lg_claims s))"]
  by (auto simp: recoveries_ok_def ledger_simps)

lemma recoveries_ok_add_fact:
  assumes ok: "claims_ok s" "recoveries_ok s" and acc: "acceptable f ids s"
  shows "recoveries_ok (add_fact now f ids s)"
proof -
  have p: "tc_status c = Proposed" if "c \<in> set (lg_claims s)" "tc_id c \<in> set ids" for c
    using that acc claim_by_id[OF ok(1)] unfolding acceptable_def by metis
  have "recovery_ok (set (lg_claims (add_fact now f ids s))) r" if "r \<in> set (lg_recoveries s)" for r
  proof (rule recovery_ok_mono[of "set (lg_claims s)"])
    show "recovery_ok (set (lg_claims s)) r" using that ok(2) by (simp add: recoveries_ok_def)
    fix c assume "c \<in> set (lg_claims s)"
    then show "\<exists>d\<in>set (lg_claims (add_fact now f ids s)). tc_id d = tc_id c \<and>
        claim_coordinate d = claim_coordinate c \<and> tc_predicate d = tc_predicate c \<and>
        (tc_status c \<in> {RejectedClaim, SupersededClaim} \<longrightarrow> tc_status d = tc_status c)"
      using p[of c] by (auto simp: ledger_simps bex_update_where intro!: bexI[of _ c])
  qed
  then show ?thesis using ok(2) by (auto simp: recoveries_ok_def ledger_simps ball_update_where)
qed

lemma ended_status_cases: "ended_status d \<in> {RejectedClaim, SupersededClaim}"
  by (simp add: ended_status_def)

lemma ended_claims_in: "c \<in> set (lg_claims s) \<Longrightarrow> \<exists>d\<in>set (lg_claims (end_proposal now r s)). tc_id d = tc_id c \<and>
    claim_coordinate d = claim_coordinate c \<and> tc_predicate d = tc_predicate c \<and>
    tc_status d = (if tc_id c = rc_predecessor_claim_id r then ended_status (rc_disposition r) else tc_status c)"
  by (auto simp: changed_tables end_claim_simps bex_update_where)

lemma recoveries_ok_end:
  assumes ok: "claims_ok s" "recoveries_ok s" and r: "endable r p s"
    and later: "set (lg_claims t) = set (lg_claims (end_proposal now r s)) \<union> C" "lg_recoveries t = lg_recoveries s @ [r]"
      "\<forall>c\<in>C. tc_status c = Proposed"
    and new: "recovery_ok (set (lg_claims t)) r"
  shows "recoveries_ok t"
proof -
  have only: "c = p" if "c \<in> set (lg_claims s)" "tc_id c = rc_predecessor_claim_id r" for c
    using that r claim_by_id[OF ok(1), of c p] by (simp add: endable_def)
  have old: "rc_predecessor_claim_id r \<notin> rc_predecessor_claim_id ` set (lg_recoveries s)"
  proof
    assume "rc_predecessor_claim_id r \<in> rc_predecessor_claim_id ` set (lg_recoveries s)"
    then obtain q where "q \<in> set (lg_recoveries s)" "rc_predecessor_claim_id q = rc_predecessor_claim_id r" by auto
    moreover from this have "recovery_ok (set (lg_claims s)) q" using ok(2) by (simp add: recoveries_ok_def)
    ultimately obtain c where "c \<in> set (lg_claims s)" "tc_id c = rc_predecessor_claim_id r"
        "tc_status c = ended_status (rc_disposition q)"
      unfolding recovery_ok_def by (elim bexE conjE) simp
    then have "tc_status p = ended_status (rc_disposition q)" using only by blast
    then show False using r ended_status_cases[of "rc_disposition q"] by (auto simp: endable_def open_objective_def)
  qed
  have "recovery_ok (set (lg_claims t)) q" if "q \<in> set (lg_recoveries s)" for q
  proof (rule recovery_ok_mono[of "set (lg_claims s)"])
    show "recovery_ok (set (lg_claims s)) q" using that ok(2) by (simp add: recoveries_ok_def)
    fix c assume c: "c \<in> set (lg_claims s)"
    have kept: "tc_status c \<in> {RejectedClaim, SupersededClaim} \<Longrightarrow> tc_id c \<noteq> rc_predecessor_claim_id r"
      using only[OF c] r by (auto simp: endable_def open_objective_def)
    obtain d where d: "d \<in> set (lg_claims (end_proposal now r s))" "tc_id d = tc_id c"
        "claim_coordinate d = claim_coordinate c" "tc_predicate d = tc_predicate c"
        "tc_status d = (if tc_id c = rc_predecessor_claim_id r then ended_status (rc_disposition r) else tc_status c)"
      using ended_claims_in[OF c] by blast
    show "\<exists>d\<in>set (lg_claims t). tc_id d = tc_id c \<and> claim_coordinate d = claim_coordinate c \<and>
        tc_predicate d = tc_predicate c \<and> (tc_status c \<in> {RejectedClaim, SupersededClaim} \<longrightarrow> tc_status d = tc_status c)"
      using d kept later(1) by (intro bexI[of _ d]) simp_all
  qed
  then have rows: "\<forall>q\<in>set (lg_recoveries t). recovery_ok (set (lg_claims t)) q" using later(2) new by simp
  have "tc_id c \<in> rc_predecessor_claim_id ` set (lg_recoveries t)"
    if c: "c \<in> set (lg_claims t)" "tc_status c \<in> {RejectedClaim, SupersededClaim}" for c
  proof -
    have "c \<in> set (lg_claims (end_proposal now r s))" using c later(1,3) by auto
    then consider "tc_id c = rc_predecessor_claim_id r" | "c \<in> set (lg_claims s)"
      by (auto simp: changed_tables set_update_where end_claim_simps split: if_splits)
    then show ?thesis
    proof cases
      case 2
      then have "tc_id c \<in> rc_predecessor_claim_id ` set (lg_recoveries s)"
        using ok(2) c(2) unfolding recoveries_ok_def by blast
      then show ?thesis unfolding later(2) by simp
    qed (simp add: later(2))
  qed
  moreover have "distinct (map rc_predecessor_claim_id (lg_recoveries t))"
    using ok(2) old later(2) by (simp add: recoveries_ok_def)
  ultimately show ?thesis using rows unfolding recoveries_ok_def by blast
qed

lemma recoveries_ok_end_proposal:
  assumes "claims_ok s" "recoveries_ok s" "endable r p s" "recovery_ok (set (lg_claims (end_proposal now r s))) r"
  shows "recoveries_ok (end_proposal now r s)"
  by (rule recoveries_ok_end[OF assms(1-3), where C = "{}" and now = now])
     (use assms(4) in \<open>simp_all add: changed_tables\<close>)

lemma recoveries_ok_end_add:
  assumes "claims_ok s" "recoveries_ok s" "endable r p s" "tc_status c = Proposed"
    "recovery_ok (set (lg_claims (add_claim sp c as (end_proposal now r s)))) r"
  shows "recoveries_ok (add_claim sp c as (end_proposal now r s))"
  by (rule recoveries_ok_end[OF assms(1-3), where C = "{c}" and now = now])
     (use assms(4,5) in \<open>simp_all add: changed_tables\<close>)

section \<open>Every step\<close>

lemma ended_claim_in: "endable r p s \<Longrightarrow> end_claim (ended_status (rc_disposition r)) now p \<in>
    set (lg_claims (end_proposal now r s))"
  by (auto simp: endable_def ledger_simps set_update_where image_iff intro!: bexI[of _ p])

lemma ended_in: "ends e st g s \<Longrightarrow> end_fact now st (le_causation_command_id e) g \<in> set (lg_facts (end_current now e s))"
  by (auto simp: ends_def ledger_simps set_update_where image_iff intro!: bexI[of _ g])

lemma ledger_ok_propose:
  "ledger_ok s \<Longrightarrow> proposable sp c as s \<Longrightarrow> ledger_ok (add_claim sp c as s)"
  by (simp add: ledger_ok_def claims_ok_add_claim evidence_ok_add_claim ledger_simps support_ok_add_claim
      recoveries_ok_add_claim proposable_def)

lemma ledger_ok_accept: "ledger_ok s \<Longrightarrow> acceptable f ids s \<Longrightarrow> ledger_ok (add_fact now f ids s)"
  by (simp add: ledger_ok_def claims_ok_add_fact facts_ok_add_fact ledger_simps support_ok_add_fact
      lineage_ok_add_fact recoveries_ok_add_fact)

lemma ledger_ok_withdraw:
  assumes ok: "ledger_ok s" and r: "endable r p s" "rc_disposition r \<noteq> Reworked"
  shows "ledger_ok (end_proposal now r s)"
proof -
  have "recovery_ok (set (lg_claims (end_proposal now r s))) r"
    unfolding recovery_ok_def using ended_claim_in[OF r(1), of now] r
    by (intro bexI[of _ "end_claim (ended_status (rc_disposition r)) now p"])
       (auto simp: end_claim_simps endable_def open_objective_def)
  then have "recoveries_ok (end_proposal now r s)"
    using ok r(1) recoveries_ok_end_proposal unfolding ledger_ok_def by blast
  moreover have "support_ok (end_proposal now r s)"
    using ok support_ok_end_proposal[OF _ _ r(1)] unfolding ledger_ok_def by blast
  ultimately show ?thesis using ok
    by (simp only: ledger_ok_def claims_ok_end_proposal facts_ok_claims evidence_ok_changes lineage_ok_claims)
qed

lemma ledger_ok_rework:
  assumes ok: "ledger_ok s" and r: "endable r p s" "rc_successor_claim_id r = Some (tc_id c)" "rc_disposition r = Reworked"
    and c: "proposable sp c as (end_proposal now r s)" "claim_coordinate c = claim_coordinate p"
  shows "ledger_ok (add_claim sp c as (end_proposal now r s))" (is "ledger_ok ?t")
proof -
  have fresh: "tc_id c \<noteq> tc_id p"
    using c(1) ended_claim_in[OF r(1), of now] by (force simp: proposable_def ledger_simps image_iff)
  let ?u = "end_proposal now r s"
  let ?p = "end_claim (ended_status (rc_disposition r)) now p"
  have proposed: "tc_status c = Proposed" using c(1) by (simp add: proposable_def)
  have "?p \<in> set (lg_claims ?t)" "c \<in> set (lg_claims ?t)" using ended_claim_in[OF r(1), of now]
    by (simp_all add: changed_tables(1))
  moreover have "tc_id ?p = rc_predecessor_claim_id r" "tc_predicate ?p = PrimaryObjective"
    "tc_status ?p = ended_status (rc_disposition r)" "tc_id c \<noteq> tc_id ?p" "claim_coordinate c = claim_coordinate ?p"
    using r c(2) fresh by (simp_all add: end_claim_simps endable_def open_objective_def)
  ultimately have "recovery_ok (set (lg_claims ?t)) r" unfolding recovery_ok_def using r(2) by blast
  then have recoveries: "recoveries_ok ?t"
    using ok recoveries_ok_end_add[OF _ _ r(1) proposed] unfolding ledger_ok_def by blast
  have u: "claims_ok ?u" "support_ok ?u" "evidence_ok ?u" "facts_ok ?u" "lineage_ok ?u"
    using ok support_ok_end_proposal[OF _ _ r(1)]
    by (simp_all add: ledger_ok_def claims_ok_end_proposal facts_ok_claims evidence_ok_changes lineage_ok_claims)
  show ?thesis using recoveries u claims_ok_add_claim[OF u(1) c(1)] support_ok_add_claim[OF u(2) proposed, of sp as]
      evidence_ok_add_claim[OF u(3) c(1)]
    by (simp only: ledger_ok_def facts_ok_claims lineage_ok_claims)
qed

lemma ledger_ok_revoke:
  assumes ok: "ledger_ok s" and e: "ends e RevokedFact g s" "le_successor_fact_id e = None"
  shows "ledger_ok (add_event e (end_current now e s))" (is "ledger_ok ?t")
proof -
  have "event_ok (set (lg_facts ?t)) e"
    unfolding event_ok_def using ended_in[OF e(1), of now] e
    by (intro bexI[of _ "end_fact now RevokedFact (le_causation_command_id e) g"])
       (simp_all add: changed_tables end_fact_simps ends_def)
  then have "lineage_ok ?t"
    using ok lineage_ok_end[OF _ _ e(1), of ?t now "{}"] by (simp add: ledger_ok_def changed_tables)
  moreover have "facts_ok ?t" using ok facts_ok_end_current[OF _ e(1)] by (simp add: ledger_ok_def facts_ok_claims)
  ultimately show ?thesis using ok
    by (simp only: ledger_ok_def claims_ok_facts evidence_ok_changes support_ok_end_current support_ok_add_event
        recoveries_ok_facts)
qed

lemma acceptable_end_current: "acceptable f ids (end_current now e s) \<Longrightarrow> facts_ok s \<Longrightarrow> ends e st g s \<Longrightarrow>
    tf_id f \<noteq> tf_id g"
  using ended_in[of e st g s now] by (force simp: acceptable_def ends_def ledger_simps image_iff)

lemma ledger_ok_supersede:
  assumes ok: "ledger_ok s" and e: "ends e SupersededFact g s" "le_successor_fact_id e = Some (tf_id f)"
    and f: "fact_coordinate f = fact_coordinate g" "tf_access_class g \<le> tf_access_class f"
      "acceptable f ids (end_current now e s)"
  shows "ledger_ok (add_event e (add_fact now f ids (end_current now e s)))" (is "ledger_ok ?t")
proof -
  let ?u = "end_current now e s"
  have "tf_id f \<noteq> tf_id g" using acceptable_end_current[OF f(3) _ e(1)] ok by (simp add: ledger_ok_def)
  then have "event_ok (set (lg_facts ?t)) e"
    unfolding event_ok_def using ended_in[OF e(1), of now] e f(1,2)
    by (intro bexI[of _ "end_fact now SupersededFact (le_causation_command_id e) g"])
       (simp_all add: changed_tables end_fact_simps ends_def)
  then have l: "lineage_ok ?t"
    using ok f(3) lineage_ok_end[OF _ _ e(1), of ?t now "{f}"]
    by (simp add: ledger_ok_def changed_tables acceptable_def)
  have u: "claims_ok ?u" "facts_ok ?u" "evidence_ok ?u" "support_ok ?u" "recoveries_ok ?u"
    using ok e(1) by (auto simp: ledger_ok_def ledger_simps intro: facts_ok_end_current)
  then show ?thesis using l claims_ok_add_fact[OF u(1) f(3), of now] facts_ok_add_fact[OF u(2) f(3), of now]
      support_ok_add_fact[OF u(1,4) f(3), of now] recoveries_ok_add_fact[OF u(1,5) f(3), of now]
    unfolding ledger_ok_def
    by (simp only: claims_ok_facts facts_ok_claims support_ok_add_event recoveries_ok_facts evidence_ok_changes)
qed

lemma truth_step_ok:
  assumes ok: "ledger_ok s" and step: "truth_step s t"
  shows "ledger_ok t"
  using step
proof (cases rule: truth_step.cases)
  case (propose sp c as)
  then show ?thesis using ok ledger_ok_propose books_ledger_ok by blast
next
  case (withdraw r p now)
  then show ?thesis using ok ledger_ok_withdraw books_ledger_ok by blast
next
  case (rework r p c sp as now)
  then show ?thesis using ok ledger_ok_rework books_ledger_ok by blast
next
  case (accept f ids now)
  then show ?thesis using ok ledger_ok_accept books_ledger_ok by blast
next
  case (supersede e g f ids now)
  then show ?thesis using ok ledger_ok_supersede books_ledger_ok by blast
next
  case (revoke e g now)
  then show ?thesis using ok ledger_ok_revoke books_ledger_ok by blast
qed

section \<open>How rows change\<close>

lemma extends_refl: "extends change xs xs"
  unfolding extends_def by (intro exI[of _ xs] exI[of _ "[]"]) (simp add: list.rel_refl)

lemma extends_append: "extends change xs (xs @ ys)"
  unfolding extends_def by (intro exI[of _ xs] exI[of _ ys]) (simp add: list.rel_refl)

lemma extends_update:
  assumes "\<And>x. x \<in> set xs \<Longrightarrow> P x \<Longrightarrow> change x (f x)"
  shows "extends change xs (update_where P f xs)"
  unfolding extends_def
  by (intro exI[of _ "update_where P f xs"] exI[of _ "[]"])
     (use assms in \<open>auto simp: update_where_def list_all2_conv_all_nth\<close>)

lemma extends_trans:
  assumes "extends change xs ys" "extends change ys zs" and last: "\<And>a b c. change a b \<Longrightarrow> \<not> change b c"
  shows "extends change xs zs"
proof -
  let ?R = "\<lambda>o' n. n = o' \<or> change o' n"
  obtain k a where ys: "ys = k @ a" "list_all2 ?R xs k" using assms(1) unfolding extends_def by blast
  obtain k' a' where zs: "zs = k' @ a'" "list_all2 ?R ys k'" using assms(2) unfolding extends_def by blast
  obtain l m where k': "k' = l @ m" "list_all2 ?R k l" using zs(2) ys(1) by (auto simp: list_all2_append1)
  have "list_all2 ?R xs l"
    by (rule list_all2_trans[OF _ ys(2) k'(2)]) (use last in blast)
  then show ?thesis using zs(1) k'(1) unfolding extends_def by (intro exI[of _ l] exI[of _ "m @ a'"]) simp
qed

lemma claim_ends_once: "claim_transition_ok a b \<Longrightarrow> \<not> claim_transition_ok b c"
  by (simp add: claim_transition_ok_def)

lemma fact_ends_once: "fact_transition_ok a b \<Longrightarrow> \<not> fact_transition_ok b c"
  by (simp add: fact_transition_ok_def)

lemma ledger_grows_refl: "ledger_grows s s"
  by (simp add: ledger_grows_def extends_refl)

lemma ledger_grows_trans: "ledger_grows s t \<Longrightarrow> ledger_grows t u \<Longrightarrow> ledger_grows s u"
  unfolding ledger_grows_def using extends_trans claim_ends_once fact_ends_once
  by (elim conjE) (intro conjI; (rule extends_trans; assumption?; blast))

lemma books_grow: "books_only s t \<Longrightarrow> ledger_grows s t"
  by (simp add: ledger_grows_def extends_refl books_tables)

lemma grows_add_claim: "ledger_grows s (add_claim sp c as s)"
  by (simp add: ledger_grows_def changed_tables extends_refl extends_append)

lemma grows_add_event: "ledger_grows s (add_event e s)"
  by (simp add: ledger_grows_def changed_tables extends_refl extends_append)

lemma claim_transition_end: "claim_ok c \<Longrightarrow> open_objective c \<Longrightarrow> claim_transition_ok c (end_claim (ended_status d) now c)"
  using ended_status_cases[of d]
  by (auto simp: claim_transition_ok_def end_claim_def claim_ok_def open_objective_def)

lemma claim_transition_accept: "claim_ok c \<Longrightarrow> tc_status c = Proposed \<Longrightarrow> claim_transition_ok c (accept_claim now c)"
  by (simp add: claim_transition_ok_def accept_claim_def claim_ok_def)

lemma grows_end_proposal:
  assumes ok: "claims_ok s" and r: "endable r p s"
  shows "ledger_grows s (end_proposal now r s)"
proof -
  have "claim_transition_ok c (end_claim (ended_status (rc_disposition r)) now c)"
    if c: "c \<in> set (lg_claims s)" "tc_id c = rc_predecessor_claim_id r" for c
  proof -
    have "c = p" using c r claim_by_id[OF ok, of c p] by (simp add: endable_def)
    then show ?thesis using ok c(1) r by (intro claim_transition_end) (auto simp: claims_ok_def endable_def)
  qed
  then have "extends claim_transition_ok (lg_claims s) (lg_claims (end_proposal now r s))"
    unfolding changed_tables by (rule extends_update)
  then show ?thesis by (simp add: ledger_grows_def changed_tables(9-14) extends_refl extends_append)
qed

lemma grows_add_fact:
  assumes ok: "claims_ok s" and acc: "acceptable f ids s"
  shows "ledger_grows s (add_fact now f ids s)"
proof -
  have "claim_transition_ok c (accept_claim now c)" if c: "c \<in> set (lg_claims s)" "tc_id c \<in> set ids" for c
  proof -
    obtain d where "d \<in> set (lg_claims s)" "tc_id d = tc_id c" "tc_status d = Proposed"
      using acc c(2) unfolding acceptable_def by blast
    moreover have "d = c" using calculation c(1) claim_by_id[OF ok] by blast
    ultimately show ?thesis using ok c(1) by (intro claim_transition_accept) (auto simp: claims_ok_def)
  qed
  then have "extends claim_transition_ok (lg_claims s) (lg_claims (add_fact now f ids s))"
    unfolding changed_tables by (rule extends_update)
  then show ?thesis by (simp add: ledger_grows_def changed_tables(15,16,18-21) extends_refl extends_append)
qed

lemma fact_transition_end: "fact_ok f \<Longrightarrow> tf_status f = CurrentFact \<Longrightarrow> st \<in> {SupersededFact, RevokedFact} \<Longrightarrow>
    uuid_column i \<noteq> tf_last_causation_command_id f \<Longrightarrow> fact_transition_ok f (end_fact now st i f)"
  by (auto simp: fact_transition_ok_def end_fact_def fact_ok_def)

lemma grows_end_current:
  assumes ok: "facts_ok s" and e: "ends e st g s" "st \<in> {SupersededFact, RevokedFact}"
  shows "ledger_grows s (end_current now e s)"
proof -
  have "fact_transition_ok f (end_fact now (le_to_status e) (le_causation_command_id e) f)"
    if f: "f \<in> set (lg_facts s)" "tf_id f = le_predecessor_fact_id e" for f
  proof -
    have "f = g" using f e fact_by_id[OF ok, of f g] by (simp add: ends_def)
    then show ?thesis using ok f(1) e by (intro fact_transition_end) (auto simp: facts_ok_def ends_def)
  qed
  then have "extends fact_transition_ok (lg_facts s) (lg_facts (end_current now e s))"
    unfolding changed_tables by (rule extends_update)
  then show ?thesis by (simp add: ledger_grows_def changed_tables(23-28) extends_refl extends_append)
qed

lemma truth_step_grows:
  assumes ok: "ledger_ok s" and step: "truth_step s t"
  shows "ledger_grows s t"
proof -
  have parts: "claims_ok s" "facts_ok s" using ok by (simp_all add: ledger_ok_def)
  show ?thesis using step
  proof (cases rule: truth_step.cases)
    case (propose sp c as)
    then show ?thesis using grows_add_claim books_grow ledger_grows_trans by blast
  next
    case (withdraw r p now)
    then show ?thesis using grows_end_proposal[OF parts(1)] books_grow ledger_grows_trans by blast
  next
    case (rework r p c sp as now)
    show ?thesis
      by (rule ledger_grows_trans[OF grows_end_proposal[OF parts(1) rework(1)]
          ledger_grows_trans[OF grows_add_claim books_grow[OF rework(6)]]])
  next
    case (accept f ids now)
    then show ?thesis using grows_add_fact[OF parts(1)] books_grow ledger_grows_trans by blast
  next
    case (supersede e g f ids now)
    have "claims_ok (end_current now e s)" using parts by (simp add: claims_ok_facts)
    then have new: "ledger_grows (end_current now e s) (add_fact now f ids (end_current now e s))"
      using supersede(5) by (rule grows_add_fact)
    have old: "ledger_grows s (end_current now e s)" by (rule grows_end_current[OF parts(2) supersede(1)]) simp
    show ?thesis
      by (rule ledger_grows_trans[OF old ledger_grows_trans[OF new
          ledger_grows_trans[OF grows_add_event books_grow[OF supersede(6)]]]])
  next
    case (revoke e g now)
    have old: "ledger_grows s (end_current now e s)" by (rule grows_end_current[OF parts(2) revoke(1)]) simp
    show ?thesis
      by (rule ledger_grows_trans[OF old ledger_grows_trans[OF grows_add_event books_grow[OF revoke(4)]]])
  qed
qed

interpretation truths: evolving_system truth_step ledger_ok ledger_grows
proof unfold_locales
  show "ledger_ok s \<Longrightarrow> truth_step s t \<Longrightarrow> ledger_ok t" for s t by (rule truth_step_ok)
  show "ledger_grows s s" for s by (rule ledger_grows_refl)
  show "ledger_grows s t \<Longrightarrow> ledger_grows t u \<Longrightarrow> ledger_grows s u" for s t u by (rule ledger_grows_trans)
  show "ledger_ok s \<Longrightarrow> truth_step s t \<Longrightarrow> ledger_grows s t" for s t by (rule truth_step_grows)
qed

definition empty_ledger :: ledger where
  "empty_ledger = \<lparr>lg_commands = [], lg_audit = [], lg_outbox = [], lg_spans = [], lg_claims = [], lg_attestations = [],
     lg_recoveries = [], lg_facts = [], lg_fact_claims = [], lg_events = []\<rparr>"

lemma empty_ledger_ok: "ledger_ok empty_ledger"
  by (simp add: ledger_ok_def claims_ok_def facts_ok_def evidence_ok_def support_ok_def lineage_ok_def
      recoveries_ok_def empty_ledger_def)

end
