(* ===== verification/Truth_Commands.thy ===== *)
theory Truth_Commands
  imports Truth_Facts Uuid_V7
begin

text \<open>
  The parts of \<open>packages/truth-ledger/src/domain-command-bus.ts\<close> that every durable command shares: the
  actor, the trace, authorisation, the reservation of the idempotency key and its completion, and the
  audit event and notification written with each change.

  The environment of a call holds what the bus is given or finds: the database server (its clocks,
  how it reads an instant, the tables that are only read, before and after the authority is locked),
  the authorisation service passed to the constructor, SHA-256, NFC, and the random bytes and clock
  of each identifier it draws. Identifiers of one call are numbered by their purpose.
\<close>

section \<open>The environment\<close>

record bus_env =
  be_uuid :: "jstr \<Rightarrow> bool"
  be_nfc :: "jstr \<Rightarrow> jstr"
  be_sha256 :: "nat list \<Rightarrow> jstr"
  be_instant :: "jstr \<Rightarrow> int"
  be_now :: int
  be_clock :: int
  be_random :: "nat \<Rightarrow> 8 word list"
  be_millisecond :: "nat \<Rightarrow> nat"
  be_reservation_world :: world
  be_world :: world
  be_locked_world :: world
  be_can :: "security_context \<Rightarrow> jstr \<Rightarrow> jstr \<Rightarrow> jstr \<Rightarrow> bool \<Rightarrow> bool \<Rightarrow> ledger \<Rightarrow> jsval + bool"
  be_role :: jstr
  be_reservation_tx :: tx_env
  be_tx :: tx_env

definition fresh_id :: "bus_env \<Rightarrow> nat \<Rightarrow> jstr" where
  "fresh_id env k = generateUuidV7 (be_millisecond env k) (be_random env k)"

definition command_draw :: nat where "command_draw = 0"
definition resource_draw :: nat where "resource_draw = 1"
definition span_draw :: nat where "span_draw = 2"
definition attestation_draw :: nat where "attestation_draw = 3"
definition recovery_draw :: nat where "recovery_draw = 4"
definition lifecycle_draw :: nat where "lifecycle_draw = 5"
definition audit_draw :: nat where "audit_draw = 6"
definition event_draw :: nat where "event_draw = 7"

definition APP_ROLE :: jstr where
  "APP_ROLE = js ''throughline_app''"

definition COMMAND_SCHEMA_VERSION :: int where
  "COMMAND_SCHEMA_VERSION = 1"

section \<open>Actor, trace, authority\<close>

definition present :: "jstr option \<Rightarrow> bool" where
  "present v = (case v of None \<Rightarrow> False | Some s \<Rightarrow> s \<noteq> [])"

record human_actor =
  ha_userId :: jstr
  ha_membershipId :: jstr
  ha_displayPersonId :: jstr

definition requireHumanActor :: "security_context \<Rightarrow> truth_error + human_actor" where
  "requireHumanActor context =
     (if \<not> present (sx_actorUserId context) \<or> \<not> present (sx_actorMembershipId context) \<or>
         \<not> present (sx_actorDisplayPersonId context) \<or> present (sx_servicePrincipalId context) \<or>
         present (sx_agentPrincipalId context)
      then Inl AuthorizationError
      else Inr \<lparr>ha_userId = the (sx_actorUserId context), ha_membershipId = the (sx_actorMembershipId context),
        ha_displayPersonId = the (sx_actorDisplayPersonId context)\<rparr>)"

definition zeros :: "nat \<Rightarrow> jstr" where
  "zeros n = replicate n 48"

definition hex_digest :: "(nat list \<Rightarrow> jstr) \<Rightarrow> jstr \<Rightarrow> jstr" where
  "hex_digest sha256 t = sha256 (utf8 t)"

definition traceparentFor :: "(nat list \<Rightarrow> jstr) \<Rightarrow> security_context \<Rightarrow> jstr" where
  "traceparentFor sha256 context =
     (let traceId = (if length (sx_traceId context) = 32 \<and> list_all is_hex (sx_traceId context) \<and>
                       sx_traceId context \<noteq> zeros 32
                     then lower_ascii (sx_traceId context)
                     else take 32 (hex_digest sha256 (sx_traceId context)));
          spanId = take 16 (hex_digest sha256
            (sx_requestId context @ js '':'' @ sx_traceId context @ js '':truth-write''))
      in js ''00-'' @ traceId @ js ''-'' @
         (if spanId = zeros 16 then zeros 15 @ js ''1'' else spanId) @ js ''-01'')"

definition assertApplicationRole :: "bus_env \<Rightarrow> truth_error + unit" where
  "assertApplicationRole env = (if be_role env \<noteq> APP_ROLE then Inl AuthorizationError else Inr ())"

definition authorize :: "bus_env \<Rightarrow> security_context \<Rightarrow> jstr \<Rightarrow> jstr \<Rightarrow> jstr \<Rightarrow> bool \<Rightarrow> bool \<Rightarrow> unit ledger_op" where
  "authorize env context action resourceType resourceId lockAuthority factLifecycleReplay s =
     (case be_can env context action resourceType resourceId lockAuthority factLifecycleReplay s of
        Inl e \<Rightarrow> Inl (ThrownError e)
      | Inr allowed \<Rightarrow> if \<not> allowed then Inl AuthorizationError else Inr ((), s))"

lemma authorize_Inr [op_simps]:
  "authorize env c a t i l r s = Inr (u, s') \<longleftrightarrow> be_can env c a t i l r s = Inr True \<and> s' = s"
  by (auto simp: authorize_def split: sum.splits)

section \<open>Reserving and completing\<close>

definition commandKind :: "b2_payload \<Rightarrow> jstr" where
  "commandKind p = kind_string (payload_kind p) @ js ''.v1''"

definition subject_entries :: "subject_ref \<Rightarrow> (string \<times> jsval) list" where
  "subject_entries s = [(''subjectType'', JStr (subject_string (sr_type s))), (''subjectId'', JStr (sr_id s)),
     (''expectedSubjectVersion'', num_value (sr_expectedVersion s))]"

fun generation_entries :: "generation \<Rightarrow> (string \<times> jsval) list" where
  "generation_entries EmptyGeneration = [(''expectedLatestClaimId'', JNull),
     (''expectedLatestClaimStatus'', JNull), (''expectedLatestClaimVersion'', JNull)]"
| "generation_entries (ClaimGeneration i v status) = [(''expectedLatestClaimId'', JStr i),
     (''expectedLatestClaimStatus'', JStr status), (''expectedLatestClaimVersion'', num_value v)]"

definition evidence_entries ::
  "(nat list \<Rightarrow> jstr) \<Rightarrow> truth_predicate \<Rightarrow> jstr \<Rightarrow> evidence \<Rightarrow> bool \<Rightarrow> (string \<times> jsval) list" where
  "evidence_entries sha256 predicate canonicalValue e confirmed =
     [(''predicate'', JStr (predicate_string predicate)),
      (''valueHash'', JStr (hex_digest sha256 canonicalValue)),
      (''sourceArtifactId'', JStr (ev_sourceArtifactId e)), (''sourceChunkId'', JStr (ev_sourceChunkId e)),
      (''expectedSourceVersion'', num_value (ev_expectedSourceVersion e)),
      (''expectedChunkVersion'', num_value 1), (''normalizationVersion'', JStr SOURCE_NORMALIZATION_VERSION),
      (''chunkingVersion'', JStr SOURCE_CHUNKING_VERSION), (''startOffset'', JNum (ev_startOffset e)),
      (''endOffset'', num_value (ev_endOffset e)), (''sourceContentHash'', JStr (ev_sourceContentHash e)),
      (''sourceNormalizedContentHash'', JStr (ev_sourceNormalizedContentHash e)),
      (''chunkContentHash'', JStr (ev_chunkContentHash e)), (''excerptHash'', JStr (ev_excerptHash e)),
      (''supportConfirmed'', JBool confirmed)]"

fun safeRequestForCommand :: "(nat list \<Rightarrow> jstr) \<Rightarrow> b2_payload \<Rightarrow> jsval option" where
  "safeRequestForCommand sha256 (RevokeFact p) = Some (JObj (object_of [(''factId'', JStr (rf_factId p)),
     (''expectedFactVersion'', num_value (rf_expectedFactVersion p)), (''reason'', reason_value (rf_reason p))]))"
| "safeRequestForCommand sha256 (SupersedeFact p) = Some (JObj (object_of ([(''factId'', JStr (sf_factId p)),
     (''expectedFactVersion'', num_value (sf_expectedFactVersion p)), (''subject'', subject_value (sf_subject p)),
     (''replacementClaims'', claim_refs_value (sf_replacementClaims p)), (''reason'', reason_value (sf_reason p))] @
     opt_entry ''confidenceLowering'' lowering_value (sf_lowering p))))"
| "safeRequestForCommand sha256 (WithdrawObjective p) = Some (JObj (object_of (subject_entries (wo_subject p) @
     [(''predecessorClaimId'', JStr (cl_claimId (wo_proposal p))),
      (''expectedPredecessorVersion'', num_value (cl_expectedVersion (wo_proposal p))),
      (''disposition'', JStr (wo_disposition p)), (''reasonCode'', JStr (wo_reasonCode p))])))"
| "safeRequestForCommand sha256 (CreateClaim p) = Some (JObj (object_of (subject_entries (cc_subject p) @
     (case cc_generation p of None \<Rightarrow> [] | Some g \<Rightarrow> generation_entries g) @
     evidence_entries sha256 (as_predicate (cc_assertion p)) (as_canonicalValue (cc_assertion p)) (cc_evidence p)
       (cc_supportConfirmation p \<noteq> None))))"
| "safeRequestForCommand sha256 (ReworkObjective p) = Some (JObj (object_of (subject_entries (ro_subject p) @
     [(''predecessorClaimId'', JStr (cl_claimId (ro_predecessor p))),
      (''expectedPredecessorVersion'', num_value (cl_expectedVersion (ro_predecessor p)))] @
     evidence_entries sha256 PrimaryObjective (as_canonicalValue (ro_assertion p)) (ro_evidence p) True)))"
| "safeRequestForCommand sha256 _ = None"

record call =
  ca_context :: security_context
  ca_actor :: human_actor
  ca_idempotencyKey :: jstr
  ca_payload :: b2_payload
  ca_requestHash :: jstr
  ca_reservationSpaceId :: jstr
  ca_traceparent :: jstr

definition reservation_of :: "bus_env \<Rightarrow> call \<Rightarrow> reservation_input" where
  "reservation_of env c = (let context = ca_context c in
     \<lparr>ri_id = fresh_id env command_draw, ri_tenantId = sx_tenantId context,
      ri_workspaceId = sx_workspaceId context, ri_reservationSpaceId = ca_reservationSpaceId c,
      ri_commandKind = commandKind (ca_payload c), ri_commandSchemaVersion = COMMAND_SCHEMA_VERSION,
      ri_idempotencyKey = ca_idempotencyKey c, ri_canonicalRequestHash = ca_requestHash c,
      ri_safeRequest = safeRequestForCommand (be_sha256 env) (ca_payload c),
      ri_actorUserId = the (sx_actorUserId context), ri_actorMembershipId = the (sx_actorMembershipId context),
      ri_delegatingUserId = sx_delegatedByUserId context,
      ri_delegatingMembershipId = sx_delegatedByMembershipId context, ri_agentPrincipalId = None,
      ri_policyVersionId = sx_policyVersion context, ri_requestId = sx_requestId context,
      ri_traceparent = ca_traceparent c, ri_tracestate = None\<rparr>)"

datatype reserved_command = FreshCommand jstr | ReplayedResult b2_result

definition stored_response :: "completed_command \<Rightarrow> jsval" where
  "stored_response c = (case cc_safeResponse c of None \<Rightarrow> JUndef | Some v \<Rightarrow> v)"

fun reservation_error :: "truth_error \<Rightarrow> truth_error" where
  "reservation_error (DomainError ProductDomainInvariantError) = IdempotencyConflictError"
| "reservation_error e = e"

definition reserveCommand :: "bus_env \<Rightarrow> call \<Rightarrow> reserved_command ledger_op" where
  "reserveCommand env c = op_catch reservation_error (
     op_bind (op_on lg_commands (\<lambda>rows. lg_commands_update (\<lambda>_. rows)) DomainError
       (reserve (be_clock env) (reservation_of env c))) (\<lambda>reservation.
     case reservation of
       Replay command \<Rightarrow>
         op_bind (op_lift (map_sum CommandError id
           (parseB2CommandResult (payload_kind (ca_payload c)) (stored_response command)))) (\<lambda>result.
         op_return (ReplayedResult result))
     | Reserved commandId \<Rightarrow>
         op_bind (op_require (CommandError B2CommandInvariantError)
           (\<not> commandId \<noteq> fresh_id env command_draw)) (\<lambda>_.
         op_return (FreshCommand (fresh_id env command_draw)))))"

definition completion_of :: "call \<Rightarrow> jstr \<Rightarrow> jstr \<Rightarrow> jstr \<Rightarrow> b2_result \<Rightarrow> completion_input" where
  "completion_of c commandId resourceType resourceId result =
     \<lparr>ki_commandId = commandId, ki_tenantId = sx_tenantId (ca_context c),
      ki_workspaceId = sx_workspaceId (ca_context c), ki_reservationSpaceId = ca_reservationSpaceId c,
      ki_commandKind = commandKind (ca_payload c), ki_idempotencyKey = ca_idempotencyKey c,
      ki_canonicalRequestHash = ca_requestHash c, ki_resultResourceType = Some resourceType,
      ki_resultResourceId = Some resourceId, ki_safeResponse = Some (result_value result)\<rparr>"

definition completeCommand ::
  "bus_env \<Rightarrow> call \<Rightarrow> jstr \<Rightarrow> jstr \<Rightarrow> jstr \<Rightarrow> b2_result \<Rightarrow> unit ledger_op" where
  "completeCommand env c commandId resourceType resourceId result =
     op_bind (op_on lg_commands (\<lambda>rows. lg_commands_update (\<lambda>_. rows)) DomainError
       (complete (be_clock env) (completion_of c commandId resourceType resourceId result))) (\<lambda>_.
     op_return ())"

section \<open>Audit and outbox\<close>

record change =
  ce_spaceId :: jstr
  ce_action :: audit_action
  ce_resourceType :: jstr
  ce_resourceId :: jstr
  ce_eventType :: event_type
  ce_aggregateType :: jstr
  ce_aggregateVersion :: int
  ce_detail :: "(string \<times> jsval) list"

definition audit_of :: "bus_env \<Rightarrow> call \<Rightarrow> jstr \<Rightarrow> change \<Rightarrow> audit_insert" where
  "audit_of env c commandId ch = (let context = ca_context c in
     \<lparr>ai_id = fresh_id env audit_draw, ai_tenantId = sx_tenantId context, ai_workspaceId = sx_workspaceId context,
      ai_spaceId = ce_spaceId ch, ai_causationCommandId = commandId,
      ai_actorUserId = the (sx_actorUserId context), ai_actorMembershipId = the (sx_actorMembershipId context),
      ai_delegatingUserId = sx_delegatedByUserId context,
      ai_delegatingMembershipId = sx_delegatedByMembershipId context, ai_agentPrincipalId = None,
      ai_policyVersionId = sx_policyVersion context, ai_requestId = sx_requestId context,
      ai_traceparent = ca_traceparent c, ai_tracestate = None, ai_action = ce_action ch,
      ai_resourceType = ce_resourceType ch, ai_resourceId = ce_resourceId ch, ai_auditSchemaVersion = 1,
      ai_safeDetail = JObj (object_of (ce_detail ch))\<rparr>)"

definition envelope_of :: "bus_env \<Rightarrow> call \<Rightarrow> jstr \<Rightarrow> change \<Rightarrow> jsval" where
  "envelope_of env c commandId ch = (let context = ca_context c in
     JObj (object_of [
      (''eventId'', JStr (fresh_id env event_draw)), (''eventType'', JStr (event_string (ce_eventType ch))),
      (''eventSchemaVersion'', num_value 1), (''payloadSchemaVersion'', num_value 1),
      (''tenantId'', JStr (sx_tenantId context)), (''workspaceId'', JStr (sx_workspaceId context)),
      (''spaceId'', JStr (ce_spaceId ch)), (''aggregateType'', JStr (ce_aggregateType ch)),
      (''aggregateId'', JStr (ce_resourceId ch)), (''aggregateVersion'', num_value (ce_aggregateVersion ch)),
      (''causationCommandId'', JStr commandId), (''payload'', JObj (object_of (ce_detail ch))),
      (''requestId'', JStr (sx_requestId context)), (''traceparent'', JStr (ca_traceparent c))]))"

definition insert_outbox :: "int \<Rightarrow> outbox_insert \<Rightarrow> unit ledger_op" where
  "insert_outbox createdAt input s =
     (case insertOrReplay createdAt input (lg_outbox s) of
        (rows, Inl e) \<Rightarrow> Inl (OutboxError e)
      | (rows, Inr _) \<Rightarrow> Inr ((), lg_outbox_update (\<lambda>_. rows) s))"

definition writeAuditAndOutbox :: "bus_env \<Rightarrow> call \<Rightarrow> jstr \<Rightarrow> change \<Rightarrow> unit ledger_op" where
  "writeAuditAndOutbox env c commandId ch =
     op_bind (op_on lg_audit (\<lambda>rows. lg_audit_update (\<lambda>_. rows)) AuditError
       (audit_insert_event (audit_of env c commandId ch))) (\<lambda>_.
     op_bind (op_lift (relayPrincipalForSpace (be_world env) (sx_tenantId (ca_context c))
       (sx_workspaceId (ca_context c)) (ce_spaceId ch))) (\<lambda>relayServicePrincipalId.
     insert_outbox (be_clock env) \<lparr>oi_envelope = envelope_of env c commandId ch,
       oi_relayServicePrincipalId = relayServicePrincipalId,
       oi_policyVersionId = sx_policyVersion (ca_context c)\<rparr>))"

section \<open>The commands\<close>

text \<open>
  \<open>TruthLedgerDomainCommandBus\<close> of \<open>packages/truth-ledger/src/domain-command-bus.ts\<close>: the six durable
  commands of the truth ledger, from the received object to the returned result. The space of a
  command is found in a transaction of its own, which may see an older ledger; the command then runs
  in one transaction, which the model does not interleave with others (the code takes row locks and
  advisory locks for that).
\<close>

section \<open>Shared steps\<close>

definition verify_span :: "bus_env \<Rightarrow> world \<Rightarrow> call \<Rightarrow> subject_ref \<Rightarrow> evidence \<Rightarrow> verified_span ledger_op" where
  "verify_span env wd c subject e =
     op_lift (map_sum SpanError id
       (res_bind (new_admission 0 0
          (\<lambda>q. map_sum (\<lambda>_. ()) id (getAuthorizedClaimEvidenceSnapshot wd q))
          (sx_tenantId (ca_context c)) (sx_workspaceId (ca_context c)))
        (\<lambda>ad. admit (be_nfc env) (be_sha256 env) ad
          (JObj (object_of [(''subject'', subject_value subject), (''evidence'', evidence_value e)])))))"

definition locked_subject :: "bus_env \<Rightarrow> call \<Rightarrow> subject_ref \<Rightarrow> subject_scope ledger_op" where
  "locked_subject env c ref =
     op_bind (op_lift (map_sum (\<lambda>_. AuthorizationError) id (getSubjectScope (be_world env)
       (sx_tenantId (ca_context c)) (sx_workspaceId (ca_context c)) (sr_type ref) (sr_id ref)))) (\<lambda>subject.
     op_bind (op_require LedgerConflictError (\<not> (ss_spaceId subject \<noteq> ca_reservationSpaceId c \<or>
       ss_version subject \<noteq> sr_expectedVersion ref))) (\<lambda>_.
     op_return subject))"

definition claim_insert_of ::
  "bus_env \<Rightarrow> call \<Rightarrow> jstr \<Rightarrow> jstr option \<Rightarrow> assertion \<Rightarrow> confidence \<Rightarrow> jstr option \<Rightarrow> jstr option \<Rightarrow> jstr option \<Rightarrow>
     verified_span \<Rightarrow> claim_insert" where
  "claim_insert_of env c commandId attestation a confidence validFrom validTo observedAt verified =
     \<lparr>in_tenantId = sx_tenantId (ca_context c), in_workspaceId = sx_workspaceId (ca_context c),
      in_claimId = fresh_id env resource_draw, in_evidenceSpanId = fresh_id env span_draw,
      in_supportAttestationId = attestation, in_commandId = commandId,
      in_actorUserId = ha_userId (ca_actor c), in_actorMembershipId = ha_membershipId (ca_actor c),
      in_assertedById = ha_displayPersonId (ca_actor c), in_predicate = as_predicate a,
      in_canonicalValue = as_canonicalValue a, in_normalizedText = as_normalizedText a,
      in_confidence = confidence, in_validFrom = validFrom, in_validTo = validTo, in_observedAt = observedAt,
      in_evidence = verified\<rparr>"

section \<open>claim.create\<close>

definition proposal_slot :: "bus_env \<Rightarrow> call \<Rightarrow> create_claim \<Rightarrow> subject_scope \<Rightarrow> unit ledger_op" where
  "proposal_slot env c p subject =
     op_bind (op_lift (ok_or ContractError (resolvePredicateDefinition (be_nfc env)
       (JStr (predicate_string (as_predicate (cc_assertion p))))
       (JStr (subject_string (sr_type (cc_subject p))))))) (\<lambda>d.
     if pd_proposalSlotPolicy d = SingleOpen
     then (case cc_generation p of
         None \<Rightarrow> op_fail (CommandError B2CommandInvariantError)
       | Some g \<Rightarrow> lockPrimaryObjectiveProposalSlot (sx_tenantId (ca_context c)) (sx_workspaceId (ca_context c))
           (ss_spaceId subject) (ss_subjectId subject) g)
     else op_return ())"

definition create_attestation :: "bus_env \<Rightarrow> create_claim \<Rightarrow> jstr option" where
  "create_attestation env p = (case cc_supportConfirmation p of None \<Rightarrow> None
     | Some _ \<Rightarrow> Some (fresh_id env attestation_draw))"

definition create_change :: "bus_env \<Rightarrow> create_claim \<Rightarrow> jstr \<Rightarrow> change" where
  "create_change env p spaceId =
     \<lparr>ce_spaceId = spaceId, ce_action = AuditClaimCreate, ce_resourceType = js ''claim'',
      ce_resourceId = fresh_id env resource_draw, ce_eventType = ClaimProposed,
      ce_aggregateType = js ''claim'', ce_aggregateVersion = 1,
      ce_detail = [(''claimId'', JStr (fresh_id env resource_draw)),
         (''evidenceSpanId'', JStr (fresh_id env span_draw))] @
         opt_entry ''supportAttestationId'' JStr (create_attestation env p)\<rparr>"

definition create_claim_work ::
  "bus_env \<Rightarrow> call \<Rightarrow> create_claim \<Rightarrow> subject_scope \<Rightarrow> verified_span \<Rightarrow> jstr \<Rightarrow> b2_result ledger_op" where
  "create_claim_work env c p subject verified commandId =
     op_bind (proposal_slot env c p subject) (\<lambda>_.
     op_bind (insertEvidenceAndClaim (be_sha256 env) (be_instant env) (be_clock env)
       (claim_insert_of env c commandId (create_attestation env p) (cc_assertion p) (cc_confidence p)
          (cc_validFrom p) (cc_validTo p) (cc_observedAt p) verified)) (\<lambda>_.
     op_bind (writeAuditAndOutbox env c commandId (create_change env p (ss_spaceId subject))) (\<lambda>_.
     let result = ClaimCreated (fresh_id env resource_draw) (Some (fresh_id env span_draw)) (create_attestation env p) in
     op_bind (completeCommand env c commandId (js ''claim'') (fresh_id env resource_draw) result) (\<lambda>_.
     op_return result))))"

definition execute_create_claim :: "bus_env \<Rightarrow> call \<Rightarrow> create_claim \<Rightarrow> b2_result ledger_op" where
  "execute_create_claim env c p =
     op_bind (locked_subject env c (cc_subject p)) (\<lambda>subject.
     op_bind (authorize env (ca_context c) (js ''claim.create'') (subject_string (sr_type (cc_subject p)))
       (sr_id (cc_subject p)) True False) (\<lambda>_.
     op_bind (authorize env (ca_context c) (js ''source.read'') (js ''source'')
       (ev_sourceArtifactId (cc_evidence p)) True False) (\<lambda>_.
     op_bind (verify_span env (be_world env) c (cc_subject p) (cc_evidence p)) (\<lambda>verified.
     op_bind (op_require AuthorizationError (\<not> vs_spaceId verified \<noteq> ss_spaceId subject)) (\<lambda>_.
     op_bind (reserveCommand env c) (\<lambda>reservation.
     case reservation of
       ReplayedResult result \<Rightarrow> op_return result
     | FreshCommand commandId \<Rightarrow> create_claim_work env c p subject verified commandId))))))"

section \<open>Ending or reworking a proposal\<close>

definition proposal_end_of ::
  "bus_env \<Rightarrow> call \<Rightarrow> jstr \<Rightarrow> subject_scope \<Rightarrow> claim_ref \<Rightarrow> jstr option \<Rightarrow> disposition \<Rightarrow> jstr \<Rightarrow> jstr \<Rightarrow> proposal_end" where
  "proposal_end_of env c commandId subject predecessor successor d reasonCode now =
     \<lparr>pt_tenantId = sx_tenantId (ca_context c), pt_workspaceId = sx_workspaceId (ca_context c),
      pt_spaceId = ss_spaceId subject, pt_initiativeId = ss_subjectId subject,
      pt_predecessorClaimId = cl_claimId predecessor, pt_successorClaimId = successor,
      pt_recoveryId = fresh_id env recovery_draw, pt_disposition = d, pt_reasonCode = reasonCode,
      pt_actorUserId = ha_userId (ca_actor c), pt_actorMembershipId = ha_membershipId (ca_actor c),
      pt_commandId = commandId, pt_timestamp = now\<rparr>"

definition proposal_step ::
  "bus_env \<Rightarrow> call \<Rightarrow> subject_ref \<Rightarrow> claim_ref \<Rightarrow> jstr \<Rightarrow> (subject_scope \<Rightarrow> jstr \<Rightarrow> b2_result ledger_op) \<Rightarrow>
     b2_result ledger_op" where
  "proposal_step env c ref predecessor action work =
     op_bind (locked_subject env c ref) (\<lambda>subject.
     op_bind (authorize env (ca_context c) action (js ''claim'') (cl_claimId predecessor) False False) (\<lambda>_.
     op_bind (reserveCommand env c) (\<lambda>reservation.
     case reservation of
       ReplayedResult result \<Rightarrow>
         op_bind (authorize env (ca_context c) action (js ''claim'') (cl_claimId predecessor) True False) (\<lambda>_.
         op_return result)
     | FreshCommand commandId \<Rightarrow>
         op_bind (lockPrimaryObjectiveProposal (sx_tenantId (ca_context c)) (sx_workspaceId (ca_context c))
           (ss_spaceId subject) (ss_subjectId subject) (cl_claimId predecessor)
           (cl_expectedVersion predecessor)) (\<lambda>_.
         op_bind (authorize env (ca_context c) action (js ''claim'') (cl_claimId predecessor) True False) (\<lambda>_.
         work subject commandId)))))"

definition withdraw_change :: "bus_env \<Rightarrow> withdraw_objective \<Rightarrow> jstr \<Rightarrow> change" where
  "withdraw_change env p spaceId = (let rejected = wo_disposition p = js ''rejected'' in
     \<lparr>ce_spaceId = spaceId, ce_action = (if rejected then AuditObjectiveReject else AuditObjectiveWithdraw),
      ce_resourceType = js ''claim'', ce_resourceId = cl_claimId (wo_proposal p),
      ce_eventType = (if rejected then ProposalRejected else ProposalWithdrawn),
      ce_aggregateType = js ''claim'', ce_aggregateVersion = 2,
      ce_detail = [(''claimId'', JStr (cl_claimId (wo_proposal p))), (''claimVersion'', num_value 2),
        (''recoveryId'', JStr (fresh_id env recovery_draw)), (''disposition'', JStr (wo_disposition p)),
        (''reasonCode'', JStr (wo_reasonCode p))]\<rparr>)"

definition disposition_of :: "jstr \<Rightarrow> disposition" where
  "disposition_of d = (if d = js ''rejected'' then Rejected else Withdrawn)"

definition withdraw_work :: "bus_env \<Rightarrow> call \<Rightarrow> withdraw_objective \<Rightarrow> subject_scope \<Rightarrow> jstr \<Rightarrow> b2_result ledger_op" where
  "withdraw_work env c p subject commandId =
     op_bind (terminalizePrimaryObjectiveProposal (be_instant env) (proposal_end_of env c commandId subject
       (wo_proposal p) None (disposition_of (wo_disposition p)) (wo_reasonCode p)
       (transactionTimestamp (be_clock env)))) (\<lambda>_.
     op_bind (writeAuditAndOutbox env c commandId (withdraw_change env p (ss_spaceId subject))) (\<lambda>_.
     let result = ObjectiveWithdrawn (cl_claimId (wo_proposal p)) (fresh_id env recovery_draw)
       (wo_disposition p) (wo_reasonCode p) in
     op_bind (completeCommand env c commandId (js ''claim'') (cl_claimId (wo_proposal p)) result) (\<lambda>_.
     op_return result)))"

definition withdraw_action :: "withdraw_objective \<Rightarrow> jstr" where
  "withdraw_action p = (if wo_disposition p = js ''rejected''
     then js ''initiative.primary_objective.proposal.reject''
     else js ''initiative.primary_objective.proposal.withdraw'')"

definition execute_withdraw :: "bus_env \<Rightarrow> call \<Rightarrow> withdraw_objective \<Rightarrow> b2_result ledger_op" where
  "execute_withdraw env c p =
     proposal_step env c (wo_subject p) (wo_proposal p) (withdraw_action p) (withdraw_work env c p)"

definition rework_change :: "bus_env \<Rightarrow> rework_objective \<Rightarrow> jstr \<Rightarrow> change" where
  "rework_change env p spaceId =
     \<lparr>ce_spaceId = spaceId, ce_action = AuditObjectiveRework, ce_resourceType = js ''claim'',
      ce_resourceId = fresh_id env resource_draw, ce_eventType = ProposalReworked,
      ce_aggregateType = js ''claim'', ce_aggregateVersion = 1,
      ce_detail = [(''predecessorClaimId'', JStr (cl_claimId (ro_predecessor p))),
        (''predecessorVersion'', num_value 2), (''successorClaimId'', JStr (fresh_id env resource_draw)),
        (''successorVersion'', num_value 1), (''evidenceSpanId'', JStr (fresh_id env span_draw)),
        (''supportAttestationId'', JStr (fresh_id env attestation_draw)),
        (''recoveryId'', JStr (fresh_id env recovery_draw)), (''disposition'', str ''reworked''),
        (''reasonCode'', str ''reworked'')]\<rparr>"

definition rework_work :: "bus_env \<Rightarrow> call \<Rightarrow> rework_objective \<Rightarrow> subject_scope \<Rightarrow> jstr \<Rightarrow> b2_result ledger_op" where
  "rework_work env c p subject commandId =
     op_bind (authorize env (ca_context c) (js ''source.read'') (js ''source'')
       (ev_sourceArtifactId (ro_evidence p)) True False) (\<lambda>_.
     op_bind (verify_span env (be_world env) c (ro_subject p) (ro_evidence p)) (\<lambda>verified.
     op_bind (op_require AuthorizationError (\<not> vs_spaceId verified \<noteq> ss_spaceId subject)) (\<lambda>_.
     op_bind (terminalizePrimaryObjectiveProposal (be_instant env) (proposal_end_of env c commandId subject
       (ro_predecessor p) (Some (fresh_id env resource_draw)) Reworked (js ''reworked'')
       (transactionTimestamp (be_clock env)))) (\<lambda>_.
     op_bind (insertEvidenceAndClaim (be_sha256 env) (be_instant env) (be_clock env)
       (claim_insert_of env c commandId (Some (fresh_id env attestation_draw))
          \<lparr>as_predicate = PrimaryObjective, as_canonicalValue = as_canonicalValue (ro_assertion p),
           as_normalizedText = as_normalizedText (ro_assertion p)\<rparr>
          (ro_confidence p) None None None verified)) (\<lambda>_.
     op_bind (writeAuditAndOutbox env c commandId (rework_change env p (ss_spaceId subject))) (\<lambda>_.
     let result = ObjectiveReworked (cl_claimId (ro_predecessor p)) (fresh_id env resource_draw)
       (fresh_id env span_draw) (fresh_id env attestation_draw) (fresh_id env recovery_draw) in
     op_bind (completeCommand env c commandId (js ''claim'') (fresh_id env resource_draw) result) (\<lambda>_.
     op_return result)))))))"

definition execute_rework :: "bus_env \<Rightarrow> call \<Rightarrow> rework_objective \<Rightarrow> b2_result ledger_op" where
  "execute_rework env c p = proposal_step env c (ro_subject p) (ro_predecessor p)
     (js ''initiative.primary_objective.proposal.rework'') (rework_work env c p)"

end
