(* ===== verification/Truth_Fact_Commands.thy ===== *)
theory Truth_Fact_Commands
  imports  Truth_Commands
begin

text \<open>
  \<open>TruthLedgerDomainCommandBus\<close>, concluded: accepting, superseding and revoking facts, and the entry
  point \<open>execute\<close>.
\<close>

section \<open>fact.accept\<close>

definition first_header :: "subject_scope \<Rightarrow> support_header list \<Rightarrow> support_header ledger_op" where
  "first_header subject headers =
     op_bind (the_first LedgerConflictError headers) (\<lambda>d.
     op_bind (op_require LedgerConflictError
       (\<not> (sh_spaceId d \<noteq> ss_spaceId subject \<or> sh_subjectType d \<noteq> ss_subjectType subject \<or>
          sh_subjectId d \<noteq> ss_subjectId subject \<or>
          list_ex (\<lambda>h. sh_spaceId h \<noteq> sh_spaceId d \<or> sh_subjectType h \<noteq> sh_subjectType d \<or>
            sh_subjectId h \<noteq> sh_subjectId d \<or> sh_predicate h \<noteq> sh_predicate d) headers))) (\<lambda>_.
     op_return d))"

definition authorize_support :: "bus_env \<Rightarrow> call \<Rightarrow> jstr \<Rightarrow> jstr \<Rightarrow> unit ledger_op" where
  "authorize_support env c claimId sourceArtifactId =
     op_bind (authorize env (ca_context c) (js ''claim.read'') (js ''claim'') claimId True False) (\<lambda>_.
     authorize env (ca_context c) (js ''source.read'') (js ''source'') sourceArtifactId True False)"

definition matches_header :: "support_header \<Rightarrow> support_header list \<Rightarrow> claim_ref list \<Rightarrow> persisted_claim \<Rightarrow> bool" where
  "matches_header d headers refs p \<longleftrightarrow> (let cl = pc_claim p in
     case map_of (rev (map (\<lambda>h. (sh_claimId h, h)) headers)) (tc_id cl) of
       None \<Rightarrow> False
     | Some h \<Rightarrow> \<not> (tc_status cl \<noteq> Proposed \<or>
         map_of (rev (map (\<lambda>r. (cl_claimId r, cl_expectedVersion r)) refs)) (tc_id cl) \<noteq> Some (tc_version cl) \<or>
         tc_space_id cl \<noteq> sh_spaceId d \<or> tc_subject_type cl \<noteq> sh_subjectType d \<or>
         tc_subject_id cl \<noteq> sh_subjectId d \<or> tc_predicate cl \<noteq> sh_predicate d \<or>
         sp_id (pc_span p) \<noteq> sh_evidenceSpanId h \<or> sp_source_artifact_id (pc_span p) \<noteq> sh_sourceArtifactId h))"

definition admit_persisted :: "bus_env \<Rightarrow> call \<Rightarrow> subject_ref \<Rightarrow> persisted_claim \<Rightarrow> claim ledger_op" where
  "admit_persisted env c subject p =
     op_bind (verify_span env (be_world env) c subject (persisted_evidence p)) (\<lambda>sourceSpan.
     op_return (admitted_claim p sourceSpan))"

definition lowering_request_of :: "lowering \<Rightarrow> lowering_request" where
  "lowering_request_of l = \<lparr>lr_confidence = confidence_string (cw_confidence l), lr_reason = reason_value (cw_reason l)\<rparr>"

definition accept_input ::
  "bus_env \<Rightarrow> call \<Rightarrow> accept_fact \<Rightarrow> subject_scope \<Rightarrow> claim list \<Rightarrow> fact_input" where
  "accept_input env c p subject claims =
     \<lparr>fi_id = fresh_id env resource_draw, fi_claims = claims,
      fi_subjectAccessClass = access_string (ss_accessClass subject),
      fi_explicitPolicyAccessClass = access_string (ss_accessClass subject),
      fi_acceptedByUserId = ha_userId (ca_actor c), fi_acceptedByMembershipId = ha_membershipId (ca_actor c),
      fi_acceptanceScope = af_acceptanceScope p,
      fi_authorityBasis = (if ss_subjectType subject = ActivitySubject then js ''activity_owner''
        else js ''initiative_owner''),
      fi_policyVersion = sx_policyVersion (ca_context c), fi_recordedAt = transactionTimestamp (be_clock env),
      fi_createdAt = transactionTimestamp (be_clock env), fi_supersedesFactId = None,
      fi_confidenceLowering = map_option lowering_request_of (af_lowering p)\<rparr>"

definition accept_change :: "accepted_fact \<Rightarrow> change" where
  "accept_change newFact =
     \<lparr>ce_spaceId = fa_spaceId newFact, ce_action = AuditFactAccept, ce_resourceType = js ''accepted_fact'',
      ce_resourceId = fa_id newFact, ce_eventType = FactAcceptedEvent, ce_aggregateType = js ''accepted_fact'',
      ce_aggregateVersion = 1, ce_detail = [(''factId'', JStr (fa_id newFact))]\<rparr>"

definition record_acceptance :: "bus_env \<Rightarrow> call \<Rightarrow> jstr \<Rightarrow> accepted_fact \<Rightarrow> b2_result ledger_op" where
  "record_acceptance env c commandId newFact =
     op_bind (insertAcceptedFact (be_sha256 env) (be_instant env) (be_now env) newFact commandId
       (fa_confidenceDecision newFact) False) (\<lambda>_.
     op_bind (writeAuditAndOutbox env c commandId (accept_change newFact)) (\<lambda>_.
     let result = FactAccepted (fa_id newFact) (fa_supportingClaimIds newFact) in
     op_bind (completeCommand env c commandId (js ''accepted_fact'') (fa_id newFact) result) (\<lambda>_.
     op_return result)))"

definition supported_claims ::
  "bus_env \<Rightarrow> call \<Rightarrow> accept_fact \<Rightarrow> subject_scope \<Rightarrow> persisted_claim list ledger_op" where
  "supported_claims env c p subject =
     (let tenantId = sx_tenantId (ca_context c); workspaceId = sx_workspaceId (ca_context c);
          claimIds = map cl_claimId (af_claims p) in
     op_bind (op_catch (\<lambda>_. AuthorizationError) (readClaimSupportHeaders tenantId workspaceId claimIds)) (\<lambda>headers.
     op_bind (first_header subject headers) (\<lambda>d.
     op_bind (lockFirstAcceptanceSlot tenantId workspaceId (sh_spaceId d) (sh_subjectType d) (sh_subjectId d)
       (sh_predicate d)) (\<lambda>_.
     op_bind (op_each (\<lambda>h. authorize_support env c (sh_claimId h) (sh_sourceArtifactId h)) headers) (\<lambda>_.
     op_bind (loadClaimsForAcceptance (be_world env) tenantId workspaceId claimIds False False) (\<lambda>persisted.
     op_bind (op_require LedgerConflictError (list_all (matches_header d headers (af_claims p)) persisted)) (\<lambda>_.
     op_bind (if sh_subjectType d = InitiativeSubject \<and> sh_predicate d = PrimaryObjective
       then requirePrimaryObjectiveSupportConfirmations tenantId workspaceId claimIds else op_return ()) (\<lambda>_.
     op_return persisted))))))))"

definition accept_work :: "bus_env \<Rightarrow> call \<Rightarrow> accept_fact \<Rightarrow> subject_scope \<Rightarrow> jstr \<Rightarrow> b2_result ledger_op" where
  "accept_work env c p subject commandId =
     op_bind (supported_claims env c p subject) (\<lambda>persisted.
     op_bind (op_each (admit_persisted env c (af_subject p)) persisted) (\<lambda>claims.
     op_bind (op_lift (ok_or ContractError (constructAcceptedFact (be_nfc env)
       (accept_input env c p subject claims)))) (\<lambda>newFact.
     record_acceptance env c commandId newFact)))"

definition execute_accept :: "bus_env \<Rightarrow> call \<Rightarrow> accept_fact \<Rightarrow> b2_result ledger_op" where
  "execute_accept env c p =
     op_bind (locked_subject env c (af_subject p)) (\<lambda>subject.
     op_bind (authorize env (ca_context c) (js ''fact.accept'') (subject_string (sr_type (af_subject p)))
       (sr_id (af_subject p)) True False) (\<lambda>_.
     op_bind (reserveCommand env c) (\<lambda>reservation.
     case reservation of
       ReplayedResult result \<Rightarrow> op_return result
     | FreshCommand commandId \<Rightarrow> accept_work env c p subject commandId)))"

section \<open>fact.supersede and fact.revoke\<close>

definition change_by :: "bus_env \<Rightarrow> call \<Rightarrow> jstr \<Rightarrow> truth_reason \<Rightarrow> lifecycle_change" where
  "change_by env c commandId reason =
     \<lparr>lc_lifecycleEventId = fresh_id env lifecycle_draw, lc_commandId = commandId, lc_reason = reason,
      lc_actorUserId = ha_userId (ca_actor c), lc_actorMembershipId = ha_membershipId (ca_actor c),
      lc_policyVersion = sx_policyVersion (ca_context c)\<rparr>"

definition admit_replacement :: "bus_env \<Rightarrow> call \<Rightarrow> fact_target \<Rightarrow> persisted_claim \<Rightarrow> claim ledger_op" where
  "admit_replacement env c t p =
     op_bind (authorize_support env c (tc_id (pc_claim p)) (sp_source_artifact_id (pc_span p))) (\<lambda>_.
     op_bind (verify_span env (be_locked_world env) c
       \<lparr>sr_type = ft_subjectType t, sr_id = ft_subjectId t, sr_expectedVersion = ft_subjectVersion t\<rparr>
       (persisted_evidence p)) (\<lambda>sourceSpan.
     op_bind (op_require LedgerConflictError
       (maxAccessClass (map access_string [vs_effectiveAccessClass sourceSpan, ft_subjectAccessClass t]) =
        Some (vs_effectiveAccessClass sourceSpan))) (\<lambda>_.
     op_return (admitted_claim p sourceSpan))))"

definition successor_input ::
  "bus_env \<Rightarrow> call \<Rightarrow> supersede_fact \<Rightarrow> fact_target \<Rightarrow> claim list \<Rightarrow> fact_input" where
  "successor_input env c p t claims =
     \<lparr>fi_id = fresh_id env resource_draw, fi_claims = claims,
      fi_subjectAccessClass = access_string (ft_subjectAccessClass t),
      fi_explicitPolicyAccessClass = access_string (ft_subjectAccessClass t),
      fi_acceptedByUserId = ha_userId (ca_actor c), fi_acceptedByMembershipId = ha_membershipId (ca_actor c),
      fi_acceptanceScope = ft_acceptanceScope t, fi_authorityBasis = ft_authorityBasis t,
      fi_policyVersion = sx_policyVersion (ca_context c), fi_recordedAt = transactionTimestamp (be_clock env),
      fi_createdAt = transactionTimestamp (be_clock env), fi_supersedesFactId = Some (ft_factId t),
      fi_confidenceLowering = map_option lowering_request_of (sf_lowering p)\<rparr>"

definition human_reason_code :: "truth_reason \<Rightarrow> jsval" where
  "human_reason_code r = (case reason_value r of JObj fs \<Rightarrow> fld fs ''code'' | _ \<Rightarrow> JUndef)"

definition supersede_detail :: "supersede_fact \<Rightarrow> jstr \<Rightarrow> jstr \<Rightarrow> (string \<times> jsval) list" where
  "supersede_detail p factId replacementFactId =
     [(''factId'', JStr factId), (''factVersion'', num_value 2), (''reasonCode'', human_reason_code (sf_reason p)),
      (''replacementFactId'', JStr replacementFactId), (''replacementFactVersion'', num_value 1),
      (''status'', str ''superseded'')]"

definition revoke_detail :: "revoke_fact \<Rightarrow> jstr \<Rightarrow> (string \<times> jsval) list" where
  "revoke_detail p factId = [(''factId'', JStr factId), (''factVersion'', num_value 2),
     (''reasonCode'', human_reason_code (rf_reason p)), (''status'', str ''revoked'')]"

type_synonym ended = "b2_result \<times> jstr \<times> (string \<times> jsval) list"

definition supersede_work ::
  "bus_env \<Rightarrow> call \<Rightarrow> supersede_fact \<Rightarrow> targets \<Rightarrow> nat \<Rightarrow> fact_target \<Rightarrow> jstr \<Rightarrow> ended ledger_op" where
  "supersede_work env c p mem i t commandId =
     op_bind (op_require LedgerConflictError
       (\<not> (sr_type (sf_subject p) \<noteq> ft_subjectType t \<or> sr_id (sf_subject p) \<noteq> ft_subjectId t \<or>
          sr_expectedVersion (sf_subject p) \<noteq> ft_subjectVersion t))) (\<lambda>_.
     op_bind (lockReplacementClaimsForSupersession (be_locked_world env) mem i (sf_replacementClaims p)) (\<lambda>(persisted, mem).
     op_bind (op_each (admit_replacement env c t) persisted) (\<lambda>claims.
     op_bind (op_lift (ok_or ContractError (constructAcceptedFact (be_nfc env)
       (successor_input env c p t claims)))) (\<lambda>successor.
     op_bind (op_require LedgerConflictError
       (maxAccessClass (map access_string [fa_accessClass successor, ft_factAccessClass t]) =
        Some (fa_accessClass successor))) (\<lambda>_.
     op_bind (supersedePrelockedFact (be_nfc env) (be_sha256 env) (be_instant env) (be_now env) mem i
       (change_by env c commandId (sf_reason p)) successor) (\<lambda>(ids, mem).
     op_return (FactSuperseded (fst ids) 2 (snd ids), fst ids, supersede_detail p (fst ids) (snd ids))))))))"

definition revoke_work :: "bus_env \<Rightarrow> call \<Rightarrow> revoke_fact \<Rightarrow> targets \<Rightarrow> nat \<Rightarrow> jstr \<Rightarrow> ended ledger_op" where
  "revoke_work env c p mem i commandId =
     op_bind (revokePrelockedFact (be_nfc env) (be_now env) mem i (change_by env c commandId (rf_reason p))) (\<lambda>(factId, mem).
     op_return (FactRevoked factId 2, factId, revoke_detail p factId))"

definition ended_change :: "b2_payload \<Rightarrow> jstr \<Rightarrow> jstr \<Rightarrow> (string \<times> jsval) list \<Rightarrow> change" where
  "ended_change payload spaceId factId detail =
     \<lparr>ce_spaceId = spaceId,
      ce_action = (if payload_kind payload = SupersedeFactKind then AuditFactSupersede else AuditFactRevoke),
      ce_resourceType = js ''accepted_fact'', ce_resourceId = factId,
      ce_eventType = (if payload_kind payload = SupersedeFactKind then FactSupersededEvent else FactRevokedEvent),
      ce_aggregateType = js ''accepted_fact'', ce_aggregateVersion = 2, ce_detail = detail\<rparr>"

definition executeFactLifecycleInTransaction ::
  "bus_env \<Rightarrow> call \<Rightarrow> jstr \<Rightarrow> int \<Rightarrow> (targets \<Rightarrow> nat \<Rightarrow> fact_target \<Rightarrow> jstr \<Rightarrow> ended ledger_op) \<Rightarrow>
     b2_result ledger_op" where
  "executeFactLifecycleInTransaction env c factId expectedFactVersion work =
     (let context = ca_context c; action = kind_string (payload_kind (ca_payload c)) in
     op_bind (readFactLifecycleReservation (sx_tenantId context) (sx_workspaceId context) factId
       expectedFactVersion) (\<lambda>spaceId.
     op_bind (op_require LedgerConflictError (\<not> spaceId \<noteq> ca_reservationSpaceId c)) (\<lambda>_.
     op_bind (reserveCommand env c) (\<lambda>reservation.
     case reservation of
       ReplayedResult result \<Rightarrow>
         op_bind (authorize env context action (js ''fact'') factId True True) (\<lambda>_.
         op_return result)
     | FreshCommand commandId \<Rightarrow>
         op_bind (prelockCurrentFact (be_world env) context (sx_tenantId context) (sx_workspaceId context)
           factId expectedFactVersion []) (\<lambda>(i, mem).
         op_bind (op_lift (requirePrelockedCurrentFact mem i)) (\<lambda>prelocked.
         op_bind (authorize env context action (js ''fact'') (ft_factId (pk_target prelocked)) True False) (\<lambda>_.
         op_bind (refreshCurrentFactAfterAuthorization (be_locked_world env) context mem i) (\<lambda>(t, mem).
         op_bind (work mem i t commandId) (\<lambda>(result, endedFactId, detail).
         op_bind (writeAuditAndOutbox env c commandId
           (ended_change (ca_payload c) (ft_spaceId t) endedFactId detail)) (\<lambda>_.
         op_bind (completeCommand env c commandId (js ''accepted_fact'') endedFactId result) (\<lambda>_.
         op_return result)))))))))))"

section \<open>The entry point\<close>

fun executeInTransaction :: "bus_env \<Rightarrow> call \<Rightarrow> b2_payload \<Rightarrow> b2_result ledger_op" where
  "executeInTransaction env c (CreateClaim p) = execute_create_claim env c p"
| "executeInTransaction env c (WithdrawObjective p) = execute_withdraw env c p"
| "executeInTransaction env c (ReworkObjective p) = execute_rework env c p"
| "executeInTransaction env c (AcceptFact p) = execute_accept env c p"
| "executeInTransaction env c (SupersedeFact p) =
     executeFactLifecycleInTransaction env c (sf_factId p) (sf_expectedFactVersion p) (supersede_work env c p)"
| "executeInTransaction env c (RevokeFact p) =
     executeFactLifecycleInTransaction env c (rf_factId p) (rf_expectedFactVersion p)
       (\<lambda>mem i t commandId. revoke_work env c p mem i commandId)"
| "executeInTransaction env c _ = op_fail (CommandError B2CommandValidationError)"

fun durable :: "b2_payload \<Rightarrow> bool" where
  "durable (CreateClaim _) \<longleftrightarrow> True"
| "durable (WithdrawObjective _) \<longleftrightarrow> True"
| "durable (ReworkObjective _) \<longleftrightarrow> True"
| "durable (AcceptFact _) \<longleftrightarrow> True"
| "durable (SupersedeFact p) \<longleftrightarrow> \<not> sf_conflict p \<noteq> None"
| "durable (RevokeFact _) \<longleftrightarrow> True"
| "durable _ \<longleftrightarrow> False"

fun command_subject :: "b2_payload \<Rightarrow> subject_ref option" where
  "command_subject (CreateClaim p) = Some (cc_subject p)"
| "command_subject (WithdrawObjective p) = Some (wo_subject p)"
| "command_subject (ReworkObjective p) = Some (ro_subject p)"
| "command_subject (AcceptFact p) = Some (af_subject p)"
| "command_subject _ = None"

fun reservation_body :: "bus_env \<Rightarrow> security_context \<Rightarrow> b2_payload \<Rightarrow> jstr ledger_op" where
  "reservation_body env context (SupersedeFact p) = readFactLifecycleReservation (sx_tenantId context)
     (sx_workspaceId context) (sf_factId p) (sf_expectedFactVersion p)"
| "reservation_body env context (RevokeFact p) = readFactLifecycleReservation (sx_tenantId context)
     (sx_workspaceId context) (rf_factId p) (rf_expectedFactVersion p)"
| "reservation_body env context p = op_lift
     (case [wk_space_id w. w \<leftarrow> wd_subjects (be_reservation_world env), ref \<leftarrow> [the (command_subject p)],
              subject_named (sx_tenantId context) (sx_workspaceId context) (sr_type ref) (sr_id ref) w] of
        [] \<Rightarrow> Inl AuthorizationError
      | spaceId # _ \<Rightarrow> Inr spaceId)"

definition resolveReservationSpace ::
  "bus_env \<Rightarrow> ledger \<Rightarrow> security_context \<Rightarrow> b2_payload \<Rightarrow> truth_error + jstr" where
  "resolveReservationSpace env earlier context p =
     snd (withTenantTransaction (be_uuid env) ThrownError (be_reservation_tx env) context
       (run (op_bind (op_lift (assertApplicationRole env)) (\<lambda>_. reservation_body env context p))) earlier)"

definition call_of ::
  "bus_env \<Rightarrow> security_context \<Rightarrow> human_actor \<Rightarrow> b2_command \<Rightarrow> jstr \<Rightarrow> jstr \<Rightarrow> call" where
  "call_of env context actor command requestHash spaceId =
     (let mutationContext = context\<lparr>sx_requestedSpaceIds := [spaceId]\<rparr> in
     \<lparr>ca_context = mutationContext, ca_actor = actor, ca_idempotencyKey = bc_idempotencyKey command,
      ca_payload = bc_payload command, ca_requestHash = requestHash, ca_reservationSpaceId = spaceId,
      ca_traceparent = traceparentFor (be_sha256 env) mutationContext\<rparr>)"

definition mutation_body :: "bus_env \<Rightarrow> call \<Rightarrow> b2_result ledger_op" where
  "mutation_body env c = op_bind (op_lift (assertApplicationRole env)) (\<lambda>_. executeInTransaction env c (ca_payload c))"

definition execute_command ::
  "bus_env \<Rightarrow> ledger \<Rightarrow> security_context \<Rightarrow> b2_command \<Rightarrow> jstr \<Rightarrow> ledger \<Rightarrow> ledger \<times> (truth_error + b2_result)" where
  "execute_command env earlier context command requestHash s =
     (case requireHumanActor context of
        Inl e \<Rightarrow> (s, Inl e)
      | Inr actor \<Rightarrow>
          (case resolveReservationSpace env earlier context (bc_payload command) of
             Inl e \<Rightarrow> (s, Inl e)
           | Inr spaceId \<Rightarrow>
               (let c = call_of env context actor command requestHash spaceId in
                case withTenantTransaction (be_uuid env) ThrownError (be_tx env) (ca_context c)
                       (run (mutation_body env c)) s of
                  (s', Inl e) \<Rightarrow> (s', Inl e)
                | (s', Inr result) \<Rightarrow> (s', map_sum CommandError id
                    (parseB2CommandResult (payload_kind (bc_payload command)) (result_value result))))))"

fun lifecycle_kind :: "b2_payload \<Rightarrow> bool" where
  "lifecycle_kind (SupersedeFact _) \<longleftrightarrow> True"
| "lifecycle_kind (RevokeFact _) \<longleftrightarrow> True"
| "lifecycle_kind _ \<longleftrightarrow> False"

definition hide_unavailable :: "truth_error \<Rightarrow> truth_error" where
  "hide_unavailable e = (if e = LedgerUnavailableError then AuthorizationError else e)"

definition executeFactLifecycle ::
  "bus_env \<Rightarrow> ledger \<Rightarrow> security_context \<Rightarrow> b2_command \<Rightarrow> jstr \<Rightarrow> ledger \<Rightarrow> ledger \<times> (truth_error + b2_result)" where
  "executeFactLifecycle env earlier context command requestHash s =
     (case execute_command env earlier context command requestHash s of
        (s', r) \<Rightarrow> (s', map_sum hide_unavailable id r))"

definition execute :: "bus_env \<Rightarrow> ledger \<Rightarrow> jsval \<Rightarrow> security_context \<Rightarrow> ledger \<Rightarrow> ledger \<times> (truth_error + b2_result)" where
  "execute env earlier input context s =
     (case parseB2Command (be_nfc env) input of
        Inl e \<Rightarrow> (s, Inl (CommandError e))
      | Inr command \<Rightarrow>
          if \<not> durable (bc_payload command) then (s, Inl (CommandError B2CommandValidationError))
          else (case hashB2CommandIdentity (be_nfc env) (be_sha256 env) (command_value command) of
             Inl e \<Rightarrow> (s, Inl (CommandError e))
           | Inr requestHash \<Rightarrow>
               if lifecycle_kind (bc_payload command)
               then executeFactLifecycle env earlier context command requestHash s
               else execute_command env earlier context command requestHash s))"

end
