(* ===== verification/Truth_Effects.thy ===== *)
theory Truth_Effects
  imports Ledger_Invariant Truth_Fact_Commands Span_Promises
begin

text \<open>
  What the statements of the truth ledger repository and the shared parts of the command bus do to
  the tables, in the terms of the specification: each successful operation is one of the elementary
  changes of \<open>Ledger_Spec\<close>, or writes books only.
\<close>

section \<open>Books\<close>

lemma books_only_refl [simp]: "books_only s s"
  by (simp add: books_only_def)

lemma books_only_iff: "books_only s t \<longleftrightarrow> (\<exists>c a b. t = s\<lparr>lg_commands := c, lg_audit := a, lg_outbox := b\<rparr>)"
  by (cases s; cases t) (simp add: books_only_def)

lemma books_only_trans: "books_only s t \<Longrightarrow> books_only t u \<Longrightarrow> books_only s u"
  unfolding books_only_iff by (elim exE) auto

lemma books_only_add_claim: "books_only s t \<Longrightarrow> books_only (add_claim sp c as s) (add_claim sp c as t)"
  by (cases s; cases t) (simp add: books_only_def add_claim_def)

lemma books_only_end_proposal: "books_only s t \<Longrightarrow> books_only (end_proposal now r s) (end_proposal now r t)"
  by (cases s; cases t) (simp add: books_only_def end_proposal_def)

lemma books_only_add_fact: "books_only s t \<Longrightarrow> books_only (add_fact now f ids s) (add_fact now f ids t)"
  by (cases s; cases t) (simp add: books_only_def add_fact_def)

lemma books_only_end_current: "books_only s t \<Longrightarrow> books_only (end_current now e s) (end_current now e t)"
  by (cases s; cases t) (simp add: books_only_def end_current_def)

lemma books_only_add_event: "books_only s t \<Longrightarrow> books_only (add_event e s) (add_event e t)"
  by (cases s; cases t) (simp add: books_only_def add_event_def)

lemma books_guards:
  assumes "books_only s t"
  shows "proposable sp c as t \<longleftrightarrow> proposable sp c as s" "endable r p t \<longleftrightarrow> endable r p s"
    "acceptable f ids t \<longleftrightarrow> acceptable f ids s" "ends e st f t \<longleftrightarrow> ends e st f s"
  by (simp_all add: proposable_def endable_def acceptable_def ends_def books_tables[OF assms])

text \<open>A step may write books first.\<close>

lemma truth_step_after_books:
  assumes b: "books_only s s1" and step: "truth_step s1 t"
  shows "truth_step s t"
  using step
proof (cases rule: truth_step.cases)
  case (propose sp c as)
  then show ?thesis
    using truth_step.propose books_guards(1)[OF b] books_only_trans books_only_add_claim[OF b] by blast
next
  case (withdraw r p now)
  then show ?thesis
    using truth_step.withdraw books_guards(2)[OF b] books_only_trans[OF books_only_end_proposal[OF b]] by blast
next
  case (rework r p c sp as now)
  have "proposable sp c as (end_proposal now r s)"
    using rework(4) books_guards(1)[OF books_only_end_proposal[OF b]] by blast
  moreover have "books_only (add_claim sp c as (end_proposal now r s)) t"
    by (rule books_only_trans[OF books_only_add_claim[OF books_only_end_proposal[OF b]] rework(6)])
  ultimately show ?thesis using rework books_guards(2)[OF b] truth_step.rework by blast
next
  case (accept f ids now)
  then show ?thesis
    using truth_step.accept books_guards(3)[OF b] books_only_trans[OF books_only_add_fact[OF b]] by blast
next
  case (supersede e g f ids now)
  have "acceptable f ids (end_current now e s)"
    using supersede(5) books_guards(3)[OF books_only_end_current[OF b]] by blast
  moreover have "books_only (add_event e (add_fact now f ids (end_current now e s))) t"
    by (rule books_only_trans[OF books_only_add_event[OF books_only_add_fact[OF books_only_end_current[OF b]]]
          supersede(6)])
  ultimately show ?thesis using supersede books_guards(4)[OF b] truth_step.supersede by blast
next
  case (revoke e g now)
  have "books_only (add_event e (end_current now e s)) t"
    by (rule books_only_trans[OF books_only_add_event[OF books_only_end_current[OF b]] revoke(4)])
  moreover have "\<forall>c\<in>set (lg_claims s). open_objective c \<longrightarrow> claim_coordinate c \<noteq> fact_coordinate g"
    if "tf_predicate g = PrimaryObjective" using revoke(3)[OF that] books_tables(1)[OF b] by simp
  ultimately show ?thesis using revoke(1,2) books_guards(4)[OF b] truth_step.revoke by blast
qed

lemma truth_step_then_books: "truth_step s t \<Longrightarrow> books_only t u \<Longrightarrow> truth_step s u"
proof (induction rule: truth_step.induct)
qed (blast intro: truth_step.intros books_only_trans)+

section \<open>Books of a command\<close>

lemma books_only_updates:
  "books_only s (lg_commands_update f s)" "books_only s (lg_audit_update g s)" "books_only s (lg_outbox_update h s)"
  by (simp_all add: books_only_def)

text \<open>Between transactions every command is completed, and what names a command names a recorded one.\<close>

definition command_ids :: "ledger \<Rightarrow> jstr set" where
  "command_ids s = (\<lambda>row. ci_id (cr_identity row)) ` set (lg_commands s)"

definition caused :: "ledger \<Rightarrow> bool" where
  "caused s \<longleftrightarrow> (\<forall>row\<in>set (lg_commands s). cr_state row = CompletedCommand) \<and>
     (\<forall>f\<in>set (lg_facts s). tf_last_causation_command_id f \<in> command_ids s) \<and>
     (\<forall>a\<in>set (lg_audit s). au_causation_command_id a \<in> command_ids s) \<and>
     (\<forall>r\<in>set (lg_outbox s). ei_causation_command_id (ob_event r) \<in> command_ids s)"

text \<open>What one executed command leaves in the books: its own record, completed, one audit event and one
  notification, about the same resource and caused by it.\<close>

definition receipt :: "reservation_input \<Rightarrow> b2_result \<Rightarrow> ledger \<Rightarrow> ledger \<Rightarrow> bool" where
  "receipt input result s t \<longleftrightarrow> (let i = ri_id input in i \<notin> command_ids s \<and> (\<exists>row a e now safeRequest.
     lg_commands t = lg_commands s @ [row] \<and> lg_audit t = lg_audit s @ [a] \<and> lg_outbox t = lg_outbox s @ [pending_row e] \<and>
     cr_identity row = cr_identity (reserved_row now safeRequest input) \<and> ci_id (cr_identity row) = i \<and>
     cr_state row = CompletedCommand \<and>
     Some (cr_safe_response row) = response_column (Some (result_value result)) \<and>
     au_causation_command_id a = i \<and> ei_causation_command_id e = i \<and>
     cr_result_resource_id row = Some (au_resource_id a) \<and> ei_aggregate_id e = au_resource_id a))"

definition begun :: "bus_env \<Rightarrow> call \<Rightarrow> ledger \<Rightarrow> ledger \<Rightarrow> bool" where
  "begun env c s t \<longleftrightarrow> fresh_id env command_draw \<notin> command_ids s \<and> lower (fresh_id env command_draw) \<and>
     (\<forall>row\<in>set (lg_commands s). \<not> same_reservation (reservation_of env c) row) \<and> (\<exists>sr. t = s\<lparr>lg_commands := lg_commands s @ [reserved_row (be_clock env) sr (reservation_of env c)]\<rparr>)"

lemma begun_books: "begun env c s t \<Longrightarrow> books_only s t"
  by (auto simp: begun_def books_only_def)

lemma reserved_id [simp]: "ri_id (reservation_of env c) = fresh_id env command_draw"
  by (simp add: reservation_of_def Let_def)

lemma map_sum_Inr_iff [op_simps]: "map_sum f g r = Inr b \<longleftrightarrow> (\<exists>a. r = Inr a \<and> b = g a)"
  by (cases r) auto

lemma reserveCommand_effect:
  assumes "reserveCommand env c s = Inr (r, t)" and ok: "caused s"
  obtains (first) "r = FreshCommand (fresh_id env command_draw)" "begun env c s t"
    | (again) command result where "t = s" "r = ReplayedResult result"
        "reserve (be_clock env) (reservation_of env c) (lg_commands s) = Inr (Replay command, lg_commands s)"
        "parseB2CommandResult (payload_kind (ca_payload c)) (stored_response command) = Inr result"
proof -
  obtain reservation rows where res: "reserve (be_clock env) (reservation_of env c) (lg_commands s) = Inr (reservation, rows)"
    and rest: "(case reservation of
       Replay command \<Rightarrow>
         op_bind (op_lift (map_sum CommandError id
           (parseB2CommandResult (payload_kind (ca_payload c)) (stored_response command)))) (\<lambda>result.
         op_return (ReplayedResult result))
     | Reserved commandId \<Rightarrow>
         op_bind (op_require (CommandError B2CommandInvariantError)
           (\<not> commandId \<noteq> fresh_id env command_draw)) (\<lambda>_.
         op_return (FreshCommand (fresh_id env command_draw)))) (s\<lparr>lg_commands := rows\<rparr>) = Inr (r, t)"
    using assms(1) unfolding reserveCommand_def op_catch_Inr op_bind_Inr op_on_Inr by (elim exE conjE) simp
  show thesis
    using res
  proof (cases rule: reserve_effect)
    case (inserted sr)
    have "begun env c s t" "r = FreshCommand (fresh_id env command_draw)"
      using inserted rest by (auto simp: begun_def command_ids_def lower_def op_simps filter_empty_conv)
    then show ?thesis using first by blast
  next
    case (existing row)
    then have finished: "cr_state row = CompletedCommand" using ok by (simp add: caused_def)
    obtain command where "reservation = Replay command"
      using existing(5) finished by (auto simp: replay_of_def op_simps split: option.splits)
    then show ?thesis using existing(1) rest res again by (auto simp: op_simps)
  qed
qed


lemma completeCommand_effect:
  assumes "completeCommand env c i rt ri result s = Inr (u, t)"
    and rows: "lg_commands s = old @ [new]" "\<forall>row\<in>set old. cr_state row = CompletedCommand"
  shows "\<exists>row. t = s\<lparr>lg_commands := old @ [row]\<rparr> \<and> cr_identity row = cr_identity new \<and>
    cr_state row = CompletedCommand \<and> cr_result_resource_id row = Some (uuid_column ri) \<and>
    Some (cr_safe_response row) = response_column (Some (result_value result))"
proof -
  let ?in = "completion_of c i rt ri result"
  obtain r rows' where c: "complete (be_clock env) ?in (old @ [new]) = Inr (r, rows')"
    and t: "t = s\<lparr>lg_commands := rows'\<rparr>"
    using assms(1) unfolding completeCommand_def op_bind_Inr op_on_Inr op_return_Inr rows(1) by (elim exE conjE) simp
  obtain v row where v: "response_column (ki_safeResponse ?in) = Some v" and one: "filter (completes ?in) (old @ [new]) = [row]"
    and rows': "rows' = map (\<lambda>r. if completes ?in r then completed_row (be_clock env) v ?in r else r) (old @ [new])"
    by (rule complete_effect[OF c]) (rule that)
  have none: "\<not> completes ?in q" if "q \<in> set old" for q using that rows(2) by (auto simp: completes_def)
  then have "filter (completes ?in) old = []" by (simp add: filter_empty_conv)
  then have "completes ?in new" using one by (auto split: if_splits)
  then have "rows' = old @ [completed_row (be_clock env) v ?in new]"
    using none unfolding rows' by (simp add: map_idI)
  then show ?thesis using v t
    by (intro exI[of _ "completed_row (be_clock env) v ?in new"]) (simp add: completion_of_def)
qed

lemma envelope_ids:
  "parseDomainNotificationEnvelope v = Some e \<Longrightarrow> \<exists>fs. requireExactObject v ENVELOPE_KEYS [''tracestate''] = Some fs \<and>
     dn_requireUuidV7 (fld fs ''causationCommandId'') = Some (en_causationCommandId e) \<and>
     dn_requireUuidV7 (fld fs ''aggregateId'') = Some (en_aggregateId e)"
  by (auto simp: parseDomainNotificationEnvelope_def bind_Some_iff)

lemma envelope_causation:
  assumes "parseDomainNotificationEnvelope (envelope_of env c i ch) = Some e"
  shows "en_causationCommandId e = lower_ascii i \<and> en_aggregateId e = lower_ascii (ce_resourceId ch)"
  using envelope_ids[OF assms] unfolding envelope_of_def Let_def
  by (auto simp: dn_requireUuidV7_def require_string_with_def split: if_splits)

lemma insert_outbox_effect:
  assumes "insert_outbox now \<lparr>oi_envelope = envelope_of env c i ch, oi_relayServicePrincipalId = relay,
      oi_policyVersionId = policy\<rparr> s = Inr (u, t)"
    and new: "\<forall>r\<in>set (lg_outbox s). ei_causation_command_id (ob_event r) \<noteq> uuid_column i"
  shows "\<exists>e. t = s\<lparr>lg_outbox := lg_outbox s @ [pending_row e]\<rparr> \<and> ei_causation_command_id e = uuid_column i \<and>
    ei_aggregate_id e = uuid_column (ce_resourceId ch)"
proof -
  let ?in = "\<lparr>oi_envelope = envelope_of env c i ch, oi_relayServicePrincipalId = relay, oi_policyVersionId = policy\<rparr>"
  obtain rows r where ins: "insertOrReplay now ?in (lg_outbox s) = (rows, Inr r)" and t: "t = s\<lparr>lg_outbox := rows\<rparr>"
    using assms(1) unfolding insert_outbox_def by (auto split: prod.splits sum.splits)
  obtain envelope where p: "parseDomainNotificationEnvelope (envelope_of env c i ch) = Some envelope"
    using ins by (cases "parseDomainNotificationEnvelope (envelope_of env c i ch)") (simp_all add: insertOrReplay_def)
  let ?e = "identity_of envelope relay policy now"
  have e: "ei_causation_command_id ?e = uuid_column i" "ei_aggregate_id ?e = uuid_column (ce_resourceId ch)"
    using envelope_causation[OF p] by (simp_all add: identity_of_def uuid_column_def)
  have "filter (\<lambda>r. semantic_key (ob_event r) = semantic_key ?e) (lg_outbox s) = []"
    using new e(1) by (auto simp: filter_empty_conv semantic_key_def)
  then have "rows = lg_outbox s @ [pending_row ?e]"
    using ins p by (auto simp: insertOrReplay_def Let_def split: option.splits if_splits)
  then show ?thesis using e t by blast
qed

lemma writeAuditAndOutbox_effect:
  assumes "writeAuditAndOutbox env c i ch s = Inr (u, t)"
    and new: "\<forall>r\<in>set (lg_outbox s). ei_causation_command_id (ob_event r) \<noteq> uuid_column i"
  shows "\<exists>a e. t = s\<lparr>lg_audit := lg_audit s @ [a], lg_outbox := lg_outbox s @ [pending_row e]\<rparr> \<and>
    au_causation_command_id a = uuid_column i \<and> au_resource_id a = uuid_column (ce_resourceId ch) \<and>
    ei_causation_command_id e = uuid_column i \<and> ei_aggregate_id e = uuid_column (ce_resourceId ch)"
proof -
  obtain v rows relay where audit: "audit_insert_event (audit_of env c i ch) (lg_audit s) = Inr (v, rows)"
    and out: "insert_outbox (be_clock env) \<lparr>oi_envelope = envelope_of env c i ch, oi_relayServicePrincipalId = relay,
      oi_policyVersionId = sx_policyVersion (ca_context c)\<rparr> (s\<lparr>lg_audit := rows\<rparr>) = Inr (u, t)"
    using assms(1) unfolding writeAuditAndOutbox_def op_bind_Inr op_on_Inr op_lift_Inr by (elim exE conjE) simp
  obtain detail_text where a: "rows = lg_audit s @ [audit_row_of (audit_of env c i ch) detail_text]"
    using audit_insert_effect[OF audit] by blast
  let ?a = "audit_row_of (audit_of env c i ch) detail_text"
  have "au_causation_command_id ?a = uuid_column i" "au_resource_id ?a = uuid_column (ce_resourceId ch)"
    by (simp_all add: audit_row_of_def audit_of_def Let_def)
  moreover obtain e where "t = s\<lparr>lg_audit := rows, lg_outbox := lg_outbox s @ [pending_row e]\<rparr>"
      "ei_causation_command_id e = uuid_column i" "ei_aggregate_id e = uuid_column (ce_resourceId ch)"
    using insert_outbox_effect[OF out] new by auto
  ultimately show ?thesis using a by blast
qed

text \<open>Every command ends in the same way: the change is recorded, then the command is completed.\<close>

lemma recorded:
  assumes ok: "caused s" and begun: "begun env c s s1"
    and kept: "lg_commands s2 = lg_commands s1" "lg_audit s2 = lg_audit s1" "lg_outbox s2 = lg_outbox s1"
    and wrote: "writeAuditAndOutbox env c (fresh_id env command_draw) ch s2 = Inr (u, s3)"
    and finished: "completeCommand env c (fresh_id env command_draw) rt (ce_resourceId ch) result s3 = Inr (v, t)"
  shows "books_only s2 t \<and> receipt (reservation_of env c) result s t"
proof -
  let ?i = "fresh_id env command_draw"
  obtain sr where s1: "s1 = s\<lparr>lg_commands := lg_commands s @ [reserved_row (be_clock env) sr (reservation_of env c)]\<rparr>"
    and new: "?i \<notin> command_ids s" "uuid_column ?i = ?i" using begun by (auto simp: begun_def lower_def)
  let ?new = "reserved_row (be_clock env) sr (reservation_of env c)"
  have fresh: "\<forall>r\<in>set (lg_outbox s2). ei_causation_command_id (ob_event r) \<noteq> uuid_column ?i"
    using ok new kept(3) s1 by (auto simp: caused_def)
  obtain a e where s3: "s3 = s2\<lparr>lg_audit := lg_audit s2 @ [a], lg_outbox := lg_outbox s2 @ [pending_row e]\<rparr>"
    and ae: "au_causation_command_id a = ?i" "au_resource_id a = uuid_column (ce_resourceId ch)"
      "ei_causation_command_id e = ?i" "ei_aggregate_id e = uuid_column (ce_resourceId ch)"
    using writeAuditAndOutbox_effect[OF wrote fresh] new(2) by auto
  have "lg_commands s3 = lg_commands s @ [?new]" using s3 kept(1) s1 by simp
  then obtain row where t: "t = s3\<lparr>lg_commands := lg_commands s @ [row]\<rparr>" and row: "cr_identity row = cr_identity ?new"
      "cr_state row = CompletedCommand" "cr_result_resource_id row = Some (uuid_column (ce_resourceId ch))"
      "Some (cr_safe_response row) = response_column (Some (result_value result))"
    using completeCommand_effect[OF finished] ok unfolding caused_def by blast
  have "ci_id (cr_identity row) = ?i" using row(1) new(2) by simp
  then have "receipt (reservation_of env c) result s t"
    unfolding receipt_def Let_def using new(1) t s3 kept s1 ae row
    by (intro conjI exI[of _ row] exI[of _ a] exI[of _ e] exI[of _ "be_clock env"] exI[of _ sr]) simp_all
  moreover have "books_only s2 t" using t s3 by (simp add: books_only_def)
  ultimately show ?thesis by blast
qed

section \<open>Claims and facts\<close>

text \<open>
  The statements of the truth ledger repository that write claims and facts, in the terms of the
  specification: on a ledger that satisfies its invariant each is one of the elementary changes,
  and its guards give the condition under which the specification allows it.
\<close>

section \<open>Columns\<close>

lemma lower_column [simp]: "lower (uuid_column x)"
  by (simp add: lower_def uuid_column_def)

lemma uuid_column_idem [simp]: "uuid_column (uuid_column x) = uuid_column x"
  by (simp add: uuid_column_def)

lemma lower_v7: "uuid_v7 x \<Longrightarrow> lower x"
  by (simp add: lower_def)

section \<open>Claims\<close>

lemma claim_row_of_simps [simp]:
  "tc_id (claim_row_of sha256 instant clock x) = uuid_column (in_claimId x)"
  "tc_status (claim_row_of sha256 instant clock x) = Proposed" "tc_version (claim_row_of sha256 instant clock x) = 1"
  "tc_predicate (claim_row_of sha256 instant clock x) = in_predicate x"
  "tc_subject_type (claim_row_of sha256 instant clock x) = vs_subjectType (in_evidence x)"
  "tc_access_class (claim_row_of sha256 instant clock x) = vs_effectiveAccessClass (in_evidence x)"
  "canonical_claim (claim_row_of sha256 instant clock x)"
  "evidence_of_claim (claim_row_of sha256 instant clock x) (span_row_of x)"
  "attests (claim_row_of sha256 instant clock x) (attestation_row_of sha256 x i)"
  "attested_span (attestation_row_of sha256 x i) (span_row_of x)"
  "sp_access_class (span_row_of x) = vs_effectiveAccessClass (in_evidence x)"
  "claim_coordinate (claim_row_of sha256 instant clock x) =
     (uuid_column (in_tenantId x), uuid_column (in_workspaceId x), uuid_column (vs_spaceId (in_evidence x)),
      vs_subjectType (in_evidence x), uuid_column (vs_subjectId (in_evidence x)), in_predicate x)"
  by (simp_all add: claim_row_of_def span_row_of_def attestation_row_of_def Let_def canonical_claim_def
      evidence_of_claim_def attests_def attested_span_def claim_coordinate_def)

lemma insertEvidenceAndClaim_effect:
  assumes "insertEvidenceAndClaim sha256 instant clock x s = Inr (u, t)"
  shows "\<exists>as. t = add_claim (span_row_of x) (claim_row_of sha256 instant clock x) as s \<and>
    uuid_column (in_claimId x) \<notin> tc_id ` set (lg_claims s) \<and>
    (if in_predicate x = PrimaryObjective then \<exists>i. as = [attestation_row_of sha256 x i] else as = [])"
  using assms unfolding insertEvidenceAndClaim_def
  by (cases s; intro exI[of _ "case in_supportAttestationId x of None \<Rightarrow> [] | Some i \<Rightarrow> [attestation_row_of sha256 x i]"])
     (auto simp: op_simps add_claim_def split: if_splits option.splits)

text \<open>A claim may be proposed when its subject is an initiative and no proposal is open there, or when
  it is not about a primary objective.\<close>

lemma insertEvidenceAndClaim_proposes:
  assumes ins: "insertEvidenceAndClaim sha256 instant clock x s = Inr (u, t)"
    and slot: "in_predicate x = PrimaryObjective \<Longrightarrow> vs_subjectType (in_evidence x) = InitiativeSubject \<and>
      (\<forall>c\<in>set (lg_claims s). open_objective c \<longrightarrow>
         claim_coordinate c \<noteq> claim_coordinate (claim_row_of sha256 instant clock x))"
  shows "\<exists>as. proposable (span_row_of x) (claim_row_of sha256 instant clock x) as s \<and>
    t = add_claim (span_row_of x) (claim_row_of sha256 instant clock x) as s"
proof -
  obtain as where as: "t = add_claim (span_row_of x) (claim_row_of sha256 instant clock x) as s"
      "uuid_column (in_claimId x) \<notin> tc_id ` set (lg_claims s)"
      "if in_predicate x = PrimaryObjective then \<exists>i. as = [attestation_row_of sha256 x i] else as = []"
    using insertEvidenceAndClaim_effect[OF ins] by blast
  have "proposable (span_row_of x) (claim_row_of sha256 instant clock x) as s"
    unfolding proposable_def using as(2,3) slot by (auto split: if_splits)
  then show ?thesis using as(1) by blast
qed

lemma recovery_row_of_simps [simp]:
  "rc_predecessor_claim_id (recovery_row_of instant x) = uuid_column (pt_predecessorClaimId x)"
  "rc_disposition (recovery_row_of instant x) = pt_disposition x"
  "rc_successor_claim_id (recovery_row_of instant x) = map_option uuid_column (pt_successorClaimId x)"
  by (simp_all add: recovery_row_of_def)

lemma update_where_cong: "(\<And>x. x \<in> set xs \<Longrightarrow> P x = Q x) \<Longrightarrow> (\<And>x. x \<in> set xs \<Longrightarrow> P x \<Longrightarrow> f x = g x) \<Longrightarrow>
    update_where P f xs = update_where Q g xs"
  by (auto simp: update_where_def)

lemma terminalizeProposal_effect:
  assumes ok: "claims_ok s" and run: "terminalizePrimaryObjectiveProposal instant x s = Inr (u, t)"
  shows "\<exists>p. endable (recovery_row_of instant x) p s \<and> ends_proposal x p \<and>
    t = end_proposal (instant (pt_timestamp x)) (recovery_row_of instant x) s"
proof -
  let ?r = "recovery_row_of instant x"
  let ?f = "\<lambda>c. c\<lparr>tc_status := ended_status (pt_disposition x), tc_version := 2, tc_updated_at := instant (pt_timestamp x)\<rparr>"
  have f: "?f = end_claim (ended_status (rc_disposition ?r)) (instant (pt_timestamp x))"
    by (simp add: end_claim_def fun_eq_iff)
  have one: "length (filter (ends_proposal x) (lg_claims s)) = 1"
    and t: "t = lg_recoveries_update (\<lambda>rows. rows @ [?r]) (lg_claims_update (update_where (ends_proposal x) ?f) s)"
    using run unfolding terminalizePrimaryObjectiveProposal_def
    by (auto simp: op_simps)
  obtain p where "filter (ends_proposal x) (lg_claims s) = [p]"
    using one by (metis One_nat_def length_0_conv length_Suc_conv)
  then have p: "p \<in> set (lg_claims s)" "ends_proposal x p"
    by (metis filter_eq_Cons_iff in_set_conv_decomp)+
  have e: "endable ?r p s" using p by (simp add: endable_def ends_proposal_def objective_claim_def open_objective_def)
  have "update_where (ends_proposal x) ?f (lg_claims s) =
      update_where (\<lambda>c. tc_id c = rc_predecessor_claim_id ?r) ?f (lg_claims s)"
  proof (rule update_where_cong)
    fix c assume "c \<in> set (lg_claims s)"
    then show "ends_proposal x c = (tc_id c = rc_predecessor_claim_id ?r)"
      using p claim_by_id[OF ok, of c p] by (auto simp: ends_proposal_def)
  qed simp
  then have "t = end_proposal (instant (pt_timestamp x)) ?r s" unfolding t end_proposal_def f by simp
  then show ?thesis using e p(2) by blast
qed

section \<open>Facts\<close>

lemma op_each_insert:
  assumes "op_each (\<lambda>i. insert_unique lg_fact_claims lg_fact_claims_update k (g i)) is s = Inr (us, t)"
  shows "t = lg_fact_claims_update (\<lambda>rows. rows @ map g is) s"
  using assms
proof (induction "is" arbitrary: s us)
  case (Cons i js)
  obtain vs where "op_each (\<lambda>i. insert_unique lg_fact_claims lg_fact_claims_update k (g i)) js
      (lg_fact_claims_update (\<lambda>rows. rows @ [g i]) s) = Inr (vs, t)"
    using Cons.prems by (auto simp: op_simps)
  from Cons.IH[OF this] show ?case by simp
qed (simp add: op_simps)

lemma fact_row_of_columns:
  assumes "fact_row_of sha256 instant now newFact i d own = Inr f"
  shows "tf_id f = uuid_column (fa_id newFact)" "tf_tenant_id f = uuid_column (fa_tenantId newFact)"
    "tf_workspace_id f = uuid_column (fa_workspaceId newFact)" "tf_space_id f = uuid_column (fa_spaceId newFact)"
    "subject_string (tf_subject_type f) = fa_subjectType newFact" "tf_subject_id f = uuid_column (fa_subjectId newFact)"
    "predicate_string (tf_predicate f) = fa_predicate newFact"
    "tf_canonical_value_text f = fa_canonicalValue newFact" "tf_access_class f = fa_accessClass newFact"
    "tf_status f = CurrentFact" "tf_version f = 1" "canonical_fact f"
    "tf_last_causation_command_id f = uuid_column i"
proof -
  obtain ty p l where "column_value subject_string [ActivitySubject, InitiativeSubject] (fa_subjectType newFact) = Inr ty"
      "column_value predicate_string [ActivityOutcome, PrimaryObjective] (fa_predicate newFact) = Inr p"
      "lowering_columns d = Inr l"
    using assms unfolding fact_row_of_def by (auto simp: res_bind_Inr_iff)
  moreover from this have "subject_string ty = fa_subjectType newFact" "predicate_string p = fa_predicate newFact"
    by (auto simp: column_value_def ok_or_def split: option.splits if_splits)
  ultimately show "tf_id f = uuid_column (fa_id newFact)" "tf_tenant_id f = uuid_column (fa_tenantId newFact)"
    "tf_workspace_id f = uuid_column (fa_workspaceId newFact)" "tf_space_id f = uuid_column (fa_spaceId newFact)"
    "subject_string (tf_subject_type f) = fa_subjectType newFact" "tf_subject_id f = uuid_column (fa_subjectId newFact)"
    "predicate_string (tf_predicate f) = fa_predicate newFact"
    "tf_canonical_value_text f = fa_canonicalValue newFact" "tf_access_class f = fa_accessClass newFact"
    "tf_status f = CurrentFact" "tf_version f = 1" "canonical_fact f"
    "tf_last_causation_command_id f = uuid_column i"
    using assms unfolding fact_row_of_def by (auto simp: canonical_fact_def)
qed

text \<open>The claims that a fact stands on, as the repository found them.\<close>

definition supports :: "accepted_fact \<Rightarrow> fact_row \<Rightarrow> ledger \<Rightarrow> bool" where
  "supports newFact f s \<longleftrightarrow> fa_supportingClaimIds newFact \<noteq> [] \<and> distinct (fa_supportingClaimIds newFact) \<and>
     (\<forall>i\<in>set (fa_supportingClaimIds newFact). \<exists>c\<in>set (lg_claims s).
        tc_id c = i \<and> tc_status c = Proposed \<and> agrees f c)"

lemma insertAcceptedFact_effect:
  assumes ok: "claims_ok s"
    and run: "insertAcceptedFact sha256 instant now newFact i d own s = Inr (u, t)"
    and row: "fact_row_of sha256 instant now newFact i d own = Inr f"
    and sup: "supports newFact f s"
  shows "tf_id f \<notin> tf_id ` set (lg_facts s) \<and>
    t = add_fact (if own then now else instant (fa_createdAt newFact)) f (fa_supportingClaimIds newFact) s"
proof -
  let ?ids = "fa_supportingClaimIds newFact" and ?time = "if own then now else instant (fa_createdAt newFact)"
  have new: "\<forall>g\<in>set (lg_facts s). tf_id g \<noteq> tf_id f"
    and t: "t = lg_claims_update (update_where (accepts_claim newFact) (accept_claim ?time))
      (lg_fact_claims_update (\<lambda>rows. rows @ map (fact_claim_row_of newFact) ?ids) (lg_facts_update (\<lambda>rows. rows @ [f]) s))"
    using run row unfolding insertAcceptedFact_def by (auto simp: op_simps dest!: op_each_insert)
  note f = fact_row_of_columns[OF row]
  have claim: "\<exists>c\<in>set (lg_claims s). tc_id c = i \<and> tc_status c = Proposed \<and> agrees f c \<and> lower i" if "i \<in> set ?ids" for i
    using that sup ok unfolding supports_def claims_ok_def claim_ok_def canonical_claim_def by fast
  have "map (fact_claim_row_of newFact) ?ids = map (support_row f) ?ids"
    using claim f by (auto simp: fact_claim_row_of_def support_row_def lower_def)
  moreover have "update_where (accepts_claim newFact) (accept_claim ?time) (lg_claims s) =
      update_where (\<lambda>c. tc_id c \<in> set ?ids) (accept_claim ?time) (lg_claims s)"
  proof (rule update_where_cong)
    have ids: "set (map uuid_column ?ids) = set ?ids" using claim unfolding lower_def by force
    fix c assume c: "c \<in> set (lg_claims s)"
    show "accepts_claim newFact c = (tc_id c \<in> set ?ids)"
    proof
      assume "tc_id c \<in> set ?ids"
      then obtain d where "d \<in> set (lg_claims s)" "tc_id d = tc_id c" "tc_status d = Proposed" "agrees f d"
        using claim by blast
      then have "tc_status c = Proposed" "agrees f c" using claim_by_id[OF ok c] by metis+
      then show "accepts_claim newFact c" using \<open>tc_id c \<in> set ?ids\<close> f ids
        by (simp add: accepts_claim_def named_claim_def agrees_def claim_coordinate_def fact_coordinate_def)
    qed (use ids in \<open>simp add: accepts_claim_def named_claim_def\<close>)
  qed simp
  ultimately have "t = add_fact ?time f ?ids s" unfolding t add_fact_def by (cases s) simp
  then show ?thesis using new by force
qed

text \<open>Then the fact may be accepted if there is no other current one.\<close>

lemma insertAcceptedFact_accepts:
  assumes ok: "claims_ok s"
    and run: "insertAcceptedFact sha256 instant now newFact i d own s = Inr (u, t)"
    and row: "fact_row_of sha256 instant now newFact i d own = Inr f"
    and sup: "supports newFact f s"
    and free: "\<forall>g\<in>set (lg_facts s). tf_status g = CurrentFact \<longrightarrow> fact_coordinate g \<noteq> fact_coordinate f"
  shows "acceptable f (fa_supportingClaimIds newFact) s \<and>
    t = add_fact (if own then now else instant (fa_createdAt newFact)) f (fa_supportingClaimIds newFact) s"
proof -
  note e = insertAcceptedFact_effect[OF ok run row sup]
  have "acceptable f (fa_supportingClaimIds newFact) s"
    unfolding acceptable_def using e sup free fact_row_of_columns[OF row] by (simp add: supports_def)
  then show ?thesis using e by blast
qed

lemma terminalizePrelockedFact_effect:
  assumes ok: "facts_ok s" and run: "terminalizePrelockedFact now tg st i s = Inr (u, t)"
    and e: "le_predecessor_fact_id e = ft_factId tg" "le_to_status e = st" "le_causation_command_id e = uuid_column i"
  shows "\<exists>f\<in>set (lg_facts s). ends_fact tg f \<and> tf_id f = ft_factId tg \<and> t = end_current now e s"
proof -
  have one: "length (filter (ends_fact tg) (lg_facts s)) = 1"
    and ids: "map tf_id (filter (ends_fact tg) (lg_facts s)) = [ft_factId tg]"
    and t: "t = lg_facts_update (update_where (ends_fact tg) (end_fact now st i)) s"
    using run unfolding terminalizePrelockedFact_def by (auto simp: op_simps)
  obtain f where "filter (ends_fact tg) (lg_facts s) = [f]"
    using one by (metis One_nat_def length_0_conv length_Suc_conv)
  then have f: "f \<in> set (lg_facts s)" "ends_fact tg f" "tf_id f = ft_factId tg"
    using ids by (metis filter_eq_Cons_iff in_set_conv_decomp, metis filter_eq_Cons_iff, simp)
  have "update_where (ends_fact tg) (end_fact now st i) (lg_facts s) =
      update_where (\<lambda>f. tf_id f = le_predecessor_fact_id e) (end_fact now (le_to_status e) (le_causation_command_id e)) (lg_facts s)"
  proof (rule update_where_cong)
    fix g assume "g \<in> set (lg_facts s)"
    then show "ends_fact tg g = (tf_id g = le_predecessor_fact_id e)"
      using f e(1) fact_by_id[OF ok, of g f] by (auto simp: ends_fact_def fact_of_target_def)
  qed (simp add: e end_fact_def)
  then have "t = end_current now e s" unfolding t end_current_def by (cases s) simp
  then show ?thesis using f by blast
qed

end
