(* ===== verification/Truth_Refinement.thy ===== *)
theory Truth_Refinement
  imports  Truth_Effects
begin

text \<open>
  The commands of the truth ledger refine its specification: a command that runs to its end leaves
  the ledger alone or takes one of the steps of \<open>Ledger_Spec\<close>, under its own command record, with one
  audit event and one notification.
\<close>

section \<open>The work of a command\<close>

definition works :: "jstr \<Rightarrow> ledger \<Rightarrow> ledger \<Rightarrow> bool" where
  "works i s t \<longleftrightarrow> truth_step s t \<and> lg_commands t = lg_commands s \<and> lg_audit t = lg_audit s \<and> lg_outbox t = lg_outbox s \<and>
     (\<forall>f\<in>set (lg_facts t). tf_last_causation_command_id f = i \<or>
        tf_last_causation_command_id f \<in> tf_last_causation_command_id ` set (lg_facts s))"

definition committed :: "bus_env \<Rightarrow> call \<Rightarrow> b2_result \<Rightarrow> ledger \<Rightarrow> ledger \<Rightarrow> bool" where
  "committed env c result s t \<longleftrightarrow>
     truth_step s t \<and> receipt (reservation_of env c) result s t \<and> caused t"

lemma changed_books [simp]:
  "lg_commands (add_claim sp c as s) = lg_commands s" "lg_audit (add_claim sp c as s) = lg_audit s"
  "lg_outbox (add_claim sp c as s) = lg_outbox s" "lg_commands (end_proposal now r s) = lg_commands s"
  "lg_audit (end_proposal now r s) = lg_audit s" "lg_outbox (end_proposal now r s) = lg_outbox s"
  "lg_commands (add_fact now f ids s) = lg_commands s" "lg_audit (add_fact now f ids s) = lg_audit s"
  "lg_outbox (add_fact now f ids s) = lg_outbox s" "lg_commands (end_current now e s) = lg_commands s"
  "lg_audit (end_current now e s) = lg_audit s" "lg_outbox (end_current now e s) = lg_outbox s"
  "lg_commands (add_event e s) = lg_commands s" "lg_audit (add_event e s) = lg_audit s"
  "lg_outbox (add_event e s) = lg_outbox s"
  by (simp_all add: add_claim_def end_proposal_def add_fact_def end_current_def add_event_def)

lemma caused_receipt:
  assumes "caused s" and r: "receipt input result s t"
    and f: "\<forall>f\<in>set (lg_facts t). tf_last_causation_command_id f = ri_id input \<or>
      tf_last_causation_command_id f \<in> tf_last_causation_command_id ` set (lg_facts s)"
  shows "caused t"
proof -
  let ?i = "ri_id input"
  obtain row a e where t: "lg_commands t = lg_commands s @ [row]" "lg_audit t = lg_audit s @ [a]"
      "lg_outbox t = lg_outbox s @ [pending_row e]" "ci_id (cr_identity row) = ?i" "cr_state row = CompletedCommand"
      "au_causation_command_id a = ?i" "ei_causation_command_id e = ?i"
    using r unfolding receipt_def Let_def by blast
  have ids: "command_ids t = insert ?i (command_ids s)" using t by (simp add: command_ids_def)
  have facts: "tf_last_causation_command_id f \<in> command_ids t" if "f \<in> set (lg_facts t)" for f
    using f that assms(1) ids by (auto simp: caused_def)
  have "ob_event (pending_row e) = e" by (simp add: pending_row_def)
  then show ?thesis using assms(1) t facts unfolding caused_def ids by (auto simp: ids)
qed

lemma work_committed:
  assumes ok: "caused s" and begun: "begun env c s s1" and work: "works (fresh_id env command_draw) s1 s2"
    and wrote: "writeAuditAndOutbox env c (fresh_id env command_draw) ch s2 = Inr (u, s3)"
    and finished: "completeCommand env c (fresh_id env command_draw) rt (ce_resourceId ch) result s3 = Inr (v, t)"
  shows "committed env c result s t"
proof -
  have r: "books_only s2 t" "receipt (reservation_of env c) result s t"
    using recorded[OF ok begun _ _ _ wrote finished] work by (simp_all add: works_def)
  have "truth_step s t"
    using truth_step_then_books[OF truth_step_after_books[OF begun_books[OF begun]] r(1)] work
    by (simp add: works_def)
  moreover have "caused t"
    using caused_receipt[OF ok r(2)] work books_tables(4)[OF r(1)] books_tables(4)[OF begun_books[OF begun]]
    by (simp add: works_def)
  ultimately show ?thesis using r(2) by (simp add: committed_def)
qed

section \<open>What the checks establish\<close>

lemma getSubjectScope_named:
  "getSubjectScope wd tenantId workspaceId subjectType subjectId = Inr sc \<Longrightarrow>
     ss_subjectType sc = subjectType \<and> ss_subjectId sc = subjectId"
  by (auto simp: getSubjectScope_def split: list.splits)

lemma locked_subject_Inr:
  "locked_subject env c ref s = Inr (subject, t) \<Longrightarrow> t = s \<and> ss_spaceId subject = ca_reservationSpaceId c \<and>
     ss_subjectType subject = sr_type ref \<and> ss_subjectId subject = sr_id ref"
  unfolding locked_subject_def by (auto simp: op_simps dest!: getSubjectScope_named)

lemma parse_subject_value: "parseSubject (subject_value x) = Some y \<Longrightarrow> y = x"
  by (cases x) (auto simp: parseSubject_def subject_value_def bind_Some_iff accept_simps requireEnum_Some_iff
      dest: injD[OF subject_string_inj])

lemma verify_span_Inr:
  assumes "verify_span env wd c subject e s = Inr (v, t)"
  shows "t = s \<and> vs_subjectType v = sr_type subject \<and> vs_subjectId v = sr_id subject"
proof -
  let ?in = "JObj (object_of [(''subject'', subject_value subject), (''evidence'', evidence_value e)])"
  obtain ad where "admit (be_nfc env) (be_sha256 env) ad ?in = Inr v" "t = s"
    using assms unfolding verify_span_def by (auto simp: op_simps res_bind_Inr_iff)
  moreover from this obtain subject' c' sn where p: "parseAdmissionCandidate ?in = Some (subject', c')"
      "verifySnapshot (be_nfc env) (be_sha256 env) sn (ad_tenantId ad) (ad_workspaceId ad) subject' c' = Some v"
    by (elim admit_verified)
  moreover have "subject' = subject"
    using p(1) parse_subject_value by (auto simp: parseAdmissionCandidate_def bind_Some_iff)
  moreover have "vs_subjectType v = sr_type subject'" "vs_subjectId v = sr_id subject'"
    by (rule verifySnapshot_parts[OF p(2)], assumption)+
  ultimately show ?thesis by blast
qed

section \<open>claim.create\<close>

lemma proposal_slot_Inr:
  assumes "proposal_slot env c p subject s = Inr (u, t)"
  shows "t = s \<and> sr_type (cc_subject p) = allowed_subject (as_predicate (cc_assertion p)) \<and>
    (as_predicate (cc_assertion p) = PrimaryObjective \<longrightarrow> (\<forall>c'\<in>set (lg_claims s).
       objective_claim (sx_tenantId (ca_context c)) (sx_workspaceId (ca_context c)) (ss_spaceId subject)
         (ss_subjectId subject) c' \<longrightarrow> tc_status c' \<noteq> Proposed))"
proof -
  let ?p = "as_predicate (cc_assertion p)"
  obtain d where d: "resolvePredicateDefinition (be_nfc env) (JStr (predicate_string ?p))
      (JStr (subject_string (sr_type (cc_subject p)))) = Some d"
    and rest: "(if pd_proposalSlotPolicy d = SingleOpen
     then (case cc_generation p of
         None \<Rightarrow> op_fail (CommandError B2CommandInvariantError)
       | Some g \<Rightarrow> lockPrimaryObjectiveProposalSlot (sx_tenantId (ca_context c)) (sx_workspaceId (ca_context c))
           (ss_spaceId subject) (ss_subjectId subject) g)
     else op_return ()) s = Inr (u, t)"
    using assms unfolding proposal_slot_def op_bind_Inr op_lift_Inr by (auto simp: ok_or_def split: option.splits)
  have "d = registry (be_nfc env) ?p" "sr_type (cc_subject p) = allowed_subject ?p"
    using d by (auto simp: resolvePredicateDefinition_Some_iff dest: injD[OF predicate_string_inj] injD[OF subject_string_inj])
  then show ?thesis using rest
    by (cases ?p) (auto simp: lockPrimaryObjectiveProposalSlot_def op_simps list_ex_iff split: option.splits)
qed

lemma claim_row_at_slot:
  assumes "tc_status c' = Proposed" "tc_predicate c' = PrimaryObjective" "claim_coordinate c' = claim_coordinate d"
    "claim_coordinate d = (uuid_column tenantId, uuid_column workspaceId, uuid_column spaceId, InitiativeSubject,
       uuid_column subjectId, PrimaryObjective)"
  shows "objective_claim tenantId workspaceId spaceId subjectId c'"
  using assms by (simp add: claim_coordinate_def objective_claim_def)

lemma claim_insert_of_simps [simp]:
  "in_predicate (claim_insert_of env c i at a k vf vt oa v) = as_predicate a"
  "in_evidence (claim_insert_of env c i at a k vf vt oa v) = v"
  "in_tenantId (claim_insert_of env c i at a k vf vt oa v) = sx_tenantId (ca_context c)"
  "in_workspaceId (claim_insert_of env c i at a k vf vt oa v) = sx_workspaceId (ca_context c)"
  "in_claimId (claim_insert_of env c i at a k vf vt oa v) = fresh_id env resource_draw"
  by (simp_all add: claim_insert_of_def)

lemma works_propose:
  assumes "proposable sp c as s" "t = add_claim sp c as s"
  shows "works i s t"
  unfolding works_def using assms truth_step.propose[OF assms(1) books_only_refl] by (auto simp: changed_tables)

lemma create_claim_committed:
  assumes ok: "ledger_ok s" "caused s" and run: "execute_create_claim env c p s = Inr (result, t)"
  shows "t = s \<or> committed env c result s t"
proof -
  obtain subject verified reservation sa sb s1 where
    run': "locked_subject env c (cc_subject p) s = Inr (subject, sa)"
      "verify_span env (be_world env) c (cc_subject p) (cc_evidence p) sa = Inr (verified, sb)"
      "vs_spaceId verified = ss_spaceId subject" "reserveCommand env c sb = Inr (reservation, s1)" and
    rest: "(case reservation of
       ReplayedResult result \<Rightarrow> op_return result
     | FreshCommand commandId \<Rightarrow> create_claim_work env c p subject verified commandId) s1 = Inr (result, t)"
    using run unfolding execute_create_claim_def by (auto simp: op_simps)
  then have subject: "ss_subjectId subject = sr_id (cc_subject p)"
    and verified: "vs_subjectType verified = sr_type (cc_subject p)" "vs_subjectId verified = sr_id (cc_subject p)"
      "vs_spaceId verified = ss_spaceId subject"
    and reserved: "reserveCommand env c s = Inr (reservation, s1)"
    using locked_subject_Inr[OF run'(1)] verify_span_Inr[OF run'(2)] by simp_all
  show ?thesis
    using reserved ok(2)
  proof (cases rule: reserveCommand_effect)
    case (again command result')
    then show ?thesis using rest by (auto simp: op_simps)
  next
    case first
    let ?i = "fresh_id env command_draw"
    let ?x = "claim_insert_of env c ?i (create_attestation env p) (cc_assertion p) (cc_confidence p)
          (cc_validFrom p) (cc_validTo p) (cc_observedAt p) verified"
    let ?d = "claim_row_of (be_sha256 env) (be_instant env) (be_clock env) ?x"
    obtain s2 s3 u v w z rt ch where slot: "proposal_slot env c p subject s1 = Inr (u, s1)"
      and ins: "insertEvidenceAndClaim (be_sha256 env) (be_instant env) (be_clock env) ?x s1 = Inr (v, s2)"
      and wrote: "writeAuditAndOutbox env c ?i ch s2 = Inr (w, s3)"
      and finished: "completeCommand env c ?i rt (ce_resourceId ch) result s3 = Inr (z, t)"
      using rest first(1) proposal_slot_Inr[of env c p subject s1]
      by (auto simp: create_claim_work_def op_simps Let_def create_change_def)
    have coordinate: "claim_coordinate ?d = (uuid_column (sx_tenantId (ca_context c)),
        uuid_column (sx_workspaceId (ca_context c)), uuid_column (ss_spaceId subject), sr_type (cc_subject p),
        uuid_column (ss_subjectId subject), as_predicate (cc_assertion p))"
      using verified subject by simp
    have "sr_type (cc_subject p) = InitiativeSubject \<and> (\<forall>c'\<in>set (lg_claims s1). open_objective c' \<longrightarrow>
        claim_coordinate c' \<noteq> claim_coordinate ?d)" if "as_predicate (cc_assertion p) = PrimaryObjective"
    proof -
      have d: "claim_coordinate ?d = (uuid_column (sx_tenantId (ca_context c)),
          uuid_column (sx_workspaceId (ca_context c)), uuid_column (ss_spaceId subject), InitiativeSubject,
          uuid_column (ss_subjectId subject), PrimaryObjective)"
        using coordinate proposal_slot_Inr[OF slot] that by simp
      show ?thesis using proposal_slot_Inr[OF slot] that claim_row_at_slot[OF _ _ _ d]
        by (auto simp: open_objective_def)
    qed
    then have "in_predicate ?x = PrimaryObjective \<Longrightarrow> vs_subjectType (in_evidence ?x) = InitiativeSubject \<and>
        (\<forall>c'\<in>set (lg_claims s1). open_objective c' \<longrightarrow> claim_coordinate c' \<noteq> claim_coordinate ?d)"
      unfolding claim_insert_of_simps verified(1) by blast
    then obtain as where "proposable (span_row_of ?x) ?d as s1" "s2 = add_claim (span_row_of ?x) ?d as s1"
      using insertEvidenceAndClaim_proposes[OF ins] by blast
    then have "works ?i s1 s2" by (rule works_propose)
    then show ?thesis using work_committed[OF ok(2) first(2) _ wrote finished] by blast
  qed
qed

section \<open>Ending and reworking a proposal\<close>

lemma proposal_step_cases:
  assumes ok: "caused s" and run: "proposal_step env c ref predecessor action work s = Inr (result, t)"
  obtains "t = s"
    | subject s1 where "begun env c s s1" "work subject (fresh_id env command_draw) s1 = Inr (result, t)"
      "ss_subjectId subject = sr_id ref" "ss_spaceId subject = ca_reservationSpaceId c"
proof -
  obtain subject sa reservation s1 where
    subject: "locked_subject env c ref s = Inr (subject, sa)" and
    reserved: "reserveCommand env c sa = Inr (reservation, s1)" and
    rest: "(case reservation of
       ReplayedResult result \<Rightarrow>
         op_bind (authorize env (ca_context c) action (js ''claim'') (cl_claimId predecessor) True False) (\<lambda>_.
         op_return result)
     | FreshCommand commandId \<Rightarrow>
         op_bind (lockPrimaryObjectiveProposal (sx_tenantId (ca_context c)) (sx_workspaceId (ca_context c))
           (ss_spaceId subject) (ss_subjectId subject) (cl_claimId predecessor)
           (cl_expectedVersion predecessor)) (\<lambda>_.
         op_bind (authorize env (ca_context c) action (js ''claim'') (cl_claimId predecessor) True False) (\<lambda>_.
         work subject commandId))) s1 = Inr (result, t)"
    using run unfolding proposal_step_def by (auto simp: op_simps)
  note subject' = locked_subject_Inr[OF subject]
  then have "reserveCommand env c s = Inr (reservation, s1)" using reserved by simp
  then show thesis using ok
  proof (cases rule: reserveCommand_effect)
    case first
    then have "work subject (fresh_id env command_draw) s1 = Inr (result, t)"
      using rest by (auto simp: op_simps lockPrimaryObjectiveProposal_def)
    then show ?thesis using that(2)[of s1 subject] first subject' by blast
  qed (use rest that(1) in \<open>auto simp: op_simps\<close>)
qed

lemma proposal_end_of_simps [simp]:
  "pt_disposition (proposal_end_of env c i subject p su d r now) = d"
  "pt_successorClaimId (proposal_end_of env c i subject p su d r now) = su"
  by (simp_all add: proposal_end_of_def)

lemma works_withdraw:
  assumes "endable r p s" "rc_successor_claim_id r = None" "rc_disposition r \<noteq> Reworked" "t = end_proposal now r s"
  shows "works i s t"
  unfolding works_def using assms truth_step.withdraw[OF assms(1-3) books_only_refl] by (auto simp: changed_tables)

lemma withdraw_committed:
  assumes ok: "ledger_ok s" "caused s" and run: "execute_withdraw env c p s = Inr (result, t)"
  shows "t = s \<or> committed env c result s t"
  using ok(2) run[unfolded execute_withdraw_def]
proof (cases rule: proposal_step_cases)
  case (2 subject s1)
  let ?i = "fresh_id env command_draw"
  let ?x = "proposal_end_of env c ?i subject (wo_proposal p) None (disposition_of (wo_disposition p)) (wo_reasonCode p)
       (transactionTimestamp (be_clock env))"
  obtain s2 s3 v w z rt ch where
      ended: "terminalizePrimaryObjectiveProposal (be_instant env) ?x s1 = Inr (v, s2)"
    and wrote: "writeAuditAndOutbox env c ?i ch s2 = Inr (w, s3)"
    and finished: "completeCommand env c ?i rt (ce_resourceId ch) result s3 = Inr (z, t)"
    using 2(2) by (auto simp: withdraw_work_def op_simps Let_def withdraw_change_def)
  have "claims_ok s1" using ok(1) books_keep(1)[OF begun_books[OF 2(1)]] by (simp add: ledger_ok_def)
  from terminalizeProposal_effect[OF this ended] obtain q now where
    q: "endable (recovery_row_of (be_instant env) ?x) q s1" "s2 = end_proposal now (recovery_row_of (be_instant env) ?x) s1"
    by blast
  have "works ?i s1 s2" by (rule works_withdraw[OF q(1) _ _ q(2)]) (simp_all add: disposition_of_def)
  then show ?thesis using work_committed[OF ok(2) 2(1) _ wrote finished] by blast
qed simp

lemma end_proposal_frees:
  assumes ok: "claims_ok s" and r: "endable r p s"
    and c: "c \<in> set (lg_claims (end_proposal now r s))" "open_objective c"
  shows "claim_coordinate c \<noteq> claim_coordinate p"
proof -
  have "tc_status c = Proposed" using c(2) by (simp add: open_objective_def)
  then have "c \<in> set (lg_claims s)" "tc_id c \<noteq> tc_id p"
    using c(1) r ended_status_cases[of "rc_disposition r"]
    by (auto simp: changed_tables set_update_where end_claim_simps endable_def split: if_splits)
  then show ?thesis using ok r c(2) by (auto simp: claims_ok_def endable_def)
qed

lemma works_rework:
  assumes "endable r p s" "rc_successor_claim_id r = Some (tc_id c)" "rc_disposition r = Reworked"
    "proposable sp c as (end_proposal now r s)" "claim_coordinate c = claim_coordinate p"
    "t = add_claim sp c as (end_proposal now r s)"
  shows "works i s t"
  unfolding works_def using assms truth_step.rework[OF assms(1-5) books_only_refl] by (auto simp: changed_tables)

lemma rework_committed:
  assumes ok: "ledger_ok s" "caused s" and run: "execute_rework env c p s = Inr (result, t)"
    and initiative: "sr_type (ro_subject p) = InitiativeSubject"
  shows "t = s \<or> committed env c result s t"
  using ok(2) run[unfolded execute_rework_def]
proof (cases rule: proposal_step_cases)
  case (2 subject s1)
  let ?i = "fresh_id env command_draw"
  let ?x = "proposal_end_of env c ?i subject (ro_predecessor p) (Some (fresh_id env resource_draw)) Reworked
       (js ''reworked'') (transactionTimestamp (be_clock env))"
  let ?r = "recovery_row_of (be_instant env) ?x"
  let ?a = "\<lparr>as_predicate = PrimaryObjective, as_canonicalValue = as_canonicalValue (ro_assertion p),
           as_normalizedText = as_normalizedText (ro_assertion p)\<rparr>"
  obtain verified sa where verified: "verify_span env (be_world env) c (ro_subject p) (ro_evidence p) s1 = Inr (verified, sa)"
    and space: "vs_spaceId verified = ss_spaceId subject"
    and rest: "op_bind (terminalizePrimaryObjectiveProposal (be_instant env) ?x) (\<lambda>_.
     op_bind (insertEvidenceAndClaim (be_sha256 env) (be_instant env) (be_clock env)
       (claim_insert_of env c ?i (Some (fresh_id env attestation_draw)) ?a (ro_confidence p) None None None verified)) (\<lambda>_.
     op_bind (writeAuditAndOutbox env c ?i (rework_change env p (ss_spaceId subject))) (\<lambda>_.
     let result = ObjectiveReworked (cl_claimId (ro_predecessor p)) (fresh_id env resource_draw)
       (fresh_id env span_draw) (fresh_id env attestation_draw) (fresh_id env recovery_draw) in
     op_bind (completeCommand env c ?i (js ''claim'') (fresh_id env resource_draw) result) (\<lambda>_.
     op_return result)))) sa = Inr (result, t)"
    using 2(2) unfolding rework_work_def by (auto simp: op_simps)
  let ?y = "claim_insert_of env c ?i (Some (fresh_id env attestation_draw)) ?a (ro_confidence p) None None None verified"
  let ?d = "claim_row_of (be_sha256 env) (be_instant env) (be_clock env) ?y"
  have v: "sa = s1" "vs_subjectType verified = InitiativeSubject" "vs_subjectId verified = sr_id (ro_subject p)"
    using verify_span_Inr[OF verified] initiative by simp_all
  obtain s2 s2' s3 v w z ch rt where
      ended: "terminalizePrimaryObjectiveProposal (be_instant env) ?x s1 = Inr (v, s2)"
    and ins: "insertEvidenceAndClaim (be_sha256 env) (be_instant env) (be_clock env) ?y s2 = Inr (z, s2')"
    and wrote: "writeAuditAndOutbox env c ?i ch s2' = Inr (w, s3)"
    and finished: "completeCommand env c ?i rt (ce_resourceId ch) result s3 = Inr (z, t)"
    using rest v(1) by (auto simp: op_simps Let_def rework_change_def)
  have claims: "claims_ok s1" using ok(1) books_keep(1)[OF begun_books[OF 2(1)]] by (simp add: ledger_ok_def)
  from terminalizeProposal_effect[OF this ended] obtain q now where
    q: "endable ?r q s1" "ends_proposal ?x q" and s2: "s2 = end_proposal now ?r s1"
    by blast
  have d: "claim_coordinate ?d = claim_coordinate q"
    using q(2) v(2,3) space 2(3)
    by (simp add: ends_proposal_def objective_claim_def proposal_end_of_def claim_coordinate_def[of q])
  have "claims_ok s2" unfolding s2 by (rule claims_ok_end_proposal[OF claims])
  have free: "claim_coordinate c' \<noteq> claim_coordinate ?d" if "c' \<in> set (lg_claims s2)" "open_objective c'" for c'
    using end_proposal_frees[OF claims q(1)] that unfolding s2 d by blast
  have "in_predicate ?y = PrimaryObjective \<Longrightarrow> vs_subjectType (in_evidence ?y) = InitiativeSubject \<and>
        (\<forall>c'\<in>set (lg_claims s2). open_objective c' \<longrightarrow> claim_coordinate c' \<noteq> claim_coordinate ?d)"
    using free v(2) unfolding claim_insert_of_simps by blast
  then obtain as where "proposable (span_row_of ?y) ?d as s2" "s2' = add_claim (span_row_of ?y) ?d as s2"
    using insertEvidenceAndClaim_proposes[OF ins] by blast
  then have "works ?i s1 s2'" unfolding s2 using works_rework[OF q(1)] d by simp
  then show ?thesis using work_committed[OF ok(2) 2(1) _ wrote finished] by blast
qed simp

section \<open>fact.accept\<close>

lemma op_each_reads_all:
  assumes "\<And>x a s t. f x s = Inr (a, t) \<Longrightarrow> t = s \<and> Q x a" and "op_each f xs s = Inr (as, t)"
  shows "t = s \<and> list_all2 Q xs as"
proof -
  have "t = s \<and> list_all2 (\<lambda>x a. f x s = Inr (a, s)) xs as"
    by (rule op_each_reads[OF _ assms(2)]) (use assms(1) in blast)
  then show ?thesis using assms(1) by (auto elim: list_all2_mono)
qed

lemma loadClaims_Inr:
  assumes "loadClaimsForAcceptance wd tenantId workspaceId ids ex inc s = Inr (ps, t)"
  shows "t = s \<and> (\<forall>p\<in>set ps. pc_tenantId p = tenantId \<and> pc_workspaceId p = workspaceId \<and>
    pc_claim p \<in> set (lg_claims s) \<and> named_claim tenantId workspaceId ids (pc_claim p))"
  using assms by (auto simp: loadClaimsForAcceptance_def op_simps acceptance_rows_def)

lemma list_all2_memD1: "list_all2 R xs ys \<Longrightarrow> x \<in> set xs \<Longrightarrow> \<exists>y\<in>set ys. R x y"
  by (induction rule: list_all2_induct) auto

lemma list_all2_memD2: "list_all2 R xs ys \<Longrightarrow> y \<in> set ys \<Longrightarrow> \<exists>x\<in>set xs. R x y"
  by (induction rule: list_all2_induct) auto

text \<open>A fact constructed from claims as the repository found them stands on them.\<close>

lemma maxAccessClass_bound:
  assumes "maxAccessClass vs = Some m" "access_string k \<in> set vs"
  shows "k \<le> m"
proof -
  obtain cs where "vs = map access_string cs" "m = Max (set cs)"
    using assms(1) unfolding maxAccessClass_Some_iff by blast
  then show ?thesis using assms(2) by auto
qed

lemma construct_scope:
  assumes "constructAcceptedFact nfc input = Some f"
  shows "fa_workspaceId f = cm_workspaceId (hd (fi_claims input))" "fa_spaceId f = cm_spaceId (hd (fi_claims input))"
    "requireUuidV7 (JStr (fi_id input)) = Some (fa_id f)"
  using assms unfolding constructAcceptedFact_def Let_def by (auto simp: bind_Some_iff)

lemma admitted_claim_simps [simp]:
  "cm_id (admitted_claim p v) = tc_id (pc_claim p)" "cm_tenantId (admitted_claim p v) = pc_tenantId p"
  "cm_workspaceId (admitted_claim p v) = pc_workspaceId p" "cm_spaceId (admitted_claim p v) = tc_space_id (pc_claim p)"
  "cm_subjectType (admitted_claim p v) = subject_string (tc_subject_type (pc_claim p))"
  "cm_subjectId (admitted_claim p v) = tc_subject_id (pc_claim p)"
  "cm_predicate (admitted_claim p v) = predicate_string (tc_predicate (pc_claim p))"
  "cm_canonicalValue (admitted_claim p v) = tc_canonical_value_text (pc_claim p)"
  "cm_status (admitted_claim p v) = claim_status_string (tc_status (pc_claim p))"
  "cm_accessClass (admitted_claim p v) = access_string (tc_access_class (pc_claim p))"
  by (simp_all add: admitted_claim_def Let_def)

lemma claim_status_proposed: "claim_status_string st \<in> {js ''proposed'', js ''conflicted''} \<longleftrightarrow> st = Proposed"
  by (cases st) (simp_all add: js_def)

lemma constructed_supports:
  assumes con: "constructAcceptedFact nfc input = Some newFact"
    and claims: "list_all2 (\<lambda>p cl. \<exists>v. cl = admitted_claim p v) ps (fi_claims input)"
    and found: "\<forall>p\<in>set ps. pc_tenantId p = tenantId \<and> pc_workspaceId p = workspaceId \<and> pc_claim p \<in> set (lg_claims s) \<and>
      named_claim tenantId workspaceId ids (pc_claim p)"
    and ok: "claims_ok s"
    and row: "fact_row_of sha256 instant now newFact i d own = Inr f"
  shows "supports newFact f s \<and> (\<forall>p\<in>set ps. agrees f (pc_claim p)) \<and> ps \<noteq> []"
proof -
  have into: "\<exists>v. admitted_claim p v \<in> set (fi_claims input)" if "p \<in> set ps" for p
    using that list_all2_memD1[OF claims] by blast
  have onto: "\<exists>p\<in>set ps. \<exists>v. c = admitted_claim p v" if "c \<in> set (fi_claims input)" for c
    using that list_all2_memD2[OF claims] by blast
  obtain q where
    ne: "fi_claims input \<noteq> []" and
    check: "check_claims (registry nfc q) (hd (fi_claims input)) [] (fi_claims input) = Some ()" and
    ids: "fa_supportingClaimIds newFact = sort (map cm_id (fi_claims input))" and
    access: "maxAccessClass ([fi_subjectAccessClass input, fi_explicitPolicyAccessClass input] @
       concat (map (\<lambda>c. [cm_accessClass c, access_string (vs_effectiveAccessClass (cm_sourceSpan c))])
         (fi_claims input))) = Some (fa_accessClass newFact)" and
    fields: "fa_tenantId newFact = cm_tenantId (hd (fi_claims input))" "fa_subjectId newFact = cm_subjectId (hd (fi_claims input))"
      "fa_subjectType newFact = cm_subjectType (hd (fi_claims input))" "fa_predicate newFact = cm_predicate (hd (fi_claims input))"
      "fa_canonicalValue newFact = cm_canonicalValue (hd (fi_claims input))"
    by (rule construct_parts[OF con]) (rule that; simp)
  note scope = construct_scope[OF con]
  have distinct: "distinct (map cm_id (fi_claims input))" using check_claims_all[OF check] by simp
  have adm: "admissible_claim (hd (fi_claims input)) c" if "c \<in> set (fi_claims input)" for c
    using check_claims_all[OF check] that check_claim_admissible by blast
  have each: "tc_status (pc_claim p) = Proposed \<and> agrees f (pc_claim p)" if p: "p \<in> set ps" for p
  proof -
    obtain v where v: "admitted_claim p v \<in> set (fi_claims input)" using into p by blast
    then have c: "admissible_claim (hd (fi_claims input)) (admitted_claim p v)" by (rule adm)
    have "claim_ok (pc_claim p)" using ok found p by (auto simp: claims_ok_def)
    then have low: "uuid_column (tc_space_id (pc_claim p)) = tc_space_id (pc_claim p)"
        "uuid_column (tc_subject_id (pc_claim p)) = tc_subject_id (pc_claim p)"
      by (simp_all add: claim_ok_def canonical_claim_def lower_def)
    have named: "tc_tenant_id (pc_claim p) = uuid_column (pc_tenantId p)"
        "tc_workspace_id (pc_claim p) = uuid_column (pc_workspaceId p)"
      using found p by (simp_all add: named_claim_def)
    have same: "fa_tenantId newFact = pc_tenantId p" "fa_workspaceId newFact = pc_workspaceId p"
        "fa_spaceId newFact = tc_space_id (pc_claim p)" "fa_subjectId newFact = tc_subject_id (pc_claim p)"
        "fa_subjectType newFact = subject_string (tc_subject_type (pc_claim p))"
        "fa_predicate newFact = predicate_string (tc_predicate (pc_claim p))"
        "fa_canonicalValue newFact = tc_canonical_value_text (pc_claim p)"
      using c fields scope(1,2) by (simp_all add: admissible_claim_def claim_disagrees_def)
    have "tf_subject_type f = tc_subject_type (pc_claim p)" "tf_predicate f = tc_predicate (pc_claim p)"
      using same(5,6) fact_row_of_columns(5,7)[OF row]
      by (metis injD subject_string_inj, metis injD predicate_string_inj)
    then have "claim_coordinate (pc_claim p) = fact_coordinate f"
      using same named low fact_row_of_columns[OF row] by (simp add: claim_coordinate_def fact_coordinate_def)
    moreover have "tc_access_class (pc_claim p) \<le> tf_access_class f"
      using maxAccessClass_bound[OF access, of "tc_access_class (pc_claim p)"] v fact_row_of_columns(9)[OF row]
      by force
    moreover have "tc_status (pc_claim p) = Proposed"
      using c unfolding admissible_claim_def admitted_claim_simps claim_status_proposed by blast
    ultimately show ?thesis using same(7) fact_row_of_columns(8)[OF row] by (simp add: agrees_def)
  qed
  have "fa_supportingClaimIds newFact \<noteq> []"
    using ne unfolding ids by (metis list.map_disc_iff set_empty set_sort)
  then have "supports newFact f s"
    using distinct each found onto unfolding supports_def ids by fastforce
  then show ?thesis using each ne claims by (auto simp: list_all2_conv_all_nth)
qed


lemma first_header_Inr: "first_header subject headers s = Inr (d, t) \<Longrightarrow> t = s"
  by (auto simp: first_header_def op_simps)

lemma authorize_support_Inr: "authorize_support env c i a s = Inr (u, t) \<Longrightarrow> t = s"
  by (auto simp: authorize_support_def op_simps)

lemma requireConfirmations_Inr: "requirePrimaryObjectiveSupportConfirmations t' w ids s = Inr (u, t) \<Longrightarrow> t = s"
  by (auto simp: requirePrimaryObjectiveSupportConfirmations_def op_simps)

lemma readHeaders_Inr: "readClaimSupportHeaders t' w ids s = Inr (r, t) \<Longrightarrow> t = s"
  by (auto simp: readClaimSupportHeaders_def op_simps)

lemma supported_claims_Inr:
  assumes "supported_claims env c p subject s = Inr (ps, t)"
  obtains d headers where "t = s" "list_all (matches_header d headers (af_claims p)) ps"
    "\<forall>f\<in>set (lg_facts s). at_coordinate (sx_tenantId (ca_context c)) (sx_workspaceId (ca_context c)) (sh_spaceId d)
       (sh_subjectType d) (sh_subjectId d) (sh_predicate d) f \<longrightarrow> tf_status f \<notin> {CurrentFact, ContestedFact}"
    "\<forall>p'\<in>set ps. pc_tenantId p' = sx_tenantId (ca_context c) \<and> pc_workspaceId p' = sx_workspaceId (ca_context c) \<and>
       pc_claim p' \<in> set (lg_claims s) \<and> named_claim (sx_tenantId (ca_context c)) (sx_workspaceId (ca_context c))
         (map cl_claimId (af_claims p)) (pc_claim p')"
proof -
  let ?ids = "map cl_claimId (af_claims p)" and ?t = "sx_tenantId (ca_context c)" and ?w = "sx_workspaceId (ca_context c)"
  obtain headers sa d sb sc us sd sf where
    q: "readClaimSupportHeaders ?t ?w ?ids s = Inr (headers, sa)" "first_header subject headers sa = Inr (d, sb)"
      "lockFirstAcceptanceSlot ?t ?w (sh_spaceId d) (sh_subjectType d) (sh_subjectId d) (sh_predicate d) sb = Inr ((), sc)"
      "op_each (\<lambda>h. authorize_support env c (sh_claimId h) (sh_sourceArtifactId h)) headers sc = Inr (us, sd)"
      "loadClaimsForAcceptance (be_world env) ?t ?w ?ids False False sd = Inr (ps, sf)"
      "list_all (matches_header d headers (af_claims p)) ps"
    and conf: "(if sh_subjectType d = InitiativeSubject \<and> sh_predicate d = PrimaryObjective
       then requirePrimaryObjectiveSupportConfirmations ?t ?w ?ids else op_return ()) sf = Inr ((), t)"
    using assms unfolding supported_claims_def Let_def op_bind_Inr op_catch_Inr op_require_Inr op_return_Inr
    by (elim exE conjE) simp
  have s: "sa = s" "sb = s" "sc = s" "sd = s" "sf = s" "t = s"
    using readHeaders_Inr[OF q(1)] first_header_Inr[OF q(2)] q(3) loadClaims_Inr[OF q(5)] conf
      op_each_reads_all[OF _ q(4), where Q = "\<lambda>_ _. True"] authorize_support_Inr requireConfirmations_Inr
    by (auto simp: lockFirstAcceptanceSlot_def op_simps split: if_splits)
  show thesis
  proof (rule that)
    show "\<forall>f\<in>set (lg_facts s). at_coordinate ?t ?w (sh_spaceId d) (sh_subjectType d) (sh_subjectId d) (sh_predicate d) f \<longrightarrow>
        tf_status f \<notin> {CurrentFact, ContestedFact}"
      using q(3) s by (auto simp: lockFirstAcceptanceSlot_def op_simps filter_empty_conv)
  qed (use s q(6) loadClaims_Inr[OF q(5)] in simp_all)
qed

lemma admit_persisted_Inr: "admit_persisted env c subject p s = Inr (cl, t) \<Longrightarrow> t = s \<and> (\<exists>v. cl = admitted_claim p v)"
  by (auto simp: admit_persisted_def op_simps dest!: verify_span_Inr)

lemma works_accept:
  assumes "acceptable f ids s" "t = add_fact now f ids s" "tf_last_causation_command_id f = i"
  shows "works i s t"
  unfolding works_def using assms truth_step.accept[OF assms(1) books_only_refl] by (auto simp: changed_tables)

lemma accept_committed:
  assumes ok: "ledger_ok s" "caused s" and run: "execute_accept env c p s = Inr (result, t)"
  shows "t = s \<or> committed env c result s t"
proof -
  obtain subject sa reservation s1 where
    run': "locked_subject env c (af_subject p) s = Inr (subject, sa)" "reserveCommand env c sa = Inr (reservation, s1)" and
    rest: "(case reservation of
       ReplayedResult result \<Rightarrow> op_return result
     | FreshCommand commandId \<Rightarrow> accept_work env c p subject commandId) s1 = Inr (result, t)"
    using run unfolding execute_accept_def by (auto simp: op_simps)
  then have reserved: "reserveCommand env c s = Inr (reservation, s1)" using locked_subject_Inr[OF run'(1)] by simp
  show ?thesis
    using reserved ok(2)
  proof (cases rule: reserveCommand_effect)
    case (again command result')
    then show ?thesis using rest by (auto simp: op_simps)
  next
    case first
    let ?i = "fresh_id env command_draw"
    obtain ps sb cls sc newFact sd u s3 w z where
        supported: "supported_claims env c p subject s1 = Inr (ps, sb)"
      and admitted: "op_each (admit_persisted env c (af_subject p)) ps sb = Inr (cls, sc)"
      and con: "constructAcceptedFact (be_nfc env) (accept_input env c p subject cls) = Some newFact"
      and ins: "insertAcceptedFact (be_sha256 env) (be_instant env) (be_now env) newFact ?i
         (fa_confidenceDecision newFact) False sc = Inr (u, sd)"
      and wrote: "writeAuditAndOutbox env c ?i (accept_change newFact) sd = Inr (w, s3)"
      and finished: "completeCommand env c ?i (js ''accepted_fact'') (fa_id newFact) result s3 = Inr (z, t)"
      using rest first(1) unfolding accept_work_def record_acceptance_def
      by (auto simp: op_simps Let_def ok_or_def split: option.splits)
    obtain d headers where sup: "sb = s1" "list_all (matches_header d headers (af_claims p)) ps"
        "\<forall>f\<in>set (lg_facts s1). at_coordinate (sx_tenantId (ca_context c)) (sx_workspaceId (ca_context c)) (sh_spaceId d)
           (sh_subjectType d) (sh_subjectId d) (sh_predicate d) f \<longrightarrow> tf_status f \<notin> {CurrentFact, ContestedFact}"
        "\<forall>p'\<in>set ps. pc_tenantId p' = sx_tenantId (ca_context c) \<and> pc_workspaceId p' = sx_workspaceId (ca_context c) \<and>
           pc_claim p' \<in> set (lg_claims s1) \<and> named_claim (sx_tenantId (ca_context c)) (sx_workspaceId (ca_context c))
             (map cl_claimId (af_claims p)) (pc_claim p')"
      by (rule supported_claims_Inr[OF supported])
    have adm: "sc = s1" "list_all2 (\<lambda>p cl. \<exists>v. cl = admitted_claim p v) ps cls"
      using op_each_reads_all[OF _ admitted, where Q = "\<lambda>p cl. \<exists>v. cl = admitted_claim p v"] admit_persisted_Inr sup(1)
      by blast+
    have claims: "claims_ok s1" using ok(1) books_keep(1)[OF begun_books[OF first(2)]] by (simp add: ledger_ok_def)
    obtain f where row: "fact_row_of (be_sha256 env) (be_instant env) (be_now env) newFact ?i
        (fa_confidenceDecision newFact) False = Inr f"
      using ins unfolding insertAcceptedFact_def by (auto simp: op_simps)
    have input: "fi_claims (accept_input env c p subject cls) = cls" by (simp add: accept_input_def)
    have st: "supports newFact f s1" "\<forall>p\<in>set ps. agrees f (pc_claim p)" "ps \<noteq> []"
      using constructed_supports[OF con _ sup(4) claims row] adm(2) unfolding input by blast+
    then obtain p' where p': "p' \<in> set ps" "agrees f (pc_claim p')" by (cases ps) auto
    have "matches_header d headers (af_claims p) p'" using sup(2) p'(1) by (simp add: list_all_iff)
    then have d: "tc_space_id (pc_claim p') = sh_spaceId d" "tc_subject_type (pc_claim p') = sh_subjectType d"
        "tc_subject_id (pc_claim p') = sh_subjectId d" "tc_predicate (pc_claim p') = sh_predicate d"
      by (auto simp: matches_header_def Let_def split: option.splits)
    have named: "named_claim (sx_tenantId (ca_context c)) (sx_workspaceId (ca_context c)) (map cl_claimId (af_claims p)) (pc_claim p')"
      and low: "canonical_claim (pc_claim p')"
      using sup(4) p'(1) claims by (auto simp: claims_ok_def claim_ok_def)
    have "fact_coordinate g \<noteq> fact_coordinate f" if "g \<in> set (lg_facts s1)" "tf_status g = CurrentFact" for g
    proof
      assume "fact_coordinate g = fact_coordinate f"
      then have "fact_coordinate g = claim_coordinate (pc_claim p')" using p'(2) by (simp add: agrees_def)
      then have "at_coordinate (sx_tenantId (ca_context c)) (sx_workspaceId (ca_context c)) (sh_spaceId d)
           (sh_subjectType d) (sh_subjectId d) (sh_predicate d) g"
        using d named low by (simp add: at_coordinate_def fact_coordinate_def claim_coordinate_def named_claim_def
            canonical_claim_def lower_def)
      then show False using sup(3) that by blast
    qed
    then have "acceptable f (fa_supportingClaimIds newFact) s1 \<and>
        sd = add_fact (be_instant env (fa_createdAt newFact)) f (fa_supportingClaimIds newFact) s1"
      using insertAcceptedFact_accepts[OF claims ins[unfolded adm(1)] row st(1)] by simp
    moreover have "tf_last_causation_command_id f = ?i"
      using fact_row_of_columns(13)[OF row] first(2) by (simp add: begun_def lower_def)
    ultimately have "works ?i s1 sd" using works_accept by blast
    moreover have "fa_id newFact = ce_resourceId (accept_change newFact)" by (simp add: accept_change_def)
    ultimately show ?thesis using work_committed[OF ok(2) first(2) _ wrote] finished by metis
  qed
qed

end
