(* ===== verification/Fact_Refinement.thy ===== *)
theory Fact_Refinement
  imports Truth_Refinement
begin

text \<open>
  The refinement, concluded: superseding and revoking facts, and the entry point of the command bus.
\<close>

section \<open>Locked targets\<close>

definition locked_target :: "ledger \<Rightarrow> targets \<Rightarrow> nat \<Rightarrow> fact_target \<Rightarrow> fact_row \<Rightarrow> bool" where
  "locked_target s mem i t g \<longleftrightarrow> g \<in> set (lg_facts s) \<and> tf_status g = CurrentFact \<and> (\<exists>sp w. t = target_of (g, sp, w)) \<and>
     i < length mem \<and> (\<exists>state. mem ! i = Some state \<and> pk_postAuthorizationTarget state = Some t)"

lemma target_of_simps [simp]:
  "ft_tenantId (target_of (g, sp, w)) = tf_tenant_id g" "ft_workspaceId (target_of (g, sp, w)) = tf_workspace_id g"
  "ft_spaceId (target_of (g, sp, w)) = tf_space_id g" "ft_factId (target_of (g, sp, w)) = tf_id g"
  "ft_subjectType (target_of (g, sp, w)) = tf_subject_type g" "ft_subjectId (target_of (g, sp, w)) = tf_subject_id g"
  "ft_predicate (target_of (g, sp, w)) = tf_predicate g" "ft_factAccessClass (target_of (g, sp, w)) = tf_access_class g"
  by (simp_all add: target_of_def)

lemma refresh_locks:
  assumes "refreshCurrentFactAfterAuthorization wd context mem i s = Inr ((t, mem'), s')"
  shows "s' = s \<and> (\<exists>g. locked_target s mem' i t g)"
proof -
  obtain state row rest where state: "requirePrelockedCurrentFact mem i = Inr state"
    and rows: "joined_facts wd (\<lambda>f. fact_of_target (pk_target state) f \<and> tf_version f = 1 \<and> tf_status f = CurrentFact)
      (\<lambda>_. True) s = row # rest"
    and t: "t = target_of row" "mem' = mem[i := Some (state\<lparr>pk_postAuthorizationTarget := Some (target_of row)\<rparr>)]" "s' = s"
    using assms unfolding refreshCurrentFactAfterAuthorization_def by (auto simp: op_simps)
  have row: "row \<in> set (joined_facts wd (\<lambda>f. fact_of_target (pk_target state) f \<and> tf_version f = 1 \<and>
      tf_status f = CurrentFact) (\<lambda>_. True) s)"
    unfolding rows by simp
  obtain g sp w where "row = (g, sp, w)" by (cases row)
  moreover have "i < length mem" using state by (auto simp: requirePrelockedCurrentFact_def split: if_splits)
  ultimately show ?thesis using row t by (auto simp: locked_target_def joined_facts_def)
qed

lemma post_authorization_target:
  "locked_target s mem i t g \<Longrightarrow> requirePostAuthorizationCurrentFact mem i = Inr (t', state) \<Longrightarrow> t' = t"
  by (auto simp: locked_target_def requirePostAuthorizationCurrentFact_def requirePrelockedCurrentFact_def
      res_bind_Inr_iff)

lemma lock_replacements_Inr:
  assumes "lockReplacementClaimsForSupersession wd mem i refs s = Inr ((ps, mem'), s')" "locked_target s mem i t g"
  shows "s' = s \<and> locked_target s mem' i t g \<and> (\<exists>ids. \<forall>p\<in>set ps. pc_tenantId p = ft_tenantId t \<and>
    pc_workspaceId p = ft_workspaceId t \<and> pc_claim p \<in> set (lg_claims s) \<and>
    named_claim (ft_tenantId t) (ft_workspaceId t) ids (pc_claim p))"
proof -
  obtain t' state where pre: "requirePostAuthorizationCurrentFact mem i = Inr (t', state)"
    using assms(1) unfolding lockReplacementClaimsForSupersession_def by (auto simp: op_simps)
  then have t': "t' = t" using post_authorization_target[OF assms(2)] by blast
  let ?ids = "sort (map cl_claimId refs)"
  obtain s1 s2 where load: "loadClaimsForAcceptance wd (ft_tenantId t) (ft_workspaceId t) ?ids True True s = Inr (ps, s1)"
    and conf: "(if objective_target t
       then guardLifecycleDatabaseOperation (requirePrimaryObjectiveSupportConfirmations (ft_tenantId t) (ft_workspaceId t) ?ids)
       else op_return ()) s1 = Inr ((), s')" and mem': "mem' = mem[i := Some (state\<lparr>pk_replacementClaimIds := Some ?ids\<rparr>)]"
    using assms(1) pre t' unfolding lockReplacementClaimsForSupersession_def
    by (auto simp: op_simps Let_def split del: if_split)
  have "s1 = s" using loadClaims_Inr[OF load] by simp
  moreover have "s' = s1" using conf requireConfirmations_Inr by (auto simp: op_simps split: if_splits)
  moreover have "locked_target s mem' i t g"
    using assms(2) pre t' unfolding mem' locked_target_def
    by (auto simp: requirePostAuthorizationCurrentFact_def requirePrelockedCurrentFact_def res_bind_Inr_iff
        split: option.splits)
  ultimately show ?thesis using loadClaims_Inr[OF load] by blast
qed

lemma admit_replacement_Inr:
  "admit_replacement env c t p s = Inr (cl, s') \<Longrightarrow> s' = s \<and> (\<exists>v. cl = admitted_claim p v)"
  by (auto simp: admit_replacement_def op_simps dest!: verify_span_Inr authorize_support_Inr)

section \<open>fact.supersede\<close>

lemma end_current_frees:
  assumes ok: "facts_ok s" and e: "ends e st g s" "st \<noteq> CurrentFact"
    and f: "f \<in> set (lg_facts (end_current now e s))" "tf_status f = CurrentFact"
  shows "fact_coordinate f \<noteq> fact_coordinate g"
proof -
  have "f \<in> set (lg_facts s)" "tf_id f \<noteq> tf_id g"
    using f e by (auto simp: changed_tables set_update_where end_fact_simps ends_def split: if_splits)
  then show ?thesis using ok e(1) f(2) by (auto simp: facts_ok_def ends_def)
qed

lemma event_row_simps [simp]:
  "le_predecessor_fact_id (lifecycle_event_row_of t x su st r) = ft_factId t"
  "le_successor_fact_id (lifecycle_event_row_of t x su st r) = map_option uuid_column su"
  "le_to_status (lifecycle_event_row_of t x su st r) = st"
  "le_causation_command_id (lifecycle_event_row_of t x su st r) = uuid_column (lc_commandId x)"
  by (simp_all add: lifecycle_event_row_of_def)

lemma insertEvent_Inr:
  assumes "insertFactLifecycleEvent t x su st reason s = Inr (u, s')"
  shows "\<exists>r. s' = add_event (lifecycle_event_row_of t x su st r) s"
  using assms unfolding insertFactLifecycleEvent_def by (cases s) (auto simp: op_simps add_event_def)

lemma access_covers_D: "access_covers a b c \<Longrightarrow> c \<le> a"
  using maxAccessClass_bound[of "[access_string b, access_string c]" _ c]
    maxAccessClass_bound[of "[access_string a, access_string m]" a m for m]
  by (fastforce simp: access_covers_def split: option.splits)

lemma works_supersede:
  assumes "ends e SupersededFact g s" "le_successor_fact_id e = Some (tf_id f)"
    "fact_coordinate f = fact_coordinate g" "tf_access_class g \<le> tf_access_class f"
    "acceptable f ids (end_current now e s)" "t = add_event e (add_fact now f ids (end_current now e s))"
    "tf_last_causation_command_id f = i" "uuid_column (le_causation_command_id e) = i"
  shows "works i s t"
  unfolding works_def using assms(6-8) truth_step.supersede[OF assms(1-5) books_only_refl]
  by (auto simp: changed_tables set_update_where end_fact_def)

lemma works_revoke:
  assumes "ends e RevokedFact g s" "le_successor_fact_id e = None"
    "tf_predicate g = PrimaryObjective \<Longrightarrow>
       \<forall>c\<in>set (lg_claims s). open_objective c \<longrightarrow> claim_coordinate c \<noteq> fact_coordinate g"
    "t = add_event e (end_current now e s)" "uuid_column (le_causation_command_id e) = i"
  shows "works i s t"
  unfolding works_def using assms(4,5) truth_step.revoke[OF assms(1-3) books_only_refl]
  by (auto simp: changed_tables set_update_where end_fact_def)

lemma fact_ends:
  assumes "caused s" and begun: "begun env c s s1" and g: "g \<in> set (lg_facts s1)" "tf_status g = CurrentFact"
    and x: "lc_commandId x = fresh_id env command_draw" "ft_factId t = tf_id g"
  shows "ends (lifecycle_event_row_of t x su st r) st g s1"
proof -
  have "tf_last_causation_command_id g \<in> command_ids s"
    using assms(1) g(1) books_tables(4)[OF begun_books[OF begun]] by (simp add: caused_def)
  then show ?thesis using begun g x by (auto simp: ends_def begun_def lower_def)
qed

lemma supersede_works:
  assumes ok: "ledger_ok s" "caused s" and begun: "begun env c s s1"
    and locked: "locked_target s1 mem i tg g"
    and run: "supersede_work env c p mem i tg (fresh_id env command_draw) s1 = Inr ((result, factId, detail), t)"
  shows "works (fresh_id env command_draw) s1 t"
proof -
  let ?i = "fresh_id env command_draw" and ?x = "change_by env c (fresh_id env command_draw) (sf_reason p)"
  obtain ps mem' sa cls sb newFact ids mem'' sc where
      lock: "lockReplacementClaimsForSupersession (be_locked_world env) mem i (sf_replacementClaims p) s1 = Inr ((ps, mem'), sa)"
    and admitted: "op_each (admit_replacement env c tg) ps sa = Inr (cls, sb)"
    and con: "constructAcceptedFact (be_nfc env) (successor_input env c p tg cls) = Some newFact"
    and sup: "supersedePrelockedFact (be_nfc env) (be_sha256 env) (be_instant env) (be_now env) mem' i ?x newFact sb =
      Inr ((ids, mem''), t)"
    using run unfolding supersede_work_def by (auto simp: op_simps ok_or_def split: option.splits)
  obtain named where l: "sa = s1" "locked_target s1 mem' i tg g" "\<forall>p\<in>set ps. pc_tenantId p = ft_tenantId tg \<and>
      pc_workspaceId p = ft_workspaceId tg \<and> pc_claim p \<in> set (lg_claims s1) \<and>
      named_claim (ft_tenantId tg) (ft_workspaceId tg) named (pc_claim p)"
    using lock_replacements_Inr[OF lock locked] by blast
  have adm: "sb = s1" "list_all2 (\<lambda>p cl. \<exists>v. cl = admitted_claim p v) ps cls"
    using op_each_reads_all[OF _ admitted, where Q = "\<lambda>p cl. \<exists>v. cl = admitted_claim p v"] admit_replacement_Inr l(1)
    by blast+
  obtain tg' state reason s2 s3 v w z where post: "requirePostAuthorizationCurrentFact mem' i = Inr (tg', state)"
    and may: "supersession_ok tg' state ?x newFact"
    and ended: "terminalizePrelockedFact (be_now env) tg' SupersededFact (lc_commandId ?x) s1 = Inr (v, s2)"
    and ins: "insertAcceptedFact (be_sha256 env) (be_instant env) (be_now env) newFact (lc_commandId ?x)
      (fa_confidenceDecision newFact) True s2 = Inr (w, s3)"
    and event: "insertFactLifecycleEvent tg' ?x (Some (fa_id newFact)) SupersededFact reason s3 = Inr (z, t)"
    using sup unfolding supersedePrelockedFact_def adm(1) by (auto simp: op_simps)
  have tg': "tg' = tg" by (rule post_authorization_target[OF l(2) post])
  obtain r where t: "t = add_event (lifecycle_event_row_of tg ?x (Some (fa_id newFact)) SupersededFact r) s3"
    using insertEvent_Inr[OF event] tg' by blast
  let ?e = "lifecycle_event_row_of tg ?x (Some (fa_id newFact)) SupersededFact r"
  have x: "lc_commandId ?x = ?i" by (simp add: change_by_def)
  have g: "g \<in> set (lg_facts s1)" "tf_status g = CurrentFact" "ft_factId tg = tf_id g"
    using l(2) by (auto simp: locked_target_def)
  have s1: "claims_ok s1" "facts_ok s1" using ok(1) books_keep[OF begun_books[OF begun]] by (simp_all add: ledger_ok_def)
  have e: "ends ?e SupersededFact g s1" by (rule fact_ends[OF ok(2) begun g(1,2) x g(3)])
  have s2: "s2 = end_current (be_now env) ?e s1"
    using terminalizePrelockedFact_effect[OF s1(2) ended[unfolded tg'], of ?e] by auto
  have claims: "claims_ok s2" "lg_claims s2 = lg_claims s1" using s1(1) unfolding s2 by (simp_all add: claims_ok_facts changed_tables)
  obtain f where row: "fact_row_of (be_sha256 env) (be_instant env) (be_now env) newFact (lc_commandId ?x)
      (fa_confidenceDecision newFact) True = Inr f"
    using ins unfolding insertAcceptedFact_def by (auto simp: op_simps)
  have input: "fi_claims (successor_input env c p tg cls) = cls" by (simp add: successor_input_def)
  have supported: "supports newFact f s2"
    using constructed_supports[OF con _ _ claims(1) row, of ps "ft_tenantId tg" "ft_workspaceId tg" named] adm(2) l(3)
    unfolding input claims(2) by blast
  have "canonical_fact g" using s1(2) g(1) by (simp add: facts_ok_def fact_ok_def)
  moreover have "succeeds_target tg ?x newFact" using may tg' by (simp add: supersession_ok_def)
  moreover have "tf_subject_type f = ft_subjectType tg" "tf_predicate f = ft_predicate tg"
    using calculation(2) fact_row_of_columns(5,7)[OF row] unfolding succeeds_target_def
    by (metis injD subject_string_inj, metis injD predicate_string_inj)
  ultimately have coordinate: "fact_coordinate f = fact_coordinate g"
    using fact_row_of_columns[OF row] l(2)
    by (auto simp: fact_coordinate_def succeeds_target_def locked_target_def canonical_fact_def lower_def)
  have access: "tf_access_class g \<le> tf_access_class f"
    using may tg' fact_row_of_columns(9)[OF row] l(2)
    by (auto simp: supersession_ok_def locked_target_def dest!: access_covers_D)
  have "\<forall>h\<in>set (lg_facts s2). tf_status h = CurrentFact \<longrightarrow> fact_coordinate h \<noteq> fact_coordinate f"
    unfolding s2 coordinate using end_current_frees[OF s1(2) e] by simp
  then have acc: "acceptable f (fa_supportingClaimIds newFact) s2" "s3 = add_fact (be_now env) f (fa_supportingClaimIds newFact) s2"
    using insertAcceptedFact_accepts[OF claims(1) ins row supported] by auto
  have i: "uuid_column ?i = ?i" using begun by (simp add: begun_def lower_def)
  show ?thesis
  proof (rule works_supersede[OF e _ coordinate access])
    show "le_successor_fact_id ?e = Some (tf_id f)" using fact_row_of_columns(1)[OF row] by simp
    show "acceptable f (fa_supportingClaimIds newFact) (end_current (be_now env) ?e s1)" using acc(1) s2 by simp
    show "t = add_event ?e (add_fact (be_now env) f (fa_supportingClaimIds newFact) (end_current (be_now env) ?e s1))"
      using t acc(2) s2 by simp
    show "tf_last_causation_command_id f = ?i" using fact_row_of_columns(13)[OF row] x i by simp
    show "uuid_column (le_causation_command_id ?e) = ?i" using x i by simp
  qed
qed

section \<open>fact.revoke\<close>

lemma revoke_works:
  assumes ok: "ledger_ok s" "caused s" and begun: "begun env c s s1"
    and locked: "locked_target s1 mem i tg g"
    and run: "revoke_work env c p mem i (fresh_id env command_draw) s1 = Inr ((result, factId, detail), t)"
  shows "works (fresh_id env command_draw) s1 t"
proof -
  let ?i = "fresh_id env command_draw" and ?x = "change_by env c (fresh_id env command_draw) (rf_reason p)"
  obtain tg' state reason sa s2 v z where post: "requirePostAuthorizationCurrentFact mem i = Inr (tg', state)"
    and slot: "(if objective_target tg'
       then op_bind (guardLifecycleDatabaseOperation
           (op_read (\<lambda>s. filter (open_proposal_of tg') (lg_claims s)))) (\<lambda>openProposal.
         op_require LedgerConflictError (\<not> length openProposal \<noteq> 0))
       else op_return ()) s1 = Inr ((), sa)"
    and ended: "terminalizePrelockedFact (be_now env) tg' RevokedFact (lc_commandId ?x) sa = Inr (v, s2)"
    and event: "insertFactLifecycleEvent tg' ?x None RevokedFact reason s2 = Inr (z, t)"
    using run unfolding revoke_work_def revokePrelockedFact_def op_bind_Inr op_lift_Inr op_require_Inr op_return_Inr
    by (auto simp: op_bind_Inr op_lift_Inr op_require_Inr op_return_Inr split del: if_split)
  have tg': "tg' = tg" by (rule post_authorization_target[OF locked post])
  have sa: "sa = s1" and free: "objective_target tg \<Longrightarrow> \<forall>c\<in>set (lg_claims s1). \<not> open_proposal_of tg c"
    using slot tg' by (auto simp: op_simps filter_empty_conv split: if_splits)
  obtain r where t: "t = add_event (lifecycle_event_row_of tg ?x None RevokedFact r) s2"
    using insertEvent_Inr[OF event] tg' by blast
  let ?e = "lifecycle_event_row_of tg ?x None RevokedFact r"
  have x: "lc_commandId ?x = ?i" by (simp add: change_by_def)
  obtain sp w where g: "g \<in> set (lg_facts s1)" "tf_status g = CurrentFact" "tg = target_of (g, sp, w)"
    using locked by (auto simp: locked_target_def)
  have s1: "claims_ok s1" "facts_ok s1" using ok(1) books_keep[OF begun_books[OF begun]] by (simp_all add: ledger_ok_def)
  have e: "ends ?e RevokedFact g s1" by (rule fact_ends[OF ok(2) begun g(1,2) x]) (simp add: g(3))
  have s2: "s2 = end_current (be_now env) ?e s1"
    using terminalizePrelockedFact_effect[OF s1(2) ended[unfolded tg' sa], of ?e] by auto
  have i: "uuid_column ?i = ?i" using begun by (simp add: begun_def lower_def)
  show ?thesis
  proof (rule works_revoke[OF e])
    assume objective: "tf_predicate g = PrimaryObjective"
    show "\<forall>c\<in>set (lg_claims s1). open_objective c \<longrightarrow> claim_coordinate c \<noteq> fact_coordinate g"
    proof (intro ballI impI notI)
      fix c' assume c': "c' \<in> set (lg_claims s1)" "open_objective c'" "claim_coordinate c' = fact_coordinate g"
      then have "tc_subject_type c' = InitiativeSubject" using s1(1) by (auto simp: claims_ok_def claim_ok_def open_objective_def)
      then have "objective_target tg \<and> open_proposal_of tg c'"
        using c'(2,3) objective g(3)
        by (simp add: objective_target_def open_proposal_of_def claim_coordinate_def fact_coordinate_def open_objective_def)
      then show False using free c'(1) by blast
    qed
  qed (use t s2 x i in simp_all)
qed

section \<open>The entry point\<close>

lemma lifecycle_committed:
  assumes ok: "ledger_ok s" "caused s"
    and run: "executeFactLifecycleInTransaction env c factId expectedFactVersion work s = Inr (result, t)"
    and works: "\<And>s1 mem i tg g result factId detail t. begun env c s s1 \<Longrightarrow> locked_target s1 mem i tg g \<Longrightarrow>
      work mem i tg (fresh_id env command_draw) s1 = Inr ((result, factId, detail), t) \<Longrightarrow>
      works (fresh_id env command_draw) s1 t"
  shows "t = s \<or> committed env c result s t"
proof -
  let ?ctx = "ca_context c" and ?action = "kind_string (payload_kind (ca_payload c))"
  obtain reservation s1 where reserved: "reserveCommand env c s = Inr (reservation, s1)" and
    rest: "(case reservation of
       ReplayedResult result \<Rightarrow>
         op_bind (authorize env ?ctx ?action (js ''fact'') factId True True) (\<lambda>_.
         op_return result)
     | FreshCommand commandId \<Rightarrow>
         op_bind (prelockCurrentFact (be_world env) ?ctx (sx_tenantId ?ctx) (sx_workspaceId ?ctx)
           factId expectedFactVersion []) (\<lambda>(i, mem).
         op_bind (op_lift (requirePrelockedCurrentFact mem i)) (\<lambda>prelocked.
         op_bind (authorize env ?ctx ?action (js ''fact'') (ft_factId (pk_target prelocked)) True False) (\<lambda>_.
         op_bind (refreshCurrentFactAfterAuthorization (be_locked_world env) ?ctx mem i) (\<lambda>(t, mem).
         op_bind (work mem i t commandId) (\<lambda>(result, endedFactId, detail).
         op_bind (writeAuditAndOutbox env c commandId
           (ended_change (ca_payload c) (ft_spaceId t) endedFactId detail)) (\<lambda>_.
         op_bind (completeCommand env c commandId (js ''accepted_fact'') endedFactId result) (\<lambda>_.
         op_return result)))))))) s1 = Inr (result, t)"
    using run unfolding executeFactLifecycleInTransaction_def Let_def readFactLifecycleReservation_def
    by (auto simp: op_simps)
  show ?thesis
    using reserved ok(2)
  proof (cases rule: reserveCommand_effect)
    case (again command result')
    then show ?thesis using rest by (auto simp: op_simps)
  next
    case first
    let ?i = "fresh_id env command_draw"
    obtain i mem sa tg mem' sb endedFactId detail s2 u s3 v where
        pre: "prelockCurrentFact (be_world env) ?ctx (sx_tenantId ?ctx) (sx_workspaceId ?ctx)
          factId expectedFactVersion [] s1 = Inr ((i, mem), sa)"
      and refresh: "refreshCurrentFactAfterAuthorization (be_locked_world env) ?ctx mem i sa = Inr ((tg, mem'), sb)"
      and work: "work mem' i tg ?i sb = Inr ((result, endedFactId, detail), s2)"
      and wrote: "writeAuditAndOutbox env c ?i (ended_change (ca_payload c) (ft_spaceId tg) endedFactId detail) s2 = Inr (u, s3)"
      and finished: "completeCommand env c ?i (js ''accepted_fact'') endedFactId result s3 = Inr (v, t)"
      using rest first(1) by (auto simp: op_simps)
    have sa: "sa = s1" using pre unfolding prelockCurrentFact_def by (auto simp: op_simps)
    obtain g where "sb = s1" "locked_target s1 mem' i tg g" using refresh_locks[OF refresh] sa by blast
    then have "works ?i s1 s2" using works[OF first(2)] work by blast
    moreover have "endedFactId = ce_resourceId (ended_change (ca_payload c) (ft_spaceId tg) endedFactId detail)"
      by (simp add: ended_change_def)
    ultimately show ?thesis using work_committed[OF ok(2) first(2) _ wrote] finished by metis
  qed
qed

lemma in_transaction_committed:
  assumes ok: "ledger_ok s" "caused s" and run: "executeInTransaction env c p s = Inr (result, t)"
    and rework: "\<And>r. p = ReworkObjective r \<Longrightarrow> sr_type (ro_subject r) = InitiativeSubject"
  shows "t = s \<or> committed env c result s t"
proof (cases p)
  case (CreateClaim x)
  then show ?thesis using create_claim_committed[OF ok] run by simp
next
  case (WithdrawObjective x)
  then show ?thesis using withdraw_committed[OF ok] run by simp
next
  case (ReworkObjective x)
  then show ?thesis using rework_committed[OF ok _ rework] run by simp
next
  case (AcceptFact x)
  then show ?thesis using accept_committed[OF ok] run by simp
next
  case (SupersedeFact x)
  show ?thesis
    by (rule lifecycle_committed[OF ok run[unfolded SupersedeFact executeInTransaction.simps]])
       (rule supersede_works[OF ok])
next
  case (RevokeFact x)
  show ?thesis
    by (rule lifecycle_committed[OF ok run[unfolded RevokeFact executeInTransaction.simps]])
       (rule revoke_works[OF ok])
qed (use run in \<open>simp_all add: op_simps\<close>)

lemma parsed_rework:
  assumes "parseB2Command nfc input = Inr command" "bc_payload command = ReworkObjective r"
  shows "sr_type (ro_subject r) = InitiativeSubject"
proof -
  obtain v where "parsePayload nfc (payload_kind (bc_payload command)) v = Some (bc_payload command)"
    using assms(1) by (auto simp: parseB2Command_def ok_or_def parse_command_Some_iff split: option.splits)
  then show ?thesis using assms(2) by (auto simp: parseReworkPrimaryObjective_def bind_Some_iff)
qed

text \<open>Whatever \<open>execute\<close> returns, the ledger is as before or one command was committed; in the second case
  the caller was a human actor in an open transaction of the application role.\<close>

lemma execute_command_cases:
  assumes "execute_command env earlier context command requestHash s = (t, r)"
  obtains "t = s" "\<nexists>result. r = Inr result"
    | actor spaceId result where "requireHumanActor context = Inr actor"
      "resolveReservationSpace env earlier context (bc_payload command) = Inr spaceId"
      "transaction_entered (be_uuid env) (be_tx env) (context\<lparr>sx_requestedSpaceIds := [spaceId]\<rparr>)"
      "be_role env = APP_ROLE"
      "executeInTransaction env (call_of env context actor command requestHash spaceId) (bc_payload command) s =
         Inr (result, t)"
      "\<And>result'. r = Inr result' \<Longrightarrow>
         parseB2CommandResult (payload_kind (bc_payload command)) (result_value result) = Inr result'"
proof -
  note unchanged = that(1) and changed = that(2)
  have stop: thesis if "t = s" "r = Inl e" for e using that by (intro unchanged) simp_all
  show thesis
  proof (cases "requireHumanActor context")
    case (Inl e)
    then show ?thesis using assms stop by (auto simp: execute_command_def)
  next
    case actor: (Inr actor)
    show ?thesis
    proof (cases "resolveReservationSpace env earlier context (bc_payload command)")
      case (Inl e)
      then show ?thesis using assms actor stop by (auto simp: execute_command_def)
    next
      case space: (Inr spaceId)
      let ?c = "call_of env context actor command requestHash spaceId"
      obtain r' where tx: "withTenantTransaction (be_uuid env) ThrownError (be_tx env) (ca_context ?c)
          (run (mutation_body env ?c)) s = (t, r')"
        and r: "r = (case r' of Inl e \<Rightarrow> Inl e | Inr result \<Rightarrow> map_sum CommandError id
            (parseB2CommandResult (payload_kind (bc_payload command)) (result_value result)))"
        using assms actor space by (auto simp: execute_command_def Let_def split: prod.splits sum.splits)
      have calling: "ca_context ?c = context\<lparr>sx_requestedSpaceIds := [spaceId]\<rparr>" "ca_payload ?c = bc_payload command"
        by (simp_all add: call_of_def Let_def)
      have ran: "be_role env = APP_ROLE \<and> executeInTransaction env ?c (bc_payload command) s = Inr (a, t)"
        if "run (mutation_body env ?c) s = (t, Inr a)" for a
        using that calling(2) by (auto simp: run_Inr_iff mutation_body_def op_simps assertApplicationRole_def split: if_splits)
      show ?thesis
      proof (cases r')
        case (Inr a)
        have parsed: "parseB2CommandResult (payload_kind (bc_payload command)) (result_value a) = Inr result'"
          if "r = Inr result'" for result'
          using that r Inr by (cases "parseB2CommandResult (payload_kind (bc_payload command)) (result_value a)") auto
        have "transaction_entered (be_uuid env) (be_tx env) (ca_context ?c)" "run (mutation_body env ?c) s = (t, Inr a)"
          using withTenantTransaction_Inr[OF tx[unfolded Inr]] by simp_all
        then show ?thesis using ran[of a] calling(1) parsed by (intro changed[OF actor space, of a]) simp_all
      next
        case (Inl e)
        from withTenantTransaction_atomic[OF tx] show ?thesis
        proof (elim disjE conjE exE)
          fix a assume "transaction_entered (be_uuid env) (be_tx env) (ca_context ?c)" "run (mutation_body env ?c) s = (t, Inr a)"
          then show ?thesis using ran[of a] r Inl calling(1) by (intro changed[OF actor space, of a]) auto
        qed (use stop r Inl in auto)
      qed
    qed
  qed
qed

lemma execute_cases:
  assumes "execute env earlier input context s = (t, r)"
  obtains "t = s" "\<nexists>result. r = Inr result"
    | command requestHash actor spaceId result where "parseB2Command (be_nfc env) input = Inr command"
      "hashB2CommandIdentity (be_nfc env) (be_sha256 env) (command_value command) = Inr requestHash"
      "durable (bc_payload command)" "requireHumanActor context = Inr actor"
      "resolveReservationSpace env earlier context (bc_payload command) = Inr spaceId"
      "transaction_entered (be_uuid env) (be_tx env) (context\<lparr>sx_requestedSpaceIds := [spaceId]\<rparr>)"
      "be_role env = APP_ROLE"
      "executeInTransaction env (call_of env context actor command requestHash spaceId) (bc_payload command) s =
         Inr (result, t)"
      "\<And>result'. r = Inr result' \<Longrightarrow>
         parseB2CommandResult (payload_kind (bc_payload command)) (result_value result) = Inr result'"
proof -
  note unchanged = that(1) and changed = that(2)
  have stop: thesis if "t = s" "r = Inl e" for e using that by (intro unchanged) simp_all
  show thesis
  proof (cases "parseB2Command (be_nfc env) input")
    case (Inl e)
    then show ?thesis using assms stop by (auto simp: execute_def)
  next
    case command: (Inr command)
    show ?thesis
    proof (cases "durable (bc_payload command)")
      case False
      then show ?thesis using assms stop command by (auto simp: execute_def)
    next
      case durable: True
      show ?thesis
      proof (cases "hashB2CommandIdentity (be_nfc env) (be_sha256 env) (command_value command)")
        case (Inl e)
        then show ?thesis using assms stop command durable by (auto simp: execute_def)
      next
        case hash: (Inr requestHash)
        obtain r' where ran: "execute_command env earlier context command requestHash s = (t, r')"
          and r: "r = r' \<or> r = map_sum hide_unavailable id r'"
          using assms command durable hash
          by (auto simp: execute_def executeFactLifecycle_def split: prod.splits if_splits)
        have same: "r = Inr result \<longleftrightarrow> r' = Inr result" for result using r by (auto simp: map_sum_Inr_iff)
        show ?thesis using ran
        proof (cases rule: execute_command_cases)
          case 1
          then show ?thesis using unchanged same by blast
        next
          case (2 actor spaceId result)
          show ?thesis by (rule changed[OF command hash durable 2(1-5)]) (use 2(6) same in blast)
        qed
      qed
    qed
  qed
qed

lemma execute_committed:
  assumes ok: "ledger_ok s" "caused s" and run: "execute env earlier input context s = (t, r)"
  shows "t = s \<or> (\<exists>c result. committed env c result s t)"
  using run
proof (cases rule: execute_cases)
  case (2 command requestHash actor spaceId result)
  then show ?thesis using in_transaction_committed[OF ok 2(8)] parsed_rework[OF 2(1)] by blast
qed simp

end
