(* ===== verification/Access_Tables.thy ===== *)
theory Access_Tables
  imports Ledger_Rows
begin

text \<open>
  What the authorisation service reads (\<open>packages/authorization/src/authorization-service.ts\<close>): the
  tables of \<open>identity\<close>, \<open>access\<close>, \<open>work\<close>, \<open>content\<close> and \<open>truth\<close> with the columns that its queries name,
  and the way it reads them. Every statement of a transaction sees the database as it is when the
  statement runs (\<open>READ COMMITTED\<close>), so a decision reads a history of snapshots, one per statement,
  and other transactions may have committed in between. A statement with \<open>FOR SHARE\<close> or \<open>FOR UPDATE\<close>
  locks the rows it reads, which the session remembers.
\<close>

section \<open>Tables\<close>

datatype membership_role = OwnerRole | AdminRole | MemberRole | ViewerRole
datatype membership_status = InvitedMembership | ActiveMembership | SuspendedMembership
datatype user_status = ActiveUser | DisabledUser
datatype tenant_status = ActiveTenant | SuspendedTenant | DeletedTenant
datatype workspace_status = ActiveWorkspace | ArchivedWorkspace
datatype policy_status = ActivePolicy | RetiredPolicy
datatype principal_status = ActivePrincipal | DisabledPrincipal
datatype principal_purpose = WorkerPurpose | ConnectorPurpose | SystemPurpose | RelayPurpose
datatype space_kind = RootSpace | OrganizationSpace | InitiativeSpace | ProjectSpace | KnowledgeSpace
datatype inheritance_mode = Inherit | RestrictedInheritance
datatype grant_subject = UserGrant | MembershipGrant | ServicePrincipalGrant | AgentPrincipalGrant
datatype grant_relation = OwnerGrant | ManagerGrant | ContributorGrant | ViewerGrant
datatype grant_source = DirectGrant | InheritedGrant | SystemGrant
datatype reference_status = ActiveReference | RevokedReference | ExpiredReference

record tenant_record =
  tn_id :: jstr
  tn_status :: tenant_status

record workspace_record =
  wp_id :: jstr
  wp_tenant_id :: jstr
  wp_status :: workspace_status

record policy_record =
  pv_id :: jstr
  pv_tenant_id :: jstr
  pv_workspace_id :: jstr
  pv_status :: policy_status

record principal_record =
  sv_id :: jstr
  sv_tenant_id :: jstr
  sv_workspace_id :: jstr
  sv_purpose :: principal_purpose
  sv_status :: principal_status

record user_record =
  us_id :: jstr
  us_status :: user_status

record membership_record =
  mb_id :: jstr
  mb_user_id :: jstr
  mb_tenant_id :: jstr
  mb_workspace_id :: jstr
  mb_person_id :: "jstr option"
  mb_role :: membership_role
  mb_status :: membership_status

record space_record =
  asp_id :: jstr
  asp_tenant_id :: jstr
  asp_workspace_id :: jstr
  asp_parent_space_id :: "jstr option"
  asp_kind :: space_kind
  asp_access_class :: access_class
  asp_inheritance_mode :: inheritance_mode
  asp_archived :: bool

record grant_record =
  ag_id :: jstr
  ag_tenant_id :: jstr
  ag_workspace_id :: jstr
  ag_subject_type :: grant_subject
  ag_subject_id :: jstr
  ag_relation :: grant_relation
  ag_resource_id :: jstr
  ag_source :: grant_source

record work_record =
  wr_id :: jstr
  wr_tenant_id :: jstr
  wr_workspace_id :: jstr
  wr_space_id :: jstr
  wr_owner_person_id :: jstr

record organization_record =
  og_id :: jstr
  og_tenant_id :: jstr
  og_workspace_id :: jstr
  og_space_id :: jstr

record relationship_record =
  rl_id :: jstr
  rl_tenant_id :: jstr
  rl_workspace_id :: jstr
  rl_space_id :: jstr
  rl_ends :: "(jstr \<times> jstr) list"

record content_record =
  ct_id :: jstr
  ct_tenant_id :: jstr
  ct_workspace_id :: jstr
  ct_space_id :: jstr
  ct_access_class :: access_class

record revision_record =
  rv_tenant_id :: jstr
  rv_workspace_id :: jstr
  rv_space_id :: jstr
  rv_content_item_id :: jstr
  rv_revision_number :: int
  rv_access_class :: access_class

record person_record =
  pe_id :: jstr
  pe_tenant_id :: jstr
  pe_workspace_id :: jstr

record participant_record =
  pp_tenant_id :: jstr
  pp_workspace_id :: jstr
  pp_resource_id :: jstr
  pp_person_id :: jstr
  pp_ended :: bool

record reference_record =
  cx_id :: jstr
  cx_job_id :: jstr
  cx_tenant_id :: jstr
  cx_workspace_id :: jstr
  cx_space_id :: jstr
  cx_worker_service_principal_id :: jstr
  cx_policy_version_id :: jstr
  cx_delegating_user_id :: jstr
  cx_delegating_membership_id :: jstr
  cx_status :: reference_status
  cx_revoked_at :: "int option"
  cx_expires_at :: int

text \<open>The columns \<open>subject\<close>, \<open>object\<close> and \<open>context\<close> of a relationship, each a type and an id, are the
  list of its ends. The only resource type a grant can have is the space.\<close>

record directory =
  dr_tenants :: "tenant_record list"
  dr_workspaces :: "workspace_record list"
  dr_policies :: "policy_record list"
  dr_principals :: "principal_record list"
  dr_users :: "user_record list"
  dr_memberships :: "membership_record list"
  dr_spaces :: "space_record list"
  dr_grants :: "grant_record list"
  dr_organizations :: "organization_record list"
  dr_initiatives :: "work_record list"
  dr_activities :: "work_record list"
  dr_relationships :: "relationship_record list"
  dr_content_items :: "content_record list"
  dr_revisions :: "revision_record list"
  dr_sources :: "content_record list"
  dr_claims :: "truth_claim_row list"
  dr_facts :: "fact_row list"
  dr_people :: "person_record list"
  dr_attendees :: "participant_record list"
  dr_contributors :: "participant_record list"
  dr_references :: "reference_record list"

section \<open>Reading\<close>

datatype lock =
    TenantLock jstr
  | WorkspaceLock jstr
  | PolicyLock jstr jstr jstr
  | PrincipalLock jstr
  | UserLock jstr
  | MembershipLock jstr
  | SpaceLock jstr
  | GrantLock jstr
  | ActivityLock jstr
  | InitiativeLock jstr
  | ClaimLock jstr
  | FactLock jstr
  | ReferenceLock jstr

datatype read_error = DriverError jsval | NeverReturns

text \<open>The environment of a decision: the format of UUIDs and the message of the schema library, the
  collation keys by which \<open>localeCompare\<close> orders texts, the clocks of the server and of the process,
  and what each statement of the session sees, or the error the driver throws instead.\<close>

record auth_env =
  av_uuid :: "jstr \<Rightarrow> bool"
  av_message :: "security_context \<Rightarrow> jstr"
  av_collation :: "jstr \<Rightarrow> nat list"
  av_now :: int
  av_clock :: int
  av_later :: int
  av_history :: "nat \<Rightarrow> jsval + directory"

text \<open>The discovery is the object that the decisions of one batch share: the spaces, grants and paths
  they have read so far, in the order of their first reading.\<close>

record space_view =
  vw_id :: jstr
  vw_parent_space_id :: "jstr option"
  vw_kind :: space_kind
  vw_access_class :: access_class
  vw_inheritance_mode :: inheritance_mode

record grant_view =
  vg_id :: jstr
  vg_resource_id :: jstr
  vg_subject_type :: grant_subject
  vg_subject_id :: jstr
  vg_relation :: grant_relation

record discovery =
  di_spaces :: "(jstr \<times> space_view) list"
  di_grants :: "(jstr \<times> grant_view) list"
  di_paths :: "(jstr \<times> jstr list) list"
  di_inconsistent :: bool

record session =
  se_statements :: nat
  se_locks :: "(nat \<times> lock) list"
  se_discovery :: "discovery option"

type_synonym 'a asks = "(session, read_error, 'a) op"

definition ask_locking :: "auth_env \<Rightarrow> (directory \<Rightarrow> 'a option) \<Rightarrow> (directory \<Rightarrow> lock list) \<Rightarrow> 'a asks" where
  "ask_locking env q rows s =
     (case av_history env (se_statements s) of
        Inl e \<Rightarrow> Inl (DriverError e)
      | Inr d \<Rightarrow> (case q d of
          None \<Rightarrow> Inl NeverReturns
        | Some a \<Rightarrow> Inr (a, s \<lparr>se_statements := Suc (se_statements s),
            se_locks := se_locks s @ map (Pair (se_statements s)) (rows d)\<rparr>)))"

definition ask :: "auth_env \<Rightarrow> (directory \<Rightarrow> 'a) \<Rightarrow> 'a asks" where
  "ask env q = ask_locking env (\<lambda>d. Some (q d)) (\<lambda>_. [])"

definition ask_for_share :: "auth_env \<Rightarrow> bool \<Rightarrow> (directory \<Rightarrow> 'r list) \<Rightarrow> ('r \<Rightarrow> lock list) \<Rightarrow> 'r list asks" where
  "ask_for_share env lockAuthority q locks =
     ask_locking env (\<lambda>d. Some (q d)) (\<lambda>d. if lockAuthority then concat (map locks (q d)) else [])"

section \<open>Conditions of the queries\<close>

definition id_is :: "jstr \<Rightarrow> jstr option \<Rightarrow> bool" where
  "id_is column v = (case v of None \<Rightarrow> False | Some i \<Rightarrow> column = uuid_column i)"

definition in_scope :: "security_context \<Rightarrow> jstr \<Rightarrow> jstr \<Rightarrow> bool" where
  "in_scope context tenantId workspaceId \<longleftrightarrow> tenantId = uuid_column (sx_tenantId context) \<and>
     workspaceId = uuid_column (sx_workspaceId context)"

definition live_space :: "security_context \<Rightarrow> space_record \<Rightarrow> bool" where
  "live_space context sp \<longleftrightarrow> in_scope context (asp_tenant_id sp) (asp_workspace_id sp) \<and> \<not> asp_archived sp"

definition live_spaces :: "security_context \<Rightarrow> directory \<Rightarrow> space_record list" where
  "live_spaces context d = filter (live_space context) (dr_spaces d)"

definition spaces_named :: "security_context \<Rightarrow> jstr \<Rightarrow> directory \<Rightarrow> space_record list" where
  "spaces_named context spaceId d = filter (\<lambda>sp. asp_id sp = uuid_column spaceId) (live_spaces context d)"

text \<open>A grant to the actor: to the membership or to the user of the context.\<close>

definition grants_actor :: "security_context \<Rightarrow> grant_record \<Rightarrow> bool" where
  "grants_actor context g \<longleftrightarrow>
     (ag_subject_type g = MembershipGrant \<and> id_is (ag_subject_id g) (sx_actorMembershipId context)) \<or>
     (ag_subject_type g = UserGrant \<and> id_is (ag_subject_id g) (sx_actorUserId context))"

definition grant_in_scope :: "security_context \<Rightarrow> grant_record \<Rightarrow> bool" where
  "grant_in_scope context g \<longleftrightarrow> in_scope context (ag_tenant_id g) (ag_workspace_id g)"

definition space_locks :: "space_record \<Rightarrow> lock list" where
  "space_locks sp = [SpaceLock (asp_id sp)]"

definition grant_locks :: "grant_record \<Rightarrow> lock list" where
  "grant_locks g = [GrantLock (ag_id g)]"

definition first_row :: "'r list \<Rightarrow> 'r option" where
  "first_row rows = (case rows of [] \<Rightarrow> None | r # _ \<Rightarrow> Some r)"

lemma first_row_Some [simp]: "first_row rows = Some r \<longleftrightarrow> (\<exists>rest. rows = r # rest)"
  by (cases rows) (auto simp: first_row_def)

lemma first_row_None [simp]: "first_row rows = None \<longleftrightarrow> rows = []"
  by (cases rows) (auto simp: first_row_def)

end
