(* ===== verification/Space_Access.thy ===== *)
theory Space_Access
  imports Access_Tables "HOL-Library.AList"
begin

text \<open>
  Reading a space (\<open>canReadSpaceResource\<close> of \<open>packages/authorization/src/authorization-service.ts\<close> and
  what it calls): owners and administrators read every space of the workspace, everybody reads its
  root, and otherwise a grant is needed, on the space itself or on an ancestor, with no restricted
  space below that ancestor. The ancestors come from a recursive query; on a table with a cycle of
  parents it would not return, and then the model of the statement is \<open>NeverReturns\<close>.
\<close>

section \<open>Results\<close>

record readable =
  rd_allowed :: bool
  rd_reasonCode :: jstr
  rd_explanation :: "jstr option"
  rd_authorityTokens :: "jstr list"

definition readable_because :: "string \<Rightarrow> jstr list \<Rightarrow> readable" where
  "readable_because reason tokens = \<lparr>rd_allowed = True, rd_reasonCode = js reason, rd_explanation = None,
     rd_authorityTokens = tokens\<rparr>"

definition unreadable :: "string \<Rightarrow> string \<Rightarrow> readable" where
  "unreadable reason explanation = \<lparr>rd_allowed = False, rd_reasonCode = js reason,
     rd_explanation = Some (js explanation), rd_authorityTokens = []\<rparr>"

definition space_not_found :: readable where
  "space_not_found = unreadable ''space_not_found'' ''Space is not visible in the current workspace''"

definition spaceGrantToken :: "jstr \<Rightarrow> jstr \<Rightarrow> jstr" where
  "spaceGrantToken grantId resourceId = js ''space_grant:'' @ grantId @ js '':'' @ resourceId"

fun workspace_authority :: "membership_role \<Rightarrow> bool" where
  "workspace_authority OwnerRole \<longleftrightarrow> True"
| "workspace_authority AdminRole \<longleftrightarrow> True"
| "workspace_authority _ \<longleftrightarrow> False"

definition READ_RELATIONS :: "grant_relation list" where
  "READ_RELATIONS = [OwnerGrant, ManagerGrant, ContributorGrant, ViewerGrant]"

lemma mem_READ_RELATIONS [simp]: "r \<in> set READ_RELATIONS"
  by (cases r) (simp_all add: READ_RELATIONS_def)

definition reads_for_actor :: "security_context \<Rightarrow> grant_record \<Rightarrow> bool" where
  "reads_for_actor context g \<longleftrightarrow> ag_relation g \<in> set READ_RELATIONS \<and> grants_actor context g"

section \<open>Ancestors\<close>

text \<open>The rows of a recursive query, one list for each depth.\<close>

fun levels :: "nat \<Rightarrow> ('r \<Rightarrow> 'r list) \<Rightarrow> 'r list \<Rightarrow> 'r list list option" where
  "levels n f [] = Some []"
| "levels 0 f (r # rs) = None"
| "levels (Suc n) f (r # rs) = map_option (\<lambda>ls. (r # rs) # ls) (levels n f (concat (map f (r # rs))))"

definition parents :: "security_context \<Rightarrow> directory \<Rightarrow> space_record \<Rightarrow> space_record list" where
  "parents context d sp = filter (\<lambda>p. asp_parent_space_id sp = Some (asp_id p)) (live_spaces context d)"

definition ancestors :: "security_context \<Rightarrow> jstr \<Rightarrow> directory \<Rightarrow> space_record list list option" where
  "ancestors context spaceId d =
     levels (length (dr_spaces d)) (parents context d) (spaces_named context spaceId d)"

definition restricted_space :: "space_record \<Rightarrow> bool" where
  "restricted_space sp \<longleftrightarrow> asp_inheritance_mode sp = RestrictedInheritance"

section \<open>The grants on a space\<close>

record space_access =
  xa_is_root :: bool
  xa_target_restricted :: bool
  xa_direct_grants :: "grant_record list"
  xa_inherited_grants :: "grant_record list"

definition direct_grants :: "security_context \<Rightarrow> jstr \<Rightarrow> directory \<Rightarrow> grant_record list" where
  "direct_grants context spaceId d = sort_key ag_id (filter (\<lambda>g. ag_resource_id g = uuid_column spaceId \<and>
     reads_for_actor context g) (dr_grants d))"

definition inherited_at :: "security_context \<Rightarrow> directory \<Rightarrow> space_record list list \<Rightarrow> nat \<Rightarrow> grant_record list" where
  "inherited_at context d ls depth = sort_key ag_id [g. a \<leftarrow> ls ! depth,
     \<not> list_ex (list_ex restricted_space) (take depth ls), g \<leftarrow> dr_grants d,
     ag_resource_id g = asp_id a \<and> reads_for_actor context g]"

definition inherited_grants :: "security_context \<Rightarrow> directory \<Rightarrow> space_record list list \<Rightarrow> grant_record list" where
  "inherited_grants context d ls = concat (map (inherited_at context d ls) [1..<length ls])"

definition space_access_of :: "security_context \<Rightarrow> jstr \<Rightarrow> directory \<Rightarrow> space_access option option" where
  "space_access_of context spaceId d = (let target = spaces_named context spaceId d in
     case target of
       [] \<Rightarrow> Some None
     | _ \<Rightarrow> map_option (\<lambda>ls. Some
         \<lparr>xa_is_root = list_ex (\<lambda>sp. asp_kind sp = RootSpace) target,
          xa_target_restricted = list_ex restricted_space target,
          xa_direct_grants = direct_grants context spaceId d,
          xa_inherited_grants = inherited_grants context d ls\<rparr>) (ancestors context spaceId d))"

section \<open>Discovery\<close>

definition view_of_space :: "space_record \<Rightarrow> space_view" where
  "view_of_space sp = \<lparr>vw_id = asp_id sp, vw_parent_space_id = asp_parent_space_id sp, vw_kind = asp_kind sp,
     vw_access_class = asp_access_class sp, vw_inheritance_mode = asp_inheritance_mode sp\<rparr>"

definition view_of_grant :: "grant_record \<Rightarrow> grant_view" where
  "view_of_grant g = \<lparr>vg_id = ag_id g, vg_resource_id = ag_resource_id g, vg_subject_type = ag_subject_type g,
     vg_subject_id = ag_subject_id g, vg_relation = ag_relation g\<rparr>"

definition createRelationshipAuthorityDiscovery :: discovery where
  "createRelationshipAuthorityDiscovery =
     \<lparr>di_spaces = [], di_grants = [], di_paths = [], di_inconsistent = False\<rparr>"

definition sameAuthorityValue :: "'v \<Rightarrow> 'v \<Rightarrow> bool" where
  "sameAuthorityValue left right \<longleftrightarrow> left = right"

definition recordRelationshipAuthoritySpace :: "space_view \<Rightarrow> discovery \<Rightarrow> discovery" where
  "recordRelationshipAuthoritySpace row discovery =
     (case map_of (di_spaces discovery) (vw_id row) of
        Some prior \<Rightarrow> if \<not> sameAuthorityValue prior row then discovery\<lparr>di_inconsistent := True\<rparr>
          else discovery\<lparr>di_spaces := AList.update (vw_id row) row (di_spaces discovery)\<rparr>
      | None \<Rightarrow> discovery\<lparr>di_spaces := AList.update (vw_id row) row (di_spaces discovery)\<rparr>)"

definition recordRelationshipAuthorityGrant :: "grant_view \<Rightarrow> discovery \<Rightarrow> discovery" where
  "recordRelationshipAuthorityGrant row discovery =
     (case map_of (di_grants discovery) (vg_id row) of
        Some prior \<Rightarrow> if \<not> sameAuthorityValue prior row then discovery\<lparr>di_inconsistent := True\<rparr>
          else discovery\<lparr>di_grants := AList.update (vg_id row) row (di_grants discovery)\<rparr>
      | None \<Rightarrow> discovery\<lparr>di_grants := AList.update (vg_id row) row (di_grants discovery)\<rparr>)"

definition record_path :: "jstr \<Rightarrow> jstr list \<Rightarrow> discovery \<Rightarrow> discovery" where
  "record_path pathKey pathIds discovery =
     (case map_of (di_paths discovery) pathKey of
        Some priorPath \<Rightarrow> if \<not> sameAuthorityValue priorPath pathIds then discovery\<lparr>di_inconsistent := True\<rparr>
          else discovery\<lparr>di_paths := AList.update pathKey pathIds (di_paths discovery)\<rparr>
      | None \<Rightarrow> discovery\<lparr>di_paths := AList.update pathKey pathIds (di_paths discovery)\<rparr>)"

text \<open>The discovery, when there is one, is changed in place.\<close>

definition discover :: "(discovery \<Rightarrow> discovery) \<Rightarrow> unit asks" where
  "discover change = op_modify (\<lambda>s. s \<lparr>se_discovery := map_option change (se_discovery s)\<rparr>)"

definition discovered_inconsistent :: "bool asks" where
  "discovered_inconsistent = op_read (\<lambda>s. case se_discovery s of None \<Rightarrow> False | Some i \<Rightarrow> di_inconsistent i)"

definition loadRelationshipAuthoritySpace :: "auth_env \<Rightarrow> security_context \<Rightarrow> jstr \<Rightarrow> space_view option asks" where
  "loadRelationshipAuthoritySpace env context spaceId =
     ask env (\<lambda>d. map_option view_of_space (first_row (spaces_named context spaceId d)))"

section \<open>Paths\<close>

definition path_rows :: "space_record list list \<Rightarrow> (nat \<times> space_view) list" where
  "path_rows ls = concat (map (\<lambda>(depth, rows). map (\<lambda>sp. (depth, view_of_space sp)) rows) (enumerate 0 ls))"

definition inherited_path :: "jstr \<Rightarrow> (nat \<times> space_view) list \<Rightarrow> (nat \<times> space_view) list option" where
  "inherited_path grantSpaceId rows =
     (let grantIndex = length (takeWhile (\<lambda>row. vw_id (snd row) \<noteq> grantSpaceId) rows) in
      if grantIndex = length rows \<or> grantIndex = 0 then None
      else let path = take (grantIndex + 1) rows in
        if list_ex (\<lambda>row. vw_inheritance_mode (snd row) = RestrictedInheritance) (butlast path) then None
        else Some path)"

definition loadInheritedAuthorityPath ::
  "auth_env \<Rightarrow> security_context \<Rightarrow> jstr \<Rightarrow> jstr \<Rightarrow> (nat \<times> space_view) list option asks" where
  "loadInheritedAuthorityPath env context targetSpaceId grantSpaceId =
     op_bind (ask_locking env (\<lambda>d. map_option path_rows (ancestors context targetSpaceId d)) (\<lambda>_. [])) (\<lambda>rows.
     op_return (inherited_path grantSpaceId rows))"

definition grant_rows :: "security_context \<Rightarrow> jstr \<Rightarrow> jstr \<Rightarrow> directory \<Rightarrow> grant_record list" where
  "grant_rows context grantId resourceId d = filter (\<lambda>g. grant_in_scope context g \<and>
     ag_id g = uuid_column grantId \<and> ag_resource_id g = uuid_column resourceId \<and> reads_for_actor context g)
     (dr_grants d)"

definition discoverRelationshipAuthorityGrant ::
  "auth_env \<Rightarrow> security_context \<Rightarrow> jstr \<Rightarrow> jstr \<Rightarrow> jstr option asks" where
  "discoverRelationshipAuthorityGrant env context grantId resourceId =
     op_bind (ask env (grant_rows context grantId resourceId)) (\<lambda>rows.
     case rows of
       [] \<Rightarrow> op_return None
     | row # _ \<Rightarrow>
         op_bind (discover (recordRelationshipAuthorityGrant (view_of_grant row))) (\<lambda>_.
         op_bind discovered_inconsistent (\<lambda>inconsistent.
         op_return (if inconsistent then None else Some (spaceGrantToken (ag_id row) (ag_resource_id row))))))"

definition discoverInheritedRelationshipAuthorityGrant ::
  "auth_env \<Rightarrow> security_context \<Rightarrow> jstr \<Rightarrow> jstr \<Rightarrow> jstr \<Rightarrow> jstr option asks" where
  "discoverInheritedRelationshipAuthorityGrant env context targetSpaceId grantId grantSpaceId =
     op_bind (loadInheritedAuthorityPath env context targetSpaceId grantSpaceId) (\<lambda>found.
     case found of
       None \<Rightarrow> op_return None
     | Some path \<Rightarrow>
         op_bind (discover (\<lambda>i. fold (\<lambda>row. recordRelationshipAuthoritySpace (snd row)) path
           (record_path (targetSpaceId @ js '':'' @ grantSpaceId) (map (\<lambda>row. vw_id (snd row)) path) i))) (\<lambda>_.
         op_bind discovered_inconsistent (\<lambda>inconsistent.
         if inconsistent then op_return None
         else discoverRelationshipAuthorityGrant env context grantId grantSpaceId)))"

definition lockOrConfirmSpaceGrant ::
  "auth_env \<Rightarrow> security_context \<Rightarrow> jstr \<Rightarrow> jstr \<Rightarrow> bool \<Rightarrow> jstr option asks" where
  "lockOrConfirmSpaceGrant env context grantId resourceId lockAuthority =
     (if \<not> lockAuthority then op_return (Some (spaceGrantToken grantId resourceId))
      else op_bind (ask_for_share env True (grant_rows context grantId resourceId) grant_locks) (\<lambda>rows.
        op_return (map_option (\<lambda>row. spaceGrantToken (ag_id row) (ag_resource_id row)) (first_row rows))))"

definition lock_path_spaces :: "security_context \<Rightarrow> jstr list \<Rightarrow> directory \<Rightarrow> space_record list" where
  "lock_path_spaces context ids d =
     sort_key asp_id (filter (\<lambda>sp. asp_id sp \<in> set (map uuid_column ids)) (live_spaces context d))"

definition same_path :: "(nat \<times> space_view) list \<Rightarrow> (nat \<times> space_view) list \<Rightarrow> bool" where
  "same_path currentPath expectedPath \<longleftrightarrow> length currentPath = length expectedPath \<and>
     list_all (\<lambda>((depth, row), (depth', row')). vw_id row = vw_id row' \<and>
       vw_parent_space_id row = vw_parent_space_id row' \<and>
       vw_inheritance_mode row = vw_inheritance_mode row' \<and> depth = depth') (zip currentPath expectedPath)"

definition lockOrConfirmInheritedSpaceGrant ::
  "auth_env \<Rightarrow> security_context \<Rightarrow> jstr \<Rightarrow> jstr \<Rightarrow> jstr \<Rightarrow> jstr option asks" where
  "lockOrConfirmInheritedSpaceGrant env context targetSpaceId grantId grantSpaceId =
     op_bind (loadInheritedAuthorityPath env context targetSpaceId grantSpaceId) (\<lambda>found.
     case found of
       None \<Rightarrow> op_return None
     | Some expectedPath \<Rightarrow>
         let expectedIds = map (\<lambda>row. vw_id (snd row)) expectedPath in
         op_bind (ask_for_share env True (lock_path_spaces context expectedIds) space_locks) (\<lambda>locked.
         if length locked \<noteq> length expectedIds \<or> card (set (map asp_id locked)) \<noteq> length expectedIds
         then op_return None
         else op_bind (loadInheritedAuthorityPath env context targetSpaceId grantSpaceId) (\<lambda>again.
           case again of
             None \<Rightarrow> op_return None
           | Some currentPath \<Rightarrow>
               if \<not> same_path currentPath expectedPath then op_return None
               else lockOrConfirmSpaceGrant env context grantId grantSpaceId True)))"

section \<open>Reading a space\<close>

definition read_target :: "auth_env \<Rightarrow> security_context \<Rightarrow> jstr \<Rightarrow> (readable + space_view option) asks" where
  "read_target env context spaceId =
     op_bind (op_read se_discovery) (\<lambda>authorityDiscovery.
     if authorityDiscovery = None then op_return (Inr None)
     else op_bind (loadRelationshipAuthoritySpace env context spaceId) (\<lambda>discoveredTarget.
       case discoveredTarget of
         None \<Rightarrow> op_return (Inl space_not_found)
       | Some row \<Rightarrow>
           op_bind (discover (recordRelationshipAuthoritySpace row)) (\<lambda>_.
           op_bind discovered_inconsistent (\<lambda>inconsistent.
           op_return (if inconsistent
             then Inl (unreadable ''space_access_denied'' ''Current Space authority changed during evaluation'')
             else Inr discoveredTarget)))))"

definition lock_target ::
  "auth_env \<Rightarrow> security_context \<Rightarrow> jstr \<Rightarrow> jstr option \<Rightarrow> bool \<Rightarrow> (readable + jstr option) asks" where
  "lock_target env context spaceId lockedTarget lockAuthority =
     (if lockAuthority \<and> lockedTarget = None
      then op_bind (ask_for_share env True (spaces_named context spaceId) space_locks) (\<lambda>rows.
        op_return (case rows of [] \<Rightarrow> Inl space_not_found | row # _ \<Rightarrow> Inr (Some (asp_id row))))
      else op_return (Inr lockedTarget))"

definition administrator_reads ::
  "auth_env \<Rightarrow> security_context \<Rightarrow> jstr \<Rightarrow> space_view option \<Rightarrow> jstr option \<Rightarrow> readable asks" where
  "administrator_reads env context spaceId discoveredTarget lockedTarget =
     (let yes = readable_because ''workspace_admin_space_read'' [] in
      if discoveredTarget \<noteq> None then op_return yes
      else (case lockedTarget of
        Some i \<Rightarrow> op_return (if i = spaceId then yes else space_not_found)
      | None \<Rightarrow> op_bind (ask env (spaces_named context spaceId)) (\<lambda>rows.
          op_return (if rows \<noteq> [] then yes else space_not_found))))"

definition direct_token :: "auth_env \<Rightarrow> security_context \<Rightarrow> bool \<Rightarrow> grant_record list \<Rightarrow> jstr option asks" where
  "direct_token env context lockAuthority grants =
     (case grants of
        [] \<Rightarrow> op_return None
      | g # _ \<Rightarrow> op_bind (op_read se_discovery) (\<lambda>authorityDiscovery.
          if authorityDiscovery \<noteq> None then discoverRelationshipAuthorityGrant env context (ag_id g) (ag_resource_id g)
          else lockOrConfirmSpaceGrant env context (ag_id g) (ag_resource_id g) lockAuthority))"

definition inherited_token ::
  "auth_env \<Rightarrow> security_context \<Rightarrow> jstr \<Rightarrow> bool \<Rightarrow> space_access \<Rightarrow> jstr option asks" where
  "inherited_token env context spaceId lockAuthority found =
     (if xa_target_restricted found then op_return None
      else (case xa_inherited_grants found of
        [] \<Rightarrow> op_return None
      | g # _ \<Rightarrow> op_bind (op_read se_discovery) (\<lambda>authorityDiscovery.
          if authorityDiscovery \<noteq> None
          then discoverInheritedRelationshipAuthorityGrant env context spaceId (ag_id g) (ag_resource_id g)
          else if lockAuthority
          then lockOrConfirmInheritedSpaceGrant env context spaceId (ag_id g) (ag_resource_id g)
          else op_return (Some (spaceGrantToken (ag_id g) (ag_resource_id g))))))"

definition member_reads :: "auth_env \<Rightarrow> security_context \<Rightarrow> jstr \<Rightarrow> bool \<Rightarrow> readable asks" where
  "member_reads env context spaceId lockAuthority =
     op_bind (ask_locking env (space_access_of context spaceId) (\<lambda>_. [])) (\<lambda>row.
     case row of
       None \<Rightarrow> op_return space_not_found
     | Some found \<Rightarrow>
         if xa_is_root found then op_return (readable_because ''workspace_root_read'' [])
         else op_bind (direct_token env context lockAuthority (xa_direct_grants found)) (\<lambda>direct.
           case direct of
             Some t \<Rightarrow> op_return (readable_because ''direct_space_grant'' [t])
           | None \<Rightarrow> op_bind (inherited_token env context spaceId lockAuthority found) (\<lambda>inherited.
               op_return (case inherited of
                 Some t \<Rightarrow> readable_because ''inherited_space_grant'' [t]
               | None \<Rightarrow> unreadable ''space_access_denied'' ''No current Space grant authorizes this action''))))"

definition canReadSpaceResource ::
  "auth_env \<Rightarrow> security_context \<Rightarrow> jstr \<Rightarrow> membership_role \<Rightarrow> jstr option \<Rightarrow> bool \<Rightarrow> readable asks" where
  "canReadSpaceResource env context spaceId role lockedTarget lockAuthority =
     op_bind (read_target env context spaceId) (\<lambda>target.
     case target of
       Inl no \<Rightarrow> op_return no
     | Inr discoveredTarget \<Rightarrow>
         op_bind (lock_target env context spaceId lockedTarget lockAuthority) (\<lambda>locked.
         case locked of
           Inl no \<Rightarrow> op_return no
         | Inr lockedTarget \<Rightarrow>
             if workspace_authority role
             then administrator_reads env context spaceId discoveredTarget lockedTarget
             else member_reads env context spaceId lockAuthority))"

section \<open>Contributing to a space\<close>

definition CONTRIBUTE_RELATIONS :: "grant_relation list" where
  "CONTRIBUTE_RELATIONS = [OwnerGrant, ManagerGrant, ContributorGrant]"

definition contribution_grants :: "security_context \<Rightarrow> jstr \<Rightarrow> directory \<Rightarrow> grant_record list" where
  "contribution_grants context spaceId d = sort_key ag_id (filter (\<lambda>g. grant_in_scope context g \<and>
     ag_resource_id g = uuid_column spaceId \<and> ag_relation g \<in> set CONTRIBUTE_RELATIONS \<and>
     grants_actor context g) (dr_grants d))"

definition contributorAuthority ::
  "auth_env \<Rightarrow> security_context \<Rightarrow> jstr \<Rightarrow> membership_role \<Rightarrow> bool \<Rightarrow> (bool \<times> jstr list) asks" where
  "contributorAuthority env context spaceId role lockAuthority =
     (if workspace_authority role then op_return (True, [])
      else op_bind (ask_for_share env lockAuthority (\<lambda>d. take 1 (contribution_grants context spaceId d)) grant_locks)
        (\<lambda>rows. case rows of
            [] \<Rightarrow> op_return (False, [])
          | row # _ \<Rightarrow>
              op_bind (discover (recordRelationshipAuthorityGrant (view_of_grant row))) (\<lambda>_.
              op_bind discovered_inconsistent (\<lambda>inconsistent.
              op_return (if inconsistent then (False, [])
                else (True, [spaceGrantToken (ag_id row) (ag_resource_id row)]))))))"

end
