(* ===== verification/Authorization.thy ===== *)
theory Authorization
  imports Space_Access
begin

text \<open>
  \<open>PostgresAuthorizationService\<close> of \<open>packages/authorization/src/authorization-service.ts\<close>: whether the
  actor of a security context may perform an action on a resource, decided inside a transaction. A
  decision carries a reason, and on success the tokens of the grants it rests on. This theory holds
  the decisions about tenants, spaces, the work graph, content, sources, claims and facts.
\<close>

section \<open>Actions, resources, decisions\<close>

datatype auth_action =
    TenantRead | WorkspaceRead | WorkspaceManageMembers | SpaceRead | SpaceCreateChild | SpaceManageAccess
  | IdentityMeRead | MembershipRead | FoundationProofCreate | FoundationRelayPublish
  | FoundationWorkerConsume | ProductRelayPublish
  | OrganizationCreate | OrganizationRead | InitiativeCreate | InitiativeRead | ActivityCreate
  | ActivityRead | PersonRead | RelationshipCreate | RelationshipEnd | RelationshipRead
  | ContentCreate | ContentRevise | ContentRead | SourceCapture | SourceCorrect | SourceTombstone
  | SourceRead | ClaimCreate | ClaimRead | ProposalWithdraw | ProposalReject | ProposalRework
  | FactRead | FactAccept | FactSupersede | FactRevoke

fun action_name :: "auth_action \<Rightarrow> jstr" where
  "action_name TenantRead = js ''tenant.read''"
| "action_name WorkspaceRead = js ''workspace.read''"
| "action_name WorkspaceManageMembers = js ''workspace.manage_members''"
| "action_name SpaceRead = js ''space.read''"
| "action_name SpaceCreateChild = js ''space.create_child''"
| "action_name SpaceManageAccess = js ''space.manage_access''"
| "action_name IdentityMeRead = js ''identity.me.read''"
| "action_name MembershipRead = js ''membership.read''"
| "action_name FoundationProofCreate = js ''foundation.proof.create''"
| "action_name FoundationRelayPublish = js ''foundation.relay.publish''"
| "action_name FoundationWorkerConsume = js ''foundation.worker.consume''"
| "action_name ProductRelayPublish = js ''product_outbox.relay.publish''"
| "action_name OrganizationCreate = js ''organization.create''"
| "action_name OrganizationRead = js ''organization.read''"
| "action_name InitiativeCreate = js ''initiative.create''"
| "action_name InitiativeRead = js ''initiative.read''"
| "action_name ActivityCreate = js ''activity.create''"
| "action_name ActivityRead = js ''activity.read''"
| "action_name PersonRead = js ''person.read''"
| "action_name RelationshipCreate = js ''relationship.create''"
| "action_name RelationshipEnd = js ''relationship.end''"
| "action_name RelationshipRead = js ''relationship.read''"
| "action_name ContentCreate = js ''content.create''"
| "action_name ContentRevise = js ''content.revise''"
| "action_name ContentRead = js ''content.read''"
| "action_name SourceCapture = js ''source.capture''"
| "action_name SourceCorrect = js ''source.correct''"
| "action_name SourceTombstone = js ''source.tombstone''"
| "action_name SourceRead = js ''source.read''"
| "action_name ClaimCreate = js ''claim.create''"
| "action_name ClaimRead = js ''claim.read''"
| "action_name ProposalWithdraw = js ''initiative.primary_objective.proposal.withdraw''"
| "action_name ProposalReject = js ''initiative.primary_objective.proposal.reject''"
| "action_name ProposalRework = js ''initiative.primary_objective.proposal.rework''"
| "action_name FactRead = js ''fact.read''"
| "action_name FactAccept = js ''fact.accept''"
| "action_name FactSupersede = js ''fact.supersede''"
| "action_name FactRevoke = js ''fact.revoke''"

datatype ref_type =
    RefSpace | RefPerson | RefTeam | RefOrganization | RefInitiative | RefActivity | RefContent | RefTask
  | RefCommitment | RefDecision | RefUseCase | RefReadinessProfile | RefTenant | RefWorkspace | RefUser
  | RefMembership | RefServicePrincipal | RefAgentPrincipal | RefRelationship | RefContentItem
  | RefSource | RefSourceChunk | RefClaim | RefFact | RefDerivedView

fun ref_type_name :: "ref_type \<Rightarrow> jstr" where
  "ref_type_name RefSpace = js ''space''"
| "ref_type_name RefPerson = js ''person''"
| "ref_type_name RefTeam = js ''team''"
| "ref_type_name RefOrganization = js ''organization''"
| "ref_type_name RefInitiative = js ''initiative''"
| "ref_type_name RefActivity = js ''activity''"
| "ref_type_name RefContent = js ''content''"
| "ref_type_name RefTask = js ''task''"
| "ref_type_name RefCommitment = js ''commitment''"
| "ref_type_name RefDecision = js ''decision''"
| "ref_type_name RefUseCase = js ''use_case''"
| "ref_type_name RefReadinessProfile = js ''readiness_profile''"
| "ref_type_name RefTenant = js ''tenant''"
| "ref_type_name RefWorkspace = js ''workspace''"
| "ref_type_name RefUser = js ''user''"
| "ref_type_name RefMembership = js ''membership''"
| "ref_type_name RefServicePrincipal = js ''service_principal''"
| "ref_type_name RefAgentPrincipal = js ''agent_principal''"
| "ref_type_name RefRelationship = js ''relationship''"
| "ref_type_name RefContentItem = js ''content_item''"
| "ref_type_name RefSource = js ''source''"
| "ref_type_name RefSourceChunk = js ''source_chunk''"
| "ref_type_name RefClaim = js ''claim''"
| "ref_type_name RefFact = js ''fact''"
| "ref_type_name RefDerivedView = js ''derived_view''"

record resource_ref =
  rr_type :: ref_type
  rr_id :: jstr

record worker_binding =
  wb_referenceId :: jstr
  wb_jobId :: jstr
  wb_workerServicePrincipalId :: jstr
  wb_tenantId :: jstr
  wb_workspaceId :: jstr
  wb_spaceId :: jstr
  wb_policyVersionId :: jstr
  wb_delegatingUserId :: jstr
  wb_delegatingMembershipId :: jstr

record decision_options =
  ao_explain :: bool
  ao_personUseSite :: "resource_ref option"
  ao_contentRevision :: "int option"
  ao_requiredSpaceId :: "jstr option"
  ao_requestedAccessClass :: "access_class option"
  ao_workerBinding :: "worker_binding option"
  ao_lockAuthority :: bool
  ao_factLifecycleReplay :: bool

definition no_options :: decision_options where
  "no_options = \<lparr>ao_explain = False, ao_personUseSite = None, ao_contentRevision = None,
     ao_requiredSpaceId = None, ao_requestedAccessClass = None, ao_workerBinding = None,
     ao_lockAuthority = False, ao_factLifecycleReplay = False\<rparr>"

record decision =
  de_allowed :: bool
  de_reasonCode :: jstr
  de_explanation :: "jstr option"
  de_policyVersion :: jstr
  de_evaluatedRelationships :: "jstr list option"

definition allow :: "jstr \<Rightarrow> jstr \<Rightarrow> jstr option \<Rightarrow> jstr list option \<Rightarrow> decision" where
  "allow policyVersion reasonCode explanation evaluatedRelationships =
     \<lparr>de_allowed = True, de_reasonCode = reasonCode, de_explanation = explanation,
      de_policyVersion = policyVersion, de_evaluatedRelationships = evaluatedRelationships\<rparr>"

definition deny :: "jstr \<Rightarrow> jstr \<Rightarrow> jstr option \<Rightarrow> decision" where
  "deny policyVersion reasonCode explanation =
     \<lparr>de_allowed = False, de_reasonCode = reasonCode, de_explanation = explanation,
      de_policyVersion = policyVersion, de_evaluatedRelationships = None\<rparr>"

definition denied :: "security_context \<Rightarrow> string \<Rightarrow> string \<Rightarrow> decision asks" where
  "denied context reasonCode explanation =
     op_return (deny (sx_policyVersion context) (js reasonCode) (Some (js explanation)))"

definition nonLeakingB1Deny :: "jstr \<Rightarrow> decision" where
  "nonLeakingB1Deny policyVersion = deny policyVersion (js ''b1_resource_not_available'') None"

definition not_available :: "security_context \<Rightarrow> decision asks" where
  "not_available context = op_return (nonLeakingB1Deny (sx_policyVersion context))"

definition ownerOrAdminDecision :: "jstr \<Rightarrow> membership_role \<Rightarrow> jstr \<Rightarrow> decision" where
  "ownerOrAdminDecision policyVersion role reasonCode =
     (if workspace_authority role then allow policyVersion reasonCode None None
      else deny policyVersion (js ''role_denied'') (Some (js ''Only owners or admins may perform this action'')))"

definition parseContextForDecision :: "auth_env \<Rightarrow> security_context \<Rightarrow> decision + security_context" where
  "parseContextForDecision env context =
     (case parseSecurityContext (av_uuid env) context of
        None \<Rightarrow> Inl (deny (sx_policyVersion context) (js ''invalid_context'') (Some (av_message env context)))
      | Some c \<Rightarrow> Inr c)"

text \<open>Whether a parsed context has expired is asked with the clock of the process.\<close>

definition checked_context :: "auth_env \<Rightarrow> security_context \<Rightarrow> decision + security_context" where
  "checked_context env inputContext = res_bind (parseContextForDecision env inputContext) (\<lambda>context.
     if isSecurityContextExpired context (av_now env)
     then Inl (deny (sx_policyVersion context) (js ''context_expired'') (Some (js ''SecurityContext has expired'')))
     else Inr context)"

definition given :: "jstr option \<Rightarrow> bool" where
  "given v \<longleftrightarrow> (case v of None \<Rightarrow> False | Some s \<Rightarrow> s \<noteq> [])"

definition explained :: "decision_options \<Rightarrow> string \<Rightarrow> jstr option" where
  "explained options explanation = (if ao_explain options then Some (js explanation) else None)"

section \<open>Policy and membership\<close>

definition active_policies :: "security_context \<Rightarrow> directory \<Rightarrow> policy_record list" where
  "active_policies context d = filter (\<lambda>p. pv_id p = sx_policyVersion context \<and>
     in_scope context (pv_tenant_id p) (pv_workspace_id p) \<and> pv_status p = ActivePolicy) (dr_policies d)"

definition policy_locks :: "policy_record \<Rightarrow> lock list" where
  "policy_locks p = [PolicyLock (pv_tenant_id p) (pv_workspace_id p) (pv_id p)]"

definition loadActivePolicyRecord :: "auth_env \<Rightarrow> security_context \<Rightarrow> bool \<Rightarrow> (jstr \<times> policy_status) option asks" where
  "loadActivePolicyRecord env context lockAuthority =
     op_bind (ask_for_share env lockAuthority (active_policies context) policy_locks) (\<lambda>rows.
     op_return (map_option (\<lambda>p. (pv_id p, pv_status p)) (first_row rows)))"

definition loadActivePolicyVersion :: "auth_env \<Rightarrow> security_context \<Rightarrow> bool \<Rightarrow> bool asks" where
  "loadActivePolicyVersion env context lockAuthority =
     op_bind (loadActivePolicyRecord env context lockAuthority) (\<lambda>found. op_return (found \<noteq> None))"

record member_view =
  mv_membership_id :: jstr
  mv_user_id :: jstr
  mv_person_id :: "jstr option"
  mv_role :: membership_role
  mv_membership_status :: membership_status
  mv_user_status :: user_status

definition memberships_of :: "security_context \<Rightarrow> directory \<Rightarrow> (membership_record \<times> user_record) list" where
  "memberships_of context d = [(m, u). m \<leftarrow> dr_memberships d,
     id_is (mb_id m) (sx_actorMembershipId context) \<and> id_is (mb_user_id m) (sx_actorUserId context) \<and>
       in_scope context (mb_tenant_id m) (mb_workspace_id m) \<and> mb_person_id m \<noteq> None,
     u \<leftarrow> dr_users d, us_id u = mb_user_id m]"

definition member_of :: "membership_record \<times> user_record \<Rightarrow> member_view" where
  "member_of row = (case row of (m, u) \<Rightarrow> \<lparr>mv_membership_id = mb_id m, mv_user_id = mb_user_id m,
     mv_person_id = mb_person_id m, mv_role = mb_role m, mv_membership_status = mb_status m,
     mv_user_status = us_status u\<rparr>)"

definition membership_locks :: "membership_record \<times> user_record \<Rightarrow> lock list" where
  "membership_locks row = [MembershipLock (mb_id (fst row)), UserLock (us_id (snd row))]"

definition loadActiveMembership :: "auth_env \<Rightarrow> security_context \<Rightarrow> bool \<Rightarrow> member_view option asks" where
  "loadActiveMembership env context lockAuthority =
     op_bind (ask_for_share env lockAuthority (memberships_of context) membership_locks) (\<lambda>rows.
     op_return (map_option member_of (first_row rows)))"

record authority_actor =
  ac_membershipId :: jstr
  ac_userId :: jstr
  ac_personId :: jstr
  ac_role :: membership_role

definition exactHumanAuthorityActor :: "security_context \<Rightarrow> member_view option \<Rightarrow> authority_actor option" where
  "exactHumanAuthorityActor context membership =
     (case membership of
        None \<Rightarrow> None
      | Some m \<Rightarrow>
          if \<not> given (sx_actorMembershipId context) \<or> \<not> given (sx_actorUserId context) \<or>
             Some (mv_membership_id m) \<noteq> sx_actorMembershipId context \<or>
             Some (mv_user_id m) \<noteq> sx_actorUserId context \<or> \<not> given (mv_person_id m) \<or>
             mv_membership_status m \<noteq> ActiveMembership \<or> mv_user_status m \<noteq> ActiveUser
          then None
          else Some \<lparr>ac_membershipId = mv_membership_id m, ac_userId = mv_user_id m,
            ac_personId = the (mv_person_id m), ac_role = mv_role m\<rparr>)"

section \<open>Data classes\<close>

definition canReadDataClass :: "access_class \<Rightarrow> access_class \<Rightarrow> bool" where
  "canReadDataClass ceiling resource \<longleftrightarrow> access_rank resource \<le> access_rank ceiling"

definition maxDataClass :: "access_class \<Rightarrow> access_class \<Rightarrow> access_class" where
  "maxDataClass left right = (if access_rank left \<ge> access_rank right then left else right)"

section \<open>The scope of a resource\<close>

datatype scoped_table =
    Organizations | Initiatives | Activities | Relationships | ContentItems | SourceArtifacts
  | TruthClaims | AcceptedFacts

text \<open>A row of a table with its scope: tenant, workspace, id, space, and the classes of its own.\<close>

type_synonym scoped_row = "jstr \<times> jstr \<times> jstr \<times> jstr \<times> access_class list"

fun table_rows :: "scoped_table \<Rightarrow> directory \<Rightarrow> scoped_row list" where
  "table_rows Organizations d =
     map (\<lambda>r. (og_tenant_id r, og_workspace_id r, og_id r, og_space_id r, [])) (dr_organizations d)"
| "table_rows Initiatives d =
     map (\<lambda>r. (wr_tenant_id r, wr_workspace_id r, wr_id r, wr_space_id r, [])) (dr_initiatives d)"
| "table_rows Activities d =
     map (\<lambda>r. (wr_tenant_id r, wr_workspace_id r, wr_id r, wr_space_id r, [])) (dr_activities d)"
| "table_rows Relationships d =
     map (\<lambda>r. (rl_tenant_id r, rl_workspace_id r, rl_id r, rl_space_id r, [])) (dr_relationships d)"
| "table_rows ContentItems d =
     map (\<lambda>r. (ct_tenant_id r, ct_workspace_id r, ct_id r, ct_space_id r, [ct_access_class r])) (dr_content_items d)"
| "table_rows SourceArtifacts d =
     map (\<lambda>r. (ct_tenant_id r, ct_workspace_id r, ct_id r, ct_space_id r, [ct_access_class r])) (dr_sources d)"
| "table_rows TruthClaims d =
     map (\<lambda>r. (tc_tenant_id r, tc_workspace_id r, tc_id r, tc_space_id r, [tc_access_class r])) (dr_claims d)"
| "table_rows AcceptedFacts d =
     map (\<lambda>r. (tf_tenant_id r, tf_workspace_id r, tf_id r, tf_space_id r, [tf_access_class r])) (dr_facts d)"

text \<open>A revision of a content item adds its own class, in the space that the caller may require.\<close>

definition revision_rows :: "int \<Rightarrow> jstr option \<Rightarrow> directory \<Rightarrow> scoped_row list" where
  "revision_rows n requiredSpaceId d = [(ct_tenant_id r, ct_workspace_id r, ct_id r, ct_space_id r,
     [ct_access_class r, rv_access_class v]). r \<leftarrow> dr_content_items d, v \<leftarrow> dr_revisions d,
     rv_tenant_id v = ct_tenant_id r \<and> rv_workspace_id v = ct_workspace_id r \<and> rv_space_id v = ct_space_id r \<and>
       rv_content_item_id v = ct_id r \<and> rv_revision_number v = n \<and>
       (requiredSpaceId = None \<or> id_is (ct_space_id r) requiredSpaceId)]"

fun scope_table :: "auth_action \<Rightarrow> (scoped_table \<times> ref_type) option" where
  "scope_table OrganizationCreate = Some (Organizations, RefOrganization)"
| "scope_table OrganizationRead = Some (Organizations, RefOrganization)"
| "scope_table InitiativeCreate = Some (Initiatives, RefInitiative)"
| "scope_table InitiativeRead = Some (Initiatives, RefInitiative)"
| "scope_table ProposalWithdraw = Some (Initiatives, RefInitiative)"
| "scope_table ProposalReject = Some (Initiatives, RefInitiative)"
| "scope_table ProposalRework = Some (Initiatives, RefInitiative)"
| "scope_table ActivityCreate = Some (Activities, RefActivity)"
| "scope_table ActivityRead = Some (Activities, RefActivity)"
| "scope_table RelationshipCreate = Some (Relationships, RefRelationship)"
| "scope_table RelationshipEnd = Some (Relationships, RefRelationship)"
| "scope_table RelationshipRead = Some (Relationships, RefRelationship)"
| "scope_table ContentCreate = Some (ContentItems, RefContentItem)"
| "scope_table ContentRevise = Some (ContentItems, RefContentItem)"
| "scope_table ContentRead = Some (ContentItems, RefContentItem)"
| "scope_table SourceCapture = Some (SourceArtifacts, RefSource)"
| "scope_table SourceCorrect = Some (SourceArtifacts, RefSource)"
| "scope_table SourceTombstone = Some (SourceArtifacts, RefSource)"
| "scope_table SourceRead = Some (SourceArtifacts, RefSource)"
| "scope_table ClaimCreate = Some (TruthClaims, RefClaim)"
| "scope_table ClaimRead = Some (TruthClaims, RefClaim)"
| "scope_table FactRead = Some (AcceptedFacts, RefFact)"
| "scope_table FactAccept = Some (AcceptedFacts, RefFact)"
| "scope_table FactSupersede = Some (AcceptedFacts, RefFact)"
| "scope_table FactRevoke = Some (AcceptedFacts, RefFact)"
| "scope_table _ = None"

definition greatest_class :: "access_class list \<Rightarrow> access_class" where
  "greatest_class cs = foldr max cs Public"

definition scoped_in :: "security_context \<Rightarrow> jstr \<Rightarrow> scoped_row list \<Rightarrow> directory \<Rightarrow> (jstr \<times> access_class) list" where
  "scoped_in context resourceId rows d = [(space, greatest_class (asp_access_class sp # classes)).
     (tenant, workspace, i, space, classes) \<leftarrow> rows,
     in_scope context tenant workspace \<and> i = uuid_column resourceId,
     sp \<leftarrow> dr_spaces d, asp_tenant_id sp = tenant \<and> asp_workspace_id sp = workspace \<and> asp_id sp = space]"

definition loadB1ResourceScope ::
  "auth_env \<Rightarrow> security_context \<Rightarrow> auth_action \<Rightarrow> resource_ref \<Rightarrow> decision_options \<Rightarrow> (jstr \<times> access_class) option asks" where
  "loadB1ResourceScope env context action resource options =
     (case scope_table action of
        None \<Rightarrow> op_return None
      | Some (table, expectedType) \<Rightarrow>
          if rr_type resource \<noteq> expectedType then op_return None
          else ask env (\<lambda>d. first_row (scoped_in context (rr_id resource)
            (case (table, ao_contentRevision options) of
               (ContentItems, Some n) \<Rightarrow> revision_rows n (ao_requiredSpaceId options) d
             | _ \<Rightarrow> table_rows table d) d)))"

end
