(* ===== verification/Decisions.thy ===== *)
theory Decisions
  imports Authorization
begin

text \<open>
  The decisions of \<open>packages/authorization/src/authorization-service.ts\<close> about the actions of people:
  reading persons, reading and writing the work graph, content and sources, proposing claims and
  deciding on facts, and the actions on tenants, workspaces and spaces.
\<close>

section \<open>Reading a person\<close>

text \<open>A person is read at a place of use, which has to name the person.\<close>

definition participates :: "jstr \<Rightarrow> work_record \<Rightarrow> participant_record \<Rightarrow> bool" where
  "participates personId r a \<longleftrightarrow> pp_tenant_id a = wr_tenant_id r \<and>
     pp_workspace_id a = wr_workspace_id r \<and> pp_resource_id a = wr_id r \<and> pp_person_id a = uuid_column personId"

definition use_site_rows :: "resource_ref \<Rightarrow> jstr \<Rightarrow> directory \<Rightarrow> scoped_row list option" where
  "use_site_rows site personId d =
     (case rr_type site of
        RefActivity \<Rightarrow> Some [(wr_tenant_id r, wr_workspace_id r, wr_id r, wr_space_id r, []). r \<leftarrow> dr_activities d,
          wr_owner_person_id r = uuid_column personId \<or>
          list_ex (participates personId r) (dr_attendees d)]
      | RefInitiative \<Rightarrow> Some [(wr_tenant_id r, wr_workspace_id r, wr_id r, wr_space_id r, []). r \<leftarrow> dr_initiatives d,
          wr_owner_person_id r = uuid_column personId \<or>
          list_ex (\<lambda>a. participates personId r a \<and> \<not> pp_ended a) (dr_contributors d)]
      | RefRelationship \<Rightarrow> Some [(rl_tenant_id r, rl_workspace_id r, rl_id r, rl_space_id r, []).
          r \<leftarrow> dr_relationships d, (js ''person'', uuid_column personId) \<in> set (rl_ends r)]
      | RefOrganization \<Rightarrow> Some (table_rows Organizations d)
      | RefContentItem \<Rightarrow> Some [(t, w, i, s, []). (t, w, i, s, _) \<leftarrow> table_rows ContentItems d]
      | _ \<Rightarrow> None)"

definition people_named :: "security_context \<Rightarrow> jstr \<Rightarrow> directory \<Rightarrow> person_record list" where
  "people_named context personId d = filter (\<lambda>p. in_scope context (pe_tenant_id p) (pe_workspace_id p) \<and>
     pe_id p = uuid_column personId) (dr_people d)"

definition use_site_scope ::
  "security_context \<Rightarrow> resource_ref \<Rightarrow> jstr \<Rightarrow> directory \<Rightarrow> (jstr \<times> access_class) list" where
  "use_site_scope context site personId d =
     (if rr_type site = RefSpace
      then [(asp_id sp, asp_access_class sp). sp \<leftarrow> spaces_named context (rr_id site) d,
              p \<leftarrow> people_named context personId d]
      else [row. row \<leftarrow> scoped_in context (rr_id site) (case use_site_rows site personId d of None \<Rightarrow> [] | Some rs \<Rightarrow> rs) d,
              p \<leftarrow> people_named context personId d])"

definition USE_SITE_TYPES :: "ref_type list" where
  "USE_SITE_TYPES = [RefActivity, RefInitiative, RefRelationship, RefOrganization, RefContentItem, RefSpace]"

definition personReadDecision ::
  "auth_env \<Rightarrow> security_context \<Rightarrow> membership_role \<Rightarrow> resource_ref \<Rightarrow> decision_options \<Rightarrow> decision asks" where
  "personReadDecision env context role resource options =
     (case ao_personUseSite options of
        None \<Rightarrow> not_available context
      | Some useSite \<Rightarrow>
          if rr_type resource \<noteq> RefPerson \<or> rr_type useSite \<notin> set USE_SITE_TYPES then not_available context
          else op_bind (ask env (\<lambda>d. first_row (use_site_scope context useSite (rr_id resource) d))) (\<lambda>row.
            case row of
              None \<Rightarrow> not_available context
            | Some (spaceId, accessClass) \<Rightarrow>
                if \<not> canReadDataClass (sx_dataClassCeiling context) accessClass then not_available context
                else op_bind (canReadSpaceResource env context spaceId role None (ao_lockAuthority options)) (\<lambda>readable.
                  if rd_allowed readable
                  then op_return (allow (sx_policyVersion context) (js ''person_use_site_read'') None
                    (Some (rd_authorityTokens readable)))
                  else not_available context)))"

section \<open>Claims and facts\<close>

definition truth_mutation :: "auth_action \<Rightarrow> bool" where
  "truth_mutation action \<longleftrightarrow> action \<in> set [ClaimCreate, ProposalWithdraw, ProposalReject, ProposalRework,
     FactAccept, FactSupersede, FactRevoke]"

fun fact_generation :: "bool \<Rightarrow> fact_row \<Rightarrow> bool" where
  "fact_generation True f \<longleftrightarrow> tf_status f \<in> {SupersededFact, RevokedFact} \<and> tf_version f = 2"
| "fact_generation False f \<longleftrightarrow> tf_status f = CurrentFact \<and> tf_version f = 1"

definition canonical_pair :: "fact_row \<Rightarrow> bool" where
  "canonical_pair f \<longleftrightarrow> (tf_subject_type f = ActivitySubject \<and> tf_predicate f = ActivityOutcome) \<or>
     (tf_subject_type f = InitiativeSubject \<and> tf_predicate f = PrimaryObjective)"

definition lifecycle_facts ::
  "security_context \<Rightarrow> jstr \<Rightarrow> bool \<Rightarrow> directory \<Rightarrow> (fact_row \<times> space_record) list" where
  "lifecycle_facts context factId replay d = [(f, sp). f \<leftarrow> dr_facts d,
     in_scope context (tf_tenant_id f) (tf_workspace_id f) \<and> tf_id f = uuid_column factId \<and>
       fact_generation replay f \<and> canonical_pair f,
     sp \<leftarrow> dr_spaces d, asp_tenant_id sp = tf_tenant_id f \<and> asp_workspace_id sp = tf_workspace_id f \<and>
       asp_id sp = tf_space_id f \<and> \<not> asp_archived sp]"

definition fact_locks :: "fact_row \<times> space_record \<Rightarrow> lock list" where
  "fact_locks row = [FactLock (tf_id (fst row)), SpaceLock (asp_id (snd row))]"

fun subject_table :: "subject_kind \<Rightarrow> directory \<Rightarrow> work_record list" where
  "subject_table ActivitySubject d = dr_activities d"
| "subject_table InitiativeSubject d = dr_initiatives d"

fun subject_lock :: "subject_kind \<Rightarrow> jstr \<Rightarrow> lock" where
  "subject_lock ActivitySubject i = ActivityLock i"
| "subject_lock InitiativeSubject i = InitiativeLock i"

fun owner_reason :: "subject_kind \<Rightarrow> jstr" where
  "owner_reason ActivitySubject = js ''b2_activity_owner''"
| "owner_reason InitiativeSubject = js ''b2_initiative_owner''"

definition subjects_of_fact :: "security_context \<Rightarrow> fact_row \<Rightarrow> directory \<Rightarrow> work_record list" where
  "subjects_of_fact context f d = filter (\<lambda>w. in_scope context (wr_tenant_id w) (wr_workspace_id w) \<and>
     wr_id w = tf_subject_id f \<and> wr_space_id w = tf_space_id f) (subject_table (tf_subject_type f) d)"

definition decide_fact_owner ::
  "auth_env \<Rightarrow> security_context \<Rightarrow> membership_role \<Rightarrow> decision_options \<Rightarrow> authority_actor \<Rightarrow> fact_row \<Rightarrow>
     work_record \<Rightarrow> decision asks" where
  "decide_fact_owner env context role options actor f w =
     (if wr_owner_person_id w \<noteq> ac_personId actor then not_available context
      else op_bind (canReadSpaceResource env context (tf_space_id f) role None (ao_lockAuthority options)) (\<lambda>readable.
        if \<not> rd_allowed readable then not_available context
        else op_return (allow (sx_policyVersion context) (owner_reason (tf_subject_type f)) None
          (Some (rd_authorityTokens readable)))))"

definition decide_fact_lifecycle ::
  "auth_env \<Rightarrow> security_context \<Rightarrow> membership_role \<Rightarrow> decision_options \<Rightarrow> authority_actor \<Rightarrow>
     fact_row \<times> space_record \<Rightarrow> decision asks" where
  "decide_fact_lifecycle env context role options actor row =
     (case row of (f, sp) \<Rightarrow>
        if sx_requestedSpaceIds context \<noteq> [tf_space_id f] \<or>
           \<not> canReadDataClass (sx_dataClassCeiling context) (greatest_class [asp_access_class sp, tf_access_class f])
        then not_available context
        else op_bind (ask_for_share env (ao_lockAuthority options) (\<lambda>d. take 1 (subjects_of_fact context f d))
            (\<lambda>w. [subject_lock (tf_subject_type f) (wr_id w)])) (\<lambda>subjects.
          case subjects of
            [] \<Rightarrow> not_available context
          | w # _ \<Rightarrow> decide_fact_owner env context role options actor f w))"

definition factLifecycleMutationDecision ::
  "auth_env \<Rightarrow> security_context \<Rightarrow> membership_role \<Rightarrow> resource_ref \<Rightarrow> decision_options \<Rightarrow> authority_actor \<Rightarrow>
     bool \<Rightarrow> decision asks" where
  "factLifecycleMutationDecision env context role resource options actor replay =
     (if rr_type resource \<noteq> RefFact then not_available context
      else op_bind (ask_for_share env (ao_lockAuthority options)
          (\<lambda>d. take 1 (lifecycle_facts context (rr_id resource) replay d)) fact_locks) (\<lambda>facts.
        case facts of
          [] \<Rightarrow> not_available context
        | row # _ \<Rightarrow> decide_fact_lifecycle env context role options actor row))"

definition objective_proposals ::
  "security_context \<Rightarrow> jstr \<Rightarrow> directory \<Rightarrow> (truth_claim_row \<times> work_record \<times> space_record) list" where
  "objective_proposals context claimId d = [(c, w, sp). c \<leftarrow> dr_claims d,
     in_scope context (tc_tenant_id c) (tc_workspace_id c) \<and> tc_id c = uuid_column claimId \<and>
       tc_subject_type c = InitiativeSubject \<and> tc_predicate c = PrimaryObjective,
     w \<leftarrow> dr_initiatives d, wr_tenant_id w = tc_tenant_id c \<and> wr_workspace_id w = tc_workspace_id c \<and>
       wr_space_id w = tc_space_id c \<and> wr_id w = tc_subject_id c,
     sp \<leftarrow> dr_spaces d, asp_tenant_id sp = tc_tenant_id c \<and> asp_workspace_id sp = tc_workspace_id c \<and>
       asp_id sp = tc_space_id c \<and> \<not> asp_archived sp]"

definition proposal_locks :: "truth_claim_row \<times> work_record \<times> space_record \<Rightarrow> lock list" where
  "proposal_locks row = (case row of (c, w, sp) \<Rightarrow>
     [ClaimLock (tc_id c), InitiativeLock (wr_id w), SpaceLock (asp_id sp)])"

fun proposal_manager :: "auth_action \<Rightarrow> bool \<Rightarrow> bool \<Rightarrow> bool" where
  "proposal_manager ProposalRework isProposer isOwner = isProposer"
| "proposal_manager ProposalReject isProposer isOwner = isOwner"
| "proposal_manager _ isProposer isOwner = (isProposer \<or> isOwner)"

definition decide_objective_proposal ::
  "auth_env \<Rightarrow> security_context \<Rightarrow> membership_role \<Rightarrow> auth_action \<Rightarrow> decision_options \<Rightarrow> authority_actor \<Rightarrow>
     truth_claim_row \<times> work_record \<times> space_record \<Rightarrow> decision asks" where
  "decide_objective_proposal env context role action options actor row =
     (case row of (c, w, sp) \<Rightarrow>
        if \<not> canReadDataClass (sx_dataClassCeiling context) (tc_access_class c) then not_available context
        else op_bind (canReadSpaceResource env context (tc_space_id c) role None (ao_lockAuthority options)) (\<lambda>readable.
          if \<not> rd_allowed readable then not_available context
          else
            let isProposer = tc_created_by_user_id c = ac_userId actor \<and>
                  tc_created_by_membership_id c = ac_membershipId actor;
                isOwner = wr_owner_person_id w = ac_personId actor
            in if proposal_manager action isProposer isOwner
               then op_return (allow (sx_policyVersion context) (js ''b2_primary_objective_proposal_manager'') None
                 (Some (rd_authorityTokens readable @
                   [if isOwner then js ''initiative_owner'' else js ''original_proposer''])))
               else not_available context))"

definition objectiveProposalMutationDecision ::
  "auth_env \<Rightarrow> security_context \<Rightarrow> membership_role \<Rightarrow> auth_action \<Rightarrow> resource_ref \<Rightarrow> decision_options \<Rightarrow>
     authority_actor \<Rightarrow> decision asks" where
  "objectiveProposalMutationDecision env context role action resource options actor =
     (if rr_type resource \<noteq> RefClaim then not_available context
      else op_bind (ask_for_share env (ao_lockAuthority options)
          (\<lambda>d. take 1 (objective_proposals context (rr_id resource) d)) proposal_locks) (\<lambda>rows.
        case rows of
          [] \<Rightarrow> not_available context
        | row # _ \<Rightarrow> decide_objective_proposal env context role action options actor row))"

fun subject_of_ref :: "ref_type \<Rightarrow> subject_kind option" where
  "subject_of_ref RefActivity = Some ActivitySubject"
| "subject_of_ref RefInitiative = Some InitiativeSubject"
| "subject_of_ref _ = None"

record authority_target =
  ta_spaceId :: jstr
  ta_accessClass :: access_class
  ta_subjectType :: subject_kind
  ta_ownerPersonId :: jstr

definition authority_subjects ::
  "security_context \<Rightarrow> subject_kind \<Rightarrow> jstr \<Rightarrow> directory \<Rightarrow> (work_record \<times> space_record) list" where
  "authority_subjects context subjectType subjectId d = [(w, sp). w \<leftarrow> subject_table subjectType d,
     in_scope context (wr_tenant_id w) (wr_workspace_id w) \<and> wr_id w = uuid_column subjectId,
     sp \<leftarrow> dr_spaces d, asp_tenant_id sp = wr_tenant_id w \<and> asp_workspace_id sp = wr_workspace_id w \<and>
       asp_id sp = wr_space_id w \<and> \<not> asp_archived sp]"

definition subject_locks :: "subject_kind \<Rightarrow> work_record \<times> space_record \<Rightarrow> lock list" where
  "subject_locks subjectType row = [subject_lock subjectType (wr_id (fst row)), SpaceLock (asp_id (snd row))]"

definition loadTruthAuthorityTarget ::
  "auth_env \<Rightarrow> security_context \<Rightarrow> auth_action \<Rightarrow> resource_ref \<Rightarrow> decision_options \<Rightarrow> authority_target option asks" where
  "loadTruthAuthorityTarget env context action resource options =
     (if action \<noteq> ClaimCreate \<and> action \<noteq> FactAccept then op_return None
      else (case subject_of_ref (rr_type resource) of
        None \<Rightarrow> op_return None
      | Some subjectType \<Rightarrow>
          op_bind (ask_for_share env (ao_lockAuthority options)
            (\<lambda>d. take 1 (authority_subjects context subjectType (rr_id resource) d)) (subject_locks subjectType)) (\<lambda>rows.
          op_return (case rows of [] \<Rightarrow> None | (w, sp) # _ \<Rightarrow> Some
            \<lparr>ta_spaceId = wr_space_id w, ta_accessClass = asp_access_class sp, ta_subjectType = subjectType,
             ta_ownerPersonId = wr_owner_person_id w\<rparr>))))"

definition decide_truth_target ::
  "auth_env \<Rightarrow> security_context \<Rightarrow> membership_role \<Rightarrow> auth_action \<Rightarrow> decision_options \<Rightarrow> authority_actor \<Rightarrow>
     authority_target \<Rightarrow> decision asks" where
  "decide_truth_target env context role action options actor target =
     (if \<not> canReadDataClass (sx_dataClassCeiling context) (ta_accessClass target) then not_available context
      else op_bind (canReadSpaceResource env context (ta_spaceId target) role None (ao_lockAuthority options)) (\<lambda>readable.
        if \<not> rd_allowed readable then not_available context
        else if action = ClaimCreate
        then op_bind (contributorAuthority env context (ta_spaceId target) role (ao_lockAuthority options)) (\<lambda>contributor.
          if fst contributor
          then op_return (allow (sx_policyVersion context) (js ''b2_live_contributor'') None
            (Some (rd_authorityTokens readable @ snd contributor)))
          else not_available context)
        else if ta_ownerPersonId target = ac_personId actor
        then op_return (allow (sx_policyVersion context) (owner_reason (ta_subjectType target)) None
          (Some (rd_authorityTokens readable)))
        else not_available context))"

definition truthMutationDecision ::
  "auth_env \<Rightarrow> security_context \<Rightarrow> membership_role \<Rightarrow> auth_action \<Rightarrow> resource_ref \<Rightarrow> decision_options \<Rightarrow>
     member_view option \<Rightarrow> decision asks" where
  "truthMutationDecision env context role action resource options membership =
     (case exactHumanAuthorityActor context membership of
        None \<Rightarrow> not_available context
      | Some actor \<Rightarrow>
          if sx_actorDisplayPersonId context \<noteq> Some (ac_personId actor) then not_available context
          else if action \<in> {ProposalWithdraw, ProposalReject, ProposalRework}
          then objectiveProposalMutationDecision env context role action resource options actor
          else if action = FactSupersede \<or> action = FactRevoke
          then factLifecycleMutationDecision env context role resource options actor (ao_factLifecycleReplay options)
          else op_bind (loadTruthAuthorityTarget env context action resource options) (\<lambda>found.
            case found of
              None \<Rightarrow> not_available context
            | Some target \<Rightarrow> decide_truth_target env context role action options actor target))"

section \<open>Work graph, content and sources\<close>

definition b1Actions :: "auth_action list" where
  "b1Actions = [OrganizationCreate, OrganizationRead, InitiativeCreate, InitiativeRead, ActivityCreate,
     ActivityRead, PersonRead, RelationshipCreate, RelationshipEnd, RelationshipRead, ContentCreate,
     ContentRevise, ContentRead, SourceCapture, SourceCorrect, SourceTombstone, SourceRead, ClaimCreate,
     ClaimRead, ProposalWithdraw, ProposalReject, ProposalRework, FactRead, FactAccept, FactSupersede, FactRevoke]"

definition createActions :: "auth_action list" where
  "createActions = [OrganizationCreate, InitiativeCreate, ActivityCreate, RelationshipCreate, ContentCreate,
     SourceCapture]"

definition readActions :: "auth_action list" where
  "readActions = [OrganizationRead, InitiativeRead, ActivityRead, RelationshipRead, ContentRead, SourceRead,
     ClaimRead, FactRead]"

definition b1_scope ::
  "auth_env \<Rightarrow> security_context \<Rightarrow> auth_action \<Rightarrow> resource_ref \<Rightarrow> decision_options \<Rightarrow> (jstr \<times> access_class) option asks" where
  "b1_scope env context action resource options =
     (if action \<in> set createActions
      then if rr_type resource \<noteq> RefSpace then op_return None
        else op_bind (ask env (\<lambda>d. first_row (spaces_named context (rr_id resource) d))) (\<lambda>space.
          op_return (map_option (\<lambda>sp. (rr_id resource, case ao_requestedAccessClass options of
              None \<Rightarrow> asp_access_class sp
            | Some requested \<Rightarrow> maxDataClass (asp_access_class sp) requested)) space))
      else loadB1ResourceScope env context action resource options)"

definition b1Decision ::
  "auth_env \<Rightarrow> security_context \<Rightarrow> membership_role \<Rightarrow> auth_action \<Rightarrow> resource_ref \<Rightarrow> decision_options \<Rightarrow>
     member_view option \<Rightarrow> decision asks" where
  "b1Decision env context role action resource options membership =
     (if action = PersonRead then personReadDecision env context role resource options
      else if truth_mutation action
      then truthMutationDecision env context role action resource options membership
      else op_bind (b1_scope env context action resource options) (\<lambda>scope.
        case scope of
          None \<Rightarrow> not_available context
        | Some (spaceId, accessClass) \<Rightarrow>
            if spaceId = [] \<or> \<not> canReadDataClass (sx_dataClassCeiling context) accessClass
            then not_available context
            else op_bind (canReadSpaceResource env context spaceId role None (ao_lockAuthority options)) (\<lambda>readable.
              if \<not> rd_allowed readable then not_available context
              else if action \<in> set readActions
              then op_return (allow (sx_policyVersion context) (js ''b1_resource_read'')
                (explained options ''Current Space and data-class access allow this projection'')
                (Some (rd_authorityTokens readable)))
              else if action = SourceTombstone \<or> action = OrganizationCreate
              then op_return (ownerOrAdminDecision (sx_policyVersion context) role (js ''b1_workspace_authority''))
              else op_bind (contributorAuthority env context spaceId role (ao_lockAuthority options)) (\<lambda>contributor.
                op_return (if fst contributor
                  then allow (sx_policyVersion context) (js ''b1_contributor_authority'') None
                    (Some (rd_authorityTokens readable @ snd contributor))
                  else nonLeakingB1Deny (sx_policyVersion context))))))"

section \<open>Tenants, workspaces, spaces\<close>

definition a2Decision ::
  "auth_env \<Rightarrow> security_context \<Rightarrow> membership_role \<Rightarrow> auth_action \<Rightarrow> resource_ref \<Rightarrow> decision_options \<Rightarrow> decision asks" where
  "a2Decision env context role action resource options =
     (case action of
        TenantRead \<Rightarrow>
          if rr_type resource \<noteq> RefTenant \<or> rr_id resource \<noteq> sx_tenantId context
          then denied context ''wrong_tenant'' ''Resource is outside the current tenant''
          else op_return (allow (sx_policyVersion context) (js ''tenant_member'')
            (explained options ''Active membership may read current tenant'') None)
      | WorkspaceRead \<Rightarrow>
          if rr_type resource \<noteq> RefWorkspace \<or> rr_id resource \<noteq> sx_workspaceId context
          then denied context ''wrong_workspace'' ''Resource is outside the current workspace''
          else op_return (allow (sx_policyVersion context) (js ''workspace_member'') None None)
      | IdentityMeRead \<Rightarrow>
          if rr_type resource \<noteq> RefUser \<or> Some (rr_id resource) \<noteq> sx_actorUserId context
          then denied context ''not_self'' ''identity.me.read only allows the current user''
          else op_return (allow (sx_policyVersion context) (js ''current_user_self_read'') None None)
      | MembershipRead \<Rightarrow>
          if rr_type resource \<noteq> RefMembership \<or> Some (rr_id resource) \<noteq> sx_actorMembershipId context
          then denied context ''not_current_membership'' ''Membership read is limited to the current membership in A2''
          else op_return (allow (sx_policyVersion context) (js ''current_membership_read'') None None)
      | WorkspaceManageMembers \<Rightarrow>
          if rr_type resource \<noteq> RefWorkspace \<or> rr_id resource \<noteq> sx_workspaceId context
          then denied context ''wrong_workspace'' ''Resource is outside the current workspace''
          else op_return (ownerOrAdminDecision (sx_policyVersion context) role (js ''workspace_members_manage''))
      | _ \<Rightarrow>
          if rr_type resource \<noteq> RefSpace
          then denied context ''unsupported_resource'' ''A2 action requires a Space resource''
          else op_bind (canReadSpaceResource env context (rr_id resource) role None (ao_lockAuthority options)) (\<lambda>readable.
            op_return (
              if \<not> rd_allowed readable
              then deny (sx_policyVersion context) (rd_reasonCode readable) (rd_explanation readable)
              else if action = SpaceRead
              then allow (sx_policyVersion context) (rd_reasonCode readable)
                (if ao_explain options then rd_explanation readable else None) (Some (rd_authorityTokens readable))
              else if action = SpaceCreateChild \<or> action = SpaceManageAccess
              then ownerOrAdminDecision (sx_policyVersion context) role (action_name action)
              else deny (sx_policyVersion context) (js ''unsupported_action'')
                (Some (js ''Action is not implemented in A2'')))))"

definition membership_active :: "member_view \<Rightarrow> bool" where
  "membership_active m \<longleftrightarrow> mv_user_status m = ActiveUser \<and> mv_membership_status m = ActiveMembership"

text \<open>The actions of a person: the policy and the membership come first.\<close>

definition person_decision ::
  "auth_env \<Rightarrow> security_context \<Rightarrow> auth_action \<Rightarrow> resource_ref \<Rightarrow> decision_options \<Rightarrow> decision asks" where
  "person_decision env context action resource options =
     op_bind (loadActivePolicyVersion env context True) (\<lambda>hasActivePolicyVersion.
     if \<not> hasActivePolicyVersion
     then denied context ''policy_version_not_active''
       ''SecurityContext policy version is not active for the current tenant and workspace''
     else if given (sx_servicePrincipalId context) \<or> given (sx_agentPrincipalId context)
     then denied context ''principal_default_denied'' ''Service and agent principals have no A2 allow rules''
     else op_bind (loadActiveMembership env context (ao_lockAuthority options)) (\<lambda>found.
       case found of
         None \<Rightarrow> denied context ''membership_not_active'' ''No active membership matches the current context''
       | Some membership \<Rightarrow>
           if \<not> membership_active membership
           then denied context ''principal_not_active'' ''User or membership is not active''
           else if action \<in> set b1Actions
           then b1Decision env context (mv_role membership) action resource options (Some membership)
           else a2Decision env context (mv_role membership) action resource options))"

end
