(* ===== verification/Authorization_Service.thy ===== *)
theory Authorization_Service
  imports Decisions
begin

text \<open>
  \<open>PostgresAuthorizationService\<close>, continued: the decisions about the relays, the worker and the
  foundation proof, the entry points, and the batch of decisions before a relationship ends, which
  is evaluated twice around the locking of everything it rests on.
\<close>

section \<open>Active rows\<close>

definition tenants_named :: "jstr \<Rightarrow> directory \<Rightarrow> tenant_record list" where
  "tenants_named i d = filter (\<lambda>t. tn_id t = uuid_column i) (dr_tenants d)"

definition workspaces_named :: "jstr \<Rightarrow> jstr \<Rightarrow> directory \<Rightarrow> workspace_record list" where
  "workspaces_named tenantId i d =
     filter (\<lambda>w. wp_tenant_id w = uuid_column tenantId \<and> wp_id w = uuid_column i) (dr_workspaces d)"

definition policies_named :: "jstr \<Rightarrow> jstr \<Rightarrow> jstr \<Rightarrow> directory \<Rightarrow> policy_record list" where
  "policies_named tenantId workspaceId i d = filter (\<lambda>p. pv_tenant_id p = uuid_column tenantId \<and>
     pv_workspace_id p = uuid_column workspaceId \<and> pv_id p = i) (dr_policies d)"

definition principals_named :: "jstr \<Rightarrow> jstr \<Rightarrow> jstr \<Rightarrow> directory \<Rightarrow> principal_record list" where
  "principals_named tenantId workspaceId i d = filter (\<lambda>p. sv_tenant_id p = uuid_column tenantId \<and>
     sv_workspace_id p = uuid_column workspaceId \<and> sv_id p = uuid_column i) (dr_principals d)"

definition direct_space_grants ::
  "jstr \<Rightarrow> jstr \<Rightarrow> grant_relation \<Rightarrow> jstr \<Rightarrow> jstr \<Rightarrow> directory \<Rightarrow> grant_record list" where
  "direct_space_grants tenantId workspaceId relation principalId spaceId d =
     filter (\<lambda>g. ag_tenant_id g = uuid_column tenantId \<and> ag_workspace_id g = uuid_column workspaceId \<and>
       ag_subject_type g = ServicePrincipalGrant \<and> ag_subject_id g = uuid_column principalId \<and>
       ag_relation g = relation \<and> ag_resource_id g = uuid_column spaceId \<and> ag_source g = DirectGrant) (dr_grants d)"

definition tenant_locks :: "tenant_record \<Rightarrow> lock list" where
  "tenant_locks t = [TenantLock (tn_id t)]"

definition workspace_locks :: "workspace_record \<Rightarrow> lock list" where
  "workspace_locks w = [WorkspaceLock (wp_id w)]"

definition principal_locks :: "principal_record \<Rightarrow> lock list" where
  "principal_locks p = [PrincipalLock (sv_id p)]"

text \<open>A check reads one locked row and goes on when its status is the right one.\<close>

definition require_row ::
  "auth_env \<Rightarrow> security_context \<Rightarrow> (directory \<Rightarrow> 'r list) \<Rightarrow> ('r \<Rightarrow> lock list) \<Rightarrow> ('r \<Rightarrow> bool) \<Rightarrow> string \<Rightarrow> string \<Rightarrow>
     ('r \<Rightarrow> decision asks) \<Rightarrow> decision asks" where
  "require_row env context q locks ok reasonCode explanation continue =
     op_bind (ask_for_share env True (\<lambda>d. take 1 (q d)) locks) (\<lambda>rows.
     case rows of
       [] \<Rightarrow> denied context reasonCode explanation
     | r # _ \<Rightarrow> if ok r then continue r else denied context reasonCode explanation)"

section \<open>The product relay\<close>

definition productOutboxRelayPublishDecision ::
  "auth_env \<Rightarrow> security_context \<Rightarrow> resource_ref \<Rightarrow> decision_options \<Rightarrow> decision asks" where
  "productOutboxRelayPublishDecision env context resource options =
     (let tenantId = sx_tenantId context; workspaceId = sx_workspaceId context;
          principalId = the (sx_servicePrincipalId context); spaceId = rr_id resource in
      if \<not> given (sx_servicePrincipalId context) \<or> given (sx_actorUserId context) \<or>
         given (sx_actorMembershipId context) \<or> given (sx_agentPrincipalId context) \<or>
         given (sx_delegatedByUserId context) \<or> given (sx_delegatedByMembershipId context)
      then denied context ''product_relay_service_principal_required''
        ''Product notification publication requires one non-delegated service principal''
      else if rr_type resource \<noteq> RefSpace \<or> sx_requestedSpaceIds context \<noteq> [spaceId]
      then denied context ''product_relay_space_scope_mismatch''
        ''Product notification publication is bound to one exact Space''
      else
        require_row env context (\<lambda>d. filter (\<lambda>t. tn_status t = ActiveTenant) (tenants_named tenantId d)) tenant_locks
          (\<lambda>t. tn_status t = ActiveTenant) ''tenant_not_active'' ''Tenant is not active'' (\<lambda>_.
        require_row env context (\<lambda>d. filter (\<lambda>w. wp_status w = ActiveWorkspace) (workspaces_named tenantId workspaceId d))
          workspace_locks (\<lambda>w. wp_status w = ActiveWorkspace) ''workspace_not_active'' ''Workspace is not active'' (\<lambda>_.
        require_row env context (active_policies context) policy_locks (\<lambda>p. pv_status p = ActivePolicy)
          ''policy_version_not_active'' ''Policy version is not active'' (\<lambda>_.
        require_row env context (\<lambda>d. filter (\<lambda>p. sv_purpose p = RelayPurpose \<and> sv_status p = ActivePrincipal)
            (principals_named tenantId workspaceId principalId d)) principal_locks
          (\<lambda>p. sv_status p = ActivePrincipal) ''product_relay_principal_not_active''
          ''Product notification relay principal is not active in the exact scope'' (\<lambda>principal.
        if sv_purpose principal \<noteq> RelayPurpose
        then denied context ''product_relay_principal_wrong_purpose''
          ''Service principal is not the notification-only product relay''
        else
        require_row env context (spaces_named context spaceId) space_locks (\<lambda>_. True)
          ''space_not_found'' ''Space is not active in the exact scope'' (\<lambda>_.
        require_row env context (direct_space_grants tenantId workspaceId ManagerGrant principalId spaceId)
          grant_locks (\<lambda>_. True) ''product_relay_direct_manager_required''
          ''Product relay requires one live direct manager grant on the exact Space'' (\<lambda>_.
        op_return (allow (sx_policyVersion context) (js ''product_relay_direct_manager'')
          (explained options ''The notification-only product relay has a locked direct manager grant on the exact Space'')
          (Some [js ''product_relay_direct_manager''])))))))))"

section \<open>The foundation relay and proof\<close>

definition foundationRelayPublishDecision ::
  "auth_env \<Rightarrow> security_context \<Rightarrow> resource_ref \<Rightarrow> decision_options \<Rightarrow> decision asks" where
  "foundationRelayPublishDecision env context resource options =
     (let tenantId = sx_tenantId context; workspaceId = sx_workspaceId context;
          principalId = the (sx_servicePrincipalId context); spaceId = rr_id resource in
      if \<not> given (sx_servicePrincipalId context) \<or> given (sx_actorUserId context) \<or>
         given (sx_actorMembershipId context) \<or> given (sx_agentPrincipalId context)
      then denied context ''foundation_relay_service_principal_required''
        ''Foundation relay publication requires one complete service principal''
      else if rr_type resource \<noteq> RefSpace \<or> sx_requestedSpaceIds context \<noteq> [spaceId]
      then denied context ''foundation_space_scope_mismatch''
        ''Foundation relay publication is bound to one exact requested Space''
      else
        require_row env context (tenants_named tenantId) tenant_locks (\<lambda>t. tn_status t = ActiveTenant)
          ''tenant_not_active'' ''Tenant is not active'' (\<lambda>_.
        require_row env context (workspaces_named tenantId workspaceId) workspace_locks
          (\<lambda>w. wp_status w = ActiveWorkspace) ''workspace_not_active'' ''Workspace is not active'' (\<lambda>_.
        require_row env context (policies_named tenantId workspaceId (sx_policyVersion context)) policy_locks
          (\<lambda>p. pv_status p = ActivePolicy) ''policy_version_not_active'' ''Policy version is not active'' (\<lambda>_.
        require_row env context (principals_named tenantId workspaceId principalId) principal_locks
          (\<lambda>p. sv_status p = ActivePrincipal) ''relay_principal_not_active''
          ''Relay service principal is not active in the exact scope'' (\<lambda>principal.
        if sv_purpose principal \<noteq> SystemPurpose
        then denied context ''relay_principal_wrong_purpose'' ''Relay service principal purpose must be system''
        else
        require_row env context (spaces_named context spaceId) space_locks (\<lambda>_. True)
          ''space_not_found'' ''Space is not active in the exact scope'' (\<lambda>_.
        require_row env context (direct_space_grants tenantId workspaceId ManagerGrant principalId spaceId)
          grant_locks (\<lambda>_. True) ''relay_direct_manager_required''
          ''Relay service principal requires a direct manager grant on the exact Space'' (\<lambda>_.
        op_return (allow (sx_policyVersion context) (js ''foundation_relay_direct_manager'')
          (explained options ''Active system relay principal has a direct manager grant on the exact Space'')
          (Some [js ''direct_manager_space_grant''])))))))))"

definition foundationProofCreateDecision ::
  "auth_env \<Rightarrow> security_context \<Rightarrow> resource_ref \<Rightarrow> decision_options \<Rightarrow> decision asks" where
  "foundationProofCreateDecision env context resource options =
     (let tenantId = sx_tenantId context; workspaceId = sx_workspaceId context; spaceId = rr_id resource in
      if given (sx_servicePrincipalId context) \<or> given (sx_agentPrincipalId context) \<or>
         \<not> given (sx_actorUserId context) \<or> \<not> given (sx_actorMembershipId context)
      then denied context ''foundation_human_actor_required''
        ''Foundation proof creation requires a complete human user and membership actor''
      else if rr_type resource \<noteq> RefSpace \<or> sx_requestedSpaceIds context \<noteq> [spaceId]
      then denied context ''foundation_space_scope_mismatch''
        ''Foundation proof creation is bound to one exact requested Space''
      else
        require_row env context (tenants_named tenantId) tenant_locks (\<lambda>t. tn_status t = ActiveTenant)
          ''tenant_not_active'' ''Tenant is not active'' (\<lambda>_.
        require_row env context (workspaces_named tenantId workspaceId) workspace_locks
          (\<lambda>w. wp_status w = ActiveWorkspace) ''workspace_not_active'' ''Workspace is not active'' (\<lambda>_.
        require_row env context (policies_named tenantId workspaceId (sx_policyVersion context)) policy_locks
          (\<lambda>p. pv_status p = ActivePolicy) ''policy_version_not_active'' ''Policy version is not active'' (\<lambda>_.
        require_row env context (memberships_of context) membership_locks
          (\<lambda>row. membership_active (member_of row)) ''foundation_actor_not_active''
          ''User and membership must both be active'' (\<lambda>row.
        if \<not> workspace_authority (mb_role (fst row))
        then denied context ''role_denied'' ''Only owners or admins may create the Foundation proof''
        else
        require_row env context (spaces_named context spaceId) space_locks (\<lambda>_. True)
          ''space_not_found'' ''Space is not visible in the current workspace'' (\<lambda>space.
        op_bind (canReadSpaceResource env context spaceId (mb_role (fst row)) (Some (asp_id space)) False) (\<lambda>readable.
        op_return (if \<not> rd_allowed readable
          then deny (sx_policyVersion context) (rd_reasonCode readable) (rd_explanation readable)
          else allow (sx_policyVersion context) (js ''foundation_owner_or_admin_space_authorized'')
            (explained options ''Active owner or admin is authorized on the exact current Space'')
            (Some [rd_reasonCode readable])))))))))"

section \<open>The worker\<close>

definition reference_matches :: "worker_binding \<Rightarrow> reference_record \<Rightarrow> bool" where
  "reference_matches b r \<longleftrightarrow> cx_id r = uuid_column (wb_referenceId b) \<and> cx_job_id r = uuid_column (wb_jobId b) \<and>
     cx_tenant_id r = uuid_column (wb_tenantId b) \<and> cx_workspace_id r = uuid_column (wb_workspaceId b) \<and>
     cx_space_id r = uuid_column (wb_spaceId b) \<and>
     cx_worker_service_principal_id r = uuid_column (wb_workerServicePrincipalId b) \<and>
     cx_policy_version_id r = wb_policyVersionId b \<and>
     cx_delegating_user_id r = uuid_column (wb_delegatingUserId b) \<and>
     cx_delegating_membership_id r = uuid_column (wb_delegatingMembershipId b)"

definition active_references :: "auth_env \<Rightarrow> worker_binding \<Rightarrow> directory \<Rightarrow> reference_record list" where
  "active_references env b d = filter (\<lambda>r. reference_matches b r \<and> cx_status r = ActiveReference \<and>
     cx_revoked_at r = None \<and> cx_expires_at r > av_clock env) (dr_references d)"

definition workerBindingMatchesReference :: "worker_binding \<Rightarrow> reference_record \<Rightarrow> bool" where
  "workerBindingMatchesReference b r \<longleftrightarrow> wb_referenceId b = cx_id r \<and> wb_tenantId b = cx_tenant_id r \<and>
     wb_workspaceId b = cx_workspace_id r \<and> wb_spaceId b = cx_space_id r \<and> wb_jobId b = cx_job_id r \<and>
     wb_workerServicePrincipalId b = cx_worker_service_principal_id r \<and>
     wb_policyVersionId b = cx_policy_version_id r \<and> wb_delegatingUserId b = cx_delegating_user_id r \<and>
     wb_delegatingMembershipId b = cx_delegating_membership_id r"

definition workerBindingMatchesContext :: "security_context \<Rightarrow> resource_ref \<Rightarrow> worker_binding \<Rightarrow> bool" where
  "workerBindingMatchesContext context resource b \<longleftrightarrow>
     \<not> given (sx_actorUserId context) \<and> \<not> given (sx_actorMembershipId context) \<and>
     \<not> given (sx_agentPrincipalId context) \<and>
     sx_servicePrincipalId context = Some (wb_workerServicePrincipalId b) \<and>
     sx_delegatedByUserId context = Some (wb_delegatingUserId b) \<and>
     sx_delegatedByMembershipId context = Some (wb_delegatingMembershipId b) \<and>
     sx_tenantId context = wb_tenantId b \<and> sx_workspaceId context = wb_workspaceId b \<and>
     sx_policyVersion context = wb_policyVersionId b \<and> rr_type resource = RefSpace \<and>
     rr_id resource = wb_spaceId b \<and> sx_requestedSpaceIds context = [wb_spaceId b]"

definition delegator_grants :: "worker_binding \<Rightarrow> directory \<Rightarrow> grant_record list" where
  "delegator_grants b d = filter (\<lambda>g. ag_subject_type g \<in> {MembershipGrant, UserGrant} \<and>
     ag_subject_id g \<in> {uuid_column (wb_delegatingMembershipId b), uuid_column (wb_delegatingUserId b)} \<and>
     ag_relation g \<in> set READ_RELATIONS \<and> ag_resource_id g = uuid_column (wb_spaceId b) \<and>
     ag_source g = DirectGrant \<and> ag_tenant_id g = uuid_column (wb_tenantId b) \<and>
     ag_workspace_id g = uuid_column (wb_workspaceId b)) (dr_grants d)"

definition worker_chain ::
  "auth_env \<Rightarrow> security_context \<Rightarrow> decision_options \<Rightarrow> worker_binding \<Rightarrow> decision asks" where
  "worker_chain env context options b =
     (let worker_allowed = op_return (allow (sx_policyVersion context) (js ''foundation_worker_direct_contributor'')
            (explained options ''Active worker and delegator are authorized on the exact current Space'')
            (Some [js ''worker_direct_contributor'', js ''delegator_current_space_access''])) in
      require_row env context (\<lambda>d. filter (\<lambda>t. tn_status t = ActiveTenant) (tenants_named (wb_tenantId b) d))
        tenant_locks (\<lambda>t. tn_status t = ActiveTenant) ''tenant_not_active'' ''Tenant is not active'' (\<lambda>_.
      require_row env context (\<lambda>d. filter (\<lambda>w. wp_status w = ActiveWorkspace)
          (workspaces_named (wb_tenantId b) (wb_workspaceId b) d))
        workspace_locks (\<lambda>w. wp_status w = ActiveWorkspace) ''workspace_not_active'' ''Workspace is not active'' (\<lambda>_.
      require_row env context (\<lambda>d. filter (\<lambda>p. pv_status p = ActivePolicy)
          (policies_named (wb_tenantId b) (wb_workspaceId b) (wb_policyVersionId b) d))
        policy_locks (\<lambda>p. pv_status p = ActivePolicy) ''policy_version_not_active'' ''Policy version is not active'' (\<lambda>_.
      require_row env context (\<lambda>d. filter (\<lambda>p. sv_purpose p = WorkerPurpose \<and> sv_status p = ActivePrincipal)
          (principals_named (wb_tenantId b) (wb_workspaceId b) (wb_workerServicePrincipalId b) d))
        principal_locks (\<lambda>p. sv_status p = ActivePrincipal) ''worker_principal_not_active''
        ''Worker principal is not active'' (\<lambda>worker.
      if sv_purpose worker \<noteq> WorkerPurpose
      then denied context ''worker_principal_wrong_purpose'' ''Worker principal purpose must be worker''
      else
      require_row env context (\<lambda>d. filter (\<lambda>u. us_id u = uuid_column (wb_delegatingUserId b) \<and> us_status u = ActiveUser)
          (dr_users d)) (\<lambda>u. [UserLock (us_id u)]) (\<lambda>u. us_status u = ActiveUser)
        ''delegator_user_not_active'' ''Delegating user is not active'' (\<lambda>_.
      require_row env context (\<lambda>d. filter (\<lambda>m. mb_id m = uuid_column (wb_delegatingMembershipId b) \<and>
          mb_user_id m = uuid_column (wb_delegatingUserId b) \<and> mb_tenant_id m = uuid_column (wb_tenantId b) \<and>
          mb_workspace_id m = uuid_column (wb_workspaceId b) \<and> mb_status m = ActiveMembership) (dr_memberships d))
        (\<lambda>m. [MembershipLock (mb_id m)]) (\<lambda>m. mb_status m = ActiveMembership)
        ''delegator_membership_not_active'' ''Delegating membership is not active'' (\<lambda>delegator.
      require_row env context (\<lambda>d. filter (\<lambda>sp. asp_id sp = uuid_column (wb_spaceId b) \<and>
          asp_tenant_id sp = uuid_column (wb_tenantId b) \<and> asp_workspace_id sp = uuid_column (wb_workspaceId b) \<and>
          \<not> asp_archived sp) (dr_spaces d)) space_locks (\<lambda>_. True)
        ''space_not_found'' ''Space is not active in the exact scope'' (\<lambda>_.
      require_row env context (direct_space_grants (wb_tenantId b) (wb_workspaceId b) ContributorGrant
          (wb_workerServicePrincipalId b) (wb_spaceId b)) grant_locks
        (\<lambda>g. ag_relation g = ContributorGrant \<and> ag_source g = DirectGrant) ''worker_direct_contributor_required''
        ''Worker requires a direct contributor grant on the exact Space'' (\<lambda>_.
      if workspace_authority (mb_role delegator) then worker_allowed
      else
      require_row env context (delegator_grants b) grant_locks (\<lambda>_. True) ''delegator_space_access_denied''
        ''Delegator has no direct current-Space authority'' (\<lambda>_. worker_allowed))))))))))"

definition foundationWorkerConsumeDecision ::
  "auth_env \<Rightarrow> security_context \<Rightarrow> resource_ref \<Rightarrow> decision_options \<Rightarrow> decision asks" where
  "foundationWorkerConsumeDecision env context resource options =
     (case ao_workerBinding options of
        None \<Rightarrow> denied context ''foundation_worker_binding_required''
          ''Foundation worker consumption requires an exact transaction binding''
      | Some b \<Rightarrow>
          op_bind (ask_for_share env True (\<lambda>d. take 1 (active_references env b d)) (\<lambda>r. [ReferenceLock (cx_id r)])) (\<lambda>rows.
          if \<not> workerBindingMatchesContext context resource b
          then denied context ''foundation_worker_binding_mismatch''
            ''Foundation worker transaction binding does not match the rehydrated context''
          else (case rows of
            [] \<Rightarrow> denied context ''context_reference_not_active'' ''Worker context reference is not active''
          | r # _ \<Rightarrow>
              if \<not> workerBindingMatchesReference b r
              then denied context ''foundation_worker_binding_mismatch''
                ''Foundation worker transaction binding does not match the locked reference''
              else if cx_status r \<noteq> ActiveReference \<or> cx_revoked_at r \<noteq> None \<or>
                cx_expires_at r div 1000 \<le> av_later env
              then denied context ''context_reference_not_active'' ''Worker context reference is not active''
              else worker_chain env context options b)))"

section \<open>The entry points\<close>

definition decideInTransaction ::
  "auth_env \<Rightarrow> security_context \<Rightarrow> auth_action \<Rightarrow> resource_ref \<Rightarrow> decision_options \<Rightarrow> decision asks" where
  "decideInTransaction env context action resource options =
     (case action of
        FoundationProofCreate \<Rightarrow> foundationProofCreateDecision env context resource options
      | FoundationRelayPublish \<Rightarrow> foundationRelayPublishDecision env context resource options
      | FoundationWorkerConsume \<Rightarrow> foundationWorkerConsumeDecision env context resource options
      | ProductRelayPublish \<Rightarrow> productOutboxRelayPublishDecision env context resource options
      | _ \<Rightarrow> person_decision env context action resource options)"

definition canInTransaction ::
  "auth_env \<Rightarrow> security_context \<Rightarrow> auth_action \<Rightarrow> resource_ref \<Rightarrow> decision_options \<Rightarrow> decision asks" where
  "canInTransaction env inputContext action resource options =
     (case checked_context env inputContext of
        Inl no \<Rightarrow> op_return no
      | Inr context \<Rightarrow> decideInTransaction env context action resource options)"

definition new_session :: session where
  "new_session = \<lparr>se_statements = 0, se_locks = [], se_discovery = None\<rparr>"

text \<open>\<open>can\<close> opens a transaction of its own, with the transaction environment \<open>tx\<close>.\<close>

definition can ::
  "auth_env \<Rightarrow> tx_env \<Rightarrow> security_context \<Rightarrow> auth_action \<Rightarrow> resource_ref \<Rightarrow> decision_options \<Rightarrow> read_error + decision" where
  "can env tx inputContext action resource options =
     (case checked_context env inputContext of
        Inl no \<Rightarrow> Inr no
      | Inr context \<Rightarrow> snd (withTenantTransaction (av_uuid env) DriverError tx context
          (run (decideInTransaction env context action resource options)) new_session))"

section \<open>The batch of a relationship\<close>

record authority_request =
  rq_action :: auth_action
  rq_resource :: resource_ref
  rq_personUseSite :: "resource_ref option"

fun expectedResourceTypes :: "auth_action \<Rightarrow> ref_type option" where
  "expectedResourceTypes RelationshipEnd = Some RefRelationship"
| "expectedResourceTypes SpaceRead = Some RefSpace"
| "expectedResourceTypes PersonRead = Some RefPerson"
| "expectedResourceTypes OrganizationRead = Some RefOrganization"
| "expectedResourceTypes InitiativeRead = Some RefInitiative"
| "expectedResourceTypes ActivityRead = Some RefActivity"
| "expectedResourceTypes ContentRead = Some RefContentItem"
| "expectedResourceTypes _ = None"

definition relationshipAuthorityRequestKey :: "authority_request \<Rightarrow> jstr" where
  "relationshipAuthorityRequestKey request = action_name (rq_action request) @ js '':'' @
     ref_type_name (rr_type (rq_resource request)) @ js '':'' @ rr_id (rq_resource request) @ js '':'' @
     (if rq_action request = PersonRead then (case rq_personUseSite request of None \<Rightarrow> [] | Some s \<Rightarrow> rr_id s) else [])"

definition request_ok :: "authority_request \<Rightarrow> bool" where
  "request_ok request \<longleftrightarrow> expectedResourceTypes (rq_action request) = Some (rr_type (rq_resource request)) \<and>
     \<not> (rq_action request = PersonRead \<and> map_option rr_type (rq_personUseSite request) \<noteq> Some RefRelationship)"

definition normalizeRelationshipAuthorityRequests ::
  "auth_env \<Rightarrow> authority_request list \<Rightarrow> authority_request list option" where
  "normalizeRelationshipAuthorityRequests env requests = do {
     require (list_all request_ok requests);
     let unique = fold (\<lambda>r. AList.update (relationshipAuthorityRequestKey r) r) requests [];
     let normalized = sort_key (\<lambda>r. av_collation env (relationshipAuthorityRequestKey r)) (map snd unique);
     case filter (\<lambda>r. rq_action r = RelationshipEnd) normalized of
       [ending] \<Rightarrow>
         if list_ex (\<lambda>r. rq_action r = PersonRead \<and>
              map_option rr_id (rq_personUseSite r) \<noteq> Some (rr_id (rq_resource ending))) normalized
         then None else Some normalized
     | _ \<Rightarrow> None }"

definition relationshipSpaceReadDecision ::
  "auth_env \<Rightarrow> security_context \<Rightarrow> membership_role \<Rightarrow> resource_ref \<Rightarrow> decision asks" where
  "relationshipSpaceReadDecision env context role resource =
     op_bind (canReadSpaceResource env context (rr_id resource) role None False) (\<lambda>readable.
     if rd_allowed readable
     then op_return (allow (sx_policyVersion context) (rd_reasonCode readable) None (Some (rd_authorityTokens readable)))
     else not_available context)"

definition evaluateRelationshipAuthorityRequests ::
  "auth_env \<Rightarrow> security_context \<Rightarrow> membership_role \<Rightarrow> authority_request list \<Rightarrow> (jstr \<times> decision) list asks" where
  "evaluateRelationshipAuthorityRequests env context role requests = op_each (\<lambda>request.
     op_bind (if rq_action request = SpaceRead
        then relationshipSpaceReadDecision env context role (rq_resource request)
        else b1Decision env context role (rq_action request) (rq_resource request)
          (if rq_action request = PersonRead then no_options\<lparr>ao_personUseSite := rq_personUseSite request\<rparr>
           else no_options) None) (\<lambda>decision.
     op_return (relationshipAuthorityRequestKey request, decision))) requests"

definition tokens_of :: "decision \<Rightarrow> jstr list" where
  "tokens_of decision = (case de_evaluatedRelationships decision of None \<Rightarrow> [] | Some ts \<Rightarrow> ts)"

definition discovered_spaces :: "auth_env \<Rightarrow> discovery \<Rightarrow> space_view list" where
  "discovered_spaces env i = sort_key (\<lambda>v. av_collation env (vw_id v)) (map snd (di_spaces i))"

definition discovered_grants :: "auth_env \<Rightarrow> discovery \<Rightarrow> grant_view list" where
  "discovered_grants env i = sort_key (\<lambda>v. av_collation env (vg_id v)) (map snd (di_grants i))"

type_synonym authority_snapshot =
  "(jstr \<times> policy_status) \<times> authority_actor \<times> space_view list \<times> grant_view list \<times> (jstr \<times> jstr list) list \<times>
     (jstr \<times> jstr list) list"

definition relationshipAuthoritySnapshot ::
  "auth_env \<Rightarrow> jstr \<times> policy_status \<Rightarrow> authority_actor \<Rightarrow> discovery \<Rightarrow> (jstr \<times> decision) list \<Rightarrow> authority_snapshot" where
  "relationshipAuthoritySnapshot env policy actor i decisions =
     (policy, actor, discovered_spaces env i, discovered_grants env i,
      sort_key (\<lambda>p. av_collation env (fst p)) (di_paths i),
      map (\<lambda>(key, decision). (key, sort (tokens_of decision))) decisions)"

definition lockRelationshipAuthoritySpaces :: "auth_env \<Rightarrow> security_context \<Rightarrow> jstr list \<Rightarrow> space_view list asks" where
  "lockRelationshipAuthoritySpaces env context spaceIds =
     (if spaceIds = [] then op_return []
      else op_bind (ask_for_share env True (lock_path_spaces context spaceIds) space_locks) (\<lambda>rows.
        op_return (map view_of_space rows)))"

definition grants_with_ids :: "security_context \<Rightarrow> jstr list \<Rightarrow> directory \<Rightarrow> grant_record list" where
  "grants_with_ids context grantIds d = sort_key ag_id (filter (\<lambda>g. grant_in_scope context g \<and>
     ag_id g \<in> set (map uuid_column grantIds) \<and> reads_for_actor context g) (dr_grants d))"

definition lockRelationshipAuthorityGrants :: "auth_env \<Rightarrow> security_context \<Rightarrow> jstr list \<Rightarrow> grant_view list asks" where
  "lockRelationshipAuthorityGrants env context grantIds =
     (if grantIds = [] then op_return []
      else op_bind (ask_for_share env True (grants_with_ids context grantIds) grant_locks) (\<lambda>rows.
        op_return (map view_of_grant rows)))"

text \<open>One evaluation of the batch with a discovery of its own: what it rests on, unless a decision is
  negative or two readings differ.\<close>

definition evaluated ::
  "auth_env \<Rightarrow> security_context \<Rightarrow> jstr \<times> policy_status \<Rightarrow> authority_actor \<Rightarrow> authority_request list \<Rightarrow>
     (discovery \<times> (jstr \<times> decision) list \<times> authority_snapshot) option asks" where
  "evaluated env context policy actor requests =
     op_bind (op_modify (\<lambda>s. s\<lparr>se_discovery := Some createRelationshipAuthorityDiscovery\<rparr>)) (\<lambda>_.
     op_bind (evaluateRelationshipAuthorityRequests env context (ac_role actor) requests) (\<lambda>decisions.
     op_bind (op_read (\<lambda>s. the (se_discovery s))) (\<lambda>i.
     op_return (if di_inconsistent i \<or> list_ex (\<lambda>(_, decision). \<not> de_allowed decision) decisions then None
       else Some (i, decisions, relationshipAuthoritySnapshot env policy actor i decisions)))))"

definition relock ::
  "auth_env \<Rightarrow> security_context \<Rightarrow> jstr \<times> policy_status \<Rightarrow> authority_actor \<Rightarrow> discovery \<Rightarrow> bool asks" where
  "relock env context expectedPolicy expectedActor i =
     op_bind (loadActivePolicyRecord env context True) (\<lambda>lockedPolicy.
     if \<not> sameAuthorityValue lockedPolicy (Some expectedPolicy) then op_return False
     else op_bind (loadActiveMembership env context True) (\<lambda>lockedMembership.
     if \<not> sameAuthorityValue (exactHumanAuthorityActor context lockedMembership) (Some expectedActor) then op_return False
     else op_bind (lockRelationshipAuthoritySpaces env context (map vw_id (discovered_spaces env i))) (\<lambda>lockedSpaces.
     if \<not> sameAuthorityValue lockedSpaces (discovered_spaces env i) then op_return False
     else op_bind (lockRelationshipAuthorityGrants env context (map vg_id (discovered_grants env i))) (\<lambda>lockedGrants.
     op_return (sameAuthorityValue lockedGrants (discovered_grants env i))))))"

definition lockAndReauthorizeRelationshipAuthority ::
  "auth_env \<Rightarrow> security_context \<Rightarrow> authority_request list \<Rightarrow> decision asks" where
  "lockAndReauthorizeRelationshipAuthority env inputContext inputRequests =
     (case checked_context env inputContext of
        Inl no \<Rightarrow> op_return no
      | Inr context \<Rightarrow>
          if \<not> given (sx_actorUserId context) \<or> \<not> given (sx_actorMembershipId context) \<or>
             given (sx_servicePrincipalId context) \<or> given (sx_agentPrincipalId context)
          then not_available context
          else (case normalizeRelationshipAuthorityRequests env inputRequests of
            None \<Rightarrow> not_available context
          | Some requests \<Rightarrow>
              op_bind (loadActivePolicyRecord env context False) (\<lambda>foundPolicy.
              op_bind (loadActiveMembership env context False) (\<lambda>foundMembership.
              case (foundPolicy, exactHumanAuthorityActor context foundMembership) of
                (Some expectedPolicy, Some expectedActor) \<Rightarrow>
                  op_bind (evaluated env context expectedPolicy expectedActor requests) (\<lambda>expected.
                  case expected of
                    None \<Rightarrow> not_available context
                  | Some (i, _, expectedSnapshot) \<Rightarrow>
                      op_bind (relock env context expectedPolicy expectedActor i) (\<lambda>same.
                      if \<not> same then not_available context
                      else op_bind (evaluated env context expectedPolicy expectedActor requests) (\<lambda>current.
                      case current of
                        None \<Rightarrow> not_available context
                      | Some (_, currentDecisions, currentSnapshot) \<Rightarrow>
                          if \<not> sameAuthorityValue currentSnapshot expectedSnapshot then not_available context
                          else op_return (allow (sx_policyVersion context) (js ''relationship_authority_batch'') None
                            (Some (sort (remdups (concat (map (\<lambda>(_, d). tokens_of d) currentDecisions)))))))))
              | _ \<Rightarrow> not_available context))))"

definition preauthorizeRelationshipEnd :: "auth_env \<Rightarrow> security_context \<Rightarrow> resource_ref \<Rightarrow> decision asks" where
  "preauthorizeRelationshipEnd env inputContext resource =
     (case checked_context env inputContext of
        Inl no \<Rightarrow> op_return no
      | Inr context \<Rightarrow>
          if given (sx_servicePrincipalId context) \<or> given (sx_agentPrincipalId context) then not_available context
          else op_bind (loadActivePolicyRecord env context False) (\<lambda>policy.
            op_bind (loadActiveMembership env context False) (\<lambda>found.
            case found of
              None \<Rightarrow> not_available context
            | Some membership \<Rightarrow>
                if policy = None \<or> \<not> membership_active membership then not_available context
                else b1Decision env context (mv_role membership) RelationshipEnd resource no_options None)))"

end
