(* ===== verification/Access_Spec.thy ===== *)
theory Access_Spec
  imports Authorization_Service
begin

text \<open>
  Who may read a space, said without statements and locks, and what the parts of a decision show of
  the snapshots that they read: a lock taken by a statement keeps the row in every later snapshot.
\<close>

section \<open>Who may read a space\<close>

definition granted :: "security_context \<Rightarrow> directory \<Rightarrow> space_record \<Rightarrow> bool" where
  "granted context d sp \<longleftrightarrow> (\<exists>g\<in>set (dr_grants d). ag_resource_id g = asp_id sp \<and> grants_actor context g)"

definition next_space :: "security_context \<Rightarrow> directory \<Rightarrow> space_record \<Rightarrow> space_record \<Rightarrow> bool" where
  "next_space context d sp p \<longleftrightarrow> p \<in> set (live_spaces context d) \<and> asp_parent_space_id sp = Some (asp_id p)"

text \<open>A space inherits from an ancestor when no space below that ancestor is restricted.\<close>

inductive inherits :: "security_context \<Rightarrow> directory \<Rightarrow> space_record \<Rightarrow> space_record \<Rightarrow> bool"
  for ctx d sp where
  parent: "\<not> restricted_space sp \<Longrightarrow> next_space ctx d sp p \<Longrightarrow> inherits ctx d sp p"
| above: "inherits ctx d sp p \<Longrightarrow> \<not> restricted_space p \<Longrightarrow> next_space ctx d p q \<Longrightarrow> inherits ctx d sp q"

definition may_read :: "security_context \<Rightarrow> directory \<Rightarrow> membership_role \<Rightarrow> jstr \<Rightarrow> bool" where
  "may_read context d role spaceId \<longleftrightarrow> (\<exists>sp\<in>set (live_spaces context d). asp_id sp = uuid_column spaceId \<and>
     (workspace_authority role \<or> asp_kind sp = RootSpace \<or> granted context d sp \<or>
      (\<exists>a. inherits context d sp a \<and> granted context d a)))"

section \<open>What the database guarantees\<close>

text \<open>Keys are unique, those of spaces and grants are in the form of the column, a grant is on a space of
  its own workspace, and no space is its own ancestor.\<close>

definition acyclic_spaces :: "directory \<Rightarrow> bool" where
  "acyclic_spaces d \<longleftrightarrow> (\<exists>height :: jstr \<Rightarrow> nat. \<forall>sp\<in>set (dr_spaces d). \<forall>p\<in>set (dr_spaces d).
     asp_parent_space_id sp = Some (asp_id p) \<longrightarrow> height (asp_id p) < height (asp_id sp))"

definition directory_ok :: "directory \<Rightarrow> bool" where
  "directory_ok d \<longleftrightarrow> distinct (map asp_id (dr_spaces d)) \<and>
     distinct (map mb_id (dr_memberships d)) \<and> distinct (map us_id (dr_users d)) \<and>
     distinct (map wr_id (dr_activities d)) \<and> distinct (map wr_id (dr_initiatives d)) \<and>
     distinct (map tc_id (dr_claims d)) \<and> distinct (map tf_id (dr_facts d)) \<and>
     (\<forall>sp\<in>set (dr_spaces d). uuid_column (asp_id sp) = asp_id sp) \<and>
     (\<forall>g\<in>set (dr_grants d). uuid_column (ag_id g) = ag_id g \<and>
        (\<exists>sp\<in>set (dr_spaces d). asp_id sp = ag_resource_id g \<and> asp_tenant_id sp = ag_tenant_id g \<and>
           asp_workspace_id sp = ag_workspace_id g))"

section \<open>Rows that stay\<close>

fun keeps :: "lock \<Rightarrow> directory \<Rightarrow> directory \<Rightarrow> bool" where
  "keeps (TenantLock i) d d' \<longleftrightarrow>
     filter (\<lambda>r. tn_id r = i) (dr_tenants d') = filter (\<lambda>r. tn_id r = i) (dr_tenants d)"
| "keeps (WorkspaceLock i) d d' \<longleftrightarrow>
     filter (\<lambda>r. wp_id r = i) (dr_workspaces d') = filter (\<lambda>r. wp_id r = i) (dr_workspaces d)"
| "keeps (PolicyLock t w i) d d' \<longleftrightarrow>
     filter (\<lambda>r. pv_tenant_id r = t \<and> pv_workspace_id r = w \<and> pv_id r = i) (dr_policies d') =
     filter (\<lambda>r. pv_tenant_id r = t \<and> pv_workspace_id r = w \<and> pv_id r = i) (dr_policies d)"
| "keeps (PrincipalLock i) d d' \<longleftrightarrow>
     filter (\<lambda>r. sv_id r = i) (dr_principals d') = filter (\<lambda>r. sv_id r = i) (dr_principals d)"
| "keeps (UserLock i) d d' \<longleftrightarrow>
     filter (\<lambda>r. us_id r = i) (dr_users d') = filter (\<lambda>r. us_id r = i) (dr_users d)"
| "keeps (MembershipLock i) d d' \<longleftrightarrow>
     filter (\<lambda>r. mb_id r = i) (dr_memberships d') = filter (\<lambda>r. mb_id r = i) (dr_memberships d)"
| "keeps (SpaceLock i) d d' \<longleftrightarrow>
     filter (\<lambda>r. asp_id r = i) (dr_spaces d') = filter (\<lambda>r. asp_id r = i) (dr_spaces d)"
| "keeps (GrantLock i) d d' \<longleftrightarrow>
     filter (\<lambda>r. ag_id r = i) (dr_grants d') = filter (\<lambda>r. ag_id r = i) (dr_grants d)"
| "keeps (ActivityLock i) d d' \<longleftrightarrow>
     filter (\<lambda>r. wr_id r = i) (dr_activities d') = filter (\<lambda>r. wr_id r = i) (dr_activities d)"
| "keeps (InitiativeLock i) d d' \<longleftrightarrow>
     filter (\<lambda>r. wr_id r = i) (dr_initiatives d') = filter (\<lambda>r. wr_id r = i) (dr_initiatives d)"
| "keeps (ClaimLock i) d d' \<longleftrightarrow>
     filter (\<lambda>r. tc_id r = i) (dr_claims d') = filter (\<lambda>r. tc_id r = i) (dr_claims d)"
| "keeps (FactLock i) d d' \<longleftrightarrow>
     filter (\<lambda>r. tf_id r = i) (dr_facts d') = filter (\<lambda>r. tf_id r = i) (dr_facts d)"
| "keeps (ReferenceLock i) d d' \<longleftrightarrow>
     filter (\<lambda>r. cx_id r = i) (dr_references d') = filter (\<lambda>r. cx_id r = i) (dr_references d)"

text \<open>The history respects the locks of a session: what a statement locked, every later one sees
  unchanged.\<close>

definition honours :: "auth_env \<Rightarrow> session \<Rightarrow> bool" where
  "honours env s \<longleftrightarrow> (\<forall>k l j d d'. (k, l) \<in> set (se_locks s) \<longrightarrow> av_history env k = Inr d \<longrightarrow> k \<le> j \<longrightarrow>
     av_history env j = Inr d' \<longrightarrow> keeps l d d')"

text \<open>A fact about the rows that the session has locked holds in every snapshot from the next statement on.\<close>

definition secured :: "auth_env \<Rightarrow> session \<Rightarrow> (directory \<Rightarrow> bool) \<Rightarrow> bool" where
  "secured env s P \<longleftrightarrow> (honours env s \<longrightarrow> (\<forall>j d. se_statements s \<le> j \<longrightarrow> av_history env j = Inr d \<longrightarrow> P d))"

definition later :: "session \<Rightarrow> session \<Rightarrow> bool" where
  "later s t \<longleftrightarrow> se_statements s \<le> se_statements t \<and> (\<exists>ls. se_locks t = se_locks s @ ls) \<and>
     (se_discovery s = None \<longrightarrow> se_discovery t = None)"

lemma later_refl [simp]: "later s s"
  by (simp add: later_def)

lemma later_trans: "later s t \<Longrightarrow> later t u \<Longrightarrow> later s u"
  by (auto simp: later_def)

lemma later_honours: "later s t \<Longrightarrow> honours env t \<Longrightarrow> honours env s"
  unfolding later_def honours_def by (metis Un_iff set_append)

lemma secured_later:
  assumes "secured env s P" "later s t"
  shows "secured env t P"
proof -
  have "se_statements s \<le> se_statements t" using assms(2) by (simp add: later_def)
  then show ?thesis using assms later_honours unfolding secured_def by (meson order_trans)
qed

lemma secured_conj: "secured env s P \<Longrightarrow> secured env s Q \<Longrightarrow> secured env s (\<lambda>d. P d \<and> Q d)"
  by (auto simp: secured_def)

lemma secured_mono: "secured env s P \<Longrightarrow> (\<And>d. P d \<Longrightarrow> Q d) \<Longrightarrow> secured env s Q"
  by (auto simp: secured_def)

section \<open>Statements\<close>

lemma ask_locking_Inr:
  "ask_locking env q rows s = Inr (a, t) \<longleftrightarrow> (\<exists>d. av_history env (se_statements s) = Inr d \<and> q d = Some a \<and>
     t = s \<lparr>se_statements := Suc (se_statements s),
       se_locks := se_locks s @ map (Pair (se_statements s)) (rows d)\<rparr>)"
  by (auto simp: ask_locking_def split: sum.splits option.splits)

lemma ask_Inr [op_simps]:
  "ask env q s = Inr (a, t) \<longleftrightarrow> (\<exists>d. av_history env (se_statements s) = Inr d \<and> a = q d \<and>
     t = s \<lparr>se_statements := Suc (se_statements s)\<rparr>)"
  by (auto simp: ask_def ask_locking_Inr)

text \<open>What a locking statement returned is there from then on.\<close>

lemma ask_for_share_Inr:
  assumes "ask_for_share env lockAuthority q locks s = Inr (rows, t)"
  obtains d where "av_history env (se_statements s) = Inr d" "rows = q d" "later s t"
    "se_discovery t = se_discovery s" "se_statements t = Suc (se_statements s)"
    "\<And>r l. lockAuthority \<Longrightarrow> r \<in> set rows \<Longrightarrow> l \<in> set (locks r) \<Longrightarrow> (se_statements s, l) \<in> set (se_locks t)"
proof -
  obtain d where d: "av_history env (se_statements s) = Inr d" "rows = q d" "t = s \<lparr>se_statements := Suc (se_statements s),
      se_locks := se_locks s @ map (Pair (se_statements s)) (if lockAuthority then concat (map locks (q d)) else [])\<rparr>"
    using assms by (auto simp: ask_for_share_def ask_locking_Inr)
  show thesis by (rule that[OF d(1,2)]) (auto simp: d(2,3) later_def)
qed

lemma honoursD:
  "honours env t \<Longrightarrow> (k, l) \<in> set (se_locks t) \<Longrightarrow> av_history env k = Inr d \<Longrightarrow> k \<le> j \<Longrightarrow>
     av_history env j = Inr d' \<Longrightarrow> keeps l d d'"
  unfolding honours_def by blast

lemma secured_lock:
  assumes "(k, l) \<in> set (se_locks t)" "av_history env k = Inr d" "k \<le> se_statements t"
    and "\<And>d'. keeps l d d' \<Longrightarrow> P d'"
  shows "secured env t P"
  unfolding secured_def using assms(4) honoursD[OF _ assms(1,2)] assms(3) by (meson order_trans)

lemma kept_row:
  assumes "filter (\<lambda>r. f r = i) rs' = filter (\<lambda>r. f r = i) rs" "r \<in> set rs" "f r = i"
  shows "r \<in> set rs'"
proof -
  have "r \<in> set (filter (\<lambda>r. f r = i) rs)" using assms(2,3) by simp
  then show ?thesis unfolding assms(1)[symmetric] by simp
qed

lemma keeps_rows:
  "keeps (SpaceLock (asp_id sp)) d d' \<Longrightarrow> sp \<in> set (dr_spaces d) \<Longrightarrow> sp \<in> set (dr_spaces d')"
  "keeps (SpaceLock (asp_id sp)) d d' \<Longrightarrow> sp \<in> set (dr_spaces d') \<Longrightarrow> sp \<in> set (dr_spaces d)"
  "keeps (GrantLock (ag_id g)) d d' \<Longrightarrow> g \<in> set (dr_grants d) \<Longrightarrow> g \<in> set (dr_grants d')"
  "keeps (MembershipLock (mb_id m)) d d' \<Longrightarrow> m \<in> set (dr_memberships d) \<Longrightarrow> m \<in> set (dr_memberships d')"
  "keeps (UserLock (us_id u)) d d' \<Longrightarrow> u \<in> set (dr_users d) \<Longrightarrow> u \<in> set (dr_users d')"
  "keeps (TenantLock (tn_id t)) d d' \<Longrightarrow> t \<in> set (dr_tenants d) \<Longrightarrow> t \<in> set (dr_tenants d')"
  "keeps (WorkspaceLock (wp_id w)) d d' \<Longrightarrow> w \<in> set (dr_workspaces d) \<Longrightarrow> w \<in> set (dr_workspaces d')"
  "keeps (PrincipalLock (sv_id p)) d d' \<Longrightarrow> p \<in> set (dr_principals d) \<Longrightarrow> p \<in> set (dr_principals d')"
  "keeps (ActivityLock (wr_id a)) d d' \<Longrightarrow> a \<in> set (dr_activities d) \<Longrightarrow> a \<in> set (dr_activities d')"
  "keeps (InitiativeLock (wr_id a)) d d' \<Longrightarrow> a \<in> set (dr_initiatives d) \<Longrightarrow> a \<in> set (dr_initiatives d')"
  "keeps (ClaimLock (tc_id c)) d d' \<Longrightarrow> c \<in> set (dr_claims d) \<Longrightarrow> c \<in> set (dr_claims d')"
  "keeps (FactLock (tf_id f)) d d' \<Longrightarrow> f \<in> set (dr_facts d) \<Longrightarrow> f \<in> set (dr_facts d')"
  "keeps (ReferenceLock (cx_id r)) d d' \<Longrightarrow> r \<in> set (dr_references d) \<Longrightarrow> r \<in> set (dr_references d')"
  unfolding keeps.simps by (erule (1) kept_row[OF _ _ refl], erule (1) kept_row[OF sym _ refl],
    (erule (1) kept_row[OF _ _ refl])+)

lemma keeps_policy:
  "keeps (PolicyLock (pv_tenant_id p) (pv_workspace_id p) (pv_id p)) d d' \<Longrightarrow> p \<in> set (dr_policies d) \<Longrightarrow>
     p \<in> set (dr_policies d')"
proof -
  let ?is = "\<lambda>r. pv_tenant_id r = pv_tenant_id p \<and> pv_workspace_id r = pv_workspace_id p \<and> pv_id r = pv_id p"
  assume "keeps (PolicyLock (pv_tenant_id p) (pv_workspace_id p) (pv_id p)) d d'" "p \<in> set (dr_policies d)"
  then have "p \<in> set (filter ?is (dr_policies d))" "filter ?is (dr_policies d') = filter ?is (dr_policies d)"
    by simp_all
  then have "p \<in> set (filter ?is (dr_policies d'))" by simp
  then show ?thesis by simp
qed

lemmas keeps_at =
  keeps_rows(1)[rotated] keeps_rows(3-13)[rotated] keeps_policy[rotated]

end
