(* ===== verification/Space_Promises.thy ===== *)
theory Space_Promises
  imports Access_Spec
begin

text \<open>
  What reading a space rests on: the chain of ancestors that the recursive queries return, and that a
  positive answer with locks stays true in every later snapshot.
\<close>

section \<open>The chain of ancestors\<close>

lemma levels_chain:
  assumes "\<And>x. x \<in> S \<Longrightarrow> length (f x) \<le> 1 \<and> set (f x) \<subseteq> S" "x \<in> S" "levels n f [x] = Some ls"
  shows "\<exists>path. ls = map (\<lambda>y. [y]) (x # path) \<and> successively (\<lambda>a b. b \<in> set (f a)) (x # path)"
  using assms(2,3)
proof (induction n arbitrary: x ls)
  case (Suc n)
  obtain ls' where ls: "levels n f (f x) = Some ls'" "ls = [x] # ls'" using Suc.prems(2) by auto
  show ?case
  proof (cases "f x")
    case Nil
    then show ?thesis using ls by (intro exI[of _ "[]"]) simp
  next
    case (Cons y ys)
    then have y: "f x = [y]" "y \<in> S" using assms(1)[OF Suc.prems(1)] by (auto simp: le_Suc_eq)
    from Suc.IH[OF y(2)] ls(1) obtain path where
      "ls' = map (\<lambda>y. [y]) (y # path)" "successively (\<lambda>a b. b \<in> set (f a)) (y # path)"
      unfolding y(1) by blast
    then show ?thesis using ls(2) y by (intro exI[of _ "y # path"]) simp
  qed
qed simp

lemma levels_end:
  assumes "\<And>x. x \<in> S \<Longrightarrow> length (f x) \<le> 1 \<and> set (f x) \<subseteq> S" "finite S"
    and "\<And>x y. x \<in> S \<Longrightarrow> y \<in> set (f x) \<Longrightarrow> (height y :: nat) < height x"
    and "x \<in> S" "card {y \<in> S. height y \<le> height x} \<le> n"
  shows "levels n f [x] \<noteq> None"
  using assms(4,5)
proof (induction n arbitrary: x)
  case 0
  then have "{y \<in> S. height y \<le> height x} = {}" using assms(2) by simp
  then show ?case using 0 by auto
next
  case (Suc n)
  show ?case
  proof (cases "f x")
    case (Cons y ys)
    then have y: "f x = [y]" "y \<in> S" "height y < height x"
      using assms(1,3)[OF Suc.prems(1)] by (auto simp: le_Suc_eq)
    have "{z \<in> S. height z \<le> height y} \<subset> {z \<in> S. height z \<le> height x}" using y(3) Suc.prems(1) by force
    then have "card {z \<in> S. height z \<le> height y} < card {z \<in> S. height z \<le> height x}"
      using assms(2) by (intro psubset_card_mono) auto
    then have "levels n f [y] \<noteq> None" using Suc by (intro Suc.IH[OF y(2)]) simp
    then show ?thesis by (simp add: y(1))
  qed simp
qed

lemma at_most_one: "distinct (map key rs) \<Longrightarrow> length (filter (\<lambda>r. v = Some (key r)) rs) \<le> 1"
  by (induction rs) (auto simp: filter_empty_conv)

lemma live_distinct: "directory_ok d \<Longrightarrow> distinct (map asp_id (live_spaces ctx d))"
  by (simp add: live_spaces_def distinct_map_filter directory_ok_def)

lemma parents_one: "directory_ok d \<Longrightarrow> length (parents ctx d sp) \<le> 1 \<and> set (parents ctx d sp) \<subseteq> set (live_spaces ctx d)"
  using at_most_one[OF live_distinct] by (auto simp: parents_def)

lemma spaces_named_one:
  assumes "directory_ok d" "sp \<in> set (spaces_named ctx i d)"
  shows "spaces_named ctx i d = [sp]"
proof -
  have "length (spaces_named ctx i d) \<le> 1"
    using at_most_one[OF live_distinct[OF assms(1)], of "Some (uuid_column i)" ctx]
    by (simp add: spaces_named_def eq_commute)
  then show ?thesis using assms(2) by (cases "spaces_named ctx i d") auto
qed

lemma mem_parents: "p \<in> set (parents ctx d sp) \<longleftrightarrow> next_space ctx d sp p"
  by (auto simp: parents_def next_space_def)

lemma mem_spaces_named:
  "sp \<in> set (spaces_named ctx i d) \<longleftrightarrow> sp \<in> set (live_spaces ctx d) \<and> asp_id sp = uuid_column i"
  by (auto simp: spaces_named_def)

lemma mem_live_spaces: "sp \<in> set (live_spaces ctx d) \<longleftrightarrow> sp \<in> set (dr_spaces d) \<and> live_space ctx sp"
  by (auto simp: live_spaces_def)

lemma ancestors_chain:
  assumes "directory_ok d" "sp \<in> set (spaces_named ctx i d)" "ancestors ctx i d = Some ls"
  shows "\<exists>path. ls = map (\<lambda>y. [y]) (sp # path) \<and> successively (next_space ctx d) (sp # path)"
proof -
  have "sp \<in> set (live_spaces ctx d)" using assms(2) by (simp add: mem_spaces_named)
  moreover have "levels (length (dr_spaces d)) (parents ctx d) [sp] = Some ls"
    using assms(3) spaces_named_one[OF assms(1,2)] by (simp add: ancestors_def)
  ultimately show ?thesis
    using levels_chain[OF parents_one[OF assms(1)]] by (auto simp: mem_parents)
qed

lemma ancestors_total:
  assumes "directory_ok d" "acyclic_spaces d"
  shows "ancestors ctx i d \<noteq> None"
proof (cases "spaces_named ctx i d")
  case (Cons sp rest)
  then have sp: "sp \<in> set (spaces_named ctx i d)" by simp
  obtain height :: "jstr \<Rightarrow> nat" where height: "\<forall>sp\<in>set (dr_spaces d). \<forall>p\<in>set (dr_spaces d).
      asp_parent_space_id sp = Some (asp_id p) \<longrightarrow> height (asp_id p) < height (asp_id sp)"
    using assms(2) unfolding acyclic_spaces_def by blast
  have "levels (length (dr_spaces d)) (parents ctx d) [sp] \<noteq> None"
  proof (rule levels_end[OF parents_one[OF assms(1)], where height = "\<lambda>s. height (asp_id s)"])
    show "height (asp_id y) < height (asp_id x)"
      if "x \<in> set (live_spaces ctx d)" "y \<in> set (parents ctx d x)" for x y
      using that height by (auto simp: mem_parents next_space_def mem_live_spaces)
    have "{y \<in> set (live_spaces ctx d). height (asp_id y) \<le> height (asp_id sp)} \<subseteq> set (dr_spaces d)"
      by (auto simp: mem_live_spaces)
    then show "card {y \<in> set (live_spaces ctx d). height (asp_id y) \<le> height (asp_id sp)} \<le> length (dr_spaces d)"
      by (meson List.finite_set card_length card_mono le_trans)
  qed (use sp in \<open>simp_all add: mem_spaces_named\<close>)
  then show ?thesis using spaces_named_one[OF assms(1) sp] by (simp add: ancestors_def)
qed (simp add: ancestors_def)

lemma chain_inherits:
  assumes "successively (next_space ctx d) path" "0 < k" "k < length path"
    and "\<forall>i<k. \<not> restricted_space (path ! i)"
  shows "inherits ctx d (path ! 0) (path ! k)"
  using assms(2-)
proof (induction k)
  case (Suc k)
  have next_: "next_space ctx d (path ! k) (path ! Suc k)"
    using assms(1) Suc.prems(2) by (simp add: successively_conv_nth)
  show ?case
  proof (cases k)
    case 0
    then show ?thesis using next_ Suc.prems by (auto intro: inherits.parent)
  next
    case (Suc m)
    then have "inherits ctx d (path ! 0) (path ! k)" using Suc.IH Suc.prems by auto
    then show ?thesis using next_ Suc.prems(3) by (auto intro: inherits.above)
  qed
qed simp

section \<open>Paths\<close>

lemma path_rows_chain:
  "path_rows (map (\<lambda>y. [y]) path) = map (\<lambda>(i, sp). (i, view_of_space sp)) (enumerate 0 path)"
proof -
  have "concat (map (\<lambda>(i, rows). map (\<lambda>sp. (i, view_of_space sp)) rows) (enumerate n (map (\<lambda>y. [y]) path))) =
      map (\<lambda>(i, sp). (i, view_of_space sp)) (enumerate n path)" for n
    by (induction path arbitrary: n) simp_all
  then show ?thesis by (simp add: path_rows_def)
qed

lemma inherited_path_Some:
  assumes "inherited_path g (map (\<lambda>(i, sp). (i, view_of_space sp)) (enumerate 0 path)) = Some found"
  obtains k where "0 < k" "k < length path" "asp_id (path ! k) = g" "\<forall>i<k. \<not> restricted_space (path ! i)"
    "map (\<lambda>row. vw_id (snd row)) found = map asp_id (take (Suc k) path)"
proof -
  let ?rows = "map (\<lambda>(i, sp). (i, view_of_space sp)) (enumerate 0 path)"
  let ?P = "\<lambda>row. vw_id (snd row) \<noteq> g"
  define k where "k = length (takeWhile ?P ?rows)"
  have k: "0 < k" "k \<noteq> length path" and found: "found = take (Suc k) ?rows"
    and open_: "\<not> list_ex (\<lambda>row. vw_inheritance_mode (snd row) = RestrictedInheritance) (butlast (take (Suc k) ?rows))"
    using assms unfolding inherited_path_def k_def[symmetric] by (auto simp: Let_def split: if_splits)
  have ids: "map (\<lambda>row. vw_id (snd row)) (map (\<lambda>(i, sp). (i, view_of_space sp)) (enumerate n path)) = map asp_id path" for n
    by (induction path arbitrary: n) (simp_all add: view_of_space_def)
  have less: "k < length path" using k(2) length_takeWhile_le[of ?P ?rows] by (simp add: k_def)
  have row: "?rows ! i = (i, view_of_space (path ! i))" if "i < length path" for i
    using that by (simp add: nth_enumerate_eq)
  have "\<not> ?P (?rows ! k)" using nth_length_takeWhile[of ?P ?rows] less by (simp add: k_def)
  then have g: "asp_id (path ! k) = g" using row[OF less] by (simp add: view_of_space_def)
  have "butlast (take (Suc k) ?rows) = take k ?rows" using less by (simp add: butlast_take)
  then have "\<forall>i<k. vw_inheritance_mode (snd (?rows ! i)) \<noteq> RestrictedInheritance"
    using open_ less by (auto simp: list_ex_length)
  then have "\<forall>i<k. \<not> restricted_space (path ! i)"
    using row less by (auto simp: restricted_space_def view_of_space_def)
  moreover have "map (\<lambda>row. vw_id (snd row)) found = map asp_id (take (Suc k) path)"
    unfolding found take_map[symmetric] ids ..
  ultimately show thesis using that k(1) less g by blast
qed

section \<open>Answers with locks\<close>

text \<open>The history of a database whose constraints hold in every snapshot.\<close>

definition history_ok :: "auth_env \<Rightarrow> bool" where
  "history_ok env \<longleftrightarrow> (\<forall>k d. av_history env k = Inr d \<longrightarrow> directory_ok d)"

lemma history_okD: "history_ok env \<Longrightarrow> av_history env k = Inr d \<Longrightarrow> directory_ok d"
  by (auto simp: history_ok_def)

text \<open>A row that a later statement read under a lock taken before stays as well.\<close>

lemma secured_space:
  assumes lock: "(k, SpaceLock (asp_id sp)) \<in> set (se_locks t)" "av_history env k = Inr d"
    and read: "av_history env j = Inr d'" "k \<le> j" "sp \<in> set (dr_spaces d')" "j \<le> se_statements t"
  shows "secured env t (\<lambda>d. sp \<in> set (dr_spaces d))"
  unfolding secured_def
proof (intro impI allI)
  fix i e
  assume h: "honours env t" and i: "se_statements t \<le> i" "av_history env i = Inr e"
  have "sp \<in> set (dr_spaces d)"
    using keeps_rows(2)[OF honoursD[OF h lock read(2,1)] read(3)] .
  moreover have "keeps (SpaceLock (asp_id sp)) d e" using honoursD[OF h lock _ i(2)] read(2,4) i(1) by simp
  ultimately show "sp \<in> set (dr_spaces e)" by (rule keeps_rows(1)[rotated])
qed

lemma secured_all:
  "(\<And>x. x \<in> set xs \<Longrightarrow> secured env t (P x)) \<Longrightarrow> secured env t (\<lambda>d. \<forall>x\<in>set xs. P x d)"
  by (auto simp: secured_def)

lemma confirmed_grant:
  assumes "lockOrConfirmSpaceGrant env ctx grantId spaceId True s = Inr (Some token, t)"
  shows "later s t \<and> secured env t (\<lambda>d. \<exists>g\<in>set (dr_grants d). ag_resource_id g = uuid_column spaceId \<and>
    ag_id g = uuid_column grantId \<and> grants_actor ctx g)"
proof -
  obtain rows where ask: "ask_for_share env True (grant_rows ctx grantId spaceId) grant_locks s = Inr (rows, t)"
      "map_option (\<lambda>row. spaceGrantToken (ag_id row) (ag_resource_id row)) (first_row rows) = Some token"
    using assms unfolding lockOrConfirmSpaceGrant_def by (auto simp: op_bind_Inr op_return_def)
  then obtain g rest where g: "rows = g # rest" by (cases rows) (auto simp: first_row_def)
  obtain d where d: "av_history env (se_statements s) = Inr d" "rows = grant_rows ctx grantId spaceId d" "later s t"
      "se_statements t = Suc (se_statements s)" "(se_statements s, GrantLock (ag_id g)) \<in> set (se_locks t)"
    using ask_for_share_Inr[OF ask(1)] g by (metis grant_locks_def list.set_intros(1))
  have "g \<in> set (grant_rows ctx grantId spaceId d)" using d(2) g by (metis list.set_intros(1))
  then have row: "g \<in> set (dr_grants d)" "ag_resource_id g = uuid_column spaceId" "ag_id g = uuid_column grantId"
      "grants_actor ctx g"
    by (auto simp: grant_rows_def reads_for_actor_def)
  have "secured env t (\<lambda>d. \<exists>g\<in>set (dr_grants d). ag_resource_id g = uuid_column spaceId \<and>
      ag_id g = uuid_column grantId \<and> grants_actor ctx g)"
  proof (rule secured_lock[OF d(5,1)])
    show "se_statements s \<le> se_statements t" by (simp add: d(4))
  next
    fix e assume "keeps (GrantLock (ag_id g)) d e"
    from keeps_rows(3)[OF this row(1)] show "\<exists>g\<in>set (dr_grants e). ag_resource_id g = uuid_column spaceId \<and>
        ag_id g = uuid_column grantId \<and> grants_actor ctx g"
      using row(2-4) by blast
  qed
  then show ?thesis using d(3) by blast
qed

lemma loaded_path:
  assumes "loadInheritedAuthorityPath env ctx spaceId grantSpaceId s = Inr (Some found, t)" "history_ok env"
  obtains d path k where "av_history env (se_statements s) = Inr d"
    "t = s\<lparr>se_statements := Suc (se_statements s)\<rparr>" "0 < k" "k < length path"
    "asp_id (path ! k) = grantSpaceId" "\<forall>i<k. \<not> restricted_space (path ! i)"
    "map (\<lambda>row. vw_id (snd row)) found = map asp_id (take (Suc k) path)"
    "path ! 0 \<in> set (spaces_named ctx spaceId d)" "successively (next_space ctx d) path"
proof -
  obtain d ls where d: "av_history env (se_statements s) = Inr d" "ancestors ctx spaceId d = Some ls"
      "t = s\<lparr>se_statements := Suc (se_statements s)\<rparr>" "inherited_path grantSpaceId (path_rows ls) = Some found"
    using assms(1) by (auto simp: loadInheritedAuthorityPath_def op_simps ask_locking_Inr)
  have "spaces_named ctx spaceId d \<noteq> []"
    using d(2,4) by (auto simp: ancestors_def path_rows_def inherited_path_def Let_def)
  then obtain sp where sp: "sp \<in> set (spaces_named ctx spaceId d)" by fastforce
  obtain path where path: "ls = map (\<lambda>y. [y]) (sp # path)" "successively (next_space ctx d) (sp # path)"
    using ancestors_chain[OF history_okD[OF assms(2) d(1)] sp d(2)] by blast
  obtain k where "0 < k" "k < length (sp # path)" "asp_id ((sp # path) ! k) = grantSpaceId"
      "\<forall>i<k. \<not> restricted_space ((sp # path) ! i)"
      "map (\<lambda>row. vw_id (snd row)) found = map asp_id (take (Suc k) (sp # path))"
    by (rule inherited_path_Some[OF d(4)[unfolded path(1) path_rows_chain]])
  then show thesis by (rule that[OF d(1,3)]) (use sp path(2) in simp_all)
qed

lemma same_path_ids:
  assumes "same_path current expected"
  shows "map (\<lambda>row. vw_id (snd row)) current = map (\<lambda>row. vw_id (snd row)) expected"
  using assms by (auto simp: same_path_def list_all_length intro!: nth_equalityI)

lemma moved_chain:
  assumes "successively (next_space ctx d) path" "path ! 0 \<in> set (live_spaces ctx d)"
    and "0 < k" "k < length path" "\<forall>i<k. \<not> restricted_space (path ! i)"
    and "\<forall>x\<in>set (take (Suc k) path). x \<in> set (dr_spaces d')"
  shows "path ! 0 \<in> set (live_spaces ctx d') \<and> inherits ctx d' (path ! 0) (path ! k)"
proof -
  let ?path = "take (Suc k) path"
  have mem: "path ! i \<in> set (dr_spaces d')" if "i \<le> k" for i
  proof -
    have "?path ! i \<in> set ?path" using that assms(4) by (intro nth_mem) simp
    then show ?thesis using assms(6) that by simp
  qed
  have live: "live_space ctx (path ! i)" if "i < length path" for i
    using that assms(1,2) by (cases i) (auto simp: successively_conv_nth next_space_def mem_live_spaces)
  have "successively (next_space ctx d') ?path"
    using assms(1,4) mem live by (auto simp: successively_conv_nth next_space_def mem_live_spaces)
  then have "inherits ctx d' (?path ! 0) (?path ! k)"
    using assms(3-5) by (intro chain_inherits) auto
  moreover have "path ! 0 \<in> set (live_spaces ctx d')"
    using mem[of 0] live[of 0] assms(4) by (simp add: mem_live_spaces del: length_greater_0_conv)
  ultimately show ?thesis using assms(4) by simp
qed

lemma locked_inherited_grant:
  assumes run: "lockOrConfirmInheritedSpaceGrant env ctx spaceId grantId grantSpaceId s = Inr (Some token, t)"
    and ok: "history_ok env"
  shows "later s t \<and> secured env t (\<lambda>d. \<exists>sp\<in>set (live_spaces ctx d). asp_id sp = uuid_column spaceId \<and>
    (\<exists>a. inherits ctx d sp a \<and> granted ctx d a))"
proof -
  obtain expected s1 locked s2 current s3 where
    load: "loadInheritedAuthorityPath env ctx spaceId grantSpaceId s = Inr (Some expected, s1)" and
    ask: "ask_for_share env True (lock_path_spaces ctx (map (\<lambda>row. vw_id (snd row)) expected)) space_locks s1 = Inr (locked, s2)" and
    count: "length locked = length expected" "card (set (map asp_id locked)) = length expected" and
    again: "loadInheritedAuthorityPath env ctx spaceId grantSpaceId s2 = Inr (Some current, s3)" and
    same: "same_path current expected" and
    confirm: "lockOrConfirmSpaceGrant env ctx grantId grantSpaceId True s3 = Inr (Some token, t)"
    using run unfolding lockOrConfirmInheritedSpaceGrant_def Let_def
    by (auto simp: op_simps split: option.splits if_splits)
  obtain d1 where d1: "av_history env (se_statements s1) = Inr d1"
      "locked = lock_path_spaces ctx (map (\<lambda>row. vw_id (snd row)) expected) d1" "later s1 s2"
      "se_statements s2 = Suc (se_statements s1)"
      "\<And>r. r \<in> set locked \<Longrightarrow> (se_statements s1, SpaceLock (asp_id r)) \<in> set (se_locks s2)"
    using ask_for_share_Inr[OF ask] by (metis list.set_intros(1) space_locks_def)
  from loaded_path[OF load ok] have s1: "s1 = s\<lparr>se_statements := Suc (se_statements s)\<rparr>" by metis
  obtain d2 path k where d2: "av_history env (se_statements s2) = Inr d2"
      "s3 = s2\<lparr>se_statements := Suc (se_statements s2)\<rparr>" and k: "0 < k" "k < length path"
      "asp_id (path ! k) = grantSpaceId" "\<forall>i<k. \<not> restricted_space (path ! i)" and
    ids: "map (\<lambda>row. vw_id (snd row)) current = map asp_id (take (Suc k) path)" and
    start: "path ! 0 \<in> set (spaces_named ctx spaceId d2)" and chain: "successively (next_space ctx d2) path"
    by (rule loaded_path[OF again ok])
  note confirmed = confirmed_grant[OF confirm]
  have path_live: "x \<in> set (live_spaces ctx d2)" if x: "x \<in> set path" for x
  proof -
    obtain i where i: "i < length path" "x = path ! i" using x by (auto simp: in_set_conv_nth)
    show ?thesis using i chain start
      by (cases i) (auto simp: successively_conv_nth next_space_def mem_spaces_named)
  qed
  have lock: "(se_statements s1, SpaceLock (asp_id x)) \<in> set (se_locks t)" if x: "x \<in> set (take (Suc k) path)" for x
  proof -
    let ?ids = "set (map uuid_column (map (\<lambda>row. vw_id (snd row)) expected))"
    have "set (map asp_id locked) \<subseteq> ?ids" by (auto simp: d1(2) lock_path_spaces_def)
    moreover have "card ?ids \<le> length expected" by (metis card_length length_map)
    ultimately have all: "set (map asp_id locked) = ?ids"
      using count(2) by (metis List.finite_set card_seteq)
    have "asp_id x \<in> set (map (\<lambda>row. vw_id (snd row)) expected)"
      using ids same_path_ids[OF same] x by (metis imageI set_map)
    moreover have "uuid_column (asp_id x) = asp_id x"
      using path_live x history_okD[OF ok d2(1)] by (auto simp: directory_ok_def mem_live_spaces dest: in_set_takeD)
    ultimately have "asp_id x \<in> ?ids" by (metis imageI set_map)
    then obtain r where "r \<in> set locked" "asp_id r = asp_id x" unfolding all[symmetric] by auto
    then have "(se_statements s1, SpaceLock (asp_id x)) \<in> set (se_locks s2)" using d1(5) by metis
    then show ?thesis using confirmed d2(2) by (auto simp: later_def)
  qed
  have spaces: "secured env t (\<lambda>d. \<forall>x\<in>set (take (Suc k) path). x \<in> set (dr_spaces d))"
  proof (rule secured_all)
    fix x assume x: "x \<in> set (take (Suc k) path)"
    then have "x \<in> set (dr_spaces d2)" using path_live by (auto simp: mem_live_spaces dest: in_set_takeD)
    from secured_space[OF lock[OF x] d1(1) d2(1) _ this] show "secured env t (\<lambda>d. x \<in> set (dr_spaces d))"
      using confirmed d1(4) d2(2) by (auto simp: later_def)
  qed
  have canonical: "uuid_column grantSpaceId = grantSpaceId"
    using path_live[of "path ! k"] k(2,3) history_okD[OF ok d2(1)] by (auto simp: directory_ok_def mem_live_spaces)
  have "secured env t (\<lambda>d. \<exists>sp\<in>set (live_spaces ctx d). asp_id sp = uuid_column spaceId \<and>
      (\<exists>a. inherits ctx d sp a \<and> granted ctx d a))"
  proof (rule secured_mono[OF secured_conj[OF spaces conjunct2[OF confirmed]]], elim conjE bexE)
    fix d :: directory and g assume rows: "\<forall>x\<in>set (take (Suc k) path). x \<in> set (dr_spaces d)" and
      g: "g \<in> set (dr_grants d)" "ag_resource_id g = uuid_column grantSpaceId" "grants_actor ctx g"
    have "path ! 0 \<in> set (live_spaces ctx d) \<and> inherits ctx d (path ! 0) (path ! k)"
      using start by (intro moved_chain[OF chain _ k(1,2,4) rows]) (simp add: mem_spaces_named)
    moreover have "granted ctx d (path ! k)" using g canonical k(3) by (auto simp: granted_def)
    ultimately show "\<exists>sp\<in>set (live_spaces ctx d). asp_id sp = uuid_column spaceId \<and>
        (\<exists>a. inherits ctx d sp a \<and> granted ctx d a)"
      using start by (auto simp: mem_spaces_named)
  qed
  moreover have "later s t" using confirmed d1(3) s1 d2(2) by (auto simp: later_def)
  ultimately show ?thesis by blast
qed

section \<open>A positive answer with locks\<close>

lemma direct_token_secured:
  assumes run: "direct_token env ctx True grants s = Inr (Some token, t)" and none: "se_discovery s = None"
    and grants: "\<And>g. g \<in> set grants \<Longrightarrow> uuid_column (ag_resource_id g) = uuid_column spaceId"
  shows "later s t \<and> secured env t (\<lambda>d. \<exists>g\<in>set (dr_grants d). ag_resource_id g = uuid_column spaceId \<and> grants_actor ctx g)"
proof (cases grants)
  case Nil
  then show ?thesis using run by (simp add: direct_token_def op_simps)
next
  case (Cons g rest)
  then have "lockOrConfirmSpaceGrant env ctx (ag_id g) (ag_resource_id g) True s = Inr (Some token, t)"
    using run none by (simp add: direct_token_def op_simps)
  note confirmed = confirmed_grant[OF this]
  then show ?thesis using grants[of g] Cons
    by (auto elim!: secured_mono)
qed

lemma inherited_token_secured:
  assumes run: "inherited_token env ctx spaceId True found s = Inr (Some token, t)" and none: "se_discovery s = None"
    and ok: "history_ok env"
  shows "later s t \<and> secured env t (\<lambda>d. \<exists>sp\<in>set (live_spaces ctx d). asp_id sp = uuid_column spaceId \<and>
    (\<exists>a. inherits ctx d sp a \<and> granted ctx d a))"
proof (cases "xa_inherited_grants found")
  case Nil
  then show ?thesis using run by (simp add: inherited_token_def op_simps split: if_splits)
next
  case (Cons g rest)
  then have "lockOrConfirmInheritedSpaceGrant env ctx spaceId (ag_id g) (ag_resource_id g) s = Inr (Some token, t)"
    using run none by (simp add: inherited_token_def op_simps split: if_splits)
  from locked_inherited_grant[OF this ok] show ?thesis .
qed

lemma locked_target:
  assumes "lock_target env ctx spaceId None True s = Inr (Inr locked, t)"
  obtains d sp where "locked = Some (asp_id sp)" "av_history env (se_statements s) = Inr d"
    "sp \<in> set (spaces_named ctx spaceId d)" "(se_statements s, SpaceLock (asp_id sp)) \<in> set (se_locks t)"
    "later s t" "se_statements t = Suc (se_statements s)" "se_discovery t = se_discovery s"
proof -
  obtain rows where ask: "ask_for_share env True (spaces_named ctx spaceId) space_locks s = Inr (rows, t)" and
    rest: "(case rows of [] \<Rightarrow> Inl space_not_found | row # _ \<Rightarrow> Inr (Some (asp_id row))) = (Inr locked :: readable + jstr option)"
    using assms unfolding lock_target_def by (auto simp: op_bind_Inr op_return_def)
  obtain sp more where sp: "rows = sp # more" "locked = Some (asp_id sp)" using rest by (cases rows) auto
  obtain d where d: "av_history env (se_statements s) = Inr d" "rows = spaces_named ctx spaceId d" "later s t"
      "se_discovery t = se_discovery s" "se_statements t = Suc (se_statements s)"
      "\<And>r. r \<in> set rows \<Longrightarrow> (se_statements s, SpaceLock (asp_id r)) \<in> set (se_locks t)"
    using ask_for_share_Inr[OF ask] by (metis list.set_intros(1) space_locks_def)
  show thesis by (rule that[OF sp(2) d(1)]) (use d(2-6) sp in \<open>simp_all flip: d(2)\<close>)
qed

lemma direct_token_none:
  assumes "direct_token env ctx True grants s = Inr (None, t)" "se_discovery s = None"
  shows "later s t" "se_discovery t = None"
proof -
  have "later s t"
  proof (cases grants)
    case (Cons g rest)
    then have "lockOrConfirmSpaceGrant env ctx (ag_id g) (ag_resource_id g) True s = Inr (None, t)"
      using assms by (simp add: direct_token_def op_simps)
    then obtain rows where "ask_for_share env True (grant_rows ctx (ag_id g) (ag_resource_id g)) grant_locks s = Inr (rows, t)"
      by (auto simp: lockOrConfirmSpaceGrant_def op_bind_Inr op_return_def)
    then show ?thesis by (metis ask_for_share_Inr)
  qed (use assms in \<open>simp add: direct_token_def op_simps\<close>)
  then show "later s t" "se_discovery t = None" using assms(2) by (simp_all add: later_def)
qed

lemma member_reads_secured:
  assumes run: "member_reads env ctx spaceId True s = Inr (r, t)" "rd_allowed r"
    and none: "se_discovery s = None" and ok: "history_ok env"
    and held: "(k, SpaceLock (asp_id sp)) \<in> set (se_locks s)" "av_history env k = Inr d" "k \<le> se_statements s"
    and stays: "secured env s (\<lambda>d. sp \<in> set (live_spaces ctx d))" and id: "asp_id sp = uuid_column spaceId"
    and canonical: "uuid_column (asp_id sp) = asp_id sp"
  shows "later s t \<and> secured env t (\<lambda>d. may_read ctx d role spaceId)"
proof -
  let ?s1 = "s\<lparr>se_statements := Suc (se_statements s)\<rparr>"
  obtain d1 row where d1: "av_history env (se_statements s) = Inr d1" "space_access_of ctx spaceId d1 = Some row"
    and rest: "(case row of None \<Rightarrow> op_return space_not_found | Some found \<Rightarrow>
      if xa_is_root found then op_return (readable_because ''workspace_root_read'' [])
      else op_bind (direct_token env ctx True (xa_direct_grants found)) (\<lambda>direct.
        case direct of Some t \<Rightarrow> op_return (readable_because ''direct_space_grant'' [t])
        | None \<Rightarrow> op_bind (inherited_token env ctx spaceId True found) (\<lambda>inherited.
            op_return (case inherited of Some t \<Rightarrow> readable_because ''inherited_space_grant'' [t]
              | None \<Rightarrow> unreadable ''space_access_denied'' ''No current Space grant authorizes this action''))))
      ?s1 = Inr (r, t)"
    using run(1) by (auto simp: member_reads_def op_bind_Inr ask_locking_Inr)
  have s1: "later s ?s1" "se_discovery ?s1 = None" using none by (simp_all add: later_def)
  have denied: "\<not> rd_allowed space_not_found" "\<not> rd_allowed (unreadable a b)" for a b
    by (simp_all add: space_not_found_def unreadable_def)
  obtain found where found: "row = Some found" using rest run(2) denied by (cases row) (auto simp: op_return_def)
  have space: "xa_is_root found \<longleftrightarrow> (\<exists>x\<in>set (spaces_named ctx spaceId d1). asp_kind x = RootSpace)"
      "xa_direct_grants found = direct_grants ctx spaceId d1"
    using d1(2) found by (auto simp: space_access_of_def Let_def list_ex_iff split: list.splits)
  show ?thesis
  proof (cases "xa_is_root found")
    case True
    then obtain x where x: "x \<in> set (dr_spaces d1)" "live_space ctx x" "asp_id x = uuid_column spaceId" "asp_kind x = RootSpace"
      using space(1) by (auto simp: mem_spaces_named mem_live_spaces)
    have t: "t = ?s1" using rest found True by (simp add: op_return_def)
    have "secured env ?s1 (\<lambda>d. x \<in> set (dr_spaces d))"
      by (rule secured_space[OF _ held(2) d1(1)]) (use held x(1,3) id in simp_all)
    then have "secured env ?s1 (\<lambda>d. may_read ctx d role spaceId)"
      by (rule secured_mono) (use x in \<open>auto simp: may_read_def mem_live_spaces\<close>)
    then show ?thesis using t s1(1) by simp
  next
    case False
    obtain direct s2 where direct: "direct_token env ctx True (xa_direct_grants found) ?s1 = Inr (direct, s2)" and
      more: "(case direct of Some t \<Rightarrow> op_return (readable_because ''direct_space_grant'' [t])
        | None \<Rightarrow> op_bind (inherited_token env ctx spaceId True found) (\<lambda>inherited.
            op_return (case inherited of Some t \<Rightarrow> readable_because ''inherited_space_grant'' [t]
              | None \<Rightarrow> unreadable ''space_access_denied'' ''No current Space grant authorizes this action''))) s2 = Inr (r, t)"
      using rest found False by (auto simp: op_bind_Inr)
    show ?thesis
    proof (cases direct)
      case (Some token)
      have grants: "uuid_column (ag_resource_id g) = uuid_column spaceId" if "g \<in> set (xa_direct_grants found)" for g
        using that canonical by (auto simp: space(2) direct_grants_def id)
      from direct_token_secured[OF direct[unfolded Some] s1(2) grants]
      have granted: "later ?s1 s2" "secured env s2 (\<lambda>d. \<exists>g\<in>set (dr_grants d). ag_resource_id g = uuid_column spaceId \<and> grants_actor ctx g)"
        by blast+
      have t: "t = s2" using more Some by (simp add: op_return_def)
      have "secured env s2 (\<lambda>d. may_read ctx d role spaceId)"
      proof (rule secured_mono[OF secured_conj[OF secured_later[OF stays later_trans[OF s1(1) granted(1)]] granted(2)]])
        fix d :: directory
        assume "sp \<in> set (live_spaces ctx d) \<and>
          (\<exists>g\<in>set (dr_grants d). ag_resource_id g = uuid_column spaceId \<and> grants_actor ctx g)"
        then show "may_read ctx d role spaceId"
          unfolding may_read_def granted_def by (intro bexI[of _ sp]) (auto simp: id)
      qed
      then show ?thesis using t s1(1) granted(1) later_trans by blast
    next
      case None
      obtain inherited where inherited: "inherited_token env ctx spaceId True found s2 = Inr (inherited, t)" and
        r: "r = (case inherited of Some t \<Rightarrow> readable_because ''inherited_space_grant'' [t]
              | None \<Rightarrow> unreadable ''space_access_denied'' ''No current Space grant authorizes this action'')"
        using more None by (auto simp: op_bind_Inr op_return_def)
      obtain token where token: "inherited = Some token" using r run(2) denied by (cases inherited) auto
      have s2: "later ?s1 s2" "se_discovery s2 = None" by (rule direct_token_none[OF direct[unfolded None] s1(2)])+
      from inherited_token_secured[OF inherited[unfolded token] s2(2) ok]
      have granted: "later s2 t" "secured env t (\<lambda>d. \<exists>sp\<in>set (live_spaces ctx d). asp_id sp = uuid_column spaceId \<and>
          (\<exists>a. inherits ctx d sp a \<and> granted ctx d a))" by blast+
      have "secured env t (\<lambda>d. may_read ctx d role spaceId)"
        by (rule secured_mono[OF granted(2)]) (auto simp: may_read_def)
      then show ?thesis using granted(1) s2(1) s1(1) later_trans by blast
    qed
  qed
qed

theorem canRead_secured:
  assumes run: "canReadSpaceResource env ctx spaceId role None True s = Inr (r, t)" "rd_allowed r"
    and none: "se_discovery s = None" and ok: "history_ok env"
  shows "later s t \<and> secured env t (\<lambda>d. may_read ctx d role spaceId)"
proof -
  have "read_target env ctx spaceId s = Inr (Inr None, s)" using none by (simp add: read_target_def op_simps)
  then obtain locked s1 where lock: "lock_target env ctx spaceId None True s = Inr (locked, s1)" and
    rest: "(case locked of Inl no \<Rightarrow> op_return no | Inr lockedTarget \<Rightarrow> if workspace_authority role
      then administrator_reads env ctx spaceId None lockedTarget else member_reads env ctx spaceId True) s1 = Inr (r, t)"
    using run(1) by (auto simp: canReadSpaceResource_def op_bind_Inr)
  show ?thesis
  proof (cases locked)
    case (Inl no)
    obtain rows :: "space_record list" where "locked = (case rows of [] \<Rightarrow> Inl space_not_found | row # _ \<Rightarrow> Inr (Some (asp_id row)))"
      using lock by (auto simp: lock_target_def op_bind_Inr op_return_def)
    then have "no = space_not_found" using Inl by (simp split: list.splits)
    then show ?thesis using rest Inl run(2) by (auto simp add: op_return_def space_not_found_def unreadable_def)
  next
    case (Inr target)
    obtain d sp where sp: "target = Some (asp_id sp)" "av_history env (se_statements s) = Inr d"
      "sp \<in> set (spaces_named ctx spaceId d)" and held: "(se_statements s, SpaceLock (asp_id sp)) \<in> set (se_locks s1)"
      and s1: "later s s1" "se_statements s1 = Suc (se_statements s)" "se_discovery s1 = se_discovery s"
      by (rule locked_target[OF lock[unfolded Inr]])
    have space: "sp \<in> set (dr_spaces d)" "live_space ctx sp" "asp_id sp = uuid_column spaceId"
      using sp(3) by (auto simp: mem_spaces_named mem_live_spaces)
    have "keeps (SpaceLock (asp_id sp)) d e \<Longrightarrow> sp \<in> set (live_spaces ctx e)" for e
      using keeps_rows(1)[OF _ space(1)] space(2) by (simp add: mem_live_spaces del: keeps.simps)
    then have stays: "secured env s1 (\<lambda>d. sp \<in> set (live_spaces ctx d))"
      by (intro secured_lock[OF held sp(2)]) (simp_all add: s1(2) del: keeps.simps)
    show ?thesis
    proof (cases "workspace_authority role")
      case True
      then have "t = s1" using rest Inr sp(1) by (simp add: administrator_reads_def Let_def op_simps split: if_splits)
      moreover have "secured env s1 (\<lambda>d. may_read ctx d role spaceId)"
        by (rule secured_mono[OF stays]) (use space True in \<open>auto simp: may_read_def\<close>)
      ultimately show ?thesis using s1(1) by simp
    next
      case False
      then have "member_reads env ctx spaceId True s1 = Inr (r, t)" using rest Inr by simp
      from member_reads_secured[OF this run(2) _ ok held sp(2) _ stays space(3)] s1 none
        history_okD[OF ok sp(2)] space(1)
      show ?thesis by (auto simp: directory_ok_def intro: later_trans)
    qed
  qed
qed

text \<open>C19: A positive answer about reading a space, given with locks, is about a live space that the role, its being
  the root, a direct grant or an inherited one with no restriction in between lets the actor read; and it stays so
  in every snapshot from then on, whatever other transactions commit, as long as they respect the row locks.\<close>
theorem space_read_stays:
  assumes "canReadSpaceResource env ctx spaceId role None True s = Inr (r, t)" "rd_allowed r"
    and "se_discovery s = None" "history_ok env"
  shows "secured env t (\<lambda>d. may_read ctx d role spaceId)"
  using canRead_secured[OF assms] by blast

end
