(* ===== verification/Locking_Queries.thy ===== *)
theory Locking_Queries
  imports Space_Promises
begin

text \<open>
  What a query with \<open>FOR SHARE\<close> or \<open>FOR UPDATE\<close> shows, once for all of them: when the rows of its
  result depend only on rows that it locks, a row that it returned stays in its result. The contract is a
  locale, and every locking query of the service that a decision rests on is an instance.
\<close>

section \<open>Conclusions\<close>

lemma not_allowed [simp]:
  "\<not> de_allowed (deny p r e)" "\<not> de_allowed (nonLeakingB1Deny p)" "de_allowed (allow p r e ts)"
  by (simp_all add: deny_def nonLeakingB1Deny_def allow_def)

lemma never_allowed:
  "not_available ctx s = Inr (de, t) \<Longrightarrow> \<not> de_allowed de" "denied ctx r e s = Inr (de, t) \<Longrightarrow> \<not> de_allowed de"
  by (auto simp: not_available_def denied_def op_return_def)

text \<open>A positive decision makes \<open>P\<close> hold from then on.\<close>

definition concludes :: "auth_env \<Rightarrow> decision asks \<Rightarrow> (directory \<Rightarrow> bool) \<Rightarrow> bool" where
  "concludes env m P \<longleftrightarrow> (\<forall>s de t. m s = Inr (de, t) \<longrightarrow> de_allowed de \<longrightarrow> later s t \<and> secured env t P)"

lemma concludesI:
  "(\<And>s de t. m s = Inr (de, t) \<Longrightarrow> de_allowed de \<Longrightarrow> later s t \<and> secured env t P) \<Longrightarrow> concludes env m P"
  by (simp add: concludes_def)

lemma concludesD: "concludes env m P \<Longrightarrow> m s = Inr (de, t) \<Longrightarrow> de_allowed de \<Longrightarrow> later s t \<and> secured env t P"
  by (simp add: concludes_def)

lemma concludes_mono: "concludes env m P \<Longrightarrow> (\<And>d. P d \<Longrightarrow> Q d) \<Longrightarrow> concludes env m Q"
  unfolding concludes_def using secured_mono by blast

lemma concludes_unless: "(\<not> b \<Longrightarrow> concludes env m P) \<Longrightarrow> concludes env (if b then denied ctx r e else m) (\<lambda>d. \<not> b \<and> P d)"
  by (cases b) (auto simp: concludes_def dest: never_allowed)

lemma concludes_allow: "concludes env (op_return (allow p r e ts)) (\<lambda>d. True)"
  by (simp add: concludes_def op_return_Inr secured_def)

section \<open>The contract\<close>

locale locking_query =
  fixes rows :: "directory \<Rightarrow> 'r list" and locks :: "'r \<Rightarrow> lock list"
  assumes kept: "r \<in> set (rows d) \<Longrightarrow> (\<And>l. l \<in> set (locks r) \<Longrightarrow> keeps l d d') \<Longrightarrow> r \<in> set (rows d')"
begin

lemma stays:
  assumes ask: "ask_for_share env True q locks s = Inr (rs, t)" and r: "r \<in> set rs"
    and part: "\<And>d. set (q d) \<subseteq> set (rows d)"
  shows "later s t \<and> se_discovery t = se_discovery s \<and> secured env t (\<lambda>d. r \<in> set (rows d))"
proof -
  obtain d where d: "av_history env (se_statements s) = Inr d" "rs = q d" "later s t"
      "se_discovery t = se_discovery s" "se_statements t = Suc (se_statements s)"
      "\<And>r l. r \<in> set rs \<Longrightarrow> l \<in> set (locks r) \<Longrightarrow> (se_statements s, l) \<in> set (se_locks t)"
    by (rule ask_for_share_Inr[OF ask]) blast
  have "r \<in> set (rows d')" if "honours env t" "se_statements t \<le> j" "av_history env j = Inr d'" for j d'
  proof (rule kept)
    show "r \<in> set (rows d)" using r d(2) part by blast
    show "keeps l d d'" if "l \<in> set (locks r)" for l
      using honoursD[OF \<open>honours env t\<close> d(6)[OF r that] d(1) _ \<open>av_history env j = Inr d'\<close>] d(5) \<open>se_statements t \<le> j\<close>
      by simp
  qed
  then show ?thesis using d(3,4) by (auto simp: secured_def)
qed

lemma first_stays:
  "ask_for_share env True (\<lambda>d. take 1 (rows d)) locks s = Inr (r # rs, t) \<Longrightarrow>
     later s t \<and> se_discovery t = se_discovery s \<and> secured env t (\<lambda>d. r \<in> set (rows d))"
  by (erule stays) (auto dest: in_set_takeD)

lemma required:
  assumes "\<And>r. ok r \<Longrightarrow> concludes env (continue r) (P r)"
  shows "concludes env (require_row env context rows locks ok reasonCode explanation continue)
    (\<lambda>d. \<exists>r\<in>set (rows d). ok r \<and> P r d)"
proof (rule concludesI)
  fix s de u
  assume run: "require_row env context rows locks ok reasonCode explanation continue s = Inr (de, u)" "de_allowed de"
  obtain rs t where ask: "ask_for_share env True (\<lambda>d. take 1 (rows d)) locks s = Inr (rs, t)" and
    rest: "(case rs of [] \<Rightarrow> denied context reasonCode explanation
      | r # _ \<Rightarrow> if ok r then continue r else denied context reasonCode explanation) t = Inr (de, u)"
    using run(1) unfolding require_row_def by (auto simp: op_bind_Inr)
  then obtain r more where r: "rs = r # more" "ok r" "continue r t = Inr (de, u)"
    using run(2) by (cases rs) (auto dest: never_allowed split: if_splits)
  note held = first_stays[OF ask[unfolded r(1)]]
  have rest: "later t u \<and> secured env u (P r)" using assms[OF r(2)] r(3) run(2) by (auto simp: concludes_def)
  have "secured env u (\<lambda>d. r \<in> set (rows d) \<and> P r d)"
    using secured_conj[OF secured_later] held rest by blast
  then show "later s u \<and> secured env u (\<lambda>d. \<exists>r\<in>set (rows d). ok r \<and> P r d)"
    using held rest later_trans r(2) by (blast intro: secured_mono)
qed

end

section \<open>The instances\<close>

interpretation tenants: locking_query "tenants_named i" tenant_locks for i
  by unfold_locales (auto simp: tenants_named_def tenant_locks_def simp del: keeps.simps intro: keeps_rows)

interpretation active_tenants: locking_query "\<lambda>d. filter (\<lambda>t. tn_status t = ActiveTenant) (tenants_named i d)" tenant_locks for i
  by unfold_locales (auto simp: tenants_named_def tenant_locks_def simp del: keeps.simps intro: keeps_rows)

interpretation workspaces: locking_query "workspaces_named i j" workspace_locks for i j
  by unfold_locales (auto simp: workspaces_named_def workspace_locks_def simp del: keeps.simps intro: keeps_rows)

interpretation active_workspaces:
  locking_query "\<lambda>d. filter (\<lambda>w. wp_status w = ActiveWorkspace) (workspaces_named i j d)" workspace_locks for i j
  by unfold_locales (auto simp: workspaces_named_def workspace_locks_def simp del: keeps.simps intro: keeps_rows)

interpretation policies: locking_query "active_policies ctx" policy_locks for ctx
  by unfold_locales (auto simp: active_policies_def policy_locks_def simp del: keeps.simps intro: keeps_policy)

interpretation named_policies: locking_query "policies_named i j k" policy_locks for i j k
  by unfold_locales (auto simp: policies_named_def policy_locks_def simp del: keeps.simps intro: keeps_policy)

interpretation named_principals: locking_query "principals_named i j k" principal_locks for i j k
  by unfold_locales (auto simp: principals_named_def principal_locks_def simp del: keeps.simps intro: keeps_rows)

interpretation active_named_policies:
  locking_query "\<lambda>d. filter (\<lambda>p. pv_status p = ActivePolicy) (policies_named i j k d)" policy_locks for i j k
  by unfold_locales (auto simp: policies_named_def policy_locks_def simp del: keeps.simps intro: keeps_policy)

interpretation principals:
  locking_query "\<lambda>d. filter (\<lambda>p. sv_purpose p = purpose \<and> sv_status p = ActivePrincipal) (principals_named i j k d)"
    principal_locks for purpose i j k
  by unfold_locales (auto simp: principals_named_def principal_locks_def simp del: keeps.simps intro: keeps_rows)

interpretation memberships: locking_query "memberships_of ctx" membership_locks for ctx
proof
  fix r d d' assume r: "r \<in> set (memberships_of ctx d)" and l: "\<And>l. l \<in> set (membership_locks r) \<Longrightarrow> keeps l d d'"
  have "fst r \<in> set (dr_memberships d) \<Longrightarrow> fst r \<in> set (dr_memberships d')"
      "snd r \<in> set (dr_users d) \<Longrightarrow> snd r \<in> set (dr_users d')"
    by (erule keeps_at, rule l, simp add: membership_locks_def)+
  then show "r \<in> set (memberships_of ctx d')" using r by (auto simp: memberships_of_def)
qed

interpretation spaces: locking_query "spaces_named ctx i" space_locks for ctx i
  by unfold_locales (auto simp: spaces_named_def live_spaces_def space_locks_def simp del: keeps.simps intro: keeps_rows)

interpretation manager_grants: locking_query "direct_space_grants i j relation k l" grant_locks for i j relation k l
  by unfold_locales (auto simp: direct_space_grants_def grant_locks_def simp del: keeps.simps intro: keeps_rows)

interpretation contributions: locking_query "contribution_grants ctx i" grant_locks for ctx i
  by unfold_locales (auto simp: contribution_grants_def grant_locks_def simp del: keeps.simps intro: keeps_rows)

lemma subject_kept:
  "keeps (subject_lock kind (wr_id w)) d d' \<Longrightarrow> w \<in> set (subject_table kind d) \<Longrightarrow> w \<in> set (subject_table kind d')"
  by (cases kind) (simp_all add: keeps_rows del: keeps.simps)

interpretation subjects: locking_query "authority_subjects ctx kind i" "subject_locks kind" for ctx kind i
proof
  fix r d d' assume r: "r \<in> set (authority_subjects ctx kind i d)" and l: "\<And>l. l \<in> set (subject_locks kind r) \<Longrightarrow> keeps l d d'"
  have "fst r \<in> set (subject_table kind d) \<Longrightarrow> fst r \<in> set (subject_table kind d')"
      "snd r \<in> set (dr_spaces d) \<Longrightarrow> snd r \<in> set (dr_spaces d')"
    by (erule subject_kept[rotated] keeps_at, rule l, simp add: subject_locks_def)+
  then show "r \<in> set (authority_subjects ctx kind i d')" using r by (auto simp: authority_subjects_def)
qed

interpretation fact_subjects:
  locking_query "subjects_of_fact ctx f" "\<lambda>w. [subject_lock (tf_subject_type f) (wr_id w)]" for ctx f
  by unfold_locales (auto simp: subjects_of_fact_def simp del: keeps.simps subject_table.simps
      subject_lock.simps intro: subject_kept)

interpretation facts: locking_query "lifecycle_facts ctx i replay" fact_locks for ctx i replay
proof
  fix r d d' assume r: "r \<in> set (lifecycle_facts ctx i replay d)" and l: "\<And>l. l \<in> set (fact_locks r) \<Longrightarrow> keeps l d d'"
  have "fst r \<in> set (dr_facts d) \<Longrightarrow> fst r \<in> set (dr_facts d')"
      "snd r \<in> set (dr_spaces d) \<Longrightarrow> snd r \<in> set (dr_spaces d')"
    by (erule keeps_at, rule l, simp add: fact_locks_def)+
  then show "r \<in> set (lifecycle_facts ctx i replay d')" using r by (auto simp: lifecycle_facts_def)
qed

interpretation proposals: locking_query "objective_proposals ctx i" proposal_locks for ctx i
proof
  fix r d d' assume r: "r \<in> set (objective_proposals ctx i d)" and l: "\<And>l. l \<in> set (proposal_locks r) \<Longrightarrow> keeps l d d'"
  have "fst r \<in> set (dr_claims d) \<Longrightarrow> fst r \<in> set (dr_claims d')"
      "fst (snd r) \<in> set (dr_initiatives d) \<Longrightarrow> fst (snd r) \<in> set (dr_initiatives d')"
      "snd (snd r) \<in> set (dr_spaces d) \<Longrightarrow> snd (snd r) \<in> set (dr_spaces d')"
    by (erule keeps_at, rule l, simp add: proposal_locks_def split_beta)+
  then show "r \<in> set (objective_proposals ctx i d')" using r by (auto simp: objective_proposals_def)
qed

interpretation references: locking_query "active_references env b" "\<lambda>r. [ReferenceLock (cx_id r)]" for env b
  by unfold_locales (auto simp: active_references_def simp del: keeps.simps intro: keeps_rows)

interpretation delegating_users:
  locking_query "\<lambda>d. filter (\<lambda>u. us_id u = i \<and> us_status u = ActiveUser) (dr_users d)" "\<lambda>u. [UserLock (us_id u)]" for i
  by unfold_locales (auto simp del: keeps.simps intro: keeps_rows)

interpretation delegating_memberships:
  locking_query "\<lambda>d. filter (\<lambda>m. mb_id m = i \<and> mb_user_id m = j \<and> mb_tenant_id m = k \<and> mb_workspace_id m = l \<and>
    mb_status m = ActiveMembership) (dr_memberships d)" "\<lambda>m. [MembershipLock (mb_id m)]" for i j k l
  by unfold_locales (auto simp del: keeps.simps intro: keeps_rows)

interpretation worker_spaces:
  locking_query "\<lambda>d. filter (\<lambda>sp. asp_id sp = i \<and> asp_tenant_id sp = j \<and> asp_workspace_id sp = k \<and>
    \<not> asp_archived sp) (dr_spaces d)" space_locks for i j k
  by unfold_locales (auto simp: space_locks_def simp del: keeps.simps intro: keeps_rows)

interpretation delegators: locking_query "delegator_grants b" grant_locks for b
  by unfold_locales (auto simp: delegator_grants_def grant_locks_def simp del: keeps.simps intro: keeps_rows)

end
