(* ===== verification/Authority_Promises.thy ===== *)
theory Authority_Promises
  imports Locking_Queries
begin

text \<open>
  Who may propose a claim, decide on a proposal, accept a fact or end its life, said over one snapshot
  of the database; and that a positive decision with locks makes it true in every snapshot until the
  transaction ends.
\<close>

section \<open>The policy\<close>

text \<open>The actor of the context is a person with an active membership.\<close>

definition current_actor :: "security_context \<Rightarrow> directory \<Rightarrow> authority_actor \<Rightarrow> bool" where
  "current_actor ctx d actor \<longleftrightarrow> (\<exists>row\<in>set (memberships_of ctx d).
     exactHumanAuthorityActor ctx (Some (member_of row)) = Some actor)"

definition within_ceiling :: "security_context \<Rightarrow> access_class \<Rightarrow> bool" where
  "within_ceiling ctx c \<longleftrightarrow> canReadDataClass (sx_dataClassCeiling ctx) c"

definition contributes :: "security_context \<Rightarrow> directory \<Rightarrow> membership_role \<Rightarrow> jstr \<Rightarrow> bool" where
  "contributes ctx d role spaceId \<longleftrightarrow> workspace_authority role \<or> contribution_grants ctx spaceId d \<noteq> []"

definition may_propose :: "security_context \<Rightarrow> directory \<Rightarrow> authority_actor \<Rightarrow> subject_kind \<Rightarrow> jstr \<Rightarrow> bool" where
  "may_propose ctx d actor kind i \<longleftrightarrow> (\<exists>(w, sp)\<in>set (authority_subjects ctx kind i d).
     within_ceiling ctx (asp_access_class sp) \<and> may_read ctx d (ac_role actor) (wr_space_id w) \<and>
     contributes ctx d (ac_role actor) (wr_space_id w))"

definition may_accept :: "security_context \<Rightarrow> directory \<Rightarrow> authority_actor \<Rightarrow> subject_kind \<Rightarrow> jstr \<Rightarrow> bool" where
  "may_accept ctx d actor kind i \<longleftrightarrow> (\<exists>(w, sp)\<in>set (authority_subjects ctx kind i d).
     within_ceiling ctx (asp_access_class sp) \<and> may_read ctx d (ac_role actor) (wr_space_id w) \<and>
     wr_owner_person_id w = ac_personId actor)"

definition may_end_fact :: "security_context \<Rightarrow> directory \<Rightarrow> authority_actor \<Rightarrow> jstr \<Rightarrow> bool \<Rightarrow> bool" where
  "may_end_fact ctx d actor i replay \<longleftrightarrow> (\<exists>(f, sp)\<in>set (lifecycle_facts ctx i replay d).
     sx_requestedSpaceIds ctx = [tf_space_id f] \<and>
     within_ceiling ctx (greatest_class [asp_access_class sp, tf_access_class f]) \<and>
     (\<exists>w\<in>set (subjects_of_fact ctx f d). wr_owner_person_id w = ac_personId actor) \<and>
     may_read ctx d (ac_role actor) (tf_space_id f))"

definition may_decide_proposal :: "security_context \<Rightarrow> directory \<Rightarrow> authority_actor \<Rightarrow> auth_action \<Rightarrow> jstr \<Rightarrow> bool" where
  "may_decide_proposal ctx d actor action i \<longleftrightarrow> (\<exists>(c, w, sp)\<in>set (objective_proposals ctx i d).
     within_ceiling ctx (tc_access_class c) \<and> may_read ctx d (ac_role actor) (tc_space_id c) \<and>
     proposal_manager action
       (tc_created_by_user_id c = ac_userId actor \<and> tc_created_by_membership_id c = ac_membershipId actor)
       (wr_owner_person_id w = ac_personId actor))"

definition may_change_truth ::
  "security_context \<Rightarrow> directory \<Rightarrow> authority_actor \<Rightarrow> auth_action \<Rightarrow> resource_ref \<Rightarrow> bool \<Rightarrow> bool" where
  "may_change_truth ctx d actor action resource replay \<longleftrightarrow>
     (if action \<in> {ProposalWithdraw, ProposalReject, ProposalRework}
      then rr_type resource = RefClaim \<and> may_decide_proposal ctx d actor action (rr_id resource)
      else if action \<in> {FactSupersede, FactRevoke}
      then rr_type resource = RefFact \<and> may_end_fact ctx d actor (rr_id resource) replay
      else \<exists>kind. subject_of_ref (rr_type resource) = Some kind \<and>
        (if action = ClaimCreate then may_propose ctx d actor kind (rr_id resource)
         else action = FactAccept \<and> may_accept ctx d actor kind (rr_id resource)))"

definition truth_permitted ::
  "security_context \<Rightarrow> directory \<Rightarrow> auth_action \<Rightarrow> resource_ref \<Rightarrow> bool \<Rightarrow> bool" where
  "truth_permitted ctx d action resource replay \<longleftrightarrow> active_policies ctx d \<noteq> [] \<and>
     (\<exists>actor. current_actor ctx d actor \<and> sx_actorDisplayPersonId ctx = Some (ac_personId actor) \<and>
        may_change_truth ctx d actor action resource replay)"

section \<open>The parts of a decision\<close>

lemma unless_denied:
  assumes "(if b then not_available ctx else f) s = Inr (de, t)" "de_allowed de"
  shows "\<not> b" "f s = Inr (de, t)"
  using assms never_allowed(1) by (auto split: if_splits)

lemma asked_row:
  assumes "op_bind (ask_for_share env b q locks)
      (\<lambda>rows. case rows of [] \<Rightarrow> not_available ctx | r # _ \<Rightarrow> f r) s = Inr (de, t)" "de_allowed de"
  obtains r rest s1 where "ask_for_share env b q locks s = Inr (r # rest, s1)" "f r s1 = Inr (de, t)"
proof -
  obtain rows s1 where ask: "ask_for_share env b q locks s = Inr (rows, s1)" and
    rest: "(case rows of [] \<Rightarrow> not_available ctx | r # _ \<Rightarrow> f r) s1 = Inr (de, t)"
    using assms(1) by (auto simp: op_bind_Inr)
  then show thesis using assms(2) never_allowed(1) by (cases rows) (auto intro: that)
qed

lemma read_space:
  assumes "op_bind (canReadSpaceResource env ctx i role None b)
      (\<lambda>r. if \<not> rd_allowed r then not_available ctx else f r) s = Inr (de, t)" "de_allowed de"
  obtains r s1 where "canReadSpaceResource env ctx i role None b s = Inr (r, s1)" "rd_allowed r" "f r s1 = Inr (de, t)"
proof -
  obtain r s1 where "canReadSpaceResource env ctx i role None b s = Inr (r, s1)"
      "(if \<not> rd_allowed r then not_available ctx else f r) s1 = Inr (de, t)"
    using assms(1) by (auto simp: op_bind_Inr)
  then show thesis using unless_denied[OF _ assms(2)] that by blast
qed

lemma contribution_secured:
  assumes "contributorAuthority env ctx spaceId role True s = Inr ((True, ts), t)" "se_discovery s = None"
  shows "later s t \<and> secured env t (\<lambda>d. contributes ctx d role spaceId)"
proof (cases "workspace_authority role")
  case True
  then show ?thesis using assms(1) by (auto simp: contributorAuthority_def op_return_def contributes_def secured_def)
next
  case False
  obtain rows s1 where asked: "ask_for_share env True (\<lambda>d. take 1 (contribution_grants ctx spaceId d)) grant_locks s = Inr (rows, s1)"
    and rest: "(case rows of [] \<Rightarrow> op_return (False, []) | row # _ \<Rightarrow>
      op_bind (discover (recordRelationshipAuthorityGrant (view_of_grant row))) (\<lambda>_.
      op_bind discovered_inconsistent (\<lambda>inconsistent. op_return (if inconsistent then (False, [])
        else (True, [spaceGrantToken (ag_id row) (ag_resource_id row)]))))) s1 = Inr ((True, ts), t)"
    using assms(1) False by (auto simp: contributorAuthority_def op_bind_Inr)
  then obtain g more where rows: "rows = g # more" by (cases rows) (auto simp: op_return_def)
  then have ask: "ask_for_share env True (\<lambda>d. take 1 (contribution_grants ctx spaceId d)) grant_locks s = Inr (g # more, s1)" and
    t: "t = s1\<lparr>se_discovery := map_option (recordRelationshipAuthorityGrant (view_of_grant g)) (se_discovery s1)\<rparr>"
    using asked rest by (auto simp: op_simps discover_def discovered_inconsistent_def)
  note held = contributions.first_stays[OF ask]
  have "t = s1" using t held assms(2) by simp
  then show ?thesis using held by (auto simp: contributes_def elim!: secured_mono)
qed

lemma proposal_secured:
  assumes run: "objectiveProposalMutationDecision env ctx (ac_role actor) action resource options actor s = Inr (de, t)"
    and yes: "de_allowed de" "ao_lockAuthority options = True" and none: "se_discovery s = None" and ok: "history_ok env"
  shows "rr_type resource = RefClaim \<and> later s t \<and>
    secured env t (\<lambda>d. may_decide_proposal ctx d actor action (rr_id resource))"
proof -
  note start = unless_denied[OF run[unfolded objectiveProposalMutationDecision_def] yes(1)]
  obtain row rest s1 where ask1: "ask_for_share env True (\<lambda>d. take 1 (objective_proposals ctx (rr_id resource) d))
      proposal_locks s = Inr (row # rest, s1)" and
    verdict0: "decide_objective_proposal env ctx (ac_role actor) action options actor row s1 = Inr (de, t)"
    by (rule asked_row[OF start(2)[unfolded yes(2)] yes(1)])
  obtain c w sp where row: "row = (c, w, sp)" by (cases row)
  note ask = ask1[unfolded row] and verdict1 = verdict0[unfolded row prod.case decide_objective_proposal_def]
  note type = start(1) and level = unless_denied(1)[OF verdict1 yes(1)]
  obtain readable s2 where read: "canReadSpaceResource env ctx (tc_space_id c) (ac_role actor) None True s1 = Inr (readable, s2)"
      "rd_allowed readable" and verdict:  "(let isProposer = tc_created_by_user_id c = ac_userId actor \<and>
          tc_created_by_membership_id c = ac_membershipId actor; isOwner = wr_owner_person_id w = ac_personId actor
        in if proposal_manager action isProposer isOwner
           then op_return (allow (sx_policyVersion ctx) (js ''b2_primary_objective_proposal_manager'') None
             (Some (rd_authorityTokens readable @ [if isOwner then js ''initiative_owner'' else js ''original_proposer''])))
           else not_available ctx) s2 = Inr (de, t)"
    by (rule read_space[OF unless_denied(2)[OF verdict1 yes(1), unfolded yes(2)] yes(1)])
  have manager: "proposal_manager action
       (tc_created_by_user_id c = ac_userId actor \<and> tc_created_by_membership_id c = ac_membershipId actor)
       (wr_owner_person_id w = ac_personId actor)" and t: "t = s2"
    using verdict yes(1) by (auto simp: Let_def op_return_def dest: never_allowed split: if_splits)
  note held = proposals.first_stays[OF ask]
  note reads = canRead_secured[OF read _ ok]
  have "later s1 s2 \<and> secured env s2 (\<lambda>d. may_read ctx d (ac_role actor) (tc_space_id c))"
    by (rule reads) (use held none in simp)
  then have "secured env t (\<lambda>d. (c, w, sp) \<in> set (objective_proposals ctx (rr_id resource) d) \<and>
      may_read ctx d (ac_role actor) (tc_space_id c))" "later s t"
    using held t by (auto intro: secured_conj secured_later later_trans)
  then show ?thesis using type level manager
    by (auto simp: may_decide_proposal_def within_ceiling_def elim!: secured_mono)
qed

lemma lifecycle_secured:
  assumes run: "factLifecycleMutationDecision env ctx (ac_role actor) resource options actor replay s = Inr (de, t)"
    and yes: "de_allowed de" "ao_lockAuthority options = True" and none: "se_discovery s = None" and ok: "history_ok env"
  shows "rr_type resource = RefFact \<and> later s t \<and> secured env t (\<lambda>d. may_end_fact ctx d actor (rr_id resource) replay)"
proof -
  note start = unless_denied[OF run[unfolded factLifecycleMutationDecision_def] yes(1)]
  obtain row rest s1 where ask1: "ask_for_share env True (\<lambda>d. take 1 (lifecycle_facts ctx (rr_id resource) replay d))
      fact_locks s = Inr (row # rest, s1)" and
    verdict0: "decide_fact_lifecycle env ctx (ac_role actor) options actor row s1 = Inr (de, t)"
    by (rule asked_row[OF start(2)[unfolded yes(2)] yes(1)])
  obtain f sp where row: "row = (f, sp)" by (cases row)
  note ask = ask1[unfolded row] and verdict1 = verdict0[unfolded row prod.case decide_fact_lifecycle_def]
  note type = start(1) and level = unless_denied(1)[OF verdict1 yes(1)]
  obtain w more s2 where subject: "ask_for_share env True (\<lambda>d. take 1 (subjects_of_fact ctx f d))
      (\<lambda>w. [subject_lock (tf_subject_type f) (wr_id w)]) s1 = Inr (w # more, s2)" and
    owned0: "decide_fact_owner env ctx (ac_role actor) options actor f w s2 = Inr (de, t)"
    by (rule asked_row[OF unless_denied(2)[OF verdict1 yes(1), unfolded yes(2)] yes(1)])
  note owned1 = owned0[unfolded decide_fact_owner_def]
  note owner = unless_denied(1)[OF owned1 yes(1)]
  obtain readable s3 where read: "canReadSpaceResource env ctx (tf_space_id f) (ac_role actor) None True s2 = Inr (readable, s3)"
      "rd_allowed readable" and t: "t = s3"
    by (rule read_space[OF unless_denied(2)[OF owned1 yes(1), unfolded yes(2)] yes(1)]) (auto simp: op_return_def)
  note fact = facts.first_stays[OF ask] and owned = fact_subjects.first_stays[OF subject]
  have may: "later s2 s3 \<and> secured env s3 (\<lambda>d. may_read ctx d (ac_role actor) (tf_space_id f))"
    by (rule canRead_secured[OF read _ ok]) (use fact owned none in simp)
  then have "later s1 s3" using owned later_trans by blast
  then have "secured env t (\<lambda>d. (f, sp) \<in> set (lifecycle_facts ctx (rr_id resource) replay d) \<and>
      w \<in> set (subjects_of_fact ctx f d) \<and> may_read ctx d (ac_role actor) (tf_space_id f))" "later s t"
    using secured_conj[OF secured_later[OF _ \<open>later s1 s3\<close>] secured_conj[OF secured_later[OF _ conjunct1[OF may]] conjunct2[OF may]]]
      fact owned later_trans t by blast+
  then show ?thesis using type level owner
    by (auto simp: may_end_fact_def within_ceiling_def elim!: secured_mono)
qed

lemma target_secured:
  assumes load: "loadTruthAuthorityTarget env ctx action resource options s = Inr (Some target, t)"
    and lock: "ao_lockAuthority options = True"
  obtains kind w sp where "action = ClaimCreate \<or> action = FactAccept" "subject_of_ref (rr_type resource) = Some kind"
    "target = \<lparr>ta_spaceId = wr_space_id w, ta_accessClass = asp_access_class sp, ta_subjectType = kind,
       ta_ownerPersonId = wr_owner_person_id w\<rparr>"
    "later s t" "se_discovery t = se_discovery s"
    "secured env t (\<lambda>d. (w, sp) \<in> set (authority_subjects ctx kind (rr_id resource) d))"
proof -
  have action: "action = ClaimCreate \<or> action = FactAccept"
    using load by (auto simp: loadTruthAuthorityTarget_def op_return_def split: if_splits)
  obtain kind where kind: "subject_of_ref (rr_type resource) = Some kind"
    using load by (auto simp: loadTruthAuthorityTarget_def op_return_def split: option.splits if_splits)
  obtain rows where asked: "ask_for_share env True (\<lambda>d. take 1 (authority_subjects ctx kind (rr_id resource) d))
      (subject_locks kind) s = Inr (rows, t)" and
    found: "Some target = (case rows of [] \<Rightarrow> None | (w, sp) # _ \<Rightarrow> Some
      \<lparr>ta_spaceId = wr_space_id w, ta_accessClass = asp_access_class sp, ta_subjectType = kind,
       ta_ownerPersonId = wr_owner_person_id w\<rparr>)"
    using load action kind lock by (auto simp: loadTruthAuthorityTarget_def op_bind_Inr op_return_Inr)
  obtain w sp rest where rows: "rows = (w, sp) # rest" using found by (cases rows) auto
  note held = subjects.first_stays[OF asked[unfolded rows]]
  show thesis by (rule that[OF action kind]) (use found rows held in auto)
qed

lemma accepted_secured:
  assumes load: "loadTruthAuthorityTarget env ctx action resource options s = Inr (Some target, s1)"
    and run: "decide_truth_target env ctx (ac_role actor) action options actor target s1 = Inr (de, t)"
    and yes: "de_allowed de" "ao_lockAuthority options = True" and none: "se_discovery s = None" and ok: "history_ok env"
  shows "later s t \<and> secured env t (\<lambda>d. \<exists>kind. subject_of_ref (rr_type resource) = Some kind \<and>
    (if action = ClaimCreate then may_propose ctx d actor kind (rr_id resource)
     else action = FactAccept \<and> may_accept ctx d actor kind (rr_id resource)))"
proof -
  obtain kind w sp where action: "action = ClaimCreate \<or> action = FactAccept"
    and kind: "subject_of_ref (rr_type resource) = Some kind"
    and target: "target = \<lparr>ta_spaceId = wr_space_id w, ta_accessClass = asp_access_class sp, ta_subjectType = kind,
       ta_ownerPersonId = wr_owner_person_id w\<rparr>"
    and s1: "later s s1" "se_discovery s1 = se_discovery s"
    and held: "secured env s1 (\<lambda>d. (w, sp) \<in> set (authority_subjects ctx kind (rr_id resource) d))"
    by (rule target_secured[OF load yes(2)])
  note run1 = run[unfolded decide_truth_target_def target authority_target.simps]
  note level = unless_denied(1)[OF run1 yes(1)]
  obtain readable s2 where read: "canReadSpaceResource env ctx (wr_space_id w) (ac_role actor) None True s1 = Inr (readable, s2)"
      "rd_allowed readable" and rest: "(if action = ClaimCreate
        then op_bind (contributorAuthority env ctx (wr_space_id w) (ac_role actor) True) (\<lambda>contributor.
          if fst contributor
          then op_return (allow (sx_policyVersion ctx) (js ''b2_live_contributor'') None
            (Some (rd_authorityTokens readable @ snd contributor)))
          else not_available ctx)
        else if wr_owner_person_id w = ac_personId actor
        then op_return (allow (sx_policyVersion ctx) (owner_reason kind) None (Some (rd_authorityTokens readable)))
        else not_available ctx) s2 = Inr (de, t)"
    by (rule read_space[OF unless_denied(2)[OF run1 yes(1), unfolded yes(2)] yes(1)])
  have may: "later s1 s2 \<and> secured env s2 (\<lambda>d. may_read ctx d (ac_role actor) (wr_space_id w))"
    by (rule canRead_secured[OF read _ ok]) (use s1 none in simp)
  then have s2: "later s s2" "se_discovery s2 = None" using s1 none by (auto simp: later_def)
  have base: "secured env s2 (\<lambda>d. (w, sp) \<in> set (authority_subjects ctx kind (rr_id resource) d) \<and>
      may_read ctx d (ac_role actor) (wr_space_id w))"
    using may held by (auto intro: secured_conj secured_later)
  show ?thesis
  proof (cases "action = ClaimCreate")
    case True
    obtain contributor s3 where asked: "contributorAuthority env ctx (wr_space_id w) (ac_role actor) True s2 = Inr (contributor, s3)"
      and decided: "(if fst contributor
          then op_return (allow (sx_policyVersion ctx) (js ''b2_live_contributor'') None
            (Some (rd_authorityTokens readable @ snd contributor)))
          else not_available ctx) s3 = Inr (de, t)"
      using rest True by (auto simp: op_bind_Inr)
    obtain ts where contributor: "contributor = (True, ts)" "t = s3"
      using decided yes(1) by (cases contributor) (auto simp: op_return_def dest: never_allowed split: if_splits)
    note by_grant = contribution_secured[OF asked[unfolded contributor(1)] s2(2)]
    then have "secured env t (\<lambda>d. ((w, sp) \<in> set (authority_subjects ctx kind (rr_id resource) d) \<and>
        may_read ctx d (ac_role actor) (wr_space_id w)) \<and> contributes ctx d (ac_role actor) (wr_space_id w))" "later s t"
      using secured_conj[OF secured_later[OF base conjunct1[OF by_grant]] conjunct2[OF by_grant]] s2(1) contributor(2)
        later_trans by blast+
    then show ?thesis using True kind level
      by (auto simp: may_propose_def within_ceiling_def elim!: secured_mono)
  next
    case False
    then have owner: "wr_owner_person_id w = ac_personId actor" and t: "t = s2"
      using rest yes(1) by (auto simp: op_return_def dest: never_allowed split: if_splits)
    then show ?thesis using base False action kind level s2(1)
      by (auto simp: may_accept_def within_ceiling_def elim!: secured_mono)
  qed
qed

section \<open>A decision about the truth\<close>

lemma actor_role: "exactHumanAuthorityActor ctx (Some m) = Some actor \<Longrightarrow> ac_role actor = mv_role m"
  by (auto simp: exactHumanAuthorityActor_def split: if_splits)

lemma mutation_secured:
  assumes run: "truthMutationDecision env ctx role action resource options (Some m) s = Inr (de, t)" "mv_role m = role"
    and yes: "de_allowed de" "ao_lockAuthority options = True" and none: "se_discovery s = None" and ok: "history_ok env"
  obtains actor where "exactHumanAuthorityActor ctx (Some m) = Some actor"
    "sx_actorDisplayPersonId ctx = Some (ac_personId actor)" "later s t"
    "secured env t (\<lambda>d. may_change_truth ctx d actor action resource (ao_factLifecycleReplay options))"
proof -
  obtain actor where actor: "exactHumanAuthorityActor ctx (Some m) = Some actor"
    using run(1) yes(1) by (auto simp: truthMutationDecision_def dest: never_allowed split: option.splits)
  have role: "role = ac_role actor" using actor_role[OF actor] run(2) by simp
  note run1 = run(1)[unfolded truthMutationDecision_def actor option.case role]
  note display = unless_denied(1)[OF run1 yes(1)] and run2 = unless_denied(2)[OF run1 yes(1)]
  have "later s t \<and> secured env t (\<lambda>d. may_change_truth ctx d actor action resource (ao_factLifecycleReplay options))"
  proof (cases "action \<in> {ProposalWithdraw, ProposalReject, ProposalRework}")
    case True
    then have "objectiveProposalMutationDecision env ctx (ac_role actor) action resource options actor s = Inr (de, t)"
      using run2 by simp
    from proposal_secured[OF this yes none ok] show ?thesis
      unfolding may_change_truth_def if_P[OF True] by (auto elim!: secured_mono)
  next
    case no_proposal: False
    show ?thesis
    proof (cases "action \<in> {FactSupersede, FactRevoke}")
      case True
      then have "factLifecycleMutationDecision env ctx (ac_role actor) resource options actor (ao_factLifecycleReplay options) s = Inr (de, t)"
        using run2 by auto
      from lifecycle_secured[OF this yes none ok] show ?thesis
        unfolding may_change_truth_def if_not_P[OF no_proposal] if_P[OF True] by (auto elim!: secured_mono)
    next
      case False
      then obtain found s1 where load: "loadTruthAuthorityTarget env ctx action resource options s = Inr (found, s1)" and
        rest: "(case found of None \<Rightarrow> not_available ctx
          | Some target \<Rightarrow> decide_truth_target env ctx (ac_role actor) action options actor target) s1 = Inr (de, t)"
        using run2 no_proposal by (auto simp: op_bind_Inr split: if_splits)
      obtain target where found: "found = Some target" using rest yes(1) by (cases found) (auto dest: never_allowed)
      have "decide_truth_target env ctx (ac_role actor) action options actor target s1 = Inr (de, t)"
        using rest found by simp
      from accepted_secured[OF load[unfolded found] this yes none ok] show ?thesis
        unfolding may_change_truth_def if_not_P[OF no_proposal] if_not_P[OF False] .
    qed
  qed
  then show thesis using actor display by (intro that) auto
qed

text \<open>The entry of a decision of a person.\<close>

lemma loadActivePolicyVersion_Inr:
  "loadActivePolicyVersion env ctx b s = Inr (found, t) \<longleftrightarrow>
     (\<exists>rows. ask_for_share env b (active_policies ctx) policy_locks s = Inr (rows, t) \<and> found = (rows \<noteq> []))"
proof -
  have "(map_option f (first_row rows) \<noteq> None) = (rows \<noteq> [])" for f :: "policy_record \<Rightarrow> jstr \<times> policy_status" and rows
    by (cases rows) (simp_all add: first_row_def)
  then show ?thesis
    by (auto simp: loadActivePolicyVersion_def loadActivePolicyRecord_def op_bind_Inr op_return_Inr neq_Nil_conv)
qed

lemma person_allowed:
  assumes run: "person_decision env ctx action resource options s = Inr (de, t)"
    and yes: "de_allowed de" "ao_lockAuthority options = True" and none: "se_discovery s = None"
  obtains row s2 where "\<not> given (sx_servicePrincipalId ctx)" "\<not> given (sx_agentPrincipalId ctx)"
    "later s s2" "se_discovery s2 = None"
    "secured env s2 (\<lambda>d. active_policies ctx d \<noteq> [] \<and> row \<in> set (memberships_of ctx d))"
    "membership_active (member_of row)"
    "(if action \<in> set b1Actions
      then b1Decision env ctx (mv_role (member_of row)) action resource options (Some (member_of row))
      else a2Decision env ctx (mv_role (member_of row)) action resource options) s2 = Inr (de, t)"
proof -
  obtain policies s1 where asked: "ask_for_share env True (active_policies ctx) policy_locks s = Inr (policies, s1)" and
    rest: "(if policies = [] then denied ctx ''policy_version_not_active''
       ''SecurityContext policy version is not active for the current tenant and workspace''
     else if given (sx_servicePrincipalId ctx) \<or> given (sx_agentPrincipalId ctx)
     then denied ctx ''principal_default_denied'' ''Service and agent principals have no A2 allow rules''
     else op_bind (loadActiveMembership env ctx (ao_lockAuthority options)) (\<lambda>found.
       case found of
         None \<Rightarrow> denied ctx ''membership_not_active'' ''No active membership matches the current context''
       | Some membership \<Rightarrow>
           if \<not> membership_active membership
           then denied ctx ''principal_not_active'' ''User or membership is not active''
           else if action \<in> set b1Actions
           then b1Decision env ctx (mv_role membership) action resource options (Some membership)
           else a2Decision env ctx (mv_role membership) action resource options)) s1 = Inr (de, t)"
    using run by (auto simp: person_decision_def op_bind_Inr loadActivePolicyVersion_Inr)
  obtain p more where p: "policies = p # more" using rest yes(1) by (cases policies) (auto dest: never_allowed)
  have held: "later s s1 \<and> se_discovery s1 = se_discovery s \<and> secured env s1 (\<lambda>d. p \<in> set (active_policies ctx d))"
    by (rule policies.stays[OF asked]) (simp_all add: p)
  have human: "\<not> given (sx_servicePrincipalId ctx)" "\<not> given (sx_agentPrincipalId ctx)"
    using rest p yes(1) by (auto dest: never_allowed split: if_splits)
  obtain rows s2 where members: "ask_for_share env True (memberships_of ctx) membership_locks s1 = Inr (rows, s2)" and
    rest2: "(case map_option member_of (first_row rows) of
         None \<Rightarrow> denied ctx ''membership_not_active'' ''No active membership matches the current context''
       | Some membership \<Rightarrow>
           if \<not> membership_active membership
           then denied ctx ''principal_not_active'' ''User or membership is not active''
           else if action \<in> set b1Actions
           then b1Decision env ctx (mv_role membership) action resource options (Some membership)
           else a2Decision env ctx (mv_role membership) action resource options) s2 = Inr (de, t)"
    using rest p human yes(2) by (auto simp: loadActiveMembership_def op_bind_Inr op_return_Inr)
  obtain row others where row: "rows = row # others" using rest2 yes(1) by (cases rows) (auto simp: first_row_def dest: never_allowed)
  have member: "later s1 s2 \<and> se_discovery s2 = se_discovery s1 \<and> secured env s2 (\<lambda>d. row \<in> set (memberships_of ctx d))"
    by (rule memberships.stays[OF members]) (simp_all add: row)
  have active: "membership_active (member_of row)" and rest3: "(if action \<in> set b1Actions
      then b1Decision env ctx (mv_role (member_of row)) action resource options (Some (member_of row))
      else a2Decision env ctx (mv_role (member_of row)) action resource options) s2 = Inr (de, t)"
    using rest2 row yes(1) by (auto simp: first_row_def dest: never_allowed split: if_splits)
  have "secured env s1 (\<lambda>d. active_policies ctx d \<noteq> [])" using held by (auto elim!: secured_mono)
  then have "secured env s2 (\<lambda>d. active_policies ctx d \<noteq> [] \<and> row \<in> set (memberships_of ctx d))"
    using secured_conj[OF secured_later] member by blast
  moreover have "later s s2" using held member later_trans by blast
  ultimately show thesis using that[OF human _ _ _ active rest3] held member none by simp
qed

lemma truth_mutation_person:
  assumes "truth_mutation action"
  shows "decideInTransaction env ctx action resource options = person_decision env ctx action resource options"
    "action \<in> set b1Actions"
    "b1Decision env ctx role action resource options m = truthMutationDecision env ctx role action resource options m"
  using assms by (auto simp: truth_mutation_def decideInTransaction_def b1Actions_def b1Decision_def)

lemma decided_truth:
  assumes run: "canInTransaction env inputContext action resource options s = Inr (de, t)"
    and yes: "de_allowed de" "ao_lockAuthority options = True" and none: "se_discovery s = None" and ok: "history_ok env"
    and action: "truth_mutation action"
  shows "\<exists>ctx. checked_context env inputContext = Inr ctx \<and> later s t \<and> \<not> given (sx_servicePrincipalId ctx) \<and>
    \<not> given (sx_agentPrincipalId ctx) \<and>
    secured env t (\<lambda>d. truth_permitted ctx d action resource (ao_factLifecycleReplay options))"
proof -
  obtain ctx where ctx: "checked_context env inputContext = Inr ctx"
    using run yes(1) by (auto simp: canInTransaction_def checked_context_def parseContextForDecision_def op_return_def
        split: option.splits if_splits)
  then have "person_decision env ctx action resource options s = Inr (de, t)"
    using run by (simp add: canInTransaction_def truth_mutation_person(1)[OF action])
  then obtain row s2 where human: "\<not> given (sx_servicePrincipalId ctx)" "\<not> given (sx_agentPrincipalId ctx)"
    and s2: "later s s2" "se_discovery s2 = None"
    and held: "secured env s2 (\<lambda>d. active_policies ctx d \<noteq> [] \<and> row \<in> set (memberships_of ctx d))"
    and decided: "(if action \<in> set b1Actions
      then b1Decision env ctx (mv_role (member_of row)) action resource options (Some (member_of row))
      else a2Decision env ctx (mv_role (member_of row)) action resource options) s2 = Inr (de, t)"
    by (rule person_allowed[OF _ yes none])
  obtain actor where actor: "exactHumanAuthorityActor ctx (Some (member_of row)) = Some actor"
    "sx_actorDisplayPersonId ctx = Some (ac_personId actor)" and t: "later s2 t" and
    may: "secured env t (\<lambda>d. may_change_truth ctx d actor action resource (ao_factLifecycleReplay options))"
    by (rule mutation_secured[OF _ refl yes s2(2) ok])
       (use decided in \<open>simp_all add: truth_mutation_person(2,3)[OF action]\<close>)
  have "secured env t (\<lambda>d. truth_permitted ctx d action resource (ao_factLifecycleReplay options))"
    by (rule secured_mono[OF secured_conj[OF secured_later[OF held t] may]])
       (use actor in \<open>auto simp: truth_permitted_def current_actor_def\<close>)
  then show ?thesis using ctx human later_trans[OF s2(1) t] by blast
qed

text \<open>C17: A positive decision with locks about proposing a claim, deciding on a proposal, accepting a fact or ending
  one is given to a person only, and it makes the policy for that action hold in every snapshot until the
  transaction ends: the policy version and the membership active, the space readable, the data class within the
  ceiling, and the actor the contributor, proposer or owner that the action asks for.\<close>
theorem truth_decision_stays:
  assumes "canInTransaction env inputContext action resource options s = Inr (de, t)" "de_allowed de"
    and "ao_lockAuthority options" "se_discovery s = None" "history_ok env" "truth_mutation action"
  shows "\<exists>ctx. checked_context env inputContext = Inr ctx \<and> \<not> given (sx_servicePrincipalId ctx) \<and>
    \<not> given (sx_agentPrincipalId ctx) \<and>
    secured env t (\<lambda>d. truth_permitted ctx d action resource (ao_factLifecycleReplay options))"
  using decided_truth[OF assms(1,2) _ assms(4-6)] assms(3) by auto

end
