(* ===== verification/Quiet_Decisions.thy ===== *)
theory Quiet_Decisions
  imports Authority_Promises
begin

text \<open>
  What the decisions answer when nothing else changes the database: then every statement sees the same
  snapshot, a decision always returns, and it is positive exactly when the policy permits it, with
  locks and without.
\<close>

section \<open>Answers\<close>

definition undisturbed :: "auth_env \<Rightarrow> directory \<Rightarrow> bool" where
  "undisturbed env d \<longleftrightarrow> (\<forall>k. av_history env k = Inr d)"

text \<open>Outside a batch, the operation returns \<open>a\<close> from every session.\<close>

definition answers :: "'a asks \<Rightarrow> 'a \<Rightarrow> bool" where
  "answers m a \<longleftrightarrow> (\<forall>s. se_discovery s = None \<longrightarrow> (\<exists>t. m s = Inr (a, t) \<and> se_discovery t = None))"

named_theorems answering \<open>what an operation answers\<close>

lemma answers_return [answering]: "answers (op_return a) a"
  by (simp add: answers_def op_return_def)

lemma answers_bind: "answers m a \<Longrightarrow> answers (f a) b \<Longrightarrow> answers (op_bind m f) b"
  unfolding answers_def op_bind_def by (metis case_prod_conv old.sum.simps(6))

lemma answers_unique: "answers m a \<Longrightarrow> m s = Inr (b, t) \<Longrightarrow> se_discovery s = None \<Longrightarrow> b = a"
  unfolding answers_def by (metis Inr_inject fst_conv)

lemma answers_no_discovery [answering]: "answers (op_read se_discovery) None"
  by (simp add: answers_def op_read_def)

lemma answers_discover [answering]: "answers (discover change) ()"
  by (simp add: answers_def discover_def op_modify_def)

lemma answers_consistent [answering]: "answers discovered_inconsistent False"
  by (simp add: answers_def discovered_inconsistent_def op_read_def)

lemma answers_locking: "undisturbed env d \<Longrightarrow> q d = Some a \<Longrightarrow> answers (ask_locking env q locks) a"
  by (simp add: answers_def ask_locking_def undisturbed_def)

lemma answers_ask: "undisturbed env d \<Longrightarrow> answers (ask env q) (q d)"
  by (simp add: ask_def answers_locking)

lemma answers_for_share: "undisturbed env d \<Longrightarrow> answers (ask_for_share env b q locks) (q d)"
  by (simp add: ask_for_share_def answers_locking)

lemma answers_if: "(P \<Longrightarrow> answers m a) \<Longrightarrow> (\<not> P \<Longrightarrow> answers n b) \<Longrightarrow> answers (if P then m else n) (if P then a else b)"
  by simp

section \<open>The chain, to its end\<close>

lemma levels_maximal:
  assumes "\<And>x. x \<in> S \<Longrightarrow> length (f x) \<le> 1 \<and> set (f x) \<subseteq> S" "x \<in> S" "levels n f [x] = Some ls"
  shows "\<exists>path. ls = map (\<lambda>y. [y]) (x # path) \<and> successively (\<lambda>a b. b \<in> set (f a)) (x # path) \<and>
    f (last (x # path)) = []"
  using assms(2,3)
proof (induction n arbitrary: x ls)
  case (Suc n)
  obtain ls' where ls: "levels n f (f x) = Some ls'" "ls = [x] # ls'" using Suc.prems(2) by auto
  show ?case
  proof (cases "f x")
    case Nil
    then show ?thesis using ls by (intro exI[of _ "[]"]) simp
  next
    case (Cons y ys)
    then have y: "f x = [y]" "y \<in> S" using assms(1)[OF Suc.prems(1)] by (auto simp: le_Suc_eq)
    from Suc.IH[OF y(2)] ls(1) obtain path where "ls' = map (\<lambda>y. [y]) (y # path)"
      "successively (\<lambda>a b. b \<in> set (f a)) (y # path)" "f (last (y # path)) = []"
      unfolding y(1) by blast
    then show ?thesis using ls(2) y by (intro exI[of _ "y # path"]) simp
  qed
qed simp

lemma descending_distinct: "sorted_wrt (\<lambda>a b. (h (f b) :: nat) < h (f a)) xs \<Longrightarrow> distinct (map f xs)"
  by (induction xs) (fastforce)+

lemma chain_to_root:
  assumes "directory_ok d" "acyclic_spaces d" "sp \<in> set (spaces_named ctx i d)"
  obtains path where "ancestors ctx i d = Some (map (\<lambda>y. [y]) path)" "path \<noteq> []" "path ! 0 = sp"
    "successively (next_space ctx d) path" "parents ctx d (last path) = []" "distinct (map asp_id path)"
    "set path \<subseteq> set (live_spaces ctx d)"
proof -
  obtain ls where ls: "ancestors ctx i d = Some ls" using ancestors_total[OF assms(1,2), of ctx i] by auto
  have sp: "sp \<in> set (live_spaces ctx d)" using assms(3) by (simp add: mem_spaces_named)
  have "levels (length (dr_spaces d)) (parents ctx d) [sp] = Some ls"
    using ls spaces_named_one[OF assms(1,3)] by (simp add: ancestors_def)
  from levels_maximal[OF parents_one[OF assms(1)] sp this] obtain rest where
    path: "ls = map (\<lambda>y. [y]) (sp # rest)" "successively (next_space ctx d) (sp # rest)" "parents ctx d (last (sp # rest)) = []"
    by (auto simp: mem_parents)
  have live: "set (sp # rest) \<subseteq> set (live_spaces ctx d)"
  proof
    fix x assume "x \<in> set (sp # rest)"
    then obtain j where j: "j < length (sp # rest)" "x = (sp # rest) ! j" by (auto simp only: in_set_conv_nth)
    show "x \<in> set (live_spaces ctx d)" using j sp path(2)
      by (cases j) (auto simp: successively_conv_nth next_space_def)
  qed
  obtain height :: "jstr \<Rightarrow> nat" where height: "\<forall>sp\<in>set (dr_spaces d). \<forall>p\<in>set (dr_spaces d).
      asp_parent_space_id sp = Some (asp_id p) \<longrightarrow> height (asp_id p) < height (asp_id sp)"
    using assms(2) unfolding acyclic_spaces_def by blast
  have "height (asp_id b) < height (asp_id a)" if "a \<in> set (sp # rest)" "next_space ctx d a b" for a b
    using that live height by (auto simp: next_space_def mem_live_spaces)
  then have "successively (\<lambda>a b. height (asp_id b) < height (asp_id a)) (sp # rest)"
    by (intro successively_mono[OF path(2)])
  then have "sorted_wrt (\<lambda>a b. height (asp_id b) < height (asp_id a)) (sp # rest)"
    by (subst (asm) successively_conv_sorted_wrt) (auto intro: transpI)
  then have "distinct (map asp_id (sp # rest))" by (rule descending_distinct)
  then show thesis using that[of "sp # rest"] ls path live by simp
qed

lemma inherits_chain:
  assumes "directory_ok d" "successively (next_space ctx d) path" "path \<noteq> []" "parents ctx d (last path) = []"
    and "inherits ctx d (path ! 0) a"
  shows "\<exists>k. 0 < k \<and> k < length path \<and> path ! k = a \<and> (\<forall>i<k. \<not> restricted_space (path ! i))"
  using assms(5)
proof induction
  have step: "Suc k < length path \<and> path ! Suc k = p" if "k < length path" "next_space ctx d (path ! k) p" for k p
  proof -
    have p: "p \<in> set (parents ctx d (path ! k))" using that(2) by (simp add: mem_parents)
    then have k: "Suc k < length path"
      using that(1) assms(3,4) by (cases "Suc k = length path") (auto simp: last_conv_nth diff_Suc_1 dest!: sym[of "Suc k"])
    then have "path ! Suc k \<in> set (parents ctx d (path ! k))"
      using assms(2) by (simp add: successively_conv_nth mem_parents)
    then show ?thesis using k p parents_one[OF assms(1), of ctx "path ! k"]
      by (cases "parents ctx d (path ! k)") (auto simp: le_Suc_eq)
  qed
  {
    case (parent p)
    then show ?case using step[of 0 p] assms(3) by (intro exI[of _ 1]) auto
  next
    case (above p q)
    then obtain k where k: "0 < k" "k < length path" "path ! k = p" "\<forall>i<k. \<not> restricted_space (path ! i)" by blast
    then show ?case using step[of k q] above by (intro exI[of _ "Suc k"]) (auto simp: less_Suc_eq)
  }
qed

section \<open>The inherited grants\<close>

lemma inherited_at_chain:
  assumes "k < length path"
  shows "set (inherited_at ctx d (map (\<lambda>y. [y]) path) k) = {g \<in> set (dr_grants d).
    (\<forall>i<k. \<not> restricted_space (path ! i)) \<and> ag_resource_id g = asp_id (path ! k) \<and> reads_for_actor ctx g}"
proof -
  have "(\<exists>x\<in>set (take k path). restricted_space x) \<longleftrightarrow> (\<exists>i<k. restricted_space (path ! i))"
    using assms by (force simp: in_set_conv_nth)
  then show ?thesis using assms by (auto simp: inherited_at_def take_map list_ex_iff)
qed

lemma inherited_grants_chain:
  "set (inherited_grants ctx d (map (\<lambda>y. [y]) path)) = {g \<in> set (dr_grants d). \<exists>k. 0 < k \<and> k < length path \<and>
    (\<forall>i<k. \<not> restricted_space (path ! i)) \<and> ag_resource_id g = asp_id (path ! k) \<and> reads_for_actor ctx g}"
  by (auto simp: inherited_grants_def inherited_at_chain Suc_le_eq)

lemma grants_actor_reads: "reads_for_actor ctx g = grants_actor ctx g"
  by (simp add: reads_for_actor_def)

text \<open>The grants found on the ancestors are there exactly when the policy lets the actor inherit one.\<close>

lemma inherited_grants_iff:
  assumes "directory_ok d" "acyclic_spaces d" "sp \<in> set (spaces_named ctx i d)" "ancestors ctx i d = Some ls"
  shows "inherited_grants ctx d ls \<noteq> [] \<longleftrightarrow> (\<exists>a. inherits ctx d sp a \<and> granted ctx d a)"
proof -
  obtain path where path: "ls = map (\<lambda>y. [y]) path" "path \<noteq> []" "path ! 0 = sp" "successively (next_space ctx d) path"
      "parents ctx d (last path) = []"
    using chain_to_root[OF assms(1-3)] assms(4) by (metis option.inject)
  have "inherited_grants ctx d ls \<noteq> [] \<longleftrightarrow> (\<exists>k. 0 < k \<and> k < length path \<and> (\<forall>i<k. \<not> restricted_space (path ! i)) \<and>
      granted ctx d (path ! k))"
    unfolding path(1) set_empty[symmetric] inherited_grants_chain by (auto simp: granted_def grants_actor_reads)
  also have "\<dots> \<longleftrightarrow> (\<exists>a. inherits ctx d sp a \<and> granted ctx d a)"
    using inherits_chain[OF assms(1) path(4,2,5)] chain_inherits[OF path(4)] path(3) by metis
  finally show ?thesis .
qed

text \<open>The path to such a grant is the prefix of the chain up to it.\<close>

lemma inherited_path_chain:
  assumes "distinct (map asp_id path)" "0 < k" "k < length path" "\<forall>i<k. \<not> restricted_space (path ! i)"
    and "asp_id (path ! k) = g"
  shows "inherited_path g (map (\<lambda>(i, sp). (i, view_of_space sp)) (enumerate 0 path)) =
    Some (take (Suc k) (map (\<lambda>(i, sp). (i, view_of_space sp)) (enumerate 0 path)))"
proof -
  let ?rows = "map (\<lambda>(i, sp). (i, view_of_space sp)) (enumerate 0 path)"
  have row: "?rows ! i = (i, view_of_space (path ! i))" if "i < length path" for i
    using that by (simp add: nth_enumerate_eq)
  have other: "asp_id (path ! i) \<noteq> g" if "i < k" for i
    using that assms(3,5) nth_eq_iff_index_eq[OF assms(1), of i k] by auto
  have "takeWhile (\<lambda>row. vw_id (snd row) \<noteq> g) ?rows = take k ?rows"
    by (rule takeWhile_eq_take_P_nth) (use other row assms(3,5) in \<open>auto simp: view_of_space_def\<close>)
  then have "length (takeWhile (\<lambda>row. vw_id (snd row) \<noteq> g) ?rows) = k" using assms(3) by simp
  moreover have "butlast (take (Suc k) ?rows) = take k ?rows" using assms(3) by (simp add: butlast_take)
  moreover have "\<not> list_ex (\<lambda>row. vw_inheritance_mode (snd row) = RestrictedInheritance) (take k ?rows)"
    using assms(3,4) row by (auto simp: list_ex_length restricted_space_def view_of_space_def)
  ultimately show ?thesis using assms(2,3) by (simp add: inherited_path_def Let_def)
qed

section \<open>Reading a space\<close>

lemma answers_load_path:
  "undisturbed env d \<Longrightarrow> ancestors ctx i d = Some ls \<Longrightarrow>
     answers (loadInheritedAuthorityPath env ctx i g) (inherited_path g (path_rows ls))"
  unfolding loadInheritedAuthorityPath_def
  by (rule answers_bind[OF answers_locking answers_return]) auto

lemma answers_confirm:
  assumes "undisturbed env d" "directory_ok d" "x \<in> set (live_spaces ctx d)" "g \<in> set (dr_grants d)"
    and "ag_resource_id g = asp_id x" "grants_actor ctx g"
  shows "\<exists>token. answers (lockOrConfirmSpaceGrant env ctx (ag_id g) (ag_resource_id g) lock) (Some token)"
proof (cases lock)
  case True
  obtain y where y: "y \<in> set (dr_spaces d)" "asp_id y = ag_resource_id g" "asp_tenant_id y = ag_tenant_id g"
      "asp_workspace_id y = ag_workspace_id g" and id: "uuid_column (ag_id g) = ag_id g"
    using assms(2,4) unfolding directory_ok_def by metis
  have "x \<in> set (dr_spaces d)" "live_space ctx x" "uuid_column (asp_id x) = asp_id x"
    using assms(2,3) by (auto simp: mem_live_spaces directory_ok_def)
  moreover from this have "y = x" using y assms(2,5) by (auto simp: directory_ok_def distinct_map inj_on_def)
  ultimately have "g \<in> set (grant_rows ctx (ag_id g) (ag_resource_id g) d)"
    using assms(4-6) y(3,4) id by (auto simp: grant_rows_def grants_actor_reads grant_in_scope_def live_space_def)
  then obtain r rest where "grant_rows ctx (ag_id g) (ag_resource_id g) d = r # rest" by (cases "grant_rows ctx (ag_id g) (ag_resource_id g) d") auto
  then have "answers (ask_for_share env True (grant_rows ctx (ag_id g) (ag_resource_id g)) grant_locks) (r # rest)"
    using answers_for_share[OF assms(1)] by metis
  then have "answers (lockOrConfirmSpaceGrant env ctx (ag_id g) (ag_resource_id g) True)
      (Some (spaceGrantToken (ag_id r) (ag_resource_id r)))"
    unfolding lockOrConfirmSpaceGrant_def
    by simp (rule answers_bind, assumption, simp add: first_row_def answers_return)
  then show ?thesis using True by auto
qed (auto simp: lockOrConfirmSpaceGrant_def intro: answers_return)

lemma locked_path_count:
  assumes "directory_ok d" "distinct (map asp_id path)" "set path \<subseteq> set (live_spaces ctx d)"
  shows "length (lock_path_spaces ctx (map asp_id path) d) = length path"
    "card (set (map asp_id (lock_path_spaces ctx (map asp_id path) d))) = length path"
proof -
  let ?found = "filter (\<lambda>sp. asp_id sp \<in> asp_id ` set path) (live_spaces ctx d)"
  have "map uuid_column (map asp_id path) = map asp_id path"
    using assms(1,3) by (auto simp: directory_ok_def mem_live_spaces)
  then have rows: "lock_path_spaces ctx (map asp_id path) d = sort_key asp_id ?found"
    unfolding lock_path_spaces_def by (simp only: set_map)
  have ids: "asp_id ` set ?found = asp_id ` set path" using assms(3) by auto
  have "distinct (map asp_id ?found)" using live_distinct[OF assms(1)] by (simp add: distinct_map_filter)
  then have "length ?found = card (asp_id ` set ?found)" by (metis distinct_card length_map set_map)
  moreover have "length path = card (asp_id ` set path)" using assms(2) by (metis distinct_card length_map set_map)
  ultimately show "length (lock_path_spaces ctx (map asp_id path) d) = length path"
      "card (set (map asp_id (lock_path_spaces ctx (map asp_id path) d))) = length path"
    using ids by (simp_all add: rows)
qed

lemma answers_inherited:
  assumes q: "undisturbed env d" "directory_ok d" "acyclic_spaces d" and sp: "sp \<in> set (spaces_named ctx i d)"
    and ls: "ancestors ctx i d = Some ls" and g: "g \<in> set (inherited_grants ctx d ls)"
  shows "\<exists>token. answers (lockOrConfirmInheritedSpaceGrant env ctx i (ag_id g) (ag_resource_id g)) (Some token)"
proof -
  obtain path where path: "ls = map (\<lambda>y. [y]) path" "distinct (map asp_id path)" "set path \<subseteq> set (live_spaces ctx d)"
    using chain_to_root[OF q(2,3) sp] ls by (metis option.inject)
  obtain k where k: "0 < k" "k < length path" "\<forall>i<k. \<not> restricted_space (path ! i)"
      "ag_resource_id g = asp_id (path ! k)" "reads_for_actor ctx g" "g \<in> set (dr_grants d)"
    using g by (auto simp: path(1) inherited_grants_chain)
  let ?rows = "map (\<lambda>(i, sp). (i, view_of_space sp)) (enumerate 0 path)"
  let ?ids = "map (\<lambda>row. vw_id (snd row)) (take (Suc k) ?rows)"
  have "map (\<lambda>row. vw_id (snd row)) (map (\<lambda>(i, sp). (i, view_of_space sp)) (enumerate n xs)) = map asp_id xs" for n xs
    by (induction xs arbitrary: n) (simp_all add: view_of_space_def)
  then have ids: "?ids = map asp_id (take (Suc k) path)" by (simp only: take_map[symmetric])
  have load: "answers (loadInheritedAuthorityPath env ctx i (ag_resource_id g)) (Some (take (Suc k) ?rows))"
    using answers_load_path[OF q(1) ls, of "ag_resource_id g"]
    unfolding path(1) path_rows_chain inherited_path_chain[OF path(2) k(1-3) k(4)[symmetric]] .
  have "set (take (Suc k) path) \<subseteq> set (live_spaces ctx d)" using path(3) set_take_subset[of "Suc k" path] by blast
  from locked_path_count[OF q(2) _ this] have count: "length (lock_path_spaces ctx ?ids d) = length ?ids"
      "card (set (map asp_id (lock_path_spaces ctx ?ids d))) = length ?ids"
    using path(2) unfolding ids by (simp_all flip: take_map)
  have same: "same_path (take (Suc k) ?rows) (take (Suc k) ?rows)"
    by (auto simp: same_path_def list_all_length)
  have "path ! k \<in> set (live_spaces ctx d)" using path(3) k(2) by auto
  then obtain token where confirm: "answers (lockOrConfirmSpaceGrant env ctx (ag_id g) (ag_resource_id g) True) (Some token)"
    using answers_confirm[OF q(1,2) _ k(6,4)] k(5) by (auto simp: grants_actor_reads)
  have "answers (lockOrConfirmInheritedSpaceGrant env ctx i (ag_id g) (ag_resource_id g)) (Some token)"
    unfolding lockOrConfirmInheritedSpaceGrant_def
  proof (rule answers_bind[OF load], unfold option.case Let_def, rule answers_bind[OF answers_for_share[OF q(1)]])
    show "answers (if length (lock_path_spaces ctx ?ids d) \<noteq> length ?ids \<or>
        card (set (map asp_id (lock_path_spaces ctx ?ids d))) \<noteq> length ?ids then op_return None
      else op_bind (loadInheritedAuthorityPath env ctx i (ag_resource_id g)) (\<lambda>again. case again of None \<Rightarrow> op_return None
        | Some currentPath \<Rightarrow> if \<not> same_path currentPath (take (Suc k) ?rows) then op_return None
          else lockOrConfirmSpaceGrant env ctx (ag_id g) (ag_resource_id g) True)) (Some token)"
      unfolding count by simp (rule answers_bind[OF load], simp add: same confirm)
  qed
  then show ?thesis by blast
qed

lemma inherits_unrestricted: "inherits ctx d sp a \<Longrightarrow> \<not> restricted_space sp"
  by (induction rule: inherits.induct)

lemma readable_simps [simp]:
  "rd_allowed (readable_because reason tokens)" "\<not> rd_allowed (unreadable reason explanation)"
  "\<not> rd_allowed space_not_found"
  by (simp_all add: readable_because_def unreadable_def space_not_found_def)

lemma answers_direct_token:
  assumes "undisturbed env d" "directory_ok d" "sp \<in> set (spaces_named ctx i d)"
  obtains token where "answers (direct_token env ctx lock (direct_grants ctx i d)) token"
    "token \<noteq> None \<longleftrightarrow> granted ctx d sp"
proof (cases "direct_grants ctx i d")
  case Nil
  then have "set (direct_grants ctx i d) = {}" by simp
  then have "\<not> granted ctx d sp" using assms(3)
    by (auto simp: granted_def direct_grants_def mem_spaces_named grants_actor_reads simp del: set_empty set_empty2)
  then show thesis using that[of None] by (simp add: Nil direct_token_def answers_return)
next
  case (Cons g rest)
  then have "g \<in> set (direct_grants ctx i d)" by simp
  then have g: "g \<in> set (dr_grants d)" "ag_resource_id g = asp_id sp" "grants_actor ctx g"
    using assms(3) by (auto simp: direct_grants_def grants_actor_reads mem_spaces_named)
  obtain token where "answers (lockOrConfirmSpaceGrant env ctx (ag_id g) (ag_resource_id g) lock) (Some token)"
    using answers_confirm[OF assms(1,2) _ g] assms(3) by (auto simp: mem_spaces_named)
  then have "answers (direct_token env ctx lock (direct_grants ctx i d)) (Some token)"
    unfolding Cons direct_token_def by simp (rule answers_bind[OF answers_no_discovery], simp)
  then show thesis using that g by (auto simp: granted_def)
qed

lemma answers_inherited_token:
  assumes q: "undisturbed env d" "directory_ok d" "acyclic_spaces d" and sp: "sp \<in> set (spaces_named ctx i d)"
    and ls: "ancestors ctx i d = Some ls"
    and found: "xa_target_restricted found = restricted_space sp" "xa_inherited_grants found = inherited_grants ctx d ls"
  obtains token where "answers (inherited_token env ctx i lock found) token"
    "token \<noteq> None \<longleftrightarrow> (\<exists>a. inherits ctx d sp a \<and> granted ctx d a)"
proof (cases "restricted_space sp")
  case True
  then show thesis using that[of None] inherits_unrestricted
    by (auto simp: inherited_token_def found answers_return)
next
  case False
  note iff = inherited_grants_iff[OF q(2,3) sp ls]
  show thesis
  proof (cases "inherited_grants ctx d ls")
    case Nil
    then show thesis using that[of None] iff by (auto simp: inherited_token_def found answers_return)
  next
    case (Cons g rest)
    obtain token where lock: "answers (lockOrConfirmInheritedSpaceGrant env ctx i (ag_id g) (ag_resource_id g)) (Some token)"
      using answers_inherited[OF q sp ls, of g] Cons by auto
    have "answers (inherited_token env ctx i lock found)
        (Some (if lock then token else spaceGrantToken (ag_id g) (ag_resource_id g)))"
      unfolding inherited_token_def found Cons using False lock
      by (cases lock; simp; intro answers_bind[OF answers_no_discovery]; simp add: answers_return)
    then show thesis using that iff Cons by auto
  qed
qed

lemma unnamed_space: "spaces_named ctx i d = [] \<Longrightarrow> \<not> may_read ctx d role i"
  by (auto simp: may_read_def spaces_named_def filter_empty_conv)

lemma answers_member_reads:
  assumes q: "undisturbed env d" "directory_ok d" "acyclic_spaces d" and role: "\<not> workspace_authority role"
  obtains r where "answers (member_reads env ctx i lock) r" "rd_allowed r \<longleftrightarrow> may_read ctx d role i"
proof (cases "spaces_named ctx i d")
  case Nil
  then have access: "space_access_of ctx i d = Some None" by (simp add: space_access_of_def)
  have "answers (member_reads env ctx i lock) space_not_found"
    unfolding member_reads_def by (rule answers_bind, rule answers_locking[OF q(1)], rule access, simp add: answers_return)
  moreover have "\<not> may_read ctx d role i" using Nil by (rule unnamed_space)
  ultimately show thesis using that by simp
next
  case (Cons sp rest)
  then have sp: "sp \<in> set (spaces_named ctx i d)" by simp
  note one = spaces_named_one[OF q(2) sp]
  obtain ls where ls: "ancestors ctx i d = Some ls" using ancestors_total[OF q(2,3), of ctx i] by auto
  define found where "found = \<lparr>xa_is_root = (asp_kind sp = RootSpace), xa_target_restricted = restricted_space sp,
     xa_direct_grants = direct_grants ctx i d, xa_inherited_grants = inherited_grants ctx d ls\<rparr>"
  have access: "space_access_of ctx i d = Some (Some found)" by (simp add: space_access_of_def one ls found_def)
  have only: "x = sp" if "x \<in> set (live_spaces ctx d)" "asp_id x = uuid_column i" for x
    using that one mem_spaces_named[of x ctx i d] by simp
  have may: "may_read ctx d role i \<longleftrightarrow> asp_kind sp = RootSpace \<or> granted ctx d sp \<or> (\<exists>a. inherits ctx d sp a \<and> granted ctx d a)"
    using sp only role unfolding may_read_def mem_spaces_named by blast
  obtain direct where direct: "answers (direct_token env ctx lock (direct_grants ctx i d)) direct"
      "direct \<noteq> None \<longleftrightarrow> granted ctx d sp"
    by (rule answers_direct_token[OF q(1,2) sp])
  obtain inherited where inherited: "answers (inherited_token env ctx i lock found) inherited"
      "inherited \<noteq> None \<longleftrightarrow> (\<exists>a. inherits ctx d sp a \<and> granted ctx d a)"
    by (rule answers_inherited_token[OF q sp ls, of found]) (simp_all add: found_def)
  define r where "r = (if asp_kind sp = RootSpace then readable_because ''workspace_root_read'' []
    else case direct of Some t \<Rightarrow> readable_because ''direct_space_grant'' [t]
      | None \<Rightarrow> (case inherited of Some t \<Rightarrow> readable_because ''inherited_space_grant'' [t]
        | None \<Rightarrow> unreadable ''space_access_denied'' ''No current Space grant authorizes this action''))"
  have "answers (member_reads env ctx i lock) r"
    unfolding member_reads_def
  proof (rule answers_bind, rule answers_locking[OF q(1)], rule access, unfold option.case)
    show "answers (if xa_is_root found then op_return (readable_because ''workspace_root_read'' [])
      else op_bind (direct_token env ctx lock (xa_direct_grants found)) (\<lambda>direct.
        case direct of Some t \<Rightarrow> op_return (readable_because ''direct_space_grant'' [t])
        | None \<Rightarrow> op_bind (inherited_token env ctx i lock found) (\<lambda>inherited.
            op_return (case inherited of Some t \<Rightarrow> readable_because ''inherited_space_grant'' [t]
              | None \<Rightarrow> unreadable ''space_access_denied'' ''No current Space grant authorizes this action'')))) r"
    proof (cases "asp_kind sp = RootSpace")
      case True
      then show ?thesis by (simp add: found_def r_def answers_return)
    next
      case False
      then have root: "xa_is_root found = False" by (simp add: found_def)
      have token: "answers (direct_token env ctx lock (xa_direct_grants found)) direct" using direct(1) by (simp add: found_def)
      have "answers (case direct of Some t \<Rightarrow> op_return (readable_because ''direct_space_grant'' [t])
        | None \<Rightarrow> op_bind (inherited_token env ctx i lock found) (\<lambda>inherited.
            op_return (case inherited of Some t \<Rightarrow> readable_because ''inherited_space_grant'' [t]
              | None \<Rightarrow> unreadable ''space_access_denied'' ''No current Space grant authorizes this action''))) r"
        using False by (cases direct) (simp_all add: r_def answers_return answers_bind[OF inherited(1)])
      then show ?thesis unfolding root if_False by (rule answers_bind[OF token])
    qed
  qed
  moreover have "rd_allowed r \<longleftrightarrow> may_read ctx d role i"
    using direct(2) inherited(2) unfolding may r_def by (cases direct; cases inherited) auto
  ultimately show thesis by (rule that)
qed

lemma answers_can_read:
  assumes q: "undisturbed env d" "directory_ok d" "acyclic_spaces d" and i: "uuid_column i = i"
  obtains r where "answers (canReadSpaceResource env ctx i role None lock) r" "rd_allowed r \<longleftrightarrow> may_read ctx d role i"
proof -
  have target: "answers (read_target env ctx i) (Inr None)"
    unfolding read_target_def by (rule answers_bind[OF answers_no_discovery]) (simp add: answers_return)
  let ?locked = "if lock then (case spaces_named ctx i d of [] \<Rightarrow> Inl space_not_found | row # _ \<Rightarrow> Inr (Some (asp_id row)))
    else Inr None"
  have locked: "answers (lock_target env ctx i None lock) ?locked"
    by (cases lock) (auto simp: lock_target_def answers_return intro: answers_bind[OF answers_for_share[OF q(1)]])
  have start: "answers (canReadSpaceResource env ctx i role None lock) r" if "answers (case ?locked of Inl no \<Rightarrow> op_return no
      | Inr lockedTarget \<Rightarrow> if workspace_authority role then administrator_reads env ctx i None lockedTarget
        else member_reads env ctx i lock) r" for r
    unfolding canReadSpaceResource_def
    by (rule answers_bind[OF target], unfold sum.case, rule answers_bind[OF locked], rule that)
  show thesis
  proof (cases "lock \<and> spaces_named ctx i d = []")
    case True
    then have "answers (canReadSpaceResource env ctx i role None lock) space_not_found"
      by (intro start) (simp add: answers_return)
    then show thesis by (rule that) (use True unnamed_space in auto)
  next
    case False
    then obtain target where target: "?locked = Inr target" "lock \<Longrightarrow> \<exists>sp\<in>set (spaces_named ctx i d). target = Some (asp_id sp)"
        "\<not> lock \<Longrightarrow> target = None"
      by (cases lock; cases "spaces_named ctx i d") (use False in auto)
    show thesis
    proof (cases "workspace_authority role")
      case admin: True
      let ?r = "if spaces_named ctx i d \<noteq> [] then readable_because ''workspace_admin_space_read'' [] else space_not_found"
      have "answers (administrator_reads env ctx i None target) ?r"
      proof (cases lock)
        case True
        then obtain sp where sp: "sp \<in> set (spaces_named ctx i d)" "target = Some (asp_id sp)" using target(2) by blast
        have "asp_id sp = i" using sp(1) i by (simp add: mem_spaces_named)
        moreover have "spaces_named ctx i d \<noteq> []" using sp(1) by (metis empty_iff list.set(1))
        ultimately show ?thesis using sp(2) by (simp add: administrator_reads_def Let_def answers_return)
      next
        case False
        then have "target = None" by (rule target(3))
        then show ?thesis unfolding administrator_reads_def Let_def
          by (simp split del: if_split) (rule answers_bind[OF answers_ask[OF q(1)]], rule answers_return)
      qed
      then have "answers (canReadSpaceResource env ctx i role None lock) ?r"
        by (intro start) (simp add: target(1) admin)
      moreover have "rd_allowed ?r \<longleftrightarrow> may_read ctx d role i"
      proof (cases "spaces_named ctx i d")
        case (Cons sp rest)
        then have "sp \<in> set (live_spaces ctx d)" "asp_id sp = uuid_column i"
          using mem_spaces_named[of sp ctx i d] by simp_all
        then show ?thesis using admin Cons by (auto simp: may_read_def)
      qed (use unnamed_space in simp)
      ultimately show thesis by (rule that)
    next
      case False
      obtain r where "answers (member_reads env ctx i lock) r" "rd_allowed r \<longleftrightarrow> may_read ctx d role i"
        by (rule answers_member_reads[OF q False])
      then show thesis by (intro that[OF start]) (simp_all add: target(1) False)
    qed
  qed
qed

section \<open>Decisions about the truth\<close>

lemma answers_not_available: "answers (not_available ctx) (nonLeakingB1Deny (sx_policyVersion ctx))"
  by (simp add: not_available_def answers_return)

lemma answers_denied: "answers (denied ctx r e) (deny (sx_policyVersion ctx) (js r) (Some (js e)))"
  by (simp add: denied_def answers_return)

text \<open>An operation decides \<open>P\<close> when it answers, positively exactly when \<open>P\<close> holds.\<close>

definition decides :: "decision asks \<Rightarrow> bool \<Rightarrow> bool" where
  "decides m P \<longleftrightarrow> (\<exists>de. answers m de \<and> (de_allowed de \<longleftrightarrow> P))"

lemma answers_same: "answers m a \<Longrightarrow> answers m b \<Longrightarrow> a = b"
proof -
  assume "answers m a" "answers m b"
  moreover have "se_discovery new_session = None" by (simp add: new_session_def)
  ultimately show "a = b" using answers_unique[of m a new_session] unfolding answers_def by metis
qed

lemma decides_fixed: "answers m de \<Longrightarrow> decides m P \<longleftrightarrow> (de_allowed de \<longleftrightarrow> P)"
  unfolding decides_def by (metis answers_same)

lemma decides_not [simp]: "decides (not_available ctx) P \<longleftrightarrow> \<not> P" "decides (denied ctx r e) P \<longleftrightarrow> \<not> P"
  by (simp_all add: decides_fixed[OF answers_not_available] decides_fixed[OF answers_denied])

lemma decides_allow [simp]: "decides (op_return (allow p r e ts)) P \<longleftrightarrow> P"
  by (simp add: decides_fixed[OF answers_return])

lemma decides_bind: "answers m a \<Longrightarrow> decides (f a) P \<Longrightarrow> decides (op_bind m f) P"
  unfolding decides_def by (blast intro: answers_bind)

lemma decides_if: "decides m P \<Longrightarrow> decides (if b then not_available ctx else m) (\<not> b \<and> P)"
  by simp

lemma decides_read:
  assumes q: "undisturbed env d" "directory_ok d" "acyclic_spaces d" and i: "uuid_column i = i"
    and rest: "\<And>r. may_read ctx d role i \<Longrightarrow> decides (f r) P"
  shows "decides (op_bind (canReadSpaceResource env ctx i role None lock)
    (\<lambda>r. if \<not> rd_allowed r then not_available ctx else f r)) (may_read ctx d role i \<and> P)"
proof -
  obtain r where r: "answers (canReadSpaceResource env ctx i role None lock) r" "rd_allowed r \<longleftrightarrow> may_read ctx d role i"
    by (rule answers_can_read[OF q i])
  show ?thesis by (rule decides_bind[OF r(1)]) (use r(2) rest in auto)
qed

text \<open>A query of at most one row.\<close>

lemma decides_row:
  assumes q: "undisturbed env d" and one: "length (q d) \<le> 1"
    and rest: "\<And>r. q d = [r] \<Longrightarrow> decides (f r) (P r)"
  shows "decides (op_bind (ask_for_share env b (\<lambda>d. take 1 (q d)) locks)
    (\<lambda>rows. case rows of [] \<Rightarrow> not_available ctx | r # _ \<Rightarrow> f r)) (\<exists>r\<in>set (q d). P r)"
proof (rule decides_bind[OF answers_for_share[OF q]])
  show "decides (case take 1 (q d) of [] \<Rightarrow> not_available ctx | r # _ \<Rightarrow> f r) (\<exists>r\<in>set (q d). P r)"
    using one rest by (cases "q d") auto
qed

section \<open>Queries by key\<close>

lemma one_match:
  assumes "distinct (map key rs)" "\<And>r. length (f r) \<le> 1" "\<And>r. f r \<noteq> [] \<Longrightarrow> key r = i"
  shows "length (concat (map f rs)) \<le> 1"
  using assms(1)
proof (induction rs)
  case (Cons r rs)
  show ?case
  proof (cases "f r")
    case Nil
    then show ?thesis using Cons by simp
  next
    case (Cons x xs)
    have "f r' = []" if "r' \<in> set rs" for r'
      using that Cons assms(3)[of r] assms(3)[of r'] \<open>distinct (map key (r # rs))\<close>
      by (cases "f r'") (auto, metis imageI)
    then have none: "concat (map f rs) = []" by simp
    show ?thesis using assms(2)[of r] by (simp only: list.map concat.simps none append_Nil2)
  qed
qed simp

lemma one_match_if:
  assumes "distinct (map key rs)" "\<And>r. P r \<Longrightarrow> key r = i" "\<And>r. P r \<Longrightarrow> length (f r) \<le> 1"
  shows "length (concat (map (\<lambda>r. if P r then f r else []) rs)) \<le> 1"
  by (rule one_match[OF assms(1), of _ i]) (use assms(2,3) in \<open>auto split: if_splits\<close>)

lemma one_row:
  assumes "distinct (map key rs)" "\<And>r. P r \<Longrightarrow> key r = i"
  shows "length (filter P rs) \<le> 1"
proof -
  have "filter P rs = concat (map (\<lambda>r. if P r then [r] else []) rs)" by (induction rs) auto
  then show ?thesis using one_match_if[OF assms, where f = "\<lambda>r. [r]"] by simp
qed

lemma subject_table_distinct: "directory_ok d \<Longrightarrow> distinct (map wr_id (subject_table kind d))"
  by (cases kind) (simp_all add: directory_ok_def)

lemma queries_one:
  assumes "directory_ok d"
  shows "length (authority_subjects ctx kind i d) \<le> 1" "length (subjects_of_fact ctx f d) \<le> 1"
    "length (lifecycle_facts ctx i replay d) \<le> 1" "length (objective_proposals ctx i d) \<le> 1"
    "length (memberships_of ctx d) \<le> 1"
proof -
  note ids = assms[unfolded directory_ok_def]
  show "length (authority_subjects ctx kind i d) \<le> 1"
    unfolding authority_subjects_def
  proof (rule one_match_if[where key = wr_id and i = "uuid_column i"])
    fix w show "length (concat (map (\<lambda>sp. if asp_tenant_id sp = wr_tenant_id w \<and> asp_workspace_id sp = wr_workspace_id w \<and>
       asp_id sp = wr_space_id w \<and> \<not> asp_archived sp then [(w, sp)] else []) (dr_spaces d))) \<le> 1"
      by (rule one_match_if[where key = asp_id and i = "wr_space_id w"]) (use ids in simp_all)
  qed (use subject_table_distinct[OF assms] in simp_all)
  show "length (subjects_of_fact ctx f d) \<le> 1"
    unfolding subjects_of_fact_def
    by (rule one_row[where key = wr_id and i = "tf_subject_id f"]) (use subject_table_distinct[OF assms] in simp_all)
  show "length (lifecycle_facts ctx i replay d) \<le> 1"
    unfolding lifecycle_facts_def
  proof (rule one_match_if[where key = tf_id and i = "uuid_column i"])
    fix f show "length (concat (map (\<lambda>sp. if asp_tenant_id sp = tf_tenant_id f \<and> asp_workspace_id sp = tf_workspace_id f \<and>
       asp_id sp = tf_space_id f \<and> \<not> asp_archived sp then [(f, sp)] else []) (dr_spaces d))) \<le> 1"
      by (rule one_match_if[where key = asp_id and i = "tf_space_id f"]) (use ids in simp_all)
  qed (use ids in simp_all)
  show "length (objective_proposals ctx i d) \<le> 1"
    unfolding objective_proposals_def
  proof (rule one_match_if[where key = tc_id and i = "uuid_column i"])
    fix c show "length (concat (map (\<lambda>w. if wr_tenant_id w = tc_tenant_id c \<and> wr_workspace_id w = tc_workspace_id c \<and>
       wr_space_id w = tc_space_id c \<and> wr_id w = tc_subject_id c then concat (map (\<lambda>sp.
         if asp_tenant_id sp = tc_tenant_id c \<and> asp_workspace_id sp = tc_workspace_id c \<and>
           asp_id sp = tc_space_id c \<and> \<not> asp_archived sp then [(c, w, sp)] else []) (dr_spaces d)) else []) (dr_initiatives d))) \<le> 1"
    proof (rule one_match_if[where key = wr_id and i = "tc_subject_id c"])
      fix w show "length (concat (map (\<lambda>sp. if asp_tenant_id sp = tc_tenant_id c \<and> asp_workspace_id sp = tc_workspace_id c \<and>
           asp_id sp = tc_space_id c \<and> \<not> asp_archived sp then [(c, w, sp)] else []) (dr_spaces d))) \<le> 1"
        by (rule one_match_if[where key = asp_id and i = "tc_space_id c"]) (use ids in simp_all)
    qed (use ids in simp_all)
  qed (use ids in simp_all)
  show "length (memberships_of ctx d) \<le> 1"
    unfolding memberships_of_def
  proof (rule one_match_if[where key = mb_id and i = "uuid_column (the (sx_actorMembershipId ctx))"])
    fix m show "length (concat (map (\<lambda>u. if us_id u = mb_user_id m then [(m, u)] else []) (dr_users d))) \<le> 1"
      by (rule one_match_if[where key = us_id and i = "mb_user_id m"]) (use ids in simp_all)
  qed (use ids in \<open>auto simp: id_is_def split: option.splits\<close>)
qed

section \<open>Decisions, exactly\<close>

lemma space_column: "directory_ok d \<Longrightarrow> sp \<in> set (dr_spaces d) \<Longrightarrow> uuid_column (asp_id sp) = asp_id sp"
  by (simp add: directory_ok_def)

lemma decides_lifecycle:
  assumes q: "undisturbed env d" "directory_ok d" "acyclic_spaces d"
  shows "decides (factLifecycleMutationDecision env ctx (ac_role actor) resource options actor replay)
    (rr_type resource = RefFact \<and> may_end_fact ctx d actor (rr_id resource) replay)"
proof -
  have owner: "decides (decide_fact_owner env ctx (ac_role actor) options actor f w)
      (\<not> wr_owner_person_id w \<noteq> ac_personId actor \<and> may_read ctx d (ac_role actor) (tf_space_id f) \<and> True)"
    if "uuid_column (tf_space_id f) = tf_space_id f" for f w
    unfolding decide_fact_owner_def by (rule decides_if, rule decides_read[OF q that]) simp
  have fact: "decides (decide_fact_lifecycle env ctx (ac_role actor) options actor row) (case row of (f, sp) \<Rightarrow>
      \<not> (sx_requestedSpaceIds ctx \<noteq> [tf_space_id f] \<or>
         \<not> canReadDataClass (sx_dataClassCeiling ctx) (greatest_class [asp_access_class sp, tf_access_class f])) \<and>
      (\<exists>w\<in>set (subjects_of_fact ctx f d).
        \<not> wr_owner_person_id w \<noteq> ac_personId actor \<and> may_read ctx d (ac_role actor) (tf_space_id f) \<and> True))"
    if "lifecycle_facts ctx (rr_id resource) replay d = [row]" for row
  proof -
    obtain f sp where row: "row = (f, sp)" by (cases row)
    have "(f, sp) \<in> set (lifecycle_facts ctx (rr_id resource) replay d)" using that row by simp
    then have id: "uuid_column (tf_space_id f) = tf_space_id f"
      using space_column[OF q(2), of sp] by (auto simp: lifecycle_facts_def)
    show ?thesis unfolding row prod.case decide_fact_lifecycle_def
      by (rule decides_if, rule decides_row[where q = "subjects_of_fact ctx f", OF q(1) queries_one(2)[OF q(2)]], rule owner[OF id])
  qed
  have "decides (factLifecycleMutationDecision env ctx (ac_role actor) resource options actor replay)
    (\<not> rr_type resource \<noteq> RefFact \<and> (\<exists>row\<in>set (lifecycle_facts ctx (rr_id resource) replay d). case row of (f, sp) \<Rightarrow>
      \<not> (sx_requestedSpaceIds ctx \<noteq> [tf_space_id f] \<or>
         \<not> canReadDataClass (sx_dataClassCeiling ctx) (greatest_class [asp_access_class sp, tf_access_class f])) \<and>
      (\<exists>w\<in>set (subjects_of_fact ctx f d).
        \<not> wr_owner_person_id w \<noteq> ac_personId actor \<and> may_read ctx d (ac_role actor) (tf_space_id f) \<and> True)))"
    unfolding factLifecycleMutationDecision_def
    by (rule decides_if, rule decides_row[where q = "lifecycle_facts ctx (rr_id resource) replay",
      OF q(1) queries_one(3)[OF q(2)]], rule fact)
  then show ?thesis
    by (rule back_subst[of "decides _"]) (auto simp: may_end_fact_def within_ceiling_def)
qed

lemma decides_proposal:
  assumes q: "undisturbed env d" "directory_ok d" "acyclic_spaces d"
  shows "decides (objectiveProposalMutationDecision env ctx (ac_role actor) action resource options actor)
    (rr_type resource = RefClaim \<and> may_decide_proposal ctx d actor action (rr_id resource))"
proof -
  let ?manager = "\<lambda>c w. proposal_manager action
       (tc_created_by_user_id c = ac_userId actor \<and> tc_created_by_membership_id c = ac_membershipId actor)
       (wr_owner_person_id w = ac_personId actor)"
  have row: "decides (decide_objective_proposal env ctx (ac_role actor) action options actor row) (case row of (c, w, sp) \<Rightarrow>
      \<not> \<not> canReadDataClass (sx_dataClassCeiling ctx) (tc_access_class c) \<and>
      may_read ctx d (ac_role actor) (tc_space_id c) \<and> ?manager c w)"
    if "objective_proposals ctx (rr_id resource) d = [row]" for row
  proof -
    obtain c w sp where row: "row = (c, w, sp)" by (cases row)
    have "(c, w, sp) \<in> set (objective_proposals ctx (rr_id resource) d)" using that row by simp
    then have id: "uuid_column (tc_space_id c) = tc_space_id c"
      using space_column[OF q(2), of sp] by (auto simp: objective_proposals_def)
    show ?thesis unfolding row prod.case decide_objective_proposal_def
      by (rule decides_if, rule decides_read[OF q id]) (simp add: Let_def)
  qed
  have "decides (objectiveProposalMutationDecision env ctx (ac_role actor) action resource options actor)
    (\<not> rr_type resource \<noteq> RefClaim \<and> (\<exists>row\<in>set (objective_proposals ctx (rr_id resource) d). case row of (c, w, sp) \<Rightarrow>
      \<not> \<not> canReadDataClass (sx_dataClassCeiling ctx) (tc_access_class c) \<and>
      may_read ctx d (ac_role actor) (tc_space_id c) \<and> ?manager c w))"
    unfolding objectiveProposalMutationDecision_def
    by (rule decides_if, rule decides_row[where q = "objective_proposals ctx (rr_id resource)",
      OF q(1) queries_one(4)[OF q(2)]], rule row)
  then show ?thesis
    by (rule back_subst[of "decides _"]) (auto simp: may_decide_proposal_def within_ceiling_def)
qed

lemma answers_contributor:
  assumes "undisturbed env d"
  obtains ts where "answers (contributorAuthority env ctx i role lock) (contributes ctx d role i, ts)"
proof (cases "workspace_authority role")
  case True
  then show thesis using that[of "[]"] by (simp add: contributorAuthority_def contributes_def answers_return)
next
  case False
  let ?rows = "take 1 (contribution_grants ctx i d)"
  have rows: "answers (ask_for_share env lock (\<lambda>d. take 1 (contribution_grants ctx i d)) grant_locks) ?rows"
    by (rule answers_for_share[OF assms])
  let ?answer = "case ?rows of [] \<Rightarrow> (False, []) | row # _ \<Rightarrow> (True, [spaceGrantToken (ag_id row) (ag_resource_id row)])"
  have row: "answers (op_bind (discover (recordRelationshipAuthorityGrant (view_of_grant row))) (\<lambda>_.
      op_bind discovered_inconsistent (\<lambda>inconsistent.
      op_return (if inconsistent then (False, []) else (True, [spaceGrantToken (ag_id row) (ag_resource_id row)])))))
      (True, [spaceGrantToken (ag_id row) (ag_resource_id row)])" for row
    by (rule answers_bind[OF answers_discover], rule answers_bind[OF answers_consistent]) (simp add: answers_return)
  have "answers (contributorAuthority env ctx i role lock) ?answer"
    unfolding contributorAuthority_def if_not_P[OF False]
    by (rule answers_bind[OF rows], cases "contribution_grants ctx i d") (simp_all only: take.simps take_Nil
        list.case nat.case One_nat_def answers_return row)
  moreover have "fst ?answer \<longleftrightarrow> contributes ctx d role i"
    using False by (cases "contribution_grants ctx i d") (simp_all add: contributes_def)
  moreover obtain b ts where "?answer = (b, ts)" by (cases ?answer)
  ultimately show thesis using that[of ts] by simp
qed

lemma decides_target:
  assumes q: "undisturbed env d" "directory_ok d" "acyclic_spaces d" and action: "action = ClaimCreate \<or> action = FactAccept"
  shows "decides (op_bind (loadTruthAuthorityTarget env ctx action resource options) (\<lambda>found.
      case found of None \<Rightarrow> not_available ctx
      | Some target \<Rightarrow> decide_truth_target env ctx (ac_role actor) action options actor target))
    (\<exists>kind. subject_of_ref (rr_type resource) = Some kind \<and>
      (if action = ClaimCreate then may_propose ctx d actor kind (rr_id resource)
       else action = FactAccept \<and> may_accept ctx d actor kind (rr_id resource)))"
proof (cases "subject_of_ref (rr_type resource)")
  case None
  then have "answers (loadTruthAuthorityTarget env ctx action resource options) None"
    using action by (auto simp: loadTruthAuthorityTarget_def answers_return)
  then show ?thesis by (rule decides_bind) (simp add: None)
next
  case (Some kind)
  let ?target = "\<lambda>(w, sp). \<lparr>ta_spaceId = wr_space_id w, ta_accessClass = asp_access_class sp, ta_subjectType = kind,
     ta_ownerPersonId = wr_owner_person_id w\<rparr>"
  let ?rows = "authority_subjects ctx kind (rr_id resource)"
  have load: "loadTruthAuthorityTarget env ctx action resource options =
      op_bind (ask_for_share env (ao_lockAuthority options) (\<lambda>d. take 1 (?rows d)) (subject_locks kind)) (\<lambda>rows.
        op_return (case rows of [] \<Rightarrow> None | r # _ \<Rightarrow> Some (?target r)))"
    using action Some by (auto simp: loadTruthAuthorityTarget_def intro!: arg_cong[of _ _ "op_bind _"] split: list.split)
  have target: "decides (decide_truth_target env ctx (ac_role actor) action options actor (?target row)) (case row of (w, sp) \<Rightarrow>
      \<not> \<not> canReadDataClass (sx_dataClassCeiling ctx) (asp_access_class sp) \<and>
      may_read ctx d (ac_role actor) (wr_space_id w) \<and>
      (if action = ClaimCreate then contributes ctx d (ac_role actor) (wr_space_id w)
       else wr_owner_person_id w = ac_personId actor))"
    if "?rows d = [row]" for row
  proof -
    obtain w sp where row: "row = (w, sp)" by (cases row)
    have "(w, sp) \<in> set (?rows d)" using that row by simp
    then have id: "uuid_column (wr_space_id w) = wr_space_id w"
      using space_column[OF q(2), of sp] by (auto simp: authority_subjects_def)
    obtain ts where contributor: "answers (contributorAuthority env ctx (wr_space_id w) (ac_role actor) (ao_lockAuthority options))
        (contributes ctx d (ac_role actor) (wr_space_id w), ts)"
      by (rule answers_contributor[OF q(1)])
    show ?thesis unfolding row prod.case decide_truth_target_def authority_target.simps
    proof (rule decides_if, rule decides_read[OF q id])
      fix r show "decides (if action = ClaimCreate
        then op_bind (contributorAuthority env ctx (wr_space_id w) (ac_role actor) (ao_lockAuthority options)) (\<lambda>contributor.
          if fst contributor then op_return (allow (sx_policyVersion ctx) (js ''b2_live_contributor'') None
            (Some (rd_authorityTokens r @ snd contributor))) else not_available ctx)
        else if wr_owner_person_id w = ac_personId actor
        then op_return (allow (sx_policyVersion ctx) (owner_reason kind) None (Some (rd_authorityTokens r)))
        else not_available ctx)
        (if action = ClaimCreate then contributes ctx d (ac_role actor) (wr_space_id w)
         else wr_owner_person_id w = ac_personId actor)"
        using decides_bind[OF contributor] by simp
    qed
  qed
  have "decides (op_bind (loadTruthAuthorityTarget env ctx action resource options) (\<lambda>found.
      case found of None \<Rightarrow> not_available ctx
      | Some target \<Rightarrow> decide_truth_target env ctx (ac_role actor) action options actor target))
    (\<exists>row\<in>set (?rows d). case row of (w, sp) \<Rightarrow> \<not> \<not> canReadDataClass (sx_dataClassCeiling ctx) (asp_access_class sp) \<and>
      may_read ctx d (ac_role actor) (wr_space_id w) \<and>
      (if action = ClaimCreate then contributes ctx d (ac_role actor) (wr_space_id w)
       else wr_owner_person_id w = ac_personId actor))"
  proof (cases "?rows d")
    case Nil
    have "answers (loadTruthAuthorityTarget env ctx action resource options) None"
      unfolding load by (rule answers_bind[OF answers_for_share[OF q(1)]]) (simp add: Nil answers_return)
    then show ?thesis by (rule decides_bind) (simp add: Nil)
  next
    case (Cons row rest)
    then have one: "?rows d = [row]" using queries_one(1)[OF q(2), of ctx kind "rr_id resource"] by simp
    have "answers (loadTruthAuthorityTarget env ctx action resource options) (Some (?target row))"
      unfolding load by (rule answers_bind[OF answers_for_share[OF q(1)]]) (simp add: one answers_return)
    then show ?thesis by (rule decides_bind) (use target[OF one] one in simp)
  qed
  then show ?thesis
    by (rule back_subst[of "decides _"])
       (use action Some in \<open>auto simp: may_propose_def may_accept_def within_ceiling_def\<close>)
qed

lemma current_actor_one:
  "directory_ok d \<Longrightarrow> memberships_of ctx d = [row] \<Longrightarrow>
     current_actor ctx d actor \<longleftrightarrow> exactHumanAuthorityActor ctx (Some (member_of row)) = Some actor"
  by (simp add: current_actor_def)

lemma decides_mutation:
  assumes q: "undisturbed env d" "directory_ok d" "acyclic_spaces d" and action: "truth_mutation action"
  shows "decides (truthMutationDecision env ctx (mv_role m) action resource options (Some m))
    (\<exists>actor. exactHumanAuthorityActor ctx (Some m) = Some actor \<and> sx_actorDisplayPersonId ctx = Some (ac_personId actor) \<and>
      may_change_truth ctx d actor action resource (ao_factLifecycleReplay options))"
proof (cases "exactHumanAuthorityActor ctx (Some m)")
  case None
  then show ?thesis by (simp add: truthMutationDecision_def)
next
  case (Some actor)
  have role: "mv_role m = ac_role actor" using actor_role[OF Some] by simp
  have "decides (truthMutationDecision env ctx (ac_role actor) action resource options (Some m))
    (\<not> sx_actorDisplayPersonId ctx \<noteq> Some (ac_personId actor) \<and>
      may_change_truth ctx d actor action resource (ao_factLifecycleReplay options))"
    unfolding truthMutationDecision_def Some option.case
  proof (rule decides_if, goal_cases)
    case 1
    consider "action \<in> {ProposalWithdraw, ProposalReject, ProposalRework}" | "action \<in> {FactSupersede, FactRevoke}"
      | "action = ClaimCreate \<or> action = FactAccept"
      using action by (auto simp: truth_mutation_def)
    then show ?case
    proof cases
      case 1
      then show ?thesis using decides_proposal[OF q] unfolding may_change_truth_def by simp
    next
      case 2
      then have "action \<notin> {ProposalWithdraw, ProposalReject, ProposalRework}" by auto
      then show ?thesis using 2 decides_lifecycle[OF q] unfolding may_change_truth_def by auto
    next
      case 3
      then have "action \<notin> {ProposalWithdraw, ProposalReject, ProposalRework}" "action \<notin> {FactSupersede, FactRevoke}" by auto
      then show ?thesis using decides_target[OF q 3] unfolding may_change_truth_def by simp
    qed
  qed
  then show ?thesis unfolding role Some by simp
qed

lemma decides_person:
  assumes q: "undisturbed env d" "directory_ok d" "acyclic_spaces d" and action: "truth_mutation action"
  shows "decides (person_decision env ctx action resource options) (\<not> given (sx_servicePrincipalId ctx) \<and>
      \<not> given (sx_agentPrincipalId ctx) \<and> truth_permitted ctx d action resource (ao_factLifecycleReplay options))"
proof -
  let ?person = "\<exists>actor. current_actor ctx d actor \<and> sx_actorDisplayPersonId ctx = Some (ac_personId actor) \<and>
      may_change_truth ctx d actor action resource (ao_factLifecycleReplay options)"
  have member: "decides (op_bind (loadActiveMembership env ctx (ao_lockAuthority options)) (\<lambda>found.
       case found of
         None \<Rightarrow> denied ctx ''membership_not_active'' ''No active membership matches the current context''
       | Some membership \<Rightarrow>
           if \<not> membership_active membership
           then denied ctx ''principal_not_active'' ''User or membership is not active''
           else if action \<in> set b1Actions
           then b1Decision env ctx (mv_role membership) action resource options (Some membership)
           else a2Decision env ctx (mv_role membership) action resource options)) ?person"
  proof (cases "memberships_of ctx d")
    case Nil
    have "answers (loadActiveMembership env ctx (ao_lockAuthority options)) None"
      unfolding loadActiveMembership_def
      by (rule answers_bind[OF answers_for_share[OF q(1)]]) (simp add: Nil first_row_def answers_return)
    then show ?thesis by (rule decides_bind) (simp add: current_actor_def Nil)
  next
    case (Cons row rest)
    then have one: "memberships_of ctx d = [row]" using queries_one(5)[OF q(2), of ctx] by simp
    have "answers (loadActiveMembership env ctx (ao_lockAuthority options)) (Some (member_of row))"
      unfolding loadActiveMembership_def
      by (rule answers_bind[OF answers_for_share[OF q(1)]]) (simp add: one first_row_def answers_return)
    then show ?thesis
    proof (rule decides_bind)
      have "exactHumanAuthorityActor ctx (Some (member_of row)) = Some actor \<Longrightarrow> membership_active (member_of row)" for actor
        by (auto simp: exactHumanAuthorityActor_def membership_active_def split: if_splits)
      then show "decides (case Some (member_of row) of
         None \<Rightarrow> denied ctx ''membership_not_active'' ''No active membership matches the current context''
       | Some membership \<Rightarrow>
           if \<not> membership_active membership
           then denied ctx ''principal_not_active'' ''User or membership is not active''
           else if action \<in> set b1Actions
           then b1Decision env ctx (mv_role membership) action resource options (Some membership)
           else a2Decision env ctx (mv_role membership) action resource options) ?person"
        using decides_mutation[OF q action, of ctx "member_of row"]
        by (auto simp: truth_mutation_person[OF action] current_actor_one[OF q(2) one])
    qed
  qed
  have policy: "answers (loadActivePolicyVersion env ctx True) (active_policies ctx d \<noteq> [])"
    using answers_for_share[OF q(1), of True "active_policies ctx" policy_locks] unfolding answers_def loadActivePolicyVersion_Inr by blast
  show ?thesis
    unfolding person_decision_def
    by (rule decides_bind[OF policy]) (use member in \<open>simp add: truth_permitted_def\<close>)
qed

text \<open>C18: While nothing else changes the database, the decision about an action on claims and facts always returns,
  with locks and without, and it is positive exactly when the caller is no service or agent principal and the
  policy over that snapshot permits the action.\<close>
theorem truth_decided_exactly:
  assumes q: "undisturbed env d" "directory_ok d" "acyclic_spaces d" and action: "truth_mutation action"
    and ctx: "checked_context env inputContext = Inr ctx" and none: "se_discovery s = None"
  shows "\<exists>de t. canInTransaction env inputContext action resource options s = Inr (de, t) \<and>
    (de_allowed de \<longleftrightarrow> \<not> given (sx_servicePrincipalId ctx) \<and> \<not> given (sx_agentPrincipalId ctx) \<and>
       truth_permitted ctx d action resource (ao_factLifecycleReplay options))"
proof -
  obtain de t where "person_decision env ctx action resource options s = Inr (de, t)"
      "de_allowed de \<longleftrightarrow> \<not> given (sx_servicePrincipalId ctx) \<and> \<not> given (sx_agentPrincipalId ctx) \<and>
        truth_permitted ctx d action resource (ao_factLifecycleReplay options)"
    using none decides_person[OF q action] unfolding decides_def answers_def by blast
  then show ?thesis
    by (intro exI[of _ de] exI[of _ t]) (simp add: canInTransaction_def ctx truth_mutation_person(1)[OF action])
qed

section \<open>Every statement returns\<close>

definition returning :: "'a asks \<Rightarrow> bool" where
  "returning m \<longleftrightarrow> (\<forall>s. m s \<noteq> Inl NeverReturns)"

definition history_acyclic :: "auth_env \<Rightarrow> bool" where
  "history_acyclic env \<longleftrightarrow> (\<forall>k d. av_history env k = Inr d \<longrightarrow> directory_ok d \<and> acyclic_spaces d)"

lemma returning_basic [simp]:
  "returning (op_return a)" "returning (op_read f)" "returning (op_modify g)" "returning (ask env p)"
  "returning (ask_for_share env b q locks)"
  by (auto simp: returning_def op_return_def op_read_def op_modify_def ask_def ask_for_share_def ask_locking_def
      split: sum.splits)

lemma returning_bind: "returning m \<Longrightarrow> (\<And>a. returning (f a)) \<Longrightarrow> returning (op_bind m f)"
  by (auto simp: returning_def op_bind_def split: sum.splits prod.splits)

lemma returning_locking: "(\<And>k d. av_history env k = Inr d \<Longrightarrow> q d \<noteq> None) \<Longrightarrow> returning (ask_locking env q locks)"
  by (force simp: returning_def ask_locking_def split: sum.splits option.splits)

lemma returning_path: "history_acyclic env \<Longrightarrow> returning (loadInheritedAuthorityPath env ctx i g)"
  unfolding loadInheritedAuthorityPath_def
  by (intro returning_bind returning_locking) (auto simp: history_acyclic_def ancestors_total)

lemma ancestors_Some: "directory_ok d \<Longrightarrow> acyclic_spaces d \<Longrightarrow> \<exists>ls. ancestors ctx i d = Some ls"
  using ancestors_total by blast

lemma returning_access: "history_acyclic env \<Longrightarrow> returning (ask_locking env (space_access_of ctx i) locks)"
  by (rule returning_locking)
     (auto simp: history_acyclic_def space_access_of_def ancestors_Some Let_def split: list.splits)

lemma returning_tokens:
  assumes "history_acyclic env"
  shows "returning (direct_token env ctx lock grants)" "returning (inherited_token env ctx i lock found)"
  using returning_path[OF assms]
  by (auto simp: direct_token_def inherited_token_def discoverRelationshipAuthorityGrant_def
      discoverInheritedRelationshipAuthorityGrant_def lockOrConfirmSpaceGrant_def lockOrConfirmInheritedSpaceGrant_def
      discover_def discovered_inconsistent_def Let_def intro!: returning_bind split: list.splits option.splits)

lemma returning_can_read:
  assumes "history_acyclic env"
  shows "returning (canReadSpaceResource env ctx i role locked lock)"
  using returning_tokens[OF assms] returning_access[OF assms]
  by (auto simp: canReadSpaceResource_def read_target_def lock_target_def administrator_reads_def member_reads_def
      loadRelationshipAuthoritySpace_def discover_def discovered_inconsistent_def Let_def
      intro!: returning_bind returning_basic split: sum.splits list.splits option.splits)

text \<open>C20: While nothing else changes the database, reading a space is answered, with locks and without, and the
  answer is positive exactly when the actor may read it.\<close>
theorem reads_exactly:
  assumes "undisturbed env d" "directory_ok d" "acyclic_spaces d" "uuid_column i = i" "se_discovery s = None"
  shows "\<exists>r t. canReadSpaceResource env ctx i role None lock s = Inr (r, t) \<and> (rd_allowed r \<longleftrightarrow> may_read ctx d role i)"
proof -
  obtain r where "answers (canReadSpaceResource env ctx i role None lock) r" "rd_allowed r \<longleftrightarrow> may_read ctx d role i"
    by (rule answers_can_read[OF assms(1-4)])
  then show ?thesis using assms(5) unfolding answers_def by blast
qed

text \<open>C21: No statement behind reading a space runs for ever, whatever other transactions commit meanwhile, when no
  snapshot has a space above itself: the recursive queries over the ancestors end.\<close>
theorem space_reading_returns:
  assumes "history_acyclic env"
  shows "canReadSpaceResource env ctx i role locked lock s \<noteq> Inl NeverReturns"
  using returning_can_read[OF assms] by (simp add: returning_def)

end
