(* ===== verification/Principal_Promises.thy ===== *)
theory Principal_Promises
  imports Authority_Promises
begin

text \<open>
  What a positive decision about a service principal rests on: the relay that publishes notifications,
  and the worker that consumes a job for the person who delegated it. Everything the decision read is
  locked, so it holds until the transaction ends.
\<close>

section \<open>The relays\<close>

definition scope_active :: "security_context \<Rightarrow> directory \<Rightarrow> bool" where
  "scope_active ctx d \<longleftrightarrow>
     (\<exists>r\<in>set (tenants_named (sx_tenantId ctx) d). tn_status r = ActiveTenant) \<and>
     (\<exists>r\<in>set (workspaces_named (sx_tenantId ctx) (sx_workspaceId ctx) d). wp_status r = ActiveWorkspace) \<and>
     active_policies ctx d \<noteq> []"

definition principal_active :: "security_context \<Rightarrow> principal_purpose \<Rightarrow> directory \<Rightarrow> jstr \<Rightarrow> bool" where
  "principal_active ctx purpose d principalId \<longleftrightarrow>
     (\<exists>r\<in>set (principals_named (sx_tenantId ctx) (sx_workspaceId ctx) principalId d).
        sv_purpose r = purpose \<and> sv_status r = ActivePrincipal)"

definition relay_entitled :: "security_context \<Rightarrow> principal_purpose \<Rightarrow> directory \<Rightarrow> jstr \<Rightarrow> bool" where
  "relay_entitled ctx purpose d spaceId \<longleftrightarrow> scope_active ctx d \<and>
     (\<exists>principalId. sx_servicePrincipalId ctx = Some principalId \<and> principal_active ctx purpose d principalId \<and>
        direct_space_grants (sx_tenantId ctx) (sx_workspaceId ctx) ManagerGrant principalId spaceId d \<noteq> []) \<and>
     spaces_named ctx spaceId d \<noteq> []"

lemma given_the: "given v \<Longrightarrow> v = Some (the v)"
  by (cases v) (auto simp: given_def)

lemma relay_concludes:
  "concludes env (productOutboxRelayPublishDecision env ctx resource options) (\<lambda>d.
     rr_type resource = RefSpace \<and> sx_requestedSpaceIds ctx = [rr_id resource] \<and>
     \<not> given (sx_actorUserId ctx) \<and> \<not> given (sx_actorMembershipId ctx) \<and> \<not> given (sx_agentPrincipalId ctx) \<and>
     \<not> given (sx_delegatedByUserId ctx) \<and> \<not> given (sx_delegatedByMembershipId ctx) \<and>
     relay_entitled ctx RelayPurpose d (rr_id resource))"
  unfolding productOutboxRelayPublishDecision_def Let_def
  by (rule concludes_mono, (rule concludes_unless concludes_allow active_tenants.required active_workspaces.required
      policies.required principals.required spaces.required manager_grants.required)+)
     (auto simp: relay_entitled_def scope_active_def principal_active_def dest: given_the)

lemma foundation_relay_concludes:
  "concludes env (foundationRelayPublishDecision env ctx resource options) (\<lambda>d.
     rr_type resource = RefSpace \<and> sx_requestedSpaceIds ctx = [rr_id resource] \<and>
     relay_entitled ctx SystemPurpose d (rr_id resource))"
proof -
  have active: "active_policies ctx d \<noteq> []" if "p \<in> set (policies_named (sx_tenantId ctx) (sx_workspaceId ctx) (sx_policyVersion ctx) d)"
    "pv_status p = ActivePolicy" for p d
    using that by (auto simp: active_policies_def policies_named_def in_scope_def filter_empty_conv)
  show ?thesis
    unfolding foundationRelayPublishDecision_def Let_def
    by (rule concludes_mono, (rule concludes_unless concludes_allow tenants.required workspaces.required
        named_policies.required named_principals.required spaces.required manager_grants.required)+)
       (auto simp: relay_entitled_def scope_active_def principal_active_def dest: given_the active)
qed

section \<open>The worker\<close>

text \<open>The delegation of a binding stands: its reference is active, and so are the scope, the worker with its
  grant, and the person who delegated, who still has access to the space.\<close>

definition delegation_scope_active :: "worker_binding \<Rightarrow> directory \<Rightarrow> bool" where
  "delegation_scope_active b d \<longleftrightarrow>
     (\<exists>r\<in>set (tenants_named (wb_tenantId b) d). tn_status r = ActiveTenant) \<and>
     (\<exists>r\<in>set (workspaces_named (wb_tenantId b) (wb_workspaceId b) d). wp_status r = ActiveWorkspace) \<and>
     (\<exists>r\<in>set (policies_named (wb_tenantId b) (wb_workspaceId b) (wb_policyVersionId b) d). pv_status r = ActivePolicy) \<and>
     (\<exists>r\<in>set (dr_spaces d). asp_id r = uuid_column (wb_spaceId b) \<and> asp_tenant_id r = uuid_column (wb_tenantId b) \<and>
        asp_workspace_id r = uuid_column (wb_workspaceId b) \<and> \<not> asp_archived r)"

definition worker_granted :: "worker_binding \<Rightarrow> directory \<Rightarrow> bool" where
  "worker_granted b d \<longleftrightarrow>
     (\<exists>r\<in>set (principals_named (wb_tenantId b) (wb_workspaceId b) (wb_workerServicePrincipalId b) d).
        sv_purpose r = WorkerPurpose \<and> sv_status r = ActivePrincipal) \<and>
     direct_space_grants (wb_tenantId b) (wb_workspaceId b) ContributorGrant (wb_workerServicePrincipalId b)
       (wb_spaceId b) d \<noteq> []"

definition delegator_entitled :: "worker_binding \<Rightarrow> directory \<Rightarrow> bool" where
  "delegator_entitled b d \<longleftrightarrow>
     (\<exists>u\<in>set (dr_users d). us_id u = uuid_column (wb_delegatingUserId b) \<and> us_status u = ActiveUser) \<and>
     (\<exists>m\<in>set (dr_memberships d). mb_id m = uuid_column (wb_delegatingMembershipId b) \<and>
        mb_user_id m = uuid_column (wb_delegatingUserId b) \<and> mb_status m = ActiveMembership \<and>
        (workspace_authority (mb_role m) \<or> delegator_grants b d \<noteq> []))"

definition delegation_stands :: "auth_env \<Rightarrow> worker_binding \<Rightarrow> directory \<Rightarrow> bool" where
  "delegation_stands env b d \<longleftrightarrow> active_references env b d \<noteq> [] \<and> delegation_scope_active b d \<and>
     worker_granted b d \<and> delegator_entitled b d"

lemma concludes_if:
  "(b \<Longrightarrow> concludes env m P) \<Longrightarrow> (\<not> b \<Longrightarrow> concludes env n Q) \<Longrightarrow>
     concludes env (if b then m else n) (\<lambda>d. b \<and> P d \<or> \<not> b \<and> Q d)"
  by (cases b) simp_all

lemma worker_chain_concludes:
  "concludes env (worker_chain env ctx options b) (\<lambda>d. delegation_scope_active b d \<and> worker_granted b d \<and> delegator_entitled b d)"
  unfolding worker_chain_def Let_def
  by (rule concludes_mono, (rule concludes_unless concludes_if concludes_allow active_tenants.required
      active_workspaces.required active_named_policies.required principals.required delegating_users.required
      delegating_memberships.required worker_spaces.required manager_grants.required delegators.required)+)
     (auto simp: delegation_scope_active_def worker_granted_def delegator_entitled_def)

lemma worker_concludes:
  assumes run: "foundationWorkerConsumeDecision env ctx resource options s = Inr (de, t)" "de_allowed de"
  shows "\<exists>b. ao_workerBinding options = Some b \<and> workerBindingMatchesContext ctx resource b \<and> later s t \<and>
    secured env t (delegation_stands env b)"
proof -
  obtain b where b: "ao_workerBinding options = Some b"
    using run by (auto simp: foundationWorkerConsumeDecision_def dest: never_allowed split: option.splits)
  obtain rows s1 where ask: "ask_for_share env True (\<lambda>d. take 1 (active_references env b d)) (\<lambda>r. [ReferenceLock (cx_id r)]) s = Inr (rows, s1)"
    and rest: "(if \<not> workerBindingMatchesContext ctx resource b
          then denied ctx ''foundation_worker_binding_mismatch''
            ''Foundation worker transaction binding does not match the rehydrated context''
          else (case rows of
            [] \<Rightarrow> denied ctx ''context_reference_not_active'' ''Worker context reference is not active''
          | r # _ \<Rightarrow>
              if \<not> workerBindingMatchesReference b r
              then denied ctx ''foundation_worker_binding_mismatch''
                ''Foundation worker transaction binding does not match the locked reference''
              else if cx_status r \<noteq> ActiveReference \<or> cx_revoked_at r \<noteq> None \<or>
                cx_expires_at r div 1000 \<le> av_later env
              then denied ctx ''context_reference_not_active'' ''Worker context reference is not active''
              else worker_chain env ctx options b)) s1 = Inr (de, t)"
    using run(1) by (auto simp: foundationWorkerConsumeDecision_def b op_bind_Inr)
  have matches: "workerBindingMatchesContext ctx resource b"
    using rest run(2) by (auto dest: never_allowed split: if_splits)
  then obtain r more where rows: "rows = r # more" using rest run(2) by (cases rows) (auto dest: never_allowed)
  have chain: "worker_chain env ctx options b s1 = Inr (de, t)"
    using rest run(2) matches by (auto simp: rows dest: never_allowed split: if_splits)
  note held = references.first_stays[OF ask[unfolded rows]] and rest = concludesD[OF worker_chain_concludes chain run(2)]
  have "secured env t (\<lambda>d. r \<in> set (active_references env b d) \<and>
      delegation_scope_active b d \<and> worker_granted b d \<and> delegator_entitled b d)"
    using secured_conj[OF secured_later] held rest by blast
  then have "secured env t (delegation_stands env b)"
    by (rule secured_mono) (auto simp: delegation_stands_def)
  then show ?thesis using b matches held rest later_trans by blast
qed

section \<open>The decisions\<close>

lemma checked_context_of_allowed:
  assumes "canInTransaction env inputContext action resource options s = Inr (de, t)" "de_allowed de"
  obtains ctx where "checked_context env inputContext = Inr ctx" "decideInTransaction env ctx action resource options s = Inr (de, t)"
proof -
  obtain ctx where "checked_context env inputContext = Inr ctx"
    using assms by (auto simp: canInTransaction_def checked_context_def parseContextForDecision_def op_return_def
        split: option.splits if_splits)
  then show thesis using assms(1) that by (simp add: canInTransaction_def)
qed

lemma person_allowed_human:
  assumes "person_decision env ctx action resource options s = Inr (de, t)" "de_allowed de"
  shows "\<not> (given (sx_servicePrincipalId ctx) \<or> given (sx_agentPrincipalId ctx))"
proof
  assume "given (sx_servicePrincipalId ctx) \<or> given (sx_agentPrincipalId ctx)"
  then have "person_decision env ctx action resource options = op_bind (loadActivePolicyVersion env ctx True) (\<lambda>active.
      if \<not> active then denied ctx ''policy_version_not_active''
        ''SecurityContext policy version is not active for the current tenant and workspace''
      else denied ctx ''principal_default_denied'' ''Service and agent principals have no A2 allow rules'')"
    by (simp add: person_decision_def if_distrib cong: if_cong)
  then show False using assms by (auto simp: op_bind_Inr dest: never_allowed split: if_splits)
qed

text \<open>C22: A service or agent principal gets a positive decision for three actions only. For publishing it is the
  active relay of the purpose that the action names, with a direct manager grant on the exact space; for
  consuming a job it is the worker of an active, unexpired and unrevoked reference, which matches the context in
  every part, whose delegating person is active and still has access. Scope, principal and grants are locked and
  stay so until the transaction ends.\<close>
theorem principals_decided:
  assumes run: "canInTransaction env inputContext action resource options s = Inr (de, t)" "de_allowed de"
  shows "\<exists>ctx. checked_context env inputContext = Inr ctx \<and> (given (sx_servicePrincipalId ctx) \<or> given (sx_agentPrincipalId ctx) \<longrightarrow>
    (action = ProductRelayPublish \<and> secured env t (\<lambda>d. relay_entitled ctx RelayPurpose d (rr_id resource))) \<or>
    (action = FoundationRelayPublish \<and> secured env t (\<lambda>d. relay_entitled ctx SystemPurpose d (rr_id resource))) \<or>
    (action = FoundationWorkerConsume \<and> (\<exists>b. ao_workerBinding options = Some b \<and>
       workerBindingMatchesContext ctx resource b \<and> secured env t (delegation_stands env b))))"
proof -
  obtain ctx where ctx: "checked_context env inputContext = Inr ctx" "decideInTransaction env ctx action resource options s = Inr (de, t)"
    by (rule checked_context_of_allowed[OF run])
  consider "action = ProductRelayPublish" | "action = FoundationWorkerConsume" | "action = FoundationRelayPublish"
    | "action = FoundationProofCreate" | "decideInTransaction env ctx action resource options = person_decision env ctx action resource options"
    by (cases action) (simp_all add: decideInTransaction_def)
  then have "given (sx_servicePrincipalId ctx) \<or> given (sx_agentPrincipalId ctx) \<longrightarrow>
    (action = ProductRelayPublish \<and> secured env t (\<lambda>d. relay_entitled ctx RelayPurpose d (rr_id resource))) \<or>
    (action = FoundationRelayPublish \<and> secured env t (\<lambda>d. relay_entitled ctx SystemPurpose d (rr_id resource))) \<or>
    (action = FoundationWorkerConsume \<and> (\<exists>b. ao_workerBinding options = Some b \<and>
       workerBindingMatchesContext ctx resource b \<and> secured env t (delegation_stands env b)))"
  proof cases
    case 1
    then have "productOutboxRelayPublishDecision env ctx resource options s = Inr (de, t)"
      using ctx(2) by (simp add: decideInTransaction_def)
    then have "secured env t (\<lambda>d. relay_entitled ctx RelayPurpose d (rr_id resource))"
      by (rule secured_mono[OF conjunct2[OF concludesD[OF relay_concludes _ run(2)]]]) simp
    then show ?thesis using 1 by blast
  next
    case 2
    then show ?thesis using worker_concludes[OF _ run(2)] ctx(2) by (simp add: decideInTransaction_def) blast
  next
    case 3
    then have "foundationRelayPublishDecision env ctx resource options s = Inr (de, t)"
      using ctx(2) by (simp add: decideInTransaction_def)
    then have "secured env t (\<lambda>d. relay_entitled ctx SystemPurpose d (rr_id resource))"
      by (rule secured_mono[OF conjunct2[OF concludesD[OF foundation_relay_concludes _ run(2)]]]) simp
    then show ?thesis using 3 by blast
  next
    case 4
    then show ?thesis using ctx(2) run(2)
      by (auto simp: decideInTransaction_def foundationProofCreateDecision_def dest: never_allowed split: if_splits)
  next
    case 5
    have "\<not> (given (sx_servicePrincipalId ctx) \<or> given (sx_agentPrincipalId ctx))"
      using person_allowed_human ctx(2) run(2) unfolding 5 by blast
    then show ?thesis by blast
  qed
  then show ?thesis using ctx(1) by blast
qed

end
