(* ===== verification/Truth_Promises.thy ===== *)
theory Truth_Promises
  imports Fact_Refinement Quiet_Decisions Principal_Promises
begin

text \<open>
  The promises of the truth ledger as a whole. A run of the command bus is one call of \<open>execute\<close>,
  with any environment, caller and received object; the ledger evolves by such calls, one after the
  other.
\<close>

inductive bus_step :: "ledger \<Rightarrow> ledger \<Rightarrow> bool" where
  "execute env earlier input context s = (t, r) \<Longrightarrow> bus_step s t"

inductive_cases bus_stepE: "bus_step s t"

definition bus_ok :: "ledger \<Rightarrow> bool" where
  "bus_ok s \<longleftrightarrow> ledger_ok s \<and> caused s"

lemma execute_bus_ok:
  assumes "bus_ok s" "execute env earlier input context s = (t, r)"
  shows "bus_ok t" "t = s \<or> (truth_step s t \<and> (\<exists>c result. receipt (reservation_of env c) result s t))"
  using execute_committed[OF _ _ assms(2)] assms(1) truth_step_ok by (auto simp: bus_ok_def committed_def)

interpretation bus: running_system truth_step ledger_ok ledger_grows bus_step bus_ok
proof unfold_locales
  show "bus_ok s \<Longrightarrow> ledger_ok s" for s by (simp add: bus_ok_def)
  show "bus_ok s \<Longrightarrow> bus_step s t \<Longrightarrow> bus_ok t" for s t using execute_bus_ok(1) by (blast elim: bus_stepE)
  show "bus_ok s \<Longrightarrow> bus_step s t \<Longrightarrow> t = s \<or> truth_step s t" for s t
    using execute_bus_ok(2) by (blast elim: bus_stepE)
qed

lemma empty_bus_ok: "bus_ok empty_ledger"
  using empty_ledger_ok by (simp add: bus_ok_def) (simp add: caused_def empty_ledger_def)

section \<open>Authority\<close>

fun required_authority :: "b2_payload \<Rightarrow> jstr \<times> jstr \<times> jstr" where
  "required_authority (CreateClaim p) = (js ''claim.create'', subject_string (sr_type (cc_subject p)), sr_id (cc_subject p))"
| "required_authority (WithdrawObjective p) = (withdraw_action p, js ''claim'', cl_claimId (wo_proposal p))"
| "required_authority (ReworkObjective p) =
     (js ''initiative.primary_objective.proposal.rework'', js ''claim'', cl_claimId (ro_predecessor p))"
| "required_authority (AcceptFact p) = (js ''fact.accept'', subject_string (sr_type (af_subject p)), sr_id (af_subject p))"
| "required_authority (SupersedeFact p) = (kind_string SupersedeFactKind, js ''fact'', sf_factId p)"
| "required_authority (RevokeFact p) = (kind_string RevokeFactKind, js ''fact'', rf_factId p)"
| "required_authority _ = ([], [], [])"

definition authorized :: "bus_env \<Rightarrow> security_context \<Rightarrow> jstr \<times> jstr \<times> jstr \<Rightarrow> ledger \<Rightarrow> bool" where
  "authorized env context required s \<longleftrightarrow> (case required of (action, resourceType, resourceId) \<Rightarrow>
     \<exists>u. books_only s u \<and> be_can env context action resourceType resourceId True False u = Inr True)"

lemma create_claim_authorized:
  "execute_create_claim env c p s = Inr (result, t) \<Longrightarrow>
     authorized env (ca_context c) (required_authority (CreateClaim p)) s"
  unfolding execute_create_claim_def authorized_def
  by (auto simp: op_simps dest!: locked_subject_Inr intro!: exI[of _ s])

lemma accept_authorized:
  "execute_accept env c p s = Inr (result, t) \<Longrightarrow> authorized env (ca_context c) (required_authority (AcceptFact p)) s"
  unfolding execute_accept_def authorized_def
  by (auto simp: op_simps dest!: locked_subject_Inr intro!: exI[of _ s])

lemma proposal_step_authorized:
  assumes ok: "caused s" and run: "proposal_step env c ref predecessor action work s = Inr (result, t)"
  shows "authorized env (ca_context c) (action, js ''claim'', cl_claimId predecessor) s"
proof -
  obtain subject sa reservation s1 where
    subject: "locked_subject env c ref s = Inr (subject, sa)" and
    reserved: "reserveCommand env c sa = Inr (reservation, s1)" and
    rest: "(case reservation of
       ReplayedResult result \<Rightarrow>
         op_bind (authorize env (ca_context c) action (js ''claim'') (cl_claimId predecessor) True False) (\<lambda>_.
         op_return result)
     | FreshCommand commandId \<Rightarrow>
         op_bind (lockPrimaryObjectiveProposal (sx_tenantId (ca_context c)) (sx_workspaceId (ca_context c))
           (ss_spaceId subject) (ss_subjectId subject) (cl_claimId predecessor)
           (cl_expectedVersion predecessor)) (\<lambda>_.
         op_bind (authorize env (ca_context c) action (js ''claim'') (cl_claimId predecessor) True False) (\<lambda>_.
         work subject commandId))) s1 = Inr (result, t)"
    using run unfolding proposal_step_def by (auto simp: op_simps)
  have "reserveCommand env c s = Inr (reservation, s1)" using reserved locked_subject_Inr[OF subject] by simp
  then show ?thesis using ok
  proof (cases rule: reserveCommand_effect)
    case first
    then show ?thesis using rest begun_books[OF first(2)]
      by (auto simp: authorized_def op_simps lockPrimaryObjectiveProposal_def intro!: exI[of _ s1])
  qed (use rest in \<open>auto simp: authorized_def op_simps intro!: exI[of _ s]\<close>)
qed

lemma prelock_fact_id:
  assumes "prelockCurrentFact wd context tenantId workspaceId factId v mem s = Inr ((i, mem'), t)"
  shows "t = s \<and> (\<forall>state. requirePrelockedCurrentFact mem' i = Inr state \<longrightarrow> ft_factId (pk_target state) = factId)"
proof -
  obtain row state where "tf_id (fst row) = factId" "pk_target state = target_of row" "mem' = mem @ [Some state]"
      "i = length mem" "t = s"
    using assms unfolding prelockCurrentFact_def by (force simp: op_simps prelock_ok_def)
  then show ?thesis by (cases row) (simp add: requirePrelockedCurrentFact_def)
qed

lemma lifecycle_authorized:
  assumes ok: "caused s" and
    run: "executeFactLifecycleInTransaction env c factId expectedFactVersion work s = Inr (result, t)" and "t \<noteq> s"
  shows "authorized env (ca_context c) (kind_string (payload_kind (ca_payload c)), js ''fact'', factId) s"
proof -
  let ?ctx = "ca_context c" and ?action = "kind_string (payload_kind (ca_payload c))"
  obtain reservation s1 where reserved: "reserveCommand env c s = Inr (reservation, s1)" and
    rest: "(case reservation of
       ReplayedResult result \<Rightarrow>
         op_bind (authorize env ?ctx ?action (js ''fact'') factId True True) (\<lambda>_.
         op_return result)
     | FreshCommand commandId \<Rightarrow>
         op_bind (prelockCurrentFact (be_world env) ?ctx (sx_tenantId ?ctx) (sx_workspaceId ?ctx)
           factId expectedFactVersion []) (\<lambda>(i, mem).
         op_bind (op_lift (requirePrelockedCurrentFact mem i)) (\<lambda>prelocked.
         op_bind (authorize env ?ctx ?action (js ''fact'') (ft_factId (pk_target prelocked)) True False) (\<lambda>_.
         op_bind (refreshCurrentFactAfterAuthorization (be_locked_world env) ?ctx mem i) (\<lambda>(t, mem).
         op_bind (work mem i t commandId) (\<lambda>(result, endedFactId, detail).
         op_bind (writeAuditAndOutbox env c commandId
           (ended_change (ca_payload c) (ft_spaceId t) endedFactId detail)) (\<lambda>_.
         op_bind (completeCommand env c commandId (js ''accepted_fact'') endedFactId result) (\<lambda>_.
         op_return result)))))))) s1 = Inr (result, t)"
    using run unfolding executeFactLifecycleInTransaction_def Let_def readFactLifecycleReservation_def
    by (auto simp: op_simps)
  show ?thesis
    using reserved ok(1)
  proof (cases rule: reserveCommand_effect)
    case (again command result')
    then show ?thesis using rest \<open>t \<noteq> s\<close> by (auto simp: op_simps)
  next
    case first
    obtain i mem sa state u where
        pre: "prelockCurrentFact (be_world env) ?ctx (sx_tenantId ?ctx) (sx_workspaceId ?ctx)
          factId expectedFactVersion [] s1 = Inr ((i, mem), sa)"
      and state: "requirePrelockedCurrentFact mem i = Inr state"
      and may: "be_can env ?ctx ?action (js ''fact'') (ft_factId (pk_target state)) True False sa = Inr True"
      using rest first(1) by (auto simp: op_simps)
    then show ?thesis using prelock_fact_id[OF pre] begun_books[OF first(2)] by (auto simp: authorized_def)
  qed
qed

lemma in_transaction_authorized:
  assumes "caused s" "executeInTransaction env c p s = Inr (result, t)" "t \<noteq> s" "ca_payload c = p"
  shows "authorized env (ca_context c) (required_authority p) s"
proof (cases p)
  case (WithdrawObjective x)
  then show ?thesis using assms(1,2) proposal_step_authorized by (simp add: execute_withdraw_def)
next
  case (ReworkObjective x)
  then show ?thesis using assms(1,2) proposal_step_authorized by (simp add: execute_rework_def)
next
  case (SupersedeFact x)
  then show ?thesis using assms lifecycle_authorized[of s env c] by simp
next
  case (RevokeFact x)
  then show ?thesis using assms lifecycle_authorized[of s env c] by simp
next
  case (CreateClaim x)
  then show ?thesis using assms(2) create_claim_authorized by simp
next
  case (AcceptFact x)
  then show ?thesis using assms(2) accept_authorized by simp
qed (use assms(2) in \<open>simp_all add: op_simps\<close>)

section \<open>Repeated commands\<close>

lemma replay_reads:
  assumes run: "reserveCommand env c s = Inr (r, t)" and row: "row \<in> set (lg_commands s)" "same_reservation (reservation_of env c) row"
    and ok: "caused s"
  shows "t = s \<and> (\<exists>result. r = ReplayedResult result)"
  using run ok
proof (cases rule: reserveCommand_effect)
  case first
  then show ?thesis using row by (auto simp: begun_def)
qed simp


lemma proposal_step_replays:
  assumes run: "proposal_step env c ref predecessor action work s = Inr (result, t)" and ok: "caused s"
    and row: "row \<in> set (lg_commands s)" "same_reservation (reservation_of env c) row"
  shows "t = s"
  using ok run
proof (cases rule: proposal_step_cases)
  case (2 subject s1)
  then show ?thesis using row by (auto simp: begun_def)
qed simp

lemma in_transaction_replays:
  assumes run: "executeInTransaction env c p s = Inr (result, t)" and ok: "caused s"
    and row: "row \<in> set (lg_commands s)" "same_reservation (reservation_of env c) row"
  shows "t = s"
proof (cases p)
  case (CreateClaim x)
  then show ?thesis using run replay_reads[OF _ row ok]
    by (auto simp: execute_create_claim_def op_simps dest!: locked_subject_Inr verify_span_Inr)
next
  case (AcceptFact x)
  then show ?thesis using run replay_reads[OF _ row ok]
    by (auto simp: execute_accept_def op_simps dest!: locked_subject_Inr)
next
  case (WithdrawObjective x)
  then show ?thesis using run proposal_step_replays[OF _ ok row] by (simp add: execute_withdraw_def)
next
  case (ReworkObjective x)
  then show ?thesis using run proposal_step_replays[OF _ ok row] by (simp add: execute_rework_def)
next
  case (SupersedeFact x)
  then show ?thesis using run replay_reads[OF _ row ok]
    by (auto simp: executeFactLifecycleInTransaction_def readFactLifecycleReservation_def Let_def op_simps)
next
  case (RevokeFact x)
  then show ?thesis using run replay_reads[OF _ row ok]
    by (auto simp: executeFactLifecycleInTransaction_def readFactLifecycleReservation_def Let_def op_simps)
qed (use run in \<open>simp_all add: op_simps\<close>)

section \<open>The promises\<close>

text \<open>C1: The commands of the truth ledger refine its specification: one call of execute, with any
  received object, caller and environment, keeps the invariant of the ledger and either leaves the
  ledger exactly as it was or takes one step of the specification.\<close>
theorem truth_commands_refine:
  assumes "bus_ok s" "execute env earlier input context s = (t, r)"
  shows "bus_ok t \<and> (t = s \<or> truth_step s t)"
  using execute_bus_ok[OF assms] by blast

text \<open>C2: In every ledger that commands can produce from an empty one there is at most one current fact
  and at most one open primary objective at each coordinate, every fact is supported by accepted
  claims that agree with it, every claim quotes its evidence, and every fact that ended has one
  lifecycle event.\<close>
theorem truth_ledger_invariant:
  assumes "bus_step\<^sup>*\<^sup>* empty_ledger s"
  shows "ledger_ok s \<and> caused s"
  using bus.runs_ok[OF assms empty_bus_ok] by (simp add: bus_ok_def)

text \<open>C3: Over any sequence of commands the rows of the ledger stay in place and are never deleted:
  claims and facts change only by the transitions that the triggers permit, each at most once, and
  spans, attestations, recoveries, support and lifecycle events never change.\<close>
theorem truth_history_is_kept:
  assumes "bus_ok s" "bus_step\<^sup>*\<^sup>* s t"
  shows "ledger_grows s t"
  by (rule bus.runs_below[OF assms(2,1)])

text \<open>C4: A call that changes the ledger adds exactly one completed command record, one audit event and
  one pending notification, all three about the same resource and naming the same command, whose id
  was new; the record holds the response.\<close>
theorem truth_change_is_recorded:
  assumes "bus_ok s" "execute env earlier input context s = (t, r)" "t \<noteq> s"
  shows "\<exists>c result. receipt (reservation_of env c) result s t"
  using execute_bus_ok(2)[OF assms(1,2)] assms(3) by blast

lemma truth_change_authorized:
  assumes "bus_ok s" "execute env earlier input context s = (t, r)" "t \<noteq> s"
  shows "\<exists>command actor spaceId. parseB2Command (be_nfc env) input = Inr command \<and>
    requireHumanActor context = Inr actor \<and> be_role env = APP_ROLE \<and>
    resolveReservationSpace env earlier context (bc_payload command) = Inr spaceId \<and>
    transaction_entered (be_uuid env) (be_tx env) (context\<lparr>sx_requestedSpaceIds := [spaceId]\<rparr>) \<and>
    authorized env (context\<lparr>sx_requestedSpaceIds := [spaceId]\<rparr>) (required_authority (bc_payload command)) s"
  using assms(2)
proof (cases rule: execute_cases)
  case (2 command requestHash actor spaceId result)
  let ?c = "call_of env context actor command requestHash spaceId"
  have c: "ca_payload ?c = bc_payload command" "ca_context ?c = context\<lparr>sx_requestedSpaceIds := [spaceId]\<rparr>"
    by (simp_all add: call_of_def Let_def)
  have "caused s" using assms(1) by (simp add: bus_ok_def)
  from in_transaction_authorized[OF this 2(8) assms(3) c(1)] show ?thesis
    unfolding c(2) using 2(1,4,5,6,7) by blast
qed (use assms(3) in simp)

text \<open>C5: A call changes the ledger only for a human actor, in a transaction that was entered with the
  space of the command under the role of the application, and only after the authorisation service
  allowed the action on its resource with the authority locked, when nothing but the command was
  reserved.\<close>
theorem truth_change_needs_authority:
  assumes "bus_ok s" "execute env earlier input context s = (t, r)" "t \<noteq> s"
  shows "\<exists>command actor spaceId. parseB2Command (be_nfc env) input = Inr command \<and>
    requireHumanActor context = Inr actor \<and> be_role env = APP_ROLE \<and>
    transaction_entered (be_uuid env) (be_tx env) (context\<lparr>sx_requestedSpaceIds := [spaceId]\<rparr>) \<and>
    authorized env (context\<lparr>sx_requestedSpaceIds := [spaceId]\<rparr>) (required_authority (bc_payload command)) s"
  using truth_change_authorized[OF assms] by blast

text \<open>C6: A command acts at most once: after a call that changed the ledger, another call with the same
  received object and caller, in any environment that resolves the same space, changes nothing.\<close>
theorem truth_command_acts_once:
  assumes "bus_ok s" "execute env earlier input context s = (t, r)" "t \<noteq> s"
    and again: "execute env' earlier' input context t = (u, r')" "be_nfc env' = be_nfc env"
    and space: "\<And>command spaceId spaceId'. parseB2Command (be_nfc env) input = Inr command \<Longrightarrow>
      resolveReservationSpace env earlier context (bc_payload command) = Inr spaceId \<Longrightarrow>
      resolveReservationSpace env' earlier' context (bc_payload command) = Inr spaceId' \<Longrightarrow> spaceId' = spaceId"
  shows "u = t"
proof -
  have bt: "bus_ok t" using execute_bus_ok(1)[OF assms(1,2)] .
  show ?thesis
    using again(1)
  proof (cases rule: execute_cases)
    case second: (2 command' requestHash' actor' spaceId' result')
    show ?thesis
      using assms(2)
    proof (cases rule: execute_cases)
      case first: (2 command requestHash actor spaceId result)
      have "Inr command' = (Inr command :: b2_error + b2_command)"
        using first(1) second(1) unfolding again(2) by (metis (no_types))
      then have command: "command' = command" by simp
      have same: "command' = command" "spaceId' = spaceId"
        using space[OF first(1,5)] second(5) unfolding command by simp_all
      let ?c = "call_of env context actor command requestHash spaceId"
      let ?c' = "call_of env' context actor' command' requestHash' spaceId'"
      have "committed env ?c result s t"
        using in_transaction_committed[OF _ _ first(8)] parsed_rework[OF first(1)] assms(1,3) by (auto simp: bus_ok_def)
      then obtain row now safeRequest where row: "row \<in> set (lg_commands t)"
          "cr_identity row = cr_identity (reserved_row now safeRequest (reservation_of env ?c))"
        unfolding committed_def receipt_def Let_def by fastforce
      have "same_reservation (reservation_of env' ?c') row"
        unfolding same_reservation_def row(2) same
        by (simp add: reserved_row_def reservation_of_def call_of_def Let_def)
      then show ?thesis using in_transaction_replays[OF second(8) _ row(1)] bt by (simp add: bus_ok_def)
    qed (use assms(3) in simp)
  qed simp
qed

section \<open>With the authorisation service\<close>

text \<open>
  The truth ledger with its authorisation service. The command bus asks the service inside its
  transaction, with the names of an action and a resource type; here both sides are put together, and
  a command changes the ledger only when the policy over the directory permits it.
\<close>

section \<open>The service as the bus calls it\<close>

definition all_actions :: "auth_action list" where
  "all_actions = [TenantRead, WorkspaceRead, WorkspaceManageMembers, SpaceRead, SpaceCreateChild, SpaceManageAccess,
     IdentityMeRead, MembershipRead, FoundationProofCreate, FoundationRelayPublish, FoundationWorkerConsume,
     ProductRelayPublish] @ b1Actions"

definition all_ref_types :: "ref_type list" where
  "all_ref_types = [RefSpace, RefPerson, RefTeam, RefOrganization, RefInitiative, RefActivity, RefContent, RefTask,
     RefCommitment, RefDecision, RefUseCase, RefReadinessProfile, RefTenant, RefWorkspace, RefUser, RefMembership,
     RefServicePrincipal, RefAgentPrincipal, RefRelationship, RefContentItem, RefSource, RefSourceChunk, RefClaim,
     RefFact, RefDerivedView]"

definition action_named :: "jstr \<Rightarrow> auth_action option" where
  "action_named name = List.find (\<lambda>a. action_name a = name) all_actions"

definition ref_type_named :: "jstr \<Rightarrow> ref_type option" where
  "ref_type_named name = List.find (\<lambda>r. ref_type_name r = name) all_ref_types"

lemma named_Some:
  "action_named name = Some a \<Longrightarrow> action_name a = name" "ref_type_named name = Some r \<Longrightarrow> ref_type_name r = name"
  by (auto simp: action_named_def ref_type_named_def find_Some_iff)

definition truth_options :: "bool \<Rightarrow> bool \<Rightarrow> decision_options" where
  "truth_options lockAuthority factLifecycleReplay =
     no_options\<lparr>ao_lockAuthority := lockAuthority, ao_factLifecycleReplay := factLifecycleReplay\<rparr>"

text \<open>The environment of the decision depends on what the transaction has written so far. A statement that
  does not return makes the driver throw in the end.\<close>

definition service_can ::
  "(ledger \<Rightarrow> auth_env) \<Rightarrow> jsval \<Rightarrow> security_context \<Rightarrow> jstr \<Rightarrow> jstr \<Rightarrow> jstr \<Rightarrow> bool \<Rightarrow> bool \<Rightarrow> ledger \<Rightarrow> jsval + bool" where
  "service_can auth timeout context action resourceType resourceId lockAuthority factLifecycleReplay s =
     (case (action_named action, ref_type_named resourceType) of
        (Some a, Some r) \<Rightarrow>
          (case canInTransaction (auth s) context a \<lparr>rr_type = r, rr_id = resourceId\<rparr>
              (truth_options lockAuthority factLifecycleReplay) new_session of
             Inl (DriverError e) \<Rightarrow> Inl e
           | Inl NeverReturns \<Rightarrow> Inl timeout
           | Inr (decision, _) \<Rightarrow> Inr (de_allowed decision))
      | _ \<Rightarrow> Inr False)"

lemma service_can_True:
  assumes "service_can auth timeout ctx action type i lock replay s = Inr True"
  obtains a r de t where "action_name a = action" "ref_type_name r = type"
    "canInTransaction (auth s) ctx a \<lparr>rr_type = r, rr_id = i\<rparr> (truth_options lock replay) new_session = Inr (de, t)"
    "de_allowed de"
  using assms named_Some
  by (fastforce simp: service_can_def split: option.splits sum.splits read_error.splits prod.splits)

lemma truth_action_names:
  assumes "action_name a = fst (required_authority p)"
  shows "truth_mutation a"
proof -
  have "action_name a = [] \<longleftrightarrow> False" by (cases a) simp_all
  then show ?thesis using assms
    by (cases a; cases p) (simp_all add: truth_mutation_def withdraw_action_def split: if_splits)
qed

lemma truth_options_simps [simp]:
  "ao_lockAuthority (truth_options lock replay) = lock" "ao_factLifecycleReplay (truth_options lock replay) = replay"
  by (simp_all add: truth_options_def no_options_def)

lemma checked_context_same: "checked_context env c = Inr d \<Longrightarrow> d = c"
  by (auto simp: checked_context_def parseContextForDecision_def parseSecurityContext_def Let_def
      split: option.splits if_splits)

text \<open>C7: A call changes the ledger only when its caller is a person with an active membership and the
  policy over the directory permits the change to that person: to propose a claim, the space of the
  subject can be read and contributed to; to accept a fact or end one, the person owns its subject; to
  end a proposal, the person proposed it or owns the initiative. The service was asked with the security
  context of the caller, narrowed to the space that the command was resolved to, when nothing but the
  command was reserved; it allowed, and the permission holds in every snapshot from the decision to the
  end of the transaction.\<close>
theorem truth_change_is_permitted:
  assumes "bus_ok s" "execute env earlier input context s = (t, r)" "t \<noteq> s"
    and "be_can env = service_can auth timeout" "\<And>u. history_ok (auth u)"
  shows "\<exists>command caller spaceId action resource u decision session.
    parseB2Command (be_nfc env) input = Inr command \<and> requireHumanActor context = Inr caller \<and>
    resolveReservationSpace env earlier context (bc_payload command) = Inr spaceId \<and>
    (action_name action, ref_type_name (rr_type resource), rr_id resource) = required_authority (bc_payload command) \<and>
    books_only s u \<and>
    (let ctx = context\<lparr>sx_requestedSpaceIds := [spaceId]\<rparr>
     in checked_context (auth u) ctx = Inr ctx \<and> \<not> given (sx_servicePrincipalId ctx) \<and>
        \<not> given (sx_agentPrincipalId ctx) \<and>
        canInTransaction (auth u) ctx action resource (truth_options True False) new_session = Inr (decision, session) \<and>
        de_allowed decision \<and>
        secured (auth u) session (\<lambda>d. truth_permitted ctx d action resource False))"
proof -
  obtain command caller spaceId where command: "parseB2Command (be_nfc env) input = Inr command"
    "requireHumanActor context = Inr caller"
    "resolveReservationSpace env earlier context (bc_payload command) = Inr spaceId" and
    "authorized env (context\<lparr>sx_requestedSpaceIds := [spaceId]\<rparr>) (required_authority (bc_payload command)) s"
    using truth_change_authorized[OF assms(1-3)] by blast
  let ?ctx = "context\<lparr>sx_requestedSpaceIds := [spaceId]\<rparr>"
  obtain u where u: "books_only s u" "service_can auth timeout ?ctx
      (fst (required_authority (bc_payload command))) (fst (snd (required_authority (bc_payload command))))
      (snd (snd (required_authority (bc_payload command)))) True False u = Inr True"
    using \<open>authorized _ _ _ _\<close> unfolding authorized_def assms(4) by (auto simp: split_beta)
  obtain a rt de session where decided: "action_name a = fst (required_authority (bc_payload command))"
      "ref_type_name rt = fst (snd (required_authority (bc_payload command)))"
      "canInTransaction (auth u) ?ctx a
         \<lparr>rr_type = rt, rr_id = snd (snd (required_authority (bc_payload command)))\<rparr> (truth_options True False) new_session =
         Inr (de, session)" "de_allowed de"
    by (rule service_can_True[OF u(2)])
  let ?resource = "\<lparr>rr_type = rt, rr_id = snd (snd (required_authority (bc_payload command)))\<rparr>"
  obtain d where d: "checked_context (auth u) ?ctx = Inr d" "\<not> given (sx_servicePrincipalId d)"
    "\<not> given (sx_agentPrincipalId d)" "secured (auth u) session (\<lambda>x. truth_permitted d x a ?resource False)"
    using decided_truth[OF decided(3,4) _ _ assms(5) truth_action_names[OF decided(1)]]
    by (auto simp: new_session_def)
  have "d = ?ctx" by (rule checked_context_same[OF d(1)])
  then show ?thesis
    using command u(1) decided d unfolding Let_def
    by (intro exI[of _ command] exI[of _ caller] exI[of _ spaceId] exI[of _ a] exI[of _ ?resource] exI[of _ u]
        exI[of _ de] exI[of _ session] conjI) (simp_all add: prod_eq_iff)
qed

end
