(* ===== verification/Authority_Examples.thy ===== *)
theory Authority_Examples
  imports Quiet_Decisions Principal_Promises
begin

text \<open>
  The authorisation service on a small directory: a member with a contributor grant on a space, a
  project space below it that inherits the grant, an activity that the member owns, and the relay with
  its manager grant. It shows that the hypotheses of the promises hold of decisions that are positive.
\<close>

section \<open>The data\<close>

definition example_actor :: security_context where
  "example_actor = \<lparr>sx_requestId = js ''r'', sx_traceId = replicate 32 97, sx_tenantId = example_id 7,
     sx_workspaceId = example_id 8, sx_actorUserId = Some (example_id 4),
     sx_actorMembershipId = Some (example_id 5), sx_actorDisplayPersonId = Some (example_id 6),
     sx_servicePrincipalId = None, sx_agentPrincipalId = None, sx_delegatedByUserId = None,
     sx_delegatedByMembershipId = None, sx_requestedSpaceIds = [], sx_membershipIds = [], sx_roleHints = [],
     sx_dataClassCeiling = Restricted, sx_policyVersion = js ''v1'', sx_issuedAt = 0, sx_expiresAt = 1\<rparr>"

definition example_relay_context :: security_context where
  "example_relay_context = example_actor\<lparr>sx_actorUserId := None, sx_actorMembershipId := None,
     sx_actorDisplayPersonId := None, sx_servicePrincipalId := Some (example_id 1), sx_requestedSpaceIds := [example_id 9]\<rparr>"

definition example_space :: "nat \<Rightarrow> nat option \<Rightarrow> space_kind \<Rightarrow> space_record" where
  "example_space i parent kind = \<lparr>asp_id = example_id i, asp_tenant_id = example_id 7,
     asp_workspace_id = example_id 8, asp_parent_space_id = map_option example_id parent, asp_kind = kind,
     asp_access_class = Workspace, asp_inheritance_mode = Inherit, asp_archived = False\<rparr>"

definition example_grant :: "nat \<Rightarrow> grant_subject \<Rightarrow> nat \<Rightarrow> grant_relation \<Rightarrow> grant_record" where
  "example_grant i subject j relation = \<lparr>ag_id = example_id i, ag_tenant_id = example_id 7,
     ag_workspace_id = example_id 8, ag_subject_type = subject, ag_subject_id = example_id j,
     ag_relation = relation, ag_resource_id = example_id 9, ag_source = DirectGrant\<rparr>"

definition example_directory :: directory where
  "example_directory = \<lparr>
     dr_tenants = [\<lparr>tn_id = example_id 7, tn_status = ActiveTenant\<rparr>],
     dr_workspaces = [\<lparr>wp_id = example_id 8, wp_tenant_id = example_id 7, wp_status = ActiveWorkspace\<rparr>],
     dr_policies = [\<lparr>pv_id = js ''v1'', pv_tenant_id = example_id 7, pv_workspace_id = example_id 8,
       pv_status = ActivePolicy\<rparr>],
     dr_principals = [\<lparr>sv_id = example_id 1, sv_tenant_id = example_id 7, sv_workspace_id = example_id 8,
       sv_purpose = RelayPurpose, sv_status = ActivePrincipal\<rparr>],
     dr_users = [\<lparr>us_id = example_id 4, us_status = ActiveUser\<rparr>],
     dr_memberships = [\<lparr>mb_id = example_id 5, mb_user_id = example_id 4, mb_tenant_id = example_id 7,
       mb_workspace_id = example_id 8, mb_person_id = Some (example_id 6), mb_role = MemberRole,
       mb_status = ActiveMembership\<rparr>],
     dr_spaces = [example_space 0 None OrganizationSpace, example_space 9 (Some 0) InitiativeSpace,
       example_space 3 (Some 9) ProjectSpace],
     dr_grants = [example_grant 0 MembershipGrant 5 ContributorGrant,
       example_grant 2 ServicePrincipalGrant 1 ManagerGrant],
     dr_organizations = [], dr_initiatives = [],
     dr_activities = [\<lparr>wr_id = example_id 1, wr_tenant_id = example_id 7, wr_workspace_id = example_id 8,
       wr_space_id = example_id 9, wr_owner_person_id = example_id 6\<rparr>],
     dr_relationships = [], dr_content_items = [], dr_revisions = [],
     dr_sources = [\<lparr>ct_id = example_id 2, ct_tenant_id = example_id 7, ct_workspace_id = example_id 8,
       ct_space_id = example_id 9, ct_access_class = Restricted\<rparr>],
     dr_claims = [], dr_facts = [], dr_people = [], dr_attendees = [], dr_contributors = [], dr_references = []\<rparr>"

definition example_auth :: auth_env where
  "example_auth = \<lparr>av_uuid = (\<lambda>_. True), av_message = (\<lambda>_. []), av_collation = (\<lambda>_. []), av_now = 0,
     av_clock = 0, av_later = 0, av_history = (\<lambda>_. Inr example_directory)\<rparr>"

lemma example_id_eq [simp]: "example_id i = example_id j \<longleftrightarrow> i = j"
  by (simp add: example_id_def)

lemma example_undisturbed: "undisturbed example_auth example_directory"
  by (simp add: undisturbed_def example_auth_def)

lemma example_directory_ok: "directory_ok example_directory"
  by (simp add: directory_ok_def example_directory_def example_space_def example_grant_def)

lemma example_acyclic: "acyclic_spaces example_directory"
  unfolding acyclic_spaces_def
  by (rule exI[of _ "\<lambda>i. if i = example_id 0 then 0 else if i = example_id 9 then 1 else 2"])
     (simp add: example_directory_def example_space_def)

lemma example_history_ok: "history_ok example_auth"
  using example_directory_ok by (simp add: history_ok_def example_auth_def)

lemma example_checked:
  "checked_context example_auth (example_actor\<lparr>sx_requestedSpaceIds := [example_id 9]\<rparr>) =
     Inr (example_actor\<lparr>sx_requestedSpaceIds := [example_id 9]\<rparr>)"
  "checked_context example_auth example_relay_context = Inr example_relay_context"
  by (simp_all add: checked_context_def parseContextForDecision_def parseSecurityContext_def context_fields_ok_def
      example_actor_def example_relay_context_def principal_count_def isSecurityContextExpired_def optional_uuid_def
      list_all_iff js_def Let_def example_auth_def)

lemma example_live:
  "set (live_spaces (example_actor\<lparr>sx_requestedSpaceIds := ids\<rparr>) example_directory) =
     {example_space 0 None OrganizationSpace, example_space 9 (Some 0) InitiativeSpace, example_space 3 (Some 9) ProjectSpace}"
  by (simp add: live_spaces_def live_space_def in_scope_def example_directory_def example_space_def example_actor_def)

lemma example_granted:
  "granted (example_actor\<lparr>sx_requestedSpaceIds := ids\<rparr>) example_directory (example_space 9 (Some 0) InitiativeSpace)"
  by (simp add: granted_def example_directory_def example_grant_def example_space_def grants_actor_def id_is_def
      example_actor_def)

lemma example_may_read:
  "may_read (example_actor\<lparr>sx_requestedSpaceIds := ids\<rparr>) example_directory MemberRole (example_id 9)"
  "may_read (example_actor\<lparr>sx_requestedSpaceIds := ids\<rparr>) example_directory MemberRole (example_id 3)"
proof -
  let ?ctx = "example_actor\<lparr>sx_requestedSpaceIds := ids\<rparr>"
  show "may_read ?ctx example_directory MemberRole (example_id 9)"
    using example_granted unfolding may_read_def example_live by (auto simp: example_space_def)
  have "inherits ?ctx example_directory (example_space 3 (Some 9) ProjectSpace) (example_space 9 (Some 0) InitiativeSpace)"
    by (rule inherits.parent) (simp_all add: next_space_def example_live, simp_all add: example_space_def restricted_space_def)
  then show "may_read ?ctx example_directory MemberRole (example_id 3)"
    using example_granted unfolding may_read_def example_live by (auto simp: example_space_def)
qed

lemma example_may_create:
  "truth_permitted (example_actor\<lparr>sx_requestedSpaceIds := ids\<rparr>) example_directory ClaimCreate
     \<lparr>rr_type = RefActivity, rr_id = example_id 1\<rparr> False"
  "truth_permitted (example_actor\<lparr>sx_requestedSpaceIds := ids\<rparr>) example_directory FactAccept
     \<lparr>rr_type = RefActivity, rr_id = example_id 1\<rparr> False"
proof -
  let ?ctx = "example_actor\<lparr>sx_requestedSpaceIds := ids\<rparr>"
  let ?actor = "\<lparr>ac_membershipId = example_id 5, ac_userId = example_id 4, ac_personId = example_id 6, ac_role = MemberRole\<rparr>"
  have policy: "active_policies ?ctx example_directory \<noteq> []"
    by (simp add: active_policies_def example_directory_def in_scope_def example_actor_def)
  have given: "given (Some (example_id i))" for i by (simp add: given_def example_id_def)
  have actor: "current_actor ?ctx example_directory ?actor"
    by (simp add: current_actor_def memberships_of_def example_directory_def id_is_def in_scope_def
        exactHumanAuthorityActor_def member_of_def given example_actor_def)
  have subject: "set (authority_subjects ?ctx ActivitySubject (example_id 1) example_directory) =
      {(\<lparr>wr_id = example_id 1, wr_tenant_id = example_id 7, wr_workspace_id = example_id 8,
       wr_space_id = example_id 9, wr_owner_person_id = example_id 6\<rparr>, example_space 9 (Some 0) InitiativeSpace)}"
    by (auto simp: authority_subjects_def example_directory_def in_scope_def example_space_def example_actor_def)
  have contributes: "contributes ?ctx example_directory MemberRole (example_id 9)"
    by (simp add: contributes_def contribution_grants_def example_directory_def example_grant_def grant_in_scope_def
        in_scope_def grants_actor_def id_is_def CONTRIBUTE_RELATIONS_def example_actor_def)
  have level: "within_ceiling ?ctx Workspace" by (simp add: within_ceiling_def canReadDataClass_def example_actor_def)
  have "may_propose ?ctx example_directory ?actor ActivitySubject (example_id 1)"
    "may_accept ?ctx example_directory ?actor ActivitySubject (example_id 1)"
    using example_may_read(1) contributes level unfolding may_propose_def may_accept_def subject
    by (simp_all add: example_space_def)
  then show "truth_permitted ?ctx example_directory ClaimCreate \<lparr>rr_type = RefActivity, rr_id = example_id 1\<rparr> False"
    "truth_permitted ?ctx example_directory FactAccept \<lparr>rr_type = RefActivity, rr_id = example_id 1\<rparr> False"
    using policy actor unfolding truth_permitted_def may_change_truth_def
    by (auto simp: example_actor_def intro!: exI[of _ ?actor])
qed

section \<open>The promises hold of it\<close>

lemma new_session_undiscovered [simp]: "se_discovery new_session = None"
  by (simp add: new_session_def)

lemma example_canonical [simp]: "i < 10 \<Longrightarrow> uuid_column (example_id i) = example_id i"
  by simp

lemma reads_exactly_witness:
  "\<exists>r t. canReadSpaceResource example_auth example_actor (example_id 3) MemberRole None True new_session = Inr (r, t) \<and>
     rd_allowed r"
  using reads_exactly[OF example_undisturbed example_directory_ok example_acyclic, of "example_id 3" new_session
      example_actor MemberRole True] example_may_read(2)[of "[]"] by (simp add: example_actor_def)

lemma space_read_stays_witness:
  "\<exists>t. secured example_auth t (\<lambda>d. may_read example_actor d MemberRole (example_id 3))"
proof -
  obtain r where "answers (canReadSpaceResource example_auth example_actor (example_id 3) MemberRole None True) r"
      "rd_allowed r \<longleftrightarrow> may_read example_actor example_directory MemberRole (example_id 3)"
    by (rule answers_can_read[OF example_undisturbed example_directory_ok example_acyclic, of "example_id 3"]) simp_all
  moreover have "may_read example_actor example_directory MemberRole (example_id 3)"
    using example_may_read(2)[of "[]"] by (simp add: example_actor_def)
  ultimately obtain t where "canReadSpaceResource example_auth example_actor (example_id 3) MemberRole None True new_session = Inr (r, t)"
      "rd_allowed r"
    unfolding answers_def by force
  from space_read_stays[OF this _ example_history_ok] show ?thesis by auto
qed

lemma space_reading_returns_witness:
  "canReadSpaceResource example_auth example_actor (example_id 3) MemberRole None True new_session \<noteq> Inl NeverReturns"
  by (rule space_reading_returns)
     (simp add: history_acyclic_def example_auth_def example_directory_ok example_acyclic)

abbreviation "example_context \<equiv> example_actor\<lparr>sx_requestedSpaceIds := [example_id 9]\<rparr>"
abbreviation "example_subject_ref \<equiv> \<lparr>rr_type = RefActivity, rr_id = example_id 1\<rparr>"
abbreviation "locking_options \<equiv> no_options\<lparr>ao_lockAuthority := True\<rparr>"

lemma example_human_given:
  "\<not> given (sx_servicePrincipalId example_context)" "\<not> given (sx_agentPrincipalId example_context)"
  by (simp_all add: given_def example_actor_def)

lemma truth_decided_exactly_witness:
  "\<exists>de t. canInTransaction example_auth example_context FactAccept example_subject_ref locking_options new_session = Inr (de, t) \<and>
     de_allowed de"
  using truth_decided_exactly[OF example_undisturbed example_directory_ok example_acyclic _ example_checked(1)
      new_session_undiscovered, of FactAccept example_subject_ref locking_options] example_may_create(2)[of "[example_id 9]"]
    example_human_given
  by (simp add: truth_mutation_def no_options_def)

lemma example_decided:
  assumes "truth_permitted example_context example_directory action resource False" "truth_mutation action"
  obtains de t where "canInTransaction example_auth example_context action resource locking_options new_session = Inr (de, t)"
    "de_allowed de"
proof -
  have "decides (person_decision example_auth example_context action resource locking_options) True"
    using decides_person[OF example_undisturbed example_directory_ok example_acyclic assms(2), of example_context resource locking_options]
      assms(1) example_human_given by (simp add: no_options_def)
  then obtain de t where "person_decision example_auth example_context action resource locking_options new_session = Inr (de, t)"
      "de_allowed de"
    unfolding decides_def answers_def by force
  then show thesis by (intro that) (simp_all add: canInTransaction_def example_checked truth_mutation_person(1)[OF assms(2)])
qed

lemma truth_decision_stays_witness:
  "\<exists>t. secured example_auth t (\<lambda>d. truth_permitted example_context d FactAccept example_subject_ref False)"
proof -
  have action: "truth_mutation FactAccept" by (simp add: truth_mutation_def)
  obtain de t where "canInTransaction example_auth example_context FactAccept example_subject_ref locking_options new_session = Inr (de, t)"
      "de_allowed de"
    by (rule example_decided[OF example_may_create(2) action])
  from truth_decision_stays[OF this _ _ example_history_ok action] show ?thesis
    by (auto simp: example_checked no_options_def)
qed

abbreviation "example_space_ref \<equiv> \<lparr>rr_type = RefSpace, rr_id = example_id 9\<rparr>"

lemma example_given: "given (Some (example_id i))"
  by (simp add: given_def example_id_def)

lemma relay_context_simps [simp]:
  "sx_tenantId example_relay_context = example_id 7" "sx_workspaceId example_relay_context = example_id 8"
  "sx_actorUserId example_relay_context = None" "sx_actorMembershipId example_relay_context = None"
  "sx_servicePrincipalId example_relay_context = Some (example_id 1)" "sx_agentPrincipalId example_relay_context = None"
  "sx_delegatedByUserId example_relay_context = None" "sx_delegatedByMembershipId example_relay_context = None"
  "sx_requestedSpaceIds example_relay_context = [example_id 9]" "sx_policyVersion example_relay_context = js ''v1''"
  by (simp_all add: example_relay_context_def example_actor_def)

lemma example_relay_decided:
  "\<exists>de t. canInTransaction example_auth example_relay_context ProductRelayPublish example_space_ref locking_options new_session =
     Inr (de, t) \<and> de_allowed de"
  unfolding canInTransaction_def example_checked sum.case decideInTransaction_def auth_action.case
    productOutboxRelayPublishDecision_def Let_def
  by (simp add: example_given)
     (simp add: given_def require_row_def op_bind_def op_return_def ask_for_share_def ask_locking_def example_auth_def
       new_session_def example_directory_def tenants_named_def workspaces_named_def active_policies_def principals_named_def
       spaces_named_def live_spaces_def live_space_def direct_space_grants_def in_scope_def example_space_def
       example_grant_def)

lemma principals_decided_witness:
  "\<exists>t. secured example_auth t (\<lambda>d. relay_entitled example_relay_context RelayPurpose d (example_id 9))"
proof -
  obtain de t where "canInTransaction example_auth example_relay_context ProductRelayPublish example_space_ref locking_options
      new_session = Inr (de, t)" "de_allowed de" using example_relay_decided by blast
  from principals_decided[OF this] have "secured example_auth t (\<lambda>d. relay_entitled example_relay_context RelayPurpose d (example_id 9))"
    using example_given by (simp add: example_checked)
  then show ?thesis by blast
qed

end
