(* ===== verification/Truth_Examples.thy ===== *)
theory Truth_Examples
  imports  Truth_Promises Authority_Examples B2_Identity Span_Promises
begin

text \<open>
  One call of the command bus on concrete data, from the received object to the changed ledger: the
  command \<open>claim.create\<close> of \<open>B2_Identity\<close> in an empty ledger, with a database that holds the activity,
  the source and the chunk it quotes. It shows that the hypotheses of the promises of the truth
  ledger hold of a call that commits.
\<close>

declare example_scalars(3) [simp del]

section \<open>The data\<close>

definition example_world :: world where
  "example_world = \<lparr>
     wd_subjects = [\<lparr>wk_type = ActivitySubject, wk_id = example_id 1, wk_tenant_id = example_id 7,
       wk_workspace_id = example_id 8, wk_space_id = example_id 9, wk_version = 1,
       wk_governing_initiative_id = None\<rparr>],
     wd_spaces = [\<lparr>ws_id = example_id 9, ws_tenant_id = example_id 7, ws_workspace_id = example_id 8,
       ws_access_class = Workspace, ws_archived = False\<rparr>],
     wd_sources = [\<lparr>sa_id = example_id 2, sa_tenant_id = example_id 7, sa_workspace_id = example_id 8,
       sa_space_id = example_id 9, sa_access_class = Restricted, sa_version = 1, sa_deleted_at = None,
       sa_immutable_text = Some (js ''ab''), sa_content_hash = Some (replicate 64 97),
       sa_normalized_content_hash = Some (replicate 64 97),
       sa_normalization_version = SOURCE_NORMALIZATION_VERSION, sa_chunking_version = SOURCE_CHUNKING_VERSION,
       sa_supersedes_source_id = None\<rparr>],
     wd_activity_sources = [\<lparr>ax_tenant_id = example_id 7, ax_workspace_id = example_id 8,
       ax_space_id = example_id 9, ax_source_artifact_id = example_id 2, ax_activity_id = example_id 1\<rparr>],
     wd_chunks = [\<lparr>wc_id = example_id 3, wc_tenant_id = example_id 7, wc_workspace_id = example_id 8,
       wc_source_artifact_id = example_id 2, wc_space_id = example_id 9,
       wc_normalization_version = SOURCE_NORMALIZATION_VERSION,
       wc_chunking_version = SOURCE_CHUNKING_VERSION, wc_chunk_index = 0, wc_start_offset = 0,
       wc_end_offset = 2, wc_normalized_text = js ''ab'', wc_content_hash = replicate 64 97,
       wc_access_class = Public\<rparr>],
     wd_principals = [\<lparr>pr_id = example_id 0, pr_tenant_id = example_id 7, pr_workspace_id = example_id 8,
       pr_purpose = js ''product_notification_relay'', pr_status = js ''active''\<rparr>],
     wd_grants = [\<lparr>gr_tenant_id = example_id 7, gr_workspace_id = example_id 8,
       gr_subject_type = js ''service_principal'', gr_subject_id = example_id 0, gr_relation = js ''manager'',
       gr_resource_type = js ''space'', gr_resource_id = example_id 9\<rparr>],
     wd_current_user = example_id 4\<rparr>"

definition example_env :: bus_env where
  "example_env = \<lparr>be_uuid = (\<lambda>_. True), be_nfc = (\<lambda>s. s), be_sha256 = (\<lambda>_. replicate 64 97),
     be_instant = (\<lambda>_. 0), be_now = 0, be_clock = 0,
     be_random = (\<lambda>k. replicate 15 0 @ [word_of_nat k]), be_millisecond = (\<lambda>_. 0),
     be_reservation_world = example_world, be_world = example_world, be_locked_world = example_world,
     be_can = service_can (\<lambda>_. example_auth) JUndef, be_role = APP_ROLE, be_reservation_tx = quiet 0, be_tx = quiet 0\<rparr>"

abbreviation create_command :: b2_command where
  "create_command \<equiv> example_command (js ''ab'') (IntNum 0)"

definition create_call :: call where
  "create_call = call_of example_env example_actor
     \<lparr>ha_userId = example_id 4, ha_membershipId = example_id 5, ha_displayPersonId = example_id 6\<rparr>
     create_command (replicate 64 97) (example_id 9)"

lemma example_env_simps [simp]:
  "be_uuid example_env = (\<lambda>_. True)" "be_nfc example_env = (\<lambda>s. s)"
  "be_sha256 example_env = (\<lambda>_. replicate 64 97)" "be_instant example_env = (\<lambda>_. 0)"
  "be_clock example_env = 0" "be_world example_env = example_world"
  "be_reservation_world example_env = example_world"
  "be_can example_env = service_can (\<lambda>_. example_auth) JUndef" "be_role example_env = APP_ROLE"
  "be_reservation_tx example_env = quiet 0" "be_tx example_env = quiet 0"
  by (simp_all add: example_env_def)

lemma fresh_example [simp]: "uuid_v7 (fresh_id example_env k)"
  by (simp add: fresh_id_def generated_uuid_v7 example_env_def)

lemma create_call_simps [simp]:
  "ca_context create_call = example_actor \<lparr>sx_requestedSpaceIds := [example_id 9]\<rparr>"
  "ca_payload create_call = CreateClaim (example_claim (IntNum 0))"
  "ca_requestHash create_call = replicate 64 97" "ca_reservationSpaceId create_call = example_id 9"
  "ca_idempotencyKey create_call = js ''ab''"
  "ca_traceparent create_call = [48, 48, 45] @ replicate 32 97 @ [45] @ replicate 16 97 @ [45, 48, 49]"
  by (simp_all add: create_call_def call_of_def Let_def example_command_def traceparentFor_def example_actor_def
      zeros_def hex_digest_def is_hex_def list_all_length is_lower_hex_def lower_ascii_def lower_ascii_unit_def js_def)

section \<open>The authority\<close>

lemma names_found:
  "action_named (js ''claim.create'') = Some ClaimCreate" "action_named (js ''source.read'') = Some SourceRead"
  "ref_type_named (js ''activity'') = Some RefActivity" "ref_type_named (js ''source'') = Some RefSource"
  by (simp_all add: action_named_def all_actions_def b1Actions_def ref_type_named_def all_ref_types_def)

lemma example_can_create:
  "service_can (\<lambda>_. example_auth) JUndef example_context (js ''claim.create'') (js ''activity'') (example_id 1) True False s = Inr True"
proof -
  have action: "truth_mutation ClaimCreate" by (simp add: truth_mutation_def)
  obtain de t where "canInTransaction example_auth example_context ClaimCreate example_subject_ref locking_options new_session = Inr (de, t)"
      "de_allowed de"
    by (rule example_decided[OF example_may_create(1) action])
  then show ?thesis by (simp add: service_can_def names_found truth_options_def no_options_def)
qed

lemma example_source_scope:
  "first_row (scoped_in example_context (example_id 2) (table_rows SourceArtifacts example_directory) example_directory) =
     Some (example_id 9, Restricted)"
  by (simp add: scoped_in_def example_directory_def in_scope_def example_space_def example_actor_def greatest_class_def
      max_def less_eq_access_class_def)

lemma example_source_decision:
  "decides (b1Decision example_auth example_context MemberRole SourceRead \<lparr>rr_type = RefSource, rr_id = example_id 2\<rparr>
     (truth_options True False) m) True"
proof -
  let ?ref = "\<lparr>rr_type = RefSource, rr_id = example_id 2\<rparr>"
  obtain r where read: "answers (canReadSpaceResource example_auth example_context (example_id 9) MemberRole None True) r"
      "rd_allowed r"
    using answers_can_read[OF example_undisturbed example_directory_ok example_acyclic, of "example_id 9" example_context MemberRole True]
      example_may_read(1) by auto
  have scope: "answers (b1_scope example_auth example_context SourceRead ?ref (truth_options True False)) (Some (example_id 9, Restricted))"
    using answers_ask[OF example_undisturbed, of "\<lambda>d. first_row (scoped_in example_context (example_id 2) (table_rows SourceArtifacts d) d)"]
    unfolding example_source_scope by (simp add: b1_scope_def createActions_def loadB1ResourceScope_def)
  have "\<not> (example_id 9 = [] \<or> \<not> canReadDataClass (sx_dataClassCeiling example_context) Restricted)"
    by (simp add: example_id_def canReadDataClass_def example_actor_def)
  note level = this
  let ?rest = "\<lambda>scope. case scope of None \<Rightarrow> not_available example_context
    | Some (spaceId, accessClass) \<Rightarrow>
        if spaceId = [] \<or> \<not> canReadDataClass (sx_dataClassCeiling example_context) accessClass
        then not_available example_context
        else op_bind (canReadSpaceResource example_auth example_context spaceId MemberRole None True) (\<lambda>readable.
          if \<not> rd_allowed readable then not_available example_context
          else op_return (allow (sx_policyVersion example_context) (js ''b1_resource_read'') None
            (Some (rd_authorityTokens readable))))"
  have "decides (?rest (Some (example_id 9, Restricted))) True"
    unfolding option.case prod.case if_not_P[OF level] by (rule decides_bind[OF read(1)]) (simp add: read(2))
  then have "decides (op_bind (b1_scope example_auth example_context SourceRead ?ref (truth_options True False)) ?rest) True"
    by (rule decides_bind[OF scope])
  then show ?thesis
    by (simp add: b1Decision_def truth_mutation_def readActions_def explained_def truth_options_def no_options_def
        cong: option.case_cong prod.case_cong if_cong)
qed

lemma example_can_read_source:
  "service_can (\<lambda>_. example_auth) JUndef example_context (js ''source.read'') (js ''source'') (example_id 2) True False s = Inr True"
proof -
  let ?ref = "\<lparr>rr_type = RefSource, rr_id = example_id 2\<rparr>"
  let ?member = "\<lparr>mv_membership_id = example_id 5, mv_user_id = example_id 4, mv_person_id = Some (example_id 6),
     mv_role = MemberRole, mv_membership_status = ActiveMembership, mv_user_status = ActiveUser\<rparr>"
  have policies: "active_policies example_context example_directory \<noteq> []"
    by (simp add: active_policies_def example_directory_def in_scope_def example_actor_def)
  have policy: "answers (loadActivePolicyVersion example_auth example_context True) True"
    using answers_for_share[OF example_undisturbed, of True "active_policies example_context" policy_locks] policies
    unfolding answers_def loadActivePolicyVersion_Inr by blast
  have member: "answers (loadActiveMembership example_auth example_context True) (Some ?member)"
    unfolding loadActiveMembership_def
    by (rule answers_bind[OF answers_for_share[OF example_undisturbed]])
       (simp add: memberships_of_def example_directory_def id_is_def in_scope_def member_of_def first_row_def
          example_actor_def answers_return)
  have "decides (person_decision example_auth example_context SourceRead ?ref (truth_options True False)) True"
    unfolding person_decision_def
    by (rule decides_bind[OF policy])
       (use example_human_given decides_bind[OF member] example_source_decision in
         \<open>simp add: membership_active_def b1Actions_def\<close>)
  then obtain de t where "person_decision example_auth example_context SourceRead ?ref (truth_options True False) new_session = Inr (de, t)"
      "de_allowed de"
    unfolding decides_def answers_def by (force simp: new_session_def)
  then show ?thesis
    by (simp add: service_can_def names_found canInTransaction_def example_checked decideInTransaction_def)
qed

section \<open>The steps\<close>

lemma example_parses: "parseB2Command (\<lambda>s. s) (command_value create_command) = Inr create_command"
  by (rule parse_example_command) (simp_all add: max_safe_integer_def)

lemma example_hashes:
  "hashB2CommandIdentity (\<lambda>s. s) (\<lambda>_. replicate 64 97) (command_value create_command) = Inr (replicate 64 97)"
  using parsed_identity_hash[OF example_parses]
  by (simp add: example_command_def example_claim_def example_evidence_def)

lemma example_enters:
  "transaction_entered (\<lambda>_. True) (quiet 0) (example_actor \<lparr>sx_requestedSpaceIds := ids\<rparr>)"
  "transaction_entered (\<lambda>_. True) (quiet 0) example_actor"
  by (simp_all add: transaction_entered_def parseSecurityContext_def context_fields_ok_def example_actor_def
      principal_count_def isSecurityContextExpired_def optional_uuid_def list_all_iff js_def Let_def)

lemma example_space:
  "resolveReservationSpace example_env s example_actor (CreateClaim (example_claim (IntNum 0))) = Inr (example_id 9)"
proof -
  have "withTenantTransaction (\<lambda>_. True) ThrownError (quiet 0) example_actor
      (run (op_bind (op_lift (assertApplicationRole example_env))
        (\<lambda>_. reservation_body example_env example_actor (CreateClaim (example_claim (IntNum 0)))))) s =
      (s, Inr (example_id 9))"
    by (rule withTenantTransaction_cleared[OF example_enters(2)])
       (auto simp: run_Inr_iff op_simps assertApplicationRole_def example_world_def example_claim_def
          subject_named_def example_actor_def)
  then show ?thesis by (simp add: resolveReservationSpace_def)
qed

definition example_subject :: subject_scope where
  "example_subject = \<lparr>ss_subjectType = ActivitySubject, ss_subjectId = example_id 1, ss_spaceId = example_id 9,
     ss_accessClass = Workspace, ss_version = 1\<rparr>"

lemma example_subject_space: "ss_spaceId example_subject = example_id 9"
  by (simp add: example_subject_def)

lemma example_subject_scope:
  "getSubjectScope example_world (example_id 7) (example_id 8) ActivitySubject (example_id 1) = Inr example_subject"
  by (simp add: getSubjectScope_def example_world_def subject_named_def space_of_def example_subject_def)

lemma example_locks:
  "locked_subject example_env create_call (cc_subject (example_claim (IntNum 0))) s = Inr (example_subject, s)"
  using example_subject_scope
  by (simp add: locked_subject_def op_simps example_claim_def example_actor_def) (simp add: example_subject_def)

lemma example_finds:
  "getAuthorizedClaimEvidenceSnapshot example_world \<lparr>lq_tenantId = example_id 7, lq_workspaceId = example_id 8,
     lq_subjectType = ActivitySubject, lq_subjectId = example_id 1, lq_sourceArtifactId = example_id 2,
     lq_sourceChunkId = example_id 3\<rparr> = Inr (Some example_snapshot)"
  using example_subject_scope
  by (simp add: getAuthorizedClaimEvidenceSnapshot_def)
     (simp add: source_lookup_def source_chunks_def successor_sources_def evidence_snapshot_of_def
        source_snapshot_of_def chunk_snapshot_of_def example_world_def example_snapshot_def example_subject_def
        scoped_source_def linked_activity_def space_of_source_def Span_Promises.example_hash_def)

lemma example_verifies:
  obtains vs where "verify_span example_env example_world create_call (cc_subject (example_claim (IntNum 0)))
      (cc_evidence (example_claim (IntNum 0))) s = Inr (vs, s)" "vs_spaceId vs = example_id 9"
proof -
  obtain vs where vs: "verifySnapshot (\<lambda>s. s) (\<lambda>b. Span_Promises.example_hash) example_snapshot (example_id 7)
      (example_id 8) \<lparr>sr_type = ActivitySubject, sr_id = example_id 1, sr_expectedVersion = 1\<rparr>
      (example_evidence (IntNum 0)) = Some vs"
    using verify_example by (auto simp: example_evidence_def Span_Promises.example_hash_def)
  have "vs_spaceId vs = sn_spaceId example_snapshot" by (rule verifySnapshot_parts[OF vs])
  then have space: "vs_spaceId vs = example_id 9" by (simp add: example_snapshot_def)
  have candidate: "JObj (object_of [(''subject'', subject_value (cc_subject (example_claim (IntNum 0)))),
      (''evidence'', evidence_value (cc_evidence (example_claim (IntNum 0))))]) = example_candidate"
    by (simp add: example_candidate_def example_claim_def example_evidence_def Span_Promises.example_hash_def)
  show thesis
  proof (rule that[OF _ space])
    show "verify_span example_env example_world create_call (cc_subject (example_claim (IntNum 0)))
        (cc_evidence (example_claim (IntNum 0))) s = Inr (vs, s)"
      using vs parse_example_candidate example_finds unfolding verify_span_def candidate
      by (simp add: op_simps new_admission_def admit_def example_actor_def canonical_uuid_v7
          example_evidence_def Span_Promises.example_hash_def)
  qed
qed

abbreviation "create_reservation \<equiv> reservation_of example_env create_call"

lemma example_request: "\<exists>v. safeRequestForCommand (\<lambda>_. replicate 64 97) (CreateClaim (example_claim (IntNum 0))) = Some v \<and>
    json_column v = Some (json_clone v)"
proof -
  have "jsonable (JObj (object_of (subject_entries (cc_subject (example_claim (IntNum 0))) @
      evidence_entries (\<lambda>_. replicate 64 97) ActivityOutcome (js ''ab'') (example_evidence (IntNum 0)) False)))"
    by (simp add: subject_entries_def evidence_entries_def example_claim_def example_evidence_def max_safe_integer_def)
  then show ?thesis
    by (simp add: example_claim_def json_column_def jsonable_def)
qed

lemma example_reserves:
  obtains sr where "reserveCommand example_env create_call empty_ledger =
    Inr (FreshCommand (fresh_id example_env command_draw),
      empty_ledger \<lparr>lg_commands := [reserved_row 0 sr create_reservation]\<rparr>)"
proof -
  obtain v where v: "safeRequestForCommand (\<lambda>_. replicate 64 97) (CreateClaim (example_claim (IntNum 0))) = Some v"
      "json_column v = Some (json_clone v)" using example_request by blast
  have i: "ri_safeRequest create_reservation = Some v" "validateReservationInput create_reservation"
      "ri_id create_reservation = fresh_id example_env command_draw"
    using v(1) sha256_hex_example
    by (simp_all add: reservation_of_def Let_def validateReservationInput_def example_actor_def)
  have "reserve 0 create_reservation [] = Inr (Reserved (fresh_id example_env command_draw),
      [reserved_row 0 (Some (json_clone v)) create_reservation])"
    using i v(2) by (simp add: reserve_def op_simps)
  then show thesis
    by (intro that[of "Some (json_clone v)"])
       (simp add: reserveCommand_def op_simps empty_ledger_def)
qed

abbreviation create_detail :: "(string \<times> jsval) list" where
  "create_detail \<equiv> [(''claimId'', JStr (fresh_id example_env resource_draw)),
     (''evidenceSpanId'', JStr (fresh_id example_env span_draw))]"

lemma example_change:
  "create_change example_env (example_claim (IntNum 0)) spaceId =
     \<lparr>ce_spaceId = spaceId, ce_action = AuditClaimCreate, ce_resourceType = js ''claim'',
      ce_resourceId = fresh_id example_env resource_draw, ce_eventType = ClaimProposed,
      ce_aggregateType = js ''claim'', ce_aggregateVersion = 1, ce_detail = create_detail\<rparr>"
  by (simp add: create_change_def create_attestation_def example_claim_def opt_entry_def)

lemma example_audits:
  obtains row where "audit_insert_event (audit_of example_env create_call commandId
      (create_change example_env (example_claim (IntNum 0)) spaceId)) [] = Inr ((), [row])"
proof -
  let ?d = "JObj (object_of create_detail)"
  have "jsonable ?d" by simp
  then obtain t where "canonicalJsonStringify ?d = Some t" unfolding jsonable_def by blast
  moreover have "parseProductAuditSafeDetail AuditClaimCreate (js ''claim'') (fresh_id example_env resource_draw) 1 ?d =
      Some ?d"
    by (simp add: parseProductAuditSafeDetail_def PRODUCT_AUDIT_SCHEMA_VERSION_def requireResourceType_def
        claimCreateDetail_def bind_Some_iff opt_entry_def)
  ultimately show thesis
    by (intro that) (simp add: audit_insert_event_def audit_of_def Let_def example_change op_simps
        del: canonicalJsonStringify.simps)
qed

definition create_envelope :: envelope where
  "create_envelope = \<lparr>en_eventId = fresh_id example_env event_draw, en_eventType = ClaimProposed,
     en_tenantId = example_id 7, en_workspaceId = example_id 8, en_spaceId = example_id 9,
     en_aggregateId = fresh_id example_env resource_draw, en_aggregateVersion = 1,
     en_causationCommandId = fresh_id example_env command_draw,
     en_payload = ClaimPayload (fresh_id example_env resource_draw) (fresh_id example_env span_draw) None,
     en_requestId = js ''r'', en_traceparent = ca_traceparent create_call, en_tracestate = None\<rparr>"

lemma example_envelope_of: "envelope_of example_env create_call (fresh_id example_env command_draw)
    (create_change example_env (example_claim (IntNum 0)) (example_id 9)) = envelope_value create_envelope"
  by (simp add: envelope_of_def Let_def example_change envelope_value_def create_envelope_def example_actor_def opt_entry_def)

lemma create_envelope_version: "\<not> MAX_INTEGER < en_aggregateVersion create_envelope"
  by (simp add: create_envelope_def MAX_INTEGER_def)

lemma create_envelope_parses: "parseDomainNotificationEnvelope (envelope_value create_envelope) = Some create_envelope"
proof (rule parse_envelope_of_wf)
  let ?t = "[48, 48, 45] @ replicate 32 97 @ [45] @ replicate 16 97 @ [45, 48, 49]"
  have "parse_event_payload ClaimProposed (fresh_id example_env resource_draw) (JObj (object_of create_detail)) =
      Some (ClaimPayload (fresh_id example_env resource_draw) (fresh_id example_env span_draw) None)"
    by (simp add: parseClaimPayload_def bind_Some_iff)
  moreover have "traceparent_ok ?t"
    by (simp add: traceparent_ok_def traceparent_pattern_def units_def eval_nat_numeral is_lower_hex_def is_digit_def)
  moreover have "bounded_string 200 (js ''r'')"
    by (simp add: bounded_string_def hasControlCharacters_def js_def)
  ultimately show "wf_envelope create_envelope"
    by (simp add: wf_envelope_def create_envelope_def max_safe_integer_def opt_entry_def
        del: parse_event_payload.simps)
qed

lemma example_announces:
  assumes "lg_outbox s = []"
  obtains row where "insert_outbox 0 \<lparr>oi_envelope = envelope_value create_envelope,
    oi_relayServicePrincipalId = relay, oi_policyVersionId = policy\<rparr> s = Inr ((), s\<lparr>lg_outbox := [row]\<rparr>)"
  using assms serialize_parsed[OF create_envelope_parses] create_envelope_version
  by (intro that) (auto simp: insert_outbox_def insertOrReplay_def create_envelope_parses Let_def)

lemma example_relay: "relayPrincipalForSpace example_world (example_id 7) (example_id 8) (example_id 9) = Inr (example_id 0)"
  by (simp add: relayPrincipalForSpace_def relays_space_def example_world_def)

lemma example_records:
  assumes "lg_audit s = []" "lg_outbox s = []"
  obtains a e where "writeAuditAndOutbox example_env create_call (fresh_id example_env command_draw)
      (create_change example_env (example_claim (IntNum 0)) (example_id 9)) s =
    Inr ((), s\<lparr>lg_audit := [a], lg_outbox := [e]\<rparr>)"
proof -
  obtain a where a: "audit_insert_event (audit_of example_env create_call (fresh_id example_env command_draw)
      (create_change example_env (example_claim (IntNum 0)) (example_id 9))) [] = Inr ((), [a])"
    by (rule example_audits)
  obtain e where "insert_outbox 0 \<lparr>oi_envelope = envelope_value create_envelope,
      oi_relayServicePrincipalId = example_id 0, oi_policyVersionId = js ''v1''\<rparr> (s\<lparr>lg_audit := [a]\<rparr>) =
      Inr ((), s\<lparr>lg_audit := [a], lg_outbox := [e]\<rparr>)"
    using example_announces[of "s\<lparr>lg_audit := [a]\<rparr>"] assms(2) by auto
  then show thesis
    using a example_relay assms(1)
    by (intro that[of e a])
       (simp add: writeAuditAndOutbox_def op_simps example_envelope_of,
        simp add: example_change example_actor_def)
qed

lemma example_completes:
  assumes "lg_commands s = [reserved_row 0 sr create_reservation]"
  obtains row where "completeCommand example_env create_call (fresh_id example_env command_draw) (js ''claim'')
      (fresh_id example_env resource_draw) (ClaimCreated (fresh_id example_env resource_draw)
        (Some (fresh_id example_env span_draw)) None) s = Inr ((), s\<lparr>lg_commands := [row]\<rparr>)"
proof -
  let ?r = "ClaimCreated (fresh_id example_env resource_draw) (Some (fresh_id example_env span_draw)) None"
  let ?k = "completion_of create_call (fresh_id example_env command_draw) (js ''claim'')
      (fresh_id example_env resource_draw) ?r"
  have "jsonable (result_value ?r)" by (simp add: max_safe_integer_def opt_entry_def str_def)
  then have "response_column (ki_safeResponse ?k) \<noteq> None"
    by (simp add: response_column_def completion_of_def json_column_def jsonable_def)
  then obtain v where v: "response_column (ki_safeResponse ?k) = Some v" by blast
  have "completes ?k (reserved_row 0 sr create_reservation)"
    by (simp add: completes_def completion_of_def reserved_row_def reservation_of_def Let_def example_actor_def)
  then have "complete 0 ?k [reserved_row 0 sr create_reservation] =
      Inr (completed_of (completed_row 0 v ?k (reserved_row 0 sr create_reservation)) 0,
        [completed_row 0 v ?k (reserved_row 0 sr create_reservation)])"
    using v by (simp add: complete_def op_simps) (simp add: completion_of_def)
  then show thesis using assms by (intro that) (simp add: completeCommand_def op_simps)
qed

lemma example_inserts:
  assumes "lg_spans s = []" "lg_claims s = []"
  obtains sp c where "insertEvidenceAndClaim (\<lambda>_. replicate 64 97) (\<lambda>_. 0) 0
      (claim_insert_of example_env create_call commandId None (cc_assertion (example_claim (IntNum 0)))
         confidence validFrom validTo observedAt verified) s =
    Inr ((), s\<lparr>lg_spans := [sp], lg_claims := [c]\<rparr>)"
  using assms
  by (intro that, cases s) (simp add: insertEvidenceAndClaim_def op_simps claim_insert_of_def example_claim_def)

section \<open>The run\<close>

lemma example_works:
  obtains sp c a e k where "create_claim_work example_env create_call (example_claim (IntNum 0)) example_subject vs
      (fresh_id example_env command_draw) (empty_ledger \<lparr>lg_commands := [reserved_row 0 sr create_reservation]\<rparr>) =
    Inr (ClaimCreated (fresh_id example_env resource_draw) (Some (fresh_id example_env span_draw)) None,
      empty_ledger \<lparr>lg_spans := [sp], lg_claims := [c], lg_audit := [a], lg_outbox := [e], lg_commands := [k]\<rparr>)"
proof -
  let ?s = "empty_ledger \<lparr>lg_commands := [reserved_row 0 sr create_reservation]\<rparr>"
  have attestation: "create_attestation example_env (example_claim (IntNum 0)) = None"
    by (simp add: create_attestation_def example_claim_def)
  have slot: "proposal_slot example_env create_call (example_claim (IntNum 0)) example_subject s = Inr ((), s)" for s
  proof -
    have "requireEnum predicate_string B2_TRUTH_PREDICATES (JStr (js ''activity.outcome'')) = Some ActivityOutcome"
      by (simp add: requireEnum_Some_iff B2_TRUTH_PREDICATES_def)
    then have "resolvePredicateDefinition (\<lambda>s. s) (JStr (js ''activity.outcome'')) (JStr (js ''activity'')) =
        Some (registry (\<lambda>s. s) ActivityOutcome)"
      by (simp add: resolvePredicateDefinition_def)
    then show ?thesis by (simp add: proposal_slot_def op_simps example_claim_def)
  qed
  obtain sp c where insert: "insertEvidenceAndClaim (\<lambda>_. replicate 64 97) (\<lambda>_. 0) 0
      (claim_insert_of example_env create_call (fresh_id example_env command_draw) None
        (cc_assertion (example_claim (IntNum 0))) (cc_confidence (example_claim (IntNum 0)))
        (cc_validFrom (example_claim (IntNum 0))) (cc_validTo (example_claim (IntNum 0)))
        (cc_observedAt (example_claim (IntNum 0))) vs) ?s = Inr ((), ?s\<lparr>lg_spans := [sp], lg_claims := [c]\<rparr>)"
    by (rule example_inserts[of ?s]) (simp_all add: empty_ledger_def)
  obtain a e where both: "writeAuditAndOutbox example_env create_call (fresh_id example_env command_draw)
      (create_change example_env (example_claim (IntNum 0)) (example_id 9)) (?s\<lparr>lg_spans := [sp], lg_claims := [c]\<rparr>) =
    Inr ((), ?s\<lparr>lg_spans := [sp], lg_claims := [c], lg_audit := [a], lg_outbox := [e]\<rparr>)"
    by (rule example_records[of "?s\<lparr>lg_spans := [sp], lg_claims := [c]\<rparr>"]) (simp_all add: empty_ledger_def)
  obtain k where finish: "completeCommand example_env create_call (fresh_id example_env command_draw) (js ''claim'')
      (fresh_id example_env resource_draw) (ClaimCreated (fresh_id example_env resource_draw)
        (Some (fresh_id example_env span_draw)) None)
      (?s\<lparr>lg_spans := [sp], lg_claims := [c], lg_audit := [a], lg_outbox := [e]\<rparr>) =
    Inr ((), ?s\<lparr>lg_spans := [sp], lg_claims := [c], lg_audit := [a], lg_outbox := [e], lg_commands := [k]\<rparr>)"
    by (rule example_completes[of "?s\<lparr>lg_spans := [sp], lg_claims := [c], lg_audit := [a], lg_outbox := [e]\<rparr>"]) simp_all
  show thesis
    using insert both finish
    by (intro that[of k e a c sp])
       (simp add: create_claim_work_def op_simps slot attestation Let_def example_subject_space)
qed

lemma example_call:
  "call_of example_env example_actor \<lparr>ha_userId = example_id 4, ha_membershipId = example_id 5,
     ha_displayPersonId = example_id 6\<rparr> create_command (replicate 64 97) (example_id 9) = create_call"
  by (simp add: create_call_def)

lemma example_human: "requireHumanActor example_actor = Inr \<lparr>ha_userId = example_id 4,
    ha_membershipId = example_id 5, ha_displayPersonId = example_id 6\<rparr>"
  by (simp add: requireHumanActor_def example_actor_def present_def example_id_def js_def)

lemma example_run:
  obtains t r where "execute example_env s0 (command_value create_command) example_actor empty_ledger = (t, r)"
    "t \<noteq> empty_ledger" "lg_claims t \<noteq> []"
proof -
  obtain vs where vs: "verify_span example_env example_world create_call (cc_subject (example_claim (IntNum 0)))
      (cc_evidence (example_claim (IntNum 0))) empty_ledger = Inr (vs, empty_ledger)" "vs_spaceId vs = example_id 9"
    by (rule example_verifies)
  obtain sr where reserve: "reserveCommand example_env create_call empty_ledger =
      Inr (FreshCommand (fresh_id example_env command_draw),
        empty_ledger \<lparr>lg_commands := [reserved_row 0 sr create_reservation]\<rparr>)" by (rule example_reserves)
  let ?r = "ClaimCreated (fresh_id example_env resource_draw) (Some (fresh_id example_env span_draw)) None"
  obtain sp c a e k where work: "create_claim_work example_env create_call (example_claim (IntNum 0)) example_subject vs
      (fresh_id example_env command_draw) (empty_ledger \<lparr>lg_commands := [reserved_row 0 sr create_reservation]\<rparr>) =
    Inr (?r, empty_ledger \<lparr>lg_spans := [sp], lg_claims := [c], lg_audit := [a], lg_outbox := [e], lg_commands := [k]\<rparr>)"
    by (rule example_works)
  let ?t = "empty_ledger \<lparr>lg_spans := [sp], lg_claims := [c], lg_audit := [a], lg_outbox := [e], lg_commands := [k]\<rparr>"
  have "execute_create_claim example_env create_call (example_claim (IntNum 0)) empty_ledger = Inr (?r, ?t)"
    using example_locks[of empty_ledger] vs reserve work example_can_create example_can_read_source
    by (simp add: execute_create_claim_def op_simps example_subject_space example_claim_def example_evidence_def)
  then have body: "run (mutation_body example_env create_call) empty_ledger = (?t, Inr ?r)"
    by (simp add: run_Inr_iff mutation_body_def op_simps assertApplicationRole_def)
  have transaction: "withTenantTransaction (\<lambda>_. True) ThrownError (quiet 0) (ca_context create_call)
      (run (mutation_body example_env create_call)) empty_ledger = (?t, Inr ?r)"
    by (rule withTenantTransaction_cleared) (simp_all add: example_enters(1) body)
  have payload: "bc_payload create_command = CreateClaim (example_claim (IntNum 0))"
    by (simp add: example_command_def)
  have "fst (execute example_env s0 (command_value create_command) example_actor empty_ledger) = ?t"
    using example_parses example_hashes transaction
    by (simp add: execute_def execute_command_def payload example_space example_human example_call Let_def
        del: create_call_simps)
  then show thesis by (intro that[of ?t]) (auto simp: empty_ledger_def prod_eq_iff)
qed

section \<open>The promises hold of it\<close>

abbreviation create_input :: jsval where
  "create_input \<equiv> command_value create_command"

lemma truth_commands_refine_witness:
  "\<exists>t r. execute example_env empty_ledger create_input example_actor empty_ledger = (t, r) \<and>
     truth_step empty_ledger t \<and> lg_claims t \<noteq> []"
proof -
  obtain t r where "execute example_env empty_ledger create_input example_actor empty_ledger = (t, r)"
    "t \<noteq> empty_ledger" "lg_claims t \<noteq> []" by (rule example_run)
  then show ?thesis using truth_commands_refine[OF empty_bus_ok] by blast
qed

lemma truth_ledger_invariant_witness: "\<exists>t. lg_claims t \<noteq> [] \<and> ledger_ok t"
proof -
  obtain t r where "execute example_env empty_ledger create_input example_actor empty_ledger = (t, r)"
    "lg_claims t \<noteq> []" by (rule example_run)
  then show ?thesis using truth_ledger_invariant[of t] bus_step.intros by blast
qed

lemma truth_history_is_kept_witness: "\<exists>t. lg_claims t \<noteq> [] \<and> ledger_grows empty_ledger t"
proof -
  obtain t r where "execute example_env empty_ledger create_input example_actor empty_ledger = (t, r)"
    "lg_claims t \<noteq> []" by (rule example_run)
  then show ?thesis using truth_history_is_kept[OF empty_bus_ok, of t] bus_step.intros by blast
qed

lemma truth_change_is_recorded_witness:
  "\<exists>c result t. receipt (reservation_of example_env c) result empty_ledger t"
proof -
  obtain t r where "execute example_env empty_ledger create_input example_actor empty_ledger = (t, r)"
    "t \<noteq> empty_ledger" by (rule example_run)
  then show ?thesis using truth_change_is_recorded[OF empty_bus_ok] by blast
qed

lemma truth_change_needs_authority_witness:
  "\<exists>command spaceId. parseB2Command (\<lambda>s. s) create_input = Inr command \<and>
     authorized example_env (example_actor\<lparr>sx_requestedSpaceIds := [spaceId]\<rparr>)
       (required_authority (bc_payload command)) empty_ledger"
proof -
  obtain t r where "execute example_env empty_ledger create_input example_actor empty_ledger = (t, r)"
    "t \<noteq> empty_ledger" by (rule example_run)
  from truth_change_needs_authority[OF empty_bus_ok this] show ?thesis by auto
qed

lemma truth_change_is_permitted_witness:
  "\<exists>t action resource spaceId session.
     fst (execute example_env empty_ledger create_input example_actor empty_ledger) = t \<and> t \<noteq> empty_ledger \<and>
     secured example_auth session (\<lambda>d.
       truth_permitted (example_actor\<lparr>sx_requestedSpaceIds := [spaceId]\<rparr>) d action resource False)"
proof -
  obtain t r where run: "execute example_env empty_ledger create_input example_actor empty_ledger = (t, r)"
    "t \<noteq> empty_ledger" by (rule example_run)
  from truth_change_is_permitted[OF empty_bus_ok this, of "\<lambda>_. example_auth" JUndef] example_history_ok run
  show ?thesis unfolding Let_def by fastforce
qed

lemma truth_command_acts_once_witness:
  "\<exists>t r. execute example_env empty_ledger create_input example_actor empty_ledger = (t, r) \<and> t \<noteq> empty_ledger \<and>
     fst (execute example_env empty_ledger create_input example_actor t) = t"
proof -
  obtain t r where run: "execute example_env empty_ledger create_input example_actor empty_ledger = (t, r)"
    "t \<noteq> empty_ledger" by (rule example_run)
  obtain u r' where again: "execute example_env empty_ledger create_input example_actor t = (u, r')" by fastforce
  from truth_command_acts_once[OF empty_bus_ok run again] have "u = t" by simp
  then show ?thesis using run again by auto
qed

end
