(* ===== verification/Work_Graph.thy ===== *)
theory Work_Graph
  imports Authorization
begin

text \<open>
  The rules of the work graph (\<open>packages/work-graph/src/work-graph.ts\<close>): names and domains of
  organisations, the associations of initiatives and activities, and the space that governs a
  relationship. Every rule throws the same \<open>WorkGraphInvariantError\<close>, so each is a function into
  \<open>option\<close>. Unicode normalisation and case mapping, the IDNA mapping \<open>domainToASCII\<close> of the runtime and
  \<open>Date.parse\<close> are parameters.
\<close>

section \<open>Organisations\<close>

function collapse_whitespace :: "jstr \<Rightarrow> jstr" where
  "collapse_whitespace s = (case s of
     [] \<Rightarrow> []
   | u # r \<Rightarrow> if is_whitespace u then 32 # collapse_whitespace (dropWhile is_whitespace r)
              else u # collapse_whitespace r)"
  by pat_completeness auto
termination
  by (relation "measure length") (auto simp: less_Suc_eq_le length_dropWhile_le)

declare collapse_whitespace.simps [simp del]

definition normalizeOrganizationName :: "(jstr \<Rightarrow> jstr) \<Rightarrow> (jstr \<Rightarrow> jstr) \<Rightarrow> jstr \<Rightarrow> jstr option" where
  "normalizeOrganizationName nfc lower name =
     (let normalized = lower (nfc (collapse_whitespace (trim name))) in
      if normalized = [] then None else Some normalized)"

fun has_infix :: "jstr \<Rightarrow> jstr \<Rightarrow> bool" where
  "has_infix t [] \<longleftrightarrow> t = []"
| "has_infix t (u # r) \<longleftrightarrow> take (length t) (u # r) = t \<or> has_infix t r"

fun split_on :: "nat \<Rightarrow> jstr \<Rightarrow> jstr list" where
  "split_on c [] = [[]]"
| "split_on c (u # r) = (if u = c then [] # split_on c r else (case split_on c r of
     p # ps \<Rightarrow> (u # p) # ps | [] \<Rightarrow> [[u]]))"

definition is_lower_digit :: "nat \<Rightarrow> bool" where
  "is_lower_digit u \<longleftrightarrow> (97 \<le> u \<and> u \<le> 122) \<or> (48 \<le> u \<and> u \<le> 57)"

definition domain_label :: "jstr \<Rightarrow> bool" where
  "domain_label part \<longleftrightarrow> 1 \<le> length part \<and> length part \<le> 63 \<and>
     list_all (\<lambda>u. is_lower_digit u \<or> u = 45) part \<and> hd part \<noteq> 45 \<and> last part \<noteq> 45"

definition drop_final_dot :: "jstr \<Rightarrow> jstr" where
  "drop_final_dot s = (if s \<noteq> [] \<and> last s = 46 then butlast s else s)"

definition normalizeOrganizationDomain :: "(jstr \<Rightarrow> jstr) \<Rightarrow> (jstr \<Rightarrow> jstr) \<Rightarrow> jstr \<Rightarrow> jstr option" where
  "normalizeOrganizationDomain lower domainToASCII input = do {
     let candidate = lower (drop_final_dot (trim input));
     require (\<not> (candidate = [] \<or> has_infix (js ''://'') candidate \<or> has_infix (js ''/'') candidate \<or>
       has_infix (js ''@'') candidate));
     let ascii = lower (domainToASCII candidate);
     require (\<not> (ascii = [] \<or> length ascii > 253 \<or> \<not> list_all domain_label (split_on 46 ascii) \<or>
       \<not> has_infix (js ''.'') ascii));
     Some ascii }"

definition normalizeOrganizationDomains ::
  "(jstr \<Rightarrow> jstr) \<Rightarrow> (jstr \<Rightarrow> jstr) \<Rightarrow> jstr list \<Rightarrow> jstr list option" where
  "normalizeOrganizationDomains lower domainToASCII inputs = do {
     domains \<leftarrow> those (map (normalizeOrganizationDomain lower domainToASCII) inputs);
     require (\<not> card (set domains) \<noteq> length domains);
     Some (sort domains) }"

section \<open>Initiatives and activities\<close>

definition validateInitiativeAssociations :: "jstr list \<Rightarrow> jstr \<Rightarrow> unit option" where
  "validateInitiativeAssociations organizationIds primaryOrganizationId =
     require (\<not> (length organizationIds = 0 \<or> card (set organizationIds) \<noteq> length organizationIds \<or>
       length (filter (\<lambda>i. i = primaryOrganizationId) organizationIds) \<noteq> 1))"

datatype governing_parent = GoverningInitiative jstr | GoverningOrganization jstr

definition resolveActivityGoverningParent ::
  "jstr list \<Rightarrow> jstr list \<Rightarrow> jstr option \<Rightarrow> jstr option \<Rightarrow> governing_parent option" where
  "resolveActivityGoverningParent initiativeIds organizationIds governingInitiativeId governingOrganizationId =
     (case (governingInitiativeId, governingOrganizationId) of
        (Some i, None) \<Rightarrow> do { require (i \<in> set initiativeIds); Some (GoverningInitiative i) }
      | (None, Some i) \<Rightarrow> do { require (i \<in> set organizationIds); Some (GoverningOrganization i) }
      | _ \<Rightarrow> None)"

text \<open>Whether the second instant is before the first, as JavaScript compares what \<open>Date.parse\<close> returns: not a
  number is not before anything. An empty text counts as absent.\<close>

definition dates_ordered :: "(jstr \<Rightarrow> int option) \<Rightarrow> (int \<Rightarrow> int \<Rightarrow> bool) \<Rightarrow> jstr option \<Rightarrow> jstr option \<Rightarrow> bool" where
  "dates_ordered date ord a b \<longleftrightarrow> given a \<and> given b \<and>
     (case (date (the a), date (the b)) of (Some x, Some y) \<Rightarrow> ord x y | _ \<Rightarrow> False)"

definition validateActivityTime :: "(jstr \<Rightarrow> int option) \<Rightarrow> jstr option \<Rightarrow> jstr option \<Rightarrow> unit option" where
  "validateActivityTime date startsAt endsAt = require (\<not> dates_ordered date (<) endsAt startsAt)"

section \<open>Relationships\<close>

datatype endpoint_kind =
    SpaceEnd | PersonEnd | OrganizationEnd | InitiativeEnd | ActivityEnd | ContentEnd

record endpoint =
  en_type :: endpoint_kind
  en_id :: jstr

record space_bearing =
  sb_tenantId :: jstr
  sb_workspaceId :: jstr
  sb_spaceId :: "jstr option"
  sb_accessClass :: access_class

definition is_key_unit :: "nat \<Rightarrow> bool" where
  "is_key_unit u \<longleftrightarrow> is_lower_digit u \<or> u = 95"

definition snake_key :: "jstr \<Rightarrow> bool" where
  "snake_key s \<longleftrightarrow> s \<noteq> [] \<and> 97 \<le> hd s \<and> hd s \<le> 122 \<and> list_all is_key_unit s"

definition relationship_predicate :: "jstr \<Rightarrow> bool" where
  "relationship_predicate s \<longleftrightarrow> (case split_on 46 s of
     p # ps \<Rightarrow> snake_key p \<and> list_all (\<lambda>q. q \<noteq> [] \<and> list_all is_key_unit q) ps
   | [] \<Rightarrow> False)"

definition requireEndpoint :: "jstr \<Rightarrow> jstr \<Rightarrow> space_bearing option \<Rightarrow> space_bearing option" where
  "requireEndpoint tenantId workspaceId endpoint = do {
     e \<leftarrow> endpoint;
     require (\<not> (sb_tenantId e \<noteq> tenantId \<or> sb_workspaceId e \<noteq> workspaceId));
     Some e }"

definition mostRestrictive :: "access_class list \<Rightarrow> access_class" where
  "mostRestrictive values = foldl (\<lambda>maximum current.
     if access_rank current > access_rank maximum then current else maximum) (hd values) (tl values)"

definition governing_endpoint ::
  "space_bearing \<Rightarrow> space_bearing \<Rightarrow> space_bearing option \<Rightarrow> space_bearing option" where
  "governing_endpoint subject object context =
     (if context \<noteq> None \<and> given (sb_spaceId (the context)) then context
      else if given (sb_spaceId subject) then Some subject
      else if given (sb_spaceId object) then Some object
      else None)"

definition deriveRelationshipGoverningSpace ::
  "(jstr \<Rightarrow> int option) \<Rightarrow> jstr \<Rightarrow> jstr \<Rightarrow> endpoint \<Rightarrow> endpoint \<Rightarrow> endpoint option \<Rightarrow> jstr \<Rightarrow> jstr option \<Rightarrow>
     jstr option \<Rightarrow> (endpoint \<Rightarrow> space_bearing option) \<Rightarrow> (jstr \<times> access_class) option" where
  "deriveRelationshipGoverningSpace date tenantId workspaceId subject object context predicate validFrom validTo
     resolve = do {
     require (relationship_predicate predicate);
     require (\<not> (en_type subject = en_type object \<and> en_id subject = en_id object));
     require (\<not> dates_ordered date (\<le>) validTo validFrom);
     s \<leftarrow> requireEndpoint tenantId workspaceId (resolve subject);
     ob \<leftarrow> requireEndpoint tenantId workspaceId (resolve object);
     ctx \<leftarrow> (case context of
       None \<Rightarrow> Some None
     | Some c \<Rightarrow> map_option Some (requireEndpoint tenantId workspaceId (resolve c)));
     require (\<not> (context \<noteq> None \<and> \<not> given (sb_spaceId (the ctx))));
     governing \<leftarrow> governing_endpoint s ob ctx;
     Some (the (sb_spaceId governing), mostRestrictive ([sb_accessClass governing, sb_accessClass s,
       sb_accessClass ob] @ (case ctx of None \<Rightarrow> [] | Some c \<Rightarrow> [sb_accessClass c]))) }"

section \<open>Lemmas\<close>

lemma mostRestrictive_Max: "mostRestrictive (c # cs) = Max (set (c # cs))"
proof -
  have step: "(if access_rank d > access_rank m then d else m) = max m d" for d m :: access_class
    by (cases d; cases m) (simp_all add: max_def less_eq_access_class_def)
  have "foldl max m ds = fold max ds m" for m and ds :: "access_class list"
    by (induction ds arbitrary: m) (simp_all add: max.commute)
  then show ?thesis by (simp only: mostRestrictive_def step list.sel Max.set_eq_fold)
qed

end
