(* ===== verification/Account_Schemas.thy ===== *)
theory Account_Schemas
  imports Work_Graph Command_Records
begin

text \<open>
  The ten commands of the account operations (\<open>packages/account-operations/src/command-schemas.ts\<close>, types
  in \<open>packages/core-types/src/b1.ts\<close>) and their results. The schemas are written with the library \<open>zod\<close>;
  its formats of uuids and timestamps are the parameters \<open>uuid\<close> and \<open>datetime\<close>, and of its combinators
  the model uses their documented behaviour: a strict object refuses unknown keys, an optional member may
  be absent or \<open>undefined\<close>, and \<open>trim\<close> replaces the text before the checks that follow it. Inputs are what
  a request body can hold; a parsed member that is \<open>undefined\<close> counts as absent.
\<close>

section \<open>Schemas\<close>

definition zod_object :: "string list \<Rightarrow> jsval \<Rightarrow> jsfields option" where
  "zod_object keys v = (case v of
     JObj fs \<Rightarrow> do { require (list_all (\<lambda>k. k \<in> set (map js keys)) (string_keys fs)); Some fs }
   | _ \<Rightarrow> None)"

definition zod_string :: "(jstr \<Rightarrow> bool) \<Rightarrow> jsval \<Rightarrow> jstr option" where
  "zod_string ok v = do { s \<leftarrow> requireString v; require (ok s); Some s }"

definition zod_array :: "nat \<Rightarrow> (jsval \<Rightarrow> 'a option) \<Rightarrow> jsval \<Rightarrow> 'a list option" where
  "zod_array n p v = (case v of
     JArr vs \<Rightarrow> do { require (\<not> length vs > n); those (map p vs) }
   | _ \<Rightarrow> None)"

definition zod_enum :: "string list \<Rightarrow> jsval \<Rightarrow> jstr option" where
  "zod_enum members v = zod_string (\<lambda>s. s \<in> set (map js members)) v"

definition zod_positive :: "jsval \<Rightarrow> int option" where
  "zod_positive v = (case v of
     JNum (IntNum i) \<Rightarrow> if 0 < i \<and> i \<le> max_safe_integer then Some i else None
   | _ \<Rightarrow> None)"

definition zod_literal :: "jsval \<Rightarrow> jsval \<Rightarrow> unit option" where
  "zod_literal w v = require (v = w)"

definition zod_idempotency_key :: "jsval \<Rightarrow> jstr option" where
  "zod_idempotency_key v = zod_string (\<lambda>s. 1 \<le> length s \<and> length s \<le> 200 \<and>
     list_all (\<lambda>c. code_point c > 31 \<and> code_point c \<noteq> 127) (array_from s)) v"

definition zod_title :: "jsval \<Rightarrow> jstr option" where
  "zod_title v = do { s \<leftarrow> requireString v;
     let t = trim s;
     require (1 \<le> length t \<and> length t \<le> 500);
     Some t }"

definition ACCESS_CLASSES :: "access_class list" where
  "ACCESS_CLASSES = [Public, Workspace, Restricted, Confidential]"

definition zod_access_class :: "jsval \<Rightarrow> access_class option" where
  "zod_access_class v = requireEnum access_string ACCESS_CLASSES v"

definition zod_body :: "jsval \<Rightarrow> jstr option" where
  "zod_body v = zod_string (\<lambda>s. length s \<le> 2000000) v"

definition zod_metadata :: "jsval \<Rightarrow> jsval option" where
  "zod_metadata v = (case v of JObj fs \<Rightarrow> Some v | _ \<Rightarrow> None)"

fun endpoint_kind_string :: "endpoint_kind \<Rightarrow> jstr" where
  "endpoint_kind_string SpaceEnd = js ''space''"
| "endpoint_kind_string PersonEnd = js ''person''"
| "endpoint_kind_string OrganizationEnd = js ''organization''"
| "endpoint_kind_string InitiativeEnd = js ''initiative''"
| "endpoint_kind_string ActivityEnd = js ''activity''"
| "endpoint_kind_string ContentEnd = js ''content''"

definition endpoint_kinds :: "endpoint_kind list" where
  "endpoint_kinds = [SpaceEnd, PersonEnd, OrganizationEnd, InitiativeEnd, ActivityEnd, ContentEnd]"

definition zod_endpoint :: "(jstr \<Rightarrow> bool) \<Rightarrow> jsval \<Rightarrow> endpoint option" where
  "zod_endpoint uuid v = do {
     fs \<leftarrow> zod_object [''type'', ''id''] v;
     t \<leftarrow> requireEnum endpoint_kind_string endpoint_kinds (fld fs ''type'');
     i \<leftarrow> zod_string uuid (fld fs ''id'');
     Some \<lparr>en_type = t, en_id = i\<rparr> }"

section \<open>Payloads\<close>

record create_organization =
  co_name :: jstr
  co_domains :: "jstr list"

record create_initiative =
  cv_primaryOrganizationId :: jstr
  cv_organizationIds :: "jstr list option"
  cv_contributorPersonIds :: "jstr list option"
  cv_title :: jstr
  cv_typeKey :: jstr
  cv_stageKey :: jstr
  cv_health :: "jstr option"
  cv_ownerPersonId :: "jstr option"

record create_activity =
  cy_title :: jstr
  cy_profileTemplateKey :: jstr
  cy_status :: "jstr option"
  cy_occurredAt :: "jstr option"
  cy_startsAt :: "jstr option"
  cy_endsAt :: "jstr option"
  cy_ownerPersonId :: "jstr option"
  cy_governingInitiativeId :: "jstr option"
  cy_governingOrganizationId :: "jstr option"
  cy_organizationIds :: "jstr list"
  cy_initiativeIds :: "jstr list"
  cy_attendeePersonIds :: "jstr list option"

record create_relationship =
  cp_subject :: endpoint
  cp_predicate :: jstr
  cp_object :: endpoint
  cp_context :: "endpoint option"
  cp_validFrom :: "jstr option"

record end_relationship =
  er_relationshipId :: jstr
  er_expectedVersion :: int
  er_validTo :: jstr

record create_content =
  ck_spaceId :: jstr
  ck_type :: jstr
  ck_title :: jstr
  ck_body :: jstr
  ck_ownerPersonId :: "jstr option"
  ck_metadata :: "jsval option"

record revise_content =
  rk_contentItemId :: jstr
  rk_expectedRevision :: int
  rk_title :: "jstr option"
  rk_body :: jstr
  rk_metadata :: "jsval option"

record capture_source =
  cs_activityId :: jstr
  cs_sourceType :: jstr
  cs_title :: "jstr option"
  cs_text :: jstr
  cs_requestedAccessClass :: "access_class option"
  cs_originContentItemId :: "jstr option"
  cs_originContentRevision :: "int option"
  cs_occurredAt :: "jstr option"

record correct_source =
  xs_predecessorSourceArtifactId :: jstr
  xs_activityId :: "jstr option"
  xs_sourceType :: jstr
  xs_title :: "jstr option"
  xs_text :: jstr
  xs_requestedAccessClass :: "access_class option"
  xs_occurredAt :: "jstr option"

record tombstone_source =
  ts_sourceArtifactId :: jstr
  ts_expectedVersion :: int
  ts_deletionReasonCategory :: jstr
  ts_deletionPolicyRef :: jstr

datatype b1_payload =
    OrganizationCreation create_organization
  | InitiativeCreation create_initiative
  | ActivityCreation create_activity
  | RelationshipCreation create_relationship
  | RelationshipEnding end_relationship
  | ContentCreation create_content
  | ContentRevision revise_content
  | SourceCapturing capture_source
  | SourceCorrection correct_source
  | SourceTombstoning tombstone_source

record b1_command =
  bc1_idempotencyKey :: jstr
  bc1_payload :: b1_payload

datatype b1_kind =
    OrganizationCreateKind | InitiativeCreateKind | ActivityCreateKind | RelationshipCreateKind
  | RelationshipEndKind | ContentCreateKind | ContentReviseKind | SourceCaptureKind | SourceCorrectKind
  | SourceTombstoneKind

fun b1_kind_string :: "b1_kind \<Rightarrow> jstr" where
  "b1_kind_string OrganizationCreateKind = js ''organization.create''"
| "b1_kind_string InitiativeCreateKind = js ''initiative.create''"
| "b1_kind_string ActivityCreateKind = js ''activity.create''"
| "b1_kind_string RelationshipCreateKind = js ''relationship.create''"
| "b1_kind_string RelationshipEndKind = js ''relationship.end''"
| "b1_kind_string ContentCreateKind = js ''content.create''"
| "b1_kind_string ContentReviseKind = js ''content.revise''"
| "b1_kind_string SourceCaptureKind = js ''source.capture''"
| "b1_kind_string SourceCorrectKind = js ''source.correct''"
| "b1_kind_string SourceTombstoneKind = js ''source.tombstone''"

definition B1_COMMAND_KINDS :: "b1_kind list" where
  "B1_COMMAND_KINDS = [OrganizationCreateKind, InitiativeCreateKind, ActivityCreateKind,
     RelationshipCreateKind, RelationshipEndKind, ContentCreateKind, ContentReviseKind, SourceCaptureKind,
     SourceCorrectKind, SourceTombstoneKind]"

fun b1_kind_of :: "b1_payload \<Rightarrow> b1_kind" where
  "b1_kind_of (OrganizationCreation _) = OrganizationCreateKind"
| "b1_kind_of (InitiativeCreation _) = InitiativeCreateKind"
| "b1_kind_of (ActivityCreation _) = ActivityCreateKind"
| "b1_kind_of (RelationshipCreation _) = RelationshipCreateKind"
| "b1_kind_of (RelationshipEnding _) = RelationshipEndKind"
| "b1_kind_of (ContentCreation _) = ContentCreateKind"
| "b1_kind_of (ContentRevision _) = ContentReviseKind"
| "b1_kind_of (SourceCapturing _) = SourceCaptureKind"
| "b1_kind_of (SourceCorrection _) = SourceCorrectKind"
| "b1_kind_of (SourceTombstoning _) = SourceTombstoneKind"

section \<open>Parsing payloads\<close>

definition organization_schema :: "jsval \<Rightarrow> create_organization option" where
  "organization_schema v = do {
     fs \<leftarrow> zod_object [''name'', ''domains''] v;
     n \<leftarrow> zod_title (fld fs ''name'');
     ds \<leftarrow> zod_array 100 (zod_string (\<lambda>s. 1 \<le> length s \<and> length s \<le> 253)) (fld fs ''domains'');
     Some \<lparr>co_name = n, co_domains = ds\<rparr> }"

definition initiative_schema :: "(jstr \<Rightarrow> bool) \<Rightarrow> jsval \<Rightarrow> create_initiative option" where
  "initiative_schema uuid v = do {
     fs \<leftarrow> zod_object [''primaryOrganizationId'', ''organizationIds'', ''contributorPersonIds'', ''title'',
       ''typeKey'', ''stageKey'', ''health'', ''ownerPersonId''] v;
     p \<leftarrow> zod_string uuid (fld fs ''primaryOrganizationId'');
     os \<leftarrow> optional (zod_array 100 (zod_string uuid)) (fld fs ''organizationIds'');
     cs \<leftarrow> optional (zod_array 100 (zod_string uuid)) (fld fs ''contributorPersonIds'');
     t \<leftarrow> zod_title (fld fs ''title'');
     ty \<leftarrow> zod_string snake_key (fld fs ''typeKey'');
     st \<leftarrow> zod_string snake_key (fld fs ''stageKey'');
     h \<leftarrow> optional (zod_enum [''active'', ''stalled'', ''paused'', ''blocked'', ''closed'']) (fld fs ''health'');
     ow \<leftarrow> optional (zod_string uuid) (fld fs ''ownerPersonId'');
     Some \<lparr>cv_primaryOrganizationId = p, cv_organizationIds = os, cv_contributorPersonIds = cs, cv_title = t,
       cv_typeKey = ty, cv_stageKey = st, cv_health = h, cv_ownerPersonId = ow\<rparr> }"

definition activity_schema :: "(jstr \<Rightarrow> bool) \<Rightarrow> (jstr \<Rightarrow> bool) \<Rightarrow> jsval \<Rightarrow> create_activity option" where
  "activity_schema uuid datetime v = do {
     fs \<leftarrow> zod_object [''title'', ''profileTemplateKey'', ''status'', ''occurredAt'', ''startsAt'', ''endsAt'',
       ''ownerPersonId'', ''governingInitiativeId'', ''governingOrganizationId'', ''organizationIds'',
       ''initiativeIds'', ''attendeePersonIds''] v;
     t \<leftarrow> zod_title (fld fs ''title'');
     k \<leftarrow> zod_string snake_key (fld fs ''profileTemplateKey'');
     st \<leftarrow> optional (zod_enum [''planned'', ''in_progress'', ''captured'', ''review_pending'', ''completed'',
       ''cancelled'']) (fld fs ''status'');
     oc \<leftarrow> optional (zod_string datetime) (fld fs ''occurredAt'');
     sa \<leftarrow> optional (zod_string datetime) (fld fs ''startsAt'');
     ea \<leftarrow> optional (zod_string datetime) (fld fs ''endsAt'');
     ow \<leftarrow> optional (zod_string uuid) (fld fs ''ownerPersonId'');
     gi \<leftarrow> optional (zod_string uuid) (fld fs ''governingInitiativeId'');
     go \<leftarrow> optional (zod_string uuid) (fld fs ''governingOrganizationId'');
     os \<leftarrow> zod_array 100 (zod_string uuid) (fld fs ''organizationIds'');
     is \<leftarrow> zod_array 100 (zod_string uuid) (fld fs ''initiativeIds'');
     ps \<leftarrow> optional (zod_array 200 (zod_string uuid)) (fld fs ''attendeePersonIds'');
     Some \<lparr>cy_title = t, cy_profileTemplateKey = k, cy_status = st, cy_occurredAt = oc, cy_startsAt = sa,
       cy_endsAt = ea, cy_ownerPersonId = ow, cy_governingInitiativeId = gi, cy_governingOrganizationId = go,
       cy_organizationIds = os, cy_initiativeIds = is, cy_attendeePersonIds = ps\<rparr> }"

definition relationship_schema :: "(jstr \<Rightarrow> bool) \<Rightarrow> (jstr \<Rightarrow> bool) \<Rightarrow> jsval \<Rightarrow> create_relationship option" where
  "relationship_schema uuid datetime v = do {
     fs \<leftarrow> zod_object [''subject'', ''predicate'', ''object'', ''context'', ''validFrom''] v;
     s \<leftarrow> zod_endpoint uuid (fld fs ''subject'');
     p \<leftarrow> zod_string relationship_predicate (fld fs ''predicate'');
     ob \<leftarrow> zod_endpoint uuid (fld fs ''object'');
     c \<leftarrow> optional (zod_endpoint uuid) (fld fs ''context'');
     vf \<leftarrow> optional (zod_string datetime) (fld fs ''validFrom'');
     Some \<lparr>cp_subject = s, cp_predicate = p, cp_object = ob, cp_context = c, cp_validFrom = vf\<rparr> }"

definition ending_schema :: "(jstr \<Rightarrow> bool) \<Rightarrow> (jstr \<Rightarrow> bool) \<Rightarrow> jsval \<Rightarrow> end_relationship option" where
  "ending_schema uuid datetime v = do {
     fs \<leftarrow> zod_object [''relationshipId'', ''expectedVersion'', ''validTo''] v;
     i \<leftarrow> zod_string uuid (fld fs ''relationshipId'');
     n \<leftarrow> zod_positive (fld fs ''expectedVersion'');
     t \<leftarrow> zod_string datetime (fld fs ''validTo'');
     Some \<lparr>er_relationshipId = i, er_expectedVersion = n, er_validTo = t\<rparr> }"

definition content_schema :: "(jstr \<Rightarrow> bool) \<Rightarrow> jsval \<Rightarrow> create_content option" where
  "content_schema uuid v = do {
     fs \<leftarrow> zod_object [''spaceId'', ''type'', ''title'', ''body'', ''ownerPersonId'', ''metadata''] v;
     i \<leftarrow> zod_string uuid (fld fs ''spaceId'');
     ty \<leftarrow> zod_enum [''page'', ''note''] (fld fs ''type'');
     t \<leftarrow> zod_title (fld fs ''title'');
     b \<leftarrow> zod_body (fld fs ''body'');
     ow \<leftarrow> optional (zod_string uuid) (fld fs ''ownerPersonId'');
     me \<leftarrow> optional zod_metadata (fld fs ''metadata'');
     Some \<lparr>ck_spaceId = i, ck_type = ty, ck_title = t, ck_body = b, ck_ownerPersonId = ow, ck_metadata = me\<rparr> }"

definition revision_schema :: "(jstr \<Rightarrow> bool) \<Rightarrow> jsval \<Rightarrow> revise_content option" where
  "revision_schema uuid v = do {
     fs \<leftarrow> zod_object [''contentItemId'', ''expectedRevision'', ''title'', ''body'', ''metadata''] v;
     i \<leftarrow> zod_string uuid (fld fs ''contentItemId'');
     n \<leftarrow> zod_positive (fld fs ''expectedRevision'');
     t \<leftarrow> optional zod_title (fld fs ''title'');
     b \<leftarrow> zod_body (fld fs ''body'');
     me \<leftarrow> optional zod_metadata (fld fs ''metadata'');
     Some \<lparr>rk_contentItemId = i, rk_expectedRevision = n, rk_title = t, rk_body = b, rk_metadata = me\<rparr> }"

definition SOURCE_TYPES :: "string list" where
  "SOURCE_TYPES = [''note'', ''transcript'', ''human'']"

definition capture_schema :: "(jstr \<Rightarrow> bool) \<Rightarrow> (jstr \<Rightarrow> bool) \<Rightarrow> jsval \<Rightarrow> capture_source option" where
  "capture_schema uuid datetime v = do {
     fs \<leftarrow> zod_object [''activityId'', ''sourceType'', ''title'', ''text'', ''requestedAccessClass'',
       ''originContentItemId'', ''originContentRevision'', ''occurredAt''] v;
     a \<leftarrow> zod_string uuid (fld fs ''activityId'');
     ty \<leftarrow> zod_enum SOURCE_TYPES (fld fs ''sourceType'');
     t \<leftarrow> optional zod_title (fld fs ''title'');
     x \<leftarrow> zod_body (fld fs ''text'');
     ac \<leftarrow> optional zod_access_class (fld fs ''requestedAccessClass'');
     oi \<leftarrow> optional (zod_string uuid) (fld fs ''originContentItemId'');
     orv \<leftarrow> optional zod_positive (fld fs ''originContentRevision'');
     oc \<leftarrow> optional (zod_string datetime) (fld fs ''occurredAt'');
     require ((oi = None) = (orv = None));
     Some \<lparr>cs_activityId = a, cs_sourceType = ty, cs_title = t, cs_text = x, cs_requestedAccessClass = ac,
       cs_originContentItemId = oi, cs_originContentRevision = orv, cs_occurredAt = oc\<rparr> }"

definition correction_schema :: "(jstr \<Rightarrow> bool) \<Rightarrow> (jstr \<Rightarrow> bool) \<Rightarrow> jsval \<Rightarrow> correct_source option" where
  "correction_schema uuid datetime v = do {
     fs \<leftarrow> zod_object [''predecessorSourceArtifactId'', ''activityId'', ''sourceType'', ''title'', ''text'',
       ''requestedAccessClass'', ''occurredAt''] v;
     p \<leftarrow> zod_string uuid (fld fs ''predecessorSourceArtifactId'');
     a \<leftarrow> optional (zod_string uuid) (fld fs ''activityId'');
     ty \<leftarrow> zod_enum SOURCE_TYPES (fld fs ''sourceType'');
     t \<leftarrow> optional zod_title (fld fs ''title'');
     x \<leftarrow> zod_body (fld fs ''text'');
     ac \<leftarrow> optional zod_access_class (fld fs ''requestedAccessClass'');
     oc \<leftarrow> optional (zod_string datetime) (fld fs ''occurredAt'');
     Some \<lparr>xs_predecessorSourceArtifactId = p, xs_activityId = a, xs_sourceType = ty, xs_title = t,
       xs_text = x, xs_requestedAccessClass = ac, xs_occurredAt = oc\<rparr> }"

definition tombstone_schema :: "(jstr \<Rightarrow> bool) \<Rightarrow> jsval \<Rightarrow> tombstone_source option" where
  "tombstone_schema uuid v = do {
     fs \<leftarrow> zod_object [''sourceArtifactId'', ''expectedVersion'', ''deletionReasonCategory'',
       ''deletionPolicyRef''] v;
     i \<leftarrow> zod_string uuid (fld fs ''sourceArtifactId'');
     n \<leftarrow> zod_positive (fld fs ''expectedVersion'');
     r \<leftarrow> zod_string safe_reference (fld fs ''deletionReasonCategory'');
     p \<leftarrow> zod_string safe_reference (fld fs ''deletionPolicyRef'');
     Some \<lparr>ts_sourceArtifactId = i, ts_expectedVersion = n, ts_deletionReasonCategory = r,
       ts_deletionPolicyRef = p\<rparr> }"

fun payload_schema :: "(jstr \<Rightarrow> bool) \<Rightarrow> (jstr \<Rightarrow> bool) \<Rightarrow> b1_kind \<Rightarrow> jsval \<Rightarrow> b1_payload option" where
  "payload_schema uuid datetime OrganizationCreateKind v = map_option OrganizationCreation (organization_schema v)"
| "payload_schema uuid datetime InitiativeCreateKind v = map_option InitiativeCreation (initiative_schema uuid v)"
| "payload_schema uuid datetime ActivityCreateKind v = map_option ActivityCreation (activity_schema uuid datetime v)"
| "payload_schema uuid datetime RelationshipCreateKind v =
     map_option RelationshipCreation (relationship_schema uuid datetime v)"
| "payload_schema uuid datetime RelationshipEndKind v = map_option RelationshipEnding (ending_schema uuid datetime v)"
| "payload_schema uuid datetime ContentCreateKind v = map_option ContentCreation (content_schema uuid v)"
| "payload_schema uuid datetime ContentReviseKind v = map_option ContentRevision (revision_schema uuid v)"
| "payload_schema uuid datetime SourceCaptureKind v = map_option SourceCapturing (capture_schema uuid datetime v)"
| "payload_schema uuid datetime SourceCorrectKind v =
     map_option SourceCorrection (correction_schema uuid datetime v)"
| "payload_schema uuid datetime SourceTombstoneKind v = map_option SourceTombstoning (tombstone_schema uuid v)"

definition parseB1Command :: "(jstr \<Rightarrow> bool) \<Rightarrow> (jstr \<Rightarrow> bool) \<Rightarrow> jsval \<Rightarrow> b1_command option" where
  "parseB1Command uuid datetime input = do {
     fs \<leftarrow> zod_object [''kind'', ''idempotencyKey'', ''payload''] input;
     kind \<leftarrow> requireEnum b1_kind_string B1_COMMAND_KINDS (fld fs ''kind'');
     key \<leftarrow> zod_idempotency_key (fld fs ''idempotencyKey'');
     p \<leftarrow> payload_schema uuid datetime kind (fld fs ''payload'');
     Some \<lparr>bc1_idempotencyKey = key, bc1_payload = p\<rparr> }"

section \<open>The canonical payload\<close>

definition canonical_ids :: "jstr list \<Rightarrow> jstr list" where
  "canonical_ids ids = sort (remdups ids)"

fun canonicalizeB1Payload :: "b1_payload \<Rightarrow> b1_payload" where
  "canonicalizeB1Payload (InitiativeCreation p) = InitiativeCreation (p
     \<lparr>cv_organizationIds := map_option canonical_ids (cv_organizationIds p),
      cv_contributorPersonIds := map_option canonical_ids (cv_contributorPersonIds p)\<rparr>)"
| "canonicalizeB1Payload (ActivityCreation p) = ActivityCreation (p
     \<lparr>cy_organizationIds := canonical_ids (cy_organizationIds p),
      cy_initiativeIds := canonical_ids (cy_initiativeIds p),
      cy_attendeePersonIds := map_option canonical_ids (cy_attendeePersonIds p)\<rparr>)"
| "canonicalizeB1Payload p = p"

definition endpoint_value :: "endpoint \<Rightarrow> jsval" where
  "endpoint_value e = JObj (object_of [(''type'', JStr (endpoint_kind_string (en_type e))), (''id'', JStr (en_id e))])"

definition strings_value :: "jstr list \<Rightarrow> jsval" where
  "strings_value ss = JArr (map JStr ss)"

fun b1_payload_value :: "b1_payload \<Rightarrow> jsval" where
  "b1_payload_value (OrganizationCreation p) = JObj (object_of [(''name'', JStr (co_name p)),
     (''domains'', strings_value (co_domains p))])"
| "b1_payload_value (InitiativeCreation p) = JObj (object_of ([
     (''primaryOrganizationId'', JStr (cv_primaryOrganizationId p))] @
     opt_entry ''organizationIds'' strings_value (cv_organizationIds p) @
     opt_entry ''contributorPersonIds'' strings_value (cv_contributorPersonIds p) @
     [(''title'', JStr (cv_title p)), (''typeKey'', JStr (cv_typeKey p)), (''stageKey'', JStr (cv_stageKey p))] @
     opt_entry ''health'' JStr (cv_health p) @ opt_entry ''ownerPersonId'' JStr (cv_ownerPersonId p)))"
| "b1_payload_value (ActivityCreation p) = JObj (object_of ([(''title'', JStr (cy_title p)),
     (''profileTemplateKey'', JStr (cy_profileTemplateKey p))] @
     opt_entry ''status'' JStr (cy_status p) @ opt_entry ''occurredAt'' JStr (cy_occurredAt p) @
     opt_entry ''startsAt'' JStr (cy_startsAt p) @ opt_entry ''endsAt'' JStr (cy_endsAt p) @
     opt_entry ''ownerPersonId'' JStr (cy_ownerPersonId p) @
     opt_entry ''governingInitiativeId'' JStr (cy_governingInitiativeId p) @
     opt_entry ''governingOrganizationId'' JStr (cy_governingOrganizationId p) @
     [(''organizationIds'', strings_value (cy_organizationIds p)),
      (''initiativeIds'', strings_value (cy_initiativeIds p))] @
     opt_entry ''attendeePersonIds'' strings_value (cy_attendeePersonIds p)))"
| "b1_payload_value (RelationshipCreation p) = JObj (object_of ([(''subject'', endpoint_value (cp_subject p)),
     (''predicate'', JStr (cp_predicate p)), (''object'', endpoint_value (cp_object p))] @
     opt_entry ''context'' endpoint_value (cp_context p) @ opt_entry ''validFrom'' JStr (cp_validFrom p)))"
| "b1_payload_value (RelationshipEnding p) = JObj (object_of [(''relationshipId'', JStr (er_relationshipId p)),
     (''expectedVersion'', num_value (er_expectedVersion p)), (''validTo'', JStr (er_validTo p))])"
| "b1_payload_value (ContentCreation p) = JObj (object_of ([(''spaceId'', JStr (ck_spaceId p)),
     (''type'', JStr (ck_type p)), (''title'', JStr (ck_title p)), (''body'', JStr (ck_body p))] @
     opt_entry ''ownerPersonId'' JStr (ck_ownerPersonId p) @ opt_entry ''metadata'' (\<lambda>v. v) (ck_metadata p)))"
| "b1_payload_value (ContentRevision p) = JObj (object_of ([(''contentItemId'', JStr (rk_contentItemId p)),
     (''expectedRevision'', num_value (rk_expectedRevision p))] @ opt_entry ''title'' JStr (rk_title p) @
     [(''body'', JStr (rk_body p))] @ opt_entry ''metadata'' (\<lambda>v. v) (rk_metadata p)))"
| "b1_payload_value (SourceCapturing p) = JObj (object_of ([(''activityId'', JStr (cs_activityId p)),
     (''sourceType'', JStr (cs_sourceType p))] @ opt_entry ''title'' JStr (cs_title p) @
     [(''text'', JStr (cs_text p))] @
     opt_entry ''requestedAccessClass'' (\<lambda>c. JStr (access_string c)) (cs_requestedAccessClass p) @
     opt_entry ''originContentItemId'' JStr (cs_originContentItemId p) @
     opt_entry ''originContentRevision'' num_value (cs_originContentRevision p) @
     opt_entry ''occurredAt'' JStr (cs_occurredAt p)))"
| "b1_payload_value (SourceCorrection p) = JObj (object_of ([
     (''predecessorSourceArtifactId'', JStr (xs_predecessorSourceArtifactId p))] @
     opt_entry ''activityId'' JStr (xs_activityId p) @ [(''sourceType'', JStr (xs_sourceType p))] @
     opt_entry ''title'' JStr (xs_title p) @ [(''text'', JStr (xs_text p))] @
     opt_entry ''requestedAccessClass'' (\<lambda>c. JStr (access_string c)) (xs_requestedAccessClass p) @
     opt_entry ''occurredAt'' JStr (xs_occurredAt p)))"
| "b1_payload_value (SourceTombstoning p) = JObj (object_of [(''sourceArtifactId'', JStr (ts_sourceArtifactId p)),
     (''expectedVersion'', num_value (ts_expectedVersion p)),
     (''deletionReasonCategory'', JStr (ts_deletionReasonCategory p)),
     (''deletionPolicyRef'', JStr (ts_deletionPolicyRef p))])"

definition b1_request_value :: "b1_payload \<Rightarrow> jsval" where
  "b1_request_value p = JObj (object_of [(''kind'', JStr (b1_kind_string (b1_kind_of p))),
     (''payload'', b1_payload_value p)])"

section \<open>Results\<close>

datatype b1_result =
    OrganizationResult jstr jstr
  | InitiativeResult jstr jstr
  | ActivityResult jstr jstr
  | RelationshipResult jstr jstr
  | EndedResult jstr int jstr
  | ContentResult jstr
  | RevisedResult jstr int int
  | CapturedResult jstr jstr int
  | CorrectedResult jstr jstr int
  | TombstonedResult jstr int bool

text \<open>The disposition of the hashes is \<open>retained\<close> or \<open>erased\<close>; the flag says that they were retained.\<close>

definition disposition_text :: "bool \<Rightarrow> jstr" where
  "disposition_text retained = (if retained then js ''retained'' else js ''erased'')"

definition created_schema :: "(jstr \<Rightarrow> bool) \<Rightarrow> string \<Rightarrow> (jstr \<Rightarrow> jstr \<Rightarrow> b1_result) \<Rightarrow> jsval \<Rightarrow> b1_result option" where
  "created_schema uuid key build v = do {
     fs \<leftarrow> zod_object [key, ''spaceId'', ''version''] v;
     i \<leftarrow> zod_string uuid (fld fs key);
     s \<leftarrow> zod_string uuid (fld fs ''spaceId'');
     zod_literal (num_value 1) (fld fs ''version'');
     Some (build i s) }"

definition sourced_schema :: "(jstr \<Rightarrow> bool) \<Rightarrow> string \<Rightarrow> (jstr \<Rightarrow> jstr \<Rightarrow> int \<Rightarrow> b1_result) \<Rightarrow> jsval \<Rightarrow> b1_result option" where
  "sourced_schema uuid key build v = do {
     fs \<leftarrow> zod_object [''sourceArtifactId'', key, ''chunkCount'', ''version''] v;
     i \<leftarrow> zod_string uuid (fld fs ''sourceArtifactId'');
     a \<leftarrow> zod_string uuid (fld fs key);
     n \<leftarrow> zod_positive (fld fs ''chunkCount'');
     zod_literal (num_value 1) (fld fs ''version'');
     Some (build i a n) }"

fun result_schema :: "(jstr \<Rightarrow> bool) \<Rightarrow> (jstr \<Rightarrow> bool) \<Rightarrow> b1_kind \<Rightarrow> jsval \<Rightarrow> b1_result option" where
  "result_schema uuid datetime OrganizationCreateKind v = created_schema uuid ''organizationId'' OrganizationResult v"
| "result_schema uuid datetime InitiativeCreateKind v = created_schema uuid ''initiativeId'' InitiativeResult v"
| "result_schema uuid datetime ActivityCreateKind v = created_schema uuid ''activityId'' ActivityResult v"
| "result_schema uuid datetime RelationshipCreateKind v = created_schema uuid ''relationshipId'' RelationshipResult v"
| "result_schema uuid datetime RelationshipEndKind v = do {
     fs \<leftarrow> zod_object [''relationshipId'', ''version'', ''validTo''] v;
     i \<leftarrow> zod_string uuid (fld fs ''relationshipId'');
     n \<leftarrow> zod_positive (fld fs ''version'');
     t \<leftarrow> zod_string datetime (fld fs ''validTo'');
     Some (EndedResult i n t) }"
| "result_schema uuid datetime ContentCreateKind v = do {
     fs \<leftarrow> zod_object [''contentItemId'', ''revisionNumber'', ''version''] v;
     i \<leftarrow> zod_string uuid (fld fs ''contentItemId'');
     zod_literal (num_value 1) (fld fs ''revisionNumber'');
     zod_literal (num_value 1) (fld fs ''version'');
     Some (ContentResult i) }"
| "result_schema uuid datetime ContentReviseKind v = do {
     fs \<leftarrow> zod_object [''contentItemId'', ''revisionNumber'', ''version''] v;
     i \<leftarrow> zod_string uuid (fld fs ''contentItemId'');
     r \<leftarrow> zod_positive (fld fs ''revisionNumber'');
     n \<leftarrow> zod_positive (fld fs ''version'');
     Some (RevisedResult i r n) }"
| "result_schema uuid datetime SourceCaptureKind v = sourced_schema uuid ''activityId'' CapturedResult v"
| "result_schema uuid datetime SourceCorrectKind v = sourced_schema uuid ''previousSourceArtifactId'' CorrectedResult v"
| "result_schema uuid datetime SourceTombstoneKind v = do {
     fs \<leftarrow> zod_object [''sourceArtifactId'', ''version'', ''hashDisposition''] v;
     i \<leftarrow> zod_string uuid (fld fs ''sourceArtifactId'');
     n \<leftarrow> zod_positive (fld fs ''version'');
     d \<leftarrow> requireEnum disposition_text [True, False] (fld fs ''hashDisposition'');
     Some (TombstonedResult i n d) }"

definition parseStoredB1Result :: "(jstr \<Rightarrow> bool) \<Rightarrow> (jstr \<Rightarrow> bool) \<Rightarrow> b1_kind \<Rightarrow> jsval \<Rightarrow> b1_result option" where
  "parseStoredB1Result uuid datetime kind input = result_schema uuid datetime kind input"

definition created_value :: "string \<Rightarrow> jstr \<Rightarrow> jstr \<Rightarrow> jsval" where
  "created_value key i s = JObj (object_of [(key, JStr i), (''spaceId'', JStr s), (''version'', num_value 1)])"

definition sourced_value :: "string \<Rightarrow> jstr \<Rightarrow> jstr \<Rightarrow> int \<Rightarrow> jsval" where
  "sourced_value key i a n = JObj (object_of [(''sourceArtifactId'', JStr i), (key, JStr a),
     (''chunkCount'', num_value n), (''version'', num_value 1)])"

fun b1_result_value :: "b1_result \<Rightarrow> jsval" where
  "b1_result_value (OrganizationResult i s) = created_value ''organizationId'' i s"
| "b1_result_value (InitiativeResult i s) = created_value ''initiativeId'' i s"
| "b1_result_value (ActivityResult i s) = created_value ''activityId'' i s"
| "b1_result_value (RelationshipResult i s) = created_value ''relationshipId'' i s"
| "b1_result_value (EndedResult i n t) = JObj (object_of [(''relationshipId'', JStr i),
     (''version'', num_value n), (''validTo'', JStr t)])"
| "b1_result_value (ContentResult i) = JObj (object_of [(''contentItemId'', JStr i),
     (''revisionNumber'', num_value 1), (''version'', num_value 1)])"
| "b1_result_value (RevisedResult i r n) = JObj (object_of [(''contentItemId'', JStr i),
     (''revisionNumber'', num_value r), (''version'', num_value n)])"
| "b1_result_value (CapturedResult i a n) = sourced_value ''activityId'' i a n"
| "b1_result_value (CorrectedResult i p n) = sourced_value ''previousSourceArtifactId'' i p n"
| "b1_result_value (TombstonedResult i n d) = JObj (object_of [(''sourceArtifactId'', JStr i),
     (''version'', num_value n), (''hashDisposition'', JStr (disposition_text d))])"

section \<open>Stored results\<close>

text \<open>
  Results and their stored form: what a completed command keeps of its result is read back as the same
  result, whose ids and numbers have the format that the schemas ask for.
\<close>

fun result_kind :: "b1_result \<Rightarrow> b1_kind" where
  "result_kind (OrganizationResult _ _) = OrganizationCreateKind"
| "result_kind (InitiativeResult _ _) = InitiativeCreateKind"
| "result_kind (ActivityResult _ _) = ActivityCreateKind"
| "result_kind (RelationshipResult _ _) = RelationshipCreateKind"
| "result_kind (EndedResult _ _ _) = RelationshipEndKind"
| "result_kind (ContentResult _) = ContentCreateKind"
| "result_kind (RevisedResult _ _ _) = ContentReviseKind"
| "result_kind (CapturedResult _ _ _) = SourceCaptureKind"
| "result_kind (CorrectedResult _ _ _) = SourceCorrectKind"
| "result_kind (TombstonedResult _ _ _) = SourceTombstoneKind"

definition counts :: "int \<Rightarrow> bool" where
  "counts n \<longleftrightarrow> 0 < n \<and> n \<le> max_safe_integer"

fun result_fits :: "(jstr \<Rightarrow> bool) \<Rightarrow> (jstr \<Rightarrow> bool) \<Rightarrow> b1_result \<Rightarrow> bool" where
  "result_fits uuid datetime (OrganizationResult i s) \<longleftrightarrow> uuid i \<and> uuid s"
| "result_fits uuid datetime (InitiativeResult i s) \<longleftrightarrow> uuid i \<and> uuid s"
| "result_fits uuid datetime (ActivityResult i s) \<longleftrightarrow> uuid i \<and> uuid s"
| "result_fits uuid datetime (RelationshipResult i s) \<longleftrightarrow> uuid i \<and> uuid s"
| "result_fits uuid datetime (EndedResult i n t) \<longleftrightarrow> uuid i \<and> counts n \<and> datetime t"
| "result_fits uuid datetime (ContentResult i) \<longleftrightarrow> uuid i"
| "result_fits uuid datetime (RevisedResult i r n) \<longleftrightarrow> uuid i \<and> counts r \<and> counts n"
| "result_fits uuid datetime (CapturedResult i a n) \<longleftrightarrow> uuid i \<and> uuid a \<and> counts n"
| "result_fits uuid datetime (CorrectedResult i p n) \<longleftrightarrow> uuid i \<and> uuid p \<and> counts n"
| "result_fits uuid datetime (TombstonedResult i n d) \<longleftrightarrow> uuid i \<and> counts n"

lemma cloned_result:
  "result_fits uuid datetime r \<Longrightarrow>
     parseStoredB1Result uuid datetime (result_kind r) (json_clone (b1_result_value r)) = Some r"
  by (cases r) (simp_all add: parseStoredB1Result_def created_schema_def sourced_schema_def created_value_def
      sourced_value_def zod_object_def zod_string_def zod_positive_def zod_literal_def object_of_def js_def
      string_keys_def fld_def get_prop_def disposition_text_def requireEnum_def counts_def)

lemma stored_result:
  assumes "response_column (Some (b1_result_value r)) = Some v" "result_fits uuid datetime r"
  shows "\<exists>w. v = Some w \<and> parseStoredB1Result uuid datetime (result_kind r) w = Some r"
proof -
  have "json_clone (b1_result_value r) \<noteq> JNull"
    by (cases r) (simp_all add: created_value_def sourced_value_def)
  then have "v = Some (json_clone (b1_result_value r))"
    using assms(1) by (auto simp: response_column_def json_column_def split: if_splits)
  then show ?thesis using cloned_result[OF assms(2)] by blast
qed

end
