(* ===== verification/Work_Rows.thy ===== *)
theory Work_Rows
  imports  Account_Schemas
begin

text \<open>
  The tables that the account operations read and write (\<open>access\<close>, \<open>work\<close>, \<open>content\<close> and \<open>ops\<close>, migrations
  \<open>0004\<close> and \<open>0005\<close>), the settings of the transaction, and the errors. A row that the authorisation service
  reads too extends the record of \<open>Access_Tables\<close>, so that the directory of the service is a view of this
  store. Instants are microseconds; columns with one possible value are left out.
\<close>

section \<open>Rows\<close>

record account_space = space_record +
  as_name :: jstr
  as_slug :: jstr

record account_workspace = workspace_record +
  aw_default_space_id :: "jstr option"
  aw_profile_id :: jstr
  aw_profile_version :: jstr
  aw_default_access_class :: access_class
  aw_retention_policy_id :: "jstr option"

record organization_row = organization_record +
  on_name :: jstr
  on_normalized_name :: jstr
  on_archived :: bool
  on_version :: int

record domain_row =
  dm_tenant_id :: jstr
  dm_workspace_id :: jstr
  dm_space_id :: jstr
  dm_organization_id :: jstr
  dm_domain :: jstr

record initiative_row = work_record +
  in_title :: jstr
  in_type_key :: jstr
  in_stage_key :: jstr
  in_health :: jstr
  in_profile_id :: jstr
  in_profile_version :: jstr
  in_version :: int

record initiative_organization_row =
  io_tenant_id :: jstr
  io_workspace_id :: jstr
  io_space_id :: jstr
  io_initiative_id :: jstr
  io_organization_id :: jstr
  io_primary :: bool
  io_ended :: bool

record activity_row = work_record +
  ay_subtype :: jstr
  ay_profile_template_key :: jstr
  ay_title :: jstr
  ay_status :: jstr
  ay_occurred_at :: "int option"
  ay_starts_at :: "int option"
  ay_ends_at :: "int option"
  ay_governing_initiative_id :: "jstr option"
  ay_governing_organization_id :: "jstr option"
  ay_version :: int

record association_row =
  al_tenant_id :: jstr
  al_workspace_id :: jstr
  al_space_id :: jstr
  al_activity_id :: jstr
  al_related_id :: jstr

record relationship_row =
  re_id :: jstr
  re_tenant_id :: jstr
  re_workspace_id :: jstr
  re_space_id :: jstr
  re_subject :: endpoint
  re_predicate :: jstr
  re_object :: endpoint
  re_context :: "endpoint option"
  re_valid_from :: "int option"
  re_valid_to :: "int option"
  re_version :: int

record content_row = content_record +
  cn_type :: jstr
  cn_title :: jstr
  cn_owner_person_id :: jstr
  cn_metadata :: jsval
  cn_current_revision :: int
  cn_version :: int

record revision_row = revision_record +
  rn_id :: jstr
  rn_title :: jstr
  rn_body :: jstr
  rn_metadata :: jsval
  rn_created_by_user_id :: jstr
  rn_created_by_membership_id :: jstr

record artifact_row = content_record +
  so_source_type :: jstr
  so_title :: "jstr option"
  so_immutable_text :: "jstr option"
  so_content_hash :: "jstr option"
  so_normalized_content_hash :: "jstr option"
  so_erase_hashes :: bool
  so_origin :: "(jstr \<times> int) option"
  so_supersedes_source_id :: "jstr option"
  so_captured_by_user_id :: jstr
  so_captured_by_membership_id :: jstr
  so_occurred_at :: "int option"
  so_retention_policy_id :: "jstr option"
  so_deleted_at :: "int option"
  so_deletion_reason :: "jstr option"
  so_deletion_policy_ref :: "jstr option"
  so_hashes_retained :: "bool option"
  so_version_number :: int

record source_chunk_row =
  cu_id :: jstr
  cu_tenant_id :: jstr
  cu_workspace_id :: jstr
  cu_space_id :: jstr
  cu_source_artifact_id :: jstr
  cu_chunk_index :: nat
  cu_start_offset :: nat
  cu_end_offset :: nat
  cu_normalized_text :: jstr
  cu_content_hash :: jstr
  cu_access_class :: access_class

section \<open>The store\<close>

text \<open>The capability of a child creation, an object of the code that lives as long as the callback it is
  passed to: the kind it may create and which of its three steps were taken.\<close>

record child_scope =
  sc_kind :: space_kind
  sc_childSpaceId :: jstr
  sc_relayServicePrincipalId :: jstr
  sc_aggregateCreated :: bool
  sc_auditInserted :: bool
  sc_outboxInserted :: bool

record account_db =
  db_space_setting :: "jstr option"
  db_child_scope_active :: bool
  db_child :: "child_scope option"
  db_commands :: "command_row list"
  db_audit :: "audit_row list"
  db_outbox :: "outbox_row list"
  db_spaces :: "account_space list"
  db_grants :: "grant_record list"
  db_organizations :: "organization_row list"
  db_domains :: "domain_row list"
  db_initiatives :: "initiative_row list"
  db_initiative_organizations :: "initiative_organization_row list"
  db_initiative_people :: "participant_record list"
  db_activities :: "activity_row list"
  db_activity_organizations :: "association_row list"
  db_activity_initiatives :: "association_row list"
  db_activity_attendees :: "association_row list"
  db_relationships :: "relationship_row list"
  db_contents :: "content_row list"
  db_revisions :: "revision_row list"
  db_sources :: "artifact_row list"
  db_chunks :: "source_chunk_row list"
  db_activity_sources :: "association_row list"

text \<open>What the operations only read: workspaces, people and principals.\<close>

record account_world =
  aw_workspaces :: "account_workspace list"
  aw_people :: "person_record list"
  aw_principals :: "principal_record list"
  aw_policies :: "policy_record list"
  aw_memberships :: "membership_record list"
  aw_users :: "user_record list"
  aw_current_user :: jstr

section \<open>Errors\<close>

datatype content_fault =
    ContentInvariant | SourceUnavailable | ContentUnavailable | RevisionUnavailable | RevisionPrecondition
  | ActivityLinkUnavailable | CorrectionUnavailable | TombstonePrecondition | ChunkMismatch

datatype account_error =
    B1AuthorizationError
  | B1IdempotencyConflictError
  | B1CommandInvariantError
  | B1CommandValidationError
  | WorkGraphInvariantError
  | ResourceUnavailable
  | ContentInvariantError content_fault
  | SourceTextValidationError
  | ChildScopeError
  | B1DomainError domain_error
  | B1AuditError audit_error
  | B1OutboxError insert_error
  | B1ThrownError jsval

type_synonym 'a account_op = "(account_db, account_error, 'a) op"

section \<open>Statements\<close>

text \<open>The server refuses a statement that would break a constraint, a trigger or a row policy, for reasons of
  its own that depend on the tables before and after; what it throws is given by the environment. That row
  security also hides rows from queries is not modelled.\<close>

type_synonym refusal = "account_db \<Rightarrow> account_db \<Rightarrow> jsval option"

definition put_rows :: "refusal \<Rightarrow> (account_db \<Rightarrow> account_db) \<Rightarrow> unit account_op" where
  "put_rows refuses change s = (case refuses s (change s) of
     Some e \<Rightarrow> Inl (B1ThrownError e) | None \<Rightarrow> Inr ((), change s))"

lemma put_rows_Inr [op_simps]:
  "put_rows refuses change s = Inr (u, t) \<longleftrightarrow> refuses s t = None \<and> t = change s"
  by (auto simp: put_rows_def split: option.splits)

definition first_of :: "account_error \<Rightarrow> 'r list \<Rightarrow> 'r account_op" where
  "first_of e rows = (case rows of [] \<Rightarrow> op_fail e | r # _ \<Rightarrow> op_return r)"

lemma first_of_Inr [op_simps]: "first_of e rows s = Inr (r, t) \<longleftrightarrow> t = s \<and> (\<exists>rest. rows = r # rest)"
  by (cases rows) (auto simp: first_of_def op_simps)

definition scoped :: "jstr \<Rightarrow> jstr \<Rightarrow> jstr \<Rightarrow> jstr \<Rightarrow> bool" where
  "scoped tenantId workspaceId tenant workspace \<longleftrightarrow>
     tenant = uuid_column tenantId \<and> workspace = uuid_column workspaceId"

end
