(* ===== verification/Child_Space.thy ===== *)
theory Child_Space
  imports Work_Rows Uuid_V7
begin

text \<open>
  \<open>withCreatedChildSpaceScope\<close> of \<open>packages/db/src/transaction.ts\<close>: a new space below the space of the
  transaction, with its grant to the notification relay, and a callback that runs with the settings of the
  transaction moved into it. The callback gets a capability that creates one aggregate of the right kind and
  writes one audit event and one notification in the new space; when it returns without having used all
  three the call fails, and the settings are moved back whatever happens.

  The capability remembers in variables which of its steps were taken; here they are the field \<open>db_child\<close>.
  The environment gives the randomness of the identifiers, the case mapping and normal form of slugs, the
  refusals of the server and the error that the restoring statements throw when the transaction is broken.
\<close>

record child_env =
  ce_nfkd :: "jstr \<Rightarrow> jstr"
  ce_lower :: "jstr \<Rightarrow> jstr"
  ce_refuses :: refusal
  ce_restore_fault :: "jsval option"
  ce_now :: int
  ce_child_id :: jstr
  ce_access_id :: jstr
  ce_aggregate_id :: jstr

record child_input =
  ch_tenant :: jstr
  ch_workspace :: jstr
  ch_expectedParentSpaceId :: jstr
  ch_kind :: space_kind
  ch_name :: jstr
  ch_accessClass :: access_class
  ch_inheritanceMode :: inheritance_mode

record child_organization =
  cg_name :: jstr
  cg_normalizedName :: jstr
  cg_domains :: "jstr list"

record child_initiative =
  ci_title :: jstr
  ci_typeKey :: jstr
  ci_stageKey :: jstr
  ci_health :: jstr
  ci_ownerPersonId :: jstr
  ci_profileId :: jstr
  ci_profileVersion :: jstr
  ci_primaryOrganizationId :: jstr
  ci_supportingOrganizationIds :: "jstr list"
  ci_contributorPersonIds :: "jstr list"

section \<open>Slugs\<close>

function dash_runs :: "jstr \<Rightarrow> jstr" where
  "dash_runs s = (case s of
     [] \<Rightarrow> []
   | u # r \<Rightarrow> if is_lower_digit u then u # dash_runs r
              else 45 # dash_runs (dropWhile (\<lambda>v. \<not> is_lower_digit v) r))"
  by pat_completeness auto
termination
  by (relation "measure length") (auto simp: less_Suc_eq_le length_dropWhile_le)

declare dash_runs.simps [simp del]

definition strip_dash :: "jstr \<Rightarrow> jstr" where
  "strip_dash s = (let t = (if s \<noteq> [] \<and> hd s = 45 then tl s else s) in
     if t \<noteq> [] \<and> last t = 45 then butlast t else t)"

definition slugify :: "(jstr \<Rightarrow> jstr) \<Rightarrow> (jstr \<Rightarrow> jstr) \<Rightarrow> jstr \<Rightarrow> jstr" where
  "slugify nfkd lower value =
     (let slug = take 60 (strip_dash (dash_runs (lower
        (filter (\<lambda>u. \<not> (0x300 \<le> u \<and> u \<le> 0x36f)) (nfkd value)))))
      in if slug = [] then js ''space'' else slug)"

definition child_slug :: "child_env \<Rightarrow> child_input \<Rightarrow> jstr" where
  "child_slug env input = slugify (ce_nfkd env) (ce_lower env) (ch_name input) @ js ''-'' @
     drop (length (ce_child_id env) - 12) (ce_child_id env)"

section \<open>The capability\<close>

definition in_child :: "(child_scope \<Rightarrow> 'a account_op) \<Rightarrow> 'a account_op" where
  "in_child f = op_bind (op_read db_child) (\<lambda>c. case c of None \<Rightarrow> op_fail ChildScopeError | Some sc \<Rightarrow> f sc)"

definition mark_child :: "(child_scope \<Rightarrow> child_scope) \<Rightarrow> unit account_op" where
  "mark_child f = op_modify (\<lambda>s. s\<lparr>db_child := map_option f (db_child s)\<rparr>)"

definition organization_of :: "child_env \<Rightarrow> child_input \<Rightarrow> child_organization \<Rightarrow> organization_row" where
  "organization_of env input organization = \<lparr>og_id = uuid_column (ce_aggregate_id env),
     og_tenant_id = uuid_column (ch_tenant input), og_workspace_id = uuid_column (ch_workspace input),
     og_space_id = uuid_column (ce_child_id env), on_name = cg_name organization,
     on_normalized_name = cg_normalizedName organization, on_archived = False, on_version = 1\<rparr>"

definition domain_of :: "child_env \<Rightarrow> child_input \<Rightarrow> jstr \<Rightarrow> domain_row" where
  "domain_of env input domain = \<lparr>dm_tenant_id = uuid_column (ch_tenant input),
     dm_workspace_id = uuid_column (ch_workspace input), dm_space_id = uuid_column (ce_child_id env),
     dm_organization_id = uuid_column (ce_aggregate_id env), dm_domain = domain\<rparr>"

definition createOrganization :: "child_env \<Rightarrow> child_input \<Rightarrow> child_organization \<Rightarrow> jstr account_op" where
  "createOrganization env input organization = in_child (\<lambda>sc.
     op_bind (op_require ChildScopeError
       (\<not> (ch_kind input \<noteq> OrganizationSpace \<or> sc_aggregateCreated sc))) (\<lambda>_.
     op_bind (mark_child (\<lambda>sc. sc\<lparr>sc_aggregateCreated := True\<rparr>)) (\<lambda>_.
     op_bind (put_rows (ce_refuses env)
       (\<lambda>s. s\<lparr>db_organizations := db_organizations s @ [organization_of env input organization]\<rparr>)) (\<lambda>_.
     op_bind (op_require ChildScopeError (uuid_column (ce_aggregate_id env) = ce_aggregate_id env)) (\<lambda>_.
     op_bind (op_each (\<lambda>domain. put_rows (ce_refuses env)
       (\<lambda>s. s\<lparr>db_domains := db_domains s @ [domain_of env input domain]\<rparr>)) (cg_domains organization)) (\<lambda>_.
     op_return (ce_aggregate_id env)))))))"

definition initiative_of :: "child_env \<Rightarrow> child_input \<Rightarrow> child_initiative \<Rightarrow> initiative_row" where
  "initiative_of env input initiative = \<lparr>wr_id = uuid_column (ce_aggregate_id env),
     wr_tenant_id = uuid_column (ch_tenant input), wr_workspace_id = uuid_column (ch_workspace input),
     wr_space_id = uuid_column (ce_child_id env), wr_owner_person_id = uuid_column (ci_ownerPersonId initiative),
     in_title = ci_title initiative, in_type_key = ci_typeKey initiative, in_stage_key = ci_stageKey initiative,
     in_health = ci_health initiative, in_profile_id = ci_profileId initiative,
     in_profile_version = ci_profileVersion initiative, in_version = 1\<rparr>"

definition initiative_link :: "child_env \<Rightarrow> child_input \<Rightarrow> bool \<Rightarrow> jstr \<Rightarrow> initiative_organization_row" where
  "initiative_link env input primary organizationId = \<lparr>io_tenant_id = uuid_column (ch_tenant input),
     io_workspace_id = uuid_column (ch_workspace input), io_space_id = uuid_column (ce_child_id env),
     io_initiative_id = uuid_column (ce_aggregate_id env), io_organization_id = uuid_column organizationId,
     io_primary = primary, io_ended = False\<rparr>"

definition contributor_of :: "child_env \<Rightarrow> child_input \<Rightarrow> jstr \<Rightarrow> participant_record" where
  "contributor_of env input personId = \<lparr>pp_tenant_id = uuid_column (ch_tenant input),
     pp_workspace_id = uuid_column (ch_workspace input), pp_resource_id = uuid_column (ce_aggregate_id env),
     pp_person_id = uuid_column personId, pp_ended = False\<rparr>"

definition link_organization :: "child_env \<Rightarrow> child_input \<Rightarrow> bool \<Rightarrow> jstr \<Rightarrow> unit account_op" where
  "link_organization env input primary organizationId = put_rows (ce_refuses env) (\<lambda>s. s
     \<lparr>db_initiative_organizations := db_initiative_organizations s @ [initiative_link env input primary organizationId]\<rparr>)"

definition createInitiative :: "child_env \<Rightarrow> child_input \<Rightarrow> child_initiative \<Rightarrow> jstr account_op" where
  "createInitiative env input initiative = in_child (\<lambda>sc.
     op_bind (op_require ChildScopeError
       (\<not> (ch_kind input \<noteq> InitiativeSpace \<or> sc_aggregateCreated sc))) (\<lambda>_.
     op_bind (mark_child (\<lambda>sc. sc\<lparr>sc_aggregateCreated := True\<rparr>)) (\<lambda>_.
     op_bind (put_rows (ce_refuses env)
       (\<lambda>s. s\<lparr>db_initiatives := db_initiatives s @ [initiative_of env input initiative]\<rparr>)) (\<lambda>_.
     op_bind (op_require ChildScopeError (uuid_column (ce_aggregate_id env) = ce_aggregate_id env)) (\<lambda>_.
     op_bind (link_organization env input True (ci_primaryOrganizationId initiative)) (\<lambda>_.
     op_bind (op_each (link_organization env input False) (ci_supportingOrganizationIds initiative)) (\<lambda>_.
     op_bind (op_each (\<lambda>personId. put_rows (ce_refuses env) (\<lambda>s. s
       \<lparr>db_initiative_people := db_initiative_people s @ [contributor_of env input personId]\<rparr>))
       (ci_contributorPersonIds initiative)) (\<lambda>_.
     op_return (ce_aggregate_id env)))))))))"

definition child_insertAudit :: "child_env \<Rightarrow> child_input \<Rightarrow> audit_insert \<Rightarrow> unit account_op" where
  "child_insertAudit env input auditInput = in_child (\<lambda>sc.
     op_bind (op_require ChildScopeError (\<not> (sc_auditInserted sc \<or> ai_tenantId auditInput \<noteq> ch_tenant input \<or>
       ai_workspaceId auditInput \<noteq> ch_workspace input \<or> ai_spaceId auditInput \<noteq> ce_child_id env))) (\<lambda>_.
     op_bind (op_on db_audit (\<lambda>rows. db_audit_update (\<lambda>_. rows)) B1AuditError (audit_insert_event auditInput)) (\<lambda>_.
     mark_child (\<lambda>sc. sc\<lparr>sc_auditInserted := True\<rparr>))))"

definition account_outbox :: "int \<Rightarrow> outbox_insert \<Rightarrow> unit account_op" where
  "account_outbox createdAt input s =
     (case insertOrReplay createdAt input (db_outbox s) of
        (rows, Inl e) \<Rightarrow> Inl (B1OutboxError e)
      | (rows, Inr _) \<Rightarrow> Inr ((), db_outbox_update (\<lambda>_. rows) s))"

text \<open>The envelope is the object that the caller built; its three members are read from it.\<close>

definition envelope_text :: "string \<Rightarrow> jsval \<Rightarrow> jsval" where
  "envelope_text key v = (case v of JObj fs \<Rightarrow> fld fs key | _ \<Rightarrow> JUndef)"

definition child_insertOutbox :: "child_env \<Rightarrow> child_input \<Rightarrow> jsval \<Rightarrow> jstr \<Rightarrow> unit account_op" where
  "child_insertOutbox env input envelope policyVersionId = in_child (\<lambda>sc.
     op_bind (op_require ChildScopeError (\<not> (sc_outboxInserted sc \<or>
       envelope_text ''tenantId'' envelope \<noteq> JStr (ch_tenant input) \<or>
       envelope_text ''workspaceId'' envelope \<noteq> JStr (ch_workspace input) \<or>
       envelope_text ''spaceId'' envelope \<noteq> JStr (ce_child_id env)))) (\<lambda>_.
     op_bind (account_outbox (ce_now env) \<lparr>oi_envelope = envelope,
       oi_relayServicePrincipalId = sc_relayServicePrincipalId sc, oi_policyVersionId = policyVersionId\<rparr>) (\<lambda>_.
     mark_child (\<lambda>sc. sc\<lparr>sc_outboxInserted := True\<rparr>))))"

section \<open>The scope\<close>

definition child_space_of :: "child_env \<Rightarrow> child_input \<Rightarrow> account_space" where
  "child_space_of env input = \<lparr>asp_id = uuid_column (ce_child_id env),
     asp_tenant_id = uuid_column (ch_tenant input), asp_workspace_id = uuid_column (ch_workspace input),
     asp_parent_space_id = Some (uuid_column (ch_expectedParentSpaceId input)), asp_kind = ch_kind input,
     asp_access_class = ch_accessClass input, asp_inheritance_mode = ch_inheritanceMode input,
     asp_archived = False, as_name = ch_name input, as_slug = child_slug env input\<rparr>"

definition child_grant_of :: "child_env \<Rightarrow> child_input \<Rightarrow> jstr \<Rightarrow> grant_record" where
  "child_grant_of env input relay = \<lparr>ag_id = uuid_column (ce_access_id env),
     ag_tenant_id = uuid_column (ch_tenant input), ag_workspace_id = uuid_column (ch_workspace input),
     ag_subject_type = ServicePrincipalGrant, ag_subject_id = uuid_column relay, ag_relation = ManagerGrant,
     ag_resource_id = uuid_column (ce_child_id env), ag_source = DirectGrant\<rparr>"

definition relay_principals :: "account_world \<Rightarrow> child_input \<Rightarrow> principal_record list" where
  "relay_principals world input = filter (\<lambda>p. scoped (ch_tenant input) (ch_workspace input)
     (sv_tenant_id p) (sv_workspace_id p) \<and> sv_purpose p = RelayPurpose \<and> sv_status p = ActivePrincipal)
     (aw_principals world)"

text \<open>What the callback is run with: the space, the grant and the settings of the child.\<close>

definition open_child :: "child_env \<Rightarrow> account_world \<Rightarrow> child_input \<Rightarrow> unit account_op" where
  "open_child env world input =
     op_bind (op_read (\<lambda>s. (db_space_setting s, db_child_scope_active s))) (\<lambda>(setting, active).
     op_bind (op_require ChildScopeError (\<not> (setting \<noteq> Some (ch_expectedParentSpaceId input) \<or> active))) (\<lambda>_.
     op_bind (op_read (\<lambda>s. filter (\<lambda>sp. scoped (ch_tenant input) (ch_workspace input) (asp_tenant_id sp)
       (asp_workspace_id sp) \<and> asp_id sp = uuid_column (ch_expectedParentSpaceId input) \<and> \<not> asp_archived sp)
       (db_spaces s))) (\<lambda>parent.
     op_bind (op_require ChildScopeError (\<not> length (take 1 parent) \<noteq> 1)) (\<lambda>_.
     op_bind (put_rows (ce_refuses env) (\<lambda>s. s\<lparr>db_spaces := db_spaces s @ [child_space_of env input]\<rparr>)) (\<lambda>_.
     op_bind (op_require ChildScopeError (\<not> uuid_column (ce_child_id env) \<noteq> ce_child_id env)) (\<lambda>_.
     op_bind (op_lift (case take 2 (relay_principals world input) of
       [p] \<Rightarrow> Inr (sv_id p) | _ \<Rightarrow> Inl ChildScopeError)) (\<lambda>relay.
     op_bind (put_rows (ce_refuses env) (\<lambda>s. s\<lparr>db_grants := db_grants s @ [child_grant_of env input relay]\<rparr>)) (\<lambda>_.
     op_bind (op_require ChildScopeError (\<not> uuid_column (ce_access_id env) \<noteq> ce_access_id env)) (\<lambda>_.
     op_modify (\<lambda>s. s\<lparr>db_child_scope_active := True, db_space_setting := Some (ce_child_id env),
       db_child := Some \<lparr>sc_kind = ch_kind input, sc_childSpaceId = ce_child_id env,
         sc_relayServicePrincipalId = relay, sc_aggregateCreated = False, sc_auditInserted = False,
         sc_outboxInserted = False\<rparr>\<rparr>))))))))))"

definition child_complete :: "unit account_op" where
  "child_complete = in_child (\<lambda>sc. op_require ChildScopeError
     (\<not> (\<not> sc_aggregateCreated sc \<or> \<not> sc_auditInserted sc \<or> \<not> sc_outboxInserted sc)))"

definition close_child :: "child_input \<Rightarrow> unit account_op" where
  "close_child input =
     op_bind (op_modify (\<lambda>s. s\<lparr>db_space_setting := Some (ch_expectedParentSpaceId input),
       db_child_scope_active := False, db_child := None\<rparr>)) (\<lambda>_.
     op_bind (op_read (\<lambda>s. (db_space_setting s, db_child_scope_active s))) (\<lambda>(setting, active).
     op_require ChildScopeError (setting = Some (ch_expectedParentSpaceId input) \<and> \<not> active)))"

text \<open>\<open>try ... finally\<close>: the last statements run in any case, and what they throw replaces an earlier error.\<close>

definition op_finally :: "jsval option \<Rightarrow> 'a account_op \<Rightarrow> unit account_op \<Rightarrow> 'a account_op" where
  "op_finally fault m restore s =
     (case m s of
        Inl e \<Rightarrow> Inl (case fault of None \<Rightarrow> e | Some e' \<Rightarrow> B1ThrownError e')
      | Inr (a, t) \<Rightarrow> (case fault of
          Some e' \<Rightarrow> Inl (B1ThrownError e')
        | None \<Rightarrow> op_bind restore (\<lambda>_. op_return a) t))"

definition withCreatedChildSpaceScope ::
  "child_env \<Rightarrow> account_world \<Rightarrow> child_input \<Rightarrow> 'a account_op \<Rightarrow> 'a account_op" where
  "withCreatedChildSpaceScope env world input callback =
     op_bind (open_child env world input) (\<lambda>_.
     op_finally (ce_restore_fault env)
       (op_bind callback (\<lambda>result. op_bind child_complete (\<lambda>_. op_return result))) (close_child input))"

end
