(* ===== verification/Work_Repository.thy ===== *)
theory Work_Repository
  imports  Work_Rows Database_Ops
begin

text \<open>
  \<open>WorkGraphRepository\<close> of \<open>packages/work-graph/src/repository.ts\<close>: reading the work graph and writing
  activities and relationships. Row locks have no effect in a model whose transactions do not interleave;
  a parameter that only asks for one is left out. The order in which the server sorts texts is the
  parameter \<open>collate\<close>; uuids are sorted by their text. \<open>resolve_relationship_endpoint\<close> of migration
  \<open>0004\<close> is part of the operation that calls it.
\<close>

section \<open>What is read\<close>

record profile_pin =
  pn_rootSpaceId :: jstr
  pn_profileId :: jstr
  pn_profileVersion :: jstr
  pn_defaultAccessClass :: access_class
  pn_retentionPolicyId :: "jstr option"

record graph_space =
  gs_id :: jstr
  gs_parentSpaceId :: "jstr option"
  gs_accessClass :: access_class
  gs_kind :: space_kind

record organization =
  go_id :: jstr
  go_tenantId :: jstr
  go_workspaceId :: jstr
  go_spaceId :: jstr
  go_name :: jstr
  go_normalizedName :: jstr
  go_domains :: "jstr list"
  go_archived :: bool
  go_version :: int

record initiative =
  gi_id :: jstr
  gi_tenantId :: jstr
  gi_workspaceId :: jstr
  gi_spaceId :: jstr
  gi_title :: jstr
  gi_typeKey :: jstr
  gi_stageKey :: jstr
  gi_health :: jstr
  gi_ownerPersonId :: jstr
  gi_profileId :: jstr
  gi_profileVersion :: jstr
  gi_organizationIds :: "jstr list"
  gi_primaryOrganizationId :: "jstr option"
  gi_contributorPersonIds :: "jstr list"
  gi_version :: int

record activity =
  ga_id :: jstr
  ga_tenantId :: jstr
  ga_workspaceId :: jstr
  ga_spaceId :: jstr
  ga_subtype :: jstr
  ga_profileTemplateKey :: jstr
  ga_title :: jstr
  ga_status :: jstr
  ga_occurredAt :: "jstr option"
  ga_startsAt :: "jstr option"
  ga_endsAt :: "jstr option"
  ga_ownerPersonId :: "jstr option"
  ga_governingInitiativeId :: "jstr option"
  ga_governingOrganizationId :: "jstr option"
  ga_organizationIds :: "jstr list"
  ga_initiativeIds :: "jstr list"
  ga_attendeePersonIds :: "jstr list"
  ga_version :: int

record relationship =
  gr_id :: jstr
  gr_tenantId :: jstr
  gr_workspaceId :: jstr
  gr_spaceId :: jstr
  gr_subject :: endpoint
  gr_predicate :: jstr
  gr_object :: endpoint
  gr_context :: "endpoint option"
  gr_validFrom :: "jstr option"
  gr_validTo :: "jstr option"
  gr_version :: int

text \<open>Which associations of an activity its reader may see.\<close>

record association_visibility =
  avi_organizationIds :: "jstr list"
  avi_initiativeIds :: "jstr list"
  avi_personIds :: "jstr list"

definition date_text :: "int option \<Rightarrow> jstr option" where
  "date_text column = map_option (\<lambda>t. toISOString (t div 1000)) column"

definition error_message :: "string \<Rightarrow> account_error" where
  "error_message m = B1ThrownError (obj [(''message'', str m)])"

section \<open>Workspaces and spaces\<close>

definition getWorkspaceProfilePin :: "account_world \<Rightarrow> jstr \<Rightarrow> jstr \<Rightarrow> account_error + profile_pin" where
  "getWorkspaceProfilePin world tenantId workspaceId =
     (case filter (\<lambda>w. wp_tenant_id w = uuid_column tenantId \<and> wp_id w = uuid_column workspaceId \<and>
         wp_status w = ActiveWorkspace) (aw_workspaces world) of
        [] \<Rightarrow> Inl (error_message ''Workspace configuration is unavailable'')
      | row # _ \<Rightarrow>
          if \<not> given (aw_default_space_id row) then Inl (error_message ''Workspace configuration is unavailable'')
          else Inr \<lparr>pn_rootSpaceId = the (aw_default_space_id row), pn_profileId = aw_profile_id row,
            pn_profileVersion = aw_profile_version row, pn_defaultAccessClass = aw_default_access_class row,
            pn_retentionPolicyId = aw_retention_policy_id row\<rparr>)"

definition getSpace :: "jstr \<Rightarrow> jstr \<Rightarrow> jstr \<Rightarrow> graph_space account_op" where
  "getSpace tenantId workspaceId spaceId =
     op_bind (op_read (\<lambda>s. filter (\<lambda>sp. scoped tenantId workspaceId (asp_tenant_id sp) (asp_workspace_id sp) \<and>
       asp_id sp = uuid_column spaceId \<and> \<not> asp_archived sp) (db_spaces s))) (\<lambda>rows.
     op_bind (first_of ResourceUnavailable rows) (\<lambda>row.
     op_return \<lparr>gs_id = asp_id row, gs_parentSpaceId = asp_parent_space_id row,
       gs_accessClass = asp_access_class row, gs_kind = asp_kind row\<rparr>))"

section \<open>Organizations\<close>

definition domains_of :: "(jstr \<Rightarrow> nat list) \<Rightarrow> account_db \<Rightarrow> organization_row \<Rightarrow> jstr list" where
  "domains_of collate s row = sort_key collate (map dm_domain (filter (\<lambda>d. dm_tenant_id d = og_tenant_id row \<and>
     dm_workspace_id d = og_workspace_id row \<and> dm_organization_id d = og_id row) (db_domains s)))"

definition organization_view :: "(jstr \<Rightarrow> nat list) \<Rightarrow> jstr \<Rightarrow> jstr \<Rightarrow> account_db \<Rightarrow> organization_row \<Rightarrow> organization" where
  "organization_view collate tenantId workspaceId s row = \<lparr>go_id = og_id row, go_tenantId = tenantId,
     go_workspaceId = workspaceId, go_spaceId = og_space_id row, go_name = on_name row,
     go_normalizedName = on_normalized_name row, go_domains = domains_of collate s row,
     go_archived = on_archived row, go_version = on_version row\<rparr>"

definition organizations_named :: "jstr \<Rightarrow> jstr \<Rightarrow> jstr \<Rightarrow> account_db \<Rightarrow> organization_row list" where
  "organizations_named tenantId workspaceId organizationId s = filter (\<lambda>og. scoped tenantId workspaceId
     (og_tenant_id og) (og_workspace_id og) \<and> og_id og = uuid_column organizationId) (db_organizations s)"

definition getOrganization :: "(jstr \<Rightarrow> nat list) \<Rightarrow> jstr \<Rightarrow> jstr \<Rightarrow> jstr \<Rightarrow> organization account_op" where
  "getOrganization collate tenantId workspaceId organizationId =
     op_bind (op_read (organizations_named tenantId workspaceId organizationId)) (\<lambda>rows.
     op_bind (first_of ResourceUnavailable rows) (\<lambda>row.
     op_read (\<lambda>s. organization_view collate tenantId workspaceId s row)))"

definition listOrganizations ::
  "(jstr \<Rightarrow> nat list) \<Rightarrow> jstr \<Rightarrow> jstr \<Rightarrow> jstr list \<Rightarrow> access_class \<Rightarrow> organization list account_op" where
  "listOrganizations collate tenantId workspaceId permittedSpaceIds ceiling =
     (if length permittedSpaceIds = 0 then op_return []
      else op_read (\<lambda>s. map (organization_view collate tenantId workspaceId s)
        (sort_key (\<lambda>og. (collate (on_name og), og_id og))
          (filter (\<lambda>og. scoped tenantId workspaceId (og_tenant_id og) (og_workspace_id og) \<and>
             og_space_id og \<in> set (map uuid_column permittedSpaceIds) \<and>
             list_ex (\<lambda>sp. asp_tenant_id sp = og_tenant_id og \<and> asp_workspace_id sp = og_workspace_id og \<and>
               asp_id sp = og_space_id og \<and> \<not> asp_archived sp \<and>
               access_rank (asp_access_class sp) \<le> access_rank ceiling) (db_spaces s))
            (db_organizations s)))))"

section \<open>Initiatives\<close>

definition initiative_links :: "jstr \<Rightarrow> jstr \<Rightarrow> jstr \<Rightarrow> account_db \<Rightarrow> initiative_organization_row list" where
  "initiative_links tenantId workspaceId initiativeId s =
     sort_key (\<lambda>io. (\<not> io_primary io, io_organization_id io))
       (filter (\<lambda>io. scoped tenantId workspaceId (io_tenant_id io) (io_workspace_id io) \<and>
          io_initiative_id io = uuid_column initiativeId \<and> \<not> io_ended io) (db_initiative_organizations s))"

definition initiative_people :: "jstr \<Rightarrow> jstr \<Rightarrow> jstr \<Rightarrow> account_db \<Rightarrow> jstr list" where
  "initiative_people tenantId workspaceId initiativeId s =
     sort (map pp_person_id (filter (\<lambda>p. scoped tenantId workspaceId (pp_tenant_id p) (pp_workspace_id p) \<and>
       pp_resource_id p = uuid_column initiativeId \<and> \<not> pp_ended p) (db_initiative_people s)))"

definition initiatives_named :: "jstr \<Rightarrow> jstr \<Rightarrow> jstr \<Rightarrow> account_db \<Rightarrow> initiative_row list" where
  "initiatives_named tenantId workspaceId initiativeId s = filter (\<lambda>w. scoped tenantId workspaceId
     (wr_tenant_id w) (wr_workspace_id w) \<and> wr_id w = uuid_column initiativeId) (db_initiatives s)"

text \<open>Without a list of visible organizations an initiative must have its primary one; with it the reader
  gets the visible part.\<close>

definition getInitiative :: "jstr \<Rightarrow> jstr \<Rightarrow> jstr \<Rightarrow> jstr list option \<Rightarrow> initiative account_op" where
  "getInitiative tenantId workspaceId initiativeId visibleOrganizationIds =
     op_bind (op_read (initiatives_named tenantId workspaceId initiativeId)) (\<lambda>rows.
     op_bind (first_of ResourceUnavailable rows) (\<lambda>row.
     op_bind (op_read (\<lambda>s. filter (\<lambda>io. case visibleOrganizationIds of None \<Rightarrow> True
       | Some ids \<Rightarrow> io_organization_id io \<in> set (map uuid_column ids))
       (initiative_links tenantId workspaceId initiativeId s))) (\<lambda>organizations.
     op_bind (op_read (initiative_people tenantId workspaceId initiativeId)) (\<lambda>contributors.
     let primary = find io_primary organizations in
     op_bind (op_require ResourceUnavailable (\<not> (primary = None \<and> visibleOrganizationIds = None))) (\<lambda>_.
     op_return \<lparr>gi_id = wr_id row, gi_tenantId = tenantId, gi_workspaceId = workspaceId,
       gi_spaceId = wr_space_id row, gi_title = in_title row, gi_typeKey = in_type_key row,
       gi_stageKey = in_stage_key row, gi_health = in_health row, gi_ownerPersonId = wr_owner_person_id row,
       gi_profileId = in_profile_id row, gi_profileVersion = in_profile_version row,
       gi_organizationIds = map io_organization_id organizations,
       gi_primaryOrganizationId = map_option io_organization_id primary,
       gi_contributorPersonIds = contributors, gi_version = in_version row\<rparr>)))))"

definition getInitiativeOrganizationCandidates :: "jstr \<Rightarrow> jstr \<Rightarrow> jstr \<Rightarrow> jstr list account_op" where
  "getInitiativeOrganizationCandidates tenantId workspaceId initiativeId =
     op_read (\<lambda>s. map io_organization_id (initiative_links tenantId workspaceId initiativeId s))"

section \<open>Activities\<close>

definition related_ids :: "(account_db \<Rightarrow> association_row list) \<Rightarrow> jstr \<Rightarrow> jstr \<Rightarrow> jstr \<Rightarrow> account_db \<Rightarrow> jstr list" where
  "related_ids table tenantId workspaceId activityId s =
     sort (map al_related_id (filter (\<lambda>al. scoped tenantId workspaceId (al_tenant_id al) (al_workspace_id al) \<and>
       al_activity_id al = uuid_column activityId) (table s)))"

definition activities_named :: "jstr \<Rightarrow> jstr \<Rightarrow> jstr \<Rightarrow> account_db \<Rightarrow> activity_row list" where
  "activities_named tenantId workspaceId activityId s = filter (\<lambda>w. scoped tenantId workspaceId
     (wr_tenant_id w) (wr_workspace_id w) \<and> wr_id w = uuid_column activityId) (db_activities s)"

definition seen :: "(association_visibility \<Rightarrow> jstr list) \<Rightarrow> association_visibility option \<Rightarrow> jstr \<Rightarrow> bool" where
  "seen ids visibility i \<longleftrightarrow> (case visibility of None \<Rightarrow> True | Some v \<Rightarrow> i \<in> set (ids v))"

definition seen_rows :: "(association_visibility \<Rightarrow> jstr list) \<Rightarrow> association_visibility option \<Rightarrow> jstr list \<Rightarrow> jstr list" where
  "seen_rows ids visibility rows = (case visibility of None \<Rightarrow> rows
     | Some v \<Rightarrow> filter (\<lambda>i. i \<in> set (map uuid_column (ids v))) rows)"

definition keep_if :: "('a \<Rightarrow> bool) \<Rightarrow> 'a option \<Rightarrow> 'a option" where
  "keep_if P v = (case v of None \<Rightarrow> None | Some a \<Rightarrow> if P a then Some a else None)"

definition projectActivity :: "jstr \<Rightarrow> jstr \<Rightarrow> activity_row \<Rightarrow> association_visibility option \<Rightarrow> activity account_op" where
  "projectActivity tenantId workspaceId row visibility =
     op_bind (op_read (related_ids db_activity_organizations tenantId workspaceId (wr_id row))) (\<lambda>organizations.
     op_bind (op_read (related_ids db_activity_initiatives tenantId workspaceId (wr_id row))) (\<lambda>initiatives.
     op_bind (op_read (related_ids db_activity_attendees tenantId workspaceId (wr_id row))) (\<lambda>attendees.
     op_return \<lparr>ga_id = wr_id row, ga_tenantId = tenantId, ga_workspaceId = workspaceId,
       ga_spaceId = wr_space_id row, ga_subtype = ay_subtype row,
       ga_profileTemplateKey = ay_profile_template_key row, ga_title = ay_title row, ga_status = ay_status row,
       ga_occurredAt = date_text (ay_occurred_at row), ga_startsAt = date_text (ay_starts_at row),
       ga_endsAt = date_text (ay_ends_at row),
       ga_ownerPersonId = keep_if (seen avi_personIds visibility) (Some (wr_owner_person_id row)),
       ga_governingInitiativeId = keep_if (seen avi_initiativeIds visibility) (ay_governing_initiative_id row),
       ga_governingOrganizationId = keep_if (seen avi_organizationIds visibility) (ay_governing_organization_id row),
       ga_organizationIds = seen_rows avi_organizationIds visibility organizations,
       ga_initiativeIds = seen_rows avi_initiativeIds visibility initiatives,
       ga_attendeePersonIds = seen_rows avi_personIds visibility attendees, ga_version = ay_version row\<rparr>)))"

definition getActivity :: "jstr \<Rightarrow> jstr \<Rightarrow> jstr \<Rightarrow> association_visibility \<Rightarrow> activity account_op" where
  "getActivity tenantId workspaceId activityId visibility =
     op_bind (op_read (activities_named tenantId workspaceId activityId)) (\<lambda>rows.
     op_bind (first_of ResourceUnavailable rows) (\<lambda>row.
     projectActivity tenantId workspaceId row (Some visibility)))"

definition getActivityScope :: "jstr \<Rightarrow> jstr \<Rightarrow> jstr \<Rightarrow> jstr account_op" where
  "getActivityScope tenantId workspaceId activityId =
     op_bind (op_read (activities_named tenantId workspaceId activityId)) (\<lambda>rows.
     op_bind (first_of ResourceUnavailable rows) (\<lambda>row. op_return (wr_space_id row)))"

definition getActivityAssociationCandidates :: "jstr \<Rightarrow> jstr \<Rightarrow> jstr \<Rightarrow> association_visibility account_op" where
  "getActivityAssociationCandidates tenantId workspaceId activityId =
     op_bind (op_read (activities_named tenantId workspaceId activityId)) (\<lambda>rows.
     op_bind (first_of ResourceUnavailable rows) (\<lambda>row.
     op_read (\<lambda>s. \<lparr>
       avi_organizationIds = remdups_adj (related_ids db_activity_organizations tenantId workspaceId activityId s),
       avi_initiativeIds = remdups_adj (related_ids db_activity_initiatives tenantId workspaceId activityId s),
       avi_personIds = remdups_adj (insort (wr_owner_person_id row)
         (related_ids db_activity_attendees tenantId workspaceId activityId s))\<rparr>)))"

definition CAPTURABLE_STATUSES :: "jstr list" where
  "CAPTURABLE_STATUSES = map js [''planned'', ''in_progress'', ''captured'', ''review_pending'', ''completed'']"

definition lockActivityForSourceCapture :: "jstr \<Rightarrow> jstr \<Rightarrow> jstr \<Rightarrow> jstr \<Rightarrow> activity account_op" where
  "lockActivityForSourceCapture tenantId workspaceId governingSpaceId activityId =
     op_bind (op_read (\<lambda>s. filter (\<lambda>w. wr_space_id w = uuid_column governingSpaceId \<and>
       ay_status w \<in> set CAPTURABLE_STATUSES \<and>
       list_ex (\<lambda>sp. asp_tenant_id sp = wr_tenant_id w \<and> asp_workspace_id sp = wr_workspace_id w \<and>
         asp_id sp = wr_space_id w \<and> \<not> asp_archived sp) (db_spaces s))
       (activities_named tenantId workspaceId activityId s))) (\<lambda>rows.
     op_bind (first_of ResourceUnavailable rows) (\<lambda>row.
     projectActivity tenantId workspaceId row None))"

definition activity_row_of :: "(jstr \<Rightarrow> int) \<Rightarrow> activity \<Rightarrow> activity_row" where
  "activity_row_of instant input = \<lparr>wr_id = uuid_column (ga_id input),
     wr_tenant_id = uuid_column (ga_tenantId input), wr_workspace_id = uuid_column (ga_workspaceId input),
     wr_space_id = uuid_column (ga_spaceId input),
     wr_owner_person_id = uuid_column (the (ga_ownerPersonId input)), ay_subtype = ga_subtype input,
     ay_profile_template_key = ga_profileTemplateKey input, ay_title = ga_title input,
     ay_status = ga_status input, ay_occurred_at = map_option instant (ga_occurredAt input),
     ay_starts_at = map_option instant (ga_startsAt input), ay_ends_at = map_option instant (ga_endsAt input),
     ay_governing_initiative_id = map_option uuid_column (ga_governingInitiativeId input),
     ay_governing_organization_id = map_option uuid_column (ga_governingOrganizationId input), ay_version = 1\<rparr>"

definition association_of :: "activity \<Rightarrow> jstr \<Rightarrow> association_row" where
  "association_of input i = \<lparr>al_tenant_id = uuid_column (ga_tenantId input),
     al_workspace_id = uuid_column (ga_workspaceId input), al_space_id = uuid_column (ga_spaceId input),
     al_activity_id = uuid_column (ga_id input), al_related_id = uuid_column i\<rparr>"

definition createActivity :: "refusal \<Rightarrow> (jstr \<Rightarrow> int) \<Rightarrow> activity \<Rightarrow> unit account_op" where
  "createActivity refuses instant input =
     op_bind (put_rows refuses (\<lambda>s. s\<lparr>db_activities := db_activities s @ [activity_row_of instant input]\<rparr>)) (\<lambda>_.
     op_bind (op_each (\<lambda>i. put_rows refuses (\<lambda>s. s
       \<lparr>db_activity_organizations := db_activity_organizations s @ [association_of input i]\<rparr>))
       (ga_organizationIds input)) (\<lambda>_.
     op_bind (op_each (\<lambda>i. put_rows refuses (\<lambda>s. s
       \<lparr>db_activity_initiatives := db_activity_initiatives s @ [association_of input i]\<rparr>))
       (ga_initiativeIds input)) (\<lambda>_.
     op_bind (op_each (\<lambda>i. put_rows refuses (\<lambda>s. s
       \<lparr>db_activity_attendees := db_activity_attendees s @ [association_of input i]\<rparr>))
       (ga_attendeePersonIds input)) (\<lambda>_.
     op_return ()))))"

section \<open>Relationships\<close>

definition end_column :: "endpoint \<Rightarrow> endpoint" where
  "end_column e = e\<lparr>en_id := uuid_column (en_id e)\<rparr>"

definition relationship_row_of :: "(jstr \<Rightarrow> int) \<Rightarrow> relationship \<Rightarrow> relationship_row" where
  "relationship_row_of instant input = \<lparr>re_id = uuid_column (gr_id input),
     re_tenant_id = uuid_column (gr_tenantId input), re_workspace_id = uuid_column (gr_workspaceId input),
     re_space_id = uuid_column (gr_spaceId input), re_subject = end_column (gr_subject input),
     re_predicate = gr_predicate input, re_object = end_column (gr_object input),
     re_context = map_option end_column (gr_context input),
     re_valid_from = map_option instant (gr_validFrom input), re_valid_to = None, re_version = 1\<rparr>"

definition createRelationship :: "refusal \<Rightarrow> (jstr \<Rightarrow> int) \<Rightarrow> relationship \<Rightarrow> unit account_op" where
  "createRelationship refuses instant input = put_rows refuses
     (\<lambda>s. s\<lparr>db_relationships := db_relationships s @ [relationship_row_of instant input]\<rparr>)"

definition relationships_named :: "jstr \<Rightarrow> jstr \<Rightarrow> jstr \<Rightarrow> account_db \<Rightarrow> relationship_row list" where
  "relationships_named tenantId workspaceId relationshipId s = filter (\<lambda>re. scoped tenantId workspaceId
     (re_tenant_id re) (re_workspace_id re) \<and> re_id re = uuid_column relationshipId) (db_relationships s)"

definition getRelationshipScope :: "jstr \<Rightarrow> jstr \<Rightarrow> jstr \<Rightarrow> (jstr \<times> jstr) account_op" where
  "getRelationshipScope tenantId workspaceId relationshipId =
     op_bind (op_read (relationships_named tenantId workspaceId relationshipId)) (\<lambda>rows.
     op_bind (first_of ResourceUnavailable rows) (\<lambda>row. op_return (re_id row, re_space_id row)))"

definition getRelationship :: "jstr \<Rightarrow> jstr \<Rightarrow> jstr \<Rightarrow> relationship account_op" where
  "getRelationship tenantId workspaceId relationshipId =
     op_bind (op_read (relationships_named tenantId workspaceId relationshipId)) (\<lambda>rows.
     op_bind (first_of ResourceUnavailable rows) (\<lambda>row.
     op_return \<lparr>gr_id = re_id row, gr_tenantId = tenantId, gr_workspaceId = workspaceId,
       gr_spaceId = re_space_id row, gr_subject = re_subject row, gr_predicate = re_predicate row,
       gr_object = re_object row, gr_context = re_context row, gr_validFrom = date_text (re_valid_from row),
       gr_validTo = date_text (re_valid_to row), gr_version = re_version row\<rparr>))"

record authority_requirement =
  aq_grantId :: jstr
  aq_resourceId :: jstr

record relationship_end =
  nd_tenantId :: jstr
  nd_workspaceId :: jstr
  nd_relationshipId :: jstr
  nd_expectedVersion :: int
  nd_validTo :: jstr
  nd_actorUserId :: jstr
  nd_actorMembershipId :: jstr
  nd_policyVersionId :: jstr
  nd_governingSpaceId :: jstr
  nd_authorityRequirements :: "authority_requirement list"

definition requirement_grants :: "relationship_end \<Rightarrow> authority_requirement \<Rightarrow> account_db \<Rightarrow> grant_record list" where
  "requirement_grants input q s = filter (\<lambda>g. scoped (nd_tenantId input) (nd_workspaceId input)
     (ag_tenant_id g) (ag_workspace_id g) \<and> ag_id g = uuid_column (aq_grantId q) \<and>
     ag_resource_id g = uuid_column (aq_resourceId q) \<and>
     ((ag_subject_type g = MembershipGrant \<and> ag_subject_id g = uuid_column (nd_actorMembershipId input)) \<or>
      (ag_subject_type g = UserGrant \<and> ag_subject_id g = uuid_column (nd_actorUserId input)))) (db_grants s)"

definition grants_suffice :: "relationship_end \<Rightarrow> account_db \<Rightarrow> bool" where
  "grants_suffice input s \<longleftrightarrow>
     list_all (\<lambda>q. requirement_grants input q s \<noteq> []) (nd_authorityRequirements input) \<and>
     list_ex (\<lambda>q. list_ex (\<lambda>g. ag_relation g \<in> {OwnerGrant, ManagerGrant, ContributorGrant})
       (requirement_grants input q s)) (nd_authorityRequirements input)"

definition end_authority :: "account_world \<Rightarrow> relationship_end \<Rightarrow> account_db \<Rightarrow> bool" where
  "end_authority world input s \<longleftrightarrow>
     list_ex (\<lambda>p. scoped (nd_tenantId input) (nd_workspaceId input) (pv_tenant_id p) (pv_workspace_id p) \<and>
       pv_id p = nd_policyVersionId input \<and> pv_status p = ActivePolicy \<and>
       list_ex (\<lambda>m. mb_tenant_id m = pv_tenant_id p \<and> mb_workspace_id m = pv_workspace_id p \<and>
         mb_id m = uuid_column (nd_actorMembershipId input) \<and> mb_user_id m = uuid_column (nd_actorUserId input) \<and>
         mb_person_id m \<noteq> None \<and> mb_status m = ActiveMembership \<and>
         list_ex (\<lambda>u. us_id u = mb_user_id m \<and> us_status u = ActiveUser) (aw_users world) \<and>
         list_ex (\<lambda>sp. asp_tenant_id sp = pv_tenant_id p \<and> asp_workspace_id sp = pv_workspace_id p \<and>
           asp_id sp = uuid_column (nd_governingSpaceId input) \<and> \<not> asp_archived sp) (db_spaces s) \<and>
         (mb_role m \<in> {OwnerRole, AdminRole} \<or> grants_suffice input s)) (aw_memberships world))
       (aw_policies world)"

definition ends_row :: "relationship_end \<Rightarrow> relationship_row \<Rightarrow> bool" where
  "ends_row input re \<longleftrightarrow> scoped (nd_tenantId input) (nd_workspaceId input) (re_tenant_id re) (re_workspace_id re) \<and>
     re_id re = uuid_column (nd_relationshipId input) \<and> re_space_id re = uuid_column (nd_governingSpaceId input) \<and>
     re_version re = nd_expectedVersion input \<and> re_valid_to re = None"

definition ended_row :: "(jstr \<Rightarrow> int) \<Rightarrow> relationship_end \<Rightarrow> relationship_row \<Rightarrow> relationship_row" where
  "ended_row instant input re = re\<lparr>re_valid_to := Some (instant (nd_validTo input)), re_version := re_version re + 1\<rparr>"

text \<open>The result: not authorised, authorised without a matching row, or the space and version of the row.\<close>

definition endRelationship ::
  "refusal \<Rightarrow> (jstr \<Rightarrow> int) \<Rightarrow> account_world \<Rightarrow> relationship_end \<Rightarrow> (jstr \<times> int) option option account_op" where
  "endRelationship refuses instant world input =
     op_bind (op_read (\<lambda>s. (end_authority world input s, filter (ends_row input) (db_relationships s)))) (\<lambda>(allowed, rows).
     if \<not> allowed then op_return None
     else op_bind (put_rows refuses (\<lambda>s. s\<lparr>db_relationships := update_where (ends_row input)
       (ended_row instant input) (db_relationships s)\<rparr>)) (\<lambda>_.
     op_return (Some (case rows of [] \<Rightarrow> None | re # _ \<Rightarrow> Some (re_space_id re, re_version re + 1)))))"

section \<open>Endpoints and people\<close>

definition endpoint_rows :: "account_world \<Rightarrow> jstr \<Rightarrow> jstr \<Rightarrow> endpoint \<Rightarrow> account_db \<Rightarrow> jstr option list" where
  "endpoint_rows world tenantId workspaceId e s = (let i = uuid_column (en_id e) in
     case en_type e of
       SpaceEnd \<Rightarrow> map (\<lambda>sp. Some (asp_id sp)) (filter (\<lambda>sp. scoped tenantId workspaceId (asp_tenant_id sp)
         (asp_workspace_id sp) \<and> asp_id sp = i \<and> \<not> asp_archived sp) (db_spaces s))
     | PersonEnd \<Rightarrow> map (\<lambda>_. None) (filter (\<lambda>p. scoped tenantId workspaceId (pe_tenant_id p)
         (pe_workspace_id p) \<and> pe_id p = i) (aw_people world))
     | OrganizationEnd \<Rightarrow> map (\<lambda>og. Some (og_space_id og)) (organizations_named tenantId workspaceId (en_id e) s)
     | InitiativeEnd \<Rightarrow> map (\<lambda>w. Some (wr_space_id w)) (initiatives_named tenantId workspaceId (en_id e) s)
     | ActivityEnd \<Rightarrow> map (\<lambda>w. Some (wr_space_id w)) (activities_named tenantId workspaceId (en_id e) s)
     | ContentEnd \<Rightarrow> map (\<lambda>c. Some (ct_space_id c)) (filter (\<lambda>c. scoped tenantId workspaceId (ct_tenant_id c)
         (ct_workspace_id c) \<and> ct_id c = i) (db_contents s)))"

definition resolveEndpoint :: "account_world \<Rightarrow> jstr \<Rightarrow> jstr \<Rightarrow> endpoint \<Rightarrow> space_bearing option account_op" where
  "resolveEndpoint world tenantId workspaceId e =
     op_bind (op_read (endpoint_rows world tenantId workspaceId e)) (\<lambda>rows.
     case rows of
       [] \<Rightarrow> op_return None
     | resolved # _ \<Rightarrow>
         op_bind (if given resolved then op_bind (getSpace tenantId workspaceId (the resolved))
             (\<lambda>sp. op_return (gs_accessClass sp)) else op_return Workspace) (\<lambda>accessClass.
         op_return (Some \<lparr>sb_tenantId = tenantId, sb_workspaceId = workspaceId, sb_spaceId = resolved,
           sb_accessClass = accessClass\<rparr>)))"

definition getSafePeople :: "account_world \<Rightarrow> jstr \<Rightarrow> jstr \<Rightarrow> jstr list \<Rightarrow> account_error + jstr list" where
  "getSafePeople world tenantId workspaceId personIds =
     (if length personIds = 0 then Inr []
      else let rows = sort (map pe_id (filter (\<lambda>p. scoped tenantId workspaceId (pe_tenant_id p)
             (pe_workspace_id p) \<and> pe_id p \<in> set (map uuid_column personIds)) (aw_people world)))
           in if length rows \<noteq> card (set personIds) then Inl (error_message ''Person projection is unavailable'')
              else Inr rows)"

definition relationshipEndpointKind :: "jstr \<Rightarrow> account_error + endpoint_kind" where
  "relationshipEndpointKind v = (case find (\<lambda>k. endpoint_kind_string k = v) endpoint_kinds of
     None \<Rightarrow> Inl (error_message ''Relationship endpoint is not implemented in B1'') | Some k \<Rightarrow> Inr k)"

end
