(* ===== verification/Content_Repository.thy ===== *)
theory Content_Repository
  imports Work_Repository Source_Text
begin

text \<open>
  \<open>ContentRepository\<close> of \<open>packages/content/src/repository.ts\<close>: content items with their revisions, and
  source artifacts with their chunks, corrections and tombstones. A metadata object is written as JSON and
  read back with its members in the order of the server (\<open>json_clone\<close>).
\<close>

section \<open>Rows by name\<close>

definition sources_named :: "jstr \<Rightarrow> jstr \<Rightarrow> jstr \<Rightarrow> account_db \<Rightarrow> artifact_row list" where
  "sources_named tenantId workspaceId sourceArtifactId s = filter (\<lambda>r. scoped tenantId workspaceId
     (ct_tenant_id r) (ct_workspace_id r) \<and> ct_id r = uuid_column sourceArtifactId) (db_sources s)"

definition contents_named :: "jstr \<Rightarrow> jstr \<Rightarrow> jstr \<Rightarrow> account_db \<Rightarrow> content_row list" where
  "contents_named tenantId workspaceId contentItemId s = filter (\<lambda>r. scoped tenantId workspaceId
     (ct_tenant_id r) (ct_workspace_id r) \<and> ct_id r = uuid_column contentItemId) (db_contents s)"

definition revisions_named :: "jstr \<Rightarrow> jstr \<Rightarrow> jstr \<Rightarrow> int \<Rightarrow> account_db \<Rightarrow> revision_row list" where
  "revisions_named tenantId workspaceId contentItemId revisionNumber s = filter (\<lambda>r. scoped tenantId workspaceId
     (rv_tenant_id r) (rv_workspace_id r) \<and> rv_content_item_id r = uuid_column contentItemId \<and>
     rv_revision_number r = revisionNumber) (db_revisions s)"

section \<open>Content items\<close>

definition getSourceScope :: "jstr \<Rightarrow> jstr \<Rightarrow> jstr \<Rightarrow> (jstr \<times> jstr) account_op" where
  "getSourceScope tenantId workspaceId sourceArtifactId =
     op_bind (op_read (sources_named tenantId workspaceId sourceArtifactId)) (\<lambda>rows.
     op_bind (first_of (ContentInvariantError SourceUnavailable) rows) (\<lambda>row.
     op_return (ct_id row, ct_space_id row)))"

record content_scope =
  ks_spaceId :: jstr
  ks_title :: jstr
  ks_accessClass :: access_class
  ks_currentRevision :: int
  ks_version :: int

definition getContentItemScope :: "jstr \<Rightarrow> jstr \<Rightarrow> jstr \<Rightarrow> content_scope account_op" where
  "getContentItemScope tenantId workspaceId contentItemId =
     op_bind (op_read (contents_named tenantId workspaceId contentItemId)) (\<lambda>rows.
     op_bind (first_of (ContentInvariantError ContentUnavailable) rows) (\<lambda>row.
     op_return \<lparr>ks_spaceId = ct_space_id row, ks_title = cn_title row, ks_accessClass = ct_access_class row,
       ks_currentRevision = cn_current_revision row, ks_version = cn_version row\<rparr>))"

definition getContentRevisionScope :: "jstr \<Rightarrow> jstr \<Rightarrow> jstr \<Rightarrow> int \<Rightarrow> (jstr \<times> access_class) account_op" where
  "getContentRevisionScope tenantId workspaceId contentItemId revisionNumber =
     op_bind (op_read (\<lambda>s. filter (\<lambda>r. list_ex (\<lambda>c. ct_tenant_id c = rv_tenant_id r \<and>
       ct_workspace_id c = rv_workspace_id r \<and> ct_space_id c = rv_space_id r \<and>
       ct_id c = rv_content_item_id r) (db_contents s))
       (revisions_named tenantId workspaceId contentItemId revisionNumber s))) (\<lambda>rows.
     op_bind (first_of (ContentInvariantError RevisionUnavailable) rows) (\<lambda>row.
     op_return (rv_space_id row, rv_access_class row)))"

definition getContentRevisionBody :: "jstr \<Rightarrow> jstr \<Rightarrow> jstr \<Rightarrow> int \<Rightarrow> jstr account_op" where
  "getContentRevisionBody tenantId workspaceId contentItemId revisionNumber =
     op_bind (op_read (revisions_named tenantId workspaceId contentItemId revisionNumber)) (\<lambda>rows.
     op_bind (first_of (ContentInvariantError RevisionUnavailable) rows) (\<lambda>row. op_return (rn_body row)))"

record revision_input =
  rx_revisionId :: jstr
  rx_contentItemId :: jstr
  rx_tenantId :: jstr
  rx_workspaceId :: jstr
  rx_spaceId :: jstr
  rx_title :: jstr
  rx_body :: jstr
  rx_metadata :: jsval
  rx_accessClass :: access_class
  rx_actorUserId :: jstr
  rx_actorMembershipId :: jstr
  rx_revisionNumber :: int

definition revision_row_of :: "revision_input \<Rightarrow> revision_row" where
  "revision_row_of input = \<lparr>rv_tenant_id = uuid_column (rx_tenantId input),
     rv_workspace_id = uuid_column (rx_workspaceId input), rv_space_id = uuid_column (rx_spaceId input),
     rv_content_item_id = uuid_column (rx_contentItemId input), rv_revision_number = rx_revisionNumber input,
     rv_access_class = rx_accessClass input, rn_id = uuid_column (rx_revisionId input),
     rn_title = rx_title input, rn_body = rx_body input, rn_metadata = json_clone (rx_metadata input),
     rn_created_by_user_id = uuid_column (rx_actorUserId input),
     rn_created_by_membership_id = uuid_column (rx_actorMembershipId input)\<rparr>"

definition insertContentRevision :: "refusal \<Rightarrow> revision_input \<Rightarrow> unit account_op" where
  "insertContentRevision refuses input = put_rows refuses
     (\<lambda>s. s\<lparr>db_revisions := db_revisions s @ [revision_row_of input]\<rparr>)"

record content_input =
  ix_contentItemId :: jstr
  ix_revisionId :: jstr
  ix_tenantId :: jstr
  ix_workspaceId :: jstr
  ix_spaceId :: jstr
  ix_type :: jstr
  ix_title :: jstr
  ix_body :: jstr
  ix_ownerPersonId :: jstr
  ix_accessClass :: access_class
  ix_metadata :: jsval
  ix_actorUserId :: jstr
  ix_actorMembershipId :: jstr

definition content_row_of :: "content_input \<Rightarrow> content_row" where
  "content_row_of input = \<lparr>ct_id = uuid_column (ix_contentItemId input),
     ct_tenant_id = uuid_column (ix_tenantId input), ct_workspace_id = uuid_column (ix_workspaceId input),
     ct_space_id = uuid_column (ix_spaceId input), ct_access_class = ix_accessClass input,
     cn_type = ix_type input, cn_title = ix_title input,
     cn_owner_person_id = uuid_column (ix_ownerPersonId input), cn_metadata = json_clone (ix_metadata input),
     cn_current_revision = 1, cn_version = 1\<rparr>"

definition first_revision :: "content_input \<Rightarrow> revision_input" where
  "first_revision input = \<lparr>rx_revisionId = ix_revisionId input, rx_contentItemId = ix_contentItemId input,
     rx_tenantId = ix_tenantId input, rx_workspaceId = ix_workspaceId input, rx_spaceId = ix_spaceId input,
     rx_title = ix_title input, rx_body = ix_body input, rx_metadata = ix_metadata input,
     rx_accessClass = ix_accessClass input, rx_actorUserId = ix_actorUserId input,
     rx_actorMembershipId = ix_actorMembershipId input, rx_revisionNumber = 1\<rparr>"

definition createContent :: "refusal \<Rightarrow> content_input \<Rightarrow> unit account_op" where
  "createContent refuses input =
     op_bind (put_rows refuses (\<lambda>s. s\<lparr>db_contents := db_contents s @ [content_row_of input]\<rparr>)) (\<lambda>_.
     insertContentRevision refuses (first_revision input))"

record revising =
  vx_revisionId :: jstr
  vx_tenantId :: jstr
  vx_workspaceId :: jstr
  vx_contentItemId :: jstr
  vx_expectedRevision :: int
  vx_title :: "jstr option"
  vx_body :: jstr
  vx_metadata :: "jsval option"
  vx_actorUserId :: jstr
  vx_actorMembershipId :: jstr

definition revised :: "revising \<Rightarrow> content_row \<Rightarrow> bool" where
  "revised input r \<longleftrightarrow> scoped (vx_tenantId input) (vx_workspaceId input) (ct_tenant_id r) (ct_workspace_id r) \<and>
     ct_id r = uuid_column (vx_contentItemId input) \<and> cn_current_revision r = vx_expectedRevision input"

definition revised_row :: "revising \<Rightarrow> jstr \<Rightarrow> jsval \<Rightarrow> content_row \<Rightarrow> content_row" where
  "revised_row input title metadata r = r\<lparr>cn_title := title, cn_metadata := json_clone metadata,
     cn_current_revision := vx_expectedRevision input + 1, cn_version := cn_version r + 1\<rparr>"

definition next_revision :: "revising \<Rightarrow> jstr \<Rightarrow> jsval \<Rightarrow> content_row \<Rightarrow> revision_input" where
  "next_revision input title metadata current = \<lparr>rx_revisionId = vx_revisionId input,
     rx_contentItemId = vx_contentItemId input, rx_tenantId = vx_tenantId input,
     rx_workspaceId = vx_workspaceId input, rx_spaceId = ct_space_id current, rx_title = title,
     rx_body = vx_body input, rx_metadata = metadata, rx_accessClass = ct_access_class current,
     rx_actorUserId = vx_actorUserId input, rx_actorMembershipId = vx_actorMembershipId input,
     rx_revisionNumber = vx_expectedRevision input + 1\<rparr>"

text \<open>The result: the space, the number of the new revision and the new version of the item.\<close>

definition reviseContent :: "refusal \<Rightarrow> revising \<Rightarrow> (jstr \<times> int \<times> int) account_op" where
  "reviseContent refuses input =
     op_bind (op_read (\<lambda>s. filter (revised input) (db_contents s))) (\<lambda>rows.
     op_bind (first_of (ContentInvariantError RevisionPrecondition) rows) (\<lambda>current.
     let title = (case vx_title input of None \<Rightarrow> cn_title current | Some t \<Rightarrow> t);
         metadata = (case vx_metadata input of None \<Rightarrow> cn_metadata current | Some m \<Rightarrow> m);
         version = cn_version current + 1 in
     op_bind (put_rows refuses (\<lambda>s. s\<lparr>db_contents := update_where (revised input)
       (revised_row input title metadata) (db_contents s)\<rparr>)) (\<lambda>_.
     op_bind (op_require (ContentInvariantError RevisionPrecondition) (version \<noteq> 0)) (\<lambda>_.
     op_bind (insertContentRevision refuses (next_revision input title metadata current)) (\<lambda>_.
     op_return (ct_space_id current, vx_expectedRevision input + 1, version))))))"

section \<open>Source artifacts\<close>

record source_input_row =
  sq_sourceArtifactId :: jstr
  sq_chunkIds :: "jstr list"
  sq_tenant :: jstr
  sq_workspace :: jstr
  sq_space :: jstr
  sq_sourceType :: jstr
  sq_title :: "jstr option"
  sq_source :: normalized_source
  sq_chunks :: "source_chunk list"
  sq_capturedByUserId :: jstr
  sq_capturedByMembershipId :: jstr
  sq_accessClass :: access_class
  sq_eraseHashes :: bool
  sq_retentionPolicyId :: "jstr option"
  sq_origin :: "(jstr \<times> int) option"
  sq_supersedesSourceId :: "jstr option"
  sq_occurredAt :: "jstr option"
  sq_activityId :: "jstr option"

definition artifact_row_of :: "(jstr \<Rightarrow> int) \<Rightarrow> source_input_row \<Rightarrow> artifact_row" where
  "artifact_row_of instant input = \<lparr>ct_id = uuid_column (sq_sourceArtifactId input),
     ct_tenant_id = uuid_column (sq_tenant input), ct_workspace_id = uuid_column (sq_workspace input),
     ct_space_id = uuid_column (sq_space input), ct_access_class = sq_accessClass input,
     so_source_type = sq_sourceType input, so_title = sq_title input,
     so_immutable_text = Some (capturedText (sq_source input)),
     so_content_hash = Some (contentHash (sq_source input)),
     so_normalized_content_hash = Some (normalizedContentHash (sq_source input)),
     so_erase_hashes = sq_eraseHashes input,
     so_origin = map_option (map_prod uuid_column id) (sq_origin input),
     so_supersedes_source_id = map_option uuid_column (sq_supersedesSourceId input),
     so_captured_by_user_id = uuid_column (sq_capturedByUserId input),
     so_captured_by_membership_id = uuid_column (sq_capturedByMembershipId input),
     so_occurred_at = map_option instant (sq_occurredAt input),
     so_retention_policy_id = sq_retentionPolicyId input, so_deleted_at = None, so_deletion_reason = None,
     so_deletion_policy_ref = None, so_hashes_retained = None, so_version_number = 1\<rparr>"

definition chunk_row_of :: "source_input_row \<Rightarrow> jstr \<Rightarrow> source_chunk \<Rightarrow> source_chunk_row" where
  "chunk_row_of source chunkId chunk = \<lparr>cu_id = uuid_column chunkId,
     cu_tenant_id = uuid_column (sq_tenant source), cu_workspace_id = uuid_column (sq_workspace source),
     cu_space_id = uuid_column (sq_space source),
     cu_source_artifact_id = uuid_column (sq_sourceArtifactId source), cu_chunk_index = chunkIndex chunk,
     cu_start_offset = startOffset chunk, cu_end_offset = endOffset chunk,
     cu_normalized_text = chunkText chunk, cu_content_hash = chunkHash chunk,
     cu_access_class = sq_accessClass source\<rparr>"

definition same_chunk_key :: "source_input_row \<Rightarrow> source_chunk \<Rightarrow> source_chunk_row \<Rightarrow> bool" where
  "same_chunk_key source chunk r \<longleftrightarrow> scoped (sq_tenant source) (sq_workspace source) (cu_tenant_id r)
     (cu_workspace_id r) \<and> cu_source_artifact_id r = uuid_column (sq_sourceArtifactId source) \<and>
     cu_chunk_index r = chunkIndex chunk"

definition insertOrVerifyChunk :: "refusal \<Rightarrow> source_input_row \<Rightarrow> jstr \<Rightarrow> source_chunk \<Rightarrow> unit account_op" where
  "insertOrVerifyChunk refuses source chunkId chunk =
     op_bind (op_read (\<lambda>s. filter (same_chunk_key source chunk) (db_chunks s))) (\<lambda>existing.
     case existing of
       [] \<Rightarrow> put_rows refuses (\<lambda>s. s\<lparr>db_chunks := db_chunks s @ [chunk_row_of source chunkId chunk]\<rparr>)
     | row # _ \<Rightarrow> op_require (ContentInvariantError ChunkMismatch)
         (\<not> (cu_id row \<noteq> chunkId \<or> cu_space_id row \<noteq> sq_space source \<or>
           cu_start_offset row \<noteq> startOffset chunk \<or> cu_end_offset row \<noteq> endOffset chunk \<or>
           cu_normalized_text row \<noteq> chunkText chunk \<or> cu_content_hash row \<noteq> chunkHash chunk \<or>
           cu_access_class row \<noteq> sq_accessClass source)))"

definition activity_source_of :: "source_input_row \<Rightarrow> jstr \<Rightarrow> association_row" where
  "activity_source_of input activityId = \<lparr>al_tenant_id = uuid_column (sq_tenant input),
     al_workspace_id = uuid_column (sq_workspace input), al_space_id = uuid_column (sq_space input),
     al_activity_id = uuid_column activityId, al_related_id = uuid_column (sq_sourceArtifactId input)\<rparr>"

definition persistSource :: "refusal \<Rightarrow> (jstr \<Rightarrow> int) \<Rightarrow> source_input_row \<Rightarrow> unit account_op" where
  "persistSource refuses instant input =
     op_bind (op_require (ContentInvariantError ContentInvariant)
       (\<not> (length (sq_chunkIds input) \<noteq> length (sq_chunks input) \<or> length (sq_chunks input) < 1))) (\<lambda>_.
     op_bind (put_rows refuses (\<lambda>s. s\<lparr>db_sources := db_sources s @ [artifact_row_of instant input]\<rparr>)) (\<lambda>_.
     op_bind (op_each (\<lambda>(chunkId, chunk). insertOrVerifyChunk refuses input chunkId chunk)
       (zip (sq_chunkIds input) (sq_chunks input))) (\<lambda>_.
     case sq_activityId input of
       None \<Rightarrow> op_return ()
     | Some activityId \<Rightarrow>
         if activityId = [] then op_return ()
         else put_rows refuses (\<lambda>s. s\<lparr>db_activity_sources := db_activity_sources s @
           [activity_source_of input activityId]\<rparr>))))"

record source_view =
  sj_id :: jstr
  sj_tenantId :: jstr
  sj_workspaceId :: jstr
  sj_spaceId :: jstr
  sj_sourceType :: jstr
  sj_title :: "jstr option"
  sj_immutableText :: "jstr option"
  sj_contentHash :: "jstr option"
  sj_normalizedContentHash :: "jstr option"
  sj_eraseHashes :: bool
  sj_supersedesSourceId :: "jstr option"
  sj_accessClass :: access_class
  sj_deletedAt :: "jstr option"
  sj_deletionReason :: "jstr option"
  sj_deletionPolicyRef :: "jstr option"
  sj_hashesRetained :: "bool option"
  sj_version :: int
  sj_chunks :: "source_chunk_row list"

definition projectSource ::
  "jstr \<Rightarrow> jstr \<Rightarrow> artifact_row \<Rightarrow> bool \<Rightarrow> source_chunk_row list \<Rightarrow> source_view" where
  "projectSource tenantId workspaceId row includeText chunks = \<lparr>sj_id = ct_id row, sj_tenantId = tenantId,
     sj_workspaceId = workspaceId, sj_spaceId = ct_space_id row, sj_sourceType = so_source_type row,
     sj_title = so_title row, sj_immutableText = (if includeText then so_immutable_text row else None),
     sj_contentHash = so_content_hash row, sj_normalizedContentHash = so_normalized_content_hash row,
     sj_eraseHashes = so_erase_hashes row, sj_supersedesSourceId = so_supersedes_source_id row,
     sj_accessClass = ct_access_class row, sj_deletedAt = date_text (so_deleted_at row),
     sj_deletionReason = so_deletion_reason row, sj_deletionPolicyRef = so_deletion_policy_ref row,
     sj_hashesRetained = so_hashes_retained row, sj_version = so_version_number row, sj_chunks = chunks\<rparr>"

text \<open>Of a chunk the reader gets all columns but its scope, which it already knows.\<close>

definition getChunks :: "jstr \<Rightarrow> jstr \<Rightarrow> jstr \<Rightarrow> source_chunk_row list account_op" where
  "getChunks tenantId workspaceId sourceArtifactId = op_read (\<lambda>s. sort_key cu_chunk_index
     (filter (\<lambda>r. scoped tenantId workspaceId (cu_tenant_id r) (cu_workspace_id r) \<and>
        cu_source_artifact_id r = uuid_column sourceArtifactId) (db_chunks s)))"

definition getSource :: "jstr \<Rightarrow> jstr \<Rightarrow> jstr \<Rightarrow> bool \<Rightarrow> source_view account_op" where
  "getSource tenantId workspaceId sourceArtifactId includeText =
     op_bind (op_read (sources_named tenantId workspaceId sourceArtifactId)) (\<lambda>rows.
     op_bind (first_of (ContentInvariantError SourceUnavailable) rows) (\<lambda>row.
     op_bind (if so_deleted_at row \<noteq> None \<or> \<not> includeText then op_return []
       else getChunks tenantId workspaceId sourceArtifactId) (\<lambda>chunks.
     op_return (projectSource tenantId workspaceId row includeText chunks))))"

definition lockSource :: "jstr \<Rightarrow> jstr \<Rightarrow> jstr \<Rightarrow> source_view account_op" where
  "lockSource tenantId workspaceId sourceArtifactId = getSource tenantId workspaceId sourceArtifactId True"

section \<open>Corrections\<close>

definition source_links :: "jstr \<Rightarrow> jstr \<Rightarrow> jstr \<Rightarrow> account_db \<Rightarrow> association_row list" where
  "source_links tenantId workspaceId sourceArtifactId s = filter (\<lambda>al. scoped tenantId workspaceId
     (al_tenant_id al) (al_workspace_id al) \<and> al_related_id al = uuid_column sourceArtifactId)
     (db_activity_sources s)"

definition resolveSourceActivityLinkForCorrection :: "jstr \<Rightarrow> jstr \<Rightarrow> jstr \<Rightarrow> (jstr \<times> jstr) account_op" where
  "resolveSourceActivityLinkForCorrection tenantId workspaceId sourceArtifactId =
     op_bind (op_read (source_links tenantId workspaceId sourceArtifactId)) (\<lambda>rows.
     case rows of
       [al] \<Rightarrow> op_return (al_space_id al, al_activity_id al)
     | _ \<Rightarrow> op_fail (ContentInvariantError ActivityLinkUnavailable))"

definition superseded :: "account_db \<Rightarrow> artifact_row \<Rightarrow> bool" where
  "superseded s r \<longleftrightarrow> list_ex (\<lambda>x. ct_tenant_id x = ct_tenant_id r \<and> ct_workspace_id x = ct_workspace_id r \<and>
     so_supersedes_source_id x = Some (ct_id r)) (db_sources s)"

definition correctable :: "jstr \<Rightarrow> jstr \<Rightarrow> jstr \<Rightarrow> jstr \<Rightarrow> account_db \<Rightarrow> artifact_row list" where
  "correctable tenantId workspaceId governingSpaceId sourceArtifactId s =
     filter (\<lambda>r. ct_space_id r = uuid_column governingSpaceId \<and> so_deleted_at r = None \<and> \<not> superseded s r)
       (sources_named tenantId workspaceId sourceArtifactId s)"

definition lockCurrentSourceForCorrection :: "jstr \<Rightarrow> jstr \<Rightarrow> jstr \<Rightarrow> jstr \<Rightarrow> source_view account_op" where
  "lockCurrentSourceForCorrection tenantId workspaceId governingSpaceId sourceArtifactId =
     op_bind (op_read (correctable tenantId workspaceId governingSpaceId sourceArtifactId)) (\<lambda>rows.
     op_bind (first_of (ContentInvariantError CorrectionUnavailable) rows) (\<lambda>row.
     op_return (projectSource tenantId workspaceId row False [])))"

definition revalidateSourceActivityLinkForCorrection ::
  "jstr \<Rightarrow> jstr \<Rightarrow> jstr \<Rightarrow> jstr \<Rightarrow> jstr \<Rightarrow> unit account_op" where
  "revalidateSourceActivityLinkForCorrection tenantId workspaceId governingSpaceId activityId sourceArtifactId =
     op_bind (op_read (\<lambda>s. filter (\<lambda>al. al_space_id al = uuid_column governingSpaceId \<and>
       al_activity_id al = uuid_column activityId) (source_links tenantId workspaceId sourceArtifactId s))) (\<lambda>rows.
     op_require (ContentInvariantError ActivityLinkUnavailable) (\<not> length (take 1 rows) \<noteq> 1))"

definition listActivitySourceCandidates :: "jstr \<Rightarrow> jstr \<Rightarrow> jstr \<Rightarrow> jstr \<Rightarrow> jstr list account_op" where
  "listActivitySourceCandidates tenantId workspaceId activityId activitySpaceId = op_read (\<lambda>s.
     map al_related_id (filter (\<lambda>al. scoped tenantId workspaceId (al_tenant_id al) (al_workspace_id al) \<and>
       al_activity_id al = uuid_column activityId \<and> al_space_id al = uuid_column activitySpaceId)
       (db_activity_sources s)))"

text \<open>The chain of corrections, level by level: the last level that has leaves gives the result. It need not
  end when the rows supersede each other in a circle.\<close>

definition successors :: "jstr \<Rightarrow> jstr \<Rightarrow> account_db \<Rightarrow> jstr \<Rightarrow> jstr list" where
  "successors tenantId workspaceId s i = map ct_id (filter (\<lambda>r. scoped tenantId workspaceId (ct_tenant_id r)
     (ct_workspace_id r) \<and> so_supersedes_source_id r = Some i) (db_sources s))"

partial_function (option) deepest_leaf :: "('a \<Rightarrow> 'a list) \<Rightarrow> 'a list \<Rightarrow> 'a option \<Rightarrow> 'a option option" where
  "deepest_leaf next level found =
     (if level = [] then Some found
      else deepest_leaf next (concat (map next level))
        (case filter (\<lambda>i. next i = []) level of [] \<Rightarrow> found | i # _ \<Rightarrow> Some i))"

definition resolveCurrentSourceId :: "jstr \<Rightarrow> jstr \<Rightarrow> jstr \<Rightarrow> account_db \<Rightarrow> (account_error + jstr) option" where
  "resolveCurrentSourceId tenantId workspaceId sourceArtifactId s =
     map_option (\<lambda>leaf. case leaf of None \<Rightarrow> Inl (ContentInvariantError SourceUnavailable) | Some i \<Rightarrow> Inr i)
       (deepest_leaf (successors tenantId workspaceId s)
          (map ct_id (sources_named tenantId workspaceId sourceArtifactId s)) None)"

definition resolveCurrentSource ::
  "jstr \<Rightarrow> jstr \<Rightarrow> jstr \<Rightarrow> account_db \<Rightarrow> (account_error + source_view \<times> account_db) option" where
  "resolveCurrentSource tenantId workspaceId sourceArtifactId s =
     map_option (\<lambda>r. case r of Inl e \<Rightarrow> Inl e | Inr currentId \<Rightarrow> getSource tenantId workspaceId currentId True s)
       (resolveCurrentSourceId tenantId workspaceId sourceArtifactId s)"

section \<open>Tombstones\<close>

record tombstone =
  tb_tenantId :: jstr
  tb_workspaceId :: jstr
  tb_sourceArtifactId :: jstr
  tb_expectedVersion :: int
  tb_deletionReasonCategory :: jstr
  tb_deletionPolicyRef :: jstr

definition buried :: "tombstone \<Rightarrow> artifact_row \<Rightarrow> bool" where
  "buried input r \<longleftrightarrow> scoped (tb_tenantId input) (tb_workspaceId input) (ct_tenant_id r) (ct_workspace_id r) \<and>
     ct_id r = uuid_column (tb_sourceArtifactId input) \<and> so_version_number r = tb_expectedVersion input \<and>
     so_deleted_at r = None"

definition buried_row :: "int \<Rightarrow> tombstone \<Rightarrow> bool \<Rightarrow> artifact_row \<Rightarrow> artifact_row" where
  "buried_row now input retained r = r
     \<lparr>so_immutable_text := None,
      so_content_hash := (if \<not> so_erase_hashes r then so_content_hash r else None),
      so_normalized_content_hash := (if \<not> so_erase_hashes r then so_normalized_content_hash r else None),
      so_deleted_at := Some now, so_deletion_reason := Some (tb_deletionReasonCategory input),
      so_deletion_policy_ref := Some (tb_deletionPolicyRef input), so_hashes_retained := Some retained,
      so_version_number := so_version_number r + 1\<rparr>"

text \<open>The result: the space, the new version and whether the hashes were retained.\<close>

definition tombstoneSource :: "refusal \<Rightarrow> int \<Rightarrow> tombstone \<Rightarrow> (jstr \<times> int \<times> bool) account_op" where
  "tombstoneSource refuses now input =
     op_bind (op_read (\<lambda>s. filter (buried input) (db_sources s))) (\<lambda>rows.
     op_bind (first_of (ContentInvariantError TombstonePrecondition) rows) (\<lambda>row.
     let retained = (\<not> so_erase_hashes row) in
     op_bind (put_rows refuses (\<lambda>s. s\<lparr>db_sources := update_where (buried input) (buried_row now input retained)
       (db_sources s)\<rparr>)) (\<lambda>_.
     op_bind (put_rows refuses (\<lambda>s. s\<lparr>db_chunks := filter (\<lambda>r. \<not> (scoped (tb_tenantId input)
       (tb_workspaceId input) (cu_tenant_id r) (cu_workspace_id r) \<and>
       cu_source_artifact_id r = uuid_column (tb_sourceArtifactId input))) (db_chunks s)\<rparr>)) (\<lambda>_.
     op_return (ct_space_id row, so_version_number row + 1, retained)))))"

section \<open>Policies\<close>

definition deriveHashRetentionPolicy :: "jstr option \<Rightarrow> bool" where
  "deriveHashRetentionPolicy retentionPolicyId \<longleftrightarrow> (case retentionPolicyId of
     None \<Rightarrow> False
   | Some p \<Rightarrow> p = js ''erase_on_tombstone'' \<or> take 19 p = js ''erase_on_tombstone:'')"

definition deriveSourceAccessClass :: "access_class \<Rightarrow> access_class option \<Rightarrow> access_class option \<Rightarrow> access_class" where
  "deriveSourceAccessClass spaceClass requested predecessor = the (maxAccessClass (map access_string
     [spaceClass, case requested of None \<Rightarrow> spaceClass | Some c \<Rightarrow> c,
      case predecessor of None \<Rightarrow> spaceClass | Some c \<Rightarrow> c]))"

definition canProjectSource :: "access_class \<Rightarrow> access_class \<Rightarrow> bool" where
  "canProjectSource ceiling effectiveClass = the (canReadAccessClass (access_string ceiling) (access_string effectiveClass))"

end
