(* ===== verification/Account_Commands.thy ===== *)
theory Account_Commands
  imports  Child_Space Content_Repository Truth_Commands Authorization_Service
begin

text \<open>
  The parts of \<open>AccountOperationsDomainCommandBus\<close> (\<open>packages/account-operations/src/domain-command-bus.ts\<close>)
  that its ten commands share, and the registry of profiles it is given
  (\<open>packages/domain-profiles/src/profile.ts\<close>): authority, the reservation of the idempotency key and its
  completion, and the audit event and notification of each change.

  The environment of a call holds what the bus is given or finds: formats, Unicode and IDNA mappings, the
  clocks, the random bytes of each identifier it draws (numbered by purpose), the tables it only reads, what
  the server refuses, and the authorisation service passed to the constructor.
\<close>

section \<open>The environment\<close>

text \<open>Of a profile the bus reads the keys of its initiative types, stages and activity templates.\<close>

record domain_profile =
  dp_id :: jstr
  dp_version :: jstr
  dp_initiativeTypes :: "jstr list"
  dp_stagePipeline :: "jstr list"
  dp_activityTemplates :: "jstr list"

definition registry_key :: "jstr \<Rightarrow> jstr \<Rightarrow> jstr" where
  "registry_key profileId profileVersion = profileId @ js ''@'' @ profileVersion"

type_synonym profile_registry = "(jstr \<times> domain_profile) list"

definition register_profile :: "domain_profile \<Rightarrow> profile_registry \<Rightarrow> account_error + profile_registry" where
  "register_profile profile profiles = (let key = registry_key (dp_id profile) (dp_version profile) in
     if map_of profiles key \<noteq> None then Inl (error_message ''Domain profile tuple is already registered'')
     else Inr (profiles @ [(key, profile)]))"

definition resolve_profile :: "profile_registry \<Rightarrow> jstr \<Rightarrow> jstr \<Rightarrow> account_error + domain_profile" where
  "resolve_profile profiles profileId profileVersion =
     (case map_of profiles (registry_key profileId profileVersion) of
        None \<Rightarrow> Inl (error_message ''Workspace profile pin is unavailable or incompatible'')
      | Some profile \<Rightarrow> Inr profile)"

record account_env =
  ae_uuid :: "jstr \<Rightarrow> bool"
  ae_datetime :: "jstr \<Rightarrow> bool"
  ae_nfc :: "jstr \<Rightarrow> jstr"
  ae_nfkd :: "jstr \<Rightarrow> jstr"
  ae_lower :: "jstr \<Rightarrow> jstr"
  ae_locale_lower :: "jstr \<Rightarrow> jstr"
  ae_ascii :: "jstr \<Rightarrow> jstr"
  ae_date :: "jstr \<Rightarrow> int option"
  ae_instant :: "jstr \<Rightarrow> int"
  ae_collate :: "jstr \<Rightarrow> nat list"
  ae_compare :: "jstr \<Rightarrow> nat list"
  ae_sha256 :: "nat list \<Rightarrow> jstr"
  ae_now :: int
  ae_random :: "nat \<Rightarrow> 8 word list"
  ae_millisecond :: "nat \<Rightarrow> nat"
  ae_refuses :: refusal
  ae_restore_fault :: "jsval option"
  ae_reservation_world :: account_world
  ae_world :: account_world
  ae_profiles :: profile_registry
  ae_can :: "security_context \<Rightarrow> auth_action \<Rightarrow> resource_ref \<Rightarrow> decision_options \<Rightarrow> account_db \<Rightarrow> jsval + decision"
  ae_batching :: bool
  ae_preauthorize :: "security_context \<Rightarrow> resource_ref \<Rightarrow> account_db \<Rightarrow> jsval + decision"
  ae_reauthorize :: "security_context \<Rightarrow> authority_request list \<Rightarrow> account_db \<Rightarrow> jsval + decision"
  ae_role :: jstr
  ae_reservation_tx :: tx_env
  ae_tx :: tx_env

definition drawn :: "account_env \<Rightarrow> nat \<Rightarrow> jstr" where
  "drawn env k = generateUuidV7 (ae_millisecond env k) (ae_random env k)"

definition commandDraw :: nat where "commandDraw = 0"
definition aggregateDraw :: nat where "aggregateDraw = 1"
definition childDraw :: nat where "childDraw = 2"
definition accessDraw :: nat where "accessDraw = 3"
definition revisionDraw :: nat where "revisionDraw = 4"
definition auditDraw :: nat where "auditDraw = 5"
definition eventDraw :: nat where "eventDraw = 6"
definition chunkDraw :: "nat \<Rightarrow> nat" where "chunkDraw k = 7 + k"

lemma drawn_v7 [simp]: "uuid_v7 (drawn env k) \<Longrightarrow> uuid_column (drawn env k) = drawn env k"
  by simp

section \<open>Actor and trace\<close>

definition account_actor :: "security_context \<Rightarrow> account_error + human_actor" where
  "account_actor context =
     (if \<not> present (sx_actorUserId context) \<or> \<not> present (sx_actorMembershipId context) \<or>
         \<not> present (sx_actorDisplayPersonId context) \<or> present (sx_servicePrincipalId context) \<or>
         present (sx_agentPrincipalId context)
      then Inl B1AuthorizationError
      else Inr \<lparr>ha_userId = the (sx_actorUserId context), ha_membershipId = the (sx_actorMembershipId context),
        ha_displayPersonId = the (sx_actorDisplayPersonId context)\<rparr>)"

definition traceCarrier :: "(nat list \<Rightarrow> jstr) \<Rightarrow> security_context \<Rightarrow> jstr" where
  "traceCarrier sha256 context =
     (let requestedTrace = (if length (sx_traceId context) = 32 \<and> list_all is_hex (sx_traceId context) \<and>
                       sx_traceId context \<noteq> zeros 32
                     then lower_ascii (sx_traceId context)
                     else take 32 (hex_digest sha256 (sx_traceId context)));
          span = take 16 (hex_digest sha256 (sx_requestId context @ js '':'' @ sx_traceId context))
      in js ''00-'' @ requestedTrace @ js ''-'' @
         (if span = zeros 16 then zeros 15 @ js ''1'' else span) @ js ''-01'')"

definition account_role :: "account_env \<Rightarrow> account_error + unit" where
  "account_role env = (if ae_role env \<noteq> APP_ROLE then Inl B1AuthorizationError else Inr ())"

record account_call =
  bl_context :: security_context
  bl_actor :: human_actor
  bl_key :: jstr
  bl_payload :: b1_payload
  bl_hash :: jstr
  bl_space :: jstr
  bl_trace :: jstr

section \<open>Authority\<close>

definition account_decision :: "jsval + decision \<Rightarrow> decision account_op" where
  "account_decision d = op_lift (case d of
     Inl e \<Rightarrow> Inl (B1ThrownError e)
   | Inr d \<Rightarrow> if \<not> de_allowed d then Inl B1AuthorizationError else Inr d)"

definition account_authorize ::
  "account_env \<Rightarrow> security_context \<Rightarrow> auth_action \<Rightarrow> resource_ref \<Rightarrow> decision_options \<Rightarrow> decision account_op" where
  "account_authorize env context action resource options =
     op_bind (op_read (ae_can env context action resource options)) account_decision"

definition ref_to :: "ref_type \<Rightarrow> jstr \<Rightarrow> resource_ref" where
  "ref_to t i = \<lparr>rr_type = t, rr_id = i\<rparr>"

definition locking :: decision_options where
  "locking = no_options\<lparr>ao_lockAuthority := True\<rparr>"

definition endpointKey :: "endpoint \<Rightarrow> jstr" where
  "endpointKey e = endpoint_kind_string (en_type e) @ js '':'' @ en_id e"

fun endpoint_ref_type :: "endpoint_kind \<Rightarrow> ref_type" where
  "endpoint_ref_type SpaceEnd = RefSpace"
| "endpoint_ref_type PersonEnd = RefPerson"
| "endpoint_ref_type OrganizationEnd = RefOrganization"
| "endpoint_ref_type InitiativeEnd = RefInitiative"
| "endpoint_ref_type ActivityEnd = RefActivity"
| "endpoint_ref_type ContentEnd = RefContentItem"

fun endpoint_action :: "endpoint_kind \<Rightarrow> auth_action" where
  "endpoint_action SpaceEnd = SpaceRead"
| "endpoint_action PersonEnd = PersonRead"
| "endpoint_action OrganizationEnd = OrganizationRead"
| "endpoint_action InitiativeEnd = InitiativeRead"
| "endpoint_action ActivityEnd = ActivityRead"
| "endpoint_action ContentEnd = ContentRead"

definition endpointResource :: "endpoint \<Rightarrow> resource_ref" where
  "endpointResource e = ref_to (endpoint_ref_type (en_type e)) (en_id e)"

fun first_by :: "('a \<Rightarrow> 'k) \<Rightarrow> 'a list \<Rightarrow> 'a list" where
  "first_by key [] = []"
| "first_by key (x # xs) = x # first_by key (filter (\<lambda>y. key y \<noteq> key x) xs)"

definition ordered_endpoints :: "account_env \<Rightarrow> endpoint \<Rightarrow> endpoint \<Rightarrow> endpoint option \<Rightarrow> endpoint list" where
  "ordered_endpoints env subject object context = sort_key (\<lambda>e. ae_compare env (endpointKey e))
     (first_by endpointKey ([subject, object] @ (case context of None \<Rightarrow> [] | Some c \<Rightarrow> [c])))"

definition use_site :: "endpoint \<Rightarrow> endpoint \<Rightarrow> endpoint option \<Rightarrow> jstr \<Rightarrow> resource_ref option \<Rightarrow> resource_ref" where
  "use_site subject object context governingSpaceId personUseSite =
     (case personUseSite of Some r \<Rightarrow> r
      | None \<Rightarrow>
          if context \<noteq> None \<and> en_type (the context) \<noteq> PersonEnd then endpointResource (the context)
          else if en_type subject \<noteq> PersonEnd then endpointResource subject
          else if en_type object \<noteq> PersonEnd then endpointResource object
          else ref_to RefSpace governingSpaceId)"

definition endpoint_options :: "resource_ref \<Rightarrow> decision_options \<Rightarrow> endpoint \<Rightarrow> decision_options" where
  "endpoint_options useSite authorityOptions e =
     (if en_type e = PersonEnd then authorityOptions\<lparr>ao_personUseSite := Some useSite\<rparr> else authorityOptions)"

definition authorizeRelationshipEndpoints ::
  "account_env \<Rightarrow> security_context \<Rightarrow> endpoint \<Rightarrow> endpoint \<Rightarrow> endpoint option \<Rightarrow> jstr \<Rightarrow> resource_ref option \<Rightarrow>
     decision_options \<Rightarrow> jstr list account_op" where
  "authorizeRelationshipEndpoints env context subject object about governingSpaceId personUseSite authorityOptions =
     (let useSite = use_site subject object about governingSpaceId personUseSite in
      op_bind (op_each (\<lambda>e. account_authorize env context (endpoint_action (en_type e)) (endpointResource e)
        (endpoint_options useSite authorityOptions e)) (ordered_endpoints env subject object about)) (\<lambda>decisions.
      op_return (concat (map tokens_of decisions))))"

definition endpoint_request :: "resource_ref \<Rightarrow> endpoint \<Rightarrow> authority_request" where
  "endpoint_request relationshipResource e = \<lparr>rq_action = endpoint_action (en_type e),
     rq_resource = endpointResource e,
     rq_personUseSite = (if en_type e = PersonEnd then Some relationshipResource else None)\<rparr>"

definition relationship_requests :: "account_env \<Rightarrow> relationship \<Rightarrow> jstr \<Rightarrow> resource_ref \<Rightarrow> authority_request list" where
  "relationship_requests env r governingSpaceId relationshipResource =
     [\<lparr>rq_action = RelationshipEnd, rq_resource = relationshipResource, rq_personUseSite = None\<rparr>,
      \<lparr>rq_action = SpaceRead, rq_resource = ref_to RefSpace governingSpaceId, rq_personUseSite = None\<rparr>] @
     map (endpoint_request relationshipResource)
       (ordered_endpoints env (gr_subject r) (gr_object r) (gr_context r))"

definition lockAndReauthorizeRelationshipAuthorityInTransaction ::
  "account_env \<Rightarrow> security_context \<Rightarrow> relationship \<Rightarrow> jstr \<Rightarrow> resource_ref \<Rightarrow> decision account_op" where
  "lockAndReauthorizeRelationshipAuthorityInTransaction env context r governingSpaceId relationshipResource =
     op_bind (op_require B1AuthorizationError (ae_batching env)) (\<lambda>_.
     op_bind (op_read (ae_reauthorize env context
       (relationship_requests env r governingSpaceId relationshipResource))) account_decision)"

definition preauthorizeRelationshipEndInTransaction ::
  "account_env \<Rightarrow> security_context \<Rightarrow> resource_ref \<Rightarrow> decision account_op" where
  "preauthorizeRelationshipEndInTransaction env context relationshipResource =
     op_bind (op_require B1AuthorizationError (ae_batching env)) (\<lambda>_.
     op_bind (op_read (ae_preauthorize env context relationshipResource)) account_decision)"

text \<open>The tokens of space grants: a literal, then two texts of 36 hexadecimal digits or dashes, in any case.\<close>

definition grant_token_id :: "jstr \<Rightarrow> bool" where
  "grant_token_id s \<longleftrightarrow> length s = 36 \<and> list_all (\<lambda>u. is_hex u \<or> u = 45) s"

definition space_grant_token :: "jstr \<Rightarrow> authority_requirement option" where
  "space_grant_token token = do {
     require (lower_ascii (take 12 token) = js ''space_grant:'' \<and> grant_token_id (take 36 (drop 12 token)) \<and>
       take 1 (drop 48 token) = js '':'' \<and> grant_token_id (drop 49 token));
     Some \<lparr>aq_grantId = lower_ascii (take 36 (drop 12 token)), aq_resourceId = lower_ascii (drop 49 token)\<rparr> }"

definition spaceGrantRequirements :: "account_env \<Rightarrow> jstr list \<Rightarrow> authority_requirement list" where
  "spaceGrantRequirements env tokens = sort_key
     (\<lambda>q. ae_compare env (aq_resourceId q @ js '':'' @ aq_grantId q))
     (first_by id (List.map_filter space_grant_token tokens))"

section \<open>Reserving and completing\<close>

definition account_kind :: "b1_payload \<Rightarrow> jstr" where
  "account_kind p = b1_kind_string (b1_kind_of p) @ js ''.v1''"

definition not_empty :: "jstr option \<Rightarrow> jstr option" where
  "not_empty v = keep_if (\<lambda>s. s \<noteq> []) v"

definition account_reservation_of :: "account_env \<Rightarrow> account_call \<Rightarrow> reservation_input" where
  "account_reservation_of env c = (let context = bl_context c in
     \<lparr>ri_id = drawn env commandDraw, ri_tenantId = sx_tenantId context,
      ri_workspaceId = sx_workspaceId context, ri_reservationSpaceId = bl_space c,
      ri_commandKind = account_kind (bl_payload c), ri_commandSchemaVersion = 1,
      ri_idempotencyKey = bl_key c, ri_canonicalRequestHash = bl_hash c, ri_safeRequest = None,
      ri_actorUserId = the (sx_actorUserId context), ri_actorMembershipId = the (sx_actorMembershipId context),
      ri_delegatingUserId = not_empty (sx_delegatedByUserId context),
      ri_delegatingMembershipId = not_empty (sx_delegatedByMembershipId context), ri_agentPrincipalId = None,
      ri_policyVersionId = sx_policyVersion context, ri_requestId = sx_requestId context,
      ri_traceparent = bl_trace c, ri_tracestate = None\<rparr>)"

datatype account_reservation = NewCommand jstr | StoredResult b1_result

fun account_conflict :: "domain_error \<Rightarrow> account_error" where
  "account_conflict ProductDomainInvariantError = B1IdempotencyConflictError"
| "account_conflict e = B1DomainError e"

definition account_reserve :: "account_env \<Rightarrow> account_call \<Rightarrow> account_reservation account_op" where
  "account_reserve env c =
     op_bind (op_on db_commands (\<lambda>rows. db_commands_update (\<lambda>_. rows)) account_conflict
       (reserve (ae_now env) (account_reservation_of env c))) (\<lambda>reservation.
     case reservation of
       Replay command \<Rightarrow>
         op_bind (op_lift (ok_or B1CommandInvariantError (parseStoredB1Result (ae_uuid env) (ae_datetime env)
           (b1_kind_of (bl_payload c)) (stored_response command)))) (\<lambda>result.
         op_return (StoredResult result))
     | Reserved commandId \<Rightarrow>
         op_bind (op_require B1CommandInvariantError (\<not> commandId \<noteq> drawn env commandDraw)) (\<lambda>_.
         op_return (NewCommand (drawn env commandDraw))))"

definition account_completion_of :: "account_call \<Rightarrow> jstr \<Rightarrow> string \<Rightarrow> jstr \<Rightarrow> b1_result \<Rightarrow> completion_input" where
  "account_completion_of c commandId resourceType resourceId result =
     \<lparr>ki_commandId = commandId, ki_tenantId = sx_tenantId (bl_context c),
      ki_workspaceId = sx_workspaceId (bl_context c), ki_reservationSpaceId = bl_space c,
      ki_commandKind = account_kind (bl_payload c), ki_idempotencyKey = bl_key c,
      ki_canonicalRequestHash = bl_hash c, ki_resultResourceType = Some (js resourceType),
      ki_resultResourceId = Some resourceId, ki_safeResponse = Some (b1_result_value result)\<rparr>"

definition account_complete ::
  "account_env \<Rightarrow> account_call \<Rightarrow> jstr \<Rightarrow> string \<Rightarrow> jstr \<Rightarrow> b1_result \<Rightarrow> unit account_op" where
  "account_complete env c commandId resourceType resourceId result =
     op_bind (op_on db_commands (\<lambda>rows. db_commands_update (\<lambda>_. rows)) B1DomainError
       (complete (ae_now env) (account_completion_of c commandId resourceType resourceId result))) (\<lambda>_.
     op_return ())"

section \<open>Audit and outbox\<close>

definition relay_pairs :: "account_world \<Rightarrow> security_context \<Rightarrow> jstr \<Rightarrow> account_db \<Rightarrow> jstr list" where
  "relay_pairs world context spaceId s = sort [sv_id p. p \<leftarrow> aw_principals world, g \<leftarrow> db_grants s,
     ag_tenant_id g = sv_tenant_id p \<and> ag_workspace_id g = sv_workspace_id p \<and>
     ag_subject_type g = ServicePrincipalGrant \<and> ag_subject_id g = sv_id p \<and> ag_relation g = ManagerGrant \<and>
     ag_resource_id g = uuid_column spaceId \<and> ag_source g = DirectGrant \<and>
     scoped (sx_tenantId context) (sx_workspaceId context) (sv_tenant_id p) (sv_workspace_id p) \<and>
     sv_purpose p = RelayPurpose \<and> sv_status p = ActivePrincipal]"

definition account_relay :: "account_env \<Rightarrow> security_context \<Rightarrow> jstr \<Rightarrow> jstr account_op" where
  "account_relay env context spaceId =
     op_bind (op_read (\<lambda>s. take 2 (relay_pairs (ae_world env) context spaceId s))) (\<lambda>rows.
     case rows of [relay] \<Rightarrow> op_return relay | _ \<Rightarrow> op_fail B1CommandInvariantError)"

text \<open>What a command says about its change: the \<open>change\<close> of the truth ledger's bus.\<close>

definition account_audit_of :: "account_env \<Rightarrow> account_call \<Rightarrow> jstr \<Rightarrow> change \<Rightarrow> audit_insert" where
  "account_audit_of env c commandId ch = (let context = bl_context c in
     \<lparr>ai_id = drawn env auditDraw, ai_tenantId = sx_tenantId context, ai_workspaceId = sx_workspaceId context,
      ai_spaceId = ce_spaceId ch, ai_causationCommandId = commandId,
      ai_actorUserId = the (sx_actorUserId context), ai_actorMembershipId = the (sx_actorMembershipId context),
      ai_delegatingUserId = not_empty (sx_delegatedByUserId context),
      ai_delegatingMembershipId = not_empty (sx_delegatedByMembershipId context), ai_agentPrincipalId = None,
      ai_policyVersionId = sx_policyVersion context, ai_requestId = sx_requestId context,
      ai_traceparent = bl_trace c, ai_tracestate = None, ai_action = ce_action ch,
      ai_resourceType = ce_resourceType ch, ai_resourceId = ce_resourceId ch, ai_auditSchemaVersion = 1,
      ai_safeDetail = JObj (object_of (ce_detail ch))\<rparr>)"

definition account_notification :: "account_env \<Rightarrow> account_call \<Rightarrow> jstr \<Rightarrow> change \<Rightarrow> jsval" where
  "account_notification env c commandId ch = (let context = bl_context c in
     JObj (object_of [
      (''eventId'', JStr (drawn env eventDraw)), (''eventType'', JStr (event_string (ce_eventType ch))),
      (''eventSchemaVersion'', num_value 1), (''payloadSchemaVersion'', num_value 1),
      (''tenantId'', JStr (sx_tenantId context)), (''workspaceId'', JStr (sx_workspaceId context)),
      (''spaceId'', JStr (ce_spaceId ch)), (''aggregateType'', JStr (ce_aggregateType ch)),
      (''aggregateId'', JStr (ce_resourceId ch)), (''aggregateVersion'', num_value (ce_aggregateVersion ch)),
      (''causationCommandId'', JStr commandId), (''payload'', JObj (object_of (ce_detail ch))),
      (''requestId'', JStr (sx_requestId context)), (''traceparent'', JStr (bl_trace c))]))"

definition account_audit :: "account_env \<Rightarrow> account_call \<Rightarrow> jstr \<Rightarrow> change \<Rightarrow> unit account_op" where
  "account_audit env c commandId ch = op_on db_audit (\<lambda>rows. db_audit_update (\<lambda>_. rows)) B1AuditError
     (audit_insert_event (account_audit_of env c commandId ch))"

text \<open>The end of the commands that work in the space of their reservation: the relay of the space, the audit
  event, the notification and the completed record.\<close>

definition account_record ::
  "account_env \<Rightarrow> account_call \<Rightarrow> jstr \<Rightarrow> change \<Rightarrow> string \<Rightarrow> b1_result \<Rightarrow> b1_result account_op" where
  "account_record env c commandId ch resourceType result =
     op_bind (account_relay env (bl_context c) (bl_space c)) (\<lambda>relay.
     op_bind (account_audit env c commandId ch) (\<lambda>_.
     op_bind (account_outbox (ae_now env) \<lparr>oi_envelope = account_notification env c commandId ch,
       oi_relayServicePrincipalId = relay, oi_policyVersionId = sx_policyVersion (bl_context c)\<rparr>) (\<lambda>_.
     op_bind (account_complete env c commandId resourceType (ce_resourceId ch) result) (\<lambda>_.
     op_return result))))"

definition changed ::
  "jstr \<Rightarrow> audit_action \<Rightarrow> event_type \<Rightarrow> string \<Rightarrow> jstr \<Rightarrow> int \<Rightarrow> (string \<times> jsval) list \<Rightarrow> change" where
  "changed spaceId action eventType aggregateType i version detail = \<lparr>ce_spaceId = spaceId,
     ce_action = action, ce_resourceType = js aggregateType, ce_resourceId = i, ce_eventType = eventType,
     ce_aggregateType = js aggregateType, ce_aggregateVersion = version, ce_detail = detail\<rparr>"

section \<open>Scopes of relationships\<close>

definition deriveRelationshipScope ::
  "account_env \<Rightarrow> account_world \<Rightarrow> security_context \<Rightarrow> create_relationship \<Rightarrow> (jstr \<times> access_class) account_op" where
  "deriveRelationshipScope env world context p =
     (let endpoints = [cp_subject p, cp_object p] @ (case cp_context p of None \<Rightarrow> [] | Some e \<Rightarrow> [e]) in
      op_bind (op_each (resolveEndpoint world (sx_tenantId context) (sx_workspaceId context)) endpoints) (\<lambda>found.
      let resolved = map_of (rev (zip (map endpointKey endpoints) found)) in
      op_lift (ok_or WorkGraphInvariantError (deriveRelationshipGoverningSpace (ae_date env)
        (sx_tenantId context) (sx_workspaceId context) (cp_subject p) (cp_object p) (cp_context p)
        (cp_predicate p) (not_empty (cp_validFrom p)) None
        (\<lambda>e. case resolved (endpointKey e) of None \<Rightarrow> None | Some v \<Rightarrow> v)))))"

end
