(* ===== verification/Account_Command_Bus.thy ===== *)
theory Account_Command_Bus
  imports Account_Commands
begin

text \<open>
  The ten commands of \<open>AccountOperationsDomainCommandBus\<close>
  (\<open>packages/account-operations/src/domain-command-bus.ts\<close>), from the received object to the returned
  result. The space of a command is found in a transaction of its own, which may see an older state; the
  command then runs in one transaction under a context narrowed to that space.
\<close>

section \<open>Shared steps\<close>

definition reserved_work ::
  "account_env \<Rightarrow> account_call \<Rightarrow> (jstr \<Rightarrow> b1_result account_op) \<Rightarrow> b1_result account_op" where
  "reserved_work env c work = op_bind (account_reserve env c) (\<lambda>reservation.
     case reservation of StoredResult result \<Rightarrow> op_return result | NewCommand commandId \<Rightarrow> work commandId)"

definition workspace_pin :: "account_env \<Rightarrow> account_call \<Rightarrow> profile_pin account_op" where
  "workspace_pin env c = op_lift (getWorkspaceProfilePin (ae_world env) (sx_tenantId (bl_context c))
     (sx_workspaceId (bl_context c)))"

definition pinned_profile :: "account_env \<Rightarrow> profile_pin \<Rightarrow> domain_profile account_op" where
  "pinned_profile env pin = op_lift (resolve_profile (ae_profiles env) (pn_profileId pin) (pn_profileVersion pin))"

definition call_space :: "account_call \<Rightarrow> jstr \<Rightarrow> graph_space account_op" where
  "call_space c spaceId = getSpace (sx_tenantId (bl_context c)) (sx_workspaceId (bl_context c)) spaceId"

definition call_organization :: "account_env \<Rightarrow> account_call \<Rightarrow> jstr \<Rightarrow> organization account_op" where
  "call_organization env c i = getOrganization (ae_collate env) (sx_tenantId (bl_context c))
     (sx_workspaceId (bl_context c)) i"

definition call_initiative :: "account_call \<Rightarrow> jstr \<Rightarrow> initiative account_op" where
  "call_initiative c i = getInitiative (sx_tenantId (bl_context c)) (sx_workspaceId (bl_context c)) i None"

definition call_people :: "account_env \<Rightarrow> account_call \<Rightarrow> jstr list \<Rightarrow> jstr list account_op" where
  "call_people env c ids = op_lift (getSafePeople (ae_world env) (sx_tenantId (bl_context c))
     (sx_workspaceId (bl_context c)) ids)"

definition permit :: "account_env \<Rightarrow> account_call \<Rightarrow> auth_action \<Rightarrow> ref_type \<Rightarrow> jstr \<Rightarrow> decision account_op" where
  "permit env c action t i = account_authorize env (bl_context c) action (ref_to t i) no_options"

definition permit_locking :: "account_env \<Rightarrow> account_call \<Rightarrow> auth_action \<Rightarrow> ref_type \<Rightarrow> jstr \<Rightarrow> decision account_op" where
  "permit_locking env c action t i = account_authorize env (bl_context c) action (ref_to t i) locking"

definition same_space :: "account_call \<Rightarrow> jstr \<Rightarrow> unit account_op" where
  "same_space c spaceId = op_require B1CommandInvariantError (\<not> spaceId \<noteq> bl_space c)"

section \<open>Children: organizations and initiatives\<close>

definition child_env_of :: "account_env \<Rightarrow> child_env" where
  "child_env_of env = \<lparr>ce_nfkd = ae_nfkd env, ce_lower = ae_lower env, ce_refuses = ae_refuses env,
     ce_restore_fault = ae_restore_fault env, ce_now = ae_now env, ce_child_id = drawn env childDraw,
     ce_access_id = drawn env accessDraw, ce_aggregate_id = drawn env aggregateDraw\<rparr>"

definition child_input_of :: "account_call \<Rightarrow> space_kind \<Rightarrow> jstr \<Rightarrow> access_class \<Rightarrow> child_input" where
  "child_input_of c kind name accessClass = \<lparr>ch_tenant = sx_tenantId (bl_context c),
     ch_workspace = sx_workspaceId (bl_context c), ch_expectedParentSpaceId = bl_space c, ch_kind = kind,
     ch_name = name, ch_accessClass = accessClass, ch_inheritanceMode = Inherit\<rparr>"

text \<open>What the callbacks of both commands do with their capability.\<close>

definition child_record ::
  "account_env \<Rightarrow> account_call \<Rightarrow> jstr \<Rightarrow> child_input \<Rightarrow> change \<Rightarrow> b1_result \<Rightarrow> b1_result account_op" where
  "child_record env c commandId input ch result =
     op_bind (child_insertAudit (child_env_of env) input (account_audit_of env c commandId ch)) (\<lambda>_.
     op_bind (child_insertOutbox (child_env_of env) input (account_notification env c commandId ch)
       (sx_policyVersion (bl_context c))) (\<lambda>_.
     op_return result))"

definition organization_change :: "account_env \<Rightarrow> jstr \<Rightarrow> change" where
  "organization_change env organizationId = changed (drawn env childDraw) AuditOrganizationCreate
     OrganizationCreated ''organization'' organizationId 1 [(''organizationId'', JStr organizationId)]"

definition organization_work ::
  "account_env \<Rightarrow> account_call \<Rightarrow> create_organization \<Rightarrow> profile_pin \<Rightarrow> jstr \<Rightarrow> b1_result account_op" where
  "organization_work env c p pin commandId =
     op_bind (op_lift (ok_or WorkGraphInvariantError (normalizeOrganizationName (ae_nfc env)
       (ae_locale_lower env) (co_name p)))) (\<lambda>normalizedName.
     op_bind (op_lift (ok_or WorkGraphInvariantError (normalizeOrganizationDomains (ae_lower env)
       (ae_ascii env) (co_domains p)))) (\<lambda>domains.
     let input = child_input_of c OrganizationSpace (co_name p) (pn_defaultAccessClass pin) in
     op_bind (withCreatedChildSpaceScope (child_env_of env) (ae_world env) input
       (op_bind (createOrganization (child_env_of env) input \<lparr>cg_name = co_name p,
          cg_normalizedName = normalizedName, cg_domains = domains\<rparr>) (\<lambda>organizationId.
        child_record env c commandId input (organization_change env organizationId)
          (OrganizationResult organizationId (drawn env childDraw))))) (\<lambda>result.
     op_bind (account_complete env c commandId ''organization'' (drawn env aggregateDraw) result) (\<lambda>_.
     op_return result))))"

definition organization_create :: "account_env \<Rightarrow> account_call \<Rightarrow> create_organization \<Rightarrow> b1_result account_op" where
  "organization_create env c p =
     op_bind (workspace_pin env c) (\<lambda>pin.
     op_bind (pinned_profile env pin) (\<lambda>_.
     op_bind (same_space c (pn_rootSpaceId pin)) (\<lambda>_.
     op_bind (call_space c (bl_space c)) (\<lambda>parent.
     op_bind (permit env c OrganizationCreate RefSpace (gs_id parent)) (\<lambda>_.
     op_bind (permit env c SpaceCreateChild RefSpace (gs_id parent)) (\<lambda>_.
     reserved_work env c (organization_work env c p pin)))))))"

definition initiative_change :: "account_env \<Rightarrow> jstr \<Rightarrow> change" where
  "initiative_change env initiativeId = changed (drawn env childDraw) AuditInitiativeCreate
     InitiativeCreated ''initiative'' initiativeId 1 [(''initiativeId'', JStr initiativeId)]"

definition child_initiative_of ::
  "create_initiative \<Rightarrow> profile_pin \<Rightarrow> jstr \<Rightarrow> jstr list \<Rightarrow> jstr \<Rightarrow> jstr list \<Rightarrow> child_initiative" where
  "child_initiative_of p pin primaryId organizationIds ownerPersonId contributorPersonIds =
     \<lparr>ci_title = cv_title p, ci_typeKey = cv_typeKey p, ci_stageKey = cv_stageKey p,
      ci_health = (case cv_health p of None \<Rightarrow> js ''active'' | Some h \<Rightarrow> h), ci_ownerPersonId = ownerPersonId,
      ci_profileId = pn_profileId pin, ci_profileVersion = pn_profileVersion pin,
      ci_primaryOrganizationId = primaryId,
      ci_supportingOrganizationIds = filter (\<lambda>i. i \<noteq> primaryId) organizationIds,
      ci_contributorPersonIds = contributorPersonIds\<rparr>"

definition initiative_work ::
  "account_env \<Rightarrow> account_call \<Rightarrow> child_initiative \<Rightarrow> access_class \<Rightarrow> jstr \<Rightarrow> b1_result account_op" where
  "initiative_work env c initiative accessClass commandId =
     (let input = child_input_of c InitiativeSpace (ci_title initiative) accessClass in
     op_bind (withCreatedChildSpaceScope (child_env_of env) (ae_world env) input
       (op_bind (createInitiative (child_env_of env) input initiative) (\<lambda>initiativeId.
        child_record env c commandId input (initiative_change env initiativeId)
          (InitiativeResult initiativeId (drawn env childDraw))))) (\<lambda>result.
     op_bind (account_complete env c commandId ''initiative'' (drawn env aggregateDraw) result) (\<lambda>_.
     op_return result)))"

definition requireProfileInitiative :: "domain_profile \<Rightarrow> jstr \<Rightarrow> jstr \<Rightarrow> unit account_op" where
  "requireProfileInitiative profile typeKey stageKey = op_require B1CommandInvariantError
     (\<not> (typeKey \<notin> set (dp_initiativeTypes profile) \<or> stageKey \<notin> set (dp_stagePipeline profile)))"

definition readable_organization :: "account_env \<Rightarrow> account_call \<Rightarrow> organization \<Rightarrow> jstr \<Rightarrow> decision account_op" where
  "readable_organization env c primary i =
     op_bind (if i = go_id primary then op_return primary else call_organization env c i) (\<lambda>organization.
     permit env c OrganizationRead RefOrganization (go_id organization))"

definition owner_or_actor :: "account_call \<Rightarrow> jstr option \<Rightarrow> jstr" where
  "owner_or_actor c ownerPersonId = (case ownerPersonId of None \<Rightarrow> ha_displayPersonId (bl_actor c) | Some i \<Rightarrow> i)"

definition list_or_none :: "jstr list option \<Rightarrow> jstr list" where
  "list_or_none v = (case v of None \<Rightarrow> [] | Some xs \<Rightarrow> xs)"

definition initiative_create :: "account_env \<Rightarrow> account_call \<Rightarrow> create_initiative \<Rightarrow> b1_result account_op" where
  "initiative_create env c p =
     op_bind (call_organization env c (cv_primaryOrganizationId p)) (\<lambda>primary.
     op_bind (same_space c (go_spaceId primary)) (\<lambda>_.
     op_bind (call_space c (bl_space c)) (\<lambda>parent.
     op_bind (permit env c InitiativeCreate RefSpace (gs_id parent)) (\<lambda>_.
     op_bind (permit env c SpaceCreateChild RefSpace (gs_id parent)) (\<lambda>_.
     op_bind (workspace_pin env c) (\<lambda>pin.
     op_bind (pinned_profile env pin) (\<lambda>profile.
     op_bind (requireProfileInitiative profile (cv_typeKey p) (cv_stageKey p)) (\<lambda>_.
     let organizationIds = canonical_ids (cv_primaryOrganizationId p # list_or_none (cv_organizationIds p));
         ownerPersonId = owner_or_actor c (cv_ownerPersonId p);
         contributorPersonIds = canonical_ids (list_or_none (cv_contributorPersonIds p)) in
     op_bind (op_lift (ok_or WorkGraphInvariantError
       (validateInitiativeAssociations organizationIds (cv_primaryOrganizationId p)))) (\<lambda>_.
     op_bind (op_each (readable_organization env c primary) organizationIds) (\<lambda>_.
     op_bind (call_people env c (ownerPersonId # contributorPersonIds)) (\<lambda>_.
     reserved_work env c (initiative_work env c (child_initiative_of p pin (go_id primary) organizationIds
       ownerPersonId contributorPersonIds) (gs_accessClass parent)))))))))))))"

section \<open>Activities\<close>

definition governing_space :: "account_env \<Rightarrow> account_call \<Rightarrow> governing_parent \<Rightarrow> jstr account_op" where
  "governing_space env c parent = (case parent of
     GoverningInitiative i \<Rightarrow> op_bind (call_initiative c i) (\<lambda>g. op_return (gi_spaceId g))
   | GoverningOrganization i \<Rightarrow> op_bind (call_organization env c i) (\<lambda>g. op_return (go_spaceId g)))"

definition activity_of :: "account_env \<Rightarrow> account_call \<Rightarrow> create_activity \<Rightarrow> jstr \<Rightarrow> jstr list \<Rightarrow> activity" where
  "activity_of env c p ownerPersonId attendeePersonIds = \<lparr>ga_id = drawn env aggregateDraw,
     ga_tenantId = sx_tenantId (bl_context c), ga_workspaceId = sx_workspaceId (bl_context c),
     ga_spaceId = bl_space c, ga_subtype = cy_profileTemplateKey p,
     ga_profileTemplateKey = cy_profileTemplateKey p, ga_title = cy_title p,
     ga_status = (case cy_status p of None \<Rightarrow> js ''planned'' | Some st \<Rightarrow> st),
     ga_occurredAt = not_empty (cy_occurredAt p), ga_startsAt = not_empty (cy_startsAt p),
     ga_endsAt = not_empty (cy_endsAt p), ga_ownerPersonId = Some ownerPersonId,
     ga_governingInitiativeId = not_empty (cy_governingInitiativeId p),
     ga_governingOrganizationId = not_empty (cy_governingOrganizationId p),
     ga_organizationIds = canonical_ids (cy_organizationIds p),
     ga_initiativeIds = canonical_ids (cy_initiativeIds p), ga_attendeePersonIds = attendeePersonIds,
     ga_version = 1\<rparr>"

definition activity_change :: "account_env \<Rightarrow> account_call \<Rightarrow> change" where
  "activity_change env c = changed (bl_space c) AuditActivityCreate ActivityCreated ''activity''
     (drawn env aggregateDraw) 1 [(''activityId'', JStr (drawn env aggregateDraw))]"

definition activity_work :: "account_env \<Rightarrow> account_call \<Rightarrow> activity \<Rightarrow> jstr \<Rightarrow> b1_result account_op" where
  "activity_work env c activity commandId =
     op_bind (createActivity (ae_refuses env) (ae_instant env) activity) (\<lambda>_.
     account_record env c commandId (activity_change env c) ''activity''
       (ActivityResult (drawn env aggregateDraw) (bl_space c)))"

definition activity_create :: "account_env \<Rightarrow> account_call \<Rightarrow> create_activity \<Rightarrow> b1_result account_op" where
  "activity_create env c p =
     op_bind (op_lift (ok_or WorkGraphInvariantError (resolveActivityGoverningParent (cy_initiativeIds p)
       (cy_organizationIds p) (cy_governingInitiativeId p) (cy_governingOrganizationId p)))) (\<lambda>parentRef.
     op_bind (op_lift (ok_or WorkGraphInvariantError (validateActivityTime (ae_date env) (cy_startsAt p)
       (cy_endsAt p)))) (\<lambda>_.
     op_bind (governing_space env c parentRef) (\<lambda>governing.
     op_bind (same_space c governing) (\<lambda>_.
     op_bind (call_space c (bl_space c)) (\<lambda>parent.
     op_bind (permit env c ActivityCreate RefSpace (gs_id parent)) (\<lambda>_.
     op_bind (workspace_pin env c) (\<lambda>pin.
     op_bind (pinned_profile env pin) (\<lambda>profile.
     op_bind (op_require B1CommandInvariantError
       (cy_profileTemplateKey p \<in> set (dp_activityTemplates profile))) (\<lambda>_.
     op_bind (op_each (\<lambda>i. op_bind (call_organization env c i) (\<lambda>_.
       permit env c OrganizationRead RefOrganization i)) (cy_organizationIds p)) (\<lambda>_.
     op_bind (op_each (\<lambda>i. op_bind (call_initiative c i) (\<lambda>_.
       permit env c InitiativeRead RefInitiative i)) (cy_initiativeIds p)) (\<lambda>_.
     let ownerPersonId = owner_or_actor c (cy_ownerPersonId p);
         attendeePersonIds = canonical_ids (list_or_none (cy_attendeePersonIds p)) in
     op_bind (call_people env c (ownerPersonId # attendeePersonIds)) (\<lambda>_.
     reserved_work env c (activity_work env c (activity_of env c p ownerPersonId attendeePersonIds))))))))))))))"

section \<open>Relationships\<close>

definition relationship_of :: "account_env \<Rightarrow> account_call \<Rightarrow> create_relationship \<Rightarrow> relationship" where
  "relationship_of env c p = \<lparr>gr_id = drawn env aggregateDraw, gr_tenantId = sx_tenantId (bl_context c),
     gr_workspaceId = sx_workspaceId (bl_context c), gr_spaceId = bl_space c, gr_subject = cp_subject p,
     gr_predicate = cp_predicate p, gr_object = cp_object p, gr_context = cp_context p,
     gr_validFrom = not_empty (cp_validFrom p), gr_validTo = None, gr_version = 1\<rparr>"

definition relationship_change :: "account_env \<Rightarrow> account_call \<Rightarrow> change" where
  "relationship_change env c = changed (bl_space c) AuditRelationshipCreate RelationshipCreated ''relationship''
     (drawn env aggregateDraw) 1 [(''relationshipId'', JStr (drawn env aggregateDraw))]"

definition relationship_work ::
  "account_env \<Rightarrow> account_call \<Rightarrow> create_relationship \<Rightarrow> jstr \<Rightarrow> b1_result account_op" where
  "relationship_work env c p commandId =
     op_bind (createRelationship (ae_refuses env) (ae_instant env) (relationship_of env c p)) (\<lambda>_.
     account_record env c commandId (relationship_change env c) ''relationship''
       (RelationshipResult (drawn env aggregateDraw) (bl_space c)))"

definition relationship_create :: "account_env \<Rightarrow> account_call \<Rightarrow> create_relationship \<Rightarrow> b1_result account_op" where
  "relationship_create env c p =
     op_bind (deriveRelationshipScope env (ae_world env) (bl_context c) p) (\<lambda>derived.
     op_bind (same_space c (fst derived)) (\<lambda>_.
     op_bind (call_space c (bl_space c)) (\<lambda>_.
     op_bind (permit env c RelationshipCreate RefSpace (bl_space c)) (\<lambda>_.
     op_bind (authorizeRelationshipEndpoints env (bl_context c) (cp_subject p) (cp_object p) (cp_context p)
       (bl_space c) None no_options) (\<lambda>_.
     reserved_work env c (relationship_work env c p))))))"

definition end_of :: "account_env \<Rightarrow> account_call \<Rightarrow> end_relationship \<Rightarrow> relationship \<Rightarrow> decision \<Rightarrow> relationship_end" where
  "end_of env c p r authority = \<lparr>nd_tenantId = sx_tenantId (bl_context c),
     nd_workspaceId = sx_workspaceId (bl_context c), nd_relationshipId = gr_id r,
     nd_expectedVersion = er_expectedVersion p, nd_validTo = er_validTo p,
     nd_actorUserId = ha_userId (bl_actor c), nd_actorMembershipId = ha_membershipId (bl_actor c),
     nd_policyVersionId = sx_policyVersion (bl_context c), nd_governingSpaceId = bl_space c,
     nd_authorityRequirements = spaceGrantRequirements env (tokens_of authority)\<rparr>"

definition ending_change :: "account_call \<Rightarrow> end_relationship \<Rightarrow> jstr \<Rightarrow> int \<Rightarrow> change" where
  "ending_change c p i version = changed (bl_space c) AuditRelationshipEnd RelationshipEnded ''relationship'' i
     version [(''relationshipId'', JStr i), (''validTo'', JStr (er_validTo p))]"

definition ending_work ::
  "account_env \<Rightarrow> account_call \<Rightarrow> end_relationship \<Rightarrow> relationship \<Rightarrow> decision \<Rightarrow> jstr \<Rightarrow> b1_result account_op" where
  "ending_work env c p r authority commandId =
     op_bind (op_require B1CommandInvariantError
       (\<not> (gr_version r \<noteq> er_expectedVersion p \<or> given (gr_validTo r)))) (\<lambda>_.
     op_bind (endRelationship (ae_refuses env) (ae_instant env) (ae_world env) (end_of env c p r authority)) (\<lambda>updated.
     case updated of
       None \<Rightarrow> op_fail B1AuthorizationError
     | Some None \<Rightarrow> op_fail B1CommandInvariantError
     | Some (Some (_, version)) \<Rightarrow> account_record env c commandId (ending_change c p (gr_id r) version)
         ''relationship'' (EndedResult (gr_id r) version (er_validTo p))))"

definition relationship_finish :: "account_env \<Rightarrow> account_call \<Rightarrow> end_relationship \<Rightarrow> b1_result account_op" where
  "relationship_finish env c p = (let resource = ref_to RefRelationship (er_relationshipId p) in
     op_bind (preauthorizeRelationshipEndInTransaction env (bl_context c) resource) (\<lambda>_.
     op_bind (getRelationship (sx_tenantId (bl_context c)) (sx_workspaceId (bl_context c))
       (er_relationshipId p)) (\<lambda>r.
     op_bind (same_space c (gr_spaceId r)) (\<lambda>_.
     op_bind (lockAndReauthorizeRelationshipAuthorityInTransaction env (bl_context c) r (bl_space c) resource)
       (\<lambda>authority.
     reserved_work env c (ending_work env c p r authority))))))"

section \<open>Content\<close>

definition content_input_of ::
  "account_env \<Rightarrow> account_call \<Rightarrow> create_content \<Rightarrow> jstr \<Rightarrow> access_class \<Rightarrow> content_input" where
  "content_input_of env c p ownerPersonId accessClass = \<lparr>ix_contentItemId = drawn env aggregateDraw,
     ix_revisionId = drawn env revisionDraw, ix_tenantId = sx_tenantId (bl_context c),
     ix_workspaceId = sx_workspaceId (bl_context c), ix_spaceId = bl_space c, ix_type = ck_type p,
     ix_title = ck_title p, ix_body = ck_body p, ix_ownerPersonId = ownerPersonId,
     ix_accessClass = accessClass, ix_metadata = (case ck_metadata p of None \<Rightarrow> JObj [] | Some m \<Rightarrow> m),
     ix_actorUserId = ha_userId (bl_actor c), ix_actorMembershipId = ha_membershipId (bl_actor c)\<rparr>"

definition content_change :: "account_env \<Rightarrow> account_call \<Rightarrow> change" where
  "content_change env c = changed (bl_space c) AuditContentCreate ContentCreated ''content_item''
     (drawn env aggregateDraw) 1 [(''contentItemId'', JStr (drawn env aggregateDraw))]"

definition content_work :: "account_env \<Rightarrow> account_call \<Rightarrow> content_input \<Rightarrow> jstr \<Rightarrow> b1_result account_op" where
  "content_work env c input commandId =
     op_bind (createContent (ae_refuses env) input) (\<lambda>_.
     account_record env c commandId (content_change env c) ''content_item'' (ContentResult (drawn env aggregateDraw)))"

definition content_create :: "account_env \<Rightarrow> account_call \<Rightarrow> create_content \<Rightarrow> b1_result account_op" where
  "content_create env c p =
     op_bind (call_space c (ck_spaceId p)) (\<lambda>space.
     op_bind (same_space c (gs_id space)) (\<lambda>_.
     op_bind (permit env c ContentCreate RefSpace (gs_id space)) (\<lambda>_.
     let ownerPersonId = owner_or_actor c (ck_ownerPersonId p) in
     op_bind (call_people env c [ownerPersonId]) (\<lambda>_.
     reserved_work env c (content_work env c (content_input_of env c p ownerPersonId (gs_accessClass space)))))))"

definition revising_of :: "account_env \<Rightarrow> account_call \<Rightarrow> revise_content \<Rightarrow> revising" where
  "revising_of env c p = \<lparr>vx_revisionId = drawn env revisionDraw, vx_tenantId = sx_tenantId (bl_context c),
     vx_workspaceId = sx_workspaceId (bl_context c), vx_contentItemId = rk_contentItemId p,
     vx_expectedRevision = rk_expectedRevision p, vx_title = not_empty (rk_title p), vx_body = rk_body p,
     vx_metadata = rk_metadata p, vx_actorUserId = ha_userId (bl_actor c),
     vx_actorMembershipId = ha_membershipId (bl_actor c)\<rparr>"

definition revision_change :: "account_call \<Rightarrow> revise_content \<Rightarrow> int \<Rightarrow> int \<Rightarrow> change" where
  "revision_change c p revisionNumber version = changed (bl_space c) AuditContentRevise ContentRevised
     ''content_item'' (rk_contentItemId p) version [(''contentItemId'', JStr (rk_contentItemId p)),
       (''revisionNumber'', num_value revisionNumber)]"

definition revision_work ::
  "account_env \<Rightarrow> account_call \<Rightarrow> revise_content \<Rightarrow> content_scope \<Rightarrow> jstr \<Rightarrow> b1_result account_op" where
  "revision_work env c p item commandId =
     op_bind (op_require B1CommandInvariantError (\<not> ks_currentRevision item \<noteq> rk_expectedRevision p)) (\<lambda>_.
     op_bind (reviseContent (ae_refuses env) (revising_of env c p)) (\<lambda>(_, revisionNumber, version).
     account_record env c commandId (revision_change c p revisionNumber version) ''content_item''
       (RevisedResult (rk_contentItemId p) revisionNumber version)))"

definition content_revise :: "account_env \<Rightarrow> account_call \<Rightarrow> revise_content \<Rightarrow> b1_result account_op" where
  "content_revise env c p =
     op_bind (getContentItemScope (sx_tenantId (bl_context c)) (sx_workspaceId (bl_context c))
       (rk_contentItemId p)) (\<lambda>item.
     op_bind (same_space c (ks_spaceId item)) (\<lambda>_.
     op_bind (permit env c ContentRevise RefContentItem (rk_contentItemId p)) (\<lambda>_.
     reserved_work env c (revision_work env c p item))))"

section \<open>Sources\<close>

definition sourceTextMatchesRevisionBody :: "jstr \<Rightarrow> jstr \<Rightarrow> bool" where
  "sourceTextMatchesRevisionBody sourceText revisionBody \<longleftrightarrow>
     sourceText = revisionBody \<and> utf8 sourceText = utf8 revisionBody"

definition readAuthorizedOriginRevision ::
  "account_env \<Rightarrow> security_context \<Rightarrow> jstr \<Rightarrow> int \<Rightarrow> jstr \<Rightarrow> jstr \<Rightarrow> (jstr \<times> access_class) account_op" where
  "readAuthorizedOriginRevision env context contentItemId revisionNumber requiredSpaceId guessedText =
     op_bind (account_authorize env context ContentRead (ref_to RefContentItem contentItemId)
       (no_options\<lparr>ao_contentRevision := Some revisionNumber, ao_requiredSpaceId := Some requiredSpaceId,
          ao_lockAuthority := True\<rparr>)) (\<lambda>_.
     op_bind (getContentRevisionScope (sx_tenantId context) (sx_workspaceId context) contentItemId
       revisionNumber) (\<lambda>(spaceId, accessClass).
     op_bind (op_require B1AuthorizationError (\<not> spaceId \<noteq> requiredSpaceId)) (\<lambda>_.
     op_bind (getContentRevisionBody (sx_tenantId context) (sx_workspaceId context) contentItemId
       revisionNumber) (\<lambda>body.
     op_bind (op_require B1CommandInvariantError (sourceTextMatchesRevisionBody guessedText body)) (\<lambda>_.
     op_return (body, accessClass))))))"

definition source_row_input ::
  "account_env \<Rightarrow> account_call \<Rightarrow> jstr \<Rightarrow> jstr option \<Rightarrow> jstr option \<Rightarrow> access_class \<Rightarrow> profile_pin \<Rightarrow>
     normalized_source \<times> source_chunk list \<Rightarrow> (jstr \<times> int) option \<Rightarrow> jstr option \<Rightarrow> jstr \<Rightarrow> source_input_row" where
  "source_row_input env c sourceType title occurredAt accessClass pin normalized origin predecessor activityId =
     \<lparr>sq_sourceArtifactId = drawn env aggregateDraw,
      sq_chunkIds = map (\<lambda>k. drawn env (chunkDraw k)) [0..<length (snd normalized)],
      sq_tenant = sx_tenantId (bl_context c), sq_workspace = sx_workspaceId (bl_context c),
      sq_space = bl_space c, sq_sourceType = sourceType, sq_title = not_empty title,
      sq_source = fst normalized, sq_chunks = snd normalized, sq_capturedByUserId = ha_userId (bl_actor c),
      sq_capturedByMembershipId = ha_membershipId (bl_actor c), sq_accessClass = accessClass,
      sq_eraseHashes = deriveHashRetentionPolicy (pn_retentionPolicyId pin),
      sq_retentionPolicyId = not_empty (pn_retentionPolicyId pin), sq_origin = origin,
      sq_supersedesSourceId = predecessor, sq_occurredAt = not_empty occurredAt,
      sq_activityId = Some activityId\<rparr>"

definition normalized_text :: "account_env \<Rightarrow> jstr \<Rightarrow> (normalized_source \<times> source_chunk list) account_op" where
  "normalized_text env t = op_lift (ok_or SourceTextValidationError
     (normalizeAndChunkSource (ae_nfc env) (ae_sha256 env) (TextInput t)))"

definition capture_change :: "account_env \<Rightarrow> account_call \<Rightarrow> change" where
  "capture_change env c = changed (bl_space c) AuditSourceCapture SourceCaptured ''source_artifact''
     (drawn env aggregateDraw) 1 [(''sourceArtifactId'', JStr (drawn env aggregateDraw))]"

definition capture_work ::
  "account_env \<Rightarrow> account_call \<Rightarrow> jstr \<Rightarrow> source_input_row \<Rightarrow> jstr \<Rightarrow> b1_result account_op" where
  "capture_work env c activityId input commandId =
     op_bind (persistSource (ae_refuses env) (ae_instant env) input) (\<lambda>_.
     account_record env c commandId (capture_change env c) ''source_artifact''
       (CapturedResult (drawn env aggregateDraw) activityId (int (length (sq_chunks input)))))"

definition origin_of :: "capture_source \<Rightarrow> (jstr \<times> int) option" where
  "origin_of p = (if given (cs_originContentItemId p)
     then Some (the (cs_originContentItemId p), the (cs_originContentRevision p)) else None)"

definition captured_text ::
  "account_env \<Rightarrow> account_call \<Rightarrow> capture_source \<Rightarrow> (jstr \<times> access_class option) account_op" where
  "captured_text env c p = (case origin_of p of
     None \<Rightarrow> op_return (cs_text p, None)
   | Some (contentItemId, revisionNumber) \<Rightarrow>
       op_bind (readAuthorizedOriginRevision env (bl_context c) contentItemId revisionNumber (bl_space c)
         (cs_text p)) (\<lambda>(body, accessClass). op_return (body, Some accessClass)))"

definition projectable :: "account_call \<Rightarrow> access_class \<Rightarrow> unit account_op" where
  "projectable c accessClass = op_require B1AuthorizationError
     (canProjectSource (sx_dataClassCeiling (bl_context c)) accessClass)"

definition source_capture :: "account_env \<Rightarrow> account_call \<Rightarrow> capture_source \<Rightarrow> b1_result account_op" where
  "source_capture env c p =
     op_bind (lockActivityForSourceCapture (sx_tenantId (bl_context c)) (sx_workspaceId (bl_context c))
       (bl_space c) (cs_activityId p)) (\<lambda>activity.
     op_bind (same_space c (ga_spaceId activity)) (\<lambda>_.
     op_bind (account_authorize env (bl_context c) SourceCapture (ref_to RefSpace (bl_space c))
       (no_options\<lparr>ao_requestedAccessClass := cs_requestedAccessClass p\<rparr>)) (\<lambda>_.
     op_bind (call_space c (bl_space c)) (\<lambda>space.
     op_bind (workspace_pin env c) (\<lambda>pin.
     op_bind (captured_text env c p) (\<lambda>(sourceText, originAccessClass).
     let accessClass = deriveSourceAccessClass (gs_accessClass space) (cs_requestedAccessClass p)
       originAccessClass in
     op_bind (projectable c accessClass) (\<lambda>_.
     op_bind (normalized_text env sourceText) (\<lambda>normalized.
     reserved_work env c (capture_work env c (ga_id activity) (source_row_input env c (cs_sourceType p)
       (cs_title p) (cs_occurredAt p) accessClass pin normalized (origin_of p) None (ga_id activity)))))))))))"

definition correction_change :: "account_env \<Rightarrow> account_call \<Rightarrow> jstr \<Rightarrow> change" where
  "correction_change env c predecessorId = changed (bl_space c) AuditSourceCorrect SourceCorrectedEvent
     ''source_artifact'' (drawn env aggregateDraw) 1 [(''sourceArtifactId'', JStr (drawn env aggregateDraw)),
       (''previousSourceArtifactId'', JStr predecessorId)]"

definition permit_source :: "account_env \<Rightarrow> account_call \<Rightarrow> auth_action \<Rightarrow> jstr \<Rightarrow> decision account_op" where
  "permit_source env c action i = op_bind (permit_locking env c SourceRead RefSource i) (\<lambda>_.
     permit_locking env c action RefSource i)"

definition correction_work ::
  "account_env \<Rightarrow> account_call \<Rightarrow> correct_source \<Rightarrow> jstr \<Rightarrow> jstr \<Rightarrow> b1_result account_op" where
  "correction_work env c p activityId commandId = (let context = bl_context c in
     op_bind (lockCurrentSourceForCorrection (sx_tenantId context) (sx_workspaceId context) (bl_space c)
       (xs_predecessorSourceArtifactId p)) (\<lambda>predecessor.
     op_bind (op_require B1CommandInvariantError (\<not> (sj_id predecessor \<noteq> xs_predecessorSourceArtifactId p \<or>
       sj_spaceId predecessor \<noteq> bl_space c))) (\<lambda>_.
     op_bind (revalidateSourceActivityLinkForCorrection (sx_tenantId context) (sx_workspaceId context)
       (bl_space c) activityId (sj_id predecessor)) (\<lambda>_.
     op_bind (permit_source env c SourceCorrect (sj_id predecessor)) (\<lambda>_.
     op_bind (call_space c (bl_space c)) (\<lambda>space.
     op_bind (workspace_pin env c) (\<lambda>pin.
     let accessClass = deriveSourceAccessClass (gs_accessClass space) (xs_requestedAccessClass p)
       (Some (sj_accessClass predecessor)) in
     op_bind (projectable c accessClass) (\<lambda>_.
     op_bind (normalized_text env (xs_text p)) (\<lambda>normalized.
     op_bind (persistSource (ae_refuses env) (ae_instant env) (source_row_input env c (xs_sourceType p)
       (xs_title p) (xs_occurredAt p) accessClass pin normalized None (Some (sj_id predecessor)) activityId)) (\<lambda>_.
     account_record env c commandId (correction_change env c (sj_id predecessor)) ''source_artifact''
       (CorrectedResult (drawn env aggregateDraw) (sj_id predecessor) (int (length (snd normalized))))))))))))))"

definition source_correct :: "account_env \<Rightarrow> account_call \<Rightarrow> correct_source \<Rightarrow> b1_result account_op" where
  "source_correct env c p = (let context = bl_context c in
     op_bind (permit_source env c SourceCorrect (xs_predecessorSourceArtifactId p)) (\<lambda>_.
     op_bind (resolveSourceActivityLinkForCorrection (sx_tenantId context) (sx_workspaceId context)
       (xs_predecessorSourceArtifactId p)) (\<lambda>(linkSpaceId, linkActivityId).
     let activityId = (case xs_activityId p of None \<Rightarrow> linkActivityId | Some i \<Rightarrow> i) in
     op_bind (op_require B1CommandInvariantError
       (\<not> (linkSpaceId \<noteq> bl_space c \<or> activityId \<noteq> linkActivityId))) (\<lambda>_.
     op_bind (lockActivityForSourceCapture (sx_tenantId context) (sx_workspaceId context) (bl_space c)
       activityId) (\<lambda>activity.
     op_bind (same_space c (ga_spaceId activity)) (\<lambda>_.
     reserved_work env c (correction_work env c p activityId)))))))"

definition tombstone_of :: "account_call \<Rightarrow> tombstone_source \<Rightarrow> jstr \<Rightarrow> tombstone" where
  "tombstone_of c p i = \<lparr>tb_tenantId = sx_tenantId (bl_context c),
     tb_workspaceId = sx_workspaceId (bl_context c), tb_sourceArtifactId = i,
     tb_expectedVersion = ts_expectedVersion p, tb_deletionReasonCategory = ts_deletionReasonCategory p,
     tb_deletionPolicyRef = ts_deletionPolicyRef p\<rparr>"

definition tombstone_change :: "account_call \<Rightarrow> tombstone_source \<Rightarrow> jstr \<Rightarrow> int \<Rightarrow> bool \<Rightarrow> change" where
  "tombstone_change c p i version retained = changed (bl_space c) AuditSourceTombstone SourceTombstonedEvent
     ''source_artifact'' i version [(''sourceArtifactId'', JStr i),
       (''deletionReasonCategory'', JStr (ts_deletionReasonCategory p)),
       (''deletionPolicyRef'', JStr (ts_deletionPolicyRef p)),
       (''hashDisposition'', JStr (disposition_text retained))]"

definition tombstone_work ::
  "account_env \<Rightarrow> account_call \<Rightarrow> tombstone_source \<Rightarrow> source_view \<Rightarrow> jstr \<Rightarrow> b1_result account_op" where
  "tombstone_work env c p source commandId =
     op_bind (op_require B1CommandInvariantError
       (\<not> (sj_version source \<noteq> ts_expectedVersion p \<or> given (sj_deletedAt source)))) (\<lambda>_.
     op_bind (tombstoneSource (ae_refuses env) (ae_now env) (tombstone_of c p (sj_id source)))
       (\<lambda>(_, version, retained).
     account_record env c commandId (tombstone_change c p (sj_id source) version retained) ''source_artifact''
       (TombstonedResult (sj_id source) version retained)))"

definition source_tombstone :: "account_env \<Rightarrow> account_call \<Rightarrow> tombstone_source \<Rightarrow> b1_result account_op" where
  "source_tombstone env c p =
     op_bind (permit_source env c SourceTombstone (ts_sourceArtifactId p)) (\<lambda>_.
     op_bind (lockSource (sx_tenantId (bl_context c)) (sx_workspaceId (bl_context c)) (ts_sourceArtifactId p)) (\<lambda>source.
     op_bind (op_require B1CommandInvariantError (\<not> (sj_id source \<noteq> ts_sourceArtifactId p \<or>
       sj_spaceId source \<noteq> bl_space c))) (\<lambda>_.
     op_bind (permit_source env c SourceTombstone (sj_id source)) (\<lambda>_.
     reserved_work env c (tombstone_work env c p source)))))"

section \<open>The bus\<close>

fun account_command :: "account_env \<Rightarrow> account_call \<Rightarrow> b1_payload \<Rightarrow> b1_result account_op" where
  "account_command env c (OrganizationCreation p) = organization_create env c p"
| "account_command env c (InitiativeCreation p) = initiative_create env c p"
| "account_command env c (ActivityCreation p) = activity_create env c p"
| "account_command env c (RelationshipCreation p) = relationship_create env c p"
| "account_command env c (RelationshipEnding p) = relationship_finish env c p"
| "account_command env c (ContentCreation p) = content_create env c p"
| "account_command env c (ContentRevision p) = content_revise env c p"
| "account_command env c (SourceCapturing p) = source_capture env c p"
| "account_command env c (SourceCorrection p) = source_correct env c p"
| "account_command env c (SourceTombstoning p) = source_tombstone env c p"

fun normalizeMissingSource :: "account_error \<Rightarrow> account_error" where
  "normalizeMissingSource (ContentInvariantError SourceUnavailable) = B1AuthorizationError"
| "normalizeMissingSource e = e"

fun account_reservation_space :: "account_env \<Rightarrow> security_context \<Rightarrow> b1_payload \<Rightarrow> jstr account_op" where
  "account_reservation_space env context (OrganizationCreation p) =
     op_bind (op_lift (getWorkspaceProfilePin (ae_reservation_world env) (sx_tenantId context)
       (sx_workspaceId context))) (\<lambda>pin. op_return (pn_rootSpaceId pin))"
| "account_reservation_space env context (InitiativeCreation p) =
     op_bind (getOrganization (ae_collate env) (sx_tenantId context) (sx_workspaceId context)
       (cv_primaryOrganizationId p)) (\<lambda>organization. op_return (go_spaceId organization))"
| "account_reservation_space env context (ActivityCreation p) =
     op_bind (op_lift (ok_or WorkGraphInvariantError (resolveActivityGoverningParent (cy_initiativeIds p)
       (cy_organizationIds p) (cy_governingInitiativeId p) (cy_governingOrganizationId p)))) (\<lambda>parent.
     case parent of
       GoverningInitiative i \<Rightarrow> op_bind (getInitiative (sx_tenantId context) (sx_workspaceId context) i None)
         (\<lambda>g. op_return (gi_spaceId g))
     | GoverningOrganization i \<Rightarrow> op_bind (getOrganization (ae_collate env) (sx_tenantId context)
         (sx_workspaceId context) i) (\<lambda>g. op_return (go_spaceId g)))"
| "account_reservation_space env context (RelationshipCreation p) =
     op_bind (deriveRelationshipScope env (ae_reservation_world env) context p) (\<lambda>derived. op_return (fst derived))"
| "account_reservation_space env context (RelationshipEnding p) =
     op_bind (getRelationshipScope (sx_tenantId context) (sx_workspaceId context) (er_relationshipId p))
       (\<lambda>found. op_return (snd found))"
| "account_reservation_space env context (ContentCreation p) = op_return (ck_spaceId p)"
| "account_reservation_space env context (ContentRevision p) =
     op_bind (getContentItemScope (sx_tenantId context) (sx_workspaceId context) (rk_contentItemId p))
       (\<lambda>item. op_return (ks_spaceId item))"
| "account_reservation_space env context (SourceCapturing p) =
     getActivityScope (sx_tenantId context) (sx_workspaceId context) (cs_activityId p)"
| "account_reservation_space env context (SourceCorrection p) = op_catch normalizeMissingSource
     (op_bind (getSourceScope (sx_tenantId context) (sx_workspaceId context)
       (xs_predecessorSourceArtifactId p)) (\<lambda>found. op_return (snd found)))"
| "account_reservation_space env context (SourceTombstoning p) = op_catch normalizeMissingSource
     (op_bind (getSourceScope (sx_tenantId context) (sx_workspaceId context) (ts_sourceArtifactId p))
       (\<lambda>found. op_return (snd found)))"

text \<open>The settings that a transaction starts with; they end with it.\<close>

definition space_setting :: "security_context \<Rightarrow> jstr option" where
  "space_setting context = (case sx_requestedSpaceIds context of [i] \<Rightarrow> not_empty (Some i) | _ \<Rightarrow> None)"

definition in_transaction :: "security_context \<Rightarrow> 'a account_op \<Rightarrow> 'a account_op" where
  "in_transaction context m =
     op_bind (op_modify (\<lambda>s. s\<lparr>db_space_setting := space_setting context, db_child_scope_active := False,
       db_child := None\<rparr>)) (\<lambda>_.
     op_bind m (\<lambda>a.
     op_bind (op_modify (\<lambda>s. s\<lparr>db_space_setting := None, db_child_scope_active := False, db_child := None\<rparr>)) (\<lambda>_.
     op_return a)))"

definition account_space_of :: "account_env \<Rightarrow> account_db \<Rightarrow> security_context \<Rightarrow> b1_payload \<Rightarrow> account_error + jstr" where
  "account_space_of env earlier context p =
     snd (withTenantTransaction (ae_uuid env) B1ThrownError (ae_reservation_tx env) context
       (run (in_transaction context (op_bind (op_lift (account_role env)) (\<lambda>_.
          account_reservation_space env context p)))) earlier)"

text \<open>Who acts, the hash of the request and the trace are determined at the start of the second
  transaction.\<close>

definition account_call_of ::
  "account_env \<Rightarrow> security_context \<Rightarrow> jstr \<Rightarrow> b1_payload \<Rightarrow> jstr \<Rightarrow> account_error + account_call" where
  "account_call_of env context key p spaceId =
     (case account_actor context of
        Inl e \<Rightarrow> Inl e
      | Inr actor \<Rightarrow>
          (case hashCanonicalCommandRequest (ae_sha256 env) (b1_request_value p) of
             None \<Rightarrow> Inl (B1DomainError CanonicalJsonError)
           | Some requestHash \<Rightarrow> Inr \<lparr>bl_context = context, bl_actor = actor, bl_key = key, bl_payload = p,
               bl_hash = requestHash, bl_space = spaceId, bl_trace = traceCarrier (ae_sha256 env) context\<rparr>))"

definition account_body :: "account_env \<Rightarrow> security_context \<Rightarrow> jstr \<Rightarrow> b1_payload \<Rightarrow> jstr \<Rightarrow> b1_result account_op" where
  "account_body env context key p spaceId = in_transaction context (
     op_bind (op_lift (account_role env)) (\<lambda>_.
     op_bind (op_lift (account_call_of env context key p spaceId)) (\<lambda>c.
     account_command env c p)))"

definition lifecycle_refusal :: "jsval \<Rightarrow> bool" where
  "lifecycle_refusal e \<longleftrightarrow> (case e of
     JObj fs \<Rightarrow> fld fs ''code'' = str ''TLB21'' \<and>
       fld fs ''message'' = str ''Source lifecycle transition is unavailable''
   | _ \<Rightarrow> False)"

fun account_normal_error :: "b1_payload \<Rightarrow> account_error \<Rightarrow> account_error" where
  "account_normal_error (SourceCorrection _) (B1ThrownError e) =
     (if lifecycle_refusal e then B1CommandInvariantError else B1ThrownError e)"
| "account_normal_error (SourceTombstoning _) (B1ThrownError e) =
     (if lifecycle_refusal e then B1CommandInvariantError else B1ThrownError e)"
| "account_normal_error _ e = e"

definition account_execute ::
  "account_env \<Rightarrow> account_db \<Rightarrow> jsval \<Rightarrow> security_context \<Rightarrow> account_db \<Rightarrow> account_db \<times> (account_error + b1_result)" where
  "account_execute env earlier input context s =
     (case parseB1Command (ae_uuid env) (ae_datetime env) input of
        None \<Rightarrow> (s, Inl B1CommandValidationError)
      | Some command \<Rightarrow>
          (let p = canonicalizeB1Payload (bc1_payload command) in
           case account_space_of env earlier context p of
             Inl e \<Rightarrow> (s, Inl e)
           | Inr spaceId \<Rightarrow>
               (let mutationContext = context\<lparr>sx_requestedSpaceIds := [spaceId]\<rparr> in
                apsnd (map_sum (account_normal_error p) id)
                  (withTenantTransaction (ae_uuid env) B1ThrownError (ae_tx env) mutationContext
                    (run (account_body env mutationContext (bc1_idempotencyKey command) p spaceId)) s))))"

end
