(* ===== verification/Account_Spec.thy ===== *)
theory Account_Spec
  imports Account_Command_Bus Ledger_Invariant
begin

text \<open>
  What the account operations promise, as an abstract specification: the elementary changes of the work
  graph and of content, their guards, the invariant of the tables between transactions, and how rows may
  change over time. The commands of \<open>Account_Command_Bus\<close> refine it in \<open>Account_Refinement\<close>.

  Normal form and hash are parameters of the specification. The keys of the tables are kept by the server:
  \<open>guards_keys\<close> is its documented behaviour for primary keys.
\<close>

section \<open>Elementary changes\<close>

text \<open>Books and settings: what a change does not say.\<close>

definition account_books :: "account_db \<Rightarrow> account_db \<Rightarrow> bool" where
  "account_books s t \<longleftrightarrow> t = s\<lparr>db_commands := db_commands t, db_audit := db_audit t, db_outbox := db_outbox t,
     db_space_setting := db_space_setting t, db_child_scope_active := db_child_scope_active t,
     db_child := db_child t\<rparr>"

definition add_space :: "account_space \<Rightarrow> grant_record \<Rightarrow> account_db \<Rightarrow> account_db" where
  "add_space sp g s = s\<lparr>db_spaces := db_spaces s @ [sp], db_grants := db_grants s @ [g]\<rparr>"

definition add_organization :: "organization_row \<Rightarrow> domain_row list \<Rightarrow> account_db \<Rightarrow> account_db" where
  "add_organization og ds s = s\<lparr>db_organizations := db_organizations s @ [og], db_domains := db_domains s @ ds\<rparr>"

definition add_initiative ::
  "initiative_row \<Rightarrow> initiative_organization_row list \<Rightarrow> participant_record list \<Rightarrow> account_db \<Rightarrow> account_db" where
  "add_initiative w ls ps s = s\<lparr>db_initiatives := db_initiatives s @ [w],
     db_initiative_organizations := db_initiative_organizations s @ ls,
     db_initiative_people := db_initiative_people s @ ps\<rparr>"

definition add_activity ::
  "activity_row \<Rightarrow> association_row list \<Rightarrow> association_row list \<Rightarrow> association_row list \<Rightarrow> account_db \<Rightarrow> account_db" where
  "add_activity w os ns ps s = s\<lparr>db_activities := db_activities s @ [w],
     db_activity_organizations := db_activity_organizations s @ os,
     db_activity_initiatives := db_activity_initiatives s @ ns,
     db_activity_attendees := db_activity_attendees s @ ps\<rparr>"

definition add_relationship :: "relationship_row \<Rightarrow> account_db \<Rightarrow> account_db" where
  "add_relationship r s = s\<lparr>db_relationships := db_relationships s @ [r]\<rparr>"

definition close_relationship ::
  "(relationship_row \<Rightarrow> bool) \<Rightarrow> int \<Rightarrow> account_db \<Rightarrow> account_db" where
  "close_relationship P v s = s\<lparr>db_relationships := update_where P
     (\<lambda>r. r\<lparr>re_valid_to := Some v, re_version := re_version r + 1\<rparr>) (db_relationships s)\<rparr>"

definition add_content :: "content_row \<Rightarrow> revision_row \<Rightarrow> account_db \<Rightarrow> account_db" where
  "add_content c r s = s\<lparr>db_contents := db_contents s @ [c], db_revisions := db_revisions s @ [r]\<rparr>"

definition add_revision ::
  "(content_row \<Rightarrow> bool) \<Rightarrow> jstr \<Rightarrow> jsval \<Rightarrow> int \<Rightarrow> revision_row \<Rightarrow> account_db \<Rightarrow> account_db" where
  "add_revision P title metadata n r s = s\<lparr>db_contents := update_where P
     (\<lambda>c. c\<lparr>cn_title := title, cn_metadata := metadata, cn_current_revision := n, cn_version := cn_version c + 1\<rparr>)
     (db_contents s), db_revisions := db_revisions s @ [r]\<rparr>"

definition add_source :: "artifact_row \<Rightarrow> source_chunk_row list \<Rightarrow> association_row list \<Rightarrow> account_db \<Rightarrow> account_db" where
  "add_source a cs als s = s\<lparr>db_sources := db_sources s @ [a], db_chunks := db_chunks s @ cs,
     db_activity_sources := db_activity_sources s @ als\<rparr>"

definition bury_source ::
  "(artifact_row \<Rightarrow> bool) \<Rightarrow> (artifact_row \<Rightarrow> artifact_row) \<Rightarrow> jstr \<Rightarrow> account_db \<Rightarrow> account_db" where
  "bury_source P f i s = s\<lparr>db_sources := update_where P f (db_sources s),
     db_chunks := filter (\<lambda>r. cu_source_artifact_id r \<noteq> i) (db_chunks s)\<rparr>"

section \<open>Guards\<close>

text \<open>A child hangs below a live space of its workspace and has the relay as its manager.\<close>

definition child_space :: "account_space \<Rightarrow> grant_record \<Rightarrow> account_db \<Rightarrow> bool" where
  "child_space sp g s \<longleftrightarrow> asp_id sp \<notin> asp_id ` set (db_spaces s) \<and> \<not> asp_archived sp \<and>
     (\<exists>p\<in>set (db_spaces s). asp_parent_space_id sp = Some (asp_id p) \<and> \<not> asp_archived p \<and>
        asp_tenant_id sp = asp_tenant_id p \<and> asp_workspace_id sp = asp_workspace_id p) \<and>
     ag_subject_type g = ServicePrincipalGrant \<and> ag_relation g = ManagerGrant \<and> ag_source g = DirectGrant \<and>
     ag_resource_id g = asp_id sp \<and> ag_tenant_id g = asp_tenant_id sp \<and> ag_workspace_id g = asp_workspace_id sp"

definition live_in :: "jstr \<Rightarrow> account_db \<Rightarrow> bool" where
  "live_in i s \<longleftrightarrow> (\<exists>sp\<in>set (db_spaces s). asp_id sp = i \<and> \<not> asp_archived sp)"

definition organization_fits :: "account_space \<Rightarrow> organization_row \<Rightarrow> domain_row list \<Rightarrow> bool" where
  "organization_fits sp og ds \<longleftrightarrow> asp_kind sp = OrganizationSpace \<and> og_space_id og = asp_id sp \<and>
     on_version og = 1 \<and> \<not> on_archived og \<and>
     (\<forall>d\<in>set ds. dm_organization_id d = og_id og \<and> dm_space_id d = asp_id sp)"

definition initiative_fits ::
  "account_space \<Rightarrow> initiative_row \<Rightarrow> initiative_organization_row list \<Rightarrow> participant_record list \<Rightarrow> bool" where
  "initiative_fits sp w ls ps \<longleftrightarrow> asp_kind sp = InitiativeSpace \<and> wr_space_id w = asp_id sp \<and> in_version w = 1 \<and>
     length (filter io_primary ls) = 1 \<and>
     (\<forall>l\<in>set ls. io_initiative_id l = wr_id w \<and> io_space_id l = asp_id sp \<and> \<not> io_ended l) \<and>
     (\<forall>p\<in>set ps. pp_resource_id p = wr_id w)"

definition content_fits :: "content_row \<Rightarrow> revision_row \<Rightarrow> account_db \<Rightarrow> bool" where
  "content_fits c r s \<longleftrightarrow> ct_id c \<notin> ct_id ` set (db_contents s) \<and> cn_current_revision c = 1 \<and> cn_version c = 1 \<and>
     rv_content_item_id r = ct_id c \<and> rv_revision_number r = 1 \<and> rv_access_class r = ct_access_class c \<and>
     (\<exists>sp\<in>set (db_spaces s). asp_id sp = ct_space_id c \<and> \<not> asp_archived sp \<and>
        ct_access_class c = asp_access_class sp)"

definition revision_fits :: "(content_row \<Rightarrow> bool) \<Rightarrow> int \<Rightarrow> revision_row \<Rightarrow> account_db \<Rightarrow> bool" where
  "revision_fits P n r s \<longleftrightarrow> rv_revision_number r = n \<and>
     (\<forall>c. P c \<longrightarrow> ct_id c = rv_content_item_id r \<and> cn_current_revision c = n - 1) \<and>
     (\<exists>c\<in>set (db_contents s). P c \<and> rv_access_class r = ct_access_class c)"

text \<open>What is stored of a source: as long as it is live, its text and the chunks of its normal form, in its
  own class; of a tombstone, nothing of the text.\<close>

definition chunk_columns :: "source_chunk_row \<Rightarrow> nat \<times> nat \<times> nat \<times> jstr \<times> jstr" where
  "chunk_columns r = (cu_chunk_index r, cu_start_offset r, cu_end_offset r, cu_normalized_text r, cu_content_hash r)"

definition chunk_members :: "source_chunk \<Rightarrow> nat \<times> nat \<times> nat \<times> jstr \<times> jstr" where
  "chunk_members c = (chunkIndex c, startOffset c, endOffset c, chunkText c, chunkHash c)"

definition stored_source :: "(jstr \<Rightarrow> jstr) \<Rightarrow> (nat list \<Rightarrow> jstr) \<Rightarrow> artifact_row \<Rightarrow> source_chunk_row list \<Rightarrow> bool" where
  "stored_source nfc sha256 a rows \<longleftrightarrow> (case so_deleted_at a of
     None \<Rightarrow> (\<exists>t n cs. so_immutable_text a = Some t \<and> normalizeStoredSourceText nfc t = Some n \<and>
       chunkNormalizedSource sha256 n = Some cs \<and> so_normalized_content_hash a = Some (sha256 (utf8 n)) \<and>
       map chunk_columns rows = map chunk_members cs \<and>
       (\<forall>r\<in>set rows. cu_access_class r = ct_access_class a \<and> cu_space_id r = ct_space_id a \<and>
         cu_tenant_id r = ct_tenant_id a \<and> cu_workspace_id r = ct_workspace_id a))
   | Some _ \<Rightarrow> so_immutable_text a = None \<and> rows = [] \<and>
       (so_erase_hashes a \<longrightarrow> so_content_hash a = None \<and> so_normalized_content_hash a = None))"

definition corrects :: "artifact_row \<Rightarrow> account_db \<Rightarrow> bool" where
  "corrects a s \<longleftrightarrow> (case so_supersedes_source_id a of
     None \<Rightarrow> True
   | Some i \<Rightarrow> \<exists>p\<in>set (db_sources s). ct_id p = i \<and> so_deleted_at p = None \<and> \<not> superseded s p \<and>
       ct_space_id p = ct_space_id a \<and> ct_access_class p \<le> ct_access_class a)"

definition source_fits ::
  "(jstr \<Rightarrow> jstr) \<Rightarrow> (nat list \<Rightarrow> jstr) \<Rightarrow> artifact_row \<Rightarrow> source_chunk_row list \<Rightarrow> association_row list \<Rightarrow> account_db \<Rightarrow> bool" where
  "source_fits nfc sha256 a cs als s \<longleftrightarrow> ct_id a \<notin> ct_id ` set (db_sources s) \<and> so_deleted_at a = None \<and>
     so_version_number a = 1 \<and> (\<forall>r\<in>set cs. cu_source_artifact_id r = ct_id a) \<and>
     (\<forall>al\<in>set als. al_related_id al = ct_id a \<and> al_space_id al = ct_space_id a) \<and>
     stored_source nfc sha256 a cs \<and> corrects a s \<and>
     (\<exists>sp\<in>set (db_spaces s). asp_id sp = ct_space_id a \<and> \<not> asp_archived sp \<and>
        asp_access_class sp \<le> ct_access_class a)"

definition tombstone_of_source :: "artifact_row \<Rightarrow> artifact_row \<Rightarrow> bool" where
  "tombstone_of_source a b \<longleftrightarrow> so_deleted_at a = None \<and> (\<exists>now reason policy. b = a
     \<lparr>so_immutable_text := None,
      so_content_hash := (if so_erase_hashes a then None else so_content_hash a),
      so_normalized_content_hash := (if so_erase_hashes a then None else so_normalized_content_hash a),
      so_deleted_at := Some now, so_deletion_reason := Some reason, so_deletion_policy_ref := Some policy,
      so_hashes_retained := Some (\<not> so_erase_hashes a), so_version_number := so_version_number a + 1\<rparr>)"

definition burial_fits :: "(artifact_row \<Rightarrow> bool) \<Rightarrow> (artifact_row \<Rightarrow> artifact_row) \<Rightarrow> jstr \<Rightarrow> account_db \<Rightarrow> bool" where
  "burial_fits P f i s \<longleftrightarrow> (\<exists>a\<in>set (db_sources s). P a) \<and>
     (\<forall>a\<in>set (db_sources s). P a \<longrightarrow> ct_id a = i \<and> tombstone_of_source a (f a))"

section \<open>The specification\<close>

inductive account_step ::
  "(jstr \<Rightarrow> jstr) \<Rightarrow> (nat list \<Rightarrow> jstr) \<Rightarrow> account_db \<Rightarrow> account_db \<Rightarrow> bool" for nfc sha256 s t where
  organization_added: "child_space sp g s \<Longrightarrow> organization_fits sp og ds \<Longrightarrow>
     account_books (add_organization og ds (add_space sp g s)) t \<Longrightarrow> account_step nfc sha256 s t"
| initiative_added: "child_space sp g s \<Longrightarrow> initiative_fits sp w ls ps \<Longrightarrow>
     account_books (add_initiative w ls ps (add_space sp g s)) t \<Longrightarrow> account_step nfc sha256 s t"
| activity_added: "live_in (wr_space_id w) s \<Longrightarrow> ay_version w = 1 \<Longrightarrow>
     \<forall>al\<in>set (os @ ns @ ps). al_activity_id al = wr_id w \<and> al_space_id al = wr_space_id w \<Longrightarrow>
     account_books (add_activity w os ns ps s) t \<Longrightarrow> account_step nfc sha256 s t"
| relationship_added: "live_in (re_space_id r) s \<Longrightarrow> re_version r = 1 \<Longrightarrow> re_valid_to r = None \<Longrightarrow>
     account_books (add_relationship r s) t \<Longrightarrow> account_step nfc sha256 s t"
| relationship_closed: "\<forall>r. P r \<longrightarrow> re_id r = i \<and> re_valid_to r = None \<Longrightarrow> \<exists>r\<in>set (db_relationships s). P r \<Longrightarrow>
     account_books (close_relationship P v s) t \<Longrightarrow> account_step nfc sha256 s t"
| content_added: "content_fits c r s \<Longrightarrow> account_books (add_content c r s) t \<Longrightarrow> account_step nfc sha256 s t"
| content_revised: "revision_fits P n r s \<Longrightarrow> account_books (add_revision P title metadata n r s) t \<Longrightarrow>
     account_step nfc sha256 s t"
| source_added: "source_fits nfc sha256 a cs als s \<Longrightarrow> account_books (add_source a cs als s) t \<Longrightarrow>
     account_step nfc sha256 s t"
| source_buried: "burial_fits P f i s \<Longrightarrow> account_books (bury_source P f i s) t \<Longrightarrow> account_step nfc sha256 s t"

section \<open>The invariant\<close>

definition account_keys :: "account_db \<Rightarrow> bool" where
  "account_keys s \<longleftrightarrow> distinct (map asp_id (db_spaces s)) \<and> distinct (map og_id (db_organizations s)) \<and>
     distinct (map wr_id (db_initiatives s)) \<and> distinct (map wr_id (db_activities s)) \<and>
     distinct (map re_id (db_relationships s)) \<and> distinct (map ct_id (db_contents s)) \<and>
     distinct (map ct_id (db_sources s))"

definition guards_keys :: "refusal \<Rightarrow> bool" where
  "guards_keys refuses \<longleftrightarrow> (\<forall>s t. refuses s t = None \<longrightarrow> account_keys t)"

definition at_rest :: "account_db \<Rightarrow> bool" where
  "at_rest s \<longleftrightarrow> db_space_setting s = None \<and> \<not> db_child_scope_active s \<and> db_child s = None"

definition space_tree :: "account_space list \<Rightarrow> bool" where
  "space_tree sps \<longleftrightarrow> (\<forall>i<length sps. \<forall>p. asp_parent_space_id (sps ! i) = Some p \<longrightarrow>
     p \<in> asp_id ` set (take i sps))"

definition revisions_of :: "revision_row list \<Rightarrow> jstr \<Rightarrow> int list" where
  "revisions_of rows i = map rv_revision_number (filter (\<lambda>r. rv_content_item_id r = i) rows)"

definition revisions_numbered :: "account_db \<Rightarrow> bool" where
  "revisions_numbered s \<longleftrightarrow> (\<forall>c\<in>set (db_contents s). 1 \<le> cn_current_revision c \<and>
       revisions_of (db_revisions s) (ct_id c) = [1..cn_current_revision c]) \<and>
     (\<forall>r\<in>set (db_revisions s). rv_content_item_id r \<in> ct_id ` set (db_contents s))"

definition chunks_of :: "source_chunk_row list \<Rightarrow> jstr \<Rightarrow> source_chunk_row list" where
  "chunks_of rows i = filter (\<lambda>r. cu_source_artifact_id r = i) rows"

definition sources_stored :: "(jstr \<Rightarrow> jstr) \<Rightarrow> (nat list \<Rightarrow> jstr) \<Rightarrow> account_db \<Rightarrow> bool" where
  "sources_stored nfc sha256 s \<longleftrightarrow>
     (\<forall>a\<in>set (db_sources s). stored_source nfc sha256 a (chunks_of (db_chunks s) (ct_id a))) \<and>
     (\<forall>r\<in>set (db_chunks s). cu_source_artifact_id r \<in> ct_id ` set (db_sources s))"

definition corrections_ordered :: "artifact_row list \<Rightarrow> bool" where
  "corrections_ordered as \<longleftrightarrow> (\<forall>i<length as. \<forall>p. so_supersedes_source_id (as ! i) = Some p \<longrightarrow>
     p \<in> ct_id ` set (take i as))"

definition account_ok :: "(jstr \<Rightarrow> jstr) \<Rightarrow> (nat list \<Rightarrow> jstr) \<Rightarrow> account_db \<Rightarrow> bool" where
  "account_ok nfc sha256 s \<longleftrightarrow> account_keys s \<and> space_tree (db_spaces s) \<and> revisions_numbered s \<and>
     sources_stored nfc sha256 s \<and> corrections_ordered (db_sources s)"

section \<open>How rows change\<close>

definition relationship_closes :: "relationship_row \<Rightarrow> relationship_row \<Rightarrow> bool" where
  "relationship_closes r q \<longleftrightarrow> re_valid_to r = None \<and>
     (\<exists>v. q = r\<lparr>re_valid_to := Some v, re_version := re_version r + 1\<rparr>)"

definition content_advances :: "content_row \<Rightarrow> content_row \<Rightarrow> bool" where
  "content_advances c d \<longleftrightarrow> (\<exists>title metadata k. 0 < k \<and> d = c\<lparr>cn_title := title, cn_metadata := metadata,
     cn_current_revision := cn_current_revision c + k, cn_version := cn_version c + k\<rparr>)"

text \<open>The chunks of a source stay as they are until the source changes, which makes it a tombstone and
  removes them.\<close>

definition chunks_stay :: "account_db \<Rightarrow> account_db \<Rightarrow> bool" where
  "chunks_stay s t \<longleftrightarrow> (\<forall>i<length (db_sources s). let a = db_sources s ! i in
     chunks_of (db_chunks t) (ct_id a) =
       (if db_sources t ! i = a then chunks_of (db_chunks s) (ct_id a) else []))"

definition account_grows :: "account_db \<Rightarrow> account_db \<Rightarrow> bool" where
  "account_grows s t \<longleftrightarrow> extends (\<lambda>_ _. False) (db_spaces s) (db_spaces t) \<and>
     extends (\<lambda>_ _. False) (db_grants s) (db_grants t) \<and>
     extends (\<lambda>_ _. False) (db_organizations s) (db_organizations t) \<and>
     extends (\<lambda>_ _. False) (db_domains s) (db_domains t) \<and>
     extends (\<lambda>_ _. False) (db_initiatives s) (db_initiatives t) \<and>
     extends (\<lambda>_ _. False) (db_initiative_organizations s) (db_initiative_organizations t) \<and>
     extends (\<lambda>_ _. False) (db_initiative_people s) (db_initiative_people t) \<and>
     extends (\<lambda>_ _. False) (db_activities s) (db_activities t) \<and>
     extends (\<lambda>_ _. False) (db_activity_organizations s) (db_activity_organizations t) \<and>
     extends (\<lambda>_ _. False) (db_activity_initiatives s) (db_activity_initiatives t) \<and>
     extends (\<lambda>_ _. False) (db_activity_attendees s) (db_activity_attendees t) \<and>
     extends relationship_closes (db_relationships s) (db_relationships t) \<and>
     extends content_advances (db_contents s) (db_contents t) \<and>
     extends (\<lambda>_ _. False) (db_revisions s) (db_revisions t) \<and>
     extends tombstone_of_source (db_sources s) (db_sources t) \<and>
     extends (\<lambda>_ _. False) (db_activity_sources s) (db_activity_sources t) \<and> chunks_stay s t"

text \<open>The records of the commands, the audit events and the notifications: rows are only appended.\<close>

definition account_records_grow :: "account_db \<Rightarrow> account_db \<Rightarrow> bool" where
  "account_records_grow s t \<longleftrightarrow> extends (\<lambda>_ _. False) (db_commands s) (db_commands t) \<and>
     extends (\<lambda>_ _. False) (db_audit s) (db_audit t) \<and> extends (\<lambda>_ _. False) (db_outbox s) (db_outbox t)"

section \<open>Books and tables\<close>

named_theorems account_simps \<open>what an elementary change does to each table\<close>

lemma account_books_refl [simp]: "account_books s s"
  by (simp add: account_books_def)

lemma account_books_tables:
  assumes "account_books s t"
  shows "db_spaces t = db_spaces s" "db_grants t = db_grants s" "db_organizations t = db_organizations s"
    "db_domains t = db_domains s" "db_initiatives t = db_initiatives s"
    "db_initiative_organizations t = db_initiative_organizations s"
    "db_initiative_people t = db_initiative_people s" "db_activities t = db_activities s"
    "db_activity_organizations t = db_activity_organizations s"
    "db_activity_initiatives t = db_activity_initiatives s"
    "db_activity_attendees t = db_activity_attendees s" "db_relationships t = db_relationships s"
    "db_contents t = db_contents s" "db_revisions t = db_revisions s" "db_sources t = db_sources s"
    "db_chunks t = db_chunks s" "db_activity_sources t = db_activity_sources s"
  by (subst assms[unfolded account_books_def], simp)+

lemma account_books_iff: "account_books s t \<longleftrightarrow> (\<exists>c a b x y z. t = s\<lparr>db_commands := c, db_audit := a,
  db_outbox := b, db_space_setting := x, db_child_scope_active := y, db_child := z\<rparr>)"
  by (cases s; cases t) (simp add: account_books_def)

lemma account_books_trans: "account_books s t \<Longrightarrow> account_books t u \<Longrightarrow> account_books s u"
  by (cases s; cases t; cases u) (simp add: account_books_def)

lemma account_books_updates [simp]:
  "account_books s (db_commands_update f1 s)" "account_books s (db_audit_update f2 s)"
  "account_books s (db_outbox_update f3 s)" "account_books s (db_space_setting_update f4 s)"
  "account_books s (db_child_scope_active_update f5 s)" "account_books s (db_child_update f6 s)"
  by (simp_all add: account_books_def)

lemma account_books_changes:
  assumes "account_books s t"
  shows "account_books (add_space sp g s) (add_space sp g t)"
    "account_books (add_organization og ds s) (add_organization og ds t)"
    "account_books (add_initiative w ls ps s) (add_initiative w ls ps t)"
    "account_books (add_activity ac os ns qs s) (add_activity ac os ns qs t)"
    "account_books (add_relationship r s) (add_relationship r t)"
    "account_books (close_relationship P v s) (close_relationship P v t)"
    "account_books (add_content c rv s) (add_content c rv t)"
    "account_books (add_revision P' title metadata n rv s) (add_revision P' title metadata n rv t)"
    "account_books (add_source a cs als s) (add_source a cs als t)"
    "account_books (bury_source P'' f i s) (bury_source P'' f i t)"
proof -
  obtain c' a' b' x' y' z' where t: "t = s\<lparr>db_commands := c', db_audit := a', db_outbox := b',
      db_space_setting := x', db_child_scope_active := y', db_child := z'\<rparr>"
    using assms unfolding account_books_iff by blast
  note ds = t account_books_def
  show "account_books (add_space sp g s) (add_space sp g t)" by (simp add: ds add_space_def)
  show "account_books (add_organization og ds s) (add_organization og ds t)" by (simp add: ds add_organization_def)
  show "account_books (add_initiative w ls ps s) (add_initiative w ls ps t)" by (simp add: ds add_initiative_def)
  show "account_books (add_activity ac os ns qs s) (add_activity ac os ns qs t)" by (simp add: ds add_activity_def)
  show "account_books (add_relationship r s) (add_relationship r t)" by (simp add: ds add_relationship_def)
  show "account_books (close_relationship P v s) (close_relationship P v t)" by (simp add: ds close_relationship_def)
  show "account_books (add_content c rv s) (add_content c rv t)" by (simp add: ds add_content_def)
  show "account_books (add_revision P' title metadata n rv s) (add_revision P' title metadata n rv t)"
    by (simp add: ds add_revision_def)
  show "account_books (add_source a cs als s) (add_source a cs als t)" by (simp add: ds add_source_def)
  show "account_books (bury_source P'' f i s) (bury_source P'' f i t)" by (simp add: ds bury_source_def)
qed

lemma superseded_cong: "db_sources t = db_sources s \<Longrightarrow> superseded t = superseded s"
  by (simp add: superseded_def fun_eq_iff)

lemma corrects_cong:
  assumes "db_sources t = db_sources s"
  shows "corrects a t = corrects a s"
  unfolding corrects_def superseded_cong[OF assms] assms ..

lemma account_guards:
  assumes "account_books s t"
  shows "child_space sp g t \<longleftrightarrow> child_space sp g s" "live_in i t \<longleftrightarrow> live_in i s"
    "content_fits c r t \<longleftrightarrow> content_fits c r s" "revision_fits P n r t \<longleftrightarrow> revision_fits P n r s"
    "source_fits nfc sha256 a cs als t \<longleftrightarrow> source_fits nfc sha256 a cs als s"
    "burial_fits P' f j t \<longleftrightarrow> burial_fits P' f j s"
  by (simp_all add: child_space_def live_in_def content_fits_def revision_fits_def source_fits_def
      corrects_cong[OF account_books_tables(15)[OF assms]] burial_fits_def account_books_tables[OF assms])

lemma account_step_after_books:
  assumes b: "account_books s s1" and step: "account_step nfc sha256 s1 t"
  shows "account_step nfc sha256 s t"
  using step
proof (cases rule: account_step.cases)
  case (organization_added sp g og ds)
  then show ?thesis using account_guards(1)[OF b] account_books_trans account_step.organization_added
      account_books_changes(2)[OF account_books_changes(1)[OF b]] by blast
next
  case (initiative_added sp g w ls ps)
  then show ?thesis using account_guards(1)[OF b] account_books_trans account_step.initiative_added
      account_books_changes(3)[OF account_books_changes(1)[OF b]] by blast
next
  case (activity_added w os ns ps)
  then show ?thesis using account_guards(2)[OF b] account_books_trans account_step.activity_added
      account_books_changes(4)[OF b] by blast
next
  case (relationship_added r)
  then show ?thesis using account_guards(2)[OF b] account_books_trans account_step.relationship_added
      account_books_changes(5)[OF b] by blast
next
  case (relationship_closed P i v)
  then show ?thesis using account_books_tables(12)[OF b] account_books_trans account_step.relationship_closed
      account_books_changes(6)[OF b] by metis
next
  case (content_added c r)
  then show ?thesis using account_guards(3)[OF b] account_books_trans account_step.content_added
      account_books_changes(7)[OF b] by blast
next
  case (content_revised P n r title metadata)
  then show ?thesis using account_guards(4)[OF b] account_books_trans account_step.content_revised
      account_books_changes(8)[OF b] by blast
next
  case (source_added a cs als)
  then show ?thesis using account_guards(5)[OF b] account_books_trans account_step.source_added
      account_books_changes(9)[OF b] by blast
next
  case (source_buried P f i)
  then show ?thesis using account_guards(6)[OF b] account_books_trans account_step.source_buried
      account_books_changes(10)[OF b] by blast
qed

lemma account_step_then_books: "account_step nfc sha256 s t \<Longrightarrow> account_books t u \<Longrightarrow> account_step nfc sha256 s u"
proof (induction rule: account_step.induct)
qed (blast intro: account_step.intros account_books_trans)+

end
