(* ===== verification/Account_Invariant.thy ===== *)
theory Account_Invariant
  imports Account_Spec Access_Spec
begin

text \<open>
  The steps of the account specification keep its invariant, as long as the server keeps the keys, and rows
  change only in the permitted ways: an instance of the interface of evolving systems.
\<close>

section \<open>Trees of rows that refer back\<close>

lemma image_update_where:
  "(\<And>x. x \<in> set xs \<Longrightarrow> P x \<Longrightarrow> k (f x) = k x) \<Longrightarrow> k ` set (update_where P f xs) = k ` set xs"
  unfolding set_update_where image_image by (rule image_cong) auto

lemma refers_back_append:
  assumes "\<forall>i<length xs. \<forall>p. ref (xs ! i) = Some p \<longrightarrow> p \<in> key ` set (take i xs)"
    and "\<forall>p. ref x = Some p \<longrightarrow> p \<in> key ` set xs"
  shows "\<forall>i<length (xs @ [x]). \<forall>p. ref ((xs @ [x]) ! i) = Some p \<longrightarrow> p \<in> key ` set (take i (xs @ [x]))"
  using assms by (auto simp: less_Suc_eq nth_append)

text \<open>Where every row refers back, there is a height along which references descend.\<close>

lemma refers_back_height:
  assumes backwards: "\<forall>i<length xs. \<forall>p. ref (xs ! i) = Some p \<longrightarrow> p \<in> key ` set (take i xs)"
    and keys: "distinct (map key xs)"
  shows "\<exists>height :: 'k \<Rightarrow> nat. (\<forall>x\<in>set xs. \<forall>y\<in>set xs. ref x = Some (key y) \<longrightarrow> height (key y) < height (key x)) \<and>
    (\<forall>x\<in>set xs. height (key x) < length xs)"
proof -
  define height where "height k = (LEAST i. i < length xs \<and> key (xs ! i) = k)" for k
  have at: "height (key (xs ! i)) = i" if "i < length xs" for i
    unfolding height_def
  proof (rule Least_equality)
    show "i \<le> j" if "j < length xs \<and> key (xs ! j) = key (xs ! i)" for j
      using keys that \<open>i < length xs\<close> by (metis length_map nth_eq_iff_index_eq nth_map order_refl)
  qed (use that in simp)
  have "height (key y) < height (key x)" if xy: "x \<in> set xs" "y \<in> set xs" "ref x = Some (key y)" for x y
  proof -
    obtain i where i: "i < length xs" "x = xs ! i" using xy(1) by (metis in_set_conv_nth)
    have "key y \<in> key ` set (take i xs)" using backwards i xy(3) by blast
    then obtain j where "j < i" "key y = key (xs ! j)" using i(1) by (auto simp: in_set_conv_nth)
    then show ?thesis using at i by simp
  qed
  moreover have "height (key x) < length xs" if "x \<in> set xs" for x
    using that at by (metis in_set_conv_nth)
  ultimately show ?thesis by blast
qed

lemma space_tree_append:
  "space_tree sps \<Longrightarrow> \<forall>p. asp_parent_space_id sp = Some p \<longrightarrow> p \<in> asp_id ` set sps \<Longrightarrow> space_tree (sps @ [sp])"
  unfolding space_tree_def by (rule refers_back_append)

lemma corrections_append:
  "corrections_ordered as \<Longrightarrow> \<forall>p. so_supersedes_source_id a = Some p \<longrightarrow> p \<in> ct_id ` set as \<Longrightarrow>
     corrections_ordered (as @ [a])"
  unfolding corrections_ordered_def by (rule refers_back_append)

lemma corrections_update:
  assumes "corrections_ordered as" "\<And>a. a \<in> set as \<Longrightarrow> P a \<Longrightarrow> ct_id (f a) = ct_id a"
    "\<And>a. a \<in> set as \<Longrightarrow> P a \<Longrightarrow> so_supersedes_source_id (f a) = so_supersedes_source_id a"
  shows "corrections_ordered (update_where P f as)"
proof -
  have "take i (update_where P f as) = update_where P f (take i as)" for i by (simp add: update_where_def take_map)
  then have ids: "ct_id ` set (take i (update_where P f as)) = ct_id ` set (take i as)" for i
    using image_update_where[of "take i as" P ct_id f for i] assms(2) by (metis in_set_takeD)
  have "so_supersedes_source_id (update_where P f as ! i) = so_supersedes_source_id (as ! i)" if "i < length as" for i
    using that assms(3) by (simp add: update_where_def)
  then show ?thesis using assms(1) unfolding corrections_ordered_def ids by (simp add: update_where_def)
qed

section \<open>Content\<close>

lemma revisions_of_append:
  "revisions_of (rows @ [r]) i = revisions_of rows i @ (if rv_content_item_id r = i then [rv_revision_number r] else [])"
  by (simp add: revisions_of_def)

lemma revisions_of_none: "i \<notin> rv_content_item_id ` set rows \<Longrightarrow> revisions_of rows i = []"
  by (auto simp: revisions_of_def filter_empty_conv)

lemma numbered_add_content:
  assumes ok: "revisions_numbered s" and fits: "content_fits c r s"
  shows "revisions_numbered (add_content c r s)"
proof -
  have none: "revisions_of (db_revisions s) (ct_id c) = []"
    by (rule revisions_of_none) (use ok fits in \<open>force simp: revisions_numbered_def content_fits_def\<close>)
  show ?thesis
    using assms none by (auto simp: revisions_numbered_def content_fits_def add_content_def revisions_of_append)
qed

lemma upto_snoc: "1 \<le> n \<Longrightarrow> [1..n - 1] @ [n] = [1..(n::int)]"
  using upto_rec2[of 1 n] by simp

lemma numbered_add_revision:
  assumes ok: "revisions_numbered s" and keys: "distinct (map ct_id (db_contents s))" and fits: "revision_fits P n r s"
  shows "revisions_numbered (add_revision P title metadata n r s)"
proof -
  let ?t = "add_revision P title metadata n r s"
  let ?f = "\<lambda>c. c\<lparr>cn_title := title, cn_metadata := metadata, cn_current_revision := n, cn_version := cn_version c + 1\<rparr>"
  have contents: "db_contents ?t = update_where P ?f (db_contents s)" and revisions: "db_revisions ?t = db_revisions s @ [r]"
    by (simp_all add: add_revision_def)
  obtain c0 where c0: "c0 \<in> set (db_contents s)" "P c0" using fits unfolding revision_fits_def by blast
  have P: "P c \<Longrightarrow> ct_id c = rv_content_item_id r \<and> cn_current_revision c = n - 1" for c
    using fits unfolding revision_fits_def by blast
  have number: "rv_revision_number r = n" using fits unfolding revision_fits_def by blast
  have "2 \<le> n" using ok c0 P[OF c0(2)] by (auto simp: revisions_numbered_def)
  have one: "P c" if "c \<in> set (db_contents s)" "ct_id c = rv_content_item_id r" for c
  proof -
    have "c = c0" using keys that c0(1) P[OF c0(2)] by (metis distinct_map inj_onD)
    then show ?thesis using c0(2) by simp
  qed
  have "1 \<le> cn_current_revision c \<and> revisions_of (db_revisions ?t) (ct_id c) = [1..cn_current_revision c]"
    if c: "c \<in> set (db_contents ?t)" for c
  proof -
    obtain c' where c': "c' \<in> set (db_contents s)" "c = (if P c' then ?f c' else c')"
      using c unfolding contents set_update_where by blast
    have old: "1 \<le> cn_current_revision c'" "revisions_of (db_revisions s) (ct_id c') = [1..cn_current_revision c']"
      using ok c'(1) by (auto simp: revisions_numbered_def)
    show ?thesis
    proof (cases "P c'")
      case True
      then show ?thesis using old P[OF True] \<open>2 \<le> n\<close> c'(2) number upto_snoc[of n]
        unfolding revisions revisions_of_append by simp
    next
      case False
      then have "rv_content_item_id r \<noteq> ct_id c'" using one[OF c'(1)] by metis
      then show ?thesis using old c'(2) False unfolding revisions revisions_of_append by simp
    qed
  qed
  moreover have "ct_id ` set (db_contents ?t) = ct_id ` set (db_contents s)"
    unfolding contents by (rule image_update_where) simp
  moreover have "\<forall>q\<in>set (db_revisions ?t). rv_content_item_id q \<in> ct_id ` set (db_contents s)"
    using ok c0 P[OF c0(2)] unfolding revisions revisions_numbered_def by force
  ultimately show ?thesis unfolding revisions_numbered_def by simp
qed

section \<open>Sources\<close>

lemma chunks_of_append: "chunks_of (rows @ new) i = chunks_of rows i @ chunks_of new i"
  by (simp add: chunks_of_def)

lemma chunks_of_all: "\<forall>r\<in>set rows. cu_source_artifact_id r = i \<Longrightarrow> chunks_of rows i = rows"
  by (simp add: chunks_of_def)

lemma chunks_of_none: "i \<notin> cu_source_artifact_id ` set rows \<Longrightarrow> chunks_of rows i = []"
  by (auto simp: chunks_of_def filter_empty_conv)

lemma chunks_of_filter: "i \<noteq> j \<Longrightarrow> chunks_of (filter (\<lambda>r. cu_source_artifact_id r \<noteq> j) rows) i = chunks_of rows i"
  "chunks_of (filter (\<lambda>r. cu_source_artifact_id r \<noteq> i) rows) i = []"
  by (auto simp: chunks_of_def filter_empty_conv intro: filter_cong)

lemma stored_add_source:
  assumes ok: "sources_stored nfc sha256 s" and fits: "source_fits nfc sha256 a cs als s"
  shows "sources_stored nfc sha256 (add_source a cs als s)"
proof -
  let ?t = "add_source a cs als s"
  have t: "db_sources ?t = db_sources s @ [a]" "db_chunks ?t = db_chunks s @ cs" by (simp_all add: add_source_def)
  have new: "ct_id a \<notin> ct_id ` set (db_sources s)" "\<forall>r\<in>set cs. cu_source_artifact_id r = ct_id a"
      "stored_source nfc sha256 a cs" using fits by (auto simp: source_fits_def)
  have owned: "\<forall>r\<in>set (db_chunks s). cu_source_artifact_id r \<in> ct_id ` set (db_sources s)"
    using ok by (simp add: sources_stored_def)
  have none: "chunks_of (db_chunks s) (ct_id a) = []" by (rule chunks_of_none) (use owned new(1) in force)
  have "stored_source nfc sha256 b (chunks_of (db_chunks ?t) (ct_id b))" if b: "b \<in> set (db_sources ?t)" for b
  proof (cases "b = a")
    case True
    then show ?thesis using new(3) none chunks_of_all[OF new(2)] by (simp add: t chunks_of_append)
  next
    case False
    then have b': "b \<in> set (db_sources s)" using b by (simp add: t)
    then have "ct_id b \<noteq> ct_id a" using new(1) by (metis imageI)
    then have "chunks_of cs (ct_id b) = []" by (intro chunks_of_none) (use new(2) in force)
    then show ?thesis using ok b' by (simp add: sources_stored_def t chunks_of_append)
  qed
  then show ?thesis using owned new(2) unfolding sources_stored_def t by auto
qed

lemma tombstone_fields:
  assumes "tombstone_of_source a b"
  shows "ct_id b = ct_id a" "so_supersedes_source_id b = so_supersedes_source_id a"
    "so_erase_hashes b = so_erase_hashes a" "ct_access_class b = ct_access_class a" "ct_space_id b = ct_space_id a"
  using assms by (auto simp: tombstone_of_source_def)

lemma tombstone_stored: "tombstone_of_source a b \<Longrightarrow> stored_source nfc sha256 b []"
  by (auto simp: tombstone_of_source_def stored_source_def)

lemma stored_bury_source:
  assumes ok: "sources_stored nfc sha256 s" and keys: "distinct (map ct_id (db_sources s))" and fits: "burial_fits P f i s"
  shows "sources_stored nfc sha256 (bury_source P f i s)"
proof -
  let ?t = "bury_source P f i s"
  have t: "db_sources ?t = update_where P f (db_sources s)"
    "db_chunks ?t = filter (\<lambda>r. cu_source_artifact_id r \<noteq> i) (db_chunks s)" by (simp_all add: bury_source_def)
  have P: "a \<in> set (db_sources s) \<Longrightarrow> P a \<Longrightarrow> ct_id a = i \<and> tombstone_of_source a (f a)" for a
    using fits by (simp add: burial_fits_def)
  obtain a0 where a0: "a0 \<in> set (db_sources s)" "P a0" using fits by (auto simp: burial_fits_def)
  have "stored_source nfc sha256 b (chunks_of (db_chunks ?t) (ct_id b))" if "b \<in> set (db_sources ?t)" for b
  proof -
    obtain a where a: "a \<in> set (db_sources s)" "b = (if P a then f a else a)"
      using \<open>b \<in> _\<close> unfolding t set_update_where by blast
    show ?thesis
    proof (cases "ct_id a = i")
      case True
      then have "a = a0" using keys a0 P[OF a0] a(1) by (metis distinct_map inj_onD)
      then have b: "b = f a0" "tombstone_of_source a0 b" "ct_id b = i"
        using a0(2) P[OF a0] a(2) tombstone_fields(1)[of a0 "f a0"] by simp_all
      show ?thesis using tombstone_stored[OF b(2)] unfolding b(3) t chunks_of_filter(2) .
    next
      case False
      then have "\<not> P a" using P a(1) by blast
      then show ?thesis using ok a False by (simp add: sources_stored_def t chunks_of_filter)
    qed
  qed
  moreover have "ct_id ` set (db_sources ?t) = ct_id ` set (db_sources s)"
    unfolding t by (rule image_update_where) (use P tombstone_fields(1) in blast)
  ultimately show ?thesis using ok unfolding sources_stored_def t by simp
qed

section \<open>Steps keep the invariant\<close>

lemma account_books_ok: "account_books s t \<Longrightarrow> account_ok nfc sha256 t = account_ok nfc sha256 s"
  by (simp add: account_ok_def account_keys_def revisions_numbered_def sources_stored_def account_books_tables)

lemma same_tables_ok:
  assumes "account_ok nfc sha256 s" "account_keys t" "db_contents t = db_contents s" "db_revisions t = db_revisions s"
    "db_sources t = db_sources s" "db_chunks t = db_chunks s" "space_tree (db_spaces t)"
  shows "account_ok nfc sha256 t"
  using assms by (simp add: account_ok_def revisions_numbered_def sources_stored_def)

lemma child_tree: "child_space sp g s \<Longrightarrow> space_tree (db_spaces s) \<Longrightarrow> space_tree (db_spaces s @ [sp])"
  by (rule space_tree_append) (auto simp: child_space_def)

lemma account_keys_books: "account_books s t \<Longrightarrow> account_keys t = account_keys s"
  by (simp add: account_keys_def account_books_tables)

lemma account_step_ok:
  assumes ok: "account_ok nfc sha256 s" and step: "account_step nfc sha256 s t" and keys: "account_keys t"
  shows "account_ok nfc sha256 t"
proof -
  have parts: "space_tree (db_spaces s)" "revisions_numbered s" "sources_stored nfc sha256 s"
    "corrections_ordered (db_sources s)" "distinct (map ct_id (db_contents s))" "distinct (map ct_id (db_sources s))"
    using ok by (auto simp: account_ok_def account_keys_def)
  show ?thesis
    using step
  proof (cases rule: account_step.cases)
    case (organization_added sp g og ds)
    show ?thesis using account_books_tables[OF organization_added(3)] child_tree[OF organization_added(1) parts(1)]
      by (intro same_tables_ok[OF ok keys]) (simp_all add: add_organization_def add_space_def)
  next
    case (initiative_added sp g w ls ps)
    show ?thesis using account_books_tables[OF initiative_added(3)] child_tree[OF initiative_added(1) parts(1)]
      by (intro same_tables_ok[OF ok keys]) (simp_all add: add_initiative_def add_space_def)
  next
    case (activity_added w os ns ps)
    show ?thesis using account_books_tables[OF activity_added(4)] parts(1)
      by (intro same_tables_ok[OF ok keys]) (simp_all add: add_activity_def)
  next
    case (relationship_added r)
    show ?thesis using account_books_tables[OF relationship_added(4)] parts(1)
      by (intro same_tables_ok[OF ok keys]) (simp_all add: add_relationship_def)
  next
    case (relationship_closed P i v)
    show ?thesis using account_books_tables[OF relationship_closed(3)] parts(1)
      by (intro same_tables_ok[OF ok keys]) (simp_all add: close_relationship_def)
  next
    case (content_added c r)
    let ?u = "add_content c r s"
    have "account_ok nfc sha256 ?u"
      using numbered_add_content[OF parts(2) content_added(1)] keys parts
      unfolding account_keys_books[OF content_added(2)]
      by (simp add: account_ok_def sources_stored_def add_content_def)
    then show ?thesis using account_books_ok[OF content_added(2)] by simp
  next
    case (content_revised P n r title metadata)
    let ?u = "add_revision P title metadata n r s"
    have "account_ok nfc sha256 ?u"
      using numbered_add_revision[OF parts(2,5) content_revised(1)] keys parts
      unfolding account_keys_books[OF content_revised(2)]
      by (simp add: account_ok_def sources_stored_def add_revision_def)
    then show ?thesis using account_books_ok[OF content_revised(2)] by simp
  next
    case (source_added a cs als)
    let ?u = "add_source a cs als s"
    have "corrections_ordered (db_sources ?u)"
      using parts(4) source_added(1) by (auto simp: add_source_def source_fits_def corrects_def intro!: corrections_append)
    then have "account_ok nfc sha256 ?u"
      using stored_add_source[OF parts(3) source_added(1)] keys parts
      unfolding account_keys_books[OF source_added(2)]
      by (simp add: account_ok_def revisions_numbered_def add_source_def)
    then show ?thesis using account_books_ok[OF source_added(2)] by simp
  next
    case (source_buried P f i)
    let ?u = "bury_source P f i s"
    have "corrections_ordered (db_sources ?u)"
      using parts(4) source_buried(1)
      by (auto simp: bury_source_def burial_fits_def tombstone_fields intro!: corrections_update)
    then have "account_ok nfc sha256 ?u"
      using stored_bury_source[OF parts(3,6) source_buried(1)] keys parts
      unfolding account_keys_books[OF source_buried(2)]
      by (simp add: account_ok_def revisions_numbered_def bury_source_def)
    then show ?thesis using account_books_ok[OF source_buried(2)] by simp
  qed
qed

section \<open>How rows change\<close>

lemma extends_transitive:
  assumes "extends change xs ys" "extends change ys zs" and trans: "\<And>a b c. change a b \<Longrightarrow> change b c \<Longrightarrow> change a c"
  shows "extends change xs zs"
proof -
  let ?R = "\<lambda>o' n. n = o' \<or> change o' n"
  obtain k a where ys: "ys = k @ a" "list_all2 ?R xs k" using assms(1) unfolding extends_def by blast
  obtain k' a' where zs: "zs = k' @ a'" "list_all2 ?R ys k'" using assms(2) unfolding extends_def by blast
  obtain l m where k': "k' = l @ m" "list_all2 ?R k l" using zs(2) ys(1) by (auto simp: list_all2_append1)
  have "list_all2 ?R xs l"
    by (rule list_all2_trans[OF _ ys(2) k'(2)]) (use trans in blast)
  then show ?thesis using zs(1) k'(1) unfolding extends_def by (intro exI[of _ l] exI[of _ "m @ a'"]) simp
qed

lemma content_advances_trans: "content_advances a b \<Longrightarrow> content_advances b c \<Longrightarrow> content_advances a c"
  unfolding content_advances_def
proof (elim exE conjE)
  fix title metadata k title' metadata' and k' :: int
  assume pos: "0 < k" "0 < k'" and b: "b = a\<lparr>cn_title := title, cn_metadata := metadata,
     cn_current_revision := cn_current_revision a + k, cn_version := cn_version a + k\<rparr>"
    and c: "c = b\<lparr>cn_title := title', cn_metadata := metadata',
     cn_current_revision := cn_current_revision b + k', cn_version := cn_version b + k'\<rparr>"
  show "\<exists>title metadata k. 0 < k \<and> c = a\<lparr>cn_title := title, cn_metadata := metadata,
     cn_current_revision := cn_current_revision a + k, cn_version := cn_version a + k\<rparr>"
    using pos unfolding c b by (intro exI[of _ title'] exI[of _ metadata'] exI[of _ "k + k'"]) simp
qed

lemma relationship_closes_once: "relationship_closes a b \<Longrightarrow> relationship_closes b c \<Longrightarrow> relationship_closes a c"
  by (auto simp: relationship_closes_def)

lemma tombstone_once: "tombstone_of_source a b \<Longrightarrow> tombstone_of_source b c \<Longrightarrow> tombstone_of_source a c"
  by (auto simp: tombstone_of_source_def)

lemma extends_nth:
  assumes "extends change xs ys" "i < length xs"
  shows "i < length ys \<and> (ys ! i = xs ! i \<or> change (xs ! i) (ys ! i))"
  using assms by (auto simp: extends_def list_all2_conv_all_nth nth_append)

lemma chunks_stay_same:
  "db_sources t = db_sources s \<Longrightarrow> db_chunks t = db_chunks s \<Longrightarrow> chunks_stay s t"
  by (simp add: chunks_stay_def Let_def)

lemma chunks_stay_trans:
  assumes "chunks_stay s t" "chunks_stay t u" and kept: "extends tombstone_of_source (db_sources s) (db_sources t)"
    and kept': "extends tombstone_of_source (db_sources t) (db_sources u)"
  shows "chunks_stay s u"
  unfolding chunks_stay_def Let_def
proof (intro allI impI)
  fix i assume i: "i < length (db_sources s)"
  let ?a = "db_sources s ! i" and ?b = "db_sources t ! i" and ?c = "db_sources u ! i"
  have b: "i < length (db_sources t)" "?b = ?a \<or> tombstone_of_source ?a ?b" using extends_nth[OF kept i] by auto
  have c: "?c = ?b \<or> tombstone_of_source ?b ?c" using extends_nth[OF kept' b(1)] by blast
  have "ct_id ?b = ct_id ?a" using b(2) by (auto simp: tombstone_of_source_def)
  then have t: "chunks_of (db_chunks t) (ct_id ?a) = (if ?b = ?a then chunks_of (db_chunks s) (ct_id ?a) else [])"
    and u: "chunks_of (db_chunks u) (ct_id ?a) = (if ?c = ?b then chunks_of (db_chunks t) (ct_id ?a) else [])"
    using assms(1)[unfolded chunks_stay_def Let_def, rule_format, OF i]
      assms(2)[unfolded chunks_stay_def Let_def, rule_format, OF b(1)] by simp_all
  have "?c = ?a \<longleftrightarrow> ?c = ?b \<and> ?b = ?a" using b(2) c by (auto simp: tombstone_of_source_def)
  then show "chunks_of (db_chunks u) (ct_id ?a) = (if ?c = ?a then chunks_of (db_chunks s) (ct_id ?a) else [])"
    unfolding u t by simp
qed

lemma chunks_stay_added:
  assumes "source_fits nfc sha256 a cs als s"
  shows "chunks_stay s (add_source a cs als s)"
proof -
  have "chunks_of cs (ct_id b) = []" if "b \<in> set (db_sources s)" for b
    using assms that by (force simp: source_fits_def chunks_of_def filter_empty_conv)
  then show ?thesis by (simp add: chunks_stay_def add_source_def chunks_of_def nth_append Let_def)
qed

lemma chunks_stay_buried:
  assumes fits: "burial_fits P f i s" and keys: "account_keys s"
  shows "chunks_stay s (bury_source P f i s)"
  unfolding chunks_stay_def Let_def
proof (intro allI impI)
  fix j assume j: "j < length (db_sources s)"
  let ?a = "db_sources s ! j"
  have row: "db_sources (bury_source P f i s) ! j = (if P ?a then f ?a else ?a)"
    using j by (simp add: bury_source_def update_where_def)
  obtain a0 where a0: "a0 \<in> set (db_sources s)" "P a0" "ct_id a0 = i" using fits by (auto simp: burial_fits_def)
  have "inj_on ct_id (set (db_sources s))" using keys by (simp add: account_keys_def distinct_map)
  then have one: "P ?a \<longleftrightarrow> ct_id ?a = i"
    using fits a0 nth_mem[OF j] by (auto simp: burial_fits_def dest: inj_onD)
  have "f ?a \<noteq> ?a" if "P ?a"
  proof -
    have "so_deleted_at ?a = None" "so_deleted_at (f ?a) \<noteq> None"
      using fits nth_mem[OF j] that by (force simp: burial_fits_def tombstone_of_source_def)+
    then show ?thesis by auto
  qed
  show "chunks_of (db_chunks (bury_source P f i s)) (ct_id ?a) =
      (if db_sources (bury_source P f i s) ! j = ?a then chunks_of (db_chunks s) (ct_id ?a) else [])"
    unfolding row using one \<open>P ?a \<Longrightarrow> f ?a \<noteq> ?a\<close> by (auto simp: bury_source_def chunks_of_def filter_empty_conv intro!: filter_cong)
qed

lemma account_grows_refl: "account_grows s s"
  by (simp add: account_grows_def extends_refl chunks_stay_same)

lemma account_grows_trans:
  assumes "account_grows s t" "account_grows t u"
  shows "account_grows s u"
proof -
  note never = extends_transitive[where change = "\<lambda>_ _. False"]
  have "chunks_stay s u" using assms chunks_stay_trans unfolding account_grows_def by blast
  then show ?thesis
    using assms unfolding account_grows_def
    by (elim conjE) (intro conjI; (assumption | rule never; assumption?; blast |
      rule extends_transitive[OF _ _ relationship_closes_once]; assumption |
      rule extends_transitive[OF _ _ content_advances_trans]; assumption |
      rule extends_transitive[OF _ _ tombstone_once]; assumption))
qed

lemma account_grows_books: "account_books s t \<Longrightarrow> account_grows u t = account_grows u s"
  by (simp add: account_grows_def chunks_stay_def account_books_tables)

lemma account_step_grows:
  assumes "account_step nfc sha256 s t" and keys: "account_keys s"
  shows "account_grows s t"
  using assms(1)
proof (cases rule: account_step.cases)
  case (organization_added sp g og ds)
  show ?thesis unfolding account_grows_books[OF organization_added(3)]
    by (simp add: account_grows_def add_organization_def add_space_def extends_refl chunks_stay_same extends_append)
next
  case (initiative_added sp g w ls ps)
  show ?thesis unfolding account_grows_books[OF initiative_added(3)]
    by (simp add: account_grows_def add_initiative_def add_space_def extends_refl chunks_stay_same extends_append)
next
  case (activity_added w os ns ps)
  show ?thesis unfolding account_grows_books[OF activity_added(4)]
    by (simp add: account_grows_def add_activity_def extends_refl chunks_stay_same extends_append)
next
  case (relationship_added r)
  show ?thesis unfolding account_grows_books[OF relationship_added(4)]
    by (simp add: account_grows_def add_relationship_def extends_refl chunks_stay_same extends_append)
next
  case (relationship_closed P i v)
  have "extends relationship_closes (db_relationships s) (db_relationships (close_relationship P v s))"
    using relationship_closed(1) by (auto simp: close_relationship_def relationship_closes_def intro!: extends_update)
  then show ?thesis unfolding account_grows_books[OF relationship_closed(3)]
    by (simp add: account_grows_def close_relationship_def extends_refl chunks_stay_same)
next
  case (content_added c r)
  show ?thesis unfolding account_grows_books[OF content_added(2)]
    by (simp add: account_grows_def add_content_def extends_refl chunks_stay_same extends_append)
next
  case (content_revised P n r title metadata)
  have "extends content_advances (db_contents s) (db_contents (add_revision P title metadata n r s))"
    using content_revised(1)
    unfolding add_revision_def
  proof simp
    show "extends content_advances (db_contents s) (update_where P (\<lambda>c. c\<lparr>cn_title := title,
        cn_metadata := metadata, cn_current_revision := n, cn_version := cn_version c + 1\<rparr>) (db_contents s))"
    proof (rule extends_update)
      fix c assume "P c"
      then have "n = cn_current_revision c + 1" using content_revised(1) by (simp add: revision_fits_def)
      then show "content_advances c (c\<lparr>cn_title := title, cn_metadata := metadata, cn_current_revision := n,
          cn_version := cn_version c + 1\<rparr>)"
        unfolding content_advances_def by (intro exI[of _ title] exI[of _ metadata] exI[of _ 1]) simp
    qed
  qed
  then show ?thesis unfolding account_grows_books[OF content_revised(2)]
    by (simp add: account_grows_def add_revision_def extends_refl chunks_stay_same extends_append)
next
  case (source_added a cs als)
  show ?thesis unfolding account_grows_books[OF source_added(2)]
    using chunks_stay_added[OF source_added(1)]
    by (simp add: account_grows_def add_source_def extends_refl extends_append)
next
  case (source_buried P f i)
  have "extends tombstone_of_source (db_sources s) (db_sources (bury_source P f i s))"
    using source_buried(1) by (auto simp: bury_source_def burial_fits_def intro!: extends_update)
  then show ?thesis unfolding account_grows_books[OF source_buried(2)]
    using chunks_stay_buried[OF source_buried(1) keys] by (simp add: account_grows_def bury_source_def extends_refl)
qed

text \<open>A step of the specification that the server accepts.\<close>

definition kept_step :: "(jstr \<Rightarrow> jstr) \<Rightarrow> (nat list \<Rightarrow> jstr) \<Rightarrow> account_db \<Rightarrow> account_db \<Rightarrow> bool" where
  "kept_step nfc sha256 s t \<longleftrightarrow> account_step nfc sha256 s t \<and> account_keys t"

interpretation accounts: evolving_system "kept_step nfc sha256" "account_ok nfc sha256" account_grows
  for nfc :: "jstr \<Rightarrow> jstr" and sha256 :: "nat list \<Rightarrow> jstr"
proof unfold_locales
  fix nfc :: "jstr \<Rightarrow> jstr" and sha256 :: "nat list \<Rightarrow> jstr" and s t
  assume ok: "account_ok nfc sha256 s" and step: "kept_step nfc sha256 s t"
  then have parts: "account_step nfc sha256 s t" "account_keys t" "account_keys s"
    by (simp_all add: kept_step_def account_ok_def)
  show "account_ok nfc sha256 t" by (rule account_step_ok[OF ok parts(1,2)])
  show "account_grows s t" by (rule account_step_grows[OF parts(1,3)])
qed (rule account_grows_refl, rule account_grows_trans)

text \<open>The spaces as the authorisation service reads them are acyclic.\<close>

lemma space_tree_acyclic:
  assumes "account_keys s" "space_tree (db_spaces s)" "map asp_id (dr_spaces d) = map asp_id (db_spaces s)"
    "map asp_parent_space_id (dr_spaces d) = map asp_parent_space_id (db_spaces s)"
  shows "acyclic_spaces d"
proof -
  let ?ds = "dr_spaces d" and ?ss = "db_spaces s"
  have len: "length ?ds = length ?ss" using assms(3) map_eq_imp_length_eq by blast
  have ids: "asp_id (?ds ! i) = asp_id (?ss ! i)" "asp_parent_space_id (?ds ! i) = asp_parent_space_id (?ss ! i)"
    if "i < length ?ss" for i
    using that assms(3,4) len by (metis nth_map)+
  have "asp_id ` set (take i ?ds) = asp_id ` set (take i ?ss)" for i
    using assms(3) by (metis list.set_map take_map)
  then have "\<forall>i<length ?ds. \<forall>p. asp_parent_space_id (?ds ! i) = Some p \<longrightarrow> p \<in> asp_id ` set (take i ?ds)"
    using assms(2) ids len by (simp add: space_tree_def)
  moreover have "distinct (map asp_id ?ds)" using assms(1,3) by (simp add: account_keys_def)
  ultimately show ?thesis using refers_back_height[of ?ds asp_parent_space_id asp_id] by (auto simp: acyclic_spaces_def)
qed

section \<open>The chain of corrections\<close>

text \<open>
  The chain of corrections of a source (\<open>resolveCurrentSourceId\<close> of \<open>packages/content/src/repository.ts\<close>):
  where every correction names an earlier source, as the invariant of the account tables says, the search
  ends with a source that nothing supersedes.
\<close>

definition next_in :: "('a \<Rightarrow> 'a list) \<Rightarrow> 'a \<Rightarrow> 'a \<Rightarrow> bool" where
  "next_in next x y \<longleftrightarrow> y \<in> set (next x)"

lemma deepest_leaf_found:
  assumes rises: "\<And>x y. x \<in> A \<Longrightarrow> y \<in> set (next x) \<Longrightarrow> y \<in> A \<and> height x < height y"
    and bound: "\<And>x. x \<in> A \<Longrightarrow> height x < (n::nat)"
    and level: "set level \<subseteq> A" "\<And>x. x \<in> set level \<Longrightarrow> k \<le> height x"
  shows "\<exists>r. deepest_leaf next level found = Some r \<and> (level = [] \<longrightarrow> r = found) \<and>
    (level \<noteq> [] \<longrightarrow> (\<exists>x\<in>set level. \<exists>i. r = Some i \<and> next i = [] \<and> i \<in> A \<and> (next_in next)\<^sup>*\<^sup>* x i))"
  using level
proof (induction "n - k" arbitrary: level k found rule: less_induct)
  case less
  show ?case
  proof (cases "level = []")
    case True
    then show ?thesis by (simp add: deepest_leaf.simps)
  next
    case False
    let ?below = "concat (map next level)"
    let ?found = "case filter (\<lambda>i. next i = []) level of [] \<Rightarrow> found | i # _ \<Rightarrow> Some i"
    obtain x where x: "x \<in> set level" using False by (cases level) auto
    have below: "set ?below \<subseteq> A" "\<And>y. y \<in> set ?below \<Longrightarrow> Suc k \<le> height y"
      using less.prems rises by (fastforce, fastforce)
    have "k < n" using bound[of x] less.prems x by (meson le_less_trans subsetD)
    then have smaller: "n - Suc k < n - k" by simp
    have eq: "deepest_leaf next level found = deepest_leaf next ?below ?found"
      using False by (subst deepest_leaf.simps) simp
    from less.hyps[OF smaller below, of ?found]
    obtain r where r: "deepest_leaf next ?below ?found = Some r" "?below = [] \<longrightarrow> r = ?found"
      "?below \<noteq> [] \<longrightarrow> (\<exists>y\<in>set ?below. \<exists>i. r = Some i \<and> next i = [] \<and> i \<in> A \<and> (next_in next)\<^sup>*\<^sup>* y i)"
      by blast
    have "\<exists>x\<in>set level. \<exists>i. r = Some i \<and> next i = [] \<and> i \<in> A \<and> (next_in next)\<^sup>*\<^sup>* x i"
    proof (cases "?below = []")
      case True
      then have leaves: "\<forall>y\<in>set level. next y = []" by simp
      then have "filter (\<lambda>i. next i = []) level = level" by simp
      then have "r = Some (hd level)" using r(2) True False by (cases level) simp_all
      then show ?thesis using leaves False less.prems(1) by (intro bexI[of _ "hd level"]) auto
    next
      case below: False
      then obtain y i where y: "y \<in> set ?below" "r = Some i" "next i = []" "i \<in> A" "(next_in next)\<^sup>*\<^sup>* y i"
        using r(3) by blast
      obtain z where z: "z \<in> set level" "y \<in> set (next z)" using y(1) by auto
      then have "(next_in next)\<^sup>*\<^sup>* z i" using y(5) by (intro converse_rtranclp_into_rtranclp[of _ z y]) (simp_all add: next_in_def)
      then show ?thesis using z(1) y by blast
    qed
    then show ?thesis using eq r(1) False by simp
  qed
qed

lemma successors_rise:
  assumes "account_keys s" "corrections_ordered (db_sources s)"
  obtains height n where "\<And>x y. x \<in> ct_id ` set (db_sources s) \<Longrightarrow> y \<in> set (successors tenantId workspaceId s x) \<Longrightarrow>
      y \<in> ct_id ` set (db_sources s) \<and> height x < (height y :: nat)"
    "\<And>x. x \<in> ct_id ` set (db_sources s) \<Longrightarrow> height x < (n::nat)"
proof -
  have "distinct (map ct_id (db_sources s))" using assms(1) by (simp add: account_keys_def)
  from refers_back_height[OF assms(2)[unfolded corrections_ordered_def] this]
  obtain height :: "jstr \<Rightarrow> nat" where h: "\<forall>x\<in>set (db_sources s). \<forall>y\<in>set (db_sources s).
      so_supersedes_source_id x = Some (ct_id y) \<longrightarrow> height (ct_id y) < height (ct_id x)"
    "\<forall>x\<in>set (db_sources s). height (ct_id x) < length (db_sources s)"
    by blast
  show ?thesis by (rule that[of height "length (db_sources s)"]) (use h in \<open>auto simp: successors_def\<close>)
qed

text \<open>Which source a search can return: one of the tables, superseded by nothing, that the corrections of the
  named one lead to.\<close>

definition current_of :: "jstr \<Rightarrow> jstr \<Rightarrow> account_db \<Rightarrow> jstr \<Rightarrow> jstr \<Rightarrow> bool" where
  "current_of tenantId workspaceId s i j \<longleftrightarrow> successors tenantId workspaceId s j = [] \<and> j \<in> ct_id ` set (db_sources s) \<and>
     (next_in (successors tenantId workspaceId s))\<^sup>*\<^sup>* (uuid_column i) j"

lemma resolveCurrentSourceId_returns:
  assumes "account_keys s" "corrections_ordered (db_sources s)"
  shows "\<exists>r. resolveCurrentSourceId tenantId workspaceId i s = Some r \<and>
    (case r of Inl e \<Rightarrow> e = ContentInvariantError SourceUnavailable \<and> sources_named tenantId workspaceId i s = []
     | Inr j \<Rightarrow> current_of tenantId workspaceId s i j)"
proof -
  let ?next = "successors tenantId workspaceId s" and ?A = "ct_id ` set (db_sources s)"
  let ?level = "map ct_id (sources_named tenantId workspaceId i s)"
  obtain height n where h: "\<And>x y. x \<in> ?A \<Longrightarrow> y \<in> set (?next x) \<Longrightarrow> y \<in> ?A \<and> height x < (height y :: nat)"
      "\<And>x. x \<in> ?A \<Longrightarrow> height x < (n::nat)"
    using successors_rise[OF assms] by blast
  have level: "set ?level \<subseteq> ?A" "\<And>x. x \<in> set ?level \<Longrightarrow> x = uuid_column i"
    by (auto simp: sources_named_def simp del: image_eqI intro: rev_image_eqI)
  obtain r where r: "deepest_leaf ?next ?level None = Some r" "?level = [] \<longrightarrow> r = None"
      "?level \<noteq> [] \<longrightarrow> (\<exists>x\<in>set ?level. \<exists>j. r = Some j \<and> ?next j = [] \<and> j \<in> ?A \<and> (next_in ?next)\<^sup>*\<^sup>* x j)"
    using deepest_leaf_found[of ?A ?next height n ?level 0 None, OF h level(1)] by auto
  show ?thesis
  proof (cases "?level = []")
    case True
    then show ?thesis using r(1,2) by (simp add: resolveCurrentSourceId_def)
  next
    case False
    then obtain x j where "x \<in> set ?level" "r = Some j" "?next j = []" "j \<in> ?A" "(next_in ?next)\<^sup>*\<^sup>* x j" using r(3) by blast
    then show ?thesis using r(1) level(2) by (auto simp: resolveCurrentSourceId_def current_of_def)
  qed
qed

end
