(* ===== verification/Account_Effects.thy ===== *)
theory Account_Effects
  imports  Audit_Detail Product_Outbox Account_Invariant Truth_Effects
begin

text \<open>
  What the books of a command look like when every earlier command is completed, as it is between
  transactions: a reservation is new or a replay, the completion changes the last record only, and a
  notification caused by a new command is appended. Both command buses build on these facts.
\<close>

definition all_completed :: "command_row list \<Rightarrow> bool" where
  "all_completed rows \<longleftrightarrow> (\<forall>row\<in>set rows. cr_state row = CompletedCommand)"

lemma reserve_completed:
  assumes "reserve t input rows = Inr (r, rows')" "all_completed rows"
  obtains (first) sr where "r = Reserved (uuid_column (ri_id input))" "rows' = rows @ [reserved_row t sr input]"
      "\<forall>row\<in>set rows. ci_id (cr_identity row) \<noteq> uuid_column (ri_id input)"
      "\<forall>row\<in>set rows. \<not> same_reservation input row"
    | (again) command row where "r = Replay command" "rows' = rows" "row \<in> set rows" "same_reservation input row"
      "commandIdentityMatches row input" "cc_safeResponse command = cr_safe_response row"
  using assms(1)
proof (cases rule: reserve_effect)
  case (inserted sr)
  then show ?thesis using first by (auto simp: filter_empty_conv)
next
  case (existing row)
  then have "cr_state row = CompletedCommand" using assms(2) by (simp add: all_completed_def)
  then show ?thesis using existing again
    by (auto simp: replay_of_def completed_of_def op_simps split: option.splits)
qed

lemma complete_last:
  assumes "complete t input (old @ [new]) = Inr (c, rows')" "all_completed old"
  shows "\<exists>v. response_column (ki_safeResponse input) = Some v \<and> rows' = old @ [completed_row t v input new]"
proof -
  obtain v row where v: "response_column (ki_safeResponse input) = Some v"
      and one: "filter (completes input) (old @ [new]) = [row]"
    and rows': "rows' = map (\<lambda>r. if completes input r then completed_row t v input r else r) (old @ [new])"
    by (rule complete_effect[OF assms(1)]) (rule that)
  have none: "\<not> completes input q" if "q \<in> set old" for q
    using that assms(2) by (auto simp: completes_def all_completed_def)
  then have "filter (completes input) old = []" by (simp add: filter_empty_conv)
  then have "completes input new" using one by (auto split: if_splits)
  then have "rows' = old @ [completed_row t v input new]" using none unfolding rows' by (simp add: map_idI)
  then show ?thesis using v by blast
qed

lemma insertOrReplay_new:
  assumes "insertOrReplay now input rows = (rows', Inr r)"
    and new: "\<And>envelope. parseDomainNotificationEnvelope (oi_envelope input) = Some envelope \<Longrightarrow>
      \<forall>q\<in>set rows. ei_causation_command_id (ob_event q) \<noteq> en_causationCommandId envelope"
  shows "\<exists>envelope. parseDomainNotificationEnvelope (oi_envelope input) = Some envelope \<and>
    rows' = rows @ [pending_row (identity_of envelope (oi_relayServicePrincipalId input) (oi_policyVersionId input) now)]"
proof -
  obtain envelope where p: "parseDomainNotificationEnvelope (oi_envelope input) = Some envelope"
    using assms(1) by (cases "parseDomainNotificationEnvelope (oi_envelope input)") (simp_all add: insertOrReplay_def)
  let ?e = "identity_of envelope (oi_relayServicePrincipalId input) (oi_policyVersionId input) now"
  have "filter (\<lambda>r. semantic_key (ob_event r) = semantic_key ?e) rows = []"
    using new[OF p] by (auto simp: filter_empty_conv semantic_key_def identity_of_def)
  then have "rows' = rows @ [pending_row ?e]"
    using assms(1) p by (auto simp: insertOrReplay_def Let_def split: option.splits if_splits)
  then show ?thesis using p by blast
qed

section \<open>The operations of the account commands\<close>

text \<open>
  What the operations of the account commands do to the tables, in the terms of the specification: reading
  operations change nothing, the writing ones are elementary changes, and the books get one record, one audit
  event and one notification.
\<close>

section \<open>Reading\<close>

definition op_reads :: "('s, 'e, 'a) op \<Rightarrow> bool" where
  "op_reads m \<longleftrightarrow> (\<forall>s a t. m s = Inr (a, t) \<longrightarrow> t = s)"

named_theorems reads_intros \<open>operations that change nothing\<close>

lemma op_readsD: "op_reads m \<Longrightarrow> m s = Inr (a, t) \<Longrightarrow> t = s"
  by (auto simp: op_reads_def)

lemma op_reads_return [reads_intros]: "op_reads (op_return a)"
  by (simp add: op_reads_def op_simps)

lemma op_reads_fail [reads_intros]: "op_reads (op_fail e)"
  by (simp add: op_reads_def op_simps)

lemma op_reads_require [reads_intros]: "op_reads (op_require e P)"
  by (simp add: op_reads_def op_simps)

lemma op_reads_lift [reads_intros]: "op_reads (op_lift r)"
  by (simp add: op_reads_def op_simps)

lemma op_reads_read [reads_intros]: "op_reads (op_read f)"
  by (simp add: op_reads_def op_simps)

lemma op_reads_bind [reads_intros]: "op_reads m \<Longrightarrow> (\<And>a. op_reads (f a)) \<Longrightarrow> op_reads (op_bind m f)"
  by (force simp: op_reads_def op_simps)

lemma op_reads_each [reads_intros]: "(\<And>x. op_reads (f x)) \<Longrightarrow> op_reads (op_each f xs)"
  by (induction xs) (auto intro!: reads_intros)

lemma op_reads_first [reads_intros]: "op_reads (first_of e rows)"
  by (simp add: op_reads_def op_simps)

lemma op_reads_if [reads_intros]: "op_reads m \<Longrightarrow> op_reads n \<Longrightarrow> op_reads (if b then m else n)"
  by simp

lemma op_bind_reads:
  assumes "op_reads m"
  shows "op_bind m f s = Inr (b, u) \<longleftrightarrow> (\<exists>a. m s = Inr (a, s) \<and> f a s = Inr (b, u))"
  using op_readsD[OF assms] by (force simp: op_bind_Inr)

lemma getSpace_reads [reads_intros]: "op_reads (getSpace a b c)"
  by (auto simp: getSpace_def intro!: reads_intros)

lemma getOrganization_reads [reads_intros]: "op_reads (getOrganization k a b c)"
  by (auto simp: getOrganization_def intro!: reads_intros)

lemma getInitiative_reads [reads_intros]: "op_reads (getInitiative a b c v)"
  by (auto simp: getInitiative_def Let_def intro!: reads_intros)

lemma projectActivity_reads [reads_intros]: "op_reads (projectActivity a b r v)"
  by (auto simp: projectActivity_def intro!: reads_intros)

lemma lockActivity_reads [reads_intros]: "op_reads (lockActivityForSourceCapture a b c d)"
  by (auto simp: lockActivityForSourceCapture_def intro!: reads_intros)

lemma getRelationship_reads [reads_intros]: "op_reads (getRelationship a b c)"
  by (auto simp: getRelationship_def intro!: reads_intros)

lemma resolveEndpoint_reads [reads_intros]: "op_reads (resolveEndpoint w a b e)"
  by (auto simp: resolveEndpoint_def intro!: reads_intros split: list.split)

lemma deriveRelationshipScope_reads [reads_intros]: "op_reads (deriveRelationshipScope env w c p)"
  by (auto simp: deriveRelationshipScope_def Let_def intro!: reads_intros)

lemma getContentItemScope_reads [reads_intros]: "op_reads (getContentItemScope a b c)"
  by (auto simp: getContentItemScope_def intro!: reads_intros)

lemma getContentRevisionScope_reads [reads_intros]: "op_reads (getContentRevisionScope a b c n)"
  by (auto simp: getContentRevisionScope_def intro!: reads_intros)

lemma getContentRevisionBody_reads [reads_intros]: "op_reads (getContentRevisionBody a b c n)"
  by (auto simp: getContentRevisionBody_def intro!: reads_intros)

lemma getSource_reads [reads_intros]: "op_reads (getSource a b c i)"
  by (auto simp: getSource_def getChunks_def intro!: reads_intros)

lemma lockSource_reads [reads_intros]: "op_reads (lockSource a b c)"
  by (auto simp: lockSource_def intro!: reads_intros)

lemma resolveSourceLink_reads [reads_intros]: "op_reads (resolveSourceActivityLinkForCorrection a b c)"
  by (auto simp: resolveSourceActivityLinkForCorrection_def intro!: reads_intros split: list.split)

lemma lockCurrentSource_reads [reads_intros]: "op_reads (lockCurrentSourceForCorrection a b c d)"
  by (auto simp: lockCurrentSourceForCorrection_def intro!: reads_intros)

lemma revalidateSource_reads [reads_intros]: "op_reads (revalidateSourceActivityLinkForCorrection a b c d e)"
  by (auto simp: revalidateSourceActivityLinkForCorrection_def intro!: reads_intros)

lemma account_authorize_reads [reads_intros]: "op_reads (account_authorize env c a r opts)"
  by (auto simp: account_authorize_def account_decision_def intro!: reads_intros)

lemma permit_reads [reads_intros]: "op_reads (permit env c a ty i)" "op_reads (permit_locking env c a ty i)"
    "op_reads (permit_source env c a i)"
  by (auto simp: permit_def permit_locking_def permit_source_def intro!: reads_intros)

lemma authorizeEndpoints_reads [reads_intros]: "op_reads (authorizeRelationshipEndpoints env c s ob x g u a)"
  by (auto simp: authorizeRelationshipEndpoints_def Let_def intro!: reads_intros)

lemma batching_reads [reads_intros]:
  "op_reads (preauthorizeRelationshipEndInTransaction env c r)"
  "op_reads (lockAndReauthorizeRelationshipAuthorityInTransaction env c rel g r)"
  by (auto simp: preauthorizeRelationshipEndInTransaction_def account_decision_def
      lockAndReauthorizeRelationshipAuthorityInTransaction_def intro!: reads_intros)

lemma readOrigin_reads [reads_intros]: "op_reads (readAuthorizedOriginRevision env c i n sp t)"
  unfolding readAuthorizedOriginRevision_def
  by (intro reads_intros) (auto intro!: reads_intros split: prod.split)

lemma shared_reads [reads_intros]:
  "op_reads (workspace_pin env c)" "op_reads (pinned_profile env pin)" "op_reads (call_space c i)"
  "op_reads (call_organization env c i)" "op_reads (call_initiative c i)" "op_reads (call_people env c is)"
  "op_reads (same_space c i)" "op_reads (requireProfileInitiative profile ty st)"
  "op_reads (projectable c k)" "op_reads (normalized_text env t)" "op_reads (account_relay env cx i)"
  by (auto simp: workspace_pin_def pinned_profile_def call_space_def call_organization_def call_initiative_def
      call_people_def same_space_def requireProfileInitiative_def projectable_def normalized_text_def
      account_relay_def intro!: reads_intros split: list.split)

lemma more_reads [reads_intros]:
  "op_reads (readable_organization env c primary i)" "op_reads (governing_space env c parent)"
  "op_reads (captured_text env c p)"
  by (auto simp: readable_organization_def governing_space_def captured_text_def
      intro!: reads_intros split: governing_parent.split option.split prod.split)

section \<open>Books of a command\<close>

definition account_command_ids :: "account_db \<Rightarrow> jstr set" where
  "account_command_ids s = (\<lambda>row. ci_id (cr_identity row)) ` set (db_commands s)"

definition account_caused :: "account_db \<Rightarrow> bool" where
  "account_caused s \<longleftrightarrow> all_completed (db_commands s) \<and>
     (\<forall>a\<in>set (db_audit s). au_causation_command_id a \<in> account_command_ids s) \<and>
     (\<forall>r\<in>set (db_outbox s). ei_causation_command_id (ob_event r) \<in> account_command_ids s)"

text \<open>What one executed command leaves in the books: under a new key and id its own record, completed, one
  audit event and one notification, about the same resource and caused by it.\<close>

definition account_receipt :: "reservation_input \<Rightarrow> b1_result \<Rightarrow> account_db \<Rightarrow> account_db \<Rightarrow> bool" where
  "account_receipt input result s t \<longleftrightarrow> (let i = ri_id input in i \<notin> account_command_ids s \<and>
     (\<forall>row\<in>set (db_commands s). \<not> same_reservation input row) \<and> (\<exists>row a e now safeRequest.
     db_commands t = db_commands s @ [row] \<and> db_audit t = db_audit s @ [a] \<and>
     db_outbox t = db_outbox s @ [pending_row e] \<and>
     cr_identity row = cr_identity (reserved_row now safeRequest input) \<and> ci_id (cr_identity row) = i \<and>
     cr_state row = CompletedCommand \<and>
     Some (cr_safe_response row) = response_column (Some (b1_result_value result)) \<and>
     au_causation_command_id a = i \<and> ei_causation_command_id e = i \<and>
     cr_result_resource_id row = Some (au_resource_id a) \<and> ei_aggregate_id e = au_resource_id a))"

definition account_begun :: "account_env \<Rightarrow> account_call \<Rightarrow> account_db \<Rightarrow> account_db \<Rightarrow> bool" where
  "account_begun env c s t \<longleftrightarrow> drawn env commandDraw \<notin> account_command_ids s \<and>
     uuid_column (drawn env commandDraw) = drawn env commandDraw \<and>
     (\<forall>row\<in>set (db_commands s). \<not> same_reservation (account_reservation_of env c) row) \<and>
     (\<exists>sr. t = s\<lparr>db_commands := db_commands s @ [reserved_row (ae_now env) sr (account_reservation_of env c)]\<rparr>)"

lemma account_begun_books: "account_begun env c s t \<Longrightarrow> account_books s t"
  by (auto simp: account_begun_def)

lemma account_reserved_id [simp]: "ri_id (account_reservation_of env c) = drawn env commandDraw"
  by (simp add: account_reservation_of_def Let_def)

lemma account_reserve_effect:
  assumes "account_reserve env c s = Inr (r, t)" and ok: "account_caused s"
  obtains (first) "r = NewCommand (drawn env commandDraw)" "account_begun env c s t"
    | (again) row result where "t = s" "r = StoredResult result" "row \<in> set (db_commands s)"
        "same_reservation (account_reservation_of env c) row"
        "parseStoredB1Result (ae_uuid env) (ae_datetime env) (b1_kind_of (bl_payload c))
           (case cr_safe_response row of None \<Rightarrow> JUndef | Some v \<Rightarrow> v) = Some result"
proof -
  obtain reservation rows where res: "reserve (ae_now env) (account_reservation_of env c) (db_commands s) = Inr (reservation, rows)"
    and rest: "(case reservation of
       Replay command \<Rightarrow>
         op_bind (op_lift (ok_or B1CommandInvariantError (parseStoredB1Result (ae_uuid env) (ae_datetime env)
           (b1_kind_of (bl_payload c)) (stored_response command)))) (\<lambda>result.
         op_return (StoredResult result))
     | Reserved commandId \<Rightarrow>
         op_bind (op_require B1CommandInvariantError (\<not> commandId \<noteq> drawn env commandDraw)) (\<lambda>_.
         op_return (NewCommand (drawn env commandDraw)))) (s\<lparr>db_commands := rows\<rparr>) = Inr (r, t)"
    using assms(1) unfolding account_reserve_def op_bind_Inr op_on_Inr by (elim exE conjE) simp
  have done_all: "all_completed (db_commands s)" using ok by (simp add: account_caused_def)
  show thesis
    using res done_all
  proof (cases rule: reserve_completed)
    case (first sr)
    have "account_begun env c s t" "r = NewCommand (drawn env commandDraw)"
      using first rest by (auto simp: account_begun_def account_command_ids_def op_simps)
    then show ?thesis using that(1) by blast
  next
    case (again command row)
    then show ?thesis using rest that(2)[of _ row] by (auto simp: op_simps stored_response_def)
  qed
qed

lemma account_complete_effect:
  assumes "account_complete env c i rt ri result s = Inr (u, t)"
    and rows: "db_commands s = old @ [new]" "all_completed old"
  shows "\<exists>row. t = s\<lparr>db_commands := old @ [row]\<rparr> \<and> cr_identity row = cr_identity new \<and>
    cr_state row = CompletedCommand \<and> cr_result_resource_id row = Some (uuid_column ri) \<and>
    Some (cr_safe_response row) = response_column (Some (b1_result_value result))"
proof -
  let ?in = "account_completion_of c i rt ri result"
  obtain r rows' where c: "complete (ae_now env) ?in (old @ [new]) = Inr (r, rows')"
    and t: "t = s\<lparr>db_commands := rows'\<rparr>"
    using assms(1) unfolding account_complete_def op_bind_Inr op_on_Inr op_return_Inr rows(1) by (elim exE conjE) simp
  obtain v where "response_column (ki_safeResponse ?in) = Some v" "rows' = old @ [completed_row (ae_now env) v ?in new]"
    using complete_last[OF c rows(2)] by blast
  then show ?thesis using t
    by (intro exI[of _ "completed_row (ae_now env) v ?in new"]) (simp add: account_completion_of_def)
qed

lemma account_envelope_ids:
  assumes "parseDomainNotificationEnvelope (account_notification env c i ch) = Some e"
  shows "en_causationCommandId e = uuid_column i \<and> en_aggregateId e = uuid_column (ce_resourceId ch)"
  using envelope_ids[OF assms] unfolding account_notification_def Let_def uuid_column_def
  by (auto simp: dn_requireUuidV7_def require_string_with_def split: if_splits)

lemma account_outbox_effect:
  assumes "account_outbox now \<lparr>oi_envelope = account_notification env c i ch, oi_relayServicePrincipalId = relay,
      oi_policyVersionId = policy\<rparr> s = Inr (u, t)"
    and new: "\<forall>r\<in>set (db_outbox s). ei_causation_command_id (ob_event r) \<noteq> uuid_column i"
  shows "\<exists>e. t = s\<lparr>db_outbox := db_outbox s @ [pending_row e]\<rparr> \<and> ei_causation_command_id e = uuid_column i \<and>
    ei_aggregate_id e = uuid_column (ce_resourceId ch)"
proof -
  let ?in = "\<lparr>oi_envelope = account_notification env c i ch, oi_relayServicePrincipalId = relay, oi_policyVersionId = policy\<rparr>"
  obtain rows r where ins: "insertOrReplay now ?in (db_outbox s) = (rows, Inr r)" and t: "t = s\<lparr>db_outbox := rows\<rparr>"
    using assms(1) unfolding account_outbox_def by (auto split: prod.splits sum.splits)
  obtain envelope where p: "parseDomainNotificationEnvelope (account_notification env c i ch) = Some envelope"
      and rows: "rows = db_outbox s @ [pending_row (identity_of envelope relay policy now)]"
    using insertOrReplay_new[OF ins] new account_envelope_ids by auto
  have "ei_causation_command_id (identity_of envelope relay policy now) = uuid_column i"
    "ei_aggregate_id (identity_of envelope relay policy now) = uuid_column (ce_resourceId ch)"
    using account_envelope_ids[OF p] by (simp_all add: identity_of_def)
  then show ?thesis using rows t by blast
qed

lemma account_audit_effect:
  assumes "account_audit env c i ch s = Inr (u, t)"
  shows "\<exists>a. t = s\<lparr>db_audit := db_audit s @ [a]\<rparr> \<and> au_causation_command_id a = uuid_column i \<and>
    au_resource_id a = uuid_column (ce_resourceId ch)"
proof -
  obtain rows where audit: "audit_insert_event (account_audit_of env c i ch) (db_audit s) = Inr (u, rows)"
      and t: "t = s\<lparr>db_audit := rows\<rparr>"
    using assms unfolding account_audit_def op_on_Inr by blast
  obtain d where "rows = db_audit s @ [audit_row_of (account_audit_of env c i ch) d]"
    using audit_insert_effect[OF audit] by blast
  moreover have "au_causation_command_id (audit_row_of (account_audit_of env c i ch) d) = uuid_column i"
    "au_resource_id (audit_row_of (account_audit_of env c i ch) d) = uuid_column (ce_resourceId ch)"
    by (simp_all add: audit_row_of_def account_audit_of_def Let_def)
  ultimately show ?thesis using t by blast
qed

text \<open>What is written between the reservation and the completion: from a state whose books are those of the
  reservation, one audit event and one notification, then the completion.\<close>

definition account_open :: "account_env \<Rightarrow> account_call \<Rightarrow> account_db \<Rightarrow> account_db \<Rightarrow> bool" where
  "account_open env c s u \<longleftrightarrow> account_caused s \<and> drawn env commandDraw \<notin> account_command_ids s \<and>
     uuid_column (drawn env commandDraw) = drawn env commandDraw \<and> db_audit u = db_audit s \<and>
     db_outbox u = db_outbox s \<and> (\<forall>row\<in>set (db_commands s). \<not> same_reservation (account_reservation_of env c) row) \<and>
     (\<exists>sr. db_commands u = db_commands s @ [reserved_row (ae_now env) sr (account_reservation_of env c)])"

lemma account_begun_open: "account_begun env c s t \<Longrightarrow> account_caused s \<Longrightarrow> account_open env c s t"
  by (auto simp: account_begun_def account_open_def)

lemma account_open_cong:
  "account_open env c s u \<Longrightarrow> db_commands v = db_commands u \<Longrightarrow> db_audit v = db_audit u \<Longrightarrow> db_outbox v = db_outbox u \<Longrightarrow>
     account_open env c s v"
  by (auto simp: account_open_def)

lemma account_open_new:
  assumes "account_open env c s u"
  shows "\<forall>r\<in>set (db_outbox u). ei_causation_command_id (ob_event r) \<noteq> uuid_column (drawn env commandDraw)"
  using assms unfolding account_open_def account_caused_def by metis

lemma account_receiptI:
  assumes u: "account_open env c s u" and a: "db_audit v = db_audit u @ [a]" "db_outbox v = db_outbox u @ [pending_row e]"
      "db_commands v = db_commands u"
    and causes: "au_causation_command_id a = uuid_column (drawn env commandDraw)"
      "ei_causation_command_id e = uuid_column (drawn env commandDraw)"
      "au_resource_id a = uuid_column ri" "ei_aggregate_id e = uuid_column ri"
    and complete: "account_complete env c (drawn env commandDraw) rt ri result v = Inr (x, t)"
  shows "account_receipt (account_reservation_of env c) result s t \<and> account_books v t"
proof -
  obtain sr where sr: "db_commands v = db_commands s @ [reserved_row (ae_now env) sr (account_reservation_of env c)]"
    using u a(3) unfolding account_open_def by auto
  have id: "uuid_column (drawn env commandDraw) = drawn env commandDraw" and "all_completed (db_commands s)"
    using u by (simp_all add: account_open_def account_caused_def)
  then obtain row where row: "t = v\<lparr>db_commands := db_commands s @ [row]\<rparr>"
      "cr_identity row = cr_identity (reserved_row (ae_now env) sr (account_reservation_of env c))"
      "cr_state row = CompletedCommand" "cr_result_resource_id row = Some (uuid_column ri)"
      "Some (cr_safe_response row) = response_column (Some (b1_result_value result))"
    using account_complete_effect[OF complete sr] by blast
  have "ci_id (cr_identity row) = drawn env commandDraw" using row(2) id by simp
  then have "account_receipt (account_reservation_of env c) result s t"
    unfolding account_receipt_def Let_def using row a causes u id
    by (intro conjI exI[of _ row] exI[of _ a] exI[of _ e] exI[of _ "ae_now env"] exI[of _ sr])
      (auto simp: account_open_def)
  then show ?thesis using row(1) by simp
qed

lemma account_record_effect:
  assumes run: "account_record env c (drawn env commandDraw) ch rt result u = Inr (r, t)" and u: "account_open env c s u"
  shows "r = result \<and> account_receipt (account_reservation_of env c) result s t \<and> account_books u t"
proof -
  obtain relay u0 where relay: "account_relay env (bl_context c) (bl_space c) u = Inr (relay, u0)"
    and rest: "op_bind (account_audit env c (drawn env commandDraw) ch) (\<lambda>_.
      op_bind (account_outbox (ae_now env) \<lparr>oi_envelope = account_notification env c (drawn env commandDraw) ch,
        oi_relayServicePrincipalId = relay, oi_policyVersionId = sx_policyVersion (bl_context c)\<rparr>) (\<lambda>_.
      op_bind (account_complete env c (drawn env commandDraw) rt (ce_resourceId ch) result) (\<lambda>_.
      op_return result))) u0 = Inr (r, t)"
    using run unfolding account_record_def op_bind_Inr[of "account_relay env (bl_context c) (bl_space c)"]
    by (elim exE conjE)
  have u0: "u0 = u" by (rule op_readsD[OF shared_reads(11) relay])
  obtain u1 x1 u2 x2 x3 where
    audit: "account_audit env c (drawn env commandDraw) ch u = Inr (x1, u1)" and
    out: "account_outbox (ae_now env) \<lparr>oi_envelope = account_notification env c (drawn env commandDraw) ch,
       oi_relayServicePrincipalId = relay, oi_policyVersionId = sx_policyVersion (bl_context c)\<rparr> u1 = Inr (x2, u2)" and
    complete: "account_complete env c (drawn env commandDraw) rt (ce_resourceId ch) result u2 = Inr (x3, t)"
    and r: "r = result"
    using rest unfolding u0 op_bind_Inr op_return_Inr by (elim exE conjE) metis
  obtain a where a: "u1 = u\<lparr>db_audit := db_audit u @ [a]\<rparr>" "au_causation_command_id a = uuid_column (drawn env commandDraw)"
      "au_resource_id a = uuid_column (ce_resourceId ch)"
    using account_audit_effect[OF audit] by blast
  have "\<forall>r\<in>set (db_outbox u1). ei_causation_command_id (ob_event r) \<noteq> uuid_column (drawn env commandDraw)"
    using account_open_new[OF u] a(1) by simp
  then obtain e where e: "u2 = u1\<lparr>db_outbox := db_outbox u1 @ [pending_row e]\<rparr>"
      "ei_causation_command_id e = uuid_column (drawn env commandDraw)" "ei_aggregate_id e = uuid_column (ce_resourceId ch)"
    using account_outbox_effect[OF out] by blast
  have "account_receipt (account_reservation_of env c) result s t \<and> account_books u2 t"
    by (rule account_receiptI[OF u _ _ _ a(2) e(2) a(3) e(3) complete]) (simp_all add: a(1) e(1))
  moreover have "account_books u u2" unfolding a(1) e(1) by (rule account_books_trans[OF account_books_updates(2,3)])
  ultimately show ?thesis using r account_books_trans by blast
qed

lemma reserved_work_cases:
  assumes run: "reserved_work env c work s = Inr (result, t)" and ok: "account_caused s"
  obtains (again) row where "t = s" "row \<in> set (db_commands s)" "same_reservation (account_reservation_of env c) row"
      "parseStoredB1Result (ae_uuid env) (ae_datetime env) (b1_kind_of (bl_payload c))
           (case cr_safe_response row of None \<Rightarrow> JUndef | Some v \<Rightarrow> v) = Some result"
    | (first) u where "account_begun env c s u" "work (drawn env commandDraw) u = Inr (result, t)"
proof -
  obtain r u where res: "account_reserve env c s = Inr (r, u)" and
    rest: "(case r of StoredResult result \<Rightarrow> op_return result | NewCommand i \<Rightarrow> work i) u = Inr (result, t)"
    using run unfolding reserved_work_def op_bind_Inr by blast
  show thesis
    using res ok
  proof (cases rule: account_reserve_effect)
    case first
    then show ?thesis using rest that(2) by simp
  next
    case (again row result')
    then show ?thesis using rest that(1)[of row] by (simp add: op_simps)
  qed
qed

end
