(* ===== verification/Account_Changes.thy ===== *)
theory Account_Changes
  imports  Account_Effects
begin

text \<open>
  Each writing operation of the repositories is one elementary change of the specification, and the server
  keeps the keys.
\<close>

section \<open>Rows that are appended one by one\<close>

lemma put_rows_keys:
  assumes "put_rows refuses change s = Inr (u, t)" "guards_keys refuses"
  shows "t = change s \<and> account_keys t"
  using assms by (auto simp: put_rows_Inr guards_keys_def)

text \<open>A table of the store: what is read and what is written of it.\<close>

locale stored_table =
  fixes get :: "account_db \<Rightarrow> 'r list" and put :: "'r list \<Rightarrow> account_db \<Rightarrow> account_db"
  assumes get_put: "get (put rows s) = rows"
    and put_put: "put rows (put rows' s) = put rows s"
    and put_get: "put (get s) s = s"
begin

lemma each_appends:
  assumes "op_each (\<lambda>x. put_rows refuses (\<lambda>s. put (get s @ [g x]) s)) xs s = Inr (us, t)" "guards_keys refuses"
  shows "t = put (get s @ map g xs) s \<and> (account_keys s \<longrightarrow> account_keys t)"
  using assms(1)
proof (induction xs arbitrary: s us)
  case Nil
  then show ?case by (simp add: op_simps put_get)
next
  case (Cons x xs)
  obtain v u vs where v: "put_rows refuses (\<lambda>s. put (get s @ [g x]) s) s = Inr (v, u)"
    and rest: "op_each (\<lambda>x. put_rows refuses (\<lambda>s. put (get s @ [g x]) s)) xs u = Inr (vs, t)"
    using Cons.prems unfolding op_each.simps op_bind_Inr op_return_Inr by blast
  show ?case using Cons.IH[OF rest] put_rows_keys[OF v assms(2)] by (auto simp: get_put put_put)
qed

end

interpretation domain_table: stored_table db_domains "\<lambda>rows. db_domains_update (\<lambda>_. rows)"
  by unfold_locales simp_all

interpretation initiative_organization_table: stored_table db_initiative_organizations
    "\<lambda>rows. db_initiative_organizations_update (\<lambda>_. rows)"
  by unfold_locales simp_all

interpretation initiative_people_table: stored_table db_initiative_people
    "\<lambda>rows. db_initiative_people_update (\<lambda>_. rows)"
  by unfold_locales simp_all

interpretation activity_organization_table: stored_table db_activity_organizations
    "\<lambda>rows. db_activity_organizations_update (\<lambda>_. rows)"
  by unfold_locales simp_all

interpretation activity_initiative_table: stored_table db_activity_initiatives
    "\<lambda>rows. db_activity_initiatives_update (\<lambda>_. rows)"
  by unfold_locales simp_all

interpretation activity_attendee_table: stored_table db_activity_attendees
    "\<lambda>rows. db_activity_attendees_update (\<lambda>_. rows)"
  by unfold_locales simp_all

lemma filter_head: "filter P xs = x # rest \<Longrightarrow> x \<in> set xs \<and> P x"
  by (auto simp: filter_eq_Cons_iff)

section \<open>Work graph\<close>

lemma createActivity_effect:
  assumes run: "createActivity refuses instant input s = Inr (u, t)" and keys: "guards_keys refuses"
  shows "t = add_activity (activity_row_of instant input) (map (association_of input) (ga_organizationIds input))
      (map (association_of input) (ga_initiativeIds input)) (map (association_of input) (ga_attendeePersonIds input)) s \<and>
    account_keys t"
proof -
  obtain x0 s0 x1 s1 x2 s2 x3 where
    a: "put_rows refuses (\<lambda>s. s\<lparr>db_activities := db_activities s @ [activity_row_of instant input]\<rparr>) s = Inr (x0, s0)"
    and b: "op_each (\<lambda>i. put_rows refuses (\<lambda>s. s\<lparr>db_activity_organizations := db_activity_organizations s @
       [association_of input i]\<rparr>)) (ga_organizationIds input) s0 = Inr (x1, s1)"
    and c: "op_each (\<lambda>i. put_rows refuses (\<lambda>s. s\<lparr>db_activity_initiatives := db_activity_initiatives s @
       [association_of input i]\<rparr>)) (ga_initiativeIds input) s1 = Inr (x2, s2)"
    and d: "op_each (\<lambda>i. put_rows refuses (\<lambda>s. s\<lparr>db_activity_attendees := db_activity_attendees s @
       [association_of input i]\<rparr>)) (ga_attendeePersonIds input) s2 = Inr (x3, t)"
    using run unfolding createActivity_def op_bind_Inr op_return_Inr by blast
  show ?thesis
    using put_rows_keys[OF a keys] activity_organization_table.each_appends[OF b keys]
      activity_initiative_table.each_appends[OF c keys] activity_attendee_table.each_appends[OF d keys]
    by (auto simp: add_activity_def)
qed

lemma createRelationship_effect:
  assumes "createRelationship refuses instant input s = Inr (u, t)" "guards_keys refuses"
  shows "t = add_relationship (relationship_row_of instant input) s \<and> account_keys t"
  using put_rows_keys[OF assms[unfolded createRelationship_def]] by (auto simp: add_relationship_def)

lemma endRelationship_effect:
  assumes run: "endRelationship refuses instant world input s = Inr (Some (Some (sp, v)), t)" and keys: "guards_keys refuses"
  shows "t = close_relationship (ends_row input) (instant (nd_validTo input)) s \<and> account_keys t \<and>
    end_authority world input s \<and>
    (\<exists>r\<in>set (db_relationships s). ends_row input r \<and> sp = re_space_id r \<and> v = re_version r + 1)"
proof -
  have allowed: "end_authority world input s"
    using run by (auto simp: endRelationship_def op_simps split: if_splits)
  obtain x where x: "put_rows refuses (\<lambda>s. s\<lparr>db_relationships := update_where (ends_row input)
       (ended_row instant input) (db_relationships s)\<rparr>) s = Inr (x, t)"
    and found: "Some (Some (sp, v)) = Some (case filter (ends_row input) (db_relationships s) of [] \<Rightarrow> None
       | re # _ \<Rightarrow> Some (re_space_id re, re_version re + 1))"
    using run allowed by (auto simp: endRelationship_def op_simps)
  obtain r rest where "filter (ends_row input) (db_relationships s) = r # rest" "sp = re_space_id r" "v = re_version r + 1"
    using found by (auto split: list.splits)
  moreover have "r \<in> set (db_relationships s) \<and> ends_row input r"
    by (rule filter_head[OF calculation(1)])
  moreover have "ended_row instant input = (\<lambda>r. r\<lparr>re_valid_to := Some (instant (nd_validTo input)), re_version := re_version r + 1\<rparr>)"
    by (simp add: ended_row_def fun_eq_iff)
  ultimately show ?thesis using put_rows_keys[OF x keys] allowed by (auto simp: close_relationship_def)
qed

section \<open>Content\<close>

lemma createContent_effect:
  assumes run: "createContent refuses input s = Inr (u, t)" and keys: "guards_keys refuses"
  shows "t = add_content (content_row_of input) (revision_row_of (first_revision input)) s \<and> account_keys t"
proof -
  obtain x s1 where
    a: "put_rows refuses (\<lambda>s. s\<lparr>db_contents := db_contents s @ [content_row_of input]\<rparr>) s = Inr (x, s1)" and
    b: "put_rows refuses (\<lambda>s. s\<lparr>db_revisions := db_revisions s @ [revision_row_of (first_revision input)]\<rparr>) s1 = Inr (u, t)"
    using run unfolding createContent_def insertContentRevision_def op_bind_Inr by blast
  show ?thesis using put_rows_keys[OF a keys] put_rows_keys[OF b keys] by (auto simp: add_content_def)
qed

lemma reviseContent_effect:
  assumes run: "reviseContent refuses input s = Inr ((sp, n, v), t)" and keys: "guards_keys refuses"
  shows "\<exists>title metadata r. t = add_revision (revised input) title metadata n r s \<and>
    revision_fits (revised input) n r s \<and> account_keys t"
proof -
  obtain current rest where rows: "filter (revised input) (db_contents s) = current # rest"
    using run unfolding reviseContent_def by (auto simp: op_simps Let_def)
  define title where "title = (case vx_title input of None \<Rightarrow> cn_title current | Some t \<Rightarrow> t)"
  define metadata where "metadata = (case vx_metadata input of None \<Rightarrow> cn_metadata current | Some m \<Rightarrow> m)"
  let ?r = "revision_row_of (next_revision input title metadata current)"
  obtain x s1 y where
    a: "put_rows refuses (\<lambda>s. s\<lparr>db_contents := update_where (revised input)
       (revised_row input title metadata) (db_contents s)\<rparr>) s = Inr (x, s1)"
    and b: "put_rows refuses (\<lambda>s. s\<lparr>db_revisions := db_revisions s @ [?r]\<rparr>) s1 = Inr (y, t)"
    and n: "n = vx_expectedRevision input + 1"
    using run rows unfolding reviseContent_def insertContentRevision_def
    by (auto simp: op_simps Let_def title_def metadata_def)
  have current: "current \<in> set (db_contents s)" "revised input current"
    using filter_head[OF rows] by simp_all
  have row: "revised_row input title metadata = (\<lambda>c. c\<lparr>cn_title := title, cn_metadata := json_clone metadata,
      cn_current_revision := n, cn_version := cn_version c + 1\<rparr>)"
    by (simp add: revised_row_def fun_eq_iff n)
  have "t = add_revision (revised input) title (json_clone metadata) n ?r s"
    using put_rows_keys[OF a keys] put_rows_keys[OF b keys] by (simp add: add_revision_def row)
  moreover have "revision_fits (revised input) n ?r s"
    using current n by (auto simp: revision_fits_def revised_def revision_row_of_def next_revision_def)
  ultimately show ?thesis using put_rows_keys[OF b keys] by blast
qed

section \<open>Sources\<close>

lemma insert_chunks_effect:
  assumes "op_each (\<lambda>(i, chunk). insertOrVerifyChunk refuses input i chunk) ps s = Inr (us, t)" "guards_keys refuses"
    and "\<forall>r\<in>set (db_chunks s). cu_source_artifact_id r = uuid_column (sq_sourceArtifactId input) \<longrightarrow>
      cu_chunk_index r \<notin> (chunkIndex \<circ> snd) ` set ps"
    and "distinct (map (chunkIndex \<circ> snd) ps)"
  shows "t = s\<lparr>db_chunks := db_chunks s @ map (\<lambda>(i, chunk). chunk_row_of input i chunk) ps\<rparr> \<and>
    (account_keys s \<longrightarrow> account_keys t)"
  using assms(1,3,4)
proof (induction ps arbitrary: s us)
  case Nil
  then show ?case by (simp add: op_simps)
next
  case (Cons p ps)
  obtain i chunk where p: "p = (i, chunk)" by (cases p)
  have none: "filter (same_chunk_key input chunk) (db_chunks s) = []"
    using Cons.prems(2) by (auto simp: p filter_empty_conv same_chunk_key_def)
  obtain x u vs where x: "insertOrVerifyChunk refuses input i chunk s = Inr (x, u)"
    and rest: "op_each (\<lambda>(i, chunk). insertOrVerifyChunk refuses input i chunk) ps u = Inr (vs, t)"
    using Cons.prems(1) unfolding p op_each.simps op_bind_Inr op_return_Inr prod.case by blast
  have "put_rows refuses (\<lambda>s. s\<lparr>db_chunks := db_chunks s @ [chunk_row_of input i chunk]\<rparr>) s = Inr (x, u)"
    using x none by (auto simp: insertOrVerifyChunk_def op_bind_Inr op_read_Inr)
  from put_rows_keys[OF this assms(2)]
  have u: "u = s\<lparr>db_chunks := db_chunks s @ [chunk_row_of input i chunk]\<rparr>" "account_keys u" by blast+
  have "t = u\<lparr>db_chunks := db_chunks u @ map (\<lambda>(i, chunk). chunk_row_of input i chunk) ps\<rparr> \<and>
      (account_keys u \<longrightarrow> account_keys t)"
  proof (rule Cons.IH[OF rest])
    show "\<forall>r\<in>set (db_chunks u). cu_source_artifact_id r = uuid_column (sq_sourceArtifactId input) \<longrightarrow>
      cu_chunk_index r \<notin> (chunkIndex \<circ> snd) ` set ps"
      using Cons.prems(2,3) by (auto simp: u p chunk_row_of_def)
  qed (use Cons.prems(3) in simp)
  then show ?case using u by (auto simp: p)
qed

lemma persistSource_effect:
  assumes run: "persistSource refuses instant input s = Inr (u, t)" and keys: "guards_keys refuses"
    and owned: "\<forall>r\<in>set (db_chunks s). cu_source_artifact_id r \<in> ct_id ` set (db_sources s)"
    and chunks: "distinct (map chunkIndex (sq_chunks input))"
  shows "\<exists>als. t = add_source (artifact_row_of instant input)
      (map (\<lambda>(i, chunk). chunk_row_of input i chunk) (zip (sq_chunkIds input) (sq_chunks input))) als s \<and>
    (\<forall>al\<in>set als. al_related_id al = uuid_column (sq_sourceArtifactId input) \<and> al_space_id al = uuid_column (sq_space input)) \<and>
    uuid_column (sq_sourceArtifactId input) \<notin> ct_id ` set (db_sources s) \<and>
    length (sq_chunkIds input) = length (sq_chunks input) \<and> account_keys t"
proof -
  let ?ps = "zip (sq_chunkIds input) (sq_chunks input)"
  let ?link = "case sq_activityId input of None \<Rightarrow> op_return ()
     | Some activityId \<Rightarrow>
         if activityId = [] then op_return ()
         else put_rows refuses (\<lambda>s. s\<lparr>db_activity_sources := db_activity_sources s @ [activity_source_of input activityId]\<rparr>)"
  have len: "length (sq_chunkIds input) = length (sq_chunks input)"
    using run unfolding persistSource_def op_bind_Inr op_require_Inr by blast
  obtain x s1 y s2 where
    a: "put_rows refuses (\<lambda>s. s\<lparr>db_sources := db_sources s @ [artifact_row_of instant input]\<rparr>) s = Inr (x, s1)" and
    b: "op_each (\<lambda>(i, chunk). insertOrVerifyChunk refuses input i chunk) ?ps s1 = Inr (y, s2)" and
    c: "?link s2 = Inr (u, t)"
    using run unfolding persistSource_def op_bind_Inr op_require_Inr by blast
  note s1 = put_rows_keys[OF a keys]
  have new: "uuid_column (sq_sourceArtifactId input) \<notin> ct_id ` set (db_sources s)"
    using s1 by (auto simp: account_keys_def artifact_row_of_def)
  have "map (chunkIndex \<circ> snd) ?ps = map chunkIndex (sq_chunks input)"
    using len by (metis map_map map_snd_zip)
  then have "distinct (map (chunkIndex \<circ> snd) ?ps)" using chunks by simp
  moreover have "db_chunks s1 = db_chunks s" using s1 by simp
  then have "\<forall>r\<in>set (db_chunks s1). cu_source_artifact_id r = uuid_column (sq_sourceArtifactId input) \<longrightarrow>
      cu_chunk_index r \<notin> (chunkIndex \<circ> snd) ` set ?ps"
    using owned new by (metis image_eqI)
  ultimately have s2: "s2 = s1\<lparr>db_chunks := db_chunks s1 @ map (\<lambda>(i, chunk). chunk_row_of input i chunk) ?ps\<rparr> \<and> account_keys s2"
    using insert_chunks_effect[OF b keys] s1 by blast
  have "\<exists>als. t = s2\<lparr>db_activity_sources := db_activity_sources s2 @ als\<rparr> \<and> account_keys t \<and>
      (\<forall>al\<in>set als. al_related_id al = uuid_column (sq_sourceArtifactId input) \<and> al_space_id al = uuid_column (sq_space input))"
  proof (cases "sq_activityId input = None \<or> sq_activityId input = Some []")
    case True
    then show ?thesis using c s2 by (intro exI[of _ "[]"]) (auto simp: op_simps)
  next
    case False
    then obtain i where i: "sq_activityId input = Some i" "i \<noteq> []" by auto
    then have "put_rows refuses (\<lambda>s. s\<lparr>db_activity_sources := db_activity_sources s @ [activity_source_of input i]\<rparr>) s2 = Inr (u, t)"
      using c by simp
    from put_rows_keys[OF this keys] show ?thesis
      by (intro exI[of _ "[activity_source_of input i]"]) (auto simp: activity_source_of_def)
  qed
  then obtain als where "t = s2\<lparr>db_activity_sources := db_activity_sources s2 @ als\<rparr>" "account_keys t"
      "\<forall>al\<in>set als. al_related_id al = uuid_column (sq_sourceArtifactId input) \<and> al_space_id al = uuid_column (sq_space input)"
    by blast
  then show ?thesis using s1 s2 new len by (intro exI[of _ als]) (auto simp: add_source_def)
qed

lemma normalized_stored:
  assumes n: "normalizeAndChunkSource nfc sha256 (TextInput text) = Some (sq_source input, sq_chunks input)"
    and len: "length (sq_chunkIds input) = length (sq_chunks input)"
  shows "stored_source nfc sha256 (artifact_row_of instant input)
      (map (\<lambda>(i, chunk). chunk_row_of input i chunk) (zip (sq_chunkIds input) (sq_chunks input)))"
    "distinct (map chunkIndex (sq_chunks input))"
proof -
  let ?ps = "zip (sq_chunkIds input) (sq_chunks input)" and ?src = "sq_source input"
  have src: "normalizeSourceText nfc sha256 (TextInput text) = Some ?src"
    and chunks: "chunkNormalizedSource sha256 (normalizedText ?src) = Some (sq_chunks input)"
    using n by (auto simp: normalizeAndChunkSource_def bind_Some_iff)
  have stored: "normalizeStoredSourceText nfc (capturedText ?src) = Some (normalizedText ?src)"
      "normalizedContentHash ?src = sha256 (utf8 (normalizedText ?src))"
    using src by (auto simp: normalizeSourceText_def Let_def bind_Some_iff dest!: sym[of _ ?src])
  have "map chunk_columns (map (\<lambda>(i, chunk). chunk_row_of input i chunk) ?ps) = map (chunk_members \<circ> snd) ?ps"
    by (auto simp: chunk_columns_def chunk_row_of_def chunk_members_def)
  also have "\<dots> = map chunk_members (sq_chunks input)"
    using len by (metis map_map map_snd_zip)
  finally show "stored_source nfc sha256 (artifact_row_of instant input)
      (map (\<lambda>(i, chunk). chunk_row_of input i chunk) ?ps)"
    using stored chunks by (auto simp: stored_source_def artifact_row_of_def chunk_row_of_def)
  have "assertChunkReconstruction sha256 (normalizedText ?src) (sq_chunks input) = Some ()"
      "chunk_loop sha256 (array_from (normalizedText ?src)) 0 0 = Some (sq_chunks input)"
    using chunks by (auto simp: chunkNormalizedSource_def bind_Some_iff)
  then have "tiles 0 0 (sq_chunks input) (length (array_from (normalizedText ?src)))"
    using chunk_loop_tiles[of 0 "array_from (normalizedText ?src)" sha256 0] by auto
  from tiles_index[OF this] show "distinct (map chunkIndex (sq_chunks input))" by simp
qed

lemma tombstoneSource_effect:
  assumes run: "tombstoneSource refuses now input s = Inr (r, t)" and keys: "guards_keys refuses"
    and ok: "account_keys s" "sources_stored nfc sha256 s"
  shows "\<exists>f. t = bury_source (buried input) f (uuid_column (tb_sourceArtifactId input)) s \<and>
    burial_fits (buried input) f (uuid_column (tb_sourceArtifactId input)) s \<and> account_keys t"
proof -
  let ?i = "uuid_column (tb_sourceArtifactId input)"
  obtain row rest where rows: "filter (buried input) (db_sources s) = row # rest"
    using run unfolding tombstoneSource_def by (auto simp: op_simps Let_def)
  define f where "f = buried_row now input (\<not> so_erase_hashes row)"
  obtain x s1 y where
    a: "put_rows refuses (\<lambda>s. s\<lparr>db_sources := update_where (buried input) f (db_sources s)\<rparr>) s = Inr (x, s1)" and
    b: "put_rows refuses (\<lambda>s. s\<lparr>db_chunks := filter (\<lambda>r. \<not> (scoped (tb_tenantId input) (tb_workspaceId input)
       (cu_tenant_id r) (cu_workspace_id r) \<and> cu_source_artifact_id r = ?i)) (db_chunks s)\<rparr>) s1 = Inr (y, t)"
    using run rows unfolding tombstoneSource_def by (auto simp: op_simps Let_def f_def)
  have row: "row \<in> set (db_sources s)" "buried input row" using filter_head[OF rows] by simp_all
  have only: "q = row" if "q \<in> set (db_sources s)" "buried input q" for q
  proof -
    have "ct_id q = ct_id row" using that(2) row(2) by (simp add: buried_def)
    then show ?thesis using ok(1) that(1) row(1) by (auto simp: account_keys_def distinct_map dest: inj_onD)
  qed
  have "tombstone_of_source row (f row)"
    using row(2) unfolding tombstone_of_source_def f_def buried_row_def buried_def
    by (intro conjI exI[of _ now] exI[of _ "tb_deletionReasonCategory input"] exI[of _ "tb_deletionPolicyRef input"]) simp_all
  moreover have id: "ct_id row = ?i" "so_deleted_at row = None" using row(2) by (simp_all add: buried_def)
  ultimately have fits: "burial_fits (buried input) f ?i s"
    using row only unfolding burial_fits_def by metis
  have "stored_source nfc sha256 row (chunks_of (db_chunks s) (ct_id row))"
    using ok(2) row(1) unfolding sources_stored_def by blast
  then have "\<forall>r\<in>set (chunks_of (db_chunks s) ?i). cu_tenant_id r = ct_tenant_id row \<and> cu_workspace_id r = ct_workspace_id row"
    using id by (auto simp: stored_source_def)
  then have "filter (\<lambda>r. \<not> (scoped (tb_tenantId input) (tb_workspaceId input) (cu_tenant_id r) (cu_workspace_id r) \<and>
      cu_source_artifact_id r = ?i)) (db_chunks s) = filter (\<lambda>r. cu_source_artifact_id r \<noteq> ?i) (db_chunks s)"
    using row(2) by (intro filter_cong) (auto simp: chunks_of_def buried_def)
  then have "t = bury_source (buried input) f ?i s"
    using put_rows_keys[OF a keys] put_rows_keys[OF b keys] by (auto simp: bury_source_def)
  then show ?thesis using fits put_rows_keys[OF b keys] by blast
qed

end
