(* ===== verification/Account_Refinement.thy ===== *)
theory Account_Refinement
  imports Account_Changes
begin

text \<open>
  The account commands refine the specification: a command that runs to its end leaves the tables alone,
  replaying a stored result, or takes one of the steps of \<open>Account_Spec\<close> under its own command record, with
  one audit event and one notification.
\<close>

section \<open>The outcome of a command\<close>

definition account_replayed :: "account_env \<Rightarrow> account_call \<Rightarrow> b1_result \<Rightarrow> account_db \<Rightarrow> bool" where
  "account_replayed env c result s \<longleftrightarrow> (\<exists>row\<in>set (db_commands s). same_reservation (account_reservation_of env c) row \<and>
     parseStoredB1Result (ae_uuid env) (ae_datetime env) (b1_kind_of (bl_payload c))
       (case cr_safe_response row of None \<Rightarrow> JUndef | Some v \<Rightarrow> v) = Some result)"

definition account_committed :: "account_env \<Rightarrow> account_call \<Rightarrow> b1_result \<Rightarrow> account_db \<Rightarrow> account_db \<Rightarrow> bool" where
  "account_committed env c result s t \<longleftrightarrow> kept_step (ae_nfc env) (ae_sha256 env) s t \<and>
     account_receipt (account_reservation_of env c) result s t"

definition account_outcome :: "account_env \<Rightarrow> account_call \<Rightarrow> b1_result \<Rightarrow> account_db \<Rightarrow> account_db \<Rightarrow> bool" where
  "account_outcome env c result s t \<longleftrightarrow>
     (t = s \<and> account_replayed env c result s) \<or> account_committed env c result s t"

lemma account_changed_books [simp]:
  "db_commands (add_activity w os ns qs s) = db_commands s" "db_audit (add_activity w os ns qs s) = db_audit s"
  "db_outbox (add_activity w os ns qs s) = db_outbox s"
  "db_commands (add_relationship r s) = db_commands s" "db_audit (add_relationship r s) = db_audit s"
  "db_outbox (add_relationship r s) = db_outbox s"
  "db_commands (close_relationship P v s) = db_commands s" "db_audit (close_relationship P v s) = db_audit s"
  "db_outbox (close_relationship P v s) = db_outbox s"
  "db_commands (add_content cn rv s) = db_commands s" "db_audit (add_content cn rv s) = db_audit s"
  "db_outbox (add_content cn rv s) = db_outbox s"
  "db_commands (add_revision P' title metadata n rv s) = db_commands s"
  "db_audit (add_revision P' title metadata n rv s) = db_audit s"
  "db_outbox (add_revision P' title metadata n rv s) = db_outbox s"
  "db_commands (add_source a cs als s) = db_commands s" "db_audit (add_source a cs als s) = db_audit s"
  "db_outbox (add_source a cs als s) = db_outbox s"
  "db_commands (bury_source P'' f i s) = db_commands s" "db_audit (bury_source P'' f i s) = db_audit s"
  "db_outbox (bury_source P'' f i s) = db_outbox s"
  by (simp_all add: add_activity_def add_relationship_def close_relationship_def add_content_def add_revision_def
      add_source_def bury_source_def)

lemma record_committed:
  assumes caused: "account_caused s" and begun: "account_begun env c s u"
    and step: "account_step (ae_nfc env) (ae_sha256 env) s v" "account_keys v"
    and books: "db_commands v = db_commands u" "db_audit v = db_audit u" "db_outbox v = db_outbox u"
    and run: "account_record env c (drawn env commandDraw) ch rt result v = Inr (r, t)"
  shows "account_committed env c r s t"
proof -
  have "account_open env c s v" by (rule account_open_cong[OF account_begun_open[OF begun caused] books])
  from account_record_effect[OF run this]
  have "r = result" "account_receipt (account_reservation_of env c) result s t" "account_books v t" by simp_all
  then show ?thesis using step account_step_then_books account_keys_books
    unfolding account_committed_def kept_step_def by metis
qed

text \<open>A command that reserves its key and then works.\<close>

lemma reserved_outcome:
  assumes run: "reserved_work env c work s = Inr (r, t)" and caused: "account_caused s"
    and work: "\<And>u. account_begun env c s u \<Longrightarrow> work (drawn env commandDraw) u = Inr (r, t) \<Longrightarrow> account_committed env c r s t"
  shows "account_outcome env c r s t"
  using run caused
proof (cases rule: reserved_work_cases)
  case (again row)
  then show ?thesis by (auto simp: account_outcome_def account_replayed_def)
next
  case (first u)
  then show ?thesis using work by (simp add: account_outcome_def)
qed

lemma call_space_Inr:
  assumes "call_space c i s = Inr (space, t)"
  obtains sp where "sp \<in> set (db_spaces s)" "asp_id sp = uuid_column i" "\<not> asp_archived sp"
    "gs_accessClass space = asp_access_class sp" "gs_id space = asp_id sp"
proof -
  obtain sp rest where rows: "filter (\<lambda>sp. scoped (sx_tenantId (bl_context c)) (sx_workspaceId (bl_context c))
      (asp_tenant_id sp) (asp_workspace_id sp) \<and> asp_id sp = uuid_column i \<and> \<not> asp_archived sp) (db_spaces s) = sp # rest"
    and view: "gs_accessClass space = asp_access_class sp" "gs_id space = asp_id sp"
    using assms unfolding call_space_def getSpace_def op_bind_Inr op_read_Inr first_of_Inr op_return_Inr
    by (elim exE conjE) simp
  show ?thesis by (rule that[OF _ _ _ view]) (use filter_head[OF rows] in simp_all)
qed

lemma call_space_live: "call_space c i s = Inr (space, t) \<Longrightarrow> live_in (uuid_column i) s"
  unfolding live_in_def by (erule call_space_Inr) blast

section \<open>Activities and relationships\<close>

lemma activity_create_outcome:
  assumes run: "activity_create env c p s = Inr (r, t)" and caused: "account_caused s"
    and keys: "guards_keys (ae_refuses env)"
  shows "account_outcome env c r s t"
proof -
  obtain parent ownerPersonId attendees where space: "call_space c (bl_space c) s = Inr (parent, s)"
    and work: "reserved_work env c (activity_work env c (activity_of env c p ownerPersonId attendees)) s = Inr (r, t)"
    using run unfolding activity_create_def Let_def by (simp only: op_bind_reads reads_intros) blast
  let ?a = "activity_of env c p ownerPersonId attendees"
  let ?w = "activity_row_of (ae_instant env) ?a"
  show ?thesis
  proof (rule reserved_outcome[OF work caused])
    fix u assume begun: "account_begun env c s u" and run: "activity_work env c ?a (drawn env commandDraw) u = Inr (r, t)"
    then obtain x v where create: "createActivity (ae_refuses env) (ae_instant env) ?a u = Inr (x, v)"
      and recorded: "account_record env c (drawn env commandDraw) (activity_change env c) ''activity''
       (ActivityResult (drawn env aggregateDraw) (bl_space c)) v = Inr (r, t)"
      unfolding activity_work_def op_bind_Inr by blast
    note v = createActivity_effect[OF create keys]
    have "account_step (ae_nfc env) (ae_sha256 env) s v"
    proof (rule account_step.activity_added)
      show "live_in (wr_space_id ?w) s" using call_space_live[OF space] by (simp add: activity_row_of_def activity_of_def)
      show "account_books (add_activity ?w (map (association_of ?a) (ga_organizationIds ?a))
          (map (association_of ?a) (ga_initiativeIds ?a)) (map (association_of ?a) (ga_attendeePersonIds ?a)) s) v"
        using v account_books_changes(4)[OF account_begun_books[OF begun]] by simp
    qed (auto simp: activity_row_of_def association_of_def)
    then show "account_committed env c r s t" 
      by (rule record_committed[OF caused begun _ _ _ _ _ recorded]) (use v in auto)
  qed
qed

lemma relationship_create_outcome:
  assumes run: "relationship_create env c p s = Inr (r, t)" and caused: "account_caused s"
    and keys: "guards_keys (ae_refuses env)"
  shows "account_outcome env c r s t"
proof -
  obtain space where space: "call_space c (bl_space c) s = Inr (space, s)"
    and work: "reserved_work env c (relationship_work env c p) s = Inr (r, t)"
    using run unfolding relationship_create_def by (simp only: op_bind_reads reads_intros) blast
  let ?r = "relationship_row_of (ae_instant env) (relationship_of env c p)"
  show ?thesis
  proof (rule reserved_outcome[OF work caused])
    fix u assume begun: "account_begun env c s u" and run: "relationship_work env c p (drawn env commandDraw) u = Inr (r, t)"
    then obtain x v where create: "createRelationship (ae_refuses env) (ae_instant env) (relationship_of env c p) u = Inr (x, v)"
      and recorded: "account_record env c (drawn env commandDraw) (relationship_change env c) ''relationship''
       (RelationshipResult (drawn env aggregateDraw) (bl_space c)) v = Inr (r, t)"
      unfolding relationship_work_def op_bind_Inr by blast
    note v = createRelationship_effect[OF create keys]
    have "account_step (ae_nfc env) (ae_sha256 env) s v"
    proof (rule account_step.relationship_added)
      show "live_in (re_space_id ?r) s" using call_space_live[OF space] by (simp add: relationship_row_of_def relationship_of_def)
      show "account_books (add_relationship ?r s) v"
        using v account_books_changes(5)[OF account_begun_books[OF begun]] by simp
    qed (simp_all add: relationship_row_of_def)
    then show "account_committed env c r s t" 
      by (rule record_committed[OF caused begun _ _ _ _ _ recorded]) (use v in auto)
  qed
qed

lemma relationship_finish_outcome:
  assumes run: "relationship_finish env c p s = Inr (r, t)" and caused: "account_caused s"
    and keys: "guards_keys (ae_refuses env)"
  shows "account_outcome env c r s t"
proof -
  obtain rel authority where work: "reserved_work env c (ending_work env c p rel authority) s = Inr (r, t)"
    using run unfolding relationship_finish_def Let_def by (simp only: op_bind_reads reads_intros) blast
  let ?e = "end_of env c p rel authority"
  show ?thesis
  proof (rule reserved_outcome[OF work caused])
    fix u assume begun: "account_begun env c s u"
      and run: "ending_work env c p rel authority (drawn env commandDraw) u = Inr (r, t)"
    obtain updated v where close: "endRelationship (ae_refuses env) (ae_instant env) (ae_world env) ?e u = Inr (updated, v)"
      and rest: "(case updated of
         None \<Rightarrow> op_fail B1AuthorizationError
       | Some None \<Rightarrow> op_fail B1CommandInvariantError
       | Some (Some (_, version)) \<Rightarrow> account_record env c (drawn env commandDraw) (ending_change c p (gr_id rel) version)
           ''relationship'' (EndedResult (gr_id rel) version (er_validTo p))) v = Inr (r, t)"
      using run unfolding ending_work_def op_bind_Inr op_require_Inr by blast
    then obtain sp version where updated: "updated = Some (Some (sp, version))"
      by (auto simp: op_simps split: option.splits)
    have recorded: "account_record env c (drawn env commandDraw) (ending_change c p (gr_id rel) version)
           ''relationship'' (EndedResult (gr_id rel) version (er_validTo p)) v = Inr (r, t)"
      using rest updated by simp
    note v = endRelationship_effect[OF close[unfolded updated] keys]
    have "account_step (ae_nfc env) (ae_sha256 env) s v"
    proof (rule account_step.relationship_closed)
      show "\<forall>r. ends_row ?e r \<longrightarrow> re_id r = uuid_column (nd_relationshipId ?e) \<and> re_valid_to r = None"
        by (simp add: ends_row_def)
      show "\<exists>r\<in>set (db_relationships s). ends_row ?e r"
        using v account_books_tables(12)[OF account_begun_books[OF begun]] by auto
      show "account_books (close_relationship (ends_row ?e) (ae_instant env (nd_validTo ?e)) s) v"
        using v account_books_changes(6)[OF account_begun_books[OF begun]] by simp
    qed
    then show "account_committed env c r s t" 
      by (rule record_committed[OF caused begun _ _ _ _ _ recorded]) (use v in auto)
  qed
qed

section \<open>Content\<close>

lemma content_create_outcome:
  assumes run: "content_create env c p s = Inr (r, t)" and caused: "account_caused s"
    and keys: "guards_keys (ae_refuses env)" and ids: "account_keys s"
  shows "account_outcome env c r s t"
proof -
  obtain space ownerPersonId z where space: "call_space c (ck_spaceId p) s = Inr (space, s)"
    and same: "same_space c (gs_id space) s = Inr (z, s)"
    and work: "reserved_work env c (content_work env c (content_input_of env c p ownerPersonId (gs_accessClass space))) s = Inr (r, t)"
    using run unfolding content_create_def Let_def by (simp only: op_bind_reads reads_intros) blast
  let ?x = "content_input_of env c p ownerPersonId (gs_accessClass space)"
  let ?c = "content_row_of ?x" and ?v = "revision_row_of (first_revision ?x)"
  obtain sp where sp: "sp \<in> set (db_spaces s)" "asp_id sp = uuid_column (ck_spaceId p)" "\<not> asp_archived sp"
      "gs_accessClass space = asp_access_class sp" "gs_id space = asp_id sp"
    using space by (rule call_space_Inr)
  have home: "bl_space c = asp_id sp" using same sp(5) by (auto simp: same_space_def op_simps)
  have lower: "uuid_column (asp_id sp) = asp_id sp" using sp(2) by (simp add: uuid_column_def)
  show ?thesis
  proof (rule reserved_outcome[OF work caused])
    fix u assume begun: "account_begun env c s u" and run: "content_work env c ?x (drawn env commandDraw) u = Inr (r, t)"
    then obtain x v where create: "createContent (ae_refuses env) ?x u = Inr (x, v)"
      and recorded: "account_record env c (drawn env commandDraw) (content_change env c) ''content_item''
       (ContentResult (drawn env aggregateDraw)) v = Inr (r, t)"
      unfolding content_work_def op_bind_Inr by blast
    note v = createContent_effect[OF create keys]
    note u = account_books_tables[OF account_begun_books[OF begun]]
    have "account_step (ae_nfc env) (ae_sha256 env) s v"
    proof (rule account_step.content_added)
      have "ct_id ?c \<notin> ct_id ` set (db_contents s)"
        using v u(13) by (auto simp: account_keys_def add_content_def)
      then show "content_fits ?c ?v s"
        using sp home lower by (auto simp: content_fits_def content_row_of_def revision_row_of_def first_revision_def content_input_of_def)
      show "account_books (add_content ?c ?v s) v"
        using v account_books_changes(7)[OF account_begun_books[OF begun]] by simp
    qed
    then show "account_committed env c r s t"
      by (rule record_committed[OF caused begun _ _ _ _ _ recorded]) (use v in auto)
  qed
qed

lemma content_revise_outcome:
  assumes run: "content_revise env c p s = Inr (r, t)" and caused: "account_caused s"
    and keys: "guards_keys (ae_refuses env)"
  shows "account_outcome env c r s t"
proof -
  obtain item where work: "reserved_work env c (revision_work env c p item) s = Inr (r, t)"
    using run unfolding content_revise_def by (simp only: op_bind_reads reads_intros) blast
  let ?x = "revising_of env c p"
  show ?thesis
  proof (rule reserved_outcome[OF work caused])
    fix u assume begun: "account_begun env c s u" and run: "revision_work env c p item (drawn env commandDraw) u = Inr (r, t)"
    then obtain sp n version v where revise: "reviseContent (ae_refuses env) ?x u = Inr ((sp, n, version), v)"
      and recorded: "account_record env c (drawn env commandDraw) (revision_change c p n version) ''content_item''
       (RevisedResult (rk_contentItemId p) n version) v = Inr (r, t)"
      unfolding revision_work_def op_bind_Inr op_require_Inr by (auto split: prod.splits)
    obtain title metadata rv where v: "v = add_revision (revised ?x) title metadata n rv u"
        "revision_fits (revised ?x) n rv u" "account_keys v"
      using reviseContent_effect[OF revise keys] by blast
    have "account_step (ae_nfc env) (ae_sha256 env) s v"
    proof (rule account_step.content_revised)
      show "revision_fits (revised ?x) n rv s" using v(2) account_guards(4)[OF account_begun_books[OF begun]] by simp
      show "account_books (add_revision (revised ?x) title metadata n rv s) v"
        unfolding v(1) by (rule account_books_changes(8)[OF account_begun_books[OF begun]])
    qed
    then show "account_committed env c r s t"
      by (rule record_committed[OF caused begun _ _ _ _ _ recorded]) (use v in auto)
  qed
qed

section \<open>Sources\<close>

text \<open>A source that is persisted with a text, its normal form and chunks, in a live space whose class its
  own class is not below.\<close>

lemma source_step:
  assumes begun: "account_begun env c s u" and keys: "guards_keys (ae_refuses env)" and ok: "account_ok (ae_nfc env) (ae_sha256 env) s"
    and persist: "persistSource (ae_refuses env) (ae_instant env) x u = Inr (w, v)"
    and n: "normalizeAndChunkSource (ae_nfc env) (ae_sha256 env) (TextInput text) = Some (sq_source x, sq_chunks x)"
    and space: "sp \<in> set (db_spaces s)" "asp_id sp = uuid_column (sq_space x)" "\<not> asp_archived sp"
      "asp_access_class sp \<le> sq_accessClass x"
    and corrects: "corrects (artifact_row_of (ae_instant env) x) s"
  shows "account_step (ae_nfc env) (ae_sha256 env) s v \<and> account_keys v \<and> db_commands v = db_commands u \<and>
    db_audit v = db_audit u \<and> db_outbox v = db_outbox u"
proof -
  let ?a = "artifact_row_of (ae_instant env) x"
  let ?cs = "map (\<lambda>(i, chunk). chunk_row_of x i chunk) (zip (sq_chunkIds x) (sq_chunks x))"
  note u = account_books_tables[OF account_begun_books[OF begun]]
  have len: "length (sq_chunkIds x) = length (sq_chunks x)"
    using persist unfolding persistSource_def op_bind_Inr op_require_Inr by blast
  have owned: "\<forall>r\<in>set (db_chunks u). cu_source_artifact_id r \<in> ct_id ` set (db_sources u)"
    using ok u by (simp add: account_ok_def sources_stored_def)
  obtain als where v: "v = add_source ?a ?cs als u" "account_keys v"
    and als: "\<forall>al\<in>set als. al_related_id al = uuid_column (sq_sourceArtifactId x) \<and> al_space_id al = uuid_column (sq_space x)"
    and new: "uuid_column (sq_sourceArtifactId x) \<notin> ct_id ` set (db_sources u)"
    using persistSource_effect[OF persist keys owned normalized_stored(2)[OF n len]] by blast
  have row: "ct_id ?a = uuid_column (sq_sourceArtifactId x)" "ct_space_id ?a = uuid_column (sq_space x)"
      "so_deleted_at ?a = None" "so_version_number ?a = 1" "ct_access_class ?a = sq_accessClass x"
    by (simp_all add: artifact_row_of_def)
  have chunks: "\<forall>r\<in>set ?cs. cu_source_artifact_id r = uuid_column (sq_sourceArtifactId x)"
    by (auto simp: chunk_row_of_def)
  have "source_fits (ae_nfc env) (ae_sha256 env) ?a ?cs als s"
    unfolding source_fits_def row
    by (intro conjI chunks als corrects normalized_stored(1)[OF n len] bexI[OF _ space(1)])
      (use new space(2-4) u(15) in simp_all)
  then have "account_step (ae_nfc env) (ae_sha256 env) s v"
    by (rule account_step.source_added) (simp add: v(1) account_books_changes(9)[OF account_begun_books[OF begun]])
  then show ?thesis using v by auto
qed

lemma derived_class_bounds:
  "spaceClass \<le> deriveSourceAccessClass spaceClass requested predecessor"
  "predecessor = Some k \<Longrightarrow> k \<le> deriveSourceAccessClass spaceClass requested predecessor"
proof -
  let ?ks = "[spaceClass, case requested of None \<Rightarrow> spaceClass | Some c \<Rightarrow> c, case predecessor of None \<Rightarrow> spaceClass | Some c \<Rightarrow> c]"
  have "maxAccessClass (map access_string ?ks) = Some (Max (set ?ks))"
    unfolding maxAccessClass_Some_iff by (intro exI[of _ ?ks]) simp
  then have max: "deriveSourceAccessClass spaceClass requested predecessor = Max (set ?ks)"
    unfolding deriveSourceAccessClass_def by simp
  show "spaceClass \<le> deriveSourceAccessClass spaceClass requested predecessor" unfolding max by simp
  show "k \<le> deriveSourceAccessClass spaceClass requested predecessor" if "predecessor = Some k"
    unfolding max by (rule Max_ge) (simp_all add: that)
qed

lemma source_capture_outcome:
  assumes run: "source_capture env c p s = Inr (r, t)" and caused: "account_caused s"
    and keys: "guards_keys (ae_refuses env)" and ok: "account_ok (ae_nfc env) (ae_sha256 env) s"
  shows "account_outcome env c r s t"
proof -
  obtain activity :: activity and space pin body origin src cs where
    space: "call_space c (bl_space c) s = Inr (space, s)" and
    normal: "normalized_text env body s = Inr ((src, cs), s)" and
    work: "reserved_work env c (capture_work env c (ga_id activity) (source_row_input env c (cs_sourceType p)
        (cs_title p) (cs_occurredAt p) (deriveSourceAccessClass (gs_accessClass space) (cs_requestedAccessClass p) origin)
        pin (src, cs) (origin_of p) None (ga_id activity))) s = Inr (r, t)"
    using run unfolding source_capture_def Let_def
    by (simp only: op_bind_reads reads_intros split_paired_Ex prod.case) blast
  let ?k = "deriveSourceAccessClass (gs_accessClass space) (cs_requestedAccessClass p) origin"
  let ?x = "source_row_input env c (cs_sourceType p) (cs_title p) (cs_occurredAt p) ?k pin (src, cs) (origin_of p) None (ga_id activity)"
  obtain sp where sp: "sp \<in> set (db_spaces s)" "asp_id sp = uuid_column (bl_space c)" "\<not> asp_archived sp"
      "gs_accessClass space = asp_access_class sp"
    using space by (rule call_space_Inr)
  have n: "normalizeAndChunkSource (ae_nfc env) (ae_sha256 env) (TextInput body) = Some (sq_source ?x, sq_chunks ?x)"
    using normal by (auto simp: normalized_text_def op_simps ok_or_def source_row_input_def split: option.splits)
  show ?thesis
  proof (rule reserved_outcome[OF work caused])
    fix u assume begun: "account_begun env c s u" and run: "capture_work env c (ga_id activity) ?x (drawn env commandDraw) u = Inr (r, t)"
    then obtain w v where persist: "persistSource (ae_refuses env) (ae_instant env) ?x u = Inr (w, v)"
      and recorded: "account_record env c (drawn env commandDraw) (capture_change env c) ''source_artifact''
       (CapturedResult (drawn env aggregateDraw) (ga_id activity) (int (length (sq_chunks ?x)))) v = Inr (r, t)"
      unfolding capture_work_def op_bind_Inr by blast
    have v: "account_step (ae_nfc env) (ae_sha256 env) s v \<and> account_keys v \<and> db_commands v = db_commands u \<and>
        db_audit v = db_audit u \<and> db_outbox v = db_outbox u"
      by (rule source_step[OF begun keys ok persist n sp(1) _ sp(3)])
        (use sp(2,4) derived_class_bounds(1) in \<open>auto simp: source_row_input_def corrects_def artifact_row_of_def\<close>)
    then show "account_committed env c r s t"
      by (intro record_committed[OF caused begun _ _ _ _ _ recorded]) simp_all
  qed
qed

lemma lockCurrentSource_Inr:
  assumes "lockCurrentSourceForCorrection tenantId workspaceId spaceId i s = Inr (predecessor, t)"
  obtains q where "q \<in> set (db_sources s)" "so_deleted_at q = None" "\<not> superseded s q"
    "ct_space_id q = uuid_column spaceId" "ct_id q = uuid_column i" "sj_id predecessor = ct_id q"
    "sj_accessClass predecessor = ct_access_class q"
proof -
  obtain q rest where rows: "correctable tenantId workspaceId spaceId i s = q # rest"
    and view: "predecessor = projectSource tenantId workspaceId q False []"
    using assms unfolding lockCurrentSourceForCorrection_def op_bind_Inr op_read_Inr first_of_Inr op_return_Inr
    by (elim exE conjE) simp
  have q: "q \<in> set (sources_named tenantId workspaceId i s) \<and> ct_space_id q = uuid_column spaceId \<and>
      so_deleted_at q = None \<and> \<not> superseded s q"
    by (rule filter_head) (rule rows[unfolded correctable_def])
  show ?thesis
    by (rule that[of q]) (use q in \<open>simp_all add: view projectSource_def sources_named_def\<close>)
qed

lemma source_correct_outcome:
  assumes run: "source_correct env c p s = Inr (r, t)" and caused: "account_caused s"
    and keys: "guards_keys (ae_refuses env)" and ok: "account_ok (ae_nfc env) (ae_sha256 env) s"
  shows "account_outcome env c r s t"
proof -
  obtain activityId where work: "reserved_work env c (correction_work env c p activityId) s = Inr (r, t)"
    using run unfolding source_correct_def Let_def
    by (simp only: op_bind_reads reads_intros split_paired_Ex prod.case) blast
  show ?thesis
  proof (rule reserved_outcome[OF work caused])
    fix u assume begun: "account_begun env c s u" and run: "correction_work env c p activityId (drawn env commandDraw) u = Inr (r, t)"
    note u = account_books_tables[OF account_begun_books[OF begun]]
    let ?xof = "\<lambda>predecessor space pin normalized. source_row_input env c (xs_sourceType p) (xs_title p)
        (xs_occurredAt p) (deriveSourceAccessClass (gs_accessClass space) (xs_requestedAccessClass p)
        (Some (sj_accessClass predecessor))) pin normalized None (Some (sj_id predecessor)) activityId"
    obtain predecessor space pin normalized where
      predecessor: "lockCurrentSourceForCorrection (sx_tenantId (bl_context c)) (sx_workspaceId (bl_context c))
          (bl_space c) (xs_predecessorSourceArtifactId p) u = Inr (predecessor, u)" and
      space: "call_space c (bl_space c) u = Inr (space, u)" and
      normal: "normalized_text env (xs_text p) u = Inr (normalized, u)" and
      rest: "op_bind (persistSource (ae_refuses env) (ae_instant env) (?xof predecessor space pin normalized)) (\<lambda>_.
        account_record env c (drawn env commandDraw) (correction_change env c (sj_id predecessor)) ''source_artifact''
          (CorrectedResult (drawn env aggregateDraw) (sj_id predecessor) (int (length (snd normalized))))) u = Inr (r, t)"
      using run unfolding correction_work_def Let_def by (simp only: op_bind_reads reads_intros) blast
    let ?x = "?xof predecessor space pin normalized"
    obtain w v where persist: "persistSource (ae_refuses env) (ae_instant env) ?x u = Inr (w, v)"
      and recorded: "account_record env c (drawn env commandDraw) (correction_change env c (sj_id predecessor)) ''source_artifact''
          (CorrectedResult (drawn env aggregateDraw) (sj_id predecessor) (int (length (snd normalized)))) v = Inr (r, t)"
      using rest unfolding op_bind_Inr by blast
    obtain sp where sp: "sp \<in> set (db_spaces u)" "asp_id sp = uuid_column (bl_space c)" "\<not> asp_archived sp"
        "gs_accessClass space = asp_access_class sp"
      using space by (rule call_space_Inr)
    obtain q where q: "q \<in> set (db_sources u)" "so_deleted_at q = None" "\<not> superseded u q"
        "ct_space_id q = uuid_column (bl_space c)" "ct_id q = uuid_column (xs_predecessorSourceArtifactId p)"
        "sj_id predecessor = ct_id q" "sj_accessClass predecessor = ct_access_class q"
      using predecessor by (rule lockCurrentSource_Inr)
    have n: "normalizeAndChunkSource (ae_nfc env) (ae_sha256 env) (TextInput (xs_text p)) = Some (sq_source ?x, sq_chunks ?x)"
      using normal by (auto simp: normalized_text_def op_simps ok_or_def source_row_input_def split: option.splits)
    have row: "so_supersedes_source_id (artifact_row_of (ae_instant env) ?x) = Some (ct_id q)"
        "ct_space_id (artifact_row_of (ae_instant env) ?x) = ct_space_id q"
        "ct_access_class q \<le> ct_access_class (artifact_row_of (ae_instant env) ?x)"
      using q derived_class_bounds(2)
      by (simp_all add: artifact_row_of_def source_row_input_def uuid_column_def)
    have "corrects (artifact_row_of (ae_instant env) ?x) s"
      unfolding corrects_def row using q(1-3) row(2,3) superseded_cong[OF u(15)] u(15) by auto
    then have v: "account_step (ae_nfc env) (ae_sha256 env) s v \<and> account_keys v \<and> db_commands v = db_commands u \<and>
        db_audit v = db_audit u \<and> db_outbox v = db_outbox u"
      by (intro source_step[OF begun keys ok persist n _ _ sp(3)])
        (use sp(1,2,4) u(1) derived_class_bounds(1) in \<open>auto simp: source_row_input_def\<close>)
    then show "account_committed env c r s t"
      by (intro record_committed[OF caused begun _ _ _ _ _ recorded]) simp_all
  qed
qed

lemma source_tombstone_outcome:
  assumes run: "source_tombstone env c p s = Inr (r, t)" and caused: "account_caused s"
    and keys: "guards_keys (ae_refuses env)" and ok: "account_ok (ae_nfc env) (ae_sha256 env) s"
  shows "account_outcome env c r s t"
proof -
  obtain source where work: "reserved_work env c (tombstone_work env c p source) s = Inr (r, t)"
    using run unfolding source_tombstone_def by (simp only: op_bind_reads reads_intros) blast
  let ?x = "tombstone_of c p (sj_id source)"
  let ?i = "uuid_column (tb_sourceArtifactId ?x)"
  show ?thesis
  proof (rule reserved_outcome[OF work caused])
    fix u assume begun: "account_begun env c s u" and run: "tombstone_work env c p source (drawn env commandDraw) u = Inr (r, t)"
    then obtain sp version retained v where bury: "tombstoneSource (ae_refuses env) (ae_now env) ?x u = Inr ((sp, version, retained), v)"
      and recorded: "account_record env c (drawn env commandDraw) (tombstone_change c p (sj_id source) version retained) ''source_artifact''
       (TombstonedResult (sj_id source) version retained) v = Inr (r, t)"
      unfolding tombstone_work_def op_bind_Inr op_require_Inr by (auto split: prod.splits)
    have "account_ok (ae_nfc env) (ae_sha256 env) u"
      using ok account_books_ok[OF account_begun_books[OF begun]] by simp
    then have "account_keys u" "sources_stored (ae_nfc env) (ae_sha256 env) u" by (simp_all add: account_ok_def)
    then obtain f where v: "v = bury_source (buried ?x) f ?i u" "burial_fits (buried ?x) f ?i u" "account_keys v"
      using tombstoneSource_effect[OF bury keys] by blast
    have "account_step (ae_nfc env) (ae_sha256 env) s v"
    proof (rule account_step.source_buried)
      show "burial_fits (buried ?x) f ?i s" using v(2) account_guards(6)[OF account_begun_books[OF begun]] by simp
      show "account_books (bury_source (buried ?x) f ?i s) v"
        unfolding v(1) by (rule account_books_changes(10)[OF account_begun_books[OF begun]])
    qed
    then show "account_committed env c r s t"
      by (rule record_committed[OF caused begun _ _ _ _ _ recorded]) (use v in auto)
  qed
qed

end
