(* ===== verification/Account_Children.thy ===== *)
theory Account_Children
  imports Account_Refinement
begin

text \<open>
  The commands that create a child space: opening the scope adds the space and its grant, the callback adds
  the aggregate and the books, and closing the scope moves the settings back.
\<close>

section \<open>The scope\<close>

lemma in_child_Inr: "in_child f s = Inr (a, t) \<longleftrightarrow> (\<exists>sc. db_child s = Some sc \<and> f sc s = Inr (a, t))"
  by (cases "db_child s") (simp_all add: in_child_def op_bind_Inr op_read_Inr op_fail_Inr)

lemma mark_child_Inr: "mark_child f s = Inr (u, t) \<longleftrightarrow> t = s\<lparr>db_child := map_option f (db_child s)\<rparr>"
  by (simp add: mark_child_def op_modify_Inr)

lemma op_finally_Inr:
  "op_finally fault m restore s = Inr (a, t) \<longleftrightarrow> fault = None \<and> (\<exists>v. m s = Inr (a, v) \<and> restore v = Inr ((), t))"
proof (cases "m s")
  case (Inr r)
  then show ?thesis by (cases r) (auto simp: op_finally_def op_bind_Inr op_return_Inr split: option.split)
qed (simp add: op_finally_def)

lemma open_child_effect:
  assumes run: "open_child env world input s = Inr (u, t)" and keys: "guards_keys (ce_refuses env)"
  shows "\<exists>relay. let sp = child_space_of env input; g = child_grant_of env input relay in
    child_space sp g s \<and> account_keys t \<and> account_books (add_space sp g s) t \<and>
    db_commands t = db_commands s \<and> db_audit t = db_audit s \<and> db_outbox t = db_outbox s \<and>
    db_child t = Some \<lparr>sc_kind = ch_kind input, sc_childSpaceId = ce_child_id env, sc_relayServicePrincipalId = relay,
      sc_aggregateCreated = False, sc_auditInserted = False, sc_outboxInserted = False\<rparr>"
proof -
  let ?sp = "child_space_of env input"
  let ?parents = "filter (\<lambda>sp. scoped (ch_tenant input) (ch_workspace input) (asp_tenant_id sp)
       (asp_workspace_id sp) \<and> asp_id sp = uuid_column (ch_expectedParentSpaceId input) \<and> \<not> asp_archived sp) (db_spaces s)"
  obtain relay x s1 y s2 where
    found: "length (take 1 ?parents) = 1" and
    a: "put_rows (ce_refuses env) (\<lambda>s. s\<lparr>db_spaces := db_spaces s @ [?sp]\<rparr>) s = Inr (x, s1)" and
    b: "put_rows (ce_refuses env) (\<lambda>s. s\<lparr>db_grants := db_grants s @ [child_grant_of env input relay]\<rparr>) s1 = Inr (y, s2)" and
    t: "t = s2\<lparr>db_child_scope_active := True, db_space_setting := Some (ce_child_id env),
       db_child := Some \<lparr>sc_kind = ch_kind input, sc_childSpaceId = ce_child_id env, sc_relayServicePrincipalId = relay,
         sc_aggregateCreated = False, sc_auditInserted = False, sc_outboxInserted = False\<rparr>\<rparr>"
    using run unfolding open_child_def op_bind_Inr op_read_Inr op_require_Inr op_lift_Inr op_modify_Inr
    by (clarsimp simp: op_bind_Inr op_require_Inr op_lift_Inr op_modify_Inr op_read_Inr)
  let ?g = "child_grant_of env input relay"
  note s1 = put_rows_keys[OF a keys] and s2 = put_rows_keys[OF b keys]
  have "asp_id ?sp \<notin> asp_id ` set (db_spaces s)" using s1 by (auto simp: account_keys_def)
  moreover obtain p rest where "?parents = p # rest" using found by (cases ?parents) simp_all
  then have "p \<in> set (db_spaces s) \<and> scoped (ch_tenant input) (ch_workspace input) (asp_tenant_id p)
       (asp_workspace_id p) \<and> asp_id p = uuid_column (ch_expectedParentSpaceId input) \<and> \<not> asp_archived p"
    by (rule filter_head)
  ultimately have "child_space ?sp ?g s"
    unfolding child_space_def by (intro conjI bexI[of _ p]) (simp_all add: child_space_of_def child_grant_of_def scoped_def)
  moreover have "account_keys t" using s2 by (auto simp: t account_keys_def)
  moreover have "account_books (add_space ?sp ?g s) t"
    using s1 s2 by (simp add: t add_space_def account_books_def)
  ultimately show ?thesis using s1 s2 by (intro exI[of _ relay]) (simp add: Let_def t)
qed

lemma child_scope_Inr:
  assumes run: "withCreatedChildSpaceScope env world input callback s = Inr (r, t)"
  obtains u v where "open_child env world input s = Inr ((), u)" "callback u = Inr (r, v)"
    "t = v\<lparr>db_space_setting := Some (ch_expectedParentSpaceId input), db_child_scope_active := False, db_child := None\<rparr>"
    "\<exists>sc. db_child v = Some sc \<and> sc_aggregateCreated sc \<and> sc_auditInserted sc \<and> sc_outboxInserted sc"
proof -
  let ?body = "op_bind callback (\<lambda>result. op_bind child_complete (\<lambda>_. op_return result))"
  obtain x u where opened: "open_child env world input s = Inr (x, u)"
    and rest: "op_finally (ce_restore_fault env) ?body (close_child input) u = Inr (r, t)"
    using run unfolding withCreatedChildSpaceScope_def op_bind_Inr by blast
  obtain v where body: "?body u = Inr (r, v)" and close: "close_child input v = Inr ((), t)"
    using rest unfolding op_finally_Inr by blast
  obtain z y where callback: "callback u = Inr (r, z)" and complete: "child_complete z = Inr (y, v)"
    using body unfolding op_bind_Inr op_return_Inr by blast
  have "v = z" "\<exists>sc. db_child z = Some sc \<and> sc_aggregateCreated sc \<and> sc_auditInserted sc \<and> sc_outboxInserted sc"
    using complete unfolding child_complete_def in_child_Inr op_require_Inr by blast+
  moreover have "t = v\<lparr>db_space_setting := Some (ch_expectedParentSpaceId input), db_child_scope_active := False, db_child := None\<rparr>"
    using close unfolding close_child_def op_bind_Inr op_modify_Inr op_read_Inr by (elim exE conjE) (simp add: op_require_Inr)
  ultimately show ?thesis using that opened callback by simp
qed

section \<open>The aggregates\<close>

lemma createOrganization_effect:
  assumes run: "createOrganization env input x s = Inr (i, t)" and keys: "guards_keys (ce_refuses env)"
  shows "i = ce_aggregate_id env \<and> ch_kind input = OrganizationSpace \<and> account_keys t \<and>
    account_books (add_organization (organization_of env input x) (map (domain_of env input) (cg_domains x)) s) t \<and>
    db_commands t = db_commands s \<and> db_audit t = db_audit s \<and> db_outbox t = db_outbox s"
proof -
  let ?s0 = "s\<lparr>db_child := map_option (\<lambda>sc. sc\<lparr>sc_aggregateCreated := True\<rparr>) (db_child s)\<rparr>"
  obtain sc where child: "db_child s = Some sc" and kind: "ch_kind input = OrganizationSpace"
    using run unfolding createOrganization_def in_child_Inr op_bind_Inr op_require_Inr by blast
  obtain y s1 z where
    a: "put_rows (ce_refuses env) (\<lambda>s. s\<lparr>db_organizations := db_organizations s @ [organization_of env input x]\<rparr>) ?s0 = Inr (y, s1)" and
    b: "op_each (\<lambda>domain. put_rows (ce_refuses env) (\<lambda>s. s\<lparr>db_domains := db_domains s @ [domain_of env input domain]\<rparr>))
      (cg_domains x) s1 = Inr (z, t)" and
    i: "i = ce_aggregate_id env"
    using run unfolding createOrganization_def in_child_Inr mark_child_Inr op_bind_Inr op_require_Inr op_return_Inr
    by blast
  show ?thesis using put_rows_keys[OF a keys] domain_table.each_appends[OF b keys] kind i
    by (auto simp: add_organization_def account_books_def)
qed

lemma createInitiative_effect:
  assumes run: "createInitiative env input x s = Inr (i, t)" and keys: "guards_keys (ce_refuses env)"
  shows "i = ce_aggregate_id env \<and> ch_kind input = InitiativeSpace \<and> account_keys t \<and>
    account_books (add_initiative (initiative_of env input x)
      (initiative_link env input True (ci_primaryOrganizationId x) #
       map (initiative_link env input False) (ci_supportingOrganizationIds x))
      (map (contributor_of env input) (ci_contributorPersonIds x)) s) t \<and>
    db_commands t = db_commands s \<and> db_audit t = db_audit s \<and> db_outbox t = db_outbox s"
proof -
  let ?s0 = "s\<lparr>db_child := map_option (\<lambda>sc. sc\<lparr>sc_aggregateCreated := True\<rparr>) (db_child s)\<rparr>"
  obtain sc where child: "db_child s = Some sc" and kind: "ch_kind input = InitiativeSpace"
    using run unfolding createInitiative_def in_child_Inr op_bind_Inr op_require_Inr by blast
  obtain y s1 z s2 w s3 q where
    a: "put_rows (ce_refuses env) (\<lambda>s. s\<lparr>db_initiatives := db_initiatives s @ [initiative_of env input x]\<rparr>) ?s0 = Inr (y, s1)" and
    b: "link_organization env input True (ci_primaryOrganizationId x) s1 = Inr (z, s2)" and
    c: "op_each (link_organization env input False) (ci_supportingOrganizationIds x) s2 = Inr (w, s3)" and
    d: "op_each (\<lambda>personId. put_rows (ce_refuses env) (\<lambda>s. s
       \<lparr>db_initiative_people := db_initiative_people s @ [contributor_of env input personId]\<rparr>))
       (ci_contributorPersonIds x) s3 = Inr (q, t)" and
    i: "i = ce_aggregate_id env"
    using run unfolding createInitiative_def in_child_Inr mark_child_Inr op_bind_Inr op_require_Inr op_return_Inr
    by blast
  have c': "op_each (\<lambda>i. put_rows (ce_refuses env) (\<lambda>s. s\<lparr>db_initiative_organizations := db_initiative_organizations s @
      [initiative_link env input False i]\<rparr>)) (ci_supportingOrganizationIds x) s2 = Inr (w, s3)"
    using c unfolding link_organization_def .
  show ?thesis using put_rows_keys[OF a keys] put_rows_keys[OF b[unfolded link_organization_def] keys]
      initiative_organization_table.each_appends[OF c' keys] initiative_people_table.each_appends[OF d keys] kind i
    by (auto simp: add_initiative_def account_books_def)
qed

section \<open>The books of a child\<close>

lemma child_record_effect:
  assumes run: "child_record env c (drawn env commandDraw) input ch result w = Inr (r, v)"
    and u: "account_open env c s w"
  shows "r = result \<and> account_books w v \<and> db_commands v = db_commands w \<and> (\<exists>a e. db_audit v = db_audit w @ [a] \<and>
     db_outbox v = db_outbox w @ [pending_row e] \<and> au_causation_command_id a = uuid_column (drawn env commandDraw) \<and>
     ei_causation_command_id e = uuid_column (drawn env commandDraw) \<and>
     au_resource_id a = uuid_column (ce_resourceId ch) \<and> ei_aggregate_id e = uuid_column (ce_resourceId ch))"
proof -
  let ?i = "drawn env commandDraw"
  obtain x w1 y where
    audit: "child_insertAudit (child_env_of env) input (account_audit_of env c ?i ch) w = Inr (x, w1)" and
    outbox: "child_insertOutbox (child_env_of env) input (account_notification env c ?i ch) (sx_policyVersion (bl_context c)) w1 = Inr (y, v)"
    and r: "r = result"
    using run unfolding child_record_def op_bind_Inr op_return_Inr by blast
  obtain z u1 where audit': "account_audit env c ?i ch w = Inr (z, u1)"
    and w1: "w1 = u1\<lparr>db_child := map_option (\<lambda>sc. sc\<lparr>sc_auditInserted := True\<rparr>) (db_child u1)\<rparr>"
    using audit unfolding child_insertAudit_def in_child_Inr mark_child_Inr account_audit_def op_bind_Inr op_require_Inr
    by blast
  obtain a where a: "u1 = w\<lparr>db_audit := db_audit w @ [a]\<rparr>" "au_causation_command_id a = uuid_column ?i"
      "au_resource_id a = uuid_column (ce_resourceId ch)"
    using account_audit_effect[OF audit'] by blast
  obtain sc :: child_scope and z u2 where outbox': "account_outbox (child_env.ce_now (child_env_of env)) \<lparr>oi_envelope = account_notification env c ?i ch,
       oi_relayServicePrincipalId = sc_relayServicePrincipalId sc, oi_policyVersionId = sx_policyVersion (bl_context c)\<rparr> w1 = Inr (z, u2)"
    and v: "v = u2\<lparr>db_child := map_option (\<lambda>sc. sc\<lparr>sc_outboxInserted := True\<rparr>) (db_child u2)\<rparr>"
    using outbox unfolding child_insertOutbox_def in_child_Inr mark_child_Inr op_bind_Inr op_require_Inr
    by blast
  have now: "child_env.ce_now (child_env_of env) = ae_now env" by (simp add: child_env_of_def)
  have "\<forall>r\<in>set (db_outbox w1). ei_causation_command_id (ob_event r) \<noteq> uuid_column ?i"
    using account_open_new[OF u] by (simp add: w1 a(1))
  then obtain e where e: "u2 = w1\<lparr>db_outbox := db_outbox w1 @ [pending_row e]\<rparr>"
      "ei_causation_command_id e = uuid_column ?i" "ei_aggregate_id e = uuid_column (ce_resourceId ch)"
    using account_outbox_effect[OF outbox'[unfolded now]] by blast
  show ?thesis using a(2,3) e(2,3) r by (auto simp: v e(1) w1 a(1) account_books_def)
qed

lemma child_env_simps [simp]:
  "ce_refuses (child_env_of env) = ae_refuses env" "ce_aggregate_id (child_env_of env) = drawn env aggregateDraw"
  by (simp_all add: child_env_of_def)

lemma child_committed:
  assumes caused: "account_caused s" and begun: "account_begun env c s u" and keys: "guards_keys (ae_refuses env)"
    and scope: "withCreatedChildSpaceScope (child_env_of env) world input
       (op_bind create (\<lambda>i. child_record env c (drawn env commandDraw) input (chg i) (res i))) u = Inr (r, v)"
    and complete: "account_complete env c (drawn env commandDraw) rt (drawn env aggregateDraw) r v = Inr (x, t)"
    and create: "\<And>a i b. create a = Inr (i, b) \<Longrightarrow> i = drawn env aggregateDraw \<and> account_keys b \<and>
       account_books (change a) b \<and> db_commands b = db_commands a \<and> db_audit b = db_audit a \<and> db_outbox b = db_outbox a"
    and resource: "ce_resourceId (chg (drawn env aggregateDraw)) = drawn env aggregateDraw"
    and change: "\<And>a b. account_books a b \<Longrightarrow> account_books (change a) (change b)"
    and step: "\<And>relay q. child_space (child_space_of (child_env_of env) input) (child_grant_of (child_env_of env) input relay) s \<Longrightarrow>
       account_books (change (add_space (child_space_of (child_env_of env) input)
         (child_grant_of (child_env_of env) input relay) s)) q \<Longrightarrow>
       account_step (ae_nfc env) (ae_sha256 env) s q"
  shows "account_committed env c r s t"
proof -
  let ?sp = "child_space_of (child_env_of env) input" and ?g = "child_grant_of (child_env_of env) input"
  obtain a b where opened: "open_child (child_env_of env) world input u = Inr ((), a)"
    and callback: "op_bind create (\<lambda>i. child_record env c (drawn env commandDraw) input (chg i) (res i)) a = Inr (r, b)"
    and v: "v = b\<lparr>db_space_setting := Some (ch_expectedParentSpaceId input), db_child_scope_active := False, db_child := None\<rparr>"
    using scope by (rule child_scope_Inr)
  obtain relay where a: "child_space ?sp (?g relay) u" "account_books (add_space ?sp (?g relay) u) a"
      "db_commands a = db_commands u" "db_audit a = db_audit u" "db_outbox a = db_outbox u"
    using open_child_effect[OF opened] keys by (auto simp: Let_def)
  obtain i d where made: "create a = Inr (i, d)"
    and record': "child_record env c (drawn env commandDraw) input (chg i) (res i) d = Inr (r, b)"
    using callback unfolding op_bind_Inr by blast
  have d: "i = drawn env aggregateDraw" "account_keys d" "account_books (change a) d"
      "db_commands d = db_commands u" "db_audit d = db_audit u" "db_outbox d = db_outbox u"
    using create[OF made] a(3-5) by simp_all
  have op: "account_open env c s d"
    by (rule account_open_cong[OF account_begun_open[OF begun caused] d(4-6)])
  obtain au e where b: "account_books d b" "db_commands b = db_commands d" "db_audit b = db_audit d @ [au]"
      "db_outbox b = db_outbox d @ [pending_row e]" "au_causation_command_id au = uuid_column (drawn env commandDraw)"
      "ei_causation_command_id e = uuid_column (drawn env commandDraw)"
      "au_resource_id au = uuid_column (drawn env aggregateDraw)" "ei_aggregate_id e = uuid_column (drawn env aggregateDraw)"
    using child_record_effect[OF record' op] resource unfolding d(1) by (elim exE conjE) simp
  have books: "account_books b v" by (simp add: v account_books_def)
  have done': "account_receipt (account_reservation_of env c) r s t \<and> account_books v t"
    by (rule account_receiptI[OF op _ _ _ b(5-8) complete]) (simp_all add: v b(2-4))
  have dt: "account_books d t" using b(1) books done' account_books_trans by blast
  have "account_books (change (add_space ?sp (?g relay) s)) (change a)"
    by (rule change) (rule account_books_trans[OF account_books_changes(1)[OF account_begun_books[OF begun]] a(2)])
  then have "account_books (change (add_space ?sp (?g relay) s)) t"
    using d(3) dt account_books_trans by blast
  moreover have "child_space ?sp (?g relay) s" using a(1) account_guards(1)[OF account_begun_books[OF begun]] by simp
  ultimately have "account_step (ae_nfc env) (ae_sha256 env) s t" by (intro step)
  then show ?thesis using done' account_keys_books[OF dt] d(2) by (simp add: account_committed_def kept_step_def)
qed

section \<open>Organizations and initiatives\<close>

lemma organization_create_outcome:
  assumes run: "organization_create env c p s = Inr (r, t)" and caused: "account_caused s"
    and keys: "guards_keys (ae_refuses env)"
  shows "account_outcome env c r s t"
proof -
  obtain pin where work: "reserved_work env c (organization_work env c p pin) s = Inr (r, t)"
    using run unfolding organization_create_def by (simp only: op_bind_reads reads_intros) blast
  show ?thesis
  proof (rule reserved_outcome[OF work caused])
    fix u assume begun: "account_begun env c s u" and run: "organization_work env c p pin (drawn env commandDraw) u = Inr (r, t)"
    let ?in = "child_input_of c OrganizationSpace (co_name p) (pn_defaultAccessClass pin)" and ?env = "child_env_of env"
    obtain x v y where
      scope: "withCreatedChildSpaceScope ?env (ae_world env) ?in (op_bind (createOrganization ?env ?in x) (\<lambda>i.
        child_record env c (drawn env commandDraw) ?in (organization_change env i)
          (OrganizationResult i (drawn env childDraw)))) u = Inr (r, v)"
      and complete: "account_complete env c (drawn env commandDraw) ''organization'' (drawn env aggregateDraw) r v = Inr (y, t)"
      using run unfolding organization_work_def Let_def by (auto simp: op_bind_Inr op_lift_Inr op_return_Inr)
    let ?change = "add_organization (organization_of ?env ?in x) (map (domain_of ?env ?in) (cg_domains x))"
    show "account_committed env c r s t"
    proof (rule child_committed[OF caused begun keys scope complete])
      show "i = drawn env aggregateDraw \<and> account_keys b \<and> account_books (?change a) b \<and>
          db_commands b = db_commands a \<and> db_audit b = db_audit a \<and> db_outbox b = db_outbox a"
        if "createOrganization ?env ?in x a = Inr (i, b)" for a i b
        using createOrganization_effect[OF that] keys by simp
      show "account_step (ae_nfc env) (ae_sha256 env) s q"
        if "child_space (child_space_of ?env ?in) (child_grant_of ?env ?in relay) s"
          "account_books (?change (add_space (child_space_of ?env ?in) (child_grant_of ?env ?in relay) s)) q" for relay q
        by (rule account_step.organization_added[OF that(1) _ that(2)])
          (auto simp: organization_fits_def child_space_of_def organization_of_def domain_of_def child_input_of_def)
    qed (simp_all add: organization_change_def changed_def account_books_changes(2))
  qed
qed

lemma initiative_create_outcome:
  assumes run: "initiative_create env c p s = Inr (r, t)" and caused: "account_caused s"
    and keys: "guards_keys (ae_refuses env)"
  shows "account_outcome env c r s t"
proof -
  obtain x accessClass where work: "reserved_work env c (initiative_work env c x accessClass) s = Inr (r, t)"
    using run unfolding initiative_create_def Let_def by (simp only: op_bind_reads reads_intros) blast
  show ?thesis
  proof (rule reserved_outcome[OF work caused])
    fix u assume begun: "account_begun env c s u" and run: "initiative_work env c x accessClass (drawn env commandDraw) u = Inr (r, t)"
    let ?in = "child_input_of c InitiativeSpace (ci_title x) accessClass" and ?env = "child_env_of env"
    obtain v y where
      scope: "withCreatedChildSpaceScope ?env (ae_world env) ?in (op_bind (createInitiative ?env ?in x) (\<lambda>i.
        child_record env c (drawn env commandDraw) ?in (initiative_change env i)
          (InitiativeResult i (drawn env childDraw)))) u = Inr (r, v)"
      and complete: "account_complete env c (drawn env commandDraw) ''initiative'' (drawn env aggregateDraw) r v = Inr (y, t)"
      using run unfolding initiative_work_def Let_def by (auto simp: op_bind_Inr op_return_Inr)
    let ?ls = "initiative_link ?env ?in True (ci_primaryOrganizationId x) # map (initiative_link ?env ?in False) (ci_supportingOrganizationIds x)"
    let ?change = "add_initiative (initiative_of ?env ?in x) ?ls (map (contributor_of ?env ?in) (ci_contributorPersonIds x))"
    show "account_committed env c r s t"
    proof (rule child_committed[OF caused begun keys scope complete])
      show "i = drawn env aggregateDraw \<and> account_keys b \<and> account_books (?change a) b \<and>
          db_commands b = db_commands a \<and> db_audit b = db_audit a \<and> db_outbox b = db_outbox a"
        if "createInitiative ?env ?in x a = Inr (i, b)" for a i b
        using createInitiative_effect[OF that] keys by simp
      show "account_step (ae_nfc env) (ae_sha256 env) s q"
        if "child_space (child_space_of ?env ?in) (child_grant_of ?env ?in relay) s"
          "account_books (?change (add_space (child_space_of ?env ?in) (child_grant_of ?env ?in relay) s)) q" for relay q
        by (rule account_step.initiative_added[OF that(1) _ that(2)])
          (auto simp: initiative_fits_def child_space_of_def initiative_of_def initiative_link_def contributor_of_def
            child_input_of_def filter_map o_def)
    qed (simp_all add: initiative_change_def changed_def account_books_changes(3))
  qed
qed

section \<open>All commands\<close>

theorem account_command_outcome:
  assumes "account_command env c p s = Inr (r, t)" and "account_caused s" "guards_keys (ae_refuses env)"
    and "account_ok (ae_nfc env) (ae_sha256 env) s"
  shows "account_outcome env c r s t"
proof (cases p)
  case (ContentCreation q)
  have "account_keys s" using assms(4) by (simp add: account_ok_def)
  then show ?thesis using assms content_create_outcome ContentCreation by simp
qed (use assms in \<open>auto intro: organization_create_outcome initiative_create_outcome activity_create_outcome
      relationship_create_outcome relationship_finish_outcome content_revise_outcome source_capture_outcome
      source_correct_outcome source_tombstone_outcome\<close>)

end
