(* ===== verification/Account_Permissions.thy ===== *)
theory Account_Permissions
  imports  Account_Children Account_Schemas
begin

text \<open>
  What every account command does before it writes: it asks the authorisation service for its action and for
  reading everything it names, and its result, new or replayed, is of its own kind.
\<close>

section \<open>Authority\<close>

definition account_allowed ::
  "account_env \<Rightarrow> account_call \<Rightarrow> auth_action \<Rightarrow> resource_ref \<Rightarrow> decision_options \<Rightarrow> account_db \<Rightarrow> bool" where
  "account_allowed env c action resource options s \<longleftrightarrow>
     (\<exists>d. ae_can env (bl_context c) action resource options s = Inr d \<and> de_allowed d)"

lemma account_decision_Inr: "account_decision d s = Inr (e, t) \<Longrightarrow> d = Inr e \<and> de_allowed e"
  by (auto simp: account_decision_def op_simps split: sum.splits if_splits)

lemma account_authorize_Inr:
  "account_authorize env (bl_context c) action resource options s = Inr (d, t) \<Longrightarrow> account_allowed env c action resource options s"
  by (auto simp: account_authorize_def account_allowed_def op_bind_Inr op_read_Inr dest: account_decision_Inr)

lemma permit_allowed:
  "permit env c action ty i s = Inr (d, t) \<Longrightarrow> account_allowed env c action (ref_to ty i) no_options s"
  "permit_locking env c action ty i s = Inr (d, t) \<Longrightarrow> account_allowed env c action (ref_to ty i) locking s"
  unfolding permit_def permit_locking_def by (rule account_authorize_Inr, assumption)+

text \<open>Reading an endpoint of a relationship, and reading and changing a source.\<close>

definition endpoints_of :: "endpoint \<Rightarrow> endpoint \<Rightarrow> endpoint option \<Rightarrow> endpoint set" where
  "endpoints_of subject object about = {subject, object} \<union> set_option about"

definition endpoint_readable ::
  "account_env \<Rightarrow> account_call \<Rightarrow> resource_ref \<Rightarrow> account_db \<Rightarrow> endpoint \<Rightarrow> bool" where
  "endpoint_readable env c useSite s e \<longleftrightarrow> account_allowed env c (endpoint_action (en_type e)) (endpointResource e)
     (if en_type e = PersonEnd then no_options\<lparr>ao_personUseSite := Some useSite\<rparr> else no_options) s"

definition source_permitted :: "account_env \<Rightarrow> account_call \<Rightarrow> auth_action \<Rightarrow> jstr \<Rightarrow> account_db \<Rightarrow> bool" where
  "source_permitted env c action i s \<longleftrightarrow> account_allowed env c SourceRead (ref_to RefSource i) locking s \<and>
     account_allowed env c action (ref_to RefSource i) locking s"

text \<open>What the authorisation service must have allowed before a command of each kind: the action itself, and
  reading whatever the command names.\<close>

fun account_permission :: "account_env \<Rightarrow> account_call \<Rightarrow> b1_payload \<Rightarrow> account_db \<Rightarrow> bool" where
  "account_permission env c (OrganizationCreation p) s \<longleftrightarrow> (let space = ref_to RefSpace (uuid_column (bl_space c)) in
     account_allowed env c OrganizationCreate space no_options s \<and> account_allowed env c SpaceCreateChild space no_options s)"
| "account_permission env c (InitiativeCreation p) s \<longleftrightarrow> (let space = ref_to RefSpace (uuid_column (bl_space c)) in
     account_allowed env c InitiativeCreate space no_options s \<and> account_allowed env c SpaceCreateChild space no_options s \<and>
     (\<forall>i\<in>set (cv_primaryOrganizationId p # list_or_none (cv_organizationIds p)).
        account_allowed env c OrganizationRead (ref_to RefOrganization (uuid_column i)) no_options s))"
| "account_permission env c (ActivityCreation p) s \<longleftrightarrow>
     account_allowed env c ActivityCreate (ref_to RefSpace (uuid_column (bl_space c))) no_options s \<and>
     (\<forall>i\<in>set (cy_organizationIds p). account_allowed env c OrganizationRead (ref_to RefOrganization i) no_options s) \<and>
     (\<forall>i\<in>set (cy_initiativeIds p). account_allowed env c InitiativeRead (ref_to RefInitiative i) no_options s)"
| "account_permission env c (RelationshipCreation p) s \<longleftrightarrow>
     account_allowed env c RelationshipCreate (ref_to RefSpace (bl_space c)) no_options s \<and>
     (\<forall>e\<in>endpoints_of (cp_subject p) (cp_object p) (cp_context p).
        endpoint_readable env c (use_site (cp_subject p) (cp_object p) (cp_context p) (bl_space c) None) s e)"
| "account_permission env c (RelationshipEnding p) s \<longleftrightarrow> (let resource = ref_to RefRelationship (er_relationshipId p) in
     ae_batching env \<and> (\<exists>d. ae_preauthorize env (bl_context c) resource s = Inr d \<and> de_allowed d) \<and>
     (\<exists>r d requests.
       getRelationship (sx_tenantId (bl_context c)) (sx_workspaceId (bl_context c)) (er_relationshipId p) s = Inr (r, s) \<and>
       gr_spaceId r = bl_space c \<and> ae_reauthorize env (bl_context c) requests s = Inr d \<and> de_allowed d \<and>
       \<lparr>rq_action = RelationshipEnd, rq_resource = resource, rq_personUseSite = None\<rparr> \<in> set requests \<and>
       \<lparr>rq_action = SpaceRead, rq_resource = ref_to RefSpace (bl_space c), rq_personUseSite = None\<rparr> \<in> set requests \<and>
       (\<forall>e\<in>endpoints_of (gr_subject r) (gr_object r) (gr_context r).
          \<lparr>rq_action = endpoint_action (en_type e), rq_resource = endpointResource e,
           rq_personUseSite = (if en_type e = PersonEnd then Some resource else None)\<rparr> \<in> set requests)))"
| "account_permission env c (ContentCreation p) s \<longleftrightarrow>
     account_allowed env c ContentCreate (ref_to RefSpace (uuid_column (ck_spaceId p))) no_options s"
| "account_permission env c (ContentRevision p) s \<longleftrightarrow>
     account_allowed env c ContentRevise (ref_to RefContentItem (rk_contentItemId p)) no_options s"
| "account_permission env c (SourceCapturing p) s \<longleftrightarrow> account_allowed env c SourceCapture (ref_to RefSpace (bl_space c))
     (no_options\<lparr>ao_requestedAccessClass := cs_requestedAccessClass p\<rparr>) s \<and>
     (given (cs_originContentItemId p) \<longrightarrow>
        account_allowed env c ContentRead (ref_to RefContentItem (the (cs_originContentItemId p)))
          (no_options\<lparr>ao_contentRevision := Some (the (cs_originContentRevision p)),
             ao_requiredSpaceId := Some (bl_space c), ao_lockAuthority := True\<rparr>) s)"
| "account_permission env c (SourceCorrection p) s \<longleftrightarrow>
     source_permitted env c SourceCorrect (xs_predecessorSourceArtifactId p) s"
| "account_permission env c (SourceTombstoning p) s \<longleftrightarrow>
     source_permitted env c SourceTombstone (ts_sourceArtifactId p) s"

lemma call_space_id: "call_space c i s = Inr (space, t) \<Longrightarrow> gs_id space = uuid_column i"
  by (erule call_space_Inr) simp

lemma call_organization_id:
  assumes "call_organization env c i s = Inr (g, t)"
  shows "go_id g = uuid_column i"
proof -
  obtain row rest where "organizations_named (sx_tenantId (bl_context c)) (sx_workspaceId (bl_context c)) i s = row # rest"
    "go_id g = og_id row"
    using assms unfolding call_organization_def getOrganization_def op_bind_Inr op_read_Inr first_of_Inr
    by (auto simp: organization_view_def)
  then have "row \<in> set (organizations_named (sx_tenantId (bl_context c)) (sx_workspaceId (bl_context c)) i s)"
    "go_id g = og_id row" by simp_all
  then show ?thesis unfolding organizations_named_def by simp
qed

lemma reads_each:
  assumes "op_each f xs s = Inr (as, t)" "\<And>x. op_reads (f x)" "x \<in> set xs"
  shows "\<exists>a. f x s = Inr (a, s)"
proof -
  have "t = s \<and> list_all2 (\<lambda>x a. f x s = Inr (a, s)) xs as"
    by (rule op_each_reads[OF op_readsD[OF assms(2)] assms(1)])
  then show ?thesis using assms(3) by (auto simp: list_all2_conv_all_nth in_set_conv_nth)
qed

lemma organization_create_permitted:
  "organization_create env c p s = Inr (r, t) \<Longrightarrow> account_permission env c (OrganizationCreation p) s"
  unfolding organization_create_def Let_def
  by (simp only: op_bind_reads reads_intros) (auto simp: Let_def dest!: call_space_id dest: permit_allowed)

lemma readable_organization_allowed:
  assumes "readable_organization env c primary i s = Inr (d, t)" "go_id primary = uuid_column j"
  shows "account_allowed env c OrganizationRead (ref_to RefOrganization (uuid_column i)) no_options s"
proof -
  obtain g where "(if i = go_id primary then op_return primary else call_organization env c i) s = Inr (g, s)"
    "permit env c OrganizationRead RefOrganization (go_id g) s = Inr (d, t)"
    using assms(1) unfolding readable_organization_def by (simp only: op_bind_reads reads_intros) blast
  moreover from this have "go_id g = uuid_column i"
    using assms(2) call_organization_id by (auto simp: op_return_Inr split: if_splits)
  ultimately show ?thesis using permit_allowed(1) by metis
qed

lemma initiative_create_permitted:
  assumes "initiative_create env c q s = Inr (r, t)"
  shows "account_permission env c (InitiativeCreation q) s"
proof -
  let ?ids = "canonical_ids (cv_primaryOrganizationId q # list_or_none (cv_organizationIds q))"
  obtain primary parent a b ds where "call_organization env c (cv_primaryOrganizationId q) s = Inr (primary, s)"
    "call_space c (bl_space c) s = Inr (parent, s)" "permit env c InitiativeCreate RefSpace (gs_id parent) s = Inr (a, s)"
    "permit env c SpaceCreateChild RefSpace (gs_id parent) s = Inr (b, s)"
    "op_each (readable_organization env c primary) ?ids s = Inr (ds, s)"
    using assms unfolding initiative_create_def Let_def by (simp only: op_bind_reads reads_intros) blast
  moreover have "set ?ids = set (cv_primaryOrganizationId q # list_or_none (cv_organizationIds q))"
    by (auto simp: canonical_ids_def)
  moreover have "op_reads (readable_organization env c primary i)" for i by (intro reads_intros)
  ultimately show ?thesis
    using readable_organization_allowed[OF _ call_organization_id] reads_each permit_allowed(1) call_space_id
    unfolding account_permission.simps Let_def by metis
qed

lemma activity_create_permitted:
  assumes "activity_create env c a s = Inr (r, t)"
  shows "account_permission env c (ActivityCreation a) s"
proof -
  let ?org = "\<lambda>i. op_bind (call_organization env c i) (\<lambda>_. permit env c OrganizationRead RefOrganization i)"
  let ?ini = "\<lambda>i. op_bind (call_initiative c i) (\<lambda>_. permit env c InitiativeRead RefInitiative i)"
  obtain parent d os ns where "call_space c (bl_space c) s = Inr (parent, s)"
    "permit env c ActivityCreate RefSpace (gs_id parent) s = Inr (d, s)"
    and each: "op_each ?org (cy_organizationIds a) s = Inr (os, s)" "op_each ?ini (cy_initiativeIds a) s = Inr (ns, s)"
    using assms unfolding activity_create_def Let_def by (simp only: op_bind_reads reads_intros) blast
  then have "account_allowed env c ActivityCreate (ref_to RefSpace (uuid_column (bl_space c))) no_options s"
    using permit_allowed(1) call_space_id by metis
  moreover have "op_reads (?org i)" "op_reads (?ini i)" for i by (intro reads_intros)+
  then have "\<exists>d. ?org i s = Inr (d, s)" if "i \<in> set (cy_organizationIds a)" for i using reads_each[OF each(1)] that by blast
  then have "account_allowed env c OrganizationRead (ref_to RefOrganization i) no_options s"
    if "i \<in> set (cy_organizationIds a)" for i
    using that permit_allowed(1) by (simp only: op_bind_reads reads_intros) blast
  moreover have "\<exists>d. ?ini i s = Inr (d, s)" if "i \<in> set (cy_initiativeIds a)" for i
    using reads_each[OF each(2)] that \<open>\<And>i. op_reads (?ini i)\<close> by blast
  then have "account_allowed env c InitiativeRead (ref_to RefInitiative i) no_options s"
    if "i \<in> set (cy_initiativeIds a)" for i
    using that permit_allowed(1) by (simp only: op_bind_reads reads_intros) blast
  ultimately show ?thesis by simp
qed

lemma endpointKey_eq [simp]: "endpointKey e = endpointKey d \<longleftrightarrow> e = d"
proof -
  have "endpoint_kind_string k @ js '':'' @ i = endpoint_kind_string l @ js '':'' @ j \<longleftrightarrow> k = l \<and> i = j" for k l i j
    by (cases k; cases l) (simp_all add: js_def)
  then show ?thesis by (cases e; cases d) (simp add: endpointKey_def)
qed

lemma set_first_by: "(\<And>x y. key x = key y \<longleftrightarrow> x = y) \<Longrightarrow> set (first_by key xs) = set xs"
  by (induction key xs rule: first_by.induct) auto

lemma ordered_endpoints_set: "set (ordered_endpoints env subject object about) = endpoints_of subject object about"
  by (auto simp: ordered_endpoints_def endpoints_of_def set_first_by[OF endpointKey_eq] split: option.splits)

lemma authorized_endpoints:
  assumes "authorizeRelationshipEndpoints env (bl_context c) subject object about space None no_options s = Inr (d, t)"
    and "e \<in> endpoints_of subject object about"
  shows "endpoint_readable env c (use_site subject object about space None) s e"
proof -
  let ?f = "\<lambda>e. account_authorize env (bl_context c) (endpoint_action (en_type e)) (endpointResource e)
    (endpoint_options (use_site subject object about space None) no_options e)"
  have r: "op_reads (?f e)" for e by (intro reads_intros)
  obtain ds where "op_each ?f (ordered_endpoints env subject object about) s = Inr (ds, s)"
    using assms(1) unfolding authorizeRelationshipEndpoints_def Let_def
    by (simp only: op_bind_reads reads_intros r) blast
  then show ?thesis
    using reads_each[OF _ r] assms(2) account_authorize_Inr
    unfolding ordered_endpoints_set[of env, symmetric] endpoint_readable_def endpoint_options_def by fastforce
qed

lemma relationship_create_permitted:
  assumes "relationship_create env c b s = Inr (r, t)"
  shows "account_permission env c (RelationshipCreation b) s"
proof -
  obtain d e where "permit env c RelationshipCreate RefSpace (bl_space c) s = Inr (d, s)"
    "authorizeRelationshipEndpoints env (bl_context c) (cp_subject b) (cp_object b) (cp_context b) (bl_space c) None
       no_options s = Inr (e, s)"
    using assms unfolding relationship_create_def by (simp only: op_bind_reads reads_intros) blast
  then show ?thesis using permit_allowed(1) authorized_endpoints by auto
qed

lemma content_create_permitted:
  "content_create env c d s = Inr (r, t) \<Longrightarrow> account_permission env c (ContentCreation d) s"
  unfolding content_create_def Let_def
  by (simp only: op_bind_reads reads_intros) (auto simp: Let_def dest!: call_space_id dest: permit_allowed)

lemma relationship_finish_permitted:
  assumes "relationship_finish env c p s = Inr (r, t)"
  shows "account_permission env c (RelationshipEnding p) s"
proof -
  let ?resource = "ref_to RefRelationship (er_relationshipId p)"
  obtain d rel u e where d: "preauthorizeRelationshipEndInTransaction env (bl_context c) ?resource s = Inr (d, s)"
    and rel: "getRelationship (sx_tenantId (bl_context c)) (sx_workspaceId (bl_context c)) (er_relationshipId p) s = Inr (rel, s)"
    and same: "same_space c (gr_spaceId rel) s = Inr (u, s)"
    and e: "lockAndReauthorizeRelationshipAuthorityInTransaction env (bl_context c) rel (bl_space c) ?resource s = Inr (e, s)"
    using assms unfolding relationship_finish_def Let_def by (simp only: op_bind_reads reads_intros) blast
  let ?requests = "relationship_requests env rel (bl_space c) ?resource"
  have "ae_batching env" "\<exists>d. ae_preauthorize env (bl_context c) ?resource s = Inr d \<and> de_allowed d"
    "\<exists>d. ae_reauthorize env (bl_context c) ?requests s = Inr d \<and> de_allowed d"
    using d e by (auto simp: preauthorizeRelationshipEndInTransaction_def
        lockAndReauthorizeRelationshipAuthorityInTransaction_def op_bind_Inr op_require_Inr op_read_Inr
        dest!: account_decision_Inr)
  moreover have "gr_spaceId rel = bl_space c" using same by (simp add: same_space_def op_require_Inr)
  moreover have "endpoint_request ?resource e \<in> set ?requests"
    if "e \<in> endpoints_of (gr_subject rel) (gr_object rel) (gr_context rel)" for e
    using that unfolding ordered_endpoints_set[of env, symmetric] by (simp add: relationship_requests_def)
  moreover have "\<lparr>rq_action = RelationshipEnd, rq_resource = ?resource, rq_personUseSite = None\<rparr> \<in> set ?requests"
    "\<lparr>rq_action = SpaceRead, rq_resource = ref_to RefSpace (bl_space c), rq_personUseSite = None\<rparr> \<in> set ?requests"
    by (simp_all add: relationship_requests_def)
  ultimately show ?thesis
    using rel unfolding account_permission.simps Let_def endpoint_request_def by blast
qed

lemma permit_source_allowed:
  assumes "permit_source env c action i s = Inr (d, t)"
  shows "source_permitted env c action i s"
proof -
  obtain e f where "permit_locking env c SourceRead RefSource i s = Inr (e, s)" "permit_locking env c action RefSource i s = Inr (f, t)"
    using assms unfolding permit_source_def by (simp only: op_bind_reads reads_intros) blast
  then show ?thesis using permit_allowed(2) by (simp add: source_permitted_def)
qed

lemma content_permitted:
  "content_revise env c p s = Inr (r, t) \<Longrightarrow> account_permission env c (ContentRevision p) s"
  "source_correct env c x s = Inr (r, t) \<Longrightarrow> account_permission env c (SourceCorrection x) s"
  "source_tombstone env c y s = Inr (r, t) \<Longrightarrow> account_permission env c (SourceTombstoning y) s"
  unfolding content_revise_def source_correct_def source_tombstone_def Let_def
  by (simp_all only: op_bind_reads reads_intros)
    (auto simp: Let_def dest!: permit_source_allowed dest: permit_allowed account_authorize_Inr)

lemma captured_text_allowed:
  assumes "captured_text env c q s = Inr (x, t)" "given (cs_originContentItemId q)"
  shows "account_allowed env c ContentRead (ref_to RefContentItem (the (cs_originContentItemId q)))
    (no_options\<lparr>ao_contentRevision := Some (the (cs_originContentRevision q)),
       ao_requiredSpaceId := Some (bl_space c), ao_lockAuthority := True\<rparr>) s"
  using assms account_authorize_Inr
  by (auto simp: captured_text_def origin_of_def readAuthorizedOriginRevision_def op_bind_Inr)

lemma source_capture_permitted:
  assumes "source_capture env c q s = Inr (r, t)"
  shows "account_permission env c (SourceCapturing q) s"
proof -
  obtain d x where "account_authorize env (bl_context c) SourceCapture (ref_to RefSpace (bl_space c))
      (no_options\<lparr>ao_requestedAccessClass := cs_requestedAccessClass q\<rparr>) s = Inr (d, s)"
    "captured_text env c q s = Inr (x, s)"
    using assms unfolding source_capture_def Let_def by (simp only: op_bind_reads reads_intros) blast
  then show ?thesis using account_authorize_Inr captured_text_allowed by auto
qed

text \<open>A correction asks again once its command is reserved.\<close>

lemma account_reserve_commands:
  assumes "account_reserve env c s = Inr (q, u)"
  shows "\<exists>rows. u = s\<lparr>db_commands := rows\<rparr>"
proof -
  obtain reservation rows where "(case reservation of
       Replay command \<Rightarrow>
         op_bind (op_lift (ok_or B1CommandInvariantError (parseStoredB1Result (ae_uuid env) (ae_datetime env)
           (b1_kind_of (bl_payload c)) (stored_response command)))) (\<lambda>result. op_return (StoredResult result))
     | Reserved commandId \<Rightarrow>
         op_bind (op_require B1CommandInvariantError (\<not> commandId \<noteq> drawn env commandDraw)) (\<lambda>_.
         op_return (NewCommand (drawn env commandDraw)))) (s\<lparr>db_commands := rows\<rparr>) = Inr (q, u)"
    using assms unfolding account_reserve_def op_bind_Inr op_on_Inr by blast
  then show ?thesis by (cases reservation) (auto simp: op_bind_Inr op_lift_Inr op_return_Inr op_require_Inr)
qed

lemma source_correct_rechecks:
  assumes "source_correct env c x s = Inr (r, t)" "db_sources t \<noteq> db_sources s"
  shows "\<exists>rows. source_permitted env c SourceCorrect (xs_predecessorSourceArtifactId x) (s\<lparr>db_commands := rows\<rparr>)"
proof -
  obtain activityId where "reserved_work env c (correction_work env c x activityId) s = Inr (r, t)"
    using assms(1) unfolding source_correct_def Let_def
    by (simp only: op_bind_reads reads_intros split_paired_Ex prod.case) blast
  then obtain q u where res: "account_reserve env c s = Inr (q, u)" and
    rest: "(case q of StoredResult result \<Rightarrow> op_return result | NewCommand i \<Rightarrow> correction_work env c x activityId i) u = Inr (r, t)"
    unfolding reserved_work_def op_bind_Inr by blast
  obtain rows where u: "u = s\<lparr>db_commands := rows\<rparr>" using account_reserve_commands[OF res] by blast
  obtain i where "correction_work env c x activityId i u = Inr (r, t)"
    using rest assms(2) u by (cases q) (auto simp: op_return_Inr)
  from this[unfolded correction_work_def Let_def] obtain predecessor :: source_view and v d where v: "op_require B1CommandInvariantError
      (\<not> (sj_id predecessor \<noteq> xs_predecessorSourceArtifactId x \<or> sj_spaceId predecessor \<noteq> bl_space c)) u = Inr (v, u)"
    and d: "permit_source env c SourceCorrect (sj_id predecessor) u = Inr (d, u)"
    by (simp only: op_bind_reads reads_intros) blast
  have "sj_id predecessor = xs_predecessorSourceArtifactId x" using v by (simp add: op_require_Inr)
  then show ?thesis using permit_source_allowed[OF d] u by auto
qed

lemma account_command_permitted: "account_command env c p s = Inr (r, t) \<Longrightarrow> account_permission env c p s"
  by (cases p) (simp_all only: account_command.simps organization_create_permitted initiative_create_permitted
      activity_create_permitted relationship_create_permitted content_create_permitted
      relationship_finish_permitted content_permitted source_capture_permitted)

section \<open>Kinds of results\<close>

lemma account_record_result: "account_record env c i ch rt result s = Inr (r, t) \<Longrightarrow> r = result"
  unfolding account_record_def op_bind_Inr op_return_Inr by blast

lemma stored_result_kind: "parseStoredB1Result uuid datetime kind v = Some r \<Longrightarrow> result_kind r = kind"
  by (cases kind) (auto simp: parseStoredB1Result_def created_schema_def sourced_schema_def bind_Some_iff)

lemma reserved_kind:
  assumes run: "reserved_work env c work s = Inr (r, t)" and p: "bl_payload c = p"
    and work: "\<And>i u. work i u = Inr (r, t) \<Longrightarrow> result_kind r = b1_kind_of p"
  shows "result_kind r = b1_kind_of p"
proof -
  obtain q u where res: "account_reserve env c s = Inr (q, u)" and
    rest: "(case q of StoredResult result \<Rightarrow> op_return result | NewCommand i \<Rightarrow> work i) u = Inr (r, t)"
    using run unfolding reserved_work_def op_bind_Inr by blast
  show ?thesis
  proof (cases q)
    case (NewCommand i)
    then show ?thesis using rest work by simp
  next
    case (StoredResult result)
    obtain a w where "(case a of
       Replay command \<Rightarrow>
         op_bind (op_lift (ok_or B1CommandInvariantError (parseStoredB1Result (ae_uuid env) (ae_datetime env)
           (b1_kind_of (bl_payload c)) (stored_response command)))) (\<lambda>result.
         op_return (StoredResult result))
     | Reserved commandId \<Rightarrow>
         op_bind (op_require B1CommandInvariantError (\<not> commandId \<noteq> drawn env commandDraw)) (\<lambda>_.
         op_return (NewCommand (drawn env commandDraw)))) w = Inr (StoredResult result, u)"
      using res unfolding StoredResult account_reserve_def op_bind_Inr by blast
    then obtain v where "parseStoredB1Result (ae_uuid env) (ae_datetime env) (b1_kind_of (bl_payload c)) v = Some result"
      by (cases a) (auto simp: op_bind_Inr op_lift_Inr op_return_Inr ok_or_def split: option.splits)
    then show ?thesis using stored_result_kind rest StoredResult p by (simp add: op_return_Inr)
  qed
qed

lemma child_work_kinds:
  "organization_work env c p pin i u = Inr (r, t) \<Longrightarrow> result_kind r = OrganizationCreateKind"
  "initiative_work env c x k i u = Inr (r, t) \<Longrightarrow> result_kind r = InitiativeCreateKind"
  unfolding organization_work_def initiative_work_def child_record_def Let_def op_bind_Inr op_return_Inr
  by (elim exE conjE child_scope_Inr, simp add: op_bind_Inr op_return_Inr, blast?)+

lemma ending_work_kind:
  assumes "ending_work env c d rel au i u = Inr (r, t)"
  shows "result_kind r = RelationshipEndKind"
proof -
  obtain updated :: "(jstr \<times> int) option option" and v where "(case updated of
       None \<Rightarrow> op_fail B1AuthorizationError
     | Some None \<Rightarrow> op_fail B1CommandInvariantError
     | Some (Some (_, version)) \<Rightarrow> account_record env c i (ending_change c d (gr_id rel) version)
         ''relationship'' (EndedResult (gr_id rel) version (er_validTo d))) v = Inr (r, t)"
    using assms unfolding ending_work_def op_bind_Inr by blast
  then show ?thesis by (auto simp: op_fail_Inr split: option.splits dest!: account_record_result)
qed

lemma work_kinds:
  "activity_work env c a i u = Inr (r, t) \<Longrightarrow> result_kind r = ActivityCreateKind"
  "relationship_work env c b i u = Inr (r, t) \<Longrightarrow> result_kind r = RelationshipCreateKind"
  "content_work env c e i u = Inr (r, t) \<Longrightarrow> result_kind r = ContentCreateKind"
  "revision_work env c f it i u = Inr (r, t) \<Longrightarrow> result_kind r = ContentReviseKind"
  "capture_work env c act g i u = Inr (r, t) \<Longrightarrow> result_kind r = SourceCaptureKind"
  "correction_work env c h act i u = Inr (r, t) \<Longrightarrow> result_kind r = SourceCorrectKind"
  "tombstone_work env c k src i u = Inr (r, t) \<Longrightarrow> result_kind r = SourceTombstoneKind"
  unfolding activity_work_def relationship_work_def content_work_def revision_work_def capture_work_def
    correction_work_def tombstone_work_def Let_def op_bind_Inr
  by (auto simp: op_fail_Inr split: option.splits prod.splits dest!: account_record_result)

lemma account_command_kind:
  assumes "account_command env c p s = Inr (r, t)" and p: "bl_payload c = p"
  shows "result_kind r = b1_kind_of p"
proof -
  obtain work where "reserved_work env c work s = Inr (r, t)" "\<And>i u. work i u = Inr (r, t) \<Longrightarrow> result_kind r = b1_kind_of p"
  proof (cases p)
    case (OrganizationCreation q)
    obtain pin where "reserved_work env c (organization_work env c q pin) s = Inr (r, t)"
      using assms(1) unfolding OrganizationCreation account_command.simps organization_create_def
      by (simp only: op_bind_reads reads_intros) blast
    then show thesis using that child_work_kinds(1) by (simp add: OrganizationCreation)
  next
    case (InitiativeCreation q)
    obtain x k where "reserved_work env c (initiative_work env c x k) s = Inr (r, t)"
      using assms(1) unfolding InitiativeCreation account_command.simps initiative_create_def Let_def
      by (simp only: op_bind_reads reads_intros) blast
    then show thesis using that child_work_kinds(2) by (simp add: InitiativeCreation)
  next
    case (ActivityCreation q)
    obtain x where "reserved_work env c (activity_work env c x) s = Inr (r, t)"
      using assms(1) unfolding ActivityCreation account_command.simps activity_create_def Let_def
      by (simp only: op_bind_reads reads_intros) blast
    then show thesis using that work_kinds(1) by (simp add: ActivityCreation)
  next
    case (RelationshipCreation q)
    have "reserved_work env c (relationship_work env c q) s = Inr (r, t)"
      using assms(1) unfolding RelationshipCreation account_command.simps relationship_create_def
      by (simp only: op_bind_reads reads_intros) blast
    then show thesis using that work_kinds(2) by (simp add: RelationshipCreation)
  next
    case (RelationshipEnding q)
    obtain x a where "reserved_work env c (ending_work env c q x a) s = Inr (r, t)"
      using assms(1) unfolding RelationshipEnding account_command.simps relationship_finish_def Let_def
      by (simp only: op_bind_reads reads_intros) blast
    then show thesis using that ending_work_kind by (simp add: RelationshipEnding)
  next
    case (ContentCreation q)
    obtain x where "reserved_work env c (content_work env c x) s = Inr (r, t)"
      using assms(1) unfolding ContentCreation account_command.simps content_create_def Let_def
      by (simp only: op_bind_reads reads_intros) blast
    then show thesis using that work_kinds(3) by (simp add: ContentCreation)
  next
    case (ContentRevision q)
    obtain x where "reserved_work env c (revision_work env c q x) s = Inr (r, t)"
      using assms(1) unfolding ContentRevision account_command.simps content_revise_def
      by (simp only: op_bind_reads reads_intros) blast
    then show thesis using that work_kinds(4) by (simp add: ContentRevision)
  next
    case (SourceCapturing q)
    obtain x y where "reserved_work env c (capture_work env c x y) s = Inr (r, t)"
      using assms(1) unfolding SourceCapturing account_command.simps source_capture_def Let_def
      by (simp only: op_bind_reads reads_intros split_paired_Ex prod.case) blast
    then show thesis using that work_kinds(5) by (simp add: SourceCapturing)
  next
    case (SourceCorrection q)
    obtain x where "reserved_work env c (correction_work env c q x) s = Inr (r, t)"
      using assms(1) unfolding SourceCorrection account_command.simps source_correct_def Let_def
      by (simp only: op_bind_reads reads_intros split_paired_Ex prod.case) blast
    then show thesis using that work_kinds(6) by (simp add: SourceCorrection)
  next
    case (SourceTombstoning q)
    obtain x where "reserved_work env c (tombstone_work env c q x) s = Inr (r, t)"
      using assms(1) unfolding SourceTombstoning account_command.simps source_tombstone_def
      by (simp only: op_bind_reads reads_intros) blast
    then show thesis using that work_kinds(7) by (simp add: SourceTombstoning)
  qed
  then show ?thesis using reserved_kind p by blast
qed

end
