(* ===== verification/Service_Returns.thy ===== *)
theory Service_Returns
  imports Quiet_Decisions
begin

text \<open>
  Every decision of the authorisation service ends, whatever other transactions commit meanwhile: the only
  statements that could run for ever are the recursive queries over the ancestors of a space, and they end
  on snapshots in which no space lies above itself.
\<close>

named_theorems returning_intros \<open>operations that end\<close>

lemmas [returning_intros] = returning_bind returning_basic

lemma returning_denied [returning_intros]: "returning (denied ctx code explanation)" "returning (not_available ctx)"
  by (simp_all add: denied_def not_available_def)

lemma returning_if [returning_intros]: "returning m \<Longrightarrow> returning n \<Longrightarrow> returning (if b then m else n)"
  by simp

lemma returning_each [returning_intros]: "(\<And>x. returning (f x)) \<Longrightarrow> returning (op_each f xs)"
  by (induction xs) (auto intro!: returning_intros)

lemma returning_row [returning_intros]:
  "(\<And>r. returning (continue r)) \<Longrightarrow> returning (require_row env ctx q locks ok code explanation continue)"
  unfolding require_row_def by (auto intro!: returning_intros split: list.split)

lemma returning_discovery [returning_intros]: "returning (discover f)" "returning discovered_inconsistent"
  by (simp_all add: discover_def discovered_inconsistent_def)

section \<open>Statements of their own\<close>

lemma returning_loads [returning_intros]:
  "returning (loadActivePolicyRecord env ctx lock)" "returning (loadActivePolicyVersion env ctx lock)"
  "returning (loadActiveMembership env ctx lock)"
  by (auto simp: loadActivePolicyRecord_def loadActivePolicyVersion_def loadActiveMembership_def
      intro!: returning_intros)

lemma returning_contributor [returning_intros]: "returning (contributorAuthority env ctx i role lock)"
  unfolding contributorAuthority_def by (auto intro!: returning_intros split: list.split)

lemma returning_scope [returning_intros]: "returning (b1_scope env ctx action resource options)"
  by (auto simp: b1_scope_def loadB1ResourceScope_def intro!: returning_intros split: option.splits)

lemma returning_target [returning_intros]: "returning (loadTruthAuthorityTarget env ctx action resource options)"
  by (auto simp: loadTruthAuthorityTarget_def intro!: returning_intros split: option.splits)

section \<open>Decisions\<close>

lemmas [returning_intros] = returning_can_read

lemma returning_person_read [returning_intros]:
  "history_acyclic env \<Longrightarrow> returning (personReadDecision env ctx role resource options)"
  unfolding personReadDecision_def by (auto intro!: returning_intros split: option.split)

lemma returning_truth_parts [returning_intros]:
  "history_acyclic env \<Longrightarrow> returning (decide_fact_owner env ctx role options actor f w)"
  "history_acyclic env \<Longrightarrow> returning (decide_fact_lifecycle env ctx role options actor row)"
  "history_acyclic env \<Longrightarrow> returning (decide_objective_proposal env ctx role action options actor proposal)"
  "history_acyclic env \<Longrightarrow> returning (decide_truth_target env ctx role action options actor target)"
  by (auto simp: decide_fact_owner_def decide_fact_lifecycle_def decide_objective_proposal_def decide_truth_target_def
      Let_def intro!: returning_intros split: list.split prod.split)

lemma returning_truth [returning_intros]:
  "history_acyclic env \<Longrightarrow> returning (truthMutationDecision env ctx role action resource options membership)"
  by (auto simp: truthMutationDecision_def objectiveProposalMutationDecision_def factLifecycleMutationDecision_def
      intro!: returning_intros split: list.split option.split)

lemma returning_b1 [returning_intros]:
  "history_acyclic env \<Longrightarrow> returning (b1Decision env ctx role action resource options membership)"
  unfolding b1Decision_def by (auto intro!: returning_intros split: option.split)

lemma returning_a2 [returning_intros]:
  "history_acyclic env \<Longrightarrow> returning (a2Decision env ctx role action resource options)"
  unfolding a2Decision_def by (cases action) (auto intro!: returning_intros)

lemma returning_person [returning_intros]:
  "history_acyclic env \<Longrightarrow> returning (person_decision env ctx action resource options)"
  unfolding person_decision_def by (auto intro!: returning_intros split: option.split)

lemma returning_principals [returning_intros]:
  "returning (productOutboxRelayPublishDecision env ctx resource options)"
  "returning (foundationRelayPublishDecision env ctx resource options)"
  "returning (foundationWorkerConsumeDecision env ctx resource options)"
  "history_acyclic env \<Longrightarrow> returning (foundationProofCreateDecision env ctx resource options)"
  by (auto simp: productOutboxRelayPublishDecision_def foundationRelayPublishDecision_def
      foundationWorkerConsumeDecision_def worker_chain_def foundationProofCreateDecision_def Let_def
      intro!: returning_intros split: list.split option.split)

lemma returning_can: "history_acyclic env \<Longrightarrow> returning (canInTransaction env ctx action resource options)"
  unfolding canInTransaction_def decideInTransaction_def
  by (cases action) (auto intro!: returning_intros split: sum.split)

section \<open>The batch of a relationship\<close>

lemma returning_batch_parts [returning_intros]:
  "history_acyclic env \<Longrightarrow> returning (evaluated env ctx policy actor requests)"
  "returning (relock env ctx policy actor i)"
  by (auto simp: evaluated_def evaluateRelationshipAuthorityRequests_def relationshipSpaceReadDecision_def relock_def
      lockRelationshipAuthoritySpaces_def lockRelationshipAuthorityGrants_def intro!: returning_intros)

lemma returning_batch:
  assumes "history_acyclic env"
  shows "returning (lockAndReauthorizeRelationshipAuthority env ctx requests)"
    "returning (preauthorizeRelationshipEnd env ctx resource)"
  using assms by (auto simp: lockAndReauthorizeRelationshipAuthority_def preauthorizeRelationshipEnd_def
      intro!: returning_intros split: sum.split option.split)

end
