(* ===== verification/Account_Promises.thy ===== *)
theory Account_Promises
  imports Account_Permissions Account_Invariant Service_Returns
begin

text \<open>
  The promises of the account operations as a whole. A run of the command bus is one call of
  \<open>account_execute\<close> with any received object, caller and environment whose server keeps the keys; normal form
  and hash are those of the tables.
\<close>

section \<open>One call\<close>

lemma account_caused_books:
  "db_commands t = db_commands s \<Longrightarrow> db_audit t = db_audit s \<Longrightarrow> db_outbox t = db_outbox s \<Longrightarrow>
     account_caused t = account_caused s"
  by (simp add: account_caused_def account_command_ids_def)

lemma account_caused_receipt:
  assumes "account_caused s" and r: "account_receipt input result s t"
  shows "account_caused t"
proof -
  let ?i = "ri_id input"
  obtain row a e where t: "db_commands t = db_commands s @ [row]" "db_audit t = db_audit s @ [a]"
      "db_outbox t = db_outbox s @ [pending_row e]" "ci_id (cr_identity row) = ?i" "cr_state row = CompletedCommand"
      "au_causation_command_id a = ?i" "ei_causation_command_id e = ?i"
    using r unfolding account_receipt_def Let_def by blast
  have ids: "account_command_ids t = insert ?i (account_command_ids s)" using t by (simp add: account_command_ids_def)
  have "ob_event (pending_row e) = e" by (simp add: pending_row_def)
  then show ?thesis using assms(1) t unfolding account_caused_def ids by (auto simp: all_completed_def)
qed

definition account_bus_ok :: "(jstr \<Rightarrow> jstr) \<Rightarrow> (nat list \<Rightarrow> jstr) \<Rightarrow> account_db \<Rightarrow> bool" where
  "account_bus_ok nfc sha256 s \<longleftrightarrow> account_ok nfc sha256 s \<and> account_caused s \<and> at_rest s"

text \<open>The settings of a transaction are set before the command and cleared after it.\<close>

lemma in_transaction_Inr:
  assumes "in_transaction context m s = Inr (a, t)"
  obtains s' t' where "account_books s s'" "db_commands s' = db_commands s" "db_audit s' = db_audit s"
    "db_outbox s' = db_outbox s" "m s' = Inr (a, t')"
    "s' = s\<lparr>db_space_setting := space_setting context, db_child_scope_active := False, db_child := None\<rparr>"
    "t = t'\<lparr>db_space_setting := None, db_child_scope_active := False, db_child := None\<rparr>"
proof -
  let ?s = "s\<lparr>db_space_setting := space_setting context, db_child_scope_active := False, db_child := None\<rparr>"
  obtain t' where "m ?s = Inr (a, t')" "t = t'\<lparr>db_space_setting := None, db_child_scope_active := False, db_child := None\<rparr>"
    using assms unfolding in_transaction_def op_bind_Inr op_modify_Inr op_return_Inr by blast
  then show ?thesis by (intro that[of ?s t']) (simp_all add: account_books_def)
qed

text \<open>Whatever a call returns, the tables are as before or a command ran to its end.\<close>

lemma account_execute_cases:
  assumes "account_execute env earlier input context s = (t, r)"
  obtains "t = s" "\<nexists>result. r = Inr result"
    | command p spaceId c result s' t' where "parseB1Command (ae_uuid env) (ae_datetime env) input = Some command"
      "p = canonicalizeB1Payload (bc1_payload command)" "account_space_of env earlier context p = Inr spaceId"
      "transaction_entered (ae_uuid env) (ae_tx env) (context\<lparr>sx_requestedSpaceIds := [spaceId]\<rparr>)"
      "account_role env = Inr ()"
      "account_call_of env (context\<lparr>sx_requestedSpaceIds := [spaceId]\<rparr>) (bc1_idempotencyKey command) p spaceId = Inr c"
      "s' = s\<lparr>db_space_setting := space_setting (context\<lparr>sx_requestedSpaceIds := [spaceId]\<rparr>),
         db_child_scope_active := False, db_child := None\<rparr>"
      "account_command env c p s' = Inr (result, t')"
      "t = t'\<lparr>db_space_setting := None, db_child_scope_active := False, db_child := None\<rparr>"
      "\<And>result'. r = Inr result' \<Longrightarrow> result' = result"
proof -
  note unchanged = that(1) and changed = that(2)
  have stop: thesis if "t = s" "r = Inl e" for e using that by (intro unchanged) simp_all
  show thesis
  proof (cases "parseB1Command (ae_uuid env) (ae_datetime env) input")
    case None
    then show ?thesis using assms stop by (auto simp: account_execute_def)
  next
    case command: (Some command)
    let ?p = "canonicalizeB1Payload (bc1_payload command)"
    show ?thesis
    proof (cases "account_space_of env earlier context ?p")
      case (Inl e)
      then show ?thesis using assms stop command by (auto simp: account_execute_def Let_def)
    next
      case space: (Inr spaceId)
      let ?narrowed = "context\<lparr>sx_requestedSpaceIds := [spaceId]\<rparr>"
      let ?body = "account_body env ?narrowed (bc1_idempotencyKey command) ?p spaceId"
      obtain r' where tx: "withTenantTransaction (ae_uuid env) B1ThrownError (ae_tx env) ?narrowed (run ?body) s = (t, r')"
        and r: "r = map_sum (account_normal_error ?p) id r'"
        using assms command space by (auto simp: account_execute_def Let_def apsnd_def map_prod_def split: prod.splits)
      have ran: thesis if entered: "transaction_entered (ae_uuid env) (ae_tx env) ?narrowed"
        and body: "run ?body s = (t, Inr result)" and same: "\<And>result'. r = Inr result' \<Longrightarrow> result' = result" for result
      proof -
        obtain s' t' where st: "op_bind (op_lift (account_role env)) (\<lambda>_.
             op_bind (op_lift (account_call_of env ?narrowed (bc1_idempotencyKey command) ?p spaceId)) (\<lambda>c.
             account_command env c ?p)) s' = Inr (result, t')"
            "s' = s\<lparr>db_space_setting := space_setting ?narrowed, db_child_scope_active := False, db_child := None\<rparr>"
            "t = t'\<lparr>db_space_setting := None, db_child_scope_active := False, db_child := None\<rparr>"
          using body unfolding run_Inr_iff account_body_def by (rule in_transaction_Inr)
        obtain c where "account_role env = Inr ()" "account_command env c ?p s' = Inr (result, t')"
            "account_call_of env ?narrowed (bc1_idempotencyKey command) ?p spaceId = Inr c"
          using st(1) by (auto simp: op_bind_Inr op_lift_Inr)
        then show thesis using changed[OF command refl space entered _ _ st(2) _ st(3) same] by blast
      qed
      show ?thesis
      proof (cases r')
        case (Inr result)
        then show ?thesis using withTenantTransaction_Inr[OF tx[unfolded Inr]] r by (intro ran[of result]) simp_all
      next
        case (Inl e)
        from withTenantTransaction_atomic[OF tx] show ?thesis
        proof (elim disjE conjE exE)
          fix a assume "transaction_entered (ae_uuid env) (ae_tx env) ?narrowed" "run ?body s = (t, Inr a)"
          then show ?thesis using r Inl by (intro ran[of a]) simp_all
        qed (use stop r Inl in simp)
      qed
    qed
  qed
qed

lemma account_call_of_Inr:
  assumes "account_call_of env context key p spaceId = Inr c"
  shows "bl_context c = context" "bl_key c = key" "bl_payload c = p" "bl_space c = spaceId"
    "account_actor context = Inr (bl_actor c)" "hashCanonicalCommandRequest (ae_sha256 env) (b1_request_value p) = Some (bl_hash c)"
  using assms by (auto simp: account_call_of_def split: sum.splits option.splits)

lemma account_receipt_cong:
  "db_commands s' = db_commands s \<Longrightarrow> db_audit s' = db_audit s \<Longrightarrow> db_outbox s' = db_outbox s \<Longrightarrow>
   db_commands t' = db_commands t \<Longrightarrow> db_audit t' = db_audit t \<Longrightarrow> db_outbox t' = db_outbox t \<Longrightarrow>
   account_receipt input result s' t' = account_receipt input result s t"
  by (simp add: account_receipt_def account_command_ids_def)

lemma account_execute_outcome:
  assumes run: "account_execute env earlier input context s = (t, r)"
    and ok: "account_bus_ok (ae_nfc env) (ae_sha256 env) s" and keys: "guards_keys (ae_refuses env)"
  obtains "t = s" "\<nexists>result. r = Inr result"
    | command spaceId c result where "parseB1Command (ae_uuid env) (ae_datetime env) input = Some command"
      "account_space_of env earlier context (canonicalizeB1Payload (bc1_payload command)) = Inr spaceId"
      "account_call_of env (context\<lparr>sx_requestedSpaceIds := [spaceId]\<rparr>) (bc1_idempotencyKey command)
         (canonicalizeB1Payload (bc1_payload command)) spaceId = Inr c"
      "account_outcome env c result s t" "at_rest t" "\<And>result'. r = Inr result' \<Longrightarrow> result' = result"
      "result_kind result = b1_kind_of (bl_payload c)"
  using run
proof (cases rule: account_execute_cases)
  case (2 command p spaceId c result s' t')
  have books: "account_books s s'" "account_books t' t" by (simp_all add: 2(7,9) account_books_def)
  have same: "db_commands s' = db_commands s" "db_audit s' = db_audit s" "db_outbox s' = db_outbox s"
    "db_commands t = db_commands t'" "db_audit t = db_audit t'" "db_outbox t = db_outbox t'"
    by (simp_all add: 2(7,9))
  have rest: "at_rest t" by (simp add: 2(9) at_rest_def)
  have "account_ok (ae_nfc env) (ae_sha256 env) s'" "account_caused s'"
    using ok account_books_ok[OF books(1)] account_caused_books[OF same(1-3)] by (simp_all add: account_bus_ok_def)
  then have "account_outcome env c result s' t'" using account_command_outcome[OF 2(8) _ keys] by simp
  then have "account_outcome env c result s t"
    unfolding account_outcome_def
  proof
    assume "t' = s' \<and> account_replayed env c result s'"
    then have "t = s \<and> account_replayed env c result s"
      using ok same(1) by (simp add: 2(7,9) account_bus_ok_def at_rest_def account_replayed_def)
    then show "t = s \<and> account_replayed env c result s \<or> account_committed env c result s t" ..
  next
    assume "account_committed env c result s' t'"
    then have "account_step (ae_nfc env) (ae_sha256 env) s' t'" "account_keys t'"
        "account_receipt (account_reservation_of env c) result s' t'"
      by (simp_all add: account_committed_def kept_step_def)
    then have "account_committed env c result s t"
      using account_step_then_books[OF account_step_after_books[OF books(1)] books(2)] account_keys_books[OF books(2)]
        account_receipt_cong[OF same(1-3)[symmetric] same(4-6), of "account_reservation_of env c" result]
      by (simp add: account_committed_def kept_step_def)
    then show "t = s \<and> account_replayed env c result s \<or> account_committed env c result s t" ..
  qed
  moreover have "result_kind result = b1_kind_of (bl_payload c)"
    using account_command_kind[OF 2(8)] account_call_of_Inr(3)[OF 2(6)] by simp
  ultimately show ?thesis by (intro that(2)[OF 2(1)]) (use 2 rest in simp_all)
qed (rule that(1))

lemma account_execute_ok:
  assumes ok: "account_bus_ok (ae_nfc env) (ae_sha256 env) s" and run: "account_execute env earlier input context s = (t, r)"
    and keys: "guards_keys (ae_refuses env)"
  shows "account_bus_ok (ae_nfc env) (ae_sha256 env) t"
    "t = s \<or> (kept_step (ae_nfc env) (ae_sha256 env) s t \<and> (\<exists>c result. account_receipt (account_reservation_of env c) result s t))"
proof -
  have outcome: "t = s \<or> (\<exists>c result. account_committed env c result s t \<and> at_rest t)"
    using run ok keys by (cases rule: account_execute_outcome) (auto simp: account_outcome_def)
  then show "t = s \<or> (kept_step (ae_nfc env) (ae_sha256 env) s t \<and> (\<exists>c result. account_receipt (account_reservation_of env c) result s t))"
    by (auto simp: account_committed_def)
  show "account_bus_ok (ae_nfc env) (ae_sha256 env) t"
    using outcome ok accounts.step_ok account_caused_receipt
    unfolding account_committed_def account_bus_ok_def by blast
qed

section \<open>Runs\<close>

inductive account_bus_step ::
  "(jstr \<Rightarrow> jstr) \<Rightarrow> (nat list \<Rightarrow> jstr) \<Rightarrow> account_db \<Rightarrow> account_db \<Rightarrow> bool" for nfc sha256 where
  "account_execute env earlier input context s = (t, r) \<Longrightarrow> guards_keys (ae_refuses env) \<Longrightarrow> ae_nfc env = nfc \<Longrightarrow>
     ae_sha256 env = sha256 \<Longrightarrow> account_bus_step nfc sha256 s t"

inductive_cases account_bus_stepE: "account_bus_step nfc sha256 s t"

interpretation account_bus: running_system "kept_step nfc sha256" "account_ok nfc sha256" account_grows
    "account_bus_step nfc sha256" "account_bus_ok nfc sha256"
  for nfc :: "jstr \<Rightarrow> jstr" and sha256 :: "nat list \<Rightarrow> jstr"
proof unfold_locales
  show "account_bus_ok nfc sha256 s \<Longrightarrow> account_ok nfc sha256 s" for s by (simp add: account_bus_ok_def)
  show "account_bus_ok nfc sha256 s \<Longrightarrow> account_bus_step nfc sha256 s t \<Longrightarrow> account_bus_ok nfc sha256 t" for s t
    using account_execute_ok(1) by (blast elim: account_bus_stepE)
  show "account_bus_ok nfc sha256 s \<Longrightarrow> account_bus_step nfc sha256 s t \<Longrightarrow> t = s \<or> kept_step nfc sha256 s t" for s t
    using account_execute_ok(2) by (blast elim: account_bus_stepE)
qed

text \<open>The books of a run are only ever written at their ends.\<close>

lemma account_receipt_grows: "account_receipt input result s t \<Longrightarrow> account_records_grow s t"
  unfolding account_receipt_def Let_def account_records_grow_def by (elim conjE exE) (simp add: extends_append)

interpretation account_records: evolving_system "account_bus_step nfc sha256" "account_bus_ok nfc sha256" account_records_grow
  for nfc :: "jstr \<Rightarrow> jstr" and sha256 :: "nat list \<Rightarrow> jstr"
proof unfold_locales
  show "account_bus_ok nfc sha256 s \<Longrightarrow> account_bus_step nfc sha256 s t \<Longrightarrow> account_bus_ok nfc sha256 t" for s t
    by (rule account_bus.run_keeps)
  show same: "account_records_grow s s" for s by (simp add: account_records_grow_def extends_refl)
  show "account_records_grow s t \<Longrightarrow> account_records_grow t u \<Longrightarrow> account_records_grow s u" for s t u
    unfolding account_records_grow_def by (elim conjE) (intro conjI; rule extends_transitive; assumption?; blast)
  show "account_bus_ok nfc sha256 s \<Longrightarrow> account_bus_step nfc sha256 s t \<Longrightarrow> account_records_grow s t" for s t
    using account_execute_ok(2) account_receipt_grows same by (blast elim: account_bus_stepE)
qed

section \<open>Repeated commands\<close>

lemma account_call_kind:
  assumes "account_call_of env context key p spaceId = Inr c" "account_call_of env' context key p spaceId = Inr c'"
  shows "same_reservation (account_reservation_of env' c') row = same_reservation (account_reservation_of env c) row"
  using account_call_of_Inr[OF assms(1)] account_call_of_Inr[OF assms(2)]
  by (simp add: same_reservation_def account_reservation_of_def Let_def)

lemma account_receipt_row:
  assumes "account_receipt input result s t"
  obtains row where "db_commands t = db_commands s @ [row]" "same_reservation input row"
    "Some (cr_safe_response row) = response_column (Some (b1_result_value result))"
    "\<forall>q\<in>set (db_commands s). \<not> same_reservation input q"
proof -
  obtain row now safeRequest where "db_commands t = db_commands s @ [row]"
      "cr_identity row = cr_identity (reserved_row now safeRequest input)"
      "Some (cr_safe_response row) = response_column (Some (b1_result_value result))"
      "\<forall>q\<in>set (db_commands s). \<not> same_reservation input q"
    using assms unfolding account_receipt_def Let_def by blast
  then show ?thesis by (intro that[of row]) (simp_all add: same_reservation_def reserved_row_def)
qed

lemma account_replay_result:
  assumes first: "account_committed env c result s t" and again: "account_outcome env' c' result' t u"
    and same: "\<And>row. same_reservation (account_reservation_of env' c') row = same_reservation (account_reservation_of env c) row"
    and kind: "b1_kind_of (bl_payload c') = result_kind result"
  shows "u = t \<and> (result_fits (ae_uuid env') (ae_datetime env') result \<longrightarrow> result' = result)"
proof -
  obtain row where row: "db_commands t = db_commands s @ [row]" "same_reservation (account_reservation_of env c) row"
    "Some (cr_safe_response row) = response_column (Some (b1_result_value result))"
    "\<forall>q\<in>set (db_commands s). \<not> same_reservation (account_reservation_of env c) q"
    using first unfolding account_committed_def by (elim conjE account_receipt_row)
  have "\<not> account_committed env' c' result' t u"
  proof
    assume "account_committed env' c' result' t u"
    then obtain row' where "\<forall>q\<in>set (db_commands t). \<not> same_reservation (account_reservation_of env' c') q"
      unfolding account_committed_def by (elim conjE account_receipt_row)
    then show False using row(1,2) same by simp
  qed
  then have u: "u = t" and replayed: "account_replayed env' c' result' t"
    using again by (auto simp: account_outcome_def)
  obtain q where q: "q \<in> set (db_commands t)" "same_reservation (account_reservation_of env' c') q"
      "parseStoredB1Result (ae_uuid env') (ae_datetime env') (b1_kind_of (bl_payload c'))
         (case cr_safe_response q of None \<Rightarrow> JUndef | Some v \<Rightarrow> v) = Some result'"
    using replayed by (auto simp: account_replayed_def)
  have "q = row" using q(1,2) row(1,4) same by auto
  then have "result' = result" if fits: "result_fits (ae_uuid env') (ae_datetime env') result"
    using stored_result[OF row(3)[symmetric] fits] q(3) kind by auto
  then show ?thesis using u by blast
qed

section \<open>The promises\<close>

text \<open>C8: The account operations refine their specification: one call of the command bus, with any received
  object, caller and environment whose server keeps the keys, keeps the invariant of the tables and either
  leaves them exactly as they were or takes one step of the specification.\<close>
theorem account_commands_refine:
  assumes "account_bus_ok (ae_nfc env) (ae_sha256 env) s" "guards_keys (ae_refuses env)"
    and "account_execute env earlier input context s = (t, r)"
  shows "account_bus_ok (ae_nfc env) (ae_sha256 env) t \<and>
    (t = s \<or> (account_step (ae_nfc env) (ae_sha256 env) s t \<and> account_keys t))"
  using account_execute_ok[OF assms(1,3,2)] by (auto simp: kept_step_def)

text \<open>C9: Over any sequence of calls the keys stay unique, the spaces of the workspace stay a forest, the
  revisions of every content item stay numbered from one to its current one, and of every source there are
  its text with exactly the chunks of its normal form as long as it is live, and neither once it is a
  tombstone.\<close>
theorem account_invariant:
  assumes "account_bus_ok nfc sha256 s" "(account_bus_step nfc sha256)\<^sup>*\<^sup>* s t"
  shows "account_keys t \<and> space_tree (db_spaces t) \<and> revisions_numbered t \<and> sources_stored nfc sha256 t \<and>
    corrections_ordered (db_sources t) \<and> account_caused t"
  using account_bus.runs_ok[OF assms(2,1)] by (simp add: account_bus_ok_def account_ok_def)

text \<open>C10: Over any sequence of calls rows are added and, but for the chunks of sources, never removed or
  moved: relationships are ended once, content items advance, sources become tombstones once, and spaces,
  grants, organizations, domains, initiatives, activities, revisions and links do not change. The chunks of a
  source stay as they are until it becomes a tombstone, which removes them. Of the completed commands, audit
  events and notifications nothing is changed either.\<close>
theorem account_history_is_kept:
  assumes "account_bus_ok nfc sha256 s" "(account_bus_step nfc sha256)\<^sup>*\<^sup>* s t"
  shows "account_grows s t \<and> account_records_grow s t"
  using account_bus.runs_below[OF assms(2,1)] account_records.reachable_below[OF assms(2,1)] ..

text \<open>C11: A call that changes the tables adds exactly one completed command record under a new key and a new
  id, one audit event and one pending notification, all about the same resource and naming the same command;
  the record holds the result.\<close>
theorem account_change_is_recorded:
  assumes "account_bus_ok (ae_nfc env) (ae_sha256 env) s" "guards_keys (ae_refuses env)"
    and "account_execute env earlier input context s = (t, r)" "t \<noteq> s"
  shows "\<exists>c result. account_receipt (account_reservation_of env c) result s t"
  using account_execute_ok(2)[OF assms(1,3,2)] assms(4) by blast


text \<open>C14: A call that reports an error leaves the tables as they were, unless the server did commit and the
  acknowledgement got lost or the settings of the transaction were found not to be cleared after it.\<close>
theorem account_error_changes_nothing:
  assumes "account_execute env earlier input context s = (t, Inl e)"
  shows "t = s \<or> (\<exists>e'. te_commit (ae_tx env) = CommitUnacknowledged e') \<or>
    (te_commit (ae_tx env) = CommitDone \<and> \<not> te_settings_cleared (ae_tx env))"
proof -
  have failed: "t = s \<or> (\<exists>e'. te_commit (ae_tx env) = CommitUnacknowledged e') \<or>
      (te_commit (ae_tx env) = CommitDone \<and> \<not> te_settings_cleared (ae_tx env))"
    if "apsnd (map_sum (account_normal_error p) id) (withTenantTransaction uuid thrown (ae_tx env) c body s) = (t, Inl e)"
    for p uuid thrown c and body :: "account_db \<Rightarrow> account_db \<times> (account_error + b1_result)"
  proof -
    obtain u r where tx: "withTenantTransaction uuid thrown (ae_tx env) c body s = (u, r)" by fastforce
    then show ?thesis using that withTenantTransaction_failed[of uuid thrown "ae_tx env" c body s] by (cases r) auto
  qed
  show ?thesis
    using assms by (auto simp: account_execute_def Let_def split: option.splits sum.splits dest!: failed)
qed

text \<open>C13: A command acts at most once: after a call that changed the tables, another call with the same
  received object and caller, in any environment that resolves the same space, changes nothing, and if it
  returns a result it returns the first one.\<close>
theorem account_command_acts_once:
  assumes ok: "account_bus_ok (ae_nfc env) (ae_sha256 env) s" "guards_keys (ae_refuses env)"
    and first: "account_execute env earlier input context s = (t, r)" "t \<noteq> s"
    and again: "account_execute env' earlier' input context t = (u, r')" "guards_keys (ae_refuses env')"
    and same: "ae_nfc env' = ae_nfc env" "ae_sha256 env' = ae_sha256 env" "ae_uuid env' = ae_uuid env"
      "ae_datetime env' = ae_datetime env"
    and space: "\<And>command spaceId spaceId'. parseB1Command (ae_uuid env) (ae_datetime env) input = Some command \<Longrightarrow>
      account_space_of env earlier context (canonicalizeB1Payload (bc1_payload command)) = Inr spaceId \<Longrightarrow>
      account_space_of env' earlier' context (canonicalizeB1Payload (bc1_payload command)) = Inr spaceId' \<Longrightarrow> spaceId' = spaceId"
  shows "u = t \<and> (\<forall>result result'. r = Inr result \<longrightarrow> r' = Inr result' \<longrightarrow>
    result_fits (ae_uuid env) (ae_datetime env) result \<longrightarrow> result' = result)"
proof -
  have ok': "account_bus_ok (ae_nfc env') (ae_sha256 env') t"
    using account_execute_ok(1)[OF ok(1) first(1) ok(2)] same by simp
  show ?thesis
    using again(1) ok' again(2)
  proof (cases rule: account_execute_outcome)
    case second: (2 command' spaceId' c' result')
    show ?thesis
      using first(1) ok
    proof (cases rule: account_execute_outcome)
      case one: (2 command spaceId c result)
      have command: "command' = command" using one(1) second(1) unfolding same by simp
      have spaces: "spaceId' = spaceId" using space[OF one(1,2)] second(2) unfolding command by blast
      have committed: "account_committed env c result s t" using one(4) first(2) by (simp add: account_outcome_def)
      have kind: "b1_kind_of (bl_payload c') = result_kind result"
        using one(7) account_call_of_Inr(3)[OF one(3)] account_call_of_Inr(3)[OF second(3)] command by simp
      have "u = t \<and> (result_fits (ae_uuid env') (ae_datetime env') result \<longrightarrow> result' = result)"
        by (rule account_replay_result[OF committed second(4) _ kind])
          (rule account_call_kind[OF one(3) second(3)[unfolded command spaces]])
      then show ?thesis using one(6) second(6) same by auto
    qed (use first(2) in blast)
  qed auto
qed

text \<open>C15: Over any sequence of calls the search for the current version of a source ends: with an error only
  when the source is not there, and otherwise with a source that nothing supersedes and that the corrections
  of the named one lead to.\<close>
theorem current_source_is_found:
  assumes "account_bus_ok nfc sha256 s" "(account_bus_step nfc sha256)\<^sup>*\<^sup>* s t"
  shows "\<exists>r. resolveCurrentSourceId tenantId workspaceId i t = Some r \<and>
    (case r of Inl e \<Rightarrow> e = ContentInvariantError SourceUnavailable \<and> sources_named tenantId workspaceId i t = []
     | Inr j \<Rightarrow> current_of tenantId workspaceId t i j)"
  by (rule resolveCurrentSourceId_returns)
    (use account_bus.runs_ok[OF assms(2,1)] in \<open>simp_all add: account_bus_ok_def account_ok_def\<close>)

text \<open>C16: Over any sequence of calls the authorisation service keeps deciding: when every snapshot that its
  statements read has the spaces of the tables after some of the calls, whatever commits between two
  statements, no decision about an action, and neither step of the authority of a relationship, runs for
  ever in the recursive queries over the ancestors of a space.\<close>
theorem account_decisions_end:
  assumes "account_bus_ok nfc sha256 s"
    and "\<And>k d. av_history auth k = Inr d \<Longrightarrow> directory_ok d \<and> (\<exists>t. (account_bus_step nfc sha256)\<^sup>*\<^sup>* s t \<and>
      map asp_id (dr_spaces d) = map asp_id (db_spaces t) \<and>
      map asp_parent_space_id (dr_spaces d) = map asp_parent_space_id (db_spaces t))"
  shows "canInTransaction auth context action resource options session \<noteq> Inl NeverReturns \<and>
    preauthorizeRelationshipEnd auth context resource session \<noteq> Inl NeverReturns \<and>
    lockAndReauthorizeRelationshipAuthority auth context requests session \<noteq> Inl NeverReturns"
proof -
  have "acyclic_spaces d" if d: "av_history auth k = Inr d" for k d
  proof -
    obtain t where t: "(account_bus_step nfc sha256)\<^sup>*\<^sup>* s t" and spaces: "map asp_id (dr_spaces d) = map asp_id (db_spaces t)"
        "map asp_parent_space_id (dr_spaces d) = map asp_parent_space_id (db_spaces t)"
      using assms(2)[OF d] by blast
    have "account_keys t" "space_tree (db_spaces t)"
      using account_bus.runs_ok[OF t assms(1)] by (simp_all add: account_bus_ok_def account_ok_def)
    then show ?thesis by (rule space_tree_acyclic[OF _ _ spaces])
  qed
  then have "history_acyclic auth" using assms(2) by (auto simp: history_acyclic_def)
  then show ?thesis using returning_can returning_batch unfolding returning_def by blast
qed

end
