(* ===== verification/Account_Examples.thy ===== *)
theory Account_Examples
  imports Account_Promises Truth_Examples
begin

text \<open>
  One call of the account command bus on concrete data, from the received object to the changed tables: the
  command \<open>content.create\<close> in a workspace with one space, whose relay holds the grant of the space, and one
  captured source with its correction. It shows that the hypotheses of the promises hold of a call that
  commits.
\<close>

section \<open>The data\<close>

definition account_example_world :: account_world where
  "account_example_world = \<lparr>aw_workspaces = [],
     aw_people = [\<lparr>pe_id = example_id 6, pe_tenant_id = example_id 7, pe_workspace_id = example_id 8\<rparr>],
     aw_principals = [\<lparr>sv_id = example_id 0, sv_tenant_id = example_id 7, sv_workspace_id = example_id 8,
       sv_purpose = RelayPurpose, sv_status = ActivePrincipal\<rparr>],
     aw_policies = [], aw_memberships = [], aw_users = [], aw_current_user = example_id 4\<rparr>"

definition account_example_env :: account_env where
  "account_example_env = \<lparr>ae_uuid = (\<lambda>_. True), ae_datetime = (\<lambda>_. True), ae_nfc = (\<lambda>s. s), ae_nfkd = (\<lambda>s. s),
     ae_lower = (\<lambda>s. s), ae_locale_lower = (\<lambda>s. s), ae_ascii = (\<lambda>s. s), ae_date = (\<lambda>_. None),
     ae_instant = (\<lambda>_. 0), ae_collate = (\<lambda>_. []), ae_compare = (\<lambda>_. []), ae_sha256 = (\<lambda>_. replicate 64 97),
     ae_now = 0, ae_random = (\<lambda>k. replicate 15 0 @ [word_of_nat k]), ae_millisecond = (\<lambda>_. 0),
     ae_refuses = (\<lambda>s t. if account_keys t then None else Some JUndef), ae_restore_fault = None,
     ae_reservation_world = account_example_world, ae_world = account_example_world, ae_profiles = [],
     ae_can = (\<lambda>_ _ _ _ _. Inr (allow (js ''v1'') (js ''b1_create'') None None)), ae_batching = False,
     ae_preauthorize = (\<lambda>_ _ _. Inl JUndef), ae_reauthorize = (\<lambda>_ _ _. Inl JUndef), ae_role = APP_ROLE,
     ae_reservation_tx = quiet 0, ae_tx = quiet 0\<rparr>"

definition example_artifact :: "nat \<Rightarrow> nat option \<Rightarrow> artifact_row" where
  "example_artifact i predecessor = \<lparr>ct_id = example_id i, ct_tenant_id = example_id 7,
     ct_workspace_id = example_id 8, ct_space_id = example_id 9, ct_access_class = Workspace,
     so_source_type = js ''note'', so_title = None, so_immutable_text = Some (js ''ab''),
     so_content_hash = Some (replicate 64 97), so_normalized_content_hash = Some (replicate 64 97),
     so_erase_hashes = False, so_origin = None, so_supersedes_source_id = map_option example_id predecessor,
     so_captured_by_user_id = example_id 4, so_captured_by_membership_id = example_id 5, so_occurred_at = None,
     so_retention_policy_id = None, so_deleted_at = None, so_deletion_reason = None,
     so_deletion_policy_ref = None, so_hashes_retained = None, so_version_number = 1\<rparr>"

definition example_chunk_row :: "nat \<Rightarrow> nat \<Rightarrow> source_chunk_row" where
  "example_chunk_row i j = \<lparr>cu_id = example_id i, cu_tenant_id = example_id 7, cu_workspace_id = example_id 8,
     cu_space_id = example_id 9, cu_source_artifact_id = example_id j, cu_chunk_index = 0, cu_start_offset = 0,
     cu_end_offset = 2, cu_normalized_text = js ''ab'', cu_content_hash = replicate 64 97,
     cu_access_class = Workspace\<rparr>"

definition example_accounts :: account_db where
  "example_accounts = \<lparr>db_space_setting = None, db_child_scope_active = False, db_child = None,
     db_commands = [], db_audit = [], db_outbox = [],
     db_spaces = [\<lparr>asp_id = example_id 9, asp_tenant_id = example_id 7, asp_workspace_id = example_id 8,
       asp_parent_space_id = None, asp_kind = OrganizationSpace, asp_access_class = Workspace,
       asp_inheritance_mode = Inherit, asp_archived = False, as_name = js ''s'', as_slug = js ''s''\<rparr>],
     db_grants = [\<lparr>ag_id = example_id 3, ag_tenant_id = example_id 7, ag_workspace_id = example_id 8,
       ag_subject_type = ServicePrincipalGrant, ag_subject_id = example_id 0, ag_relation = ManagerGrant,
       ag_resource_id = example_id 9, ag_source = DirectGrant\<rparr>],
     db_organizations = [], db_domains = [], db_initiatives = [], db_initiative_organizations = [],
     db_initiative_people = [], db_activities = [], db_activity_organizations = [],
     db_activity_initiatives = [], db_activity_attendees = [], db_relationships = [], db_contents = [],
     db_revisions = [], db_sources = [example_artifact 2 None, example_artifact 3 (Some 2)],
     db_chunks = [example_chunk_row 4 2, example_chunk_row 5 3], db_activity_sources = []\<rparr>"

definition example_content :: create_content where
  "example_content = \<lparr>ck_spaceId = example_id 9, ck_type = js ''note'', ck_title = js ''t'', ck_body = js ''b'',
     ck_ownerPersonId = None, ck_metadata = None\<rparr>"

definition content_request :: jsval where
  "content_request = JObj (object_of [(''kind'', JStr (js ''content.create'')), (''idempotencyKey'', JStr (js ''k'')),
     (''payload'', b1_payload_value (ContentCreation example_content))])"

lemma account_example_simps [simp]:
  "ae_uuid account_example_env = (\<lambda>_. True)" "ae_datetime account_example_env = (\<lambda>_. True)"
  "ae_nfc account_example_env = (\<lambda>s. s)" "ae_sha256 account_example_env = (\<lambda>_. replicate 64 97)"
  "ae_now account_example_env = 0" "ae_world account_example_env = account_example_world"
  "ae_refuses account_example_env = (\<lambda>s t. if account_keys t then None else Some JUndef)"
  "ae_can account_example_env = (\<lambda>_ _ _ _ _. Inr (allow (js ''v1'') (js ''b1_create'') None None))"
  "ae_role account_example_env = APP_ROLE" "ae_reservation_tx account_example_env = quiet 0"
  "ae_tx account_example_env = quiet 0"
  by (simp_all add: account_example_env_def)

lemma drawn_example [simp]: "uuid_v7 (drawn account_example_env k)"
  by (simp add: drawn_def generated_uuid_v7 account_example_env_def)

lemma account_example_guards: "guards_keys (ae_refuses account_example_env)"
  by (simp add: guards_keys_def)

section \<open>The tables are good\<close>

lemma example_chunks: "chunkNormalizedSource (\<lambda>_. replicate 64 97) (js ''ab'') =
  Some [make_chunk (\<lambda>_. replicate 64 97) (array_from (js ''ab'')) 0 0 2]"
proof -
  have scalars: "array_from [97, 98] = [[97], [98]]" "js ''ab'' = [97, 98]" by (simp_all add: js_def is_high_def)
  have "chunk_loop (\<lambda>_. replicate 64 97) [[97], [98]] 0 0 = Some [make_chunk (\<lambda>_. replicate 64 97) [[97], [98]] 0 0 2]"
    by (simp add: chunk_loop.simps chunk_end_def SOURCE_CHUNK_MAX_SCALARS_def Let_def) (simp add: numeral_2_eq_2)
  moreover obtain cs where "chunkNormalizedSource (\<lambda>_. replicate 64 97) (js ''ab'') = Some cs"
    using chunkNormalizedSource_total[of "js ''ab''" "\<lambda>_. replicate 64 97"]
    by (auto simp: js_def is_high_def is_low_def max_safe_integer_def)
  ultimately show ?thesis unfolding scalars(2) by (auto simp: chunkNormalizedSource_def bind_Some_iff scalars(1) simp del: array_from.simps)
qed

lemma example_stored: "stored_source (\<lambda>s. s) (\<lambda>_. replicate 64 97) (example_artifact i p) [example_chunk_row j i]"
proof -
  have "normalizeStoredSourceText (\<lambda>s. s) (js ''ab'') = Some (js ''ab'')"
    by (simp add: normalizeStoredSourceText_def Let_def strip_bom_def js_def is_high_def is_low_def trim_def
        trim_end_def is_whitespace_def)
  then show ?thesis
    using example_chunks
    by (simp add: stored_source_def example_artifact_def example_chunk_row_def chunk_columns_def chunk_members_def
        make_chunk_def Let_def) (simp add: js_def is_high_def scalar_slice_def)
qed

lemma example_accounts_ok: "account_bus_ok (\<lambda>s. s) (\<lambda>_. replicate 64 97) example_accounts"
proof -
  have keys: "account_keys example_accounts"
    by (simp add: account_keys_def example_accounts_def example_artifact_def)
  have tree: "space_tree (db_spaces example_accounts)" by (simp add: space_tree_def example_accounts_def)
  have numbered: "revisions_numbered example_accounts" by (simp add: revisions_numbered_def example_accounts_def)
  have chunks: "chunks_of (db_chunks example_accounts) (example_id 2) = [example_chunk_row 4 2]"
    "chunks_of (db_chunks example_accounts) (example_id 3) = [example_chunk_row 5 3]"
    by (simp_all add: chunks_of_def example_accounts_def example_chunk_row_def)
  have sources: "db_sources example_accounts = [example_artifact 2 None, example_artifact 3 (Some 2)]"
    by (simp add: example_accounts_def)
  have ids: "ct_id (example_artifact i p) = example_id i" for i p by (simp add: example_artifact_def)
  have stored: "sources_stored (\<lambda>s. s) (\<lambda>_. replicate 64 97) example_accounts"
    unfolding sources_stored_def sources using example_stored
    by (simp add: ids chunks) (simp add: example_accounts_def example_chunk_row_def)
  have ordered: "corrections_ordered (db_sources example_accounts)"
    by (auto simp: corrections_ordered_def sources ids less_Suc_eq) (auto simp: example_artifact_def)
  have "account_caused example_accounts" "at_rest example_accounts"
    by (simp_all add: account_caused_def example_accounts_def all_completed_def at_rest_def)
  then show ?thesis using keys tree numbered stored ordered by (simp add: account_bus_ok_def account_ok_def)
qed

section \<open>The call\<close>

definition content_call :: account_call where
  "content_call = \<lparr>bl_context = example_context, bl_actor = \<lparr>ha_userId = example_id 4,
     ha_membershipId = example_id 5, ha_displayPersonId = example_id 6\<rparr>, bl_key = js ''k'',
     bl_payload = ContentCreation example_content, bl_hash = replicate 64 97, bl_space = example_id 9,
     bl_trace = [48, 48, 45] @ replicate 32 97 @ [45] @ replicate 16 97 @ [45, 48, 49]\<rparr>"

lemma content_call_simps [simp]:
  "bl_context content_call = example_context" "bl_key content_call = js ''k''"
  "bl_payload content_call = ContentCreation example_content" "bl_hash content_call = replicate 64 97"
  "bl_space content_call = example_id 9"
  "bl_actor content_call = \<lparr>ha_userId = example_id 4, ha_membershipId = example_id 5, ha_displayPersonId = example_id 6\<rparr>"
  "bl_trace content_call = [48, 48, 45] @ replicate 32 97 @ [45] @ replicate 16 97 @ [45, 48, 49]"
  by (simp_all add: content_call_def)

lemma content_parses: "parseB1Command (\<lambda>_. True) (\<lambda>_. True) content_request =
  Some \<lparr>bc1_idempotencyKey = js ''k'', bc1_payload = ContentCreation example_content\<rparr>"
proof -
  have kind: "requireEnum b1_kind_string B1_COMMAND_KINDS (JStr (js ''content.create'')) = Some ContentCreateKind"
    by (simp add: requireEnum_def B1_COMMAND_KINDS_def)
  have key: "zod_idempotency_key (JStr (js ''k'')) = Some (js ''k'')"
    by (simp add: zod_idempotency_key_def zod_string_def js_def is_high_def)
  have payload: "content_schema (\<lambda>_. True) (b1_payload_value (ContentCreation example_content)) = Some example_content"
    by (simp add: content_schema_def zod_object_def zod_string_def zod_enum_def zod_title_def zod_body_def
        example_content_def opt_entry_def Let_def) (simp add: js_def trim_def trim_end_def is_whitespace_def string_keys_def object_of_def)
  show ?thesis using kind key payload
    by (simp add: parseB1Command_def content_request_def zod_object_def string_keys_def object_of_def fld_def
        del: b1_payload_value.simps)
qed

lemma content_calls: "account_call_of account_example_env example_context (js ''k'')
  (ContentCreation example_content) (example_id 9) = Inr content_call"
proof -
  have "jsonable (b1_request_value (ContentCreation example_content))"
    by (simp add: b1_request_value_def example_content_def opt_entry_def)
  then obtain t where "canonicalJsonStringify (b1_request_value (ContentCreation example_content)) = Some t"
    unfolding jsonable_def by blast
  then have hash: "hashCanonicalCommandRequest (\<lambda>_. replicate 64 97) (b1_request_value (ContentCreation example_content)) =
      Some (replicate 64 97)"
    by (simp add: hashCanonicalCommandRequest_def)
  have actor: "account_actor example_context = Inr \<lparr>ha_userId = example_id 4,
      ha_membershipId = example_id 5, ha_displayPersonId = example_id 6\<rparr>"
    by (simp add: account_actor_def example_actor_def present_def example_id_def js_def)
  have trace: "traceCarrier (\<lambda>_. replicate 64 97) example_context = bl_trace content_call"
    by (simp add: traceCarrier_def example_actor_def zeros_def hex_digest_def is_hex_def list_all_length
        is_lower_hex_def lower_ascii_def lower_ascii_unit_def js_def)
  show ?thesis using hash actor trace by (simp add: account_call_of_def content_call_def)
qed

lemma content_space: "account_space_of account_example_env s example_actor (ContentCreation example_content) = Inr (example_id 9)"
proof -
  have "withTenantTransaction (\<lambda>_. True) B1ThrownError (quiet 0) example_actor
      (run (in_transaction example_actor (op_bind (op_lift (account_role account_example_env))
        (\<lambda>_. account_reservation_space account_example_env example_actor (ContentCreation example_content))))) s =
      (s\<lparr>db_space_setting := None, db_child_scope_active := False, db_child := None\<rparr>, Inr (example_id 9))"
    by (rule withTenantTransaction_cleared[OF example_enters(2)])
      (auto simp: run_Inr_iff op_simps in_transaction_def account_role_def example_content_def)
  then show ?thesis by (simp add: account_space_of_def)
qed

lemma account_example_tables [simp]:
  "db_commands example_accounts = []" "db_audit example_accounts = []" "db_outbox example_accounts = []"
  "db_contents example_accounts = []" "db_revisions example_accounts = []"
  "db_grants example_accounts = [\<lparr>ag_id = example_id 3, ag_tenant_id = example_id 7, ag_workspace_id = example_id 8,
       ag_subject_type = ServicePrincipalGrant, ag_subject_id = example_id 0, ag_relation = ManagerGrant,
       ag_resource_id = example_id 9, ag_source = DirectGrant\<rparr>]"
  "db_space_setting example_accounts = None" "db_child example_accounts = None"
  "\<not> db_child_scope_active example_accounts"
  by (simp_all add: example_accounts_def)

abbreviation content_state :: account_db where
  "content_state \<equiv> example_accounts\<lparr>db_space_setting := Some (example_id 9)\<rparr>"

abbreviation "content_reservation \<equiv> account_reservation_of account_example_env content_call"

lemma content_reserves:
  assumes "db_commands s = []"
  shows "account_reserve account_example_env content_call s =
    Inr (NewCommand (drawn account_example_env commandDraw),
      s\<lparr>db_commands := [reserved_row 0 None content_reservation]\<rparr>)"
proof -
  have "validateReservationInput content_reservation" "ri_safeRequest content_reservation = None"
    by (simp_all add: account_reservation_of_def Let_def validateReservationInput_def example_actor_def account_kind_def
        not_empty_def keep_if_def sha256_hex_example)
  then have "reserve 0 content_reservation [] =
      Inr (Reserved (drawn account_example_env commandDraw), [reserved_row 0 None content_reservation])"
    by (simp add: reserve_def op_simps)
  then show ?thesis using assms by (simp add: account_reserve_def op_simps)
qed

abbreviation "content_made \<equiv> content_change account_example_env content_call"

lemma content_audits:
  obtains row where "audit_insert_event (account_audit_of account_example_env content_call commandId content_made) [] = Inr ((), [row])"
proof -
  let ?d = "JObj (object_of [(''contentItemId'', JStr (drawn account_example_env aggregateDraw))])"
  have "jsonable ?d" by simp
  then obtain t where "canonicalJsonStringify ?d = Some t" unfolding jsonable_def by blast
  moreover have "parseProductAuditSafeDetail AuditContentCreate (js ''content_item'') (drawn account_example_env aggregateDraw) 1 ?d =
      Some ?d"
    by (simp add: parseProductAuditSafeDetail_def PRODUCT_AUDIT_SCHEMA_VERSION_def requireResourceType_def
        singleResourceIdDetail_def bind_Some_iff)
  ultimately show thesis
    by (intro that) (simp add: audit_insert_event_def account_audit_of_def Let_def content_change_def changed_def op_simps
        del: canonicalJsonStringify.simps)
qed

definition content_envelope :: envelope where
  "content_envelope = \<lparr>en_eventId = drawn account_example_env eventDraw, en_eventType = ContentCreated,
     en_tenantId = example_id 7, en_workspaceId = example_id 8, en_spaceId = example_id 9,
     en_aggregateId = drawn account_example_env aggregateDraw, en_aggregateVersion = 1,
     en_causationCommandId = drawn account_example_env commandDraw,
     en_payload = SingleId (drawn account_example_env aggregateDraw),
     en_requestId = js ''r'', en_traceparent = bl_trace content_call, en_tracestate = None\<rparr>"

lemma content_envelope_of: "account_notification account_example_env content_call (drawn account_example_env commandDraw)
    content_made = envelope_value content_envelope"
  by (simp add: account_notification_def Let_def content_change_def changed_def envelope_value_def content_envelope_def
      example_actor_def opt_entry_def)

lemma content_envelope_version: "\<not> MAX_INTEGER < en_aggregateVersion content_envelope"
  by (simp add: content_envelope_def MAX_INTEGER_def)

lemma content_envelope_parses: "parseDomainNotificationEnvelope (envelope_value content_envelope) = Some content_envelope"
proof (rule parse_envelope_of_wf)
  let ?t = "[48, 48, 45] @ replicate 32 97 @ [45] @ replicate 16 97 @ [45, 48, 49]"
  have "parse_event_payload ContentCreated (drawn account_example_env aggregateDraw)
      (JObj (object_of [(''contentItemId'', JStr (drawn account_example_env aggregateDraw))])) =
      Some (SingleId (drawn account_example_env aggregateDraw))"
    by (simp add: singleIdPayload_def bind_Some_iff)
  moreover have "traceparent_ok ?t"
    by (simp add: traceparent_ok_def traceparent_pattern_def units_def eval_nat_numeral is_lower_hex_def is_digit_def)
  moreover have "bounded_string 200 (js ''r'')"
    by (simp add: bounded_string_def hasControlCharacters_def js_def)
  ultimately show "wf_envelope content_envelope"
    by (simp add: wf_envelope_def content_envelope_def max_safe_integer_def opt_entry_def
        del: parse_event_payload.simps)
qed

lemma content_announces:
  assumes "db_outbox s = []"
  obtains row where "account_outbox 0 \<lparr>oi_envelope = envelope_value content_envelope,
    oi_relayServicePrincipalId = relay, oi_policyVersionId = policy\<rparr> s = Inr ((), s\<lparr>db_outbox := [row]\<rparr>)"
  using assms serialize_parsed[OF content_envelope_parses] content_envelope_version
  by (intro that) (auto simp: account_outbox_def insertOrReplay_def content_envelope_parses Let_def)

lemma content_completes:
  assumes "db_commands s = [reserved_row 0 None content_reservation]"
  obtains row where "account_complete account_example_env content_call (drawn account_example_env commandDraw) ''content_item''
      (drawn account_example_env aggregateDraw) (ContentResult (drawn account_example_env aggregateDraw)) s =
    Inr ((), s\<lparr>db_commands := [row]\<rparr>)"
proof -
  let ?r = "ContentResult (drawn account_example_env aggregateDraw)"
  let ?k = "account_completion_of content_call (drawn account_example_env commandDraw) ''content_item''
      (drawn account_example_env aggregateDraw) ?r"
  have "jsonable (b1_result_value ?r)" by (simp add: max_safe_integer_def)
  then have "response_column (ki_safeResponse ?k) \<noteq> None"
    by (simp add: response_column_def account_completion_of_def json_column_def jsonable_def)
  then obtain v where v: "response_column (ki_safeResponse ?k) = Some v" by blast
  have "completes ?k (reserved_row 0 None content_reservation)"
    by (simp add: completes_def account_completion_of_def reserved_row_def account_reservation_of_def Let_def example_actor_def)
  then have "complete 0 ?k [reserved_row 0 None content_reservation] =
      Inr (completed_of (completed_row 0 v ?k (reserved_row 0 None content_reservation)) 0,
        [completed_row 0 v ?k (reserved_row 0 None content_reservation)])"
    using v by (simp add: complete_def op_simps) (simp add: account_completion_of_def)
  then show thesis using assms by (intro that) (simp add: account_complete_def op_simps)
qed

lemma content_relays:
  assumes "db_grants s = db_grants example_accounts"
  shows "account_relay account_example_env example_context (example_id 9) s = Inr (example_id 0, s)"
  using assms
  by (simp add: account_relay_def op_simps relay_pairs_def account_example_world_def scoped_def example_actor_def)

lemma content_records:
  assumes "db_audit s = []" "db_outbox s = []" "db_grants s = db_grants example_accounts"
    "db_commands s = [reserved_row 0 None content_reservation]"
  obtains a e k where "account_record account_example_env content_call (drawn account_example_env commandDraw) content_made
      ''content_item'' (ContentResult (drawn account_example_env aggregateDraw)) s =
    Inr (ContentResult (drawn account_example_env aggregateDraw), s\<lparr>db_audit := [a], db_outbox := [e], db_commands := [k]\<rparr>)"
proof -
  obtain a where a: "audit_insert_event (account_audit_of account_example_env content_call
      (drawn account_example_env commandDraw) content_made) [] = Inr ((), [a])" by (rule content_audits)
  obtain e where e: "account_outbox 0 \<lparr>oi_envelope = envelope_value content_envelope,
      oi_relayServicePrincipalId = example_id 0, oi_policyVersionId = js ''v1''\<rparr> (s\<lparr>db_audit := [a]\<rparr>) =
      Inr ((), s\<lparr>db_audit := [a], db_outbox := [e]\<rparr>)"
    using content_announces[of "s\<lparr>db_audit := [a]\<rparr>"] assms(2) by auto
  obtain k where k: "account_complete account_example_env content_call (drawn account_example_env commandDraw) ''content_item''
      (drawn account_example_env aggregateDraw) (ContentResult (drawn account_example_env aggregateDraw))
      (s\<lparr>db_audit := [a], db_outbox := [e]\<rparr>) = Inr ((), s\<lparr>db_audit := [a], db_outbox := [e], db_commands := [k]\<rparr>)"
    using content_completes[of "s\<lparr>db_audit := [a], db_outbox := [e]\<rparr>"] assms(4) by auto
  have policy: "sx_policyVersion example_context = js ''v1''" by (simp add: example_actor_def)
  have resource: "ce_resourceId content_made = drawn account_example_env aggregateDraw"
    by (simp add: content_change_def changed_def)
  show thesis
    by (intro that[of k e a])
      (simp add: account_record_def op_simps content_relays[OF assms(3)] account_audit_def assms(1) a
        content_envelope_of e k policy resource)
qed

lemma content_creates:
  obtains c v where "createContent (ae_refuses account_example_env) (content_input_of account_example_env content_call
      example_content (example_id 6) Workspace) (content_state\<lparr>db_commands := rows\<rparr>) =
    Inr ((), content_state\<lparr>db_commands := rows, db_contents := [c], db_revisions := [v]\<rparr>)"
proof -
  have keys: "account_keys example_accounts" using example_accounts_ok by (simp add: account_bus_ok_def account_ok_def)
  let ?x = "content_input_of account_example_env content_call example_content (example_id 6) Workspace"
  show thesis
    by (rule that[of "revision_row_of (first_revision ?x)" "content_row_of ?x"])
      (use keys in \<open>simp add: createContent_def insertContentRevision_def op_simps account_keys_def\<close>)
qed

lemma content_run:
  obtains t where "account_execute account_example_env earlier content_request example_actor example_accounts =
      (t, Inr (ContentResult (drawn account_example_env aggregateDraw)))" "length (db_contents t) = 1"
proof -
  let ?r = "ContentResult (drawn account_example_env aggregateDraw)"
  let ?s1 = "content_state\<lparr>db_commands := [reserved_row 0 None content_reservation]\<rparr>"
  obtain c v where made: "createContent (ae_refuses account_example_env) (content_input_of account_example_env content_call
      example_content (example_id 6) Workspace) ?s1 = Inr ((), ?s1\<lparr>db_contents := [c], db_revisions := [v]\<rparr>)"
    using content_creates by metis
  let ?s2 = "?s1\<lparr>db_contents := [c], db_revisions := [v]\<rparr>"
  have rows: "db_audit ?s2 = []" "db_outbox ?s2 = []" "db_grants ?s2 = db_grants example_accounts"
    "db_commands ?s2 = [reserved_row 0 None content_reservation]"
    by simp_all
  obtain a e k where records: "account_record account_example_env content_call (drawn account_example_env commandDraw) content_made
      ''content_item'' ?r ?s2 = Inr (?r, ?s2\<lparr>db_audit := [a], db_outbox := [e], db_commands := [k]\<rparr>)"
    by (rule content_records[OF rows])
  let ?s3 = "?s2\<lparr>db_audit := [a], db_outbox := [e], db_commands := [k]\<rparr>"
  let ?t = "?s3\<lparr>db_space_setting := None, db_child_scope_active := False, db_child := None\<rparr>"
  have reserves: "account_reserve account_example_env content_call content_state = Inr (NewCommand (drawn account_example_env commandDraw), ?s1)"
    by (subst content_reserves) simp_all
  have work: "reserved_work account_example_env content_call (content_work account_example_env content_call
      (content_input_of account_example_env content_call example_content (example_id 6) Workspace)) content_state = Inr (?r, ?s3)"
    unfolding reserved_work_def content_work_def op_bind_Inr
    by (intro exI conjI, rule reserves, simp only: account_reservation.case op_bind_Inr, intro exI conjI, rule made, rule records)
  have space: "call_space content_call (example_id 9) content_state =
      Inr (\<lparr>gs_id = example_id 9, gs_parentSpaceId = None, gs_accessClass = Workspace, gs_kind = OrganizationSpace\<rparr>, content_state)"
    by (simp add: call_space_def getSpace_def op_simps example_accounts_def scoped_def example_actor_def)
  have people: "call_people account_example_env content_call [example_id 6] content_state = Inr ([example_id 6], content_state)"
    by (simp add: call_people_def op_simps getSafePeople_def account_example_world_def scoped_def example_actor_def Let_def)
  have allowed: "permit account_example_env content_call ContentCreate RefSpace (example_id 9) content_state =
      Inr (allow (js ''v1'') (js ''b1_create'') None None, content_state)"
    by (simp add: permit_def account_authorize_def account_decision_def op_simps allow_def)
  have command: "content_create account_example_env content_call example_content content_state = Inr (?r, ?s3)"
    using space people allowed work
    by (simp add: content_create_def op_simps same_space_def Let_def owner_or_actor_def example_content_def)
  have setting: "example_accounts\<lparr>db_space_setting := space_setting example_context, db_child_scope_active := False,
      db_child := None\<rparr> = content_state"
    by (simp add: space_setting_def not_empty_def keep_if_def example_id_def example_accounts_def)
  have body: "run (account_body account_example_env example_context (js ''k'') (ContentCreation example_content) (example_id 9))
      example_accounts = (?t, Inr ?r)"
    unfolding run_Inr_iff account_body_def in_transaction_def op_bind_Inr op_modify_Inr op_return_Inr op_lift_Inr setting
    by (simp add: account_role_def content_calls command)
  have transaction: "withTenantTransaction (\<lambda>_. True) B1ThrownError (quiet 0) example_context
      (run (account_body account_example_env example_context (js ''k'') (ContentCreation example_content) (example_id 9)))
      example_accounts = (?t, Inr ?r)"
    by (rule withTenantTransaction_cleared) (simp_all add: example_enters(1) body)
  have "account_execute account_example_env earlier content_request example_actor example_accounts = (?t, Inr ?r)"
    using content_parses content_space transaction by (simp add: account_execute_def Let_def)
  then show thesis by (rule that) simp
qed

section \<open>The promises at this call\<close>

abbreviation "content_answer \<equiv> ContentResult (drawn account_example_env aggregateDraw)"

lemma content_changes:
  obtains t where "account_execute account_example_env earlier content_request example_actor example_accounts =
      (t, Inr content_answer)" "t \<noteq> example_accounts" "length (db_contents t) = 1"
proof -
  obtain t where "account_execute account_example_env earlier content_request example_actor example_accounts =
      (t, Inr content_answer)" "length (db_contents t) = 1" by (rule content_run)
  then show thesis by (intro that[of t]) auto
qed

lemma example_env_ok:
  "account_bus_ok (ae_nfc account_example_env) (ae_sha256 account_example_env) example_accounts"
  using example_accounts_ok by simp

lemma content_bus_step:
  obtains t where "(account_bus_step (\<lambda>s. s) (\<lambda>_. replicate 64 97))\<^sup>*\<^sup>* example_accounts t" "length (db_contents t) = 1"
proof -
  obtain t where run: "account_execute account_example_env (example_accounts) content_request example_actor example_accounts =
      (t, Inr content_answer)" "length (db_contents t) = 1" by (rule content_run)
  have "account_bus_step (\<lambda>s. s) (\<lambda>_. replicate 64 97) example_accounts t"
    by (rule account_bus_step.intros[OF run(1) account_example_guards]) simp_all
  then show thesis using run(2) by (intro that) auto
qed

lemma account_commands_refine_witness:
  "\<exists>t. account_step (\<lambda>s. s) (\<lambda>_. replicate 64 97) example_accounts t \<and> length (db_contents t) = 1"
proof -
  obtain t where run: "account_execute account_example_env example_accounts content_request example_actor example_accounts =
      (t, Inr content_answer)" "t \<noteq> example_accounts" "length (db_contents t) = 1" by (rule content_changes)
  show ?thesis using account_commands_refine[OF example_env_ok account_example_guards run(1)] run(2,3) by auto
qed

lemma account_invariant_witness:
  "\<exists>t. length (db_contents t) = 1 \<and> account_keys t \<and> revisions_numbered t"
proof -
  obtain t where run: "(account_bus_step (\<lambda>s. s) (\<lambda>_. replicate 64 97))\<^sup>*\<^sup>* example_accounts t" "length (db_contents t) = 1"
    by (rule content_bus_step)
  show ?thesis using account_invariant[OF example_accounts_ok run(1)] run(2) by blast
qed

lemma account_history_is_kept_witness:
  "\<exists>t. length (db_contents t) = 1 \<and> account_grows example_accounts t \<and>
     account_records_grow example_accounts t"
proof -
  obtain t where run: "(account_bus_step (\<lambda>s. s) (\<lambda>_. replicate 64 97))\<^sup>*\<^sup>* example_accounts t" "length (db_contents t) = 1"
    by (rule content_bus_step)
  show ?thesis using account_history_is_kept[OF example_accounts_ok run(1)] run(2) by blast
qed

lemma account_change_is_recorded_witness:
  "\<exists>c result t. account_receipt (account_reservation_of account_example_env c) result example_accounts t"
proof -
  obtain t where run: "account_execute account_example_env example_accounts content_request example_actor example_accounts =
      (t, Inr content_answer)" "t \<noteq> example_accounts" by (rule content_changes)
  show ?thesis using account_change_is_recorded[OF example_env_ok account_example_guards run] by blast
qed


lemma account_command_acts_once_witness:
  "\<exists>t. account_execute account_example_env example_accounts content_request example_actor example_accounts =
      (t, Inr content_answer) \<and> t \<noteq> example_accounts \<and>
     fst (account_execute account_example_env t content_request example_actor t) = t"
proof -
  obtain t where run: "account_execute account_example_env example_accounts content_request example_actor example_accounts =
      (t, Inr content_answer)" "t \<noteq> example_accounts" by (rule content_changes)
  obtain u r where again: "account_execute account_example_env t content_request example_actor t = (u, r)" by fastforce
  have space: "spaceId' = spaceId"
    if "parseB1Command (ae_uuid account_example_env) (ae_datetime account_example_env) content_request = Some command"
      "account_space_of account_example_env example_accounts example_actor (canonicalizeB1Payload (bc1_payload command)) = Inr spaceId"
      "account_space_of account_example_env t example_actor (canonicalizeB1Payload (bc1_payload command)) = Inr spaceId'"
    for command spaceId spaceId'
    using that by (auto simp: content_parses content_space)
  have "u = t"
    by (rule conjunct1[OF account_command_acts_once[OF example_env_ok account_example_guards run again
          account_example_guards refl refl refl refl]], rule space)
  then show ?thesis using run again by auto
qed

lemma current_source_is_found_witness:
  "resolveCurrentSourceId (example_id 7) (example_id 8) (example_id 2) example_accounts = Some (Inr (example_id 3))"
proof -
  have sources: "db_sources example_accounts = [example_artifact 2 None, example_artifact 3 (Some 2)]"
    by (simp add: example_accounts_def)
  have "sources_named (example_id 7) (example_id 8) (example_id 2) example_accounts \<noteq> []"
    by (simp add: sources_named_def sources) (simp add: example_artifact_def scoped_def)
  moreover have "successors (example_id 7) (example_id 8) example_accounts (example_id 2) \<noteq> []"
    by (simp add: successors_def sources) (simp add: example_artifact_def scoped_def)
  moreover have "j = example_id 3" if "j \<in> ct_id ` set (db_sources example_accounts)" "j \<noteq> example_id 2" for j
    using that unfolding sources by (auto simp: example_artifact_def)
  moreover obtain r where "resolveCurrentSourceId (example_id 7) (example_id 8) (example_id 2) example_accounts = Some r"
    "case r of Inl e \<Rightarrow> e = ContentInvariantError SourceUnavailable \<and>
        sources_named (example_id 7) (example_id 8) (example_id 2) example_accounts = []
      | Inr j \<Rightarrow> current_of (example_id 7) (example_id 8) example_accounts (example_id 2) j"
    using current_source_is_found[OF example_accounts_ok rtranclp.rtrancl_refl] by blast
  ultimately show ?thesis by (cases r) (simp_all add: current_of_def, metis)
qed

abbreviation "account_directory \<equiv> example_directory\<lparr>dr_grants := [], dr_spaces := [\<lparr>asp_id = example_id 9,
  asp_tenant_id = example_id 7, asp_workspace_id = example_id 8, asp_parent_space_id = None, asp_kind = OrganizationSpace,
  asp_access_class = Workspace, asp_inheritance_mode = Inherit, asp_archived = False\<rparr>]\<rparr>"

lemma account_directory_ok: "directory_ok account_directory"
  by (simp add: directory_ok_def example_directory_def)

lemma account_decisions_end_witness:
  "canInTransaction (example_auth\<lparr>av_history := (\<lambda>_. Inr account_directory)\<rparr>) example_actor SpaceRead
     (ref_to RefSpace (example_id 9)) no_options new_session \<noteq> Inl NeverReturns"
  by (rule conjunct1[OF account_decisions_end[OF example_accounts_ok]])
     (auto simp: account_directory_ok example_accounts_def intro!: exI[of _ example_accounts])

abbreviation "foreign_env \<equiv> account_example_env\<lparr>ae_role := js ''owner''\<rparr>"

lemma foreign_role:
  "account_execute foreign_env s content_request example_actor s = (s, Inl B1AuthorizationError)"
proof -
  have "withTenantTransaction (\<lambda>_. True) B1ThrownError (quiet 0) example_actor
      (run (in_transaction example_actor (op_bind (op_lift (account_role foreign_env))
        (\<lambda>_. account_reservation_space foreign_env example_actor (ContentCreation example_content))))) s =
      (s, Inl B1AuthorizationError)"
    by (rule withTenantTransaction_fails[OF _ _ example_enters(2), of _ s])
      (simp_all add: run_def in_transaction_def account_role_def op_bind_def op_modify_def op_lift_def APP_ROLE_def js_def)
  then have "account_space_of foreign_env s example_actor (ContentCreation example_content) = Inl B1AuthorizationError"
    by (simp add: account_space_of_def)
  then show ?thesis using content_parses by (simp add: account_execute_def)
qed

lemma account_error_changes_nothing_witness:
  "\<exists>t. account_execute foreign_env example_accounts content_request example_actor example_accounts =
     (t, Inl B1AuthorizationError) \<and> t = example_accounts"
proof -
  obtain t where run: "account_execute foreign_env example_accounts content_request example_actor example_accounts =
      (t, Inl B1AuthorizationError)" using foreign_role by blast
  show ?thesis using account_error_changes_nothing[OF run] run by simp
qed
end
