(* ===== verification/Spec2Isabelle.thy ===== *)
theory Spec2Isabelle
  imports B2_Identity B2_Results Event_Envelope Span_Promises Accepted_Fact Source_Text Product_Relay
    Command_Idempotency Uuid_V7 Truth_Examples Account_Examples
begin

text \<open>
  Throughline keeps a shared record of what an organisation knows: sources are captured, claims quote
  them, people accept claims as facts, and every change is a command that is authorised, executed once,
  audited and announced. This development models the parts of the program that carry these promises and
  proves them. Each theory opens with the code it models; paths are under \<open>src/\<close>.

  \<^bold>\<open>The parts and their theories\<close>

  \<^item> Ground. \<open>Prelude\<close> (options, results, list facts and the collections of hints), \<open>Js_Strings\<close>,
    \<open>Js_Values\<close>, \<open>Utf8\<close> and \<open>Patterns\<close> are the parts of JavaScript that the code uses:
    strings as UTF-16 code units, values with their members in order, UTF-8, the patterns of
    the validators.
  \<^item> Contracts. \<open>Trust_Primitives\<close>, \<open>Canonical_Json\<close>, \<open>Domain_Notification\<close> and \<open>Event_Envelope\<close>
    (\<open>packages/core-types\<close>); \<open>Validation\<close>, \<open>Reasons\<close>, \<open>Command_Payloads\<close>,
    \<open>Command_Schemas\<close>, \<open>B2_Commands\<close>, \<open>B2_Results\<close>, \<open>B2_Identity\<close>, \<open>Predicate_Registry\<close>
    and \<open>Confidence\<close> (\<open>packages/truth-ledger\<close>). Every parser is an instance of the locale
    \<open>canonical_form\<close>: what it returns, written back as a value, is accepted again with the same result.
  \<^item> Evidence. \<open>Source_Text\<close> (\<open>packages/content/src/source-text.ts\<close>: normal form and chunks),
    \<open>Source_Span\<close> and \<open>Span_Promises\<close> (\<open>source-span.ts\<close>: the admission of a quotation), \<open>Accepted_Fact\<close>
    (\<open>types.ts\<close>: from claims to a fact).
  \<^item> Database. \<open>Transactions\<close> (\<open>withTenantTransaction\<close> and security contexts), \<open>Database_Ops\<close> (operations
    of repositories, columns, texts of instants), \<open>Audit_Detail\<close>, \<open>Command_Records\<close> and
    \<open>Command_Idempotency\<close> (\<open>product-domain-repositories.ts\<close>), \<open>Uuid_V7\<close>.
  \<^item> Outbox. \<open>Outbox_Rows\<close> (the table with the constraints and the trigger of its migration),
    \<open>Product_Outbox\<close> (\<open>product-outbox-repository.ts\<close>), \<open>Outbox_System\<close> (any number of relays and writers as
    a step relation), \<open>Outbox_Safety\<close>, \<open>Outbox_Publication\<close>, \<open>Product_Relay\<close>
    (\<open>apps/outbox-relay\<close>).
  \<^item> Truth ledger. \<open>Ledger_Rows\<close> (the tables), \<open>Truth_Claims\<close> and
    \<open>Truth_Facts\<close> (\<open>repository.ts\<close>), \<open>Truth_Commands\<close> and \<open>Truth_Fact_Commands\<close>
    (\<open>domain-command-bus.ts\<close>: the six durable commands from the received object to the result).
    \<open>Ledger_Spec\<close> is the abstract specification with its invariant, \<open>Ledger_Invariant\<close>, \<open>Truth_Effects\<close>,
    \<open>Truth_Refinement\<close> and \<open>Fact_Refinement\<close> show that the code refines it, and
    \<open>Truth_Promises\<close> states what follows.
  \<^item> Authorisation. \<open>Access_Tables\<close>, \<open>Space_Access\<close>, \<open>Authorization\<close>, \<open>Decisions\<close> and
    \<open>Authorization_Service\<close> (\<open>packages/authorization\<close>, the whole service). \<open>Access_Spec\<close> says who may read a
    space, \<open>Authority_Promises\<close> who may change the ledger, without statements and locks;
    \<open>Locking_Queries\<close>, \<open>Space_Promises\<close> and \<open>Principal_Promises\<close> show what a positive decision with locks
    keeps true, \<open>Quiet_Decisions\<close> what the decisions answer on a database that does not change, and
    \<open>Service_Returns\<close> that every decision ends.
    \<open>Truth_Promises\<close> also puts the service and the command bus together.
  \<^item> Account operations. \<open>Work_Graph\<close> (\<open>work-graph.ts\<close>: names, domains, governing parents and spaces),
    \<open>Account_Schemas\<close> (\<open>command-schemas.ts\<close>, \<open>b1.ts\<close>: the ten commands and their results), \<open>Work_Rows\<close> (the
    tables of work and content), \<open>Child_Space\<close> (\<open>transaction.ts\<close>: \<open>withCreatedChildSpaceScope\<close> and the
    capability of its callback), \<open>Work_Repository\<close> (\<open>packages/work-graph/src/repository.ts\<close>),
    \<open>Content_Repository\<close> (\<open>packages/content/src/repository.ts\<close>), \<open>Account_Commands\<close> and
    \<open>Account_Command_Bus\<close> (\<open>packages/account-operations/src/domain-command-bus.ts\<close>: reservation, authority,
    the ten commands, the two transactions of a call). \<open>Account_Spec\<close> is the abstract specification,
    \<open>Account_Invariant\<close> shows that its steps keep the invariant and that the chain of corrections ends, \<open>Account_Effects\<close>,
    \<open>Account_Changes\<close>, \<open>Account_Refinement\<close> and \<open>Account_Children\<close> that each command is such a step or changes
    nothing, \<open>Account_Permissions\<close> which decisions each command rests on; \<open>Account_Promises\<close> states what
    follows for any sequence of calls.
  \<^item> Witnesses. \<open>Outbox_Examples\<close>, \<open>Truth_Examples\<close>, \<open>Authority_Examples\<close> and \<open>Account_Examples\<close> are concrete
    data and runs that satisfy the hypotheses of the properties.

  \<^bold>\<open>How the code is modelled\<close>

  A function that throws one kind of error returns an option, one whose callers tell errors apart a sum.
  An operation on the database is a function from its content to an error or a result with the changed
  content (\<open>op\<close>); a transaction commits the content or rolls it back, and its environment says which of
  its statements fail, before or after the commit. Tables are lists of records with the columns that the
  code reads and writes; an instant is a number of microseconds. The relays and writers of the outbox are
  steps of one system that interleave freely, a transaction being one step. The decisions of the
  authorisation service read a history with a new snapshot for every statement, so other transactions
  may commit between any two of them, and a lock is what keeps a row in the later snapshots. Two
  transactions of the truth ledger or of the account operations are not interleaved, except that a call of
  the account operations finds its space in an earlier transaction, on any older state. What the server
  refuses (constraints, triggers, row security) is a function of the tables before and after a statement;
  the properties need of it only that it lets no key be used twice.

  NFC, SHA-256, the format of uuids in \<open>zod\<close>, clocks, random bytes, the collation of \<open>localeCompare\<close> and
  the answers of the network are parameters. Where a property needs something of them it is a hypothesis
  (that a canonical text is a fixed point of NFC, that a hash text has the form of one).

  \<^bold>\<open>What the lemmas show\<close>

  Round trips and exact acceptance of the parsers; that quoted evidence is a slice of its source, lies in the
  scope it was looked up for and never lowers its protection; that a fact stands on claims that agree with it
  in scope, subject, value and period; the invariant of the ledger (one current fact and one open objective at a
  coordinate, support that agrees), kept by every sequence of commands as a refinement; that a change
  needs a person with the authority, asked under the context of the call, is recorded once and acts once; that
  an event of the outbox is written once under its semantic key, is never lost, is claimed at most six times and
  leaves the relay only under a live claim, and that each operation on the outbox does what the trigger permits
  at its own clock; that a decision with locks stays true, is exactly the policy on a quiet database, and returns when the spaces
  form a forest. Of the account operations: the invariant of their tables (the spaces a forest, revisions
  without gaps, every live source with exactly the chunks of its normal form, every correction after what
  it corrects), that history is kept (only the chunks of a source are ever removed, when it becomes a
  tombstone), that a call is authorised for its action and for reading everything it names, recorded once and
  acts once, that an error leaves no trace unless the commit itself was in doubt, and that the decisions of the
  service over the spaces the calls leave always end.

  \<^bold>\<open>Bounds and termination\<close>

  The chunker recurses on the remaining text and every chunk takes at least one scalar. The recursive
  query of the ancestors runs with as much fuel as there are spaces; a forest has no longer path, and on
  a cycle, where the statement of the code does not end, the model is \<open>NeverReturns\<close>. The search for the
  current version of a source is a partial function with no fuel; it returns because the invariant orders
  the corrections. All other functions recurse on their data.

  \<^bold>\<open>Not modelled\<close>

  The migrations are modelled where they state rules that the code relies on (the checks and triggers of
  the outbox, command, claim and fact tables); of the outbox table its foreign keys and the function that
  checks a payload again are left to the server, as are row security, grants and the exact catalogue comparisons
  (\<open>b1-catalog-contract.ts\<close>, \<open>b2-catalog-contract.ts\<close>, \<open>b2-exact-catalog.ts\<close>). The web application, the
  HTTP controllers, the observability package and the scripts are input and output. The worker and relay transactions of the foundation proof, the signed context references and
  the development identities are not modelled. Row security refuses rows in the model but does not hide
  them from the queries of the account operations.
\<close>

end
